(* ===== verification/Uapi_Prelude.thy ===== *)
theory Uapi_Prelude
  imports Main "HOL-Library.Word" "HOL-Library.Monad_Syntax"
begin

text \<open>
  Shared vocabulary of the development: the fixed-width integers of
  \<^verbatim>\<open>include/asm-generic/int-ll64.h\<close>, C's integer promotions and the truncating
  assignments back to narrower types, arrays whose accesses are checked, and the
  lemmas on bit fields that the component theories share.

  Two collections carry the component proofs: \<open>c_conv\<close> pushes a truncation
  through the operators of a promoted expression, and \<open>mem_simps\<close> evaluates
  checked array accesses at indices that are in range.
\<close>

unbundle bit_operations_syntax

type_synonym u8 = "8 word"
type_synonym u16 = "16 word"
type_synonym u32 = "32 word"
type_synonym u64 = "64 word"

text \<open>
  The width of C's \<^verbatim>\<open>int\<close>. A value of type \<^verbatim>\<open>__u8\<close> or \<^verbatim>\<open>__u16\<close> is promoted to
  \<^verbatim>\<open>int\<close> before an operator applies. The same 32-bit word stands for a signed or an
  unsigned value: the operators used here agree on both, as promoted values are
  never negative.
\<close>
type_synonym c_int = "32 word"

named_theorems c_conv \<open>truncation of promoted expressions\<close>
named_theorems mem_simps \<open>evaluation of checked array accesses\<close>

section \<open>Integer promotion and truncation\<close>

definition promote :: "u8 \<Rightarrow> c_int" where
  "promote b = ucast b"

definition promote16 :: "u16 \<Rightarrow> c_int" where
  "promote16 h = ucast h"

definition u8_of :: "c_int \<Rightarrow> u8" where
  "u8_of i = ucast i"

definition u16_of :: "c_int \<Rightarrow> u16" where
  "u16_of i = ucast i"

lemma u8_of_promote [c_conv]: "u8_of (promote b) = b"
  by (rule bit_word_eqI) (simp add: u8_of_def promote_def bit_simps)

lemma u8_of_or [c_conv]: "u8_of (a OR b) = u8_of a OR u8_of b"
  by (rule bit_word_eqI) (simp add: u8_of_def bit_simps)

lemma u8_of_and [c_conv]: "u8_of (a AND b) = u8_of a AND u8_of b"
  by (rule bit_word_eqI) (simp add: u8_of_def bit_simps)

lemma u8_of_shl [c_conv]: "u8_of (push_bit n a) = push_bit n (u8_of a)"
  by (rule bit_word_eqI) (auto simp add: u8_of_def bit_simps)

lemma u8_of_shr [c_conv]: "u8_of (drop_bit n (promote b)) = drop_bit n b"
  by (rule bit_word_eqI)
    (auto simp add: u8_of_def promote_def bit_simps dest: bit_imp_le_length)

lemma u8_of_numeral [c_conv]: "u8_of (numeral n) = numeral n"
  unfolding u8_of_def by (rule ucast_down_no) (simp add: is_down)

lemma u8_of_0 [c_conv]: "u8_of 0 = 0"
  by (simp add: u8_of_def)

lemma u8_of_1 [c_conv]: "u8_of 1 = 1"
  by (simp add: u8_of_def)

lemma promote_eq_0_iff [c_conv]: "promote b = 0 \<longleftrightarrow> b = 0"
proof
  assume "promote b = 0"
  then have "u8_of (promote b) = u8_of 0" by simp
  then show "b = 0" by (simp only: u8_of_promote u8_of_0)
qed (simp add: promote_def)

lemma promote_and [c_conv]: "promote a AND promote b = promote (a AND b)"
  by (rule bit_word_eqI) (auto simp add: promote_def bit_simps)

lemma unat_promote: "unat (promote b) = unat b"
proof -
  have "unat b < 2 ^ 32" using unsigned_less [of b, where ?'a = nat] by simp
  then show ?thesis by (simp add: promote_def unsigned_ucast_eq take_bit_nat_eq_self)
qed

lemma unat_promote16: "unat (promote16 h) = unat h"
proof -
  have "unat h < 2 ^ 32" using unsigned_less [of h, where ?'a = nat] by simp
  then show ?thesis by (simp add: promote16_def unsigned_ucast_eq take_bit_nat_eq_self)
qed

section \<open>Bit fields\<close>

text \<open>\<open>fits n b\<close>: the value \<open>b\<close> has no bit at position \<open>n\<close> or above, that is, \<open>b < 2\<^sup>n\<close>.\<close>

definition fits :: "nat \<Rightarrow> 'a::len word \<Rightarrow> bool" where
  "fits n b \<longleftrightarrow> drop_bit n b = 0"

lemma fits_bits: "fits n b \<longleftrightarrow> (\<forall>k\<ge>n. \<not> bit b k)"
proof
  assume "fits n b"
  then have *: "\<not> bit (drop_bit n b) j" for j by (simp add: fits_def)
  show "\<forall>k\<ge>n. \<not> bit b k"
  proof (intro allI impI)
    fix k assume "n \<le> k"
    then show "\<not> bit b k" using * [of "k - n"] by (simp add: bit_drop_bit_eq)
  qed
next
  assume "\<forall>k\<ge>n. \<not> bit b k"
  then show "fits n b" unfolding fits_def by (intro bit_word_eqI) (simp add: bit_drop_bit_eq)
qed

lemma fits_bitD: "fits n b \<Longrightarrow> bit b k \<Longrightarrow> k < n"
  by (auto simp add: fits_bits not_le [symmetric])

lemma fits_mono: "fits n b \<Longrightarrow> n \<le> k \<Longrightarrow> fits k b"
  by (auto simp add: fits_bits)

lemma fits_iff_less:
  assumes "n < LENGTH('a)"
  shows "fits n (b :: 'a::len word) \<longleftrightarrow> b < 2 ^ n"
proof -
  have "b < 2 ^ n \<longleftrightarrow> take_bit n b = b"
    using mask_eq_iff_w2p [of n b] assms by (simp add: word_size take_bit_eq_mask)
  also have "\<dots> \<longleftrightarrow> (\<forall>k\<ge>n. \<not> bit b k)"
    by (auto simp add: bit_eq_iff bit_simps not_le dest: bit_imp_le_length)
  finally show ?thesis by (simp add: fits_bits)
qed

lemma fits_take_bit: "fits n b \<Longrightarrow> take_bit n b = b"
  by (rule bit_word_eqI) (auto simp add: fits_bits bit_simps not_le)

lemma take_bit_low_field:
  "fits n b \<Longrightarrow> take_bit n (push_bit n a OR b) = (b :: 'a::len word)"
  by (rule bit_word_eqI) (auto simp add: fits_bits bit_simps not_le)

lemma drop_bit_high_field:
  "fits n b \<Longrightarrow> fits (LENGTH('a) - n) a \<Longrightarrow> drop_bit n (push_bit n a OR b) = (a :: 'a::len word)"
  by (rule bit_word_eqI)
    (auto simp add: fits_bits bit_simps not_le, metis add.commute less_diff_conv not_le)

text \<open>
  Rewriting of a packed byte once the operators are distributed: a field that fits is kept or
  dropped as a whole.
\<close>

lemma take_push_same [simp]: "take_bit n (push_bit n a) = (0 :: 'a::len word)"
  by (rule bit_word_eqI) (auto simp add: bit_simps)

lemma drop_push_fits:
  "fits (LENGTH('a) - n) a \<Longrightarrow> drop_bit n (push_bit n a) = (a :: 'a::len word)"
  using drop_bit_high_field [of n 0 a] by (simp add: fits_def)

lemma fits_drop: "fits n b \<Longrightarrow> drop_bit n b = 0"
  by (simp add: fits_def)

lemmas field_dist = fits_take_bit drop_push_fits fits_drop

lemma and_0xff: "x AND 0xff = take_bit 8 (x :: 'a::len word)"
  by (simp add: take_bit_eq_mask mask_numeral)

lemma masks8 [c_conv]:
  fixes x :: u8
  shows "x AND 1 = take_bit 1 x" and "x AND 3 = take_bit 2 x"
    and "x AND 0xf = take_bit 4 x" and "x AND 0x3f = take_bit 6 x"
    and "x AND 0x7f = take_bit 7 x"
  by (simp_all add: take_bit_eq_mask mask_numeral)

section \<open>Big-endian 16-bit fields\<close>

text \<open>
  The idioms \<^verbatim>\<open>x >> 8\<close>, \<^verbatim>\<open>x & 0xff\<close> and \<^verbatim>\<open>(b0 << 8) | b1\<close> on \<^verbatim>\<open>__u16\<close> and \<^verbatim>\<open>__u8\<close>
  operands, with the promotion to \<^verbatim>\<open>int\<close> and the truncation to the target written out.
\<close>

definition hi8 :: "u16 \<Rightarrow> u8" where
  "hi8 h = u8_of (drop_bit 8 (promote16 h))"

definition lo8 :: "u16 \<Rightarrow> u8" where
  "lo8 h = u8_of (promote16 h AND 0xff)"

definition be16 :: "u8 \<Rightarrow> u8 \<Rightarrow> u16" where
  "be16 b0 b1 = u16_of (push_bit 8 (promote b0) OR promote b1)"

lemma bit_hi8: "bit (hi8 h) n \<longleftrightarrow> bit h (n + 8)"
  by (auto simp add: hi8_def u8_of_def promote16_def bit_simps ac_simps dest: bit_imp_le_length)

lemma bit_lo8: "bit (lo8 h) n \<longleftrightarrow> n < 8 \<and> bit h n"
  by (auto simp add: lo8_def u8_of_def promote16_def and_0xff bit_simps dest: bit_imp_le_length)

lemma bit_be16: "bit (be16 a b) n \<longleftrightarrow> (8 \<le> n \<and> bit a (n - 8)) \<or> bit b n"
  by (auto simp add: be16_def u16_of_def promote_def bit_simps dest: bit_imp_le_length)

lemma be16_hi_lo [simp]: "be16 (hi8 h) (lo8 h) = h"
  by (rule bit_word_eqI) (auto simp add: bit_be16 bit_hi8 bit_lo8)

lemma hi8_be16 [simp]: "hi8 (be16 a b) = a"
  by (rule bit_word_eqI) (auto simp add: bit_be16 bit_hi8 bit_lo8 dest: bit_imp_le_length)

lemma lo8_be16 [simp]: "lo8 (be16 a b) = b"
  by (rule bit_word_eqI) (auto simp add: bit_be16 bit_hi8 bit_lo8 dest: bit_imp_le_length)

section \<open>Big-endian 24-bit fields\<close>

text \<open>
  A 24-bit identifier in three bytes: \<^verbatim>\<open>x >> 16\<close>, \<^verbatim>\<open>(x >> 8) & 0xff\<close>, \<^verbatim>\<open>x & 0xff\<close> on a
  \<^verbatim>\<open>__u32\<close>, and \<^verbatim>\<open>(b0 << 16) | (b1 << 8) | b2\<close> back.
\<close>

definition be24 :: "u8 \<Rightarrow> u8 \<Rightarrow> u8 \<Rightarrow> u32" where
  "be24 b0 b1 b2 = push_bit 16 (promote b0) OR push_bit 8 (promote b1) OR promote b2"

lemma bit_be24: "bit (be24 a b c) n \<longleftrightarrow>
    (16 \<le> n \<and> bit a (n - 16)) \<or> (8 \<le> n \<and> bit b (n - 8)) \<or> bit c n"
  by (auto simp add: be24_def promote_def bit_simps dest: bit_imp_le_length)

lemma be24_bytes:
  assumes "fits 24 x"
  shows "be24 (u8_of (drop_bit 16 x)) (u8_of (drop_bit 8 x AND 0xff)) (u8_of (x AND 0xff)) = x"
    (is "?l = x")
proof (rule bit_word_eqI)
  fix n
  have high: "\<not> bit x n" if "24 \<le> n" using that assms by (simp add: fits_bits)
  consider "n < 8" | "8 \<le> n" "n < 16" | "16 \<le> n" "n < 24" | "24 \<le> n" by linarith
  then show "bit ?l n \<longleftrightarrow> bit x n"
    by cases (simp_all add: bit_be24 u8_of_def and_0xff bit_simps high less_diff_conv2)
qed

lemma fits_be24: "fits 24 (be24 a b c)"
  by (auto simp add: fits_bits bit_be24 dest: bit_imp_le_length)

section \<open>Binary-coded decimal\<close>

definition to_bcd :: "u8 \<Rightarrow> u8" where
  "to_bcd v = u8_of (push_bit 4 (promote v div 10) OR promote v mod 10)"

definition from_bcd :: "u8 \<Rightarrow> u8" where
  "from_bcd b = u8_of (drop_bit 4 (promote b) * 10 + (promote b AND 0xf))"

lemma or_eq_add_field:
  fixes x y :: "'a::len word"
  assumes "fits n y"
  shows "push_bit n x OR y = push_bit n x + y"
  using assms by (intro disjunctive_add [symmetric]) (auto simp add: fits_bits bit_simps)

lemma unat_to_bcd:
  "unat (to_bcd v) = (16 * (unat v div 10) + unat v mod 10) mod 256"
proof -
  have "promote v mod 10 < 2 ^ 4"
    by (simp add: word_less_nat_alt unat_mod_distrib)
  then have "fits 4 (promote v mod 10)" by (simp add: fits_iff_less)
  then have "to_bcd v = u8_of (push_bit 4 (promote v div 10) + promote v mod 10)"
    unfolding to_bcd_def by (simp only: or_eq_add_field)
  moreover have "unat v < 256" using unsigned_less [of v, where ?'a = nat] by simp
  ultimately show ?thesis
    by (simp add: u8_of_def unsigned_ucast_eq push_bit_eq_mult unat_word_ariths unat_div_distrib
        unat_mod_distrib unat_promote take_bit_eq_mod mult.commute)
qed

lemma unat_from_bcd: "unat (from_bcd b) = unat b div 16 * 10 + unat b mod 16"
proof -
  have *: "unat (promote b AND 0xf) = unat b mod 16"
  proof -
    have "promote b AND 0xf = take_bit 4 (promote b)"
      by (simp add: take_bit_eq_mask mask_numeral)
    then have "unat (promote b AND 0xf) = take_bit 4 (unat b)"
      by (simp only: unsigned_take_bit_eq unat_promote)
    then show ?thesis by (simp add: take_bit_eq_mod)
  qed
  have "unat b < 256" using unsigned_less [of b, where ?'a = nat] by simp
  then have "unat b div 16 < 16" by simp
  then have "unat b div 16 * 10 + unat b mod 16 < 2 ^ 8"
    using mod_less_divisor [of 16 "unat b"] by simp
  then show ?thesis
    by (simp add: from_bcd_def u8_of_def unsigned_ucast_eq unat_word_ariths * unat_drop_bit_eq
        drop_bit_eq_div unat_promote take_bit_nat_eq_self)
qed

text \<open>Packing a two-digit value and unpacking it gives it back up to 159, the largest value
  whose tens still fit a nibble.\<close>

lemma from_to_bcd:
  assumes "v < 160"
  shows "from_bcd (to_bcd v) = v"
proof -
  have v: "unat v < 160" using assms by (simp add: word_less_nat_alt)
  then have "unat v div 10 < 16" by simp
  then have "16 * (unat v div 10) + unat v mod 10 < 256"
    using mod_less_divisor [of 10 "unat v"] by linarith
  then have "unat (from_bcd (to_bcd v)) = unat v"
    using v by (simp add: unat_from_bcd unat_to_bcd)
  then show ?thesis by (simp only: word_unat_eq_iff)
qed

section \<open>Checked arrays\<close>

text \<open>
  An array (a struct member, or the memory behind a pointer argument) is a list. An access
  outside of it is undefined behaviour in C and \<open>None\<close> here, so a theorem that an
  operation returns \<open>Some\<close> also says that it stays inside its arrays.
\<close>

definition rd :: "'a list \<Rightarrow> nat \<Rightarrow> 'a option" where
  "rd xs i = (if i < length xs then Some (xs ! i) else None)"

definition wr :: "'a list \<Rightarrow> nat \<Rightarrow> 'a \<Rightarrow> 'a list option" where
  "wr xs i v = (if i < length xs then Some (xs[i := v]) else None)"

text \<open>\<^verbatim>\<open>memcpy(dst + off, src, n)\<close>, for a source and a destination that do not overlap.\<close>

definition rdn :: "'a list \<Rightarrow> nat \<Rightarrow> nat \<Rightarrow> 'a list option" where
  "rdn xs off n = (if off + n \<le> length xs then Some (take n (drop off xs)) else None)"

definition wrn :: "'a list \<Rightarrow> nat \<Rightarrow> 'a list \<Rightarrow> 'a list option" where
  "wrn xs off ys = (if off + length ys \<le> length xs
     then Some (take off xs @ ys @ drop (off + length ys) xs) else None)"

text \<open>A loop whose body may leave its arrays, over the values of the loop variable.\<close>

primrec c_for :: "('a \<Rightarrow> 's \<Rightarrow> 's option) \<Rightarrow> 'a list \<Rightarrow> 's \<Rightarrow> 's option" where
  "c_for f [] s = Some s"
| "c_for f (x # xs) s = do { s \<leftarrow> f x s; c_for f xs s }"

lemma c_for_cong:
  "(\<And>x s. x \<in> set xs \<Longrightarrow> f x s = g x s) \<Longrightarrow> c_for f xs s = c_for g xs s"
  by (induction xs arbitrary: s) (simp_all cong: Option.bind_cong)

lemma c_for_append: "c_for f (xs @ ys) s = do { s \<leftarrow> c_for f xs s; c_for f ys s }"
  by (induction xs arbitrary: s) simp_all

lemma rd_in [mem_simps]: "i < length xs \<Longrightarrow> rd xs i = Some (xs ! i)"
  by (simp add: rd_def)

lemma wr_in [mem_simps]: "i < length xs \<Longrightarrow> wr xs i v = Some (xs[i := v])"
  by (simp add: wr_def)

lemma rdn_in [mem_simps]: "off + n \<le> length xs \<Longrightarrow> rdn xs off n = Some (take n (drop off xs))"
  by (simp add: rdn_def)

lemma wrn_in [mem_simps]: "off + length ys \<le> length xs \<Longrightarrow>
    wrn xs off ys = Some (take off xs @ ys @ drop (off + length ys) xs)"
  by (simp add: wrn_def)

lemma length_wrn: "wrn xs off ys = Some zs \<Longrightarrow> length zs = length xs"
  by (auto simp add: wrn_def split: if_splits)

lemma nth_splice_before:
  "i < off \<Longrightarrow> off \<le> length xs \<Longrightarrow> (take off xs @ zs) ! i = xs ! i"
  by (simp add: nth_append)

lemma take_drop_splice:
  "off \<le> length xs \<Longrightarrow> n = length ys \<Longrightarrow> take n (drop off (take off xs @ ys @ zs)) = ys"
  by simp

section \<open>Struct and union memory\<close>

text \<open>
  A C union is the bytes it occupies; its members are read and written at their offsets, a
  16-bit member in the byte order of the host. Reading a member other than the one stored
  last is then what C makes of it: the bytes are interpreted again.
\<close>

datatype endian = Little | Big

definition ld16 :: "endian \<Rightarrow> u8 list \<Rightarrow> nat \<Rightarrow> u16 option" where
  "ld16 e bs off = do {
     a \<leftarrow> rd bs off;
     b \<leftarrow> rd bs (Suc off);
     Some (case e of Little \<Rightarrow> be16 b a | Big \<Rightarrow> be16 a b)
   }"

definition st16 :: "endian \<Rightarrow> u8 list \<Rightarrow> nat \<Rightarrow> u16 \<Rightarrow> u8 list option" where
  "st16 e bs off v = do {
     bs \<leftarrow> wr bs off (case e of Little \<Rightarrow> lo8 v | Big \<Rightarrow> hi8 v);
     wr bs (Suc off) (case e of Little \<Rightarrow> hi8 v | Big \<Rightarrow> lo8 v)
   }"

text \<open>The two bytes of a 16-bit member, first address first.\<close>

definition bytes16 :: "endian \<Rightarrow> u16 \<Rightarrow> u8 list" where
  "bytes16 e v = (case e of Little \<Rightarrow> [lo8 v, hi8 v] | Big \<Rightarrow> [hi8 v, lo8 v])"

lemma length_bytes16 [simp]: "length (bytes16 e v) = 2"
  by (simp add: bytes16_def split: endian.split)

lemma ld16_st16:
  "Suc off < length bs \<Longrightarrow> Option.bind (st16 e bs off v) (\<lambda>bs'. ld16 e bs' off) = Some v"
  by (simp add: ld16_def st16_def mem_simps split: endian.split)

section \<open>C strings\<close>

text \<open>
  \<^verbatim>\<open>strlen\<close> reads up to the first zero byte; a buffer without one is overrun (\<open>None\<close>).
  \<open>c_str s\<close> is the memory of the literal \<open>s\<close> with its terminator.
\<close>

fun c_strlen :: "u8 list \<Rightarrow> nat option" where
  "c_strlen [] = None"
| "c_strlen (c # cs) = (if c = 0 then Some 0 else map_option Suc (c_strlen cs))"

definition c_str :: "u8 list \<Rightarrow> u8 list" where
  "c_str s = s @ [0]"

lemma c_strlen_append: "0 \<notin> set s \<Longrightarrow> c_strlen (s @ 0 # zs) = Some (length s)"
  by (induction s) auto

lemma c_strlen_c_str: "0 \<notin> set s \<Longrightarrow> c_strlen (c_str s) = Some (length s)"
  by (simp add: c_str_def c_strlen_append)

lemma c_strlen_take:
  "c_strlen xs = Some n \<Longrightarrow> n < length xs \<and> 0 \<notin> set (take n xs) \<and> xs ! n = 0"
  by (induction xs arbitrary: n) (auto split: if_splits)

text \<open>The characters before the terminator, as a reader of the buffer sees them.\<close>

definition c_string :: "u8 list \<Rightarrow> u8 list option" where
  "c_string buf = map_option (\<lambda>n. take n buf) (c_strlen buf)"

lemma c_string_append: "0 \<notin> set s \<Longrightarrow> c_string (s @ 0 # zs) = Some s"
  by (simp add: c_string_def c_strlen_append)

lemma rdn_c_str: "n \<le> length s \<Longrightarrow> rdn (c_str s) 0 n = Some (take n s)"
  by (simp add: rdn_def c_str_def)

text \<open>\<^verbatim>\<open>memcpy(buf, s, n); buf[n] = '\\0';\<close>\<close>

lemma c_string_store:
  assumes "n = length s" "length s < length buf" "0 \<notin> set s"
  shows "c_string ((s @ drop n buf)[n := 0]) = Some s"
proof -
  obtain z zs where "drop (length s) buf = z # zs"
    using assms(2) by (cases "drop (length s) buf") auto
  with assms show ?thesis by (simp add: list_update_append c_string_append)
qed

section \<open>Clamped lengths\<close>

text \<open>The idiom \<^verbatim>\<open>if (len > lim) len = lim;\<close>\<close>

definition clamp :: "'a::len word \<Rightarrow> 'a word \<Rightarrow> 'a word" where
  "clamp lim len = (if len > lim then lim else len)"

lemma clamp_le: "clamp lim len \<le> lim"
  by (simp add: clamp_def not_less)

lemma unat_clamp: "unat (clamp lim len) = min (unat lim) (unat len)"
  by (simp add: clamp_def word_less_nat_alt)

lemma if_nonzero [simp]:
  "(if w \<noteq> 0 then w else 0) = w" "(if w = 0 then 0 else w) = (w :: 'a::len word)"
  by auto

lemma clamp_idem: "len \<le> lim \<Longrightarrow> clamp lim len = len"
  by (simp add: clamp_def leD)

lemma unat_u32_of_nat: "unat (word_of_nat n :: u32) = n mod 2 ^ 32"
  by (simp add: unsigned_of_nat take_bit_eq_mod)

end
