(* ===== verification/Cec_Codes.thy ===== *)
theory Cec_Codes
  imports Uapi_Prelude
begin

text \<open>
  The message opcodes of \<^verbatim>\<open>include/linux/cec.h\<close> and those operand values that the
  functions of \<^verbatim>\<open>cec.h\<close> and \<^verbatim>\<open>cec-funcs.h\<close> test or store. Each constant has the name
  and the value of its \<^verbatim>\<open>#define\<close>; the collection \<open>cec_code\<close> holds their equations.
\<close>

named_theorems cec_code \<open>values of opcodes and operands\<close>

section \<open>Message opcodes\<close>

definition CEC_MSG_ACTIVE_SOURCE :: u8 where [cec_code]: "CEC_MSG_ACTIVE_SOURCE = 0x82"
definition CEC_MSG_IMAGE_VIEW_ON :: u8 where [cec_code]: "CEC_MSG_IMAGE_VIEW_ON = 0x04"
definition CEC_MSG_TEXT_VIEW_ON :: u8 where [cec_code]: "CEC_MSG_TEXT_VIEW_ON = 0x0d"
definition CEC_MSG_INACTIVE_SOURCE :: u8 where [cec_code]: "CEC_MSG_INACTIVE_SOURCE = 0x9d"
definition CEC_MSG_REQUEST_ACTIVE_SOURCE :: u8 where [cec_code]: "CEC_MSG_REQUEST_ACTIVE_SOURCE = 0x85"
definition CEC_MSG_ROUTING_CHANGE :: u8 where [cec_code]: "CEC_MSG_ROUTING_CHANGE = 0x80"
definition CEC_MSG_ROUTING_INFORMATION :: u8 where [cec_code]: "CEC_MSG_ROUTING_INFORMATION = 0x81"
definition CEC_MSG_SET_STREAM_PATH :: u8 where [cec_code]: "CEC_MSG_SET_STREAM_PATH = 0x86"
definition CEC_MSG_STANDBY :: u8 where [cec_code]: "CEC_MSG_STANDBY = 0x36"
definition CEC_MSG_RECORD_OFF :: u8 where [cec_code]: "CEC_MSG_RECORD_OFF = 0x0b"
definition CEC_MSG_RECORD_ON :: u8 where [cec_code]: "CEC_MSG_RECORD_ON = 0x09"
definition CEC_MSG_RECORD_STATUS :: u8 where [cec_code]: "CEC_MSG_RECORD_STATUS = 0x0a"
definition CEC_MSG_RECORD_TV_SCREEN :: u8 where [cec_code]: "CEC_MSG_RECORD_TV_SCREEN = 0x0f"
definition CEC_MSG_CLEAR_ANALOGUE_TIMER :: u8 where [cec_code]: "CEC_MSG_CLEAR_ANALOGUE_TIMER = 0x33"
definition CEC_MSG_CLEAR_DIGITAL_TIMER :: u8 where [cec_code]: "CEC_MSG_CLEAR_DIGITAL_TIMER = 0x99"
definition CEC_MSG_CLEAR_EXT_TIMER :: u8 where [cec_code]: "CEC_MSG_CLEAR_EXT_TIMER = 0xa1"
definition CEC_MSG_SET_ANALOGUE_TIMER :: u8 where [cec_code]: "CEC_MSG_SET_ANALOGUE_TIMER = 0x34"
definition CEC_MSG_SET_DIGITAL_TIMER :: u8 where [cec_code]: "CEC_MSG_SET_DIGITAL_TIMER = 0x97"
definition CEC_MSG_SET_EXT_TIMER :: u8 where [cec_code]: "CEC_MSG_SET_EXT_TIMER = 0xa2"
definition CEC_MSG_SET_TIMER_PROGRAM_TITLE :: u8 where [cec_code]: "CEC_MSG_SET_TIMER_PROGRAM_TITLE = 0x67"
definition CEC_MSG_TIMER_CLEARED_STATUS :: u8 where [cec_code]: "CEC_MSG_TIMER_CLEARED_STATUS = 0x43"
definition CEC_MSG_TIMER_STATUS :: u8 where [cec_code]: "CEC_MSG_TIMER_STATUS = 0x35"
definition CEC_MSG_CEC_VERSION :: u8 where [cec_code]: "CEC_MSG_CEC_VERSION = 0x9e"
definition CEC_MSG_GET_CEC_VERSION :: u8 where [cec_code]: "CEC_MSG_GET_CEC_VERSION = 0x9f"
definition CEC_MSG_GIVE_PHYSICAL_ADDR :: u8 where [cec_code]: "CEC_MSG_GIVE_PHYSICAL_ADDR = 0x83"
definition CEC_MSG_GET_MENU_LANGUAGE :: u8 where [cec_code]: "CEC_MSG_GET_MENU_LANGUAGE = 0x91"
definition CEC_MSG_REPORT_PHYSICAL_ADDR :: u8 where [cec_code]: "CEC_MSG_REPORT_PHYSICAL_ADDR = 0x84"
definition CEC_MSG_SET_MENU_LANGUAGE :: u8 where [cec_code]: "CEC_MSG_SET_MENU_LANGUAGE = 0x32"
definition CEC_MSG_REPORT_FEATURES :: u8 where [cec_code]: "CEC_MSG_REPORT_FEATURES = 0xa6"
definition CEC_MSG_GIVE_FEATURES :: u8 where [cec_code]: "CEC_MSG_GIVE_FEATURES = 0xa5"
definition CEC_MSG_DECK_CONTROL :: u8 where [cec_code]: "CEC_MSG_DECK_CONTROL = 0x42"
definition CEC_MSG_DECK_STATUS :: u8 where [cec_code]: "CEC_MSG_DECK_STATUS = 0x1b"
definition CEC_MSG_GIVE_DECK_STATUS :: u8 where [cec_code]: "CEC_MSG_GIVE_DECK_STATUS = 0x1a"
definition CEC_MSG_PLAY :: u8 where [cec_code]: "CEC_MSG_PLAY = 0x41"
definition CEC_MSG_GIVE_TUNER_DEVICE_STATUS :: u8 where [cec_code]: "CEC_MSG_GIVE_TUNER_DEVICE_STATUS = 0x08"
definition CEC_MSG_SELECT_ANALOGUE_SERVICE :: u8 where [cec_code]: "CEC_MSG_SELECT_ANALOGUE_SERVICE = 0x92"
definition CEC_MSG_SELECT_DIGITAL_SERVICE :: u8 where [cec_code]: "CEC_MSG_SELECT_DIGITAL_SERVICE = 0x93"
definition CEC_MSG_TUNER_DEVICE_STATUS :: u8 where [cec_code]: "CEC_MSG_TUNER_DEVICE_STATUS = 0x07"
definition CEC_MSG_TUNER_STEP_DECREMENT :: u8 where [cec_code]: "CEC_MSG_TUNER_STEP_DECREMENT = 0x06"
definition CEC_MSG_TUNER_STEP_INCREMENT :: u8 where [cec_code]: "CEC_MSG_TUNER_STEP_INCREMENT = 0x05"
definition CEC_MSG_DEVICE_VENDOR_ID :: u8 where [cec_code]: "CEC_MSG_DEVICE_VENDOR_ID = 0x87"
definition CEC_MSG_GIVE_DEVICE_VENDOR_ID :: u8 where [cec_code]: "CEC_MSG_GIVE_DEVICE_VENDOR_ID = 0x8c"
definition CEC_MSG_VENDOR_COMMAND :: u8 where [cec_code]: "CEC_MSG_VENDOR_COMMAND = 0x89"
definition CEC_MSG_VENDOR_COMMAND_WITH_ID :: u8 where [cec_code]: "CEC_MSG_VENDOR_COMMAND_WITH_ID = 0xa0"
definition CEC_MSG_VENDOR_REMOTE_BUTTON_DOWN :: u8 where [cec_code]: "CEC_MSG_VENDOR_REMOTE_BUTTON_DOWN = 0x8a"
definition CEC_MSG_VENDOR_REMOTE_BUTTON_UP :: u8 where [cec_code]: "CEC_MSG_VENDOR_REMOTE_BUTTON_UP = 0x8b"
definition CEC_MSG_SET_OSD_STRING :: u8 where [cec_code]: "CEC_MSG_SET_OSD_STRING = 0x64"
definition CEC_MSG_GIVE_OSD_NAME :: u8 where [cec_code]: "CEC_MSG_GIVE_OSD_NAME = 0x46"
definition CEC_MSG_SET_OSD_NAME :: u8 where [cec_code]: "CEC_MSG_SET_OSD_NAME = 0x47"
definition CEC_MSG_MENU_REQUEST :: u8 where [cec_code]: "CEC_MSG_MENU_REQUEST = 0x8d"
definition CEC_MSG_MENU_STATUS :: u8 where [cec_code]: "CEC_MSG_MENU_STATUS = 0x8e"
definition CEC_MSG_USER_CONTROL_PRESSED :: u8 where [cec_code]: "CEC_MSG_USER_CONTROL_PRESSED = 0x44"
definition CEC_MSG_USER_CONTROL_RELEASED :: u8 where [cec_code]: "CEC_MSG_USER_CONTROL_RELEASED = 0x45"
definition CEC_MSG_GIVE_DEVICE_POWER_STATUS :: u8 where [cec_code]: "CEC_MSG_GIVE_DEVICE_POWER_STATUS = 0x8f"
definition CEC_MSG_REPORT_POWER_STATUS :: u8 where [cec_code]: "CEC_MSG_REPORT_POWER_STATUS = 0x90"
definition CEC_MSG_FEATURE_ABORT :: u8 where [cec_code]: "CEC_MSG_FEATURE_ABORT = 0x00"
definition CEC_MSG_ABORT :: u8 where [cec_code]: "CEC_MSG_ABORT = 0xff"
definition CEC_MSG_GIVE_AUDIO_STATUS :: u8 where [cec_code]: "CEC_MSG_GIVE_AUDIO_STATUS = 0x71"
definition CEC_MSG_GIVE_SYSTEM_AUDIO_MODE_STATUS :: u8 where [cec_code]: "CEC_MSG_GIVE_SYSTEM_AUDIO_MODE_STATUS = 0x7d"
definition CEC_MSG_REPORT_AUDIO_STATUS :: u8 where [cec_code]: "CEC_MSG_REPORT_AUDIO_STATUS = 0x7a"
definition CEC_MSG_REPORT_SHORT_AUDIO_DESCRIPTOR :: u8 where [cec_code]: "CEC_MSG_REPORT_SHORT_AUDIO_DESCRIPTOR = 0xa3"
definition CEC_MSG_REQUEST_SHORT_AUDIO_DESCRIPTOR :: u8 where [cec_code]: "CEC_MSG_REQUEST_SHORT_AUDIO_DESCRIPTOR = 0xa4"
definition CEC_MSG_SET_SYSTEM_AUDIO_MODE :: u8 where [cec_code]: "CEC_MSG_SET_SYSTEM_AUDIO_MODE = 0x72"
definition CEC_MSG_SYSTEM_AUDIO_MODE_REQUEST :: u8 where [cec_code]: "CEC_MSG_SYSTEM_AUDIO_MODE_REQUEST = 0x70"
definition CEC_MSG_SYSTEM_AUDIO_MODE_STATUS :: u8 where [cec_code]: "CEC_MSG_SYSTEM_AUDIO_MODE_STATUS = 0x7e"
definition CEC_MSG_SET_AUDIO_RATE :: u8 where [cec_code]: "CEC_MSG_SET_AUDIO_RATE = 0x9a"
definition CEC_MSG_INITIATE_ARC :: u8 where [cec_code]: "CEC_MSG_INITIATE_ARC = 0xc0"
definition CEC_MSG_REPORT_ARC_INITIATED :: u8 where [cec_code]: "CEC_MSG_REPORT_ARC_INITIATED = 0xc1"
definition CEC_MSG_REPORT_ARC_TERMINATED :: u8 where [cec_code]: "CEC_MSG_REPORT_ARC_TERMINATED = 0xc2"
definition CEC_MSG_REQUEST_ARC_INITIATION :: u8 where [cec_code]: "CEC_MSG_REQUEST_ARC_INITIATION = 0xc3"
definition CEC_MSG_REQUEST_ARC_TERMINATION :: u8 where [cec_code]: "CEC_MSG_REQUEST_ARC_TERMINATION = 0xc4"
definition CEC_MSG_TERMINATE_ARC :: u8 where [cec_code]: "CEC_MSG_TERMINATE_ARC = 0xc5"
definition CEC_MSG_REQUEST_CURRENT_LATENCY :: u8 where [cec_code]: "CEC_MSG_REQUEST_CURRENT_LATENCY = 0xa7"
definition CEC_MSG_REPORT_CURRENT_LATENCY :: u8 where [cec_code]: "CEC_MSG_REPORT_CURRENT_LATENCY = 0xa8"
definition CEC_MSG_CDC_MESSAGE :: u8 where [cec_code]: "CEC_MSG_CDC_MESSAGE = 0xf8"

section \<open>CDC sub-opcodes\<close>

definition CEC_MSG_CDC_HEC_INQUIRE_STATE :: u8 where [cec_code]: "CEC_MSG_CDC_HEC_INQUIRE_STATE = 0x00"
definition CEC_MSG_CDC_HEC_REPORT_STATE :: u8 where [cec_code]: "CEC_MSG_CDC_HEC_REPORT_STATE = 0x01"
definition CEC_MSG_CDC_HEC_SET_STATE_ADJACENT :: u8 where [cec_code]: "CEC_MSG_CDC_HEC_SET_STATE_ADJACENT = 0x02"
definition CEC_MSG_CDC_HEC_SET_STATE :: u8 where [cec_code]: "CEC_MSG_CDC_HEC_SET_STATE = 0x03"
definition CEC_MSG_CDC_HEC_REQUEST_DEACTIVATION :: u8 where [cec_code]: "CEC_MSG_CDC_HEC_REQUEST_DEACTIVATION = 0x04"
definition CEC_MSG_CDC_HEC_NOTIFY_ALIVE :: u8 where [cec_code]: "CEC_MSG_CDC_HEC_NOTIFY_ALIVE = 0x05"
definition CEC_MSG_CDC_HEC_DISCOVER :: u8 where [cec_code]: "CEC_MSG_CDC_HEC_DISCOVER = 0x06"
definition CEC_MSG_CDC_HPD_SET_STATE :: u8 where [cec_code]: "CEC_MSG_CDC_HPD_SET_STATE = 0x10"
definition CEC_MSG_CDC_HPD_REPORT_STATE :: u8 where [cec_code]: "CEC_MSG_CDC_HPD_REPORT_STATE = 0x11"

section \<open>Operand values\<close>

definition CEC_OP_RECORD_SRC_OWN :: u8 where [cec_code]: "CEC_OP_RECORD_SRC_OWN = 1"
definition CEC_OP_RECORD_SRC_DIGITAL :: u8 where [cec_code]: "CEC_OP_RECORD_SRC_DIGITAL = 2"
definition CEC_OP_RECORD_SRC_ANALOG :: u8 where [cec_code]: "CEC_OP_RECORD_SRC_ANALOG = 3"
definition CEC_OP_RECORD_SRC_EXT_PLUG :: u8 where [cec_code]: "CEC_OP_RECORD_SRC_EXT_PLUG = 4"
definition CEC_OP_RECORD_SRC_EXT_PHYS_ADDR :: u8 where [cec_code]: "CEC_OP_RECORD_SRC_EXT_PHYS_ADDR = 5"
definition CEC_OP_SERVICE_ID_METHOD_BY_DIG_ID :: u8 where [cec_code]: "CEC_OP_SERVICE_ID_METHOD_BY_DIG_ID = 0"
definition CEC_OP_SERVICE_ID_METHOD_BY_CHANNEL :: u8 where [cec_code]: "CEC_OP_SERVICE_ID_METHOD_BY_CHANNEL = 1"
definition CEC_OP_DIG_SERVICE_BCAST_SYSTEM_ATSC_GEN :: u8 where [cec_code]: "CEC_OP_DIG_SERVICE_BCAST_SYSTEM_ATSC_GEN = 0x01"
definition CEC_OP_DIG_SERVICE_BCAST_SYSTEM_ATSC_CABLE :: u8 where [cec_code]: "CEC_OP_DIG_SERVICE_BCAST_SYSTEM_ATSC_CABLE = 0x10"
definition CEC_OP_DIG_SERVICE_BCAST_SYSTEM_ATSC_SAT :: u8 where [cec_code]: "CEC_OP_DIG_SERVICE_BCAST_SYSTEM_ATSC_SAT = 0x11"
definition CEC_OP_DIG_SERVICE_BCAST_SYSTEM_ATSC_T :: u8 where [cec_code]: "CEC_OP_DIG_SERVICE_BCAST_SYSTEM_ATSC_T = 0x12"
definition CEC_OP_PROG_INFO_NOT_ENOUGH_SPACE :: u8 where [cec_code]: "CEC_OP_PROG_INFO_NOT_ENOUGH_SPACE = 0x09"
definition CEC_OP_PROG_INFO_MIGHT_NOT_BE_ENOUGH_SPACE :: u8 where [cec_code]: "CEC_OP_PROG_INFO_MIGHT_NOT_BE_ENOUGH_SPACE = 0x0b"
definition CEC_OP_PROG_ERROR_DUPLICATE :: u8 where [cec_code]: "CEC_OP_PROG_ERROR_DUPLICATE = 0x0e"
definition CEC_OP_PRIM_DEVTYPE_TV :: u8 where [cec_code]: "CEC_OP_PRIM_DEVTYPE_TV = 0"
definition CEC_OP_PRIM_DEVTYPE_SWITCH :: u8 where [cec_code]: "CEC_OP_PRIM_DEVTYPE_SWITCH = 6"
definition CEC_OP_PRIM_DEVTYPE_PROCESSOR :: u8 where [cec_code]: "CEC_OP_PRIM_DEVTYPE_PROCESSOR = 7"
definition CEC_OP_FEAT_EXT :: u8 where [cec_code]: "CEC_OP_FEAT_EXT = 0x80"
definition CEC_OP_STATUS_REQ_OFF :: u8 where [cec_code]: "CEC_OP_STATUS_REQ_OFF = 2"
definition CEC_OP_UI_CMD_SELECT_BROADCAST_TYPE :: u8 where [cec_code]: "CEC_OP_UI_CMD_SELECT_BROADCAST_TYPE = 0x56"
definition CEC_OP_UI_CMD_SELECT_SOUND_PRESENTATION :: u8 where [cec_code]: "CEC_OP_UI_CMD_SELECT_SOUND_PRESENTATION = 0x57"
definition CEC_OP_UI_CMD_PLAY_FUNCTION :: u8 where [cec_code]: "CEC_OP_UI_CMD_PLAY_FUNCTION = 0x60"
definition CEC_OP_UI_CMD_TUNE_FUNCTION :: u8 where [cec_code]: "CEC_OP_UI_CMD_TUNE_FUNCTION = 0x67"
definition CEC_OP_UI_CMD_SELECT_MEDIA_FUNCTION :: u8 where [cec_code]: "CEC_OP_UI_CMD_SELECT_MEDIA_FUNCTION = 0x68"
definition CEC_OP_UI_CMD_SELECT_AV_INPUT_FUNCTION :: u8 where [cec_code]: "CEC_OP_UI_CMD_SELECT_AV_INPUT_FUNCTION = 0x69"
definition CEC_OP_UI_CMD_SELECT_AUDIO_INPUT_FUNCTION :: u8 where [cec_code]: "CEC_OP_UI_CMD_SELECT_AUDIO_INPUT_FUNCTION = 0x6a"

definition CEC_PHYS_ADDR_INVALID :: u16 where [cec_code]: "CEC_PHYS_ADDR_INVALID = 0xffff"

end
