(* ===== verification/Cec_Msg.thy ===== *)
theory Cec_Msg
  imports Cec_Codes
begin

text \<open>
  \<^verbatim>\<open>struct cec_msg\<close> of \<^verbatim>\<open>include/linux/cec.h\<close> and the functions on it: addressing,
  initialisation, replying and status. The message bytes are a list of
  \<^verbatim>\<open>CEC_MAX_MSG_SIZE\<close> elements (\<open>wf_msg\<close>), read and written through checked accesses.
\<close>

definition CEC_MAX_MSG_SIZE :: nat where
  "CEC_MAX_MSG_SIZE = 16"

record cec_msg =
  cm_tx_ts :: u64
  cm_rx_ts :: u64
  cm_len :: u32
  cm_timeout :: u32
  cm_sequence :: u32
  cm_flags :: u32
  cm_msg :: "u8 list"
  cm_reply :: u8
  cm_rx_status :: u8
  cm_tx_status :: u8
  cm_tx_arb_lost_cnt :: u8
  cm_tx_nack_cnt :: u8
  cm_tx_low_drive_cnt :: u8
  cm_tx_error_cnt :: u8

definition wf_msg :: "cec_msg \<Rightarrow> bool" where
  "wf_msg m \<longleftrightarrow> length (cm_msg m) = CEC_MAX_MSG_SIZE"

section \<open>Access to the message bytes\<close>

definition get_byte :: "cec_msg \<Rightarrow> nat \<Rightarrow> u8 option" where
  "get_byte m i = rd (cm_msg m) i"

definition put_byte :: "cec_msg \<Rightarrow> nat \<Rightarrow> u8 \<Rightarrow> cec_msg option" where
  "put_byte m i v = map_option (\<lambda>bs. m\<lparr>cm_msg := bs\<rparr>) (wr (cm_msg m) i v)"

text \<open>\<^verbatim>\<open>msg->msg[i] |= v\<close>\<close>

definition or_byte :: "cec_msg \<Rightarrow> nat \<Rightarrow> u8 \<Rightarrow> cec_msg option" where
  "or_byte m i v = do { b \<leftarrow> get_byte m i; put_byte m i (u8_of (promote b OR promote v)) }"

text \<open>\<^verbatim>\<open>memcpy(msg->msg + off, src, n)\<close>\<close>

definition put_bytes :: "cec_msg \<Rightarrow> nat \<Rightarrow> u8 list \<Rightarrow> cec_msg option" where
  "put_bytes m off src = map_option (\<lambda>bs. m\<lparr>cm_msg := bs\<rparr>) (wrn (cm_msg m) off src)"

text \<open>\<^verbatim>\<open>msg->msg[msg->len++] = v\<close>\<close>

definition append_byte :: "cec_msg \<Rightarrow> u8 \<Rightarrow> cec_msg option" where
  "append_byte m v = do {
     m \<leftarrow> put_byte m (unat (cm_len m)) v;
     Some (m\<lparr>cm_len := cm_len m + 1\<rparr>)
   }"

section \<open>Functions of \<^verbatim>\<open>cec.h\<close> on messages\<close>

definition cec_msg_initiator :: "cec_msg \<Rightarrow> u8 option" where
  "cec_msg_initiator m = do { b \<leftarrow> get_byte m 0; Some (u8_of (drop_bit 4 (promote b))) }"

definition cec_msg_destination :: "cec_msg \<Rightarrow> u8 option" where
  "cec_msg_destination m = do { b \<leftarrow> get_byte m 0; Some (u8_of (promote b AND 0xf)) }"

definition cec_msg_opcode :: "cec_msg \<Rightarrow> int option" where
  "cec_msg_opcode m =
     (if cm_len m > 1 then do { b \<leftarrow> get_byte m 1; Some (uint b) } else Some (-1))"

definition cec_msg_is_broadcast :: "cec_msg \<Rightarrow> bool option" where
  "cec_msg_is_broadcast m = do { b \<leftarrow> get_byte m 0; Some (promote b AND 0xf = 0xf) }"

definition zero_msg :: cec_msg where
  "zero_msg = \<lparr>cm_tx_ts = 0, cm_rx_ts = 0, cm_len = 0, cm_timeout = 0, cm_sequence = 0,
     cm_flags = 0, cm_msg = replicate CEC_MAX_MSG_SIZE 0, cm_reply = 0, cm_rx_status = 0,
     cm_tx_status = 0, cm_tx_arb_lost_cnt = 0, cm_tx_nack_cnt = 0, cm_tx_low_drive_cnt = 0,
     cm_tx_error_cnt = 0\<rparr>"

text \<open>The \<^verbatim>\<open>memset\<close> makes the previous contents of the message irrelevant.\<close>

definition cec_msg_init :: "cec_msg \<Rightarrow> u8 \<Rightarrow> u8 \<Rightarrow> cec_msg option" where
  "cec_msg_init m initiator destination = do {
     let m = zero_msg;
     m \<leftarrow> put_byte m 0 (u8_of (push_bit 4 (promote initiator) OR promote destination));
     Some (m\<lparr>cm_len := 1\<rparr>)
   }"

text \<open>
  Both addresses of \<^verbatim>\<open>orig\<close> are read before \<^verbatim>\<open>msg\<close> is written, so the model also covers a
  call with \<^verbatim>\<open>msg == orig\<close>, which is \<open>cec_msg_set_reply_to m m\<close>.
\<close>

definition cec_msg_set_reply_to :: "cec_msg \<Rightarrow> cec_msg \<Rightarrow> cec_msg option" where
  "cec_msg_set_reply_to m orig = do {
     d \<leftarrow> cec_msg_destination orig;
     i \<leftarrow> cec_msg_initiator orig;
     m \<leftarrow> put_byte m 0 (u8_of (push_bit 4 (promote d) OR promote i));
     Some (m\<lparr>cm_timeout := 0, cm_reply := 0\<rparr>)
   }"

definition CEC_TX_STATUS_OK :: u8 where [cec_code]: "CEC_TX_STATUS_OK = 0x01"
definition CEC_RX_STATUS_OK :: u8 where [cec_code]: "CEC_RX_STATUS_OK = 0x01"
definition CEC_RX_STATUS_FEATURE_ABORT :: u8 where [cec_code]: "CEC_RX_STATUS_FEATURE_ABORT = 0x04"

definition cec_msg_status_is_ok :: "cec_msg \<Rightarrow> bool" where
  "cec_msg_status_is_ok m =
     (if cm_tx_status m \<noteq> 0 \<and> promote (cm_tx_status m) AND promote CEC_TX_STATUS_OK = 0 then False
      else if cm_rx_status m \<noteq> 0 \<and> promote (cm_rx_status m) AND promote CEC_RX_STATUS_OK = 0 then False
      else if cm_tx_status m = 0 \<and> cm_rx_status m = 0 then False
      else promote (cm_rx_status m) AND promote CEC_RX_STATUS_FEATURE_ABORT = 0)"

section \<open>Evaluation of accesses\<close>

lemma get_byte_in [mem_simps]: "i < length (cm_msg m) \<Longrightarrow> get_byte m i = Some (cm_msg m ! i)"
  by (simp add: get_byte_def mem_simps)

lemma put_byte_in [mem_simps]:
  "i < length (cm_msg m) \<Longrightarrow> put_byte m i v = Some (m\<lparr>cm_msg := (cm_msg m)[i := v]\<rparr>)"
  by (simp add: put_byte_def mem_simps)

lemma or_byte_in [mem_simps]:
  "i < length (cm_msg m) \<Longrightarrow>
    or_byte m i v = Some (m\<lparr>cm_msg := (cm_msg m)[i := cm_msg m ! i OR v]\<rparr>)"
  by (simp add: or_byte_def mem_simps c_conv)

lemma put_bytes_in [mem_simps]:
  "off + length src \<le> length (cm_msg m) \<Longrightarrow>
    put_bytes m off src =
      Some (m\<lparr>cm_msg := take off (cm_msg m) @ src @ drop (off + length src) (cm_msg m)\<rparr>)"
  by (simp add: put_bytes_def mem_simps)

lemma append_byte_in [mem_simps]:
  "unat (cm_len m) < length (cm_msg m) \<Longrightarrow>
    append_byte m v = Some (m\<lparr>cm_msg := (cm_msg m)[unat (cm_len m) := v], cm_len := cm_len m + 1\<rparr>)"
  by (simp add: append_byte_def mem_simps)

text \<open>A write outside the sixteen bytes is refused.\<close>

lemma put_byte_out: "length (cm_msg m) \<le> i \<Longrightarrow> put_byte m i v = None"
  by (simp add: put_byte_def wr_def)

lemmas msg_simps = mem_simps wf_msg_def CEC_MAX_MSG_SIZE_def

section \<open>Addressing\<close>

lemma initiator_eq [simp]: "wf_msg m \<Longrightarrow> cec_msg_initiator m = Some (drop_bit 4 (cm_msg m ! 0))"
  by (simp add: cec_msg_initiator_def msg_simps c_conv)

lemma destination_eq [simp]: "wf_msg m \<Longrightarrow> cec_msg_destination m = Some (take_bit 4 (cm_msg m ! 0))"
  by (simp add: cec_msg_destination_def msg_simps c_conv)

lemma opcode_eq: "wf_msg m \<Longrightarrow> 1 < cm_len m \<Longrightarrow> cec_msg_opcode m = Some (uint (cm_msg m ! 1))"
  by (simp add: cec_msg_opcode_def msg_simps)

lemma nibbles_id: "push_bit 4 (drop_bit 4 b) OR take_bit 4 b = (b :: u8)"
  by (rule bit_word_eqI) (auto simp add: bit_simps)

lemma swap_nibbles:
  fixes b :: u8
  shows "drop_bit 4 (push_bit 4 (take_bit 4 b) OR drop_bit 4 b) = take_bit 4 b"
    and "take_bit 4 (push_bit 4 (take_bit 4 b) OR drop_bit 4 b) = drop_bit 4 b"
proof -
  have "fits 4 (drop_bit 4 b)" "fits 4 (take_bit 4 b)"
    by (auto simp add: fits_bits bit_simps dest: bit_imp_le_length)
  then show "drop_bit 4 (push_bit 4 (take_bit 4 b) OR drop_bit 4 b) = take_bit 4 b"
    and "take_bit 4 (push_bit 4 (take_bit 4 b) OR drop_bit 4 b) = drop_bit 4 b"
    by (intro drop_bit_high_field take_bit_low_field; simp)+
qed

lemma wf_zero_msg [simp]: "wf_msg zero_msg"
  by (simp add: zero_msg_def wf_msg_def)

section \<open>Properties\<close>

text \<open>
  \<^verbatim>\<open>cec_msg_init\<close> makes a poll message: it has one byte, no opcode, and, for addresses of four
  bits, the given initiator and destination, whatever the structure held before.
\<close>

theorem init_is_poll:
  assumes "fits 4 initiator" "fits 4 destination"
  shows "\<exists>m'. cec_msg_init m initiator destination = Some m' \<and> wf_msg m' \<and> cm_len m' = 1 \<and>
    cec_msg_opcode m' = Some (-1) \<and> cec_msg_initiator m' = Some initiator \<and>
    cec_msg_destination m' = Some destination \<and> cm_reply m' = 0 \<and> cm_timeout m' = 0"
proof -
  let ?b = "push_bit 4 initiator OR destination"
  let ?m' = "zero_msg\<lparr>cm_msg := ?b # replicate 15 0, cm_len := 1\<rparr>"
  have upd: "(replicate 16 0)[0 := ?b] = ?b # replicate 15 0" by (simp add: numeral_eq_Suc)
  have "cec_msg_init m initiator destination = Some ?m'"
    by (simp add: cec_msg_init_def zero_msg_def msg_simps c_conv upd)
  moreover have "wf_msg ?m'" by (simp add: wf_msg_def CEC_MAX_MSG_SIZE_def)
  moreover have "drop_bit 4 ?b = initiator" "take_bit 4 ?b = destination"
    using assms by (simp_all add: field_dist)
  ultimately show ?thesis by (simp add: cec_msg_opcode_def zero_msg_def del: take_bit_or drop_bit_or)
qed

theorem init_is_poll_witness:
  "fits 4 (4 :: u8) \<and> fits 4 (0xf :: u8) \<and>
    (\<exists>m'. cec_msg_init zero_msg 4 0xf = Some m' \<and> wf_msg m' \<and> cm_len m' = 1 \<and>
      cec_msg_opcode m' = Some (-1) \<and> cec_msg_initiator m' = Some 4 \<and>
      cec_msg_destination m' = Some 0xf \<and> cm_reply m' = 0 \<and> cm_timeout m' = 0)"
proof -
  have "fits 4 (4 :: u8)" "fits 4 (0xf :: u8)" by (simp_all add: fits_def)
  then show ?thesis using init_is_poll [of 4 "0xf" zero_msg] by blast
qed

text \<open>
  \<^verbatim>\<open>cec_msg_status_is_ok\<close> accepts exactly the messages with something transmitted or received,
  in which every status that is present has its \<^verbatim>\<open>OK\<close> bit, and no feature abort was received.
\<close>

theorem status_is_ok_iff:
  "cec_msg_status_is_ok m \<longleftrightarrow>
    (cm_tx_status m \<noteq> 0 \<or> cm_rx_status m \<noteq> 0) \<and>
    (cm_tx_status m \<noteq> 0 \<longrightarrow> bit (cm_tx_status m) 0) \<and>
    (cm_rx_status m \<noteq> 0 \<longrightarrow> bit (cm_rx_status m) 0) \<and> \<not> bit (cm_rx_status m) 2"
proof -
  have 1: "promote b AND promote 1 = 0 \<longleftrightarrow> \<not> bit b 0" for b
    by (simp add: c_conv and_exp_eq_0_iff_not_bit [of b 0, simplified] del: masks8)
  have 4: "promote b AND promote 4 = 0 \<longleftrightarrow> \<not> bit b 2" for b
    using and_exp_eq_0_iff_not_bit [of b 2] by (simp add: c_conv)
  show ?thesis by (auto simp add: cec_msg_status_is_ok_def cec_code 1 4)
qed

theorem status_is_ok_iff_witness:
  "cec_msg_status_is_ok (zero_msg\<lparr>cm_tx_status := 1, cm_rx_status := 1\<rparr>) \<and>
    \<not> cec_msg_status_is_ok (zero_msg\<lparr>cm_tx_status := 1, cm_rx_status := 5\<rparr>)"
  by (simp add: status_is_ok_iff zero_msg_def bit_numeral_rec)

text \<open>
  \<^verbatim>\<open>cec_msg_set_reply_to\<close> addresses a reply: the initiator of the reply is the destination of
  the original and vice versa, nothing but the address byte, the reply code and the timeout of
  the message changes, and replying to the reply gives the addresses of the original back.
\<close>

theorem set_reply_to_swaps:
  assumes "wf_msg m" "wf_msg orig"
  shows "\<exists>b m'. cec_msg_set_reply_to m orig = Some m' \<and>
    m' = m\<lparr>cm_msg := (cm_msg m)[0 := b], cm_timeout := 0, cm_reply := 0\<rparr> \<and>
    cec_msg_initiator m' = cec_msg_destination orig \<and>
    cec_msg_destination m' = cec_msg_initiator orig \<and>
    Option.bind (cec_msg_set_reply_to m' m') (\<lambda>m''. get_byte m'' 0) = get_byte orig 0"
proof -
  let ?b = "push_bit 4 (take_bit 4 (cm_msg orig ! 0)) OR drop_bit 4 (cm_msg orig ! 0)"
  let ?m' = "m\<lparr>cm_msg := (cm_msg m)[0 := ?b], cm_timeout := 0, cm_reply := 0\<rparr>"
  have eq: "cec_msg_set_reply_to m orig = Some ?m'"
    using assms by (simp add: cec_msg_set_reply_to_def msg_simps c_conv)
  have wf: "wf_msg ?m'" and b0: "cm_msg ?m' ! 0 = ?b" using assms(1) by (simp_all add: msg_simps)
  have addr: "cec_msg_initiator ?m' = cec_msg_destination orig"
    "cec_msg_destination ?m' = cec_msg_initiator orig"
    using assms swap_nibbles [of "cm_msg orig ! 0"]
    by (simp_all only: initiator_eq [OF wf] destination_eq [OF wf] initiator_eq destination_eq b0)
  have "Option.bind (cec_msg_set_reply_to ?m' ?m') (\<lambda>m''. get_byte m'' 0) = get_byte orig 0"
    using assms nibbles_id [of "cm_msg orig ! 0"]
    by (simp add: cec_msg_set_reply_to_def addr c_conv msg_simps)
  with eq addr show ?thesis by blast
qed

theorem set_reply_to_swaps_witness:
  "\<exists>b m'. cec_msg_set_reply_to zero_msg (zero_msg\<lparr>cm_msg := 0x4f # replicate 15 0\<rparr>) = Some m' \<and>
    m' = zero_msg\<lparr>cm_msg := (cm_msg zero_msg)[0 := b], cm_timeout := 0, cm_reply := 0\<rparr> \<and>
    cec_msg_initiator m' = cec_msg_destination (zero_msg\<lparr>cm_msg := 0x4f # replicate 15 0\<rparr>) \<and>
    cec_msg_destination m' = cec_msg_initiator (zero_msg\<lparr>cm_msg := 0x4f # replicate 15 0\<rparr>) \<and>
    Option.bind (cec_msg_set_reply_to m' m') (\<lambda>m''. get_byte m'' 0) =
      get_byte (zero_msg\<lparr>cm_msg := 0x4f # replicate 15 0\<rparr>) 0"
  by (rule set_reply_to_swaps) (simp, simp add: wf_msg_def CEC_MAX_MSG_SIZE_def)

end
