(* ===== verification/Cec_Codec.thy ===== *)
theory Cec_Codec
  imports Cec_Msg
begin

text \<open>
  The contract that every pair \<^verbatim>\<open>cec_msg_*\<close>, \<^verbatim>\<open>cec_ops_*\<close> of \<^verbatim>\<open>cec-funcs.h\<close> offers its users,
  as locales: \<open>cec_encoder\<close> for the functions that fill in a message, \<open>cec_receiver\<close> for those
  that also have a decoder, with what it makes of the operands, and \<open>cec_codec\<close> for the decoders
  that return the operands as they were. The feature theories interpret them for each message.
\<close>

text \<open>
  The frame of a message: its length, whether it is a broadcast, and the opcode of the reply
  that is waited for, where the encoder sets one (\<open>None\<close>: the member is left alone).
\<close>

datatype msg_frame = Frame (fr_len: u32) (fr_bcast: bool) (fr_reply: "u8 option")

text \<open>The encoders of requests set the reply when the caller passes \<^verbatim>\<open>reply\<close>.\<close>

abbreviation when_reply :: "c_int \<Rightarrow> u8 \<Rightarrow> u8 option" where
  "when_reply reply code \<equiv> Some (if reply \<noteq> 0 then code else 0)"

text \<open>
  What an encoder with opcode \<open>opc\<close> leaves behind: a message with exactly the length of the frame,
  at least two and at most sixteen bytes, with the opcode in byte 1, the initiator kept and the
  destination kept or, for a broadcast, set to the broadcast address; apart from the length, the
  bytes and the reply code no member of the structure changes.
\<close>

definition cec_framed :: "u8 \<Rightarrow> msg_frame \<Rightarrow> cec_msg \<Rightarrow> cec_msg \<Rightarrow> bool" where
  "cec_framed opc fr m m' \<longleftrightarrow>
     wf_msg m' \<and> 2 \<le> fr_len fr \<and> fr_len fr \<le> 16 \<and>
     cm_msg m' ! 0 = (if fr_bcast fr then cm_msg m ! 0 OR 0xf else cm_msg m ! 0) \<and>
     cm_msg m' ! 1 = opc \<and>
     m' = m\<lparr>cm_len := fr_len fr, cm_msg := cm_msg m',
       cm_reply := case_option (cm_reply m) (\<lambda>r. r) (fr_reply fr)\<rparr>"

lemma drop_or_0xf: "drop_bit 4 (b OR 0xf) = drop_bit 4 (b :: u8)"
proof -
  have eq: "(0xf :: u8) = mask 4" by (simp add: mask_numeral)
  show ?thesis unfolding eq by (rule bit_word_eqI) (auto simp add: bit_simps)
qed

lemma take_or_0xf: "take_bit 4 b OR 0xf = (0xf :: u8)"
proof -
  have eq: "(0xf :: u8) = mask 4" by (simp add: mask_numeral)
  show ?thesis unfolding eq by (rule bit_word_eqI) (auto simp add: bit_simps)
qed

lemma cec_framed_wf: "cec_framed opc fr m m' \<Longrightarrow> wf_msg m'"
  by (simp add: cec_framed_def)

lemma cec_framed_len: "cec_framed opc fr m m' \<Longrightarrow> cm_len m' = fr_len fr"
proof -
  assume "cec_framed opc fr m m'"
  then have "cm_len m' = cm_len (m\<lparr>cm_len := fr_len fr, cm_msg := cm_msg m',
      cm_reply := case_option (cm_reply m) (\<lambda>r. r) (fr_reply fr)\<rparr>)"
    unfolding cec_framed_def by metis
  then show ?thesis by simp
qed

lemma cec_framed_opcode: "cec_framed opc fr m m' \<Longrightarrow> cec_msg_opcode m' = Some (uint opc)"
  using cec_framed_len [of opc fr m m']
  by (subst opcode_eq) (simp_all add: cec_framed_def word_le_nat_alt word_less_nat_alt)

lemma cec_framed_initiator:
  "wf_msg m \<Longrightarrow> cec_framed opc fr m m' \<Longrightarrow> cec_msg_initiator m' = cec_msg_initiator m"
  by (auto simp add: cec_framed_def drop_or_0xf)

lemma cec_framed_destination:
  "wf_msg m \<Longrightarrow> cec_framed opc fr m m' \<Longrightarrow>
    cec_msg_destination m' = (if fr_bcast fr then Some 0xf else cec_msg_destination m)"
  by (auto simp add: cec_framed_def take_or_0xf)

definition cec_emits :: "u8 \<Rightarrow> msg_frame \<Rightarrow> cec_msg \<Rightarrow> cec_msg option \<Rightarrow> bool" where
  "cec_emits opc fr m res \<longleftrightarrow> (\<exists>m'. res = Some m' \<and> cec_framed opc fr m m')"

locale cec_encoder =
  fixes enc :: "cec_msg \<Rightarrow> 'a \<Rightarrow> cec_msg option"
    and pre :: "'a \<Rightarrow> bool"
    and opcode :: u8
    and frame :: "'a \<Rightarrow> msg_frame"
  assumes enc_framed: "wf_msg m \<Longrightarrow> pre x \<Longrightarrow>
    \<exists>m'. enc m x = Some m' \<and> cec_framed opcode (frame x) m m'"
begin

lemma enc_SomeD: "wf_msg m \<Longrightarrow> pre x \<Longrightarrow> enc m x = Some m' \<Longrightarrow> cec_framed opcode (frame x) m m'"
  using enc_framed by fastforce

lemma enc_total: "wf_msg m \<Longrightarrow> pre x \<Longrightarrow> enc m x \<noteq> None"
  using enc_framed by fastforce

lemma enc_emits: "wf_msg m \<Longrightarrow> pre x \<Longrightarrow> cec_emits opcode (frame x) m (enc m x)"
  using enc_framed unfolding cec_emits_def by blast

lemma enc_wf: "wf_msg m \<Longrightarrow> pre x \<Longrightarrow> enc m x = Some m' \<Longrightarrow> wf_msg m'"
  by (rule cec_framed_wf, rule enc_SomeD)

lemma enc_opcode:
  "wf_msg m \<Longrightarrow> pre x \<Longrightarrow> Option.bind (enc m x) cec_msg_opcode = Some (uint opcode)"
  using enc_framed [of m x] cec_framed_opcode by fastforce

lemma enc_initiator:
  "wf_msg m \<Longrightarrow> pre x \<Longrightarrow> Option.bind (enc m x) cec_msg_initiator = cec_msg_initiator m"
  using enc_framed [of m x] cec_framed_initiator by fastforce

lemma enc_destination:
  "wf_msg m \<Longrightarrow> pre x \<Longrightarrow> Option.bind (enc m x) cec_msg_destination =
    (if fr_bcast (frame x) then Some 0xf else cec_msg_destination m)"
  using enc_framed [of m x] cec_framed_destination by fastforce

end

locale cec_receiver = cec_encoder enc pre opcode frame
  for enc :: "cec_msg \<Rightarrow> 'a \<Rightarrow> cec_msg option"
    and pre opcode frame +
  fixes ok :: "'a \<Rightarrow> bool"
    and recv :: "'a \<Rightarrow> 'a"
    and dec :: "cec_msg \<Rightarrow> 'a option"
  assumes ok_pre: "ok x \<Longrightarrow> pre x"
    and dec_recv: "wf_msg m \<Longrightarrow> ok x \<Longrightarrow> Option.bind (enc m x) dec = Some (recv x)"
begin

lemma ok_emits: "wf_msg m \<Longrightarrow> ok x \<Longrightarrow> cec_emits opcode (frame x) m (enc m x)"
  by (rule enc_emits) (auto dest: ok_pre)

lemma dec_recv_Some: "wf_msg m \<Longrightarrow> ok x \<Longrightarrow> enc m x = Some m' \<Longrightarrow> dec m' = Some (recv x)"
  using dec_recv [of m x] by simp

end

locale cec_codec = cec_receiver enc pre opcode frame ok "\<lambda>x. x" dec
  for enc :: "cec_msg \<Rightarrow> 'a \<Rightarrow> cec_msg option"
    and pre opcode frame ok dec
begin

lemmas dec_enc = dec_recv

text \<open>Different operands give different messages, whatever was in the buffers before.\<close>

lemma enc_inj:
  "wf_msg m \<Longrightarrow> wf_msg n \<Longrightarrow> ok x \<Longrightarrow> ok y \<Longrightarrow> enc m x = enc n y \<Longrightarrow> x = y"
  using dec_enc [of m x] dec_enc [of n y] by simp

end

section \<open>Features\<close>

text \<open>
  The header groups the messages by feature. A feature's commands are its messages with their
  operands; its encoder calls the command's \<^verbatim>\<open>cec_msg_*\<close> function, and its decoder dispatches on
  the opcode, the way a receiver's \<^verbatim>\<open>switch\<close> does, and calls \<^verbatim>\<open>cec_ops_*\<close>. The contract says
  that every command gives a message with its frame and its opcode, and what is received for it:
  \<open>received\<close> is the identity but for the operands that a message does not carry or a decoder
  reads wrongly.
\<close>

locale cec_feature =
  fixes encode :: "cec_msg \<Rightarrow> 'c \<Rightarrow> cec_msg option"
    and ok :: "'c \<Rightarrow> bool"
    and opcode_of :: "'c \<Rightarrow> u8"
    and frame :: "'c \<Rightarrow> msg_frame"
    and received :: "'c \<Rightarrow> 'c"
    and decode :: "u8 \<Rightarrow> cec_msg \<Rightarrow> 'c option"
  assumes emits: "wf_msg m \<Longrightarrow> ok c \<Longrightarrow> cec_emits (opcode_of c) (frame c) m (encode m c)"
    and decodes: "wf_msg m \<Longrightarrow> ok c \<Longrightarrow>
      Option.bind (encode m c) (\<lambda>m'. decode (opcode_of c) m') = Some (received c)"
begin

lemma receive:
  "wf_msg m \<Longrightarrow> ok c \<Longrightarrow> do {
     m' \<leftarrow> encode m c;
     opc \<leftarrow> get_byte m' 1;
     decode opc m'
   } = Some (received c)"
  using emits [of m c] decodes [of m c]
  by (auto simp: cec_emits_def cec_framed_def msg_simps)

lemma encode_inj:
  assumes "wf_msg m" "wf_msg n" "ok c" "ok d" "encode m c = encode n d"
  shows "received c = received d"
  using receive [of m c] receive [of n d] assms by simp

end

text \<open>
  For the features to share one receiver, each also says which opcodes are its own: its
  decoder answers to no other.
\<close>

locale cec_dispatch = cec_feature encode ok opcode_of frame received decode
  for encode :: "cec_msg \<Rightarrow> 'c \<Rightarrow> cec_msg option"
    and ok opcode_of frame received decode +
  fixes opcodes :: "u8 list"
  assumes opcode_in: "opcode_of c \<in> set opcodes"
    and decode_out: "opc \<notin> set opcodes \<Longrightarrow> decode opc m = None"
begin

lemma decode_Some_in: "decode opc m = Some c \<Longrightarrow> opc \<in> set opcodes"
  using decode_out by fastforce

end

text \<open>Rewriting a dispatched decoder to the round trip of the message it selects.\<close>

lemma bind_map_option_right [simp]:
  "Option.bind x (\<lambda>y. map_option g (f y)) = map_option g (Option.bind x f)"
  by (cases x) auto

lemma bind_const_Some [simp]: "x \<noteq> None \<Longrightarrow> Option.bind x (\<lambda>_. Some y) = Some y"
  by auto

section \<open>Payloads of variable length\<close>

text \<open>
  Text and vendor messages carry up to \<open>16 - c\<close> bytes from offset \<open>c\<close> on, and their length member
  is \<open>c\<close> plus the number of these bytes.
\<close>

lemma payload_len:
  fixes w :: u32
  assumes "c \<le> 16" "w \<le> 16 - c"
  shows "c \<le> c + w" "c + w \<le> 16" "(c < c + w) = (w \<noteq> 0)" "unat (c + w) = unat c + unat w"
proof -
  have c: "unat c \<le> 16" using assms(1) by (simp add: word_le_nat_alt)
  have "unat (16 - c) = 16 - unat c" using assms(1) by (simp add: unat_sub)
  then have w: "unat w \<le> 16 - unat c" using assms(2) by (simp add: word_le_nat_alt)
  have "unat (c + w) = (unat c + unat w) mod 2 ^ 32" by (simp add: unat_word_ariths)
  also have "\<dots> = unat c + unat w" using c w by simp
  finally show eq: "unat (c + w) = unat c + unat w" .
  show "c \<le> c + w" "c + w \<le> 16" "(c < c + w) = (w \<noteq> 0)"
    using c w by (simp_all add: word_le_nat_alt word_less_nat_alt eq unat_gt_0)
qed

text \<open>The decoders' \<^verbatim>\<open>msg->len > c ? msg->len - c : 0\<close>.\<close>

definition payload_size :: "cec_msg \<Rightarrow> u32 \<Rightarrow> u32" where
  "payload_size m c = (if cm_len m > c then cm_len m - c else 0)"

lemma payload_size_eq:
  "cm_len m = c + w \<Longrightarrow> c \<le> 16 \<Longrightarrow> w \<le> 16 - c \<Longrightarrow> payload_size m c = w"
  by (simp add: payload_size_def payload_len)

text \<open>
  The length of a text: \<^verbatim>\<open>strlen\<close> stored in an \<^verbatim>\<open>unsigned int\<close> and clamped.
\<close>

lemma text_len:
  assumes "lim \<le> 14"
  shows "unat (clamp lim (word_of_nat (length s)) :: u32) = min (unat lim) (length s mod 2 ^ 32)"
    and "min (unat lim) (length s mod 2 ^ 32) \<le> length s"
    and "min (unat lim) (length s mod 2 ^ 32) \<le> 14"
proof -
  show "unat (clamp lim (word_of_nat (length s)) :: u32) = min (unat lim) (length s mod 2 ^ 32)"
    by (simp add: unat_clamp unat_u32_of_nat)
  have "length s mod 2 ^ 32 \<le> length s" by (rule mod_less_eq_dividend)
  then show "min (unat lim) (length s mod 2 ^ 32) \<le> length s" by linarith
  show "min (unat lim) (length s mod 2 ^ 32) \<le> 14" using assms by (simp add: word_le_nat_alt)
qed

text \<open>The length member of a message whose text or list fits.\<close>

lemma clamp_fits:
  fixes lim :: "'a::len word"
  assumes "n \<le> unat lim"
  shows "clamp lim (word_of_nat n) = word_of_nat n"
proof -
  have "unat (word_of_nat n :: 'a word) \<le> n" by (simp add: unsigned_of_nat)
  with assms have "(word_of_nat n :: 'a word) \<le> lim" by (simp add: word_le_nat_alt)
  then have "\<not> lim < word_of_nat n" by (rule leD)
  then show ?thesis by (simp only: clamp_def if_False)
qed

lemma not_in_take: "x \<notin> set xs \<Longrightarrow> x \<notin> set (take n xs)"
  by (auto dest: in_set_takeD)

end
