(* ===== verification/Cec_Routing.thy ===== *)
theory Cec_Routing
  imports Cec_Codec
begin

text \<open>
  The features \<^verbatim>\<open>One Touch Play\<close>, \<^verbatim>\<open>Routing Control\<close> and \<^verbatim>\<open>Standby\<close> of \<^verbatim>\<open>cec-funcs.h\<close>: their
  messages, the interpretation of the codec contract for each and the feature's dispatch.
\<close>

section \<open>Messages\<close>

definition cec_msg_active_source :: "cec_msg \<Rightarrow> u16 \<Rightarrow> cec_msg option" where
  "cec_msg_active_source m phys_addr = do {
     let m = m\<lparr>cm_len := 4\<rparr>;
     m \<leftarrow> or_byte m 0 0xf;
     m \<leftarrow> put_byte m 1 CEC_MSG_ACTIVE_SOURCE;
     m \<leftarrow> put_byte m 2 (hi8 phys_addr);
     m \<leftarrow> put_byte m 3 (lo8 phys_addr);
     Some m
   }"

definition cec_ops_active_source :: "cec_msg \<Rightarrow> u16 option" where
  "cec_ops_active_source m = do {
     b2 \<leftarrow> get_byte m 2;
     b3 \<leftarrow> get_byte m 3;
     Some (be16 b2 b3)
   }"

definition cec_msg_image_view_on :: "cec_msg \<Rightarrow> cec_msg option" where
  "cec_msg_image_view_on m = do {
     let m = m\<lparr>cm_len := 2\<rparr>;
     m \<leftarrow> put_byte m 1 CEC_MSG_IMAGE_VIEW_ON;
     Some m
   }"

definition cec_msg_text_view_on :: "cec_msg \<Rightarrow> cec_msg option" where
  "cec_msg_text_view_on m = do {
     let m = m\<lparr>cm_len := 2\<rparr>;
     m \<leftarrow> put_byte m 1 CEC_MSG_TEXT_VIEW_ON;
     Some m
   }"

definition cec_msg_inactive_source ::
  "cec_msg \<Rightarrow> u16 \<Rightarrow> cec_msg option" where
  "cec_msg_inactive_source m phys_addr = do {
     let m = m\<lparr>cm_len := 4\<rparr>;
     m \<leftarrow> put_byte m 1 CEC_MSG_INACTIVE_SOURCE;
     m \<leftarrow> put_byte m 2 (hi8 phys_addr);
     m \<leftarrow> put_byte m 3 (lo8 phys_addr);
     Some m
   }"

definition cec_ops_inactive_source :: "cec_msg \<Rightarrow> u16 option" where
  "cec_ops_inactive_source m = do {
     b2 \<leftarrow> get_byte m 2;
     b3 \<leftarrow> get_byte m 3;
     Some (be16 b2 b3)
   }"

definition cec_msg_request_active_source ::
  "cec_msg \<Rightarrow> c_int \<Rightarrow> cec_msg option" where
  "cec_msg_request_active_source m reply = do {
     let m = m\<lparr>cm_len := 2\<rparr>;
     m \<leftarrow> or_byte m 0 0xf;
     m \<leftarrow> put_byte m 1 CEC_MSG_REQUEST_ACTIVE_SOURCE;
     let m = m\<lparr>cm_reply := if reply \<noteq> 0 then CEC_MSG_ACTIVE_SOURCE else 0\<rparr>;
     Some m
   }"

definition cec_msg_routing_information ::
  "cec_msg \<Rightarrow> u16 \<Rightarrow> cec_msg option" where
  "cec_msg_routing_information m phys_addr = do {
     let m = m\<lparr>cm_len := 4\<rparr>;
     m \<leftarrow> or_byte m 0 0xf;
     m \<leftarrow> put_byte m 1 CEC_MSG_ROUTING_INFORMATION;
     m \<leftarrow> put_byte m 2 (hi8 phys_addr);
     m \<leftarrow> put_byte m 3 (lo8 phys_addr);
     Some m
   }"

definition cec_ops_routing_information :: "cec_msg \<Rightarrow> u16 option" where
  "cec_ops_routing_information m = do {
     b2 \<leftarrow> get_byte m 2;
     b3 \<leftarrow> get_byte m 3;
     Some (be16 b2 b3)
   }"

definition cec_msg_routing_change ::
  "cec_msg \<Rightarrow> c_int \<Rightarrow> u16 \<Rightarrow> u16 \<Rightarrow> cec_msg option" where
  "cec_msg_routing_change m reply orig_phys_addr new_phys_addr = do {
     let m = m\<lparr>cm_len := 6\<rparr>;
     m \<leftarrow> or_byte m 0 0xf;
     m \<leftarrow> put_byte m 1 CEC_MSG_ROUTING_CHANGE;
     m \<leftarrow> put_byte m 2 (hi8 orig_phys_addr);
     m \<leftarrow> put_byte m 3 (lo8 orig_phys_addr);
     m \<leftarrow> put_byte m 4 (hi8 new_phys_addr);
     m \<leftarrow> put_byte m 5 (lo8 new_phys_addr);
     let m = m\<lparr>cm_reply := if reply \<noteq> 0 then CEC_MSG_ROUTING_INFORMATION else
       0\<rparr>;
     Some m
   }"

definition cec_ops_routing_change :: "cec_msg \<Rightarrow> (u16 \<times> u16) option" where
  "cec_ops_routing_change m = do {
     b2 \<leftarrow> get_byte m 2;
     b3 \<leftarrow> get_byte m 3;
     b4 \<leftarrow> get_byte m 4;
     b5 \<leftarrow> get_byte m 5;
     Some (be16 b2 b3, be16 b4 b5)
   }"

definition cec_msg_set_stream_path ::
  "cec_msg \<Rightarrow> u16 \<Rightarrow> cec_msg option" where
  "cec_msg_set_stream_path m phys_addr = do {
     let m = m\<lparr>cm_len := 4\<rparr>;
     m \<leftarrow> or_byte m 0 0xf;
     m \<leftarrow> put_byte m 1 CEC_MSG_SET_STREAM_PATH;
     m \<leftarrow> put_byte m 2 (hi8 phys_addr);
     m \<leftarrow> put_byte m 3 (lo8 phys_addr);
     Some m
   }"

definition cec_ops_set_stream_path :: "cec_msg \<Rightarrow> u16 option" where
  "cec_ops_set_stream_path m = do {
     b2 \<leftarrow> get_byte m 2;
     b3 \<leftarrow> get_byte m 3;
     Some (be16 b2 b3)
   }"

definition cec_msg_standby :: "cec_msg \<Rightarrow> cec_msg option" where
  "cec_msg_standby m = do {
     let m = m\<lparr>cm_len := 2\<rparr>;
     m \<leftarrow> put_byte m 1 CEC_MSG_STANDBY;
     Some m
   }"

section \<open>The codec contract\<close>

interpretation active_source: cec_codec
  "\<lambda>m phys_addr. cec_msg_active_source m phys_addr"
  "\<lambda>_. True" CEC_MSG_ACTIVE_SOURCE
  "\<lambda>_. Frame 4 True None"
  "\<lambda>_. True" cec_ops_active_source
  by unfold_locales
    (auto simp: cec_msg_active_source_def cec_ops_active_source_def msg_simps cec_framed_def)

interpretation image_view_on: cec_encoder
  "\<lambda>m (_ :: unit). cec_msg_image_view_on m"
  "\<lambda>_. True" CEC_MSG_IMAGE_VIEW_ON
  "\<lambda>_. Frame 2 False None"
  by unfold_locales
    (auto simp: cec_msg_image_view_on_def msg_simps cec_framed_def)

interpretation text_view_on: cec_encoder
  "\<lambda>m (_ :: unit). cec_msg_text_view_on m"
  "\<lambda>_. True" CEC_MSG_TEXT_VIEW_ON
  "\<lambda>_. Frame 2 False None"
  by unfold_locales
    (auto simp: cec_msg_text_view_on_def msg_simps cec_framed_def)

interpretation inactive_source: cec_codec
  "\<lambda>m phys_addr. cec_msg_inactive_source m phys_addr"
  "\<lambda>_. True" CEC_MSG_INACTIVE_SOURCE
  "\<lambda>_. Frame 4 False None"
  "\<lambda>_. True" cec_ops_inactive_source
  by unfold_locales
    (auto simp: cec_msg_inactive_source_def cec_ops_inactive_source_def msg_simps cec_framed_def)

interpretation request_active_source: cec_encoder
  "\<lambda>m (_ :: unit). cec_msg_request_active_source m reply"
  "\<lambda>_. True" CEC_MSG_REQUEST_ACTIVE_SOURCE
  "\<lambda>_. Frame 2 True (when_reply reply CEC_MSG_ACTIVE_SOURCE)"
  for reply
  by unfold_locales
    (auto simp: cec_msg_request_active_source_def msg_simps cec_framed_def)

interpretation routing_information: cec_codec
  "\<lambda>m phys_addr. cec_msg_routing_information m phys_addr"
  "\<lambda>_. True" CEC_MSG_ROUTING_INFORMATION
  "\<lambda>_. Frame 4 True None"
  "\<lambda>_. True" cec_ops_routing_information
  by unfold_locales
    (auto simp: cec_msg_routing_information_def cec_ops_routing_information_def msg_simps
      cec_framed_def)

interpretation routing_change: cec_codec
  "\<lambda>m (orig_phys_addr, new_phys_addr). cec_msg_routing_change m reply orig_phys_addr
     new_phys_addr"
  "\<lambda>_. True" CEC_MSG_ROUTING_CHANGE
  "\<lambda>_. Frame 6 True (when_reply reply CEC_MSG_ROUTING_INFORMATION)"
  "\<lambda>_. True" cec_ops_routing_change
  for reply
  by unfold_locales
    (auto simp: cec_msg_routing_change_def cec_ops_routing_change_def msg_simps cec_framed_def)

interpretation set_stream_path: cec_codec
  "\<lambda>m phys_addr. cec_msg_set_stream_path m phys_addr"
  "\<lambda>_. True" CEC_MSG_SET_STREAM_PATH
  "\<lambda>_. Frame 4 True None"
  "\<lambda>_. True" cec_ops_set_stream_path
  by unfold_locales
    (auto simp: cec_msg_set_stream_path_def cec_ops_set_stream_path_def msg_simps cec_framed_def)

interpretation standby: cec_encoder
  "\<lambda>m (_ :: unit). cec_msg_standby m"
  "\<lambda>_. True" CEC_MSG_STANDBY
  "\<lambda>_. Frame 2 False None"
  by unfold_locales
    (auto simp: cec_msg_standby_def msg_simps cec_framed_def)

section \<open>The feature\<close>

datatype routing_cmd =
    Active_Source u16
  | Image_View_On
  | Text_View_On
  | Inactive_Source u16
  | Request_Active_Source
  | Routing_Information u16
  | Routing_Change "u16 \<times> u16"
  | Set_Stream_Path u16
  | Standby

fun routing_encode :: "c_int \<Rightarrow> cec_msg \<Rightarrow> routing_cmd \<Rightarrow> cec_msg option" where
  "routing_encode reply m (Active_Source phys_addr) = cec_msg_active_source m phys_addr"
| "routing_encode reply m Image_View_On = cec_msg_image_view_on m"
| "routing_encode reply m Text_View_On = cec_msg_text_view_on m"
| "routing_encode reply m (Inactive_Source phys_addr) = cec_msg_inactive_source m phys_addr"
| "routing_encode reply m Request_Active_Source = cec_msg_request_active_source m reply"
| "routing_encode reply m (Routing_Information phys_addr) = cec_msg_routing_information m phys_addr"
| "routing_encode reply m (Routing_Change x) =
     (case x of (orig_phys_addr, new_phys_addr) \<Rightarrow> cec_msg_routing_change m reply
        orig_phys_addr new_phys_addr)"
| "routing_encode reply m (Set_Stream_Path phys_addr) = cec_msg_set_stream_path m phys_addr"
| "routing_encode reply m Standby = cec_msg_standby m"

fun routing_opcode :: "routing_cmd \<Rightarrow> u8" where
  "routing_opcode (Active_Source _) = CEC_MSG_ACTIVE_SOURCE"
| "routing_opcode Image_View_On = CEC_MSG_IMAGE_VIEW_ON"
| "routing_opcode Text_View_On = CEC_MSG_TEXT_VIEW_ON"
| "routing_opcode (Inactive_Source _) = CEC_MSG_INACTIVE_SOURCE"
| "routing_opcode Request_Active_Source = CEC_MSG_REQUEST_ACTIVE_SOURCE"
| "routing_opcode (Routing_Information _) = CEC_MSG_ROUTING_INFORMATION"
| "routing_opcode (Routing_Change _) = CEC_MSG_ROUTING_CHANGE"
| "routing_opcode (Set_Stream_Path _) = CEC_MSG_SET_STREAM_PATH"
| "routing_opcode Standby = CEC_MSG_STANDBY"

text \<open>The frames: the length, whether it is a broadcast, and the reply waited for.\<close>

fun routing_frame :: "c_int \<Rightarrow> routing_cmd \<Rightarrow> msg_frame" where
  "routing_frame reply (Active_Source _) = Frame 4 True None"
| "routing_frame reply Image_View_On = Frame 2 False None"
| "routing_frame reply Text_View_On = Frame 2 False None"
| "routing_frame reply (Inactive_Source _) = Frame 4 False None"
| "routing_frame reply Request_Active_Source = Frame 2 True (when_reply reply CEC_MSG_ACTIVE_SOURCE)"
| "routing_frame reply (Routing_Information _) = Frame 4 True None"
| "routing_frame reply (Routing_Change _) = Frame 6 True (when_reply reply CEC_MSG_ROUTING_INFORMATION)"
| "routing_frame reply (Set_Stream_Path _) = Frame 4 True None"
| "routing_frame reply Standby = Frame 2 False None"

fun routing_ok :: "routing_cmd \<Rightarrow> bool" where
  "routing_ok _ \<longleftrightarrow> True"

definition routing_decode :: "u8 \<Rightarrow> cec_msg \<Rightarrow> routing_cmd option" where
  "routing_decode opc m =
     (if opc = CEC_MSG_ACTIVE_SOURCE then map_option Active_Source (cec_ops_active_source m)
      else if opc = CEC_MSG_IMAGE_VIEW_ON then Some Image_View_On
      else if opc = CEC_MSG_TEXT_VIEW_ON then Some Text_View_On
      else if opc = CEC_MSG_INACTIVE_SOURCE then map_option Inactive_Source (cec_ops_inactive_source m)
      else if opc = CEC_MSG_REQUEST_ACTIVE_SOURCE then Some Request_Active_Source
      else if opc = CEC_MSG_ROUTING_INFORMATION
        then map_option Routing_Information (cec_ops_routing_information m)
      else if opc = CEC_MSG_ROUTING_CHANGE then map_option Routing_Change (cec_ops_routing_change m)
      else if opc = CEC_MSG_SET_STREAM_PATH then map_option Set_Stream_Path (cec_ops_set_stream_path m)
      else if opc = CEC_MSG_STANDBY then Some Standby
      else None)"

definition routing_opcodes :: "u8 list" where
  "routing_opcodes = [CEC_MSG_ACTIVE_SOURCE, CEC_MSG_IMAGE_VIEW_ON, CEC_MSG_TEXT_VIEW_ON,
     CEC_MSG_INACTIVE_SOURCE, CEC_MSG_REQUEST_ACTIVE_SOURCE, CEC_MSG_ROUTING_INFORMATION,
     CEC_MSG_ROUTING_CHANGE, CEC_MSG_SET_STREAM_PATH, CEC_MSG_STANDBY]"

lemmas routing_facts =
  active_source.ok_emits active_source.dec_enc
  image_view_on.enc_emits image_view_on.enc_total
  text_view_on.enc_emits text_view_on.enc_total
  inactive_source.ok_emits inactive_source.dec_enc
  request_active_source.enc_emits request_active_source.enc_total
  routing_information.ok_emits routing_information.dec_enc
  routing_change.ok_emits routing_change.dec_enc
  set_stream_path.ok_emits set_stream_path.dec_enc
  standby.enc_emits standby.enc_total

interpretation routing: cec_dispatch "routing_encode reply" routing_ok routing_opcode
  "routing_frame reply" id routing_decode routing_opcodes
  for reply
proof unfold_locales
  fix m c opc
  show "cec_emits (routing_opcode c) (routing_frame reply c) m (routing_encode reply m c)" if "wf_msg m" "routing_ok c"
    using that by (cases c) (simp_all add: routing_facts)
  show "Option.bind (routing_encode reply m c) (\<lambda>m'. routing_decode (routing_opcode c) m') = Some (id c)"
    if "wf_msg m" "routing_ok c"
    using that by (cases c) (simp_all add: routing_decode_def routing_facts cec_code)
  show "routing_opcode c \<in> set routing_opcodes"
    by (cases c) (simp_all add: routing_opcodes_def)
  show "routing_decode opc m = None" if "opc \<notin> set routing_opcodes"
    using that by (simp add: routing_decode_def routing_opcodes_def)
qed

end
