(* ===== verification/Cec_Service.thy ===== *)
theory Cec_Service
  imports Cec_Codec
begin

text \<open>
  Service identification, shared by the record, timer and tuner messages of
  \<^verbatim>\<open>cec-funcs.h\<close>: \<^verbatim>\<open>struct cec_op_digital_service_id\<close> with its union of four views, and
  \<^verbatim>\<open>cec_set_digital_service_id\<close>, \<^verbatim>\<open>cec_get_digital_service_id\<close>.

  The structure is its eight bytes: the method at offset 0, the broadcast system at 1 and
  the union at 2 (\<^verbatim>\<open>arib\<close> and \<^verbatim>\<open>dvb\<close>: three 16-bit members; \<^verbatim>\<open>atsc\<close>: two; \<^verbatim>\<open>channel\<close>: a byte,
  a padding byte and two 16-bit members). The pointer \<^verbatim>\<open>__u8 *msg\<close> is an offset \<open>p\<close> into the
  message bytes.
\<close>

section \<open>The structure\<close>

type_synonym cec_op_digital_service_id = "u8 list"

definition wf_digital :: "cec_op_digital_service_id \<Rightarrow> bool" where
  "wf_digital d \<longleftrightarrow> length d = 8"

definition service_id_method :: "cec_op_digital_service_id \<Rightarrow> u8 option" where
  "service_id_method d = rd d 0"

definition dig_bcast_system :: "cec_op_digital_service_id \<Rightarrow> u8 option" where
  "dig_bcast_system d = rd d 1"

definition dvb_transport_id :: "endian \<Rightarrow> cec_op_digital_service_id \<Rightarrow> u16 option" where
  "dvb_transport_id e d = ld16 e d 2"

definition dvb_service_id :: "endian \<Rightarrow> cec_op_digital_service_id \<Rightarrow> u16 option" where
  "dvb_service_id e d = ld16 e d 4"

definition dvb_orig_network_id :: "endian \<Rightarrow> cec_op_digital_service_id \<Rightarrow> u16 option" where
  "dvb_orig_network_id e d = ld16 e d 6"

definition atsc_transport_id :: "endian \<Rightarrow> cec_op_digital_service_id \<Rightarrow> u16 option" where
  "atsc_transport_id e d = ld16 e d 2"

definition atsc_program_number :: "endian \<Rightarrow> cec_op_digital_service_id \<Rightarrow> u16 option" where
  "atsc_program_number e d = ld16 e d 4"

definition channel_number_fmt :: "cec_op_digital_service_id \<Rightarrow> u8 option" where
  "channel_number_fmt d = rd d 2"

definition channel_major :: "endian \<Rightarrow> cec_op_digital_service_id \<Rightarrow> u16 option" where
  "channel_major e d = ld16 e d 4"

definition channel_minor :: "endian \<Rightarrow> cec_op_digital_service_id \<Rightarrow> u16 option" where
  "channel_minor e d = ld16 e d 6"

lemmas digital_access = service_id_method_def dig_bcast_system_def dvb_transport_id_def
  dvb_service_id_def dvb_orig_network_id_def atsc_transport_id_def atsc_program_number_def
  channel_number_fmt_def channel_major_def channel_minor_def ld16_def st16_def

section \<open>Encoding and decoding\<close>

definition is_atsc :: "u8 \<Rightarrow> bool" where
  "is_atsc sys \<longleftrightarrow> sys = CEC_OP_DIG_SERVICE_BCAST_SYSTEM_ATSC_GEN
     \<or> sys = CEC_OP_DIG_SERVICE_BCAST_SYSTEM_ATSC_CABLE
     \<or> sys = CEC_OP_DIG_SERVICE_BCAST_SYSTEM_ATSC_SAT
     \<or> sys = CEC_OP_DIG_SERVICE_BCAST_SYSTEM_ATSC_T"

text \<open>
  A channel identifier on the wire: the number format in the top six bits of the first byte
  and the upper bits of the major number below them, then the lower eight bits. The same
  expressions occur in \<^verbatim>\<open>cec_msg_user_control_pressed\<close> and its decoder.
\<close>

definition pack_channel :: "u8 \<Rightarrow> u16 \<Rightarrow> u8" where
  "pack_channel fmt major = u8_of (push_bit 2 (promote fmt) OR drop_bit 8 (promote16 major))"

definition unpack_fmt :: "u8 \<Rightarrow> u8" where
  "unpack_fmt b = u8_of (drop_bit 2 (promote b))"

definition unpack_major :: "u8 \<Rightarrow> u8 \<Rightarrow> u16" where
  "unpack_major b c = u16_of (push_bit 6 (promote b AND 3) OR promote c)"

definition cec_set_digital_service_id ::
  "endian \<Rightarrow> cec_msg \<Rightarrow> nat \<Rightarrow> cec_op_digital_service_id \<Rightarrow> cec_msg option" where
  "cec_set_digital_service_id e m p digital = do {
     meth \<leftarrow> service_id_method digital;
     sys \<leftarrow> dig_bcast_system digital;
     m \<leftarrow> put_byte m p (u8_of (push_bit 7 (promote meth) OR promote sys));
     if meth = CEC_OP_SERVICE_ID_METHOD_BY_CHANNEL then do {
       fmt \<leftarrow> channel_number_fmt digital;
       major \<leftarrow> channel_major e digital;
       minor \<leftarrow> channel_minor e digital;
       m \<leftarrow> put_byte m (p + 1) (pack_channel fmt major);
       m \<leftarrow> put_byte m (p + 2) (lo8 major);
       m \<leftarrow> put_byte m (p + 3) (hi8 minor);
       m \<leftarrow> put_byte m (p + 4) (lo8 minor);
       m \<leftarrow> put_byte m (p + 5) 0;
       put_byte m (p + 6) 0
     } else if is_atsc sys then do {
       transport_id \<leftarrow> atsc_transport_id e digital;
       program_number \<leftarrow> atsc_program_number e digital;
       m \<leftarrow> put_byte m (p + 1) (hi8 transport_id);
       m \<leftarrow> put_byte m (p + 2) (lo8 transport_id);
       m \<leftarrow> put_byte m (p + 3) (hi8 program_number);
       m \<leftarrow> put_byte m (p + 4) (lo8 program_number);
       m \<leftarrow> put_byte m (p + 5) 0;
       put_byte m (p + 6) 0
     } else do {
       transport_id \<leftarrow> dvb_transport_id e digital;
       service_id \<leftarrow> dvb_service_id e digital;
       orig_network_id \<leftarrow> dvb_orig_network_id e digital;
       m \<leftarrow> put_byte m (p + 1) (hi8 transport_id);
       m \<leftarrow> put_byte m (p + 2) (lo8 transport_id);
       m \<leftarrow> put_byte m (p + 3) (hi8 service_id);
       m \<leftarrow> put_byte m (p + 4) (lo8 service_id);
       m \<leftarrow> put_byte m (p + 5) (hi8 orig_network_id);
       put_byte m (p + 6) (lo8 orig_network_id)
     }
   }"

definition cec_get_digital_service_id ::
  "endian \<Rightarrow> cec_msg \<Rightarrow> nat \<Rightarrow> cec_op_digital_service_id \<Rightarrow> cec_op_digital_service_id option" where
  "cec_get_digital_service_id e m p digital = do {
     b0 \<leftarrow> get_byte m p;
     let meth = u8_of (drop_bit 7 (promote b0));
     digital \<leftarrow> wr digital 0 meth;
     digital \<leftarrow> wr digital 1 (u8_of (promote b0 AND 0x7f));
     b1 \<leftarrow> get_byte m (p + 1);
     b2 \<leftarrow> get_byte m (p + 2);
     b3 \<leftarrow> get_byte m (p + 3);
     b4 \<leftarrow> get_byte m (p + 4);
     if meth = CEC_OP_SERVICE_ID_METHOD_BY_CHANNEL then do {
       digital \<leftarrow> wr digital 2 (unpack_fmt b1);
       digital \<leftarrow> st16 e digital 4 (unpack_major b1 b2);
       st16 e digital 6 (be16 b3 b4)
     } else do {
       b5 \<leftarrow> get_byte m (p + 5);
       b6 \<leftarrow> get_byte m (p + 6);
       digital \<leftarrow> st16 e digital 2 (be16 b1 b2);
       digital \<leftarrow> st16 e digital 4 (be16 b3 b4);
       st16 e digital 6 (be16 b5 b6)
     }
   }"

section \<open>What a service identifier says\<close>

text \<open>
  The abstract content of the structure: either three numbers (transport, service or
  program, original network) or a channel number; \<open>view_digital\<close> reads it off the bytes and
  \<open>mk_digital\<close> builds a structure that has it.
\<close>

datatype service =
    By_Dig_Id u8 u16 u16 u16
  | By_Channel u8 u8 u16 u16

fun mk_digital :: "endian \<Rightarrow> service \<Rightarrow> cec_op_digital_service_id" where
  "mk_digital e (By_Dig_Id sys ts sv nw) =
     [CEC_OP_SERVICE_ID_METHOD_BY_DIG_ID, sys] @ bytes16 e ts @ bytes16 e sv @ bytes16 e nw"
| "mk_digital e (By_Channel sys fmt major minor) =
     [CEC_OP_SERVICE_ID_METHOD_BY_CHANNEL, sys, fmt, 0] @ bytes16 e major @ bytes16 e minor"

definition view_digital :: "endian \<Rightarrow> cec_op_digital_service_id \<Rightarrow> service option" where
  "view_digital e d = do {
     meth \<leftarrow> service_id_method d;
     sys \<leftarrow> dig_bcast_system d;
     if meth = CEC_OP_SERVICE_ID_METHOD_BY_CHANNEL then do {
       fmt \<leftarrow> channel_number_fmt d;
       major \<leftarrow> channel_major e d;
       minor \<leftarrow> channel_minor e d;
       Some (By_Channel sys fmt major minor)
     } else do {
       ts \<leftarrow> dvb_transport_id e d;
       sv \<leftarrow> dvb_service_id e d;
       nw \<leftarrow> dvb_orig_network_id e d;
       Some (By_Dig_Id sys ts sv nw)
     }
   }"

text \<open>
  The services that fit a message: the system in seven bits, the number format in six and the
  major channel number in ten.
\<close>

fun service_ok :: "service \<Rightarrow> bool" where
  "service_ok (By_Dig_Id sys ts sv nw) \<longleftrightarrow> fits 7 sys"
| "service_ok (By_Channel sys fmt major minor) \<longleftrightarrow> fits 7 sys \<and> fits 6 fmt \<and> fits 10 major"

text \<open>
  What a receiver makes of a service that fits. ATSC services have no network number, so none is
  sent. The two upper bits of the major channel number are shifted by six instead of eight
  when they are put back, and land on bits 6 and 7 of the lower byte.
\<close>

definition received_major :: "u16 \<Rightarrow> u16" where
  "received_major major = take_bit 8 major OR push_bit 6 (take_bit 2 (drop_bit 8 major))"

fun service_received :: "service \<Rightarrow> service" where
  "service_received (By_Dig_Id sys ts sv nw) = By_Dig_Id sys ts sv (if is_atsc sys then 0 else nw)"
| "service_received (By_Channel sys fmt major minor) = By_Channel sys fmt (received_major major) minor"

lemma length_mk_digital [simp]: "length (mk_digital e s) = 8"
  by (cases s) simp_all

lemma view_mk_digital: "view_digital e (mk_digital e s) = Some s"
  by (cases s; cases e)
    (simp_all add: view_digital_def digital_access mem_simps bytes16_def cec_code)

section \<open>Frame and round trip\<close>

lemma wf_digital_rd:
  "wf_digital d \<Longrightarrow> i < 8 \<Longrightarrow> rd d i = Some (d ! i)"
  by (simp add: wf_digital_def mem_simps)

text \<open>
  On any structure of eight bytes the encoder writes the seven bytes at \<open>p\<close> and nothing
  else; it needs \<open>p + 6\<close> to be inside the message.
\<close>

lemma set_digital_frame:
  assumes "wf_msg m" "p + 6 < 16" "wf_digital d"
  shows "\<exists>bs. cec_set_digital_service_id e m p d = Some (m\<lparr>cm_msg := bs\<rparr>) \<and> length bs = 16
    \<and> (\<forall>i. i < p \<or> p + 6 < i \<longrightarrow> bs ! i = cm_msg m ! i)"
  using assms
  by (auto simp add: cec_set_digital_service_id_def digital_access msg_simps wf_digital_rd)

lemma bit_pack_channel:
  "bit (pack_channel fmt major) n \<longleftrightarrow> n < 8 \<and> (2 \<le> n \<and> bit fmt (n - 2) \<or> bit major (n + 8))"
  by (auto simp add: pack_channel_def u8_of_def promote_def promote16_def bit_simps ac_simps
      dest: bit_imp_le_length)

lemma bit_unpack_major:
  "bit (unpack_major b c) n \<longleftrightarrow> (6 \<le> n \<and> n < 8 \<and> bit b (n - 6)) \<or> bit c n"
proof -
  have "promote b AND 3 = take_bit 2 (promote b)" by (simp add: take_bit_eq_mask mask_numeral)
  then have eq: "unpack_major b c = u16_of (push_bit 6 (take_bit 2 (promote b)) OR promote c)"
    by (simp only: unpack_major_def)
  show ?thesis
    unfolding eq
    by (auto simp add: u16_of_def promote_def bit_simps less_diff_conv2 dest: bit_imp_le_length)
qed

lemma unpack_fmt_pack:
  assumes "fits 6 fmt" "fits 10 major"
  shows "unpack_fmt (pack_channel fmt major) = fmt"
proof (rule bit_word_eqI)
  fix n assume "n < LENGTH(8)"
  have "\<not> bit fmt n" if "\<not> n < 6" using assms(1) that by (simp add: fits_bits not_less)
  moreover have "\<not> bit major (10 + n)" using assms(2) by (simp add: fits_bits)
  ultimately show "bit (unpack_fmt (pack_channel fmt major)) n \<longleftrightarrow> bit fmt n"
    by (auto simp add: unpack_fmt_def c_conv bit_drop_bit_eq bit_pack_channel)
qed

text \<open>
  The decoder shifts the two upper bits of the major number by six instead of eight: they
  land on bits 6 and 7. It gives a major number back exactly when it is below 256.
\<close>

lemma fits_unpack_major: "fits 8 (unpack_major b c)"
  by (auto simp add: fits_bits bit_unpack_major dest: bit_imp_le_length)

lemma bit_received_major:
  "bit (received_major major) n \<longleftrightarrow> n < 8 \<and> (bit major n \<or> 6 \<le> n \<and> bit major (n + 2))"
  by (auto simp add: received_major_def bit_simps less_diff_conv2 dest: bit_imp_le_length)

lemma unpack_major_received: "unpack_major (pack_channel fmt major) (lo8 major) = received_major major"
  by (rule bit_word_eqI)
    (auto simp add: bit_unpack_major bit_pack_channel bit_lo8 bit_received_major)

lemma received_major_iff: "received_major major = major \<longleftrightarrow> fits 8 major"
proof
  assume "received_major major = major"
  then show "fits 8 major" using fits_unpack_major unpack_major_received by metis
next
  assume "fits 8 major"
  then show "received_major major = major"
    by (intro bit_word_eqI) (auto simp add: bit_received_major fits_bits not_le)
qed

text \<open>
  So a service is received as it was sent exactly when it has no network number beside an ATSC
  system and no major channel number above 255.
\<close>

lemma service_received_iff:
  "service_received s = s \<longleftrightarrow>
    (case s of By_Dig_Id sys ts sv nw \<Rightarrow> is_atsc sys \<longrightarrow> nw = 0
     | By_Channel sys fmt major minor \<Rightarrow> fits 8 major)"
  by (cases s) (auto simp add: received_major_iff)

lemma method_fields:
  "fits 7 sys \<Longrightarrow> drop_bit 7 (sys :: u8) = 0" "fits 7 sys \<Longrightarrow> take_bit 7 sys = sys"
  "fits 7 sys \<Longrightarrow> drop_bit 7 (push_bit 7 1 OR sys) = 1"
  "fits 7 sys \<Longrightarrow> take_bit 7 (push_bit 7 1 OR sys) = sys"
  using drop_bit_high_field [of 7 sys "1 :: u8"] take_bit_low_field [of 7 sys "1 :: u8"]
  by (simp_all add: fits_def fits_take_bit)

lemma get_set_digital:
  assumes m: "wf_msg m" "p + 6 < 16" and d0: "wf_digital d0" and ok: "service_ok s"
  shows "do {
      m' \<leftarrow> cec_set_digital_service_id e m p (mk_digital e s);
      d \<leftarrow> cec_get_digital_service_id e m' p d0;
      view_digital e d
    } = Some (service_received s)"
proof (cases s)
  case (By_Dig_Id sys ts sv nw)
  with ok have sys: "fits 7 sys" by simp
  have z: "be16 0 0 = 0" by (simp add: be16_def promote_def u16_of_def)
  show ?thesis using m d0 z
    by (cases e)
      (auto simp add: By_Dig_Id cec_set_digital_service_id_def cec_get_digital_service_id_def
        view_digital_def digital_access msg_simps wf_digital_def bytes16_def cec_code c_conv
        method_fields [OF sys])
next
  case (By_Channel sys fmt major minor)
  with ok have sys: "fits 7 sys" and ch: "unpack_fmt (pack_channel fmt major) = fmt"
    by (simp_all add: unpack_fmt_pack)
  show ?thesis using m d0
    by (cases e)
      (auto simp add: By_Channel cec_set_digital_service_id_def cec_get_digital_service_id_def
        view_digital_def digital_access msg_simps wf_digital_def bytes16_def cec_code c_conv
        method_fields [OF sys] ch unpack_major_received)
qed

text \<open>The decoder looks at the message bytes only, so later changes to other members do not matter.\<close>

lemma get_byte_cong: "cm_msg n = cm_msg m \<Longrightarrow> get_byte n = get_byte m"
  for n m :: cec_msg
  by (rule ext) (simp add: get_byte_def)

lemma get_digital_cong:
  fixes n m :: cec_msg
  assumes "cm_msg n = cm_msg m"
  shows "cec_get_digital_service_id e n p d = cec_get_digital_service_id e m p d"
  by (simp only: cec_get_digital_service_id_def get_byte_cong [OF assms])

section \<open>The wire form\<close>

text \<open>
  The seven bytes on the bus, which do not depend on the byte order of the host, and the
  two facts the messages that embed a service identifier use: the encoder splices them in
  at \<open>p\<close>, and a decoder that finds them at \<open>p\<close> recovers the service.
\<close>

fun service_wire :: "service \<Rightarrow> u8 list" where
  "service_wire (By_Dig_Id sys ts sv nw) = [sys, hi8 ts, lo8 ts, hi8 sv, lo8 sv]
     @ (if is_atsc sys then [0, 0] else [hi8 nw, lo8 nw])"
| "service_wire (By_Channel sys fmt major minor) =
     [0x80 OR sys, pack_channel fmt major, lo8 major, hi8 minor, lo8 minor, 0, 0]"

lemma length_service_wire [simp]: "length (service_wire s) = 7"
  by (cases s) simp_all

lemma splice7:
  assumes "p + 7 \<le> length bs"
  shows "bs[p := a, Suc p := b, Suc (Suc p) := c, p + 3 := d, p + 4 := f, p + 5 := g, p + 6 := h] =
    take p bs @ a # b # c # d # f # g # h # drop (p + 7) bs"
proof -
  define xs ys where "xs = take p bs" and "ys = drop p bs"
  have bs: "bs = xs @ ys" and xs: "length xs = p" using assms by (simp_all add: xs_def ys_def)
  have "Suc (Suc (Suc (Suc (Suc (Suc (Suc 0)))))) \<le> length ys" using assms by (simp add: ys_def)
  then obtain y1 y2 y3 y4 y5 y6 y7 zs where ys: "ys = y1 # y2 # y3 # y4 # y5 # y6 # y7 # zs"
    by (auto simp only: Suc_le_length_iff)
  show ?thesis unfolding bs ys using xs by (simp add: list_update_append numeral_eq_Suc)
qed

lemma set_digital_wire:
  assumes "wf_msg m" "p + 6 < 16"
  shows "cec_set_digital_service_id e m p (mk_digital e s) =
    Some (m\<lparr>cm_msg := take p (cm_msg m) @ service_wire s @ drop (p + 7) (cm_msg m)\<rparr>)"
proof -
  have len: "p + 7 \<le> length (cm_msg m)" using assms by (simp add: msg_simps)
  show ?thesis
  proof (cases s)
    case (By_Dig_Id sys ts sv nw)
    show ?thesis
      unfolding By_Dig_Id using assms
      by (cases "is_atsc sys"; cases e)
        (simp_all add: cec_set_digital_service_id_def digital_access msg_simps bytes16_def cec_code
          c_conv splice7 [OF len])
  next
    case (By_Channel sys fmt major minor)
    show ?thesis
      unfolding By_Channel using assms
      by (cases e)
        (simp_all add: cec_set_digital_service_id_def digital_access msg_simps bytes16_def cec_code
          c_conv splice7 [OF len])
  qed
qed

lemma get_digital_wire:
  assumes "cm_msg n = bs" "bs = take p cs @ service_wire s @ zs" "length cs = 16" "length zs = 9 - p"
    "p + 6 < 16" "service_ok s" "wf_digital d"
  shows "Option.bind (cec_get_digital_service_id e n p d) (view_digital e) = Some (service_received s)"
proof -
  define m where "m = n\<lparr>cm_msg := bs\<rparr>"
  have m: "wf_msg m" "drop (p + 7) (cm_msg m) = zs" "take p (cm_msg m) = take p cs"
    using assms by (simp_all add: m_def msg_simps)
  have "cec_set_digital_service_id e m p (mk_digital e s) = Some (m\<lparr>cm_msg := bs\<rparr>)"
    using set_digital_wire [OF m(1) assms(5)] m(2,3) assms(2) by simp
  then have "Option.bind (cec_get_digital_service_id e (m\<lparr>cm_msg := bs\<rparr>) p d) (view_digital e)
      = Some (service_received s)"
    using get_set_digital [OF m(1) assms(5,7,6), of e] by simp
  moreover have "cec_get_digital_service_id e n p d
      = cec_get_digital_service_id e (m\<lparr>cm_msg := bs\<rparr>) p d"
    by (rule get_digital_cong) (simp add: assms(1))
  ultimately show ?thesis by simp
qed

section \<open>Properties\<close>

text \<open>
  A digital service identifier that is encoded into a message is decoded as \<open>service_received\<close>
  says, on hosts of either byte order, whatever the receiver's structure held before.
\<close>

theorem digital_service_roundtrip:
  assumes "wf_msg m" "p + 6 < 16" "wf_digital d0" "service_ok s"
  shows "do {
      m' \<leftarrow> cec_set_digital_service_id e m p (mk_digital e s);
      d \<leftarrow> cec_get_digital_service_id e' m' p d0;
      view_digital e' d
    } = Some (service_received s)"
proof -
  have "cec_set_digital_service_id e m p (mk_digital e s) =
      cec_set_digital_service_id e' m p (mk_digital e' s)"
    using assms(1,2) by (simp only: set_digital_wire)
  then show ?thesis using get_set_digital [OF assms, of e'] by simp
qed

theorem digital_service_roundtrip_witness:
  "do {
     m' \<leftarrow> cec_set_digital_service_id Little zero_msg 9
       (mk_digital Little (By_Dig_Id 0x18 0x0434 0x1b67 0x0001));
     d \<leftarrow> cec_get_digital_service_id Big m' 9 (replicate 8 0xff);
     view_digital Big d
   } = Some (By_Dig_Id 0x18 0x0434 0x1b67 0x0001)"
  using digital_service_roundtrip [of zero_msg 9 "replicate 8 0xff"
      "By_Dig_Id 0x18 0x0434 0x1b67 0x0001" Little Big]
  by (simp add: wf_digital_def fits_def is_atsc_def cec_code)

text \<open>
  \<^verbatim>\<open>cec_get_digital_service_id\<close> shifts the upper two bits of the major channel number by six
  instead of eight, so a channel identifier survives the round trip exactly when its major number
  is below 256, although the message has ten bits for it.
\<close>

theorem channel_major_lost:
  assumes "wf_msg m" "p + 6 < 16" "wf_digital d0" "fits 7 sys" "fits 6 fmt" "fits 10 major"
  shows "do {
      m' \<leftarrow> cec_set_digital_service_id e m p (mk_digital e (By_Channel sys fmt major minor));
      d \<leftarrow> cec_get_digital_service_id e m' p d0;
      view_digital e d
    } = Some (By_Channel sys fmt major minor) \<longleftrightarrow> major < 256"
proof -
  have ch: "unpack_fmt (pack_channel fmt major) = fmt"
    "unpack_major (pack_channel fmt major) (lo8 major) = major \<longleftrightarrow> fits 8 major"
    using assms(5,6) by (simp_all add: unpack_fmt_pack unpack_major_received received_major_iff)
  have "fits 8 major \<longleftrightarrow> major < 256" by (simp add: fits_iff_less)
  then show ?thesis
    using assms(1-3)
    by (cases e)
      (auto simp add: cec_set_digital_service_id_def cec_get_digital_service_id_def
        view_digital_def digital_access msg_simps wf_digital_def bytes16_def cec_code c_conv
        method_fields [OF assms(4)] ch)
qed

theorem channel_major_lost_witness:
  "do {
     m' \<leftarrow> cec_set_digital_service_id Little zero_msg 3 (mk_digital Little (By_Channel 0 1 512 7));
     d \<leftarrow> cec_get_digital_service_id Little m' 3 (replicate 8 0);
     view_digital Little d
   } \<noteq> Some (By_Channel 0 1 512 7)"
proof -
  have "wf_msg zero_msg" "(3 :: nat) + 6 < 16" "wf_digital (replicate 8 0)" "fits 7 (0 :: u8)"
    "fits 6 (1 :: u8)" "fits 10 (512 :: u16)" by (simp_all add: wf_digital_def fits_def)
  from channel_major_lost [OF this, of Little 7] show ?thesis by simp
qed

end
