(* ===== verification/Cec_Record.thy ===== *)
theory Cec_Record
  imports Cec_Service
begin

text \<open>
  The feature \<^verbatim>\<open>One Touch Record\<close> of \<^verbatim>\<open>cec-funcs.h\<close>. The record source is a tagged union:
  \<^verbatim>\<open>cec_msg_record_on\<close> and \<^verbatim>\<open>cec_ops_record_on\<close> select the member by its type, so the round trip
  is stated on the content of the union, as the receiver reads it back.
\<close>

record cec_op_record_src =
  rs_type :: u8
  rs_un :: "u8 list"

definition wf_record_src :: "cec_op_record_src \<Rightarrow> bool" where
  "wf_record_src src \<longleftrightarrow> length (rs_un src) = 8"

section \<open>Messages\<close>

definition cec_msg_record_off :: "cec_msg \<Rightarrow> c_int \<Rightarrow> cec_msg option" where
  "cec_msg_record_off m reply = do {
     let m = m\<lparr>cm_len := 2\<rparr>;
     m \<leftarrow> put_byte m 1 CEC_MSG_RECORD_OFF;
     let m = m\<lparr>cm_reply := if reply \<noteq> 0 then CEC_MSG_RECORD_STATUS else 0\<rparr>;
     Some m
   }"

definition cec_msg_record_on_own :: "cec_msg \<Rightarrow> cec_msg option" where
  "cec_msg_record_on_own m = do {
     let m = m\<lparr>cm_len := 3\<rparr>;
     m \<leftarrow> put_byte m 1 CEC_MSG_RECORD_ON;
     m \<leftarrow> put_byte m 2 CEC_OP_RECORD_SRC_OWN;
     Some m
   }"

definition cec_msg_record_on_digital ::
  "endian \<Rightarrow> cec_msg \<Rightarrow> cec_op_digital_service_id \<Rightarrow> cec_msg option" where
  "cec_msg_record_on_digital e m digital = do {
     let m = m\<lparr>cm_len := 10\<rparr>;
     m \<leftarrow> put_byte m 1 CEC_MSG_RECORD_ON;
     m \<leftarrow> put_byte m 2 CEC_OP_RECORD_SRC_DIGITAL;
     cec_set_digital_service_id e m 3 digital
   }"

definition cec_msg_record_on_analog ::
  "cec_msg \<Rightarrow> u8 \<Rightarrow> u16 \<Rightarrow> u8 \<Rightarrow> cec_msg option" where
  "cec_msg_record_on_analog m ana_bcast_type ana_freq bcast_system = do {
     let m = m\<lparr>cm_len := 7\<rparr>;
     m \<leftarrow> put_byte m 1 CEC_MSG_RECORD_ON;
     m \<leftarrow> put_byte m 2 CEC_OP_RECORD_SRC_ANALOG;
     m \<leftarrow> put_byte m 3 ana_bcast_type;
     m \<leftarrow> put_byte m 4 (hi8 ana_freq);
     m \<leftarrow> put_byte m 5 (lo8 ana_freq);
     m \<leftarrow> put_byte m 6 bcast_system;
     Some m
   }"

definition cec_msg_record_on_plug :: "cec_msg \<Rightarrow> u8 \<Rightarrow> cec_msg option" where
  "cec_msg_record_on_plug m plug = do {
     let m = m\<lparr>cm_len := 4\<rparr>;
     m \<leftarrow> put_byte m 1 CEC_MSG_RECORD_ON;
     m \<leftarrow> put_byte m 2 CEC_OP_RECORD_SRC_EXT_PLUG;
     m \<leftarrow> put_byte m 3 plug;
     Some m
   }"

definition cec_msg_record_on_phys_addr ::
  "cec_msg \<Rightarrow> u16 \<Rightarrow> cec_msg option" where
  "cec_msg_record_on_phys_addr m phys_addr = do {
     let m = m\<lparr>cm_len := 5\<rparr>;
     m \<leftarrow> put_byte m 1 CEC_MSG_RECORD_ON;
     m \<leftarrow> put_byte m 2 CEC_OP_RECORD_SRC_EXT_PHYS_ADDR;
     m \<leftarrow> put_byte m 3 (hi8 phys_addr);
     m \<leftarrow> put_byte m 4 (lo8 phys_addr);
     Some m
   }"

definition cec_msg_record_on ::
  "endian \<Rightarrow> cec_msg \<Rightarrow> c_int \<Rightarrow> cec_op_record_src \<Rightarrow> cec_msg option" where
  "cec_msg_record_on e m reply rec_src = do {
     m \<leftarrow> (if rs_type rec_src = CEC_OP_RECORD_SRC_OWN then cec_msg_record_on_own m
          else if rs_type rec_src = CEC_OP_RECORD_SRC_DIGITAL then
            cec_msg_record_on_digital e m (rs_un rec_src)
          else if rs_type rec_src = CEC_OP_RECORD_SRC_ANALOG then do {
            ana_bcast_type \<leftarrow> rd (rs_un rec_src) 0;
            ana_freq \<leftarrow> ld16 e (rs_un rec_src) 2;
            bcast_system \<leftarrow> rd (rs_un rec_src) 4;
            cec_msg_record_on_analog m ana_bcast_type ana_freq bcast_system
          }
          else if rs_type rec_src = CEC_OP_RECORD_SRC_EXT_PLUG then do {
            plug \<leftarrow> rd (rs_un rec_src) 0;
            cec_msg_record_on_plug m plug
          }
          else if rs_type rec_src = CEC_OP_RECORD_SRC_EXT_PHYS_ADDR then do {
            phys_addr \<leftarrow> ld16 e (rs_un rec_src) 0;
            cec_msg_record_on_phys_addr m phys_addr
          }
          else Some m);
     Some (m\<lparr>cm_reply := if reply \<noteq> 0 then CEC_MSG_RECORD_STATUS else 0\<rparr>)
   }"

definition cec_ops_record_on ::
  "endian \<Rightarrow> cec_msg \<Rightarrow> cec_op_record_src \<Rightarrow> cec_op_record_src option" where
  "cec_ops_record_on e m rec_src = do {
     b2 \<leftarrow> get_byte m 2;
     let rec_src = rec_src\<lparr>rs_type := b2\<rparr>;
     if b2 = CEC_OP_RECORD_SRC_OWN then Some rec_src
     else if b2 = CEC_OP_RECORD_SRC_DIGITAL then do {
       un \<leftarrow> cec_get_digital_service_id e m 3 (rs_un rec_src);
       Some (rec_src\<lparr>rs_un := un\<rparr>)
     }
     else if b2 = CEC_OP_RECORD_SRC_ANALOG then do {
       b3 \<leftarrow> get_byte m 3;
       b4 \<leftarrow> get_byte m 4;
       b5 \<leftarrow> get_byte m 5;
       b6 \<leftarrow> get_byte m 6;
       un \<leftarrow> wr (rs_un rec_src) 0 b3;
       un \<leftarrow> st16 e un 2 (be16 b4 b5);
       un \<leftarrow> wr un 4 b6;
       Some (rec_src\<lparr>rs_un := un\<rparr>)
     }
     else if b2 = CEC_OP_RECORD_SRC_EXT_PLUG then do {
       b3 \<leftarrow> get_byte m 3;
       un \<leftarrow> wr (rs_un rec_src) 0 b3;
       Some (rec_src\<lparr>rs_un := un\<rparr>)
     }
     else if b2 = CEC_OP_RECORD_SRC_EXT_PHYS_ADDR then do {
       b3 \<leftarrow> get_byte m 3;
       b4 \<leftarrow> get_byte m 4;
       un \<leftarrow> st16 e (rs_un rec_src) 0 (be16 b3 b4);
       Some (rec_src\<lparr>rs_un := un\<rparr>)
     }
     else Some rec_src
   }"

definition cec_msg_record_status :: "cec_msg \<Rightarrow> u8 \<Rightarrow> cec_msg option" where
  "cec_msg_record_status m rec_status = do {
     let m = m\<lparr>cm_len := 3\<rparr>;
     m \<leftarrow> put_byte m 1 CEC_MSG_RECORD_STATUS;
     m \<leftarrow> put_byte m 2 rec_status;
     Some m
   }"

definition cec_ops_record_status :: "cec_msg \<Rightarrow> u8 option" where
  "cec_ops_record_status m = do {
     b2 \<leftarrow> get_byte m 2;
     Some b2
   }"

definition cec_msg_record_tv_screen ::
  "cec_msg \<Rightarrow> c_int \<Rightarrow> cec_msg option" where
  "cec_msg_record_tv_screen m reply = do {
     let m = m\<lparr>cm_len := 2\<rparr>;
     m \<leftarrow> put_byte m 1 CEC_MSG_RECORD_TV_SCREEN;
     let m = m\<lparr>cm_reply := if reply \<noteq> 0 then CEC_MSG_RECORD_ON else 0\<rparr>;
     Some m
   }"

section \<open>Record sources\<close>

text \<open>The content of a \<^verbatim>\<open>struct cec_op_record_src\<close>, one alternative per type the code knows.\<close>

datatype rec_source =
    Src_Own
  | Src_Digital service
  | Src_Analog u8 u16 u8
  | Src_Ext_Plug u8
  | Src_Ext_Phys_Addr u16

fun mk_record_src :: "endian \<Rightarrow> rec_source \<Rightarrow> cec_op_record_src" where
  "mk_record_src e Src_Own = \<lparr>rs_type = CEC_OP_RECORD_SRC_OWN, rs_un = replicate 8 0\<rparr>"
| "mk_record_src e (Src_Digital s) =
     \<lparr>rs_type = CEC_OP_RECORD_SRC_DIGITAL, rs_un = mk_digital e s\<rparr>"
| "mk_record_src e (Src_Analog ty freq sys) =
     \<lparr>rs_type = CEC_OP_RECORD_SRC_ANALOG, rs_un = [ty, 0] @ bytes16 e freq @ [sys, 0, 0, 0]\<rparr>"
| "mk_record_src e (Src_Ext_Plug plug) =
     \<lparr>rs_type = CEC_OP_RECORD_SRC_EXT_PLUG, rs_un = plug # replicate 7 0\<rparr>"
| "mk_record_src e (Src_Ext_Phys_Addr pa) =
     \<lparr>rs_type = CEC_OP_RECORD_SRC_EXT_PHYS_ADDR, rs_un = bytes16 e pa @ replicate 6 0\<rparr>"

definition view_record_src :: "endian \<Rightarrow> cec_op_record_src \<Rightarrow> rec_source option" where
  "view_record_src e src =
     (if rs_type src = CEC_OP_RECORD_SRC_OWN then Some Src_Own
      else if rs_type src = CEC_OP_RECORD_SRC_DIGITAL then
        map_option Src_Digital (view_digital e (rs_un src))
      else if rs_type src = CEC_OP_RECORD_SRC_ANALOG then do {
        ty \<leftarrow> rd (rs_un src) 0;
        freq \<leftarrow> ld16 e (rs_un src) 2;
        sys \<leftarrow> rd (rs_un src) 4;
        Some (Src_Analog ty freq sys)
      }
      else if rs_type src = CEC_OP_RECORD_SRC_EXT_PLUG then map_option Src_Ext_Plug (rd (rs_un src) 0)
      else if rs_type src = CEC_OP_RECORD_SRC_EXT_PHYS_ADDR then
        map_option Src_Ext_Phys_Addr (ld16 e (rs_un src) 0)
      else None)"

fun rec_source_ok :: "rec_source \<Rightarrow> bool" where
  "rec_source_ok (Src_Digital s) \<longleftrightarrow> service_ok s"
| "rec_source_ok _ \<longleftrightarrow> True"

text \<open>What a receiver makes of a source: a digital service as \<open>service_received\<close> says.\<close>

fun rec_source_received :: "rec_source \<Rightarrow> rec_source" where
  "rec_source_received (Src_Digital s) = Src_Digital (service_received s)"
| "rec_source_received src = src"

fun record_on_len :: "rec_source \<Rightarrow> u32" where
  "record_on_len Src_Own = 3"
| "record_on_len (Src_Digital _) = 10"
| "record_on_len (Src_Analog _ _ _) = 7"
| "record_on_len (Src_Ext_Plug _) = 4"
| "record_on_len (Src_Ext_Phys_Addr _) = 5"

definition blank_record_src :: cec_op_record_src where
  "blank_record_src = \<lparr>rs_type = 0, rs_un = replicate 8 0\<rparr>"

lemma wf_blank_record_src [simp]: "wf_record_src blank_record_src"
  by (simp add: wf_record_src_def blank_record_src_def)

lemmas record_on_defs = cec_msg_record_on_def cec_msg_record_on_own_def
  cec_msg_record_on_digital_def cec_msg_record_on_analog_def cec_msg_record_on_plug_def
  cec_msg_record_on_phys_addr_def

lemma record_on_digital_eq:
  "wf_msg m \<Longrightarrow> cec_msg_record_on e m reply (mk_record_src e (Src_Digital s)) =
    Some (m\<lparr>cm_len := 10,
      cm_msg := take 3 ((cm_msg m)[Suc 0 := CEC_MSG_RECORD_ON, 2 := CEC_OP_RECORD_SRC_DIGITAL])
        @ service_wire s @ drop 10 (cm_msg m),
      cm_reply := if reply \<noteq> 0 then CEC_MSG_RECORD_STATUS else 0\<rparr>)"
  by (simp add: record_on_defs msg_simps cec_code set_digital_wire)

lemma record_on_framed:
  assumes "wf_msg m"
  shows "\<exists>m'. cec_msg_record_on e m reply (mk_record_src e src) = Some m' \<and>
    cec_framed CEC_MSG_RECORD_ON
      (Frame (record_on_len src) False (when_reply reply CEC_MSG_RECORD_STATUS)) m m'"
proof (cases src)
  case (Src_Digital s)
  with assms show ?thesis
    by (simp only: record_on_digital_eq) (simp add: cec_framed_def msg_simps nth_append)
qed (use assms in \<open>cases e; simp add: record_on_defs msg_simps cec_framed_def cec_code ld16_def
  bytes16_def\<close>)+

lemma record_on_received:
  assumes "wf_msg m" "rec_source_ok src" "wf_record_src src0"
  shows "do {
      m' \<leftarrow> cec_msg_record_on e m reply (mk_record_src e src);
      src' \<leftarrow> cec_ops_record_on e m' src0;
      view_record_src e src'
    } = Some (rec_source_received src)"
proof (cases src)
  case (Src_Digital s)
  define m' where "m' = the (cec_msg_record_on e m reply (mk_record_src e (Src_Digital s)))"
  have m': "cec_msg_record_on e m reply (mk_record_src e (Src_Digital s)) = Some m'"
    using assms(1) by (simp only: m'_def record_on_digital_eq option.sel)
  have bytes: "cm_msg m' =
      take 3 ((cm_msg m)[Suc 0 := CEC_MSG_RECORD_ON, 2 := CEC_OP_RECORD_SRC_DIGITAL])
      @ service_wire s @ drop 10 (cm_msg m)"
    unfolding m'_def record_on_digital_eq [OF assms(1)] by simp
  have "Option.bind (cec_get_digital_service_id e m' 3 (rs_un src0)) (view_digital e)
      = Some (service_received s)"
    by (rule get_digital_wire [OF refl bytes])
      (use assms Src_Digital in \<open>simp_all add: msg_simps wf_digital_def wf_record_src_def\<close>)
  moreover have "cm_msg m' ! 2 = CEC_OP_RECORD_SRC_DIGITAL" "length (cm_msg m') = 16"
    using assms(1) by (simp_all add: bytes msg_simps nth_append)
  ultimately show ?thesis using m' Src_Digital
    by (auto simp add: cec_ops_record_on_def view_record_src_def msg_simps cec_code
        split: Option.bind_splits)
qed (use assms in \<open>cases e; simp add: record_on_defs cec_ops_record_on_def view_record_src_def
  msg_simps cec_code ld16_def st16_def bytes16_def wf_record_src_def\<close>)+

section \<open>The codec contract\<close>

interpretation record_off: cec_encoder
  "\<lambda>m (_ :: unit). cec_msg_record_off m reply"
  "\<lambda>_. True" CEC_MSG_RECORD_OFF
  "\<lambda>_. Frame 2 False (when_reply reply CEC_MSG_RECORD_STATUS)"
  for reply
  by unfold_locales
    (auto simp: cec_msg_record_off_def msg_simps cec_framed_def)

interpretation record_on: cec_receiver
  "\<lambda>m src. cec_msg_record_on e m reply (mk_record_src e src)"
  "\<lambda>_. True" CEC_MSG_RECORD_ON
  "\<lambda>src. Frame (record_on_len src) False (when_reply reply CEC_MSG_RECORD_STATUS)"
  rec_source_ok rec_source_received "\<lambda>m. Option.bind (cec_ops_record_on e m blank_record_src) (view_record_src e)"
  for e reply
  by unfold_locales (simp_all add: record_on_framed record_on_received)

interpretation record_status: cec_codec
  "\<lambda>m rec_status. cec_msg_record_status m rec_status"
  "\<lambda>_. True" CEC_MSG_RECORD_STATUS
  "\<lambda>_. Frame 3 False None"
  "\<lambda>_. True" cec_ops_record_status
  by unfold_locales
    (auto simp: cec_msg_record_status_def cec_ops_record_status_def msg_simps cec_framed_def)

interpretation record_tv_screen: cec_encoder
  "\<lambda>m (_ :: unit). cec_msg_record_tv_screen m reply"
  "\<lambda>_. True" CEC_MSG_RECORD_TV_SCREEN
  "\<lambda>_. Frame 2 False (when_reply reply CEC_MSG_RECORD_ON)"
  for reply
  by unfold_locales
    (auto simp: cec_msg_record_tv_screen_def msg_simps cec_framed_def)

section \<open>The feature\<close>

datatype recording_cmd =
    Record_Off
  | Record_On rec_source
  | Record_Status u8
  | Record_Tv_Screen

fun recording_encode :: "endian \<Rightarrow> c_int \<Rightarrow> cec_msg \<Rightarrow> recording_cmd \<Rightarrow> cec_msg option" where
  "recording_encode e reply m Record_Off = cec_msg_record_off m reply"
| "recording_encode e reply m (Record_On src) = cec_msg_record_on e m reply (mk_record_src e src)"
| "recording_encode e reply m (Record_Status rec_status) = cec_msg_record_status m rec_status"
| "recording_encode e reply m Record_Tv_Screen = cec_msg_record_tv_screen m reply"

fun recording_opcode :: "recording_cmd \<Rightarrow> u8" where
  "recording_opcode Record_Off = CEC_MSG_RECORD_OFF"
| "recording_opcode (Record_On _) = CEC_MSG_RECORD_ON"
| "recording_opcode (Record_Status _) = CEC_MSG_RECORD_STATUS"
| "recording_opcode Record_Tv_Screen = CEC_MSG_RECORD_TV_SCREEN"

text \<open>The frames: the length, whether it is a broadcast, and the reply waited for.\<close>

fun recording_frame :: "c_int \<Rightarrow> recording_cmd \<Rightarrow> msg_frame" where
  "recording_frame reply Record_Off = Frame 2 False (when_reply reply CEC_MSG_RECORD_STATUS)"
| "recording_frame reply (Record_On src) = Frame (record_on_len src) False (when_reply reply CEC_MSG_RECORD_STATUS)"
| "recording_frame reply (Record_Status _) = Frame 3 False None"
| "recording_frame reply Record_Tv_Screen = Frame 2 False (when_reply reply CEC_MSG_RECORD_ON)"

fun recording_ok :: "recording_cmd \<Rightarrow> bool" where
  "recording_ok (Record_On src) \<longleftrightarrow> rec_source_ok src"
| "recording_ok _ \<longleftrightarrow> True"

fun recording_received :: "recording_cmd \<Rightarrow> recording_cmd" where
  "recording_received (Record_On src) = Record_On (rec_source_received src)"
| "recording_received c = c"

definition recording_decode :: "endian \<Rightarrow> u8 \<Rightarrow> cec_msg \<Rightarrow> recording_cmd option" where
  "recording_decode e opc m =
     (if opc = CEC_MSG_RECORD_OFF then Some Record_Off
      else if opc = CEC_MSG_RECORD_ON
        then map_option Record_On (Option.bind (cec_ops_record_on e m blank_record_src) (view_record_src e))
      else if opc = CEC_MSG_RECORD_STATUS then map_option Record_Status (cec_ops_record_status m)
      else if opc = CEC_MSG_RECORD_TV_SCREEN then Some Record_Tv_Screen
      else None)"

definition recording_opcodes :: "u8 list" where
  "recording_opcodes = [CEC_MSG_RECORD_OFF, CEC_MSG_RECORD_ON, CEC_MSG_RECORD_STATUS,
     CEC_MSG_RECORD_TV_SCREEN]"

lemmas recording_facts =
  record_off.enc_emits record_off.enc_total
  record_on.ok_emits record_on.dec_recv
  record_status.ok_emits record_status.dec_enc
  record_tv_screen.enc_emits record_tv_screen.enc_total

interpretation recording: cec_dispatch "recording_encode e reply" recording_ok recording_opcode
  "recording_frame reply" recording_received "recording_decode e" recording_opcodes
  for e reply
proof unfold_locales
  fix m c opc
  show "cec_emits (recording_opcode c) (recording_frame reply c) m (recording_encode e reply m c)" if "wf_msg m" "recording_ok c"
    using that by (cases c) (simp_all add: recording_facts)
  show "Option.bind (recording_encode e reply m c) (\<lambda>m'. recording_decode e (recording_opcode c) m') =
      Some (recording_received c)"
    if "wf_msg m" "recording_ok c"
    using that by (cases c) (simp_all add: recording_decode_def recording_facts cec_code)
  show "recording_opcode c \<in> set recording_opcodes"
    by (cases c) (simp_all add: recording_opcodes_def)
  show "recording_decode e opc m = None" if "opc \<notin> set recording_opcodes"
    using that by (simp add: recording_decode_def recording_opcodes_def)
qed

end
