(* ===== verification/Cec_Timer.thy ===== *)
theory Cec_Timer
  imports Cec_Service
begin

text \<open>
  The feature \<^verbatim>\<open>Timer Programming\<close> of \<^verbatim>\<open>cec-funcs.h\<close>: timer status, the six messages that set and
  clear timers, and program titles. Times travel in BCD, so the round trip covers values below 160.
\<close>

section \<open>Messages\<close>

text \<open>The duration bytes are present for two of the program infos and one of the errors.\<close>

definition timer_has_duration :: "u8 \<Rightarrow> u8 \<Rightarrow> bool" where
  "timer_has_duration prog_info prog_error \<longleftrightarrow>
     prog_info = CEC_OP_PROG_INFO_NOT_ENOUGH_SPACE \<or>
     prog_info = CEC_OP_PROG_INFO_MIGHT_NOT_BE_ENOUGH_SPACE \<or>
     prog_error = CEC_OP_PROG_ERROR_DUPLICATE"

definition cec_msg_timer_status ::
  "cec_msg \<Rightarrow> u8 \<Rightarrow> u8 \<Rightarrow> u8 \<Rightarrow> u8 \<Rightarrow> u8 \<Rightarrow> u8 \<Rightarrow> cec_msg option" where
  "cec_msg_timer_status m timer_overlap_warning media_info prog_info prog_error
      duration_hr duration_min = do {
     let m = m\<lparr>cm_len := 3\<rparr>;
     m \<leftarrow> put_byte m 1 CEC_MSG_TIMER_STATUS;
     m \<leftarrow> put_byte m 2 (u8_of (push_bit 7 (promote timer_overlap_warning) OR
       push_bit 5 (promote media_info) OR (if prog_info \<noteq> 0 then 0x10 else 0) OR
       (if prog_info \<noteq> 0 then promote prog_info else promote prog_error)));
     if timer_has_duration prog_info prog_error then do {
       let m = m\<lparr>cm_len := cm_len m + 2\<rparr>;
       m \<leftarrow> put_byte m 3 (to_bcd duration_hr);
       put_byte m 4 (to_bcd duration_min)
     } else Some m
   }"

definition cec_ops_timer_status ::
  "cec_msg \<Rightarrow> (u8 \<times> u8 \<times> u8 \<times> u8 \<times> u8 \<times> u8) option" where
  "cec_ops_timer_status m = do {
     b2 \<leftarrow> get_byte m 2;
     let timer_overlap_warning = u8_of (drop_bit 7 (promote b2));
     let media_info = u8_of (drop_bit 5 (promote b2) AND 3);
     let (prog_info, prog_error) =
       (if promote b2 AND 0x10 \<noteq> 0 then (u8_of (promote b2 AND 0xf), 0)
        else (0, u8_of (promote b2 AND 0xf)));
     if timer_has_duration prog_info prog_error then do {
       b3 \<leftarrow> get_byte m 3;
       b4 \<leftarrow> get_byte m 4;
       Some (timer_overlap_warning, media_info, prog_info, prog_error, from_bcd b3, from_bcd b4)
     } else Some (timer_overlap_warning, media_info, prog_info, prog_error, 0, 0)
   }"

definition cec_msg_timer_cleared_status ::
  "cec_msg \<Rightarrow> u8 \<Rightarrow> cec_msg option" where
  "cec_msg_timer_cleared_status m timer_cleared_status = do {
     let m = m\<lparr>cm_len := 3\<rparr>;
     m \<leftarrow> put_byte m 1 CEC_MSG_TIMER_CLEARED_STATUS;
     m \<leftarrow> put_byte m 2 timer_cleared_status;
     Some m
   }"

definition cec_ops_timer_cleared_status :: "cec_msg \<Rightarrow> u8 option" where
  "cec_ops_timer_cleared_status m = do {
     b2 \<leftarrow> get_byte m 2;
     Some b2
   }"

definition cec_msg_clear_analogue_timer ::
  "cec_msg \<Rightarrow> c_int \<Rightarrow> u8 \<Rightarrow> u8 \<Rightarrow> u8 \<Rightarrow> u8 \<Rightarrow> u8 \<Rightarrow> u8 \<Rightarrow> u8 \<Rightarrow> u8 \<Rightarrow> u16 \<Rightarrow>
    u8 \<Rightarrow> cec_msg option" where
  "cec_msg_clear_analogue_timer m reply day month start_hr start_min duration_hr duration_min
      recording_seq ana_bcast_type ana_freq bcast_system = do {
     let m = m\<lparr>cm_len := 13\<rparr>;
     m \<leftarrow> put_byte m 1 CEC_MSG_CLEAR_ANALOGUE_TIMER;
     m \<leftarrow> put_byte m 2 day;
     m \<leftarrow> put_byte m 3 month;
     m \<leftarrow> put_byte m 4 (to_bcd start_hr);
     m \<leftarrow> put_byte m 5 (to_bcd start_min);
     m \<leftarrow> put_byte m 6 (to_bcd duration_hr);
     m \<leftarrow> put_byte m 7 (to_bcd duration_min);
     m \<leftarrow> put_byte m 8 recording_seq;
     m \<leftarrow> put_byte m 9 ana_bcast_type;
     m \<leftarrow> put_byte m 10 (hi8 ana_freq);
     m \<leftarrow> put_byte m 11 (lo8 ana_freq);
     m \<leftarrow> put_byte m 12 bcast_system;
     let m = m\<lparr>cm_reply := if reply \<noteq> 0 then CEC_MSG_TIMER_CLEARED_STATUS else
       0\<rparr>;
     Some m
   }"

definition cec_ops_clear_analogue_timer ::
  "cec_msg \<Rightarrow>
    (u8 \<times> u8 \<times> u8 \<times> u8 \<times> u8 \<times> u8 \<times> u8 \<times> u8 \<times> u16 \<times> u8) option" where
  "cec_ops_clear_analogue_timer m = do {
     b2 \<leftarrow> get_byte m 2;
     b3 \<leftarrow> get_byte m 3;
     b4 \<leftarrow> get_byte m 4;
     b5 \<leftarrow> get_byte m 5;
     b6 \<leftarrow> get_byte m 6;
     b7 \<leftarrow> get_byte m 7;
     b8 \<leftarrow> get_byte m 8;
     b9 \<leftarrow> get_byte m 9;
     b10 \<leftarrow> get_byte m 10;
     b11 \<leftarrow> get_byte m 11;
     b12 \<leftarrow> get_byte m 12;
     Some (b2, b3, from_bcd b4, from_bcd b5, from_bcd b6, from_bcd b7, b8, b9, be16 b10 b11, b12)
   }"

definition cec_msg_clear_digital_timer ::
  "endian \<Rightarrow> cec_msg \<Rightarrow> c_int \<Rightarrow> u8 \<Rightarrow> u8 \<Rightarrow> u8 \<Rightarrow> u8 \<Rightarrow> u8 \<Rightarrow> u8 \<Rightarrow> u8 \<Rightarrow>
    cec_op_digital_service_id \<Rightarrow> cec_msg option" where
  "cec_msg_clear_digital_timer e m reply day month start_hr start_min duration_hr duration_min
      recording_seq digital = do {
     let m = m\<lparr>cm_len := 16\<rparr>;
     let m = m\<lparr>cm_reply := if reply \<noteq> 0 then CEC_MSG_TIMER_CLEARED_STATUS else 0\<rparr>;
     m \<leftarrow> put_byte m 1 CEC_MSG_CLEAR_DIGITAL_TIMER;
     m \<leftarrow> put_byte m 2 day;
     m \<leftarrow> put_byte m 3 month;
     m \<leftarrow> put_byte m 4 (to_bcd start_hr);
     m \<leftarrow> put_byte m 5 (to_bcd start_min);
     m \<leftarrow> put_byte m 6 (to_bcd duration_hr);
     m \<leftarrow> put_byte m 7 (to_bcd duration_min);
     m \<leftarrow> put_byte m 8 recording_seq;
     cec_set_digital_service_id e m 9 digital
   }"

definition cec_ops_clear_digital_timer ::
  "endian \<Rightarrow> cec_msg \<Rightarrow> cec_op_digital_service_id \<Rightarrow>
    (u8 \<times> u8 \<times> u8 \<times> u8 \<times> u8 \<times> u8 \<times> u8 \<times> cec_op_digital_service_id) option" where
  "cec_ops_clear_digital_timer e m digital = do {
     b2 \<leftarrow> get_byte m 2;
     b3 \<leftarrow> get_byte m 3;
     b4 \<leftarrow> get_byte m 4;
     b5 \<leftarrow> get_byte m 5;
     b6 \<leftarrow> get_byte m 6;
     b7 \<leftarrow> get_byte m 7;
     b8 \<leftarrow> get_byte m 8;
     digital \<leftarrow> cec_get_digital_service_id e m 9 digital;
     Some (b2, b3, from_bcd b4, from_bcd b5, from_bcd b6, from_bcd b7, b8, digital)
   }"

definition cec_msg_clear_ext_timer ::
  "cec_msg \<Rightarrow> c_int \<Rightarrow> u8 \<Rightarrow> u8 \<Rightarrow> u8 \<Rightarrow> u8 \<Rightarrow> u8 \<Rightarrow> u8 \<Rightarrow> u8 \<Rightarrow> u8 \<Rightarrow> u8 \<Rightarrow>
    u16 \<Rightarrow> cec_msg option" where
  "cec_msg_clear_ext_timer m reply day month start_hr start_min duration_hr duration_min
      recording_seq ext_src_spec plug phys_addr = do {
     let m = m\<lparr>cm_len := 13\<rparr>;
     m \<leftarrow> put_byte m 1 CEC_MSG_CLEAR_EXT_TIMER;
     m \<leftarrow> put_byte m 2 day;
     m \<leftarrow> put_byte m 3 month;
     m \<leftarrow> put_byte m 4 (to_bcd start_hr);
     m \<leftarrow> put_byte m 5 (to_bcd start_min);
     m \<leftarrow> put_byte m 6 (to_bcd duration_hr);
     m \<leftarrow> put_byte m 7 (to_bcd duration_min);
     m \<leftarrow> put_byte m 8 recording_seq;
     m \<leftarrow> put_byte m 9 ext_src_spec;
     m \<leftarrow> put_byte m 10 plug;
     m \<leftarrow> put_byte m 11 (hi8 phys_addr);
     m \<leftarrow> put_byte m 12 (lo8 phys_addr);
     let m = m\<lparr>cm_reply := if reply \<noteq> 0 then CEC_MSG_TIMER_CLEARED_STATUS else
       0\<rparr>;
     Some m
   }"

definition cec_ops_clear_ext_timer ::
  "cec_msg \<Rightarrow>
    (u8 \<times> u8 \<times> u8 \<times> u8 \<times> u8 \<times> u8 \<times> u8 \<times> u8 \<times> u8 \<times> u16) option" where
  "cec_ops_clear_ext_timer m = do {
     b2 \<leftarrow> get_byte m 2;
     b3 \<leftarrow> get_byte m 3;
     b4 \<leftarrow> get_byte m 4;
     b5 \<leftarrow> get_byte m 5;
     b6 \<leftarrow> get_byte m 6;
     b7 \<leftarrow> get_byte m 7;
     b8 \<leftarrow> get_byte m 8;
     b9 \<leftarrow> get_byte m 9;
     b10 \<leftarrow> get_byte m 10;
     b11 \<leftarrow> get_byte m 11;
     b12 \<leftarrow> get_byte m 12;
     Some (b2, b3, from_bcd b4, from_bcd b5, from_bcd b6, from_bcd b7, b8, b9, b10, be16 b11 b12)
   }"

definition cec_msg_set_analogue_timer ::
  "cec_msg \<Rightarrow> c_int \<Rightarrow> u8 \<Rightarrow> u8 \<Rightarrow> u8 \<Rightarrow> u8 \<Rightarrow> u8 \<Rightarrow> u8 \<Rightarrow> u8 \<Rightarrow> u8 \<Rightarrow> u16 \<Rightarrow>
    u8 \<Rightarrow> cec_msg option" where
  "cec_msg_set_analogue_timer m reply day month start_hr start_min duration_hr duration_min
      recording_seq ana_bcast_type ana_freq bcast_system = do {
     let m = m\<lparr>cm_len := 13\<rparr>;
     m \<leftarrow> put_byte m 1 CEC_MSG_SET_ANALOGUE_TIMER;
     m \<leftarrow> put_byte m 2 day;
     m \<leftarrow> put_byte m 3 month;
     m \<leftarrow> put_byte m 4 (to_bcd start_hr);
     m \<leftarrow> put_byte m 5 (to_bcd start_min);
     m \<leftarrow> put_byte m 6 (to_bcd duration_hr);
     m \<leftarrow> put_byte m 7 (to_bcd duration_min);
     m \<leftarrow> put_byte m 8 recording_seq;
     m \<leftarrow> put_byte m 9 ana_bcast_type;
     m \<leftarrow> put_byte m 10 (hi8 ana_freq);
     m \<leftarrow> put_byte m 11 (lo8 ana_freq);
     m \<leftarrow> put_byte m 12 bcast_system;
     let m = m\<lparr>cm_reply := if reply \<noteq> 0 then CEC_MSG_TIMER_STATUS else 0\<rparr>;
     Some m
   }"

definition cec_ops_set_analogue_timer ::
  "cec_msg \<Rightarrow>
    (u8 \<times> u8 \<times> u8 \<times> u8 \<times> u8 \<times> u8 \<times> u8 \<times> u8 \<times> u16 \<times> u8) option" where
  "cec_ops_set_analogue_timer m = do {
     b2 \<leftarrow> get_byte m 2;
     b3 \<leftarrow> get_byte m 3;
     b4 \<leftarrow> get_byte m 4;
     b5 \<leftarrow> get_byte m 5;
     b6 \<leftarrow> get_byte m 6;
     b7 \<leftarrow> get_byte m 7;
     b8 \<leftarrow> get_byte m 8;
     b9 \<leftarrow> get_byte m 9;
     b10 \<leftarrow> get_byte m 10;
     b11 \<leftarrow> get_byte m 11;
     b12 \<leftarrow> get_byte m 12;
     Some (b2, b3, from_bcd b4, from_bcd b5, from_bcd b6, from_bcd b7, b8, b9, be16 b10 b11, b12)
   }"

definition cec_msg_set_digital_timer ::
  "endian \<Rightarrow> cec_msg \<Rightarrow> c_int \<Rightarrow> u8 \<Rightarrow> u8 \<Rightarrow> u8 \<Rightarrow> u8 \<Rightarrow> u8 \<Rightarrow> u8 \<Rightarrow> u8 \<Rightarrow>
    cec_op_digital_service_id \<Rightarrow> cec_msg option" where
  "cec_msg_set_digital_timer e m reply day month start_hr start_min duration_hr duration_min
      recording_seq digital = do {
     let m = m\<lparr>cm_len := 16\<rparr>;
     let m = m\<lparr>cm_reply := if reply \<noteq> 0 then CEC_MSG_TIMER_STATUS else 0\<rparr>;
     m \<leftarrow> put_byte m 1 CEC_MSG_SET_DIGITAL_TIMER;
     m \<leftarrow> put_byte m 2 day;
     m \<leftarrow> put_byte m 3 month;
     m \<leftarrow> put_byte m 4 (to_bcd start_hr);
     m \<leftarrow> put_byte m 5 (to_bcd start_min);
     m \<leftarrow> put_byte m 6 (to_bcd duration_hr);
     m \<leftarrow> put_byte m 7 (to_bcd duration_min);
     m \<leftarrow> put_byte m 8 recording_seq;
     cec_set_digital_service_id e m 9 digital
   }"

definition cec_ops_set_digital_timer ::
  "endian \<Rightarrow> cec_msg \<Rightarrow> cec_op_digital_service_id \<Rightarrow>
    (u8 \<times> u8 \<times> u8 \<times> u8 \<times> u8 \<times> u8 \<times> u8 \<times> cec_op_digital_service_id) option" where
  "cec_ops_set_digital_timer e m digital = do {
     b2 \<leftarrow> get_byte m 2;
     b3 \<leftarrow> get_byte m 3;
     b4 \<leftarrow> get_byte m 4;
     b5 \<leftarrow> get_byte m 5;
     b6 \<leftarrow> get_byte m 6;
     b7 \<leftarrow> get_byte m 7;
     b8 \<leftarrow> get_byte m 8;
     digital \<leftarrow> cec_get_digital_service_id e m 9 digital;
     Some (b2, b3, from_bcd b4, from_bcd b5, from_bcd b6, from_bcd b7, b8, digital)
   }"

definition cec_msg_set_ext_timer ::
  "cec_msg \<Rightarrow> c_int \<Rightarrow> u8 \<Rightarrow> u8 \<Rightarrow> u8 \<Rightarrow> u8 \<Rightarrow> u8 \<Rightarrow> u8 \<Rightarrow> u8 \<Rightarrow> u8 \<Rightarrow> u8 \<Rightarrow>
    u16 \<Rightarrow> cec_msg option" where
  "cec_msg_set_ext_timer m reply day month start_hr start_min duration_hr duration_min
      recording_seq ext_src_spec plug phys_addr = do {
     let m = m\<lparr>cm_len := 13\<rparr>;
     m \<leftarrow> put_byte m 1 CEC_MSG_SET_EXT_TIMER;
     m \<leftarrow> put_byte m 2 day;
     m \<leftarrow> put_byte m 3 month;
     m \<leftarrow> put_byte m 4 (to_bcd start_hr);
     m \<leftarrow> put_byte m 5 (to_bcd start_min);
     m \<leftarrow> put_byte m 6 (to_bcd duration_hr);
     m \<leftarrow> put_byte m 7 (to_bcd duration_min);
     m \<leftarrow> put_byte m 8 recording_seq;
     m \<leftarrow> put_byte m 9 ext_src_spec;
     m \<leftarrow> put_byte m 10 plug;
     m \<leftarrow> put_byte m 11 (hi8 phys_addr);
     m \<leftarrow> put_byte m 12 (lo8 phys_addr);
     let m = m\<lparr>cm_reply := if reply \<noteq> 0 then CEC_MSG_TIMER_STATUS else 0\<rparr>;
     Some m
   }"

definition cec_ops_set_ext_timer ::
  "cec_msg \<Rightarrow>
    (u8 \<times> u8 \<times> u8 \<times> u8 \<times> u8 \<times> u8 \<times> u8 \<times> u8 \<times> u8 \<times> u16) option" where
  "cec_ops_set_ext_timer m = do {
     b2 \<leftarrow> get_byte m 2;
     b3 \<leftarrow> get_byte m 3;
     b4 \<leftarrow> get_byte m 4;
     b5 \<leftarrow> get_byte m 5;
     b6 \<leftarrow> get_byte m 6;
     b7 \<leftarrow> get_byte m 7;
     b8 \<leftarrow> get_byte m 8;
     b9 \<leftarrow> get_byte m 9;
     b10 \<leftarrow> get_byte m 10;
     b11 \<leftarrow> get_byte m 11;
     b12 \<leftarrow> get_byte m 12;
     Some (b2, b3, from_bcd b4, from_bcd b5, from_bcd b6, from_bcd b7, b8, b9, b10, be16 b11 b12)
   }"

definition cec_msg_set_timer_program_title :: "cec_msg \<Rightarrow> u8 list \<Rightarrow> cec_msg option" where
  "cec_msg_set_timer_program_title m prog_title = do {
     n \<leftarrow> c_strlen prog_title;
     let len = clamp 14 (word_of_nat n :: u32);
     let m = m\<lparr>cm_len := 2 + len\<rparr>;
     m \<leftarrow> put_byte m 1 CEC_MSG_SET_TIMER_PROGRAM_TITLE;
     src \<leftarrow> rdn prog_title 0 (unat len);
     put_bytes m 2 src
   }"

definition cec_ops_set_timer_program_title :: "cec_msg \<Rightarrow> u8 list \<Rightarrow> u8 list option" where
  "cec_ops_set_timer_program_title m prog_title = do {
     let len = payload_size m 2;
     let len = clamp 14 len;
     src \<leftarrow> rdn (cm_msg m) 2 (unat len);
     prog_title \<leftarrow> wrn prog_title 0 src;
     wr prog_title (unat len) 0
   }"

section \<open>Timer status\<close>

text \<open>
  The status byte holds the overlap warning in bit 7, the media info in bits 5 and 6 and, in the
  low nibble, a program info (with bit 4 set) or an error.
\<close>

definition timer_status_ok :: "u8 \<times> u8 \<times> u8 \<times> u8 \<times> u8 \<times> u8 \<Rightarrow> bool" where
  "timer_status_ok = (\<lambda>(overlap, media, info, err, hr, mn).
     fits 1 overlap \<and> fits 2 media \<and> fits 4 info \<and> fits 4 err \<and> hr < 160 \<and> mn < 160)"

text \<open>
  A program info hides an error, and the receiver sees the duration only with the values of the
  two that say that there is one.
\<close>

definition timer_status_received :: "u8 \<times> u8 \<times> u8 \<times> u8 \<times> u8 \<times> u8 \<Rightarrow> u8 \<times> u8 \<times> u8 \<times> u8 \<times> u8 \<times> u8" where
  "timer_status_received = (\<lambda>(overlap, media, info, err, hr, mn).
     let err' = if info \<noteq> 0 then 0 else err in
     if timer_has_duration info err' then (overlap, media, info, err', hr, mn)
     else (overlap, media, info, err', 0, 0))"

lemma and_0x10_iff: "b AND 0x10 = 0 \<longleftrightarrow> \<not> bit (b :: u8) 4"
  using and_exp_eq_0_iff_not_bit [of b 4] by simp

lemma bit_16_int: "bit (16 :: int) n \<longleftrightarrow> n = 4"
proof -
  have eq: "(16 :: int) = 2 ^ 4" by simp
  show ?thesis unfolding eq bit_exp_iff by simp
qed

lemma status_byte:
  fixes ov me lo b :: u8
  assumes fits: "fits 1 ov" "fits 2 me" "fits 4 lo"
    and b: "b = push_bit 7 ov OR push_bit 5 me OR (if c then 0x10 else 0) OR lo"
  shows "drop_bit 7 b = ov" "take_bit 2 (drop_bit 5 b) = me" "b AND 0x10 = 0 \<longleftrightarrow> \<not> c"
    "take_bit 4 b = lo"
proof -
  note D = fits [THEN fits_bitD]
  show "drop_bit 7 b = ov"
    by (rule bit_word_eqI) (auto simp add: b bit_16_int bit_simps split: if_splits dest: D)
  show "take_bit 2 (drop_bit 5 b) = me"
    by (rule bit_word_eqI) (auto simp add: b bit_16_int bit_simps split: if_splits dest: D)
  show "b AND 0x10 = 0 \<longleftrightarrow> \<not> c"
    by (auto simp add: b bit_16_int and_0x10_iff bit_simps split: if_splits dest: D)
  show "take_bit 4 b = lo"
    by (rule bit_word_eqI) (auto simp add: b bit_16_int bit_simps split: if_splits dest: D)
qed

lemma timer_status_framed:
  assumes "wf_msg m"
  shows "\<exists>m'. cec_msg_timer_status m overlap media info err hr mn = Some m' \<and>
    cec_framed CEC_MSG_TIMER_STATUS
      (Frame (if timer_has_duration info err then 5 else 3) False None) m m'"
  using assms by (simp add: cec_msg_timer_status_def msg_simps cec_framed_def)

definition status_wire :: "u8 \<Rightarrow> u8 \<Rightarrow> u8 \<Rightarrow> u8 \<Rightarrow> u8" where
  "status_wire overlap media info err =
     push_bit 7 overlap OR push_bit 5 media OR (if info \<noteq> 0 then 0x10 else 0) OR (info OR err)"

lemma status_wire:
  "u8_of (push_bit 7 (promote overlap) OR push_bit 5 (promote media) OR
      (if info \<noteq> 0 then 0x10 else 0) OR (if info \<noteq> 0 then promote info else promote err)) =
    status_wire overlap media info (if info \<noteq> 0 then 0 else err)"
  by (auto simp add: status_wire_def c_conv)

lemma u8_of_and_not_0: "promote b AND 0x10 = 0 \<longleftrightarrow> b AND 0x10 = 0"
proof -
  have "promote b AND 0x10 = promote (b AND 0x10)"
    using promote_and [of b "0x10"] by (simp add: promote_def)
  then show ?thesis by (simp add: promote_eq_0_iff)
qed

lemma timer_status_eq:
  assumes "wf_msg m"
  shows "cec_msg_timer_status m overlap media info err hr mn =
    (let bs = (cm_msg m)[1 := CEC_MSG_TIMER_STATUS, 
        2 := status_wire overlap media info (if info \<noteq> 0 then 0 else err)]
     in Some (if timer_has_duration info err
       then m\<lparr>cm_len := 5, cm_msg := bs[3 := to_bcd hr, 4 := to_bcd mn]\<rparr>
       else m\<lparr>cm_len := 3, cm_msg := bs\<rparr>))"
  using assms by (simp add: cec_msg_timer_status_def status_wire msg_simps Let_def)

lemma timer_status_decoded:
  assumes m: "wf_msg m" and ok: "timer_status_ok (overlap, media, info, err, hr, mn)"
  shows "Option.bind (cec_msg_timer_status m overlap media info err hr mn) cec_ops_timer_status =
    Some (timer_status_received (overlap, media, info, err, hr, mn))"
proof -
  let ?err = "if info \<noteq> 0 then 0 else err"
  have fits: "fits 1 overlap" "fits 2 media" "fits 4 (info OR ?err)" and bcd: "hr < 160" "mn < 160"
    using ok by (auto simp add: timer_status_ok_def)
  note sb = status_byte [OF fits refl, of "info \<noteq> 0", folded status_wire_def]
  have "timer_has_duration info ?err \<Longrightarrow> timer_has_duration info err"
    by (auto simp add: timer_has_duration_def cec_code split: if_splits)
  then show ?thesis
    unfolding timer_status_eq [OF m]
    using m sb bcd
    by (cases "info = 0")
      (auto simp add: cec_ops_timer_status_def timer_status_received_def msg_simps Let_def
        u8_of_and_not_0 c_conv from_to_bcd split: if_splits)
qed

section \<open>Digital timers\<close>

text \<open>
  The two messages on digital timers differ in their opcode only; \<open>timer_bytes\<close> is their common
  head. The operands are a date, four times in BCD, a recording sequence and a service.
\<close>

definition timer_bytes ::
  "u8 \<Rightarrow> u8 list \<Rightarrow> u8 \<Rightarrow> u8 \<Rightarrow> u8 \<Rightarrow> u8 \<Rightarrow> u8 \<Rightarrow> u8 \<Rightarrow> u8 \<Rightarrow> u8 list" where
  "timer_bytes opc bs day month sh sm dh dm sq =
     [bs ! 0, opc, day, month, to_bcd sh, to_bcd sm, to_bcd dh, to_bcd dm, sq]"

lemma timer_bytes_simps [simp]:
  "length (timer_bytes opc bs day month sh sm dh dm sq) = 9"
  "(timer_bytes opc bs day month sh sm dh dm sq @ zs) ! 0 = bs ! 0"
  "(timer_bytes opc bs day month sh sm dh dm sq @ zs) ! Suc 0 = opc"
  by (simp_all add: timer_bytes_def)

definition timer_view :: "endian \<Rightarrow>
    (u8 \<times> u8 \<times> u8 \<times> u8 \<times> u8 \<times> u8 \<times> u8 \<times> cec_op_digital_service_id) option \<Rightarrow>
    (u8 \<times> u8 \<times> u8 \<times> u8 \<times> u8 \<times> u8 \<times> u8 \<times> service) option" where
  "timer_view e x = do {
     (day, month, sh, sm, dh, dm, sq, d) \<leftarrow> x;
     s \<leftarrow> view_digital e d;
     Some (day, month, sh, sm, dh, dm, sq, s)
   }"

lemma take_9_timer:
  "length bs = 16 \<Longrightarrow>
    take 9 (bs[Suc 0 := opc, 2 := day, 3 := month, 4 := a, 5 := b, 6 := c, 7 := d, 8 := sq]) =
      [bs ! 0, opc, day, month, a, b, c, d, sq]"
  by (rule nth_equalityI) (auto simp add: nth_list_update less_Suc_eq numeral_eq_Suc)

lemma clear_digital_timer_eq:
  "wf_msg m \<Longrightarrow>
    cec_msg_clear_digital_timer e m reply day month sh sm dh dm sq (mk_digital e s) =
      Some (m\<lparr>cm_len := 16,
        cm_msg := timer_bytes CEC_MSG_CLEAR_DIGITAL_TIMER (cm_msg m) day month sh sm dh dm sq
          @ service_wire s,
        cm_reply := if reply \<noteq> 0 then CEC_MSG_TIMER_CLEARED_STATUS else 0\<rparr>)"
  by (simp add: cec_msg_clear_digital_timer_def msg_simps set_digital_wire timer_bytes_def
      take_9_timer)

lemma set_digital_timer_eq:
  "wf_msg m \<Longrightarrow>
    cec_msg_set_digital_timer e m reply day month sh sm dh dm sq (mk_digital e s) =
      Some (m\<lparr>cm_len := 16,
        cm_msg := timer_bytes CEC_MSG_SET_DIGITAL_TIMER (cm_msg m) day month sh sm dh dm sq
          @ service_wire s,
        cm_reply := if reply \<noteq> 0 then CEC_MSG_TIMER_STATUS else 0\<rparr>)"
  by (simp add: cec_msg_set_digital_timer_def msg_simps set_digital_wire timer_bytes_def
      take_9_timer)

lemma ops_digital_timer_eq: "cec_ops_set_digital_timer = cec_ops_clear_digital_timer"
  by (intro ext) (simp add: cec_ops_set_digital_timer_def cec_ops_clear_digital_timer_def)

lemma digital_timer_received:
  assumes n: "cm_msg n = timer_bytes opc bs day month sh sm dh dm sq @ service_wire s"
    and ok: "sh < 160" "sm < 160" "dh < 160" "dm < 160" "service_ok s"
  shows "timer_view e (cec_ops_clear_digital_timer e n (replicate 8 0)) =
    Some (day, month, sh, sm, dh, dm, sq, service_received s)"
proof -
  let ?hd = "timer_bytes opc bs day month sh sm dh dm sq"
  have hd: "length ?hd = 9" by (simp add: timer_bytes_def)
  have "Option.bind (cec_get_digital_service_id e n 9 (replicate 8 0)) (view_digital e)
      = Some (service_received s)"
    by (rule get_digital_wire [OF n, where cs = "?hd @ replicate 7 0" and zs = "[]"])
      (use ok hd in \<open>simp_all add: wf_digital_def\<close>)
  then obtain d where "cec_get_digital_service_id e n 9 (replicate 8 0) = Some d"
    "view_digital e d = Some (service_received s)" by (auto simp add: bind_eq_Some_conv)
  with n ok show ?thesis
    by (simp add: timer_view_def cec_ops_clear_digital_timer_def timer_bytes_def mem_simps
        from_to_bcd)
qed

section \<open>Program titles\<close>

text \<open>
  Any C string is accepted; the receiver sees its first fourteen characters. (The length is kept
  in an \<^verbatim>\<open>unsigned int\<close>, so a string of \<open>2\<^sup>3\<^sup>2\<close> characters or more would lose its length.)
\<close>

lemma program_title_eq:
  assumes "wf_msg m" "0 \<notin> set s"
  shows "cec_msg_set_timer_program_title m (c_str s) =
    Some (m\<lparr>cm_len := 2 + clamp 14 (word_of_nat (length s)),
      cm_msg := take 2 ((cm_msg m)[Suc 0 := CEC_MSG_SET_TIMER_PROGRAM_TITLE])
        @ take (min 14 (length s mod 2 ^ 32)) s
        @ drop (2 + min 14 (length s mod 2 ^ 32)) (cm_msg m)\<rparr>)"
  using assms text_len [of 14 s]
  by (simp add: cec_msg_set_timer_program_title_def c_strlen_c_str rdn_c_str msg_simps Let_def)

lemma program_title_framed:
  assumes "wf_msg m" "0 \<notin> set s" "length s \<le> 14"
  shows "\<exists>m'. cec_msg_set_timer_program_title m (c_str s) = Some m' \<and>
    cec_framed CEC_MSG_SET_TIMER_PROGRAM_TITLE (Frame (2 + word_of_nat (length s)) False None) m m'"
proof -
  have "(word_of_nat (length s) :: u32) \<le> 14" using assms(3) clamp_le [of 14 "word_of_nat (length s) :: u32"]
    by (simp add: clamp_fits)
  then show ?thesis
    unfolding program_title_eq [OF assms(1,2)] cec_framed_def
    using assms text_len [of 14 s] payload_len [of 2 "word_of_nat (length s)"]
    by (simp add: msg_simps nth_append clamp_fits)
qed

lemma program_title_received:
  assumes "wf_msg m" "0 \<notin> set s" "14 < length buf"
  shows "do {
      m' \<leftarrow> cec_msg_set_timer_program_title m (c_str s);
      title \<leftarrow> cec_ops_set_timer_program_title m' buf;
      c_string title
    } = Some (take (min 14 (length s mod 2 ^ 32)) s)"
  unfolding program_title_eq [OF assms(1,2)]
  using assms text_len [of 14 s]
  by (simp add: cec_ops_set_timer_program_title_def msg_simps Let_def payload_size_eq clamp_le clamp_idem
      c_string_store not_in_take)

section \<open>The codec contract\<close>

interpretation timer_status: cec_receiver
  "\<lambda>m (overlap, media, info, err, hr, mn). cec_msg_timer_status m overlap media info err hr mn"
  "\<lambda>_. True" CEC_MSG_TIMER_STATUS
  "\<lambda>(overlap, media, info, err, hr, mn). Frame (if timer_has_duration info err then 5 else 3) False None" timer_status_ok timer_status_received cec_ops_timer_status
  by unfold_locales (auto simp: timer_status_framed timer_status_decoded)


interpretation timer_cleared_status: cec_codec
  "\<lambda>m timer_cleared_status. cec_msg_timer_cleared_status m timer_cleared_status"
  "\<lambda>_. True" CEC_MSG_TIMER_CLEARED_STATUS
  "\<lambda>_. Frame 3 False None"
  "\<lambda>_. True" cec_ops_timer_cleared_status
  by unfold_locales
    (auto simp: cec_msg_timer_cleared_status_def cec_ops_timer_cleared_status_def msg_simps
      cec_framed_def)

interpretation clear_analogue_timer: cec_codec
  "\<lambda>m (day, month, start_hr, start_min, duration_hr, duration_min, recording_seq,
     ana_bcast_type, ana_freq, bcast_system). cec_msg_clear_analogue_timer m reply day month
     start_hr start_min duration_hr duration_min recording_seq ana_bcast_type ana_freq bcast_system"
  "\<lambda>_. True" CEC_MSG_CLEAR_ANALOGUE_TIMER
  "\<lambda>_. Frame 13 False (when_reply reply CEC_MSG_TIMER_CLEARED_STATUS)"
  "\<lambda>(day, month, start_hr, start_min, duration_hr, duration_min, recording_seq,
     ana_bcast_type, ana_freq, bcast_system). start_hr < 160 \<and> start_min < 160 \<and>
     duration_hr < 160 \<and> duration_min < 160" cec_ops_clear_analogue_timer
  for reply
  by unfold_locales
    (auto simp: cec_msg_clear_analogue_timer_def cec_ops_clear_analogue_timer_def msg_simps
      cec_framed_def from_to_bcd)

interpretation clear_digital_timer: cec_receiver
  "\<lambda>m (day, month, sh, sm, dh, dm, sq, s).
     cec_msg_clear_digital_timer e m reply day month sh sm dh dm sq (mk_digital e s)"
  "\<lambda>_. True" CEC_MSG_CLEAR_DIGITAL_TIMER
  "\<lambda>_. Frame 16 False (when_reply reply CEC_MSG_TIMER_CLEARED_STATUS)"
  "\<lambda>(day, month, sh, sm, dh, dm, sq, s).
     sh < 160 \<and> sm < 160 \<and> dh < 160 \<and> dm < 160 \<and> service_ok s"
  "\<lambda>(day, month, sh, sm, dh, dm, sq, s). (day, month, sh, sm, dh, dm, sq, service_received s)"
  "\<lambda>m. timer_view e (cec_ops_clear_digital_timer e m (replicate 8 0))"
  for e reply
  by unfold_locales
    (auto simp: clear_digital_timer_eq digital_timer_received ops_digital_timer_eq cec_framed_def
      msg_simps)


interpretation clear_ext_timer: cec_codec
  "\<lambda>m (day, month, start_hr, start_min, duration_hr, duration_min, recording_seq,
     ext_src_spec, plug, phys_addr). cec_msg_clear_ext_timer m reply day month start_hr start_min
     duration_hr duration_min recording_seq ext_src_spec plug phys_addr"
  "\<lambda>_. True" CEC_MSG_CLEAR_EXT_TIMER
  "\<lambda>_. Frame 13 False (when_reply reply CEC_MSG_TIMER_CLEARED_STATUS)"
  "\<lambda>(day, month, start_hr, start_min, duration_hr, duration_min, recording_seq, ext_src_spec,
     plug, phys_addr). start_hr < 160 \<and> start_min < 160 \<and> duration_hr < 160 \<and>
     duration_min < 160" cec_ops_clear_ext_timer
  for reply
  by unfold_locales
    (auto simp: cec_msg_clear_ext_timer_def cec_ops_clear_ext_timer_def msg_simps cec_framed_def
      from_to_bcd)

interpretation set_analogue_timer: cec_codec
  "\<lambda>m (day, month, start_hr, start_min, duration_hr, duration_min, recording_seq,
     ana_bcast_type, ana_freq, bcast_system). cec_msg_set_analogue_timer m reply day month start_hr
     start_min duration_hr duration_min recording_seq ana_bcast_type ana_freq bcast_system"
  "\<lambda>_. True" CEC_MSG_SET_ANALOGUE_TIMER
  "\<lambda>_. Frame 13 False (when_reply reply CEC_MSG_TIMER_STATUS)"
  "\<lambda>(day, month, start_hr, start_min, duration_hr, duration_min, recording_seq,
     ana_bcast_type, ana_freq, bcast_system). start_hr < 160 \<and> start_min < 160 \<and>
     duration_hr < 160 \<and> duration_min < 160" cec_ops_set_analogue_timer
  for reply
  by unfold_locales
    (auto simp: cec_msg_set_analogue_timer_def cec_ops_set_analogue_timer_def msg_simps cec_framed_def
      from_to_bcd)

interpretation set_digital_timer: cec_receiver
  "\<lambda>m (day, month, sh, sm, dh, dm, sq, s).
     cec_msg_set_digital_timer e m reply day month sh sm dh dm sq (mk_digital e s)"
  "\<lambda>_. True" CEC_MSG_SET_DIGITAL_TIMER
  "\<lambda>_. Frame 16 False (when_reply reply CEC_MSG_TIMER_STATUS)"
  "\<lambda>(day, month, sh, sm, dh, dm, sq, s).
     sh < 160 \<and> sm < 160 \<and> dh < 160 \<and> dm < 160 \<and> service_ok s"
  "\<lambda>(day, month, sh, sm, dh, dm, sq, s). (day, month, sh, sm, dh, dm, sq, service_received s)"
  "\<lambda>m. timer_view e (cec_ops_set_digital_timer e m (replicate 8 0))"
  for e reply
  by unfold_locales
    (auto simp: set_digital_timer_eq digital_timer_received ops_digital_timer_eq cec_framed_def
      msg_simps)


interpretation set_ext_timer: cec_codec
  "\<lambda>m (day, month, start_hr, start_min, duration_hr, duration_min, recording_seq,
     ext_src_spec, plug, phys_addr). cec_msg_set_ext_timer m reply day month start_hr start_min
     duration_hr duration_min recording_seq ext_src_spec plug phys_addr"
  "\<lambda>_. True" CEC_MSG_SET_EXT_TIMER
  "\<lambda>_. Frame 13 False (when_reply reply CEC_MSG_TIMER_STATUS)"
  "\<lambda>(day, month, start_hr, start_min, duration_hr, duration_min, recording_seq, ext_src_spec,
     plug, phys_addr). start_hr < 160 \<and> start_min < 160 \<and> duration_hr < 160 \<and>
     duration_min < 160" cec_ops_set_ext_timer
  for reply
  by unfold_locales
    (auto simp: cec_msg_set_ext_timer_def cec_ops_set_ext_timer_def msg_simps cec_framed_def
      from_to_bcd)

interpretation set_timer_program_title: cec_codec
  "\<lambda>m s. cec_msg_set_timer_program_title m (c_str s)"
  "\<lambda>s. 0 \<notin> set s \<and> length s \<le> 14" CEC_MSG_SET_TIMER_PROGRAM_TITLE
  "\<lambda>s. Frame (2 + word_of_nat (length s)) False None"
  "\<lambda>s. 0 \<notin> set s \<and> length s \<le> 14"
  "\<lambda>m. Option.bind (cec_ops_set_timer_program_title m (replicate 15 0)) c_string"
  by unfold_locales (auto simp: program_title_framed program_title_received)


section \<open>The feature\<close>

datatype timer_cmd =
    Timer_Status "u8 \<times> u8 \<times> u8 \<times> u8 \<times> u8 \<times> u8"
  | Timer_Cleared_Status u8
  | Clear_Analogue_Timer "u8 \<times> u8 \<times> u8 \<times> u8 \<times> u8 \<times> u8 \<times> u8 \<times> u8 \<times> u16 \<times> u8"
  | Clear_Digital_Timer "u8 \<times> u8 \<times> u8 \<times> u8 \<times> u8 \<times> u8 \<times> u8 \<times> service"
  | Clear_Ext_Timer "u8 \<times> u8 \<times> u8 \<times> u8 \<times> u8 \<times> u8 \<times> u8 \<times> u8 \<times> u8 \<times> u16"
  | Set_Analogue_Timer "u8 \<times> u8 \<times> u8 \<times> u8 \<times> u8 \<times> u8 \<times> u8 \<times> u8 \<times> u16 \<times> u8"
  | Set_Digital_Timer "u8 \<times> u8 \<times> u8 \<times> u8 \<times> u8 \<times> u8 \<times> u8 \<times> service"
  | Set_Ext_Timer "u8 \<times> u8 \<times> u8 \<times> u8 \<times> u8 \<times> u8 \<times> u8 \<times> u8 \<times> u8 \<times> u16"
  | Set_Timer_Program_Title "u8 list"

fun timer_encode :: "endian \<Rightarrow> c_int \<Rightarrow> cec_msg \<Rightarrow> timer_cmd \<Rightarrow> cec_msg option" where
  "timer_encode e reply m (Timer_Status x) =
     (case x of (overlap, media, info, err, hr, mn) \<Rightarrow> cec_msg_timer_status m overlap media
        info err hr mn)"
| "timer_encode e reply m (Timer_Cleared_Status timer_cleared_status) = cec_msg_timer_cleared_status m timer_cleared_status"
| "timer_encode e reply m (Clear_Analogue_Timer x) =
     (case x of (day, month, start_hr, start_min, duration_hr, duration_min, recording_seq,
        ana_bcast_type, ana_freq, bcast_system) \<Rightarrow> cec_msg_clear_analogue_timer m reply
        day month start_hr start_min duration_hr duration_min recording_seq ana_bcast_type ana_freq
        bcast_system)"
| "timer_encode e reply m (Clear_Digital_Timer x) =
     (case x of (day, month, sh, sm, dh, dm, sq, s) \<Rightarrow> cec_msg_clear_digital_timer e m reply
        day month sh sm dh dm sq (mk_digital e s))"
| "timer_encode e reply m (Clear_Ext_Timer x) =
     (case x of (day, month, start_hr, start_min, duration_hr, duration_min, recording_seq, ext_src_spec,
        plug, phys_addr) \<Rightarrow> cec_msg_clear_ext_timer m reply day month start_hr start_min
        duration_hr duration_min recording_seq ext_src_spec plug phys_addr)"
| "timer_encode e reply m (Set_Analogue_Timer x) =
     (case x of (day, month, start_hr, start_min, duration_hr, duration_min, recording_seq,
        ana_bcast_type, ana_freq, bcast_system) \<Rightarrow> cec_msg_set_analogue_timer m reply day
        month start_hr start_min duration_hr duration_min recording_seq ana_bcast_type ana_freq
        bcast_system)"
| "timer_encode e reply m (Set_Digital_Timer x) =
     (case x of (day, month, sh, sm, dh, dm, sq, s) \<Rightarrow> cec_msg_set_digital_timer e m reply day
        month sh sm dh dm sq (mk_digital e s))"
| "timer_encode e reply m (Set_Ext_Timer x) =
     (case x of (day, month, start_hr, start_min, duration_hr, duration_min, recording_seq, ext_src_spec,
        plug, phys_addr) \<Rightarrow> cec_msg_set_ext_timer m reply day month start_hr start_min
        duration_hr duration_min recording_seq ext_src_spec plug phys_addr)"
| "timer_encode e reply m (Set_Timer_Program_Title s) = cec_msg_set_timer_program_title m (c_str s)"

fun timer_opcode :: "timer_cmd \<Rightarrow> u8" where
  "timer_opcode (Timer_Status _) = CEC_MSG_TIMER_STATUS"
| "timer_opcode (Timer_Cleared_Status _) = CEC_MSG_TIMER_CLEARED_STATUS"
| "timer_opcode (Clear_Analogue_Timer _) = CEC_MSG_CLEAR_ANALOGUE_TIMER"
| "timer_opcode (Clear_Digital_Timer _) = CEC_MSG_CLEAR_DIGITAL_TIMER"
| "timer_opcode (Clear_Ext_Timer _) = CEC_MSG_CLEAR_EXT_TIMER"
| "timer_opcode (Set_Analogue_Timer _) = CEC_MSG_SET_ANALOGUE_TIMER"
| "timer_opcode (Set_Digital_Timer _) = CEC_MSG_SET_DIGITAL_TIMER"
| "timer_opcode (Set_Ext_Timer _) = CEC_MSG_SET_EXT_TIMER"
| "timer_opcode (Set_Timer_Program_Title _) = CEC_MSG_SET_TIMER_PROGRAM_TITLE"

text \<open>The frames: the length, whether it is a broadcast, and the reply waited for.\<close>

fun timer_frame :: "c_int \<Rightarrow> timer_cmd \<Rightarrow> msg_frame" where
  "timer_frame reply (Timer_Status x) = (case x of (overlap, media, info, err, hr, mn) \<Rightarrow>
     Frame (if timer_has_duration info err then 5 else 3) False None)"
| "timer_frame reply (Timer_Cleared_Status _) = Frame 3 False None"
| "timer_frame reply (Clear_Analogue_Timer _) = Frame 13 False (when_reply reply CEC_MSG_TIMER_CLEARED_STATUS)"
| "timer_frame reply (Clear_Digital_Timer _) = Frame 16 False (when_reply reply CEC_MSG_TIMER_CLEARED_STATUS)"
| "timer_frame reply (Clear_Ext_Timer _) = Frame 13 False (when_reply reply CEC_MSG_TIMER_CLEARED_STATUS)"
| "timer_frame reply (Set_Analogue_Timer _) = Frame 13 False (when_reply reply CEC_MSG_TIMER_STATUS)"
| "timer_frame reply (Set_Digital_Timer _) = Frame 16 False (when_reply reply CEC_MSG_TIMER_STATUS)"
| "timer_frame reply (Set_Ext_Timer _) = Frame 13 False (when_reply reply CEC_MSG_TIMER_STATUS)"
| "timer_frame reply (Set_Timer_Program_Title s) = Frame (2 + word_of_nat (length s)) False None"

fun timer_ok :: "timer_cmd \<Rightarrow> bool" where
  "timer_ok (Timer_Status x) \<longleftrightarrow>
     (case x of (overlap, media, info, err, hr, mn) \<Rightarrow> timer_status_ok (overlap, media, info,
        err, hr, mn))"
| "timer_ok (Clear_Analogue_Timer x) \<longleftrightarrow>
     (case x of (day, month, start_hr, start_min, duration_hr, duration_min, recording_seq,
        ana_bcast_type, ana_freq, bcast_system) \<Rightarrow> start_hr < 160 \<and> start_min < 160
        \<and> duration_hr < 160 \<and> duration_min < 160)"
| "timer_ok (Clear_Digital_Timer x) \<longleftrightarrow>
     (case x of (day, month, sh, sm, dh, dm, sq, s) \<Rightarrow> sh < 160 \<and> sm < 160 \<and> dh <
        160 \<and> dm < 160 \<and> service_ok s)"
| "timer_ok (Clear_Ext_Timer x) \<longleftrightarrow>
     (case x of (day, month, start_hr, start_min, duration_hr, duration_min, recording_seq, ext_src_spec,
        plug, phys_addr) \<Rightarrow> start_hr < 160 \<and> start_min < 160 \<and> duration_hr <
        160 \<and> duration_min < 160)"
| "timer_ok (Set_Analogue_Timer x) \<longleftrightarrow>
     (case x of (day, month, start_hr, start_min, duration_hr, duration_min, recording_seq,
        ana_bcast_type, ana_freq, bcast_system) \<Rightarrow> start_hr < 160 \<and> start_min < 160
        \<and> duration_hr < 160 \<and> duration_min < 160)"
| "timer_ok (Set_Digital_Timer x) \<longleftrightarrow>
     (case x of (day, month, sh, sm, dh, dm, sq, s) \<Rightarrow> sh < 160 \<and> sm < 160 \<and> dh <
        160 \<and> dm < 160 \<and> service_ok s)"
| "timer_ok (Set_Ext_Timer x) \<longleftrightarrow>
     (case x of (day, month, start_hr, start_min, duration_hr, duration_min, recording_seq, ext_src_spec,
        plug, phys_addr) \<Rightarrow> start_hr < 160 \<and> start_min < 160 \<and> duration_hr <
        160 \<and> duration_min < 160)"
| "timer_ok (Set_Timer_Program_Title s) \<longleftrightarrow> 0 \<notin> set s \<and> length s \<le> 14"
| "timer_ok _ \<longleftrightarrow> True"

fun timer_received :: "timer_cmd \<Rightarrow> timer_cmd" where
  "timer_received (Timer_Status x) = Timer_Status (timer_status_received x)"
| "timer_received (Clear_Digital_Timer x) = Clear_Digital_Timer
     (case x of (day, month, sh, sm, dh, dm, sq, s) \<Rightarrow> (day, month, sh, sm, dh, dm, sq, service_received s))"
| "timer_received (Set_Digital_Timer x) = Set_Digital_Timer
     (case x of (day, month, sh, sm, dh, dm, sq, s) \<Rightarrow> (day, month, sh, sm, dh, dm, sq, service_received s))"
| "timer_received c = c"

definition timer_decode :: "endian \<Rightarrow> u8 \<Rightarrow> cec_msg \<Rightarrow> timer_cmd option" where
  "timer_decode e opc m =
     (if opc = CEC_MSG_TIMER_STATUS then map_option Timer_Status (cec_ops_timer_status m)
      else if opc = CEC_MSG_TIMER_CLEARED_STATUS
        then map_option Timer_Cleared_Status (cec_ops_timer_cleared_status m)
      else if opc = CEC_MSG_CLEAR_ANALOGUE_TIMER
        then map_option Clear_Analogue_Timer (cec_ops_clear_analogue_timer m)
      else if opc = CEC_MSG_CLEAR_DIGITAL_TIMER
        then map_option Clear_Digital_Timer (timer_view e (cec_ops_clear_digital_timer e m (replicate 8 0)))
      else if opc = CEC_MSG_CLEAR_EXT_TIMER then map_option Clear_Ext_Timer (cec_ops_clear_ext_timer m)
      else if opc = CEC_MSG_SET_ANALOGUE_TIMER
        then map_option Set_Analogue_Timer (cec_ops_set_analogue_timer m)
      else if opc = CEC_MSG_SET_DIGITAL_TIMER
        then map_option Set_Digital_Timer (timer_view e (cec_ops_set_digital_timer e m (replicate 8 0)))
      else if opc = CEC_MSG_SET_EXT_TIMER then map_option Set_Ext_Timer (cec_ops_set_ext_timer m)
      else if opc = CEC_MSG_SET_TIMER_PROGRAM_TITLE
        then map_option Set_Timer_Program_Title (Option.bind (cec_ops_set_timer_program_title m (replicate 15 0)) c_string)
      else None)"

definition timer_opcodes :: "u8 list" where
  "timer_opcodes = [CEC_MSG_TIMER_STATUS, CEC_MSG_TIMER_CLEARED_STATUS, CEC_MSG_CLEAR_ANALOGUE_TIMER,
     CEC_MSG_CLEAR_DIGITAL_TIMER, CEC_MSG_CLEAR_EXT_TIMER, CEC_MSG_SET_ANALOGUE_TIMER,
     CEC_MSG_SET_DIGITAL_TIMER, CEC_MSG_SET_EXT_TIMER, CEC_MSG_SET_TIMER_PROGRAM_TITLE]"

lemmas timer_facts =
  timer_status.ok_emits timer_status.dec_recv
  timer_cleared_status.ok_emits timer_cleared_status.dec_enc
  clear_analogue_timer.ok_emits clear_analogue_timer.dec_enc
  clear_digital_timer.ok_emits clear_digital_timer.dec_recv
  clear_ext_timer.ok_emits clear_ext_timer.dec_enc
  set_analogue_timer.ok_emits set_analogue_timer.dec_enc
  set_digital_timer.ok_emits set_digital_timer.dec_recv
  set_ext_timer.ok_emits set_ext_timer.dec_enc
  set_timer_program_title.ok_emits set_timer_program_title.dec_enc

interpretation timer: cec_dispatch "timer_encode e reply" timer_ok timer_opcode
  "timer_frame reply" timer_received "timer_decode e" timer_opcodes
  for e reply
proof unfold_locales
  fix m c opc
  show "cec_emits (timer_opcode c) (timer_frame reply c) m (timer_encode e reply m c)" if "wf_msg m" "timer_ok c"
    using that by (cases c) (simp_all add: timer_facts)
  show "Option.bind (timer_encode e reply m c) (\<lambda>m'. timer_decode e (timer_opcode c) m') =
      Some (timer_received c)"
    if "wf_msg m" "timer_ok c"
    using that by (cases c) (simp_all add: timer_decode_def timer_facts cec_code)
  show "timer_opcode c \<in> set timer_opcodes"
    by (cases c) (simp_all add: timer_opcodes_def)
  show "timer_decode e opc m = None" if "opc \<notin> set timer_opcodes"
    using that by (simp add: timer_decode_def timer_opcodes_def)
qed

end
