(* ===== verification/Cec_System.thy ===== *)
theory Cec_System
  imports Cec_Codec
begin

text \<open>
  The feature \<^verbatim>\<open>System Information\<close> of \<^verbatim>\<open>cec-funcs.h\<close>: versions, physical addresses, the menu
  language and the feature report, whose decoder scans lists of bytes of unknown length.
\<close>

section \<open>Messages\<close>

definition cec_msg_cec_version :: "cec_msg \<Rightarrow> u8 \<Rightarrow> cec_msg option" where
  "cec_msg_cec_version m cec_version = do {
     let m = m\<lparr>cm_len := 3\<rparr>;
     m \<leftarrow> put_byte m 1 CEC_MSG_CEC_VERSION;
     m \<leftarrow> put_byte m 2 cec_version;
     Some m
   }"

definition cec_ops_cec_version :: "cec_msg \<Rightarrow> u8 option" where
  "cec_ops_cec_version m = do {
     b2 \<leftarrow> get_byte m 2;
     Some b2
   }"

definition cec_msg_get_cec_version ::
  "cec_msg \<Rightarrow> c_int \<Rightarrow> cec_msg option" where
  "cec_msg_get_cec_version m reply = do {
     let m = m\<lparr>cm_len := 2\<rparr>;
     m \<leftarrow> put_byte m 1 CEC_MSG_GET_CEC_VERSION;
     let m = m\<lparr>cm_reply := if reply \<noteq> 0 then CEC_MSG_CEC_VERSION else 0\<rparr>;
     Some m
   }"

definition cec_msg_report_physical_addr ::
  "cec_msg \<Rightarrow> u16 \<Rightarrow> u8 \<Rightarrow> cec_msg option" where
  "cec_msg_report_physical_addr m phys_addr prim_devtype = do {
     let m = m\<lparr>cm_len := 5\<rparr>;
     m \<leftarrow> or_byte m 0 0xf;
     m \<leftarrow> put_byte m 1 CEC_MSG_REPORT_PHYSICAL_ADDR;
     m \<leftarrow> put_byte m 2 (hi8 phys_addr);
     m \<leftarrow> put_byte m 3 (lo8 phys_addr);
     m \<leftarrow> put_byte m 4 prim_devtype;
     Some m
   }"

definition cec_ops_report_physical_addr :: "cec_msg \<Rightarrow> (u16 \<times> u8) option" where
  "cec_ops_report_physical_addr m = do {
     b2 \<leftarrow> get_byte m 2;
     b3 \<leftarrow> get_byte m 3;
     b4 \<leftarrow> get_byte m 4;
     Some (be16 b2 b3, b4)
   }"

definition cec_msg_give_physical_addr ::
  "cec_msg \<Rightarrow> c_int \<Rightarrow> cec_msg option" where
  "cec_msg_give_physical_addr m reply = do {
     let m = m\<lparr>cm_len := 2\<rparr>;
     m \<leftarrow> put_byte m 1 CEC_MSG_GIVE_PHYSICAL_ADDR;
     let m = m\<lparr>cm_reply := if reply \<noteq> 0 then CEC_MSG_REPORT_PHYSICAL_ADDR else
       0\<rparr>;
     Some m
   }"

definition cec_msg_set_menu_language :: "cec_msg \<Rightarrow> u8 list \<Rightarrow> cec_msg option" where
  "cec_msg_set_menu_language m language = do {
     let m = m\<lparr>cm_len := 5\<rparr>;
     m \<leftarrow> or_byte m 0 0xf;
     m \<leftarrow> put_byte m 1 CEC_MSG_SET_MENU_LANGUAGE;
     src \<leftarrow> rdn language 0 3;
     put_bytes m 2 src
   }"

definition cec_ops_set_menu_language :: "cec_msg \<Rightarrow> u8 list \<Rightarrow> u8 list option" where
  "cec_ops_set_menu_language m language = do {
     src \<leftarrow> rdn (cm_msg m) 2 3;
     language \<leftarrow> wrn language 0 src;
     wr language 3 0
   }"

definition cec_msg_get_menu_language ::
  "cec_msg \<Rightarrow> c_int \<Rightarrow> cec_msg option" where
  "cec_msg_get_menu_language m reply = do {
     let m = m\<lparr>cm_len := 2\<rparr>;
     m \<leftarrow> put_byte m 1 CEC_MSG_GET_MENU_LANGUAGE;
     let m = m\<lparr>cm_reply := if reply \<noteq> 0 then CEC_MSG_SET_MENU_LANGUAGE else
       0\<rparr>;
     Some m
   }"

definition cec_msg_report_features ::
  "cec_msg \<Rightarrow> u8 \<Rightarrow> u8 \<Rightarrow> u8 \<Rightarrow> u8 \<Rightarrow> cec_msg option" where
  "cec_msg_report_features m cec_version all_device_types rc_profile dev_features = do {
     let m = m\<lparr>cm_len := 6\<rparr>;
     m \<leftarrow> or_byte m 0 0xf;
     m \<leftarrow> put_byte m 1 CEC_MSG_REPORT_FEATURES;
     m \<leftarrow> put_byte m 2 cec_version;
     m \<leftarrow> put_byte m 3 all_device_types;
     m \<leftarrow> put_byte m 4 rc_profile;
     m \<leftarrow> put_byte m 5 dev_features;
     Some m
   }"

text \<open>
  The operands of \<^verbatim>\<open><Report Features>\<close> are lists of bytes in which a set top bit
  (\<^verbatim>\<open>CEC_OP_FEAT_EXT\<close>) announces another byte. \<open>scan_ext\<close> is the loop
  \<^verbatim>\<open>while (p < &msg->msg[lim] && (*p & CEC_OP_FEAT_EXT)) p++;\<close> with the pointer as an offset, and a
  \<^verbatim>\<open>NULL\<close> result pointer is \<open>None\<close>.
\<close>

definition feat_ext :: "u8 \<Rightarrow> bool" where
  "feat_ext b \<longleftrightarrow> promote b AND promote CEC_OP_FEAT_EXT \<noteq> 0"

function scan_ext :: "cec_msg \<Rightarrow> nat \<Rightarrow> nat \<Rightarrow> nat option" where
  "scan_ext m lim p =
     (if p < lim then do {
        b \<leftarrow> get_byte m p;
        if feat_ext b then scan_ext m lim (p + 1) else Some p
      } else Some p)"
  by pat_completeness auto
termination by (relation "measure (\<lambda>(m, lim, p). lim - p)") auto

declare scan_ext.simps [simp del]

definition cec_ops_report_features ::
  "cec_msg \<Rightarrow> (u8 \<times> u8 \<times> nat option \<times> nat option) option" where
  "cec_ops_report_features m = do {
     b2 \<leftarrow> get_byte m 2;
     b3 \<leftarrow> get_byte m 3;
     p \<leftarrow> scan_ext m 14 4;
     b \<leftarrow> get_byte m p;
     (p, dev_features) \<leftarrow>
       (if \<not> feat_ext b then do { q \<leftarrow> scan_ext m 15 p; Some (q, Some (p + 1)) }
        else Some (p, None));
     b \<leftarrow> get_byte m p;
     Some (b2, b3, if feat_ext b then (None, None) else (Some 4, dev_features))
   }"

definition cec_msg_give_features ::
  "cec_msg \<Rightarrow> c_int \<Rightarrow> cec_msg option" where
  "cec_msg_give_features m reply = do {
     let m = m\<lparr>cm_len := 2\<rparr>;
     m \<leftarrow> put_byte m 1 CEC_MSG_GIVE_FEATURES;
     let m = m\<lparr>cm_reply := if reply \<noteq> 0 then CEC_MSG_REPORT_FEATURES else 0\<rparr>;
     Some m
   }"

section \<open>Scanning the feature operands\<close>

text \<open>The loop ends at the first byte without extension, or at its limit.\<close>

lemma scan_ext_step:
  "wf_msg m \<Longrightarrow> lim \<le> 16 \<Longrightarrow> p < lim \<Longrightarrow>
    scan_ext m lim p = (if feat_ext (cm_msg m ! p) then scan_ext m lim (Suc p) else Some p)"
  by (subst scan_ext.simps) (simp add: msg_simps)

lemma scan_ext_end: "lim \<le> p \<Longrightarrow> scan_ext m lim p = Some p"
  by (subst scan_ext.simps) simp

lemma scan_ext_found:
  assumes "wf_msg m" "lim \<le> 16" "p \<le> q" "q \<le> lim" "\<forall>i. p \<le> i \<and> i < q \<longrightarrow> feat_ext (cm_msg m ! i)"
    "q < lim \<longrightarrow> \<not> feat_ext (cm_msg m ! q)"
  shows "scan_ext m lim p = Some q"
  using assms(3-6)
proof (induction "q - p" arbitrary: p)
  case 0
  then show ?case by (cases "p < lim") (simp_all add: scan_ext_step scan_ext_end assms(1,2))
next
  case (Suc k)
  then have "feat_ext (cm_msg m ! p)" "p < lim" by auto
  with Suc show ?case by (simp add: scan_ext_step assms(1,2))
qed

text \<open>
  What the receiver gets: the profile list starts at byte 4; the feature list starts after the
  first byte without extension, provided there is one among bytes 4 to 14. The second loop of the
  function never moves the pointer, so the extension bits of the feature list play no role.
\<close>

definition features_spec :: "u8 list \<Rightarrow> u8 \<times> u8 \<times> nat option \<times> nat option" where
  "features_spec bs = (bs ! 2, bs ! 3,
     (case find (\<lambda>p. \<not> feat_ext (bs ! p)) [4..<15] of
        None \<Rightarrow> (None, None)
      | Some p \<Rightarrow> (Some 4, Some (Suc p))))"

lemma find_upt_Some:
  "find P [a..<b] = Some p \<longleftrightarrow> a \<le> p \<and> p < b \<and> P p \<and> (\<forall>i. a \<le> i \<and> i < p \<longrightarrow> \<not> P i)"
  (is "?l \<longleftrightarrow> ?r")
proof
  assume ?l
  then obtain k where "k < b - a" "P ([a..<b] ! k)" "p = [a..<b] ! k"
    "\<forall>j<k. \<not> P ([a..<b] ! j)" by (auto simp add: find_Some_iff)
  moreover have "\<not> P i" if "a \<le> i" "i < a + k" for i
    using calculation(1,4) that by (auto dest!: spec [of _ "i - a"])
  ultimately show ?r by auto
next
  assume ?r
  then show ?l by (auto simp add: find_Some_iff intro!: exI [of _ "p - a"])
qed

lemma report_features_eq:
  assumes m: "wf_msg m"
  shows "cec_ops_report_features m = Some (features_spec (cm_msg m))"
proof (cases "find (\<lambda>p. \<not> feat_ext (cm_msg m ! p)) [4..<15]")
  case None
  then have ext: "feat_ext (cm_msg m ! i)" if "4 \<le> i" "i < 15" for i
    using None [unfolded find_None_iff set_upt] that by auto
  then have "scan_ext m 14 4 = Some 14" by (intro scan_ext_found m) auto
  with None ext m show ?thesis
    by (simp add: cec_ops_report_features_def features_spec_def msg_simps)
next
  case (Some p)
  then have p: "4 \<le> p" "p < 15" "\<not> feat_ext (cm_msg m ! p)"
    "\<forall>i. 4 \<le> i \<and> i < p \<longrightarrow> feat_ext (cm_msg m ! i)"
    unfolding find_upt_Some by auto
  then have "scan_ext m 14 4 = Some p" "scan_ext m 15 p = Some p"
    by (auto intro: scan_ext_found m)
  with Some p m show ?thesis
    by (simp add: cec_ops_report_features_def features_spec_def msg_simps)
qed

text \<open>The operands as a client reads them through the returned pointers.\<close>

definition features_view :: "cec_msg \<Rightarrow> (u8 \<times> u8 \<times> u8 \<times> u8) option" where
  "features_view m = do {
     (version, types, rc, feat) \<leftarrow> cec_ops_report_features m;
     rc_off \<leftarrow> rc;
     feat_off \<leftarrow> feat;
     rc_profile \<leftarrow> get_byte m rc_off;
     dev_features \<leftarrow> get_byte m feat_off;
     Some (version, types, rc_profile, dev_features)
   }"

lemma find_first: "P a \<Longrightarrow> a < b \<Longrightarrow> find P [a..<b] = Some a"
  by (auto simp add: find_upt_Some)

lemma report_features_framed:
  "wf_msg m \<Longrightarrow> \<exists>m'. cec_msg_report_features m ver types rc feat = Some m' \<and>
    cec_framed CEC_MSG_REPORT_FEATURES (Frame 6 True None) m m'"
  by (simp add: cec_msg_report_features_def msg_simps cec_framed_def)

lemma report_features_received:
  assumes "wf_msg m" "\<not> feat_ext rc"
  shows "Option.bind (cec_msg_report_features m ver types rc feat) features_view =
    Some (ver, types, rc, feat)"
  using assms
  by (simp add: cec_msg_report_features_def features_view_def report_features_eq features_spec_def
      find_first msg_simps)

section \<open>The codec contract\<close>

interpretation cec_version: cec_codec
  "\<lambda>m cec_version. cec_msg_cec_version m cec_version"
  "\<lambda>_. True" CEC_MSG_CEC_VERSION
  "\<lambda>_. Frame 3 False None"
  "\<lambda>_. True" cec_ops_cec_version
  by unfold_locales
    (auto simp: cec_msg_cec_version_def cec_ops_cec_version_def msg_simps cec_framed_def)

interpretation get_cec_version: cec_encoder
  "\<lambda>m (_ :: unit). cec_msg_get_cec_version m reply"
  "\<lambda>_. True" CEC_MSG_GET_CEC_VERSION
  "\<lambda>_. Frame 2 False (when_reply reply CEC_MSG_CEC_VERSION)"
  for reply
  by unfold_locales
    (auto simp: cec_msg_get_cec_version_def msg_simps cec_framed_def)

interpretation report_physical_addr: cec_codec
  "\<lambda>m (phys_addr, prim_devtype). cec_msg_report_physical_addr m phys_addr prim_devtype"
  "\<lambda>_. True" CEC_MSG_REPORT_PHYSICAL_ADDR
  "\<lambda>_. Frame 5 True None"
  "\<lambda>_. True" cec_ops_report_physical_addr
  by unfold_locales
    (auto simp: cec_msg_report_physical_addr_def cec_ops_report_physical_addr_def msg_simps
      cec_framed_def)

interpretation give_physical_addr: cec_encoder
  "\<lambda>m (_ :: unit). cec_msg_give_physical_addr m reply"
  "\<lambda>_. True" CEC_MSG_GIVE_PHYSICAL_ADDR
  "\<lambda>_. Frame 2 False (when_reply reply CEC_MSG_REPORT_PHYSICAL_ADDR)"
  for reply
  by unfold_locales
    (auto simp: cec_msg_give_physical_addr_def msg_simps cec_framed_def)

interpretation set_menu_language: cec_codec
  "\<lambda>m s. cec_msg_set_menu_language m (c_str s)"
  "\<lambda>s. 3 \<le> length s" CEC_MSG_SET_MENU_LANGUAGE
  "\<lambda>_. Frame 5 True None"
  "\<lambda>s. 0 \<notin> set s \<and> length s = 3"
  "\<lambda>m. Option.bind (cec_ops_set_menu_language m (replicate 4 0)) c_string"
  by unfold_locales
    (auto simp: cec_msg_set_menu_language_def cec_ops_set_menu_language_def rdn_c_str msg_simps
      cec_framed_def nth_append list_update_append c_string_append)


interpretation get_menu_language: cec_encoder
  "\<lambda>m (_ :: unit). cec_msg_get_menu_language m reply"
  "\<lambda>_. True" CEC_MSG_GET_MENU_LANGUAGE
  "\<lambda>_. Frame 2 False (when_reply reply CEC_MSG_SET_MENU_LANGUAGE)"
  for reply
  by unfold_locales
    (auto simp: cec_msg_get_menu_language_def msg_simps cec_framed_def)

interpretation report_features: cec_codec
  "\<lambda>m (ver, types, rc, feat). cec_msg_report_features m ver types rc feat"
  "\<lambda>_. True" CEC_MSG_REPORT_FEATURES
  "\<lambda>_. Frame 6 True None"
  "\<lambda>(ver, types, rc, feat). \<not> feat_ext rc" features_view
  by unfold_locales
    (auto simp: report_features_framed report_features_received)


interpretation give_features: cec_encoder
  "\<lambda>m (_ :: unit). cec_msg_give_features m reply"
  "\<lambda>_. True" CEC_MSG_GIVE_FEATURES
  "\<lambda>_. Frame 2 False (when_reply reply CEC_MSG_REPORT_FEATURES)"
  for reply
  by unfold_locales
    (auto simp: cec_msg_give_features_def msg_simps cec_framed_def)

section \<open>The feature\<close>

datatype system_cmd =
    Cec_Version u8
  | Get_Cec_Version
  | Report_Physical_Addr "u16 \<times> u8"
  | Give_Physical_Addr
  | Set_Menu_Language "u8 list"
  | Get_Menu_Language
  | Report_Features "u8 \<times> u8 \<times> u8 \<times> u8"
  | Give_Features

fun system_encode :: "c_int \<Rightarrow> cec_msg \<Rightarrow> system_cmd \<Rightarrow> cec_msg option" where
  "system_encode reply m (Cec_Version cec_version) = cec_msg_cec_version m cec_version"
| "system_encode reply m Get_Cec_Version = cec_msg_get_cec_version m reply"
| "system_encode reply m (Report_Physical_Addr x) =
     (case x of (phys_addr, prim_devtype) \<Rightarrow> cec_msg_report_physical_addr m phys_addr
        prim_devtype)"
| "system_encode reply m Give_Physical_Addr = cec_msg_give_physical_addr m reply"
| "system_encode reply m (Set_Menu_Language s) = cec_msg_set_menu_language m (c_str s)"
| "system_encode reply m Get_Menu_Language = cec_msg_get_menu_language m reply"
| "system_encode reply m (Report_Features x) =
     (case x of (cec_version, all_device_types, rc_profile, dev_features) \<Rightarrow>
        cec_msg_report_features m cec_version all_device_types rc_profile dev_features)"
| "system_encode reply m Give_Features = cec_msg_give_features m reply"

fun system_opcode :: "system_cmd \<Rightarrow> u8" where
  "system_opcode (Cec_Version _) = CEC_MSG_CEC_VERSION"
| "system_opcode Get_Cec_Version = CEC_MSG_GET_CEC_VERSION"
| "system_opcode (Report_Physical_Addr _) = CEC_MSG_REPORT_PHYSICAL_ADDR"
| "system_opcode Give_Physical_Addr = CEC_MSG_GIVE_PHYSICAL_ADDR"
| "system_opcode (Set_Menu_Language _) = CEC_MSG_SET_MENU_LANGUAGE"
| "system_opcode Get_Menu_Language = CEC_MSG_GET_MENU_LANGUAGE"
| "system_opcode (Report_Features _) = CEC_MSG_REPORT_FEATURES"
| "system_opcode Give_Features = CEC_MSG_GIVE_FEATURES"

text \<open>The frames: the length, whether it is a broadcast, and the reply waited for.\<close>

fun system_frame :: "c_int \<Rightarrow> system_cmd \<Rightarrow> msg_frame" where
  "system_frame reply (Cec_Version _) = Frame 3 False None"
| "system_frame reply Get_Cec_Version = Frame 2 False (when_reply reply CEC_MSG_CEC_VERSION)"
| "system_frame reply (Report_Physical_Addr _) = Frame 5 True None"
| "system_frame reply Give_Physical_Addr = Frame 2 False (when_reply reply CEC_MSG_REPORT_PHYSICAL_ADDR)"
| "system_frame reply (Set_Menu_Language _) = Frame 5 True None"
| "system_frame reply Get_Menu_Language = Frame 2 False (when_reply reply CEC_MSG_SET_MENU_LANGUAGE)"
| "system_frame reply (Report_Features _) = Frame 6 True None"
| "system_frame reply Give_Features = Frame 2 False (when_reply reply CEC_MSG_REPORT_FEATURES)"

fun system_ok :: "system_cmd \<Rightarrow> bool" where
  "system_ok (Set_Menu_Language s) \<longleftrightarrow> 0 \<notin> set s \<and> length s = 3"
| "system_ok (Report_Features x) \<longleftrightarrow>
     (case x of (cec_version, all_device_types, rc_profile, dev_features) \<Rightarrow> \<not> feat_ext
        rc_profile)"
| "system_ok _ \<longleftrightarrow> True"

definition system_decode :: "u8 \<Rightarrow> cec_msg \<Rightarrow> system_cmd option" where
  "system_decode opc m =
     (if opc = CEC_MSG_CEC_VERSION then map_option Cec_Version (cec_ops_cec_version m)
      else if opc = CEC_MSG_GET_CEC_VERSION then Some Get_Cec_Version
      else if opc = CEC_MSG_REPORT_PHYSICAL_ADDR
        then map_option Report_Physical_Addr (cec_ops_report_physical_addr m)
      else if opc = CEC_MSG_GIVE_PHYSICAL_ADDR then Some Give_Physical_Addr
      else if opc = CEC_MSG_SET_MENU_LANGUAGE
        then map_option Set_Menu_Language (Option.bind (cec_ops_set_menu_language m (replicate 4 0)) c_string)
      else if opc = CEC_MSG_GET_MENU_LANGUAGE then Some Get_Menu_Language
      else if opc = CEC_MSG_REPORT_FEATURES then map_option Report_Features (features_view m)
      else if opc = CEC_MSG_GIVE_FEATURES then Some Give_Features
      else None)"

definition system_opcodes :: "u8 list" where
  "system_opcodes = [CEC_MSG_CEC_VERSION, CEC_MSG_GET_CEC_VERSION, CEC_MSG_REPORT_PHYSICAL_ADDR,
     CEC_MSG_GIVE_PHYSICAL_ADDR, CEC_MSG_SET_MENU_LANGUAGE, CEC_MSG_GET_MENU_LANGUAGE,
     CEC_MSG_REPORT_FEATURES, CEC_MSG_GIVE_FEATURES]"

lemmas system_facts =
  cec_version.ok_emits cec_version.dec_enc
  get_cec_version.enc_emits get_cec_version.enc_total
  report_physical_addr.ok_emits report_physical_addr.dec_enc
  give_physical_addr.enc_emits give_physical_addr.enc_total
  set_menu_language.ok_emits set_menu_language.dec_enc
  get_menu_language.enc_emits get_menu_language.enc_total
  report_features.ok_emits report_features.dec_enc
  give_features.enc_emits give_features.enc_total

interpretation system: cec_dispatch "system_encode reply" system_ok system_opcode
  "system_frame reply" id system_decode system_opcodes
  for reply
proof unfold_locales
  fix m c opc
  show "cec_emits (system_opcode c) (system_frame reply c) m (system_encode reply m c)" if "wf_msg m" "system_ok c"
    using that by (cases c) (simp_all add: system_facts)
  show "Option.bind (system_encode reply m c) (\<lambda>m'. system_decode (system_opcode c) m') = Some (id c)"
    if "wf_msg m" "system_ok c"
    using that by (cases c) (simp_all add: system_decode_def system_facts cec_code)
  show "system_opcode c \<in> set system_opcodes"
    by (cases c) (simp_all add: system_opcodes_def)
  show "system_decode opc m = None" if "opc \<notin> set system_opcodes"
    using that by (simp add: system_decode_def system_opcodes_def)
qed

section \<open>Properties\<close>

text \<open>
  C30: \<^verbatim>\<open>cec_ops_report_features\<close> computes \<open>features_spec\<close> on every message: the profile list starts at
  byte 4 and the feature list after the first byte of it without extension bit, looked for in bytes
  4 to 14; without such a byte both pointers are \<^verbatim>\<open>NULL\<close>. Its loops end and stay in the message.
\<close>

theorem report_features_meets_spec:
  assumes "wf_msg m"
  shows "cec_ops_report_features m = Some (features_spec (cm_msg m))"
  using assms by (rule report_features_eq)

theorem report_features_meets_spec_witness:
  "cec_ops_report_features
      (zero_msg\<lparr>cm_len := 7, cm_msg := [0x4f, 0xa6, 6, 0x10, 0x80, 0x02, 0x31] @ replicate 9 0\<rparr>) =
    Some (6, 0x10, Some 4, Some 6)"
proof -
  let ?m = "zero_msg\<lparr>cm_len := 7,
    cm_msg := [0x4f, 0xa6, 6, 0x10, 0x80, 0x02, 0x31] @ replicate 9 0\<rparr>"
  have "wf_msg ?m" by (simp add: wf_msg_def CEC_MAX_MSG_SIZE_def)
  from report_features_meets_spec [OF this] show ?thesis
    by (simp add: features_spec_def feat_ext_def promote_def cec_code)
qed

text \<open>
  The second loop of \<^verbatim>\<open>cec_ops_report_features\<close> starts at the byte on which the first one stopped,
  which has no extension bit, so it never runs: a report whose feature list is not terminated, with
  the extension bit set in all bytes up to the end, is accepted as if it were well formed.
\<close>

theorem report_features_unterminated_accepted:
  assumes "wf_msg m" "\<not> feat_ext (cm_msg m ! 4)" "\<forall>i\<in>{5..15}. feat_ext (cm_msg m ! i)"
  shows "cec_ops_report_features m = Some (cm_msg m ! 2, cm_msg m ! 3, Some 4, Some 5)"
  using assms(2) by (simp add: report_features_eq [OF assms(1)] features_spec_def)

theorem report_features_unterminated_accepted_witness:
  "cec_ops_report_features
      (zero_msg\<lparr>cm_len := 16, cm_msg := [0x4f, 0xa6, 6, 0x10, 0x02] @ replicate 11 0x80\<rparr>) =
    Some (6, 0x10, Some 4, Some 5)"
proof -
  let ?m = "zero_msg\<lparr>cm_len := 16, cm_msg := [0x4f, 0xa6, 6, 0x10, 0x02] @ replicate 11 0x80\<rparr>"
  have "wf_msg ?m" by (simp add: wf_msg_def CEC_MAX_MSG_SIZE_def)
  moreover have "\<not> feat_ext (cm_msg ?m ! 4)" by (simp add: feat_ext_def promote_def cec_code)
  moreover have "\<forall>i\<in>{5..15}. feat_ext (cm_msg ?m ! i)"
  proof
    fix i :: nat assume "i \<in> {5..15}"
    then have "i - 5 < 11" "\<not> i < 5" by auto
    then have "([0x4f, 0xa6, 6, 0x10, 0x02] @ replicate 11 (0x80 :: u8)) ! i = 0x80"
      unfolding nth_append by (simp del: append.simps replicate.simps)
    then have "cm_msg ?m ! i = 0x80" by simp
    then show "feat_ext (cm_msg ?m ! i)" by (simp add: feat_ext_def promote_def cec_code)
  qed
  ultimately have "cec_ops_report_features ?m =
      Some (cm_msg ?m ! 2, cm_msg ?m ! 3, Some 4, Some 5)"
    by (rule report_features_unterminated_accepted)
  then show ?thesis by simp
qed

end
