(* ===== verification/Cec_Tuner.thy ===== *)
theory Cec_Tuner
  imports Cec_Service
begin

text \<open>
  The features \<^verbatim>\<open>Deck Control\<close> and \<^verbatim>\<open>Tuner Control\<close> of \<^verbatim>\<open>cec-funcs.h\<close>. The status of a tuner is an analog
  or a digital service, told apart by the length of the message.
\<close>

section \<open>Messages\<close>

definition cec_msg_deck_control :: "cec_msg \<Rightarrow> u8 \<Rightarrow> cec_msg option" where
  "cec_msg_deck_control m deck_control_mode = do {
     let m = m\<lparr>cm_len := 3\<rparr>;
     m \<leftarrow> put_byte m 1 CEC_MSG_DECK_CONTROL;
     m \<leftarrow> put_byte m 2 deck_control_mode;
     Some m
   }"

definition cec_ops_deck_control :: "cec_msg \<Rightarrow> u8 option" where
  "cec_ops_deck_control m = do {
     b2 \<leftarrow> get_byte m 2;
     Some b2
   }"

definition cec_msg_deck_status :: "cec_msg \<Rightarrow> u8 \<Rightarrow> cec_msg option" where
  "cec_msg_deck_status m deck_info = do {
     let m = m\<lparr>cm_len := 3\<rparr>;
     m \<leftarrow> put_byte m 1 CEC_MSG_DECK_STATUS;
     m \<leftarrow> put_byte m 2 deck_info;
     Some m
   }"

definition cec_ops_deck_status :: "cec_msg \<Rightarrow> u8 option" where
  "cec_ops_deck_status m = do {
     b2 \<leftarrow> get_byte m 2;
     Some b2
   }"

definition cec_msg_give_deck_status ::
  "cec_msg \<Rightarrow> c_int \<Rightarrow> u8 \<Rightarrow> cec_msg option" where
  "cec_msg_give_deck_status m reply status_req = do {
     let m = m\<lparr>cm_len := 3\<rparr>;
     m \<leftarrow> put_byte m 1 CEC_MSG_GIVE_DECK_STATUS;
     m \<leftarrow> put_byte m 2 status_req;
     let m = m\<lparr>cm_reply := if reply \<noteq> 0 \<and> status_req \<noteq>
       CEC_OP_STATUS_REQ_OFF then CEC_MSG_DECK_STATUS else 0\<rparr>;
     Some m
   }"

definition cec_ops_give_deck_status :: "cec_msg \<Rightarrow> u8 option" where
  "cec_ops_give_deck_status m = do {
     b2 \<leftarrow> get_byte m 2;
     Some b2
   }"

definition cec_msg_play :: "cec_msg \<Rightarrow> u8 \<Rightarrow> cec_msg option" where
  "cec_msg_play m play_mode = do {
     let m = m\<lparr>cm_len := 3\<rparr>;
     m \<leftarrow> put_byte m 1 CEC_MSG_PLAY;
     m \<leftarrow> put_byte m 2 play_mode;
     Some m
   }"

definition cec_ops_play :: "cec_msg \<Rightarrow> u8 option" where
  "cec_ops_play m = do {
     b2 \<leftarrow> get_byte m 2;
     Some b2
   }"

text \<open>
  The union of \<^verbatim>\<open>struct cec_op_tuner_device_info\<close> is its eight bytes: a digital service identifier,
  or an analog one with its members at offsets 0, 2 and 4.
\<close>

record cec_op_tuner_device_info =
  td_rec_flag :: u8
  td_tuner_display_info :: u8
  td_is_analog :: u8
  td_un :: "u8 list"

definition wf_tuner_info :: "cec_op_tuner_device_info \<Rightarrow> bool" where
  "wf_tuner_info info \<longleftrightarrow> length (td_un info) = 8"

definition cec_msg_tuner_device_status_analog ::
  "cec_msg \<Rightarrow> u8 \<Rightarrow> u8 \<Rightarrow> u8 \<Rightarrow> u16 \<Rightarrow> u8 \<Rightarrow> cec_msg option" where
  "cec_msg_tuner_device_status_analog m rec_flag tuner_display_info ana_bcast_type ana_freq
      bcast_system = do {
     let m = m\<lparr>cm_len := 7\<rparr>;
     m \<leftarrow> put_byte m 1 CEC_MSG_TUNER_DEVICE_STATUS;
     m \<leftarrow> put_byte m 2 (u8_of (push_bit 7 (promote rec_flag) OR promote
       tuner_display_info));
     m \<leftarrow> put_byte m 3 ana_bcast_type;
     m \<leftarrow> put_byte m 4 (hi8 ana_freq);
     m \<leftarrow> put_byte m 5 (lo8 ana_freq);
     m \<leftarrow> put_byte m 6 bcast_system;
     Some m
   }"

definition cec_msg_tuner_device_status_digital ::
  "endian \<Rightarrow> cec_msg \<Rightarrow> u8 \<Rightarrow> u8 \<Rightarrow> cec_op_digital_service_id \<Rightarrow> cec_msg option" where
  "cec_msg_tuner_device_status_digital e m rec_flag tuner_display_info digital = do {
     let m = m\<lparr>cm_len := 10\<rparr>;
     m \<leftarrow> put_byte m 1 CEC_MSG_TUNER_DEVICE_STATUS;
     m \<leftarrow> put_byte m 2 (u8_of (push_bit 7 (promote rec_flag) OR promote tuner_display_info));
     cec_set_digital_service_id e m 3 digital
   }"

definition cec_msg_tuner_device_status ::
  "endian \<Rightarrow> cec_msg \<Rightarrow> cec_op_tuner_device_info \<Rightarrow> cec_msg option" where
  "cec_msg_tuner_device_status e m tuner_dev_info =
     (if td_is_analog tuner_dev_info \<noteq> 0 then do {
        ana_bcast_type \<leftarrow> rd (td_un tuner_dev_info) 0;
        ana_freq \<leftarrow> ld16 e (td_un tuner_dev_info) 2;
        bcast_system \<leftarrow> rd (td_un tuner_dev_info) 4;
        cec_msg_tuner_device_status_analog m (td_rec_flag tuner_dev_info)
          (td_tuner_display_info tuner_dev_info) ana_bcast_type ana_freq bcast_system
      }
      else cec_msg_tuner_device_status_digital e m (td_rec_flag tuner_dev_info)
        (td_tuner_display_info tuner_dev_info) (td_un tuner_dev_info))"

definition cec_ops_tuner_device_status ::
  "endian \<Rightarrow> cec_msg \<Rightarrow> cec_op_tuner_device_info \<Rightarrow> cec_op_tuner_device_info option" where
  "cec_ops_tuner_device_status e m tuner_dev_info = do {
     let tuner_dev_info = tuner_dev_info\<lparr>td_is_analog := if cm_len m < 10 then 1 else 0\<rparr>;
     b2 \<leftarrow> get_byte m 2;
     let tuner_dev_info = tuner_dev_info\<lparr>td_rec_flag := u8_of (drop_bit 7 (promote b2)),
       td_tuner_display_info := u8_of (promote b2 AND 0x7f)\<rparr>;
     if td_is_analog tuner_dev_info \<noteq> 0 then do {
       b3 \<leftarrow> get_byte m 3;
       b4 \<leftarrow> get_byte m 4;
       b5 \<leftarrow> get_byte m 5;
       b6 \<leftarrow> get_byte m 6;
       un \<leftarrow> wr (td_un tuner_dev_info) 0 b3;
       un \<leftarrow> st16 e un 2 (be16 b4 b5);
       un \<leftarrow> wr un 4 b6;
       Some (tuner_dev_info\<lparr>td_un := un\<rparr>)
     }
     else do {
       un \<leftarrow> cec_get_digital_service_id e m 3 (td_un tuner_dev_info);
       Some (tuner_dev_info\<lparr>td_un := un\<rparr>)
     }
   }"

definition cec_msg_give_tuner_device_status ::
  "cec_msg \<Rightarrow> c_int \<Rightarrow> u8 \<Rightarrow> cec_msg option" where
  "cec_msg_give_tuner_device_status m reply status_req = do {
     let m = m\<lparr>cm_len := 3\<rparr>;
     m \<leftarrow> put_byte m 1 CEC_MSG_GIVE_TUNER_DEVICE_STATUS;
     m \<leftarrow> put_byte m 2 status_req;
     let m = m\<lparr>cm_reply := if reply \<noteq> 0 \<and> status_req \<noteq>
       CEC_OP_STATUS_REQ_OFF then CEC_MSG_TUNER_DEVICE_STATUS else 0\<rparr>;
     Some m
   }"

definition cec_ops_give_tuner_device_status :: "cec_msg \<Rightarrow> u8 option" where
  "cec_ops_give_tuner_device_status m = do {
     b2 \<leftarrow> get_byte m 2;
     Some b2
   }"

definition cec_msg_select_analogue_service ::
  "cec_msg \<Rightarrow> u8 \<Rightarrow> u16 \<Rightarrow> u8 \<Rightarrow> cec_msg option" where
  "cec_msg_select_analogue_service m ana_bcast_type ana_freq bcast_system = do {
     let m = m\<lparr>cm_len := 6\<rparr>;
     m \<leftarrow> put_byte m 1 CEC_MSG_SELECT_ANALOGUE_SERVICE;
     m \<leftarrow> put_byte m 2 ana_bcast_type;
     m \<leftarrow> put_byte m 3 (hi8 ana_freq);
     m \<leftarrow> put_byte m 4 (lo8 ana_freq);
     m \<leftarrow> put_byte m 5 bcast_system;
     Some m
   }"

definition cec_ops_select_analogue_service ::
  "cec_msg \<Rightarrow> (u8 \<times> u16 \<times> u8) option" where
  "cec_ops_select_analogue_service m = do {
     b2 \<leftarrow> get_byte m 2;
     b3 \<leftarrow> get_byte m 3;
     b4 \<leftarrow> get_byte m 4;
     b5 \<leftarrow> get_byte m 5;
     Some (b2, be16 b3 b4, b5)
   }"

definition cec_msg_select_digital_service ::
  "endian \<Rightarrow> cec_msg \<Rightarrow> cec_op_digital_service_id \<Rightarrow> cec_msg option" where
  "cec_msg_select_digital_service e m digital = do {
     let m = m\<lparr>cm_len := 9\<rparr>;
     m \<leftarrow> put_byte m 1 CEC_MSG_SELECT_DIGITAL_SERVICE;
     cec_set_digital_service_id e m 2 digital
   }"

definition cec_ops_select_digital_service ::
  "endian \<Rightarrow> cec_msg \<Rightarrow> cec_op_digital_service_id \<Rightarrow> cec_op_digital_service_id option" where
  "cec_ops_select_digital_service e m digital = cec_get_digital_service_id e m 2 digital"

definition cec_msg_tuner_step_decrement :: "cec_msg \<Rightarrow> cec_msg option" where
  "cec_msg_tuner_step_decrement m = do {
     let m = m\<lparr>cm_len := 2\<rparr>;
     m \<leftarrow> put_byte m 1 CEC_MSG_TUNER_STEP_DECREMENT;
     Some m
   }"

definition cec_msg_tuner_step_increment :: "cec_msg \<Rightarrow> cec_msg option" where
  "cec_msg_tuner_step_increment m = do {
     let m = m\<lparr>cm_len := 2\<rparr>;
     m \<leftarrow> put_byte m 1 CEC_MSG_TUNER_STEP_INCREMENT;
     Some m
   }"

section \<open>Tuner status\<close>

datatype tuner_source = Tuner_Digital service | Tuner_Analog u8 u16 u8

fun mk_tuner_info :: "endian \<Rightarrow> u8 \<Rightarrow> u8 \<Rightarrow> tuner_source \<Rightarrow> cec_op_tuner_device_info" where
  "mk_tuner_info e rf di (Tuner_Digital s) = \<lparr>td_rec_flag = rf, td_tuner_display_info = di,
     td_is_analog = 0, td_un = mk_digital e s\<rparr>"
| "mk_tuner_info e rf di (Tuner_Analog ty freq sys) = \<lparr>td_rec_flag = rf, td_tuner_display_info = di,
     td_is_analog = 1, td_un = [ty, 0] @ bytes16 e freq @ [sys, 0, 0, 0]\<rparr>"

definition view_tuner_info ::
  "endian \<Rightarrow> cec_op_tuner_device_info \<Rightarrow> (u8 \<times> u8 \<times> tuner_source) option" where
  "view_tuner_info e info = do {
     src \<leftarrow> (if td_is_analog info \<noteq> 0 then do {
         ty \<leftarrow> rd (td_un info) 0;
         freq \<leftarrow> ld16 e (td_un info) 2;
         sys \<leftarrow> rd (td_un info) 4;
         Some (Tuner_Analog ty freq sys)
       } else map_option Tuner_Digital (view_digital e (td_un info)));
     Some (td_rec_flag info, td_tuner_display_info info, src)
   }"

fun tuner_source_ok :: "tuner_source \<Rightarrow> bool" where
  "tuner_source_ok (Tuner_Digital s) \<longleftrightarrow> service_ok s"
| "tuner_source_ok (Tuner_Analog ty freq sys) \<longleftrightarrow> True"

fun tuner_source_received :: "tuner_source \<Rightarrow> tuner_source" where
  "tuner_source_received (Tuner_Digital s) = Tuner_Digital (service_received s)"
| "tuner_source_received (Tuner_Analog ty freq sys) = Tuner_Analog ty freq sys"

fun tuner_status_len :: "tuner_source \<Rightarrow> u32" where
  "tuner_status_len (Tuner_Digital _) = 10"
| "tuner_status_len (Tuner_Analog _ _ _) = 7"

definition blank_tuner_info :: cec_op_tuner_device_info where
  "blank_tuner_info = \<lparr>td_rec_flag = 0, td_tuner_display_info = 0, td_is_analog = 0,
     td_un = replicate 8 0\<rparr>"

lemma wf_blank_tuner_info [simp]: "wf_tuner_info blank_tuner_info"
  by (simp add: wf_tuner_info_def blank_tuner_info_def)

lemmas tuner_status_defs = cec_msg_tuner_device_status_def cec_msg_tuner_device_status_analog_def
  cec_msg_tuner_device_status_digital_def

lemma take_3_tuner:
  "length bs = 16 \<Longrightarrow> take 3 (bs[Suc 0 := a, 2 := b]) = [bs ! 0, a, b]"
  by (rule nth_equalityI) (auto simp add: nth_list_update less_Suc_eq numeral_eq_Suc)

lemma tuner_status_digital_eq:
  "wf_msg m \<Longrightarrow> cec_msg_tuner_device_status e m (mk_tuner_info e rf di (Tuner_Digital s)) =
    Some (m\<lparr>cm_len := 10, cm_msg := [cm_msg m ! 0, CEC_MSG_TUNER_DEVICE_STATUS, push_bit 7 rf OR di]
      @ service_wire s @ drop 10 (cm_msg m)\<rparr>)"
  by (simp add: tuner_status_defs msg_simps c_conv set_digital_wire take_3_tuner)

lemma tuner_status_framed:
  assumes "wf_msg m"
  shows "\<exists>m'. cec_msg_tuner_device_status e m (mk_tuner_info e rf di src) = Some m' \<and>
    cec_framed CEC_MSG_TUNER_DEVICE_STATUS (Frame (tuner_status_len src) False None) m m'"
proof (cases src)
  case (Tuner_Digital s)
  with assms show ?thesis
    by (simp only: tuner_status_digital_eq) (simp add: cec_framed_def msg_simps)
qed (use assms in \<open>cases e; simp add: tuner_status_defs msg_simps cec_framed_def ld16_def bytes16_def\<close>)

lemma tuner_status_received:
  assumes "wf_msg m" "fits 1 rf" "fits 7 di" "tuner_source_ok src" "wf_tuner_info info"
  shows "do {
      m' \<leftarrow> cec_msg_tuner_device_status e m (mk_tuner_info e rf di src);
      info' \<leftarrow> cec_ops_tuner_device_status e m' info;
      view_tuner_info e info'
    } = Some (rf, di, tuner_source_received src)"
proof (cases src)
  case (Tuner_Digital s)
  let ?bs = "[cm_msg m ! 0, CEC_MSG_TUNER_DEVICE_STATUS, push_bit 7 rf OR di]
    @ service_wire s @ drop 10 (cm_msg m)"
  let ?m = "m\<lparr>cm_len := 10, cm_msg := ?bs\<rparr>"
  have "Option.bind (cec_get_digital_service_id e ?m 3 (td_un info)) (view_digital e)
      = Some (service_received s)"
    by (rule get_digital_wire [where zs = "drop 10 (cm_msg m)" and bs = ?bs and
          cs = "[cm_msg m ! 0, CEC_MSG_TUNER_DEVICE_STATUS, push_bit 7 rf OR di] @ replicate 13 0"])
      (use assms Tuner_Digital in \<open>simp_all add: wf_digital_def wf_tuner_info_def msg_simps\<close>)
  then obtain d where "cec_get_digital_service_id e ?m 3 (td_un info) = Some d"
    "view_digital e d = Some (service_received s)" by (auto simp only: bind_eq_Some_conv)
  with assms show ?thesis
    unfolding Tuner_Digital tuner_status_digital_eq [OF assms(1)]
    by (simp add: cec_ops_tuner_device_status_def view_tuner_info_def msg_simps c_conv field_dist)
qed (use assms in \<open>cases e; simp add: tuner_status_defs cec_ops_tuner_device_status_def
  view_tuner_info_def msg_simps ld16_def st16_def bytes16_def wf_tuner_info_def c_conv field_dist\<close>)

lemma select_digital_eq:
  "wf_msg m \<Longrightarrow> cec_msg_select_digital_service e m (mk_digital e s) =
    Some (m\<lparr>cm_len := 9, cm_msg := take 2 ((cm_msg m)[Suc 0 := CEC_MSG_SELECT_DIGITAL_SERVICE])
      @ service_wire s @ drop 9 (cm_msg m)\<rparr>)"
  by (simp add: cec_msg_select_digital_service_def msg_simps set_digital_wire)

lemma select_digital_received:
  assumes "wf_msg m" "service_ok s" "wf_digital d"
  shows "do {
      m' \<leftarrow> cec_msg_select_digital_service e m (mk_digital e s);
      d' \<leftarrow> cec_ops_select_digital_service e m' d;
      view_digital e d'
    } = Some (service_received s)"
  unfolding select_digital_eq [OF assms(1)] cec_ops_select_digital_service_def Option.bind.bind_lunit
  by (rule get_digital_wire [where zs = "drop 9 (cm_msg m)" and
        cs = "(cm_msg m)[Suc 0 := CEC_MSG_SELECT_DIGITAL_SERVICE]", OF refl])
    (use assms in \<open>simp_all add: msg_simps\<close>)

section \<open>The codec contract\<close>

interpretation deck_control: cec_codec
  "\<lambda>m deck_control_mode. cec_msg_deck_control m deck_control_mode"
  "\<lambda>_. True" CEC_MSG_DECK_CONTROL
  "\<lambda>_. Frame 3 False None"
  "\<lambda>_. True" cec_ops_deck_control
  by unfold_locales
    (auto simp: cec_msg_deck_control_def cec_ops_deck_control_def msg_simps cec_framed_def)

interpretation deck_status: cec_codec
  "\<lambda>m deck_info. cec_msg_deck_status m deck_info"
  "\<lambda>_. True" CEC_MSG_DECK_STATUS
  "\<lambda>_. Frame 3 False None"
  "\<lambda>_. True" cec_ops_deck_status
  by unfold_locales
    (auto simp: cec_msg_deck_status_def cec_ops_deck_status_def msg_simps cec_framed_def)

interpretation give_deck_status: cec_codec
  "\<lambda>m status_req. cec_msg_give_deck_status m reply status_req"
  "\<lambda>_. True" CEC_MSG_GIVE_DECK_STATUS
  "\<lambda>status_req. Frame 3 False (Some (if reply \<noteq> 0 \<and> status_req \<noteq> CEC_OP_STATUS_REQ_OFF then CEC_MSG_DECK_STATUS else 0))"
  "\<lambda>_. True" cec_ops_give_deck_status
  for reply
  by unfold_locales
    (auto simp: cec_msg_give_deck_status_def cec_ops_give_deck_status_def msg_simps cec_framed_def)

interpretation play: cec_codec
  "\<lambda>m play_mode. cec_msg_play m play_mode"
  "\<lambda>_. True" CEC_MSG_PLAY
  "\<lambda>_. Frame 3 False None"
  "\<lambda>_. True" cec_ops_play
  by unfold_locales
    (auto simp: cec_msg_play_def cec_ops_play_def msg_simps cec_framed_def)

interpretation tuner_device_status: cec_receiver
  "\<lambda>m (rf, di, src). cec_msg_tuner_device_status e m (mk_tuner_info e rf di src)"
  "\<lambda>_. True" CEC_MSG_TUNER_DEVICE_STATUS
  "\<lambda>(rf, di, src). Frame (tuner_status_len src) False None"
  "\<lambda>(rf, di, src). fits 1 rf \<and> fits 7 di \<and> tuner_source_ok src"
  "\<lambda>(rf, di, src). (rf, di, tuner_source_received src)"
  "\<lambda>m. Option.bind (cec_ops_tuner_device_status e m blank_tuner_info) (view_tuner_info e)"
  for e
  by unfold_locales (auto simp: tuner_status_framed tuner_status_received)


interpretation give_tuner_device_status: cec_codec
  "\<lambda>m status_req. cec_msg_give_tuner_device_status m reply status_req"
  "\<lambda>_. True" CEC_MSG_GIVE_TUNER_DEVICE_STATUS
  "\<lambda>status_req. Frame 3 False (Some (if reply \<noteq> 0 \<and> status_req \<noteq> CEC_OP_STATUS_REQ_OFF then CEC_MSG_TUNER_DEVICE_STATUS else 0))"
  "\<lambda>_. True" cec_ops_give_tuner_device_status
  for reply
  by unfold_locales
    (auto simp: cec_msg_give_tuner_device_status_def cec_ops_give_tuner_device_status_def msg_simps
      cec_framed_def)

interpretation select_analogue_service: cec_codec
  "\<lambda>m (ana_bcast_type, ana_freq, bcast_system). cec_msg_select_analogue_service m
     ana_bcast_type ana_freq bcast_system"
  "\<lambda>_. True" CEC_MSG_SELECT_ANALOGUE_SERVICE
  "\<lambda>_. Frame 6 False None"
  "\<lambda>_. True" cec_ops_select_analogue_service
  by unfold_locales
    (auto simp: cec_msg_select_analogue_service_def cec_ops_select_analogue_service_def msg_simps
      cec_framed_def)

interpretation select_digital_service: cec_receiver
  "\<lambda>m s. cec_msg_select_digital_service e m (mk_digital e s)"
  "\<lambda>_. True" CEC_MSG_SELECT_DIGITAL_SERVICE
  "\<lambda>_. Frame 9 False None" service_ok service_received
  "\<lambda>m. Option.bind (cec_ops_select_digital_service e m (replicate 8 0)) (view_digital e)"
  for e
  by unfold_locales
    (auto simp: select_digital_received wf_digital_def, simp add: select_digital_eq cec_framed_def
      msg_simps nth_append)


interpretation tuner_step_decrement: cec_encoder
  "\<lambda>m (_ :: unit). cec_msg_tuner_step_decrement m"
  "\<lambda>_. True" CEC_MSG_TUNER_STEP_DECREMENT
  "\<lambda>_. Frame 2 False None"
  by unfold_locales
    (auto simp: cec_msg_tuner_step_decrement_def msg_simps cec_framed_def)

interpretation tuner_step_increment: cec_encoder
  "\<lambda>m (_ :: unit). cec_msg_tuner_step_increment m"
  "\<lambda>_. True" CEC_MSG_TUNER_STEP_INCREMENT
  "\<lambda>_. Frame 2 False None"
  by unfold_locales
    (auto simp: cec_msg_tuner_step_increment_def msg_simps cec_framed_def)

section \<open>The feature\<close>

datatype tuner_cmd =
    Deck_Control u8
  | Deck_Status u8
  | Give_Deck_Status u8
  | Play u8
  | Tuner_Device_Status "u8 \<times> u8 \<times> tuner_source"
  | Give_Tuner_Device_Status u8
  | Select_Analogue_Service "u8 \<times> u16 \<times> u8"
  | Select_Digital_Service service
  | Tuner_Step_Decrement
  | Tuner_Step_Increment

fun tuner_encode :: "endian \<Rightarrow> c_int \<Rightarrow> cec_msg \<Rightarrow> tuner_cmd \<Rightarrow> cec_msg option" where
  "tuner_encode e reply m (Deck_Control deck_control_mode) = cec_msg_deck_control m deck_control_mode"
| "tuner_encode e reply m (Deck_Status deck_info) = cec_msg_deck_status m deck_info"
| "tuner_encode e reply m (Give_Deck_Status status_req) = cec_msg_give_deck_status m reply status_req"
| "tuner_encode e reply m (Play play_mode) = cec_msg_play m play_mode"
| "tuner_encode e reply m (Tuner_Device_Status x) =
     (case x of (rec_flag, display_info, src) \<Rightarrow> cec_msg_tuner_device_status e m
        (mk_tuner_info e rec_flag display_info src))"
| "tuner_encode e reply m (Give_Tuner_Device_Status status_req) = cec_msg_give_tuner_device_status m reply status_req"
| "tuner_encode e reply m (Select_Analogue_Service x) =
     (case x of (ana_bcast_type, ana_freq, bcast_system) \<Rightarrow> cec_msg_select_analogue_service m
        ana_bcast_type ana_freq bcast_system)"
| "tuner_encode e reply m (Select_Digital_Service s) = cec_msg_select_digital_service e m (mk_digital e s)"
| "tuner_encode e reply m Tuner_Step_Decrement = cec_msg_tuner_step_decrement m"
| "tuner_encode e reply m Tuner_Step_Increment = cec_msg_tuner_step_increment m"

fun tuner_opcode :: "tuner_cmd \<Rightarrow> u8" where
  "tuner_opcode (Deck_Control _) = CEC_MSG_DECK_CONTROL"
| "tuner_opcode (Deck_Status _) = CEC_MSG_DECK_STATUS"
| "tuner_opcode (Give_Deck_Status _) = CEC_MSG_GIVE_DECK_STATUS"
| "tuner_opcode (Play _) = CEC_MSG_PLAY"
| "tuner_opcode (Tuner_Device_Status _) = CEC_MSG_TUNER_DEVICE_STATUS"
| "tuner_opcode (Give_Tuner_Device_Status _) = CEC_MSG_GIVE_TUNER_DEVICE_STATUS"
| "tuner_opcode (Select_Analogue_Service _) = CEC_MSG_SELECT_ANALOGUE_SERVICE"
| "tuner_opcode (Select_Digital_Service _) = CEC_MSG_SELECT_DIGITAL_SERVICE"
| "tuner_opcode Tuner_Step_Decrement = CEC_MSG_TUNER_STEP_DECREMENT"
| "tuner_opcode Tuner_Step_Increment = CEC_MSG_TUNER_STEP_INCREMENT"

text \<open>The frames: the length, whether it is a broadcast, and the reply waited for.\<close>

fun tuner_frame :: "c_int \<Rightarrow> tuner_cmd \<Rightarrow> msg_frame" where
  "tuner_frame reply (Deck_Control _) = Frame 3 False None"
| "tuner_frame reply (Deck_Status _) = Frame 3 False None"
| "tuner_frame reply (Give_Deck_Status status_req) = Frame 3 False (Some (if reply \<noteq> 0 \<and> status_req \<noteq> CEC_OP_STATUS_REQ_OFF then CEC_MSG_DECK_STATUS else 0))"
| "tuner_frame reply (Play _) = Frame 3 False None"
| "tuner_frame reply (Tuner_Device_Status x) = (case x of (rf, di, src) \<Rightarrow>
     Frame (tuner_status_len src) False None)"
| "tuner_frame reply (Give_Tuner_Device_Status status_req) = Frame 3 False (Some (if reply \<noteq> 0 \<and> status_req \<noteq> CEC_OP_STATUS_REQ_OFF then CEC_MSG_TUNER_DEVICE_STATUS else 0))"
| "tuner_frame reply (Select_Analogue_Service _) = Frame 6 False None"
| "tuner_frame reply (Select_Digital_Service _) = Frame 9 False None"
| "tuner_frame reply Tuner_Step_Decrement = Frame 2 False None"
| "tuner_frame reply Tuner_Step_Increment = Frame 2 False None"

fun tuner_ok :: "tuner_cmd \<Rightarrow> bool" where
  "tuner_ok (Tuner_Device_Status x) \<longleftrightarrow>
     (case x of (rec_flag, display_info, src) \<Rightarrow> fits 1 rec_flag \<and> fits 7 display_info
        \<and> tuner_source_ok src)"
| "tuner_ok (Select_Digital_Service s) \<longleftrightarrow> service_ok s"
| "tuner_ok _ \<longleftrightarrow> True"

fun tuner_received :: "tuner_cmd \<Rightarrow> tuner_cmd" where
  "tuner_received (Tuner_Device_Status x) =
     Tuner_Device_Status (case x of (rf, di, src) \<Rightarrow> (rf, di, tuner_source_received src))"
| "tuner_received (Select_Digital_Service s) = Select_Digital_Service (service_received s)"
| "tuner_received c = c"

definition tuner_decode :: "endian \<Rightarrow> u8 \<Rightarrow> cec_msg \<Rightarrow> tuner_cmd option" where
  "tuner_decode e opc m =
     (if opc = CEC_MSG_DECK_CONTROL then map_option Deck_Control (cec_ops_deck_control m)
      else if opc = CEC_MSG_DECK_STATUS then map_option Deck_Status (cec_ops_deck_status m)
      else if opc = CEC_MSG_GIVE_DECK_STATUS
        then map_option Give_Deck_Status (cec_ops_give_deck_status m)
      else if opc = CEC_MSG_PLAY then map_option Play (cec_ops_play m)
      else if opc = CEC_MSG_TUNER_DEVICE_STATUS
        then map_option Tuner_Device_Status (Option.bind (cec_ops_tuner_device_status e m blank_tuner_info) (view_tuner_info e))
      else if opc = CEC_MSG_GIVE_TUNER_DEVICE_STATUS
        then map_option Give_Tuner_Device_Status (cec_ops_give_tuner_device_status m)
      else if opc = CEC_MSG_SELECT_ANALOGUE_SERVICE
        then map_option Select_Analogue_Service (cec_ops_select_analogue_service m)
      else if opc = CEC_MSG_SELECT_DIGITAL_SERVICE
        then map_option Select_Digital_Service (Option.bind (cec_ops_select_digital_service e m (replicate 8 0)) (view_digital e))
      else if opc = CEC_MSG_TUNER_STEP_DECREMENT then Some Tuner_Step_Decrement
      else if opc = CEC_MSG_TUNER_STEP_INCREMENT then Some Tuner_Step_Increment
      else None)"

definition tuner_opcodes :: "u8 list" where
  "tuner_opcodes = [CEC_MSG_DECK_CONTROL, CEC_MSG_DECK_STATUS, CEC_MSG_GIVE_DECK_STATUS, CEC_MSG_PLAY,
     CEC_MSG_TUNER_DEVICE_STATUS, CEC_MSG_GIVE_TUNER_DEVICE_STATUS, CEC_MSG_SELECT_ANALOGUE_SERVICE,
     CEC_MSG_SELECT_DIGITAL_SERVICE, CEC_MSG_TUNER_STEP_DECREMENT, CEC_MSG_TUNER_STEP_INCREMENT]"

lemmas tuner_facts =
  deck_control.ok_emits deck_control.dec_enc
  deck_status.ok_emits deck_status.dec_enc
  give_deck_status.ok_emits give_deck_status.dec_enc
  play.ok_emits play.dec_enc
  tuner_device_status.ok_emits tuner_device_status.dec_recv
  give_tuner_device_status.ok_emits give_tuner_device_status.dec_enc
  select_analogue_service.ok_emits select_analogue_service.dec_enc
  select_digital_service.ok_emits select_digital_service.dec_recv
  tuner_step_decrement.enc_emits tuner_step_decrement.enc_total
  tuner_step_increment.enc_emits tuner_step_increment.enc_total

interpretation tuner: cec_dispatch "tuner_encode e reply" tuner_ok tuner_opcode
  "tuner_frame reply" tuner_received "tuner_decode e" tuner_opcodes
  for e reply
proof unfold_locales
  fix m c opc
  show "cec_emits (tuner_opcode c) (tuner_frame reply c) m (tuner_encode e reply m c)" if "wf_msg m" "tuner_ok c"
    using that by (cases c) (simp_all add: tuner_facts)
  show "Option.bind (tuner_encode e reply m c) (\<lambda>m'. tuner_decode e (tuner_opcode c) m') =
      Some (tuner_received c)"
    if "wf_msg m" "tuner_ok c"
    using that by (cases c) (simp_all add: tuner_decode_def tuner_facts cec_code)
  show "tuner_opcode c \<in> set tuner_opcodes"
    by (cases c) (simp_all add: tuner_opcodes_def)
  show "tuner_decode e opc m = None" if "opc \<notin> set tuner_opcodes"
    using that by (simp add: tuner_decode_def tuner_opcodes_def)
qed

end
