(* ===== verification/Cec_Vendor.thy ===== *)
theory Cec_Vendor
  imports Cec_Codec
begin

text \<open>
  The feature \<^verbatim>\<open>Vendor Specific Commands\<close> of \<^verbatim>\<open>cec-funcs.h\<close>: the vendor's 24-bit identifier and messages
  with a payload of the vendor's choice.
\<close>

section \<open>Messages\<close>

definition cec_msg_device_vendor_id ::
  "cec_msg \<Rightarrow> u32 \<Rightarrow> cec_msg option" where
  "cec_msg_device_vendor_id m vendor_id = do {
     let m = m\<lparr>cm_len := 5\<rparr>;
     m \<leftarrow> or_byte m 0 0xf;
     m \<leftarrow> put_byte m 1 CEC_MSG_DEVICE_VENDOR_ID;
     m \<leftarrow> put_byte m 2 (u8_of (drop_bit 16 vendor_id));
     m \<leftarrow> put_byte m 3 (u8_of (drop_bit 8 vendor_id AND 0xff));
     m \<leftarrow> put_byte m 4 (u8_of (vendor_id AND 0xff));
     Some m
   }"

definition cec_ops_device_vendor_id :: "cec_msg \<Rightarrow> u32 option" where
  "cec_ops_device_vendor_id m = do {
     b2 \<leftarrow> get_byte m 2;
     b3 \<leftarrow> get_byte m 3;
     b4 \<leftarrow> get_byte m 4;
     Some (be24 b2 b3 b4)
   }"

definition cec_msg_give_device_vendor_id ::
  "cec_msg \<Rightarrow> c_int \<Rightarrow> cec_msg option" where
  "cec_msg_give_device_vendor_id m reply = do {
     let m = m\<lparr>cm_len := 2\<rparr>;
     m \<leftarrow> put_byte m 1 CEC_MSG_GIVE_DEVICE_VENDOR_ID;
     let m = m\<lparr>cm_reply := if reply \<noteq> 0 then CEC_MSG_DEVICE_VENDOR_ID else
       0\<rparr>;
     Some m
   }"

text \<open>
  The decoders of the vendor messages hand out a pointer into the message instead of a copy; it
  is returned as an offset, beside the number of bytes.
\<close>

definition cec_msg_vendor_command :: "cec_msg \<Rightarrow> u8 \<Rightarrow> u8 list \<Rightarrow> cec_msg option" where
  "cec_msg_vendor_command m sz vendor_cmd = do {
     let sz = clamp 14 sz;
     let m = m\<lparr>cm_len := 2 + promote sz\<rparr>;
     m \<leftarrow> put_byte m 1 CEC_MSG_VENDOR_COMMAND;
     src \<leftarrow> rdn vendor_cmd 0 (unat sz);
     put_bytes m 2 src
   }"

definition cec_ops_vendor_command :: "cec_msg \<Rightarrow> (u8 \<times> nat) option" where
  "cec_ops_vendor_command m = do {
     let sz = u8_of (cm_len m - 2);
     let sz = clamp 14 sz;
     Some (sz, 2)
   }"

definition cec_msg_vendor_command_with_id ::
  "cec_msg \<Rightarrow> u32 \<Rightarrow> u8 \<Rightarrow> u8 list \<Rightarrow> cec_msg option" where
  "cec_msg_vendor_command_with_id m vendor_id sz vendor_cmd = do {
     let sz = clamp 11 sz;
     let m = m\<lparr>cm_len := 5 + promote sz\<rparr>;
     m \<leftarrow> put_byte m 1 CEC_MSG_VENDOR_COMMAND_WITH_ID;
     m \<leftarrow> put_byte m 2 (u8_of (drop_bit 16 vendor_id));
     m \<leftarrow> put_byte m 3 (u8_of (drop_bit 8 vendor_id AND 0xff));
     m \<leftarrow> put_byte m 4 (u8_of (vendor_id AND 0xff));
     src \<leftarrow> rdn vendor_cmd 0 (unat sz);
     put_bytes m 5 src
   }"

definition cec_ops_vendor_command_with_id :: "cec_msg \<Rightarrow> (u32 \<times> u8 \<times> nat) option" where
  "cec_ops_vendor_command_with_id m = do {
     let sz = u8_of (cm_len m - 5);
     let sz = clamp 11 sz;
     b2 \<leftarrow> get_byte m 2;
     b3 \<leftarrow> get_byte m 3;
     b4 \<leftarrow> get_byte m 4;
     Some (be24 b2 b3 b4, sz, 5)
   }"

definition cec_msg_vendor_remote_button_down :: "cec_msg \<Rightarrow> u8 \<Rightarrow> u8 list \<Rightarrow> cec_msg option" where
  "cec_msg_vendor_remote_button_down m sz rc_code = do {
     let sz = clamp 14 sz;
     let m = m\<lparr>cm_len := 2 + promote sz\<rparr>;
     m \<leftarrow> put_byte m 1 CEC_MSG_VENDOR_REMOTE_BUTTON_DOWN;
     src \<leftarrow> rdn rc_code 0 (unat sz);
     put_bytes m 2 src
   }"

definition cec_ops_vendor_remote_button_down :: "cec_msg \<Rightarrow> (u8 \<times> nat) option" where
  "cec_ops_vendor_remote_button_down m = do {
     let sz = u8_of (cm_len m - 2);
     let sz = clamp 14 sz;
     Some (sz, 2)
   }"

definition cec_msg_vendor_remote_button_up :: "cec_msg \<Rightarrow> cec_msg option" where
  "cec_msg_vendor_remote_button_up m = do {
     let m = m\<lparr>cm_len := 2\<rparr>;
     m \<leftarrow> put_byte m 1 CEC_MSG_VENDOR_REMOTE_BUTTON_UP;
     Some m
   }"

section \<open>Payloads\<close>

text \<open>
  The payload a client reads through the pointer. For every message, whatever its length
  member says, the bytes handed out lie inside the message.
\<close>

definition vendor_payload :: "cec_msg \<Rightarrow> (u8 \<times> nat) option \<Rightarrow> u8 list option" where
  "vendor_payload m res = do { (sz, off) \<leftarrow> res; rdn (cm_msg m) off (unat sz) }"

definition vendor_id_payload :: "cec_msg \<Rightarrow> (u32 \<times> u8 \<times> nat) option \<Rightarrow> (u32 \<times> u8 list) option" where
  "vendor_id_payload m res = do {
     (vendor_id, sz, off) \<leftarrow> res;
     bs \<leftarrow> rdn (cm_msg m) off (unat sz);
     Some (vendor_id, bs)
   }"

lemma vendor_payload_in_bounds:
  assumes "wf_msg m"
  shows "vendor_payload m (cec_ops_vendor_command m) \<noteq> None"
    and "vendor_id_payload m (cec_ops_vendor_command_with_id m) \<noteq> None"
    and "vendor_payload m (cec_ops_vendor_remote_button_down m) \<noteq> None"
  using assms
  by (simp_all add: vendor_payload_def vendor_id_payload_def cec_ops_vendor_command_def
      cec_ops_vendor_command_with_id_def cec_ops_vendor_remote_button_down_def msg_simps unat_clamp)

text \<open>
  The number of bytes sent: the size argument is a \<^verbatim>\<open>__u8\<close>, clamped to the room in the message.
\<close>

definition sent_size :: "u8 \<Rightarrow> u8 list \<Rightarrow> u8" where
  "sent_size lim bs = clamp lim (word_of_nat (length bs))"

lemma unat_sent_size: "unat (sent_size lim bs) = min (unat lim) (length bs mod 256)"
  by (simp add: sent_size_def unat_clamp unsigned_of_nat take_bit_eq_mod)

lemma sent_size_le:
  "unat (sent_size lim bs) \<le> length bs" "unat (sent_size lim bs) \<le> unat lim"
  "sent_size lim bs \<le> lim"
proof -
  have "length bs mod 256 \<le> length bs" by (rule mod_less_eq_dividend)
  then show "unat (sent_size lim bs) \<le> length bs" unfolding unat_sent_size by linarith
  show "sent_size lim bs \<le> lim" by (simp add: sent_size_def clamp_le)
  then show "unat (sent_size lim bs) \<le> unat lim" by (simp add: word_le_nat_alt)
qed

lemmas sent14 = sent_size_le [of 14, simplified]
lemmas sent11 = sent_size_le [of 11, simplified]

lemma promote_sent_le: "promote (sent_size 14 bs) \<le> 14" "promote (sent_size 11 bs) \<le> 11"
  using sent14(2) [of bs] sent11(2) [of bs] by (simp_all add: word_le_nat_alt unat_promote)

lemma promote_sent_fits:
  assumes "length bs \<le> unat lim"
  shows "promote (sent_size lim bs) = word_of_nat (length bs)"
proof -
  have "unat lim < 2 ^ LENGTH(8)" by (rule unsigned_less)
  with assms have "length bs < 256" by simp
  then have "unat (promote (sent_size lim bs)) = unat (word_of_nat (length bs) :: u32)"
    using assms by (simp add: unat_promote unat_sent_size unat_u32_of_nat)
  then show ?thesis by (simp add: word_unat_eq_iff)
qed

lemma vendor_command_eq:
  assumes "wf_msg m"
  shows "cec_msg_vendor_command m (word_of_nat (length bs)) bs =
    Some (m\<lparr>cm_len := 2 + promote (sent_size 14 bs),
      cm_msg := take 2 ((cm_msg m)[Suc 0 := CEC_MSG_VENDOR_COMMAND])
      @ take (unat (sent_size 14 bs)) bs @ drop (2 + unat (sent_size 14 bs)) (cm_msg m)\<rparr>)"
  using assms sent14 [of bs]
  by (simp add: cec_msg_vendor_command_def sent_size_def [symmetric] msg_simps Let_def)

lemma vendor_button_eq:
  assumes "wf_msg m"
  shows "cec_msg_vendor_remote_button_down m (word_of_nat (length bs)) bs =
    Some (m\<lparr>cm_len := 2 + promote (sent_size 14 bs),
      cm_msg := take 2 ((cm_msg m)[Suc 0 := CEC_MSG_VENDOR_REMOTE_BUTTON_DOWN])
      @ take (unat (sent_size 14 bs)) bs @ drop (2 + unat (sent_size 14 bs)) (cm_msg m)\<rparr>)"
  using assms sent14 [of bs]
  by (simp add: cec_msg_vendor_remote_button_down_def sent_size_def [symmetric] msg_simps Let_def)

lemma vendor_id_eq:
  assumes "wf_msg m"
  shows "cec_msg_vendor_command_with_id m vendor_id (word_of_nat (length bs)) bs =
    Some (m\<lparr>cm_len := 5 + promote (sent_size 11 bs),
      cm_msg := take 5 ((cm_msg m)[Suc 0 := CEC_MSG_VENDOR_COMMAND_WITH_ID,
        2 := u8_of (drop_bit 16 vendor_id), 3 := u8_of (drop_bit 8 vendor_id AND 0xff),
        4 := u8_of (vendor_id AND 0xff)])
      @ take (unat (sent_size 11 bs)) bs @ drop (5 + unat (sent_size 11 bs)) (cm_msg m)\<rparr>)"
  using assms sent11 [of bs]
  by (simp add: cec_msg_vendor_command_with_id_def sent_size_def [symmetric] msg_simps Let_def)

lemma vendor_command_framed:
  "wf_msg m \<Longrightarrow> \<exists>m'. cec_msg_vendor_command m (word_of_nat (length bs)) bs = Some m' \<and>
    cec_framed CEC_MSG_VENDOR_COMMAND (Frame (2 + promote (sent_size 14 bs)) False None) m m'"
  using sent14 [of bs] payload_len [of 2 "promote (sent_size 14 bs)"] promote_sent_le [of bs]
  by (simp add: vendor_command_eq cec_framed_def msg_simps nth_append)

lemma vendor_button_framed:
  "wf_msg m \<Longrightarrow> \<exists>m'. cec_msg_vendor_remote_button_down m (word_of_nat (length bs)) bs = Some m' \<and>
    cec_framed CEC_MSG_VENDOR_REMOTE_BUTTON_DOWN (Frame (2 + promote (sent_size 14 bs)) False None) m m'"
  using sent14 [of bs] payload_len [of 2 "promote (sent_size 14 bs)"] promote_sent_le [of bs]
  by (simp add: vendor_button_eq cec_framed_def msg_simps nth_append)

lemma vendor_id_framed:
  assumes "wf_msg m"
  shows "\<exists>m'. cec_msg_vendor_command_with_id m vendor_id (word_of_nat (length bs)) bs = Some m' \<and>
    cec_framed CEC_MSG_VENDOR_COMMAND_WITH_ID (Frame (5 + promote (sent_size 11 bs)) False None) m m'"
proof -
  have len: "5 \<le> 5 + promote (sent_size 11 bs)" "5 + promote (sent_size 11 bs) \<le> 16"
    using payload_len [of 5 "promote (sent_size 11 bs)"] promote_sent_le [of bs] by simp_all
  have "2 \<le> 5 + promote (sent_size 11 bs)" by (rule order_trans [OF _ len(1)]) simp
  with assms len(2) sent11 [of bs] show ?thesis
    by (simp add: vendor_id_eq cec_framed_def msg_simps nth_append)
qed

lemma vendor_command_received:
  "wf_msg m \<Longrightarrow> do {
      m' \<leftarrow> cec_msg_vendor_command m (word_of_nat (length bs)) bs;
      vendor_payload m' (cec_ops_vendor_command m')
    } = Some (take (unat (sent_size 14 bs)) bs)"
  using sent14 [of bs]
  by (simp add: vendor_command_eq vendor_payload_def cec_ops_vendor_command_def msg_simps c_conv
      clamp_idem)

lemma vendor_button_received:
  "wf_msg m \<Longrightarrow> do {
      m' \<leftarrow> cec_msg_vendor_remote_button_down m (word_of_nat (length bs)) bs;
      vendor_payload m' (cec_ops_vendor_remote_button_down m')
    } = Some (take (unat (sent_size 14 bs)) bs)"
  using sent14 [of bs]
  by (simp add: vendor_button_eq vendor_payload_def cec_ops_vendor_remote_button_down_def msg_simps
      c_conv clamp_idem)

lemma vendor_id_received:
  "wf_msg m \<Longrightarrow> fits 24 vendor_id \<Longrightarrow> do {
      m' \<leftarrow> cec_msg_vendor_command_with_id m vendor_id (word_of_nat (length bs)) bs;
      vendor_id_payload m' (cec_ops_vendor_command_with_id m')
    } = Some (vendor_id, take (unat (sent_size 11 bs)) bs)"
  using sent11 [of bs]
  by (simp add: vendor_id_eq vendor_id_payload_def cec_ops_vendor_command_with_id_def msg_simps
      u8_of_promote clamp_idem nth_append be24_bytes)

lemma vendor_framed:
  assumes "wf_msg m"
  shows "length bs \<le> 14 \<Longrightarrow> \<exists>m'. cec_msg_vendor_command m (word_of_nat (length bs)) bs = Some m' \<and>
      cec_framed CEC_MSG_VENDOR_COMMAND (Frame (2 + word_of_nat (length bs)) False None) m m'"
    and "length bs \<le> 14 \<Longrightarrow>
      \<exists>m'. cec_msg_vendor_remote_button_down m (word_of_nat (length bs)) bs = Some m' \<and>
        cec_framed CEC_MSG_VENDOR_REMOTE_BUTTON_DOWN
          (Frame (2 + word_of_nat (length bs)) False None) m m'"
    and "length bs \<le> 11 \<Longrightarrow>
      \<exists>m'. cec_msg_vendor_command_with_id m vendor_id (word_of_nat (length bs)) bs = Some m' \<and>
        cec_framed CEC_MSG_VENDOR_COMMAND_WITH_ID
          (Frame (5 + word_of_nat (length bs)) False None) m m'"
  using vendor_command_framed [OF assms, of bs] vendor_button_framed [OF assms, of bs]
    vendor_id_framed [OF assms, of vendor_id bs] by (simp_all add: promote_sent_fits)

lemmas vendor_received = vendor_command_received vendor_button_received vendor_id_received

section \<open>The codec contract\<close>

interpretation device_vendor_id: cec_codec
  "\<lambda>m vendor_id. cec_msg_device_vendor_id m vendor_id"
  "\<lambda>_. True" CEC_MSG_DEVICE_VENDOR_ID
  "\<lambda>_. Frame 5 True None"
  "\<lambda>vendor_id. fits 24 vendor_id" cec_ops_device_vendor_id
  by unfold_locales
    (auto simp: cec_msg_device_vendor_id_def cec_ops_device_vendor_id_def msg_simps cec_framed_def
      be24_bytes)

interpretation give_device_vendor_id: cec_encoder
  "\<lambda>m (_ :: unit). cec_msg_give_device_vendor_id m reply"
  "\<lambda>_. True" CEC_MSG_GIVE_DEVICE_VENDOR_ID
  "\<lambda>_. Frame 2 False (when_reply reply CEC_MSG_DEVICE_VENDOR_ID)"
  for reply
  by unfold_locales
    (auto simp: cec_msg_give_device_vendor_id_def msg_simps cec_framed_def)

interpretation vendor_command: cec_codec
  "\<lambda>m bs. cec_msg_vendor_command m (word_of_nat (length bs)) bs"
  "\<lambda>bs. length bs \<le> 14" CEC_MSG_VENDOR_COMMAND
  "\<lambda>bs. Frame (2 + word_of_nat (length bs)) False None"
  "\<lambda>bs. length bs \<le> 14" "\<lambda>m. vendor_payload m (cec_ops_vendor_command m)"
  by unfold_locales (auto simp: vendor_framed vendor_received unat_sent_size)


interpretation vendor_command_with_id: cec_codec
  "\<lambda>m (vendor_id, bs). cec_msg_vendor_command_with_id m vendor_id (word_of_nat (length bs)) bs"
  "\<lambda>(vendor_id, bs). length bs \<le> 11" CEC_MSG_VENDOR_COMMAND_WITH_ID
  "\<lambda>(vendor_id, bs). Frame (5 + word_of_nat (length bs)) False None"
  "\<lambda>(vendor_id, bs). fits 24 vendor_id \<and> length bs \<le> 11"
  "\<lambda>m. vendor_id_payload m (cec_ops_vendor_command_with_id m)"
  by unfold_locales (auto simp: vendor_framed vendor_received unat_sent_size)


interpretation vendor_remote_button_down: cec_codec
  "\<lambda>m bs. cec_msg_vendor_remote_button_down m (word_of_nat (length bs)) bs"
  "\<lambda>bs. length bs \<le> 14" CEC_MSG_VENDOR_REMOTE_BUTTON_DOWN
  "\<lambda>bs. Frame (2 + word_of_nat (length bs)) False None"
  "\<lambda>bs. length bs \<le> 14" "\<lambda>m. vendor_payload m (cec_ops_vendor_remote_button_down m)"
  by unfold_locales (auto simp: vendor_framed vendor_received unat_sent_size)


interpretation vendor_remote_button_up: cec_encoder
  "\<lambda>m (_ :: unit). cec_msg_vendor_remote_button_up m"
  "\<lambda>_. True" CEC_MSG_VENDOR_REMOTE_BUTTON_UP
  "\<lambda>_. Frame 2 False None"
  by unfold_locales
    (auto simp: cec_msg_vendor_remote_button_up_def msg_simps cec_framed_def)

section \<open>The feature\<close>

datatype vendor_cmd =
    Device_Vendor_Id u32
  | Give_Device_Vendor_Id
  | Vendor_Command "u8 list"
  | Vendor_Command_With_Id "u32 \<times> u8 list"
  | Vendor_Remote_Button_Down "u8 list"
  | Vendor_Remote_Button_Up

fun vendor_encode :: "c_int \<Rightarrow> cec_msg \<Rightarrow> vendor_cmd \<Rightarrow> cec_msg option" where
  "vendor_encode reply m (Device_Vendor_Id vendor_id) = cec_msg_device_vendor_id m vendor_id"
| "vendor_encode reply m Give_Device_Vendor_Id = cec_msg_give_device_vendor_id m reply"
| "vendor_encode reply m (Vendor_Command bs) = cec_msg_vendor_command m (word_of_nat (length bs)) bs"
| "vendor_encode reply m (Vendor_Command_With_Id x) =
     (case x of (vendor_id, bs) \<Rightarrow> cec_msg_vendor_command_with_id m vendor_id (word_of_nat
        (length bs)) bs)"
| "vendor_encode reply m (Vendor_Remote_Button_Down bs) = cec_msg_vendor_remote_button_down m (word_of_nat (length bs)) bs"
| "vendor_encode reply m Vendor_Remote_Button_Up = cec_msg_vendor_remote_button_up m"

fun vendor_opcode :: "vendor_cmd \<Rightarrow> u8" where
  "vendor_opcode (Device_Vendor_Id _) = CEC_MSG_DEVICE_VENDOR_ID"
| "vendor_opcode Give_Device_Vendor_Id = CEC_MSG_GIVE_DEVICE_VENDOR_ID"
| "vendor_opcode (Vendor_Command _) = CEC_MSG_VENDOR_COMMAND"
| "vendor_opcode (Vendor_Command_With_Id _) = CEC_MSG_VENDOR_COMMAND_WITH_ID"
| "vendor_opcode (Vendor_Remote_Button_Down _) = CEC_MSG_VENDOR_REMOTE_BUTTON_DOWN"
| "vendor_opcode Vendor_Remote_Button_Up = CEC_MSG_VENDOR_REMOTE_BUTTON_UP"

text \<open>The frames: the length, whether it is a broadcast, and the reply waited for.\<close>

fun vendor_frame :: "c_int \<Rightarrow> vendor_cmd \<Rightarrow> msg_frame" where
  "vendor_frame reply (Device_Vendor_Id _) = Frame 5 True None"
| "vendor_frame reply Give_Device_Vendor_Id = Frame 2 False (when_reply reply CEC_MSG_DEVICE_VENDOR_ID)"
| "vendor_frame reply (Vendor_Command bs) = Frame (2 + word_of_nat (length bs)) False None"
| "vendor_frame reply (Vendor_Command_With_Id x) = (case x of (vendor_id, bs) \<Rightarrow>
     Frame (5 + word_of_nat (length bs)) False None)"
| "vendor_frame reply (Vendor_Remote_Button_Down bs) = Frame (2 + word_of_nat (length bs)) False None"
| "vendor_frame reply Vendor_Remote_Button_Up = Frame 2 False None"

fun vendor_ok :: "vendor_cmd \<Rightarrow> bool" where
  "vendor_ok (Device_Vendor_Id vendor_id) \<longleftrightarrow> fits 24 vendor_id"
| "vendor_ok (Vendor_Command bs) \<longleftrightarrow> length bs \<le> 14"
| "vendor_ok (Vendor_Command_With_Id x) \<longleftrightarrow>
     (case x of (vendor_id, bs) \<Rightarrow> fits 24 vendor_id \<and> length bs \<le> 11)"
| "vendor_ok (Vendor_Remote_Button_Down bs) \<longleftrightarrow> length bs \<le> 14"
| "vendor_ok _ \<longleftrightarrow> True"

definition vendor_decode :: "u8 \<Rightarrow> cec_msg \<Rightarrow> vendor_cmd option" where
  "vendor_decode opc m =
     (if opc = CEC_MSG_DEVICE_VENDOR_ID
        then map_option Device_Vendor_Id (cec_ops_device_vendor_id m)
      else if opc = CEC_MSG_GIVE_DEVICE_VENDOR_ID then Some Give_Device_Vendor_Id
      else if opc = CEC_MSG_VENDOR_COMMAND
        then map_option Vendor_Command (vendor_payload m (cec_ops_vendor_command m))
      else if opc = CEC_MSG_VENDOR_COMMAND_WITH_ID
        then map_option Vendor_Command_With_Id (vendor_id_payload m (cec_ops_vendor_command_with_id m))
      else if opc = CEC_MSG_VENDOR_REMOTE_BUTTON_DOWN
        then map_option Vendor_Remote_Button_Down (vendor_payload m (cec_ops_vendor_remote_button_down m))
      else if opc = CEC_MSG_VENDOR_REMOTE_BUTTON_UP then Some Vendor_Remote_Button_Up
      else None)"

definition vendor_opcodes :: "u8 list" where
  "vendor_opcodes = [CEC_MSG_DEVICE_VENDOR_ID, CEC_MSG_GIVE_DEVICE_VENDOR_ID, CEC_MSG_VENDOR_COMMAND,
     CEC_MSG_VENDOR_COMMAND_WITH_ID, CEC_MSG_VENDOR_REMOTE_BUTTON_DOWN,
     CEC_MSG_VENDOR_REMOTE_BUTTON_UP]"

lemmas vendor_facts =
  device_vendor_id.ok_emits device_vendor_id.dec_enc
  give_device_vendor_id.enc_emits give_device_vendor_id.enc_total
  vendor_command.ok_emits vendor_command.dec_enc
  vendor_command_with_id.ok_emits vendor_command_with_id.dec_enc
  vendor_remote_button_down.ok_emits vendor_remote_button_down.dec_enc
  vendor_remote_button_up.enc_emits vendor_remote_button_up.enc_total

interpretation vendor: cec_dispatch "vendor_encode reply" vendor_ok vendor_opcode
  "vendor_frame reply" id vendor_decode vendor_opcodes
  for reply
proof unfold_locales
  fix m c opc
  show "cec_emits (vendor_opcode c) (vendor_frame reply c) m (vendor_encode reply m c)" if "wf_msg m" "vendor_ok c"
    using that by (cases c) (simp_all add: vendor_facts)
  show "Option.bind (vendor_encode reply m c) (\<lambda>m'. vendor_decode (vendor_opcode c) m') = Some (id c)"
    if "wf_msg m" "vendor_ok c"
    using that by (cases c) (simp_all add: vendor_decode_def vendor_facts cec_code)
  show "vendor_opcode c \<in> set vendor_opcodes"
    by (cases c) (simp_all add: vendor_opcodes_def)
  show "vendor_decode opc m = None" if "opc \<notin> set vendor_opcodes"
    using that by (simp add: vendor_decode_def vendor_opcodes_def)
qed

section \<open>Properties\<close>

text \<open>
  The bytes that \<^verbatim>\<open>cec_ops_vendor_command\<close>, \<^verbatim>\<open>cec_ops_vendor_command_with_id\<close> and
  \<^verbatim>\<open>cec_ops_vendor_remote_button_down\<close> hand out, as a pointer and a size, lie inside the message for
  every value of its length member.
\<close>

theorem vendor_slice_in_message:
  "(\<forall>sz off. cec_ops_vendor_command m = Some (sz, off) \<longrightarrow> off + unat sz \<le> CEC_MAX_MSG_SIZE) \<and>
   (\<forall>vid sz off. cec_ops_vendor_command_with_id m = Some (vid, sz, off) \<longrightarrow>
      off + unat sz \<le> CEC_MAX_MSG_SIZE) \<and>
   (\<forall>sz off. cec_ops_vendor_remote_button_down m = Some (sz, off) \<longrightarrow>
      off + unat sz \<le> CEC_MAX_MSG_SIZE)"
  by (auto simp add: cec_ops_vendor_command_def cec_ops_vendor_command_with_id_def
      cec_ops_vendor_remote_button_down_def CEC_MAX_MSG_SIZE_def unat_clamp
      split: Option.bind_splits)

theorem vendor_slice_in_message_witness:
  "cec_ops_vendor_command (zero_msg\<lparr>cm_len := 9\<rparr>) = Some (7, 2) \<and>
    2 + unat (7 :: u8) \<le> CEC_MAX_MSG_SIZE"
  using vendor_slice_in_message [of "zero_msg\<lparr>cm_len := 9\<rparr>"]
  by (simp add: cec_ops_vendor_command_def clamp_def u8_of_def)

text \<open>
  A vendor command of any size below 256 is received as its first fourteen bytes.
\<close>

theorem vendor_command_truncates:
  assumes "wf_msg m" "length bs < 256"
  shows "do {
      m' \<leftarrow> cec_msg_vendor_command m (word_of_nat (length bs)) bs;
      vendor_payload m' (cec_ops_vendor_command m')
    } = Some (take 14 bs)"
proof -
  have "take (unat (sent_size 14 bs)) bs = take 14 bs"
    using assms(2) by (simp add: unat_sent_size min_def)
  then show ?thesis using vendor_command_received [OF assms(1), of bs] by simp
qed

theorem vendor_command_truncates_witness:
  "do {
     m' \<leftarrow> cec_msg_vendor_command zero_msg (word_of_nat (length (replicate 20 (7 :: u8))))
       (replicate 20 7);
     vendor_payload m' (cec_ops_vendor_command m')
   } = Some (take 14 (replicate 20 7))"
  by (rule vendor_command_truncates) simp_all

text \<open>
  The size is computed by an unsigned subtraction before it is clamped, so a message of fewer
  than two bytes, a poll for instance, is decoded as one with fourteen bytes of payload.
\<close>

theorem vendor_command_short_message:
  assumes "cm_len m < 2"
  shows "cec_ops_vendor_command m = Some (14, 2)"
proof -
  have "unat (cm_len m) = 0 \<or> unat (cm_len m) = 1" using assms by (simp add: word_less_nat_alt) linarith
  then have "cm_len m = 0 \<or> cm_len m = 1" by (simp only: word_unat_eq_iff unat_0 unat_1)
  moreover have "0 - 2 = (0xfffffffe :: u32)" "1 - 2 = (0xffffffff :: u32)" by simp_all
  ultimately have "u8_of (cm_len m - 2) = u8_of 0xfffffffe \<or> u8_of (cm_len m - 2) = u8_of 0xffffffff"
    by metis
  then have "u8_of (cm_len m - 2) = 0xfe \<or> u8_of (cm_len m - 2) = 0xff"
    by (simp only: u8_of_numeral) auto
  then show ?thesis by (auto simp add: cec_ops_vendor_command_def clamp_def)
qed

theorem vendor_command_short_message_witness:
  "cec_ops_vendor_command (zero_msg\<lparr>cm_len := 1\<rparr>) = Some (14, 2)"
  by (rule vendor_command_short_message) simp

end
