(* ===== verification/Cec_Osd.thy ===== *)
theory Cec_Osd
  imports Cec_Service
begin

text \<open>
  The features \<^verbatim>\<open>OSD Display\<close>, \<^verbatim>\<open>Device OSD Transfer\<close> and \<^verbatim>\<open>Device Menu Control\<close> of \<^verbatim>\<open>cec-funcs.h\<close>: texts
  for the screen, and the keys of a remote control with their optional operands.
\<close>

section \<open>Messages\<close>

definition cec_msg_set_osd_string :: "cec_msg \<Rightarrow> u8 \<Rightarrow> u8 list \<Rightarrow> cec_msg option" where
  "cec_msg_set_osd_string m disp_ctl osd = do {
     n \<leftarrow> c_strlen osd;
     let len = clamp 13 (word_of_nat n :: u32);
     let m = m\<lparr>cm_len := 3 + len\<rparr>;
     m \<leftarrow> put_byte m 1 CEC_MSG_SET_OSD_STRING;
     m \<leftarrow> put_byte m 2 disp_ctl;
     src \<leftarrow> rdn osd 0 (unat len);
     put_bytes m 3 src
   }"

definition cec_ops_set_osd_string :: "cec_msg \<Rightarrow> u8 list \<Rightarrow> (u8 \<times> u8 list) option" where
  "cec_ops_set_osd_string m osd = do {
     let len = payload_size m 3;
     disp_ctl \<leftarrow> get_byte m 2;
     let len = clamp 13 len;
     src \<leftarrow> rdn (cm_msg m) 3 (unat len);
     osd \<leftarrow> wrn osd 0 src;
     osd \<leftarrow> wr osd (unat len) 0;
     Some (disp_ctl, osd)
   }"

definition cec_msg_set_osd_name :: "cec_msg \<Rightarrow> u8 list \<Rightarrow> cec_msg option" where
  "cec_msg_set_osd_name m name = do {
     n \<leftarrow> c_strlen name;
     let len = clamp 14 (word_of_nat n :: u32);
     let m = m\<lparr>cm_len := 2 + len\<rparr>;
     m \<leftarrow> put_byte m 1 CEC_MSG_SET_OSD_NAME;
     src \<leftarrow> rdn name 0 (unat len);
     put_bytes m 2 src
   }"

definition cec_ops_set_osd_name :: "cec_msg \<Rightarrow> u8 list \<Rightarrow> u8 list option" where
  "cec_ops_set_osd_name m name = do {
     let len = payload_size m 2;
     let len = clamp 14 len;
     src \<leftarrow> rdn (cm_msg m) 2 (unat len);
     name \<leftarrow> wrn name 0 src;
     wr name (unat len) 0
   }"

definition cec_msg_give_osd_name ::
  "cec_msg \<Rightarrow> c_int \<Rightarrow> cec_msg option" where
  "cec_msg_give_osd_name m reply = do {
     let m = m\<lparr>cm_len := 2\<rparr>;
     m \<leftarrow> put_byte m 1 CEC_MSG_GIVE_OSD_NAME;
     let m = m\<lparr>cm_reply := if reply \<noteq> 0 then CEC_MSG_SET_OSD_NAME else 0\<rparr>;
     Some m
   }"

definition cec_msg_menu_status :: "cec_msg \<Rightarrow> u8 \<Rightarrow> cec_msg option" where
  "cec_msg_menu_status m menu_state = do {
     let m = m\<lparr>cm_len := 3\<rparr>;
     m \<leftarrow> put_byte m 1 CEC_MSG_MENU_STATUS;
     m \<leftarrow> put_byte m 2 menu_state;
     Some m
   }"

definition cec_ops_menu_status :: "cec_msg \<Rightarrow> u8 option" where
  "cec_ops_menu_status m = do {
     b2 \<leftarrow> get_byte m 2;
     Some b2
   }"

definition cec_msg_menu_request ::
  "cec_msg \<Rightarrow> c_int \<Rightarrow> u8 \<Rightarrow> cec_msg option" where
  "cec_msg_menu_request m reply menu_req = do {
     let m = m\<lparr>cm_len := 3\<rparr>;
     m \<leftarrow> put_byte m 1 CEC_MSG_MENU_REQUEST;
     m \<leftarrow> put_byte m 2 menu_req;
     let m = m\<lparr>cm_reply := if reply \<noteq> 0 then CEC_MSG_MENU_STATUS else 0\<rparr>;
     Some m
   }"

definition cec_ops_menu_request :: "cec_msg \<Rightarrow> u8 option" where
  "cec_ops_menu_request m = do {
     b2 \<leftarrow> get_byte m 2;
     Some b2
   }"

text \<open>
  The union of \<^verbatim>\<open>struct cec_op_ui_command\<close> is its six bytes: a channel identifier (the format at
  offset 0, the major and minor numbers at 2 and 4), or one byte at offset 0 under the names
  \<^verbatim>\<open>ui_broadcast_type\<close>, \<^verbatim>\<open>ui_sound_presentation_control\<close>, \<^verbatim>\<open>play_mode\<close>, \<^verbatim>\<open>ui_function_media\<close>,
  \<^verbatim>\<open>ui_function_select_av_input\<close> and \<^verbatim>\<open>ui_function_select_audio_input\<close>.
\<close>

record cec_op_ui_command =
  ui_cmd :: u8
  ui_has_opt_arg :: u8
  ui_un :: "u8 list"

definition wf_ui :: "cec_op_ui_command \<Rightarrow> bool" where
  "wf_ui ui \<longleftrightarrow> length (ui_un ui) = 6"

text \<open>The commands whose optional operand is one byte, the first group of \<^verbatim>\<open>case\<close> labels.\<close>

definition ui_byte_cmd :: "u8 \<Rightarrow> bool" where
  "ui_byte_cmd c \<longleftrightarrow> c = CEC_OP_UI_CMD_SELECT_BROADCAST_TYPE \<or>
     c = CEC_OP_UI_CMD_SELECT_SOUND_PRESENTATION \<or> c = CEC_OP_UI_CMD_PLAY_FUNCTION \<or>
     c = CEC_OP_UI_CMD_SELECT_MEDIA_FUNCTION \<or> c = CEC_OP_UI_CMD_SELECT_AV_INPUT_FUNCTION \<or>
     c = CEC_OP_UI_CMD_SELECT_AUDIO_INPUT_FUNCTION"

definition cec_msg_user_control_pressed ::
  "endian \<Rightarrow> cec_msg \<Rightarrow> cec_op_ui_command \<Rightarrow> cec_msg option" where
  "cec_msg_user_control_pressed e m ui = do {
     let m = m\<lparr>cm_len := 3\<rparr>;
     m \<leftarrow> put_byte m 1 CEC_MSG_USER_CONTROL_PRESSED;
     m \<leftarrow> put_byte m 2 (ui_cmd ui);
     if ui_has_opt_arg ui = 0 then Some m
     else if ui_byte_cmd (ui_cmd ui) then do {
       let m = m\<lparr>cm_len := cm_len m + 1\<rparr>;
       play_mode \<leftarrow> rd (ui_un ui) 0;
       put_byte m 3 play_mode
     }
     else if ui_cmd ui = CEC_OP_UI_CMD_TUNE_FUNCTION then do {
       let m = m\<lparr>cm_len := cm_len m + 4\<rparr>;
       fmt \<leftarrow> rd (ui_un ui) 0;
       major \<leftarrow> ld16 e (ui_un ui) 2;
       minor \<leftarrow> ld16 e (ui_un ui) 4;
       m \<leftarrow> put_byte m 3 (pack_channel fmt major);
       m \<leftarrow> put_byte m 4 (lo8 major);
       m \<leftarrow> put_byte m 5 (hi8 minor);
       put_byte m 6 (lo8 minor)
     }
     else Some m
   }"

definition cec_ops_user_control_pressed ::
  "endian \<Rightarrow> cec_msg \<Rightarrow> cec_op_ui_command \<Rightarrow> cec_op_ui_command option" where
  "cec_ops_user_control_pressed e m ui = do {
     b2 \<leftarrow> get_byte m 2;
     let ui = ui\<lparr>ui_cmd := b2, ui_has_opt_arg := 0\<rparr>;
     if cm_len m = 3 then Some ui
     else if ui_byte_cmd (ui_cmd ui) then do {
       b3 \<leftarrow> get_byte m 3;
       un \<leftarrow> wr (ui_un ui) 0 b3;
       Some (ui\<lparr>ui_un := un, ui_has_opt_arg := 1\<rparr>)
     }
     else if ui_cmd ui = CEC_OP_UI_CMD_TUNE_FUNCTION then
       if cm_len m < 7 then Some ui
       else do {
         let ui = ui\<lparr>ui_has_opt_arg := 1\<rparr>;
         b3 \<leftarrow> get_byte m 3;
         b4 \<leftarrow> get_byte m 4;
         b5 \<leftarrow> get_byte m 5;
         b6 \<leftarrow> get_byte m 6;
         un \<leftarrow> wr (ui_un ui) 0 (unpack_fmt b3);
         un \<leftarrow> st16 e un 2 (unpack_major b3 b4);
         un \<leftarrow> st16 e un 4 (be16 b5 b6);
         Some (ui\<lparr>ui_un := un\<rparr>)
       }
     else Some ui
   }"

definition cec_msg_user_control_released :: "cec_msg \<Rightarrow> cec_msg option" where
  "cec_msg_user_control_released m = do {
     let m = m\<lparr>cm_len := 2\<rparr>;
     m \<leftarrow> put_byte m 1 CEC_MSG_USER_CONTROL_RELEASED;
     Some m
   }"

section \<open>On-screen text\<close>

lemma osd_string_eq:
  assumes "wf_msg m" "0 \<notin> set s"
  shows "cec_msg_set_osd_string m dc (c_str s) =
    Some (m\<lparr>cm_len := 3 + clamp 13 (word_of_nat (length s)),
      cm_msg := take 3 ((cm_msg m)[Suc 0 := CEC_MSG_SET_OSD_STRING, 2 := dc])
        @ take (min 13 (length s mod 2 ^ 32)) s
        @ drop (3 + min 13 (length s mod 2 ^ 32)) (cm_msg m)\<rparr>)"
  using assms text_len [of 13 s]
  by (simp add: cec_msg_set_osd_string_def c_strlen_c_str rdn_c_str msg_simps Let_def)

lemma osd_string_framed:
  assumes "wf_msg m" "0 \<notin> set s" "length s \<le> 13"
  shows "\<exists>m'. cec_msg_set_osd_string m dc (c_str s) = Some m' \<and>
    cec_framed CEC_MSG_SET_OSD_STRING (Frame (3 + word_of_nat (length s)) False None) m m'"
proof -
  let ?w = "word_of_nat (length s) :: u32"
  have "clamp 13 ?w = ?w" using assms(3) by (simp add: clamp_fits)
  then have w: "?w \<le> 13" using clamp_le [of 13 ?w] by simp
  have len: "3 \<le> 3 + ?w" "3 + ?w \<le> 16" using payload_len [of 3 ?w] w by simp_all
  have "2 \<le> 3 + ?w" by (rule order_trans [OF _ len(1)]) simp
  with len(2) assms text_len [of 13 s] show ?thesis
    by (simp add: osd_string_eq cec_framed_def msg_simps nth_append clamp_fits)
qed

lemma osd_string_received:
  assumes "wf_msg m" "0 \<notin> set s" "13 < length buf"
  shows "do {
      m' \<leftarrow> cec_msg_set_osd_string m dc (c_str s);
      (dc', osd) \<leftarrow> cec_ops_set_osd_string m' buf;
      str \<leftarrow> c_string osd;
      Some (dc', str)
    } = Some (dc, take (min 13 (length s mod 2 ^ 32)) s)"
  using assms text_len [of 13 s]
  by (simp add: osd_string_eq cec_ops_set_osd_string_def msg_simps Let_def payload_size_eq clamp_le
      clamp_idem c_string_store not_in_take nth_append)

lemma osd_name_eq:
  assumes "wf_msg m" "0 \<notin> set s"
  shows "cec_msg_set_osd_name m (c_str s) =
    Some (m\<lparr>cm_len := 2 + clamp 14 (word_of_nat (length s)),
      cm_msg := take 2 ((cm_msg m)[Suc 0 := CEC_MSG_SET_OSD_NAME])
        @ take (min 14 (length s mod 2 ^ 32)) s
        @ drop (2 + min 14 (length s mod 2 ^ 32)) (cm_msg m)\<rparr>)"
  using assms text_len [of 14 s]
  by (simp add: cec_msg_set_osd_name_def c_strlen_c_str rdn_c_str msg_simps Let_def)

lemma osd_name_framed:
  assumes "wf_msg m" "0 \<notin> set s" "length s \<le> 14"
  shows "\<exists>m'. cec_msg_set_osd_name m (c_str s) = Some m' \<and>
    cec_framed CEC_MSG_SET_OSD_NAME (Frame (2 + word_of_nat (length s)) False None) m m'"
proof -
  have "(word_of_nat (length s) :: u32) \<le> 14"
    using assms(3) clamp_le [of 14 "word_of_nat (length s) :: u32"] by (simp add: clamp_fits)
  then show ?thesis
    using assms text_len [of 14 s] payload_len [of 2 "word_of_nat (length s)"]
    by (simp add: osd_name_eq cec_framed_def msg_simps nth_append clamp_fits)
qed

lemma osd_name_received:
  assumes "wf_msg m" "0 \<notin> set s" "14 < length buf"
  shows "do {
      m' \<leftarrow> cec_msg_set_osd_name m (c_str s);
      name \<leftarrow> cec_ops_set_osd_name m' buf;
      c_string name
    } = Some (take (min 14 (length s mod 2 ^ 32)) s)"
  using assms text_len [of 14 s]
  by (simp add: osd_name_eq cec_ops_set_osd_name_def msg_simps Let_def payload_size_eq clamp_le
      clamp_idem c_string_store not_in_take)

definition osd_string_view :: "cec_msg \<Rightarrow> (u8 \<times> u8 list) option" where
  "osd_string_view m = do {
     (dc, osd) \<leftarrow> cec_ops_set_osd_string m (replicate 14 0);
     str \<leftarrow> c_string osd;
     Some (dc, str)
   }"

section \<open>User control\<close>

datatype ui_arg = Ui_No_Arg | Ui_Byte u8 | Ui_Channel u8 u16 u16

fun mk_ui :: "endian \<Rightarrow> u8 \<Rightarrow> ui_arg \<Rightarrow> cec_op_ui_command" where
  "mk_ui e c Ui_No_Arg = \<lparr>ui_cmd = c, ui_has_opt_arg = 0, ui_un = replicate 6 0\<rparr>"
| "mk_ui e c (Ui_Byte b) = \<lparr>ui_cmd = c, ui_has_opt_arg = 1, ui_un = b # replicate 5 0\<rparr>"
| "mk_ui e c (Ui_Channel fmt major minor) =
     \<lparr>ui_cmd = c, ui_has_opt_arg = 1, ui_un = [fmt, 0] @ bytes16 e major @ bytes16 e minor\<rparr>"

definition view_ui :: "endian \<Rightarrow> cec_op_ui_command \<Rightarrow> (u8 \<times> ui_arg) option" where
  "view_ui e ui =
     (if ui_has_opt_arg ui = 0 then Some (ui_cmd ui, Ui_No_Arg)
      else if ui_cmd ui = CEC_OP_UI_CMD_TUNE_FUNCTION then do {
        fmt \<leftarrow> rd (ui_un ui) 0;
        major \<leftarrow> ld16 e (ui_un ui) 2;
        minor \<leftarrow> ld16 e (ui_un ui) 4;
        Some (ui_cmd ui, Ui_Channel fmt major minor)
      } else do {
        b \<leftarrow> rd (ui_un ui) 0;
        Some (ui_cmd ui, Ui_Byte b)
      })"

text \<open>An operand goes with the command, and a channel number fits its ten bits.\<close>

fun ui_ok :: "u8 \<Rightarrow> ui_arg \<Rightarrow> bool" where
  "ui_ok c Ui_No_Arg \<longleftrightarrow> True"
| "ui_ok c (Ui_Byte b) \<longleftrightarrow> ui_byte_cmd c"
| "ui_ok c (Ui_Channel fmt major minor) \<longleftrightarrow>
     c = CEC_OP_UI_CMD_TUNE_FUNCTION \<and> fits 6 fmt \<and> fits 10 major"

fun ui_received :: "ui_arg \<Rightarrow> ui_arg" where
  "ui_received (Ui_Channel fmt major minor) = Ui_Channel fmt (received_major major) minor"
| "ui_received a = a"

fun ui_len :: "ui_arg \<Rightarrow> u32" where
  "ui_len Ui_No_Arg = 3"
| "ui_len (Ui_Byte _) = 4"
| "ui_len (Ui_Channel _ _ _) = 7"

definition blank_ui :: cec_op_ui_command where
  "blank_ui = \<lparr>ui_cmd = 0, ui_has_opt_arg = 0, ui_un = replicate 6 0\<rparr>"

lemma wf_blank_ui [simp]: "wf_ui blank_ui"
  by (simp add: wf_ui_def blank_ui_def)

lemma tune_not_byte [simp]: "\<not> ui_byte_cmd CEC_OP_UI_CMD_TUNE_FUNCTION"
  by (simp add: ui_byte_cmd_def cec_code)

lemma user_control_framed:
  assumes "wf_msg m" "ui_ok c a"
  shows "\<exists>m'. cec_msg_user_control_pressed e m (mk_ui e c a) = Some m' \<and>
    cec_framed CEC_MSG_USER_CONTROL_PRESSED (Frame (ui_len a) False None) m m'"
  using assms
  by (cases a; cases e)
    (simp_all add: cec_msg_user_control_pressed_def msg_simps cec_framed_def ld16_def bytes16_def)

lemma wf_mk_ui [simp]: "wf_ui (mk_ui e c a)"
  by (cases a) (simp_all add: wf_ui_def)

lemma user_control_received:
  assumes "wf_msg m" "ui_ok c a" "wf_ui ui"
  shows "do {
      m' \<leftarrow> cec_msg_user_control_pressed e m (mk_ui e c a);
      ui' \<leftarrow> cec_ops_user_control_pressed e m' ui;
      view_ui e ui'
    } = Some (c, ui_received a)"
proof (cases a)
  case (Ui_Byte b)
  with assms have "c \<noteq> CEC_OP_UI_CMD_TUNE_FUNCTION" by auto
  with assms Ui_Byte show ?thesis
    by (simp add: cec_msg_user_control_pressed_def cec_ops_user_control_pressed_def view_ui_def
        msg_simps wf_ui_def)
next
  case (Ui_Channel fmt major minor)
  with assms have "fits 6 fmt" "fits 10 major" by simp_all
  with assms Ui_Channel show ?thesis
    by (cases e)
      (simp_all add: cec_msg_user_control_pressed_def cec_ops_user_control_pressed_def view_ui_def
        msg_simps wf_ui_def ld16_def st16_def bytes16_def unpack_fmt_pack
        unpack_major_received)
qed (use assms in \<open>simp add: cec_msg_user_control_pressed_def cec_ops_user_control_pressed_def
  view_ui_def msg_simps wf_ui_def\<close>)

section \<open>The codec contract\<close>

interpretation set_osd_string: cec_codec
  "\<lambda>m (dc, s). cec_msg_set_osd_string m dc (c_str s)"
  "\<lambda>(dc, s). 0 \<notin> set s \<and> length s \<le> 13" CEC_MSG_SET_OSD_STRING
  "\<lambda>(dc, s). Frame (3 + word_of_nat (length s)) False None"
  "\<lambda>(dc, s). 0 \<notin> set s \<and> length s \<le> 13" osd_string_view
  by unfold_locales (auto simp: osd_string_framed osd_string_view_def [abs_def] osd_string_received)


interpretation set_osd_name: cec_codec
  "\<lambda>m s. cec_msg_set_osd_name m (c_str s)"
  "\<lambda>s. 0 \<notin> set s \<and> length s \<le> 14" CEC_MSG_SET_OSD_NAME
  "\<lambda>s. Frame (2 + word_of_nat (length s)) False None"
  "\<lambda>s. 0 \<notin> set s \<and> length s \<le> 14"
  "\<lambda>m. Option.bind (cec_ops_set_osd_name m (replicate 15 0)) c_string"
  by unfold_locales (auto simp: osd_name_framed osd_name_received)


interpretation give_osd_name: cec_encoder
  "\<lambda>m (_ :: unit). cec_msg_give_osd_name m reply"
  "\<lambda>_. True" CEC_MSG_GIVE_OSD_NAME
  "\<lambda>_. Frame 2 False (when_reply reply CEC_MSG_SET_OSD_NAME)"
  for reply
  by unfold_locales
    (auto simp: cec_msg_give_osd_name_def msg_simps cec_framed_def)

interpretation menu_status: cec_codec
  "\<lambda>m menu_state. cec_msg_menu_status m menu_state"
  "\<lambda>_. True" CEC_MSG_MENU_STATUS
  "\<lambda>_. Frame 3 False None"
  "\<lambda>_. True" cec_ops_menu_status
  by unfold_locales
    (auto simp: cec_msg_menu_status_def cec_ops_menu_status_def msg_simps cec_framed_def)

interpretation menu_request: cec_codec
  "\<lambda>m menu_req. cec_msg_menu_request m reply menu_req"
  "\<lambda>_. True" CEC_MSG_MENU_REQUEST
  "\<lambda>_. Frame 3 False (when_reply reply CEC_MSG_MENU_STATUS)"
  "\<lambda>_. True" cec_ops_menu_request
  for reply
  by unfold_locales
    (auto simp: cec_msg_menu_request_def cec_ops_menu_request_def msg_simps cec_framed_def)

interpretation user_control_pressed: cec_receiver
  "\<lambda>m (c, a). cec_msg_user_control_pressed e m (mk_ui e c a)"
  "\<lambda>(c, a). ui_ok c a" CEC_MSG_USER_CONTROL_PRESSED
  "\<lambda>(c, a). Frame (ui_len a) False None" "\<lambda>(c, a). ui_ok c a"
  "\<lambda>(c, a). (c, ui_received a)"
  "\<lambda>m. Option.bind (cec_ops_user_control_pressed e m blank_ui) (view_ui e)"
  for e
  by unfold_locales (auto simp: user_control_framed user_control_received)


interpretation user_control_released: cec_encoder
  "\<lambda>m (_ :: unit). cec_msg_user_control_released m"
  "\<lambda>_. True" CEC_MSG_USER_CONTROL_RELEASED
  "\<lambda>_. Frame 2 False None"
  by unfold_locales
    (auto simp: cec_msg_user_control_released_def msg_simps cec_framed_def)

section \<open>The feature\<close>

datatype osd_cmd =
    Set_Osd_String "u8 \<times> u8 list"
  | Set_Osd_Name "u8 list"
  | Give_Osd_Name
  | Menu_Status u8
  | Menu_Request u8
  | User_Control_Pressed "u8 \<times> ui_arg"
  | User_Control_Released

fun osd_encode :: "endian \<Rightarrow> c_int \<Rightarrow> cec_msg \<Rightarrow> osd_cmd \<Rightarrow> cec_msg option" where
  "osd_encode e reply m (Set_Osd_String x) =
     (case x of (dc, s) \<Rightarrow> cec_msg_set_osd_string m dc (c_str s))"
| "osd_encode e reply m (Set_Osd_Name s) = cec_msg_set_osd_name m (c_str s)"
| "osd_encode e reply m Give_Osd_Name = cec_msg_give_osd_name m reply"
| "osd_encode e reply m (Menu_Status menu_state) = cec_msg_menu_status m menu_state"
| "osd_encode e reply m (Menu_Request menu_req) = cec_msg_menu_request m reply menu_req"
| "osd_encode e reply m (User_Control_Pressed x) =
     (case x of (c, a) \<Rightarrow> cec_msg_user_control_pressed e m (mk_ui e c a))"
| "osd_encode e reply m User_Control_Released = cec_msg_user_control_released m"

fun osd_opcode :: "osd_cmd \<Rightarrow> u8" where
  "osd_opcode (Set_Osd_String _) = CEC_MSG_SET_OSD_STRING"
| "osd_opcode (Set_Osd_Name _) = CEC_MSG_SET_OSD_NAME"
| "osd_opcode Give_Osd_Name = CEC_MSG_GIVE_OSD_NAME"
| "osd_opcode (Menu_Status _) = CEC_MSG_MENU_STATUS"
| "osd_opcode (Menu_Request _) = CEC_MSG_MENU_REQUEST"
| "osd_opcode (User_Control_Pressed _) = CEC_MSG_USER_CONTROL_PRESSED"
| "osd_opcode User_Control_Released = CEC_MSG_USER_CONTROL_RELEASED"

text \<open>The frames: the length, whether it is a broadcast, and the reply waited for.\<close>

fun osd_frame :: "c_int \<Rightarrow> osd_cmd \<Rightarrow> msg_frame" where
  "osd_frame reply (Set_Osd_String x) = (case x of (dc, s) \<Rightarrow>
     Frame (3 + word_of_nat (length s)) False None)"
| "osd_frame reply (Set_Osd_Name s) = Frame (2 + word_of_nat (length s)) False None"
| "osd_frame reply Give_Osd_Name = Frame 2 False (when_reply reply CEC_MSG_SET_OSD_NAME)"
| "osd_frame reply (Menu_Status _) = Frame 3 False None"
| "osd_frame reply (Menu_Request _) = Frame 3 False (when_reply reply CEC_MSG_MENU_STATUS)"
| "osd_frame reply (User_Control_Pressed x) = (case x of (c, a) \<Rightarrow>
     Frame (ui_len a) False None)"
| "osd_frame reply User_Control_Released = Frame 2 False None"

fun osd_ok :: "osd_cmd \<Rightarrow> bool" where
  "osd_ok (Set_Osd_String x) \<longleftrightarrow>
     (case x of (dc, s) \<Rightarrow> 0 \<notin> set s \<and> length s \<le> 13)"
| "osd_ok (Set_Osd_Name s) \<longleftrightarrow> 0 \<notin> set s \<and> length s \<le> 14"
| "osd_ok (User_Control_Pressed x) \<longleftrightarrow>
     (case x of (c, a) \<Rightarrow> ui_ok c a)"
| "osd_ok _ \<longleftrightarrow> True"

fun osd_received :: "osd_cmd \<Rightarrow> osd_cmd" where
  "osd_received (User_Control_Pressed x) =
     User_Control_Pressed (case x of (c, a) \<Rightarrow> (c, ui_received a))"
| "osd_received c = c"

definition osd_decode :: "endian \<Rightarrow> u8 \<Rightarrow> cec_msg \<Rightarrow> osd_cmd option" where
  "osd_decode e opc m =
     (if opc = CEC_MSG_SET_OSD_STRING then map_option Set_Osd_String (osd_string_view m)
      else if opc = CEC_MSG_SET_OSD_NAME
        then map_option Set_Osd_Name (Option.bind (cec_ops_set_osd_name m (replicate 15 0)) c_string)
      else if opc = CEC_MSG_GIVE_OSD_NAME then Some Give_Osd_Name
      else if opc = CEC_MSG_MENU_STATUS then map_option Menu_Status (cec_ops_menu_status m)
      else if opc = CEC_MSG_MENU_REQUEST then map_option Menu_Request (cec_ops_menu_request m)
      else if opc = CEC_MSG_USER_CONTROL_PRESSED
        then map_option User_Control_Pressed (Option.bind (cec_ops_user_control_pressed e m blank_ui) (view_ui e))
      else if opc = CEC_MSG_USER_CONTROL_RELEASED then Some User_Control_Released
      else None)"

definition osd_opcodes :: "u8 list" where
  "osd_opcodes = [CEC_MSG_SET_OSD_STRING, CEC_MSG_SET_OSD_NAME, CEC_MSG_GIVE_OSD_NAME,
     CEC_MSG_MENU_STATUS, CEC_MSG_MENU_REQUEST, CEC_MSG_USER_CONTROL_PRESSED,
     CEC_MSG_USER_CONTROL_RELEASED]"

lemmas osd_facts =
  set_osd_string.ok_emits set_osd_string.dec_enc
  set_osd_name.ok_emits set_osd_name.dec_enc
  give_osd_name.enc_emits give_osd_name.enc_total
  menu_status.ok_emits menu_status.dec_enc
  menu_request.ok_emits menu_request.dec_enc
  user_control_pressed.ok_emits user_control_pressed.dec_recv
  user_control_released.enc_emits user_control_released.enc_total

interpretation osd: cec_dispatch "osd_encode e reply" osd_ok osd_opcode
  "osd_frame reply" osd_received "osd_decode e" osd_opcodes
  for e reply
proof unfold_locales
  fix m c opc
  show "cec_emits (osd_opcode c) (osd_frame reply c) m (osd_encode e reply m c)" if "wf_msg m" "osd_ok c"
    using that by (cases c) (simp_all add: osd_facts)
  show "Option.bind (osd_encode e reply m c) (\<lambda>m'. osd_decode e (osd_opcode c) m') =
      Some (osd_received c)"
    if "wf_msg m" "osd_ok c"
    using that by (cases c) (simp_all add: osd_decode_def osd_facts cec_code)
  show "osd_opcode c \<in> set osd_opcodes"
    by (cases c) (simp_all add: osd_opcodes_def)
  show "osd_decode e opc m = None" if "opc \<notin> set osd_opcodes"
    using that by (simp add: osd_decode_def osd_opcodes_def)
qed

section \<open>Properties\<close>

text \<open>
  Every C string shorter than \<open>2\<^sup>3\<^sup>2\<close> can be sent as an OSD name, and the receiver, with a buffer of
  fifteen bytes or more, finds its first fourteen characters there, terminated.
\<close>

theorem osd_name_truncates:
  assumes "wf_msg m" "0 \<notin> set s" "length s < 2 ^ 32" "14 < length buf"
  shows "do {
      m' \<leftarrow> cec_msg_set_osd_name m (c_str s);
      name \<leftarrow> cec_ops_set_osd_name m' buf;
      c_string name
    } = Some (take 14 s)"
proof -
  have "take (min 14 (length s mod 2 ^ 32)) s = take 14 s"
    using assms(3) by (simp add: min_def)
  then show ?thesis using osd_name_received [OF assms(1,2,4)] by simp
qed

theorem osd_name_truncates_witness:
  "do {
     m' \<leftarrow> cec_msg_set_osd_name zero_msg (c_str (replicate 20 0x41));
     name \<leftarrow> cec_ops_set_osd_name m' (replicate 15 0xff);
     c_string name
   } = Some (take 14 (replicate 20 0x41))"
  by (rule osd_name_truncates) simp_all

end
