(* ===== verification/Cec_General.thy ===== *)
theory Cec_General
  imports Cec_Codec
begin

text \<open>
  The feature \<^verbatim>\<open>Power Status\<close> and the general protocol messages of \<^verbatim>\<open>cec-funcs.h\<close>, with the reply that
  rejects a message.
\<close>

section \<open>Messages\<close>

definition cec_msg_report_power_status ::
  "cec_msg \<Rightarrow> u8 \<Rightarrow> cec_msg option" where
  "cec_msg_report_power_status m pwr_state = do {
     let m = m\<lparr>cm_len := 3\<rparr>;
     m \<leftarrow> put_byte m 1 CEC_MSG_REPORT_POWER_STATUS;
     m \<leftarrow> put_byte m 2 pwr_state;
     Some m
   }"

definition cec_ops_report_power_status :: "cec_msg \<Rightarrow> u8 option" where
  "cec_ops_report_power_status m = do {
     b2 \<leftarrow> get_byte m 2;
     Some b2
   }"

definition cec_msg_give_device_power_status ::
  "cec_msg \<Rightarrow> c_int \<Rightarrow> cec_msg option" where
  "cec_msg_give_device_power_status m reply = do {
     let m = m\<lparr>cm_len := 2\<rparr>;
     m \<leftarrow> put_byte m 1 CEC_MSG_GIVE_DEVICE_POWER_STATUS;
     let m = m\<lparr>cm_reply := if reply \<noteq> 0 then CEC_MSG_REPORT_POWER_STATUS else
       0\<rparr>;
     Some m
   }"

definition cec_msg_feature_abort ::
  "cec_msg \<Rightarrow> u8 \<Rightarrow> u8 \<Rightarrow> cec_msg option" where
  "cec_msg_feature_abort m abort_msg reason = do {
     let m = m\<lparr>cm_len := 4\<rparr>;
     m \<leftarrow> put_byte m 1 CEC_MSG_FEATURE_ABORT;
     m \<leftarrow> put_byte m 2 abort_msg;
     m \<leftarrow> put_byte m 3 reason;
     Some m
   }"

definition cec_ops_feature_abort :: "cec_msg \<Rightarrow> (u8 \<times> u8) option" where
  "cec_ops_feature_abort m = do {
     b2 \<leftarrow> get_byte m 2;
     b3 \<leftarrow> get_byte m 3;
     Some (b2, b3)
   }"

definition cec_msg_reply_feature_abort :: "cec_msg \<Rightarrow> u8 \<Rightarrow> cec_msg option" where
  "cec_msg_reply_feature_abort m reason = do {
     m \<leftarrow> cec_msg_set_reply_to m m;
     let m = m\<lparr>cm_len := 4\<rparr>;
     b1 \<leftarrow> get_byte m 1;
     m \<leftarrow> put_byte m 2 b1;
     m \<leftarrow> put_byte m 3 reason;
     put_byte m 1 CEC_MSG_FEATURE_ABORT
   }"

definition cec_msg_abort :: "cec_msg \<Rightarrow> cec_msg option" where
  "cec_msg_abort m = do {
     let m = m\<lparr>cm_len := 2\<rparr>;
     m \<leftarrow> put_byte m 1 CEC_MSG_ABORT;
     Some m
   }"

section \<open>The codec contract\<close>

interpretation report_power_status: cec_codec
  "\<lambda>m pwr_state. cec_msg_report_power_status m pwr_state"
  "\<lambda>_. True" CEC_MSG_REPORT_POWER_STATUS
  "\<lambda>_. Frame 3 False None"
  "\<lambda>_. True" cec_ops_report_power_status
  by unfold_locales
    (auto simp: cec_msg_report_power_status_def cec_ops_report_power_status_def msg_simps
      cec_framed_def)

interpretation give_device_power_status: cec_encoder
  "\<lambda>m (_ :: unit). cec_msg_give_device_power_status m reply"
  "\<lambda>_. True" CEC_MSG_GIVE_DEVICE_POWER_STATUS
  "\<lambda>_. Frame 2 False (when_reply reply CEC_MSG_REPORT_POWER_STATUS)"
  for reply
  by unfold_locales
    (auto simp: cec_msg_give_device_power_status_def msg_simps cec_framed_def)

interpretation feature_abort: cec_codec
  "\<lambda>m (abort_msg, reason). cec_msg_feature_abort m abort_msg reason"
  "\<lambda>_. True" CEC_MSG_FEATURE_ABORT
  "\<lambda>_. Frame 4 False None"
  "\<lambda>_. True" cec_ops_feature_abort
  by unfold_locales
    (auto simp: cec_msg_feature_abort_def cec_ops_feature_abort_def msg_simps cec_framed_def)

interpretation abort: cec_encoder
  "\<lambda>m (_ :: unit). cec_msg_abort m"
  "\<lambda>_. True" CEC_MSG_ABORT
  "\<lambda>_. Frame 2 False None"
  by unfold_locales
    (auto simp: cec_msg_abort_def msg_simps cec_framed_def)

section \<open>The feature\<close>

datatype general_cmd =
    Report_Power_Status u8
  | Give_Device_Power_Status
  | Feature_Abort "u8 \<times> u8"
  | Abort

fun general_encode :: "c_int \<Rightarrow> cec_msg \<Rightarrow> general_cmd \<Rightarrow> cec_msg option" where
  "general_encode reply m (Report_Power_Status pwr_state) = cec_msg_report_power_status m pwr_state"
| "general_encode reply m Give_Device_Power_Status = cec_msg_give_device_power_status m reply"
| "general_encode reply m (Feature_Abort x) =
     (case x of (abort_msg, reason) \<Rightarrow> cec_msg_feature_abort m abort_msg reason)"
| "general_encode reply m Abort = cec_msg_abort m"

fun general_opcode :: "general_cmd \<Rightarrow> u8" where
  "general_opcode (Report_Power_Status _) = CEC_MSG_REPORT_POWER_STATUS"
| "general_opcode Give_Device_Power_Status = CEC_MSG_GIVE_DEVICE_POWER_STATUS"
| "general_opcode (Feature_Abort _) = CEC_MSG_FEATURE_ABORT"
| "general_opcode Abort = CEC_MSG_ABORT"

text \<open>The frames: the length, whether it is a broadcast, and the reply waited for.\<close>

fun general_frame :: "c_int \<Rightarrow> general_cmd \<Rightarrow> msg_frame" where
  "general_frame reply (Report_Power_Status _) = Frame 3 False None"
| "general_frame reply Give_Device_Power_Status = Frame 2 False (when_reply reply CEC_MSG_REPORT_POWER_STATUS)"
| "general_frame reply (Feature_Abort _) = Frame 4 False None"
| "general_frame reply Abort = Frame 2 False None"

fun general_ok :: "general_cmd \<Rightarrow> bool" where
  "general_ok _ \<longleftrightarrow> True"

definition general_decode :: "u8 \<Rightarrow> cec_msg \<Rightarrow> general_cmd option" where
  "general_decode opc m =
     (if opc = CEC_MSG_REPORT_POWER_STATUS
        then map_option Report_Power_Status (cec_ops_report_power_status m)
      else if opc = CEC_MSG_GIVE_DEVICE_POWER_STATUS then Some Give_Device_Power_Status
      else if opc = CEC_MSG_FEATURE_ABORT then map_option Feature_Abort (cec_ops_feature_abort m)
      else if opc = CEC_MSG_ABORT then Some Abort
      else None)"

definition general_opcodes :: "u8 list" where
  "general_opcodes = [CEC_MSG_REPORT_POWER_STATUS, CEC_MSG_GIVE_DEVICE_POWER_STATUS,
     CEC_MSG_FEATURE_ABORT, CEC_MSG_ABORT]"

lemmas general_facts =
  report_power_status.ok_emits report_power_status.dec_enc
  give_device_power_status.enc_emits give_device_power_status.enc_total
  feature_abort.ok_emits feature_abort.dec_enc
  abort.enc_emits abort.enc_total

interpretation general: cec_dispatch "general_encode reply" general_ok general_opcode
  "general_frame reply" id general_decode general_opcodes
  for reply
proof unfold_locales
  fix m c opc
  show "cec_emits (general_opcode c) (general_frame reply c) m (general_encode reply m c)" if "wf_msg m" "general_ok c"
    using that by (cases c) (simp_all add: general_facts)
  show "Option.bind (general_encode reply m c) (\<lambda>m'. general_decode (general_opcode c) m') = Some (id c)"
    if "wf_msg m" "general_ok c"
    using that by (cases c) (simp_all add: general_decode_def general_facts cec_code)
  show "general_opcode c \<in> set general_opcodes"
    by (cases c) (simp_all add: general_opcodes_def)
  show "general_decode opc m = None" if "opc \<notin> set general_opcodes"
    using that by (simp add: general_decode_def general_opcodes_def)
qed

section \<open>Rejecting a message\<close>

text \<open>
  \<^verbatim>\<open>cec_msg_reply_feature_abort\<close> turns a message into its own rejection: it goes back to the
  sender, is not answered in turn, and names the rejected opcode and the reason.
\<close>

lemma reply_feature_abort_eq:
  "wf_msg m \<Longrightarrow> cec_msg_reply_feature_abort m reason =
    Some (m\<lparr>cm_len := 4, cm_timeout := 0, cm_reply := 0,
      cm_msg := (cm_msg m)[0 := push_bit 4 (take_bit 4 (cm_msg m ! 0)) OR drop_bit 4 (cm_msg m ! 0),
        2 := cm_msg m ! 1, 3 := reason, Suc 0 := CEC_MSG_FEATURE_ABORT]\<rparr>)"
  by (simp add: cec_msg_reply_feature_abort_def cec_msg_set_reply_to_def msg_simps c_conv)

lemma reply_feature_abort_addresses:
  assumes "wf_msg m" "cec_msg_reply_feature_abort m reason = Some m'"
  shows "wf_msg m'" "cec_msg_initiator m' = cec_msg_destination m"
    "cec_msg_destination m' = cec_msg_initiator m"
proof -
  from assms have m': "m' = m\<lparr>cm_len := 4, cm_timeout := 0, cm_reply := 0, cm_msg := (cm_msg m)
      [0 := push_bit 4 (take_bit 4 (cm_msg m ! 0)) OR drop_bit 4 (cm_msg m ! 0),
       2 := cm_msg m ! 1, 3 := reason, Suc 0 := CEC_MSG_FEATURE_ABORT]\<rparr>" (is "_ = ?m'")
    by (simp only: reply_feature_abort_eq option.inject)
  show wf: "wf_msg m'" using assms by (simp add: m' wf_msg_def)
  have b0: "cm_msg m' ! 0 = push_bit 4 (take_bit 4 (cm_msg m ! 0)) OR drop_bit 4 (cm_msg m ! 0)"
    using assms(1) by (simp add: m' msg_simps)
  show "cec_msg_initiator m' = cec_msg_destination m" "cec_msg_destination m' = cec_msg_initiator m"
    using assms(1) wf swap_nibbles [of "cm_msg m ! 0"] by (simp_all only: initiator_eq destination_eq b0)
qed

lemma reply_feature_abort_received:
  assumes "wf_msg m"
  shows "Option.bind (cec_msg_reply_feature_abort m reason) cec_ops_feature_abort =
    Some (cm_msg m ! 1, reason)"
  using assms by (simp add: reply_feature_abort_eq cec_ops_feature_abort_def msg_simps)

text \<open>
  \<^verbatim>\<open>cec_msg_reply_feature_abort\<close> turns a message into its rejection in place: it goes from the
  destination back to the initiator, is a feature abort of four bytes that expects no reply, and
  \<^verbatim>\<open>cec_ops_feature_abort\<close> reads the rejected opcode and the reason from it.
\<close>

theorem reply_feature_abort_rejects:
  assumes "wf_msg m"
  shows "\<exists>m'. cec_msg_reply_feature_abort m reason = Some m' \<and> wf_msg m' \<and> cm_len m' = 4 \<and>
    cec_msg_opcode m' = Some (uint CEC_MSG_FEATURE_ABORT) \<and>
    cec_msg_initiator m' = cec_msg_destination m \<and> cec_msg_destination m' = cec_msg_initiator m \<and>
    cm_reply m' = 0 \<and> cm_timeout m' = 0 \<and>
    cec_ops_feature_abort m' = Some (cm_msg m ! 1, reason)"
proof -
  obtain m' where m': "cec_msg_reply_feature_abort m reason = Some m'" "cm_len m' = 4"
    "cm_reply m' = 0" "cm_timeout m' = 0" "cm_msg m' ! 1 = CEC_MSG_FEATURE_ABORT"
    using assms by (simp add: reply_feature_abort_eq msg_simps)
  note addr = reply_feature_abort_addresses [OF assms m'(1)]
  have "cec_msg_opcode m' = Some (uint CEC_MSG_FEATURE_ABORT)"
    using addr(1) m'(2,5) by (simp add: opcode_eq)
  with m' addr reply_feature_abort_received [OF assms, of reason] show ?thesis by simp
qed

theorem reply_feature_abort_rejects_witness:
  "\<exists>m'. cec_msg_reply_feature_abort (zero_msg\<lparr>cm_msg := [0x40, 0x83] @ replicate 14 0\<rparr>) 4 = Some m' \<and>
    wf_msg m' \<and> cm_len m' = 4 \<and> cec_msg_opcode m' = Some (uint CEC_MSG_FEATURE_ABORT) \<and>
    cec_msg_initiator m' =
      cec_msg_destination (zero_msg\<lparr>cm_msg := [0x40, 0x83] @ replicate 14 0\<rparr>) \<and>
    cec_msg_destination m' =
      cec_msg_initiator (zero_msg\<lparr>cm_msg := [0x40, 0x83] @ replicate 14 0\<rparr>) \<and>
    cm_reply m' = 0 \<and> cm_timeout m' = 0 \<and> cec_ops_feature_abort m' = Some (0x83, 4)"
  using reply_feature_abort_rejects [of "zero_msg\<lparr>cm_msg := [0x40, 0x83] @ replicate 14 0\<rparr>" 4]
  by (simp add: wf_msg_def CEC_MAX_MSG_SIZE_def)

end
