(* ===== verification/Cec_Audio.thy ===== *)
theory Cec_Audio
  imports Cec_Codec
begin

text \<open>
  The audio features of \<^verbatim>\<open>cec-funcs.h\<close>: \<^verbatim>\<open>System Audio Control\<close>, \<^verbatim>\<open>Audio Rate Control\<close>, \<^verbatim>\<open>Audio Return
  Channel Control\<close> and \<^verbatim>\<open>Dynamic Audio Lipsync\<close>, with the loops over short audio descriptors.
\<close>

section \<open>Messages\<close>

definition cec_msg_report_audio_status ::
  "cec_msg \<Rightarrow> u8 \<Rightarrow> u8 \<Rightarrow> cec_msg option" where
  "cec_msg_report_audio_status m aud_mute_status aud_vol_status = do {
     let m = m\<lparr>cm_len := 3\<rparr>;
     m \<leftarrow> put_byte m 1 CEC_MSG_REPORT_AUDIO_STATUS;
     m \<leftarrow> put_byte m 2 (u8_of (push_bit 7 (promote aud_mute_status) OR (promote
       aud_vol_status AND 0x7f)));
     Some m
   }"

definition cec_ops_report_audio_status :: "cec_msg \<Rightarrow> (u8 \<times> u8) option" where
  "cec_ops_report_audio_status m = do {
     b2 \<leftarrow> get_byte m 2;
     Some (u8_of (drop_bit 7 (promote b2)), u8_of (promote b2 AND 0x7f))
   }"

definition cec_msg_give_audio_status ::
  "cec_msg \<Rightarrow> c_int \<Rightarrow> cec_msg option" where
  "cec_msg_give_audio_status m reply = do {
     let m = m\<lparr>cm_len := 2\<rparr>;
     m \<leftarrow> put_byte m 1 CEC_MSG_GIVE_AUDIO_STATUS;
     let m = m\<lparr>cm_reply := if reply \<noteq> 0 then CEC_MSG_REPORT_AUDIO_STATUS else
       0\<rparr>;
     Some m
   }"

definition cec_msg_set_system_audio_mode ::
  "cec_msg \<Rightarrow> u8 \<Rightarrow> cec_msg option" where
  "cec_msg_set_system_audio_mode m sys_aud_status = do {
     let m = m\<lparr>cm_len := 3\<rparr>;
     m \<leftarrow> put_byte m 1 CEC_MSG_SET_SYSTEM_AUDIO_MODE;
     m \<leftarrow> put_byte m 2 sys_aud_status;
     Some m
   }"

definition cec_ops_set_system_audio_mode :: "cec_msg \<Rightarrow> u8 option" where
  "cec_ops_set_system_audio_mode m = do {
     b2 \<leftarrow> get_byte m 2;
     Some b2
   }"

definition cec_msg_system_audio_mode_request ::
  "cec_msg \<Rightarrow> c_int \<Rightarrow> u16 \<Rightarrow> cec_msg option" where
  "cec_msg_system_audio_mode_request m reply phys_addr = do {
     let m = m\<lparr>cm_len := if phys_addr = 0xffff then 2 else 4\<rparr>;
     m \<leftarrow> put_byte m 1 CEC_MSG_SYSTEM_AUDIO_MODE_REQUEST;
     m \<leftarrow> put_byte m 2 (hi8 phys_addr);
     m \<leftarrow> put_byte m 3 (lo8 phys_addr);
     let m = m\<lparr>cm_reply := if reply \<noteq> 0 then CEC_MSG_SET_SYSTEM_AUDIO_MODE else 0\<rparr>;
     Some m
   }"

definition cec_ops_system_audio_mode_request :: "cec_msg \<Rightarrow> u16 option" where
  "cec_ops_system_audio_mode_request m =
     (if cm_len m < 4 then Some 0xffff
      else do {
        b2 \<leftarrow> get_byte m 2;
        b3 \<leftarrow> get_byte m 3;
        Some (be16 b2 b3)
      })"

definition cec_msg_system_audio_mode_status ::
  "cec_msg \<Rightarrow> u8 \<Rightarrow> cec_msg option" where
  "cec_msg_system_audio_mode_status m sys_aud_status = do {
     let m = m\<lparr>cm_len := 3\<rparr>;
     m \<leftarrow> put_byte m 1 CEC_MSG_SYSTEM_AUDIO_MODE_STATUS;
     m \<leftarrow> put_byte m 2 sys_aud_status;
     Some m
   }"

definition cec_ops_system_audio_mode_status :: "cec_msg \<Rightarrow> u8 option" where
  "cec_ops_system_audio_mode_status m = do {
     b2 \<leftarrow> get_byte m 2;
     Some b2
   }"

definition cec_msg_give_system_audio_mode_status ::
  "cec_msg \<Rightarrow> c_int \<Rightarrow> cec_msg option" where
  "cec_msg_give_system_audio_mode_status m reply = do {
     let m = m\<lparr>cm_len := 2\<rparr>;
     m \<leftarrow> put_byte m 1 CEC_MSG_GIVE_SYSTEM_AUDIO_MODE_STATUS;
     let m = m\<lparr>cm_reply := if reply \<noteq> 0 then CEC_MSG_SYSTEM_AUDIO_MODE_STATUS else
       0\<rparr>;
     Some m
   }"

text \<open>
  The loops over the descriptors: \<open>n\<close> is \<^verbatim>\<open>num_descriptors\<close> and \<open>i\<close> the loop variable. The arrays of
  the caller are lists that the loops read and write through checked accesses.
\<close>

function put_sads :: "cec_msg \<Rightarrow> u32 list \<Rightarrow> nat \<Rightarrow> nat \<Rightarrow> cec_msg option" where
  "put_sads m descriptors n i =
     (if i < n then do {
        d \<leftarrow> rd descriptors i;
        m \<leftarrow> put_byte m (2 + i * 3) (u8_of (drop_bit 16 d AND 0xff));
        m \<leftarrow> put_byte m (3 + i * 3) (u8_of (drop_bit 8 d AND 0xff));
        m \<leftarrow> put_byte m (4 + i * 3) (u8_of (d AND 0xff));
        put_sads m descriptors n (i + 1)
      } else Some m)"
  by pat_completeness auto
termination by (relation "measure (\<lambda>(m, ds, n, i). n - i)") auto

definition cec_msg_report_short_audio_descriptor ::
  "cec_msg \<Rightarrow> u8 \<Rightarrow> u32 list \<Rightarrow> cec_msg option" where
  "cec_msg_report_short_audio_descriptor m num_descriptors descriptors = do {
     let num_descriptors = clamp 4 num_descriptors;
     let m = m\<lparr>cm_len := 2 + promote num_descriptors * 3\<rparr>;
     m \<leftarrow> put_byte m 1 CEC_MSG_REPORT_SHORT_AUDIO_DESCRIPTOR;
     put_sads m descriptors (unat num_descriptors) 0
   }"

function get_sads :: "cec_msg \<Rightarrow> u32 list \<Rightarrow> nat \<Rightarrow> nat \<Rightarrow> u32 list option" where
  "get_sads m descriptors n i =
     (if i < n then do {
        b0 \<leftarrow> get_byte m (2 + i * 3);
        b1 \<leftarrow> get_byte m (3 + i * 3);
        b2 \<leftarrow> get_byte m (4 + i * 3);
        descriptors \<leftarrow> wr descriptors i (be24 b0 b1 b2);
        get_sads m descriptors n (i + 1)
      } else Some descriptors)"
  by pat_completeness auto
termination by (relation "measure (\<lambda>(m, ds, n, i). n - i)") auto

definition cec_ops_report_short_audio_descriptor ::
  "cec_msg \<Rightarrow> u32 list \<Rightarrow> (u8 \<times> u32 list) option" where
  "cec_ops_report_short_audio_descriptor m descriptors = do {
     let num_descriptors = u8_of ((cm_len m - 2) div 3);
     let num_descriptors = clamp 4 num_descriptors;
     descriptors \<leftarrow> get_sads m descriptors (unat num_descriptors) 0;
     Some (num_descriptors, descriptors)
   }"

function put_formats :: "cec_msg \<Rightarrow> u8 list \<Rightarrow> u8 list \<Rightarrow> nat \<Rightarrow> nat \<Rightarrow> cec_msg option" where
  "put_formats m ids codes n i =
     (if i < n then do {
        fid \<leftarrow> rd ids i;
        fcode \<leftarrow> rd codes i;
        m \<leftarrow> put_byte m (2 + i) (u8_of (push_bit 6 (promote fid) OR (promote fcode AND 0x3f)));
        put_formats m ids codes n (i + 1)
      } else Some m)"
  by pat_completeness auto
termination by (relation "measure (\<lambda>(m, ids, codes, n, i). n - i)") auto

definition cec_msg_request_short_audio_descriptor ::
  "cec_msg \<Rightarrow> c_int \<Rightarrow> u8 \<Rightarrow> u8 list \<Rightarrow> u8 list \<Rightarrow> cec_msg option" where
  "cec_msg_request_short_audio_descriptor m reply num_descriptors audio_format_id
      audio_format_code = do {
     let num_descriptors = clamp 4 num_descriptors;
     let m = m\<lparr>cm_len := 2 + promote num_descriptors\<rparr>;
     m \<leftarrow> put_byte m 1 CEC_MSG_REQUEST_SHORT_AUDIO_DESCRIPTOR;
     let m = m\<lparr>cm_reply := if reply \<noteq> 0 then CEC_MSG_REPORT_SHORT_AUDIO_DESCRIPTOR else 0\<rparr>;
     put_formats m audio_format_id audio_format_code (unat num_descriptors) 0
   }"

function get_formats ::
  "cec_msg \<Rightarrow> u8 list \<Rightarrow> u8 list \<Rightarrow> nat \<Rightarrow> nat \<Rightarrow> (u8 list \<times> u8 list) option" where
  "get_formats m ids codes n i =
     (if i < n then do {
        b \<leftarrow> get_byte m (2 + i);
        ids \<leftarrow> wr ids i (u8_of (drop_bit 6 (promote b)));
        codes \<leftarrow> wr codes i (u8_of (promote b AND 0x3f));
        get_formats m ids codes n (i + 1)
      } else Some (ids, codes))"
  by pat_completeness auto
termination by (relation "measure (\<lambda>(m, ids, codes, n, i). n - i)") auto

definition cec_ops_request_short_audio_descriptor ::
  "cec_msg \<Rightarrow> u8 list \<Rightarrow> u8 list \<Rightarrow> (u8 \<times> u8 list \<times> u8 list) option" where
  "cec_ops_request_short_audio_descriptor m audio_format_id audio_format_code = do {
     let num_descriptors = u8_of (cm_len m - 2);
     let num_descriptors = clamp 4 num_descriptors;
     (ids, codes) \<leftarrow>
       get_formats m audio_format_id audio_format_code (unat num_descriptors) 0;
     Some (num_descriptors, ids, codes)
   }"

declare put_sads.simps [simp del] get_sads.simps [simp del]
  put_formats.simps [simp del] get_formats.simps [simp del]

definition cec_msg_set_audio_rate :: "cec_msg \<Rightarrow> u8 \<Rightarrow> cec_msg option" where
  "cec_msg_set_audio_rate m audio_rate = do {
     let m = m\<lparr>cm_len := 3\<rparr>;
     m \<leftarrow> put_byte m 1 CEC_MSG_SET_AUDIO_RATE;
     m \<leftarrow> put_byte m 2 audio_rate;
     Some m
   }"

definition cec_ops_set_audio_rate :: "cec_msg \<Rightarrow> u8 option" where
  "cec_ops_set_audio_rate m = do {
     b2 \<leftarrow> get_byte m 2;
     Some b2
   }"

definition cec_msg_report_arc_initiated :: "cec_msg \<Rightarrow> cec_msg option" where
  "cec_msg_report_arc_initiated m = do {
     let m = m\<lparr>cm_len := 2\<rparr>;
     m \<leftarrow> put_byte m 1 CEC_MSG_REPORT_ARC_INITIATED;
     Some m
   }"

definition cec_msg_initiate_arc ::
  "cec_msg \<Rightarrow> c_int \<Rightarrow> cec_msg option" where
  "cec_msg_initiate_arc m reply = do {
     let m = m\<lparr>cm_len := 2\<rparr>;
     m \<leftarrow> put_byte m 1 CEC_MSG_INITIATE_ARC;
     let m = m\<lparr>cm_reply := if reply \<noteq> 0 then CEC_MSG_REPORT_ARC_INITIATED else
       0\<rparr>;
     Some m
   }"

definition cec_msg_request_arc_initiation ::
  "cec_msg \<Rightarrow> c_int \<Rightarrow> cec_msg option" where
  "cec_msg_request_arc_initiation m reply = do {
     let m = m\<lparr>cm_len := 2\<rparr>;
     m \<leftarrow> put_byte m 1 CEC_MSG_REQUEST_ARC_INITIATION;
     let m = m\<lparr>cm_reply := if reply \<noteq> 0 then CEC_MSG_INITIATE_ARC else 0\<rparr>;
     Some m
   }"

definition cec_msg_report_arc_terminated :: "cec_msg \<Rightarrow> cec_msg option" where
  "cec_msg_report_arc_terminated m = do {
     let m = m\<lparr>cm_len := 2\<rparr>;
     m \<leftarrow> put_byte m 1 CEC_MSG_REPORT_ARC_TERMINATED;
     Some m
   }"

definition cec_msg_terminate_arc ::
  "cec_msg \<Rightarrow> c_int \<Rightarrow> cec_msg option" where
  "cec_msg_terminate_arc m reply = do {
     let m = m\<lparr>cm_len := 2\<rparr>;
     m \<leftarrow> put_byte m 1 CEC_MSG_TERMINATE_ARC;
     let m = m\<lparr>cm_reply := if reply \<noteq> 0 then CEC_MSG_REPORT_ARC_TERMINATED else
       0\<rparr>;
     Some m
   }"

definition cec_msg_request_arc_termination ::
  "cec_msg \<Rightarrow> c_int \<Rightarrow> cec_msg option" where
  "cec_msg_request_arc_termination m reply = do {
     let m = m\<lparr>cm_len := 2\<rparr>;
     m \<leftarrow> put_byte m 1 CEC_MSG_REQUEST_ARC_TERMINATION;
     let m = m\<lparr>cm_reply := if reply \<noteq> 0 then CEC_MSG_TERMINATE_ARC else 0\<rparr>;
     Some m
   }"

definition cec_msg_report_current_latency ::
  "cec_msg \<Rightarrow> u16 \<Rightarrow> u8 \<Rightarrow> u8 \<Rightarrow> u8 \<Rightarrow> u8 \<Rightarrow> cec_msg option" where
  "cec_msg_report_current_latency m phys_addr video_latency low_latency_mode
      audio_out_compensated audio_out_delay = do {
     let m = m\<lparr>cm_len := 6\<rparr>;
     m \<leftarrow> or_byte m 0 0xf;
     m \<leftarrow> put_byte m 1 CEC_MSG_REPORT_CURRENT_LATENCY;
     m \<leftarrow> put_byte m 2 (hi8 phys_addr);
     m \<leftarrow> put_byte m 3 (lo8 phys_addr);
     m \<leftarrow> put_byte m 4 video_latency;
     m \<leftarrow> put_byte m 5
       (u8_of (push_bit 2 (promote low_latency_mode) OR promote audio_out_compensated));
     if audio_out_compensated = 3 then append_byte m audio_out_delay else Some m
   }"

definition cec_ops_report_current_latency ::
  "cec_msg \<Rightarrow> (u16 \<times> u8 \<times> u8 \<times> u8 \<times> u8) option" where
  "cec_ops_report_current_latency m = do {
     b2 \<leftarrow> get_byte m 2;
     b3 \<leftarrow> get_byte m 3;
     b4 \<leftarrow> get_byte m 4;
     b5 \<leftarrow> get_byte m 5;
     let low_latency_mode = u8_of (drop_bit 2 (promote b5) AND 1);
     let audio_out_compensated = u8_of (promote b5 AND 3);
     audio_out_delay \<leftarrow>
       (if audio_out_compensated = 3 \<and> cm_len m \<ge> 7 then get_byte m 6 else Some 1);
     Some (be16 b2 b3, b4, low_latency_mode, audio_out_compensated, audio_out_delay)
   }"

definition cec_msg_request_current_latency ::
  "cec_msg \<Rightarrow> c_int \<Rightarrow> u16 \<Rightarrow> cec_msg option" where
  "cec_msg_request_current_latency m reply phys_addr = do {
     let m = m\<lparr>cm_len := 4\<rparr>;
     m \<leftarrow> or_byte m 0 0xf;
     m \<leftarrow> put_byte m 1 CEC_MSG_REQUEST_CURRENT_LATENCY;
     m \<leftarrow> put_byte m 2 (hi8 phys_addr);
     m \<leftarrow> put_byte m 3 (lo8 phys_addr);
     let m = m\<lparr>cm_reply := if reply \<noteq> 0 then CEC_MSG_REPORT_CURRENT_LATENCY else
       0\<rparr>;
     Some m
   }"

definition cec_ops_request_current_latency :: "cec_msg \<Rightarrow> u16 option" where
  "cec_ops_request_current_latency m = do {
     b2 \<leftarrow> get_byte m 2;
     b3 \<leftarrow> get_byte m 3;
     Some (be16 b2 b3)
   }"

section \<open>Short audio descriptors\<close>

lemma u8_of_and_0xff: "u8_of (x AND 0xff) = u8_of x"
  by (simp add: u8_of_def and_0xff) (rule bit_word_eqI, simp add: bit_simps)

text \<open>
  The writing loop leaves what precedes the first descriptor and puts the three bytes of each
  descriptor at its place.
\<close>

lemma put_sads_spec:
  assumes "wf_msg m" "n \<le> 4" "n \<le> length ds" "i \<le> n"
  shows "\<exists>bs. put_sads m ds n i = Some (m\<lparr>cm_msg := bs\<rparr>) \<and> length bs = 16
    \<and> (\<forall>j < 2 + i * 3. bs ! j = cm_msg m ! j)
    \<and> (\<forall>j. i \<le> j \<and> j < n \<longrightarrow> bs ! (2 + j * 3) = u8_of (drop_bit 16 (ds ! j) AND 0xff)
        \<and> bs ! (3 + j * 3) = u8_of (drop_bit 8 (ds ! j) AND 0xff)
        \<and> bs ! (4 + j * 3) = u8_of (ds ! j AND 0xff))"
  using assms(1,4)
proof (induction "n - i" arbitrary: i m)
  case 0
  then show ?case by (subst put_sads.simps) (auto simp add: msg_simps intro!: exI [of _ "cm_msg m"])
next
  case (Suc k)
  then have i: "i < n" by simp
  define m1 where "m1 = m\<lparr>cm_msg := (cm_msg m)[2 + i * 3 := u8_of (drop_bit 16 (ds ! i) AND 0xff),
    3 + i * 3 := u8_of (drop_bit 8 (ds ! i) AND 0xff), 4 + i * 3 := u8_of (ds ! i AND 0xff)]\<rparr>"
  have m1: "put_sads m ds n i = put_sads m1 ds n (Suc i)" "wf_msg m1" "cm_msg m1 = (cm_msg m)
      [2 + i * 3 := u8_of (drop_bit 16 (ds ! i) AND 0xff),
       3 + i * 3 := u8_of (drop_bit 8 (ds ! i) AND 0xff), 4 + i * 3 := u8_of (ds ! i AND 0xff)]"
    "\<And>bs. m1\<lparr>cm_msg := bs\<rparr> = m\<lparr>cm_msg := bs\<rparr>"
    using i Suc.prems assms(2,3) by (subst put_sads.simps, simp_all add: m1_def msg_simps)
  have "k = n - Suc i" "Suc i \<le> n" using Suc.hyps(2) i by simp_all
  from Suc.hyps(1) [OF this(1) m1(2) this(2)] obtain bs where bs:
    "put_sads m1 ds n (Suc i) = Some (m\<lparr>cm_msg := bs\<rparr>)" "length bs = 16"
    "\<forall>j < 2 + Suc i * 3. bs ! j = cm_msg m1 ! j"
    "\<forall>j. Suc i \<le> j \<and> j < n \<longrightarrow> bs ! (2 + j * 3) = u8_of (drop_bit 16 (ds ! j) AND 0xff)
      \<and> bs ! (3 + j * 3) = u8_of (drop_bit 8 (ds ! j) AND 0xff)
      \<and> bs ! (4 + j * 3) = u8_of (ds ! j AND 0xff)"
    by (auto simp only: m1(4))
  have len: "4 + i * 3 < length (cm_msg m)" using Suc.prems(1) i assms(2) by (simp add: msg_simps)
  have old: "bs ! j = cm_msg m ! j" if "j < 2 + i * 3" for j
    using bs(3) that by (simp add: m1(3))
  have new: "bs ! (2 + i * 3) = u8_of (drop_bit 16 (ds ! i) AND 0xff)"
    "bs ! (3 + i * 3) = u8_of (drop_bit 8 (ds ! i) AND 0xff)"
    "bs ! (4 + i * 3) = u8_of (ds ! i AND 0xff)"
    using bs(3) len by (simp_all add: m1(3))
  show ?case
    using old new bs(1,2) bs(4) [unfolded Suc_le_eq]
    by (intro exI [of _ bs]) (auto simp add: m1(1) le_less)
qed

lemma get_sads_spec:
  assumes "wf_msg m" "n \<le> 4" "n \<le> length buf" "i \<le> n"
  shows "get_sads m buf n i = Some (take i buf
    @ map (\<lambda>j. be24 (cm_msg m ! (2 + j * 3)) (cm_msg m ! (3 + j * 3)) (cm_msg m ! (4 + j * 3))) [i..<n]
    @ drop n buf)"
  using assms(3,4)
proof (induction "n - i" arbitrary: i buf)
  case 0
  then show ?case by (subst get_sads.simps) simp
next
  case (Suc k)
  then have i: "i < n" "k = n - Suc i" by simp_all
  then have "4 + i * 3 < 16" using assms(2) by simp
  with i Suc show ?case
    using assms(1)
    by (subst get_sads.simps)
      (simp add: msg_simps take_Suc_conv_app_nth upt_conv_Cons drop_update_cancel)
qed

text \<open>The descriptors the receiver reads: the first \<^verbatim>\<open>num_descriptors\<close> entries of its array.\<close>

definition sads_view :: "cec_msg \<Rightarrow> u32 list option" where
  "sads_view m = do {
     (n, ds) \<leftarrow> cec_ops_report_short_audio_descriptor m (replicate 4 0);
     Some (take (unat n) ds)
   }"

text \<open>The number of descriptors sent, a \<^verbatim>\<open>__u8\<close> clamped to four.\<close>

definition sent_count :: "'a list \<Rightarrow> u8" where
  "sent_count xs = clamp 4 (word_of_nat (length xs))"

lemma unat_sent_count: "unat (sent_count xs) = min 4 (length xs mod 256)"
  by (simp add: sent_count_def unat_clamp unsigned_of_nat take_bit_eq_mod)

lemma sent_count_le:
  "unat (sent_count xs) \<le> length xs" "unat (sent_count xs) \<le> 4" "sent_count xs \<le> 4"
proof -
  have "length xs mod 256 \<le> length xs" by (rule mod_less_eq_dividend)
  then show "unat (sent_count xs) \<le> length xs" unfolding unat_sent_count by linarith
  show "sent_count xs \<le> 4" by (simp add: sent_count_def clamp_le)
  then show "unat (sent_count xs) \<le> 4" by (simp add: word_le_nat_alt)
qed

lemma sads_len:
  fixes w :: u8
  assumes "unat w \<le> 4"
  shows "2 \<le> 2 + promote w * 3" "2 + promote w * 3 \<le> 16" "promote w * 3 div 3 = promote w"
proof -
  have *: "unat (promote w * 3) = unat w * 3"
    using assms by (simp add: unat_word_ariths unat_promote)
  then have **: "unat (2 + promote w * 3) = 2 + unat w * 3"
    using assms by (simp add: unat_word_ariths)
  then show "2 \<le> 2 + promote w * 3" "2 + promote w * 3 \<le> 16"
    using assms by (simp_all add: word_le_nat_alt)
  show "promote w * 3 div 3 = promote w"
    by (simp add: word_unat_eq_iff unat_div_distrib * unat_promote)
qed

lemma report_sads_eq:
  assumes "wf_msg m"
  obtains bs where "cec_msg_report_short_audio_descriptor m (word_of_nat (length ds)) ds =
      Some (m\<lparr>cm_len := 2 + promote (sent_count ds) * 3, cm_msg := bs\<rparr>)" "length bs = 16"
    "bs ! 0 = cm_msg m ! 0" "bs ! 1 = CEC_MSG_REPORT_SHORT_AUDIO_DESCRIPTOR"
    "\<And>j. j < unat (sent_count ds) \<Longrightarrow> be24 (bs ! (2 + j * 3)) (bs ! (3 + j * 3)) (bs ! (4 + j * 3)) =
      be24 (u8_of (drop_bit 16 (ds ! j))) (u8_of (drop_bit 8 (ds ! j) AND 0xff)) (u8_of (ds ! j AND 0xff))"
proof -
  define m0 where "m0 = m\<lparr>cm_len := 2 + promote (sent_count ds) * 3,
    cm_msg := (cm_msg m)[Suc 0 := CEC_MSG_REPORT_SHORT_AUDIO_DESCRIPTOR]\<rparr>"
  have "wf_msg m0" using assms by (simp add: m0_def wf_msg_def)
  from put_sads_spec [OF this sent_count_le(2) [of ds] sent_count_le(1) [of ds], of 0] obtain bs where bs:
    "put_sads m0 ds (unat (sent_count ds)) 0 = Some (m0\<lparr>cm_msg := bs\<rparr>)" "length bs = 16"
    "\<forall>j < 2. bs ! j = cm_msg m0 ! j"
    "\<forall>j < unat (sent_count ds). bs ! (2 + j * 3) = u8_of (drop_bit 16 (ds ! j) AND 0xff)
      \<and> bs ! (3 + j * 3) = u8_of (drop_bit 8 (ds ! j) AND 0xff)
      \<and> bs ! (4 + j * 3) = u8_of (ds ! j AND 0xff)" by auto
  show thesis
  proof (rule that [of bs])
    show "cec_msg_report_short_audio_descriptor m (word_of_nat (length ds)) ds =
        Some (m\<lparr>cm_len := 2 + promote (sent_count ds) * 3, cm_msg := bs\<rparr>)"
      using bs(1) assms
      by (simp add: cec_msg_report_short_audio_descriptor_def m0_def msg_simps Let_def
          sent_count_def [symmetric])
    show "bs ! 0 = cm_msg m ! 0" "bs ! 1 = CEC_MSG_REPORT_SHORT_AUDIO_DESCRIPTOR"
      using bs(3) assms by (simp_all add: m0_def msg_simps)
  qed (use bs in \<open>simp_all add: u8_of_and_0xff\<close>)
qed

lemma promote_count_fits:
  assumes "length xs \<le> 4"
  shows "promote (sent_count xs) = word_of_nat (length xs)"
proof -
  have "unat (promote (sent_count xs)) = unat (word_of_nat (length xs) :: u32)"
    using assms by (simp add: unat_promote unat_sent_count unat_u32_of_nat)
  then show ?thesis by (simp add: word_unat_eq_iff)
qed

lemma report_sads_framed:
  assumes "wf_msg m" "length ds \<le> 4"
  shows "\<exists>m'. cec_msg_report_short_audio_descriptor m (word_of_nat (length ds)) ds = Some m' \<and>
    cec_framed CEC_MSG_REPORT_SHORT_AUDIO_DESCRIPTOR
      (Frame (2 + 3 * word_of_nat (length ds)) False None) m m'"
proof -
  have eq: "2 + promote (sent_count ds) * 3 = 2 + 3 * word_of_nat (length ds)"
    using assms(2) by (simp add: promote_count_fits)
  note len = sads_len [OF sent_count_le(2) [of ds], unfolded eq]
  show ?thesis
    by (rule report_sads_eq [OF assms(1), of ds, unfolded eq])
      (simp add: cec_framed_def msg_simps len)
qed


lemma report_sads_received:
  assumes "wf_msg m" "length ds \<le> 4" "list_all (fits 24) ds"
  shows "Option.bind (cec_msg_report_short_audio_descriptor m (word_of_nat (length ds)) ds) sads_view
    = Some ds"
proof -
  have n: "unat (sent_count ds) = length ds" using assms(2) by (simp add: unat_sent_count)
  obtain bs where eq: "cec_msg_report_short_audio_descriptor m (word_of_nat (length ds)) ds =
      Some (m\<lparr>cm_len := 2 + promote (sent_count ds) * 3, cm_msg := bs\<rparr>)" and "length bs = 16"
    and b: "\<And>j. j < length ds \<Longrightarrow> be24 (bs ! (2 + j * 3)) (bs ! (3 + j * 3)) (bs ! (4 + j * 3)) =
      be24 (u8_of (drop_bit 16 (ds ! j))) (u8_of (drop_bit 8 (ds ! j) AND 0xff)) (u8_of (ds ! j AND 0xff))"
    using report_sads_eq [OF assms(1), of ds] n by metis
  have "map (\<lambda>j. be24 (bs ! (2 + j * 3)) (bs ! (3 + j * 3)) (bs ! (4 + j * 3))) [0..<length ds] = ds"
    using assms(3) by (intro nth_equalityI) (simp_all add: b [simplified] be24_bytes list_all_length)
  then show ?thesis
    using \<open>length bs = 16\<close> assms(2) n
    by (simp add: eq sads_view_def cec_ops_report_short_audio_descriptor_def get_sads_spec msg_simps
        Let_def sads_len sent_count_le clamp_idem u8_of_promote)
qed

text \<open>The same for the format codes of a request, one byte each.\<close>

lemma put_formats_spec:
  assumes "wf_msg m" "n \<le> 4" "n \<le> length ids" "n \<le> length codes" "i \<le> n"
  shows "\<exists>bs. put_formats m ids codes n i = Some (m\<lparr>cm_msg := bs\<rparr>) \<and> length bs = 16
    \<and> (\<forall>j < 2 + i. bs ! j = cm_msg m ! j)
    \<and> (\<forall>j. i \<le> j \<and> j < n \<longrightarrow> bs ! (2 + j) = push_bit 6 (ids ! j) OR take_bit 6 (codes ! j))"
  using assms(1,5)
proof (induction "n - i" arbitrary: i m)
  case 0
  then show ?case by (subst put_formats.simps) (auto simp add: msg_simps intro!: exI [of _ "cm_msg m"])
next
  case (Suc k)
  then have i: "i < n" by simp
  define m1 where "m1 = m\<lparr>cm_msg := (cm_msg m)[2 + i := push_bit 6 (ids ! i) OR take_bit 6 (codes ! i)]\<rparr>"
  have m1: "put_formats m ids codes n i = put_formats m1 ids codes n (Suc i)" "wf_msg m1"
    "cm_msg m1 = (cm_msg m)[2 + i := push_bit 6 (ids ! i) OR take_bit 6 (codes ! i)]"
    "\<And>bs. m1\<lparr>cm_msg := bs\<rparr> = m\<lparr>cm_msg := bs\<rparr>"
    using i Suc.prems assms(2-4) by (subst put_formats.simps, simp_all add: m1_def msg_simps c_conv)
  have "k = n - Suc i" "Suc i \<le> n" using Suc.hyps(2) i by simp_all
  from Suc.hyps(1) [OF this(1) m1(2) this(2)] obtain bs where bs:
    "put_formats m1 ids codes n (Suc i) = Some (m\<lparr>cm_msg := bs\<rparr>)" "length bs = 16"
    "\<forall>j < 2 + Suc i. bs ! j = cm_msg m1 ! j"
    "\<forall>j. Suc i \<le> j \<and> j < n \<longrightarrow> bs ! (2 + j) = push_bit 6 (ids ! j) OR take_bit 6 (codes ! j)"
    by (auto simp only: m1(4))
  have len: "2 + i < length (cm_msg m)" using Suc.prems(1) i assms(2) by (simp add: msg_simps)
  have old: "bs ! j = cm_msg m ! j" if "j < 2 + i" for j using bs(3) that by (simp add: m1(3))
  have new: "bs ! (2 + i) = push_bit 6 (ids ! i) OR take_bit 6 (codes ! i)"
    using bs(3) len by (simp add: m1(3))
  show ?case
    using old new bs(1,2) bs(4) [unfolded Suc_le_eq]
    by (intro exI [of _ bs]) (auto simp add: m1(1) le_less)
qed

lemma get_formats_spec:
  assumes "wf_msg m" "n \<le> 4" "n \<le> length ids" "n \<le> length codes" "i \<le> n"
  shows "get_formats m ids codes n i = Some
    (take i ids @ map (\<lambda>j. drop_bit 6 (cm_msg m ! (2 + j))) [i..<n] @ drop n ids,
     take i codes @ map (\<lambda>j. take_bit 6 (cm_msg m ! (2 + j))) [i..<n] @ drop n codes)"
  using assms(3-5)
proof (induction "n - i" arbitrary: i ids codes)
  case 0
  then show ?case by (subst get_formats.simps) simp
next
  case (Suc k)
  then have i: "i < n" "k = n - Suc i" by simp_all
  then have "2 + i < 16" using assms(2) by simp
  with i Suc show ?case
    using assms(1)
    by (subst get_formats.simps)
      (simp add: msg_simps c_conv take_Suc_conv_app_nth upt_conv_Cons)
qed

definition formats_view :: "cec_msg \<Rightarrow> (u8 \<times> u8) list option" where
  "formats_view m = do {
     (n, ids, codes) \<leftarrow>
       cec_ops_request_short_audio_descriptor m (replicate 4 0) (replicate 4 0);
     Some (zip (take (unat n) ids) (take (unat n) codes))
   }"

lemma request_sads_eq:
  assumes "wf_msg m"
  obtains bs where "cec_msg_request_short_audio_descriptor m reply (word_of_nat (length fs))
      (map fst fs) (map snd fs) = Some (m\<lparr>cm_len := 2 + promote (sent_count fs), cm_msg := bs,
        cm_reply := if reply \<noteq> 0 then CEC_MSG_REPORT_SHORT_AUDIO_DESCRIPTOR else 0\<rparr>)"
    "length bs = 16" "bs ! 0 = cm_msg m ! 0" "bs ! 1 = CEC_MSG_REQUEST_SHORT_AUDIO_DESCRIPTOR"
    "\<And>j. j < unat (sent_count fs) \<Longrightarrow>
      bs ! (2 + j) = push_bit 6 (fst (fs ! j)) OR take_bit 6 (snd (fs ! j))"
proof -
  let ?r = "if reply \<noteq> 0 then CEC_MSG_REPORT_SHORT_AUDIO_DESCRIPTOR else 0"
  define m0 where "m0 = m\<lparr>cm_len := 2 + promote (sent_count fs),
    cm_msg := (cm_msg m)[Suc 0 := CEC_MSG_REQUEST_SHORT_AUDIO_DESCRIPTOR], cm_reply := ?r\<rparr>"
  have "wf_msg m0" using assms by (simp add: m0_def wf_msg_def)
  from put_formats_spec [OF this sent_count_le(2), of fs "map fst fs" "map snd fs" 0]
  obtain bs where bs:
    "put_formats m0 (map fst fs) (map snd fs) (unat (sent_count fs)) 0 = Some (m0\<lparr>cm_msg := bs\<rparr>)"
    "length bs = 16" "\<forall>j < 2. bs ! j = cm_msg m0 ! j"
    "\<forall>j < unat (sent_count fs). bs ! (2 + j) = push_bit 6 (map fst fs ! j) OR take_bit 6 (map snd fs ! j)"
    by (auto simp add: sent_count_le)
  show thesis
  proof (rule that [of bs])
    show "cec_msg_request_short_audio_descriptor m reply (word_of_nat (length fs)) (map fst fs)
        (map snd fs) = Some (m\<lparr>cm_len := 2 + promote (sent_count fs), cm_msg := bs, cm_reply := ?r\<rparr>)"
      using bs(1) assms
      by (simp add: cec_msg_request_short_audio_descriptor_def m0_def msg_simps Let_def
          sent_count_def [symmetric])
    show "bs ! 0 = cm_msg m ! 0" "bs ! 1 = CEC_MSG_REQUEST_SHORT_AUDIO_DESCRIPTOR"
      using bs(3) assms by (simp_all add: m0_def msg_simps)
    show "bs ! (2 + j) = push_bit 6 (fst (fs ! j)) OR take_bit 6 (snd (fs ! j))"
      if "j < unat (sent_count fs)" for j
      using bs(4) that order.strict_trans2 [OF that sent_count_le(1)] by simp
  qed (use bs in simp)
qed

lemma request_sads_framed:
  assumes "wf_msg m" "length fs \<le> 4"
  shows "\<exists>m'. cec_msg_request_short_audio_descriptor m reply (word_of_nat (length fs))
      (map fst fs) (map snd fs) = Some m' \<and>
    cec_framed CEC_MSG_REQUEST_SHORT_AUDIO_DESCRIPTOR (Frame (2 + word_of_nat (length fs)) False
      (when_reply reply CEC_MSG_REPORT_SHORT_AUDIO_DESCRIPTOR)) m m'"
proof -
  have "promote (sent_count fs) \<le> 14"
    using sent_count_le(2) [of fs] by (simp add: word_le_nat_alt unat_promote)
  then have "2 \<le> 2 + promote (sent_count fs)" "2 + promote (sent_count fs) \<le> 16"
    using payload_len [of 2 "promote (sent_count fs)"] by simp_all
  moreover obtain bs where "cec_msg_request_short_audio_descriptor m reply (word_of_nat (length fs))
      (map fst fs) (map snd fs) = Some (m\<lparr>cm_len := 2 + promote (sent_count fs), cm_msg := bs,
        cm_reply := if reply \<noteq> 0 then CEC_MSG_REPORT_SHORT_AUDIO_DESCRIPTOR else 0\<rparr>)"
    "length bs = 16" "bs ! 0 = cm_msg m ! 0" "bs ! 1 = CEC_MSG_REQUEST_SHORT_AUDIO_DESCRIPTOR"
    by (rule request_sads_eq [OF assms(1), of reply fs])
  ultimately show ?thesis using assms(2) by (simp add: cec_framed_def msg_simps promote_count_fits)
qed

lemma request_sads_received:
  assumes "wf_msg m" "length fs \<le> 4" "list_all (\<lambda>(fid, code). fits 2 fid \<and> fits 6 code) fs"
  shows "Option.bind (cec_msg_request_short_audio_descriptor m reply (word_of_nat (length fs))
      (map fst fs) (map snd fs)) formats_view = Some fs"
proof -
  have n: "unat (sent_count fs) = length fs" using assms(2) by (simp add: unat_sent_count)
  obtain bs where eq: "cec_msg_request_short_audio_descriptor m reply (word_of_nat (length fs))
      (map fst fs) (map snd fs) = Some (m\<lparr>cm_len := 2 + promote (sent_count fs), cm_msg := bs,
        cm_reply := if reply \<noteq> 0 then CEC_MSG_REPORT_SHORT_AUDIO_DESCRIPTOR else 0\<rparr>)"
    and "length bs = 16"
    and b: "\<And>j. j < length fs \<Longrightarrow> bs ! (2 + j) = push_bit 6 (fst (fs ! j)) OR take_bit 6 (snd (fs ! j))"
    using request_sads_eq [OF assms(1), of reply fs] n by metis
  have f: "fits 2 (fst (fs ! j))" "fits 6 (snd (fs ! j))" if "j < length fs" for j
    using assms(3) that by (auto simp add: list_all_length split_beta)
  have "map (\<lambda>j. drop_bit 6 (bs ! (2 + j))) [0..<length fs] = map fst fs"
    "map (\<lambda>j. take_bit 6 (bs ! (2 + j))) [0..<length fs] = map snd fs"
    by (intro nth_equalityI; simp add: b [simplified] f field_dist)+
  then show ?thesis
    using \<open>length bs = 16\<close> assms(2) n
    by (simp add: eq formats_view_def cec_ops_request_short_audio_descriptor_def get_formats_spec
        msg_simps Let_def sent_count_le clamp_idem u8_of_promote zip_map_fst_snd)
qed

section \<open>Latency\<close>

lemma current_latency_framed:
  "wf_msg m \<Longrightarrow> \<exists>m'. cec_msg_report_current_latency m pa video low compd delay = Some m' \<and>
    cec_framed CEC_MSG_REPORT_CURRENT_LATENCY (Frame (if compd = 3 then 7 else 6) True None) m m'"
  by (simp add: cec_msg_report_current_latency_def msg_simps cec_framed_def)

text \<open>The delay is sent only with partial compensation; a receiver assumes one unit otherwise.\<close>

lemma current_latency_received:
  assumes "wf_msg m" "fits 1 low" "fits 2 compd"
  shows "Option.bind (cec_msg_report_current_latency m pa video low compd delay)
    cec_ops_report_current_latency = Some (pa, video, low, compd, if compd = 3 then delay else 1)"
proof -
  have "fits 6 low" "low mod 2 = low"
    using assms(2) fits_take_bit [of 1 low] by (auto intro: fits_mono)
  with assms show ?thesis
    by (auto simp add: cec_msg_report_current_latency_def cec_ops_report_current_latency_def
        msg_simps Let_def c_conv field_dist)
qed

section \<open>The codec contract\<close>

interpretation report_audio_status: cec_codec
  "\<lambda>m (aud_mute_status, aud_vol_status). cec_msg_report_audio_status m aud_mute_status
     aud_vol_status"
  "\<lambda>_. True" CEC_MSG_REPORT_AUDIO_STATUS
  "\<lambda>_. Frame 3 False None"
  "\<lambda>(aud_mute_status, aud_vol_status). fits 1 aud_mute_status \<and> fits 7 aud_vol_status"
     cec_ops_report_audio_status
  by unfold_locales
    (auto simp: cec_msg_report_audio_status_def cec_ops_report_audio_status_def msg_simps cec_framed_def
      c_conv field_dist)

interpretation give_audio_status: cec_encoder
  "\<lambda>m (_ :: unit). cec_msg_give_audio_status m reply"
  "\<lambda>_. True" CEC_MSG_GIVE_AUDIO_STATUS
  "\<lambda>_. Frame 2 False (when_reply reply CEC_MSG_REPORT_AUDIO_STATUS)"
  for reply
  by unfold_locales
    (auto simp: cec_msg_give_audio_status_def msg_simps cec_framed_def)

interpretation set_system_audio_mode: cec_codec
  "\<lambda>m sys_aud_status. cec_msg_set_system_audio_mode m sys_aud_status"
  "\<lambda>_. True" CEC_MSG_SET_SYSTEM_AUDIO_MODE
  "\<lambda>_. Frame 3 False None"
  "\<lambda>_. True" cec_ops_set_system_audio_mode
  by unfold_locales
    (auto simp: cec_msg_set_system_audio_mode_def cec_ops_set_system_audio_mode_def msg_simps
      cec_framed_def)

interpretation system_audio_mode_request: cec_codec
  "\<lambda>m phys_addr. cec_msg_system_audio_mode_request m reply phys_addr"
  "\<lambda>_. True" CEC_MSG_SYSTEM_AUDIO_MODE_REQUEST
  "\<lambda>phys_addr. Frame (if phys_addr = 0xffff then 2 else 4) False (when_reply reply CEC_MSG_SET_SYSTEM_AUDIO_MODE)"
  "\<lambda>_. True" cec_ops_system_audio_mode_request
  for reply
  by unfold_locales
    (auto simp: cec_msg_system_audio_mode_request_def cec_ops_system_audio_mode_request_def
      msg_simps cec_framed_def)


interpretation system_audio_mode_status: cec_codec
  "\<lambda>m sys_aud_status. cec_msg_system_audio_mode_status m sys_aud_status"
  "\<lambda>_. True" CEC_MSG_SYSTEM_AUDIO_MODE_STATUS
  "\<lambda>_. Frame 3 False None"
  "\<lambda>_. True" cec_ops_system_audio_mode_status
  by unfold_locales
    (auto simp: cec_msg_system_audio_mode_status_def cec_ops_system_audio_mode_status_def msg_simps
      cec_framed_def)

interpretation give_system_audio_mode_status: cec_encoder
  "\<lambda>m (_ :: unit). cec_msg_give_system_audio_mode_status m reply"
  "\<lambda>_. True" CEC_MSG_GIVE_SYSTEM_AUDIO_MODE_STATUS
  "\<lambda>_. Frame 2 False (when_reply reply CEC_MSG_SYSTEM_AUDIO_MODE_STATUS)"
  for reply
  by unfold_locales
    (auto simp: cec_msg_give_system_audio_mode_status_def msg_simps cec_framed_def)

interpretation report_short_audio_descriptor: cec_codec
  "\<lambda>m ds. cec_msg_report_short_audio_descriptor m (word_of_nat (length ds)) ds"
  "\<lambda>ds. length ds \<le> 4" CEC_MSG_REPORT_SHORT_AUDIO_DESCRIPTOR
  "\<lambda>ds. Frame (2 + 3 * word_of_nat (length ds)) False None"
  "\<lambda>ds. length ds \<le> 4 \<and> list_all (fits 24) ds" sads_view
  by unfold_locales (auto simp: report_sads_framed report_sads_received)


interpretation request_short_audio_descriptor: cec_codec
  "\<lambda>m fs. cec_msg_request_short_audio_descriptor m reply (word_of_nat (length fs))
     (map fst fs) (map snd fs)"
  "\<lambda>fs. length fs \<le> 4" CEC_MSG_REQUEST_SHORT_AUDIO_DESCRIPTOR
  "\<lambda>fs. Frame (2 + word_of_nat (length fs)) False (when_reply reply CEC_MSG_REPORT_SHORT_AUDIO_DESCRIPTOR)"
  "\<lambda>fs. length fs \<le> 4 \<and> list_all (\<lambda>(fid, code). fits 2 fid \<and> fits 6 code) fs" formats_view
  for reply
  by unfold_locales (auto simp: request_sads_framed request_sads_received)


interpretation set_audio_rate: cec_codec
  "\<lambda>m audio_rate. cec_msg_set_audio_rate m audio_rate"
  "\<lambda>_. True" CEC_MSG_SET_AUDIO_RATE
  "\<lambda>_. Frame 3 False None"
  "\<lambda>_. True" cec_ops_set_audio_rate
  by unfold_locales
    (auto simp: cec_msg_set_audio_rate_def cec_ops_set_audio_rate_def msg_simps cec_framed_def)

interpretation report_arc_initiated: cec_encoder
  "\<lambda>m (_ :: unit). cec_msg_report_arc_initiated m"
  "\<lambda>_. True" CEC_MSG_REPORT_ARC_INITIATED
  "\<lambda>_. Frame 2 False None"
  by unfold_locales
    (auto simp: cec_msg_report_arc_initiated_def msg_simps cec_framed_def)

interpretation initiate_arc: cec_encoder
  "\<lambda>m (_ :: unit). cec_msg_initiate_arc m reply"
  "\<lambda>_. True" CEC_MSG_INITIATE_ARC
  "\<lambda>_. Frame 2 False (when_reply reply CEC_MSG_REPORT_ARC_INITIATED)"
  for reply
  by unfold_locales
    (auto simp: cec_msg_initiate_arc_def msg_simps cec_framed_def)

interpretation request_arc_initiation: cec_encoder
  "\<lambda>m (_ :: unit). cec_msg_request_arc_initiation m reply"
  "\<lambda>_. True" CEC_MSG_REQUEST_ARC_INITIATION
  "\<lambda>_. Frame 2 False (when_reply reply CEC_MSG_INITIATE_ARC)"
  for reply
  by unfold_locales
    (auto simp: cec_msg_request_arc_initiation_def msg_simps cec_framed_def)

interpretation report_arc_terminated: cec_encoder
  "\<lambda>m (_ :: unit). cec_msg_report_arc_terminated m"
  "\<lambda>_. True" CEC_MSG_REPORT_ARC_TERMINATED
  "\<lambda>_. Frame 2 False None"
  by unfold_locales
    (auto simp: cec_msg_report_arc_terminated_def msg_simps cec_framed_def)

interpretation terminate_arc: cec_encoder
  "\<lambda>m (_ :: unit). cec_msg_terminate_arc m reply"
  "\<lambda>_. True" CEC_MSG_TERMINATE_ARC
  "\<lambda>_. Frame 2 False (when_reply reply CEC_MSG_REPORT_ARC_TERMINATED)"
  for reply
  by unfold_locales
    (auto simp: cec_msg_terminate_arc_def msg_simps cec_framed_def)

interpretation request_arc_termination: cec_encoder
  "\<lambda>m (_ :: unit). cec_msg_request_arc_termination m reply"
  "\<lambda>_. True" CEC_MSG_REQUEST_ARC_TERMINATION
  "\<lambda>_. Frame 2 False (when_reply reply CEC_MSG_TERMINATE_ARC)"
  for reply
  by unfold_locales
    (auto simp: cec_msg_request_arc_termination_def msg_simps cec_framed_def)

interpretation report_current_latency: cec_receiver
  "\<lambda>m (phys_addr, video, low, compd, delay).
     cec_msg_report_current_latency m phys_addr video low compd delay"
  "\<lambda>_. True" CEC_MSG_REPORT_CURRENT_LATENCY
  "\<lambda>(phys_addr, video, low, compd, delay). Frame (if compd = 3 then 7 else 6) True None"
  "\<lambda>(phys_addr, video, low, compd, delay).
     fits 1 low \<and> fits 2 compd"
  "\<lambda>(phys_addr, video, low, compd, delay).
     (phys_addr, video, low, compd, if compd = 3 then delay else 1)" cec_ops_report_current_latency
  by unfold_locales (auto simp: current_latency_framed current_latency_received)


interpretation request_current_latency: cec_codec
  "\<lambda>m phys_addr. cec_msg_request_current_latency m reply phys_addr"
  "\<lambda>_. True" CEC_MSG_REQUEST_CURRENT_LATENCY
  "\<lambda>_. Frame 4 True (when_reply reply CEC_MSG_REPORT_CURRENT_LATENCY)"
  "\<lambda>_. True" cec_ops_request_current_latency
  for reply
  by unfold_locales
    (auto simp: cec_msg_request_current_latency_def cec_ops_request_current_latency_def msg_simps
      cec_framed_def)

section \<open>The feature\<close>

datatype audio_cmd =
    Report_Audio_Status "u8 \<times> u8"
  | Give_Audio_Status
  | Set_System_Audio_Mode u8
  | System_Audio_Mode_Request u16
  | System_Audio_Mode_Status u8
  | Give_System_Audio_Mode_Status
  | Report_Short_Audio_Descriptor "u32 list"
  | Request_Short_Audio_Descriptor "(u8 \<times> u8) list"
  | Set_Audio_Rate u8
  | Report_Arc_Initiated
  | Initiate_Arc
  | Request_Arc_Initiation
  | Report_Arc_Terminated
  | Terminate_Arc
  | Request_Arc_Termination
  | Report_Current_Latency "u16 \<times> u8 \<times> u8 \<times> u8 \<times> u8"
  | Request_Current_Latency u16

fun audio_encode :: "c_int \<Rightarrow> cec_msg \<Rightarrow> audio_cmd \<Rightarrow> cec_msg option" where
  "audio_encode reply m (Report_Audio_Status x) =
     (case x of (aud_mute_status, aud_vol_status) \<Rightarrow> cec_msg_report_audio_status m
        aud_mute_status aud_vol_status)"
| "audio_encode reply m Give_Audio_Status = cec_msg_give_audio_status m reply"
| "audio_encode reply m (Set_System_Audio_Mode sys_aud_status) = cec_msg_set_system_audio_mode m sys_aud_status"
| "audio_encode reply m (System_Audio_Mode_Request phys_addr) = cec_msg_system_audio_mode_request m reply phys_addr"
| "audio_encode reply m (System_Audio_Mode_Status sys_aud_status) = cec_msg_system_audio_mode_status m sys_aud_status"
| "audio_encode reply m Give_System_Audio_Mode_Status = cec_msg_give_system_audio_mode_status m reply"
| "audio_encode reply m (Report_Short_Audio_Descriptor ds) = cec_msg_report_short_audio_descriptor m (word_of_nat (length ds)) ds"
| "audio_encode reply m (Request_Short_Audio_Descriptor fs) = cec_msg_request_short_audio_descriptor m reply (word_of_nat (length fs)) (map fst fs) (map snd fs)"
| "audio_encode reply m (Set_Audio_Rate audio_rate) = cec_msg_set_audio_rate m audio_rate"
| "audio_encode reply m Report_Arc_Initiated = cec_msg_report_arc_initiated m"
| "audio_encode reply m Initiate_Arc = cec_msg_initiate_arc m reply"
| "audio_encode reply m Request_Arc_Initiation = cec_msg_request_arc_initiation m reply"
| "audio_encode reply m Report_Arc_Terminated = cec_msg_report_arc_terminated m"
| "audio_encode reply m Terminate_Arc = cec_msg_terminate_arc m reply"
| "audio_encode reply m Request_Arc_Termination = cec_msg_request_arc_termination m reply"
| "audio_encode reply m (Report_Current_Latency x) =
     (case x of (phys_addr, video, low, compd, delay) \<Rightarrow> cec_msg_report_current_latency m
        phys_addr video low compd delay)"
| "audio_encode reply m (Request_Current_Latency phys_addr) = cec_msg_request_current_latency m reply phys_addr"

fun audio_opcode :: "audio_cmd \<Rightarrow> u8" where
  "audio_opcode (Report_Audio_Status _) = CEC_MSG_REPORT_AUDIO_STATUS"
| "audio_opcode Give_Audio_Status = CEC_MSG_GIVE_AUDIO_STATUS"
| "audio_opcode (Set_System_Audio_Mode _) = CEC_MSG_SET_SYSTEM_AUDIO_MODE"
| "audio_opcode (System_Audio_Mode_Request _) = CEC_MSG_SYSTEM_AUDIO_MODE_REQUEST"
| "audio_opcode (System_Audio_Mode_Status _) = CEC_MSG_SYSTEM_AUDIO_MODE_STATUS"
| "audio_opcode Give_System_Audio_Mode_Status = CEC_MSG_GIVE_SYSTEM_AUDIO_MODE_STATUS"
| "audio_opcode (Report_Short_Audio_Descriptor _) = CEC_MSG_REPORT_SHORT_AUDIO_DESCRIPTOR"
| "audio_opcode (Request_Short_Audio_Descriptor _) = CEC_MSG_REQUEST_SHORT_AUDIO_DESCRIPTOR"
| "audio_opcode (Set_Audio_Rate _) = CEC_MSG_SET_AUDIO_RATE"
| "audio_opcode Report_Arc_Initiated = CEC_MSG_REPORT_ARC_INITIATED"
| "audio_opcode Initiate_Arc = CEC_MSG_INITIATE_ARC"
| "audio_opcode Request_Arc_Initiation = CEC_MSG_REQUEST_ARC_INITIATION"
| "audio_opcode Report_Arc_Terminated = CEC_MSG_REPORT_ARC_TERMINATED"
| "audio_opcode Terminate_Arc = CEC_MSG_TERMINATE_ARC"
| "audio_opcode Request_Arc_Termination = CEC_MSG_REQUEST_ARC_TERMINATION"
| "audio_opcode (Report_Current_Latency _) = CEC_MSG_REPORT_CURRENT_LATENCY"
| "audio_opcode (Request_Current_Latency _) = CEC_MSG_REQUEST_CURRENT_LATENCY"

text \<open>The frames: the length, whether it is a broadcast, and the reply waited for.\<close>

fun audio_frame :: "c_int \<Rightarrow> audio_cmd \<Rightarrow> msg_frame" where
  "audio_frame reply (Report_Audio_Status _) = Frame 3 False None"
| "audio_frame reply Give_Audio_Status = Frame 2 False (when_reply reply CEC_MSG_REPORT_AUDIO_STATUS)"
| "audio_frame reply (Set_System_Audio_Mode _) = Frame 3 False None"
| "audio_frame reply (System_Audio_Mode_Request phys_addr) = Frame (if phys_addr = 0xffff then 2 else 4) False (when_reply reply CEC_MSG_SET_SYSTEM_AUDIO_MODE)"
| "audio_frame reply (System_Audio_Mode_Status _) = Frame 3 False None"
| "audio_frame reply Give_System_Audio_Mode_Status = Frame 2 False (when_reply reply CEC_MSG_SYSTEM_AUDIO_MODE_STATUS)"
| "audio_frame reply (Report_Short_Audio_Descriptor ds) = Frame (2 + 3 * word_of_nat (length ds)) False None"
| "audio_frame reply (Request_Short_Audio_Descriptor fs) = Frame (2 + word_of_nat (length fs)) False (when_reply reply CEC_MSG_REPORT_SHORT_AUDIO_DESCRIPTOR)"
| "audio_frame reply (Set_Audio_Rate _) = Frame 3 False None"
| "audio_frame reply Report_Arc_Initiated = Frame 2 False None"
| "audio_frame reply Initiate_Arc = Frame 2 False (when_reply reply CEC_MSG_REPORT_ARC_INITIATED)"
| "audio_frame reply Request_Arc_Initiation = Frame 2 False (when_reply reply CEC_MSG_INITIATE_ARC)"
| "audio_frame reply Report_Arc_Terminated = Frame 2 False None"
| "audio_frame reply Terminate_Arc = Frame 2 False (when_reply reply CEC_MSG_REPORT_ARC_TERMINATED)"
| "audio_frame reply Request_Arc_Termination = Frame 2 False (when_reply reply CEC_MSG_TERMINATE_ARC)"
| "audio_frame reply (Report_Current_Latency x) = (case x of (phys_addr, video, low, compd, delay) \<Rightarrow>
     Frame (if compd = 3 then 7 else 6) True None)"
| "audio_frame reply (Request_Current_Latency _) = Frame 4 True (when_reply reply CEC_MSG_REPORT_CURRENT_LATENCY)"

fun audio_ok :: "audio_cmd \<Rightarrow> bool" where
  "audio_ok (Report_Audio_Status x) \<longleftrightarrow>
     (case x of (aud_mute_status, aud_vol_status) \<Rightarrow> fits 1 aud_mute_status \<and> fits 7
        aud_vol_status)"
| "audio_ok (Report_Short_Audio_Descriptor ds) \<longleftrightarrow> length ds \<le> 4 \<and> list_all (fits 24) ds"
| "audio_ok (Request_Short_Audio_Descriptor fs) \<longleftrightarrow> length fs \<le> 4 \<and> list_all (\<lambda>(fid, code). fits 2 fid \<and> fits 6 code) fs"
| "audio_ok (Report_Current_Latency x) \<longleftrightarrow>
     (case x of (phys_addr, video, low, compd, delay) \<Rightarrow> fits 1 low \<and> fits 2 compd)"
| "audio_ok _ \<longleftrightarrow> True"

fun audio_received :: "audio_cmd \<Rightarrow> audio_cmd" where
  "audio_received (Report_Current_Latency x) = Report_Current_Latency
     (case x of (phys_addr, video, low, compd, delay) \<Rightarrow>
        (phys_addr, video, low, compd, if compd = 3 then delay else 1))"
| "audio_received c = c"

definition audio_decode :: "u8 \<Rightarrow> cec_msg \<Rightarrow> audio_cmd option" where
  "audio_decode opc m =
     (if opc = CEC_MSG_REPORT_AUDIO_STATUS
        then map_option Report_Audio_Status (cec_ops_report_audio_status m)
      else if opc = CEC_MSG_GIVE_AUDIO_STATUS then Some Give_Audio_Status
      else if opc = CEC_MSG_SET_SYSTEM_AUDIO_MODE
        then map_option Set_System_Audio_Mode (cec_ops_set_system_audio_mode m)
      else if opc = CEC_MSG_SYSTEM_AUDIO_MODE_REQUEST
        then map_option System_Audio_Mode_Request (cec_ops_system_audio_mode_request m)
      else if opc = CEC_MSG_SYSTEM_AUDIO_MODE_STATUS
        then map_option System_Audio_Mode_Status (cec_ops_system_audio_mode_status m)
      else if opc = CEC_MSG_GIVE_SYSTEM_AUDIO_MODE_STATUS then Some Give_System_Audio_Mode_Status
      else if opc = CEC_MSG_REPORT_SHORT_AUDIO_DESCRIPTOR
        then map_option Report_Short_Audio_Descriptor (sads_view m)
      else if opc = CEC_MSG_REQUEST_SHORT_AUDIO_DESCRIPTOR
        then map_option Request_Short_Audio_Descriptor (formats_view m)
      else if opc = CEC_MSG_SET_AUDIO_RATE then map_option Set_Audio_Rate (cec_ops_set_audio_rate m)
      else if opc = CEC_MSG_REPORT_ARC_INITIATED then Some Report_Arc_Initiated
      else if opc = CEC_MSG_INITIATE_ARC then Some Initiate_Arc
      else if opc = CEC_MSG_REQUEST_ARC_INITIATION then Some Request_Arc_Initiation
      else if opc = CEC_MSG_REPORT_ARC_TERMINATED then Some Report_Arc_Terminated
      else if opc = CEC_MSG_TERMINATE_ARC then Some Terminate_Arc
      else if opc = CEC_MSG_REQUEST_ARC_TERMINATION then Some Request_Arc_Termination
      else if opc = CEC_MSG_REPORT_CURRENT_LATENCY
        then map_option Report_Current_Latency (cec_ops_report_current_latency m)
      else if opc = CEC_MSG_REQUEST_CURRENT_LATENCY
        then map_option Request_Current_Latency (cec_ops_request_current_latency m)
      else None)"

definition audio_opcodes :: "u8 list" where
  "audio_opcodes = [CEC_MSG_REPORT_AUDIO_STATUS, CEC_MSG_GIVE_AUDIO_STATUS,
     CEC_MSG_SET_SYSTEM_AUDIO_MODE, CEC_MSG_SYSTEM_AUDIO_MODE_REQUEST,
     CEC_MSG_SYSTEM_AUDIO_MODE_STATUS, CEC_MSG_GIVE_SYSTEM_AUDIO_MODE_STATUS,
     CEC_MSG_REPORT_SHORT_AUDIO_DESCRIPTOR, CEC_MSG_REQUEST_SHORT_AUDIO_DESCRIPTOR,
     CEC_MSG_SET_AUDIO_RATE, CEC_MSG_REPORT_ARC_INITIATED, CEC_MSG_INITIATE_ARC,
     CEC_MSG_REQUEST_ARC_INITIATION, CEC_MSG_REPORT_ARC_TERMINATED, CEC_MSG_TERMINATE_ARC,
     CEC_MSG_REQUEST_ARC_TERMINATION, CEC_MSG_REPORT_CURRENT_LATENCY,
     CEC_MSG_REQUEST_CURRENT_LATENCY]"

lemmas audio_facts =
  report_audio_status.ok_emits report_audio_status.dec_enc
  give_audio_status.enc_emits give_audio_status.enc_total
  set_system_audio_mode.ok_emits set_system_audio_mode.dec_enc
  system_audio_mode_request.ok_emits system_audio_mode_request.dec_enc
  system_audio_mode_status.ok_emits system_audio_mode_status.dec_enc
  give_system_audio_mode_status.enc_emits give_system_audio_mode_status.enc_total
  report_short_audio_descriptor.ok_emits report_short_audio_descriptor.dec_enc
  request_short_audio_descriptor.ok_emits request_short_audio_descriptor.dec_enc
  set_audio_rate.ok_emits set_audio_rate.dec_enc
  report_arc_initiated.enc_emits report_arc_initiated.enc_total
  initiate_arc.enc_emits initiate_arc.enc_total
  request_arc_initiation.enc_emits request_arc_initiation.enc_total
  report_arc_terminated.enc_emits report_arc_terminated.enc_total
  terminate_arc.enc_emits terminate_arc.enc_total
  request_arc_termination.enc_emits request_arc_termination.enc_total
  report_current_latency.ok_emits report_current_latency.dec_recv
  request_current_latency.ok_emits request_current_latency.dec_enc

interpretation audio: cec_dispatch "audio_encode reply" audio_ok audio_opcode
  "audio_frame reply" audio_received audio_decode audio_opcodes
  for reply
proof unfold_locales
  fix m c opc
  show "cec_emits (audio_opcode c) (audio_frame reply c) m (audio_encode reply m c)" if "wf_msg m" "audio_ok c"
    using that by (cases c) (simp_all add: audio_facts)
  show "Option.bind (audio_encode reply m c) (\<lambda>m'. audio_decode (audio_opcode c) m') =
      Some (audio_received c)"
    if "wf_msg m" "audio_ok c"
    using that by (cases c) (simp_all add: audio_decode_def audio_facts cec_code)
  show "audio_opcode c \<in> set audio_opcodes"
    by (cases c) (simp_all add: audio_opcodes_def)
  show "audio_decode opc m = None" if "opc \<notin> set audio_opcodes"
    using that by (simp add: audio_decode_def audio_opcodes_def)
qed

section \<open>Properties\<close>

text \<open>
  Of a list of 24-bit short audio descriptors the message carries the first four, and the
  receiver's loop recovers them; both loops end and stay inside the message and the arrays.
\<close>

theorem short_audio_descriptors_truncate:
  assumes "wf_msg m" "length ds < 256" "list_all (fits 24) ds"
  shows "Option.bind (cec_msg_report_short_audio_descriptor m (word_of_nat (length ds)) ds) sads_view
    = Some (take 4 ds)"
proof -
  let ?n = "unat (sent_count ds)"
  have n: "?n = length (take 4 ds)" using assms(2) by (simp add: unat_sent_count min_def)
  have tk: "take ?n ds = take 4 ds" using n by (simp add: min_def)
  obtain bs where eq: "cec_msg_report_short_audio_descriptor m (word_of_nat (length ds)) ds =
      Some (m\<lparr>cm_len := 2 + promote (sent_count ds) * 3, cm_msg := bs\<rparr>)" and bs: "length bs = 16"
    and b: "\<And>j. j < ?n \<Longrightarrow> be24 (bs ! (2 + j * 3)) (bs ! (3 + j * 3)) (bs ! (4 + j * 3)) =
      be24 (u8_of (drop_bit 16 (ds ! j))) (u8_of (drop_bit 8 (ds ! j) AND 0xff)) (u8_of (ds ! j AND 0xff))"
    using report_sads_eq [OF assms(1), of ds] by metis
  have "map (\<lambda>j. be24 (bs ! (2 + j * 3)) (bs ! (3 + j * 3)) (bs ! (4 + j * 3))) [0..<?n] = take 4 ds"
    using assms(3) n by (intro nth_equalityI) (simp_all add: b [simplified] be24_bytes list_all_length)
  then show ?thesis
    using bs sent_count_le [of ds]
    by (simp add: eq sads_view_def cec_ops_report_short_audio_descriptor_def get_sads_spec msg_simps
        Let_def sads_len clamp_idem u8_of_promote tk)
qed

theorem short_audio_descriptors_truncate_witness:
  "Option.bind (cec_msg_report_short_audio_descriptor zero_msg
      (word_of_nat (length [0x090707 :: u32, 0x150700, 0x3d1ec0, 0x5f7e01, 0x571e00])) [0x090707, 0x150700,
        0x3d1ec0, 0x5f7e01, 0x571e00]) sads_view
    = Some (take 4 [0x090707, 0x150700, 0x3d1ec0, 0x5f7e01, 0x571e00])"
  by (rule short_audio_descriptors_truncate) (simp_all add: fits_def)

end
