(* ===== verification/Cec_Cdc.thy ===== *)
theory Cec_Cdc
  imports Cec_Codec
begin

text \<open>
  The feature \<^verbatim>\<open>Capability Discovery and Control\<close> of \<^verbatim>\<open>cec-funcs.h\<close>: commands of the HDMI Ethernet
  channel and of hot-plug detection, all under one opcode.
\<close>

section \<open>Messages\<close>

definition cec_msg_cdc_hec_inquire_state ::
  "cec_msg \<Rightarrow> u16 \<Rightarrow> u16 \<Rightarrow> cec_msg option" where
  "cec_msg_cdc_hec_inquire_state m phys_addr1 phys_addr2 = do {
     let m = m\<lparr>cm_len := 9\<rparr>;
     m \<leftarrow> or_byte m 0 0xf;
     m \<leftarrow> put_byte m 1 CEC_MSG_CDC_MESSAGE;
     m \<leftarrow> put_byte m 4 CEC_MSG_CDC_HEC_INQUIRE_STATE;
     m \<leftarrow> put_byte m 5 (hi8 phys_addr1);
     m \<leftarrow> put_byte m 6 (lo8 phys_addr1);
     m \<leftarrow> put_byte m 7 (hi8 phys_addr2);
     m \<leftarrow> put_byte m 8 (lo8 phys_addr2);
     Some m
   }"

definition cec_ops_cdc_hec_inquire_state ::
  "cec_msg \<Rightarrow> (u16 \<times> u16 \<times> u16) option" where
  "cec_ops_cdc_hec_inquire_state m = do {
     b2 \<leftarrow> get_byte m 2;
     b3 \<leftarrow> get_byte m 3;
     b5 \<leftarrow> get_byte m 5;
     b6 \<leftarrow> get_byte m 6;
     b7 \<leftarrow> get_byte m 7;
     b8 \<leftarrow> get_byte m 8;
     Some (be16 b2 b3, be16 b5 b6, be16 b7 b8)
   }"

definition cec_msg_cdc_hec_report_state ::
  "cec_msg \<Rightarrow> u16 \<Rightarrow> u8 \<Rightarrow> u8 \<Rightarrow> u8 \<Rightarrow> u8 \<Rightarrow> u8 \<Rightarrow> u16 \<Rightarrow> cec_msg option" where
  "cec_msg_cdc_hec_report_state m target_phys_addr hec_func_state host_func_state enc_func_state
      cdc_errcode has_field hec_field = do {
     let m = m\<lparr>cm_len := if has_field \<noteq> 0 then 10 else 8\<rparr>;
     m \<leftarrow> or_byte m 0 0xf;
     m \<leftarrow> put_byte m 1 CEC_MSG_CDC_MESSAGE;
     m \<leftarrow> put_byte m 4 CEC_MSG_CDC_HEC_REPORT_STATE;
     m \<leftarrow> put_byte m 5 (hi8 target_phys_addr);
     m \<leftarrow> put_byte m 6 (lo8 target_phys_addr);
     m \<leftarrow> put_byte m 7 (u8_of (push_bit 6 (promote hec_func_state) OR
       push_bit 4 (promote host_func_state) OR push_bit 2 (promote enc_func_state) OR
       promote cdc_errcode));
     if has_field \<noteq> 0 then do {
       m \<leftarrow> put_byte m 8 (hi8 hec_field);
       put_byte m 9 (lo8 hec_field)
     } else Some m
   }"

definition cec_ops_cdc_hec_report_state ::
  "cec_msg \<Rightarrow> (u16 \<times> u16 \<times> u8 \<times> u8 \<times> u8 \<times> u8 \<times> u8 \<times> u16) option" where
  "cec_ops_cdc_hec_report_state m = do {
     b2 \<leftarrow> get_byte m 2;
     b3 \<leftarrow> get_byte m 3;
     b5 \<leftarrow> get_byte m 5;
     b6 \<leftarrow> get_byte m 6;
     b7 \<leftarrow> get_byte m 7;
     let hec_func_state = u8_of (drop_bit 6 (promote b7));
     let host_func_state = u8_of (drop_bit 4 (promote b7) AND 3);
     let enc_func_state = u8_of (drop_bit 4 (promote b7) AND 3);
     let cdc_errcode = u8_of (promote b7 AND 3);
     let has_field = (if cm_len m \<ge> 10 then 1 else 0 :: u8);
     hec_field \<leftarrow> (if has_field \<noteq> 0 then do {
         b8 \<leftarrow> get_byte m 8;
         b9 \<leftarrow> get_byte m 9;
         Some (be16 b8 b9)
       } else Some 0);
     Some (be16 b2 b3, be16 b5 b6, hec_func_state, host_func_state, enc_func_state, cdc_errcode,
       has_field, hec_field)
   }"

definition cec_msg_cdc_hec_set_state ::
  "cec_msg \<Rightarrow> u16 \<Rightarrow> u16 \<Rightarrow> u8 \<Rightarrow> u16 \<Rightarrow> u16 \<Rightarrow> u16 \<Rightarrow> cec_msg option" where
  "cec_msg_cdc_hec_set_state m phys_addr1 phys_addr2 hec_set_state phys_addr3 phys_addr4
      phys_addr5 = do {
     let m = m\<lparr>cm_len := 10\<rparr>;
     m \<leftarrow> or_byte m 0 0xf;
     m \<leftarrow> put_byte m 1 CEC_MSG_CDC_MESSAGE;
     m \<leftarrow> put_byte m 4 CEC_MSG_CDC_HEC_INQUIRE_STATE;
     m \<leftarrow> put_byte m 5 (hi8 phys_addr1);
     m \<leftarrow> put_byte m 6 (lo8 phys_addr1);
     m \<leftarrow> put_byte m 7 (hi8 phys_addr2);
     m \<leftarrow> put_byte m 8 (lo8 phys_addr2);
     m \<leftarrow> put_byte m 9 hec_set_state;
     if phys_addr3 \<noteq> CEC_PHYS_ADDR_INVALID then do {
       m \<leftarrow> append_byte m (hi8 phys_addr3);
       m \<leftarrow> append_byte m (lo8 phys_addr3);
       if phys_addr4 \<noteq> CEC_PHYS_ADDR_INVALID then do {
         m \<leftarrow> append_byte m (hi8 phys_addr4);
         m \<leftarrow> append_byte m (lo8 phys_addr4);
         if phys_addr5 \<noteq> CEC_PHYS_ADDR_INVALID then do {
           m \<leftarrow> append_byte m (hi8 phys_addr5);
           append_byte m (lo8 phys_addr5)
         } else Some m
       } else Some m
     } else Some m
   }"

definition cec_ops_cdc_hec_set_state ::
  "cec_msg \<Rightarrow> (u16 \<times> u16 \<times> u16 \<times> u8 \<times> u16 \<times> u16 \<times> u16) option" where
  "cec_ops_cdc_hec_set_state m = do {
     b2 \<leftarrow> get_byte m 2;
     b3 \<leftarrow> get_byte m 3;
     b5 \<leftarrow> get_byte m 5;
     b6 \<leftarrow> get_byte m 6;
     b7 \<leftarrow> get_byte m 7;
     b8 \<leftarrow> get_byte m 8;
     b9 \<leftarrow> get_byte m 9;
     phys_addr3 \<leftarrow> (if cm_len m \<ge> 12 then do {
         b10 \<leftarrow> get_byte m 10;
         b11 \<leftarrow> get_byte m 11;
         Some (be16 b10 b11)
       } else Some CEC_PHYS_ADDR_INVALID);
     phys_addr4 \<leftarrow> (if cm_len m \<ge> 14 then do {
         b12 \<leftarrow> get_byte m 12;
         b13 \<leftarrow> get_byte m 13;
         Some (be16 b12 b13)
       } else Some CEC_PHYS_ADDR_INVALID);
     phys_addr5 \<leftarrow> (if cm_len m \<ge> 16 then do {
         b14 \<leftarrow> get_byte m 14;
         b15 \<leftarrow> get_byte m 15;
         Some (be16 b14 b15)
       } else Some CEC_PHYS_ADDR_INVALID);
     Some (be16 b2 b3, be16 b5 b6, be16 b7 b8, b9, phys_addr3, phys_addr4, phys_addr5)
   }"

definition cec_msg_cdc_hec_set_state_adjacent ::
  "cec_msg \<Rightarrow> u16 \<Rightarrow> u8 \<Rightarrow> cec_msg option" where
  "cec_msg_cdc_hec_set_state_adjacent m phys_addr1 hec_set_state = do {
     let m = m\<lparr>cm_len := 8\<rparr>;
     m \<leftarrow> or_byte m 0 0xf;
     m \<leftarrow> put_byte m 1 CEC_MSG_CDC_MESSAGE;
     m \<leftarrow> put_byte m 4 CEC_MSG_CDC_HEC_SET_STATE_ADJACENT;
     m \<leftarrow> put_byte m 5 (hi8 phys_addr1);
     m \<leftarrow> put_byte m 6 (lo8 phys_addr1);
     m \<leftarrow> put_byte m 7 hec_set_state;
     Some m
   }"

definition cec_ops_cdc_hec_set_state_adjacent ::
  "cec_msg \<Rightarrow> (u16 \<times> u16 \<times> u8) option" where
  "cec_ops_cdc_hec_set_state_adjacent m = do {
     b2 \<leftarrow> get_byte m 2;
     b3 \<leftarrow> get_byte m 3;
     b5 \<leftarrow> get_byte m 5;
     b6 \<leftarrow> get_byte m 6;
     b7 \<leftarrow> get_byte m 7;
     Some (be16 b2 b3, be16 b5 b6, b7)
   }"

definition cec_msg_cdc_hec_request_deactivation ::
  "cec_msg \<Rightarrow> u16 \<Rightarrow> u16 \<Rightarrow> u16 \<Rightarrow> cec_msg option" where
  "cec_msg_cdc_hec_request_deactivation m phys_addr1 phys_addr2 phys_addr3 = do {
     let m = m\<lparr>cm_len := 11\<rparr>;
     m \<leftarrow> or_byte m 0 0xf;
     m \<leftarrow> put_byte m 1 CEC_MSG_CDC_MESSAGE;
     m \<leftarrow> put_byte m 4 CEC_MSG_CDC_HEC_REQUEST_DEACTIVATION;
     m \<leftarrow> put_byte m 5 (hi8 phys_addr1);
     m \<leftarrow> put_byte m 6 (lo8 phys_addr1);
     m \<leftarrow> put_byte m 7 (hi8 phys_addr2);
     m \<leftarrow> put_byte m 8 (lo8 phys_addr2);
     m \<leftarrow> put_byte m 9 (hi8 phys_addr3);
     m \<leftarrow> put_byte m 10 (lo8 phys_addr3);
     Some m
   }"

definition cec_ops_cdc_hec_request_deactivation ::
  "cec_msg \<Rightarrow> (u16 \<times> u16 \<times> u16 \<times> u16) option" where
  "cec_ops_cdc_hec_request_deactivation m = do {
     b2 \<leftarrow> get_byte m 2;
     b3 \<leftarrow> get_byte m 3;
     b5 \<leftarrow> get_byte m 5;
     b6 \<leftarrow> get_byte m 6;
     b7 \<leftarrow> get_byte m 7;
     b8 \<leftarrow> get_byte m 8;
     b9 \<leftarrow> get_byte m 9;
     b10 \<leftarrow> get_byte m 10;
     Some (be16 b2 b3, be16 b5 b6, be16 b7 b8, be16 b9 b10)
   }"

definition cec_msg_cdc_hec_notify_alive :: "cec_msg \<Rightarrow> cec_msg option" where
  "cec_msg_cdc_hec_notify_alive m = do {
     let m = m\<lparr>cm_len := 5\<rparr>;
     m \<leftarrow> or_byte m 0 0xf;
     m \<leftarrow> put_byte m 1 CEC_MSG_CDC_MESSAGE;
     m \<leftarrow> put_byte m 4 CEC_MSG_CDC_HEC_NOTIFY_ALIVE;
     Some m
   }"

definition cec_ops_cdc_hec_notify_alive :: "cec_msg \<Rightarrow> u16 option" where
  "cec_ops_cdc_hec_notify_alive m = do {
     b2 \<leftarrow> get_byte m 2;
     b3 \<leftarrow> get_byte m 3;
     Some (be16 b2 b3)
   }"

definition cec_msg_cdc_hec_discover :: "cec_msg \<Rightarrow> cec_msg option" where
  "cec_msg_cdc_hec_discover m = do {
     let m = m\<lparr>cm_len := 5\<rparr>;
     m \<leftarrow> or_byte m 0 0xf;
     m \<leftarrow> put_byte m 1 CEC_MSG_CDC_MESSAGE;
     m \<leftarrow> put_byte m 4 CEC_MSG_CDC_HEC_DISCOVER;
     Some m
   }"

definition cec_ops_cdc_hec_discover :: "cec_msg \<Rightarrow> u16 option" where
  "cec_ops_cdc_hec_discover m = do {
     b2 \<leftarrow> get_byte m 2;
     b3 \<leftarrow> get_byte m 3;
     Some (be16 b2 b3)
   }"

definition cec_msg_cdc_hpd_set_state ::
  "cec_msg \<Rightarrow> u8 \<Rightarrow> u8 \<Rightarrow> cec_msg option" where
  "cec_msg_cdc_hpd_set_state m input_port hpd_state = do {
     let m = m\<lparr>cm_len := 6\<rparr>;
     m \<leftarrow> or_byte m 0 0xf;
     m \<leftarrow> put_byte m 1 CEC_MSG_CDC_MESSAGE;
     m \<leftarrow> put_byte m 4 CEC_MSG_CDC_HPD_SET_STATE;
     m \<leftarrow> put_byte m 5 (u8_of (push_bit 4 (promote input_port) OR promote hpd_state));
     Some m
   }"

definition cec_ops_cdc_hpd_set_state ::
  "cec_msg \<Rightarrow> (u16 \<times> u8 \<times> u8) option" where
  "cec_ops_cdc_hpd_set_state m = do {
     b2 \<leftarrow> get_byte m 2;
     b3 \<leftarrow> get_byte m 3;
     b5 \<leftarrow> get_byte m 5;
     Some (be16 b2 b3, u8_of (drop_bit 4 (promote b5)), u8_of (promote b5 AND 0xf))
   }"

definition cec_msg_cdc_hpd_report_state ::
  "cec_msg \<Rightarrow> u8 \<Rightarrow> u8 \<Rightarrow> cec_msg option" where
  "cec_msg_cdc_hpd_report_state m hpd_state hpd_error = do {
     let m = m\<lparr>cm_len := 6\<rparr>;
     m \<leftarrow> or_byte m 0 0xf;
     m \<leftarrow> put_byte m 1 CEC_MSG_CDC_MESSAGE;
     m \<leftarrow> put_byte m 4 CEC_MSG_CDC_HPD_REPORT_STATE;
     m \<leftarrow> put_byte m 5 (u8_of (push_bit 4 (promote hpd_state) OR promote hpd_error));
     Some m
   }"

definition cec_ops_cdc_hpd_report_state ::
  "cec_msg \<Rightarrow> (u16 \<times> u8 \<times> u8) option" where
  "cec_ops_cdc_hpd_report_state m = do {
     b2 \<leftarrow> get_byte m 2;
     b3 \<leftarrow> get_byte m 3;
     b5 \<leftarrow> get_byte m 5;
     Some (be16 b2 b3, u8_of (drop_bit 4 (promote b5)), u8_of (promote b5 AND 0xf))
   }"

section \<open>The contract\<close>

text \<open>
  A CDC message is a broadcast with the opcode \<^verbatim>\<open>CEC_MSG_CDC_MESSAGE\<close>; byte 4 selects the command.
  Its encoder leaves bytes 2 and 3 alone, where the CEC framework puts the physical address of
  the sender, and its decoder returns that address beside the operands.
\<close>

locale cdc_codec =
  fixes enc :: "cec_msg \<Rightarrow> 'a \<Rightarrow> cec_msg option"
    and sub :: u8
    and len :: "'a \<Rightarrow> u32"
    and ok :: "'a \<Rightarrow> bool"
    and recv :: "'a \<Rightarrow> 'b"
    and dec :: "cec_msg \<Rightarrow> (u16 \<times> 'b) option"
  assumes enc_cdc: "wf_msg m \<Longrightarrow> \<exists>m'. enc m x = Some m' \<and>
      cec_framed CEC_MSG_CDC_MESSAGE (Frame (len x) True None) m m' \<and>
      cm_msg m' ! 2 = cm_msg m ! 2 \<and> cm_msg m' ! 3 = cm_msg m ! 3 \<and> cm_msg m' ! 4 = sub"
    and dec_enc: "wf_msg m \<Longrightarrow> ok x \<Longrightarrow>
      Option.bind (enc m x) dec = Some (be16 (cm_msg m ! 2) (cm_msg m ! 3), recv x)"
begin

lemma emits: "wf_msg m \<Longrightarrow> cec_emits CEC_MSG_CDC_MESSAGE (Frame (len x) True None) m (enc m x)"
  using enc_cdc [of m x] unfolding cec_emits_def by blast

text \<open>A dispatcher on byte 4 finds the sub-opcode, and the decoder it selects the operands.\<close>

lemma sent:
  assumes "wf_msg m" "ok x"
  shows "\<exists>m'. enc m x = Some m' \<and> get_byte m' 4 = Some sub \<and>
    dec m' = Some (be16 (cm_msg m ! 2) (cm_msg m ! 3), recv x)"
  using enc_cdc [OF assms(1), of x] dec_enc [OF assms]
  by (auto simp add: cec_framed_def msg_simps)

end

section \<open>State reports\<close>

text \<open>
  The decoder takes both the host's and the encoder's function state from bits 4 and 5 of the
  state byte, so it returns what was sent only when the two agree. A report without the optional
  field is decoded with the field 0.
\<close>

definition report_state_ok :: "u16 \<times> u8 \<times> u8 \<times> u8 \<times> u8 \<times> u8 \<times> u16 \<Rightarrow> bool" where
  "report_state_ok = (\<lambda>(target, hec, host, enc, err, has_field, field).
     fits 2 hec \<and> fits 2 host \<and> fits 2 enc \<and> fits 2 err)"

definition report_state_received ::
  "u16 \<times> u8 \<times> u8 \<times> u8 \<times> u8 \<times> u8 \<times> u16 \<Rightarrow> u16 \<times> u8 \<times> u8 \<times> u8 \<times> u8 \<times> u8 \<times> u16" where
  "report_state_received = (\<lambda>(target, hec, host, enc, err, has_field, field).
     (target, hec, host, host, err, if has_field \<noteq> 0 then 1 else 0, if has_field \<noteq> 0 then field else 0))"

lemma state_byte:
  fixes hec host enc err b :: u8
  assumes fits: "fits 2 hec" "fits 2 host" "fits 2 enc" "fits 2 err"
    and b: "b = push_bit 6 hec OR push_bit 4 host OR push_bit 2 enc OR err"
  shows "drop_bit 6 b = hec" "take_bit 2 (drop_bit 4 b) = host"
    "take_bit 2 (drop_bit 2 b) = enc" "take_bit 2 b = err"
proof -
  note D = fits [THEN fits_bitD]
  show "drop_bit 6 b = hec"
    by (rule bit_word_eqI) (auto simp add: b bit_simps dest: D)
  show "take_bit 2 (drop_bit 4 b) = host"
    by (rule bit_word_eqI) (auto simp add: b bit_simps dest: D)
  show "take_bit 2 (drop_bit 2 b) = enc"
    by (rule bit_word_eqI) (auto simp add: b bit_simps dest: D)
  show "take_bit 2 b = err"
    by (rule bit_word_eqI) (auto simp add: b bit_simps dest: D)
qed

definition state_wire :: "u8 \<Rightarrow> u8 \<Rightarrow> u8 \<Rightarrow> u8 \<Rightarrow> u8" where
  "state_wire hec host enc err = push_bit 6 hec OR push_bit 4 host OR push_bit 2 enc OR err"

lemma state_wire:
  "u8_of (push_bit 6 (promote hec) OR push_bit 4 (promote host) OR push_bit 2 (promote enc) OR
    promote err) = state_wire hec host enc err"
  by (simp add: state_wire_def c_conv)

lemma report_state_cdc:
  "wf_msg m \<Longrightarrow>
    \<exists>m'. cec_msg_cdc_hec_report_state m target hec host enc err has_field field = Some m' \<and>
      cec_framed CEC_MSG_CDC_MESSAGE (Frame (if has_field \<noteq> 0 then 10 else 8) True None) m m' \<and>
      cm_msg m' ! 2 = cm_msg m ! 2 \<and> cm_msg m' ! 3 = cm_msg m ! 3 \<and>
      cm_msg m' ! 4 = CEC_MSG_CDC_HEC_REPORT_STATE"
  by (simp add: cec_msg_cdc_hec_report_state_def msg_simps cec_framed_def)

lemma report_state_eq:
  "wf_msg m \<Longrightarrow> cec_msg_cdc_hec_report_state m target hec host enc err has_field field =
    (let bs = (cm_msg m)[0 := cm_msg m ! 0 OR 0xf, 1 := CEC_MSG_CDC_MESSAGE,
        4 := CEC_MSG_CDC_HEC_REPORT_STATE, 5 := hi8 target, 6 := lo8 target,
        7 := state_wire hec host enc err]
     in Some (if has_field \<noteq> 0 then m\<lparr>cm_len := 10, cm_msg := bs[8 := hi8 field, 9 := lo8 field]\<rparr>
       else m\<lparr>cm_len := 8, cm_msg := bs\<rparr>))"
  by (simp add: cec_msg_cdc_hec_report_state_def state_wire msg_simps Let_def)

text \<open>What the decoder makes of a report, for operands that fit.\<close>

lemma report_state_decoded:
  assumes "wf_msg m" "fits 2 hec" "fits 2 host" "fits 2 enc" "fits 2 err"
  shows "Option.bind (cec_msg_cdc_hec_report_state m target hec host enc err has_field field)
      cec_ops_cdc_hec_report_state =
    Some (be16 (cm_msg m ! 2) (cm_msg m ! 3), target, hec, host, host, err,
      if has_field \<noteq> 0 then 1 else 0, if has_field \<noteq> 0 then field else 0)"
proof -
  note sb = state_byte [OF assms(2-5) refl, folded state_wire_def]
  show ?thesis
    unfolding report_state_eq [OF assms(1)]
    using assms(1) sb
    by (simp add: cec_ops_cdc_hec_report_state_def msg_simps Let_def c_conv)
qed

section \<open>Setting the state\<close>

text \<open>
  The optional addresses are nested: a later one is sent only if the earlier ones are valid.
\<close>

definition set_state_ok :: "u16 \<times> u16 \<times> u8 \<times> u16 \<times> u16 \<times> u16 \<Rightarrow> bool" where
  "set_state_ok = (\<lambda>(pa1, pa2, st, pa3, pa4, pa5).
     (pa3 = CEC_PHYS_ADDR_INVALID \<longrightarrow> pa4 = CEC_PHYS_ADDR_INVALID) \<and>
     (pa4 = CEC_PHYS_ADDR_INVALID \<longrightarrow> pa5 = CEC_PHYS_ADDR_INVALID))"

definition set_state_len :: "u16 \<times> u16 \<times> u8 \<times> u16 \<times> u16 \<times> u16 \<Rightarrow> u32" where
  "set_state_len = (\<lambda>(pa1, pa2, st, pa3, pa4, pa5).
     if pa3 = CEC_PHYS_ADDR_INVALID then 10
     else if pa4 = CEC_PHYS_ADDR_INVALID then 12
     else if pa5 = CEC_PHYS_ADDR_INVALID then 14
     else 16)"

lemma set_state_cdc:
  "wf_msg m \<Longrightarrow>
    \<exists>m'. cec_msg_cdc_hec_set_state m pa1 pa2 st pa3 pa4 pa5 = Some m' \<and>
      cec_framed CEC_MSG_CDC_MESSAGE (Frame (set_state_len (pa1, pa2, st, pa3, pa4, pa5)) True None) m m' \<and>
      cm_msg m' ! 2 = cm_msg m ! 2 \<and> cm_msg m' ! 3 = cm_msg m ! 3 \<and>
      cm_msg m' ! 4 = CEC_MSG_CDC_HEC_INQUIRE_STATE"
  by (simp add: cec_msg_cdc_hec_set_state_def set_state_len_def msg_simps cec_framed_def)

lemma set_state_decoded:
  assumes "wf_msg m" "set_state_ok (pa1, pa2, st, pa3, pa4, pa5)"
  shows "Option.bind (cec_msg_cdc_hec_set_state m pa1 pa2 st pa3 pa4 pa5)
      cec_ops_cdc_hec_set_state =
    Some (be16 (cm_msg m ! 2) (cm_msg m ! 3), pa1, pa2, st, pa3, pa4, pa5)"
  using assms
  by (auto simp add: cec_msg_cdc_hec_set_state_def cec_ops_cdc_hec_set_state_def msg_simps
      set_state_ok_def)

lemma set_state_inquiry:
  assumes "wf_msg m"
  shows "Option.bind (cec_msg_cdc_hec_set_state m pa1 pa2 st pa3 pa4 pa5)
      cec_ops_cdc_hec_inquire_state =
    Some (be16 (cm_msg m ! 2) (cm_msg m ! 3), pa1, pa2)"
  using assms
  by (simp add: cec_msg_cdc_hec_set_state_def cec_ops_cdc_hec_inquire_state_def msg_simps)

section \<open>The contract for each command\<close>

interpretation cdc_hec_inquire_state: cdc_codec
  "\<lambda>m (phys_addr1, phys_addr2). cec_msg_cdc_hec_inquire_state m phys_addr1 phys_addr2"
  CEC_MSG_CDC_HEC_INQUIRE_STATE "\<lambda>_. 9"
  "\<lambda>_. True" "\<lambda>x. x"
  cec_ops_cdc_hec_inquire_state
  by unfold_locales
    (auto simp: cec_msg_cdc_hec_inquire_state_def cec_ops_cdc_hec_inquire_state_def msg_simps
      cec_framed_def )

interpretation cdc_hec_report_state: cdc_codec
  "\<lambda>m (target, hec, host, enc, err, has_field, field).
     cec_msg_cdc_hec_report_state m target hec host enc err has_field field"
  CEC_MSG_CDC_HEC_REPORT_STATE
  "\<lambda>(target, hec, host, enc, err, has_field, field). if has_field \<noteq> 0 then 10 else 8"
  report_state_ok report_state_received cec_ops_cdc_hec_report_state
proof unfold_locales
qed (auto simp only: split_paired_all prod.case report_state_cdc report_state_ok_def
    report_state_received_def report_state_decoded)

text \<open>
  \<^verbatim>\<open>cec_msg_cdc_hec_set_state\<close> writes the sub-opcode of an inquiry. Its own decoder would read the
  operands back, but the decoder that belongs to the sub-opcode sees an inquiry about the first
  two addresses.
\<close>

interpretation cdc_hec_set_state: cdc_codec
  "\<lambda>m (pa1, pa2, st, pa3, pa4, pa5). cec_msg_cdc_hec_set_state m pa1 pa2 st pa3 pa4 pa5"
  CEC_MSG_CDC_HEC_INQUIRE_STATE set_state_len set_state_ok "\<lambda>x. x" cec_ops_cdc_hec_set_state
proof unfold_locales
qed (auto simp only: split_paired_all prod.case set_state_cdc set_state_decoded)

interpretation cdc_hec_set_state_inquiry: cdc_codec
  "\<lambda>m (pa1, pa2, st, pa3, pa4, pa5). cec_msg_cdc_hec_set_state m pa1 pa2 st pa3 pa4 pa5"
  CEC_MSG_CDC_HEC_INQUIRE_STATE set_state_len "\<lambda>_. True"
  "\<lambda>(pa1, pa2, st, pa3, pa4, pa5). (pa1, pa2)" cec_ops_cdc_hec_inquire_state
proof unfold_locales
qed (auto simp only: split_paired_all prod.case set_state_cdc set_state_inquiry)

interpretation cdc_hec_set_state_adjacent: cdc_codec
  "\<lambda>m (phys_addr1, hec_set_state). cec_msg_cdc_hec_set_state_adjacent m phys_addr1
     hec_set_state"
  CEC_MSG_CDC_HEC_SET_STATE_ADJACENT "\<lambda>_. 8"
  "\<lambda>_. True" "\<lambda>x. x"
  cec_ops_cdc_hec_set_state_adjacent
  by unfold_locales
    (auto simp: cec_msg_cdc_hec_set_state_adjacent_def cec_ops_cdc_hec_set_state_adjacent_def msg_simps
      cec_framed_def )

interpretation cdc_hec_request_deactivation: cdc_codec
  "\<lambda>m (phys_addr1, phys_addr2, phys_addr3). cec_msg_cdc_hec_request_deactivation m phys_addr1
     phys_addr2 phys_addr3"
  CEC_MSG_CDC_HEC_REQUEST_DEACTIVATION "\<lambda>_. 11"
  "\<lambda>_. True" "\<lambda>x. x"
  cec_ops_cdc_hec_request_deactivation
  by unfold_locales
    (auto simp: cec_msg_cdc_hec_request_deactivation_def cec_ops_cdc_hec_request_deactivation_def
      msg_simps cec_framed_def )

interpretation cdc_hec_notify_alive: cdc_codec
  "\<lambda>m (_ :: unit). cec_msg_cdc_hec_notify_alive m"
  CEC_MSG_CDC_HEC_NOTIFY_ALIVE "\<lambda>_. 5"
  "\<lambda>_. True" "\<lambda>x. x"
  "\<lambda>m. map_option (\<lambda>pa. (pa, ())) (cec_ops_cdc_hec_notify_alive m)"
  by unfold_locales
    (auto simp: cec_msg_cdc_hec_notify_alive_def cec_ops_cdc_hec_notify_alive_def msg_simps
      cec_framed_def )

interpretation cdc_hec_discover: cdc_codec
  "\<lambda>m (_ :: unit). cec_msg_cdc_hec_discover m"
  CEC_MSG_CDC_HEC_DISCOVER "\<lambda>_. 5"
  "\<lambda>_. True" "\<lambda>x. x"
  "\<lambda>m. map_option (\<lambda>pa. (pa, ())) (cec_ops_cdc_hec_discover m)"
  by unfold_locales
    (auto simp: cec_msg_cdc_hec_discover_def cec_ops_cdc_hec_discover_def msg_simps cec_framed_def )

interpretation cdc_hpd_set_state: cdc_codec
  "\<lambda>m (input_port, hpd_state). cec_msg_cdc_hpd_set_state m input_port hpd_state"
  CEC_MSG_CDC_HPD_SET_STATE "\<lambda>_. 6"
  "\<lambda>(input_port, hpd_state). fits 4 input_port \<and> fits 4 hpd_state" "\<lambda>x. x"
  cec_ops_cdc_hpd_set_state
  by unfold_locales
    (auto simp: cec_msg_cdc_hpd_set_state_def cec_ops_cdc_hpd_set_state_def msg_simps cec_framed_def
      c_conv field_dist)

interpretation cdc_hpd_report_state: cdc_codec
  "\<lambda>m (hpd_state, hpd_error). cec_msg_cdc_hpd_report_state m hpd_state hpd_error"
  CEC_MSG_CDC_HPD_REPORT_STATE "\<lambda>_. 6"
  "\<lambda>(hpd_state, hpd_error). fits 4 hpd_state \<and> fits 4 hpd_error" "\<lambda>x. x"
  cec_ops_cdc_hpd_report_state
  by unfold_locales
    (auto simp: cec_msg_cdc_hpd_report_state_def cec_ops_cdc_hpd_report_state_def msg_simps
      cec_framed_def c_conv field_dist)

section \<open>The feature\<close>

text \<open>
  All commands, \<^verbatim>\<open>cec_msg_cdc_hec_set_state\<close> too: it writes the sub-opcode of an inquiry, so a
  receiver calls the wrong decoder and receives an inquiry (\<open>cdc_received\<close>).
\<close>

datatype cdc_cmd =
    Hec_Inquire_State "u16 \<times> u16"
  | Hec_Report_State "u16 \<times> u8 \<times> u8 \<times> u8 \<times> u8 \<times> u8 \<times> u16"
  | Hec_Set_State "u16 \<times> u16 \<times> u8 \<times> u16 \<times> u16 \<times> u16"
  | Hec_Set_State_Adjacent "u16 \<times> u8"
  | Hec_Request_Deactivation "u16 \<times> u16 \<times> u16"
  | Hec_Notify_Alive
  | Hec_Discover
  | Hpd_Set_State "u8 \<times> u8"
  | Hpd_Report_State "u8 \<times> u8"

fun cdc_encode :: "cec_msg \<Rightarrow> cdc_cmd \<Rightarrow> cec_msg option" where
  "cdc_encode m (Hec_Inquire_State x) =
     (case x of (phys_addr1, phys_addr2) \<Rightarrow> cec_msg_cdc_hec_inquire_state m phys_addr1 phys_addr2)"
| "cdc_encode m (Hec_Report_State x) =
     (case x of (target, hec, host, enc, err, has_field, field) \<Rightarrow>
        cec_msg_cdc_hec_report_state m target hec host enc err has_field field)"
| "cdc_encode m (Hec_Set_State x) =
     (case x of (phys_addr1, phys_addr2, hec_set_state, phys_addr3, phys_addr4, phys_addr5) \<Rightarrow>
        cec_msg_cdc_hec_set_state m phys_addr1 phys_addr2 hec_set_state phys_addr3 phys_addr4
          phys_addr5)"
| "cdc_encode m (Hec_Set_State_Adjacent x) =
     (case x of (phys_addr1, hec_set_state) \<Rightarrow>
        cec_msg_cdc_hec_set_state_adjacent m phys_addr1 hec_set_state)"
| "cdc_encode m (Hec_Request_Deactivation x) =
     (case x of (phys_addr1, phys_addr2, phys_addr3) \<Rightarrow>
        cec_msg_cdc_hec_request_deactivation m phys_addr1 phys_addr2 phys_addr3)"
| "cdc_encode m Hec_Notify_Alive = cec_msg_cdc_hec_notify_alive m"
| "cdc_encode m Hec_Discover = cec_msg_cdc_hec_discover m"
| "cdc_encode m (Hpd_Set_State x) =
     (case x of (input_port, hpd_state) \<Rightarrow> cec_msg_cdc_hpd_set_state m input_port hpd_state)"
| "cdc_encode m (Hpd_Report_State x) =
     (case x of (hpd_state, hpd_error) \<Rightarrow> cec_msg_cdc_hpd_report_state m hpd_state hpd_error)"

text \<open>The frames: every command is a broadcast, and none sets the reply.\<close>

fun cdc_frame :: "cdc_cmd \<Rightarrow> msg_frame" where
  "cdc_frame (Hec_Inquire_State _) = Frame 9 True None"
| "cdc_frame (Hec_Report_State x) = (case x of (target, hec, host, enc, err, has_field, field) \<Rightarrow>
     Frame (if has_field \<noteq> 0 then 10 else 8) True None)"
| "cdc_frame (Hec_Set_State x) = Frame (set_state_len x) True None"
| "cdc_frame (Hec_Set_State_Adjacent _) = Frame 8 True None"
| "cdc_frame (Hec_Request_Deactivation _) = Frame 11 True None"
| "cdc_frame Hec_Notify_Alive = Frame 5 True None"
| "cdc_frame Hec_Discover = Frame 5 True None"
| "cdc_frame (Hpd_Set_State _) = Frame 6 True None"
| "cdc_frame (Hpd_Report_State _) = Frame 6 True None"

fun cdc_received :: "cdc_cmd \<Rightarrow> cdc_cmd" where
  "cdc_received (Hec_Report_State x) = Hec_Report_State (report_state_received x)"
| "cdc_received (Hec_Set_State x) =
     (case x of (pa1, pa2, st, pa3, pa4, pa5) \<Rightarrow> Hec_Inquire_State (pa1, pa2))"
| "cdc_received c = c"

fun cdc_ok :: "cdc_cmd \<Rightarrow> bool" where
  "cdc_ok (Hec_Report_State x) \<longleftrightarrow> report_state_ok x"
| "cdc_ok (Hpd_Set_State x) \<longleftrightarrow> (case x of (input_port, hpd_state) \<Rightarrow> fits 4 input_port \<and> fits 4 hpd_state)"
| "cdc_ok (Hpd_Report_State x) \<longleftrightarrow> (case x of (hpd_state, hpd_error) \<Rightarrow> fits 4 hpd_state \<and> fits 4 hpd_error)"
| "cdc_ok _ \<longleftrightarrow> True"

definition cdc_opcode :: "cdc_cmd \<Rightarrow> u8" where
  "cdc_opcode c = CEC_MSG_CDC_MESSAGE"

text \<open>The operands of a received command; the sender's address is dropped here.\<close>

definition cdc_dispatch :: "cec_msg \<Rightarrow> cdc_cmd option" where
  "cdc_dispatch m = do {
     sub \<leftarrow> get_byte m 4;
     if sub = CEC_MSG_CDC_HEC_INQUIRE_STATE then
       map_option (\<lambda>r. Hec_Inquire_State (snd r)) (cec_ops_cdc_hec_inquire_state m)
     else if sub = CEC_MSG_CDC_HEC_REPORT_STATE then
       map_option (\<lambda>r. Hec_Report_State (snd r)) (cec_ops_cdc_hec_report_state m)
     else if sub = CEC_MSG_CDC_HEC_SET_STATE then
       map_option (\<lambda>r. Hec_Set_State (snd r)) (cec_ops_cdc_hec_set_state m)
     else if sub = CEC_MSG_CDC_HEC_SET_STATE_ADJACENT then
       map_option (\<lambda>r. Hec_Set_State_Adjacent (snd r)) (cec_ops_cdc_hec_set_state_adjacent m)
     else if sub = CEC_MSG_CDC_HEC_REQUEST_DEACTIVATION then
       map_option (\<lambda>r. Hec_Request_Deactivation (snd r)) (cec_ops_cdc_hec_request_deactivation m)
     else if sub = CEC_MSG_CDC_HEC_NOTIFY_ALIVE then
       map_option (\<lambda>_. Hec_Notify_Alive) (cec_ops_cdc_hec_notify_alive m)
     else if sub = CEC_MSG_CDC_HEC_DISCOVER then
       map_option (\<lambda>_. Hec_Discover) (cec_ops_cdc_hec_discover m)
     else if sub = CEC_MSG_CDC_HPD_SET_STATE then
       map_option (\<lambda>r. Hpd_Set_State (snd r)) (cec_ops_cdc_hpd_set_state m)
     else if sub = CEC_MSG_CDC_HPD_REPORT_STATE then
       map_option (\<lambda>r. Hpd_Report_State (snd r)) (cec_ops_cdc_hpd_report_state m)
     else None
   }"

definition cdc_decode :: "u8 \<Rightarrow> cec_msg \<Rightarrow> cdc_cmd option" where
  "cdc_decode opc m = (if opc = CEC_MSG_CDC_MESSAGE then cdc_dispatch m else None)"

text \<open>The sub-opcodes are told apart, which is what the dispatch relies on.\<close>

lemma cdc_subs_distinct: "distinct [CEC_MSG_CDC_HEC_INQUIRE_STATE, CEC_MSG_CDC_HEC_REPORT_STATE,
  CEC_MSG_CDC_HEC_SET_STATE_ADJACENT, CEC_MSG_CDC_HEC_SET_STATE,
  CEC_MSG_CDC_HEC_REQUEST_DEACTIVATION, CEC_MSG_CDC_HEC_NOTIFY_ALIVE, CEC_MSG_CDC_HEC_DISCOVER,
  CEC_MSG_CDC_HPD_SET_STATE, CEC_MSG_CDC_HPD_REPORT_STATE]"
  by (simp add: cec_code)

lemma cdc_framed:
  assumes "wf_msg m"
  shows "\<exists>m'. cdc_encode m c = Some m' \<and> cec_framed CEC_MSG_CDC_MESSAGE (cdc_frame c) m m'"
proof (cases c)
  case (Hec_Report_State x)
  with cdc_hec_report_state.enc_cdc [OF assms, of x] show ?thesis by (cases x) auto
next
  case (Hec_Set_State x)
  with cdc_hec_set_state_inquiry.enc_cdc [OF assms, of x] show ?thesis by (cases x) auto
qed (use cdc_hec_inquire_state.enc_cdc cdc_hec_set_state_adjacent.enc_cdc
      cdc_hec_request_deactivation.enc_cdc cdc_hec_notify_alive.enc_cdc cdc_hec_discover.enc_cdc
      cdc_hpd_set_state.enc_cdc cdc_hpd_report_state.enc_cdc assms in \<open>fastforce\<close>)+

lemma cdc_dispatch_enc:
  assumes "wf_msg m" "cdc_ok c"
  shows "Option.bind (cdc_encode m c) cdc_dispatch = Some (cdc_received c)"
proof (cases c)
  case (Hec_Inquire_State x)
  with assms cdc_hec_inquire_state.sent [OF assms(1), of x] show ?thesis
    by (auto simp add: cdc_dispatch_def cec_code)
next
  case (Hec_Report_State x)
  with assms cdc_hec_report_state.sent [OF assms(1), of x] show ?thesis
    by (auto simp add: cdc_dispatch_def cec_code)
next
  case (Hec_Set_State x)
  with cdc_hec_set_state_inquiry.sent [OF assms(1), of x] show ?thesis
    by (auto simp add: cdc_dispatch_def split: prod.split)
next
  case (Hec_Set_State_Adjacent x)
  with assms cdc_hec_set_state_adjacent.sent [OF assms(1), of x] show ?thesis
    by (auto simp add: cdc_dispatch_def cec_code)
next
  case (Hec_Request_Deactivation x)
  with assms cdc_hec_request_deactivation.sent [OF assms(1), of x] show ?thesis
    by (auto simp add: cdc_dispatch_def cec_code)
next
  case Hec_Notify_Alive
  with assms cdc_hec_notify_alive.sent [OF assms(1), of "()"] show ?thesis
    by (auto simp add: cdc_dispatch_def cec_code)
next
  case Hec_Discover
  with assms cdc_hec_discover.sent [OF assms(1), of "()"] show ?thesis
    by (auto simp add: cdc_dispatch_def cec_code)
next
  case (Hpd_Set_State x)
  with assms cdc_hpd_set_state.sent [OF assms(1), of x] show ?thesis
    by (auto simp add: cdc_dispatch_def cec_code)
next
  case (Hpd_Report_State x)
  with assms cdc_hpd_report_state.sent [OF assms(1), of x] show ?thesis
    by (auto simp add: cdc_dispatch_def cec_code)
qed

definition cdc_opcodes :: "u8 list" where
  "cdc_opcodes = [CEC_MSG_CDC_MESSAGE]"

interpretation cdc: cec_dispatch cdc_encode cdc_ok cdc_opcode cdc_frame cdc_received cdc_decode
  cdc_opcodes
proof unfold_locales
  fix m c opc
  show "cec_emits (cdc_opcode c) (cdc_frame c) m (cdc_encode m c)" if "wf_msg m" "cdc_ok c"
    using cdc_framed [OF that(1), of c] by (simp add: cdc_opcode_def cec_emits_def)
  show "Option.bind (cdc_encode m c) (\<lambda>m'. cdc_decode (cdc_opcode c) m') =
      Some (cdc_received c)"
    if "wf_msg m" "cdc_ok c"
    using cdc_dispatch_enc [OF that] by (simp add: cdc_decode_def cdc_opcode_def)
  show "cdc_opcode c \<in> set cdc_opcodes" by (simp add: cdc_opcode_def cdc_opcodes_def)
  show "cdc_decode opc m = None" if "opc \<notin> set cdc_opcodes"
    using that by (simp add: cdc_decode_def cdc_opcodes_def)
qed

lemma is_broadcast_destination:
  assumes "wf_msg m" "cec_msg_destination m = Some 0xf"
  shows "cec_msg_is_broadcast m = Some True"
proof -
  have "promote (cm_msg m ! 0) AND promote 0xf = promote (take_bit 4 (cm_msg m ! 0))"
    by (simp only: promote_and masks8)
  also have "take_bit 4 (cm_msg m ! 0) = 0xf" using assms by simp
  finally have "promote (cm_msg m ! 0) AND 0xf = 0xf" by (simp add: promote_def)
  with assms(1) show ?thesis by (simp add: cec_msg_is_broadcast_def msg_simps)
qed

section \<open>Properties\<close>

text \<open>
  A CDC command is a broadcast under the one opcode, dispatched on its sub-opcode and decoded as
  \<open>cdc_received\<close> says.
\<close>

theorem cdc_roundtrip:
  assumes "wf_msg m" "cdc_ok c"
  shows "\<exists>m'. cdc_encode m c = Some m' \<and> cdc_dispatch m' = Some (cdc_received c) \<and>
    cec_msg_opcode m' = Some (uint CEC_MSG_CDC_MESSAGE) \<and> cec_msg_is_broadcast m' = Some True"
proof -
  obtain m' where m': "cdc_encode m c = Some m'" "cdc_dispatch m' = Some (cdc_received c)"
    using cdc_dispatch_enc [OF assms] by (auto simp add: bind_eq_Some_conv)
  have fr: "cec_framed CEC_MSG_CDC_MESSAGE (cdc_frame c) m m'"
    using cdc_framed [OF assms(1), of c] m'(1) by auto
  moreover have "fr_bcast (cdc_frame c)" by (cases c) (simp_all split: prod.split)
  ultimately have "cec_msg_destination m' = Some 0xf"
    using cec_framed_destination [OF assms(1) fr] by simp
  then have "cec_msg_is_broadcast m' = Some True"
    using cec_framed_wf [OF fr] by (simp add: is_broadcast_destination)
  with m' cec_framed_opcode [OF fr] show ?thesis by blast
qed

theorem cdc_roundtrip_witness:
  "\<exists>m'. cdc_encode zero_msg (Hec_Set_State_Adjacent (0x1100, 1)) = Some m' \<and>
    cdc_dispatch m' = Some (Hec_Set_State_Adjacent (0x1100, 1)) \<and>
    cec_msg_opcode m' = Some (uint CEC_MSG_CDC_MESSAGE) \<and> cec_msg_is_broadcast m' = Some True"
  using cdc_roundtrip [of zero_msg "Hec_Set_State_Adjacent (0x1100, 1)"] by simp

text \<open>
  \<^verbatim>\<open>cec_ops_cdc_hec_report_state\<close> reads the encoder's functional state from the bits of the host's
  (it shifts by four instead of two): the value it returns is the host's, whatever was sent.
\<close>

theorem hec_report_state_enc_lost:
  assumes "wf_msg m" "fits 2 hec" "fits 2 host" "fits 2 enc" "fits 2 err"
  shows "Option.bind (cec_msg_cdc_hec_report_state m target hec host enc err has_field field)
      cec_ops_cdc_hec_report_state =
    Some (be16 (cm_msg m ! 2) (cm_msg m ! 3), target, hec, host, host, err,
      if has_field \<noteq> 0 then 1 else 0, if has_field \<noteq> 0 then field else 0)"
  using assms by (rule report_state_decoded)

theorem hec_report_state_enc_lost_witness:
  "Option.bind (cec_msg_cdc_hec_report_state zero_msg 0x1000 1 2 3 0 0 0) cec_ops_cdc_hec_report_state =
    Some (be16 (cm_msg zero_msg ! 2) (cm_msg zero_msg ! 3), 0x1000, 1, 2, 2, 0, 0, 0)"
  using hec_report_state_enc_lost [of zero_msg 1 2 3 0 "0x1000" 0 0] by (simp add: fits_def)

text \<open>
  C36: \<^verbatim>\<open>cec_msg_cdc_hec_set_state\<close> writes the sub-opcode of an inquiry, so a receiver that dispatches on
  it sees \<^verbatim>\<open><CDC HEC Inquire State>\<close> with the first two addresses instead of a request to set the state.
\<close>

theorem hec_set_state_sent_as_inquiry:
  assumes "wf_msg m"
  shows "Option.bind (cec_msg_cdc_hec_set_state m pa1 pa2 st pa3 pa4 pa5) cdc_dispatch =
    Some (Hec_Inquire_State (pa1, pa2))"
  using assms
  by (simp add: cec_msg_cdc_hec_set_state_def cdc_dispatch_def cec_ops_cdc_hec_inquire_state_def
      msg_simps)

theorem hec_set_state_sent_as_inquiry_witness:
  "Option.bind (cec_msg_cdc_hec_set_state zero_msg 0x1000 0x2000 1 0x3000 0xffff 0xffff) cdc_dispatch =
    Some (Hec_Inquire_State (0x1000, 0x2000))"
  by (rule hec_set_state_sent_as_inquiry) simp

end
