(* ===== verification/Cec_Protocol.thy ===== *)
theory Cec_Protocol
  imports Cec_Routing Cec_Record Cec_Timer Cec_System Cec_Tuner Cec_Vendor Cec_Osd Cec_General
    Cec_Audio Cec_Cdc
begin

text \<open>
  All features of \<^verbatim>\<open>cec-funcs.h\<close> behind one transmitter and one receiver. Two features with disjoint
  opcodes are again a feature (locale \<open>cec_two\<close>), so the contract of the whole protocol is an
  interpretation that rests on those of its parts.
\<close>

section \<open>Two features side by side\<close>

fun sum_encode ::
  "(cec_msg \<Rightarrow> 'a \<Rightarrow> cec_msg option) \<Rightarrow> (cec_msg \<Rightarrow> 'b \<Rightarrow> cec_msg option) \<Rightarrow>
    cec_msg \<Rightarrow> 'a + 'b \<Rightarrow> cec_msg option" where
  "sum_encode f g m (Inl a) = f m a"
| "sum_encode f g m (Inr b) = g m b"

definition sum_decode ::
  "u8 list \<Rightarrow> (u8 \<Rightarrow> cec_msg \<Rightarrow> 'a option) \<Rightarrow> (u8 \<Rightarrow> cec_msg \<Rightarrow> 'b option) \<Rightarrow>
    u8 \<Rightarrow> cec_msg \<Rightarrow> ('a + 'b) option" where
  "sum_decode opcs f g opc m =
     (if opc \<in> set opcs then map_option Inl (f opc m) else map_option Inr (g opc m))"

locale cec_two =
  A: cec_dispatch encode_a ok_a opcode_a frame_a received_a decode_a opcodes_a +
  B: cec_dispatch encode_b ok_b opcode_b frame_b received_b decode_b opcodes_b
  for encode_a :: "cec_msg \<Rightarrow> 'a \<Rightarrow> cec_msg option"
    and ok_a opcode_a frame_a received_a decode_a opcodes_a
    and encode_b :: "cec_msg \<Rightarrow> 'b \<Rightarrow> cec_msg option"
    and ok_b opcode_b frame_b received_b decode_b opcodes_b +
  assumes disjoint: "set opcodes_a \<inter> set opcodes_b = {}"
begin

lemma sum_emits:
  "wf_msg m \<Longrightarrow> case_sum ok_a ok_b c \<Longrightarrow>
    cec_emits (case_sum opcode_a opcode_b c) (case_sum frame_a frame_b c) m
      (sum_encode encode_a encode_b m c)"
  by (cases c) (simp_all add: A.emits B.emits)

lemma sum_decodes:
  "wf_msg m \<Longrightarrow> case_sum ok_a ok_b c \<Longrightarrow>
    Option.bind (sum_encode encode_a encode_b m c)
      (\<lambda>m'. sum_decode opcodes_a decode_a decode_b (case_sum opcode_a opcode_b c) m') =
    Some (map_sum received_a received_b c)"
proof (cases c)
  case (Inr b)
  then have "opcode_b b \<notin> set opcodes_a" using disjoint B.opcode_in [of b] by blast
  then show "wf_msg m \<Longrightarrow> case_sum ok_a ok_b c \<Longrightarrow> ?thesis"
    by (simp add: Inr sum_decode_def B.decodes)
qed (simp add: sum_decode_def A.opcode_in A.decodes)

lemma sum_dispatch:
  "cec_dispatch (sum_encode encode_a encode_b) (case_sum ok_a ok_b) (case_sum opcode_a opcode_b)
    (case_sum frame_a frame_b) (map_sum received_a received_b)
    (sum_decode opcodes_a decode_a decode_b) (opcodes_a @ opcodes_b)"
proof unfold_locales
  fix c opc m
  show "case_sum opcode_a opcode_b c \<in> set (opcodes_a @ opcodes_b)"
    by (cases c) (simp_all add: A.opcode_in B.opcode_in)
  show "sum_decode opcodes_a decode_a decode_b opc m = None"
    if "opc \<notin> set (opcodes_a @ opcodes_b)"
    using that by (simp add: sum_decode_def A.decode_out B.decode_out)
qed (simp_all add: sum_emits sum_decodes)

end

sublocale cec_two \<subseteq> both: cec_dispatch
  "sum_encode encode_a encode_b" "case_sum ok_a ok_b" "case_sum opcode_a opcode_b"
  "case_sum frame_a frame_b" "map_sum received_a received_b"
  "sum_decode opcodes_a decode_a decode_b" "opcodes_a @ opcodes_b"
  by (rule sum_dispatch)

section \<open>The protocol\<close>

text \<open>
  The features are joined from the last to the first, \<open>cmds_\<close>\<^emph>\<open>n\<close> being the commands of the last
  \<^emph>\<open>n\<close> features; \<open>cec_encode\<close>, \<open>cec_ok\<close>, \<open>cec_opcode\<close>, \<open>cec_frame\<close>, \<open>cec_received\<close> and \<open>cec_decode\<close>
  are the ten together.
\<close>

type_synonym cmds_2 = "audio_cmd + cdc_cmd"

definition last2_encode :: "c_int \<Rightarrow> cec_msg \<Rightarrow> cmds_2 \<Rightarrow> cec_msg option" where
  "last2_encode reply = sum_encode (audio_encode reply) cdc_encode"

definition last2_ok :: "cmds_2 \<Rightarrow> bool" where
  "last2_ok = case_sum audio_ok cdc_ok"

definition last2_opcode :: "cmds_2 \<Rightarrow> u8" where
  "last2_opcode = case_sum audio_opcode cdc_opcode"

definition last2_frame :: "c_int \<Rightarrow> cmds_2 \<Rightarrow> msg_frame" where
  "last2_frame reply = case_sum (audio_frame reply) cdc_frame"

definition last2_received :: "cmds_2 \<Rightarrow> cmds_2" where
  "last2_received = map_sum audio_received cdc_received"

definition last2_decode :: "u8 \<Rightarrow> cec_msg \<Rightarrow> cmds_2 option" where
  "last2_decode = sum_decode audio_opcodes audio_decode cdc_decode"

definition last2_opcodes :: "u8 list" where
  "last2_opcodes = audio_opcodes @ cdc_opcodes"

interpretation two2: cec_two
  "audio_encode reply" audio_ok audio_opcode "audio_frame reply" audio_received
    audio_decode audio_opcodes
  cdc_encode cdc_ok cdc_opcode cdc_frame cdc_received
    cdc_decode cdc_opcodes
  for reply
  by unfold_locales (simp add: audio_opcodes_def cdc_opcodes_def cec_code)

interpretation last2: cec_dispatch
  "last2_encode reply" last2_ok last2_opcode "last2_frame reply" last2_received
    last2_decode last2_opcodes
  for reply
  using two2.both.cec_dispatch_axioms
  by (simp add: last2_encode_def last2_ok_def last2_opcode_def last2_frame_def last2_received_def
      last2_decode_def last2_opcodes_def)

type_synonym cmds_3 = "general_cmd + cmds_2"

definition last3_encode :: "c_int \<Rightarrow> cec_msg \<Rightarrow> cmds_3 \<Rightarrow> cec_msg option" where
  "last3_encode reply = sum_encode (general_encode reply) (last2_encode reply)"

definition last3_ok :: "cmds_3 \<Rightarrow> bool" where
  "last3_ok = case_sum general_ok last2_ok"

definition last3_opcode :: "cmds_3 \<Rightarrow> u8" where
  "last3_opcode = case_sum general_opcode last2_opcode"

definition last3_frame :: "c_int \<Rightarrow> cmds_3 \<Rightarrow> msg_frame" where
  "last3_frame reply = case_sum (general_frame reply) (last2_frame reply)"

definition last3_received :: "cmds_3 \<Rightarrow> cmds_3" where
  "last3_received = map_sum id last2_received"

definition last3_decode :: "u8 \<Rightarrow> cec_msg \<Rightarrow> cmds_3 option" where
  "last3_decode = sum_decode general_opcodes general_decode last2_decode"

definition last3_opcodes :: "u8 list" where
  "last3_opcodes = general_opcodes @ last2_opcodes"

interpretation two3: cec_two
  "general_encode reply" general_ok general_opcode "general_frame reply" id
    general_decode general_opcodes
  "last2_encode reply" last2_ok last2_opcode "last2_frame reply" last2_received
    last2_decode last2_opcodes
  for reply
  by unfold_locales (simp add: general_opcodes_def audio_opcodes_def cdc_opcodes_def last2_opcodes_def cec_code)

interpretation last3: cec_dispatch
  "last3_encode reply" last3_ok last3_opcode "last3_frame reply" last3_received
    last3_decode last3_opcodes
  for reply
  using two3.both.cec_dispatch_axioms
  by (simp add: last3_encode_def last3_ok_def last3_opcode_def last3_frame_def last3_received_def
      last3_decode_def last3_opcodes_def)

type_synonym cmds_4 = "osd_cmd + cmds_3"

definition last4_encode :: "endian \<Rightarrow> c_int \<Rightarrow> cec_msg \<Rightarrow> cmds_4 \<Rightarrow> cec_msg option" where
  "last4_encode e reply = sum_encode (osd_encode e reply) (last3_encode reply)"

definition last4_ok :: "cmds_4 \<Rightarrow> bool" where
  "last4_ok = case_sum osd_ok last3_ok"

definition last4_opcode :: "cmds_4 \<Rightarrow> u8" where
  "last4_opcode = case_sum osd_opcode last3_opcode"

definition last4_frame :: "c_int \<Rightarrow> cmds_4 \<Rightarrow> msg_frame" where
  "last4_frame reply = case_sum (osd_frame reply) (last3_frame reply)"

definition last4_received :: "cmds_4 \<Rightarrow> cmds_4" where
  "last4_received = map_sum osd_received last3_received"

definition last4_decode :: "endian \<Rightarrow> u8 \<Rightarrow> cec_msg \<Rightarrow> cmds_4 option" where
  "last4_decode e = sum_decode osd_opcodes (osd_decode e) last3_decode"

definition last4_opcodes :: "u8 list" where
  "last4_opcodes = osd_opcodes @ last3_opcodes"

interpretation two4: cec_two
  "osd_encode e reply" osd_ok osd_opcode "osd_frame reply" osd_received
    "osd_decode e" osd_opcodes
  "last3_encode reply" last3_ok last3_opcode "last3_frame reply" last3_received
    last3_decode last3_opcodes
  for e reply
  by unfold_locales (simp add: osd_opcodes_def general_opcodes_def audio_opcodes_def cdc_opcodes_def last2_opcodes_def last3_opcodes_def cec_code)

interpretation last4: cec_dispatch
  "last4_encode e reply" last4_ok last4_opcode "last4_frame reply" last4_received
    "last4_decode e" last4_opcodes
  for e reply
  using two4.both.cec_dispatch_axioms
  by (simp add: last4_encode_def last4_ok_def last4_opcode_def last4_frame_def last4_received_def
      last4_decode_def last4_opcodes_def)

type_synonym cmds_5 = "vendor_cmd + cmds_4"

definition last5_encode :: "endian \<Rightarrow> c_int \<Rightarrow> cec_msg \<Rightarrow> cmds_5 \<Rightarrow> cec_msg option" where
  "last5_encode e reply = sum_encode (vendor_encode reply) (last4_encode e reply)"

definition last5_ok :: "cmds_5 \<Rightarrow> bool" where
  "last5_ok = case_sum vendor_ok last4_ok"

definition last5_opcode :: "cmds_5 \<Rightarrow> u8" where
  "last5_opcode = case_sum vendor_opcode last4_opcode"

definition last5_frame :: "c_int \<Rightarrow> cmds_5 \<Rightarrow> msg_frame" where
  "last5_frame reply = case_sum (vendor_frame reply) (last4_frame reply)"

definition last5_received :: "cmds_5 \<Rightarrow> cmds_5" where
  "last5_received = map_sum id last4_received"

definition last5_decode :: "endian \<Rightarrow> u8 \<Rightarrow> cec_msg \<Rightarrow> cmds_5 option" where
  "last5_decode e = sum_decode vendor_opcodes vendor_decode (last4_decode e)"

definition last5_opcodes :: "u8 list" where
  "last5_opcodes = vendor_opcodes @ last4_opcodes"

interpretation two5: cec_two
  "vendor_encode reply" vendor_ok vendor_opcode "vendor_frame reply" id
    vendor_decode vendor_opcodes
  "last4_encode e reply" last4_ok last4_opcode "last4_frame reply" last4_received
    "last4_decode e" last4_opcodes
  for e reply
  by unfold_locales (simp add: vendor_opcodes_def osd_opcodes_def general_opcodes_def audio_opcodes_def cdc_opcodes_def last2_opcodes_def last3_opcodes_def last4_opcodes_def cec_code)

interpretation last5: cec_dispatch
  "last5_encode e reply" last5_ok last5_opcode "last5_frame reply" last5_received
    "last5_decode e" last5_opcodes
  for e reply
  using two5.both.cec_dispatch_axioms
  by (simp add: last5_encode_def last5_ok_def last5_opcode_def last5_frame_def last5_received_def
      last5_decode_def last5_opcodes_def)

type_synonym cmds_6 = "tuner_cmd + cmds_5"

definition last6_encode :: "endian \<Rightarrow> c_int \<Rightarrow> cec_msg \<Rightarrow> cmds_6 \<Rightarrow> cec_msg option" where
  "last6_encode e reply = sum_encode (tuner_encode e reply) (last5_encode e reply)"

definition last6_ok :: "cmds_6 \<Rightarrow> bool" where
  "last6_ok = case_sum tuner_ok last5_ok"

definition last6_opcode :: "cmds_6 \<Rightarrow> u8" where
  "last6_opcode = case_sum tuner_opcode last5_opcode"

definition last6_frame :: "c_int \<Rightarrow> cmds_6 \<Rightarrow> msg_frame" where
  "last6_frame reply = case_sum (tuner_frame reply) (last5_frame reply)"

definition last6_received :: "cmds_6 \<Rightarrow> cmds_6" where
  "last6_received = map_sum tuner_received last5_received"

definition last6_decode :: "endian \<Rightarrow> u8 \<Rightarrow> cec_msg \<Rightarrow> cmds_6 option" where
  "last6_decode e = sum_decode tuner_opcodes (tuner_decode e) (last5_decode e)"

definition last6_opcodes :: "u8 list" where
  "last6_opcodes = tuner_opcodes @ last5_opcodes"

interpretation two6: cec_two
  "tuner_encode e reply" tuner_ok tuner_opcode "tuner_frame reply" tuner_received
    "tuner_decode e" tuner_opcodes
  "last5_encode e reply" last5_ok last5_opcode "last5_frame reply" last5_received
    "last5_decode e" last5_opcodes
  for e reply
  by unfold_locales (simp add: tuner_opcodes_def vendor_opcodes_def osd_opcodes_def general_opcodes_def audio_opcodes_def cdc_opcodes_def last2_opcodes_def last3_opcodes_def last4_opcodes_def last5_opcodes_def cec_code)

interpretation last6: cec_dispatch
  "last6_encode e reply" last6_ok last6_opcode "last6_frame reply" last6_received
    "last6_decode e" last6_opcodes
  for e reply
  using two6.both.cec_dispatch_axioms
  by (simp add: last6_encode_def last6_ok_def last6_opcode_def last6_frame_def last6_received_def
      last6_decode_def last6_opcodes_def)

type_synonym cmds_7 = "system_cmd + cmds_6"

definition last7_encode :: "endian \<Rightarrow> c_int \<Rightarrow> cec_msg \<Rightarrow> cmds_7 \<Rightarrow> cec_msg option" where
  "last7_encode e reply = sum_encode (system_encode reply) (last6_encode e reply)"

definition last7_ok :: "cmds_7 \<Rightarrow> bool" where
  "last7_ok = case_sum system_ok last6_ok"

definition last7_opcode :: "cmds_7 \<Rightarrow> u8" where
  "last7_opcode = case_sum system_opcode last6_opcode"

definition last7_frame :: "c_int \<Rightarrow> cmds_7 \<Rightarrow> msg_frame" where
  "last7_frame reply = case_sum (system_frame reply) (last6_frame reply)"

definition last7_received :: "cmds_7 \<Rightarrow> cmds_7" where
  "last7_received = map_sum id last6_received"

definition last7_decode :: "endian \<Rightarrow> u8 \<Rightarrow> cec_msg \<Rightarrow> cmds_7 option" where
  "last7_decode e = sum_decode system_opcodes system_decode (last6_decode e)"

definition last7_opcodes :: "u8 list" where
  "last7_opcodes = system_opcodes @ last6_opcodes"

interpretation two7: cec_two
  "system_encode reply" system_ok system_opcode "system_frame reply" id
    system_decode system_opcodes
  "last6_encode e reply" last6_ok last6_opcode "last6_frame reply" last6_received
    "last6_decode e" last6_opcodes
  for e reply
  by unfold_locales (simp add: system_opcodes_def tuner_opcodes_def vendor_opcodes_def osd_opcodes_def general_opcodes_def audio_opcodes_def cdc_opcodes_def last2_opcodes_def last3_opcodes_def last4_opcodes_def last5_opcodes_def last6_opcodes_def cec_code)

interpretation last7: cec_dispatch
  "last7_encode e reply" last7_ok last7_opcode "last7_frame reply" last7_received
    "last7_decode e" last7_opcodes
  for e reply
  using two7.both.cec_dispatch_axioms
  by (simp add: last7_encode_def last7_ok_def last7_opcode_def last7_frame_def last7_received_def
      last7_decode_def last7_opcodes_def)

type_synonym cmds_8 = "timer_cmd + cmds_7"

definition last8_encode :: "endian \<Rightarrow> c_int \<Rightarrow> cec_msg \<Rightarrow> cmds_8 \<Rightarrow> cec_msg option" where
  "last8_encode e reply = sum_encode (timer_encode e reply) (last7_encode e reply)"

definition last8_ok :: "cmds_8 \<Rightarrow> bool" where
  "last8_ok = case_sum timer_ok last7_ok"

definition last8_opcode :: "cmds_8 \<Rightarrow> u8" where
  "last8_opcode = case_sum timer_opcode last7_opcode"

definition last8_frame :: "c_int \<Rightarrow> cmds_8 \<Rightarrow> msg_frame" where
  "last8_frame reply = case_sum (timer_frame reply) (last7_frame reply)"

definition last8_received :: "cmds_8 \<Rightarrow> cmds_8" where
  "last8_received = map_sum timer_received last7_received"

definition last8_decode :: "endian \<Rightarrow> u8 \<Rightarrow> cec_msg \<Rightarrow> cmds_8 option" where
  "last8_decode e = sum_decode timer_opcodes (timer_decode e) (last7_decode e)"

definition last8_opcodes :: "u8 list" where
  "last8_opcodes = timer_opcodes @ last7_opcodes"

interpretation two8: cec_two
  "timer_encode e reply" timer_ok timer_opcode "timer_frame reply" timer_received
    "timer_decode e" timer_opcodes
  "last7_encode e reply" last7_ok last7_opcode "last7_frame reply" last7_received
    "last7_decode e" last7_opcodes
  for e reply
  by unfold_locales (simp add: timer_opcodes_def system_opcodes_def tuner_opcodes_def vendor_opcodes_def osd_opcodes_def general_opcodes_def audio_opcodes_def cdc_opcodes_def last2_opcodes_def last3_opcodes_def last4_opcodes_def last5_opcodes_def last6_opcodes_def last7_opcodes_def cec_code)

interpretation last8: cec_dispatch
  "last8_encode e reply" last8_ok last8_opcode "last8_frame reply" last8_received
    "last8_decode e" last8_opcodes
  for e reply
  using two8.both.cec_dispatch_axioms
  by (simp add: last8_encode_def last8_ok_def last8_opcode_def last8_frame_def last8_received_def
      last8_decode_def last8_opcodes_def)

type_synonym cmds_9 = "recording_cmd + cmds_8"

definition last9_encode :: "endian \<Rightarrow> c_int \<Rightarrow> cec_msg \<Rightarrow> cmds_9 \<Rightarrow> cec_msg option" where
  "last9_encode e reply = sum_encode (recording_encode e reply) (last8_encode e reply)"

definition last9_ok :: "cmds_9 \<Rightarrow> bool" where
  "last9_ok = case_sum recording_ok last8_ok"

definition last9_opcode :: "cmds_9 \<Rightarrow> u8" where
  "last9_opcode = case_sum recording_opcode last8_opcode"

definition last9_frame :: "c_int \<Rightarrow> cmds_9 \<Rightarrow> msg_frame" where
  "last9_frame reply = case_sum (recording_frame reply) (last8_frame reply)"

definition last9_received :: "cmds_9 \<Rightarrow> cmds_9" where
  "last9_received = map_sum recording_received last8_received"

definition last9_decode :: "endian \<Rightarrow> u8 \<Rightarrow> cec_msg \<Rightarrow> cmds_9 option" where
  "last9_decode e = sum_decode recording_opcodes (recording_decode e) (last8_decode e)"

definition last9_opcodes :: "u8 list" where
  "last9_opcodes = recording_opcodes @ last8_opcodes"

interpretation two9: cec_two
  "recording_encode e reply" recording_ok recording_opcode "recording_frame reply" recording_received
    "recording_decode e" recording_opcodes
  "last8_encode e reply" last8_ok last8_opcode "last8_frame reply" last8_received
    "last8_decode e" last8_opcodes
  for e reply
  by unfold_locales (simp add: recording_opcodes_def timer_opcodes_def system_opcodes_def tuner_opcodes_def vendor_opcodes_def osd_opcodes_def general_opcodes_def audio_opcodes_def cdc_opcodes_def last2_opcodes_def last3_opcodes_def last4_opcodes_def last5_opcodes_def last6_opcodes_def last7_opcodes_def last8_opcodes_def cec_code)

interpretation last9: cec_dispatch
  "last9_encode e reply" last9_ok last9_opcode "last9_frame reply" last9_received
    "last9_decode e" last9_opcodes
  for e reply
  using two9.both.cec_dispatch_axioms
  by (simp add: last9_encode_def last9_ok_def last9_opcode_def last9_frame_def last9_received_def
      last9_decode_def last9_opcodes_def)

type_synonym cec_cmd = "routing_cmd + cmds_9"

definition cec_encode :: "endian \<Rightarrow> c_int \<Rightarrow> cec_msg \<Rightarrow> cec_cmd \<Rightarrow> cec_msg option" where
  "cec_encode e reply = sum_encode (routing_encode reply) (last9_encode e reply)"

definition cec_ok :: "cec_cmd \<Rightarrow> bool" where
  "cec_ok = case_sum routing_ok last9_ok"

definition cec_opcode :: "cec_cmd \<Rightarrow> u8" where
  "cec_opcode = case_sum routing_opcode last9_opcode"

definition cec_frame :: "c_int \<Rightarrow> cec_cmd \<Rightarrow> msg_frame" where
  "cec_frame reply = case_sum (routing_frame reply) (last9_frame reply)"

definition cec_received :: "cec_cmd \<Rightarrow> cec_cmd" where
  "cec_received = map_sum id last9_received"

definition cec_decode :: "endian \<Rightarrow> u8 \<Rightarrow> cec_msg \<Rightarrow> cec_cmd option" where
  "cec_decode e = sum_decode routing_opcodes routing_decode (last9_decode e)"

definition cec_opcodes :: "u8 list" where
  "cec_opcodes = routing_opcodes @ last9_opcodes"

interpretation two10: cec_two
  "routing_encode reply" routing_ok routing_opcode "routing_frame reply" id
    routing_decode routing_opcodes
  "last9_encode e reply" last9_ok last9_opcode "last9_frame reply" last9_received
    "last9_decode e" last9_opcodes
  for e reply
  by unfold_locales (simp add: routing_opcodes_def recording_opcodes_def timer_opcodes_def system_opcodes_def tuner_opcodes_def vendor_opcodes_def osd_opcodes_def general_opcodes_def audio_opcodes_def cdc_opcodes_def last2_opcodes_def last3_opcodes_def last4_opcodes_def last5_opcodes_def last6_opcodes_def last7_opcodes_def last8_opcodes_def last9_opcodes_def cec_code)

interpretation cec: cec_dispatch
  "cec_encode e reply" cec_ok cec_opcode "cec_frame reply" cec_received
    "cec_decode e" cec_opcodes
  for e reply
  using two10.both.cec_dispatch_axioms
  by (simp add: cec_encode_def cec_ok_def cec_opcode_def cec_frame_def cec_received_def
      cec_decode_def cec_opcodes_def)

section \<open>The opcodes\<close>

lemmas opcode_lists = cec_opcodes_def last9_opcodes_def last8_opcodes_def last7_opcodes_def
  last6_opcodes_def last5_opcodes_def last4_opcodes_def last3_opcodes_def last2_opcodes_def
  routing_opcodes_def recording_opcodes_def timer_opcodes_def system_opcodes_def tuner_opcodes_def
  vendor_opcodes_def osd_opcodes_def general_opcodes_def audio_opcodes_def cdc_opcodes_def

lemma cec_opcodes_distinct: "distinct cec_opcodes \<and> length cec_opcodes = 75"
  by (simp add: opcode_lists cec_code)

end
