(* ===== verification/Cec_Safety.thy ===== *)
theory Cec_Safety
  imports Cec_Protocol
begin

text \<open>
  The decoders of \<^verbatim>\<open>cec-funcs.h\<close> face messages from the bus, of any length and content. None of them
  reads outside the sixteen bytes of the message or writes outside the caller's buffers: on
  a message structure and buffers of the documented sizes they return \<open>Some\<close>. The last section
  compares the messages that hosts of either byte order build.
\<close>

lemma get_digital_total:
  "wf_msg m \<Longrightarrow> p + 6 < 16 \<Longrightarrow> wf_digital d \<Longrightarrow> cec_get_digital_service_id e m p d \<noteq> None"
  by (simp add: cec_get_digital_service_id_def Let_def msg_simps wf_digital_def st16_def)

text \<open>The decoders that only read bytes.\<close>

definition plain_decoders_safe :: "cec_msg \<Rightarrow> bool" where
  "plain_decoders_safe m \<longleftrightarrow>
    cec_ops_active_source m \<noteq> None \<and>
    cec_ops_inactive_source m \<noteq> None \<and>
    cec_ops_routing_information m \<noteq> None \<and>
    cec_ops_routing_change m \<noteq> None \<and>
    cec_ops_set_stream_path m \<noteq> None \<and>
    cec_ops_record_status m \<noteq> None \<and>
    cec_ops_timer_status m \<noteq> None \<and>
    cec_ops_timer_cleared_status m \<noteq> None \<and>
    cec_ops_clear_analogue_timer m \<noteq> None \<and>
    cec_ops_clear_ext_timer m \<noteq> None \<and>
    cec_ops_set_analogue_timer m \<noteq> None \<and>
    cec_ops_set_ext_timer m \<noteq> None \<and>
    cec_ops_cec_version m \<noteq> None \<and>
    cec_ops_report_physical_addr m \<noteq> None \<and>
    cec_ops_deck_control m \<noteq> None \<and>
    cec_ops_deck_status m \<noteq> None \<and>
    cec_ops_give_deck_status m \<noteq> None \<and>
    cec_ops_play m \<noteq> None \<and>
    cec_ops_give_tuner_device_status m \<noteq> None \<and>
    cec_ops_select_analogue_service m \<noteq> None \<and>
    cec_ops_device_vendor_id m \<noteq> None \<and>
    cec_ops_vendor_command m \<noteq> None \<and>
    cec_ops_vendor_command_with_id m \<noteq> None \<and>
    cec_ops_vendor_remote_button_down m \<noteq> None \<and>
    cec_ops_menu_status m \<noteq> None \<and>
    cec_ops_menu_request m \<noteq> None \<and>
    cec_ops_report_power_status m \<noteq> None \<and>
    cec_ops_feature_abort m \<noteq> None \<and>
    cec_ops_report_audio_status m \<noteq> None \<and>
    cec_ops_set_system_audio_mode m \<noteq> None \<and>
    cec_ops_system_audio_mode_request m \<noteq> None \<and>
    cec_ops_system_audio_mode_status m \<noteq> None \<and>
    cec_ops_set_audio_rate m \<noteq> None \<and>
    cec_ops_report_current_latency m \<noteq> None \<and>
    cec_ops_request_current_latency m \<noteq> None \<and>
    cec_ops_cdc_hec_inquire_state m \<noteq> None \<and>
    cec_ops_cdc_hec_report_state m \<noteq> None \<and>
    cec_ops_cdc_hec_set_state m \<noteq> None \<and>
    cec_ops_cdc_hec_set_state_adjacent m \<noteq> None \<and>
    cec_ops_cdc_hec_request_deactivation m \<noteq> None \<and>
    cec_ops_cdc_hec_notify_alive m \<noteq> None \<and>
    cec_ops_cdc_hec_discover m \<noteq> None \<and>
    cec_ops_cdc_hpd_set_state m \<noteq> None \<and>
    cec_ops_cdc_hpd_report_state m \<noteq> None"

lemma plain_decoders_safe: "wf_msg m \<Longrightarrow> plain_decoders_safe m"
  unfolding plain_decoders_safe_def
  by (intro conjI) (simp_all add: Let_def msg_simps
    cec_ops_active_source_def
    cec_ops_inactive_source_def
    cec_ops_routing_information_def
    cec_ops_routing_change_def
    cec_ops_set_stream_path_def
    cec_ops_record_status_def
    cec_ops_timer_status_def
    cec_ops_timer_cleared_status_def
    cec_ops_clear_analogue_timer_def
    cec_ops_clear_ext_timer_def
    cec_ops_set_analogue_timer_def
    cec_ops_set_ext_timer_def
    cec_ops_cec_version_def
    cec_ops_report_physical_addr_def
    cec_ops_deck_control_def
    cec_ops_deck_status_def
    cec_ops_give_deck_status_def
    cec_ops_play_def
    cec_ops_give_tuner_device_status_def
    cec_ops_select_analogue_service_def
    cec_ops_device_vendor_id_def
    cec_ops_vendor_command_def
    cec_ops_vendor_command_with_id_def
    cec_ops_vendor_remote_button_down_def
    cec_ops_menu_status_def
    cec_ops_menu_request_def
    cec_ops_report_power_status_def
    cec_ops_feature_abort_def
    cec_ops_report_audio_status_def
    cec_ops_set_system_audio_mode_def
    cec_ops_system_audio_mode_request_def
    cec_ops_system_audio_mode_status_def
    cec_ops_set_audio_rate_def
    cec_ops_report_current_latency_def
    cec_ops_request_current_latency_def
    cec_ops_cdc_hec_inquire_state_def
    cec_ops_cdc_hec_report_state_def
    cec_ops_cdc_hec_set_state_def
    cec_ops_cdc_hec_set_state_adjacent_def
    cec_ops_cdc_hec_request_deactivation_def
    cec_ops_cdc_hec_notify_alive_def
    cec_ops_cdc_hec_discover_def
    cec_ops_cdc_hpd_set_state_def
    cec_ops_cdc_hpd_report_state_def)

text \<open>The decoders with arrays or structures of the caller.\<close>

lemma text_decoders_safe:
  assumes "wf_msg m"
  shows "14 < length buf \<Longrightarrow> cec_ops_set_timer_program_title m buf \<noteq> None"
    and "14 < length buf \<Longrightarrow> cec_ops_set_osd_name m buf \<noteq> None"
    and "13 < length buf \<Longrightarrow> cec_ops_set_osd_string m buf \<noteq> None"
    and "3 < length buf \<Longrightarrow> cec_ops_set_menu_language m buf \<noteq> None"
  using assms
  by (simp_all add: cec_ops_set_timer_program_title_def cec_ops_set_osd_name_def
      cec_ops_set_osd_string_def cec_ops_set_menu_language_def Let_def msg_simps unat_clamp)

lemma struct_decoders_safe:
  assumes "wf_msg m"
  shows "wf_record_src src \<Longrightarrow> cec_ops_record_on e m src \<noteq> None"
    and "wf_digital d \<Longrightarrow> cec_ops_clear_digital_timer e m d \<noteq> None"
    and "wf_digital d \<Longrightarrow> cec_ops_set_digital_timer e m d \<noteq> None"
    and "wf_digital d \<Longrightarrow> cec_ops_select_digital_service e m d \<noteq> None"
    and "wf_tuner_info info \<Longrightarrow> cec_ops_tuner_device_status e m info \<noteq> None"
    and "wf_ui ui \<Longrightarrow> cec_ops_user_control_pressed e m ui \<noteq> None"
proof -
  show "cec_ops_record_on e m src \<noteq> None" if "wf_record_src src"
    using assms that get_digital_total [OF assms, of 3 "rs_un src" e]
    by (auto simp add: cec_ops_record_on_def Let_def msg_simps wf_record_src_def wf_digital_def
        st16_def)
  show "cec_ops_clear_digital_timer e m d \<noteq> None" "cec_ops_set_digital_timer e m d \<noteq> None"
    "cec_ops_select_digital_service e m d \<noteq> None" if "wf_digital d"
    using assms that get_digital_total [OF assms, of 9 d e] get_digital_total [OF assms, of 2 d e]
    by (auto simp add: cec_ops_clear_digital_timer_def ops_digital_timer_eq
        cec_ops_select_digital_service_def msg_simps)
  show "cec_ops_tuner_device_status e m info \<noteq> None" if "wf_tuner_info info"
    using assms that get_digital_total [OF assms, of 3 "td_un info" e]
    by (auto simp add: cec_ops_tuner_device_status_def Let_def msg_simps wf_tuner_info_def
        wf_digital_def st16_def)
  show "cec_ops_user_control_pressed e m ui \<noteq> None" if "wf_ui ui"
    using assms that
    by (simp add: cec_ops_user_control_pressed_def Let_def msg_simps wf_ui_def st16_def)
qed

lemma audio_decoders_safe:
  assumes "wf_msg m"
  shows "4 \<le> length ds \<Longrightarrow> cec_ops_report_short_audio_descriptor m ds \<noteq> None"
    and "4 \<le> length ids \<Longrightarrow> 4 \<le> length codes \<Longrightarrow>
      cec_ops_request_short_audio_descriptor m ids codes \<noteq> None"
  using assms
  by (simp_all add: cec_ops_report_short_audio_descriptor_def
      cec_ops_request_short_audio_descriptor_def Let_def get_sads_spec get_formats_spec unat_clamp)

section \<open>Independence of the host\<close>

text \<open>
  The messages do not depend on the byte order of the host that builds them, although the
  operands of some of them are structures and unions in host order.
\<close>

lemma record_on_wire:
  "wf_msg m \<Longrightarrow> cec_msg_record_on Little m reply (mk_record_src Little src) =
    cec_msg_record_on Big m reply (mk_record_src Big src)"
proof (cases src)
  case (Src_Digital s)
  then show "wf_msg m \<Longrightarrow> ?thesis" by (simp only: record_on_digital_eq)
qed (simp_all add: record_on_defs msg_simps cec_code ld16_def bytes16_def)

lemma tuner_status_wire:
  "wf_msg m \<Longrightarrow> cec_msg_tuner_device_status Little m (mk_tuner_info Little rf di src) =
    cec_msg_tuner_device_status Big m (mk_tuner_info Big rf di src)"
proof (cases src)
  case (Tuner_Digital s)
  then show "wf_msg m \<Longrightarrow> ?thesis" by (simp only: tuner_status_digital_eq)
qed (simp add: tuner_status_defs msg_simps ld16_def bytes16_def)

lemma user_control_wire:
  "wf_msg m \<Longrightarrow> cec_msg_user_control_pressed Little m (mk_ui Little c a) =
    cec_msg_user_control_pressed Big m (mk_ui Big c a)"
  by (cases a) (simp_all add: cec_msg_user_control_pressed_def msg_simps ld16_def bytes16_def)

lemma recording_wire: "wf_msg m \<Longrightarrow> recording_encode Little reply m c = recording_encode Big reply m c"
  by (cases c) (simp_all add: record_on_wire)

lemma timer_wire: "wf_msg m \<Longrightarrow> timer_encode Little reply m c = timer_encode Big reply m c"
  by (cases c) (simp_all add: clear_digital_timer_eq set_digital_timer_eq split: prod.split)

lemma tuner_wire: "wf_msg m \<Longrightarrow> tuner_encode Little reply m c = tuner_encode Big reply m c"
  by (cases c) (simp_all add: tuner_status_wire select_digital_eq split: prod.split)

lemma osd_wire: "wf_msg m \<Longrightarrow> osd_encode Little reply m c = osd_encode Big reply m c"
  by (cases c) (simp_all add: user_control_wire split: prod.split)

lemma sum_encode_cong:
  assumes "\<And>a. f m a = f' m a" "\<And>b. g m b = g' m b"
  shows "sum_encode f g m c = sum_encode f' g' m c"
  using assms by (cases c) simp_all

lemmas feature_wire = recording_wire timer_wire tuner_wire osd_wire

lemma encode_wire: "wf_msg m \<Longrightarrow> cec_encode Little reply m c = cec_encode Big reply m c"
  unfolding cec_encode_def last9_encode_def last8_encode_def last7_encode_def last6_encode_def
    last5_encode_def last4_encode_def
  by (intro sum_encode_cong) (simp_all add: feature_wire)

end
