(* ===== verification/Cec_Log_Addrs.thy ===== *)
theory Cec_Log_Addrs
  imports Cec_Msg
begin

text \<open>
  Logical addresses of \<^verbatim>\<open>include/linux/cec.h\<close>: the sixteen addresses, the masks of addresses that
  an adapter has claimed, the queries on a mask and the classification of special devices.
\<close>

named_theorems log_addr \<open>the logical addresses\<close>
named_theorems log_mask \<open>the masks of address groups\<close>
named_theorems log_fun \<open>the queries on a mask\<close>

section \<open>Addresses and masks\<close>

definition CEC_LOG_ADDR_TV :: nat where [log_addr]: "CEC_LOG_ADDR_TV = 0"
definition CEC_LOG_ADDR_RECORD_1 :: nat where [log_addr]: "CEC_LOG_ADDR_RECORD_1 = 1"
definition CEC_LOG_ADDR_RECORD_2 :: nat where [log_addr]: "CEC_LOG_ADDR_RECORD_2 = 2"
definition CEC_LOG_ADDR_TUNER_1 :: nat where [log_addr]: "CEC_LOG_ADDR_TUNER_1 = 3"
definition CEC_LOG_ADDR_PLAYBACK_1 :: nat where [log_addr]: "CEC_LOG_ADDR_PLAYBACK_1 = 4"
definition CEC_LOG_ADDR_AUDIOSYSTEM :: nat where [log_addr]: "CEC_LOG_ADDR_AUDIOSYSTEM = 5"
definition CEC_LOG_ADDR_TUNER_2 :: nat where [log_addr]: "CEC_LOG_ADDR_TUNER_2 = 6"
definition CEC_LOG_ADDR_TUNER_3 :: nat where [log_addr]: "CEC_LOG_ADDR_TUNER_3 = 7"
definition CEC_LOG_ADDR_PLAYBACK_2 :: nat where [log_addr]: "CEC_LOG_ADDR_PLAYBACK_2 = 8"
definition CEC_LOG_ADDR_RECORD_3 :: nat where [log_addr]: "CEC_LOG_ADDR_RECORD_3 = 9"
definition CEC_LOG_ADDR_TUNER_4 :: nat where [log_addr]: "CEC_LOG_ADDR_TUNER_4 = 10"
definition CEC_LOG_ADDR_PLAYBACK_3 :: nat where [log_addr]: "CEC_LOG_ADDR_PLAYBACK_3 = 11"
definition CEC_LOG_ADDR_BACKUP_1 :: nat where [log_addr]: "CEC_LOG_ADDR_BACKUP_1 = 12"
definition CEC_LOG_ADDR_BACKUP_2 :: nat where [log_addr]: "CEC_LOG_ADDR_BACKUP_2 = 13"
definition CEC_LOG_ADDR_SPECIFIC :: nat where [log_addr]: "CEC_LOG_ADDR_SPECIFIC = 14"
definition CEC_LOG_ADDR_UNREGISTERED :: nat where [log_addr]: "CEC_LOG_ADDR_UNREGISTERED = 15"
definition CEC_LOG_ADDR_BROADCAST :: nat where [log_addr]: "CEC_LOG_ADDR_BROADCAST = 15"

definition CEC_LOG_ADDR_INVALID :: u8 where [cec_code]: "CEC_LOG_ADDR_INVALID = 0xff"
definition CEC_MAX_LOG_ADDRS :: nat where "CEC_MAX_LOG_ADDRS = 4"

definition CEC_LOG_ADDR_MASK_TV :: c_int where [log_mask]:
  "CEC_LOG_ADDR_MASK_TV = push_bit CEC_LOG_ADDR_TV 1"

definition CEC_LOG_ADDR_MASK_RECORD :: c_int where [log_mask]:
  "CEC_LOG_ADDR_MASK_RECORD = push_bit CEC_LOG_ADDR_RECORD_1 1 OR
     push_bit CEC_LOG_ADDR_RECORD_2 1 OR
     push_bit CEC_LOG_ADDR_RECORD_3 1"

definition CEC_LOG_ADDR_MASK_TUNER :: c_int where [log_mask]:
  "CEC_LOG_ADDR_MASK_TUNER = push_bit CEC_LOG_ADDR_TUNER_1 1 OR
     push_bit CEC_LOG_ADDR_TUNER_2 1 OR
     push_bit CEC_LOG_ADDR_TUNER_3 1 OR
     push_bit CEC_LOG_ADDR_TUNER_4 1"

definition CEC_LOG_ADDR_MASK_PLAYBACK :: c_int where [log_mask]:
  "CEC_LOG_ADDR_MASK_PLAYBACK = push_bit CEC_LOG_ADDR_PLAYBACK_1 1 OR
     push_bit CEC_LOG_ADDR_PLAYBACK_2 1 OR
     push_bit CEC_LOG_ADDR_PLAYBACK_3 1"

definition CEC_LOG_ADDR_MASK_AUDIOSYSTEM :: c_int where [log_mask]:
  "CEC_LOG_ADDR_MASK_AUDIOSYSTEM = push_bit CEC_LOG_ADDR_AUDIOSYSTEM 1"

definition CEC_LOG_ADDR_MASK_BACKUP :: c_int where [log_mask]:
  "CEC_LOG_ADDR_MASK_BACKUP = push_bit CEC_LOG_ADDR_BACKUP_1 1 OR
     push_bit CEC_LOG_ADDR_BACKUP_2 1"

definition CEC_LOG_ADDR_MASK_SPECIFIC :: c_int where [log_mask]:
  "CEC_LOG_ADDR_MASK_SPECIFIC = push_bit CEC_LOG_ADDR_SPECIFIC 1"

definition CEC_LOG_ADDR_MASK_UNREGISTERED :: c_int where [log_mask]:
  "CEC_LOG_ADDR_MASK_UNREGISTERED = push_bit CEC_LOG_ADDR_UNREGISTERED 1"

definition cec_has_tv :: "u16 \<Rightarrow> c_int" where [log_fun]:
  "cec_has_tv log_addr_mask = promote16 log_addr_mask AND CEC_LOG_ADDR_MASK_TV"

definition cec_has_record :: "u16 \<Rightarrow> c_int" where [log_fun]:
  "cec_has_record log_addr_mask = promote16 log_addr_mask AND CEC_LOG_ADDR_MASK_RECORD"

definition cec_has_tuner :: "u16 \<Rightarrow> c_int" where [log_fun]:
  "cec_has_tuner log_addr_mask = promote16 log_addr_mask AND CEC_LOG_ADDR_MASK_TUNER"

definition cec_has_playback :: "u16 \<Rightarrow> c_int" where [log_fun]:
  "cec_has_playback log_addr_mask = promote16 log_addr_mask AND CEC_LOG_ADDR_MASK_PLAYBACK"

definition cec_has_audiosystem :: "u16 \<Rightarrow> c_int" where [log_fun]:
  "cec_has_audiosystem log_addr_mask = promote16 log_addr_mask AND CEC_LOG_ADDR_MASK_AUDIOSYSTEM"

definition cec_has_backup :: "u16 \<Rightarrow> c_int" where [log_fun]:
  "cec_has_backup log_addr_mask = promote16 log_addr_mask AND CEC_LOG_ADDR_MASK_BACKUP"

definition cec_has_specific :: "u16 \<Rightarrow> c_int" where [log_fun]:
  "cec_has_specific log_addr_mask = promote16 log_addr_mask AND CEC_LOG_ADDR_MASK_SPECIFIC"

definition cec_is_unregistered :: "u16 \<Rightarrow> c_int" where [log_fun]:
  "cec_is_unregistered log_addr_mask = promote16 log_addr_mask AND CEC_LOG_ADDR_MASK_UNREGISTERED"

definition cec_is_unconfigured :: "u16 \<Rightarrow> c_int" where [log_fun]:
  "cec_is_unconfigured log_addr_mask = (if promote16 log_addr_mask = 0 then 1 else 0)"

section \<open>What the queries say\<close>

text \<open>
  A query is nonzero when the mask has the bit of one of the group's addresses.
\<close>

lemma bit_promote16 [simp]: "bit (promote16 h) n \<longleftrightarrow> bit h n"
  by (auto simp add: promote16_def bit_simps dest: bit_imp_le_length)

lemma promote16_and_bit: "promote16 h AND push_bit n 1 = 0 \<longleftrightarrow> \<not> bit h n"
  by (simp add: push_bit_of_1 and_exp_eq_0_iff_not_bit)

lemma and_or_eq_0: "x AND (a OR b) = 0 \<longleftrightarrow> x AND a = 0 \<and> x AND b = (0 :: 'a::len word)"
  by (simp add: bit.conj_disj_distrib or_eq_0_iff)

lemmas log_query = log_fun log_mask and_or_eq_0 promote16_and_bit

text \<open>The groups of the addresses, in the order of the masks.\<close>

datatype addr_group = Tv | Record_Dev | Tuner | Playback | Audio_System | Backup | Specific | Unregistered

fun group_of :: "nat \<Rightarrow> addr_group" where
  "group_of a =
     (if a = CEC_LOG_ADDR_TV then Tv
      else if a \<in> {CEC_LOG_ADDR_RECORD_1, CEC_LOG_ADDR_RECORD_2, CEC_LOG_ADDR_RECORD_3} then Record_Dev
      else if a \<in> {CEC_LOG_ADDR_TUNER_1, CEC_LOG_ADDR_TUNER_2, CEC_LOG_ADDR_TUNER_3, CEC_LOG_ADDR_TUNER_4}
        then Tuner
      else if a \<in> {CEC_LOG_ADDR_PLAYBACK_1, CEC_LOG_ADDR_PLAYBACK_2, CEC_LOG_ADDR_PLAYBACK_3}
        then Playback
      else if a = CEC_LOG_ADDR_AUDIOSYSTEM then Audio_System
      else if a \<in> {CEC_LOG_ADDR_BACKUP_1, CEC_LOG_ADDR_BACKUP_2} then Backup
      else if a = CEC_LOG_ADDR_SPECIFIC then Specific
      else Unregistered)"

fun query :: "addr_group \<Rightarrow> u16 \<Rightarrow> c_int" where
  "query Tv = cec_has_tv"
| "query Record_Dev = cec_has_record"
| "query Tuner = cec_has_tuner"
| "query Playback = cec_has_playback"
| "query Audio_System = cec_has_audiosystem"
| "query Backup = cec_has_backup"
| "query Specific = cec_has_specific"
| "query Unregistered = cec_is_unregistered"

lemma ex_less_16:
  "(\<exists>a<16. P a) \<longleftrightarrow> P 0 \<or> P 1 \<or> P 2 \<or> P 3 \<or> P 4 \<or> P 5 \<or> P 6 \<or> P 7 \<or> P 8 \<or> P 9 \<or> P 10
    \<or> P 11 \<or> P 12 \<or> P 13 \<or> P 14 \<or> P (15 :: nat)"
proof -
  have "(\<exists>a<16. P a) \<longleftrightarrow> (\<exists>a \<in> set [0..<16]. P a)" by (simp add: Bex_def)
  then show ?thesis by (simp add: upt_conv_Cons numeral_eq_Suc del: set_upt)
qed

lemma query_iff: "query g lam \<noteq> 0 \<longleftrightarrow> (\<exists>a<16. bit lam a \<and> group_of a = g)"
  unfolding ex_less_16
  by (cases g) (simp_all only: query.simps log_query, simp_all add: log_addr)

text \<open>A lam is unconfigured exactly when no query applies to it.\<close>

lemma mask_eq_0_iff: "(lam :: u16) = 0 \<longleftrightarrow> (\<forall>a<16. \<not> bit lam a)"
  by (auto simp add: bit_eq_iff)

lemma unconfigured_iff: "cec_is_unconfigured lam \<noteq> 0 \<longleftrightarrow> (\<forall>g. query g lam = 0)"
proof -
  have "cec_is_unconfigured lam \<noteq> 0 \<longleftrightarrow> promote16 lam = 0" by (simp add: cec_is_unconfigured_def)
  also have "\<dots> \<longleftrightarrow> lam = 0"
    using unat_promote16 [of lam] by (auto simp flip: unat_eq_0)
  also have "\<dots> \<longleftrightarrow> (\<forall>a<16. \<not> bit lam a)" by (rule mask_eq_0_iff)
  also have "\<dots> \<longleftrightarrow> (\<forall>g. query g lam = 0)" using query_iff by metis
  finally show ?thesis .
qed

section \<open>Special devices\<close>

record cec_log_addrs =
  la_log_addr :: "u8 list"
  la_log_addr_mask :: u16
  la_cec_version :: u8
  la_num_log_addrs :: u8
  la_vendor_id :: u32
  la_flags :: u32
  la_osd_name :: "u8 list"
  la_primary_device_type :: "u8 list"
  la_log_addr_type :: "u8 list"
  la_all_device_types :: "u8 list"
  la_features :: "u8 list list"

definition wf_log_addrs :: "cec_log_addrs \<Rightarrow> bool" where
  "wf_log_addrs las \<longleftrightarrow> length (la_log_addr las) = CEC_MAX_LOG_ADDRS
     \<and> length (la_osd_name las) = 15 \<and> length (la_primary_device_type las) = CEC_MAX_LOG_ADDRS
     \<and> length (la_log_addr_type las) = CEC_MAX_LOG_ADDRS
     \<and> length (la_all_device_types las) = CEC_MAX_LOG_ADDRS
     \<and> length (la_features las) = CEC_MAX_LOG_ADDRS \<and> list_all (\<lambda>f. length f = 12) (la_features las)"

definition CEC_LOG_ADDRS_FL_CDC_ONLY :: u32 where
  "CEC_LOG_ADDRS_FL_CDC_ONLY = push_bit 2 1"

text \<open>The conjunctions are C's \<^verbatim>\<open>&&\<close>: an operand is read only if those before it hold.\<close>

definition cec_is_2nd_tv :: "cec_log_addrs \<Rightarrow> bool option" where
  "cec_is_2nd_tv las =
     (if la_num_log_addrs las = 0 then Some False
      else do {
        a \<leftarrow> rd (la_log_addr las) 0;
        if unat a < CEC_LOG_ADDR_SPECIFIC then Some False
        else do {
          t \<leftarrow> rd (la_primary_device_type las) 0;
          Some (t = CEC_OP_PRIM_DEVTYPE_TV)
        }
      })"

definition cec_is_processor :: "cec_log_addrs \<Rightarrow> bool option" where
  "cec_is_processor las =
     (if la_num_log_addrs las = 0 then Some False
      else do {
        a \<leftarrow> rd (la_log_addr las) 0;
        if unat a < CEC_LOG_ADDR_BACKUP_1 then Some False
        else do {
          t \<leftarrow> rd (la_primary_device_type las) 0;
          Some (t = CEC_OP_PRIM_DEVTYPE_PROCESSOR)
        }
      })"

definition cec_is_switch :: "cec_log_addrs \<Rightarrow> bool option" where
  "cec_is_switch las =
     (if la_num_log_addrs las \<noteq> 1 then Some False
      else do {
        a \<leftarrow> rd (la_log_addr las) 0;
        if unat a \<noteq> CEC_LOG_ADDR_UNREGISTERED then Some False
        else do {
          t \<leftarrow> rd (la_primary_device_type las) 0;
          Some (t = CEC_OP_PRIM_DEVTYPE_SWITCH \<and> la_flags las AND CEC_LOG_ADDRS_FL_CDC_ONLY = 0)
        }
      })"

definition cec_is_cdc_only :: "cec_log_addrs \<Rightarrow> bool option" where
  "cec_is_cdc_only las =
     (if la_num_log_addrs las \<noteq> 1 then Some False
      else do {
        a \<leftarrow> rd (la_log_addr las) 0;
        if unat a \<noteq> CEC_LOG_ADDR_UNREGISTERED then Some False
        else do {
          t \<leftarrow> rd (la_primary_device_type las) 0;
          Some (t = CEC_OP_PRIM_DEVTYPE_SWITCH \<and> la_flags las AND CEC_LOG_ADDRS_FL_CDC_ONLY \<noteq> 0)
        }
      })"

lemmas special_defs = cec_is_2nd_tv_def cec_is_processor_def cec_is_switch_def cec_is_cdc_only_def

text \<open>The kinds exclude each other: a device is of at most one of them.\<close>

lemma special_exclusive:
  assumes "wf_log_addrs las"
  shows "length (filter (\<lambda>f. f las = Some True)
    [cec_is_2nd_tv, cec_is_processor, cec_is_switch, cec_is_cdc_only]) \<le> 1"
  using assms
  by (auto simp add: special_defs wf_log_addrs_def CEC_MAX_LOG_ADDRS_def mem_simps cec_code log_addr)

text \<open>The queries never read outside the arrays.\<close>

lemma special_total:
  "wf_log_addrs las \<Longrightarrow> list_all (\<lambda>f. f las \<noteq> None)
    [cec_is_2nd_tv, cec_is_processor, cec_is_switch, cec_is_cdc_only]"
  by (auto simp add: special_defs wf_log_addrs_def CEC_MAX_LOG_ADDRS_def mem_simps)

section \<open>Properties\<close>

text \<open>
  The queries on a mask of logical addresses, from \<^verbatim>\<open>cec_has_tv\<close> to \<^verbatim>\<open>cec_is_unregistered\<close>, are nonzero
  exactly when an address of their group is claimed. The groups partition the sixteen addresses, so
  \<^verbatim>\<open>cec_is_unconfigured\<close> holds exactly when every other query is zero.
\<close>

theorem log_addr_queries:
  "(query g lam \<noteq> 0 \<longleftrightarrow> (\<exists>a<16. bit lam a \<and> group_of a = g)) \<and>
    (cec_is_unconfigured lam \<noteq> 0 \<longleftrightarrow> (\<forall>g. query g lam = 0))"
  by (simp add: query_iff unconfigured_iff)

theorem log_addr_queries_witness:
  "query Playback 0x0810 \<noteq> 0 \<and> query Tuner 0x0810 = 0 \<and> cec_is_unconfigured 0x0810 = 0"
proof -
  have "\<exists>a<16. bit (0x0810 :: u16) a \<and> group_of a = Playback"
    by (intro exI [of _ 4] conjI) (simp_all add: bit_numeral_rec log_addr)
  then have "query Playback 0x0810 \<noteq> 0" using log_addr_queries [of Playback "0x0810"] by blast
  moreover have "query Tuner 0x0810 = 0"
    by (simp add: cec_has_tuner_def log_mask log_addr promote16_def)
  ultimately show ?thesis using log_addr_queries [of Tuner "0x0810"] by blast
qed

text \<open>
  The four special kinds of device exclude each other, and deciding them stays inside the arrays
  of the structure.
\<close>

theorem special_devices_exclusive:
  assumes "wf_log_addrs las"
  shows "list_all (\<lambda>f. f las \<noteq> None) [cec_is_2nd_tv, cec_is_processor, cec_is_switch, cec_is_cdc_only] \<and>
    length (filter (\<lambda>f. f las = Some True)
      [cec_is_2nd_tv, cec_is_processor, cec_is_switch, cec_is_cdc_only]) \<le> 1"
  using special_total [OF assms] special_exclusive [OF assms] by blast

definition example_switch :: cec_log_addrs where
  "example_switch = \<lparr>la_log_addr = [15, 0xff, 0xff, 0xff], la_log_addr_mask = 0x8000,
     la_cec_version = 6, la_num_log_addrs = 1, la_vendor_id = 0xffffffff, la_flags = 0,
     la_osd_name = replicate 15 0, la_primary_device_type = [6, 0, 0, 0],
     la_log_addr_type = [6, 0, 0, 0], la_all_device_types = [4, 0, 0, 0],
     la_features = replicate 4 (replicate 12 0)\<rparr>"

theorem special_devices_exclusive_witness:
  "wf_log_addrs example_switch \<and> cec_is_switch example_switch = Some True \<and>
    length (filter (\<lambda>f. f example_switch = Some True)
      [cec_is_2nd_tv, cec_is_processor, cec_is_switch, cec_is_cdc_only]) \<le> 1"
proof -
  have wf: "wf_log_addrs example_switch"
    by (simp add: wf_log_addrs_def example_switch_def CEC_MAX_LOG_ADDRS_def list_all_iff)
  moreover have "cec_is_switch example_switch = Some True"
    by (simp add: cec_is_switch_def example_switch_def mem_simps cec_code log_addr)
  ultimately show ?thesis using special_devices_exclusive [OF wf] by blast
qed

text \<open>
  The comment in \<^verbatim>\<open>cec_is_2nd_tv\<close> speaks of the addresses 14 and 15, but the test has no upper bound:
  a TV whose first address could not be claimed (\<^verbatim>\<open>CEC_LOG_ADDR_INVALID\<close>) counts as a second TV too.
\<close>

theorem second_tv_invalid_address:
  assumes "wf_log_addrs las" "la_num_log_addrs las \<noteq> 0"
    "la_log_addr las ! 0 = CEC_LOG_ADDR_INVALID" "la_primary_device_type las ! 0 = CEC_OP_PRIM_DEVTYPE_TV"
  shows "cec_is_2nd_tv las = Some True"
  using assms
  by (simp add: cec_is_2nd_tv_def wf_log_addrs_def CEC_MAX_LOG_ADDRS_def mem_simps cec_code log_addr)

theorem second_tv_invalid_address_witness:
  "cec_is_2nd_tv (example_switch\<lparr>la_log_addr := [0xff, 0xff, 0xff, 0xff],
    la_primary_device_type := [0, 0, 0, 0]\<rparr>) = Some True"
  by (rule second_tv_invalid_address)
    (simp_all add: example_switch_def wf_log_addrs_def CEC_MAX_LOG_ADDRS_def list_all_iff cec_code)

end
