(* ===== verification/Ioctl.thy ===== *)
theory Ioctl
  imports Uapi_Prelude
begin

text \<open>
  Ioctl request numbers: \<^verbatim>\<open>include/asm-generic/ioctl.h\<close>, the overrides of mips, powerpc and parisc
  (a layout handed to the generic macros), and the headers of alpha and sparc, which define the
  macros on their own.

  The type \<^typ>\<open>'l word\<close> is \<^verbatim>\<open>unsigned long\<close>, whose width is that of \<^verbatim>\<open>sizeof\<close>'s result and so of a
  number made with \<^verbatim>\<open>_IOR\<close>, \<^verbatim>\<open>_IOW\<close> or \<^verbatim>\<open>_IOWR\<close>. The direction, the type character and the number are
  unsigned 32-bit values, shifted at that width and then widened.

  The contract \<open>ioctl_number\<close> says that the four decoders give back what was encoded; it is shown
  for each layout at both widths of \<^verbatim>\<open>unsigned long\<close>.
\<close>

section \<open>Layouts\<close>

record ioc_layout =
  IOC_SIZEBITS :: nat
  IOC_DIRBITS :: nat
  IOC_NONE :: u32
  IOC_READ :: u32
  IOC_WRITE :: u32

definition generic_ioc :: ioc_layout where
  "generic_ioc = \<lparr>IOC_SIZEBITS = 14, IOC_DIRBITS = 2,
     IOC_NONE = 0, IOC_READ = 2, IOC_WRITE = 1\<rparr>"

definition mips_ioc :: ioc_layout where
  "mips_ioc = \<lparr>IOC_SIZEBITS = 13, IOC_DIRBITS = 3,
     IOC_NONE = 1, IOC_READ = 2, IOC_WRITE = 4\<rparr>"

definition powerpc_ioc :: ioc_layout where
  "powerpc_ioc = \<lparr>IOC_SIZEBITS = 13, IOC_DIRBITS = 3,
     IOC_NONE = 1, IOC_READ = 2, IOC_WRITE = 4\<rparr>"

definition parisc_ioc :: ioc_layout where
  "parisc_ioc = \<lparr>IOC_SIZEBITS = 14, IOC_DIRBITS = 2,
     IOC_NONE = 0, IOC_READ = 1, IOC_WRITE = 2\<rparr>"

definition IOC_NRBITS :: nat where "IOC_NRBITS = 8"

definition IOC_TYPEBITS :: nat where "IOC_TYPEBITS = 8"

definition IOC_NRMASK :: "'l::len word" where
  "IOC_NRMASK = push_bit IOC_NRBITS 1 - 1"

definition IOC_TYPEMASK :: "'l::len word" where
  "IOC_TYPEMASK = push_bit IOC_TYPEBITS 1 - 1"

definition IOC_SIZEMASK :: "ioc_layout \<Rightarrow> 'l::len word" where
  "IOC_SIZEMASK L = push_bit (IOC_SIZEBITS L) 1 - 1"

definition IOC_DIRMASK :: "ioc_layout \<Rightarrow> 'l::len word" where
  "IOC_DIRMASK L = push_bit (IOC_DIRBITS L) 1 - 1"

definition IOC_NRSHIFT :: nat where "IOC_NRSHIFT = 0"

definition IOC_TYPESHIFT :: nat where "IOC_TYPESHIFT = IOC_NRSHIFT + IOC_NRBITS"

definition IOC_SIZESHIFT :: nat where "IOC_SIZESHIFT = IOC_TYPESHIFT + IOC_TYPEBITS"

definition IOC_DIRSHIFT :: "ioc_layout \<Rightarrow> nat" where
  "IOC_DIRSHIFT L = IOC_SIZESHIFT + IOC_SIZEBITS L"

section \<open>Generic macros\<close>

definition IOC :: "ioc_layout \<Rightarrow> u32 \<Rightarrow> u32 \<Rightarrow> u32 \<Rightarrow> 'l::len word \<Rightarrow> 'l word" where
  "IOC L dir type nr sz =
     ucast (push_bit (IOC_DIRSHIFT L) dir) OR
     ucast (push_bit IOC_TYPESHIFT type) OR
     ucast (push_bit IOC_NRSHIFT nr) OR
     push_bit IOC_SIZESHIFT sz"

definition IO :: "ioc_layout \<Rightarrow> u32 \<Rightarrow> u32 \<Rightarrow> 'l::len word" where
  "IO L type nr = IOC L (IOC_NONE L) type nr 0"

definition IOR :: "ioc_layout \<Rightarrow> u32 \<Rightarrow> u32 \<Rightarrow> 'l::len word \<Rightarrow> 'l word" where
  "IOR L type nr sz = IOC L (IOC_READ L) type nr sz"

definition IOW :: "ioc_layout \<Rightarrow> u32 \<Rightarrow> u32 \<Rightarrow> 'l::len word \<Rightarrow> 'l word" where
  "IOW L type nr sz = IOC L (IOC_WRITE L) type nr sz"

definition IOWR :: "ioc_layout \<Rightarrow> u32 \<Rightarrow> u32 \<Rightarrow> 'l::len word \<Rightarrow> 'l word" where
  "IOWR L type nr sz = IOC L (IOC_READ L OR IOC_WRITE L) type nr sz"

definition IOC_DIR :: "ioc_layout \<Rightarrow> 'l::len word \<Rightarrow> 'l word" where
  "IOC_DIR L nr = drop_bit (IOC_DIRSHIFT L) nr AND IOC_DIRMASK L"

definition IOC_TYPE :: "ioc_layout \<Rightarrow> 'l::len word \<Rightarrow> 'l word" where
  "IOC_TYPE L nr = drop_bit IOC_TYPESHIFT nr AND IOC_TYPEMASK"

definition IOC_NR :: "ioc_layout \<Rightarrow> 'l::len word \<Rightarrow> 'l word" where
  "IOC_NR L nr = drop_bit IOC_NRSHIFT nr AND IOC_NRMASK"

definition IOC_SIZE :: "ioc_layout \<Rightarrow> 'l::len word \<Rightarrow> 'l word" where
  "IOC_SIZE L nr = drop_bit IOC_SIZESHIFT nr AND IOC_SIZEMASK L"

definition IOC_IN :: "ioc_layout \<Rightarrow> u32" where
  "IOC_IN L = push_bit (IOC_DIRSHIFT L) (IOC_WRITE L)"

definition IOC_OUT :: "ioc_layout \<Rightarrow> u32" where
  "IOC_OUT L = push_bit (IOC_DIRSHIFT L) (IOC_READ L)"

definition IOC_INOUT :: "ioc_layout \<Rightarrow> u32" where
  "IOC_INOUT L = push_bit (IOC_DIRSHIFT L) (IOC_WRITE L OR IOC_READ L)"

definition IOCSIZE_MASK :: "ioc_layout \<Rightarrow> u32" where
  "IOCSIZE_MASK L = push_bit IOC_SIZESHIFT (IOC_SIZEMASK L)"

definition IOCSIZE_SHIFT :: nat where
  "IOCSIZE_SHIFT = IOC_SIZESHIFT"

section \<open>alpha\<close>

text \<open>
  The header repeats the generic macros with a layout of its own, and cuts a number down to
  \<^verbatim>\<open>unsigned int\<close>.
\<close>

definition alpha_ioc :: ioc_layout where
  "alpha_ioc = \<lparr>IOC_SIZEBITS = 13, IOC_DIRBITS = 3,
     IOC_NONE = 1, IOC_READ = 2, IOC_WRITE = 4\<rparr>"

definition alpha_IOC :: "u32 \<Rightarrow> u32 \<Rightarrow> u32 \<Rightarrow> u64 \<Rightarrow> u32" where
  "alpha_IOC dir type nr sz = ucast (
     ucast (push_bit (IOC_DIRSHIFT alpha_ioc) dir) OR
     ucast (push_bit IOC_TYPESHIFT type) OR
     ucast (push_bit IOC_NRSHIFT nr) OR
     push_bit IOC_SIZESHIFT sz)"

section \<open>sparc\<close>

text \<open>
  The direction has three bits and the size fourteen: the bit that says \<^verbatim>\<open>_IOC_NONE\<close> is also the top
  bit of the size, and the decoders look at the other two to tell.
\<close>

definition sparc_ioc :: ioc_layout where
  "sparc_ioc = \<lparr>IOC_SIZEBITS = 13, IOC_DIRBITS = 3,
     IOC_NONE = 1, IOC_READ = 2, IOC_WRITE = 4\<rparr>"

definition sparc_XSIZEMASK :: "'l::len word" where
  "sparc_XSIZEMASK = push_bit (IOC_SIZEBITS sparc_ioc + 1) 1 - 1"

definition sparc_IOC :: "u32 \<Rightarrow> u32 \<Rightarrow> u32 \<Rightarrow> 'l::len word \<Rightarrow> 'l word" where
  "sparc_IOC dir type nr sz =
     ucast (push_bit (IOC_DIRSHIFT sparc_ioc) dir) OR
     ucast (push_bit IOC_TYPESHIFT type) OR
     ucast (push_bit IOC_NRSHIFT nr) OR
     push_bit IOC_SIZESHIFT sz"

definition sparc_rw :: "'l::len word" where
  "sparc_rw = ucast (IOC_WRITE sparc_ioc OR IOC_READ sparc_ioc)"

definition sparc_IOC_DIR :: "'l::len word \<Rightarrow> 'l word" where
  "sparc_IOC_DIR nr =
     (if drop_bit (IOC_DIRSHIFT sparc_ioc) nr AND IOC_DIRMASK sparc_ioc AND sparc_rw \<noteq> 0
      then drop_bit (IOC_DIRSHIFT sparc_ioc) nr AND sparc_rw
      else drop_bit (IOC_DIRSHIFT sparc_ioc) nr AND IOC_DIRMASK sparc_ioc)"

definition sparc_IOC_SIZE :: "'l::len word \<Rightarrow> 'l word" where
  "sparc_IOC_SIZE nr =
     (if drop_bit (IOC_DIRSHIFT sparc_ioc) nr AND IOC_DIRMASK sparc_ioc AND sparc_rw = 0
      then 0
      else drop_bit IOC_SIZESHIFT nr AND sparc_XSIZEMASK)"

section \<open>The contract\<close>

lemma fits_width: "LENGTH('a) \<le> n \<Longrightarrow> fits n (a :: 'a::len word)"
  by (auto simp add: fits_bits dest: bit_imp_le_length)

lemma ucast_fits_inject:
  fixes a b :: "'a::len word"
  assumes "fits m a" "fits m b" "m \<le> LENGTH('b)"
  shows "(ucast a :: 'b::len word) = ucast b \<longleftrightarrow> a = b"
proof
  assume eq: "(ucast a :: 'b word) = ucast b"
  show "a = b"
  proof (rule bit_word_eqI)
    fix n assume "n < LENGTH('a)"
    have "bit (ucast a :: 'b word) n \<longleftrightarrow> bit (ucast b :: 'b word) n" using eq by simp
    then show "bit a n \<longleftrightarrow> bit b n"
      using assms by (cases "n < m") (auto simp add: bit_simps fits_bits)
  qed
qed simp

locale ioctl_number =
  fixes valid :: "u32 \<Rightarrow> u32 \<Rightarrow> u32 \<Rightarrow> 's::len word \<Rightarrow> bool"
    and number :: "u32 \<Rightarrow> u32 \<Rightarrow> u32 \<Rightarrow> 's word \<Rightarrow> 'l::len word"
    and dir_of type_of nr_of size_of :: "'l word \<Rightarrow> 'l word"
  assumes width: "32 \<le> LENGTH('l)" and swidth: "14 < LENGTH('s)"
    and small: "valid d t n s \<Longrightarrow> fits 14 s"
    and dir_ok: "valid d t n s \<Longrightarrow> dir_of (number d t n s) = ucast d"
    and type_ok: "valid d t n s \<Longrightarrow> type_of (number d t n s) = ucast t"
    and nr_ok: "valid d t n s \<Longrightarrow> nr_of (number d t n s) = ucast n"
    and size_ok: "valid d t n s \<Longrightarrow> size_of (number d t n s) = ucast s"
begin

lemma ucast32_inject: "(ucast a :: 'l word) = ucast b \<longleftrightarrow> a = (b :: u32)"
  using width by (intro ucast_fits_inject [of 32]) (simp_all add: fits_width)

lemma inject:
  assumes "valid d t n s" "valid d' t' n' s'"
  shows "number d t n s = number d' t' n' s' \<longleftrightarrow> d = d' \<and> t = t' \<and> n = n' \<and> s = s'"
proof
  assume eq: "number d t n s = number d' t' n' s'"
  have "d = d'" using dir_ok [OF assms(1)] dir_ok [OF assms(2)] eq ucast32_inject by metis
  moreover have "t = t'" using type_ok [OF assms(1)] type_ok [OF assms(2)] eq ucast32_inject by metis
  moreover have "n = n'" using nr_ok [OF assms(1)] nr_ok [OF assms(2)] eq ucast32_inject by metis
  moreover have "(ucast s :: 'l word) = ucast s'"
    using size_ok [OF assms(1)] size_ok [OF assms(2)] eq by metis
  moreover from this have "s = s'"
    using ucast_fits_inject [of 14 s s', where ?'b = 'l] small [OF assms(1)] small [OF assms(2)] width
    by simp
  ultimately show "d = d' \<and> t = t' \<and> n = n' \<and> s = s'" by simp
qed simp

end

section \<open>The layouts keep it\<close>

text \<open>A layout uses sixteen bits for size and direction, and its direction values fit.\<close>

definition wf_ioc :: "ioc_layout \<Rightarrow> bool" where
  "wf_ioc L \<longleftrightarrow> IOC_SIZEBITS L + IOC_DIRBITS L = 16 \<and> IOC_SIZEBITS L \<le> 14 \<and>
     fits (IOC_DIRBITS L) (IOC_NONE L) \<and> fits (IOC_DIRBITS L) (IOC_READ L) \<and>
     fits (IOC_DIRBITS L) (IOC_WRITE L)"

definition ioc_valid :: "ioc_layout \<Rightarrow> u32 \<Rightarrow> u32 \<Rightarrow> u32 \<Rightarrow> 's::len word \<Rightarrow> bool" where
  "ioc_valid L d t n s \<longleftrightarrow> fits (IOC_DIRBITS L) d \<and> fits 8 t \<and> fits 8 n \<and> fits (IOC_SIZEBITS L) s"

lemma wf_layouts: "wf_ioc generic_ioc" "wf_ioc mips_ioc" "wf_ioc powerpc_ioc" "wf_ioc parisc_ioc"
  "wf_ioc alpha_ioc"
  by (simp_all add: wf_ioc_def fits_def generic_ioc_def mips_ioc_def powerpc_ioc_def parisc_ioc_def
      alpha_ioc_def)

lemma shl_1_minus_1: "push_bit n 1 - 1 = (mask n :: 'l::len word)"
  by (simp add: mask_eq_exp_minus_1 push_bit_eq_mult)

lemmas ioc_defs = IOC_DIR_def IOC_TYPE_def IOC_NR_def IOC_SIZE_def IOC_DIRMASK_def IOC_TYPEMASK_def
  IOC_NRMASK_def IOC_SIZEMASK_def IOC_DIRSHIFT_def IOC_SIZESHIFT_def IOC_TYPESHIFT_def
  IOC_NRSHIFT_def IOC_NRBITS_def IOC_TYPEBITS_def shl_1_minus_1

lemma ioc_contract:
  assumes L: "wf_ioc L" and w: "32 \<le> LENGTH('l)"
  shows "ioctl_number (ioc_valid L) (IOC L) (IOC_DIR L :: 'l::len word \<Rightarrow> _)
    (IOC_TYPE L) (IOC_NR L) (IOC_SIZE L)"
proof
  fix d t n :: u32 and s :: "'l word"
  assume v: "ioc_valid L d t n s"
  then have f: "fits (IOC_DIRBITS L) d" "fits 8 t" "fits 8 n" "fits (IOC_SIZEBITS L) s"
    by (simp_all add: ioc_valid_def)
  have sum: "IOC_SIZEBITS L + IOC_DIRBITS L = 16" "IOC_SIZEBITS L \<le> 14" using L by (simp_all add: wf_ioc_def)
  show "fits 14 s" using f(4) sum(2) by (rule fits_mono)
  note b = fits_bitD [OF f(1)] fits_bitD [OF f(2)] fits_bitD [OF f(3)] fits_bitD [OF f(4)]
  show "IOC_NR L (IOC L d t n s) = ucast n"
    using w sum unfolding IOC_def ioc_defs
    by (intro bit_word_eqI) (auto simp add: bit_simps dest: b)
  show "IOC_TYPE L (IOC L d t n s) = ucast t"
    using w sum unfolding IOC_def ioc_defs
    by (intro bit_word_eqI) (auto simp add: bit_simps dest: b)
  show "IOC_SIZE L (IOC L d t n s) = ucast s"
    using w sum unfolding IOC_def ioc_defs
    by (intro bit_word_eqI) (auto simp add: bit_simps dest: b)
  show "IOC_DIR L (IOC L d t n s) = ucast d"
    using w sum unfolding IOC_def ioc_defs
    by (intro bit_word_eqI) (auto simp add: bit_simps dest: b)
qed (use w in simp_all)

interpretation generic_ioc32: ioctl_number "ioc_valid generic_ioc" "IOC generic_ioc"
    "IOC_DIR generic_ioc :: u32 \<Rightarrow> u32" "IOC_TYPE generic_ioc" "IOC_NR generic_ioc" "IOC_SIZE generic_ioc"
  by (rule ioc_contract) (simp_all add: wf_layouts)

interpretation generic_ioc64: ioctl_number "ioc_valid generic_ioc" "IOC generic_ioc"
    "IOC_DIR generic_ioc :: u64 \<Rightarrow> u64" "IOC_TYPE generic_ioc" "IOC_NR generic_ioc" "IOC_SIZE generic_ioc"
  by (rule ioc_contract) (simp_all add: wf_layouts)

interpretation mips_ioc32: ioctl_number "ioc_valid mips_ioc" "IOC mips_ioc"
    "IOC_DIR mips_ioc :: u32 \<Rightarrow> u32" "IOC_TYPE mips_ioc" "IOC_NR mips_ioc" "IOC_SIZE mips_ioc"
  by (rule ioc_contract) (simp_all add: wf_layouts)

interpretation mips_ioc64: ioctl_number "ioc_valid mips_ioc" "IOC mips_ioc"
    "IOC_DIR mips_ioc :: u64 \<Rightarrow> u64" "IOC_TYPE mips_ioc" "IOC_NR mips_ioc" "IOC_SIZE mips_ioc"
  by (rule ioc_contract) (simp_all add: wf_layouts)

interpretation powerpc_ioc32: ioctl_number "ioc_valid powerpc_ioc" "IOC powerpc_ioc"
    "IOC_DIR powerpc_ioc :: u32 \<Rightarrow> u32" "IOC_TYPE powerpc_ioc" "IOC_NR powerpc_ioc" "IOC_SIZE powerpc_ioc"
  by (rule ioc_contract) (simp_all add: wf_layouts)

interpretation powerpc_ioc64: ioctl_number "ioc_valid powerpc_ioc" "IOC powerpc_ioc"
    "IOC_DIR powerpc_ioc :: u64 \<Rightarrow> u64" "IOC_TYPE powerpc_ioc" "IOC_NR powerpc_ioc" "IOC_SIZE powerpc_ioc"
  by (rule ioc_contract) (simp_all add: wf_layouts)

interpretation parisc_ioc32: ioctl_number "ioc_valid parisc_ioc" "IOC parisc_ioc"
    "IOC_DIR parisc_ioc :: u32 \<Rightarrow> u32" "IOC_TYPE parisc_ioc" "IOC_NR parisc_ioc" "IOC_SIZE parisc_ioc"
  by (rule ioc_contract) (simp_all add: wf_layouts)

interpretation parisc_ioc64: ioctl_number "ioc_valid parisc_ioc" "IOC parisc_ioc"
    "IOC_DIR parisc_ioc :: u64 \<Rightarrow> u64" "IOC_TYPE parisc_ioc" "IOC_NR parisc_ioc" "IOC_SIZE parisc_ioc"
  by (rule ioc_contract) (simp_all add: wf_layouts)

text \<open>alpha cuts the number to 32 bits, which loses nothing of a valid one.\<close>

interpretation alpha_ioc64: ioctl_number "ioc_valid alpha_ioc" alpha_IOC
    "IOC_DIR alpha_ioc" "IOC_TYPE alpha_ioc" "IOC_NR alpha_ioc" "IOC_SIZE alpha_ioc"
proof
  fix d t n :: u32 and s :: u64
  assume v: "ioc_valid alpha_ioc d t n s"
  then have f: "fits 3 d" "fits 8 t" "fits 8 n" "fits 13 s"
    by (simp_all add: ioc_valid_def alpha_ioc_def)
  show "fits 14 s" using f(4) by (rule fits_mono) simp
  note b = fits_bitD [OF f(1)] fits_bitD [OF f(2)] fits_bitD [OF f(3)] fits_bitD [OF f(4)]
  have L: "IOC_SIZEBITS alpha_ioc = 13" "IOC_DIRBITS alpha_ioc = 3" by (simp_all add: alpha_ioc_def)
  show "IOC_NR alpha_ioc (alpha_IOC d t n s) = ucast n"
    unfolding alpha_IOC_def ioc_defs L by (intro bit_word_eqI) (auto simp add: bit_simps dest: b)
  show "IOC_TYPE alpha_ioc (alpha_IOC d t n s) = ucast t"
    unfolding alpha_IOC_def ioc_defs L by (intro bit_word_eqI) (auto simp add: bit_simps dest: b)
  show "IOC_SIZE alpha_ioc (alpha_IOC d t n s) = ucast s"
    unfolding alpha_IOC_def ioc_defs L by (intro bit_word_eqI) (auto simp add: bit_simps dest: b)
  show "IOC_DIR alpha_ioc (alpha_IOC d t n s) = ucast d"
    unfolding alpha_IOC_def ioc_defs L by (intro bit_word_eqI) (auto simp add: bit_simps dest: b)
qed simp_all

text \<open>sparc: a request without argument, or one with a direction and up to fourteen bits of size.\<close>

definition sparc_valid :: "u32 \<Rightarrow> u32 \<Rightarrow> u32 \<Rightarrow> 's::len word \<Rightarrow> bool" where
  "sparc_valid d t n s \<longleftrightarrow> fits 8 t \<and> fits 8 n \<and>
     (d = IOC_NONE sparc_ioc \<and> s = 0 \<or>
      d \<in> {IOC_READ sparc_ioc, IOC_WRITE sparc_ioc, IOC_READ sparc_ioc OR IOC_WRITE sparc_ioc} \<and>
        fits 14 s)"

lemma bit_six: "bit (6 :: 'l::len word) k \<longleftrightarrow> (k = 1 \<or> k = 2) \<and> k < LENGTH('l)"
proof -
  have "(6 :: 'l word) = push_bit (Suc 0) (mask 2)" by (simp add: mask_numeral)
  then show ?thesis by (simp only: bit_push_bit_iff bit_mask_iff) auto
qed

lemma bit_sparc_rw: "bit (sparc_rw :: 'l::len word) k \<longleftrightarrow> (k = 1 \<or> k = 2) \<and> k < LENGTH('l)"
proof -
  have "IOC_WRITE sparc_ioc OR IOC_READ sparc_ioc = 6" by (simp add: sparc_ioc_def)
  then show ?thesis by (simp only: sparc_rw_def bit_unsigned_iff bit_six) auto
qed

lemma sparc_dir_bits:
  assumes "d \<in> {IOC_READ sparc_ioc, IOC_WRITE sparc_ioc, IOC_READ sparc_ioc OR IOC_WRITE sparc_ioc}"
  shows "bit d k \<Longrightarrow> k = 1 \<or> k = 2" and "d \<noteq> 0"
proof -
  have "d AND 6 = d" "d \<noteq> 0" using assms by (auto simp add: sparc_ioc_def)
  then show "d \<noteq> 0" "bit d k \<Longrightarrow> k = 1 \<or> k = 2" by (metis bit_and_iff bit_six)+
qed

lemmas sparc_defs = sparc_IOC_def ioc_defs sparc_XSIZEMASK_def

lemma sparc_bits: "IOC_SIZEBITS sparc_ioc = 13" "IOC_DIRBITS sparc_ioc = 3"
  by (simp_all add: sparc_ioc_def)

lemma sparc_none:
  assumes "fits 8 t" "fits 8 n" "32 \<le> LENGTH('l)"
  shows "sparc_IOC_DIR (sparc_IOC (IOC_NONE sparc_ioc) t n 0 :: 'l::len word) = 1"
    and "sparc_IOC_SIZE (sparc_IOC (IOC_NONE sparc_ioc) t n 0 :: 'l::len word) = 0"
proof -
  let ?N = "sparc_IOC (IOC_NONE sparc_ioc) t n 0 :: 'l word"
  note b = fits_bitD [OF assms(1)] fits_bitD [OF assms(2)]
  obtain d where d: "d = IOC_NONE sparc_ioc" by simp
  then have b1: "bit d k \<longleftrightarrow> k = 0" for k by (simp add: sparc_ioc_def bit_1_iff)
  have z: "drop_bit (IOC_DIRSHIFT sparc_ioc) ?N AND IOC_DIRMASK sparc_ioc = 1"
    using assms(3) unfolding sparc_defs sparc_bits d [symmetric]
    by (intro bit_word_eqI) (auto simp add: bit_simps b1 dest: b)
  have "1 AND sparc_rw = (0 :: 'l word)"
    by (intro bit_word_eqI) (auto simp add: bit_simps bit_sparc_rw)
  with z show "sparc_IOC_DIR ?N = 1" "sparc_IOC_SIZE ?N = 0"
    by (simp_all add: sparc_IOC_DIR_def sparc_IOC_SIZE_def flip: and.assoc)
qed

lemma sparc_some:
  assumes "fits 8 t" "fits 8 n" "fits 14 s" "32 \<le> LENGTH('l)"
    and d: "\<And>k. bit d k \<Longrightarrow> k = 1 \<or> k = 2" "d \<noteq> 0"
  shows "sparc_IOC_DIR (sparc_IOC d t n s :: 'l::len word) = ucast d"
    and "sparc_IOC_SIZE (sparc_IOC d t n s :: 'l::len word) = s"
proof -
  let ?N = "sparc_IOC d t n s :: 'l word"
  note b = fits_bitD [OF assms(1)] fits_bitD [OF assms(2)] fits_bitD [OF assms(3)] d(1)
  have rw: "drop_bit (IOC_DIRSHIFT sparc_ioc) ?N AND sparc_rw = ucast d"
    using assms(4) unfolding sparc_defs sparc_bits
    by (intro bit_word_eqI) (auto simp add: bit_simps bit_sparc_rw dest: b)
  have m: "IOC_DIRMASK sparc_ioc AND sparc_rw = (sparc_rw :: 'l word)"
    unfolding ioc_defs sparc_bits by (intro bit_word_eqI) (auto simp add: bit_simps bit_sparc_rw)
  have nz: "(ucast d :: 'l word) \<noteq> 0"
    using ucast_fits_inject [of 32 d 0, where ?'b = 'l] assms(4) d(2) by (simp add: fits_width)
  have sz: "drop_bit IOC_SIZESHIFT ?N AND sparc_XSIZEMASK = s"
    using assms(4) unfolding sparc_defs sparc_bits
    by (intro bit_word_eqI) (auto simp add: bit_simps dest: b)
  show "sparc_IOC_DIR ?N = ucast d" "sparc_IOC_SIZE ?N = s"
    by (simp_all add: sparc_IOC_DIR_def sparc_IOC_SIZE_def and.assoc m rw nz sz)
qed

lemma sparc_contract:
  assumes w: "32 \<le> LENGTH('l)"
  shows "ioctl_number sparc_valid sparc_IOC (sparc_IOC_DIR :: 'l::len word \<Rightarrow> _)
    (IOC_TYPE sparc_ioc) (IOC_NR sparc_ioc) sparc_IOC_SIZE"
proof
  fix d t n :: u32 and s :: "'l word"
  assume v: "sparc_valid d t n s"
  have f: "fits 8 t" "fits 8 n" using v by (simp_all add: sparc_valid_def)
  show s: "fits 14 s" using v by (auto simp add: sparc_valid_def fits_def)
  have f3: "fits 3 d"
    using v by (auto simp add: sparc_valid_def sparc_ioc_def fits_def)
  note b = fits_bitD [OF f3] fits_bitD [OF f(1)] fits_bitD [OF f(2)] fits_bitD [OF s]
  show "IOC_NR sparc_ioc (sparc_IOC d t n s) = ucast n"
    using w unfolding sparc_defs sparc_bits by (intro bit_word_eqI) (auto simp add: bit_simps dest: b)
  show "IOC_TYPE sparc_ioc (sparc_IOC d t n s) = ucast t"
    using w unfolding sparc_defs sparc_bits by (intro bit_word_eqI) (auto simp add: bit_simps dest: b)
  have "sparc_IOC_DIR (sparc_IOC d t n s) = ucast d \<and> sparc_IOC_SIZE (sparc_IOC d t n s) = s"
  proof (cases "d = IOC_NONE sparc_ioc")
    case True
    with v have "s = 0" by (auto simp add: sparc_valid_def sparc_ioc_def)
    with True show ?thesis using sparc_none [OF f w] by (simp add: sparc_ioc_def)
  next
    case False
    with v have "d \<in> {IOC_READ sparc_ioc, IOC_WRITE sparc_ioc, IOC_READ sparc_ioc OR IOC_WRITE sparc_ioc}"
      by (auto simp add: sparc_valid_def)
    from sparc_some [OF f s w sparc_dir_bits [OF this]] show ?thesis by simp
  qed
  then show "sparc_IOC_DIR (sparc_IOC d t n s) = ucast d"
    "sparc_IOC_SIZE (sparc_IOC d t n s) = ucast s" by simp_all
qed (use w in simp_all)

interpretation sparc_ioc32: ioctl_number sparc_valid sparc_IOC "sparc_IOC_DIR :: u32 \<Rightarrow> u32"
    "IOC_TYPE sparc_ioc" "IOC_NR sparc_ioc" sparc_IOC_SIZE
  by (rule sparc_contract) simp

interpretation sparc_ioc64: ioctl_number sparc_valid sparc_IOC "sparc_IOC_DIR :: u64 \<Rightarrow> u64"
    "IOC_TYPE sparc_ioc" "IOC_NR sparc_ioc" sparc_IOC_SIZE
  by (rule sparc_contract) simp

section \<open>Properties\<close>

text \<open>
  C10: On the architectures that use the generic macros, with their own layouts or the default one, the
  decoders recover the direction, type, number and size of every request whose fields fit.
\<close>

theorem ioctl_decode:
  assumes "L \<in> {generic_ioc, mips_ioc, powerpc_ioc, parisc_ioc}" "ioc_valid L d t n s"
  shows "IOC_DIR L (IOC L d t n s :: u64) = ucast d \<and> IOC_TYPE L (IOC L d t n s) = ucast t \<and>
    IOC_NR L (IOC L d t n s) = ucast n \<and> IOC_SIZE L (IOC L d t n s) = s"
proof -
  from assms(1) have "wf_ioc L" using wf_layouts by auto
  then have "ioctl_number (ioc_valid L) (IOC L) (IOC_DIR L :: u64 \<Rightarrow> u64) (IOC_TYPE L) (IOC_NR L)
      (IOC_SIZE L)"
    by (rule ioc_contract) simp
  then show ?thesis
    using assms(2) ioctl_number.dir_ok ioctl_number.type_ok ioctl_number.nr_ok ioctl_number.size_ok
    by fastforce
qed

theorem ioctl_decode_witness:
  "IOC_DIR mips_ioc (IOC mips_ioc 2 0x61 10 68 :: u64) = ucast (2 :: u32) \<and>
   IOC_TYPE mips_ioc (IOC mips_ioc 2 0x61 10 68 :: u64) = ucast (0x61 :: u32) \<and>
   IOC_NR mips_ioc (IOC mips_ioc 2 0x61 10 68 :: u64) = ucast (10 :: u32) \<and>
   IOC_SIZE mips_ioc (IOC mips_ioc 2 0x61 10 68 :: u64) = 68"
  by (rule ioctl_decode) (simp_all add: ioc_valid_def mips_ioc_def fits_def)

text \<open>
  On sparc, where the top bit of the size is the bit that marks a request without argument, the
  decoders still recover every request: one with a direction and a fourteen-bit size, or one with
  neither.
\<close>

theorem sparc_ioctl_decode:
  assumes "sparc_valid d t n s"
  shows "sparc_IOC_DIR (sparc_IOC d t n s :: u64) = ucast d \<and>
    IOC_TYPE sparc_ioc (sparc_IOC d t n s) = ucast t \<and>
    IOC_NR sparc_ioc (sparc_IOC d t n s) = ucast n \<and> sparc_IOC_SIZE (sparc_IOC d t n s) = s"
  using assms by (simp add: sparc_ioc64.dir_ok sparc_ioc64.type_ok sparc_ioc64.nr_ok
      sparc_ioc64.size_ok)

theorem sparc_ioctl_decode_witness:
  "sparc_IOC_DIR (sparc_IOC 2 0x61 10 0x3fff :: u64) = ucast (2 :: u32) \<and>
   IOC_TYPE sparc_ioc (sparc_IOC 2 0x61 10 0x3fff :: u64) = ucast (0x61 :: u32) \<and>
   IOC_NR sparc_ioc (sparc_IOC 2 0x61 10 0x3fff :: u64) = ucast (10 :: u32) \<and>
   sparc_IOC_SIZE (sparc_IOC 2 0x61 10 0x3fff :: u64) = 0x3fff"
  by (rule sparc_ioctl_decode) (simp add: sparc_valid_def sparc_ioc_def fits_def)

text \<open>
  The limit of 16 kB - 1 on the size of an argument is real: one byte past it, a request that reads
  becomes the number of the request that reads and writes.
\<close>

theorem oversized_read_is_read_write:
  assumes "s < 2 ^ 14"
  shows "IOR generic_ioc t n (2 ^ 14 + s) = (IOWR generic_ioc t n s :: u64)"
proof -
  have "fits 14 s" using assms by (simp add: fits_iff_less)
  then have s: "2 ^ 14 + s = push_bit 14 1 OR s"
    using or_eq_add_field [of 14 s 1] by (simp add: push_bit_eq_mult)
  have w: "ucast (push_bit 30 (2 OR 1) :: u32) =
      (ucast (push_bit 30 2 :: u32) OR push_bit 16 (push_bit 14 1) :: u64)"
    by simp
  have L: "IOC_READ generic_ioc = 2" "IOC_WRITE generic_ioc = 1" "IOC_SIZEBITS generic_ioc = 14"
    by (simp_all add: generic_ioc_def)
  have sh: "IOC_DIRSHIFT generic_ioc = 30" "IOC_SIZESHIFT = 16"
    by (simp_all add: ioc_defs L)
  show ?thesis
    unfolding IOR_def IOWR_def IOC_def L sh s w unfolding push_bit_or
    by (simp only: or.assoc or.commute or.left_commute)
qed

theorem oversized_read_is_read_write_witness:
  "IOR generic_ioc 0x61 1 (2 ^ 14 + 0) = (IOWR generic_ioc 0x61 1 0 :: u64)"
  by (rule oversized_read_is_read_write) simp

end
