(* ===== verification/C_Layout.thy ===== *)
theory C_Layout
  imports Main
begin

text \<open>
  The layout of C types in memory, as the System V ABIs fix it for the structures of the interface.
  The alignment of a scalar is its size, up to the largest alignment of the ABI (8 on most, 4 on
  i386, 2 on m68k), which is a parameter. A structure puts each member at the next multiple of the
  member's alignment and is padded to a multiple of its own. A packed structure has no padding, and
  an attribute can raise the alignment of a type.

  A structure is \<open>tight\<close> when its declaration leaves no padding at the strictest alignment. Such a
  structure is laid out alike by every ABI, member by member, and has no byte outside its members
  (\<open>tight_layout\<close>, \<open>tight_no_padding\<close>): 32-bit and 64-bit programs can exchange it and no
  uninitialised byte goes with it.
\<close>

datatype ctype =
    Scalar nat
  | Arr ctype nat
  | Struct "ctype list"
  | Union "ctype list"
  | Packed "ctype list"
  | Aligned nat ctype

definition align_up :: "nat \<Rightarrow> nat \<Rightarrow> nat" where
  "align_up a n = (n + a - 1) div a * a"

fun alignof :: "nat \<Rightarrow> ctype \<Rightarrow> nat" where
  "alignof amax (Scalar n) = min amax n"
| "alignof amax (Arr t n) = alignof amax t"
| "alignof amax (Struct ts) = fold max (map (alignof amax) ts) 1"
| "alignof amax (Union ts) = fold max (map (alignof amax) ts) 1"
| "alignof amax (Packed ts) = 1"
| "alignof amax (Aligned n t) = max n (alignof amax t)"

fun sizeof :: "nat \<Rightarrow> ctype \<Rightarrow> nat" where
  "sizeof amax (Scalar n) = n"
| "sizeof amax (Arr t n) = n * sizeof amax t"
| "sizeof amax (Struct ts) = align_up (alignof amax (Struct ts))
     (fold (\<lambda>(a, s) off. align_up a off + s) (map (\<lambda>t. (alignof amax t, sizeof amax t)) ts) 0)"
| "sizeof amax (Union ts) = align_up (alignof amax (Union ts))
     (fold max (map (sizeof amax) ts) 0)"
| "sizeof amax (Packed ts) = sum_list (map (sizeof amax) ts)"
| "sizeof amax (Aligned n t) = align_up (alignof amax (Aligned n t)) (sizeof amax t)"

text \<open>Where the members of a structure start, from a given offset on.\<close>

fun offsets :: "nat \<Rightarrow> ctype list \<Rightarrow> nat \<Rightarrow> nat list" where
  "offsets amax [] off = []"
| "offsets amax (t # ts) off =
     align_up (alignof amax t) off # offsets amax ts (align_up (alignof amax t) off + sizeof amax t)"

lemma align_up_ge: "0 < a \<Longrightarrow> n \<le> align_up a n"
  unfolding align_up_def
  using div_mult_mod_eq [of "n + a - 1" a] mod_less_divisor [of a "n + a - 1"] by linarith

lemma align_up_less: "0 < a \<Longrightarrow> align_up a n < n + a"
  unfolding align_up_def using div_mult_mod_eq [of "n + a - 1" a] by linarith

lemma align_up_dvd: "a dvd align_up a n"
  by (simp add: align_up_def)

lemma align_up_least:
  assumes "0 < a" "n \<le> m" "a dvd m"
  shows "align_up a n \<le> m"
proof (rule ccontr)
  assume "\<not> ?thesis"
  then have m: "m < align_up a n" by simp
  then have "a \<le> align_up a n - m"
    using assms(3) align_up_dvd [of a n] by (metis dvd_diff_nat dvd_imp_le not_le zero_less_diff)
  moreover have "align_up a n < m + a" using align_up_less [OF assms(1), of n] assms(2) by linarith
  ultimately show False using m by linarith
qed

lemma align_up_idem: "0 < a \<Longrightarrow> a dvd n \<Longrightarrow> align_up a n = n"
  by (simp add: align_up_ge align_up_least le_antisym)

lemma align_up_mono: "0 < a \<Longrightarrow> m \<le> n \<Longrightarrow> align_up a m \<le> align_up a n"
  by (meson align_up_dvd align_up_ge align_up_least le_trans)

lemma align_up_add:
  assumes "0 < a" "a dvd p"
  shows "align_up a (p + n) = p + align_up a n"
proof -
  obtain q where p: "p = a * q" using assms(2) by (elim dvdE)
  have "p + n + a - 1 = (n + a - 1) + q * a" using assms(1) by (simp add: p mult.commute)
  then have "(p + n + a - 1) div a = q + (n + a - 1) div a"
    using assms(1) by (simp only: div_mult_self1)
  then show ?thesis unfolding align_up_def by (simp only: p distrib_left mult.commute)
qed

section \<open>Named members\<close>

text \<open>
  The scalar types of the headers, signed or not. The width \<open>w\<close> of \<^verbatim>\<open>long\<close> and of pointers is a parameter of the
  types that contain one; \<^verbatim>\<open>__aligned_u64\<close> has the alignment 8 everywhere. An enumeration is an \<^verbatim>\<open>int\<close>.
\<close>

abbreviation u8_t :: ctype where "u8_t \<equiv> Scalar 1"
abbreviation u16_t :: ctype where "u16_t \<equiv> Scalar 2"
abbreviation u32_t :: ctype where "u32_t \<equiv> Scalar 4"
abbreviation u64_t :: ctype where "u64_t \<equiv> Scalar 8"
abbreviation long_t :: "nat \<Rightarrow> ctype" where "long_t w \<equiv> Scalar w"
abbreviation ptr_t :: "nat \<Rightarrow> ctype" where "ptr_t w \<equiv> Scalar w"
abbreviation aligned_u64_t :: ctype where "aligned_u64_t \<equiv> Aligned 8 (Scalar 8)"

text \<open>The declarations of the headers name their members; the layout does not depend on the names.\<close>

definition c_struct :: "(string \<times> ctype) list \<Rightarrow> ctype" where
  "c_struct ms = Struct (map snd ms)"

definition c_union :: "(string \<times> ctype) list \<Rightarrow> ctype" where
  "c_union ms = Union (map snd ms)"

definition c_packed :: "(string \<times> ctype) list \<Rightarrow> ctype" where
  "c_packed ms = Packed (map snd ms)"

text \<open>\<^verbatim>\<open>offsetof\<close> of a member.\<close>

fun offset_from :: "nat \<Rightarrow> (string \<times> ctype) list \<Rightarrow> string \<Rightarrow> nat \<Rightarrow> nat option" where
  "offset_from amax [] m off = None"
| "offset_from amax ((n, t) # ms) m off = (if n = m then Some (align_up (alignof amax t) off)
     else offset_from amax ms m (align_up (alignof amax t) off + sizeof amax t))"

section \<open>Where the scalars are\<close>

fun leaves :: "nat \<Rightarrow> nat \<Rightarrow> ctype \<Rightarrow> (nat \<times> nat) list"
  and leaves_struct :: "nat \<Rightarrow> nat \<Rightarrow> nat \<Rightarrow> ctype list \<Rightarrow> (nat \<times> nat) list"
  and leaves_union :: "nat \<Rightarrow> nat \<Rightarrow> ctype list \<Rightarrow> (nat \<times> nat) list"
  and leaves_packed :: "nat \<Rightarrow> nat \<Rightarrow> ctype list \<Rightarrow> (nat \<times> nat) list" where
  "leaves amax p (Scalar n) = [(p, n)]"
| "leaves amax p (Arr t n) = concat (map (\<lambda>i. leaves amax (p + i * sizeof amax t) t) [0..<n])"
| "leaves amax p (Struct ts) = leaves_struct amax p 0 ts"
| "leaves amax p (Union ts) = leaves_union amax p ts"
| "leaves amax p (Packed ts) = leaves_packed amax p ts"
| "leaves amax p (Aligned n t) = leaves amax p t"
| "leaves_struct amax p off [] = []"
| "leaves_struct amax p off (t # ts) = leaves amax (p + align_up (alignof amax t) off) t @
     leaves_struct amax p (align_up (alignof amax t) off + sizeof amax t) ts"
| "leaves_union amax p [] = []"
| "leaves_union amax p (t # ts) = leaves amax p t @ leaves_union amax p ts"
| "leaves_packed amax p [] = []"
| "leaves_packed amax p (t # ts) = leaves amax p t @ leaves_packed amax (p + sizeof amax t) ts"

section \<open>Tight types\<close>

definition alignments :: "nat set" where
  "alignments = {1, 2, 4, 8, 16, 32, 64}"

fun gapless :: "ctype list \<Rightarrow> nat \<Rightarrow> bool" where
  "gapless [] off = True"
| "gapless (t # ts) off = (alignof 8 t dvd off \<and> gapless ts (off + sizeof 8 t))"

fun tight :: "ctype \<Rightarrow> bool" where
  "tight (Scalar n) = (n = 1 \<or> n = 2 \<or> n = 4 \<or> n = 8)"
| "tight (Arr t n) = tight t"
| "tight (Struct ts) = (list_all tight ts \<and> gapless ts 0 \<and>
     alignof 8 (Struct ts) dvd sum_list (map (sizeof 8) ts))"
| "tight (Union ts) = (list_all tight ts \<and> alignof 8 (Union ts) dvd fold max (map (sizeof 8) ts) 0)"
| "tight (Packed ts) = list_all tight ts"
| "tight (Aligned n t) = (n \<in> {1, 2, 4, 8, 16, 32, 64} \<and> tight t \<and> alignof 8 (Aligned n t) dvd sizeof 8 t)"

lemma alignments_le_dvd: "a \<in> alignments \<Longrightarrow> b \<in> alignments \<Longrightarrow> a \<le> b \<Longrightarrow> a dvd b"
  by (auto simp add: alignments_def)

lemma alignments_max: "a \<in> alignments \<Longrightarrow> b \<in> alignments \<Longrightarrow> max a b \<in> alignments"
  by (simp add: max_def)

lemma fold_max_alignments:
  assumes "\<And>t. t \<in> set ts \<Longrightarrow> f t \<in> alignments \<and> g t \<in> alignments \<and> f t \<le> (g t :: nat)"
    "a \<in> alignments" "b \<in> alignments" "a \<le> b"
  shows "fold max (map f ts) a \<in> alignments \<and> fold max (map g ts) b \<in> alignments \<and>
    fold max (map f ts) a \<le> fold max (map g ts) b"
  using assms
proof (induction ts arbitrary: a b)
  case (Cons t ts)
  have t: "f t \<in> alignments" "g t \<in> alignments" "f t \<le> g t" using Cons.prems(1) [of t] by simp_all
  have "fold max (map f ts) (max (f t) a) \<in> alignments \<and> fold max (map g ts) (max (g t) b) \<in> alignments \<and>
      fold max (map f ts) (max (f t) a) \<le> fold max (map g ts) (max (g t) b)"
    using Cons.prems(1) by (intro Cons.IH alignments_max t Cons.prems(2,3) max.mono Cons.prems(4)) simp
  then show ?case by simp
qed simp

lemma tight_alignof:
  assumes "amax \<in> {1, 2, 4, 8}" "tight t"
  shows "alignof amax t \<in> alignments \<and> alignof 8 t \<in> alignments \<and> alignof amax t \<le> alignof 8 t"
  using assms(2)
proof (induction t)
  case (Scalar n)
  then show ?case using assms(1) by (auto simp add: alignments_def)
next
  case (Struct ts)
  have "1 \<in> alignments" by (simp add: alignments_def)
  then show ?case using Struct fold_max_alignments [of ts "alignof amax" "alignof 8" 1 1]
    by (simp add: list_all_iff)
next
  case (Union ts)
  have "1 \<in> alignments" by (simp add: alignments_def)
  then show ?case using Union fold_max_alignments [of ts "alignof amax" "alignof 8" 1 1]
    by (simp add: list_all_iff)
next
  case (Aligned n t)
  then have "n \<in> alignments" by (simp add: alignments_def)
  moreover have "max n (alignof amax t) \<le> max n (alignof 8 t)" using Aligned by (intro max.mono) auto
  ultimately show ?case using Aligned alignments_max [of n] by simp
qed (simp_all add: alignments_def)

lemma tight_alignof_dvd: "amax \<in> {1, 2, 4, 8} \<Longrightarrow> tight t \<Longrightarrow> alignof amax t dvd alignof 8 t"
  using tight_alignof alignments_le_dvd by blast

lemma tight_align_up:
  assumes "amax \<in> {1, 2, 4, 8}" "tight t" "alignof 8 t dvd n"
  shows "align_up (alignof amax t) n = n"
proof (rule align_up_idem)
  have "0 \<notin> alignments" by (simp add: alignments_def)
  then show "0 < alignof amax t" using tight_alignof [OF assms(1,2)] by (metis gr0I)
  show "alignof amax t dvd n" using tight_alignof_dvd [OF assms(1,2)] assms(3) by (rule dvd_trans)
qed

lemma gapless_size:
  assumes "amax \<in> {1, 2, 4, 8}" "list_all tight ts" "gapless ts off"
    "\<And>t. t \<in> set ts \<Longrightarrow> sizeof amax t = sizeof 8 t"
  shows "fold (\<lambda>(a, s) off. align_up a off + s) (map (\<lambda>t. (alignof amax t, sizeof amax t)) ts) off =
    off + sum_list (map (sizeof 8) ts)"
  using assms(2-4) by (induction ts arbitrary: off) (auto simp add: tight_align_up [OF assms(1)])

lemma tight_sizeof:
  assumes "amax \<in> {1, 2, 4, 8}" "tight t"
  shows "sizeof amax t = sizeof 8 t"
  using assms(2)
proof (induction t)
  case (Struct ts)
  then have ts: "list_all tight ts" "gapless ts 0" "\<And>t. t \<in> set ts \<Longrightarrow> sizeof amax t = sizeof 8 t"
    by (simp_all add: list_all_iff)
  have "fold (\<lambda>(a, s) off. align_up a off + s) (map (\<lambda>t. (alignof m t, sizeof m t)) ts) 0 =
      sum_list (map (sizeof 8) ts)" if "m = amax \<or> m = 8" for m
    using that gapless_size [of m ts 0] ts assms(1) by auto
  moreover have "align_up (alignof m (Struct ts)) (sum_list (map (sizeof 8) ts)) = sum_list (map (sizeof 8) ts)"
    if "m = amax \<or> m = 8" for m
    using that tight_align_up [of m "Struct ts"] Struct.prems assms(1) by auto
  ultimately show ?case by simp
next
  case (Union ts)
  then have sizes: "map (sizeof amax) ts = map (sizeof 8) ts" by (simp add: list_all_iff)
  moreover have "align_up (alignof m (Union ts)) (fold max (map (sizeof 8) ts) 0) = fold max (map (sizeof 8) ts) 0"
    if "m = amax \<or> m = 8" for m
    using that tight_align_up [of m "Union ts"] Union.prems assms(1) by auto
  ultimately show ?case by (metis sizeof.simps(4))
next
  case (Packed ts)
  then have "map (sizeof amax) ts = map (sizeof 8) ts" by (simp add: list_all_iff)
  then show ?case by (simp only: sizeof.simps)
next
  case (Aligned n t)
  have "align_up (alignof m (Aligned n t)) (sizeof 8 t) = sizeof 8 t" if "m = amax \<or> m = 8" for m
    using that tight_align_up [of m "Aligned n t"] Aligned.prems assms(1) by auto
  then show ?case using Aligned by simp
qed simp_all

lemma tight_leaves_struct:
  assumes "amax \<in> {1, 2, 4, 8}" "list_all tight ts" "gapless ts off"
    "\<And>t p. t \<in> set ts \<Longrightarrow> leaves amax p t = leaves 8 p t"
  shows "leaves_struct amax p off ts = leaves_struct 8 p off ts"
  using assms(2-4)
  by (induction ts arbitrary: off)
    (simp_all add: tight_align_up [OF assms(1)] tight_align_up [of 8] tight_sizeof [OF assms(1)])

lemma leaves_union_cong:
  "(\<And>t. t \<in> set ts \<Longrightarrow> leaves a p t = leaves b p t) \<Longrightarrow> leaves_union a p ts = leaves_union b p ts"
  by (induction ts) simp_all

lemma leaves_packed_cong:
  "(\<And>t p. t \<in> set ts \<Longrightarrow> leaves a p t = leaves b p t \<and> sizeof a t = sizeof b t) \<Longrightarrow>
    leaves_packed a p ts = leaves_packed b p ts"
  by (induction ts arbitrary: p) simp_all

lemma tight_leaves:
  assumes "amax \<in> {1, 2, 4, 8}" "tight t"
  shows "leaves amax p t = leaves 8 p t"
  using assms(2)
proof (induction t arbitrary: p)
  case (Arr t n)
  then show ?case by (simp add: tight_sizeof [OF assms(1)])
next
  case (Struct ts)
  then show ?case using tight_leaves_struct [OF assms(1), of ts 0] by (simp add: list_all_iff)
next
  case (Union ts)
  then show ?case using leaves_union_cong [of ts amax p 8] by (simp add: list_all_iff)
next
  case (Packed ts)
  then show ?case using leaves_packed_cong [of ts amax 8] tight_sizeof [OF assms(1)] by (simp add: list_all_iff)
qed simp_all

text \<open>The bytes of a range are covered by scalars.\<close>

definition covered :: "(nat \<times> nat) list \<Rightarrow> nat \<Rightarrow> nat \<Rightarrow> bool" where
  "covered ls p n \<longleftrightarrow> (\<forall>i. p \<le> i \<and> i < p + n \<longrightarrow> (\<exists>x \<in> set ls. fst x \<le> i \<and> i < fst x + snd x))"

lemma covered_none [simp]: "covered ls p 0"
  by (auto simp add: covered_def)

lemma coveredD: "covered ls p n \<Longrightarrow> p \<le> i \<Longrightarrow> i < p + n \<Longrightarrow> \<exists>x \<in> set ls. fst x \<le> i \<and> i < fst x + snd x"
  by (simp add: covered_def)

lemma coveredI:
  "(\<And>i. p \<le> i \<Longrightarrow> i < p + n \<Longrightarrow> \<exists>x \<in> set ls. fst x \<le> i \<and> i < fst x + snd x) \<Longrightarrow> covered ls p n"
  by (simp add: covered_def)

lemma covered_mono: "covered ls p n \<Longrightarrow> set ls \<subseteq> set ks \<Longrightarrow> covered ks p n"
  unfolding covered_def by blast

lemma covered_append:
  assumes "covered ls p a" "covered ks (p + a) b"
  shows "covered (ls @ ks) p (a + b)"
proof (rule coveredI)
  fix i
  assume "p \<le> i" "i < p + (a + b)"
  then show "\<exists>x \<in> set (ls @ ks). fst x \<le> i \<and> i < fst x + snd x"
    using coveredD [OF assms(1), of i] coveredD [OF assms(2), of i]
    by (cases "i < p + a") (auto simp add: add.assoc)
qed

lemma covered_repeat:
  assumes "\<And>p. covered (f p) p n"
  shows "covered (concat (map (\<lambda>i. f (p + i * n)) [0..<k])) p (k * n)"
proof (induction k)
  case (Suc k)
  have "covered (concat (map (\<lambda>i. f (p + i * n)) [0..<k]) @ f (p + k * n)) p (k * n + n)"
    using Suc assms by (intro covered_append) simp_all
  then show ?case by (simp add: add.commute)
qed simp

lemma covered_struct:
  assumes "list_all tight ts" "gapless ts off" "\<And>t p. t \<in> set ts \<Longrightarrow> covered (leaves 8 p t) p (sizeof 8 t)"
  shows "covered (leaves_struct 8 p off ts) (p + off) (sum_list (map (sizeof 8) ts))"
  using assms
proof (induction ts arbitrary: off)
  case (Cons t ts)
  then have "align_up (alignof 8 t) off = off" using tight_align_up [of 8 t off] by simp
  moreover have "covered (leaves 8 (p + off) t) (p + off) (sizeof 8 t)" using Cons.prems(3) by simp
  moreover have "covered (leaves_struct 8 p (off + sizeof 8 t) ts) (p + off + sizeof 8 t) (sum_list (map (sizeof 8) ts))"
    using Cons.IH [of "off + sizeof 8 t"] Cons.prems by (simp add: add.assoc)
  ultimately show ?case by (simp add: covered_append)
qed simp

lemma covered_packed:
  assumes "\<And>t p. t \<in> set ts \<Longrightarrow> covered (leaves 8 p t) p (sizeof 8 t)"
  shows "covered (leaves_packed 8 p ts) p (sum_list (map (sizeof 8) ts))"
  using assms by (induction ts arbitrary: p) (simp_all add: covered_append)

lemma leaves_union_member: "t \<in> set ts \<Longrightarrow> set (leaves amax p t) \<subseteq> set (leaves_union amax p ts)"
  by (induction ts) auto

lemma fold_max_member: "fold max (map f ts) (a :: nat) = a \<or> (\<exists>t \<in> set ts. fold max (map f ts) a = f t)"
proof (induction ts arbitrary: a)
  case (Cons t ts)
  then show ?case using Cons [of "max (f t) a"] by (auto simp add: max_def split: if_splits)
qed simp

lemma tight_covered:
  assumes "tight t"
  shows "covered (leaves 8 p t) p (sizeof 8 t)"
  using assms
proof (induction t arbitrary: p)
  case (Scalar n)
  then show ?case by (simp add: covered_def)
next
  case (Arr t n)
  then show ?case using covered_repeat [of "\<lambda>p. leaves 8 p t"] by simp
next
  case (Struct ts)
  then have "sizeof 8 (Struct ts) = sum_list (map (sizeof 8) ts)"
    using gapless_size [of 8 ts 0] tight_align_up [of 8 "Struct ts"] by simp
  then show ?case using covered_struct [of ts 0 p] Struct by (simp add: list_all_iff)
next
  case (Union ts)
  then have u: "sizeof 8 (Union ts) = fold max (map (sizeof 8) ts) 0"
    using tight_align_up [of 8 "Union ts"] by simp
  show ?case
  proof (cases "fold max (map (sizeof 8) ts) 0 = 0")
    case False
    then obtain t where t: "t \<in> set ts" "fold max (map (sizeof 8) ts) 0 = sizeof 8 t"
      using fold_max_member [of "sizeof 8" ts 0] by auto
    then have "covered (leaves 8 p t) p (sizeof 8 t)" using Union by (simp add: list_all_iff)
    then show ?thesis
      unfolding u t(2) leaves.simps using leaves_union_member [OF t(1)] by (rule covered_mono)
  qed (simp only: u covered_none)
next
  case (Packed ts)
  then show ?case using covered_packed [of ts p] by (simp add: list_all_iff)
next
  case (Aligned n t)
  then have "sizeof 8 (Aligned n t) = sizeof 8 t"
    using tight_align_up [of 8 "Aligned n t"] by simp
  then show ?case using Aligned by simp
qed

text \<open>What a tight declaration gives.\<close>

definition same_everywhere :: "ctype \<Rightarrow> bool" where
  "same_everywhere t \<longleftrightarrow> (\<forall>amax \<in> {1, 2, 4, 8}. sizeof amax t = sizeof 8 t \<and> leaves amax 0 t = leaves 8 0 t)"

theorem tight_layout: "tight t \<Longrightarrow> same_everywhere t"
  unfolding same_everywhere_def using tight_sizeof tight_leaves by blast

theorem tight_no_padding: "tight t \<Longrightarrow> amax \<in> {1, 2, 4, 8} \<Longrightarrow> covered (leaves amax p t) p (sizeof amax t)"
  using tight_covered [of t p] tight_leaves [of amax t p] tight_sizeof [of amax t] by simp

section \<open>Types that two ABIs lay out alike\<close>

text \<open>
  A type with padding may still have every member at the same place. \<open>agree\<close> decides it without listing
  the scalars: the members start at the same offsets, and the elements of arrays have the same size.
\<close>

fun agree :: "nat \<Rightarrow> ctype \<Rightarrow> bool" where
  "agree amax (Scalar n) = True"
| "agree amax (Arr t n) = (n = 0 \<or> agree amax t \<and> sizeof amax t = sizeof 8 t)"
| "agree amax (Struct ts) = (offsets amax ts 0 = offsets 8 ts 0 \<and> list_all (agree amax) ts)"
| "agree amax (Union ts) = list_all (agree amax) ts"
| "agree amax (Packed ts) = list_all (\<lambda>t. agree amax t \<and> sizeof amax t = sizeof 8 t) ts"
| "agree amax (Aligned n t) = agree amax t"

lemma leaves_struct_offsets:
  "leaves_struct amax p off ts = concat (map (\<lambda>(q, t). leaves amax (p + q) t) (zip (offsets amax ts off) ts))"
  by (induction ts arbitrary: off) simp_all

lemma agree_leaves: "agree amax t \<Longrightarrow> leaves amax p t = leaves 8 p t"
proof (induction t arbitrary: p)
  case (Struct ts)
  then have "map (\<lambda>(q, t). leaves amax (p + q) t) (zip (offsets 8 ts 0) ts) =
      map (\<lambda>(q, t). leaves 8 (p + q) t) (zip (offsets 8 ts 0) ts)"
    by (auto simp add: list_all_iff dest: set_zip_rightD)
  then show ?case using Struct.prems by (metis agree.simps(3) leaves.simps(3) leaves_struct_offsets)
next
  case (Union ts)
  then show ?case using leaves_union_cong [of ts amax p 8] by (simp add: list_all_iff)
next
  case (Packed ts)
  then show ?case using leaves_packed_cong [of ts amax 8] by (simp add: list_all_iff)
qed auto

end
