(* ===== verification/Cec_Ioctl.thy ===== *)
theory Cec_Ioctl
  imports Ioctl C_Layout
begin

text \<open>
  The ioctl interface of \<^verbatim>\<open>include/linux/cec.h\<close>: the structures that cross it, as C types, and the
  eleven request numbers. A request number contains the size of its structure, so it depends on the
  layout of the number (\<open>Ioctl\<close>) and on the largest alignment of the ABI (\<open>C_Layout\<close>).
\<close>

section \<open>The structures\<close>

definition struct_cec_msg :: ctype where
  "struct_cec_msg = Struct [
     u64_t, u64_t,
     u32_t, u32_t, u32_t, u32_t,
     Arr u8_t 16,
     u8_t, u8_t, u8_t, u8_t, u8_t, u8_t, u8_t]"

definition struct_cec_caps :: ctype where
  "struct_cec_caps = Struct [Arr u8_t 32, Arr u8_t 32, u32_t, u32_t, u32_t]"

definition struct_cec_log_addrs :: ctype where
  "struct_cec_log_addrs = Struct [
     Arr u8_t 4,
     u16_t,
     u8_t,
     u8_t,
     u32_t,
     u32_t,
     Arr u8_t 15,
     Arr u8_t 4,
     Arr u8_t 4,
     Arr u8_t 4,
     Arr (Arr u8_t 12) 4]"

definition struct_cec_drm_connector_info :: ctype where
  "struct_cec_drm_connector_info = Struct [u32_t, u32_t]"

definition struct_cec_connector_info :: ctype where
  "struct_cec_connector_info = Struct [
     u32_t,
     Union [struct_cec_drm_connector_info, Arr u32_t 16]]"

definition struct_cec_event_state_change :: ctype where
  "struct_cec_event_state_change = Struct [u16_t, u16_t, u16_t]"

definition struct_cec_event_lost_msgs :: ctype where
  "struct_cec_event_lost_msgs = Struct [u32_t]"

definition struct_cec_event :: ctype where
  "struct_cec_event = Struct [
     u64_t,
     u32_t,
     u32_t,
     Union [struct_cec_event_state_change, struct_cec_event_lost_msgs, Arr u32_t 16]]"

section \<open>The requests\<close>

text \<open>The type character of the CEC framework is \<^verbatim>\<open>'a'\<close>.\<close>

definition CEC_ADAP_G_CAPS :: "ioc_layout \<Rightarrow> nat \<Rightarrow> 'l::len word" where
  "CEC_ADAP_G_CAPS L amax = IOWR L 0x61 0 (word_of_nat (sizeof amax struct_cec_caps))"

definition CEC_ADAP_G_PHYS_ADDR :: "ioc_layout \<Rightarrow> nat \<Rightarrow> 'l::len word" where
  "CEC_ADAP_G_PHYS_ADDR L amax = IOR L 0x61 1 (word_of_nat (sizeof amax u16_t))"

definition CEC_ADAP_S_PHYS_ADDR :: "ioc_layout \<Rightarrow> nat \<Rightarrow> 'l::len word" where
  "CEC_ADAP_S_PHYS_ADDR L amax = IOW L 0x61 2 (word_of_nat (sizeof amax u16_t))"

definition CEC_ADAP_G_LOG_ADDRS :: "ioc_layout \<Rightarrow> nat \<Rightarrow> 'l::len word" where
  "CEC_ADAP_G_LOG_ADDRS L amax = IOR L 0x61 3 (word_of_nat (sizeof amax struct_cec_log_addrs))"

definition CEC_ADAP_S_LOG_ADDRS :: "ioc_layout \<Rightarrow> nat \<Rightarrow> 'l::len word" where
  "CEC_ADAP_S_LOG_ADDRS L amax = IOWR L 0x61 4 (word_of_nat (sizeof amax struct_cec_log_addrs))"

definition CEC_TRANSMIT :: "ioc_layout \<Rightarrow> nat \<Rightarrow> 'l::len word" where
  "CEC_TRANSMIT L amax = IOWR L 0x61 5 (word_of_nat (sizeof amax struct_cec_msg))"

definition CEC_RECEIVE :: "ioc_layout \<Rightarrow> nat \<Rightarrow> 'l::len word" where
  "CEC_RECEIVE L amax = IOWR L 0x61 6 (word_of_nat (sizeof amax struct_cec_msg))"

definition CEC_DQEVENT :: "ioc_layout \<Rightarrow> nat \<Rightarrow> 'l::len word" where
  "CEC_DQEVENT L amax = IOWR L 0x61 7 (word_of_nat (sizeof amax struct_cec_event))"

definition CEC_G_MODE :: "ioc_layout \<Rightarrow> nat \<Rightarrow> 'l::len word" where
  "CEC_G_MODE L amax = IOR L 0x61 8 (word_of_nat (sizeof amax u32_t))"

definition CEC_S_MODE :: "ioc_layout \<Rightarrow> nat \<Rightarrow> 'l::len word" where
  "CEC_S_MODE L amax = IOW L 0x61 9 (word_of_nat (sizeof amax u32_t))"

definition CEC_ADAP_G_CONNECTOR_INFO :: "ioc_layout \<Rightarrow> nat \<Rightarrow> 'l::len word" where
  "CEC_ADAP_G_CONNECTOR_INFO L amax = IOR L 0x61 10 (word_of_nat (sizeof amax struct_cec_connector_info))"

definition cec_requests :: "ioc_layout \<Rightarrow> nat \<Rightarrow> 'l::len word list" where
  "cec_requests L amax = [CEC_ADAP_G_CAPS L amax,
     CEC_ADAP_G_PHYS_ADDR L amax,
     CEC_ADAP_S_PHYS_ADDR L amax,
     CEC_ADAP_G_LOG_ADDRS L amax,
     CEC_ADAP_S_LOG_ADDRS L amax,
     CEC_TRANSMIT L amax,
     CEC_RECEIVE L amax,
     CEC_DQEVENT L amax,
     CEC_G_MODE L amax,
     CEC_S_MODE L amax,
     CEC_ADAP_G_CONNECTOR_INFO L amax]"

lemmas struct_defs = struct_cec_msg_def struct_cec_caps_def struct_cec_log_addrs_def
  struct_cec_drm_connector_info_def struct_cec_connector_info_def struct_cec_event_state_change_def
  struct_cec_event_lost_msgs_def struct_cec_event_def

lemmas request_defs = CEC_ADAP_G_CAPS_def CEC_ADAP_G_PHYS_ADDR_def CEC_ADAP_S_PHYS_ADDR_def
  CEC_ADAP_G_LOG_ADDRS_def CEC_ADAP_S_LOG_ADDRS_def CEC_TRANSMIT_def
  CEC_RECEIVE_def CEC_DQEVENT_def CEC_G_MODE_def
  CEC_S_MODE_def CEC_ADAP_G_CONNECTOR_INFO_def

text \<open>The sizes are the same for every ABI: the structures have no padding that depends on it.\<close>

definition cec_sizes :: "nat \<Rightarrow> nat list" where
  "cec_sizes amax = map (sizeof amax) [struct_cec_msg, struct_cec_caps, struct_cec_log_addrs,
     struct_cec_event, struct_cec_connector_info]"

lemma cec_sizes_2: "cec_sizes 2 = [56, 76, 92, 80, 68]"
  by code_simp

lemma cec_sizes_4: "cec_sizes 4 = [56, 76, 92, 80, 68]"
  by code_simp

lemma cec_sizes_8: "cec_sizes 8 = [56, 76, 92, 80, 68]"
  by code_simp

lemma cec_sizes:
  assumes "amax \<in> {2, 4, 8}"
  shows "sizeof amax struct_cec_msg = 56" "sizeof amax struct_cec_caps = 76"
    "sizeof amax struct_cec_log_addrs = 92" "sizeof amax struct_cec_event = 80"
    "sizeof amax struct_cec_connector_info = 68"
  using assms cec_sizes_2 cec_sizes_4 cec_sizes_8
  by (auto simp add: cec_sizes_def simp del: sizeof.simps)

lemma sparc_IOC_eq: "sparc_IOC = IOC sparc_ioc"
  by (simp add: fun_eq_iff sparc_IOC_def IOC_def)

lemma IOC_NR_any:
  assumes "fits 8 n" "8 \<le> LENGTH('l)"
  shows "IOC_NR L (IOC L d t n s :: 'l::len word) = ucast n"
  using assms(2) unfolding IOC_def ioc_defs
  by (intro bit_word_eqI) (auto simp add: bit_simps dest: fits_bitD [OF assms(1)])

lemmas direction_defs = IOR_def IOW_def IOWR_def

lemma request_size:
  assumes "wf_ioc L" "ioc_valid L d t n s" "32 \<le> LENGTH('l)"
  shows "IOC_SIZE L (IOC L d t n s :: 'l::len word) = s"
  using ioctl_number.size_ok [OF ioc_contract [OF assms(1,3)] assms(2)] by simp

lemma fits_or: "fits n a \<Longrightarrow> fits n b \<Longrightarrow> fits n (a OR b)"
  by (auto simp add: fits_bits bit_simps)

lemma wf_directions:
  assumes "wf_ioc L"
  shows "fits (IOC_DIRBITS L) (IOC_READ L)" "fits (IOC_DIRBITS L) (IOC_WRITE L)"
    "fits (IOC_DIRBITS L) (IOC_READ L OR IOC_WRITE L)"
  using assms by (simp_all add: wf_ioc_def fits_or)

section \<open>Properties\<close>

text \<open>
  The eleven requests have different numbers, on every layout of request numbers (sparc's
  overlapping one too), every alignment rule and both widths of \<^verbatim>\<open>unsigned long\<close>.
\<close>

theorem cec_requests_distinct:
  assumes "32 \<le> LENGTH('l)"
  shows "distinct (cec_requests L amax :: 'l::len word list)"
proof -
  have w: "8 \<le> LENGTH('l)" using assms by simp
  have "map (IOC_NR L) (cec_requests L amax :: 'l word list) =
      map ucast [0 :: u32, 1, 2, 3, 4, 5, 6, 7, 8, 9, 10]"
    by (simp add: cec_requests_def request_defs direction_defs IOC_NR_any w fits_def)
  moreover have inj: "inj (ucast :: u32 \<Rightarrow> 'l word)"
    using ucast_fits_inject [of 32, where ?'a = 32 and ?'b = 'l] assms by (intro injI) (simp add: fits_width)
  have "distinct (map (ucast :: u32 \<Rightarrow> 'l word) [0, 1, 2, 3, 4, 5, 6, 7, 8, 9, 10])"
    unfolding distinct_map by (rule conjI) (simp, rule inj_on_subset [OF inj subset_UNIV])
  ultimately show ?thesis by (metis distinct_map)
qed

theorem cec_requests_distinct_witness: "distinct (cec_requests sparc_ioc 8 :: u64 list)"
  by (rule cec_requests_distinct) simp

text \<open>
  The size the kernel decodes from a CEC request is the size of the structure the caller passes, on
  the architectures with generic macros and for every alignment rule: 32-bit and 64-bit programs use
  the same requests.
\<close>

theorem cec_requests_carry_sizes:
  assumes "L \<in> {generic_ioc, mips_ioc, powerpc_ioc, parisc_ioc, alpha_ioc}" "amax \<in> {2, 4, 8}"
  shows "map (IOC_SIZE L) (cec_requests L amax :: u64 list) =
    [76, 2, 2, 92, 92, 56, 56, 80, 4, 4, 68]"
proof -
  have wf: "wf_ioc L" using assms(1) wf_layouts by auto
  have sb: "13 \<le> IOC_SIZEBITS L"
    using assms(1) by (auto simp add: generic_ioc_def mips_ioc_def powerpc_ioc_def parisc_ioc_def
        alpha_ioc_def)
  have f: "fits (IOC_SIZEBITS L) (numeral k :: u64)" if "fits 13 (numeral k :: u64)" for k
    using that sb by (rule fits_mono)
  show ?thesis
    by (simp add: cec_requests_def request_defs direction_defs cec_sizes [OF assms(2)]
        request_size [OF wf] ioc_valid_def wf_directions [OF wf] f fits_def [of 8] fits_def [of 13])
qed

theorem cec_requests_carry_sizes_witness:
  "map (IOC_SIZE parisc_ioc) (cec_requests parisc_ioc 4 :: u64 list) =
    [76, 2, 2, 92, 92, 56, 56, 80, 4, 4, 68]"
  by (rule cec_requests_carry_sizes) simp_all

text \<open>The request numbers on the default layout, as programs compiled against it contain them.\<close>

theorem cec_requests_generic:
  assumes "amax \<in> {2, 4, 8}"
  shows "cec_requests generic_ioc amax = [0xc04c6100, 0x80026101, 0x40026102, 0x805c6103, 0xc05c6104,
    0xc0386105, 0xc0386106, 0xc0506107, 0x80046108, 0x40046109, 0x8044610a :: u32]"
  by (simp add: cec_requests_def request_defs direction_defs cec_sizes [OF assms] IOC_def
      generic_ioc_def ioc_defs)

theorem cec_requests_generic_witness:
  "cec_requests generic_ioc 8 = [0xc04c6100, 0x80026101, 0x40026102, 0x805c6103, 0xc05c6104,
    0xc0386105, 0xc0386106, 0xc0506107, 0x80046108, 0x40046109, 0x8044610a :: u32]"
  by (rule cec_requests_generic) simp

end
