(* ===== verification/Uapi_Memory.thy ===== *)
theory Uapi_Memory
  imports Uapi_Prelude
begin

text \<open>
  How a C object of an integer type lies in memory: the bytes of a word in the byte order of the
  host, words read from and written to a byte array at an offset, and the two contracts about
  bytes that the headers on byte order promise.

  \<open>byte_reversal\<close> is the contract of every byte-swapping routine (\<^verbatim>\<open>include/linux/swab.h\<close> and the
  architectures' \<^verbatim>\<open>asm/swab.h\<close>); \<open>byte_order\<close> is the contract of the conversions between the host's
  order and a fixed one (\<^verbatim>\<open>include/linux/byteorder\<close>).
\<close>

section \<open>The bytes of a word\<close>

definition byte_of :: "nat \<Rightarrow> 'a::len word \<Rightarrow> u8" where
  "byte_of i w = ucast (drop_bit (8 * i) w)"

definition le_bytes :: "'a::len word \<Rightarrow> u8 list" where
  "le_bytes w = map (\<lambda>i. byte_of i w) [0..<LENGTH('a) div 8]"

fun le_word :: "u8 list \<Rightarrow> 'a::len word" where
  "le_word [] = 0"
| "le_word (b # bs) = ucast b OR push_bit 8 (le_word bs)"

definition order_bytes :: "endian \<Rightarrow> u8 list \<Rightarrow> u8 list" where
  "order_bytes e bs = (case e of Little \<Rightarrow> bs | Big \<Rightarrow> rev bs)"

definition bytes_of :: "endian \<Rightarrow> 'a::len word \<Rightarrow> u8 list" where
  "bytes_of e w = order_bytes e (le_bytes w)"

definition word_of_bytes :: "endian \<Rightarrow> u8 list \<Rightarrow> 'a::len word" where
  "word_of_bytes e bs = le_word (order_bytes e bs)"

lemma length_order_bytes [simp]: "length (order_bytes e bs) = length bs"
  by (simp add: order_bytes_def split: endian.split)

lemma order_bytes_idem [simp]: "order_bytes e (order_bytes e bs) = bs"
  by (simp add: order_bytes_def split: endian.split)

lemma rev_order_bytes: "rev (order_bytes e bs) = order_bytes e (rev bs)"
  by (simp add: order_bytes_def split: endian.split)

lemma length_le_bytes [simp]: "length (le_bytes (w :: 'a::len word)) = LENGTH('a) div 8"
  by (simp add: le_bytes_def)

lemma length_bytes_of [simp]: "length (bytes_of e (w :: 'a::len word)) = LENGTH('a) div 8"
  by (simp add: bytes_of_def)

lemma bit_byte_of: "bit (byte_of i w) k \<longleftrightarrow> k < 8 \<and> bit w (8 * i + k)"
  by (auto simp add: byte_of_def bit_simps dest: bit_imp_le_length)

lemma nth_le_bytes:
  "i < LENGTH('a) div 8 \<Longrightarrow> le_bytes (w :: 'a::len word) ! i = byte_of i w"
  by (simp add: le_bytes_def)

lemma bit_le_word:
  "bit (le_word bs :: 'a::len word) n \<longleftrightarrow>
    n < LENGTH('a) \<and> n div 8 < length bs \<and> bit (bs ! (n div 8)) (n mod 8)"
proof (induction bs arbitrary: n)
  case (Cons b bs)
  show ?case
  proof (cases "n < 8")
    case True
    then show ?thesis by (auto simp add: bit_simps dest: bit_imp_le_length)
  next
    case False
    then have "\<not> bit b n" by (auto dest: bit_imp_le_length)
    moreover obtain m where "n = m + 8" using False by (metis le_add_diff_inverse2 not_less)
    moreover have "(m + 8) div 8 = Suc (m div 8)" by simp
    ultimately show ?thesis using Cons.IH [of m]
      by (auto simp add: bit_simps simp del: div_add_self2)
  qed
qed simp

lemma le_word_bytes:
  assumes "8 dvd LENGTH('a)"
  shows "le_word (le_bytes w) = (w :: 'a::len word)"
proof (rule bit_word_eqI)
  fix n assume n: "n < LENGTH('a)"
  with assms have "n div 8 < LENGTH('a) div 8" by (metis dvd_div_mult_self less_mult_imp_div_less)
  with n show "bit (le_word (le_bytes w) :: 'a word) n \<longleftrightarrow> bit w n"
    by (simp add: bit_le_word nth_le_bytes bit_byte_of)
qed

lemma le_bytes_word:
  assumes "length bs = LENGTH('a) div 8"
  shows "le_bytes (le_word bs :: 'a::len word) = bs"
proof (rule nth_equalityI)
  fix i assume "i < length (le_bytes (le_word bs :: 'a word))"
  then have i: "i < LENGTH('a) div 8" by simp
  have "byte_of i (le_word bs :: 'a word) = bs ! i"
  proof (rule bit_word_eqI)
    fix k :: nat assume "k < LENGTH(8)"
    moreover from i this have "8 * i + k < LENGTH('a)" by simp
    ultimately show "bit (byte_of i (le_word bs :: 'a word)) k \<longleftrightarrow> bit (bs ! i) k"
      using i assms by (simp add: bit_byte_of bit_le_word)
  qed
  with i show "le_bytes (le_word bs :: 'a word) ! i = bs ! i" by (simp add: nth_le_bytes)
qed (simp add: assms)

lemma word_of_bytes_of:
  "8 dvd LENGTH('a) \<Longrightarrow> word_of_bytes e (bytes_of e w) = (w :: 'a::len word)"
  by (simp add: word_of_bytes_def bytes_of_def le_word_bytes)

lemma bytes_of_word_of:
  "length bs = LENGTH('a) div 8 \<Longrightarrow> bytes_of e (word_of_bytes e bs :: 'a::len word) = bs"
  by (simp add: word_of_bytes_def bytes_of_def le_bytes_word)

lemma bytes_of_inject:
  "8 dvd LENGTH('a) \<Longrightarrow> bytes_of e v = bytes_of e w \<longleftrightarrow> v = (w :: 'a::len word)"
  by (metis word_of_bytes_of)

lemma bytes_of_flip: "bytes_of Big w = rev (bytes_of Little w)"
  by (simp add: bytes_of_def order_bytes_def)

section \<open>Words in a byte array\<close>

definition load :: "endian \<Rightarrow> u8 list \<Rightarrow> nat \<Rightarrow> 'a::len word option" where
  "load e mem off = map_option (word_of_bytes e) (rdn mem off (LENGTH('a) div 8))"

definition store :: "endian \<Rightarrow> u8 list \<Rightarrow> nat \<Rightarrow> 'a::len word \<Rightarrow> u8 list option" where
  "store e mem off w = wrn mem off (bytes_of e w)"

lemma store_in:
  "off + LENGTH('a) div 8 \<le> length mem \<Longrightarrow> store e mem off (w :: 'a::len word) =
    Some (take off mem @ bytes_of e w @ drop (off + LENGTH('a) div 8) mem)"
  by (simp add: store_def wrn_def)

lemma load_in:
  "off + LENGTH('a) div 8 \<le> length mem \<Longrightarrow> (load e mem off :: 'a::len word option) =
    Some (word_of_bytes e (take (LENGTH('a) div 8) (drop off mem)))"
  by (simp add: load_def rdn_def)

lemma load_store:
  assumes "8 dvd LENGTH('a)" "store e mem off (w :: 'a::len word) = Some mem'"
  shows "load e mem' off = Some w"
  using assms by (auto simp add: store_def wrn_def load_def rdn_def word_of_bytes_of split: if_splits)

lemma load_then_store:
  "off + LENGTH('a) div 8 \<le> length mem \<Longrightarrow>
    Option.bind (load e mem off :: 'a::len word option) (store e mem off) = Some mem"
  by (simp add: load_def rdn_def store_def wrn_def bytes_of_word_of)
    (metis append_take_drop_id drop_drop add.commute)

lemma load_append:
  "8 dvd LENGTH('a) \<Longrightarrow> load e (pre @ bytes_of e (w :: 'a::len word) @ post) (length pre) = Some w"
  by (simp add: load_def rdn_def word_of_bytes_of)

lemma load_append_at:
  "8 dvd LENGTH('a) \<Longrightarrow> off = length pre \<Longrightarrow>
    load e (pre @ bytes_of e (w :: 'a::len word) @ post) off = Some w"
  by (simp add: load_append)

lemma load_inside:
  assumes "off + LENGTH('a) div 8 \<le> length x"
  shows "(load en (pre @ x @ post) (length pre + off) :: 'a::len word option) = load en x off"
  using assms by (simp add: load_def rdn_def)

section \<open>The common widths\<close>

lemma upt_4: "[0..<4] = [0, 1, 2, 3::nat]"
  by code_simp

lemma upt_8: "[0..<8] = [0, 1, 2, 3, 4, 5, 6, 7::nat]"
  by code_simp

lemma le_bytes16: "le_bytes (w :: u16) = [byte_of 0 w, byte_of 1 w]"
  by (simp add: le_bytes_def upt_rec)

lemma le_bytes32: "le_bytes (w :: u32) = [byte_of 0 w, byte_of 1 w, byte_of 2 w, byte_of 3 w]"
  by (simp add: le_bytes_def upt_4)

lemma le_bytes64: "le_bytes (w :: u64) = [byte_of 0 w, byte_of 1 w, byte_of 2 w, byte_of 3 w,
    byte_of 4 w, byte_of 5 w, byte_of 6 w, byte_of 7 w]"
  by (simp add: le_bytes_def upt_8)

lemma byte_eqI:
  "(\<And>k. k < 8 \<Longrightarrow> bit v (8 * i + k) \<longleftrightarrow> bit w (8 * j + k)) \<Longrightarrow> byte_of i v = byte_of j w"
  by (rule bit_word_eqI) (simp add: bit_byte_of)

text \<open>The masks of a single byte, in the form whose bits the simplifier computes.\<close>

lemma byte_masks:
  "0x00ff = (mask 8 :: 'a::len word)"
  "0xff00 = (push_bit 8 (mask 8) :: 'a::len word)"
  "0x00ff0000 = (push_bit 16 (mask 8) :: 'a::len word)"
  "0xff000000 = (push_bit 24 (mask 8) :: 'a::len word)"
  "0x000000ff00000000 = (push_bit 32 (mask 8) :: 'a::len word)"
  "0x0000ff0000000000 = (push_bit 40 (mask 8) :: 'a::len word)"
  "0x00ff000000000000 = (push_bit 48 (mask 8) :: 'a::len word)"
  "0xff00000000000000 = (push_bit 56 (mask 8) :: 'a::len word)"
  "0xffff = (mask 16 :: 'a::len word)"
  "0xffff0000 = (push_bit 16 (mask 16) :: 'a::len word)"
  by (simp_all add: mask_numeral push_bit_eq_mult)

section \<open>Contracts\<close>

locale byte_reversal =
  fixes swap :: "'a::len word \<Rightarrow> 'a word"
  assumes whole_bytes: "8 dvd LENGTH('a)"
    and reverses: "bytes_of Little (swap w) = rev (bytes_of Little w)"
begin

lemma reverses_host: "bytes_of e (swap w) = rev (bytes_of e w)"
  by (cases e) (simp_all add: bytes_of_flip reverses)

lemma involution: "swap (swap w) = w"
proof -
  have "bytes_of Little (swap (swap w)) = bytes_of Little w" by (simp add: reverses)
  then show ?thesis by (simp add: bytes_of_inject whole_bytes)
qed

lemma inject: "swap v = swap w \<longleftrightarrow> v = w"
  using involution by metis

lemma swaps_order: "bytes_of Big (swap w) = bytes_of Little w"
  by (simp add: bytes_of_flip reverses)

lemma swaps_order': "bytes_of Little (swap w) = bytes_of Big w"
  by (simp add: bytes_of_flip reverses)

lemma reinterprets: "swap w = word_of_bytes Little (bytes_of Big w)"
  by (metis swaps_order' whole_bytes word_of_bytes_of)

text \<open>Two routines with the contract compute the same function.\<close>

lemma unique:
  assumes "\<And>w. bytes_of Little (swap' w) = rev (bytes_of Little w)"
  shows "swap' w = swap w"
  by (metis assms bytes_of_inject reverses whole_bytes)

text \<open>In-place swapping turns the object's bytes round and nothing else.\<close>

lemma swap_in_place:
  assumes "length mem = LENGTH('a) div 8"
  shows "Option.bind (load e (pre @ mem @ post) (length pre))
    (\<lambda>w. store e (pre @ mem @ post) (length pre) (swap w)) = Some (pre @ rev mem @ post)"
  using assms
  by (simp add: load_def rdn_def store_def wrn_def reverses_host bytes_of_word_of)

end

text \<open>Introduction rules: the bits of each byte of the result, for the three widths.\<close>

lemma byte_reversal16I:
  assumes "\<And>w k. k < 8 \<Longrightarrow> bit (f w) k = bit w (8 + k)"
    "\<And>w k. k < 8 \<Longrightarrow> bit (f w) (8 + k) = bit w k"
  shows "byte_reversal (f :: u16 \<Rightarrow> u16)"
  by unfold_locales (simp_all add: bytes_of_def order_bytes_def le_bytes16 assms byte_eqI)

lemma byte_reversal32I:
  assumes "\<And>w k. k < 8 \<Longrightarrow> bit (f w) k = bit w (24 + k)"
    "\<And>w k. k < 8 \<Longrightarrow> bit (f w) (8 + k) = bit w (16 + k)"
    "\<And>w k. k < 8 \<Longrightarrow> bit (f w) (16 + k) = bit w (8 + k)"
    "\<And>w k. k < 8 \<Longrightarrow> bit (f w) (24 + k) = bit w k"
  shows "byte_reversal (f :: u32 \<Rightarrow> u32)"
  by unfold_locales (simp_all add: bytes_of_def order_bytes_def le_bytes32 assms byte_eqI)

lemma byte_reversal64I:
  assumes "\<And>w k. k < 8 \<Longrightarrow> bit (f w) k = bit w (56 + k)"
    "\<And>w k. k < 8 \<Longrightarrow> bit (f w) (8 + k) = bit w (48 + k)"
    "\<And>w k. k < 8 \<Longrightarrow> bit (f w) (16 + k) = bit w (40 + k)"
    "\<And>w k. k < 8 \<Longrightarrow> bit (f w) (24 + k) = bit w (32 + k)"
    "\<And>w k. k < 8 \<Longrightarrow> bit (f w) (32 + k) = bit w (24 + k)"
    "\<And>w k. k < 8 \<Longrightarrow> bit (f w) (40 + k) = bit w (16 + k)"
    "\<And>w k. k < 8 \<Longrightarrow> bit (f w) (48 + k) = bit w (8 + k)"
    "\<And>w k. k < 8 \<Longrightarrow> bit (f w) (56 + k) = bit w k"
  shows "byte_reversal (f :: u64 \<Rightarrow> u64)"
  by unfold_locales (simp_all add: bytes_of_def order_bytes_def le_bytes64 assms byte_eqI)

locale byte_order =
  fixes host ord :: endian
    and to_ord from_ord :: "'a::len word \<Rightarrow> 'a word"
  assumes whole_bytes: "8 dvd LENGTH('a)"
    and to_bytes: "bytes_of host (to_ord w) = bytes_of ord w"
    and from_bytes: "bytes_of ord (from_ord y) = bytes_of host y"
begin

lemma from_to: "from_ord (to_ord w) = w"
  by (metis from_bytes to_bytes bytes_of_inject whole_bytes)

lemma to_from: "to_ord (from_ord y) = y"
  by (metis from_bytes to_bytes bytes_of_inject whole_bytes)

lemma store_converted:
  "store host mem off (to_ord w) = store ord mem off w"
  by (simp add: store_def to_bytes)

lemma load_converted:
  "map_option from_ord (load host mem off) = load ord mem off"
proof -
  have "from_ord (word_of_bytes host bs) = word_of_bytes ord bs"
    if "length bs = LENGTH('a) div 8" for bs
    using that from_bytes [of "word_of_bytes host bs"]
    by (metis bytes_of_word_of whole_bytes word_of_bytes_of)
  then show ?thesis by (simp add: load_def rdn_def)
qed

end

text \<open>
  The same conversions on an object in memory: \<open>to_p\<close> and \<open>from_p\<close> read it through a pointer, \<open>to_s\<close>
  and \<open>from_s\<close> convert it in place. Nothing is promised for a pointer outside the array.
\<close>

locale byte_order_mem = byte_order host ord to_ord from_ord
  for host ord and to_ord from_ord :: "'a::len word \<Rightarrow> 'a word" +
  fixes to_p from_p :: "u8 list \<Rightarrow> nat \<Rightarrow> 'a word option"
    and to_s from_s :: "u8 list \<Rightarrow> nat \<Rightarrow> u8 list option"
  assumes to_p: "to_p mem p = map_option to_ord (load host mem p)"
    and from_p: "from_p mem p = map_option from_ord (load host mem p)"
    and to_s: "p + LENGTH('a) div 8 \<le> length mem \<Longrightarrow>
      to_s mem p = Option.bind (load host mem p) (\<lambda>v. store host mem p (to_ord v))"
    and from_s: "p + LENGTH('a) div 8 \<le> length mem \<Longrightarrow>
      from_s mem p = Option.bind (load host mem p) (\<lambda>v. store host mem p (from_ord v))"
begin

lemma reads_order: "from_p mem p = load ord mem p"
  by (simp add: from_p load_converted)

lemma send_receive:
  "store host mem p (to_ord v) = Some mem' \<Longrightarrow> from_p mem' p = Some v"
  using load_store [OF whole_bytes] by (simp add: store_converted reads_order)

lemma converts_in_place:
  assumes "store host mem p (v :: 'a word) = Some mem'"
  shows "to_s mem' p = store ord mem p v"
proof -
  have l: "load host mem' p = Some v" by (rule load_store [OF whole_bytes assms])
  from assms have "p + LENGTH('a) div 8 \<le> length mem"
    and "mem' = take p mem @ bytes_of host v @ drop (p + LENGTH('a) div 8) mem"
    by (auto simp add: store_def wrn_def split: if_splits)
  with l show ?thesis by (simp add: to_s store_converted) (simp add: store_def wrn_def)
qed

lemma converts_back_in_place:
  assumes "store ord mem p (v :: 'a word) = Some mem'"
  shows "from_s mem' p = store host mem p v"
proof -
  have l: "load host mem' p = Some (to_ord v)"
    by (rule load_store [OF whole_bytes assms [folded store_converted]])
  from assms have "p + LENGTH('a) div 8 \<le> length mem"
    and "mem' = take p mem @ bytes_of ord v @ drop (p + LENGTH('a) div 8) mem"
    by (auto simp add: store_def wrn_def split: if_splits)
  with l show ?thesis by (simp add: from_s from_to) (simp add: store_def wrn_def)
qed

end

end
