(* ===== verification/Swab.thy ===== *)
theory Swab
  imports Uapi_Memory
begin

text \<open>
  The byte-swapping interface of \<^verbatim>\<open>include/linux/swab.h\<close>: the constant-folding macros, the inline
  functions with the overrides an architecture may define, the front ends that choose between a
  compiler builtin, the macro and the function, and their variants that read or change an object
  through a pointer.

  What the header leaves to others is a field of \<open>swab_config\<close>: the \<^verbatim>\<open>__arch_*\<close> functions of
  \<^verbatim>\<open>asm/swab.h\<close>, the builtins behind \<^verbatim>\<open>__HAVE_BUILTIN_BSWAP*\<close> (\<open>None\<close>: not defined) and the macros
  \<^verbatim>\<open>__SWAB_64_THRU_32__\<close> and \<^verbatim>\<open>__BITS_PER_LONG\<close>. The argument \<open>k\<close> of a front end is the answer of
  \<^verbatim>\<open>__builtin_constant_p\<close> at that call, which the compiler may give either way. A pointer is an
  offset into a byte array; \<open>host_order\<close> is the byte order in which the host reads an object.
\<close>

section \<open>The macros on constants\<close>

definition constant_swab16 :: "u16 \<Rightarrow> u16" where
  "constant_swab16 x = u16_of (
     push_bit 8 (promote16 x AND 0x00ff) OR
     drop_bit 8 (promote16 x AND 0xff00))"

definition constant_swab32 :: "u32 \<Rightarrow> u32" where
  "constant_swab32 x =
     push_bit 24 (x AND 0x000000ff) OR
     push_bit 8 (x AND 0x0000ff00) OR
     drop_bit 8 (x AND 0x00ff0000) OR
     drop_bit 24 (x AND 0xff000000)"

definition constant_swab64 :: "u64 \<Rightarrow> u64" where
  "constant_swab64 x =
     push_bit 56 (x AND 0x00000000000000ff) OR
     push_bit 40 (x AND 0x000000000000ff00) OR
     push_bit 24 (x AND 0x0000000000ff0000) OR
     push_bit 8 (x AND 0x00000000ff000000) OR
     drop_bit 8 (x AND 0x000000ff00000000) OR
     drop_bit 24 (x AND 0x0000ff0000000000) OR
     drop_bit 40 (x AND 0x00ff000000000000) OR
     drop_bit 56 (x AND 0xff00000000000000)"

definition constant_swahw32 :: "u32 \<Rightarrow> u32" where
  "constant_swahw32 x =
     push_bit 16 (x AND 0x0000ffff) OR
     drop_bit 16 (x AND 0xffff0000)"

definition constant_swahb32 :: "u32 \<Rightarrow> u32" where
  "constant_swahb32 x =
     push_bit 8 (x AND 0x00ff00ff) OR
     drop_bit 8 (x AND 0xff00ff00)"

section \<open>Configuration\<close>

record swab_config =
  host_order :: endian
  bits_per_long :: nat
  swab_64_thru_32 :: bool
  arch_swab16 :: "(u16 \<Rightarrow> u16) option"
  arch_swab32 :: "(u32 \<Rightarrow> u32) option"
  arch_swab64 :: "(u64 \<Rightarrow> u64) option"
  arch_swahw32 :: "(u32 \<Rightarrow> u32) option"
  arch_swahb32 :: "(u32 \<Rightarrow> u32) option"
  builtin_bswap16 :: "(u16 \<Rightarrow> u16) option"
  builtin_bswap32 :: "(u32 \<Rightarrow> u32) option"
  builtin_bswap64 :: "(u64 \<Rightarrow> u64) option"
  arch_swab16p :: "(u8 list \<Rightarrow> nat \<Rightarrow> u16 option) option"
  arch_swab32p :: "(u8 list \<Rightarrow> nat \<Rightarrow> u32 option) option"
  arch_swab64p :: "(u8 list \<Rightarrow> nat \<Rightarrow> u64 option) option"
  arch_swahw32p :: "(u8 list \<Rightarrow> nat \<Rightarrow> u32 option) option"
  arch_swahb32p :: "(u8 list \<Rightarrow> nat \<Rightarrow> u32 option) option"
  arch_swab16s :: "(u8 list \<Rightarrow> nat \<Rightarrow> u8 list option) option"
  arch_swab32s :: "(u8 list \<Rightarrow> nat \<Rightarrow> u8 list option) option"
  arch_swab64s :: "(u8 list \<Rightarrow> nat \<Rightarrow> u8 list option) option"
  arch_swahw32s :: "(u8 list \<Rightarrow> nat \<Rightarrow> u8 list option) option"
  arch_swahb32s :: "(u8 list \<Rightarrow> nat \<Rightarrow> u8 list option) option"

section \<open>The inline functions\<close>

definition fswab16 :: "swab_config \<Rightarrow> u16 \<Rightarrow> u16" where
  "fswab16 c val = (case arch_swab16 c of
     Some arch \<Rightarrow> arch val
   | None \<Rightarrow> constant_swab16 val)"

definition fswab32 :: "swab_config \<Rightarrow> u32 \<Rightarrow> u32" where
  "fswab32 c val = (case arch_swab32 c of
     Some arch \<Rightarrow> arch val
   | None \<Rightarrow> constant_swab32 val)"

definition fswab64 :: "swab_config \<Rightarrow> u64 \<Rightarrow> u64" where
  "fswab64 c val = (case arch_swab64 c of
     Some arch \<Rightarrow> arch val
   | None \<Rightarrow>
       if swab_64_thru_32 c then
         let h = (ucast (drop_bit 32 val) :: u32);
             l = (ucast (val AND (push_bit 32 1 - 1)) :: u32)
         in push_bit 32 (ucast (fswab32 c l)) OR ucast (fswab32 c h)
       else constant_swab64 val)"

definition fswahw32 :: "swab_config \<Rightarrow> u32 \<Rightarrow> u32" where
  "fswahw32 c val = (case arch_swahw32 c of
     Some arch \<Rightarrow> arch val
   | None \<Rightarrow> constant_swahw32 val)"

definition fswahb32 :: "swab_config \<Rightarrow> u32 \<Rightarrow> u32" where
  "fswahb32 c val = (case arch_swahb32 c of
     Some arch \<Rightarrow> arch val
   | None \<Rightarrow> constant_swahb32 val)"

section \<open>The front ends\<close>

definition swab16 :: "swab_config \<Rightarrow> bool \<Rightarrow> u16 \<Rightarrow> u16" where
  "swab16 c k x = (case builtin_bswap16 c of
     Some bswap \<Rightarrow> bswap x
   | None \<Rightarrow> if k then constant_swab16 x else fswab16 c x)"

definition swab32 :: "swab_config \<Rightarrow> bool \<Rightarrow> u32 \<Rightarrow> u32" where
  "swab32 c k x = (case builtin_bswap32 c of
     Some bswap \<Rightarrow> bswap x
   | None \<Rightarrow> if k then constant_swab32 x else fswab32 c x)"

definition swab64 :: "swab_config \<Rightarrow> bool \<Rightarrow> u64 \<Rightarrow> u64" where
  "swab64 c k x = (case builtin_bswap64 c of
     Some bswap \<Rightarrow> bswap x
   | None \<Rightarrow> if k then constant_swab64 x else fswab64 c x)"

text \<open>\<^verbatim>\<open>unsigned long\<close> is a 64-bit value whose upper half is zero where a long has 32 bits.\<close>

definition swab :: "swab_config \<Rightarrow> bool \<Rightarrow> u64 \<Rightarrow> u64" where
  "swab c k y = (if bits_per_long c = 64 then swab64 c k y else ucast (swab32 c k (ucast y)))"

definition swahw32 :: "swab_config \<Rightarrow> bool \<Rightarrow> u32 \<Rightarrow> u32" where
  "swahw32 c k x = (if k then constant_swahw32 x else fswahw32 c x)"

definition swahb32 :: "swab_config \<Rightarrow> bool \<Rightarrow> u32 \<Rightarrow> u32" where
  "swahb32 c k x = (if k then constant_swahb32 x else fswahb32 c x)"

section \<open>Through a pointer\<close>

definition swab16p :: "swab_config \<Rightarrow> bool \<Rightarrow> u8 list \<Rightarrow> nat \<Rightarrow> u16 option" where
  "swab16p c k mem p = (case arch_swab16p c of
     Some arch \<Rightarrow> arch mem p
   | None \<Rightarrow> do { v \<leftarrow> load (host_order c) mem p; Some (swab16 c k v) })"

definition swab32p :: "swab_config \<Rightarrow> bool \<Rightarrow> u8 list \<Rightarrow> nat \<Rightarrow> u32 option" where
  "swab32p c k mem p = (case arch_swab32p c of
     Some arch \<Rightarrow> arch mem p
   | None \<Rightarrow> do { v \<leftarrow> load (host_order c) mem p; Some (swab32 c k v) })"

definition swab64p :: "swab_config \<Rightarrow> bool \<Rightarrow> u8 list \<Rightarrow> nat \<Rightarrow> u64 option" where
  "swab64p c k mem p = (case arch_swab64p c of
     Some arch \<Rightarrow> arch mem p
   | None \<Rightarrow> do { v \<leftarrow> load (host_order c) mem p; Some (swab64 c k v) })"

definition swahw32p :: "swab_config \<Rightarrow> bool \<Rightarrow> u8 list \<Rightarrow> nat \<Rightarrow> u32 option" where
  "swahw32p c k mem p = (case arch_swahw32p c of
     Some arch \<Rightarrow> arch mem p
   | None \<Rightarrow> do { v \<leftarrow> load (host_order c) mem p; Some (swahw32 c k v) })"

definition swahb32p :: "swab_config \<Rightarrow> bool \<Rightarrow> u8 list \<Rightarrow> nat \<Rightarrow> u32 option" where
  "swahb32p c k mem p = (case arch_swahb32p c of
     Some arch \<Rightarrow> arch mem p
   | None \<Rightarrow> do { v \<leftarrow> load (host_order c) mem p; Some (swahb32 c k v) })"

definition swab16s :: "swab_config \<Rightarrow> bool \<Rightarrow> u8 list \<Rightarrow> nat \<Rightarrow> u8 list option" where
  "swab16s c k mem p = (case arch_swab16s c of
     Some arch \<Rightarrow> arch mem p
   | None \<Rightarrow> do { v \<leftarrow> swab16p c k mem p; store (host_order c) mem p v })"

definition swab32s :: "swab_config \<Rightarrow> bool \<Rightarrow> u8 list \<Rightarrow> nat \<Rightarrow> u8 list option" where
  "swab32s c k mem p = (case arch_swab32s c of
     Some arch \<Rightarrow> arch mem p
   | None \<Rightarrow> do { v \<leftarrow> swab32p c k mem p; store (host_order c) mem p v })"

definition swab64s :: "swab_config \<Rightarrow> bool \<Rightarrow> u8 list \<Rightarrow> nat \<Rightarrow> u8 list option" where
  "swab64s c k mem p = (case arch_swab64s c of
     Some arch \<Rightarrow> arch mem p
   | None \<Rightarrow> do { v \<leftarrow> swab64p c k mem p; store (host_order c) mem p v })"

definition swahw32s :: "swab_config \<Rightarrow> bool \<Rightarrow> u8 list \<Rightarrow> nat \<Rightarrow> u8 list option" where
  "swahw32s c k mem p = (case arch_swahw32s c of
     Some arch \<Rightarrow> arch mem p
   | None \<Rightarrow> do { v \<leftarrow> swahw32p c k mem p; store (host_order c) mem p v })"

definition swahb32s :: "swab_config \<Rightarrow> bool \<Rightarrow> u8 list \<Rightarrow> nat \<Rightarrow> u8 list option" where
  "swahb32s c k mem p = (case arch_swahb32s c of
     Some arch \<Rightarrow> arch mem p
   | None \<Rightarrow> do { v \<leftarrow> swahb32p c k mem p; store (host_order c) mem p v })"

section \<open>The macros reverse bytes\<close>

interpretation const16: byte_reversal constant_swab16
  by (rule byte_reversal16I; unfold constant_swab16_def u16_of_def promote16_def byte_masks)
    (auto simp add: bit_simps)

interpretation const32: byte_reversal constant_swab32
  by (rule byte_reversal32I; unfold constant_swab32_def byte_masks) (auto simp add: bit_simps)

interpretation const64: byte_reversal constant_swab64
  by (rule byte_reversal64I; unfold constant_swab64_def byte_masks) (auto simp add: bit_simps)

lemma fswab64_halves:
  "push_bit 32 (ucast (constant_swab32 (ucast (val AND (push_bit 32 1 - 1))))) OR
      ucast (constant_swab32 (ucast (drop_bit 32 val))) = constant_swab64 (val :: u64)"
proof -
  have m: "push_bit 32 1 - 1 = (mask 32 :: u64)" by (simp add: mask_eq_exp_minus_1 push_bit_eq_mult)
  have "byte_reversal (\<lambda>val. push_bit 32 (ucast (constant_swab32 (ucast (val AND mask 32)))) OR
      (ucast (constant_swab32 (ucast (drop_bit 32 val))) :: u64))"
    by (rule byte_reversal64I; unfold constant_swab32_def byte_masks) (auto simp add: bit_simps)
  then show ?thesis unfolding m by (intro const64.unique) (simp add: byte_reversal_def)
qed

lemma bytes_swahw32:
  "bytes_of Big (constant_swahw32 w) = (case bytes_of Big w of [a, b, c, d] \<Rightarrow> [c, d, a, b])"
  unfolding constant_swahw32_def byte_masks
  by (auto simp add: bytes_of_def order_bytes_def le_bytes32 bit_simps intro!: byte_eqI)

lemma half_masks:
  "0x00ff00ff = (mask 8 OR push_bit 16 (mask 8) :: u32)"
  "0xff00ff00 = (push_bit 8 (mask 8) OR push_bit 24 (mask 8) :: u32)"
  by (simp_all add: mask_numeral push_bit_eq_mult)

lemma bytes_swahb32:
  "bytes_of Big (constant_swahb32 w) = (case bytes_of Big w of [a, b, c, d] \<Rightarrow> [b, a, d, c])"
  unfolding constant_swahb32_def half_masks
  by (auto simp add: bytes_of_def order_bytes_def le_bytes32 bit_simps intro!: byte_eqI)

lemma bytes_of32: "\<exists>a b c d. bytes_of e (w :: u32) = [a, b, c, d]"
  by (cases e) (simp_all add: bytes_of_def order_bytes_def le_bytes32)

lemma swahw32_involution: "constant_swahw32 (constant_swahw32 w) = w"
proof -
  obtain a b c d where "bytes_of Big w = [a, b, c, d]" using bytes_of32 by blast
  then have "bytes_of Big (constant_swahw32 (constant_swahw32 w)) = bytes_of Big w"
    by (simp add: bytes_swahw32)
  then show ?thesis by (simp add: bytes_of_inject)
qed

lemma swahb32_involution: "constant_swahb32 (constant_swahb32 w) = w"
proof -
  obtain a b c d where "bytes_of Big w = [a, b, c, d]" using bytes_of32 by blast
  then have "bytes_of Big (constant_swahb32 (constant_swahb32 w)) = bytes_of Big w"
    by (simp add: bytes_swahb32)
  then show ?thesis by (simp add: bytes_of_inject)
qed

text \<open>Swapping the halves and then the bytes of each half is swapping all four bytes.\<close>

lemma swahb32_swahw32: "constant_swahb32 (constant_swahw32 w) = constant_swab32 w"
proof -
  obtain a b c d where w: "bytes_of Big w = [a, b, c, d]" using bytes_of32 by blast
  then have "bytes_of Big (constant_swahb32 (constant_swahw32 w)) = bytes_of Big (constant_swab32 w)"
    by (simp add: bytes_swahw32 bytes_swahb32 const32.reverses_host)
  then show ?thesis by (simp add: bytes_of_inject)
qed

section \<open>What the overrides must promise\<close>

text \<open>
  The contract of an architecture's \<^verbatim>\<open>asm/swab.h\<close> and of the compiler: each override that is
  defined reverses bytes (or swaps halves, or the bytes of each half); one that works through a
  pointer does it to the object there.
\<close>

locale swab_host =
  fixes c :: swab_config
  assumes ok16: "arch_swab16 c = Some f16 \<Longrightarrow> byte_reversal f16"
    and ok32: "arch_swab32 c = Some f32 \<Longrightarrow> byte_reversal f32"
    and ok64: "arch_swab64 c = Some f64 \<Longrightarrow> byte_reversal f64"
    and okhw: "arch_swahw32 c = Some fhw \<Longrightarrow> fhw x = constant_swahw32 x"
    and okhb: "arch_swahb32 c = Some fhb \<Longrightarrow> fhb x = constant_swahb32 x"
    and builtin16: "builtin_bswap16 c = Some b16 \<Longrightarrow> byte_reversal b16"
    and builtin32: "builtin_bswap32 c = Some b32 \<Longrightarrow> byte_reversal b32"
    and builtin64: "builtin_bswap64 c = Some b64 \<Longrightarrow> byte_reversal b64"
    and ok16p: "arch_swab16p c = Some p16 \<Longrightarrow>
      p16 mem p = map_option constant_swab16 (load (host_order c) mem p)"
    and ok32p: "arch_swab32p c = Some p32 \<Longrightarrow>
      p32 mem p = map_option constant_swab32 (load (host_order c) mem p)"
    and ok64p: "arch_swab64p c = Some p64 \<Longrightarrow>
      p64 mem p = map_option constant_swab64 (load (host_order c) mem p)"
    and okhwp: "arch_swahw32p c = Some phw \<Longrightarrow>
      phw mem p = map_option constant_swahw32 (load (host_order c) mem p)"
    and okhbp: "arch_swahb32p c = Some phb \<Longrightarrow>
      phb mem p = map_option constant_swahb32 (load (host_order c) mem p)"
    and ok16s: "arch_swab16s c = Some s16 \<Longrightarrow> s16 mem p =
      Option.bind (load (host_order c) mem p) (\<lambda>v. store (host_order c) mem p (constant_swab16 v))"
    and ok32s: "arch_swab32s c = Some s32 \<Longrightarrow> s32 mem p =
      Option.bind (load (host_order c) mem p) (\<lambda>v. store (host_order c) mem p (constant_swab32 v))"
    and ok64s: "arch_swab64s c = Some s64 \<Longrightarrow> s64 mem p =
      Option.bind (load (host_order c) mem p) (\<lambda>v. store (host_order c) mem p (constant_swab64 v))"
    and okhws: "arch_swahw32s c = Some shw \<Longrightarrow> shw mem p =
      Option.bind (load (host_order c) mem p) (\<lambda>v. store (host_order c) mem p (constant_swahw32 v))"
    and okhbs: "arch_swahb32s c = Some shb \<Longrightarrow> shb mem p =
      Option.bind (load (host_order c) mem p) (\<lambda>v. store (host_order c) mem p (constant_swahb32 v))"
begin

lemma fswab16_eq: "fswab16 c = constant_swab16"
  by (rule ext) (auto simp add: fswab16_def byte_reversal.reverses [OF ok16]
      intro: const16.unique split: option.split)

lemma fswab32_eq: "fswab32 c = constant_swab32"
  by (rule ext) (auto simp add: fswab32_def byte_reversal.reverses [OF ok32]
      intro: const32.unique split: option.split)

lemma fswab64_eq: "fswab64 c = constant_swab64"
proof
  show "fswab64 c x = constant_swab64 x" for x
    unfolding fswab64_def fswab32_eq Let_def fswab64_halves
    by (auto simp add: byte_reversal.reverses [OF ok64] intro: const64.unique split: option.split)
qed

lemma swab16_eq: "swab16 c k = constant_swab16"
  by (rule ext) (auto simp add: swab16_def fswab16_eq byte_reversal.reverses [OF builtin16]
      intro: const16.unique split: option.split)

lemma swab32_eq: "swab32 c k = constant_swab32"
  by (rule ext) (auto simp add: swab32_def fswab32_eq byte_reversal.reverses [OF builtin32]
      intro: const32.unique split: option.split)

lemma swab64_eq: "swab64 c k = constant_swab64"
  by (rule ext) (auto simp add: swab64_def fswab64_eq byte_reversal.reverses [OF builtin64]
      intro: const64.unique split: option.split)

lemma swahw32_eq: "swahw32 c k = constant_swahw32"
  by (rule ext) (auto simp add: swahw32_def fswahw32_def okhw split: option.split)

lemma swahb32_eq: "swahb32 c k = constant_swahb32"
  by (rule ext) (auto simp add: swahb32_def fswahb32_def okhb split: option.split)

lemma swab16p_eq: "swab16p c k mem p = map_option constant_swab16 (load (host_order c) mem p)"
  by (auto simp add: swab16p_def ok16p swab16_eq map_conv_bind_option comp_def split: option.split)

lemma swab32p_eq: "swab32p c k mem p = map_option constant_swab32 (load (host_order c) mem p)"
  by (auto simp add: swab32p_def ok32p swab32_eq map_conv_bind_option comp_def split: option.split)

lemma swab64p_eq: "swab64p c k mem p = map_option constant_swab64 (load (host_order c) mem p)"
  by (auto simp add: swab64p_def ok64p swab64_eq map_conv_bind_option comp_def split: option.split)

lemma swahw32p_eq: "swahw32p c k mem p = map_option constant_swahw32 (load (host_order c) mem p)"
  by (auto simp add: swahw32p_def okhwp swahw32_eq map_conv_bind_option comp_def split: option.split)

lemma swahb32p_eq: "swahb32p c k mem p = map_option constant_swahb32 (load (host_order c) mem p)"
  by (auto simp add: swahb32p_def okhbp swahb32_eq map_conv_bind_option comp_def split: option.split)

lemma swab16s_eq: "swab16s c k mem p =
    Option.bind (load (host_order c) mem p) (\<lambda>v. store (host_order c) mem p (constant_swab16 v))"
  by (auto simp add: swab16s_def ok16s swab16p_eq map_conv_bind_option comp_def split: option.split)

lemma swab32s_eq: "swab32s c k mem p =
    Option.bind (load (host_order c) mem p) (\<lambda>v. store (host_order c) mem p (constant_swab32 v))"
  by (auto simp add: swab32s_def ok32s swab32p_eq map_conv_bind_option comp_def split: option.split)

lemma swab64s_eq: "swab64s c k mem p =
    Option.bind (load (host_order c) mem p) (\<lambda>v. store (host_order c) mem p (constant_swab64 v))"
  by (auto simp add: swab64s_def ok64s swab64p_eq map_conv_bind_option comp_def split: option.split)

lemma swahw32s_eq: "swahw32s c k mem p =
    Option.bind (load (host_order c) mem p) (\<lambda>v. store (host_order c) mem p (constant_swahw32 v))"
  by (auto simp add: swahw32s_def okhws swahw32p_eq map_conv_bind_option comp_def split: option.split)

lemma swahb32s_eq: "swahb32s c k mem p =
    Option.bind (load (host_order c) mem p) (\<lambda>v. store (host_order c) mem p (constant_swahb32 v))"
  by (auto simp add: swahb32s_def okhbs swahb32p_eq map_conv_bind_option comp_def split: option.split)

lemma swab16s_reverses:
  "length bs = 2 \<Longrightarrow> swab16s c k (pre @ bs @ post) (length pre) = Some (pre @ rev bs @ post)"
  using const16.swap_in_place [of bs "host_order c" pre post] by (simp add: swab16s_eq)

lemma swab32s_reverses:
  "length bs = 4 \<Longrightarrow> swab32s c k (pre @ bs @ post) (length pre) = Some (pre @ rev bs @ post)"
  using const32.swap_in_place [of bs "host_order c" pre post] by (simp add: swab32s_eq)

lemma swab64s_reverses:
  "length bs = 8 \<Longrightarrow> swab64s c k (pre @ bs @ post) (length pre) = Some (pre @ rev bs @ post)"
  using const64.swap_in_place [of bs "host_order c" pre post] by (simp add: swab64s_eq)

lemma swab_long_involution:
  assumes "bits_per_long c = 32 \<and> fits 32 y \<or> bits_per_long c = 64"
  shows "swab c k (swab c k' y) = y"
proof -
  have "ucast (ucast y :: u32) = y" if "fits 32 y"
    using that by (auto simp add: fits_bits bit_simps not_le intro!: bit_word_eqI)
  moreover have "ucast (ucast v :: u64) = v" for v :: u32
    by (auto simp add: bit_simps intro!: bit_word_eqI)
  ultimately show ?thesis
    using assms by (auto simp add: swab_def swab32_eq swab64_eq const32.involution const64.involution)
qed

end

sublocale swab_host < s16: byte_reversal "swab16 c k" for k
  unfolding swab16_eq by (rule const16.byte_reversal_axioms)

sublocale swab_host < s32: byte_reversal "swab32 c k" for k
  unfolding swab32_eq by (rule const32.byte_reversal_axioms)

sublocale swab_host < s64: byte_reversal "swab64 c k" for k
  unfolding swab64_eq by (rule const64.byte_reversal_axioms)

end
