(* ===== verification/Swab_Arch.thy ===== *)
theory Swab_Arch
  imports Swab
begin

text \<open>
  The overrides of the architectures (\<^verbatim>\<open>arch/*/asm/swab.h\<close>) and the configurations of
  \<^verbatim>\<open>include/linux/swab.h\<close> they give, each shown to keep the contract \<open>swab_host\<close>.

  The routines of arm and arc are C and are translated as they stand. Where a routine is a sequence of
  machine instructions or compiler builtins, the instructions are its parameters, and what the
  instruction set manual (or the comment beside the code) says of them is the hypothesis of the
  routine's lemma.
\<close>

section \<open>Routines in C\<close>

definition arm_swab32 :: "u32 \<Rightarrow> u32" where
  "arm_swab32 x = (
     let t = x XOR (push_bit 16 x OR drop_bit 16 x);
         x = push_bit 24 x OR drop_bit 8 x;
         t = t AND NOT 0x00FF0000;
         x = x XOR drop_bit 8 t
     in x)"

definition arc_swab32 :: "u32 \<Rightarrow> u32" where
  "arc_swab32 x = (
     let inn = x;
         tmp = push_bit 8 inn OR drop_bit 24 inn;
         inn = push_bit 24 inn OR drop_bit 8 inn;
         tmp = tmp XOR inn;
         tmp = tmp AND 0xff00ff
     in tmp XOR inn)"

interpretation arm32: byte_reversal arm_swab32
  by (rule byte_reversal32I; unfold arm_swab32_def byte_masks Let_def)
    (auto simp add: bit_simps dest: bit_imp_le_length)

interpretation arc32: byte_reversal arc_swab32
  by (rule byte_reversal32I; unfold arc_swab32_def half_masks Let_def)
    (auto simp add: bit_simps dest: bit_imp_le_length)

section \<open>Routines over builtins and instructions\<close>

text \<open>alpha: \<^verbatim>\<open>__kernel_inslh\<close> and \<^verbatim>\<open>__kernel_inswl\<close> are builtins on 64-bit registers.\<close>

definition alpha_swab32 :: "(u64 \<Rightarrow> nat \<Rightarrow> u64) \<Rightarrow> (u64 \<Rightarrow> nat \<Rightarrow> u64) \<Rightarrow> u32 \<Rightarrow> u32" where
  "alpha_swab32 inslh inswl x = (
     let t0 = inslh (ucast x) 7;
         t1 = inswl (ucast x) 3;
         t1 = t1 OR t0;
         t2 = drop_bit 16 t1;
         t0 = t1 AND 0xFF00FF00;
         t3 = t2 AND 0x00FF00FF;
         t1 = t0 + t3
     in ucast t1)"

text \<open>ia64: the 64-bit routine is one instruction, the narrower ones use its upper bytes.\<close>

definition ia64_swab64 :: "(u64 \<Rightarrow> u64) \<Rightarrow> u64 \<Rightarrow> u64" where
  "ia64_swab64 mux1_rev x = mux1_rev x"

definition ia64_swab32 :: "(u64 \<Rightarrow> u64) \<Rightarrow> u32 \<Rightarrow> u32" where
  "ia64_swab32 mux1_rev x = ucast (drop_bit 32 (ia64_swab64 mux1_rev (ucast x)))"

definition ia64_swab16 :: "(u64 \<Rightarrow> u64) \<Rightarrow> u16 \<Rightarrow> u16" where
  "ia64_swab16 mux1_rev x = ucast (drop_bit 48 (ia64_swab64 mux1_rev (ucast x)))"

text \<open>nios2: a custom instruction on a 32-bit register.\<close>

definition nios2_swab16 :: "(u32 \<Rightarrow> u32) \<Rightarrow> u16 \<Rightarrow> u16" where
  "nios2_swab16 custom x = ucast (custom (push_bit 16 (ucast x)))"

definition nios2_swab32 :: "(u32 \<Rightarrow> u32) \<Rightarrow> u32 \<Rightarrow> u32" where
  "nios2_swab32 custom x = custom x"

text \<open>sh: \<^verbatim>\<open>swap.b\<close> and \<^verbatim>\<open>swap.w\<close>; the 64-bit routine goes through a union.\<close>

definition sh_swab32 :: "(u32 \<Rightarrow> u32) \<Rightarrow> (u32 \<Rightarrow> u32) \<Rightarrow> u32 \<Rightarrow> u32" where
  "sh_swab32 swap_b swap_w x = swap_b (swap_w (swap_b x))"

definition sh_swab16 :: "(u32 \<Rightarrow> u32) \<Rightarrow> u16 \<Rightarrow> u16" where
  "sh_swab16 swap_b x = ucast (swap_b (ucast x))"

definition union_halves :: "endian \<Rightarrow> u64 \<Rightarrow> u32 \<times> u32" where
  "union_halves e u = (
     let bs = bytes_of e u
     in (word_of_bytes e (take 4 bs), word_of_bytes e (drop 4 bs)))"

definition union_word :: "endian \<Rightarrow> u32 \<Rightarrow> u32 \<Rightarrow> u64" where
  "union_word e a b = word_of_bytes e (bytes_of e a @ bytes_of e b)"

definition sh_swab64 :: "endian \<Rightarrow> (u32 \<Rightarrow> u32) \<Rightarrow> (u32 \<Rightarrow> u32) \<Rightarrow> u64 \<Rightarrow> u64" where
  "sh_swab64 e swap_b swap_w val = (
     let (va, vb) = union_halves e val;
         wb = sh_swab32 swap_b swap_w va;
         wa = sh_swab32 swap_b swap_w vb
     in union_word e wa wb)"

text \<open>x86: \<^verbatim>\<open>bswapl\<close>; with 32-bit registers the two halves are swapped and exchanged.\<close>

definition x86_swab32 :: "(u32 \<Rightarrow> u32) \<Rightarrow> u32 \<Rightarrow> u32" where
  "x86_swab32 bswapl val = bswapl val"

definition i386_swab64 :: "(u32 \<Rightarrow> u32) \<Rightarrow> u64 \<Rightarrow> u64" where
  "i386_swab64 bswapl val = (
     let (a, b) = union_halves Little val;
         a = bswapl a;
         b = bswapl b;
         (a, b) = (b, a)
     in union_word Little a b)"

text \<open>mips: \<^verbatim>\<open>wsbh\<close> swaps within halfwords, \<^verbatim>\<open>rotr\<close> rotates.\<close>

definition mips_swab16 :: "(u32 \<Rightarrow> u32) \<Rightarrow> u16 \<Rightarrow> u16" where
  "mips_swab16 wsbh x = ucast (wsbh (ucast x))"

definition mips_swab32 :: "(u32 \<Rightarrow> u32) \<Rightarrow> (nat \<Rightarrow> u32 \<Rightarrow> u32) \<Rightarrow> u32 \<Rightarrow> u32" where
  "mips_swab32 wsbh rotr x = rotr 16 (wsbh x)"

text \<open>m68k: \<^verbatim>\<open>rolw\<close> rotates the lower word, \<^verbatim>\<open>swap\<close> exchanges the words.\<close>

definition m68k_swab32 :: "(nat \<Rightarrow> u32 \<Rightarrow> u32) \<Rightarrow> (u32 \<Rightarrow> u32) \<Rightarrow> u32 \<Rightarrow> u32" where
  "m68k_swab32 rolw swap val = rolw 8 (swap (rolw 8 val))"

text \<open>xtensa: \<^verbatim>\<open>src\<close> shifts the concatenation of two registers by the amount \<^verbatim>\<open>ssai\<close> has set.\<close>

definition xtensa_swab32 :: "(u32 \<Rightarrow> nat \<Rightarrow> u32) \<Rightarrow> (nat \<Rightarrow> u32 \<Rightarrow> u32 \<Rightarrow> u32) \<Rightarrow> u32 \<Rightarrow> u32" where
  "xtensa_swab32 srli src x = (
     let sar = 8;
         res = srli x 16;
         res = src sar res x;
         res = src sar res res;
         res = src sar x res
     in res)"

section \<open>They reverse bytes\<close>

lemma alpha_reverses:
  assumes "\<And>x :: u32. inslh (ucast x) 7 = drop_bit 8 (ucast x)"
    and "\<And>x :: u32. inswl (ucast x) 3 = push_bit 24 (ucast x AND 0xffff)"
  shows "byte_reversal (alpha_swab32 inslh inswl)"
proof -
  have m: "0xFF00FF00 = (push_bit 8 (mask 8) OR push_bit 24 (mask 8) :: u64)"
    "0x00FF00FF = (mask 8 OR push_bit 16 (mask 8) :: u64)" "0xffff = (mask 16 :: u64)"
    by (simp_all add: mask_numeral push_bit_eq_mult)
  have "(a AND (push_bit 8 (mask 8) OR push_bit 24 (mask 8))) +
      (b AND (mask 8 OR push_bit 16 (mask 8))) =
    (a AND (push_bit 8 (mask 8) OR push_bit 24 (mask 8))) OR
      (b AND (mask 8 OR push_bit 16 (mask 8)))" for a b :: u64
    by (rule disjunctive_add) (auto simp add: bit_simps)
  then show ?thesis
    by (intro byte_reversal32I; unfold alpha_swab32_def assms m Let_def)
      (auto simp add: bit_simps dest: bit_imp_le_length)
qed

lemma bit_reversal:
  fixes w :: "'a::len word"
  assumes "byte_reversal f" "i < LENGTH('a) div 8" "k < 8"
  shows "bit (f w) (8 * i + k) \<longleftrightarrow> bit w (8 * (LENGTH('a) div 8 - Suc i) + k)"
proof -
  have "le_bytes (f w) ! i = rev (le_bytes w) ! i"
    using byte_reversal.reverses [OF assms(1), of w] by (simp add: bytes_of_def order_bytes_def)
  then have "byte_of i (f w) = byte_of (LENGTH('a) div 8 - Suc i) w"
    using assms(2) by (simp add: nth_le_bytes rev_nth)
  then have "bit (byte_of i (f w)) k \<longleftrightarrow> bit (byte_of (LENGTH('a) div 8 - Suc i) w) k" by simp
  with assms(3) show ?thesis by (simp add: bit_byte_of)
qed

lemma bits_reversal64:
  assumes "byte_reversal f" "k < 8"
  shows "bit (f w) (32 + k) \<longleftrightarrow> bit (w :: u64) (24 + k)"
    "bit (f w) (40 + k) \<longleftrightarrow> bit (w :: u64) (16 + k)"
    "bit (f w) (48 + k) \<longleftrightarrow> bit (w :: u64) (8 + k)"
    "bit (f w) (56 + k) \<longleftrightarrow> bit (w :: u64) k"
  using bit_reversal [OF assms(1) _ assms(2), of 4 w] bit_reversal [OF assms(1) _ assms(2), of 5 w]
    bit_reversal [OF assms(1) _ assms(2), of 6 w] bit_reversal [OF assms(1) _ assms(2), of 7 w]
  by simp_all

lemma ia64_reverses32:
  assumes "byte_reversal mux1_rev"
  shows "byte_reversal (ia64_swab32 mux1_rev)"
  unfolding ia64_swab32_def ia64_swab64_def
  by (rule byte_reversal32I)
    (simp_all add: bit_simps bits_reversal64 [OF assms] flip: add.assoc)

lemma ia64_reverses16:
  assumes "byte_reversal mux1_rev"
  shows "byte_reversal (ia64_swab16 mux1_rev)"
  unfolding ia64_swab16_def ia64_swab64_def
  by (rule byte_reversal16I)
    (simp_all add: bit_simps bits_reversal64 [OF assms] flip: add.assoc)

lemma nios2_reverses16:
  assumes "byte_reversal custom"
  shows "byte_reversal (nios2_swab16 custom)"
proof (rule byte_reversal16I)
  fix w :: u16 and k :: nat assume k: "k < 8"
  note b = bit_reversal [OF assms(1) _ k, where w = "push_bit 16 (ucast w)"]
  show "bit (nios2_swab16 custom w) k \<longleftrightarrow> bit w (8 + k)"
    using b [of 0] k by (simp add: nios2_swab16_def bit_simps)
  show "bit (nios2_swab16 custom w) (8 + k) \<longleftrightarrow> bit w k"
    using b [of 1] k by (simp add: nios2_swab16_def bit_simps)
qed

lemma union_word_halves:
  "union_halves e v = (a, b) \<Longrightarrow> bytes_of e a @ bytes_of e b = bytes_of e v"
  by (auto simp add: union_halves_def Let_def bytes_of_word_of)

lemma bytes_union_word: "bytes_of e (union_word e a b) = bytes_of e a @ bytes_of e b"
  by (simp add: union_word_def bytes_of_word_of)

lemma exchanged_halves_reverse:
  assumes "byte_reversal f"
  shows "byte_reversal (\<lambda>v. case union_halves e v of (a, b) \<Rightarrow> union_word e (f b) (f a))"
proof
  fix v
  obtain a b where v: "union_halves e v = (a, b)" by (cases "union_halves e v")
  have "bytes_of e (union_word e (f b) (f a)) = rev (bytes_of e v)"
    by (simp add: bytes_union_word byte_reversal.reverses_host [OF assms]
        flip: union_word_halves [OF v])
  then show "bytes_of Little (case union_halves e v of (a, b) \<Rightarrow> union_word e (f b) (f a)) =
      rev (bytes_of Little v)"
    using v by (cases e) (simp_all add: bytes_of_flip rev_swap)
qed simp

lemma sh_reverses32:
  assumes "\<And>x. swap_b x = (x AND 0xffff0000) OR push_bit 8 (x AND 0xff) OR drop_bit 8 (x AND 0xff00)"
    and "\<And>x. swap_w x = push_bit 16 x OR drop_bit 16 x"
  shows "byte_reversal (sh_swab32 swap_b swap_w)"
  by (rule byte_reversal32I; unfold sh_swab32_def assms byte_masks) (auto simp add: bit_simps)

lemma sh_reverses16:
  assumes "\<And>x. swap_b x = (x AND 0xffff0000) OR push_bit 8 (x AND 0xff) OR drop_bit 8 (x AND 0xff00)"
  shows "byte_reversal (sh_swab16 swap_b)"
  by (rule byte_reversal16I; unfold sh_swab16_def assms byte_masks) (auto simp add: bit_simps)

lemma sh_reverses64:
  assumes "byte_reversal (sh_swab32 swap_b swap_w)"
  shows "byte_reversal (sh_swab64 e swap_b swap_w)"
  using exchanged_halves_reverse [OF assms] by (simp add: sh_swab64_def [abs_def] Let_def)

lemma i386_reverses64:
  assumes "byte_reversal bswapl"
  shows "byte_reversal (i386_swab64 bswapl)"
  using exchanged_halves_reverse [OF assms] by (simp add: i386_swab64_def [abs_def] Let_def)

lemma mips_reverses32:
  assumes "\<And>x. wsbh x = push_bit 8 (x AND 0x00ff00ff) OR drop_bit 8 (x AND 0xff00ff00)"
    and "\<And>x. rotr 16 x = push_bit 16 x OR drop_bit 16 x"
  shows "byte_reversal (mips_swab32 wsbh rotr)"
  by (rule byte_reversal32I; unfold mips_swab32_def assms half_masks) (auto simp add: bit_simps)

lemma mips_reverses16:
  assumes "\<And>x. wsbh x = push_bit 8 (x AND 0x00ff00ff) OR drop_bit 8 (x AND 0xff00ff00)"
  shows "byte_reversal (mips_swab16 wsbh)"
  by (rule byte_reversal16I; unfold mips_swab16_def assms half_masks) (auto simp add: bit_simps)

lemma m68k_reverses32:
  assumes "\<And>x. rolw 8 x = (x AND 0xffff0000) OR push_bit 8 (x AND 0xff) OR drop_bit 8 (x AND 0xff00)"
    and "\<And>x. swap x = push_bit 16 x OR drop_bit 16 x"
  shows "byte_reversal (m68k_swab32 rolw swap)"
  by (rule byte_reversal32I; unfold m68k_swab32_def assms byte_masks) (auto simp add: bit_simps)

lemma xtensa_reverses32:
  assumes "\<And>x n. srli x n = drop_bit n x"
    and "\<And>s t. src 8 s t = push_bit 24 s OR drop_bit 8 t"
  shows "byte_reversal (xtensa_swab32 srli src)"
  by (rule byte_reversal32I; unfold xtensa_swab32_def Let_def assms)
    (auto simp add: bit_simps dest: bit_imp_le_length)

section \<open>Configurations\<close>

definition generic_config :: "endian \<Rightarrow> nat \<Rightarrow> bool \<Rightarrow> swab_config" where
  "generic_config e bits thru = \<lparr>host_order = e, bits_per_long = bits, swab_64_thru_32 = thru,
     arch_swab16 = None, arch_swab32 = None, arch_swab64 = None,
     arch_swahw32 = None, arch_swahb32 = None,
     builtin_bswap16 = None, builtin_bswap32 = None, builtin_bswap64 = None,
     arch_swab16p = None, arch_swab32p = None, arch_swab64p = None,
     arch_swahw32p = None, arch_swahb32p = None,
     arch_swab16s = None, arch_swab32s = None, arch_swab64s = None,
     arch_swahw32s = None, arch_swahb32s = None\<rparr>"

definition arm_config :: "endian \<Rightarrow> swab_config" where
  "arm_config e = (generic_config e 32 True)\<lparr>arch_swab32 := Some arm_swab32\<rparr>"

definition arc_config :: "endian \<Rightarrow> swab_config" where
  "arc_config e = (generic_config e 32 True)\<lparr>arch_swab32 := Some arc_swab32\<rparr>"

definition ia64_config :: "(u64 \<Rightarrow> u64) \<Rightarrow> swab_config" where
  "ia64_config mux1_rev = (generic_config Little 64 False)\<lparr>
     arch_swab64 := Some (ia64_swab64 mux1_rev),
     arch_swab32 := Some (ia64_swab32 mux1_rev),
     arch_swab16 := Some (ia64_swab16 mux1_rev)\<rparr>"

definition i386_config :: "(u32 \<Rightarrow> u32) \<Rightarrow> swab_config" where
  "i386_config bswapl = (generic_config Little 32 False)\<lparr>
     arch_swab32 := Some (x86_swab32 bswapl),
     arch_swab64 := Some (i386_swab64 bswapl)\<rparr>"

definition sh_config :: "endian \<Rightarrow> (u32 \<Rightarrow> u32) \<Rightarrow> (u32 \<Rightarrow> u32) \<Rightarrow> swab_config" where
  "sh_config e swap_b swap_w = (generic_config e 32 True)\<lparr>
     arch_swab32 := Some (sh_swab32 swap_b swap_w),
     arch_swab16 := Some (sh_swab16 swap_b),
     arch_swab64 := Some (sh_swab64 e swap_b swap_w)\<rparr>"

text \<open>64-bit sparc: loads through the little-endian address space \<^verbatim>\<open>ASI_PL\<close>.\<close>

definition sparc64_config ::
  "(u8 list \<Rightarrow> nat \<Rightarrow> u16 option) \<Rightarrow> (u8 list \<Rightarrow> nat \<Rightarrow> u32 option) \<Rightarrow>
   (u8 list \<Rightarrow> nat \<Rightarrow> u64 option) \<Rightarrow> swab_config" where
  "sparc64_config lduha lduwa ldxa = (generic_config Big 64 False)\<lparr>
     arch_swab16p := Some lduha, arch_swab32p := Some lduwa, arch_swab64p := Some ldxa\<rparr>"

lemmas config_defs = generic_config_def arm_config_def arc_config_def ia64_config_def
  i386_config_def sh_config_def sparc64_config_def

interpretation generic: swab_host "generic_config e bits thru" for e bits thru
  by unfold_locales (simp_all add: config_defs)

interpretation arm: swab_host "arm_config e" for e
  by (unfold_locales; simp add: config_defs) (simp add: arm32.reverses)

interpretation arc: swab_host "arc_config e" for e
  by (unfold_locales; simp add: config_defs) (simp add: arc32.reverses)

lemma ia64_host:
  assumes "byte_reversal mux1_rev"
  shows "swab_host (ia64_config mux1_rev)"
  by (unfold_locales; simp add: config_defs)
    (auto simp add: ia64_swab64_def byte_reversal.reverses assms ia64_reverses16 ia64_reverses32)

lemma i386_host:
  assumes "byte_reversal bswapl"
  shows "swab_host (i386_config bswapl)"
  by (unfold_locales; simp add: config_defs)
    (auto simp add: x86_swab32_def byte_reversal.reverses assms i386_reverses64)

lemma sh_host:
  assumes "\<And>x. swap_b x = (x AND 0xffff0000) OR push_bit 8 (x AND 0xff) OR drop_bit 8 (x AND 0xff00)"
    and "\<And>x. swap_w x = push_bit 16 x OR drop_bit 16 x"
  shows "swab_host (sh_config e swap_b swap_w)"
  by (unfold_locales; simp add: config_defs)
    (auto simp add: byte_reversal.reverses sh_reverses64 sh_reverses32 [OF assms]
      sh_reverses16 [OF assms(1)])

lemma load_little:
  assumes "byte_reversal f"
  shows "load Little mem p = map_option f (load Big mem p)"
proof -
  have "word_of_bytes Little bs = f (word_of_bytes Big bs)"
    if "length bs = LENGTH('a) div 8" for bs
    using that
    by (simp add: byte_reversal.reinterprets [OF assms] bytes_of_word_of)
  then show ?thesis by (simp add: load_def rdn_def)
qed

lemma sparc64_host:
  assumes "\<And>mem p. lduha mem p = load Little mem p" "\<And>mem p. lduwa mem p = load Little mem p"
    "\<And>mem p. ldxa mem p = load Little mem p"
  shows "swab_host (sparc64_config lduha lduwa ldxa)"
  by (unfold_locales; simp add: config_defs)
    (auto simp add: assms load_little [OF const16.byte_reversal_axioms]
      load_little [OF const32.byte_reversal_axioms] load_little [OF const64.byte_reversal_axioms])

section \<open>Properties\<close>

text \<open>
  The optimised byte swaps of arm (rotate and exclusive or) and arc (two rotates merged under a
  mask) compute the four-term reference expression of the generic header.
\<close>

theorem optimised_swab32_equiv:
  "arm_swab32 x = constant_swab32 x \<and> arc_swab32 x = constant_swab32 x"
  by (auto intro!: const32.unique simp add: arm32.reverses arc32.reverses)

text \<open>
  C11: On the generic configurations, on arm and on arc, of either byte order, a byte swap gives the
  value whose bytes in memory are those of the argument in reverse, whether the call is folded, goes
  to the architecture's routine, or through two 32-bit swaps.
\<close>

theorem swab_reverses_bytes:
  assumes "c \<in> {generic_config h bits thru, arm_config h, arc_config h}"
  shows "bytes_of e (swab16 c k x16) = rev (bytes_of e x16) \<and>
    bytes_of e (swab32 c k x32) = rev (bytes_of e x32) \<and>
    bytes_of e (swab64 c k x64) = rev (bytes_of e x64)"
  using assms by (auto simp only: insert_iff empty_iff generic.s16.reverses_host
      generic.s32.reverses_host generic.s64.reverses_host arm.s16.reverses_host
      arm.s32.reverses_host arm.s64.reverses_host arc.s16.reverses_host
      arc.s32.reverses_host arc.s64.reverses_host)

theorem swab_reverses_bytes_witness:
  "bytes_of Little (swab16 (arm_config Little) False 0x1234) = rev (bytes_of Little (0x1234 :: u16)) \<and>
   bytes_of Little (swab32 (arm_config Little) False 0x12345678) =
     rev (bytes_of Little (0x12345678 :: u32)) \<and>
   bytes_of Little (swab64 (arm_config Little) False 0x123456789abcdef0) =
     rev (bytes_of Little (0x123456789abcdef0 :: u64))"
  by (rule swab_reverses_bytes [where h = Little]) simp

text \<open>
  On every host whose overrides keep their contract, swapping in place through a pointer reverses
  the bytes of the object and leaves the memory around it as it was. The witness is 64-bit sparc,
  whose pointer loads go through the little-endian address space.
\<close>

theorem swab_in_place:
  assumes "swab_host c"
  shows "(length b2 = 2 \<longrightarrow> swab16s c k (pre @ b2 @ post) (length pre) = Some (pre @ rev b2 @ post)) \<and>
    (length b4 = 4 \<longrightarrow> swab32s c k (pre @ b4 @ post) (length pre) = Some (pre @ rev b4 @ post)) \<and>
    (length b8 = 8 \<longrightarrow> swab64s c k (pre @ b8 @ post) (length pre) = Some (pre @ rev b8 @ post))"
  by (simp add: swab_host.swab16s_reverses [OF assms] swab_host.swab32s_reverses [OF assms]
      swab_host.swab64s_reverses [OF assms])

theorem swab_in_place_witness:
  "swab16s (sparc64_config (load Little) (load Little) (load Little)) False
     ([9] @ [1, 2] @ [9]) (length [9::u8]) = Some ([9] @ rev [1, 2] @ [9]) \<and>
   swab32s (sparc64_config (load Little) (load Little) (load Little)) False
     ([9] @ [1, 2, 3, 4] @ [9]) (length [9::u8]) = Some ([9] @ rev [1, 2, 3, 4] @ [9]) \<and>
   swab64s (sparc64_config (load Little) (load Little) (load Little)) False
     ([9] @ [1, 2, 3, 4, 5, 6, 7, 8] @ [9]) (length [9::u8]) =
     Some ([9] @ rev [1, 2, 3, 4, 5, 6, 7, 8] @ [9])"
  using swab_in_place [OF sparc64_host [OF refl refl refl], of "[1, 2]" False "[9]" "[9]"
      "[1, 2, 3, 4]" "[1, 2, 3, 4, 5, 6, 7, 8]"] by simp

text \<open>
  The half-word swap and the swap inside half-words compose to the full swap, in either order of
  constant folding, and each undoes itself.
\<close>

theorem swahb32_of_swahw32:
  assumes "swab_host c"
  shows "swahb32 c k (swahw32 c k' x) = swab32 c k'' x \<and> swahw32 c k (swahw32 c k' x) = x \<and>
    swahb32 c k (swahb32 c k' x) = x"
  by (simp add: swab_host.swahb32_eq [OF assms] swab_host.swahw32_eq [OF assms]
      swab_host.swab32_eq [OF assms] swahb32_swahw32 swahw32_involution swahb32_involution)

theorem swahb32_of_swahw32_witness:
  "swahb32 (arm_config Little) True (swahw32 (arm_config Little) False 0x12345678) =
     swab32 (arm_config Little) False 0x12345678 \<and>
   swahw32 (arm_config Little) True (swahw32 (arm_config Little) False 0x12345678) = 0x12345678 \<and>
   swahb32 (arm_config Little) True (swahb32 (arm_config Little) False 0x12345678) = 0x12345678"
  by (rule swahb32_of_swahw32) (rule arm.swab_host_axioms)

end
