(* ===== verification/Byteorder_Little.thy ===== *)
theory Byteorder_Little
  imports Swab_Arch
begin

text \<open>
  The conversions of \<^verbatim>\<open>include/linux/byteorder/little_endian.h\<close>, for hosts that keep the
  least significant byte first. The suffix \<^verbatim>\<open>_el\<close> tells them from those of the other
  header, which defines the same names. As in \<open>Swab\<close>, \<open>c\<close> is the host's configuration, \<open>k\<close> the answer
  of \<^verbatim>\<open>__builtin_constant_p\<close>, and a pointer an offset into a byte array. The types \<^verbatim>\<open>__le32\<close> and
  \<^verbatim>\<open>__be32\<close> are \<^verbatim>\<open>__u32\<close> with a mark for the checker, so the casts between them do nothing.
\<close>

section \<open>Conversions of constants\<close>

definition constant_htonl_el :: "u32 \<Rightarrow> u32" where
  "constant_htonl_el x = constant_swab32 x"

definition constant_ntohl_el :: "u32 \<Rightarrow> u32" where
  "constant_ntohl_el x = constant_swab32 x"

definition constant_htons_el :: "u16 \<Rightarrow> u16" where
  "constant_htons_el x = constant_swab16 x"

definition constant_ntohs_el :: "u16 \<Rightarrow> u16" where
  "constant_ntohs_el x = constant_swab16 x"

definition constant_cpu_to_le64_el :: "u64 \<Rightarrow> u64" where
  "constant_cpu_to_le64_el x = x"

definition constant_le64_to_cpu_el :: "u64 \<Rightarrow> u64" where
  "constant_le64_to_cpu_el x = x"

definition constant_cpu_to_le32_el :: "u32 \<Rightarrow> u32" where
  "constant_cpu_to_le32_el x = x"

definition constant_le32_to_cpu_el :: "u32 \<Rightarrow> u32" where
  "constant_le32_to_cpu_el x = x"

definition constant_cpu_to_le16_el :: "u16 \<Rightarrow> u16" where
  "constant_cpu_to_le16_el x = x"

definition constant_le16_to_cpu_el :: "u16 \<Rightarrow> u16" where
  "constant_le16_to_cpu_el x = x"

definition constant_cpu_to_be64_el :: "u64 \<Rightarrow> u64" where
  "constant_cpu_to_be64_el x = constant_swab64 x"

definition constant_be64_to_cpu_el :: "u64 \<Rightarrow> u64" where
  "constant_be64_to_cpu_el x = constant_swab64 x"

definition constant_cpu_to_be32_el :: "u32 \<Rightarrow> u32" where
  "constant_cpu_to_be32_el x = constant_swab32 x"

definition constant_be32_to_cpu_el :: "u32 \<Rightarrow> u32" where
  "constant_be32_to_cpu_el x = constant_swab32 x"

definition constant_cpu_to_be16_el :: "u16 \<Rightarrow> u16" where
  "constant_cpu_to_be16_el x = constant_swab16 x"

definition constant_be16_to_cpu_el :: "u16 \<Rightarrow> u16" where
  "constant_be16_to_cpu_el x = constant_swab16 x"

section \<open>Conversions of values\<close>

definition cpu_to_le64_el :: "swab_config \<Rightarrow> bool \<Rightarrow> u64 \<Rightarrow> u64" where
  "cpu_to_le64_el c k x = x"

definition le64_to_cpu_el :: "swab_config \<Rightarrow> bool \<Rightarrow> u64 \<Rightarrow> u64" where
  "le64_to_cpu_el c k x = x"

definition cpu_to_le32_el :: "swab_config \<Rightarrow> bool \<Rightarrow> u32 \<Rightarrow> u32" where
  "cpu_to_le32_el c k x = x"

definition le32_to_cpu_el :: "swab_config \<Rightarrow> bool \<Rightarrow> u32 \<Rightarrow> u32" where
  "le32_to_cpu_el c k x = x"

definition cpu_to_le16_el :: "swab_config \<Rightarrow> bool \<Rightarrow> u16 \<Rightarrow> u16" where
  "cpu_to_le16_el c k x = x"

definition le16_to_cpu_el :: "swab_config \<Rightarrow> bool \<Rightarrow> u16 \<Rightarrow> u16" where
  "le16_to_cpu_el c k x = x"

definition cpu_to_be64_el :: "swab_config \<Rightarrow> bool \<Rightarrow> u64 \<Rightarrow> u64" where
  "cpu_to_be64_el c k x = swab64 c k x"

definition be64_to_cpu_el :: "swab_config \<Rightarrow> bool \<Rightarrow> u64 \<Rightarrow> u64" where
  "be64_to_cpu_el c k x = swab64 c k x"

definition cpu_to_be32_el :: "swab_config \<Rightarrow> bool \<Rightarrow> u32 \<Rightarrow> u32" where
  "cpu_to_be32_el c k x = swab32 c k x"

definition be32_to_cpu_el :: "swab_config \<Rightarrow> bool \<Rightarrow> u32 \<Rightarrow> u32" where
  "be32_to_cpu_el c k x = swab32 c k x"

definition cpu_to_be16_el :: "swab_config \<Rightarrow> bool \<Rightarrow> u16 \<Rightarrow> u16" where
  "cpu_to_be16_el c k x = swab16 c k x"

definition be16_to_cpu_el :: "swab_config \<Rightarrow> bool \<Rightarrow> u16 \<Rightarrow> u16" where
  "be16_to_cpu_el c k x = swab16 c k x"

section \<open>Through a pointer\<close>

definition cpu_to_le64p_el :: "swab_config \<Rightarrow> bool \<Rightarrow> u8 list \<Rightarrow> nat \<Rightarrow> u64 option" where
  "cpu_to_le64p_el c k mem p = load (host_order c) mem p"

definition le64_to_cpup_el :: "swab_config \<Rightarrow> bool \<Rightarrow> u8 list \<Rightarrow> nat \<Rightarrow> u64 option" where
  "le64_to_cpup_el c k mem p = load (host_order c) mem p"

definition cpu_to_le32p_el :: "swab_config \<Rightarrow> bool \<Rightarrow> u8 list \<Rightarrow> nat \<Rightarrow> u32 option" where
  "cpu_to_le32p_el c k mem p = load (host_order c) mem p"

definition le32_to_cpup_el :: "swab_config \<Rightarrow> bool \<Rightarrow> u8 list \<Rightarrow> nat \<Rightarrow> u32 option" where
  "le32_to_cpup_el c k mem p = load (host_order c) mem p"

definition cpu_to_le16p_el :: "swab_config \<Rightarrow> bool \<Rightarrow> u8 list \<Rightarrow> nat \<Rightarrow> u16 option" where
  "cpu_to_le16p_el c k mem p = load (host_order c) mem p"

definition le16_to_cpup_el :: "swab_config \<Rightarrow> bool \<Rightarrow> u8 list \<Rightarrow> nat \<Rightarrow> u16 option" where
  "le16_to_cpup_el c k mem p = load (host_order c) mem p"

definition cpu_to_be64p_el :: "swab_config \<Rightarrow> bool \<Rightarrow> u8 list \<Rightarrow> nat \<Rightarrow> u64 option" where
  "cpu_to_be64p_el c k mem p = swab64p c k mem p"

definition be64_to_cpup_el :: "swab_config \<Rightarrow> bool \<Rightarrow> u8 list \<Rightarrow> nat \<Rightarrow> u64 option" where
  "be64_to_cpup_el c k mem p = swab64p c k mem p"

definition cpu_to_be32p_el :: "swab_config \<Rightarrow> bool \<Rightarrow> u8 list \<Rightarrow> nat \<Rightarrow> u32 option" where
  "cpu_to_be32p_el c k mem p = swab32p c k mem p"

definition be32_to_cpup_el :: "swab_config \<Rightarrow> bool \<Rightarrow> u8 list \<Rightarrow> nat \<Rightarrow> u32 option" where
  "be32_to_cpup_el c k mem p = swab32p c k mem p"

definition cpu_to_be16p_el :: "swab_config \<Rightarrow> bool \<Rightarrow> u8 list \<Rightarrow> nat \<Rightarrow> u16 option" where
  "cpu_to_be16p_el c k mem p = swab16p c k mem p"

definition be16_to_cpup_el :: "swab_config \<Rightarrow> bool \<Rightarrow> u8 list \<Rightarrow> nat \<Rightarrow> u16 option" where
  "be16_to_cpup_el c k mem p = swab16p c k mem p"

section \<open>In place\<close>

definition cpu_to_le64s_el :: "swab_config \<Rightarrow> bool \<Rightarrow> u8 list \<Rightarrow> nat \<Rightarrow> u8 list option" where
  "cpu_to_le64s_el c k mem p = Some mem"

definition le64_to_cpus_el :: "swab_config \<Rightarrow> bool \<Rightarrow> u8 list \<Rightarrow> nat \<Rightarrow> u8 list option" where
  "le64_to_cpus_el c k mem p = Some mem"

definition cpu_to_le32s_el :: "swab_config \<Rightarrow> bool \<Rightarrow> u8 list \<Rightarrow> nat \<Rightarrow> u8 list option" where
  "cpu_to_le32s_el c k mem p = Some mem"

definition le32_to_cpus_el :: "swab_config \<Rightarrow> bool \<Rightarrow> u8 list \<Rightarrow> nat \<Rightarrow> u8 list option" where
  "le32_to_cpus_el c k mem p = Some mem"

definition cpu_to_le16s_el :: "swab_config \<Rightarrow> bool \<Rightarrow> u8 list \<Rightarrow> nat \<Rightarrow> u8 list option" where
  "cpu_to_le16s_el c k mem p = Some mem"

definition le16_to_cpus_el :: "swab_config \<Rightarrow> bool \<Rightarrow> u8 list \<Rightarrow> nat \<Rightarrow> u8 list option" where
  "le16_to_cpus_el c k mem p = Some mem"

definition cpu_to_be64s_el :: "swab_config \<Rightarrow> bool \<Rightarrow> u8 list \<Rightarrow> nat \<Rightarrow> u8 list option" where
  "cpu_to_be64s_el c k mem p = swab64s c k mem p"

definition be64_to_cpus_el :: "swab_config \<Rightarrow> bool \<Rightarrow> u8 list \<Rightarrow> nat \<Rightarrow> u8 list option" where
  "be64_to_cpus_el c k mem p = swab64s c k mem p"

definition cpu_to_be32s_el :: "swab_config \<Rightarrow> bool \<Rightarrow> u8 list \<Rightarrow> nat \<Rightarrow> u8 list option" where
  "cpu_to_be32s_el c k mem p = swab32s c k mem p"

definition be32_to_cpus_el :: "swab_config \<Rightarrow> bool \<Rightarrow> u8 list \<Rightarrow> nat \<Rightarrow> u8 list option" where
  "be32_to_cpus_el c k mem p = swab32s c k mem p"

definition cpu_to_be16s_el :: "swab_config \<Rightarrow> bool \<Rightarrow> u8 list \<Rightarrow> nat \<Rightarrow> u8 list option" where
  "cpu_to_be16s_el c k mem p = swab16s c k mem p"

definition be16_to_cpus_el :: "swab_config \<Rightarrow> bool \<Rightarrow> u8 list \<Rightarrow> nat \<Rightarrow> u8 list option" where
  "be16_to_cpus_el c k mem p = swab16s c k mem p"

section \<open>They keep the contract\<close>

interpretation const_le16_el: byte_order Little Little
    constant_cpu_to_le16_el constant_le16_to_cpu_el
  by unfold_locales (simp_all add: constant_cpu_to_le16_el_def constant_le16_to_cpu_el_def)

interpretation const_be16_el: byte_order Little Big
    constant_cpu_to_be16_el constant_be16_to_cpu_el
  by unfold_locales (simp_all add: constant_cpu_to_be16_el_def constant_be16_to_cpu_el_def
      const16.swaps_order const16.swaps_order')

interpretation const_le32_el: byte_order Little Little
    constant_cpu_to_le32_el constant_le32_to_cpu_el
  by unfold_locales (simp_all add: constant_cpu_to_le32_el_def constant_le32_to_cpu_el_def)

interpretation const_be32_el: byte_order Little Big
    constant_cpu_to_be32_el constant_be32_to_cpu_el
  by unfold_locales (simp_all add: constant_cpu_to_be32_el_def constant_be32_to_cpu_el_def
      const32.swaps_order const32.swaps_order')

interpretation const_le64_el: byte_order Little Little
    constant_cpu_to_le64_el constant_le64_to_cpu_el
  by unfold_locales (simp_all add: constant_cpu_to_le64_el_def constant_le64_to_cpu_el_def)

interpretation const_be64_el: byte_order Little Big
    constant_cpu_to_be64_el constant_be64_to_cpu_el
  by unfold_locales (simp_all add: constant_cpu_to_be64_el_def constant_be64_to_cpu_el_def
      const64.swaps_order const64.swaps_order')

interpretation const_htonl_el: byte_order Little Big
    constant_htonl_el constant_ntohl_el
  by unfold_locales (simp_all add: constant_htonl_el_def constant_ntohl_el_def const32.swaps_order const32.swaps_order')

interpretation const_htons_el: byte_order Little Big
    constant_htons_el constant_ntohs_el
  by unfold_locales (simp_all add: constant_htons_el_def constant_ntohs_el_def const16.swaps_order const16.swaps_order')

locale host_el = swab_host +
  assumes order: "host_order c = Little"
begin

lemmas le16_defs = cpu_to_le16_el_def [abs_def] le16_to_cpu_el_def [abs_def]
  cpu_to_le16p_el_def le16_to_cpup_el_def
  cpu_to_le16s_el_def le16_to_cpus_el_def order option.map_ident load_then_store

lemmas be16_defs = cpu_to_be16_el_def [abs_def] be16_to_cpu_el_def [abs_def]
  cpu_to_be16p_el_def be16_to_cpup_el_def
  cpu_to_be16s_el_def be16_to_cpus_el_def swab16_eq swab16p_eq swab16s_eq order
  const16.swaps_order const16.swaps_order'

lemmas le32_defs = cpu_to_le32_el_def [abs_def] le32_to_cpu_el_def [abs_def]
  cpu_to_le32p_el_def le32_to_cpup_el_def
  cpu_to_le32s_el_def le32_to_cpus_el_def order option.map_ident load_then_store

lemmas be32_defs = cpu_to_be32_el_def [abs_def] be32_to_cpu_el_def [abs_def]
  cpu_to_be32p_el_def be32_to_cpup_el_def
  cpu_to_be32s_el_def be32_to_cpus_el_def swab32_eq swab32p_eq swab32s_eq order
  const32.swaps_order const32.swaps_order'

lemmas le64_defs = cpu_to_le64_el_def [abs_def] le64_to_cpu_el_def [abs_def]
  cpu_to_le64p_el_def le64_to_cpup_el_def
  cpu_to_le64s_el_def le64_to_cpus_el_def order option.map_ident load_then_store

lemmas be64_defs = cpu_to_be64_el_def [abs_def] be64_to_cpu_el_def [abs_def]
  cpu_to_be64p_el_def be64_to_cpup_el_def
  cpu_to_be64s_el_def be64_to_cpus_el_def swab64_eq swab64p_eq swab64s_eq order
  const64.swaps_order const64.swaps_order'

end

sublocale host_el < le16: byte_order_mem Little Little
    "cpu_to_le16_el c k" "le16_to_cpu_el c k"
    "cpu_to_le16p_el c k" "le16_to_cpup_el c k"
    "cpu_to_le16s_el c k" "le16_to_cpus_el c k" for k
  by unfold_locales (simp_all add: le16_defs)

sublocale host_el < be16: byte_order_mem Little Big
    "cpu_to_be16_el c k" "be16_to_cpu_el c k"
    "cpu_to_be16p_el c k" "be16_to_cpup_el c k"
    "cpu_to_be16s_el c k" "be16_to_cpus_el c k" for k
  by unfold_locales (simp_all add: be16_defs)

sublocale host_el < le32: byte_order_mem Little Little
    "cpu_to_le32_el c k" "le32_to_cpu_el c k"
    "cpu_to_le32p_el c k" "le32_to_cpup_el c k"
    "cpu_to_le32s_el c k" "le32_to_cpus_el c k" for k
  by unfold_locales (simp_all add: le32_defs)

sublocale host_el < be32: byte_order_mem Little Big
    "cpu_to_be32_el c k" "be32_to_cpu_el c k"
    "cpu_to_be32p_el c k" "be32_to_cpup_el c k"
    "cpu_to_be32s_el c k" "be32_to_cpus_el c k" for k
  by unfold_locales (simp_all add: be32_defs)

sublocale host_el < le64: byte_order_mem Little Little
    "cpu_to_le64_el c k" "le64_to_cpu_el c k"
    "cpu_to_le64p_el c k" "le64_to_cpup_el c k"
    "cpu_to_le64s_el c k" "le64_to_cpus_el c k" for k
  by unfold_locales (simp_all add: le64_defs)

sublocale host_el < be64: byte_order_mem Little Big
    "cpu_to_be64_el c k" "be64_to_cpu_el c k"
    "cpu_to_be64p_el c k" "be64_to_cpup_el c k"
    "cpu_to_be64s_el c k" "be64_to_cpus_el c k" for k
  by unfold_locales (simp_all add: be64_defs)

context host_el
begin

lemmas stores = le16.store_converted be16.store_converted le32.store_converted
  be32.store_converted le64.store_converted be64.store_converted

lemmas loads = le16.load_converted be16.load_converted le32.load_converted
  be32.load_converted le64.load_converted be64.load_converted

lemmas reads = le16.reads_order be16.reads_order le32.reads_order
  be32.reads_order le64.reads_order be64.reads_order

lemmas converts = le16.converts_in_place be16.converts_in_place le32.converts_in_place
  be32.converts_in_place le64.converts_in_place be64.converts_in_place

lemmas converts_back = le16.converts_back_in_place be16.converts_back_in_place le32.converts_back_in_place
  be32.converts_back_in_place le64.converts_back_in_place be64.converts_back_in_place

lemmas inverses = le16.from_to be16.from_to le32.from_to
  be32.from_to le64.from_to be64.from_to

end

interpretation generic_el: host_el "generic_config Little bits thru" for bits thru
  by unfold_locales (simp add: config_defs)

interpretation arm_el: host_el "arm_config Little"
  by unfold_locales (simp add: config_defs)

interpretation arc_el: host_el "arc_config Little"
  by unfold_locales (simp add: config_defs)

end
