(* ===== verification/Byteorder_Big.thy ===== *)
theory Byteorder_Big
  imports Swab_Arch
begin

text \<open>
  The conversions of \<^verbatim>\<open>include/linux/byteorder/big_endian.h\<close>, for hosts that keep the
  most significant byte first. The suffix \<^verbatim>\<open>_eb\<close> tells them from those of the other
  header, which defines the same names. As in \<open>Swab\<close>, \<open>c\<close> is the host's configuration, \<open>k\<close> the answer
  of \<^verbatim>\<open>__builtin_constant_p\<close>, and a pointer an offset into a byte array. The types \<^verbatim>\<open>__le32\<close> and
  \<^verbatim>\<open>__be32\<close> are \<^verbatim>\<open>__u32\<close> with a mark for the checker, so the casts between them do nothing.
\<close>

section \<open>Conversions of constants\<close>

definition constant_htonl_eb :: "u32 \<Rightarrow> u32" where
  "constant_htonl_eb x = x"

definition constant_ntohl_eb :: "u32 \<Rightarrow> u32" where
  "constant_ntohl_eb x = x"

definition constant_htons_eb :: "u16 \<Rightarrow> u16" where
  "constant_htons_eb x = x"

definition constant_ntohs_eb :: "u16 \<Rightarrow> u16" where
  "constant_ntohs_eb x = x"

definition constant_cpu_to_le64_eb :: "u64 \<Rightarrow> u64" where
  "constant_cpu_to_le64_eb x = constant_swab64 x"

definition constant_le64_to_cpu_eb :: "u64 \<Rightarrow> u64" where
  "constant_le64_to_cpu_eb x = constant_swab64 x"

definition constant_cpu_to_le32_eb :: "u32 \<Rightarrow> u32" where
  "constant_cpu_to_le32_eb x = constant_swab32 x"

definition constant_le32_to_cpu_eb :: "u32 \<Rightarrow> u32" where
  "constant_le32_to_cpu_eb x = constant_swab32 x"

definition constant_cpu_to_le16_eb :: "u16 \<Rightarrow> u16" where
  "constant_cpu_to_le16_eb x = constant_swab16 x"

definition constant_le16_to_cpu_eb :: "u16 \<Rightarrow> u16" where
  "constant_le16_to_cpu_eb x = constant_swab16 x"

definition constant_cpu_to_be64_eb :: "u64 \<Rightarrow> u64" where
  "constant_cpu_to_be64_eb x = x"

definition constant_be64_to_cpu_eb :: "u64 \<Rightarrow> u64" where
  "constant_be64_to_cpu_eb x = x"

definition constant_cpu_to_be32_eb :: "u32 \<Rightarrow> u32" where
  "constant_cpu_to_be32_eb x = x"

definition constant_be32_to_cpu_eb :: "u32 \<Rightarrow> u32" where
  "constant_be32_to_cpu_eb x = x"

definition constant_cpu_to_be16_eb :: "u16 \<Rightarrow> u16" where
  "constant_cpu_to_be16_eb x = x"

definition constant_be16_to_cpu_eb :: "u16 \<Rightarrow> u16" where
  "constant_be16_to_cpu_eb x = x"

section \<open>Conversions of values\<close>

definition cpu_to_le64_eb :: "swab_config \<Rightarrow> bool \<Rightarrow> u64 \<Rightarrow> u64" where
  "cpu_to_le64_eb c k x = swab64 c k x"

definition le64_to_cpu_eb :: "swab_config \<Rightarrow> bool \<Rightarrow> u64 \<Rightarrow> u64" where
  "le64_to_cpu_eb c k x = swab64 c k x"

definition cpu_to_le32_eb :: "swab_config \<Rightarrow> bool \<Rightarrow> u32 \<Rightarrow> u32" where
  "cpu_to_le32_eb c k x = swab32 c k x"

definition le32_to_cpu_eb :: "swab_config \<Rightarrow> bool \<Rightarrow> u32 \<Rightarrow> u32" where
  "le32_to_cpu_eb c k x = swab32 c k x"

definition cpu_to_le16_eb :: "swab_config \<Rightarrow> bool \<Rightarrow> u16 \<Rightarrow> u16" where
  "cpu_to_le16_eb c k x = swab16 c k x"

definition le16_to_cpu_eb :: "swab_config \<Rightarrow> bool \<Rightarrow> u16 \<Rightarrow> u16" where
  "le16_to_cpu_eb c k x = swab16 c k x"

definition cpu_to_be64_eb :: "swab_config \<Rightarrow> bool \<Rightarrow> u64 \<Rightarrow> u64" where
  "cpu_to_be64_eb c k x = x"

definition be64_to_cpu_eb :: "swab_config \<Rightarrow> bool \<Rightarrow> u64 \<Rightarrow> u64" where
  "be64_to_cpu_eb c k x = x"

definition cpu_to_be32_eb :: "swab_config \<Rightarrow> bool \<Rightarrow> u32 \<Rightarrow> u32" where
  "cpu_to_be32_eb c k x = x"

definition be32_to_cpu_eb :: "swab_config \<Rightarrow> bool \<Rightarrow> u32 \<Rightarrow> u32" where
  "be32_to_cpu_eb c k x = x"

definition cpu_to_be16_eb :: "swab_config \<Rightarrow> bool \<Rightarrow> u16 \<Rightarrow> u16" where
  "cpu_to_be16_eb c k x = x"

definition be16_to_cpu_eb :: "swab_config \<Rightarrow> bool \<Rightarrow> u16 \<Rightarrow> u16" where
  "be16_to_cpu_eb c k x = x"

section \<open>Through a pointer\<close>

definition cpu_to_le64p_eb :: "swab_config \<Rightarrow> bool \<Rightarrow> u8 list \<Rightarrow> nat \<Rightarrow> u64 option" where
  "cpu_to_le64p_eb c k mem p = swab64p c k mem p"

definition le64_to_cpup_eb :: "swab_config \<Rightarrow> bool \<Rightarrow> u8 list \<Rightarrow> nat \<Rightarrow> u64 option" where
  "le64_to_cpup_eb c k mem p = swab64p c k mem p"

definition cpu_to_le32p_eb :: "swab_config \<Rightarrow> bool \<Rightarrow> u8 list \<Rightarrow> nat \<Rightarrow> u32 option" where
  "cpu_to_le32p_eb c k mem p = swab32p c k mem p"

definition le32_to_cpup_eb :: "swab_config \<Rightarrow> bool \<Rightarrow> u8 list \<Rightarrow> nat \<Rightarrow> u32 option" where
  "le32_to_cpup_eb c k mem p = swab32p c k mem p"

definition cpu_to_le16p_eb :: "swab_config \<Rightarrow> bool \<Rightarrow> u8 list \<Rightarrow> nat \<Rightarrow> u16 option" where
  "cpu_to_le16p_eb c k mem p = swab16p c k mem p"

definition le16_to_cpup_eb :: "swab_config \<Rightarrow> bool \<Rightarrow> u8 list \<Rightarrow> nat \<Rightarrow> u16 option" where
  "le16_to_cpup_eb c k mem p = swab16p c k mem p"

definition cpu_to_be64p_eb :: "swab_config \<Rightarrow> bool \<Rightarrow> u8 list \<Rightarrow> nat \<Rightarrow> u64 option" where
  "cpu_to_be64p_eb c k mem p = load (host_order c) mem p"

definition be64_to_cpup_eb :: "swab_config \<Rightarrow> bool \<Rightarrow> u8 list \<Rightarrow> nat \<Rightarrow> u64 option" where
  "be64_to_cpup_eb c k mem p = load (host_order c) mem p"

definition cpu_to_be32p_eb :: "swab_config \<Rightarrow> bool \<Rightarrow> u8 list \<Rightarrow> nat \<Rightarrow> u32 option" where
  "cpu_to_be32p_eb c k mem p = load (host_order c) mem p"

definition be32_to_cpup_eb :: "swab_config \<Rightarrow> bool \<Rightarrow> u8 list \<Rightarrow> nat \<Rightarrow> u32 option" where
  "be32_to_cpup_eb c k mem p = load (host_order c) mem p"

definition cpu_to_be16p_eb :: "swab_config \<Rightarrow> bool \<Rightarrow> u8 list \<Rightarrow> nat \<Rightarrow> u16 option" where
  "cpu_to_be16p_eb c k mem p = load (host_order c) mem p"

definition be16_to_cpup_eb :: "swab_config \<Rightarrow> bool \<Rightarrow> u8 list \<Rightarrow> nat \<Rightarrow> u16 option" where
  "be16_to_cpup_eb c k mem p = load (host_order c) mem p"

section \<open>In place\<close>

definition cpu_to_le64s_eb :: "swab_config \<Rightarrow> bool \<Rightarrow> u8 list \<Rightarrow> nat \<Rightarrow> u8 list option" where
  "cpu_to_le64s_eb c k mem p = swab64s c k mem p"

definition le64_to_cpus_eb :: "swab_config \<Rightarrow> bool \<Rightarrow> u8 list \<Rightarrow> nat \<Rightarrow> u8 list option" where
  "le64_to_cpus_eb c k mem p = swab64s c k mem p"

definition cpu_to_le32s_eb :: "swab_config \<Rightarrow> bool \<Rightarrow> u8 list \<Rightarrow> nat \<Rightarrow> u8 list option" where
  "cpu_to_le32s_eb c k mem p = swab32s c k mem p"

definition le32_to_cpus_eb :: "swab_config \<Rightarrow> bool \<Rightarrow> u8 list \<Rightarrow> nat \<Rightarrow> u8 list option" where
  "le32_to_cpus_eb c k mem p = swab32s c k mem p"

definition cpu_to_le16s_eb :: "swab_config \<Rightarrow> bool \<Rightarrow> u8 list \<Rightarrow> nat \<Rightarrow> u8 list option" where
  "cpu_to_le16s_eb c k mem p = swab16s c k mem p"

definition le16_to_cpus_eb :: "swab_config \<Rightarrow> bool \<Rightarrow> u8 list \<Rightarrow> nat \<Rightarrow> u8 list option" where
  "le16_to_cpus_eb c k mem p = swab16s c k mem p"

definition cpu_to_be64s_eb :: "swab_config \<Rightarrow> bool \<Rightarrow> u8 list \<Rightarrow> nat \<Rightarrow> u8 list option" where
  "cpu_to_be64s_eb c k mem p = Some mem"

definition be64_to_cpus_eb :: "swab_config \<Rightarrow> bool \<Rightarrow> u8 list \<Rightarrow> nat \<Rightarrow> u8 list option" where
  "be64_to_cpus_eb c k mem p = Some mem"

definition cpu_to_be32s_eb :: "swab_config \<Rightarrow> bool \<Rightarrow> u8 list \<Rightarrow> nat \<Rightarrow> u8 list option" where
  "cpu_to_be32s_eb c k mem p = Some mem"

definition be32_to_cpus_eb :: "swab_config \<Rightarrow> bool \<Rightarrow> u8 list \<Rightarrow> nat \<Rightarrow> u8 list option" where
  "be32_to_cpus_eb c k mem p = Some mem"

definition cpu_to_be16s_eb :: "swab_config \<Rightarrow> bool \<Rightarrow> u8 list \<Rightarrow> nat \<Rightarrow> u8 list option" where
  "cpu_to_be16s_eb c k mem p = Some mem"

definition be16_to_cpus_eb :: "swab_config \<Rightarrow> bool \<Rightarrow> u8 list \<Rightarrow> nat \<Rightarrow> u8 list option" where
  "be16_to_cpus_eb c k mem p = Some mem"

section \<open>They keep the contract\<close>

interpretation const_le16_eb: byte_order Big Little
    constant_cpu_to_le16_eb constant_le16_to_cpu_eb
  by unfold_locales (simp_all add: constant_cpu_to_le16_eb_def constant_le16_to_cpu_eb_def
      const16.swaps_order const16.swaps_order')

interpretation const_be16_eb: byte_order Big Big
    constant_cpu_to_be16_eb constant_be16_to_cpu_eb
  by unfold_locales (simp_all add: constant_cpu_to_be16_eb_def constant_be16_to_cpu_eb_def)

interpretation const_le32_eb: byte_order Big Little
    constant_cpu_to_le32_eb constant_le32_to_cpu_eb
  by unfold_locales (simp_all add: constant_cpu_to_le32_eb_def constant_le32_to_cpu_eb_def
      const32.swaps_order const32.swaps_order')

interpretation const_be32_eb: byte_order Big Big
    constant_cpu_to_be32_eb constant_be32_to_cpu_eb
  by unfold_locales (simp_all add: constant_cpu_to_be32_eb_def constant_be32_to_cpu_eb_def)

interpretation const_le64_eb: byte_order Big Little
    constant_cpu_to_le64_eb constant_le64_to_cpu_eb
  by unfold_locales (simp_all add: constant_cpu_to_le64_eb_def constant_le64_to_cpu_eb_def
      const64.swaps_order const64.swaps_order')

interpretation const_be64_eb: byte_order Big Big
    constant_cpu_to_be64_eb constant_be64_to_cpu_eb
  by unfold_locales (simp_all add: constant_cpu_to_be64_eb_def constant_be64_to_cpu_eb_def)

interpretation const_htonl_eb: byte_order Big Big
    constant_htonl_eb constant_ntohl_eb
  by unfold_locales (simp_all add: constant_htonl_eb_def constant_ntohl_eb_def)

interpretation const_htons_eb: byte_order Big Big
    constant_htons_eb constant_ntohs_eb
  by unfold_locales (simp_all add: constant_htons_eb_def constant_ntohs_eb_def)

locale host_eb = swab_host +
  assumes order: "host_order c = Big"
begin

lemmas le16_defs = cpu_to_le16_eb_def [abs_def] le16_to_cpu_eb_def [abs_def]
  cpu_to_le16p_eb_def le16_to_cpup_eb_def
  cpu_to_le16s_eb_def le16_to_cpus_eb_def swab16_eq swab16p_eq swab16s_eq order
  const16.swaps_order const16.swaps_order'

lemmas be16_defs = cpu_to_be16_eb_def [abs_def] be16_to_cpu_eb_def [abs_def]
  cpu_to_be16p_eb_def be16_to_cpup_eb_def
  cpu_to_be16s_eb_def be16_to_cpus_eb_def order option.map_ident load_then_store

lemmas le32_defs = cpu_to_le32_eb_def [abs_def] le32_to_cpu_eb_def [abs_def]
  cpu_to_le32p_eb_def le32_to_cpup_eb_def
  cpu_to_le32s_eb_def le32_to_cpus_eb_def swab32_eq swab32p_eq swab32s_eq order
  const32.swaps_order const32.swaps_order'

lemmas be32_defs = cpu_to_be32_eb_def [abs_def] be32_to_cpu_eb_def [abs_def]
  cpu_to_be32p_eb_def be32_to_cpup_eb_def
  cpu_to_be32s_eb_def be32_to_cpus_eb_def order option.map_ident load_then_store

lemmas le64_defs = cpu_to_le64_eb_def [abs_def] le64_to_cpu_eb_def [abs_def]
  cpu_to_le64p_eb_def le64_to_cpup_eb_def
  cpu_to_le64s_eb_def le64_to_cpus_eb_def swab64_eq swab64p_eq swab64s_eq order
  const64.swaps_order const64.swaps_order'

lemmas be64_defs = cpu_to_be64_eb_def [abs_def] be64_to_cpu_eb_def [abs_def]
  cpu_to_be64p_eb_def be64_to_cpup_eb_def
  cpu_to_be64s_eb_def be64_to_cpus_eb_def order option.map_ident load_then_store

end

sublocale host_eb < le16: byte_order_mem Big Little
    "cpu_to_le16_eb c k" "le16_to_cpu_eb c k"
    "cpu_to_le16p_eb c k" "le16_to_cpup_eb c k"
    "cpu_to_le16s_eb c k" "le16_to_cpus_eb c k" for k
  by unfold_locales (simp_all add: le16_defs)

sublocale host_eb < be16: byte_order_mem Big Big
    "cpu_to_be16_eb c k" "be16_to_cpu_eb c k"
    "cpu_to_be16p_eb c k" "be16_to_cpup_eb c k"
    "cpu_to_be16s_eb c k" "be16_to_cpus_eb c k" for k
  by unfold_locales (simp_all add: be16_defs)

sublocale host_eb < le32: byte_order_mem Big Little
    "cpu_to_le32_eb c k" "le32_to_cpu_eb c k"
    "cpu_to_le32p_eb c k" "le32_to_cpup_eb c k"
    "cpu_to_le32s_eb c k" "le32_to_cpus_eb c k" for k
  by unfold_locales (simp_all add: le32_defs)

sublocale host_eb < be32: byte_order_mem Big Big
    "cpu_to_be32_eb c k" "be32_to_cpu_eb c k"
    "cpu_to_be32p_eb c k" "be32_to_cpup_eb c k"
    "cpu_to_be32s_eb c k" "be32_to_cpus_eb c k" for k
  by unfold_locales (simp_all add: be32_defs)

sublocale host_eb < le64: byte_order_mem Big Little
    "cpu_to_le64_eb c k" "le64_to_cpu_eb c k"
    "cpu_to_le64p_eb c k" "le64_to_cpup_eb c k"
    "cpu_to_le64s_eb c k" "le64_to_cpus_eb c k" for k
  by unfold_locales (simp_all add: le64_defs)

sublocale host_eb < be64: byte_order_mem Big Big
    "cpu_to_be64_eb c k" "be64_to_cpu_eb c k"
    "cpu_to_be64p_eb c k" "be64_to_cpup_eb c k"
    "cpu_to_be64s_eb c k" "be64_to_cpus_eb c k" for k
  by unfold_locales (simp_all add: be64_defs)

context host_eb
begin

lemmas stores = le16.store_converted be16.store_converted le32.store_converted
  be32.store_converted le64.store_converted be64.store_converted

lemmas loads = le16.load_converted be16.load_converted le32.load_converted
  be32.load_converted le64.load_converted be64.load_converted

lemmas reads = le16.reads_order be16.reads_order le32.reads_order
  be32.reads_order le64.reads_order be64.reads_order

lemmas converts = le16.converts_in_place be16.converts_in_place le32.converts_in_place
  be32.converts_in_place le64.converts_in_place be64.converts_in_place

lemmas converts_back = le16.converts_back_in_place be16.converts_back_in_place le32.converts_back_in_place
  be32.converts_back_in_place le64.converts_back_in_place be64.converts_back_in_place

lemmas inverses = le16.from_to be16.from_to le32.from_to
  be32.from_to le64.from_to be64.from_to

end

interpretation generic_eb: host_eb "generic_config Big bits thru" for bits thru
  by unfold_locales (simp add: config_defs)

interpretation arm_eb: host_eb "arm_config Big"
  by unfold_locales (simp add: config_defs)

interpretation arc_eb: host_eb "arc_config Big"
  by unfold_locales (simp add: config_defs)

end
