(* ===== verification/Byteorder.thy ===== *)
theory Byteorder
  imports Byteorder_Little Byteorder_Big
begin

text \<open>
  The two byte-order headers together: what one host stores in a fixed order, a host of the other
  order reads, and the conversions agree with their constant-folding variants.
\<close>

lemma store_load_order:
  assumes "p + LENGTH('a) div 8 \<le> length mem" "8 dvd LENGTH('a)"
  shows "Option.bind (store e mem p (x :: 'a::len word)) (\<lambda>m. load e m p) = Some x"
  using assms by (simp add: store_in load_in word_of_bytes_of)

text \<open>
  C6: A value that a little-endian host converts to big-endian and stores is read back by a big-endian
  host through the pointer conversion, and the other way round for little-endian order, for the three
  widths and any choice of constant folding on either side.
\<close>

theorem byteorder_exchange:
  assumes "host_el c" "host_eb c'" "p + 8 \<le> length mem"
  shows "do { m \<leftarrow> store Little mem p (cpu_to_be16_el c k x16); be16_to_cpup_eb c' k' m p } = Some x16 \<and>
    do { m \<leftarrow> store Little mem p (cpu_to_be32_el c k x32); be32_to_cpup_eb c' k' m p } = Some x32 \<and>
    do { m \<leftarrow> store Little mem p (cpu_to_be64_el c k x64); be64_to_cpup_eb c' k' m p } = Some x64 \<and>
    do { m \<leftarrow> store Big mem p (cpu_to_le16_eb c' k' x16); le16_to_cpup_el c k m p } = Some x16 \<and>
    do { m \<leftarrow> store Big mem p (cpu_to_le32_eb c' k' x32); le32_to_cpup_el c k m p } = Some x32 \<and>
    do { m \<leftarrow> store Big mem p (cpu_to_le64_eb c' k' x64); le64_to_cpup_el c k m p } = Some x64"
  using assms(3) by (simp add: host_el.stores [OF assms(1)] host_el.reads [OF assms(1)]
      host_eb.stores [OF assms(2)] host_eb.reads [OF assms(2)] store_load_order)

theorem byteorder_exchange_witness:
  "do { m \<leftarrow> store Little (replicate 8 0) 0 (cpu_to_be16_el (arm_config Little) False 0x1234);
        be16_to_cpup_eb (generic_config Big 64 False) True m 0 } = Some 0x1234 \<and>
   do { m \<leftarrow> store Little (replicate 8 0) 0 (cpu_to_be32_el (arm_config Little) False 0x12345678);
        be32_to_cpup_eb (generic_config Big 64 False) True m 0 } = Some 0x12345678 \<and>
   do { m \<leftarrow> store Little (replicate 8 0) 0 (cpu_to_be64_el (arm_config Little) False 0x123456789abcdef0);
        be64_to_cpup_eb (generic_config Big 64 False) True m 0 } = Some 0x123456789abcdef0 \<and>
   do { m \<leftarrow> store Big (replicate 8 0) 0 (cpu_to_le16_eb (generic_config Big 64 False) True 0x1234);
        le16_to_cpup_el (arm_config Little) False m 0 } = Some 0x1234 \<and>
   do { m \<leftarrow> store Big (replicate 8 0) 0 (cpu_to_le32_eb (generic_config Big 64 False) True 0x12345678);
        le32_to_cpup_el (arm_config Little) False m 0 } = Some 0x12345678 \<and>
   do { m \<leftarrow> store Big (replicate 8 0) 0
          (cpu_to_le64_eb (generic_config Big 64 False) True 0x123456789abcdef0);
        le64_to_cpup_el (arm_config Little) False m 0 } = Some 0x123456789abcdef0"
  by (rule byteorder_exchange [OF arm_el.host_el_axioms generic_eb.host_eb_axioms]) simp

text \<open>
  Converting an object in place turns the host's representation of its value into the one of the
  fixed order, and converting back restores it, with the rest of the memory unchanged; where the
  orders agree the header does nothing at all, and that is right.
\<close>

theorem byteorder_in_place:
  fixes x :: u32
  assumes "host_el c" "host_eb c'" "p + 4 \<le> length mem"
  shows "Option.bind (store Little mem p x) (\<lambda>m. cpu_to_be32s_el c k m p) = store Big mem p x \<and>
    Option.bind (store Big mem p x) (\<lambda>m. be32_to_cpus_el c k m p) = store Little mem p x \<and>
    Option.bind (store Little mem p x) (\<lambda>m. cpu_to_le32s_el c k m p) = store Little mem p x \<and>
    Option.bind (store Big mem p x) (\<lambda>m. cpu_to_le32s_eb c' k' m p) = store Little mem p x \<and>
    Option.bind (store Little mem p x) (\<lambda>m. le32_to_cpus_eb c' k' m p) = store Big mem p x \<and>
    Option.bind (store Big mem p x) (\<lambda>m. cpu_to_be32s_eb c' k' m p) = store Big mem p x"
proof -
  obtain l b where l: "store Little mem p x = Some l" and b: "store Big mem p x = Some b"
    using assms(3) by (simp add: store_in)
  then show ?thesis
    using host_el.converts(3,4) [OF assms(1) l] host_el.converts_back(4) [OF assms(1) b]
      host_eb.converts(3,4) [OF assms(2) b] host_eb.converts_back(3) [OF assms(2) l] by simp
qed

theorem byteorder_in_place_witness:
  "Option.bind (store Little [0, 0, 0, 0, 7] 0 (0x12345678 :: u32))
     (\<lambda>m. cpu_to_be32s_el (arm_config Little) False m 0) = store Big [0, 0, 0, 0, 7] 0 (0x12345678 :: u32)"
  using byteorder_in_place [OF arm_el.host_el_axioms arm_eb.host_eb_axioms,
      of 0 "[0, 0, 0, 0, 7]" "0x12345678"] by simp

text \<open>
  The constant-folding conversions between host and network order are inverse to each other on
  either host, and give the same bytes in memory: the network order.
\<close>

theorem htonl_network_order:
  "bytes_of Little (constant_htonl_el x) = bytes_of Big (constant_htonl_eb x) \<and>
   bytes_of Little (constant_htons_el y) = bytes_of Big (constant_htons_eb y) \<and>
   constant_ntohl_el (constant_htonl_el x) = x \<and> constant_ntohs_el (constant_htons_el y) = y \<and>
   constant_ntohl_eb (constant_htonl_eb x) = x \<and> constant_ntohs_eb (constant_htons_eb y) = y"
  by (simp add: const_htonl_el.to_bytes const_htonl_eb.to_bytes const_htons_el.to_bytes
      const_htons_eb.to_bytes const_htonl_el.from_to const_htonl_eb.from_to const_htons_el.from_to
      const_htons_eb.from_to)

end
