(* ===== verification/C_Object.thy ===== *)
theory C_Object
  imports Uapi_Memory C_Layout
begin

text \<open>
  Structures of scalars in memory: the bytes of an object, with its members at the offsets of \<open>C_Layout\<close>, in
  the byte order of the host and with zeros in the padding, and the members as they are read through a
  pointer. A member's value is kept in 64 bits and is written and read with the width of its type.
\<close>

section \<open>Rounding up\<close>

text \<open>
  Rounding a length up to a power of two on machine words, \<^verbatim>\<open>(x + a - 1) & ~(a - 1)\<close>, as the headers
  write it in a dozen places, against the arithmetic \<open>align_up\<close>.
\<close>

lemma unat_and_not_mask:
  "unat (y AND NOT (mask k)) = unat (y :: 'a::len word) div 2 ^ k * 2 ^ k"
proof -
  have "y AND NOT (mask k) = push_bit k (drop_bit k y)"
    by (rule bit_word_eqI) (auto simp add: bit_simps)
  moreover have "unat y div 2 ^ k * 2 ^ k < 2 ^ LENGTH('a)"
    by (rule le_less_trans [of _ "unat y"]) (simp_all add: div_times_less_eq_dividend)
  moreover have "unat (push_bit k (drop_bit k y)) =
      take_bit LENGTH('a) (push_bit k (drop_bit k (unat y)))"
    by (simp only: unsigned_push_bit_eq unat_drop_bit_eq)
  moreover have "push_bit k (drop_bit k (unat y)) = unat y div 2 ^ k * 2 ^ k"
    by (simp only: push_bit_eq_mult drop_bit_eq_div)
  ultimately show ?thesis by (simp only: take_bit_nat_eq_self)
qed

lemma unat_mask:
  assumes "k \<le> LENGTH('a)"
  shows "unat (mask k :: 'a::len word) = 2 ^ k - 1"
proof -
  have "2 ^ k \<le> (2 :: nat) ^ LENGTH('a)" using assms by (rule power_increasing) simp
  moreover have "0 < (2 :: nat) ^ k" by simp
  ultimately have "2 ^ k - 1 < (2 :: nat) ^ LENGTH('a)" by linarith
  then have "unat (word_of_nat (2 ^ k - 1) :: 'a word) = 2 ^ k - 1"
    by (simp only: unsigned_of_nat take_bit_nat_eq_self of_nat_id)
  moreover have "word_of_nat (2 ^ k - 1) = (mask k :: 'a word)"
    by (simp add: mask_eq_exp_minus_1 of_nat_diff)
  ultimately show ?thesis by simp
qed

lemma unat_align:
  fixes x a :: "'a::len word"
  assumes "a = 2 ^ k" "k \<le> LENGTH('a)" "unat x + 2 ^ k \<le> 2 ^ LENGTH('a)"
  shows "unat ((x + a - 1) AND NOT (a - 1)) = align_up (2 ^ k) (unat x)"
proof -
  have m: "a - 1 = mask k" by (simp add: assms(1) mask_eq_exp_minus_1)
  have u: "unat (mask k :: 'a word) = 2 ^ k - 1" using assms(2) by (rule unat_mask)
  have "0 < (2 :: nat) ^ k" by simp
  then have "unat x + unat (mask k :: 'a word) < 2 ^ LENGTH('a)"
    using assms(3) unfolding u by linarith
  then have "unat (x + mask k) = unat x + (2 ^ k - 1)"
    using u by (simp add: unat_word_ariths)
  moreover have "x + a - 1 = x + mask k" by (simp flip: m)
  moreover have "unat x + (2 ^ k - 1) = unat x + 2 ^ k - 1" by simp
  ultimately have "unat (x + a - 1) = unat x + 2 ^ k - 1" by (simp only:)
  then show ?thesis unfolding m unat_and_not_mask align_up_def by (simp only:)
qed

section \<open>Objects\<close>

definition scalar_bytes :: "endian \<Rightarrow> nat \<Rightarrow> u64 \<Rightarrow> u8 list" where
  "scalar_bytes e w v = order_bytes e (take w (le_bytes v))"

definition scalar_load :: "endian \<Rightarrow> u8 list \<Rightarrow> nat \<Rightarrow> nat \<Rightarrow> u64 option" where
  "scalar_load e mem p w = map_option (\<lambda>bs. le_word (order_bytes e bs)) (rdn mem p w)"

fun members_bytes :: "endian \<Rightarrow> nat \<Rightarrow> ctype list \<Rightarrow> u64 list \<Rightarrow> nat \<Rightarrow> u8 list" where
  "members_bytes e amax (t # ts) (v # vs) off =
     replicate (align_up (alignof amax t) off - off) 0 @ scalar_bytes e (sizeof amax t) v @
     members_bytes e amax ts vs (align_up (alignof amax t) off + sizeof amax t)"
| "members_bytes e amax ts vs off = []"

definition object_bytes :: "endian \<Rightarrow> nat \<Rightarrow> ctype list \<Rightarrow> u64 list \<Rightarrow> u8 list" where
  "object_bytes e amax ts vs = (let bs = members_bytes e amax ts vs 0 in
     bs @ replicate (sizeof amax (Struct ts) - length bs) 0)"

fun members_load :: "endian \<Rightarrow> nat \<Rightarrow> u8 list \<Rightarrow> nat \<Rightarrow> ctype list \<Rightarrow> nat \<Rightarrow> u64 list option" where
  "members_load e amax mem p [] off = Some []"
| "members_load e amax mem p (t # ts) off = do {
     v \<leftarrow> scalar_load e mem (p + align_up (alignof amax t) off) (sizeof amax t);
     vs \<leftarrow> members_load e amax mem p ts (align_up (alignof amax t) off + sizeof amax t);
     Some (v # vs)
   }"

definition object_load :: "endian \<Rightarrow> nat \<Rightarrow> ctype list \<Rightarrow> u8 list \<Rightarrow> nat \<Rightarrow> u64 list option" where
  "object_load e amax ts mem p = members_load e amax mem p ts 0"

text \<open>Scalars of at most eight bytes whose values are in the range of their types.\<close>

definition scalar_ok :: "nat \<Rightarrow> ctype \<Rightarrow> u64 \<Rightarrow> bool" where
  "scalar_ok amax t v \<longleftrightarrow> sizeof amax t \<le> 8 \<and> 0 < alignof amax t \<and> fits (8 * sizeof amax t) v"

lemma length_scalar_bytes [simp]: "length (scalar_bytes e w v) = min w 8"
  by (simp add: scalar_bytes_def)

lemma le_word_take: "fits (8 * w) v \<Longrightarrow> le_word (take w (le_bytes v)) = (v :: u64)"
proof (rule bit_word_eqI)
  fix n assume v: "fits (8 * w) v" and n: "n < LENGTH(64)"
  then have "n div 8 < 8" by (simp add: less_mult_imp_div_less)
  moreover have "n div 8 < w" if "bit v n"
    using fits_bitD [OF v that] by (simp add: div_less_iff_less_mult mult.commute)
  ultimately show "bit (le_word (take w (le_bytes v)) :: u64) n \<longleftrightarrow> bit v n"
    using n by (auto simp add: bit_le_word nth_le_bytes bit_byte_of)
qed

lemma scalar_load_bytes:
  assumes "w \<le> 8" "fits (8 * w) v" "p = length pre"
  shows "scalar_load e (pre @ scalar_bytes e w v @ post) p w = Some v"
  using assms by (simp add: scalar_load_def rdn_def le_word_take scalar_bytes_def)

lemma members_load_bytes:
  assumes "list_all2 (scalar_ok amax) ts vs" "length pre = p + off"
  shows "members_load e amax (pre @ members_bytes e amax ts vs off @ post) p ts off = Some vs"
  using assms
proof (induction ts vs arbitrary: pre off rule: list_all2_induct)
  case (Cons t ts v vs)
  let ?a = "align_up (alignof amax t) off" and ?w = "sizeof amax t"
  let ?pad = "replicate (?a - off) (0 :: u8)" and ?b = "scalar_bytes e ?w v"
  have ok: "?w \<le> 8" "fits (8 * ?w) v" "off \<le> ?a"
    using Cons.hyps(1) align_up_ge by (simp_all add: scalar_ok_def)
  have "scalar_load e ((pre @ ?pad) @ ?b @ members_bytes e amax ts vs (?a + ?w) @ post) (p + ?a) ?w = Some v"
    using ok Cons.prems by (intro scalar_load_bytes) simp_all
  moreover have "members_load e amax ((pre @ ?pad @ ?b) @ members_bytes e amax ts vs (?a + ?w) @ post) p ts (?a + ?w)
      = Some vs"
    using ok Cons.prems by (intro Cons.IH) simp
  ultimately show ?case by simp
qed simp

lemma object_load_bytes:
  "list_all2 (scalar_ok amax) ts vs \<Longrightarrow>
    object_load e amax ts (pre @ object_bytes e amax ts vs @ post) (length pre) = Some vs"
  using members_load_bytes [of amax ts vs pre "length pre" 0 e] by (simp add: object_load_def object_bytes_def Let_def)

lemma length_members_bytes:
  assumes "list_all2 (scalar_ok amax) ts vs"
  shows "off + length (members_bytes e amax ts vs off) =
    fold (\<lambda>(a, s) off. align_up a off + s) (map (\<lambda>t. (alignof amax t, sizeof amax t)) ts) off"
  using assms
proof (induction ts vs arbitrary: off rule: list_all2_induct)
  case (Cons t ts v vs)
  have "sizeof amax t \<le> 8" "off \<le> align_up (alignof amax t) off"
    using Cons.hyps(1) align_up_ge by (simp_all add: scalar_ok_def)
  then show ?case using Cons.IH [of "align_up (alignof amax t) off + sizeof amax t"] by simp
qed simp

lemma alignof_struct_pos: "0 < alignof amax (Struct ts)"
proof -
  have "(1 :: nat) \<le> fold max xs a" if "1 \<le> a" for xs a using that by (induction xs arbitrary: a) simp_all
  then show ?thesis by (simp add: Suc_le_eq)
qed

lemma length_object_bytes:
  assumes "list_all2 (scalar_ok amax) ts vs"
  shows "length (object_bytes e amax ts vs) = sizeof amax (Struct ts)"
proof -
  have "length (members_bytes e amax ts vs 0) =
      fold (\<lambda>(a, s) off. align_up a off + s) (map (\<lambda>t. (alignof amax t, sizeof amax t)) ts) 0"
    using length_members_bytes [OF assms, of 0 e] by simp
  moreover have "\<dots> \<le> sizeof amax (Struct ts)"
    using align_up_ge [OF alignof_struct_pos] by simp
  ultimately show ?thesis by (simp add: object_bytes_def Let_def)
qed

end
