(* ===== verification/Virtio_Ring.thy ===== *)
theory Virtio_Ring
  imports C_Object
begin

text \<open>
  The split virtqueue of \<^verbatim>\<open>include/linux/virtio_ring.h\<close>: its structures, the computation of where its
  three parts lie (\<^verbatim>\<open>vring_init\<close>), of its size (\<^verbatim>\<open>vring_size\<close>), and the rule for event notification on
  free-running 16-bit indices (\<^verbatim>\<open>vring_need_event\<close>).

  Addresses and \<^verbatim>\<open>unsigned long\<close> have 64 bits. The arithmetic is that of the code: \<^verbatim>\<open>3 + num\<close> wraps at
  32 bits, products with \<^verbatim>\<open>sizeof\<close> at 64, and \<^verbatim>\<open>vring_size\<close> returns 32 bits.
\<close>

section \<open>Flags\<close>

definition VRING_DESC_F_NEXT :: u16 where "VRING_DESC_F_NEXT = 1"

definition VRING_DESC_F_WRITE :: u16 where "VRING_DESC_F_WRITE = 2"

definition VRING_DESC_F_INDIRECT :: u16 where "VRING_DESC_F_INDIRECT = 4"

definition VRING_PACKED_DESC_F_AVAIL :: nat where "VRING_PACKED_DESC_F_AVAIL = 7"

definition VRING_PACKED_DESC_F_USED :: nat where "VRING_PACKED_DESC_F_USED = 15"

definition VRING_PACKED_EVENT_F_WRAP_CTR :: nat where "VRING_PACKED_EVENT_F_WRAP_CTR = 15"

section \<open>Structures\<close>

definition struct_vring_desc :: ctype where
  "struct_vring_desc = Struct [Scalar 8, Scalar 4, Scalar 2, Scalar 2]"

text \<open>The flexible array members \<^verbatim>\<open>ring[]\<close> take no room of their own.\<close>

definition struct_vring_avail :: ctype where
  "struct_vring_avail = Struct [Scalar 2, Scalar 2, Arr (Scalar 2) 0]"

definition struct_vring_used_elem :: ctype where
  "struct_vring_used_elem = Struct [Scalar 4, Scalar 4]"

definition struct_vring_used :: ctype where
  "struct_vring_used = Struct [Scalar 2, Scalar 2, Arr struct_vring_used_elem 0]"

record vring =
  vr_num :: u32
  vr_desc :: u64
  vr_avail :: u64
  vr_used :: u64

definition sizeof_vring_desc :: u64 where "sizeof_vring_desc = 16"

definition sizeof_virtio16 :: u64 where "sizeof_virtio16 = 2"

definition sizeof_vring_used_elem :: u64 where "sizeof_vring_used_elem = 8"

text \<open>The addresses of \<^verbatim>\<open>avail->ring[i]\<close> and \<^verbatim>\<open>used->ring[i]\<close>.\<close>

definition avail_ring :: "u64 \<Rightarrow> u32 \<Rightarrow> u64" where
  "avail_ring avail i = avail + 4 + ucast i * sizeof_virtio16"

definition used_ring :: "u64 \<Rightarrow> u32 \<Rightarrow> u64" where
  "used_ring used i = used + 4 + ucast i * sizeof_vring_used_elem"

definition vring_used_event :: "vring \<Rightarrow> u64" where
  "vring_used_event vr = avail_ring (vr_avail vr) (vr_num vr)"

definition vring_avail_event :: "vring \<Rightarrow> u64" where
  "vring_avail_event vr = used_ring (vr_used vr) (vr_num vr)"

section \<open>Operations\<close>

definition vring_init :: "u32 \<Rightarrow> u64 \<Rightarrow> u64 \<Rightarrow> vring" where
  "vring_init num p align = (
     let avail = p + ucast num * sizeof_vring_desc
     in \<lparr>vr_num = num, vr_desc = p, vr_avail = avail,
         vr_used = (avail_ring avail num + sizeof_virtio16 + align - 1) AND NOT (align - 1)\<rparr>)"

definition vring_size :: "u32 \<Rightarrow> u64 \<Rightarrow> u32" where
  "vring_size num align = ucast (
     ((sizeof_vring_desc * ucast num + sizeof_virtio16 * ucast (3 + num) + align - 1)
        AND NOT (align - 1))
     + sizeof_virtio16 * 3 + sizeof_vring_used_elem * ucast num)"

definition vring_need_event :: "u16 \<Rightarrow> u16 \<Rightarrow> u16 \<Rightarrow> bool" where
  "vring_need_event event_idx new_idx old \<longleftrightarrow>
     u16_of (promote16 new_idx - promote16 event_idx - 1) < u16_of (promote16 new_idx - promote16 old)"

text \<open>
  A driver that publishes buffers in batches of \<open>ns\<close> entries: the indices before and after
  each batch.
\<close>

fun batches :: "u16 \<Rightarrow> nat list \<Rightarrow> (u16 \<times> u16) list" where
  "batches old [] = []"
| "batches old (n # ns) = (old, old + word_of_nat n) # batches (old + word_of_nat n) ns"

section \<open>Lemmas\<close>

text \<open>The offsets and sizes that the code's pointer arithmetic uses are those of the structures.\<close>

lemma vring_struct_sizes:
  "sizeof 8 struct_vring_desc = unat sizeof_vring_desc"
  "sizeof 8 struct_vring_used_elem = unat sizeof_vring_used_elem"
  "offsets 8 [Scalar 2, Scalar 2, Arr (Scalar 2) 0] 0 = [0, 2, 4]"
  "offsets 8 [Scalar 2, Scalar 2, Arr struct_vring_used_elem 0] 0 = [0, 2, 4]"
  by code_simp+

lemma take_bit_16_diff:
  "take_bit 16 (take_bit 32 x - take_bit 32 y) = take_bit 16 (x - y :: int)"
  by (subst (1 2) take_bit_diff [symmetric]) (simp add: take_bit_take_bit)

lemma u16_of_minus: "u16_of (x - y) = u16_of x - u16_of y"
  unfolding u16_of_def by transfer (simp add: take_bit_take_bit take_bit_16_diff min_def)

lemma u16_of_promote16: "u16_of (promote16 h) = h"
  by (rule bit_word_eqI) (simp add: u16_of_def promote16_def bit_simps)

lemma u16_of_1: "u16_of 1 = 1"
  by (simp add: u16_of_def)

lemma need_event_words:
  "vring_need_event e n old \<longleftrightarrow> n - e - 1 < n - old"
  by (simp add: vring_need_event_def u16_of_minus u16_of_promote16 u16_of_1)

text \<open>On free-running indices: the event index lies among those that were passed.\<close>

lemma need_event_iff:
  "vring_need_event e n old \<longleftrightarrow> e - old < n - old"
proof -
  define x where "x = e - old"
  define d where "d = n - old"
  have "n - e - 1 = d - x - 1" by (simp add: x_def d_def)
  moreover have "d - x - 1 < d \<longleftrightarrow> x < d" by unat_arith
  ultimately show ?thesis by (simp add: need_event_words x_def d_def)
qed

text \<open>
  The nat values of the code's 64-bit expressions, for queues of at most 65536 entries that lie
  below the end of the address space.
\<close>

locale vring_at =
  fixes num :: u32 and p align :: u64 and k :: nat
  assumes num: "unat num \<le> 65536" and align: "align = 2 ^ k" "k \<le> 30"
    and aligned: "2 ^ k dvd unat p" and room: "unat p + 2 ^ 32 \<le> 2 ^ 64"
begin

lemma unat_num: "unat (ucast num :: u64) = unat num"
  using num by (simp add: unsigned_ucast_eq take_bit_nat_eq_self)

lemma unat_three_num: "unat (ucast (3 + num) :: u64) = 3 + unat num"
proof -
  have "unat (3 + num) = 3 + unat num" using num by (simp add: unat_word_ariths)
  then show ?thesis using num by (simp add: unsigned_ucast_eq take_bit_nat_eq_self)
qed

lemma align_bound: "(2 :: nat) ^ k \<le> 2 ^ 30"
  using align(2) by (rule power_increasing) simp

lemma avail_addr: "unat (vr_avail (vring_init num p align)) = unat p + 16 * unat num"
  using num room
  by (simp add: vring_init_def Let_def sizeof_vring_desc_def unat_word_ariths unat_num mult.commute)

lemma used_event_addr:
  "unat (vring_used_event (vring_init num p align)) = unat p + 16 * unat num + 4 + 2 * unat num"
proof -
  have "vring_used_event (vring_init num p align) =
      vr_avail (vring_init num p align) + (4 + ucast num * 2)"
    by (simp add: vring_used_event_def avail_ring_def vring_init_def sizeof_virtio16_def Let_def)
  then show ?thesis using num room by (simp add: unat_word_ariths avail_addr unat_num mult.commute)
qed

lemma used_addr:
  "unat (vr_used (vring_init num p align)) = unat p + align_up (2 ^ k) (18 * unat num + 6)"
proof -
  have a: "vr_used (vring_init num p align) =
      (vring_used_event (vring_init num p align) + 2 + align - 1) AND NOT (align - 1)"
    by (simp add: vring_used_event_def vring_init_def sizeof_virtio16_def Let_def)
  have u: "unat (vring_used_event (vring_init num p align) + 2) = unat p + (18 * unat num + 6)"
    using num room by (simp add: unat_word_ariths used_event_addr)
  have "unat (vr_used (vring_init num p align)) = align_up (2 ^ k) (unat p + (18 * unat num + 6))"
    unfolding a using num room align_bound align(2) by (subst unat_align [OF align(1)]) (simp_all add: u)
  then show ?thesis by (simp add: align_up_add aligned)
qed

lemma used_bound: "align_up (2 ^ k) (18 * unat num + 6) < 18 * unat num + 6 + 2 ^ 30"
  using align_up_less [of "2 ^ k" "18 * unat num + 6"] align_bound by simp

lemma avail_event_addr:
  "unat (vring_avail_event (vring_init num p align)) =
    unat p + align_up (2 ^ k) (18 * unat num + 6) + 4 + 8 * unat num"
proof -
  have "vring_avail_event (vring_init num p align) =
      vr_used (vring_init num p align) + (4 + ucast num * 8)"
    by (simp add: vring_avail_event_def used_ring_def vring_init_def sizeof_vring_used_elem_def Let_def)
  then show ?thesis using num room used_bound
    by (simp add: unat_word_ariths used_addr unat_num mult.commute)
qed

lemma size_value:
  "unat (vring_size num align) = align_up (2 ^ k) (18 * unat num + 6) + 6 + 8 * unat num"
proof -
  let ?x = "sizeof_vring_desc * ucast num + sizeof_virtio16 * ucast (3 + num) :: u64"
  have x: "unat ?x = 18 * unat num + 6"
    using num by (simp add: sizeof_vring_desc_def sizeof_virtio16_def unat_word_ariths unat_num
        unat_three_num)
  have "unat ((?x + align - 1) AND NOT (align - 1)) = align_up (2 ^ k) (18 * unat num + 6)"
    using num align_bound align(2) by (subst unat_align [OF align(1)]) (simp_all add: x)
  then have "unat (((?x + align - 1) AND NOT (align - 1)) + sizeof_virtio16 * 3 +
      sizeof_vring_used_elem * ucast num) =
      align_up (2 ^ k) (18 * unat num + 6) + 6 + 8 * unat num"
    using num used_bound
    by (simp add: sizeof_virtio16_def sizeof_vring_used_elem_def unat_word_ariths unat_num)
  then show ?thesis
    using num used_bound by (simp add: vring_size_def unsigned_ucast_eq take_bit_nat_eq_self)
qed

end

text \<open>A queue of 256 entries at a page boundary, with the legacy page alignment.\<close>

interpretation page_ring: vring_at 256 "0x10000" 4096 12
  by unfold_locales (simp_all add: dvd_def exI [of _ 16])

section \<open>Properties\<close>

text \<open>
  C8: The three parts that \<^verbatim>\<open>vring_init\<close> lays out follow one another without overlap inside
  \<^verbatim>\<open>vring_size\<close> bytes: the descriptors, the available ring with the used-event index behind its last
  entry, and, at the next multiple of the alignment, the used ring with the available-event index,
  which ends exactly at the computed size.
\<close>

theorem vring_layout:
  assumes "unat num \<le> 65536" "align = 2 ^ k" "k \<le> 30" "2 ^ k dvd unat p" "unat p + 2 ^ 32 \<le> 2 ^ 64"
  defines "vr \<equiv> vring_init num p align"
  shows "vr_desc vr = p \<and> unat (vr_avail vr) = unat p + 16 * unat num \<and>
    unat (vring_used_event vr) = unat (vr_avail vr) + 4 + 2 * unat num \<and>
    unat (vring_used_event vr) + 2 \<le> unat (vr_used vr) \<and> 2 ^ k dvd unat (vr_used vr) \<and>
    unat (vr_used vr) < unat (vring_used_event vr) + 2 + 2 ^ k \<and>
    unat (vring_avail_event vr) = unat (vr_used vr) + 4 + 8 * unat num \<and>
    unat (vring_avail_event vr) + 2 = unat p + unat (vring_size num align)"
proof -
  have v: "vring_at num p align k" using assms by unfold_locales simp_all
  note facts = vring_at.avail_addr [OF v] vring_at.used_event_addr [OF v] vring_at.used_addr [OF v]
    vring_at.avail_event_addr [OF v] vring_at.size_value [OF v]
  have "vr_desc vr = p" by (simp add: vr_def vring_init_def Let_def)
  moreover have "2 ^ k dvd unat p + align_up (2 ^ k) (18 * unat num + 6)"
    using assms(4) by (simp add: align_up_dvd)
  moreover have "18 * unat num + 6 \<le> align_up (2 ^ k) (18 * unat num + 6)"
    by (rule align_up_ge) simp
  moreover have "align_up (2 ^ k) (18 * unat num + 6) < 18 * unat num + 6 + 2 ^ k"
    by (rule align_up_less) simp
  ultimately show ?thesis by (simp add: vr_def facts)
qed

theorem vring_layout_witness:
  "unat (vring_avail_event (vring_init 256 0x10000 4096)) + 2 =
    unat (0x10000 :: u64) + unat (vring_size 256 4096)"
  using vring_layout [of 256 4096 12 "0x10000"] page_ring.aligned by simp

text \<open>
  An event is due exactly when the other side's event index is one of those just passed, counting
  modulo \<open>2\<^sup>1\<^sup>6\<close> from the old index up to, and not including, the new one.
\<close>

theorem vring_need_event_iff:
  "vring_need_event event_idx new_idx old \<longleftrightarrow>
    (\<exists>j < unat (new_idx - old). event_idx = old + word_of_nat j)"
proof
  assume "vring_need_event event_idx new_idx old"
  then have "unat (event_idx - old) < unat (new_idx - old)"
    by (simp add: need_event_iff word_less_nat_alt)
  moreover have "event_idx = old + word_of_nat (unat (event_idx - old))" by simp
  ultimately show "\<exists>j < unat (new_idx - old). event_idx = old + word_of_nat j" by blast
next
  assume "\<exists>j < unat (new_idx - old). event_idx = old + word_of_nat j"
  then obtain j where j: "j < unat (new_idx - old)" "event_idx = old + word_of_nat j" by blast
  have "j < 2 ^ 16" using j(1) unsigned_less [of "new_idx - old", where ?'a = nat] by simp
  then have "unat (word_of_nat j :: u16) = j" by (simp add: unsigned_of_nat take_bit_nat_eq_self)
  with j show "vring_need_event event_idx new_idx old"
    by (simp add: need_event_iff word_less_nat_alt)
qed

lemma index_passed_iff:
  fixes e old :: u16
  assumes "n < 2 ^ 16"
  shows "(\<exists>j < n. e = old + word_of_nat j) \<longleftrightarrow> unat (e - old) < n"
proof
  assume "\<exists>j < n. e = old + word_of_nat j"
  then obtain j where "j < n" "e = old + word_of_nat j" by blast
  with assms show "unat (e - old) < n" by (simp add: unsigned_of_nat take_bit_nat_eq_self)
next
  assume "unat (e - old) < n"
  then show "\<exists>j < n. e = old + word_of_nat j" by (intro exI [of _ "unat (e - old)"]) simp
qed

lemma need_event_batch:
  "n < 2 ^ 16 \<Longrightarrow> vring_need_event e (old + word_of_nat n) old \<longleftrightarrow> unat (e - old) < n"
  by (simp add: need_event_iff word_less_nat_alt unsigned_of_nat take_bit_nat_eq_self)

lemma index_after_batch:
  fixes e old :: u16
  assumes "n + k < 2 ^ 16"
  shows "unat (e - (old + word_of_nat n)) < k \<longleftrightarrow> n \<le> unat (e - old) \<and> unat (e - old) < n + k"
proof -
  define x where "x = e - old"
  have n: "unat (word_of_nat n :: u16) = n" using assms by (simp add: unsigned_of_nat take_bit_nat_eq_self)
  have "unat (x - word_of_nat n) = (if n \<le> unat x then unat x - n else unat x + 2 ^ 16 - n)"
    by (simp add: unat_sub_if' n)
  then have "unat (x - word_of_nat n) < k \<longleftrightarrow> n \<le> unat x \<and> unat x < n + k" using assms by auto
  moreover have "e - (old + word_of_nat n) = x - word_of_nat n" by (simp add: x_def diff_diff_eq)
  ultimately show ?thesis by (simp only: x_def)
qed

text \<open>
  C31: No event is lost or doubled: when an index advances in any number of batches that together stay
  below the \<open>2\<^sup>1\<^sup>6\<close> indices, \<^verbatim>\<open>vring_need_event\<close> says so in exactly one batch if the event index is among
  the indices passed, and in none if it is not.
\<close>

theorem vring_need_event_batches:
  assumes "sum_list ns < 2 ^ 16"
  shows "length (filter (\<lambda>(old, new_idx). vring_need_event event_idx new_idx old) (batches old ns)) =
    (if \<exists>j < sum_list ns. event_idx = old + word_of_nat j then 1 else 0)"
  using assms
proof (induction ns arbitrary: old)
  case (Cons n ns)
  let ?x = "unat (event_idx - old)"
  have n: "n < 2 ^ 16" "sum_list ns < 2 ^ 16" and sum: "n + sum_list ns < 2 ^ 16" using Cons.prems by simp_all
  have "length (filter (\<lambda>(old, new_idx). vring_need_event event_idx new_idx old)
      (batches (old + word_of_nat n) ns)) = (if n \<le> ?x \<and> ?x < n + sum_list ns then 1 else 0)"
    using Cons.IH [OF n(2), of "old + word_of_nat n"] index_passed_iff [OF n(2)]
      index_after_batch [OF sum] by simp
  moreover have "(\<exists>j < n + sum_list ns. event_idx = old + word_of_nat j) \<longleftrightarrow> ?x < n + sum_list ns"
    using sum by (rule index_passed_iff)
  ultimately show ?case using need_event_batch [OF n(1)] by auto
qed simp

theorem vring_need_event_batches_witness:
  "length (filter (\<lambda>(old, new_idx). vring_need_event 0 new_idx old) (batches 0xfffe [1, 1, 0, 4])) = 1 \<and>
    length (filter (\<lambda>(old, new_idx). vring_need_event 4 new_idx old) (batches 0xfffe [1, 1, 0, 4])) = 0"
proof -
  have "\<exists>j < sum_list [1, 1, 0, 4]. (0 :: u16) = 0xfffe + word_of_nat j" by (rule exI [of _ 2]) simp
  moreover have "\<not> (\<exists>j < sum_list [1, 1, 0, 4]. (4 :: u16) = 0xfffe + word_of_nat j)"
    by (subst index_passed_iff) simp_all
  ultimately show ?thesis
    using vring_need_event_batches [of "[1, 1, 0, 4]" 0 "0xfffe"]
      vring_need_event_batches [of "[1, 1, 0, 4]" 4 "0xfffe"] by simp
qed

end
