(* ===== verification/Tlv_Chain.thy ===== *)
theory Tlv_Chain
  imports C_Object
begin

text \<open>
  Chains of length-prefixed items, as netlink messages and route attributes form them on four-byte
  boundaries and file system events without padding. The macros of a protocol give a test that the item at a pointer is complete
  (\<open>ok\<close>, like \<^verbatim>\<open>NLMSG_OK\<close>) and the step to the next item (\<open>nx\<close>, like \<^verbatim>\<open>NLMSG_NEXT\<close>, which also lowers
  the remaining length); programs use them in the loop \<open>tlv_walk\<close>:
  \<^verbatim>\<open>for (; OK(p, len); p = NEXT(p, len)) visit(p);\<close>

  A pointer is an offset into a byte array and the remaining length a signed integer of the caller's width
  (\<^verbatim>\<open>int\<close> or \<^verbatim>\<open>long\<close>), which goes below zero when the last item has no padding. \<open>None\<close> is a read outside the array or, for the loop, that the
  fuel did not suffice.
\<close>

fun tlv_walk :: "(u8 list \<Rightarrow> nat \<Rightarrow> 'l::len word \<Rightarrow> bool option) \<Rightarrow>
    (u8 list \<Rightarrow> nat \<Rightarrow> 'l word \<Rightarrow> (nat \<times> 'l word) option) \<Rightarrow> (u8 list \<Rightarrow> nat \<Rightarrow> 'r option) \<Rightarrow>
    nat \<Rightarrow> u8 list \<Rightarrow> nat \<Rightarrow> 'l word \<Rightarrow> 'r list option" where
  "tlv_walk ok nx visit 0 mem p len = None"
| "tlv_walk ok nx visit (Suc fuel) mem p len = do {
     b \<leftarrow> ok mem p len;
     if b then do {
       r \<leftarrow> visit mem p;
       (p', len') \<leftarrow> nx mem p len;
       rs \<leftarrow> tlv_walk ok nx visit fuel mem p' len';
       Some (r # rs)
     } else Some []
   }"

lemma sint_minus_of_nat:
  fixes len :: "'l::len word"
  assumes "0 \<le> sint len" "int k \<le> sint len + 3" "3 \<le> LENGTH('l)"
  shows "sint (len - word_of_nat k) = sint len - int k"
proof -
  define n where "n = LENGTH('l) - Suc 0"
  have "(2 :: int) ^ 2 \<le> 2 ^ n" using assms(3) unfolding n_def by (intro power_increasing) auto
  moreover have "sint len < 2 ^ n" unfolding n_def using sint_less [of len] by simp
  ultimately have k: "- (2 ^ n) \<le> sint len - int k" "sint len - int k < 2 ^ n" using assms(1,2) by simp_all
  have "len - word_of_nat k = word_of_int (sint len - int k)" by simp
  then show ?thesis using k
    by (simp only: signed_of_int) (simp add: signed_take_bit_int_eq_self n_def)
qed

lemma nat_sint: "0 \<le> sint (len :: c_int) \<Longrightarrow> unat len = nat (sint len)"
proof -
  assume "0 \<le> sint len"
  moreover have "sint len < 2147483648" using sint_less [of len] by simp
  ultimately have "uint len = sint len" by (simp add: uint_sint take_bit_int_eq_self)
  then show ?thesis by (simp flip: nat_uint_eq)
qed

locale tlv_chain =
  fixes al hdr :: nat
    and rlen :: "u8 list \<Rightarrow> nat \<Rightarrow> nat option"
    and ok :: "u8 list \<Rightarrow> nat \<Rightarrow> 'l::len word \<Rightarrow> bool option"
    and nx :: "u8 list \<Rightarrow> nat \<Rightarrow> 'l word \<Rightarrow> (nat \<times> 'l word) option"
  assumes width: "3 \<le> LENGTH('l)"
    and al: "0 < al" "al \<le> 4"
    and hdr: "4 \<le> hdr"
    and readable: "p + hdr \<le> length mem \<Longrightarrow> rlen mem p \<noteq> None"
    and ok: "ok mem p len = (if sint len < int hdr then Some False
      else map_option (\<lambda>n. hdr \<le> n \<and> int n \<le> sint len) (rlen mem p))"
    and nx: "rlen mem p = Some n \<Longrightarrow> hdr \<le> n \<Longrightarrow> int n \<le> sint len \<Longrightarrow>
      nx mem p len = Some (p + align_up al n, len - word_of_nat (align_up al n))"
begin

text \<open>
  With the length of the buffer, the loop ends and reads nothing outside it: \<open>Some\<close>, as soon as the
  fuel exceeds a quarter of the length, whatever the bytes are.
\<close>

lemma walk_total:
  assumes "int p + sint len \<le> int (length mem)" "nat (sint len) div 4 < fuel"
    and "\<And>q n. rlen mem q = Some n \<Longrightarrow> hdr \<le> n \<Longrightarrow> q + n \<le> length mem \<Longrightarrow> visit mem q \<noteq> None"
  shows "tlv_walk ok nx visit fuel mem p len \<noteq> None"
  using assms(1,2)
proof (induction fuel arbitrary: p len)
  case (Suc fuel)
  show ?case
  proof (cases "sint len < int hdr")
    case False
    with Suc.prems(1) have "p + hdr \<le> length mem" by linarith
    then obtain n where n: "rlen mem p = Some n" using readable by blast
    show ?thesis
    proof (cases "hdr \<le> n \<and> int n \<le> sint len")
      case True
      have up: "n \<le> align_up al n" "align_up al n < n + al"
        using align_up_ge [of al n] align_up_less [of al n] al by simp_all
      define len' where "len' = len - word_of_nat (align_up al n)"
      have len': "sint len' = sint len - int (align_up al n)"
        unfolding len'_def using False up True al width by (intro sint_minus_of_nat) linarith+
      have "int (p + align_up al n) + sint len' \<le> int (length mem)"
        using Suc.prems(1) by (simp add: len')
      moreover have "nat (sint len') div 4 < fuel"
      proof -
        have "nat (sint len') + 4 \<le> nat (sint len)" using len' up True hdr by linarith
        then have "(nat (sint len') + 4) div 4 \<le> nat (sint len) div 4" by (rule div_le_mono)
        then show ?thesis using Suc.prems(2) by simp
      qed
      ultimately have "tlv_walk ok nx visit fuel mem (p + align_up al n) len' \<noteq> None"
        by (rule Suc.IH)
      moreover have "visit mem p \<noteq> None"
        using True Suc.prems(1) by (intro assms(3) [OF n]) linarith+
      moreover have "ok mem p len = Some True" using False True n by (simp add: ok)
      ultimately show ?thesis
        using True nx [OF n, of len] by (auto simp add: len'_def)
    qed (use False n ok [of mem p len] in auto)
  qed (simp add: ok)
qed simp

text \<open>A chain of complete items is visited item by item.\<close>

lemma walk_items:
  assumes "\<And>i pre post. i \<in> set items \<Longrightarrow> \<exists>n. rlen (pre @ enc i @ post) (length pre) = Some n \<and>
      hdr \<le> n \<and> length (enc i) = align_up al n \<and> visit (pre @ enc i @ post) (length pre) = Some (val i)"
    and "sint len = int (length (concat (map enc items)))" "length items < fuel"
  shows "tlv_walk ok nx visit fuel (pre @ concat (map enc items) @ post) (length pre) len =
    Some (map val items)"
  using assms
proof (induction items arbitrary: fuel pre len)
  case Nil
  then obtain f where "fuel = Suc f" by (cases fuel) auto
  with Nil hdr show ?case by (simp add: ok)
next
  case (Cons i items)
  obtain f where f: "fuel = Suc f" "length items < f" using Cons.prems(3) by (cases fuel) auto
  let ?rest = "concat (map enc items)"
  let ?mem = "pre @ enc i @ ?rest @ post"
  obtain n where n: "rlen ?mem (length pre) = Some n" "hdr \<le> n" "length (enc i) = align_up al n"
    and v: "visit ?mem (length pre) = Some (val i)"
    using Cons.prems(1) [of i pre "?rest @ post"] by auto
  have up: "n \<le> align_up al n" using al by (simp add: align_up_ge)
  have len: "sint len = int (align_up al n) + int (length ?rest)" using Cons.prems(2) n(3) by simp
  define len' where "len' = len - word_of_nat (align_up al n)"
  have len': "sint len' = int (length ?rest)"
    unfolding len'_def using sint_minus_of_nat [of len "align_up al n"] len width by simp
  have "int n \<le> sint len" using len up by linarith
  moreover have "tlv_walk ok nx visit f ((pre @ enc i) @ ?rest @ post) (length (pre @ enc i)) len' =
      Some (map val items)"
    using Cons.prems(1) len' f(2) by (intro Cons.IH) auto
  moreover from calculation have "ok ?mem (length pre) len = Some True"
    using n(1,2) by (simp add: ok)
  ultimately show ?case
    using n v f(1) nx [OF n(1,2), of len] by (simp add: len'_def [symmetric])
qed

end

end
