(* ===== verification/Netlink.thy ===== *)
theory Netlink
  imports Tlv_Chain
begin

text \<open>
  Netlink framing, \<^verbatim>\<open>include/linux/netlink.h\<close>: the message header, the macros that build and walk a
  buffer of messages, and the header of an attribute. A header lies in memory in the byte order \<open>e\<close> of
  the host. Lengths are 32-bit values as the code computes them; the remaining length of \<^verbatim>\<open>NLMSG_OK\<close>
  and \<^verbatim>\<open>NLMSG_NEXT\<close> is an \<^verbatim>\<open>int\<close>.
\<close>

section \<open>Headers\<close>

record nlmsghdr =
  nlmsg_len :: u32
  nlmsg_type :: u16
  nlmsg_flags :: u16
  nlmsg_seq :: u32
  nlmsg_pid :: u32

definition struct_nlmsghdr :: ctype where
  "struct_nlmsghdr = Struct [Scalar 4, Scalar 2, Scalar 2, Scalar 4, Scalar 4]"

definition sizeof_nlmsghdr :: u32 where "sizeof_nlmsghdr = 16"

text \<open>The header as the bytes it occupies, and as it is read through a pointer.\<close>

definition nlmsghdr_bytes :: "endian \<Rightarrow> nlmsghdr \<Rightarrow> u8 list" where
  "nlmsghdr_bytes e h = bytes_of e (nlmsg_len h) @ bytes_of e (nlmsg_type h) @
     bytes_of e (nlmsg_flags h) @ bytes_of e (nlmsg_seq h) @ bytes_of e (nlmsg_pid h)"

definition get_nlmsghdr :: "endian \<Rightarrow> u8 list \<Rightarrow> nat \<Rightarrow> nlmsghdr option" where
  "get_nlmsghdr e mem p = do {
     len \<leftarrow> load e mem p;
     type \<leftarrow> load e mem (p + 4);
     flags \<leftarrow> load e mem (p + 6);
     seq \<leftarrow> load e mem (p + 8);
     pid \<leftarrow> load e mem (p + 12);
     Some \<lparr>nlmsg_len = len, nlmsg_type = type, nlmsg_flags = flags,
           nlmsg_seq = seq, nlmsg_pid = pid\<rparr>
   }"

section \<open>Macros\<close>

definition NLMSG_ALIGNTO :: u32 where "NLMSG_ALIGNTO = 4"

definition NLMSG_ALIGN :: "u32 \<Rightarrow> u32" where
  "NLMSG_ALIGN len = (len + NLMSG_ALIGNTO - 1) AND NOT (NLMSG_ALIGNTO - 1)"

definition NLMSG_HDRLEN :: u32 where
  "NLMSG_HDRLEN = NLMSG_ALIGN sizeof_nlmsghdr"

definition NLMSG_LENGTH :: "u32 \<Rightarrow> u32" where
  "NLMSG_LENGTH len = len + NLMSG_HDRLEN"

definition NLMSG_SPACE :: "u32 \<Rightarrow> u32" where
  "NLMSG_SPACE len = NLMSG_ALIGN (NLMSG_LENGTH len)"

definition NLMSG_DATA :: "nat \<Rightarrow> nat" where
  "NLMSG_DATA nlh = nlh + unat NLMSG_HDRLEN"

definition NLMSG_NEXT :: "endian \<Rightarrow> u8 list \<Rightarrow> nat \<Rightarrow> c_int \<Rightarrow> (nat \<times> c_int) option" where
  "NLMSG_NEXT e mem nlh len = do {
     nlen \<leftarrow> load e mem nlh;
     Some (nlh + unat (NLMSG_ALIGN nlen), len - NLMSG_ALIGN nlen)
   }"

definition NLMSG_OK :: "endian \<Rightarrow> u8 list \<Rightarrow> nat \<Rightarrow> c_int \<Rightarrow> bool option" where
  "NLMSG_OK e mem nlh len =
     (if \<not> sint sizeof_nlmsghdr \<le> sint len then Some False
      else do {
        nlen \<leftarrow> load e mem nlh;
        Some (nlen \<ge> sizeof_nlmsghdr \<and> nlen \<le> len)
      })"

definition NLMSG_PAYLOAD :: "nlmsghdr \<Rightarrow> u32 \<Rightarrow> u32" where
  "NLMSG_PAYLOAD nlh len = nlmsg_len nlh - NLMSG_SPACE len"

section \<open>Attribute headers\<close>

record nlattr =
  nla_len :: u16
  nla_type :: u16

definition NLA_F_NESTED :: c_int where "NLA_F_NESTED = push_bit 15 1"

definition NLA_F_NET_BYTEORDER :: c_int where "NLA_F_NET_BYTEORDER = push_bit 14 1"

definition NLA_TYPE_MASK :: c_int where
  "NLA_TYPE_MASK = NOT (NLA_F_NESTED OR NLA_F_NET_BYTEORDER)"

definition NLA_ALIGNTO :: c_int where "NLA_ALIGNTO = 4"

definition NLA_ALIGN :: "c_int \<Rightarrow> c_int" where
  "NLA_ALIGN len = (len + NLA_ALIGNTO - 1) AND NOT (NLA_ALIGNTO - 1)"

definition NLA_HDRLEN :: c_int where
  "NLA_HDRLEN = NLA_ALIGN 4"

section \<open>Lengths\<close>

lemma sizeof_nlmsghdr_eq: "sizeof 8 struct_nlmsghdr = unat sizeof_nlmsghdr"
  by code_simp

lemma unat_NLMSG_ALIGN:
  "unat len + 4 \<le> 2 ^ 32 \<Longrightarrow> unat (NLMSG_ALIGN len) = align_up 4 (unat len)"
  unfolding NLMSG_ALIGN_def NLMSG_ALIGNTO_def using unat_align [of "4 :: u32" 2 len] by simp

lemma NLMSG_HDRLEN_16: "NLMSG_HDRLEN = 16"
  by (simp add: NLMSG_HDRLEN_def NLMSG_ALIGN_def NLMSG_ALIGNTO_def sizeof_nlmsghdr_def)

lemma unat_NLMSG_LENGTH:
  "unat len + 16 < 2 ^ 32 \<Longrightarrow> unat (NLMSG_LENGTH len) = unat len + 16"
  by (simp add: NLMSG_LENGTH_def NLMSG_HDRLEN_16 unat_word_ariths)

lemma NLMSG_SPACE_0: "NLMSG_SPACE 0 = 16"
  by (simp add: NLMSG_SPACE_def NLMSG_LENGTH_def NLMSG_HDRLEN_16 NLMSG_ALIGN_def NLMSG_ALIGNTO_def)

lemma length_nlmsghdr_bytes [simp]: "length (nlmsghdr_bytes e h) = 16"
  by (simp add: nlmsghdr_bytes_def)

lemma get_nlmsghdr_bytes: "get_nlmsghdr e (pre @ nlmsghdr_bytes e h @ post) (length pre) = Some h"
proof -
  have "load e (pre @ nlmsghdr_bytes e h @ post) (length pre) = Some (nlmsg_len h)"
    by (simp add: nlmsghdr_bytes_def load_append)
  moreover have "load e (pre @ nlmsghdr_bytes e h @ post) (length pre + 4) = Some (nlmsg_type h)"
    using load_append_at [of "length pre + 4" "pre @ bytes_of e (nlmsg_len h)" e "nlmsg_type h"]
    by (simp add: nlmsghdr_bytes_def)
  moreover have "load e (pre @ nlmsghdr_bytes e h @ post) (length pre + 6) = Some (nlmsg_flags h)"
    using load_append_at [of "length pre + 6" "pre @ bytes_of e (nlmsg_len h) @
      bytes_of e (nlmsg_type h)" e "nlmsg_flags h"] by (simp add: nlmsghdr_bytes_def)
  moreover have "load e (pre @ nlmsghdr_bytes e h @ post) (length pre + 8) = Some (nlmsg_seq h)"
    using load_append_at [of "length pre + 8" "pre @ bytes_of e (nlmsg_len h) @
      bytes_of e (nlmsg_type h) @ bytes_of e (nlmsg_flags h)" e "nlmsg_seq h"]
    by (simp add: nlmsghdr_bytes_def)
  moreover have "load e (pre @ nlmsghdr_bytes e h @ post) (length pre + 12) = Some (nlmsg_pid h)"
    using load_append_at [of "length pre + 12" "pre @ bytes_of e (nlmsg_len h) @
      bytes_of e (nlmsg_type h) @ bytes_of e (nlmsg_flags h) @ bytes_of e (nlmsg_seq h)" e
      "nlmsg_pid h"] by (simp add: nlmsghdr_bytes_def)
  ultimately show ?thesis by (simp add: get_nlmsghdr_def)
qed

section \<open>The chain of messages\<close>

definition nlmsg_rlen :: "endian \<Rightarrow> u8 list \<Rightarrow> nat \<Rightarrow> nat option" where
  "nlmsg_rlen e mem p = map_option unat (load e mem p :: u32 option)"

interpretation nl: tlv_chain 4 16 "nlmsg_rlen e" "NLMSG_OK e" "NLMSG_NEXT e" for e
proof
  fix mem p and len :: c_int
  show "NLMSG_OK e mem p len = (if sint len < int 16 then Some False
      else map_option (\<lambda>n. 16 \<le> n \<and> int n \<le> sint len) (nlmsg_rlen e mem p))"
  proof (cases "sint len < 16")
    case False
    then have "unat len = nat (sint len)" by (intro nat_sint) simp
    then have "nlen \<le> len \<longleftrightarrow> int (unat nlen) \<le> sint len" for nlen :: u32
      using False by (simp add: word_le_nat_alt nat_le_iff le_nat_iff)
    with False show ?thesis
      by (cases "load e mem p :: u32 option")
        (simp_all add: NLMSG_OK_def nlmsg_rlen_def sizeof_nlmsghdr_def word_le_nat_alt)
  qed (simp add: NLMSG_OK_def sizeof_nlmsghdr_def)
next
  fix mem p n and len :: c_int
  assume n: "nlmsg_rlen e mem p = Some n" "16 \<le> n" "int n \<le> sint len"
  have "sint len < 2147483648" using sint_less [of len] by simp
  with n have "n + 4 \<le> 2 ^ 32" by simp
  with n(1) have "unat (NLMSG_ALIGN nlen) = align_up 4 n" if "load e mem p = Some nlen" for nlen
    using that unat_NLMSG_ALIGN [of nlen] by (simp add: nlmsg_rlen_def)
  then show "NLMSG_NEXT e mem p len = Some (p + align_up 4 n, len - word_of_nat (align_up 4 n))"
    using n(1) by (auto simp add: NLMSG_NEXT_def nlmsg_rlen_def) (metis of_nat_unat ucast_id)
qed (auto simp add: nlmsg_rlen_def load_def rdn_def)

text \<open>
  A message as programs build it: the length field holds \<^verbatim>\<open>NLMSG_LENGTH\<close> of the payload, the payload
  follows at \<^verbatim>\<open>NLMSG_DATA\<close>, and zeros fill the item up to \<^verbatim>\<open>NLMSG_SPACE\<close>. A reader takes \<^verbatim>\<open>NLMSG_PAYLOAD\<close>
  bytes from there.
\<close>

definition nlmsg_bytes :: "endian \<Rightarrow> nlmsghdr \<times> u8 list \<Rightarrow> u8 list" where
  "nlmsg_bytes e m = (case m of (h, d) \<Rightarrow>
     nlmsghdr_bytes e h @ d @ replicate (unat (NLMSG_SPACE (word_of_nat (length d))) - (16 + length d)) 0)"

definition nlmsg_wf :: "nlmsghdr \<times> u8 list \<Rightarrow> bool" where
  "nlmsg_wf m \<longleftrightarrow> (case m of (h, d) \<Rightarrow>
     length d < 2 ^ 31 \<and> nlmsg_len h = NLMSG_LENGTH (word_of_nat (length d)))"

definition nlmsg_read :: "endian \<Rightarrow> u8 list \<Rightarrow> nat \<Rightarrow> (nlmsghdr \<times> u8 list) option" where
  "nlmsg_read e mem nlh = do {
     h \<leftarrow> get_nlmsghdr e mem nlh;
     d \<leftarrow> rdn mem (NLMSG_DATA nlh) (unat (NLMSG_PAYLOAD h 0));
     Some (h, d)
   }"

lemma unat_of_length: "length d < 2 ^ 31 \<Longrightarrow> unat (word_of_nat (length d) :: u32) = length d"
  by (simp add: unsigned_of_nat take_bit_nat_eq_self)

lemma nlmsg_wf_len:
  assumes "nlmsg_wf (h, d)"
  shows "unat (nlmsg_len h) = 16 + length d"
    and "unat (NLMSG_SPACE (word_of_nat (length d))) = align_up 4 (16 + length d)"
    and "unat (NLMSG_PAYLOAD h 0) = length d"
proof -
  have d: "length d < 2147483648" using assms by (simp add: nlmsg_wf_def)
  have l: "unat (NLMSG_LENGTH (word_of_nat (length d))) = 16 + length d"
    using unat_NLMSG_LENGTH [of "word_of_nat (length d)"] unat_of_length [of d] d by simp
  then show len: "unat (nlmsg_len h) = 16 + length d" using assms by (simp add: nlmsg_wf_def)
  show "unat (NLMSG_SPACE (word_of_nat (length d))) = align_up 4 (16 + length d)"
    using unat_NLMSG_ALIGN [of "NLMSG_LENGTH (word_of_nat (length d))"] l d
    by (simp add: NLMSG_SPACE_def)
  have "(16 :: u32) \<le> nlmsg_len h" using len by (simp add: word_le_nat_alt)
  then show "unat (NLMSG_PAYLOAD h 0) = length d"
    using len by (simp add: NLMSG_PAYLOAD_def NLMSG_SPACE_0 unat_sub)
qed

lemma nlmsg_item:
  assumes "nlmsg_wf m"
  shows "\<exists>n. nlmsg_rlen e (pre @ nlmsg_bytes e m @ post) (length pre) = Some n \<and> 16 \<le> n \<and>
    length (nlmsg_bytes e m) = align_up 4 n \<and>
    nlmsg_read e (pre @ nlmsg_bytes e m @ post) (length pre) = Some m"
proof -
  obtain h d where m: "m = (h, d)" by (cases m)
  note len = nlmsg_wf_len [OF assms [unfolded m]]
  obtain z where z: "nlmsg_bytes e m = nlmsghdr_bytes e h @ d @ z" by (auto simp add: m nlmsg_bytes_def)
  have g: "get_nlmsghdr e (pre @ nlmsg_bytes e m @ post) (length pre) = Some h"
    by (simp add: z get_nlmsghdr_bytes)
  then have "nlmsg_rlen e (pre @ nlmsg_bytes e m @ post) (length pre) = Some (16 + length d)"
    by (auto simp add: nlmsg_rlen_def get_nlmsghdr_def len(1) [symmetric] split: bind_splits)
  moreover have "length (nlmsg_bytes e m) = align_up 4 (16 + length d)"
    using align_up_ge [of 4 "16 + length d"] by (simp add: m nlmsg_bytes_def len(2))
  moreover have "nlmsg_read e (pre @ nlmsg_bytes e m @ post) (length pre) = Some m"
    using g unfolding z by (simp add: nlmsg_read_def len(3) NLMSG_DATA_def NLMSG_HDRLEN_16 rdn_def m)
  ultimately show ?thesis by auto
qed

section \<open>Properties\<close>

text \<open>
  C7: A buffer of netlink messages is read back message by message: the loop over \<^verbatim>\<open>NLMSG_OK\<close> and
  \<^verbatim>\<open>NLMSG_NEXT\<close>, taking \<^verbatim>\<open>NLMSG_PAYLOAD\<close> bytes at \<^verbatim>\<open>NLMSG_DATA\<close>, gives the headers and payloads that
  were laid out with \<^verbatim>\<open>NLMSG_LENGTH\<close> and \<^verbatim>\<open>NLMSG_SPACE\<close>, wherever the buffer lies in memory.
\<close>

theorem netlink_roundtrip:
  assumes "list_all nlmsg_wf ms" "length (concat (map (nlmsg_bytes e) ms)) < 2 ^ 31"
    "length ms < fuel"
  shows "tlv_walk (NLMSG_OK e) (NLMSG_NEXT e) (nlmsg_read e) fuel
    (pre @ concat (map (nlmsg_bytes e) ms) @ post) (length pre)
    (word_of_nat (length (concat (map (nlmsg_bytes e) ms)))) = Some ms"
proof -
  let ?n = "length (concat (map (nlmsg_bytes e) ms))"
  have "sint (word_of_nat ?n :: c_int) = int ?n"
    using assms(2) by (simp add: signed_of_nat signed_take_bit_int_eq_self)
  then show ?thesis
    using nl.walk_items [where items = ms and enc = "nlmsg_bytes e" and e = e and val = "\<lambda>m. m"
        and visit = "nlmsg_read e" and len = "word_of_nat ?n" and fuel = fuel and pre = pre
        and post = post] nlmsg_item assms(1,3) by (simp add: list_all_iff)
qed

theorem netlink_roundtrip_witness:
  "let m = (\<lparr>nlmsg_len = 19, nlmsg_type = 16, nlmsg_flags = 1, nlmsg_seq = 7, nlmsg_pid = 0\<rparr>,
       [1, 2, 3]) in
   tlv_walk (NLMSG_OK Big) (NLMSG_NEXT Big) (nlmsg_read Big) 3
     ([] @ concat (map (nlmsg_bytes Big) [m, m]) @ []) (length ([] :: u8 list))
     (word_of_nat (length (concat (map (nlmsg_bytes Big) [m, m])))) = Some [m, m]"
  unfolding Let_def
  by (rule netlink_roundtrip)
    (simp_all add: nlmsg_wf_def nlmsg_bytes_def NLMSG_LENGTH_def NLMSG_SPACE_def NLMSG_HDRLEN_16
      NLMSG_ALIGN_def NLMSG_ALIGNTO_def)

text \<open>
  C4: The same loop over a buffer of arbitrary bytes ends and stays inside the buffer, whatever lengths
  the headers claim: each step takes at least sixteen bytes off, a header is read only where it
  fits, and a payload lies before the end.
\<close>

theorem netlink_walk_total:
  assumes "int p + sint len \<le> int (length mem)" "nat (sint len) div 4 < fuel"
  shows "tlv_walk (NLMSG_OK e) (NLMSG_NEXT e) (nlmsg_read e) fuel mem p len \<noteq> None"
  using assms
proof (rule nl.walk_total)
  fix q n assume n: "nlmsg_rlen e mem q = Some n" "16 \<le> n" "q + n \<le> length mem"
  then obtain h where h: "get_nlmsghdr e mem q = Some h" "unat (nlmsg_len h) = n"
    by (auto simp add: nlmsg_rlen_def get_nlmsghdr_def load_def rdn_def)
  have "(16 :: u32) \<le> nlmsg_len h" using h(2) n(2) by (simp add: word_le_nat_alt)
  then have "unat (NLMSG_PAYLOAD h 0) = n - 16"
    using h(2) by (simp add: NLMSG_PAYLOAD_def NLMSG_SPACE_0 unat_sub)
  with h n show "nlmsg_read e mem q \<noteq> None"
    by (simp add: nlmsg_read_def NLMSG_DATA_def NLMSG_HDRLEN_16 rdn_def)
qed

theorem netlink_walk_total_witness:
  "tlv_walk (NLMSG_OK Little) (NLMSG_NEXT Little) (nlmsg_read Little) 6 (replicate 20 255) 0 20 \<noteq> None"
  by (rule netlink_walk_total) simp_all

end
