(* ===== verification/Rtnetlink.thy ===== *)
theory Rtnetlink
  imports Netlink
begin

text \<open>
  Route attributes and next hops, \<^verbatim>\<open>include/linux/rtnetlink.h\<close>: the macros \<^verbatim>\<open>RTA_*\<close> and \<^verbatim>\<open>RTNH_*\<close> and
  the message-type arithmetic. \<^verbatim>\<open>RTA_ALIGNTO\<close> is unsigned, so its mask has 32 bits and is widened with
  zeros where the length is a 64-bit \<^verbatim>\<open>size_t\<close>; \<^verbatim>\<open>RTNH_ALIGNTO\<close> is an \<^verbatim>\<open>int\<close>.
\<close>

section \<open>Message types\<close>

definition RTM_BASE :: int where "RTM_BASE = 16"

definition RTM_FAM :: "int \<Rightarrow> int" where
  "RTM_FAM cmd = drop_bit 2 (cmd - RTM_BASE)"

section \<open>Attributes\<close>

record rtattr =
  rta_len :: u16
  rta_type :: u16

definition sizeof_rtattr :: u64 where "sizeof_rtattr = 4"

definition rtattr_bytes :: "endian \<Rightarrow> rtattr \<Rightarrow> u8 list" where
  "rtattr_bytes e a = bytes_of e (rta_len a) @ bytes_of e (rta_type a)"

definition get_rtattr :: "endian \<Rightarrow> u8 list \<Rightarrow> nat \<Rightarrow> rtattr option" where
  "get_rtattr e mem p = do {
     len \<leftarrow> load e mem p;
     type \<leftarrow> load e mem (p + 2);
     Some \<lparr>rta_len = len, rta_type = type\<rparr>
   }"

definition RTA_ALIGNTO :: u32 where "RTA_ALIGNTO = 4"

definition RTA_ALIGN :: "'l::len word \<Rightarrow> 'l word" where
  "RTA_ALIGN len = (len + ucast RTA_ALIGNTO - 1) AND ucast (NOT (RTA_ALIGNTO - 1))"

definition RTA_OK :: "endian \<Rightarrow> u8 list \<Rightarrow> nat \<Rightarrow> c_int \<Rightarrow> bool option" where
  "RTA_OK e mem rta len =
     (if \<not> int (unat sizeof_rtattr) \<le> sint len then Some False
      else do {
        rlen \<leftarrow> load e mem rta :: u16 option;
        Some (ucast rlen \<ge> sizeof_rtattr \<and> sint (promote16 rlen) \<le> sint len)
      })"

definition RTA_NEXT :: "endian \<Rightarrow> u8 list \<Rightarrow> nat \<Rightarrow> c_int \<Rightarrow> (nat \<times> c_int) option" where
  "RTA_NEXT e mem rta attrlen = do {
     rlen \<leftarrow> load e mem rta;
     Some (rta + unat (RTA_ALIGN (promote16 rlen)), attrlen - RTA_ALIGN (promote16 rlen))
   }"

definition RTA_LENGTH :: "u64 \<Rightarrow> u64" where
  "RTA_LENGTH len = RTA_ALIGN sizeof_rtattr + len"

definition RTA_SPACE :: "u64 \<Rightarrow> u64" where
  "RTA_SPACE len = RTA_ALIGN (RTA_LENGTH len)"

definition RTA_DATA :: "nat \<Rightarrow> nat" where
  "RTA_DATA rta = rta + unat (RTA_LENGTH 0)"

definition RTA_PAYLOAD :: "rtattr \<Rightarrow> u64" where
  "RTA_PAYLOAD rta = ucast (rta_len rta) - RTA_LENGTH 0"

section \<open>Next hops\<close>

record rtnexthop =
  rtnh_len :: u16
  rtnh_flags :: u8
  rtnh_hops :: u8
  rtnh_ifindex :: c_int

definition sizeof_rtnexthop :: u64 where "sizeof_rtnexthop = 8"

definition RTNH_F_DEAD :: u8 where "RTNH_F_DEAD = 1"

definition RTNH_F_OFFLOAD :: u8 where "RTNH_F_OFFLOAD = 8"

definition RTNH_F_LINKDOWN :: u8 where "RTNH_F_LINKDOWN = 16"

definition RTNH_F_TRAP :: u8 where "RTNH_F_TRAP = 64"

definition RTNH_COMPARE_MASK :: u8 where
  "RTNH_COMPARE_MASK = RTNH_F_DEAD OR RTNH_F_LINKDOWN OR RTNH_F_OFFLOAD OR RTNH_F_TRAP"

definition RTNH_ALIGNTO :: c_int where "RTNH_ALIGNTO = 4"

definition RTNH_ALIGN :: "c_int \<Rightarrow> c_int" where
  "RTNH_ALIGN len = (len + RTNH_ALIGNTO - 1) AND NOT (RTNH_ALIGNTO - 1)"

definition RTNH_OK :: "endian \<Rightarrow> u8 list \<Rightarrow> nat \<Rightarrow> c_int \<Rightarrow> bool option" where
  "RTNH_OK e mem rtnh len = do {
     hlen \<leftarrow> load e mem rtnh :: u16 option;
     Some (ucast hlen \<ge> sizeof_rtnexthop \<and> sint (promote16 hlen) \<le> sint len)
   }"

definition RTNH_NEXT :: "endian \<Rightarrow> u8 list \<Rightarrow> nat \<Rightarrow> nat option" where
  "RTNH_NEXT e mem rtnh = do {
     hlen \<leftarrow> load e mem rtnh;
     Some (rtnh + unat (RTNH_ALIGN (promote16 hlen)))
   }"

definition RTNH_LENGTH :: "c_int \<Rightarrow> c_int" where
  "RTNH_LENGTH len = RTNH_ALIGN (ucast sizeof_rtnexthop) + len"

definition RTNH_SPACE :: "c_int \<Rightarrow> c_int" where
  "RTNH_SPACE len = RTNH_ALIGN (RTNH_LENGTH len)"

definition RTNH_DATA :: "nat \<Rightarrow> nat" where
  "RTNH_DATA rtnh = rtnh + unat (RTNH_LENGTH 0)"

section \<open>Lengths\<close>

lemma sint_promote16: "sint (promote16 h) = int (unat h)"
proof -
  have "uint h < 65536" using unsigned_less [of h, where ?'a = int] by simp
  then have "signed_take_bit 31 (uint h) = uint h"
    by (intro signed_take_bit_int_eq_self) (simp_all add: order.trans [of _ 0])
  moreover have "promote16 h = word_of_int (uint h)" by (simp add: promote16_def)
  ultimately show ?thesis by (simp only: signed_of_int) simp
qed

lemma RTA_LENGTH_eq: "RTA_LENGTH len = 4 + len"
  by (simp add: RTA_LENGTH_def RTA_ALIGN_def RTA_ALIGNTO_def sizeof_rtattr_def)

lemma unat_RTA_ALIGN32: "unat (RTA_ALIGN (promote16 h)) = align_up 4 (unat h)"
proof -
  have "unat h < 65536" using unsigned_less [of h, where ?'a = nat] by simp
  moreover have "RTA_ALIGN (promote16 h) = (promote16 h + 4 - 1) AND NOT (4 - 1)"
    by (simp add: RTA_ALIGN_def RTA_ALIGNTO_def)
  ultimately show ?thesis
    using unat_align [of "4 :: c_int" 2 "promote16 h"] by (simp add: unat_promote16)
qed

lemma and_not_widened:
  fixes x :: u64
  assumes "fits 32 x"
  shows "x AND ucast (NOT (3 :: u32)) = x AND NOT 3"
proof -
  have "x AND ucast (NOT (mask 2 :: u32)) = x AND NOT (mask 2)"
    using assms by (intro bit_word_eqI) (auto simp add: bit_simps fits_bits not_le)
  then show ?thesis by (simp add: mask_numeral)
qed

lemma unat_RTA_SPACE:
  assumes "len < 65536"
  shows "unat (RTA_SPACE (word_of_nat len)) = align_up 4 (4 + len)"
proof -
  let ?x = "4 + word_of_nat len :: u64"
  have l: "unat (word_of_nat len :: u64) = len" using assms by (simp add: unsigned_of_nat take_bit_nat_eq_self)
  then have x: "unat ?x = 4 + len" using assms by (simp add: unat_word_ariths)
  have f: "fits 32 (?x + 3)"
    using assms l by (subst fits_iff_less) (simp_all add: word_less_nat_alt unat_word_ariths)
  have "RTA_SPACE (word_of_nat len) = (?x + 4 - 1) AND NOT (4 - 1)"
    using and_not_widened [OF f]
    by (simp add: RTA_SPACE_def RTA_LENGTH_eq RTA_ALIGN_def RTA_ALIGNTO_def)
  then show ?thesis
    using unat_align [of "4 :: u64" 2 ?x] x assms by simp
qed

section \<open>The chain of attributes\<close>

definition rta_rlen :: "endian \<Rightarrow> u8 list \<Rightarrow> nat \<Rightarrow> nat option" where
  "rta_rlen e mem p = map_option unat (load e mem p :: u16 option)"

lemma ucast_ge_4: "(ucast (h :: u16) :: u64) \<ge> sizeof_rtattr \<longleftrightarrow> 4 \<le> unat h"
proof -
  have "unat h < 65536" using unsigned_less [of h, where ?'a = nat] by simp
  then show ?thesis
    by (simp add: word_le_nat_alt sizeof_rtattr_def unsigned_ucast_eq take_bit_nat_eq_self)
qed

lemma unat_sizeof_rtattr: "unat sizeof_rtattr = 4"
  by (simp add: sizeof_rtattr_def)

interpretation rta: tlv_chain 4 4 "rta_rlen e" "RTA_OK e" "RTA_NEXT e" for e
proof
  fix mem p and len :: c_int
  show "RTA_OK e mem p len = (if sint len < int 4 then Some False
      else map_option (\<lambda>n. 4 \<le> n \<and> int n \<le> sint len) (rta_rlen e mem p))"
    by (cases "load e mem p :: u16 option")
      (auto simp add: RTA_OK_def rta_rlen_def ucast_ge_4 sint_promote16 unat_sizeof_rtattr not_less)
next
  fix mem p n and len :: c_int
  assume "rta_rlen e mem p = Some n"
  then obtain h :: u16 where h: "load e mem p = Some h" "n = unat h"
    by (auto simp add: rta_rlen_def)
  have "RTA_ALIGN (promote16 h) = word_of_nat (align_up 4 n)"
    using unat_RTA_ALIGN32 [of h] h(2) by (metis of_nat_unat ucast_id)
  with h show "RTA_NEXT e mem p len = Some (p + align_up 4 n, len - word_of_nat (align_up 4 n))"
    by (simp add: RTA_NEXT_def unat_RTA_ALIGN32)
qed (auto simp add: rta_rlen_def load_def rdn_def)

text \<open>
  An attribute as programs build it: \<^verbatim>\<open>rta_len\<close> is \<^verbatim>\<open>RTA_LENGTH\<close> of the payload, which follows at
  \<^verbatim>\<open>RTA_DATA\<close>; the item takes \<^verbatim>\<open>RTA_SPACE\<close> bytes.
\<close>

definition rta_bytes :: "endian \<Rightarrow> u16 \<times> u8 list \<Rightarrow> u8 list" where
  "rta_bytes e a = (case a of (t, d) \<Rightarrow>
     rtattr_bytes e \<lparr>rta_len = ucast (RTA_LENGTH (word_of_nat (length d))), rta_type = t\<rparr> @ d @
     replicate (unat (RTA_SPACE (word_of_nat (length d))) - (4 + length d)) 0)"

definition rta_read :: "endian \<Rightarrow> u8 list \<Rightarrow> nat \<Rightarrow> (u16 \<times> u8 list) option" where
  "rta_read e mem rta = do {
     a \<leftarrow> get_rtattr e mem rta;
     d \<leftarrow> rdn mem (RTA_DATA rta) (unat (RTA_PAYLOAD a));
     Some (rta_type a, d)
   }"

lemma get_rtattr_bytes: "get_rtattr e (pre @ rtattr_bytes e a @ post) (length pre) = Some a"
proof -
  have "load e (pre @ rtattr_bytes e a @ post) (length pre) = Some (rta_len a)"
    by (simp add: rtattr_bytes_def load_append)
  moreover have "load e (pre @ rtattr_bytes e a @ post) (length pre + 2) = Some (rta_type a)"
    using load_append_at [of "length pre + 2" "pre @ bytes_of e (rta_len a)" e "rta_type a"]
    by (simp add: rtattr_bytes_def)
  ultimately show ?thesis by (simp add: get_rtattr_def)
qed

lemma unat_RTA_PAYLOAD: "4 \<le> unat (rta_len a) \<Longrightarrow> unat (RTA_PAYLOAD a) = unat (rta_len a) - 4"
proof -
  assume l: "4 \<le> unat (rta_len a)"
  have u: "unat (ucast (rta_len a) :: u64) = unat (rta_len a)"
    using unsigned_less [of "rta_len a", where ?'a = nat]
    by (simp add: unsigned_ucast_eq take_bit_nat_eq_self)
  have "(4 :: u64) \<le> ucast (rta_len a)" using l by (simp add: word_le_nat_alt u)
  then show ?thesis by (simp add: RTA_PAYLOAD_def RTA_LENGTH_eq unat_sub u)
qed

lemma rta_item:
  assumes "length (snd a) \<le> 65531"
  shows "\<exists>n. rta_rlen e (pre @ rta_bytes e a @ post) (length pre) = Some n \<and> 4 \<le> n \<and>
    length (rta_bytes e a) = align_up 4 n \<and>
    rta_read e (pre @ rta_bytes e a @ post) (length pre) = Some a"
proof -
  obtain t d where a: "a = (t, d)" by (cases a)
  define h where "h = \<lparr>rta_len = ucast (RTA_LENGTH (word_of_nat (length d))), rta_type = t\<rparr>"
  have d: "length d \<le> 65531" using assms a by simp
  have "unat (4 + word_of_nat (length d) :: u64) = 4 + length d"
    using d by (simp add: unat_word_ariths unsigned_of_nat take_bit_nat_eq_self)
  then have l: "unat (rta_len h) = 4 + length d"
    using d by (simp add: h_def RTA_LENGTH_eq unsigned_ucast_eq take_bit_nat_eq_self)
  obtain z where z: "rta_bytes e a = rtattr_bytes e h @ d @ z"
    by (auto simp add: a rta_bytes_def h_def)
  have hb: "length (rtattr_bytes e h) = 4" by (simp add: rtattr_bytes_def)
  have g: "get_rtattr e (pre @ rta_bytes e a @ post) (length pre) = Some h"
    by (simp add: z get_rtattr_bytes)
  then have "rta_rlen e (pre @ rta_bytes e a @ post) (length pre) = Some (4 + length d)"
    by (auto simp add: rta_rlen_def get_rtattr_def l [symmetric] split: bind_splits)
  moreover have "length (rta_bytes e a) = align_up 4 (4 + length d)"
    using align_up_ge [of 4 "4 + length d"] d
    by (simp add: a rta_bytes_def unat_RTA_SPACE rtattr_bytes_def)
  moreover have "rta_read e (pre @ rta_bytes e a @ post) (length pre) = Some a"
    using g unat_RTA_PAYLOAD [of h] l unfolding z
    by (simp add: rta_read_def RTA_DATA_def RTA_LENGTH_eq rdn_def hb a) (simp add: h_def)
  ultimately show ?thesis by auto
qed

section \<open>Properties\<close>

text \<open>
  A block of route attributes is read back attribute by attribute by the loop over \<^verbatim>\<open>RTA_OK\<close> and
  \<^verbatim>\<open>RTA_NEXT\<close>, for payloads up to the 65531 bytes that the 16-bit length leaves.
\<close>

theorem rta_roundtrip:
  assumes "list_all (\<lambda>a. length (snd a) \<le> 65531) as"
    "length (concat (map (rta_bytes e) as)) < 2 ^ 31" "length as < fuel"
  shows "tlv_walk (RTA_OK e) (RTA_NEXT e) (rta_read e) fuel
    (pre @ concat (map (rta_bytes e) as) @ post) (length pre)
    (word_of_nat (length (concat (map (rta_bytes e) as)))) = Some as"
proof -
  let ?n = "length (concat (map (rta_bytes e) as))"
  have "sint (word_of_nat ?n :: c_int) = int ?n"
    using assms(2) by (simp add: signed_of_nat signed_take_bit_int_eq_self)
  then show ?thesis
    using rta.walk_items [where items = as and enc = "rta_bytes e" and e = e and val = "\<lambda>a. a"
        and visit = "rta_read e" and len = "word_of_nat ?n" and fuel = fuel and pre = pre
        and post = post] rta_item assms(1,3) by (simp add: list_all_iff)
qed

theorem rta_roundtrip_witness:
  "tlv_walk (RTA_OK Little) (RTA_NEXT Little) (rta_read Little) 3
     ([9] @ concat (map (rta_bytes Little) [(1, [1, 2, 3]), (2, [])]) @ [8]) (length [9 :: u8])
     (word_of_nat (length (concat (map (rta_bytes Little) [(1, [1, 2, 3]), (2, [])])))) =
   Some [(1, [1, 2, 3]), (2, [])]"
  by (rule rta_roundtrip)
    (simp_all add: rta_bytes_def rtattr_bytes_def RTA_SPACE_def RTA_LENGTH_eq RTA_ALIGN_def RTA_ALIGNTO_def)

text \<open>
  The test for a next hop reads the length before it looks at how much is left: at the end of a list
  of next hops, where the test for an attribute answers no, it reads beyond the buffer.
\<close>

theorem rtnh_ok_reads_past_end:
  assumes "length mem \<le> p + 1"
  shows "RTNH_OK e mem p 0 = None \<and> RTA_OK e mem p 0 = Some False"
  using assms by (simp add: RTNH_OK_def RTA_OK_def load_def rdn_def sizeof_rtattr_def)

theorem rtnh_ok_reads_past_end_witness:
  "RTNH_OK Little (replicate 8 0) 8 0 = None \<and> RTA_OK Little (replicate 8 0) 8 0 = Some False"
  by (rule rtnh_ok_reads_past_end) simp

text \<open>The attribute loop is total as well.\<close>

lemma rta_walk_total:
  assumes "int p + sint len \<le> int (length mem)" "nat (sint len) div 4 < fuel"
  shows "tlv_walk (RTA_OK e) (RTA_NEXT e) (rta_read e) fuel mem p len \<noteq> None"
  using assms
proof (rule rta.walk_total)
  fix q n assume n: "rta_rlen e mem q = Some n" "4 \<le> n" "q + n \<le> length mem"
  then obtain a where a: "get_rtattr e mem q = Some a" "unat (rta_len a) = n"
    by (auto simp add: rta_rlen_def get_rtattr_def load_def rdn_def)
  then show "rta_read e mem q \<noteq> None"
    using n unat_RTA_PAYLOAD [of a] by (simp add: rta_read_def RTA_DATA_def RTA_LENGTH_eq rdn_def)
qed

end
