(* ===== verification/Tipc.thy ===== *)
theory Tipc
  imports C_Object Byteorder
begin

text \<open>
  TIPC: network addresses and key sizes (\<^verbatim>\<open>include/linux/tipc.h\<close>) and the type/length/value items of
  configuration messages (\<^verbatim>\<open>include/linux/tipc_config.h\<close>).

  Memory is a byte array, a pointer an offset into it, and \<open>e\<close> the byte order of the host, in which a
  structure member is read and written. The fields of a descriptor are in network order:
  \<^verbatim>\<open>htons\<close> and \<^verbatim>\<open>ntohs\<close> are the conversions of the two byte-order headers. A data argument is the
  array it points to, or \<open>None\<close> for a null pointer. \<^verbatim>\<open>size_t\<close> has 64 bits.
\<close>

section \<open>Network addresses\<close>

definition TIPC_NODE_BITS :: nat where "TIPC_NODE_BITS = 12"

definition TIPC_CLUSTER_BITS :: nat where "TIPC_CLUSTER_BITS = 12"

definition TIPC_ZONE_BITS :: nat where "TIPC_ZONE_BITS = 8"

definition TIPC_NODE_OFFSET :: nat where "TIPC_NODE_OFFSET = 0"

definition TIPC_CLUSTER_OFFSET :: nat where "TIPC_CLUSTER_OFFSET = TIPC_NODE_BITS"

definition TIPC_ZONE_OFFSET :: nat where
  "TIPC_ZONE_OFFSET = TIPC_CLUSTER_OFFSET + TIPC_CLUSTER_BITS"

definition TIPC_NODE_SIZE :: u64 where "TIPC_NODE_SIZE = push_bit TIPC_NODE_BITS 1 - 1"

definition TIPC_CLUSTER_SIZE :: u64 where "TIPC_CLUSTER_SIZE = push_bit TIPC_CLUSTER_BITS 1 - 1"

definition TIPC_ZONE_SIZE :: u64 where "TIPC_ZONE_SIZE = push_bit TIPC_ZONE_BITS 1 - 1"

definition TIPC_NODE_MASK :: u64 where
  "TIPC_NODE_MASK = push_bit TIPC_NODE_OFFSET TIPC_NODE_SIZE"

definition TIPC_CLUSTER_MASK :: u64 where
  "TIPC_CLUSTER_MASK = push_bit TIPC_CLUSTER_OFFSET TIPC_CLUSTER_SIZE"

definition TIPC_ZONE_MASK :: u64 where
  "TIPC_ZONE_MASK = push_bit TIPC_ZONE_OFFSET TIPC_ZONE_SIZE"

definition TIPC_ZONE_CLUSTER_MASK :: u64 where
  "TIPC_ZONE_CLUSTER_MASK = TIPC_ZONE_MASK OR TIPC_CLUSTER_MASK"

definition tipc_addr :: "u32 \<Rightarrow> u32 \<Rightarrow> u32 \<Rightarrow> u32" where
  "tipc_addr zone cluster node =
     push_bit TIPC_ZONE_OFFSET zone OR push_bit TIPC_CLUSTER_OFFSET cluster OR node"

definition tipc_zone :: "u32 \<Rightarrow> u32" where
  "tipc_zone addr = drop_bit TIPC_ZONE_OFFSET addr"

definition tipc_cluster :: "u32 \<Rightarrow> u32" where
  "tipc_cluster addr = ucast (drop_bit TIPC_CLUSTER_OFFSET (ucast addr AND TIPC_CLUSTER_MASK))"

definition tipc_node :: "u32 \<Rightarrow> u32" where
  "tipc_node addr = ucast (ucast addr AND TIPC_NODE_MASK)"

text \<open>\<^verbatim>\<open>sizeof(struct tipc_aead_key)\<close> is 36: a name of 32 characters and the key length.\<close>

definition tipc_aead_key_size :: "u32 \<Rightarrow> c_int" where
  "tipc_aead_key_size keylen = ucast (36 + ucast keylen :: u64)"

section \<open>Byte order of the descriptors\<close>

definition htons :: "endian \<Rightarrow> u16 \<Rightarrow> u16" where
  "htons e x = (case e of Little \<Rightarrow> constant_htons_el x | Big \<Rightarrow> constant_htons_eb x)"

definition ntohs :: "endian \<Rightarrow> u16 \<Rightarrow> u16" where
  "ntohs e x = (case e of Little \<Rightarrow> constant_ntohs_el x | Big \<Rightarrow> constant_ntohs_eb x)"

definition htonl :: "endian \<Rightarrow> u32 \<Rightarrow> u32" where
  "htonl e x = (case e of Little \<Rightarrow> constant_htonl_el x | Big \<Rightarrow> constant_htonl_eb x)"

section \<open>Items\<close>

definition sizeof_tlv_desc :: u64 where "sizeof_tlv_desc = 4"

definition TLV_ALIGNTO :: "'a::len word" where "TLV_ALIGNTO = 4"

definition TLV_ALIGN :: "'a::len word \<Rightarrow> 'a word" where
  "TLV_ALIGN datalen = (datalen + (TLV_ALIGNTO - 1)) AND NOT (TLV_ALIGNTO - 1)"

definition TLV_LENGTH :: "u64 \<Rightarrow> u64" where
  "TLV_LENGTH datalen = sizeof_tlv_desc + datalen"

definition TLV_SPACE :: "u64 \<Rightarrow> u64" where
  "TLV_SPACE datalen = TLV_ALIGN (TLV_LENGTH datalen)"

definition TLV_DATA :: "nat \<Rightarrow> nat" where
  "TLV_DATA tlv = tlv + unat (TLV_LENGTH 0)"

definition TLV_OK :: "endian \<Rightarrow> u8 list \<Rightarrow> nat \<Rightarrow> u16 \<Rightarrow> bool option" where
  "TLV_OK e mem tlv space =
     (if \<not> ucast space \<ge> TLV_SPACE 0 then Some False
      else do {
        len \<leftarrow> load e mem tlv;
        Some (ntohs e len \<le> space)
      })"

definition TLV_CHECK :: "endian \<Rightarrow> u8 list \<Rightarrow> nat \<Rightarrow> u16 \<Rightarrow> u16 \<Rightarrow> bool option" where
  "TLV_CHECK e mem tlv space exp_type = do {
     b \<leftarrow> TLV_OK e mem tlv space;
     if \<not> b then Some False
     else do {
       type \<leftarrow> load e mem (tlv + 2);
       Some (ntohs e type = exp_type)
     }
   }"

definition TLV_GET_LEN :: "endian \<Rightarrow> u8 list \<Rightarrow> nat \<Rightarrow> c_int option" where
  "TLV_GET_LEN e mem tlv = do { len \<leftarrow> load e mem tlv; Some (promote16 (ntohs e len)) }"

definition TLV_SET_LEN :: "endian \<Rightarrow> u8 list \<Rightarrow> nat \<Rightarrow> u16 \<Rightarrow> u8 list option" where
  "TLV_SET_LEN e mem tlv len = store e mem tlv (htons e len)"

definition TLV_CHECK_TYPE :: "endian \<Rightarrow> u8 list \<Rightarrow> nat \<Rightarrow> u16 \<Rightarrow> bool option" where
  "TLV_CHECK_TYPE e mem tlv type = do { t \<leftarrow> load e mem (tlv + 2); Some (ntohs e t = type) }"

definition TLV_SET_TYPE :: "endian \<Rightarrow> u8 list \<Rightarrow> nat \<Rightarrow> u16 \<Rightarrow> u8 list option" where
  "TLV_SET_TYPE e mem tlv type = store e mem (tlv + 2) (htons e type)"

definition TLV_SET :: "endian \<Rightarrow> u8 list \<Rightarrow> nat \<Rightarrow> u16 \<Rightarrow> u8 list option \<Rightarrow> u16 \<Rightarrow>
    (u8 list \<times> c_int) option" where
  "TLV_SET e mem tlv type data len = do {
     let tlv_len = (ucast (TLV_LENGTH (ucast len)) :: c_int);
     mem \<leftarrow> store e mem (tlv + 2) (htons e type);
     mem \<leftarrow> store e mem tlv (htons e (u16_of tlv_len));
     mem \<leftarrow> (case data of
         Some src \<Rightarrow>
           if len \<noteq> 0 then do {
             bs \<leftarrow> rdn src 0 (unat len);
             mem \<leftarrow> wrn mem (TLV_DATA tlv) bs;
             wrn mem (TLV_DATA tlv + unat len)
               (replicate (unat (TLV_SPACE (ucast len) - ucast tlv_len)) 0)
           } else Some mem
       | None \<Rightarrow> Some mem);
     Some (mem, ucast (TLV_SPACE (ucast len)))
   }"

section \<open>Lists of items\<close>

record tlv_list_desc =
  tlv_ptr :: nat
  tlv_space :: u32

definition TLV_LIST_INIT :: "nat \<Rightarrow> u32 \<Rightarrow> tlv_list_desc" where
  "TLV_LIST_INIT data space = \<lparr>tlv_ptr = data, tlv_space = space\<rparr>"

definition TLV_LIST_EMPTY :: "tlv_list_desc \<Rightarrow> bool" where
  "TLV_LIST_EMPTY list \<longleftrightarrow> tlv_space list = 0"

definition TLV_LIST_CHECK :: "endian \<Rightarrow> u8 list \<Rightarrow> tlv_list_desc \<Rightarrow> u16 \<Rightarrow> bool option" where
  "TLV_LIST_CHECK e mem list exp_type =
     TLV_CHECK e mem (tlv_ptr list) (u16_of (tlv_space list)) exp_type"

definition TLV_LIST_DATA :: "tlv_list_desc \<Rightarrow> nat" where
  "TLV_LIST_DATA list = TLV_DATA (tlv_ptr list)"

definition TLV_LIST_STEP :: "endian \<Rightarrow> u8 list \<Rightarrow> tlv_list_desc \<Rightarrow> tlv_list_desc option" where
  "TLV_LIST_STEP e mem list = do {
     len \<leftarrow> load e mem (tlv_ptr list);
     let space = u16_of (TLV_ALIGN (promote16 (ntohs e len)));
     Some \<lparr>tlv_ptr = tlv_ptr list + unat space, tlv_space = tlv_space list - promote16 space\<rparr>
   }"

section \<open>Configuration messages\<close>

definition sizeof_tipc_cfg_msg_hdr :: u64 where "sizeof_tipc_cfg_msg_hdr = 16"

definition TCM_ALIGN :: "'a::len word \<Rightarrow> 'a word" where
  "TCM_ALIGN datalen = (datalen + 3) AND NOT 3"

definition TCM_LENGTH :: "u64 \<Rightarrow> u64" where
  "TCM_LENGTH datalen = sizeof_tipc_cfg_msg_hdr + datalen"

definition TCM_SPACE :: "u64 \<Rightarrow> u64" where
  "TCM_SPACE datalen = TCM_ALIGN (TCM_LENGTH datalen)"

definition TCM_DATA :: "nat \<Rightarrow> nat" where
  "TCM_DATA tcm_hdr = tcm_hdr + unat (TCM_LENGTH 0)"

definition TCM_SET :: "endian \<Rightarrow> u8 list \<Rightarrow> nat \<Rightarrow> u16 \<Rightarrow> u16 \<Rightarrow> u8 list option \<Rightarrow> u16 \<Rightarrow>
    (u8 list \<times> c_int) option" where
  "TCM_SET e mem msg cmd flags data data_len = do {
     let msg_len = (ucast (TCM_LENGTH (ucast data_len)) :: c_int);
     mem \<leftarrow> store e mem msg (htonl e msg_len);
     mem \<leftarrow> store e mem (msg + 4) (htons e cmd);
     mem \<leftarrow> store e mem (msg + 6) (htons e flags);
     mem \<leftarrow> (case data of
         Some src \<Rightarrow>
           if data_len \<noteq> 0 then do {
             bs \<leftarrow> rdn src 0 (unat data_len);
             mem \<leftarrow> wrn mem (TCM_DATA msg) bs;
             wrn mem (TCM_DATA msg + unat data_len)
               (replicate (unat (TCM_SPACE (ucast data_len) - ucast msg_len)) 0)
           } else Some mem
       | None \<Rightarrow> Some mem);
     Some (mem, ucast (TCM_SPACE (ucast data_len)))
   }"

section \<open>Addresses\<close>

lemmas tipc_addr_defs = tipc_addr_def tipc_zone_def tipc_cluster_def tipc_node_def
  TIPC_ZONE_OFFSET_def TIPC_CLUSTER_OFFSET_def TIPC_NODE_OFFSET_def TIPC_NODE_BITS_def
  TIPC_CLUSTER_BITS_def TIPC_CLUSTER_MASK_def TIPC_NODE_MASK_def TIPC_CLUSTER_SIZE_def
  TIPC_NODE_SIZE_def

lemma shl_one: "push_bit n 1 - 1 = (mask n :: 'l::len word)"
  by (simp add: mask_eq_exp_minus_1 push_bit_eq_mult)

text \<open>An address holds a zone of 8 bits, a cluster and a node of 12 bits each.\<close>

lemma tipc_addr_fields:
  assumes "fits 8 z" "fits 12 c" "fits 12 n"
  shows "tipc_zone (tipc_addr z c n) = z" "tipc_cluster (tipc_addr z c n) = c"
    "tipc_node (tipc_addr z c n) = n"
proof -
  note b = fits_bitD [OF assms(1)] fits_bitD [OF assms(2)] fits_bitD [OF assms(3)]
  show "tipc_zone (tipc_addr z c n) = z"
    unfolding tipc_addr_defs shl_one by (rule bit_word_eqI) (auto simp add: bit_simps dest: b)
  show "tipc_cluster (tipc_addr z c n) = c"
    unfolding tipc_addr_defs shl_one by (rule bit_word_eqI) (auto simp add: bit_simps dest: b)
  show "tipc_node (tipc_addr z c n) = n"
    unfolding tipc_addr_defs shl_one by (rule bit_word_eqI) (auto simp add: bit_simps dest: b)
qed

lemma tipc_addr_parts:
  "tipc_addr (tipc_zone a) (tipc_cluster a) (tipc_node a) = a"
proof (rule bit_word_eqI)
  fix n assume "n < LENGTH(32)"
  consider "n < 12" | "12 \<le> n" "n < 24" | "24 \<le> n" by linarith
  then show "bit (tipc_addr (tipc_zone a) (tipc_cluster a) (tipc_node a)) n \<longleftrightarrow> bit a n"
    unfolding tipc_addr_defs shl_one using \<open>n < LENGTH(32)\<close>
    by cases (auto simp add: bit_simps)
qed

section \<open>Network order in memory\<close>

lemma store_htons: "store e mem p (htons e v) = store Big mem p v"
  by (cases e) (simp_all add: htons_def const_htons_el.store_converted const_htons_eb.store_converted)

lemma store_htonl: "store e mem p (htonl e v) = store Big mem p v"
  by (cases e) (simp_all add: htonl_def const_htonl_el.store_converted const_htonl_eb.store_converted)

lemma load_ntohs: "Option.bind (load e mem p) (\<lambda>v. f (ntohs e v)) = Option.bind (load Big mem p) f"
proof -
  have "map_option (ntohs e) (load e mem p) = load Big mem p"
    using const_htons_el.load_converted [of mem p] const_htons_eb.load_converted [of mem p]
    by (cases e) (simp_all add: ntohs_def [abs_def])
  then have "Option.bind (load Big mem p) f = Option.bind (map_option (ntohs e) (load e mem p)) f"
    by simp
  then show ?thesis by (simp add: bind_map_option comp_def)
qed

lemmas tlv_wire = TLV_OK_def TLV_CHECK_def TLV_GET_LEN_def TLV_SET_LEN_def TLV_CHECK_TYPE_def
  TLV_SET_TYPE_def TLV_SET_def TLV_LIST_STEP_def TCM_SET_def store_htons store_htonl

lemma TLV_OK_wire:
  "TLV_OK e mem tlv space = (if space < 4 then Some False
    else Option.bind (load Big mem tlv) (\<lambda>len. Some (len \<le> space)))"
proof -
  have "TLV_SPACE 0 = 4"
    by (simp add: TLV_SPACE_def TLV_LENGTH_def TLV_ALIGN_def TLV_ALIGNTO_def sizeof_tlv_desc_def)
  moreover have "(4 :: u64) \<le> ucast space \<longleftrightarrow> \<not> space < 4"
    by (simp add: word_le_nat_alt word_less_nat_alt unsigned_ucast_eq take_bit_nat_eq_self
        order.strict_trans [OF unsigned_less] not_less)
  ultimately show ?thesis using load_ntohs [where f = "\<lambda>len. Some (len \<le> space)"]
    by (simp add: TLV_OK_def)
qed

lemma TLV_CHECK_wire:
  "TLV_CHECK e mem tlv space t = (if space < 4 then Some False
    else do {
      len \<leftarrow> load Big mem tlv;
      if len \<le> space then do { t' \<leftarrow> load Big mem (tlv + 2); Some (t' = t) } else Some False
    })"
  using load_ntohs [of e mem "tlv + 2" "\<lambda>x. Some (x = t)"]
  by (cases "load Big mem tlv :: u16 option") (simp_all add: TLV_CHECK_def TLV_OK_wire)

lemma TLV_LIST_STEP_wire:
  "TLV_LIST_STEP e mem l = do {
     len \<leftarrow> load Big mem (tlv_ptr l);
     let space = u16_of (TLV_ALIGN (promote16 len));
     Some \<lparr>tlv_ptr = tlv_ptr l + unat space, tlv_space = tlv_space l - promote16 space\<rparr>
   }"
  using load_ntohs [of e mem "tlv_ptr l" "\<lambda>len. let space = u16_of (TLV_ALIGN (promote16 len)) in
    Some \<lparr>tlv_ptr = tlv_ptr l + unat space, tlv_space = tlv_space l - promote16 space\<rparr>"]
  by (simp add: TLV_LIST_STEP_def)

lemma unat_TLV_ALIGN:
  fixes x :: "'a::len word"
  assumes "2 \<le> LENGTH('a)" "unat x + 4 \<le> 2 ^ LENGTH('a)"
  shows "unat (TLV_ALIGN x) = align_up 4 (unat x)"
proof -
  have "TLV_ALIGN x = (x + 2 ^ 2 - 1) AND NOT (2 ^ 2 - 1)"
    by (simp add: TLV_ALIGN_def TLV_ALIGNTO_def add.commute)
  then show ?thesis using unat_align [of "2 ^ 2" 2 x] assms by simp
qed

text \<open>The bytes of an item: descriptor, value, and zeros up to the next descriptor.\<close>

definition tlv_bytes :: "u16 \<times> u8 list \<Rightarrow> u8 list" where
  "tlv_bytes i = (case i of (t, d) \<Rightarrow>
     bytes_of Big (word_of_nat (4 + length d) :: u16) @ bytes_of Big t @ d @
     replicate (align_up 4 (4 + length d) - (4 + length d)) 0)"

lemma length_tlv_bytes: "length (tlv_bytes (t, d)) = align_up 4 (4 + length d)"
  using align_up_ge [of 4 "4 + length d"] by (simp add: tlv_bytes_def)

lemma unat_ucast_u64: "unat (ucast (h :: u16) :: u64) = unat h"
  using unsigned_less [of h, where ?'a = nat] by (simp add: unsigned_ucast_eq take_bit_nat_eq_self)

lemma unat_TLV_SPACE: "unat (TLV_SPACE (ucast (h :: u16))) = align_up 4 (4 + unat h)"
proof -
  have h: "unat h < 65536" using unsigned_less [of h, where ?'a = nat] by simp
  then have "unat (TLV_LENGTH (ucast h)) = 4 + unat h"
    by (simp add: TLV_LENGTH_def sizeof_tlv_desc_def unat_word_ariths unat_ucast_u64)
  then show ?thesis using unat_TLV_ALIGN [of "TLV_LENGTH (ucast h)"] h by (simp add: TLV_SPACE_def)
qed

lemma tlv_set_lengths:
  fixes len :: u16
  assumes "unat len \<le> 65531"
  defines "tlen \<equiv> ucast (TLV_LENGTH (ucast len)) :: c_int"
  shows "u16_of tlen = word_of_nat (4 + unat len)"
    and "unat (TLV_SPACE (ucast len) - ucast tlen) = align_up 4 (4 + unat len) - (4 + unat len)"
    and "ucast (TLV_SPACE (ucast len)) = (word_of_nat (align_up 4 (4 + unat len)) :: c_int)"
proof -
  have l: "unat (TLV_LENGTH (ucast len)) = 4 + unat len"
    using assms(1) by (simp add: TLV_LENGTH_def sizeof_tlv_desc_def unat_word_ariths unat_ucast_u64)
  then have tlen: "unat tlen = 4 + unat len"
    using assms(1) by (simp add: tlen_def unsigned_ucast_eq take_bit_nat_eq_self)
  then show "u16_of tlen = word_of_nat (4 + unat len)"
    using assms(1) by (simp add: u16_of_def word_unat_eq_iff unsigned_ucast_eq unat_word_ariths
        take_bit_nat_eq_self)
  have c: "unat (ucast tlen :: u64) = 4 + unat len"
    using assms(1) tlen by (simp add: unsigned_ucast_eq take_bit_nat_eq_self)
  have "ucast tlen \<le> TLV_SPACE (ucast len)"
    using align_up_ge [of 4 "4 + unat len"] by (simp add: word_le_nat_alt c unat_TLV_SPACE)
  then show "unat (TLV_SPACE (ucast len) - ucast tlen) = align_up 4 (4 + unat len) - (4 + unat len)"
    by (simp add: unat_sub unat_TLV_SPACE c)
  show "ucast (TLV_SPACE (ucast len)) = (word_of_nat (align_up 4 (4 + unat len)) :: c_int)"
    by (simp add: word_unat_eq_iff unsigned_ucast_eq unsigned_of_nat unat_TLV_SPACE)
qed

text \<open>Writes at a known place of an array.\<close>

lemma wrn_append: "off = length pre \<Longrightarrow> length ys = length zs \<Longrightarrow>
    wrn (pre @ zs @ post) off ys = Some (pre @ ys @ post)"
  by (simp add: wrn_def)

lemma store_append: "off = length pre \<Longrightarrow> length zs = LENGTH('a) div 8 \<Longrightarrow>
    store e (pre @ zs @ post) off (w :: 'a::len word) = Some (pre @ bytes_of e w @ post)"
  by (simp add: store_def wrn_append)

lemma load_append_bytes: "off = length pre \<Longrightarrow> 8 dvd LENGTH('a) \<Longrightarrow>
    load e (pre @ bytes_of e (w :: 'a::len word) @ post) off = Some w"
  by (simp add: load_def rdn_def word_of_bytes_of)

lemma TLV_DATA_eq: "TLV_DATA tlv = tlv + 4"
  by (simp add: TLV_DATA_def TLV_LENGTH_def sizeof_tlv_desc_def)

lemma split_item:
  assumes "length old = align_up 4 (4 + n)"
  obtains a b c z where "old = a @ b @ c @ z" "length a = 2" "length b = 2" "length c = n"
    "length z = align_up 4 (4 + n) - (4 + n)"
proof -
  have g: "4 + n \<le> length old" using align_up_ge [of 4 "4 + n"] assms by simp
  show thesis
    by (rule that [of "take 2 old" "take 2 (drop 2 old)" "take n (drop 4 old)" "drop (4 + n) old"])
      (use g assms in \<open>auto simp add: drop_take [symmetric] min_def\<close>,
       metis append_take_drop_id drop_drop add.commute add_2_eq_Suc numeral_2_eq_2 numeral_Bit0)
qed

lemma TLV_SET_bytes:
  assumes "length d \<le> 65531" "length old = align_up 4 (4 + length d)"
  shows "TLV_SET e (pre @ old @ post) (length pre) t (Some d) (word_of_nat (length d)) =
    Some (pre @ tlv_bytes (t, d) @ post, word_of_nat (align_up 4 (4 + length d)))"
proof -
  let ?len = "word_of_nat (length d) :: u16"
  have u: "unat ?len = length d" using assms(1) by (simp add: unsigned_of_nat take_bit_nat_eq_self)
  note L = tlv_set_lengths [of ?len, unfolded u, OF assms(1)]
  obtain a b c z where old: "old = a @ b @ c @ z" "length a = 2" "length b = 2"
    "length c = length d" "length z = align_up 4 (4 + length d) - (4 + length d)"
    using split_item [OF assms(2)] by metis
  let ?l = "word_of_nat (4 + length d) :: u16"
  let ?m1 = "pre @ a @ bytes_of Big t @ c @ z @ post"
  let ?m2 = "pre @ bytes_of Big ?l @ bytes_of Big t @ c @ z @ post"
  let ?m3 = "pre @ bytes_of Big ?l @ bytes_of Big t @ d @ z @ post"
  have s1: "store Big (pre @ old @ post) (length pre + 2) t = Some ?m1"
    using store_append [of "length pre + 2" "pre @ a" b Big "c @ z @ post" t] old(1,2,3) by simp
  have s2: "store Big ?m1 (length pre) ?l = Some ?m2"
    using store_append [of "length pre" pre a Big "bytes_of Big t @ c @ z @ post" ?l] old(2) by simp
  have s3: "wrn ?m2 (TLV_DATA (length pre)) d = Some ?m3"
    using wrn_append [of "length pre + 4" "pre @ bytes_of Big ?l @ bytes_of Big t" d c "z @ post",
        OF _ old(4) [symmetric]] by (simp add: TLV_DATA_eq)
  have s4: "wrn ?m3 (TLV_DATA (length pre) + length d) (replicate (length z) 0) =
      Some (pre @ tlv_bytes (t, d) @ post)"
    using wrn_append [of "length pre + 4 + length d" "pre @ bytes_of Big ?l @ bytes_of Big t @ d"
        "replicate (length z) 0" z post] old(5)
    by (simp add: TLV_DATA_eq tlv_bytes_def)
  show ?thesis
  proof (cases "d = []")
    case True
    then have "c = []" "z = []" using old(4,5) by (simp_all add: align_up_def)
    with True s1 s2 L show ?thesis by (simp add: TLV_SET_def store_htons tlv_bytes_def align_up_def)
  next
    case False
    then have "?len \<noteq> 0" using u by (metis length_0_conv unsigned_0)
    with s1 s2 s3 s4 L old(5) show ?thesis by (simp add: TLV_SET_def store_htons u rdn_def)
  qed
qed

section \<open>Writing and reading a message\<close>

text \<open>
  The two loops of a configuration message: the writer puts one item after the other with
  \<^verbatim>\<open>TLV_SET\<close>, advancing by what it returns; the reader expects items of given types, checks each,
  takes its value, and steps. \<open>Inl\<close> is a message that is rejected.
\<close>

fun tlv_put :: "endian \<Rightarrow> u8 list \<Rightarrow> nat \<Rightarrow> (u16 \<times> u8 list) list \<Rightarrow> u8 list option" where
  "tlv_put e mem p [] = Some mem"
| "tlv_put e mem p ((t, d) # items) = do {
     (mem, n) \<leftarrow> TLV_SET e mem p t (Some d) (word_of_nat (length d));
     tlv_put e mem (p + unat n) items
   }"

fun tlv_get :: "endian \<Rightarrow> u8 list \<Rightarrow> tlv_list_desc \<Rightarrow> u16 list \<Rightarrow> (unit + u8 list list) option" where
  "tlv_get e mem l [] = Some (if TLV_LIST_EMPTY l then Inr [] else Inl ())"
| "tlv_get e mem l (t # ts) = do {
     b \<leftarrow> TLV_LIST_CHECK e mem l t;
     if \<not> b then Some (Inl ())
     else do {
       n \<leftarrow> TLV_GET_LEN e mem (tlv_ptr l);
       d \<leftarrow> rdn mem (TLV_LIST_DATA l) (unat n - 4);
       l \<leftarrow> TLV_LIST_STEP e mem l;
       r \<leftarrow> tlv_get e mem l ts;
       Some (map_sum id (\<lambda>ds. d # ds) r)
     }
   }"

lemma tlv_put_bytes:
  assumes "list_all (\<lambda>i. length (snd i) \<le> 65531) items" "length old = length (concat (map tlv_bytes items))"
  shows "tlv_put e (pre @ old @ post) (length pre) items =
    Some (pre @ concat (map tlv_bytes items) @ post)"
  using assms
proof (induction items arbitrary: pre old)
  case (Cons i items)
  obtain t d where i: "i = (t, d)" by (cases i)
  let ?n = "align_up 4 (4 + length d)"
  have d: "length d \<le> 65531" using Cons.prems(1) by (simp add: i)
  have old: "old = take ?n old @ drop ?n old" "length (take ?n old) = ?n"
    using Cons.prems(2) by (simp_all add: i length_tlv_bytes)
  have "TLV_SET e (pre @ take ?n old @ drop ?n old @ post) (length pre) t (Some d) (word_of_nat (length d)) =
      Some (pre @ tlv_bytes (t, d) @ drop ?n old @ post, word_of_nat ?n)"
    using TLV_SET_bytes [OF d old(2)] by simp
  then have s: "TLV_SET e (pre @ old @ post) (length pre) t (Some d) (word_of_nat (length d)) =
      Some (pre @ tlv_bytes (t, d) @ drop ?n old @ post, word_of_nat ?n)"
    using old(1) by (metis append.assoc)
  have "unat (word_of_nat ?n :: c_int) = ?n"
    using d align_up_less [of 4 "4 + length d"] by (simp add: unsigned_of_nat take_bit_nat_eq_self)
  moreover have "tlv_put e ((pre @ tlv_bytes (t, d)) @ drop ?n old @ post) (length (pre @ tlv_bytes (t, d))) items =
      Some ((pre @ tlv_bytes (t, d)) @ concat (map tlv_bytes items) @ post)"
    using Cons.prems by (intro Cons.IH) (simp_all add: i length_tlv_bytes)
  ultimately show ?case by (simp add: i s length_tlv_bytes)
qed simp

lemma tlv_load:
  assumes "length d \<le> 65531"
  shows "load Big (pre @ tlv_bytes (t, d) @ post) (length pre) = Some (word_of_nat (4 + length d) :: u16)"
    and "load Big (pre @ tlv_bytes (t, d) @ post) (length pre + 2) = Some t"
    and "rdn (pre @ tlv_bytes (t, d) @ post) (length pre + 4) (length d) = Some d"
proof -
  let ?l = "word_of_nat (4 + length d) :: u16"
  obtain z where z: "tlv_bytes (t, d) = bytes_of Big ?l @ bytes_of Big t @ d @ z"
    by (simp add: tlv_bytes_def)
  show "load Big (pre @ tlv_bytes (t, d) @ post) (length pre) = Some ?l"
    unfolding z using load_append_bytes [of "length pre" pre Big ?l] by simp
  show "load Big (pre @ tlv_bytes (t, d) @ post) (length pre + 2) = Some t"
    unfolding z using load_append_bytes [of "length pre + 2" "pre @ bytes_of Big ?l" Big t] by simp
  show "rdn (pre @ tlv_bytes (t, d) @ post) (length pre + 4) (length d) = Some d"
    unfolding z by (simp add: rdn_def)
qed

lemma TLV_GET_LEN_wire: "TLV_GET_LEN e mem p = Option.bind (load Big mem p) (\<lambda>v. Some (promote16 v))"
  using load_ntohs [of e mem p "\<lambda>v. Some (promote16 v)"] by (simp add: TLV_GET_LEN_def)

lemma unat_u16_of_nat: "n < 65536 \<Longrightarrow> unat (u16_of (word_of_nat n)) = n"
  by (simp add: u16_of_def unsigned_ucast_eq unsigned_of_nat take_bit_nat_eq_self take_bit_take_bit)

lemma promote16_eq_of_nat: "unat h = n \<Longrightarrow> promote16 h = word_of_nat n"
  by (metis of_nat_unat ucast_id unat_promote16)

lemma tlv_get_items:
  assumes "list_all (\<lambda>i. length (snd i) \<le> 65531) items" "length (concat (map tlv_bytes items)) < 65536"
  shows "tlv_get e (pre @ concat (map tlv_bytes items) @ post)
    (TLV_LIST_INIT (length pre) (word_of_nat (length (concat (map tlv_bytes items)))))
    (map fst items) = Some (Inr (map snd items))"
  using assms
proof (induction items arbitrary: pre)
  case Nil
  then show ?case by (simp add: TLV_LIST_INIT_def TLV_LIST_EMPTY_def)
next
  case (Cons i items)
  obtain t d where i: "i = (t, d)" by (cases i)
  let ?n = "align_up 4 (4 + length d)" and ?rest = "concat (map tlv_bytes items)"
  let ?mem = "pre @ tlv_bytes (t, d) @ ?rest @ post"
  have d: "length d \<le> 65531" using Cons.prems(1) by (simp add: i)
  note ld = tlv_load [OF d, of pre t "?rest @ post"]
  have total: "?n + length ?rest < 65536" using Cons.prems(2) by (simp add: i length_tlv_bytes)
  let ?l = "\<lparr>tlv_ptr = length pre, tlv_space = word_of_nat (?n + length ?rest)\<rparr>"
  have n: "4 + length d \<le> ?n" by (simp add: align_up_ge)
  have sp: "unat (u16_of (word_of_nat (?n + length ?rest))) = ?n + length ?rest"
    using total by (rule unat_u16_of_nat)
  have w: "unat (word_of_nat (4 + length d) :: u16) = 4 + length d"
    using d by (simp only: unsigned_of_nat of_nat_id) (simp add: take_bit_nat_eq_self)
  have check: "TLV_LIST_CHECK e ?mem ?l t = Some True"
    using ld(1,2) n by (simp add: TLV_LIST_CHECK_def TLV_CHECK_wire word_less_nat_alt word_le_nat_alt sp w
        del: of_nat_add)
  have len: "TLV_GET_LEN e ?mem (length pre) = Some (promote16 (word_of_nat (4 + length d)))"
    using ld(1) by (simp add: TLV_GET_LEN_wire)
  have u: "unat (promote16 (word_of_nat (4 + length d))) = 4 + length d"
    by (simp only: unat_promote16 w)
  have "unat (TLV_ALIGN (promote16 (word_of_nat (4 + length d)))) = ?n"
    using unat_TLV_ALIGN [of "promote16 (word_of_nat (4 + length d))"] u d by simp
  then have a: "unat (u16_of (TLV_ALIGN (promote16 (word_of_nat (4 + length d))))) = ?n"
    using total by (simp add: u16_of_def unsigned_ucast_eq take_bit_nat_eq_self)
  have step: "TLV_LIST_STEP e ?mem ?l = Some (TLV_LIST_INIT (length pre + ?n) (word_of_nat (length ?rest)))"
    using ld(1) a promote16_eq_of_nat [OF a]
    by (simp add: TLV_LIST_STEP_wire TLV_LIST_INIT_def Let_def del: of_nat_add) simp
  have "tlv_get e ((pre @ tlv_bytes (t, d)) @ ?rest @ post)
      (TLV_LIST_INIT (length (pre @ tlv_bytes (t, d))) (word_of_nat (length ?rest))) (map fst items) =
      Some (Inr (map snd items))"
    using Cons.prems by (intro Cons.IH) (simp_all add: i)
  then have rest: "tlv_get e ?mem (TLV_LIST_INIT (length pre + ?n) (word_of_nat (length ?rest)))
      (map fst items) = Some (Inr (map snd items))"
    by (simp add: length_tlv_bytes)
  have l: "TLV_LIST_INIT (length pre) (word_of_nat (length (concat (map tlv_bytes (i # items))))) = ?l"
    by (simp add: TLV_LIST_INIT_def i length_tlv_bytes)
  have "tlv_get e ?mem ?l (t # map fst items) = Some (Inr (d # map snd items))"
    using ld(3) check len u step rest by (simp add: TLV_LIST_DATA_def TLV_DATA_eq del: of_nat_add)
  then show ?case unfolding l by (simp add: i)
qed

section \<open>Configuration message headers\<close>

lemma tcm_set_lengths:
  fixes len :: u16
  defines "mlen \<equiv> ucast (TCM_LENGTH (ucast len)) :: c_int"
  shows "mlen = word_of_nat (16 + unat len)"
    and "unat (TCM_SPACE (ucast len) - ucast mlen) = align_up 4 (16 + unat len) - (16 + unat len)"
proof -
  have h: "unat len < 65536" using unsigned_less [of len, where ?'a = nat] by simp
  have l: "unat (TCM_LENGTH (ucast len)) = 16 + unat len"
    using h by (simp add: TCM_LENGTH_def sizeof_tipc_cfg_msg_hdr_def unat_word_ariths unat_ucast_u64)
  then have m: "unat mlen = 16 + unat len"
    using h by (simp add: mlen_def unsigned_ucast_eq take_bit_nat_eq_self)
  then show "mlen = word_of_nat (16 + unat len)" by (metis of_nat_unat ucast_id)
  have s: "unat (TCM_SPACE (ucast len)) = align_up 4 (16 + unat len)"
  proof -
    have "TCM_SPACE (ucast len) = TLV_ALIGN (TCM_LENGTH (ucast len))"
      by (simp add: TCM_SPACE_def TCM_ALIGN_def TLV_ALIGN_def TLV_ALIGNTO_def)
    then show ?thesis using unat_TLV_ALIGN [of "TCM_LENGTH (ucast len)"] l h by simp
  qed
  have c: "unat (ucast mlen :: u64) = 16 + unat len"
    using h m by (simp add: unsigned_ucast_eq take_bit_nat_eq_self)
  have "ucast mlen \<le> TCM_SPACE (ucast len)"
    using align_up_ge [of 4 "16 + unat len"] by (simp add: word_le_nat_alt c s)
  then show "unat (TCM_SPACE (ucast len) - ucast mlen) = align_up 4 (16 + unat len) - (16 + unat len)"
    by (simp add: unat_sub s c)
qed

text \<open>Header and data of a message; the eight reserved bytes keep what the buffer had there.\<close>

lemma TCM_SET_bytes:
  assumes "length a = 4" "length b = 2" "length f = 2" "length res = 8" "length c = length d"
    "length z = align_up 4 (16 + length d) - (16 + length d)" "0 < length d" "length d < 65536"
  shows "map_option fst (TCM_SET e (pre @ a @ b @ f @ res @ c @ z @ post) (length pre) cmd flags
      (Some d) (word_of_nat (length d))) =
    Some (pre @ bytes_of Big (word_of_nat (16 + length d) :: u32) @ bytes_of Big cmd @
      bytes_of Big flags @ res @ d @ replicate (length z) 0 @ post)"
proof -
  let ?len = "word_of_nat (length d) :: u16"
  have u: "unat ?len = length d" using assms(8) by (simp add: unsigned_of_nat take_bit_nat_eq_self)
  then have nz: "?len \<noteq> 0" using assms(7) by (metis less_numeral_extra(3) unsigned_0)
  let ?l = "word_of_nat (16 + length d) :: u32"
  note L = tcm_set_lengths [of ?len, unfolded u]
  let ?h = "pre @ bytes_of Big ?l @ bytes_of Big cmd @ bytes_of Big flags @ res"
  have 1: "store Big (pre @ a @ b @ f @ res @ c @ z @ post) (length pre) ?l =
      Some (pre @ bytes_of Big ?l @ b @ f @ res @ c @ z @ post)"
    using assms(1) by (simp add: store_append)
  have 2: "store Big (pre @ bytes_of Big ?l @ b @ f @ res @ c @ z @ post) (length pre + 4) cmd =
      Some (pre @ bytes_of Big ?l @ bytes_of Big cmd @ f @ res @ c @ z @ post)"
    using store_append [of "length pre + 4" "pre @ bytes_of Big ?l" b Big _ cmd] assms(2) by simp
  have 3: "store Big (pre @ bytes_of Big ?l @ bytes_of Big cmd @ f @ res @ c @ z @ post)
      (length pre + 6) flags = Some (?h @ c @ z @ post)"
    using store_append [of "length pre + 6" "pre @ bytes_of Big ?l @ bytes_of Big cmd" f Big _ flags]
      assms(3) by simp
  have D: "TCM_DATA (length pre) = length ?h"
    using assms(4) by (simp add: TCM_DATA_def TCM_LENGTH_def sizeof_tipc_cfg_msg_hdr_def)
  have 4: "wrn (?h @ c @ z @ post) (TCM_DATA (length pre)) d = Some (?h @ d @ z @ post)"
    using wrn_append [OF D assms(5) [symmetric]] by simp
  have 5: "wrn (?h @ d @ z @ post) (TCM_DATA (length pre) + length d) (replicate (length z) 0) =
      Some (?h @ d @ replicate (length z) 0 @ post)"
    using wrn_append [of "TCM_DATA (length pre) + length d" "?h @ d" "replicate (length z) 0" z post]
    by (simp add: D)
  show ?thesis
    using 1 2 3 4 5 by (simp add: TCM_SET_def Let_def store_htons store_htonl L(1) L(2) [unfolded L(1)]
        u nz assms(6) rdn_def del: of_nat_add)
qed

section \<open>Properties\<close>

text \<open>
  C5: What one host writes into a message with \<^verbatim>\<open>TLV_SET\<close>, a host of any byte order reads: the list
  functions check each item, hand out its value, and find the list empty behind the last, for
  messages of fewer than 64 kB.
\<close>

theorem tipc_message_roundtrip:
  assumes "list_all (\<lambda>i. length (snd i) \<le> 65531) items"
    "length (concat (map tlv_bytes items)) < 65536" "length buf = length (concat (map tlv_bytes items))"
  shows "do {
      mem \<leftarrow> tlv_put e (pre @ buf @ post) (length pre) items;
      tlv_get e' mem (TLV_LIST_INIT (length pre) (word_of_nat (length buf))) (map fst items)
    } = Some (Inr (map snd items))"
  using tlv_put_bytes [OF assms(1,3)] tlv_get_items [OF assms(1,2)] assms(3) by simp

theorem tipc_message_roundtrip_witness:
  "do {
     mem \<leftarrow> tlv_put Little ([7] @ replicate 12 9 @ [7]) (length [7 :: u8]) [(2, [1, 2, 3]), (3, [])];
     tlv_get Big mem (TLV_LIST_INIT (length [7 :: u8]) (word_of_nat (length (replicate 12 (9 :: u8)))))
       (map fst [(2, [1, 2, 3]), (3, [] :: u8 list)])
   } = Some (Inr (map snd [(2 :: u16, [1, 2, 3]), (3, [])]))"
  by (rule tipc_message_roundtrip) (simp_all add: length_tlv_bytes align_up_def)

text \<open>
  C37: An item that claims to be empty, not even its descriptor counted, passes the check for its type, and
  the step that should skip it stays where it is: a reader that loops until the list is empty never ends.
\<close>

theorem tlv_zero_length_stuck:
  assumes "load Big mem (tlv_ptr l) = Some (0 :: u16)" "load Big mem (tlv_ptr l + 2) = Some t"
    "4 \<le> tlv_space l" "tlv_space l < 65536"
  shows "TLV_LIST_CHECK e mem l t = Some True \<and> TLV_LIST_STEP e mem l = Some l \<and> \<not> TLV_LIST_EMPTY l"
proof -
  have "unat (u16_of (tlv_space l)) = unat (tlv_space l)"
    using assms(4) by (simp add: u16_of_def unsigned_ucast_eq take_bit_nat_eq_self word_less_nat_alt)
  then have "\<not> u16_of (tlv_space l) < 4"
    using assms(3) by (simp add: word_less_nat_alt word_le_nat_alt)
  moreover have "u16_of (TLV_ALIGN (promote16 0)) = 0"
    by (simp add: promote16_def TLV_ALIGN_def TLV_ALIGNTO_def u16_of_def)
  moreover have "tlv_space l \<noteq> 0" using assms(3) by auto
  ultimately show ?thesis
    using assms(1,2) by (simp add: TLV_LIST_CHECK_def TLV_CHECK_wire TLV_LIST_STEP_wire TLV_LIST_EMPTY_def
        promote16_def)
qed

theorem tlv_zero_length_stuck_witness:
  "let l = TLV_LIST_INIT 0 8 in TLV_LIST_CHECK Little [0, 0, 0, 2, 0, 0, 0, 0] l 2 = Some True \<and>
    TLV_LIST_STEP Little [0, 0, 0, 2, 0, 0, 0, 0] l = Some l \<and> \<not> TLV_LIST_EMPTY l"
  unfolding Let_def
  by (rule tlv_zero_length_stuck)
    (simp_all add: TLV_LIST_INIT_def load_def rdn_def word_of_bytes_def order_bytes_def)

text \<open>
  Stepping over a last item whose padding the message does not contain makes the 32-bit count of bytes
  left wrap: the list is not empty, it seems to have almost 4 GB to go.
\<close>

theorem tlv_step_wraps:
  assumes "load Big mem (tlv_ptr l) = Some (n :: u16)" "unat n \<le> unat (tlv_space l)"
    "unat (tlv_space l) < align_up 4 (unat n)" "unat n \<le> 65532"
  shows "\<exists>l'. TLV_LIST_STEP e mem l = Some l' \<and> 2 ^ 32 - 3 \<le> unat (tlv_space l') \<and> \<not> TLV_LIST_EMPTY l'"
proof -
  let ?a = "align_up 4 (unat n)"
  have less: "?a < unat n + 4" by (simp add: align_up_less)
  have le: "?a \<le> 65532" using assms(4) by (intro align_up_least) simp_all
  have "unat (TLV_ALIGN (promote16 n)) = ?a"
    using unat_TLV_ALIGN [of "promote16 n"] assms(4) by (simp add: unat_promote16)
  then have u: "unat (u16_of (TLV_ALIGN (promote16 n))) = ?a"
    using le by (simp add: u16_of_def unsigned_ucast_eq take_bit_nat_eq_self)
  define s where "s = tlv_space l - promote16 (u16_of (TLV_ALIGN (promote16 n)))"
  have "unat s = 2 ^ 32 + unat (tlv_space l) - ?a"
    using assms(3) by (simp add: s_def unat_sub_if' unat_promote16 u)
  then have "2 ^ 32 - 3 \<le> unat s" using less assms(2,3) by linarith
  moreover from this have "s \<noteq> 0" by auto
  ultimately show ?thesis
    using assms(1) by (simp add: TLV_LIST_STEP_wire TLV_LIST_EMPTY_def Let_def s_def [symmetric])
qed

theorem tlv_step_wraps_witness:
  "\<exists>l'. TLV_LIST_STEP Big [0, 5, 0, 2, 65] (TLV_LIST_INIT 0 5) = Some l' \<and>
    2 ^ 32 - 3 \<le> unat (tlv_space l') \<and> \<not> TLV_LIST_EMPTY l'"
  by (rule tlv_step_wraps [where n = 5])
    (simp_all add: TLV_LIST_INIT_def load_def rdn_def word_of_bytes_def order_bytes_def align_up_def)

end
