(* ===== verification/Sized_Chain.thy ===== *)
theory Sized_Chain
  imports C_Object
begin

text \<open>
  Walks over records that give their own size, without padding: the tables of the packet filters are made
  of them, on two levels. The loop \<open>c_iterate\<close> is the one that the macros of these headers expand to,
  \<^verbatim>\<open>for (i = start; i < limit; i += size(i)) { ret = fn(i); if (ret != 0) break; }\<close>
  with an \<^verbatim>\<open>unsigned int\<close> index. \<open>lim\<close> and \<open>sz\<close> read the limit and the size from memory, \<open>fn\<close> is the
  caller's function with its own state \<open>s\<close>; it does not change the table. The result has the return value,
  the state and the index where the loop stopped; \<open>None\<close> is a read outside of memory, or that the fuel did
  not suffice.
\<close>

fun c_iterate :: "u32 option \<Rightarrow> (u32 \<Rightarrow> u32 option) \<Rightarrow> (u32 \<Rightarrow> 's \<Rightarrow> c_int \<times> 's) \<Rightarrow> nat \<Rightarrow>
    u32 \<Rightarrow> c_int \<Rightarrow> 's \<Rightarrow> (c_int \<times> 's \<times> u32) option" where
  "c_iterate lim sz fn 0 i ret s = None"
| "c_iterate lim sz fn (Suc fuel) i ret s = do {
     l \<leftarrow> lim;
     if i < l then (let (ret, s) = fn i s in
       if ret \<noteq> 0 then Some (ret, s, i)
       else do {
         d \<leftarrow> sz i;
         c_iterate lim sz fn fuel (i + d) ret s
       })
     else Some (ret, s, i)
   }"

text \<open>What such a loop means to do: call the function on the records in order, until it returns a value
  other than 0.\<close>

fun visit :: "('p \<Rightarrow> 's \<Rightarrow> c_int \<times> 's) \<Rightarrow> 'p list \<Rightarrow> 's \<Rightarrow> c_int \<times> 's" where
  "visit fn [] s = (0, s)"
| "visit fn (p # ps) s = (let (ret, s) = fn p s in if ret \<noteq> 0 then (ret, s) else visit fn ps s)"

fun positions :: "nat \<Rightarrow> 'a list list \<Rightarrow> nat list" where
  "positions p [] = []"
| "positions p (x # xs) = p # positions (p + length x) xs"

lemma length_positions [simp]: "length (positions p xs) = length xs"
  by (induction xs arbitrary: p) simp_all

lemma visit_map: "visit fn (map f ps) s = visit (\<lambda>p. fn (f p)) ps s"
  by (induction ps arbitrary: s) (simp_all split: prod.split)

lemma visit_append: "visit fn (ps @ qs) s =
    (let (ret, s) = visit fn ps s in if ret \<noteq> 0 then (ret, s) else visit fn qs s)"
  by (induction ps arbitrary: s) (simp_all split: prod.split)

text \<open>A size of zero stops the progress of the loop: it never ends, whatever the fuel.\<close>

lemma c_iterate_stuck:
  assumes "lim = Some l" "i < l" "sz i = Some 0" "\<And>s. fst (fn i s) = 0"
  shows "c_iterate lim sz fn fuel i ret s = None"
proof (induction fuel arbitrary: ret s)
  case (Suc fuel)
  obtain s' where "fn i s = (0, s')" using assms(4) [of s] by (metis prod.collapse)
  then show ?case using assms(1-3) Suc by simp
qed simp

lemma visit_positions:
  assumes "p + length (concat xs) < 2 ^ 32"
  shows "visit (\<lambda>i. f (q + unat (i :: u32))) (map word_of_nat (positions p xs)) s =
    visit f (positions (q + p) xs) s"
  using assms
proof (induction xs arbitrary: p s)
  case (Cons x xs)
  have "unat (word_of_nat p :: u32) = p"
    using Cons.prems by (simp add: unsigned_of_nat take_bit_nat_eq_self)
  then show ?case using Cons by (simp add: add.assoc split: prod.split)
qed simp

locale sized_chain =
  fixes sz :: "u8 list \<Rightarrow> nat \<Rightarrow> u32 option"
    and item :: "u8 list \<Rightarrow> bool"
  assumes size: "item x \<Longrightarrow> sz (pre @ x @ post) (length pre) = Some (word_of_nat (length x))"
    and not_empty: "item x \<Longrightarrow> x \<noteq> []"
begin

lemma iterate_items:
  assumes "\<forall>x \<in> set xs. item x" "length (a @ concat xs) < 2 ^ 32" "length xs < fuel"
    and mem: "mem = pre @ a @ concat xs @ post"
    and lim: "lim = Some (word_of_nat (length (a @ concat xs)))"
  shows "\<exists>ret s' i. c_iterate lim (\<lambda>i. sz mem (length pre + unat i)) fn fuel (word_of_nat (length a)) 0 s =
      Some (ret, s', i) \<and> visit fn (map word_of_nat (positions (length a) xs)) s = (ret, s') \<and>
      (ret = 0 \<longrightarrow> i = word_of_nat (length (a @ concat xs)))"
  using assms
proof (induction xs arbitrary: a fuel s)
  case Nil
  then show ?case by (cases fuel) auto
next
  case (Cons x xs)
  obtain f where f: "fuel = Suc f" "length xs < f" using Cons.prems(3) by (cases fuel) auto
  have x: "item x" "0 < length x" using Cons.prems(1) not_empty by auto
  have u: "unat (word_of_nat (length a) :: u32) = length a"
    using Cons.prems(2) by (simp add: unsigned_of_nat take_bit_nat_eq_self)
  have "unat (word_of_nat (length (a @ concat (x # xs))) :: u32) = length (a @ concat (x # xs))"
    using Cons.prems(2) by (simp add: unsigned_of_nat take_bit_nat_eq_self del: length_concat of_nat_add)
  then have less: "(word_of_nat (length a) :: u32) < word_of_nat (length (a @ concat (x # xs)))"
    using u x(2) by (simp add: word_less_nat_alt del: of_nat_add length_concat)
  have d: "sz mem (length pre + unat (word_of_nat (length a) :: u32)) = Some (word_of_nat (length x))"
    using size [OF x(1), of "pre @ a" "concat xs @ post"] by (simp add: u Cons.prems(4))
  obtain r s1 where fn: "fn (word_of_nat (length a)) s = (r, s1)" by fastforce
  show ?case
  proof (cases "r = 0")
    case True
    have "\<exists>ret s' i. c_iterate lim (\<lambda>i. sz mem (length pre + unat i)) fn f
        (word_of_nat (length (a @ x))) 0 s1 = Some (ret, s', i) \<and>
      visit fn (map word_of_nat (positions (length (a @ x)) xs)) s1 = (ret, s') \<and>
      (ret = 0 \<longrightarrow> i = word_of_nat (length ((a @ x) @ concat xs)))"
      using Cons.prems f(2) by (intro Cons.IH) (simp_all del: length_concat)
    then show ?thesis
      using f(1) less d fn True by (simp add: Cons.prems(5) add.commute)
  next
    case False
    then show ?thesis using f(1) less fn by (simp add: Cons.prems(5))
  qed
qed

end

end
