(* ===== verification/Xtables.thy ===== *)
theory Xtables
  imports Sized_Chain
begin

text \<open>
  The rule tables of the packet filters: \<^verbatim>\<open>include/linux/netfilter/x_tables.h\<close> and the tables of IPv4, IPv6
  and ARP built on it. A table is a sequence of entries, each with its \<^verbatim>\<open>next_offset\<close>; an entry is a
  fixed part, a sequence of matches, each with its \<^verbatim>\<open>match_size\<close>, and a target at \<^verbatim>\<open>target_offset\<close>. The
  iteration macros walk both levels. \<open>en\<close> is the byte order of the host, \<open>mem\<close> the memory, and a callback is
  given the memory, a pointer and its own state.
\<close>

section \<open>Layout\<close>

definition struct_xt_counters :: ctype where
  "struct_xt_counters = Struct [Scalar 8, Scalar 8]"

definition struct_xt_align :: ctype where
  "struct_xt_align = Struct [Scalar 1, Scalar 2, Scalar 4, Scalar 8]"

text \<open>\<^verbatim>\<open>IFNAMSIZ\<close> is 16, an IPv4 address has four and an IPv6 address sixteen bytes.\<close>

definition struct_ipt_ip :: ctype where
  "struct_ipt_ip = Struct [Scalar 4, Scalar 4, Scalar 4, Scalar 4,
     Arr (Scalar 1) 16, Arr (Scalar 1) 16, Arr (Scalar 1) 16, Arr (Scalar 1) 16,
     Scalar 2, Scalar 1, Scalar 1]"

definition ipt_entry_members :: "ctype list" where
  "ipt_entry_members = [struct_ipt_ip, Scalar 4, Scalar 2, Scalar 2, Scalar 4,
     struct_xt_counters, Arr (Scalar 1) 0]"

definition struct_ip6t_ip6 :: ctype where
  "struct_ip6t_ip6 = Struct [Arr (Scalar 4) 4, Arr (Scalar 4) 4, Arr (Scalar 4) 4, Arr (Scalar 4) 4,
     Arr (Scalar 1) 16, Arr (Scalar 1) 16, Arr (Scalar 1) 16, Arr (Scalar 1) 16,
     Scalar 2, Scalar 1, Scalar 1, Scalar 1]"

definition ip6t_entry_members :: "ctype list" where
  "ip6t_entry_members = [struct_ip6t_ip6, Scalar 4, Scalar 2, Scalar 2, Scalar 4,
     struct_xt_counters, Arr (Scalar 1) 0]"

definition struct_arpt_devaddr_info :: ctype where
  "struct_arpt_devaddr_info = Struct [Arr (Scalar 1) 16, Arr (Scalar 1) 16]"

definition struct_arpt_arp :: ctype where
  "struct_arpt_arp = Struct [Scalar 4, Scalar 4, Scalar 4, Scalar 4, Scalar 1, Scalar 1,
     struct_arpt_devaddr_info, struct_arpt_devaddr_info,
     Scalar 2, Scalar 2, Scalar 2, Scalar 2, Scalar 2, Scalar 2,
     Arr (Scalar 1) 16, Arr (Scalar 1) 16, Arr (Scalar 1) 16, Arr (Scalar 1) 16,
     Scalar 1, Scalar 2]"

definition arpt_entry_members :: "ctype list" where
  "arpt_entry_members = [struct_arpt_arp, Scalar 2, Scalar 2, Scalar 4,
     struct_xt_counters, Arr (Scalar 1) 0]"

text \<open>What the macros take from the type of an entry: its size and where its two offsets are.\<close>

record xt_type =
  xt_sizeof :: nat
  xt_target_offset :: nat
  xt_next_offset :: nat

definition ipt_entry :: "nat \<Rightarrow> xt_type" where
  "ipt_entry amax = \<lparr>xt_sizeof = sizeof amax (Struct ipt_entry_members),
     xt_target_offset = offsets amax ipt_entry_members 0 ! 2,
     xt_next_offset = offsets amax ipt_entry_members 0 ! 3\<rparr>"

definition ip6t_entry :: "nat \<Rightarrow> xt_type" where
  "ip6t_entry amax = \<lparr>xt_sizeof = sizeof amax (Struct ip6t_entry_members),
     xt_target_offset = offsets amax ip6t_entry_members 0 ! 2,
     xt_next_offset = offsets amax ip6t_entry_members 0 ! 3\<rparr>"

definition arpt_entry :: "nat \<Rightarrow> xt_type" where
  "arpt_entry amax = \<lparr>xt_sizeof = sizeof amax (Struct arpt_entry_members),
     xt_target_offset = offsets amax arpt_entry_members 0 ! 1,
     xt_next_offset = offsets amax arpt_entry_members 0 ! 2\<rparr>"

definition XT_ALIGN :: "nat \<Rightarrow> u32 \<Rightarrow> u32" where
  "XT_ALIGN amax s = (let a = word_of_nat (alignof amax struct_xt_align)
     in (s + (a - 1)) AND NOT (a - 1))"

section \<open>Counters\<close>

record xt_counters =
  pcnt :: u64
  bcnt :: u64

definition SET_COUNTER :: "xt_counters \<Rightarrow> u64 \<Rightarrow> u64 \<Rightarrow> xt_counters" where
  "SET_COUNTER c b p = c\<lparr>bcnt := b, pcnt := p\<rparr>"

definition ADD_COUNTER :: "xt_counters \<Rightarrow> u64 \<Rightarrow> u64 \<Rightarrow> xt_counters" where
  "ADD_COUNTER c b p = c\<lparr>bcnt := bcnt c + b, pcnt := pcnt c + p\<rparr>"

section \<open>Iteration\<close>

definition read16 :: "endian \<Rightarrow> u8 list \<Rightarrow> nat \<Rightarrow> u32 option" where
  "read16 en mem p = map_option ucast (load en mem p :: u16 option)"

definition XT_MATCH_ITERATE :: "nat \<Rightarrow> endian \<Rightarrow> xt_type \<Rightarrow> u8 list \<Rightarrow> nat \<Rightarrow>
    (u8 list \<Rightarrow> nat \<Rightarrow> 's \<Rightarrow> c_int \<times> 's) \<Rightarrow> 's \<Rightarrow> (c_int \<times> 's) option" where
  "XT_MATCH_ITERATE fuel en T mem e fn s = do {
     (ret, s, i) \<leftarrow> c_iterate (read16 en mem (e + xt_target_offset T))
       (\<lambda>i. read16 en mem (e + unat i))
       (\<lambda>i. fn mem (e + unat i))
       fuel (word_of_nat (xt_sizeof T)) 0 s;
     Some (ret, s)
   }"

text \<open>The counter \<^verbatim>\<open>__n\<close> of entries is kept beside the caller's state.\<close>

definition XT_ENTRY_ITERATE_CONTINUE :: "nat \<Rightarrow> endian \<Rightarrow> xt_type \<Rightarrow> u8 list \<Rightarrow> nat \<Rightarrow> u32 \<Rightarrow> u32 \<Rightarrow>
    (u8 list \<Rightarrow> nat \<Rightarrow> 's \<Rightarrow> c_int \<times> 's) \<Rightarrow> 's \<Rightarrow> (c_int \<times> 's) option" where
  "XT_ENTRY_ITERATE_CONTINUE fuel en T mem entries sz n fn s = do {
     (ret, (k, s), i) \<leftarrow> c_iterate (Some sz)
       (\<lambda>i. read16 en mem (entries + unat i + xt_next_offset T))
       (\<lambda>i (k, s). if k < n then (0, (k + 1, s))
         else (let (ret, s) = fn mem (entries + unat i) s in (ret, (k + 1, s))))
       fuel 0 0 (0, s);
     Some (ret, s)
   }"

definition XT_ENTRY_ITERATE :: "nat \<Rightarrow> endian \<Rightarrow> xt_type \<Rightarrow> u8 list \<Rightarrow> nat \<Rightarrow> u32 \<Rightarrow>
    (u8 list \<Rightarrow> nat \<Rightarrow> 's \<Rightarrow> c_int \<times> 's) \<Rightarrow> 's \<Rightarrow> (c_int \<times> 's) option" where
  "XT_ENTRY_ITERATE fuel en T mem entries sz fn s =
     XT_ENTRY_ITERATE_CONTINUE fuel en T mem entries sz 0 fn s"

definition IPT_MATCH_ITERATE where
  "IPT_MATCH_ITERATE fuel en amax mem e fn s = XT_MATCH_ITERATE fuel en (ipt_entry amax) mem e fn s"

definition IPT_ENTRY_ITERATE where
  "IPT_ENTRY_ITERATE fuel en amax mem entries sz fn s =
     XT_ENTRY_ITERATE fuel en (ipt_entry amax) mem entries sz fn s"

definition IP6T_MATCH_ITERATE where
  "IP6T_MATCH_ITERATE fuel en amax mem e fn s = XT_MATCH_ITERATE fuel en (ip6t_entry amax) mem e fn s"

definition IP6T_ENTRY_ITERATE where
  "IP6T_ENTRY_ITERATE fuel en amax mem entries sz fn s =
     XT_ENTRY_ITERATE fuel en (ip6t_entry amax) mem entries sz fn s"

definition ARPT_ENTRY_ITERATE where
  "ARPT_ENTRY_ITERATE fuel en amax mem entries sz fn s =
     XT_ENTRY_ITERATE fuel en (arpt_entry amax) mem entries sz fn s"

definition get_target :: "endian \<Rightarrow> xt_type \<Rightarrow> u8 list \<Rightarrow> nat \<Rightarrow> nat option" where
  "get_target en T mem e = do {
     off \<leftarrow> (load en mem (e + xt_target_offset T) :: u16 option);
     Some (e + unat off)
   }"

definition ipt_get_target :: "endian \<Rightarrow> nat \<Rightarrow> u8 list \<Rightarrow> nat \<Rightarrow> nat option" where
  "ipt_get_target en amax mem e = get_target en (ipt_entry amax) mem e"

definition ip6t_get_target :: "endian \<Rightarrow> nat \<Rightarrow> u8 list \<Rightarrow> nat \<Rightarrow> nat option" where
  "ip6t_get_target en amax mem e = get_target en (ip6t_entry amax) mem e"

definition arpt_get_target :: "endian \<Rightarrow> nat \<Rightarrow> u8 list \<Rightarrow> nat \<Rightarrow> nat option" where
  "arpt_get_target en amax mem e = get_target en (arpt_entry amax) mem e"

text \<open>The loop headers for a body of the caller's; the body does not leave the loop.\<close>

fun xt_entry_foreach :: "nat \<Rightarrow> endian \<Rightarrow> xt_type \<Rightarrow> u8 list \<Rightarrow> nat \<Rightarrow> nat \<Rightarrow> (nat \<Rightarrow> 's \<Rightarrow> 's) \<Rightarrow> 's \<Rightarrow>
    's option" where
  "xt_entry_foreach 0 en T mem pos stop body s = None"
| "xt_entry_foreach (Suc fuel) en T mem pos stop body s = (if pos < stop then do {
     let s = body pos s;
     d \<leftarrow> read16 en mem (pos + xt_next_offset T);
     xt_entry_foreach fuel en T mem (pos + unat d) stop body s
   } else Some s)"

fun xt_ematch_foreach :: "nat \<Rightarrow> endian \<Rightarrow> xt_type \<Rightarrow> u8 list \<Rightarrow> nat \<Rightarrow> nat \<Rightarrow> (nat \<Rightarrow> 's \<Rightarrow> 's) \<Rightarrow> 's \<Rightarrow>
    's option" where
  "xt_ematch_foreach 0 en T mem entry pos body s = None"
| "xt_ematch_foreach (Suc fuel) en T mem entry pos body s = do {
     toff \<leftarrow> read16 en mem (entry + xt_target_offset T);
     if pos < entry + unat toff then do {
       let s = body pos s;
       d \<leftarrow> read16 en mem pos;
       xt_ematch_foreach fuel en T mem entry (pos + unat d) body s
     } else Some s
   }"

section \<open>The layouts on every ABI\<close>

lemma entry_layouts:
  "ipt_entry 8 = \<lparr>xt_sizeof = 112, xt_target_offset = 88, xt_next_offset = 90\<rparr>"
  "ipt_entry 4 = \<lparr>xt_sizeof = 112, xt_target_offset = 88, xt_next_offset = 90\<rparr>"
  "ip6t_entry 8 = \<lparr>xt_sizeof = 168, xt_target_offset = 140, xt_next_offset = 142\<rparr>"
  "ip6t_entry 4 = \<lparr>xt_sizeof = 164, xt_target_offset = 140, xt_next_offset = 142\<rparr>"
  by code_simp+

lemma arpt_layouts:
  "arpt_entry 8 = \<lparr>xt_sizeof = 192, xt_target_offset = 164, xt_next_offset = 166\<rparr>"
  by code_simp+

section \<open>Well-formed tables\<close>

text \<open>A match is a record whose first two bytes give its length; an entry is a fixed part, matches and a
  target, and its two offsets are those of the target and of its end.\<close>

definition wf_match :: "endian \<Rightarrow> u8 list \<Rightarrow> bool" where
  "wf_match en x \<longleftrightarrow> 2 \<le> length x \<and> length x < 65536 \<and>
     (load en x 0 :: u16 option) = Some (word_of_nat (length x))"

definition wf_next :: "endian \<Rightarrow> xt_type \<Rightarrow> u8 list \<Rightarrow> bool" where
  "wf_next en T x \<longleftrightarrow> xt_next_offset T + 2 \<le> length x \<and> length x < 65536 \<and>
     (load en x (xt_next_offset T) :: u16 option) = Some (word_of_nat (length x))"

definition wf_head :: "endian \<Rightarrow> xt_type \<Rightarrow> u8 list \<Rightarrow> u8 list list \<Rightarrow> bool" where
  "wf_head en T hdr ms \<longleftrightarrow> length hdr = xt_sizeof T \<and> xt_target_offset T + 2 \<le> xt_sizeof T \<and>
     length (hdr @ concat ms) < 65536 \<and>
     (load en hdr (xt_target_offset T) :: u16 option) = Some (word_of_nat (length (hdr @ concat ms)))"

lemma read16_inside:
  assumes "off + 2 \<le> length x" "(load en x off :: u16 option) = Some (word_of_nat k)" "k < 65536"
  shows "read16 en (pre @ x @ post) (length pre + off) = Some (word_of_nat k)"
proof -
  have "(ucast (word_of_nat k :: u16) :: u32) = word_of_nat k"
    using assms(3) by (simp add: unsigned_ucast_eq word_unat_eq_iff unsigned_of_nat take_bit_nat_eq_self)
  then show ?thesis
    using assms(1,2) load_inside [of off x en pre post, where ?'a = 16] by (simp add: read16_def)
qed

interpretation matches: sized_chain "read16 en" "wf_match en" for en
proof
  show "read16 en (pre @ x @ post) (length pre) = Some (word_of_nat (length x))"
    if "wf_match en x" for x pre post
    using that read16_inside [of 0 x en "length x" pre post] by (simp add: wf_match_def)
qed (auto simp add: wf_match_def)

interpretation entries: sized_chain "\<lambda>mem p. read16 en mem (p + xt_next_offset T)" "wf_next en T" for en T
proof
  show "read16 en (pre @ x @ post) (length pre + xt_next_offset T) = Some (word_of_nat (length x))"
    if "wf_next en T x" for x pre post
    using that by (intro read16_inside) (simp_all add: wf_next_def)
qed (auto simp add: wf_next_def)

text \<open>
  On a well-formed entry the match iteration calls the function on the matches, in order, until
  one call does not return 0, and ends with that value; its reads stay inside the entry. The target
  is what follows the matches.
\<close>

theorem xt_entry_walk:
  assumes "wf_head en T hdr ms" "\<forall>m \<in> set ms. wf_match en m"
    and mem: "mem = pre @ hdr @ concat ms @ post"
  shows "XT_MATCH_ITERATE (Suc (length ms)) en T mem (length pre) fn s =
      Some (visit (fn mem) (positions (length pre + xt_sizeof T) ms) s) \<and>
    get_target en T mem (length pre) = Some (length (pre @ hdr @ concat ms))"
proof -
  have hdr: "length hdr = xt_sizeof T" "length (hdr @ concat ms) < 65536"
    "xt_target_offset T + 2 \<le> length hdr"
    and t: "(load en hdr (xt_target_offset T) :: u16 option) = Some (word_of_nat (length (hdr @ concat ms)))"
    using assms(1) by (simp_all add: wf_head_def del: length_append)
  have lim: "read16 en mem (length pre + xt_target_offset T) =
      Some (word_of_nat (length (hdr @ concat ms)))"
    unfolding mem using hdr t by (intro read16_inside)
  have l: "length (hdr @ concat ms) < 2 ^ 32" using hdr(2) by simp
  obtain ret s' i where c: "c_iterate (read16 en mem (length pre + xt_target_offset T))
      (\<lambda>i. read16 en mem (length pre + unat i)) (\<lambda>i. fn mem (length pre + unat i)) (Suc (length ms))
      (word_of_nat (length hdr)) 0 s = Some (ret, s', i)"
    and v: "visit (\<lambda>i :: u32. fn mem (length pre + unat i)) (map word_of_nat (positions (length hdr) ms)) s =
      (ret, s')"
    using matches.iterate_items [OF assms(2) l lessI mem lim, of "\<lambda>i. fn mem (length pre + unat i)" s]
    by blast
  have "unat (word_of_nat (length (hdr @ concat ms)) :: u16) = length (hdr @ concat ms)"
    using hdr(2) by (simp only: unsigned_of_nat) (simp add: take_bit_nat_eq_self)
  moreover have "(load en mem (length pre + xt_target_offset T) :: u16 option) =
      Some (word_of_nat (length (hdr @ concat ms)))"
    unfolding mem using hdr(3) t by (simp add: load_inside)
  ultimately have "get_target en T mem (length pre) = Some (length pre + length (hdr @ concat ms))"
    by (simp add: get_target_def del: length_append of_nat_add)
  moreover have "visit (fn mem) (positions (length pre + xt_sizeof T) ms) s = (ret, s')"
    using v visit_positions [of "length hdr" ms "fn mem" "length pre" s] hdr by (simp del: length_concat)
  ultimately show ?thesis using c by (simp add: XT_MATCH_ITERATE_def hdr(1) del: c_iterate.simps)
qed

lemmas load_eval = load_def rdn_def word_of_bytes_def order_bytes_def

theorem xt_entry_walk_witness:
  "XT_MATCH_ITERATE 2 Little (ipt_entry 8) ([7] @ (replicate 88 0 @ [144, 0] @ replicate 22 0) @
     concat [[32, 0] @ replicate 30 0] @ []) 1 (\<lambda>_ p ps. (0, ps @ [p])) [] = Some (0, [113])"
proof -
  have "wf_head Little (ipt_entry 8) (replicate 88 0 @ [144, 0] @ replicate 22 0) [[32, 0] @ replicate 30 0]"
    by (simp add: wf_head_def entry_layouts load_eval)
  moreover have "wf_match Little ([32, 0] @ replicate 30 0)" by (simp add: wf_match_def load_eval)
  ultimately show ?thesis
    using xt_entry_walk [of Little "ipt_entry 8" "replicate 88 0 @ [144, 0] @ replicate 22 0"
        "[[32, 0] @ replicate 30 0]" _ "[7]" "[]" "\<lambda>_ p ps. (0, ps @ [p])" "[]"]
    by (simp add: entry_layouts numeral_2_eq_2)
qed

text \<open>Skipping the first \<open>n\<close> entries: the counter is dropped from the result.\<close>

lemma visit_skip:
  fixes n k :: u32
  assumes "unat k + length ps < 2 ^ 32"
  shows "(\<lambda>(ret, k, s). (ret, s)) (visit (\<lambda>p (k, s). if k < n then (0, (k + 1, s))
        else (let (ret, s) = f p s in (ret, (k + 1, s)))) ps (k, s)) =
    visit f (drop (unat n - unat k) ps) s"
  using assms
proof (induction ps arbitrary: k s)
  case (Cons p ps)
  have u: "unat (k + 1) = unat k + 1" using Cons.prems by (simp add: unat_word_ariths)
  then have "unat (k + 1) + length ps < 2 ^ 32" using Cons.prems by simp
  note IH = Cons.IH [OF this]
  show ?case
  proof (cases "k < n")
    case True
    then have "unat n - unat k = Suc (unat n - unat (k + 1))" using u by (simp add: word_less_nat_alt)
    then show ?thesis using True IH by simp
  next
    case False
    then have "unat n - unat k = 0" "unat n - unat (k + 1) = 0" using u by (simp_all add: word_less_nat_alt)
    then show ?thesis using False IH by (simp split: prod.split)
  qed
qed simp

text \<open>
  C32: On a table of entries that give their lengths, the entry iteration calls the function on the
  entries behind the first \<open>n\<close>, in order, until one call does not return 0; it needs one step for
  every entry and one to end.
\<close>

theorem xt_table_walk:
  assumes "\<forall>x \<in> set xs. wf_next en T x" "length (concat xs) < 2 ^ 32"
    and mem: "mem = pre @ concat xs @ post"
  shows "XT_ENTRY_ITERATE_CONTINUE (Suc (length xs)) en T mem (length pre)
      (word_of_nat (length (concat xs))) n fn s =
    Some (visit (fn mem) (drop (unat n) (positions (length pre) xs)) s)"
proof -
  let ?g = "\<lambda>p (k, s). if k < n then (0, (k + 1, s)) else (let (ret, s) = fn mem p s in (ret, (k + 1, s)))"
  have "length xs \<le> length (concat xs)"
    using assms(1) by (induction xs) (auto simp add: wf_next_def Suc_le_eq)
  then have len: "length xs < 2 ^ 32" using assms(2) by linarith
  have mem': "mem = pre @ [] @ concat xs @ post" "length ([] @ concat xs) < 2 ^ 32"
    using mem assms(2) by simp_all
  obtain ret ks i where ci: "c_iterate (Some (word_of_nat (length ([] @ concat xs))))
      (\<lambda>i. read16 en mem (length pre + unat i + xt_next_offset T)) (\<lambda>i. ?g (length pre + unat i))
      (Suc (length xs)) (word_of_nat (length ([] :: u8 list))) 0 (0, s) = Some (ret, ks, i)"
    and vi: "visit (\<lambda>i :: u32. ?g (length pre + unat i))
      (map word_of_nat (positions (length ([] :: u8 list)) xs)) (0, s) = (ret, ks)"
    using entries.iterate_items [OF assms(1) mem'(2) lessI mem'(1) refl,
        of "\<lambda>i. ?g (length pre + unat i)" "(0, s)"] by blast
  obtain k s' where ks: "ks = (k, s')" by fastforce
  note c = ci [unfolded ks] and v = vi [unfolded ks]
  have "visit ?g (positions (length pre) xs) (0, s) = (ret, (k, s'))"
    using v visit_positions [of 0 xs ?g "length pre" "(0, s)"] assms(2) by simp
  then have "visit (fn mem) (drop (unat n) (positions (length pre) xs)) s = (ret, s')"
    using visit_skip [of 0 "positions (length pre) xs" n "fn mem" s] len by simp
  then show ?thesis
    using c by (simp add: XT_ENTRY_ITERATE_CONTINUE_def del: c_iterate.simps)
qed

theorem xt_table_walk_witness:
  "XT_ENTRY_ITERATE_CONTINUE (Suc (Suc (Suc 0))) Little (ipt_entry 8) ([7] @ concat
     [replicate 88 0 @ [112, 0, 112, 0] @ replicate 20 0, replicate 88 0 @ [112, 0, 112, 0] @ replicate 20 0] @ [])
     (Suc 0) (word_of_nat (length (concat
     [replicate 88 0 @ [112, 0, 112, 0] @ replicate 20 0, replicate 88 0 @ [112, 0, 112, 0] @ replicate 20 (0 :: u8)])))
     1 (\<lambda>_ p ps. (0, ps @ [p])) [] = Some (0, [113])"
proof -
  let ?x = "replicate 88 0 @ [112, 0, 112, 0] @ replicate 20 (0 :: u8)"
  have "\<forall>x \<in> set [?x, ?x]. wf_next Little (ipt_entry 8) x"
    by (simp add: wf_next_def entry_layouts load_eval)
  from xt_table_walk [OF this _ refl, of "[7]" "[]" 1 "\<lambda>_ p ps. (0, ps @ [p])" "[]"]
  show ?thesis by simp
qed

text \<open>
  The loop headers visit the same records as the iteration macros: all entries of a table, and all
  matches of an entry when started at its \<^verbatim>\<open>elems\<close>.
\<close>

lemma entry_foreach_items:
  assumes "\<forall>x \<in> set xs. wf_next en T x" "length xs < fuel"
    and "mem = pre @ concat xs @ post"
  shows "xt_entry_foreach fuel en T mem (length pre) (length (pre @ concat xs)) body s =
    Some (fold body (positions (length pre) xs) s)"
  using assms
proof (induction xs arbitrary: pre fuel s)
  case Nil
  then show ?case by (cases fuel) simp_all
next
  case (Cons x xs)
  obtain f where f: "fuel = Suc f" "length xs < f" using Cons.prems(2) by (cases fuel) auto
  have x: "wf_next en T x" using Cons.prems(1) by simp
  have "unat (word_of_nat (length x) :: u32) = length x"
    using x by (simp add: wf_next_def unsigned_of_nat take_bit_nat_eq_self)
  moreover have "xt_entry_foreach f en T mem (length (pre @ x)) (length ((pre @ x) @ concat xs)) body
      (body (length pre) s) = Some (fold body (positions (length (pre @ x)) xs) (body (length pre) s))"
    using Cons.prems f(2) by (intro Cons.IH) simp_all
  ultimately show ?case
    using f(1) entries.size [OF x, of pre "concat xs @ post"] entries.not_empty [OF x]
    by (simp add: Cons.prems(3) add.assoc)
qed

lemma ematch_foreach_items:
  assumes "\<forall>x \<in> set ms. wf_match en x" "length ms < fuel"
    and "mem = pre @ concat ms @ post"
    and "read16 en mem (entry + xt_target_offset T) = Some toff"
      "entry + unat toff = length (pre @ concat ms)"
  shows "xt_ematch_foreach fuel en T mem entry (length pre) body s =
    Some (fold body (positions (length pre) ms) s)"
  using assms
proof (induction ms arbitrary: pre fuel s)
  case Nil
  then show ?case by (cases fuel) simp_all
next
  case (Cons x xs)
  obtain f where f: "fuel = Suc f" "length xs < f" using Cons.prems(2) by (cases fuel) auto
  have x: "wf_match en x" using Cons.prems(1) by simp
  have "unat (word_of_nat (length x) :: u32) = length x"
    using x by (simp add: wf_match_def unsigned_of_nat take_bit_nat_eq_self)
  moreover have "xt_ematch_foreach f en T mem entry (length (pre @ x)) body (body (length pre) s) =
      Some (fold body (positions (length (pre @ x)) xs) (body (length pre) s))"
    using Cons.prems f(2) by (intro Cons.IH) simp_all
  ultimately show ?case
    using f(1) matches.size [OF x, of pre "concat xs @ post"] matches.not_empty [OF x] Cons.prems(4,5)
    by (simp add: Cons.prems(3) add.assoc)
qed

text \<open>
  Neither loop protects itself against a record that claims to be empty: a match of size zero in
  front of the target makes the match iteration run forever, for any amount of fuel, as long as the
  function returns 0 for it.
\<close>

theorem xt_zero_match_stuck:
  assumes "read16 en mem (e + xt_target_offset T) = Some toff" "word_of_nat (xt_sizeof T) < toff"
    and "read16 en mem (e + unat (word_of_nat (xt_sizeof T) :: u32)) = Some 0"
    and "\<And>p s. fst (fn mem p s) = 0"
  shows "XT_MATCH_ITERATE fuel en T mem e fn s = None"
  unfolding XT_MATCH_ITERATE_def
  using c_iterate_stuck [OF assms(1,2), of "\<lambda>i. read16 en mem (e + unat i)"
      "\<lambda>i. fn mem (e + unat i)"] assms(3,4) by simp

lemma two_zeros: "replicate 2 (0 :: u8) = [0, 0]"
  by (simp add: numeral_2_eq_2)

theorem xt_zero_match_stuck_witness:
  "XT_MATCH_ITERATE 1000 Little (ipt_entry 8) (replicate 88 0 @ [144, 0] @ replicate 54 0) 0
     (\<lambda>_ p ps. (0, ps)) [] = None"
  by (rule xt_zero_match_stuck [where toff = 144])
    (simp_all add: entry_layouts read16_def load_eval two_zeros)

end
