(* ===== verification/Ebtables.thy ===== *)
theory Ebtables
  imports Xtables
begin

text \<open>
  The rule tables of the bridge filter, \<^verbatim>\<open>include/linux/netfilter_bridge/ebtables.h\<close>. A table is a sequence of
  chain heads (\<^verbatim>\<open>struct ebt_entries\<close>, told by a first word of 0) and rules (\<^verbatim>\<open>struct ebt_entry\<close>); a rule is a
  fixed part, matches up to \<^verbatim>\<open>watchers_offset\<close>, watchers up to \<^verbatim>\<open>target_offset\<close>, and a target. The size that
  a match or watcher gives is that of its data only. Unlike those of \<^verbatim>\<open>x_tables.h\<close>, these macros report
  when the records do not end where the rule says. \<open>ptr\<close> is the size of a pointer.
\<close>

section \<open>Layout\<close>

definition EBT_TABLE_MAXNAMELEN :: nat where
  "EBT_TABLE_MAXNAMELEN = 32"

definition EBT_EXTENSION_MAXNAMELEN :: nat where
  "EBT_EXTENSION_MAXNAMELEN = 31"

definition struct_ebt_replace :: "nat \<Rightarrow> ctype" where
  "struct_ebt_replace ptr = Struct [Arr (Scalar 1) EBT_TABLE_MAXNAMELEN, Scalar 4, Scalar 4, Scalar 4,
     Arr (Scalar ptr) 6, Scalar 4, Scalar ptr, Scalar ptr]"

text \<open>An array without elements that is aligned as \<^verbatim>\<open>struct ebt_replace\<close> ends the records.\<close>

definition struct_ebt_entries :: "nat \<Rightarrow> ctype" where
  "struct_ebt_entries ptr = Struct [Scalar 4, Arr (Scalar 1) EBT_TABLE_MAXNAMELEN, Scalar 4, Scalar 4,
     Scalar 4, Arr (struct_ebt_replace ptr) 0]"

definition ebt_entry_match_members :: "nat \<Rightarrow> ctype list" where
  "ebt_entry_match_members ptr =
     [Union [Struct [Arr (Scalar 1) EBT_EXTENSION_MAXNAMELEN, Scalar 1], Scalar ptr],
      Scalar 4, Arr (struct_ebt_replace ptr) 0]"

definition ebt_entry_watcher_members :: "nat \<Rightarrow> ctype list" where
  "ebt_entry_watcher_members ptr =
     [Union [Struct [Arr (Scalar 1) EBT_EXTENSION_MAXNAMELEN, Scalar 1], Scalar ptr],
      Scalar 4, Arr (struct_ebt_replace ptr) 0]"

definition ebt_entry_members :: "nat \<Rightarrow> ctype list" where
  "ebt_entry_members ptr = [Scalar 4, Scalar 4, Scalar 2,
     Arr (Scalar 1) 16, Arr (Scalar 1) 16, Arr (Scalar 1) 16, Arr (Scalar 1) 16,
     Arr (Scalar 1) 6, Arr (Scalar 1) 6, Arr (Scalar 1) 6, Arr (Scalar 1) 6,
     Scalar 4, Scalar 4, Scalar 4, Arr (struct_ebt_replace ptr) 0]"

text \<open>What the macros take from the types.\<close>

record ebt_type =
  ebt_entry_size :: nat
  ebt_watchers_offset :: nat
  ebt_target_offset :: nat
  ebt_next_offset :: nat
  ebt_entries_size :: nat
  ebt_match_header :: nat
  ebt_match_size :: nat
  ebt_watcher_header :: nat
  ebt_watcher_size :: nat

definition ebt_abi :: "nat \<Rightarrow> nat \<Rightarrow> ebt_type" where
  "ebt_abi amax ptr = \<lparr>ebt_entry_size = sizeof amax (Struct (ebt_entry_members ptr)),
     ebt_watchers_offset = offsets amax (ebt_entry_members ptr) 0 ! 11,
     ebt_target_offset = offsets amax (ebt_entry_members ptr) 0 ! 12,
     ebt_next_offset = offsets amax (ebt_entry_members ptr) 0 ! 13,
     ebt_entries_size = sizeof amax (struct_ebt_entries ptr),
     ebt_match_header = sizeof amax (Struct (ebt_entry_match_members ptr)),
     ebt_match_size = offsets amax (ebt_entry_match_members ptr) 0 ! 1,
     ebt_watcher_header = sizeof amax (Struct (ebt_entry_watcher_members ptr)),
     ebt_watcher_size = offsets amax (ebt_entry_watcher_members ptr) 0 ! 1\<rparr>"

section \<open>Iteration\<close>

definition EINVAL :: c_int where
  "EINVAL = 22"

definition read32 :: "endian \<Rightarrow> u8 list \<Rightarrow> nat \<Rightarrow> u32 option" where
  "read32 en mem p = load en mem p"

text \<open>The end of all three macros: a loop that ran through must have stopped at its limit.\<close>

definition iterate_exact :: "u32 option \<Rightarrow> (u32 \<Rightarrow> u32 option) \<Rightarrow> (u32 \<Rightarrow> 's \<Rightarrow> c_int \<times> 's) \<Rightarrow> nat \<Rightarrow>
    u32 \<Rightarrow> 's \<Rightarrow> (c_int \<times> 's) option" where
  "iterate_exact lim sz fn fuel start s = do {
     (ret, s, i) \<leftarrow> c_iterate lim sz fn fuel start 0 s;
     l \<leftarrow> lim;
     Some (if ret = 0 then (if i \<noteq> l then (- EINVAL, s) else (ret, s)) else (ret, s))
   }"

definition EBT_MATCH_ITERATE :: "nat \<Rightarrow> endian \<Rightarrow> ebt_type \<Rightarrow> u8 list \<Rightarrow> nat \<Rightarrow>
    (u8 list \<Rightarrow> nat \<Rightarrow> 's \<Rightarrow> c_int \<times> 's) \<Rightarrow> 's \<Rightarrow> (c_int \<times> 's) option" where
  "EBT_MATCH_ITERATE fuel en T mem e fn s =
     iterate_exact (read32 en mem (e + ebt_watchers_offset T))
       (\<lambda>i. map_option (\<lambda>d. d + word_of_nat (ebt_match_header T))
         (read32 en mem (e + unat i + ebt_match_size T)))
       (\<lambda>i. fn mem (e + unat i))
       fuel (word_of_nat (ebt_entry_size T)) s"

definition EBT_WATCHER_ITERATE :: "nat \<Rightarrow> endian \<Rightarrow> ebt_type \<Rightarrow> u8 list \<Rightarrow> nat \<Rightarrow>
    (u8 list \<Rightarrow> nat \<Rightarrow> 's \<Rightarrow> c_int \<times> 's) \<Rightarrow> 's \<Rightarrow> (c_int \<times> 's) option" where
  "EBT_WATCHER_ITERATE fuel en T mem e fn s = do {
     start \<leftarrow> read32 en mem (e + ebt_watchers_offset T);
     iterate_exact (read32 en mem (e + ebt_target_offset T))
       (\<lambda>i. map_option (\<lambda>d. d + word_of_nat (ebt_watcher_header T))
         (read32 en mem (e + unat i + ebt_watcher_size T)))
       (\<lambda>i. fn mem (e + unat i))
       fuel start s
   }"

text \<open>How far the loop over a table moves from the record at \<open>p\<close>; \<^verbatim>\<open>bitmask\<close> is its first word.\<close>

definition ebt_step :: "endian \<Rightarrow> ebt_type \<Rightarrow> u8 list \<Rightarrow> nat \<Rightarrow> u32 option" where
  "ebt_step en T mem p = do {
     bitmask \<leftarrow> read32 en mem p;
     if bitmask \<noteq> 0 then read32 en mem (p + ebt_next_offset T)
     else Some (word_of_nat (ebt_entries_size T))
   }"

definition EBT_ENTRY_ITERATE :: "nat \<Rightarrow> endian \<Rightarrow> ebt_type \<Rightarrow> u8 list \<Rightarrow> nat \<Rightarrow> u32 \<Rightarrow>
    (u8 list \<Rightarrow> nat \<Rightarrow> 's \<Rightarrow> c_int \<times> 's) \<Rightarrow> 's \<Rightarrow> (c_int \<times> 's) option" where
  "EBT_ENTRY_ITERATE fuel en T mem entries sz fn s =
     iterate_exact (Some sz) (\<lambda>i. ebt_step en T mem (entries + unat i))
       (\<lambda>i. fn mem (entries + unat i)) fuel 0 s"

definition ebt_get_target :: "endian \<Rightarrow> ebt_type \<Rightarrow> u8 list \<Rightarrow> nat \<Rightarrow> nat option" where
  "ebt_get_target en T mem e = do {
     off \<leftarrow> read32 en mem (e + ebt_target_offset T);
     Some (e + unat off)
   }"

lemma ebt_layouts:
  "ebt_abi 8 8 = \<lparr>ebt_entry_size = 112, ebt_watchers_offset = 100, ebt_target_offset = 104,
     ebt_next_offset = 108, ebt_entries_size = 48, ebt_match_header = 40, ebt_match_size = 32,
     ebt_watcher_header = 40, ebt_watcher_size = 32\<rparr>"
  "ebt_abi 4 4 = \<lparr>ebt_entry_size = 112, ebt_watchers_offset = 100, ebt_target_offset = 104,
     ebt_next_offset = 108, ebt_entries_size = 48, ebt_match_header = 36, ebt_match_size = 32,
     ebt_watcher_header = 36, ebt_watcher_size = 32\<rparr>"
  by code_simp+

section \<open>Rules that tile\<close>

text \<open>A match or watcher: a header that gives the length of the data behind it.\<close>

definition wf_ext :: "endian \<Rightarrow> nat \<Rightarrow> nat \<Rightarrow> u8 list \<Rightarrow> bool" where
  "wf_ext en h off x \<longleftrightarrow> 0 < h \<and> off + 4 \<le> h \<and> h \<le> length x \<and> length x < 2 ^ 32 \<and>
     read32 en x off = Some (word_of_nat (length x - h))"

text \<open>A chain head, or a rule that gives its length.\<close>

definition wf_ebt_item :: "endian \<Rightarrow> ebt_type \<Rightarrow> u8 list \<Rightarrow> bool" where
  "wf_ebt_item en T x \<longleftrightarrow> 4 \<le> length x \<and> length x < 2 ^ 32 \<and>
     (if read32 en x 0 = Some 0 then length x = ebt_entries_size T
      else ebt_next_offset T + 4 \<le> length x \<and>
        read32 en x (ebt_next_offset T) = Some (word_of_nat (length x)))"

lemma read32_inside:
  assumes "off + 4 \<le> length x"
  shows "read32 en (pre @ x @ post) (length pre + off) = read32 en x off"
  using assms by (simp add: read32_def load_inside)

context sized_chain
begin

lemma exact_items:
  assumes "\<forall>x \<in> set xs. item x" "length (a @ concat xs) < 2 ^ 32" "length xs < fuel"
    and "mem = pre @ a @ concat xs @ post"
    and lim: "lim = Some (word_of_nat (length (a @ concat xs)))"
  shows "iterate_exact lim (\<lambda>i. sz mem (length pre + unat i)) (\<lambda>i. fn mem (length pre + unat i)) fuel
      (word_of_nat (length a)) s = Some (visit (fn mem) (positions (length pre + length a) xs) s)"
proof -
  have "visit (\<lambda>i. fn mem (length pre + unat (i :: u32))) (map word_of_nat (positions (length a) xs)) s =
      visit (fn mem) (positions (length pre + length a) xs) s"
    using assms(2) by (intro visit_positions) (simp del: length_concat)
  then show ?thesis
    using iterate_items [OF assms, of "\<lambda>i. fn mem (length pre + unat i)" s]
    by (auto simp add: iterate_exact_def lim simp del: length_append)
qed

end

interpretation exts: sized_chain
  "\<lambda>mem p. map_option (\<lambda>d. d + word_of_nat h) (read32 en mem (p + off))" "wf_ext en h off" for en h off
proof
  show "map_option (\<lambda>d. d + word_of_nat h) (read32 en (pre @ x @ post) (length pre + off)) =
      Some (word_of_nat (length x))" if "wf_ext en h off x" for x pre post
    using that read32_inside [of off x en pre post]
    by (simp add: wf_ext_def flip: of_nat_add)
qed (auto simp add: wf_ext_def)

interpretation items: sized_chain "ebt_step en T" "wf_ebt_item en T" for en T
proof
  show "ebt_step en T (pre @ x @ post) (length pre) = Some (word_of_nat (length x))"
    if x: "wf_ebt_item en T x" for x pre post
  proof -
    obtain b where "read32 en x 0 = Some b"
      using x by (cases "read32 en x 0") (auto simp add: wf_ebt_item_def read32_def load_def rdn_def split: if_splits)
    then show ?thesis
      using x read32_inside [of 0 x en pre post] read32_inside [of "ebt_next_offset T" x en pre post]
      by (auto simp add: wf_ebt_item_def ebt_step_def split: if_splits)
  qed
qed (auto simp add: wf_ebt_item_def)

definition wf_rule :: "endian \<Rightarrow> ebt_type \<Rightarrow> u8 list \<Rightarrow> u8 list list \<Rightarrow> u8 list list \<Rightarrow> bool" where
  "wf_rule en T hdr ms ws \<longleftrightarrow> length hdr = ebt_entry_size T \<and>
     ebt_watchers_offset T + 4 \<le> ebt_entry_size T \<and> ebt_target_offset T + 4 \<le> ebt_entry_size T \<and>
     length (hdr @ concat ms @ concat ws) < 2 ^ 32 \<and>
     read32 en hdr (ebt_watchers_offset T) = Some (word_of_nat (length (hdr @ concat ms))) \<and>
     read32 en hdr (ebt_target_offset T) = Some (word_of_nat (length (hdr @ concat ms @ concat ws))) \<and>
     list_all (wf_ext en (ebt_match_header T) (ebt_match_size T)) ms \<and>
     list_all (wf_ext en (ebt_watcher_header T) (ebt_watcher_size T)) ws"

text \<open>
  On a rule whose matches and watchers fill their parts, the two iterations call the function on the
  matches and on the watchers in order, until one call does not return 0, and return what the last call
  did; they do not report an error of their own. The target is what follows.
\<close>

theorem ebt_rule_walk:
  assumes rule: "wf_rule en T hdr ms ws"
    and mem: "mem = pre @ hdr @ concat ms @ concat ws @ post"
  shows "EBT_MATCH_ITERATE (Suc (length ms)) en T mem (length pre) fn s =
      Some (visit (fn mem) (positions (length (pre @ hdr)) ms) s) \<and>
    EBT_WATCHER_ITERATE (Suc (length ws)) en T mem (length pre) fn s =
      Some (visit (fn mem) (positions (length (pre @ hdr @ concat ms)) ws) s) \<and>
    ebt_get_target en T mem (length pre) = Some (length (pre @ hdr @ concat ms @ concat ws))"
proof -
  have len: "length (hdr @ concat ms) < 2 ^ 32" "length ((hdr @ concat ms) @ concat ws) < 2 ^ 32"
    using rule by (simp_all add: wf_rule_def del: length_concat)
  have w: "read32 en mem (length pre + ebt_watchers_offset T) = Some (word_of_nat (length (hdr @ concat ms)))"
    and t: "read32 en mem (length pre + ebt_target_offset T) =
      Some (word_of_nat (length ((hdr @ concat ms) @ concat ws)))"
    unfolding mem using rule read32_inside [of _ hdr en pre "concat ms @ concat ws @ post"]
    by (simp_all add: wf_rule_def)
  have ms: "\<forall>x \<in> set ms. wf_ext en (ebt_match_header T) (ebt_match_size T) x"
    and ws: "\<forall>x \<in> set ws. wf_ext en (ebt_watcher_header T) (ebt_watcher_size T) x"
    and size: "ebt_entry_size T = length hdr"
    using rule by (simp_all add: wf_rule_def list_all_iff)
  have mem': "mem = pre @ (hdr @ concat ms) @ concat ws @ post" by (simp add: mem)
  have "unat (word_of_nat (length ((hdr @ concat ms) @ concat ws)) :: u32) =
      length ((hdr @ concat ms) @ concat ws)"
    using len(2) by (simp only: unsigned_of_nat) (simp add: take_bit_nat_eq_self)
  then have "ebt_get_target en T mem (length pre) = Some (length (pre @ hdr @ concat ms @ concat ws))"
    by (simp add: ebt_get_target_def t del: length_concat of_nat_add)
  then show ?thesis
    using exts.exact_items [OF ms len(1) lessI mem w, of fn s]
      exts.exact_items [OF ws len(2) lessI mem' t, of fn s]
    by (simp add: EBT_MATCH_ITERATE_def EBT_WATCHER_ITERATE_def size w del: of_nat_add length_concat)
qed

lemma four_zeros: "replicate 4 (0 :: u8) = [0, 0, 0, 0]"
  by (simp add: numeral_eq_Suc)

theorem ebt_rule_walk_witness:
  "EBT_MATCH_ITERATE 2 Little (ebt_abi 8 8) ([7] @ (replicate 100 0 @ [160, 0, 0, 0, 200, 0, 0, 0] @ replicate 4 0) @
     concat [replicate 32 0 @ [8, 0, 0, 0] @ replicate 12 0] @ concat [replicate 40 0] @ []) 1
     (\<lambda>_ p ps. (0, ps @ [p])) [] = Some (0, [113])"
proof -
  have "wf_rule Little (ebt_abi 8 8) (replicate 100 0 @ [160, 0, 0, 0, 200, 0, 0, 0] @ replicate 4 0)
      [replicate 32 0 @ [8, 0, 0, 0] @ replicate 12 0] [replicate 40 0]"
    by (simp add: wf_rule_def wf_ext_def ebt_layouts read32_def load_eval min_def four_zeros)
  then show ?thesis
    using ebt_rule_walk [of Little "ebt_abi 8 8" "replicate 100 0 @ [160, 0, 0, 0, 200, 0, 0, 0] @ replicate 4 0"
      "[replicate 32 0 @ [8, 0, 0, 0] @ replicate 12 0]" "[replicate 40 0]" _ "[7]" "[]"
      "\<lambda>_ p ps. (0, ps @ [p])" "[]"]
    by (simp add: numeral_2_eq_2)
qed

text \<open>
  On a table of chain heads and rules the entry iteration calls the function on every one, in order,
  until a call does not return 0: the zero word in front of a chain head tells it how far to go.
\<close>

theorem ebt_table_walk:
  assumes "\<forall>x \<in> set xs. wf_ebt_item en T x" "length (concat xs) < 2 ^ 32"
    and mem: "mem = pre @ concat xs @ post"
  shows "EBT_ENTRY_ITERATE (Suc (length xs)) en T mem (length pre) (word_of_nat (length (concat xs))) fn s =
    Some (visit (fn mem) (positions (length pre) xs) s)"
  using items.exact_items [OF assms(1), of "[]" "Suc (length xs)" mem pre post _ fn s] assms(2,3)
  by (simp add: EBT_ENTRY_ITERATE_def del: of_nat_add length_concat)

theorem ebt_table_walk_witness:
  "EBT_ENTRY_ITERATE (Suc (Suc (Suc 0))) Big (ebt_abi 8 8) ([7] @ concat [replicate 48 0,
      [0, 0, 0, 1] @ replicate 104 0 @ [0, 0, 0, 112]] @ []) (Suc 0)
     (word_of_nat (length (concat [replicate 48 0, [0, 0, 0, 1] @ replicate 104 0 @ [0, 0, 0, 112 :: u8]])))
     (\<lambda>_ p ps. (0, ps @ [p])) [] = Some (0, [1, 49])"
proof -
  have "\<forall>x \<in> set [replicate 48 0, [0, 0, 0, 1] @ replicate 104 0 @ [0, 0, 0, 112]].
      wf_ebt_item Big (ebt_abi 8 8) x"
    by (simp add: wf_ebt_item_def ebt_layouts read32_def load_eval min_def four_zeros)
  from ebt_table_walk [OF this _ refl, of "[7]" "[]" "\<lambda>_ p ps. (0, ps @ [p])" "[]"]
  show ?thesis by simp
qed

section \<open>What is accepted\<close>

text \<open>Records, by their offsets, that lead from \<open>i\<close> exactly to \<open>l\<close>; offsets wrap as in the code.\<close>

fun tiles :: "(u32 \<Rightarrow> u32 option) \<Rightarrow> u32 \<Rightarrow> u32 \<Rightarrow> u32 list \<Rightarrow> bool" where
  "tiles sz l i [] \<longleftrightarrow> i = l"
| "tiles sz l i (j # js) \<longleftrightarrow> j = i \<and> i < l \<and> (case sz i of None \<Rightarrow> False | Some d \<Rightarrow> tiles sz l (i + d) js)"

lemma c_iterate_tiles:
  assumes "c_iterate (Some l) sz fn fuel i ret s = Some (0, s', l)"
  shows "\<exists>js. tiles sz l i js \<and> visit fn js s = (0, s')"
  using assms
proof (induction fuel arbitrary: i ret s)
  case (Suc fuel)
  show ?case
  proof (cases "i < l")
    case True
    obtain r s1 where fn: "fn i s = (r, s1)" by fastforce
    then have "r = 0" using Suc.prems True by (auto split: if_splits)
    then obtain d where d: "sz i = Some d" and c: "c_iterate (Some l) sz fn fuel (i + d) 0 s1 = Some (0, s', l)"
      using Suc.prems True fn by (auto simp add: bind_eq_Some_conv)
    obtain js where "tiles sz l (i + d) js" "visit fn js s1 = (0, s')" using Suc.IH [OF c] by blast
    then have "tiles sz l i (i # js) \<and> visit fn (i # js) s = (0, s')"
      using True d fn \<open>r = 0\<close> by simp
    then show ?thesis by blast
  next
    case False
    then have "tiles sz l i [] \<and> visit fn [] s = (0, s')" using Suc.prems by simp
    then show ?thesis by blast
  qed
qed simp

text \<open>
  The check at the end of the match iteration is what it is for: when the iteration returns 0, on
  whatever memory, the matches lead from the end of the fixed part exactly to the watchers, and the
  function returned 0 for each of them.
\<close>

theorem ebt_match_accepts:
  assumes "EBT_MATCH_ITERATE fuel en T mem e fn s = Some (0, s')"
  shows "\<exists>w js. read32 en mem (e + ebt_watchers_offset T) = Some w \<and>
    tiles (\<lambda>i. map_option (\<lambda>d. d + word_of_nat (ebt_match_header T))
      (read32 en mem (e + unat i + ebt_match_size T))) w (word_of_nat (ebt_entry_size T)) js \<and>
    visit (\<lambda>i. fn mem (e + unat i)) js s = (0, s')"
proof -
  obtain w where w: "read32 en mem (e + ebt_watchers_offset T) = Some w"
    using assms by (cases "read32 en mem (e + ebt_watchers_offset T)")
      (auto simp add: EBT_MATCH_ITERATE_def iterate_exact_def bind_eq_Some_conv)
  then have "c_iterate (Some w) (\<lambda>i. map_option (\<lambda>d. d + word_of_nat (ebt_match_header T))
      (read32 en mem (e + unat i + ebt_match_size T))) (\<lambda>i. fn mem (e + unat i)) fuel
      (word_of_nat (ebt_entry_size T)) 0 s = Some (0, s', w)"
    using assms by (auto simp add: EBT_MATCH_ITERATE_def iterate_exact_def EINVAL_def bind_eq_Some_conv
        split: if_splits)
  from c_iterate_tiles [OF this] w show ?thesis by blast
qed

theorem ebt_match_accepts_witness:
  "\<exists>w js. read32 Little (replicate 100 0 @ [112, 0, 0, 0] @ replicate 8 0) (0 + ebt_watchers_offset (ebt_abi 8 8)) =
      Some w \<and>
    tiles (\<lambda>i. map_option (\<lambda>d. d + word_of_nat (ebt_match_header (ebt_abi 8 8)))
      (read32 Little (replicate 100 0 @ [112, 0, 0, 0] @ replicate 8 0) (0 + unat i + ebt_match_size (ebt_abi 8 8))))
      w (word_of_nat (ebt_entry_size (ebt_abi 8 8))) js \<and>
    visit (\<lambda>i. (\<lambda>_ p n. (1, n + 1)) (replicate 100 0 @ [112, 0, 0, 0] @ replicate 8 (0 :: u8)) (0 + unat i))
      js (0 :: nat) = (0, 0)"
  by (rule ebt_match_accepts [of "Suc 0"])
    (simp add: EBT_MATCH_ITERATE_def iterate_exact_def ebt_layouts read32_def load_eval)

text \<open>
  The sum of a size and the size of the header wraps in 32 bits: a match whose size is the
  negative of its header's makes the iteration run forever, for any amount of fuel, if the function
  does not reject it.
\<close>

theorem ebt_wrapped_size_stuck:
  assumes "read32 en mem (e + ebt_watchers_offset T) = Some w" "word_of_nat (ebt_entry_size T) < w"
    and "read32 en mem (e + unat (word_of_nat (ebt_entry_size T) :: u32) + ebt_match_size T) =
      Some (- word_of_nat (ebt_match_header T))"
    and "\<And>p s. fst (fn mem p s) = 0"
  shows "EBT_MATCH_ITERATE fuel en T mem e fn s = None"
  unfolding EBT_MATCH_ITERATE_def iterate_exact_def
  using c_iterate_stuck [OF assms(1,2), of "\<lambda>i. map_option (\<lambda>d. d + word_of_nat (ebt_match_header T))
      (read32 en mem (e + unat i + ebt_match_size T))" "\<lambda>i. fn mem (e + unat i)"] assms(3,4)
  by simp

theorem ebt_wrapped_size_stuck_witness:
  "EBT_MATCH_ITERATE 1000 Little (ebt_abi 8 8) (replicate 100 0 @ [152, 0, 0, 0] @ replicate 40 0 @
     [216, 255, 255, 255] @ replicate 4 0) 0 (\<lambda>_ p n. (0, n)) () = None"
  by (rule ebt_wrapped_size_stuck [where w = 152])
    (simp_all add: ebt_layouts read32_def load_eval)

end
