(* ===== verification/Bit_Map.thy ===== *)
theory Bit_Map
  imports Uapi_Memory
begin

text \<open>
  Sets of small numbers in arrays of 32-bit words, the number \<open>n\<close> at bit \<open>n mod 32\<close> of word \<open>n div 32\<close>:
  the contract of the macros that keep them, and its consequences for sequences of operations.
\<close>

definition members :: "u32 list \<Rightarrow> nat set" where
  "members m = {n. n div 32 < length m \<and> bit (m ! (n div 32)) (n mod 32)}"

definition memset_words :: "u32 list \<Rightarrow> c_int \<Rightarrow> u32 list" where
  "memset_words m c = map (\<lambda>_. le_word (replicate 4 (u8_of c))) m"

locale bit_map =
  fixes put del :: "nat \<Rightarrow> u32 list \<Rightarrow> u32 list option"
    and has :: "nat \<Rightarrow> u32 list \<Rightarrow> bool option"
    and words :: nat
  assumes put: "length m = words \<Longrightarrow> n < 32 * words \<Longrightarrow>
      \<exists>m'. put n m = Some m' \<and> length m' = words \<and> members m' = insert n (members m)"
    and del: "length m = words \<Longrightarrow> n < 32 * words \<Longrightarrow>
      \<exists>m'. del n m = Some m' \<and> length m' = words \<and> members m' = members m - {n}"
    and has: "length m = words \<Longrightarrow> n < 32 * words \<Longrightarrow> has n m = Some (n \<in> members m)"
    and put_outside: "length m = words \<Longrightarrow> 32 * words \<le> n \<Longrightarrow> put n m = None"
begin

lemma put_all:
  assumes "length m = words" "\<forall>n \<in> set ns. n < 32 * words"
  shows "\<exists>m'. c_for put ns m = Some m' \<and> length m' = words \<and> members m' = set ns \<union> members m"
  using assms
proof (induction ns arbitrary: m)
  case (Cons n ns)
  obtain m1 where m1: "put n m = Some m1" "length m1 = words" "members m1 = insert n (members m)"
    using put [of m n] Cons.prems by auto
  obtain m2 where "c_for put ns m1 = Some m2" "length m2 = words" "members m2 = set ns \<union> members m1"
    using Cons.IH [OF m1(2)] Cons.prems by auto
  then show ?case using m1 by simp
qed simp

lemma has_put:
  assumes "length m = words" "n < 32 * words" "k < 32 * words"
  shows "do { m' \<leftarrow> put n m; has k m' } = Some (k = n \<or> k \<in> members m)"
proof -
  obtain m1 where m1: "put n m = Some m1" "length m1 = words" "members m1 = insert n (members m)"
    using put [OF assms(1,2)] by auto
  then show ?thesis using has [OF m1(2) assms(3)] by simp
qed

lemma has_del:
  assumes "length m = words" "n < 32 * words" "k < 32 * words"
  shows "do { m' \<leftarrow> del n m; has k m' } = Some (k \<noteq> n \<and> k \<in> members m)"
proof -
  obtain m1 where m1: "del n m = Some m1" "length m1 = words" "members m1 = members m - {n}"
    using del [OF assms(1,2)] by auto
  then show ?thesis using has [OF m1(2) assms(3)] by auto
qed

end

text \<open>One bit of one word changes one member.\<close>

lemma word_members:
  assumes "n div 32 < length m"
  shows "members (m[n div 32 := m ! (n div 32) OR push_bit (n mod 32) 1]) = insert n (members m)"
    and "members (m[n div 32 := m ! (n div 32) AND NOT (push_bit (n mod 32) 1)]) = members m - {n}"
proof -
  have n: "k = n" if "k div 32 = n div 32" "k mod 32 = n mod 32" for k
    using that by (metis div_mult_mod_eq)
  have "n mod 32 < 32" by simp
  then show "members (m[n div 32 := m ! (n div 32) OR push_bit (n mod 32) 1]) = insert n (members m)"
    "members (m[n div 32 := m ! (n div 32) AND NOT (push_bit (n mod 32) 1)]) = members m - {n}"
    using assms n by (auto simp add: members_def nth_list_update bit_or_iff bit_and_iff bit_not_iff
        bit_exp_iff split: if_splits)
qed

lemma word_test: "x AND push_bit i 1 \<noteq> 0 \<longleftrightarrow> bit (x :: u32) i"
proof -
  have "x AND push_bit i 1 \<noteq> 0 \<longleftrightarrow> (\<exists>k. bit (x AND push_bit i 1) k)"
    by (metis bit_0_eq bit_word_eqI bot_apply bot_bool_def)
  then show ?thesis by (auto simp add: bit_and_iff bit_exp_iff dest: bit_imp_le_length)
qed

lemma members_memset:
  "members (memset_words m 0) = {}"
  "members (memset_words m (NOT 0)) = {n. n < 32 * length m}"
proof -
  have "bit (le_word (replicate 4 (u8_of 0)) :: u32) i \<longleftrightarrow> False" for i
    by (simp add: bit_le_word u8_of_def)
  then show "members (memset_words m 0) = {}" by (auto simp add: members_def memset_words_def)
  have "bit (le_word (replicate 4 (u8_of (NOT 0))) :: u32) (n mod 32)" for n :: nat
  proof -
    have "n mod 32 div 8 < 4" by (simp add: less_mult_imp_div_less)
    moreover have "bit (u8_of (NOT 0)) (n mod 32 mod 8)" by (simp add: u8_of_def bit_simps)
    ultimately show ?thesis by (simp add: bit_le_word)
  qed
  then show "members (memset_words m (NOT 0)) = {n. n < 32 * length m}"
    by (auto simp add: members_def memset_words_def)
qed

lemma members_empty_iff: "members m = {} \<longleftrightarrow> (\<forall>x \<in> set m. x = 0)"
proof
  assume e: "members m = {}"
  have "m ! i = 0" if "i < length m" for i
  proof (rule bit_word_eqI)
    fix k assume "k < LENGTH(32)"
    then have "(32 * i + k) div 32 = i" "(32 * i + k) mod 32 = k" by simp_all
    moreover have "32 * i + k \<notin> members m" using e by simp
    ultimately show "bit (m ! i) k = bit 0 k" using that by (simp add: members_def)
  qed
  then show "\<forall>x \<in> set m. x = 0" by (auto simp add: in_set_conv_nth)
next
  assume z: "\<forall>x \<in> set m. x = 0"
  have "m ! (n div 32) = 0" if "n div 32 < length m" for n using z that nth_mem by blast
  then show "members m = {}" by (auto simp add: members_def)
qed

text \<open>Operations that read, change and test one word satisfy the contract.\<close>

lemma bit_map_words:
  assumes put: "\<And>n m. put n m =
      do { w \<leftarrow> rd m (n div 32); wr m (n div 32) (w OR push_bit (n mod 32) 1) }"
    and del: "\<And>n m. del n m =
      do { w \<leftarrow> rd m (n div 32); wr m (n div 32) (w AND NOT (push_bit (n mod 32) 1)) }"
    and has: "\<And>n m. has n m = do { w \<leftarrow> rd m (n div 32); Some (w AND push_bit (n mod 32) 1 \<noteq> 0) }"
  shows "bit_map put del has words"
proof
  fix m :: "u32 list" and n
  assume m: "length m = words"
  show "put n m = None" if "32 * words \<le> n"
  proof -
    have "\<not> n div 32 < length m" using that m by (simp add: div_less_iff_less_mult)
    then show ?thesis by (simp add: put rd_def)
  qed
  assume n: "n < 32 * words"
  have i: "n div 32 < length m" using m n by (simp add: less_mult_imp_div_less)
  show "\<exists>m'. put n m = Some m' \<and> length m' = words \<and> members m' = insert n (members m)"
    using i m word_members(1) [OF i] by (simp add: put mem_simps)
  show "\<exists>m'. del n m = Some m' \<and> length m' = words \<and> members m' = members m - {n}"
    using i m word_members(2) [OF i] by (simp add: del mem_simps)
  show "has n m = Some (n \<in> members m)"
    using i word_test [of "m ! (n div 32)" "n mod 32"] by (simp add: has mem_simps members_def)
qed

end
