(* ===== verification/Xt_Sctp.thy ===== *)
theory Xt_Sctp
  imports Bit_Map
begin

text \<open>
  The chunk maps of the SCTP match, \<^verbatim>\<open>include/linux/netfilter/xt_sctp.h\<close>: which chunk types a packet must
  carry. The map is an array of \<^verbatim>\<open>256 / sizeof(__u32)\<close> words. The macros take an array, so \<^verbatim>\<open>sizeof(chunkmap)\<close>
  and \<^verbatim>\<open>ARRAY_SIZE(chunkmap)\<close> are those of the list; an index outside is \<open>None\<close>.
\<close>

definition chunkmap_words :: nat where
  "chunkmap_words = 256 div 4"

definition bytes :: "nat \<Rightarrow> nat" where
  "bytes sizeof_type = sizeof_type * 8"

definition SCTP_CHUNKMAP_SET :: "u32 list \<Rightarrow> nat \<Rightarrow> u32 list option" where
  "SCTP_CHUNKMAP_SET chunkmap type = do {
     w \<leftarrow> rd chunkmap (type div bytes 4);
     wr chunkmap (type div bytes 4) (w OR push_bit (type mod bytes 4) 1)
   }"

definition SCTP_CHUNKMAP_CLEAR :: "u32 list \<Rightarrow> nat \<Rightarrow> u32 list option" where
  "SCTP_CHUNKMAP_CLEAR chunkmap type = do {
     w \<leftarrow> rd chunkmap (type div bytes 4);
     wr chunkmap (type div bytes 4) (w AND NOT (push_bit (type mod bytes 4) 1))
   }"

definition SCTP_CHUNKMAP_IS_SET :: "u32 list \<Rightarrow> nat \<Rightarrow> c_int option" where
  "SCTP_CHUNKMAP_IS_SET chunkmap type = do {
     w \<leftarrow> rd chunkmap (type div bytes 4);
     Some (if w AND push_bit (type mod bytes 4) 1 \<noteq> 0 then 1 else 0)
   }"

definition SCTP_CHUNKMAP_RESET :: "u32 list \<Rightarrow> u32 list" where
  "SCTP_CHUNKMAP_RESET chunkmap = memset_words chunkmap 0"

definition SCTP_CHUNKMAP_SET_ALL :: "u32 list \<Rightarrow> u32 list" where
  "SCTP_CHUNKMAP_SET_ALL chunkmap = memset_words chunkmap (NOT 0)"

definition SCTP_CHUNKMAP_COPY :: "u32 list \<Rightarrow> u32 list \<Rightarrow> u32 list option" where
  "SCTP_CHUNKMAP_COPY destmap srcmap = wrn destmap 0 srcmap"

text \<open>The loop of the two tests: an \<^verbatim>\<open>unsigned int\<close> index runs over the words, and the first that fails the
  test ends it.\<close>

lemma suc_index:
  fixes i n :: u32
  assumes "i < n"
  shows "unat (i + 1) = Suc (unat i)"
proof -
  have "unat i + 1 < 2 ^ 32"
    using assms unsigned_less [of n, where ?'a = nat] by (simp add: word_less_nat_alt)
  then show ?thesis by (simp add: unat_word_ariths)
qed

function words_all :: "(u32 \<Rightarrow> bool) \<Rightarrow> u32 \<Rightarrow> u32 list \<Rightarrow> u32 \<Rightarrow> bool option" where
  "words_all P i chunkmap n =
     (if i < n then do {
        w \<leftarrow> rd chunkmap (unat i);
        if \<not> P w then Some False else words_all P (i + 1) chunkmap n
      } else Some True)"
  by pat_completeness auto

termination
  by (relation "measure (\<lambda>(_, i, _, n). unat n - unat i)") (auto simp add: suc_index word_less_nat_alt)

declare words_all.simps [simp del]

definition sctp_chunkmap_is_clear :: "u32 list \<Rightarrow> u32 \<Rightarrow> bool option" where
  "sctp_chunkmap_is_clear chunkmap n = words_all (\<lambda>w. w = 0) 0 chunkmap n"

definition sctp_chunkmap_is_all_set :: "u32 list \<Rightarrow> u32 \<Rightarrow> bool option" where
  "sctp_chunkmap_is_all_set chunkmap n = words_all (\<lambda>w. w = NOT 0) 0 chunkmap n"

definition SCTP_CHUNKMAP_IS_CLEAR :: "u32 list \<Rightarrow> bool option" where
  "SCTP_CHUNKMAP_IS_CLEAR chunkmap = sctp_chunkmap_is_clear chunkmap (word_of_nat (length chunkmap))"

definition SCTP_CHUNKMAP_IS_ALL_SET :: "u32 list \<Rightarrow> bool option" where
  "SCTP_CHUNKMAP_IS_ALL_SET chunkmap = sctp_chunkmap_is_all_set chunkmap (word_of_nat (length chunkmap))"

section \<open>The map as a set of types\<close>

interpretation chunkmap: bit_map "\<lambda>n m. SCTP_CHUNKMAP_SET m n" "\<lambda>n m. SCTP_CHUNKMAP_CLEAR m n"
  "\<lambda>n m. map_option (\<lambda>r. r \<noteq> 0) (SCTP_CHUNKMAP_IS_SET m n)" words for words
  by (rule bit_map_words) (simp_all add: SCTP_CHUNKMAP_SET_def SCTP_CHUNKMAP_CLEAR_def
      SCTP_CHUNKMAP_IS_SET_def bytes_def rd_def)

lemma words_all_iff:
  assumes "unat n \<le> length m"
  shows "words_all P i m n = Some (\<forall>k. unat i \<le> k \<and> k < unat n \<longrightarrow> P (m ! k))"
  using assms
proof (induction P i m n rule: words_all.induct)
  case (1 P i m n)
  show ?case
  proof (cases "i < n")
    case True
    then have i: "unat i < unat n" "unat (i + 1) = Suc (unat i)"
      using suc_index [OF True] by (simp_all add: word_less_nat_alt)
    then have "P (m ! unat i) \<Longrightarrow> (\<forall>k. unat i \<le> k \<and> k < unat n \<longrightarrow> P (m ! k)) \<longleftrightarrow>
        (\<forall>k. unat (i + 1) \<le> k \<and> k < unat n \<longrightarrow> P (m ! k))"
      by (metis Suc_le_eq le_eq_less_or_eq)
    then show ?thesis using 1 True i
      by (subst words_all.simps) (auto simp add: mem_simps)
  next
    case False
    then show ?thesis by (subst words_all.simps) (auto simp add: word_less_nat_alt)
  qed
qed

lemma chunkmap_tests:
  assumes "length m < 2 ^ 32"
  shows "SCTP_CHUNKMAP_IS_CLEAR m = Some (members m = {})"
    and "SCTP_CHUNKMAP_IS_ALL_SET m = Some (\<forall>x \<in> set m. x = NOT 0)"
proof -
  have "unat (word_of_nat (length m) :: u32) = length m"
    using assms by (simp add: unsigned_of_nat take_bit_nat_eq_self)
  then show "SCTP_CHUNKMAP_IS_CLEAR m = Some (members m = {})"
    "SCTP_CHUNKMAP_IS_ALL_SET m = Some (\<forall>x \<in> set m. x = NOT 0)"
    by (simp_all add: SCTP_CHUNKMAP_IS_CLEAR_def SCTP_CHUNKMAP_IS_ALL_SET_def sctp_chunkmap_is_clear_def
        sctp_chunkmap_is_all_set_def words_all_iff members_empty_iff all_set_conv_all_nth)
qed

text \<open>
  C33: A chunk map behaves as a set of chunk types. On a map of the declared size every type of the
  protocol, from 0 to 255, can be entered, removed and asked for without leaving the array; reset gives
  the empty set, the test for an empty map tells it, and a copy holds what its source held.
\<close>

theorem sctp_chunkmap_set:
  assumes "length m = chunkmap_words" "length d = chunkmap_words" "n < 256" "k < 256"
  shows "do { m' \<leftarrow> SCTP_CHUNKMAP_SET m n; SCTP_CHUNKMAP_IS_SET m' k } =
      Some (if k = n \<or> k \<in> members m then 1 else 0) \<and>
    do { m' \<leftarrow> SCTP_CHUNKMAP_CLEAR m n; SCTP_CHUNKMAP_IS_SET m' k } =
      Some (if k \<noteq> n \<and> k \<in> members m then 1 else 0) \<and>
    members (SCTP_CHUNKMAP_RESET m) = {} \<and>
    SCTP_CHUNKMAP_IS_CLEAR m = Some (members m = {}) \<and>
    SCTP_CHUNKMAP_COPY d m = Some m"
proof -
  have test: "SCTP_CHUNKMAP_IS_SET c k = Some (if b then 1 else 0)"
    if "map_option (\<lambda>r. r \<noteq> 0) (SCTP_CHUNKMAP_IS_SET c k) = Some b" for c b
    using that by (auto simp add: SCTP_CHUNKMAP_IS_SET_def bind_eq_Some_conv split: if_splits)
  have n: "n < 32 * chunkmap_words" "k < 32 * chunkmap_words"
    using assms(3,4) by (simp_all add: chunkmap_words_def)
  obtain m1 m2 where m1: "SCTP_CHUNKMAP_SET m n = Some m1" "length m1 = chunkmap_words"
      "members m1 = insert n (members m)"
    and m2: "SCTP_CHUNKMAP_CLEAR m n = Some m2" "length m2 = chunkmap_words"
      "members m2 = members m - {n}"
    using chunkmap.put [OF assms(1) n(1)] chunkmap.del [OF assms(1) n(1)] by blast
  have "SCTP_CHUNKMAP_IS_SET m1 k = Some (if k = n \<or> k \<in> members m then 1 else 0)"
    using test [OF chunkmap.has [OF m1(2) n(2)]] m1(3) by simp
  moreover have "SCTP_CHUNKMAP_IS_SET m2 k = Some (if k \<noteq> n \<and> k \<in> members m then 1 else 0)"
    using test [OF chunkmap.has [OF m2(2) n(2)]] m2(3) by auto
  moreover have "SCTP_CHUNKMAP_IS_CLEAR m = Some (members m = {})"
    by (rule chunkmap_tests) (simp add: assms(1) chunkmap_words_def)
  ultimately show ?thesis
    using m1(1) m2(1) assms(1,2) by (simp add: SCTP_CHUNKMAP_RESET_def members_memset SCTP_CHUNKMAP_COPY_def wrn_in)
qed

theorem sctp_chunkmap_set_witness:
  "do { m' \<leftarrow> SCTP_CHUNKMAP_SET (replicate 64 0) 193; SCTP_CHUNKMAP_IS_SET m' 193 } = Some 1"
  using sctp_chunkmap_set [of "replicate 64 0" "replicate 64 0" 193 193] by (simp add: chunkmap_words_def)

text \<open>
  C38: A map in which every chunk type has been entered is not \<^verbatim>\<open>SCTP_CHUNKMAP_IS_ALL_SET\<close>: the array has a
  word for every four types although a word holds thirty-two, and the test asks for all of them. Only
  \<^verbatim>\<open>SCTP_CHUNKMAP_SET_ALL\<close> gives a map that passes.
\<close>

theorem sctp_all_types_not_all_set:
  "do { m \<leftarrow> c_for (\<lambda>n m. SCTP_CHUNKMAP_SET m n) [0..<256] (SCTP_CHUNKMAP_RESET (replicate chunkmap_words x));
        SCTP_CHUNKMAP_IS_ALL_SET m } = Some False \<and>
   SCTP_CHUNKMAP_IS_ALL_SET (SCTP_CHUNKMAP_SET_ALL (replicate chunkmap_words x)) = Some True"
proof -
  let ?m = "SCTP_CHUNKMAP_RESET (replicate chunkmap_words x)"
  have len: "length ?m = chunkmap_words" by (simp add: SCTP_CHUNKMAP_RESET_def memset_words_def)
  obtain m where m: "c_for (\<lambda>n m. SCTP_CHUNKMAP_SET m n) [0..<256] ?m = Some m" "length m = chunkmap_words"
      "members m = set [0..<256] \<union> members ?m"
    using chunkmap.put_all [OF len, of "[0..<256]"] by (auto simp add: chunkmap_words_def)
  have "256 \<notin> members m"
    using m(3) by (simp add: SCTP_CHUNKMAP_RESET_def members_memset)
  then have "m ! 8 \<noteq> NOT 0" using m(2) by (auto simp add: members_def chunkmap_words_def)
  moreover have "m ! 8 \<in> set m" using m(2) by (intro nth_mem) (simp add: chunkmap_words_def)
  ultimately have "SCTP_CHUNKMAP_IS_ALL_SET m = Some False"
    using chunkmap_tests(2) [of m] m(2) by (auto simp add: chunkmap_words_def)
  moreover have "le_word (replicate 4 (u8_of (NOT 0))) = (NOT 0 :: u32)"
    by code_simp
  then have "SCTP_CHUNKMAP_IS_ALL_SET (SCTP_CHUNKMAP_SET_ALL (replicate chunkmap_words x)) = Some True"
    using chunkmap_tests(2) [of "SCTP_CHUNKMAP_SET_ALL (replicate chunkmap_words x)"]
    by (simp add: SCTP_CHUNKMAP_SET_ALL_def memset_words_def chunkmap_words_def)
  ultimately show ?thesis using m(1) by simp
qed

end
