(* ===== verification/Nfnetlink.thy ===== *)
theory Nfnetlink
  imports Rtnetlink
begin

text \<open>
  The attributes of netfilter's netlink messages: \<^verbatim>\<open>include/linux/netfilter/nfnetlink.h\<close> and the macros for
  user space in \<^verbatim>\<open>nfnetlink_compat.h\<close>, which are an older copy of those for route attributes. They differ in
  the test for the end and in the type of \<^verbatim>\<open>NFA_ALIGNTO\<close>. The \<^verbatim>\<open>NFA_NEST*\<close> macros need functions on
  socket buffers that only the kernel has.
\<close>

definition NFNL_SUBSYS_ID :: "c_int \<Rightarrow> c_int" where
  "NFNL_SUBSYS_ID x = drop_bit 8 (x AND 0xff00)"

definition NFNL_MSG_TYPE :: "c_int \<Rightarrow> c_int" where
  "NFNL_MSG_TYPE x = x AND 0x00ff"

definition sizeof_nfgenmsg :: u32 where
  "sizeof_nfgenmsg = 4"

record nfattr =
  nfa_len :: u16
  nfa_type :: u16

definition sizeof_nfattr :: u64 where
  "sizeof_nfattr = 4"

definition NFNL_NFA_NEST :: c_int where
  "NFNL_NFA_NEST = 0x8000"

definition NFA_TYPE :: "nfattr \<Rightarrow> c_int" where
  "NFA_TYPE attr = promote16 (nfa_type attr) AND 0x7fff"

text \<open>\<^verbatim>\<open>NFA_ALIGNTO\<close> is an \<^verbatim>\<open>int\<close>; its mask is widened with its sign, so it has the width of the length.\<close>

definition NFA_ALIGNTO :: "'l::len word" where
  "NFA_ALIGNTO = 4"

definition NFA_ALIGN :: "'l::len word \<Rightarrow> 'l word" where
  "NFA_ALIGN len = (len + NFA_ALIGNTO - 1) AND NOT (NFA_ALIGNTO - 1)"

definition NFA_OK :: "endian \<Rightarrow> u8 list \<Rightarrow> nat \<Rightarrow> c_int \<Rightarrow> bool option" where
  "NFA_OK e mem nfa len =
     (if \<not> 0 < sint len then Some False
      else do {
        nlen \<leftarrow> load e mem nfa :: u16 option;
        Some (ucast nlen \<ge> sizeof_nfattr \<and> sint (promote16 nlen) \<le> sint len)
      })"

definition NFA_NEXT :: "endian \<Rightarrow> u8 list \<Rightarrow> nat \<Rightarrow> c_int \<Rightarrow> (nat \<times> c_int) option" where
  "NFA_NEXT e mem nfa attrlen = do {
     nlen \<leftarrow> load e mem nfa;
     Some (nfa + unat (NFA_ALIGN (promote16 nlen)), attrlen - NFA_ALIGN (promote16 nlen))
   }"

definition NFA_LENGTH :: "u64 \<Rightarrow> u64" where
  "NFA_LENGTH len = NFA_ALIGN sizeof_nfattr + len"

definition NFA_SPACE :: "u64 \<Rightarrow> u64" where
  "NFA_SPACE len = NFA_ALIGN (NFA_LENGTH len)"

definition NFA_DATA :: "nat \<Rightarrow> nat" where
  "NFA_DATA nfa = nfa + unat (NFA_LENGTH 0)"

definition NFA_PAYLOAD :: "nfattr \<Rightarrow> u64" where
  "NFA_PAYLOAD nfa = ucast (nfa_len nfa) - NFA_LENGTH 0"

definition NFM_NFA :: "nat \<Rightarrow> nat" where
  "NFM_NFA n = n + unat (NLMSG_ALIGN sizeof_nfgenmsg)"

definition NFM_PAYLOAD :: "nlmsghdr \<Rightarrow> u32" where
  "NFM_PAYLOAD n = NLMSG_PAYLOAD n sizeof_nfgenmsg"

section \<open>The two families of macros\<close>

lemma NFA_NEXT_eq: "NFA_NEXT e mem p len = RTA_NEXT e mem p len"
  by (simp add: NFA_NEXT_def RTA_NEXT_def NFA_ALIGN_def NFA_ALIGNTO_def RTA_ALIGN_def RTA_ALIGNTO_def)

lemma NFA_OK_eq:
  assumes "4 dvd sint len"
  shows "NFA_OK e mem p len = RTA_OK e mem p len"
proof -
  have "0 < sint len \<longleftrightarrow> 4 \<le> sint len" using assms zdvd_imp_le [of 4 "sint len"] by auto
  then show ?thesis by (simp add: NFA_OK_def RTA_OK_def sizeof_nfattr_def sizeof_rtattr_def)
qed

lemma RTA_NEXT_dvd:
  assumes "RTA_OK e mem p len = Some True" "RTA_NEXT e mem p len = Some (p', len')" "4 dvd sint len"
  shows "4 dvd sint len'"
proof -
  obtain h :: u16 where h: "load e mem p = Some h" and ok: "4 \<le> sint len" "int (unat h) \<le> sint len"
    using assms(1) by (auto simp add: RTA_OK_def unat_sizeof_rtattr sint_promote16 bind_eq_Some_conv
        split: if_splits)
  have a: "align_up 4 (unat h) < unat h + 4" by (simp add: align_up_less)
  have "RTA_ALIGN (promote16 h) = word_of_nat (align_up 4 (unat h))"
    using unat_RTA_ALIGN32 [of h] by (metis of_nat_unat ucast_id)
  then have "len' = len - word_of_nat (align_up 4 (unat h))"
    using assms(2) h by (simp add: RTA_NEXT_def)
  then have "sint len' = sint len - int (align_up 4 (unat h))"
    using sint_minus_of_nat [of len "align_up 4 (unat h)"] ok a by simp
  moreover have "int 4 dvd int (align_up 4 (unat h))" by (simp add: align_up_dvd del: of_nat_numeral)
  ultimately show ?thesis using assms(3) by simp
qed

lemma nfa_walk:
  "4 dvd sint len \<Longrightarrow> tlv_walk (NFA_OK e) (NFA_NEXT e) visit fuel mem p len =
    tlv_walk (RTA_OK e) (RTA_NEXT e) visit fuel mem p len"
proof (induction fuel arbitrary: p len)
  case (Suc fuel)
  show ?case
  proof (cases "RTA_OK e mem p len")
    case (Some b)
    then show ?thesis
      using Suc RTA_NEXT_dvd [OF _ _ Suc.prems, of e mem p]
      by (cases b) (auto simp add: NFA_OK_eq NFA_NEXT_eq intro!: Option.bind_cong)
  qed (simp add: NFA_OK_eq Suc.prems)
qed simp

text \<open>
  C16: On a block of attributes whose length is a multiple of four, as it is when every attribute is
  padded, the loop over \<^verbatim>\<open>NFA_OK\<close> and \<^verbatim>\<open>NFA_NEXT\<close> does exactly what the loop over \<^verbatim>\<open>RTA_OK\<close> and \<^verbatim>\<open>RTA_NEXT\<close>
  does: the same attributes, the same end.
\<close>

theorem nfa_walk_equiv:
  assumes "4 dvd sint len"
  shows "tlv_walk (NFA_OK e) (NFA_NEXT e) visit fuel mem p len =
    tlv_walk (RTA_OK e) (RTA_NEXT e) visit fuel mem p len"
  using assms by (rule nfa_walk)

theorem nfa_walk_equiv_witness:
  "tlv_walk (NFA_OK Little) (NFA_NEXT Little) (rta_read Little) 3 [6, 0, 1, 0, 7, 8, 0, 0] 0 8 =
    tlv_walk (RTA_OK Little) (RTA_NEXT Little) (rta_read Little) 3 [6, 0, 1, 0, 7, 8, 0, 0] 0 8"
  by (rule nfa_walk_equiv) simp

text \<open>The blocks that programs build are read back with these macros too.\<close>

lemma nfa_roundtrip:
  assumes "list_all (\<lambda>a. length (snd a) \<le> 65531) as"
    "length (concat (map (rta_bytes e) as)) < 2 ^ 31" "length as < fuel"
    and "4 dvd length (concat (map (rta_bytes e) as))"
  shows "tlv_walk (NFA_OK e) (NFA_NEXT e) (rta_read e) fuel
    (pre @ concat (map (rta_bytes e) as) @ post) (length pre)
    (word_of_nat (length (concat (map (rta_bytes e) as)))) = Some as"
proof -
  let ?n = "length (concat (map (rta_bytes e) as))"
  have "sint (word_of_nat ?n :: c_int) = int ?n"
    using assms(2) by (simp add: signed_of_nat signed_take_bit_int_eq_self)
  moreover have "int 4 dvd int ?n" using assms(4) by (simp only: int_dvd_int_iff)
  ultimately show ?thesis
    using rta_roundtrip [OF assms(1-3)] by (simp add: nfa_walk)
qed

text \<open>
  The test for an attribute asks only for a positive length before it reads: where a single byte is
  left at the end of the buffer it reads beyond it, and the test for route attributes answers no.
\<close>

theorem nfa_ok_reads_past_end:
  assumes "length mem = p + 1"
  shows "NFA_OK e mem p 1 = None \<and> RTA_OK e mem p 1 = Some False"
  using assms by (simp add: NFA_OK_def RTA_OK_def load_def rdn_def sizeof_rtattr_def)

theorem nfa_ok_reads_past_end_witness:
  "NFA_OK Little [4, 0, 1, 0, 0] 4 1 = None \<and> RTA_OK Little [4, 0, 1, 0, 0] 4 1 = Some False"
  by (rule nfa_ok_reads_past_end) simp

text \<open>The two halves of a message type.\<close>

lemma nfnl_type_split:
  assumes "fits 16 x"
  shows "push_bit 8 (NFNL_SUBSYS_ID x) OR NFNL_MSG_TYPE x = x"
proof -
  have m: "(0xff00 :: c_int) = push_bit 8 (mask 8)" "(0x00ff :: c_int) = mask 8"
    by (simp_all add: mask_numeral)
  show ?thesis
    unfolding NFNL_SUBSYS_ID_def NFNL_MSG_TYPE_def m
    by (rule bit_word_eqI) (auto simp add: bit_simps dest: fits_bitD [OF assms])
qed

end
