(* ===== verification/Sequencer.thy ===== *)
theory Sequencer
  imports Uapi_Memory "HOL-Library.Signed_Division"
begin

text \<open>
  The event macros of \<^verbatim>\<open>/dev/sequencer\<close>: \<^verbatim>\<open>include/linux/soundcard.h\<close> and, for the Gravis Ultrasound,
  \<^verbatim>\<open>include/linux/ultrasound.h\<close>. A program collects events of 4 or 8 bytes in the buffer \<^verbatim>\<open>_seqbuf\<close>; a macro that
  finds no room first calls \<^verbatim>\<open>seqbuf_dump\<close>, which the program provides. That function, \<^verbatim>\<open>write\<close> and \<^verbatim>\<open>perror\<close> are
  parameters of the model (\<open>dump\<close>, \<open>sys_write\<close>, \<open>perror\<close>); \<open>'w\<close> is the type of the device's state. The
  header's comment has a sample of \<^verbatim>\<open>seqbuf_dump\<close>, on which the contract is interpreted.

  Arguments are of type \<^verbatim>\<open>int\<close> and truncated to the bytes of the event; \<open>en\<close> is the byte order in which the
  16- and 32-bit parts are stored. An access outside the buffer is \<open>None\<close>. The two counters
  are \<^verbatim>\<open>int\<close> in C and natural numbers here: they start at 0 and at the size of an array, the macros only add
  to the position, and no sum passes the size of the buffer by more than one event.
\<close>

section \<open>The buffer\<close>

record 'w seq_state =
  seqbuf :: "u8 list"
  seqbuflen :: nat
  seqbufptr :: nat
  device :: 'w

type_synonym 'w seq_dump = "'w seq_state \<Rightarrow> 'w seq_state"
type_synonym 'w seq_op = "'w seq_state \<Rightarrow> 'w seq_state option"

definition SEQ_DEFINEBUF :: "nat \<Rightarrow> 'w \<Rightarrow> 'w seq_state" where
  "SEQ_DEFINEBUF len w = \<lparr>seqbuf = replicate len 0, seqbuflen = len, seqbufptr = 0, device = w\<rparr>"

definition SEQ_NEEDBUF :: "'w seq_dump \<Rightarrow> nat \<Rightarrow> 'w seq_state \<Rightarrow> 'w seq_state" where
  "SEQ_NEEDBUF dump len s = (if seqbufptr s + len > seqbuflen s then dump s else s)"

definition SEQ_ADVBUF :: "nat \<Rightarrow> 'w seq_state \<Rightarrow> 'w seq_state" where
  "SEQ_ADVBUF len s = s\<lparr>seqbufptr := seqbufptr s + len\<rparr>"

text \<open>The assignments \<^verbatim>\<open>_seqbuf[_seqbufptr+k] = v\<close> and those through pointers to \<^verbatim>\<open>short\<close> and \<^verbatim>\<open>unsigned int\<close>.\<close>

definition seq_put :: "int \<Rightarrow> c_int \<Rightarrow> 'w seq_op" where
  "seq_put k v s = (if int (seqbufptr s) + k < 0 then None
     else map_option (\<lambda>b. s\<lparr>seqbuf := b\<rparr>) (wr (seqbuf s) (nat (int (seqbufptr s) + k)) (u8_of v)))"

definition seq_put16 :: "endian \<Rightarrow> nat \<Rightarrow> c_int \<Rightarrow> 'w seq_op" where
  "seq_put16 en k v s =
     map_option (\<lambda>b. s\<lparr>seqbuf := b\<rparr>) (store en (seqbuf s) (seqbufptr s + k) (u16_of v))"

definition seq_put32 :: "endian \<Rightarrow> nat \<Rightarrow> c_int \<Rightarrow> 'w seq_op" where
  "seq_put32 en k v s =
     map_option (\<lambda>b. s\<lparr>seqbuf := b\<rparr>) (store en (seqbuf s) (seqbufptr s + k) v)"

section \<open>Codes\<close>

definition EV_SEQ_LOCAL :: c_int where "EV_SEQ_LOCAL = 0x80"
definition EV_TIMING :: c_int where "EV_TIMING = 0x81"
definition EV_CHN_COMMON :: c_int where "EV_CHN_COMMON = 0x92"
definition EV_CHN_VOICE :: c_int where "EV_CHN_VOICE = 0x93"
definition EV_SYSEX :: c_int where "EV_SYSEX = 0x94"
definition MIDI_NOTEOFF :: c_int where "MIDI_NOTEOFF = 0x80"
definition MIDI_NOTEON :: c_int where "MIDI_NOTEON = 0x90"
definition MIDI_KEY_PRESSURE :: c_int where "MIDI_KEY_PRESSURE = 0xA0"
definition MIDI_CTL_CHANGE :: c_int where "MIDI_CTL_CHANGE = 0xB0"
definition MIDI_PGM_CHANGE :: c_int where "MIDI_PGM_CHANGE = 0xC0"
definition MIDI_CHN_PRESSURE :: c_int where "MIDI_CHN_PRESSURE = 0xD0"
definition MIDI_PITCH_BEND :: c_int where "MIDI_PITCH_BEND = 0xE0"
definition TMR_WAIT_REL :: c_int where "TMR_WAIT_REL = 1"
definition TMR_WAIT_ABS :: c_int where "TMR_WAIT_ABS = 2"
definition TMR_STOP :: c_int where "TMR_STOP = 3"
definition TMR_START :: c_int where "TMR_START = 4"
definition TMR_CONTINUE :: c_int where "TMR_CONTINUE = 5"
definition TMR_TEMPO :: c_int where "TMR_TEMPO = 6"
definition TMR_ECHO :: c_int where "TMR_ECHO = 8"
definition TMR_SPP :: c_int where "TMR_SPP = 10"
definition TMR_TIMESIG :: c_int where "TMR_TIMESIG = 11"
definition LOCL_STARTAUDIO :: c_int where "LOCL_STARTAUDIO = 1"
definition SEQ_MIDIPUTC :: c_int where "SEQ_MIDIPUTC = 5"
definition SEQ_CONTROLLER :: c_int where "SEQ_CONTROLLER = 10"
definition SEQ_VOLMODE :: c_int where "SEQ_VOLMODE = 12"
definition SEQ_PRIVATE :: c_int where "SEQ_PRIVATE = 0xfe"
definition SEQ_EXTENDED :: c_int where "SEQ_EXTENDED = 0xff"
definition CTL_MAIN_VOLUME :: c_int where "CTL_MAIN_VOLUME = 7"
definition CTL_PAN :: c_int where "CTL_PAN = 0x0a"
definition CTL_EXPRESSION :: c_int where "CTL_EXPRESSION = 0x0b"
definition CTRL_PITCH_BENDER :: c_int where "CTRL_PITCH_BENDER = 255"
definition CTRL_PITCH_BENDER_RANGE :: c_int where "CTRL_PITCH_BENDER_RANGE = 254"

definition gus_NUMVOICES :: c_int where "gus_NUMVOICES = 0"
definition gus_VOICESAMPLE :: c_int where "gus_VOICESAMPLE = 1"
definition gus_VOICEON :: c_int where "gus_VOICEON = 0x02"
definition gus_VOICEOFF :: c_int where "gus_VOICEOFF = 0x03"
definition gus_VOICEMODE :: c_int where "gus_VOICEMODE = 0x04"
definition gus_VOICEBALA :: c_int where "gus_VOICEBALA = 0x05"
definition gus_VOICEFREQ :: c_int where "gus_VOICEFREQ = 0x06"
definition gus_VOICEVOL :: c_int where "gus_VOICEVOL = 0x07"
definition gus_RAMPRANGE :: c_int where "gus_RAMPRANGE = 0x08"
definition gus_RAMPRATE :: c_int where "gus_RAMPRATE = 0x09"
definition gus_RAMPMODE :: c_int where "gus_RAMPMODE = 0x0a"
definition gus_RAMPON :: c_int where "gus_RAMPON = 0x0b"
definition gus_RAMPOFF :: c_int where "gus_RAMPOFF = 0x0c"
definition gus_VOICEFADE :: c_int where "gus_VOICEFADE = 0x0d"
definition gus_VOLUME_SCALE :: c_int where "gus_VOLUME_SCALE = 0x0e"
definition gus_VOICEVOL2 :: c_int where "gus_VOICEVOL2 = 0x0f"
definition gus_VOICE_POS :: c_int where "gus_VOICE_POS = 0x10"

lemmas seq_codes = EV_SEQ_LOCAL_def EV_TIMING_def EV_CHN_COMMON_def EV_CHN_VOICE_def EV_SYSEX_def MIDI_NOTEOFF_def MIDI_NOTEON_def MIDI_KEY_PRESSURE_def MIDI_CTL_CHANGE_def MIDI_PGM_CHANGE_def MIDI_CHN_PRESSURE_def MIDI_PITCH_BEND_def TMR_WAIT_REL_def TMR_WAIT_ABS_def TMR_STOP_def TMR_START_def TMR_CONTINUE_def TMR_TEMPO_def TMR_ECHO_def TMR_SPP_def TMR_TIMESIG_def LOCL_STARTAUDIO_def SEQ_MIDIPUTC_def SEQ_CONTROLLER_def SEQ_VOLMODE_def SEQ_PRIVATE_def SEQ_EXTENDED_def CTL_MAIN_VOLUME_def CTL_PAN_def CTL_EXPRESSION_def CTRL_PITCH_BENDER_def CTRL_PITCH_BENDER_RANGE_def

section \<open>Events\<close>

definition SEQ_VOLUME_MODE :: "'w seq_dump \<Rightarrow> c_int \<Rightarrow> c_int \<Rightarrow> 'w seq_op" where
  "SEQ_VOLUME_MODE dump dev mode s = do {
     let s = SEQ_NEEDBUF dump 8 s;
     s \<leftarrow> seq_put 0 SEQ_EXTENDED s;
     s \<leftarrow> seq_put 1 SEQ_VOLMODE s;
     s \<leftarrow> seq_put 2 dev s;
     s \<leftarrow> seq_put 3 mode s;
     s \<leftarrow> seq_put 4 0 s;
     s \<leftarrow> seq_put 5 0 s;
     s \<leftarrow> seq_put 6 0 s;
     s \<leftarrow> seq_put 7 0 s;
     Some (SEQ_ADVBUF 8 s)
   }"

definition CHN_VOICE :: "'w seq_dump \<Rightarrow> c_int \<Rightarrow> c_int \<Rightarrow> c_int \<Rightarrow> c_int \<Rightarrow> c_int \<Rightarrow> 'w seq_op" where
  "CHN_VOICE dump dev event chn note parm s = do {
     let s = SEQ_NEEDBUF dump 8 s;
     s \<leftarrow> seq_put 0 EV_CHN_VOICE s;
     s \<leftarrow> seq_put 1 dev s;
     s \<leftarrow> seq_put 2 event s;
     s \<leftarrow> seq_put 3 chn s;
     s \<leftarrow> seq_put 4 note s;
     s \<leftarrow> seq_put 5 parm s;
     s \<leftarrow> seq_put 6 0 s;
     s \<leftarrow> seq_put 7 0 s;
     Some (SEQ_ADVBUF 8 s)
   }"

definition SEQ_START_NOTE :: "'w seq_dump \<Rightarrow> c_int \<Rightarrow> c_int \<Rightarrow> c_int \<Rightarrow> c_int \<Rightarrow> 'w seq_op" where
  "SEQ_START_NOTE dump dev chn note vol s = CHN_VOICE dump dev MIDI_NOTEON chn note vol s"

definition SEQ_STOP_NOTE :: "'w seq_dump \<Rightarrow> c_int \<Rightarrow> c_int \<Rightarrow> c_int \<Rightarrow> c_int \<Rightarrow> 'w seq_op" where
  "SEQ_STOP_NOTE dump dev chn note vol s = CHN_VOICE dump dev MIDI_NOTEOFF chn note vol s"

definition SEQ_KEY_PRESSURE :: "'w seq_dump \<Rightarrow> c_int \<Rightarrow> c_int \<Rightarrow> c_int \<Rightarrow> c_int \<Rightarrow> 'w seq_op" where
  "SEQ_KEY_PRESSURE dump dev chn note pressure s = CHN_VOICE dump dev MIDI_KEY_PRESSURE chn note pressure s"

definition CHN_COMMON :: "endian \<Rightarrow> 'w seq_dump \<Rightarrow> c_int \<Rightarrow> c_int \<Rightarrow> c_int \<Rightarrow> c_int \<Rightarrow> c_int \<Rightarrow> c_int \<Rightarrow> 'w seq_op" where
  "CHN_COMMON en dump dev event chn p1 p2 w14 s = do {
     let s = SEQ_NEEDBUF dump 8 s;
     s \<leftarrow> seq_put 0 EV_CHN_COMMON s;
     s \<leftarrow> seq_put 1 dev s;
     s \<leftarrow> seq_put 2 event s;
     s \<leftarrow> seq_put 3 chn s;
     s \<leftarrow> seq_put 4 p1 s;
     s \<leftarrow> seq_put 5 p2 s;
     s \<leftarrow> seq_put16 en 6 w14 s;
     Some (SEQ_ADVBUF 8 s)
   }"

text \<open>The fragment is read through \<^verbatim>\<open>bufp\<close>; both loops count in \<^verbatim>\<open>int\<close>.\<close>

definition SEQ_SYSEX :: "'w seq_dump \<Rightarrow> c_int \<Rightarrow> u8 list \<Rightarrow> int \<Rightarrow> 'w seq_op" where
  "SEQ_SYSEX dump dev buf len s = do {
     let ll = len;
     let ll = (if ll > 6 then 6 else ll);
     let s = SEQ_NEEDBUF dump 8 s;
     s \<leftarrow> seq_put 0 EV_SYSEX s;
     s \<leftarrow> seq_put 1 dev s;
     s \<leftarrow> c_for (\<lambda>ii s. do { b \<leftarrow> rd buf (nat ii); seq_put (ii + 2) (promote b) s }) [0..ll - 1] s;
     s \<leftarrow> c_for (\<lambda>ii s. seq_put (ii + 2) 0xff s) [ll..5] s;
     Some (SEQ_ADVBUF 8 s)
   }"

definition SEQ_CHN_PRESSURE :: "endian \<Rightarrow> 'w seq_dump \<Rightarrow> c_int \<Rightarrow> c_int \<Rightarrow> c_int \<Rightarrow> 'w seq_op" where
  "SEQ_CHN_PRESSURE en dump dev chn pressure s = CHN_COMMON en dump dev MIDI_CHN_PRESSURE chn pressure 0 0 s"

definition SEQ_PGM_CHANGE :: "endian \<Rightarrow> 'w seq_dump \<Rightarrow> c_int \<Rightarrow> c_int \<Rightarrow> c_int \<Rightarrow> 'w seq_op" where
  "SEQ_PGM_CHANGE en dump dev chn patch s = CHN_COMMON en dump dev MIDI_PGM_CHANGE chn patch 0 0 s"

definition SEQ_CONTROL :: "endian \<Rightarrow> 'w seq_dump \<Rightarrow> c_int \<Rightarrow> c_int \<Rightarrow> c_int \<Rightarrow> c_int \<Rightarrow> 'w seq_op" where
  "SEQ_CONTROL en dump dev chn controller v s = CHN_COMMON en dump dev MIDI_CTL_CHANGE chn controller 0 v s"

definition SEQ_BENDER :: "endian \<Rightarrow> 'w seq_dump \<Rightarrow> c_int \<Rightarrow> c_int \<Rightarrow> c_int \<Rightarrow> 'w seq_op" where
  "SEQ_BENDER en dump dev chn v s = CHN_COMMON en dump dev MIDI_PITCH_BEND chn 0 0 v s"

definition SEQ_V2_X_CONTROL :: "'w seq_dump \<Rightarrow> c_int \<Rightarrow> c_int \<Rightarrow> c_int \<Rightarrow> c_int \<Rightarrow> 'w seq_op" where
  "SEQ_V2_X_CONTROL dump dev voice controller v s = do {
     let s = SEQ_NEEDBUF dump 8 s;
     s \<leftarrow> seq_put 0 SEQ_EXTENDED s;
     s \<leftarrow> seq_put 1 SEQ_CONTROLLER s;
     s \<leftarrow> seq_put 2 dev s;
     s \<leftarrow> seq_put 3 voice s;
     s \<leftarrow> seq_put 4 controller s;
     s \<leftarrow> seq_put 5 (v AND 0xff) s;
     s \<leftarrow> seq_put 6 (drop_bit 8 v AND 0xff) s;
     s \<leftarrow> seq_put 7 0 s;
     Some (SEQ_ADVBUF 8 s)
   }"

definition SEQ_PITCHBEND :: "'w seq_dump \<Rightarrow> c_int \<Rightarrow> c_int \<Rightarrow> c_int \<Rightarrow> 'w seq_op" where
  "SEQ_PITCHBEND dump dev voice v s = SEQ_V2_X_CONTROL dump dev voice CTRL_PITCH_BENDER v s"

definition SEQ_BENDER_RANGE :: "'w seq_dump \<Rightarrow> c_int \<Rightarrow> c_int \<Rightarrow> c_int \<Rightarrow> 'w seq_op" where
  "SEQ_BENDER_RANGE dump dev voice v s = SEQ_V2_X_CONTROL dump dev voice CTRL_PITCH_BENDER_RANGE v s"

text \<open>Division of \<^verbatim>\<open>int\<close> rounds towards zero.\<close>

definition SEQ_EXPRESSION :: "endian \<Rightarrow> 'w seq_dump \<Rightarrow> c_int \<Rightarrow> c_int \<Rightarrow> c_int \<Rightarrow> 'w seq_op" where
  "SEQ_EXPRESSION en dump dev voice v s = SEQ_CONTROL en dump dev voice CTL_EXPRESSION (v * 128) s"

definition SEQ_MAIN_VOLUME :: "endian \<Rightarrow> 'w seq_dump \<Rightarrow> c_int \<Rightarrow> c_int \<Rightarrow> c_int \<Rightarrow> 'w seq_op" where
  "SEQ_MAIN_VOLUME en dump dev voice v s = SEQ_CONTROL en dump dev voice CTL_MAIN_VOLUME (word_of_int (sint (v * 16383) sdiv 100)) s"

definition SEQ_PANNING :: "endian \<Rightarrow> 'w seq_dump \<Rightarrow> c_int \<Rightarrow> c_int \<Rightarrow> c_int \<Rightarrow> 'w seq_op" where
  "SEQ_PANNING en dump dev voice pos s = SEQ_CONTROL en dump dev voice CTL_PAN (word_of_int (sint (pos + 128) sdiv 2)) s"

definition TIMER_EVENT :: "endian \<Rightarrow> 'w seq_dump \<Rightarrow> c_int \<Rightarrow> c_int \<Rightarrow> 'w seq_op" where
  "TIMER_EVENT en dump ev parm s = do {
     let s = SEQ_NEEDBUF dump 8 s;
     s \<leftarrow> seq_put 0 EV_TIMING s;
     s \<leftarrow> seq_put 1 ev s;
     s \<leftarrow> seq_put 2 0 s;
     s \<leftarrow> seq_put 3 0 s;
     s \<leftarrow> seq_put32 en 4 parm s;
     Some (SEQ_ADVBUF 8 s)
   }"

definition SEQ_START_TIMER :: "endian \<Rightarrow> 'w seq_dump \<Rightarrow> 'w seq_op" where
  "SEQ_START_TIMER en dump s = TIMER_EVENT en dump TMR_START 0 s"

definition SEQ_STOP_TIMER :: "endian \<Rightarrow> 'w seq_dump \<Rightarrow> 'w seq_op" where
  "SEQ_STOP_TIMER en dump s = TIMER_EVENT en dump TMR_STOP 0 s"

definition SEQ_CONTINUE_TIMER :: "endian \<Rightarrow> 'w seq_dump \<Rightarrow> 'w seq_op" where
  "SEQ_CONTINUE_TIMER en dump s = TIMER_EVENT en dump TMR_CONTINUE 0 s"

definition SEQ_WAIT_TIME :: "endian \<Rightarrow> 'w seq_dump \<Rightarrow> c_int \<Rightarrow> 'w seq_op" where
  "SEQ_WAIT_TIME en dump ticks s = TIMER_EVENT en dump TMR_WAIT_ABS ticks s"

definition SEQ_DELTA_TIME :: "endian \<Rightarrow> 'w seq_dump \<Rightarrow> c_int \<Rightarrow> 'w seq_op" where
  "SEQ_DELTA_TIME en dump ticks s = TIMER_EVENT en dump TMR_WAIT_REL ticks s"

definition SEQ_ECHO_BACK :: "endian \<Rightarrow> 'w seq_dump \<Rightarrow> c_int \<Rightarrow> 'w seq_op" where
  "SEQ_ECHO_BACK en dump key s = TIMER_EVENT en dump TMR_ECHO key s"

definition SEQ_SET_TEMPO :: "endian \<Rightarrow> 'w seq_dump \<Rightarrow> c_int \<Rightarrow> 'w seq_op" where
  "SEQ_SET_TEMPO en dump v s = TIMER_EVENT en dump TMR_TEMPO v s"

definition SEQ_SONGPOS :: "endian \<Rightarrow> 'w seq_dump \<Rightarrow> c_int \<Rightarrow> 'w seq_op" where
  "SEQ_SONGPOS en dump pos s = TIMER_EVENT en dump TMR_SPP pos s"

definition SEQ_TIME_SIGNATURE :: "endian \<Rightarrow> 'w seq_dump \<Rightarrow> c_int \<Rightarrow> 'w seq_op" where
  "SEQ_TIME_SIGNATURE en dump sig s = TIMER_EVENT en dump TMR_TIMESIG sig s"

definition LOCAL_EVENT :: "endian \<Rightarrow> 'w seq_dump \<Rightarrow> c_int \<Rightarrow> c_int \<Rightarrow> 'w seq_op" where
  "LOCAL_EVENT en dump ev parm s = do {
     let s = SEQ_NEEDBUF dump 8 s;
     s \<leftarrow> seq_put 0 EV_SEQ_LOCAL s;
     s \<leftarrow> seq_put 1 ev s;
     s \<leftarrow> seq_put 2 0 s;
     s \<leftarrow> seq_put 3 0 s;
     s \<leftarrow> seq_put32 en 4 parm s;
     Some (SEQ_ADVBUF 8 s)
   }"

definition SEQ_PLAYAUDIO :: "endian \<Rightarrow> 'w seq_dump \<Rightarrow> c_int \<Rightarrow> 'w seq_op" where
  "SEQ_PLAYAUDIO en dump devmask s = LOCAL_EVENT en dump LOCL_STARTAUDIO devmask s"

definition SEQ_MIDIOUT :: "'w seq_dump \<Rightarrow> c_int \<Rightarrow> c_int \<Rightarrow> 'w seq_op" where
  "SEQ_MIDIOUT dump dev b s = do {
     let s = SEQ_NEEDBUF dump 4 s;
     s \<leftarrow> seq_put 0 SEQ_MIDIPUTC s;
     s \<leftarrow> seq_put 1 b s;
     s \<leftarrow> seq_put 2 dev s;
     s \<leftarrow> seq_put 3 0 s;
     Some (SEQ_ADVBUF 4 s)
   }"

definition GUS_CMD :: "endian \<Rightarrow> 'w seq_dump \<Rightarrow> c_int \<Rightarrow> c_int \<Rightarrow> c_int \<Rightarrow> c_int \<Rightarrow> c_int \<Rightarrow> 'w seq_op" where
  "GUS_CMD en dump chn voice cmd p1 p2 s = do {
     let s = SEQ_NEEDBUF dump 8 s;
     s \<leftarrow> seq_put 0 SEQ_PRIVATE s;
     s \<leftarrow> seq_put 1 chn s;
     s \<leftarrow> seq_put 2 cmd s;
     s \<leftarrow> seq_put 3 voice s;
     s \<leftarrow> seq_put16 en 4 p1 s;
     s \<leftarrow> seq_put16 en 6 p2 s;
     Some (SEQ_ADVBUF 8 s)
   }"

definition GUS_NUMVOICES :: "endian \<Rightarrow> 'w seq_dump \<Rightarrow> c_int \<Rightarrow> c_int \<Rightarrow> 'w seq_op" where
  "GUS_NUMVOICES en dump chn p1 s = GUS_CMD en dump chn 0 gus_NUMVOICES p1 0 s"

definition GUS_VOICESAMPLE :: "endian \<Rightarrow> 'w seq_dump \<Rightarrow> c_int \<Rightarrow> c_int \<Rightarrow> c_int \<Rightarrow> 'w seq_op" where
  "GUS_VOICESAMPLE en dump chn voice p1 s = GUS_CMD en dump chn voice gus_VOICESAMPLE p1 0 s"

definition GUS_VOICEON :: "endian \<Rightarrow> 'w seq_dump \<Rightarrow> c_int \<Rightarrow> c_int \<Rightarrow> c_int \<Rightarrow> 'w seq_op" where
  "GUS_VOICEON en dump chn voice p1 s = GUS_CMD en dump chn voice gus_VOICEON p1 0 s"

definition GUS_VOICEOFF :: "endian \<Rightarrow> 'w seq_dump \<Rightarrow> c_int \<Rightarrow> c_int \<Rightarrow> 'w seq_op" where
  "GUS_VOICEOFF en dump chn voice s = GUS_CMD en dump chn voice gus_VOICEOFF 0 0 s"

definition GUS_VOICEFADE :: "endian \<Rightarrow> 'w seq_dump \<Rightarrow> c_int \<Rightarrow> c_int \<Rightarrow> 'w seq_op" where
  "GUS_VOICEFADE en dump chn voice s = GUS_CMD en dump chn voice gus_VOICEFADE 0 0 s"

definition GUS_VOICEMODE :: "endian \<Rightarrow> 'w seq_dump \<Rightarrow> c_int \<Rightarrow> c_int \<Rightarrow> c_int \<Rightarrow> 'w seq_op" where
  "GUS_VOICEMODE en dump chn voice p1 s = GUS_CMD en dump chn voice gus_VOICEMODE p1 0 s"

definition GUS_VOICEBALA :: "endian \<Rightarrow> 'w seq_dump \<Rightarrow> c_int \<Rightarrow> c_int \<Rightarrow> c_int \<Rightarrow> 'w seq_op" where
  "GUS_VOICEBALA en dump chn voice p1 s = GUS_CMD en dump chn voice gus_VOICEBALA p1 0 s"

definition GUS_VOICEFREQ :: "endian \<Rightarrow> 'w seq_dump \<Rightarrow> c_int \<Rightarrow> c_int \<Rightarrow> c_int \<Rightarrow> 'w seq_op" where
  "GUS_VOICEFREQ en dump chn voice p s = GUS_CMD en dump chn voice gus_VOICEFREQ (p AND 0xffff) (drop_bit 16 p AND 0xffff) s"

definition GUS_VOICEVOL :: "endian \<Rightarrow> 'w seq_dump \<Rightarrow> c_int \<Rightarrow> c_int \<Rightarrow> c_int \<Rightarrow> 'w seq_op" where
  "GUS_VOICEVOL en dump chn voice p1 s = GUS_CMD en dump chn voice gus_VOICEVOL p1 0 s"

definition GUS_VOICEVOL2 :: "endian \<Rightarrow> 'w seq_dump \<Rightarrow> c_int \<Rightarrow> c_int \<Rightarrow> c_int \<Rightarrow> 'w seq_op" where
  "GUS_VOICEVOL2 en dump chn voice p1 s = GUS_CMD en dump chn voice gus_VOICEVOL2 p1 0 s"

definition GUS_RAMPRANGE :: "endian \<Rightarrow> 'w seq_dump \<Rightarrow> c_int \<Rightarrow> c_int \<Rightarrow> c_int \<Rightarrow> c_int \<Rightarrow> 'w seq_op" where
  "GUS_RAMPRANGE en dump chn voice low high s = GUS_CMD en dump chn voice gus_RAMPRANGE low high s"

definition GUS_RAMPRATE :: "endian \<Rightarrow> 'w seq_dump \<Rightarrow> c_int \<Rightarrow> c_int \<Rightarrow> c_int \<Rightarrow> c_int \<Rightarrow> 'w seq_op" where
  "GUS_RAMPRATE en dump chn voice p1 p2 s = GUS_CMD en dump chn voice gus_RAMPRATE p1 p2 s"

definition GUS_RAMPMODE :: "endian \<Rightarrow> 'w seq_dump \<Rightarrow> c_int \<Rightarrow> c_int \<Rightarrow> c_int \<Rightarrow> 'w seq_op" where
  "GUS_RAMPMODE en dump chn voice p1 s = GUS_CMD en dump chn voice gus_RAMPMODE p1 0 s"

definition GUS_RAMPON :: "endian \<Rightarrow> 'w seq_dump \<Rightarrow> c_int \<Rightarrow> c_int \<Rightarrow> c_int \<Rightarrow> 'w seq_op" where
  "GUS_RAMPON en dump chn voice p1 s = GUS_CMD en dump chn voice gus_RAMPON p1 0 s"

definition GUS_RAMPOFF :: "endian \<Rightarrow> 'w seq_dump \<Rightarrow> c_int \<Rightarrow> c_int \<Rightarrow> 'w seq_op" where
  "GUS_RAMPOFF en dump chn voice s = GUS_CMD en dump chn voice gus_RAMPOFF 0 0 s"

definition GUS_VOLUME_SCALE :: "endian \<Rightarrow> 'w seq_dump \<Rightarrow> c_int \<Rightarrow> c_int \<Rightarrow> c_int \<Rightarrow> c_int \<Rightarrow> 'w seq_op" where
  "GUS_VOLUME_SCALE en dump chn voice p1 p2 s = GUS_CMD en dump chn voice gus_VOLUME_SCALE p1 p2 s"

definition GUS_VOICE_POS :: "endian \<Rightarrow> 'w seq_dump \<Rightarrow> c_int \<Rightarrow> c_int \<Rightarrow> c_int \<Rightarrow> 'w seq_op" where
  "GUS_VOICE_POS en dump chn voice p s = GUS_CMD en dump chn voice gus_VOICE_POS (p AND 0xffff) (drop_bit 16 p AND 0xffff) s"

text \<open>Patches bypass the buffer.\<close>

definition SEQ_WRPATCH :: "'w seq_dump \<Rightarrow> (u8 list \<Rightarrow> 'w \<Rightarrow> c_int \<times> 'w) \<Rightarrow> ('w \<Rightarrow> 'w) \<Rightarrow>
    u8 list \<Rightarrow> 'w seq_state \<Rightarrow> 'w seq_state" where
  "SEQ_WRPATCH dump sys_write perror patchx s =
     (let s = (if seqbufptr s \<noteq> 0 then dump s else s);
          (ret, w) = sys_write patchx (device s)
      in s\<lparr>device := if ret = - 1 then perror w else w\<rparr>)"

definition SEQ_WRPATCH2 :: "'w seq_dump \<Rightarrow> (u8 list \<Rightarrow> 'w \<Rightarrow> c_int \<times> 'w) \<Rightarrow>
    u8 list \<Rightarrow> 'w seq_state \<Rightarrow> c_int \<times> 'w seq_state" where
  "SEQ_WRPATCH2 dump sys_write patchx s =
     (let s = dump s; (ret, w) = sys_write patchx (device s) in (ret, s\<lparr>device := w\<rparr>))"

section \<open>What a macro adds to the buffer\<close>

text \<open>All events are emitted alike: make room, write the bytes at the pointer, advance it.\<close>

definition seq_write :: "u8 list \<Rightarrow> 'w seq_op" where
  "seq_write bs s = map_option (\<lambda>b. s\<lparr>seqbuf := b\<rparr>) (wrn (seqbuf s) (seqbufptr s) bs)"

definition seq_emit :: "'w seq_dump \<Rightarrow> u8 list \<Rightarrow> 'w seq_op" where
  "seq_emit dump bs s = map_option (SEQ_ADVBUF (length bs)) (seq_write bs (SEQ_NEEDBUF dump (length bs) s))"

lemma wrn_twice:
  "do { xs \<leftarrow> wrn xs p bs; wrn xs (p + length bs) cs } = wrn xs p (bs @ cs)"
  by (auto simp add: wrn_def ac_simps)

lemma wr_wrn: "wr xs i v = wrn xs i [v]"
  by (auto simp add: wr_def wrn_def upd_conv_take_nth_drop)

lemma seq_write_more:
  "do { s \<leftarrow> seq_write bs s;
        r \<leftarrow> map_option (\<lambda>b. s\<lparr>seqbuf := b\<rparr>) (wrn (seqbuf s) (seqbufptr s + length bs) cs); f r } =
   do { r \<leftarrow> seq_write (bs @ cs) s; f r }"
  unfolding seq_write_def wrn_twice [symmetric]
  by (auto simp add: bind_eq_None_conv map_option_bind split: bind_split)

lemma put_first: "seq_put 0 v s = seq_write [u8_of v] s"
  by (simp add: seq_put_def seq_write_def wr_wrn)

lemma put_next:
  "k = int (length bs) \<Longrightarrow> do { s \<leftarrow> seq_write bs s; r \<leftarrow> seq_put k v s; f r } =
    do { r \<leftarrow> seq_write (bs @ [u8_of v]) s; f r }"
  using seq_write_more [of bs s "[u8_of v]" f]
  by (simp add: seq_put_def wr_wrn flip: of_nat_add)

lemma put16_next:
  "k = length bs \<Longrightarrow> do { s \<leftarrow> seq_write bs s; r \<leftarrow> seq_put16 en k v s; f r } =
    do { r \<leftarrow> seq_write (bs @ bytes_of en (u16_of v)) s; f r }"
  using seq_write_more [of bs s "bytes_of en (u16_of v)" f] by (simp add: seq_put16_def store_def)

lemma put32_next:
  "k = length bs \<Longrightarrow> do { s \<leftarrow> seq_write bs s; r \<leftarrow> seq_put32 en k v s; f r } =
    do { r \<leftarrow> seq_write (bs @ bytes_of en v) s; f r }"
  using seq_write_more [of bs s "bytes_of en v" f] by (simp add: seq_put32_def store_def)

lemma emit_bind:
  "length bs = n \<Longrightarrow> do { s \<leftarrow> seq_write bs (SEQ_NEEDBUF dump n s); Some (SEQ_ADVBUF n s) } = seq_emit dump bs s"
  by (auto simp add: seq_emit_def map_option_case split: Option.bind_split option.split)

lemmas seq_puts = put_first put_next put16_next put32_next emit_bind

lemma event_emits:
  "SEQ_VOLUME_MODE dump dev mode s = seq_emit dump
     [u8_of SEQ_EXTENDED, u8_of SEQ_VOLMODE, u8_of dev, u8_of mode, 0, 0, 0, 0] s"
  "CHN_VOICE dump dev event chn note parm s = seq_emit dump
     [u8_of EV_CHN_VOICE, u8_of dev, u8_of event, u8_of chn, u8_of note, u8_of parm, 0, 0] s"
  "CHN_COMMON en dump dev event chn p1 p2 w14 s = seq_emit dump
     ([u8_of EV_CHN_COMMON, u8_of dev, u8_of event, u8_of chn, u8_of p1, u8_of p2] @ bytes_of en (u16_of w14)) s"
  "SEQ_V2_X_CONTROL dump dev voice controller v s = seq_emit dump
     [u8_of SEQ_EXTENDED, u8_of SEQ_CONTROLLER, u8_of dev, u8_of voice, u8_of controller,
      u8_of (v AND 0xff), u8_of (drop_bit 8 v AND 0xff), 0] s"
  "TIMER_EVENT en dump ev parm s = seq_emit dump ([u8_of EV_TIMING, u8_of ev, 0, 0] @ bytes_of en parm) s"
  "LOCAL_EVENT en dump ev parm s = seq_emit dump ([u8_of EV_SEQ_LOCAL, u8_of ev, 0, 0] @ bytes_of en parm) s"
  "SEQ_MIDIOUT dump dev b s = seq_emit dump [u8_of SEQ_MIDIPUTC, u8_of b, u8_of dev, 0] s"
  "GUS_CMD en dump chn voice cmd p1 p2 s = seq_emit dump
     ([u8_of SEQ_PRIVATE, u8_of chn, u8_of cmd, u8_of voice] @ bytes_of en (u16_of p1) @ bytes_of en (u16_of p2)) s"
  by (simp_all add: SEQ_VOLUME_MODE_def CHN_VOICE_def CHN_COMMON_def SEQ_V2_X_CONTROL_def TIMER_EVENT_def
      LOCAL_EVENT_def SEQ_MIDIOUT_def GUS_CMD_def seq_puts u8_of_0)

lemma for_puts:
  assumes "int (length bs) = i + 2"
  shows "do { s \<leftarrow> seq_write bs s; r \<leftarrow> c_for (\<lambda>ii. seq_put (ii + 2) (g ii)) [i..j] s; f r } =
    do { r \<leftarrow> seq_write (bs @ map (\<lambda>ii. u8_of (g ii)) [i..j]) s; f r }"
  using assms
proof (induction i j arbitrary: bs rule: upto.induct)
  case (1 i j)
  show ?case
  proof (cases "i \<le> j")
    case True
    have "do { s \<leftarrow> seq_write bs s; r \<leftarrow> c_for (\<lambda>ii. seq_put (ii + 2) (g ii)) [i..j] s; f r } =
        do { s \<leftarrow> seq_write (bs @ [u8_of (g i)]) s;
             r \<leftarrow> c_for (\<lambda>ii. seq_put (ii + 2) (g ii)) [i + 1..j] s; f r }"
      using 1 True by (simp add: upto_rec1 put_next)
    then show ?thesis using 1(1) [OF True, of "bs @ [u8_of (g i)]"] 1(2) True by (simp add: upto_rec1)
  qed simp
qed

lemma map_upto_take:
  "0 \<le> n \<Longrightarrow> nat n \<le> length xs \<Longrightarrow> map (\<lambda>i. xs ! nat i) [0..n - 1] = take (nat n) xs"
  by (intro nth_equalityI) (simp_all add: nth_upto)

lemma sysex_emits:
  assumes "0 \<le> len" "nat (min len 6) \<le> length buf"
  shows "SEQ_SYSEX dump dev buf len s = seq_emit dump ([u8_of EV_SYSEX, u8_of dev] @
    take (nat (min len 6)) buf @ replicate (nat (6 - min len 6)) 0xff) s"
proof -
  define ll where "ll = min len 6"
  have ll: "(if len > 6 then 6 else len) = ll" "0 \<le> ll" "ll \<le> 6" "nat ll \<le> length buf"
    using assms by (auto simp add: ll_def)
  let ?a = "[u8_of EV_SYSEX, u8_of dev]"
  have copy: "c_for (\<lambda>ii s. do { b \<leftarrow> rd buf (nat ii); seq_put (ii + 2) (promote b) s }) [0..ll - 1] s =
      c_for (\<lambda>ii. seq_put (ii + 2) (promote (buf ! nat ii))) [0..ll - 1] s" for s :: "'a seq_state"
    using ll by (intro c_for_cong) (auto simp add: rd_in)
  have data: "map (\<lambda>ii. u8_of (promote (buf ! nat ii))) [0..ll - 1] = take (nat ll) buf"
    using map_upto_take [of ll buf] ll by (simp add: u8_of_promote)
  have fill: "map (\<lambda>ii. u8_of 0xff) [ll..5] = replicate (nat (6 - ll)) 0xff"
    using ll(3) by (simp add: map_replicate_const u8_of_numeral)
  have "SEQ_SYSEX dump dev buf len s =
      do { s \<leftarrow> seq_write ?a (SEQ_NEEDBUF dump 8 s);
           s \<leftarrow> c_for (\<lambda>ii. seq_put (ii + 2) (promote (buf ! nat ii))) [0..ll - 1] s;
           s \<leftarrow> c_for (\<lambda>ii. seq_put (ii + 2) 0xff) [ll..5] s;
           Some (SEQ_ADVBUF 8 s) }"
    by (simp add: SEQ_SYSEX_def Let_def ll(1) seq_puts copy)
  also have "\<dots> = do { s \<leftarrow> seq_write (?a @ take (nat ll) buf) (SEQ_NEEDBUF dump 8 s);
           s \<leftarrow> c_for (\<lambda>ii. seq_put (ii + 2) 0xff) [ll..5] s;
           Some (SEQ_ADVBUF 8 s) }"
    using for_puts [of ?a 0 _ "\<lambda>ii. promote (buf ! nat ii)" "ll - 1"] data by simp
  also have "\<dots> = do { s \<leftarrow> seq_write ((?a @ take (nat ll) buf) @ replicate (nat (6 - ll)) 0xff)
             (SEQ_NEEDBUF dump 8 s); Some (SEQ_ADVBUF 8 s) }"
    using for_puts [of "?a @ take (nat ll) buf" ll _ "\<lambda>_. 0xff" 5] ll fill by simp
  also have "\<dots> = seq_emit dump ((?a @ take (nat ll) buf) @ replicate (nat (6 - ll)) 0xff) s"
    using ll by (intro emit_bind) simp
  finally show ?thesis by (simp add: ll_def)
qed

section \<open>Programs of events\<close>

text \<open>The calls a program can make; the other macros are these with some arguments fixed.\<close>

datatype seq_event =
    Seq_Volume_Mode c_int c_int
  | Seq_Voice c_int c_int c_int c_int c_int
  | Seq_Common c_int c_int c_int c_int c_int c_int
  | Seq_Sysex c_int "u8 list" int
  | Seq_X_Control c_int c_int c_int c_int
  | Seq_Timer c_int c_int
  | Seq_Local c_int c_int
  | Seq_Midiout c_int c_int
  | Seq_Gus c_int c_int c_int c_int c_int

fun seq_exec :: "endian \<Rightarrow> 'w seq_dump \<Rightarrow> seq_event \<Rightarrow> 'w seq_op" where
  "seq_exec en dump (Seq_Volume_Mode dev mode) = SEQ_VOLUME_MODE dump dev mode"
| "seq_exec en dump (Seq_Voice dev event chn note parm) = CHN_VOICE dump dev event chn note parm"
| "seq_exec en dump (Seq_Common dev event chn p1 p2 w14) = CHN_COMMON en dump dev event chn p1 p2 w14"
| "seq_exec en dump (Seq_Sysex dev buf len) = SEQ_SYSEX dump dev buf len"
| "seq_exec en dump (Seq_X_Control dev voice controller v) = SEQ_V2_X_CONTROL dump dev voice controller v"
| "seq_exec en dump (Seq_Timer ev parm) = TIMER_EVENT en dump ev parm"
| "seq_exec en dump (Seq_Local ev parm) = LOCAL_EVENT en dump ev parm"
| "seq_exec en dump (Seq_Midiout dev b) = SEQ_MIDIOUT dump dev b"
| "seq_exec en dump (Seq_Gus chn voice cmd p1 p2) = GUS_CMD en dump chn voice cmd p1 p2"

text \<open>The record of an event, as the device reads it.\<close>

fun event_bytes :: "endian \<Rightarrow> seq_event \<Rightarrow> u8 list" where
  "event_bytes en (Seq_Volume_Mode dev mode) = [0xff, 12, u8_of dev, u8_of mode, 0, 0, 0, 0]"
| "event_bytes en (Seq_Voice dev event chn note parm) =
     [0x93, u8_of dev, u8_of event, u8_of chn, u8_of note, u8_of parm, 0, 0]"
| "event_bytes en (Seq_Common dev event chn p1 p2 w14) =
     [0x92, u8_of dev, u8_of event, u8_of chn, u8_of p1, u8_of p2] @ bytes_of en (u16_of w14)"
| "event_bytes en (Seq_Sysex dev buf len) =
     [0x94, u8_of dev] @ take (nat (min len 6)) buf @ replicate (nat (6 - min len 6)) 0xff"
| "event_bytes en (Seq_X_Control dev voice controller v) =
     [0xff, 10, u8_of dev, u8_of voice, u8_of controller, u8_of v, u8_of (drop_bit 8 v), 0]"
| "event_bytes en (Seq_Timer ev parm) = [0x81, u8_of ev, 0, 0] @ bytes_of en parm"
| "event_bytes en (Seq_Local ev parm) = [0x80, u8_of ev, 0, 0] @ bytes_of en parm"
| "event_bytes en (Seq_Midiout dev b) = [5, u8_of b, u8_of dev, 0]"
| "event_bytes en (Seq_Gus chn voice cmd p1 p2) =
     [0xfe, u8_of chn, u8_of cmd, u8_of voice] @ bytes_of en (u16_of p1) @ bytes_of en (u16_of p2)"

fun event_ok :: "seq_event \<Rightarrow> bool" where
  "event_ok (Seq_Sysex dev buf len) \<longleftrightarrow> 0 \<le> len \<and> nat (min len 6) \<le> length buf"
| "event_ok _ \<longleftrightarrow> True"

lemma u8_of_take: "u8_of (take_bit 8 x) = u8_of x"
  by (rule bit_word_eqI) (auto simp add: u8_of_def bit_simps)

lemma exec_emits: "event_ok e \<Longrightarrow> seq_exec en dump e s = seq_emit dump (event_bytes en e) s"
  by (cases e) (simp_all add: event_emits sysex_emits seq_codes c_conv and_0xff u8_of_take)

definition event_size :: "seq_event \<Rightarrow> nat" where
  "event_size e = (case e of Seq_Midiout _ _ \<Rightarrow> 4 | _ \<Rightarrow> 8)"

lemma event_length: "event_ok e \<Longrightarrow> length (event_bytes en e) = event_size e"
  by (cases e) (auto simp add: event_size_def)

lemma event_not_empty: "event_bytes en e \<noteq> []"
  by (cases e) simp_all

lemma event_first: "(if 128 \<le> hd (event_bytes en e) then 8 else 4) = event_size e"
  by (cases e) (simp_all add: event_size_def)

section \<open>The contract of the program's part\<close>

text \<open>
  \<open>writes\<close> is the list of blocks that the device has been given. \<^verbatim>\<open>seqbuf_dump\<close> sends what the buffer
  holds as one block, if anything, and resets the pointer; \<^verbatim>\<open>write\<close> sends one block.
\<close>

definition pending :: "'w seq_state \<Rightarrow> u8 list" where
  "pending s = take (seqbufptr s) (seqbuf s)"

definition wf_seq :: "'w seq_state \<Rightarrow> bool" where
  "wf_seq s \<longleftrightarrow> length (seqbuf s) = seqbuflen s \<and> seqbufptr s \<le> seqbuflen s"

locale seq_device =
  fixes dump :: "'w seq_dump" and writes :: "'w \<Rightarrow> u8 list list"
  assumes dump_ptr [simp]: "seqbufptr (dump s) = 0"
    and dump_buflen [simp]: "seqbuflen (dump s) = seqbuflen s"
    and dump_length [simp]: "length (seqbuf (dump s)) = length (seqbuf s)"
    and dump_writes: "writes (device (dump s)) =
      writes (device s) @ (if seqbufptr s = 0 then [] else [pending s])"
begin

lemma emit:
  assumes "wf_seq s" "length bs \<le> seqbuflen s" "bs \<noteq> []"
  obtains s' where "seq_emit dump bs s = Some s'" "wf_seq s'" "seqbuflen s' = seqbuflen s"
    "pending s' = pending s @ bs \<and> writes (device s') = writes (device s) \<or>
     pending s' = bs \<and> writes (device s') = writes (device s) @ [pending s]"
proof (cases "seqbufptr s + length bs > seqbuflen s")
  case True
  then have "seqbufptr s \<noteq> 0" using assms(2) by auto
  with True that show ?thesis
    using assms by (auto simp add: seq_emit_def SEQ_NEEDBUF_def seq_write_def wrn_def SEQ_ADVBUF_def wf_seq_def
        pending_def dump_writes)
next
  case False
  with that show ?thesis
    using assms by (auto simp add: seq_emit_def SEQ_NEEDBUF_def seq_write_def wrn_def SEQ_ADVBUF_def wf_seq_def
        pending_def)
qed

text \<open>Blocks consist of whole events, in the order of the calls.\<close>

lemma run:
  assumes "wf_seq s" "8 \<le> seqbuflen s" "list_all event_ok es" "pending s = concat ps"
  shows "\<exists>s' css cs. c_for (seq_exec en dump) es s = Some s' \<and> wf_seq s' \<and> seqbuflen s' = seqbuflen s \<and>
    writes (device s') = writes (device s) @ map concat css \<and> pending s' = concat cs \<and>
    concat css @ cs = ps @ map (event_bytes en) es"
  using assms
proof (induction es arbitrary: s ps)
  case Nil
  then show ?case by (intro exI [of _ s] exI [of _ "[]"] exI [of _ ps]) simp
next
  case (Cons e es)
  let ?b = "event_bytes en e"
  have e: "event_ok e" "length ?b \<le> seqbuflen s" "?b \<noteq> []"
    using Cons.prems event_length [of e en] event_not_empty
    by (auto simp add: event_size_def split: seq_event.splits)
  note exec = exec_emits [OF e(1), of en dump s]
  obtain s1 where s1: "seq_emit dump ?b s = Some s1" "wf_seq s1" "seqbuflen s1 = seqbuflen s"
    and cases: "pending s1 = pending s @ ?b \<and> writes (device s1) = writes (device s) \<or>
      pending s1 = ?b \<and> writes (device s1) = writes (device s) @ [pending s]"
    using emit [OF Cons.prems(1) e(2,3)] by blast
  have es: "8 \<le> seqbuflen s1" "list_all event_ok es" using Cons.prems s1(3) by simp_all
  note IH = Cons.IH [OF s1(2) es]
  from cases show ?case
  proof
    assume a: "pending s1 = pending s @ ?b \<and> writes (device s1) = writes (device s)"
    then have "pending s1 = concat (ps @ [?b])" using Cons.prems(4) by simp
    from IH [OF this] show ?thesis using a s1 exec by auto
  next
    assume a: "pending s1 = ?b \<and> writes (device s1) = writes (device s) @ [pending s]"
    then have "pending s1 = concat [?b]" by simp
    from IH [OF this] obtain s' css cs where "c_for (seq_exec en dump) es s1 = Some s'" "wf_seq s'"
      "seqbuflen s' = seqbuflen s1" "writes (device s') = writes (device s1) @ map concat css"
      "pending s' = concat cs" "concat css @ cs = [?b] @ map (event_bytes en) es" by blast
    then show ?thesis using a s1 exec Cons.prems(4)
      by (intro exI [of _ s'] exI [of _ "ps # css"] exI [of _ cs]) simp
  qed
qed

end

locale seq_patch_device = seq_device dump writes
  for dump :: "'w seq_dump" and writes :: "'w \<Rightarrow> u8 list list" +
  fixes sys_write :: "u8 list \<Rightarrow> 'w \<Rightarrow> c_int \<times> 'w" and perror :: "'w \<Rightarrow> 'w"
  assumes write_writes: "writes (snd (sys_write d w)) = writes w @ [d]"
    and perror_writes: "writes (perror w) = writes w"
begin

lemma wrpatch:
  "writes (device (SEQ_WRPATCH dump sys_write perror d s)) =
     writes (device s) @ (if seqbufptr s = 0 then [] else [pending s]) @ [d] \<and>
   pending (SEQ_WRPATCH dump sys_write perror d s) = []"
  using write_writes [of d "device s"] write_writes [of d "device (dump s)"]
  by (auto simp add: SEQ_WRPATCH_def Let_def dump_writes perror_writes pending_def split: prod.split)

lemma wrpatch2:
  "writes (device (snd (SEQ_WRPATCH2 dump sys_write d s))) =
     writes (device s) @ (if seqbufptr s = 0 then [] else [pending s]) @ [d] \<and>
   pending (snd (SEQ_WRPATCH2 dump sys_write d s)) = []"
  using write_writes [of d "device (dump s)"]
  by (auto simp add: SEQ_WRPATCH2_def Let_def dump_writes pending_def split: prod.split)

end

text \<open>The sample \<^verbatim>\<open>seqbuf_dump\<close> of the header's comment, where writing succeeds; the device keeps the blocks.\<close>

definition sample_dump :: "u8 list list seq_dump" where
  "sample_dump s =
     (if seqbufptr s \<noteq> 0 then s\<lparr>device := device s @ [take (seqbufptr s) (seqbuf s)]\<rparr> else s)\<lparr>seqbufptr := 0\<rparr>"

definition sample_write :: "u8 list \<Rightarrow> u8 list list \<Rightarrow> c_int \<times> u8 list list" where
  "sample_write d w = (word_of_nat (length d), w @ [d])"

interpretation sample: seq_patch_device sample_dump "\<lambda>w. w" sample_write "\<lambda>w. w"
  by unfold_locales (simp_all add: sample_dump_def sample_write_def pending_def)

section \<open>Delivery\<close>

text \<open>
  Events reach the device whole and in order: for a buffer of at least 8 bytes no macro leaves the
  buffer, every block that is written consists of complete events, and the blocks and what is still in
  the buffer are the events that were there and those of the calls.
\<close>

theorem seq_stream_whole_events:
  assumes "seq_device dump writes" "wf_seq s" "8 \<le> seqbuflen s" "list_all event_ok es" "pending s = concat ps"
  shows "\<exists>s' css cs. c_for (seq_exec en dump) es s = Some s' \<and> wf_seq s' \<and>
    writes (device s') = writes (device s) @ map concat css \<and> pending s' = concat cs \<and>
    concat css @ cs = ps @ map (event_bytes en) es"
  using seq_device.run [OF assms, of en] by blast

theorem seq_stream_whole_events_witness:
  "\<exists>s' css cs. c_for (seq_exec Little sample_dump) [Seq_Midiout 1 0x90, Seq_Timer 2 100] (SEQ_DEFINEBUF 10 []) = Some s' \<and>
    wf_seq s' \<and> device s' = device (SEQ_DEFINEBUF 10 []) @ map concat css \<and> pending s' = concat cs \<and>
    concat css @ cs = [] @ map (event_bytes Little) [Seq_Midiout 1 0x90, Seq_Timer 2 100]"
  by (rule seq_stream_whole_events [OF sample.seq_device_axioms])
    (simp_all add: SEQ_DEFINEBUF_def wf_seq_def pending_def)

text \<open>How the device finds the events in what it is given: \<^verbatim>\<open>records of 4 or 8 bytes\<close>, told by the first byte.\<close>

function seq_split :: "u8 list \<Rightarrow> u8 list list option" where
  "seq_split [] = Some []"
| "seq_split (b # bs) = (let n = if 128 \<le> b then 8 else 4 in
     if n \<le> length (b # bs) then map_option (Cons (take n (b # bs))) (seq_split (drop n (b # bs))) else None)"
  by pat_completeness auto

termination
  by (relation "measure length") auto

lemma seq_split_events:
  "list_all event_ok es \<Longrightarrow> seq_split (concat (map (event_bytes en) es)) = Some (map (event_bytes en) es)"
proof (induction es)
  case (Cons e es)
  obtain b bs where b: "event_bytes en e = b # bs" using event_not_empty [of en e] by (cases "event_bytes en e") auto
  then have "(if 128 \<le> b then 8 else 4) = length (b # bs)"
    using event_first [of en e] event_length [of e en] Cons.prems by simp
  then show ?case using Cons b by (simp add: Let_def del: length_Cons)
qed simp

text \<open>
  C15: What a program sends is what the device reads: after the calls and a final dump, the bytes given to
  the device split into exactly the events of the calls, in order.
\<close>

theorem seq_delivery:
  assumes "seq_device dump writes" "8 \<le> len" "list_all event_ok es" "writes w = []"
  shows "do {
      s \<leftarrow> c_for (seq_exec en dump) es (SEQ_DEFINEBUF len w);
      seq_split (concat (writes (device (dump s))))
    } = Some (map (event_bytes en) es)"
proof -
  have s: "wf_seq (SEQ_DEFINEBUF len w)" "8 \<le> seqbuflen (SEQ_DEFINEBUF len w)"
    "pending (SEQ_DEFINEBUF len w) = concat []" "device (SEQ_DEFINEBUF len w) = w"
    using assms(2) by (simp_all add: SEQ_DEFINEBUF_def wf_seq_def pending_def)
  obtain s' css cs where s': "c_for (seq_exec en dump) es (SEQ_DEFINEBUF len w) = Some s'"
    "writes (device s') = map concat css" "pending s' = concat cs"
    and es: "concat css @ cs = map (event_bytes en) es"
    using seq_device.run [OF assms(1) s(1,2) assms(3) s(3), of en] by (auto simp add: s(4) assms(4))
  have "concat (if seqbufptr s' = 0 then [] else [pending s']) = pending s'" by (simp add: pending_def)
  then have "concat (writes (device (dump s'))) = concat (map concat css) @ concat cs"
    using seq_device.dump_writes [OF assms(1), of s'] s'(2,3) by simp
  also have "\<dots> = concat (concat css @ cs)" by (induction css) simp_all
  finally show ?thesis using s'(1) es seq_split_events [OF assms(3), of en] by simp
qed

theorem seq_delivery_witness:
  "do {
     s \<leftarrow> c_for (seq_exec Big sample_dump) [Seq_Midiout 1 0x90, Seq_Sysex 0 [0xf0, 0x43, 0xf7] 3] (SEQ_DEFINEBUF 8 []);
     seq_split (concat (device (sample_dump s)))
   } = Some (map (event_bytes Big) [Seq_Midiout 1 0x90, Seq_Sysex 0 [0xf0, 0x43, 0xf7] 3])"
  by (rule seq_delivery [OF sample.seq_device_axioms]) simp_all

text \<open>
  A patch is written on its own: the events collected before it are written first, as one block, and
  the patch is the next block, mixed with nothing else.
\<close>

theorem seq_patch_alone:
  assumes "seq_patch_device dump writes sys_write perror"
  shows "writes (device (SEQ_WRPATCH dump sys_write perror d s)) =
      writes (device s) @ (if seqbufptr s = 0 then [] else [pending s]) @ [d] \<and>
    pending (SEQ_WRPATCH dump sys_write perror d s) = [] \<and>
    writes (device (snd (SEQ_WRPATCH2 dump sys_write d s))) =
      writes (device (SEQ_WRPATCH dump sys_write perror d s))"
  using seq_patch_device.wrpatch [OF assms] seq_patch_device.wrpatch2 [OF assms] by metis

theorem seq_patch_alone_witness:
  "device (SEQ_WRPATCH sample_dump sample_write (\<lambda>w. w) [0xfd]
      \<lparr>seqbuf = [5, 1, 2, 0, 0, 0, 0, 0], seqbuflen = 8, seqbufptr = 4, device = []\<rparr>) = [[5, 1, 2, 0], [0xfd]]"
  using seq_patch_alone [OF sample.seq_patch_device_axioms, of "[0xfd]"
      "\<lparr>seqbuf = [5, 1, 2, 0, 0, 0, 0, 0], seqbuflen = 8, seqbufptr = 4, device = []\<rparr>"]
  by (simp add: pending_def)

text \<open>
  The room a macro asks for is not granted by a buffer that is smaller than the event: the dump
  resets the pointer, and the event is written beyond the end of the buffer.
\<close>

theorem seq_small_buffer_overrun:
  assumes "seq_device dump writes" "wf_seq s" "seqbuflen s < event_size e" "event_ok e"
  shows "seq_exec en dump e s = None"
proof -
  have "seq_exec en dump e s = seq_emit dump (event_bytes en e) s" using assms(4) by (rule exec_emits)
  then show ?thesis
    using assms(2,3) event_length [OF assms(4), of en]
      seq_device.dump_length [OF assms(1), of s] seq_device.dump_ptr [OF assms(1), of s]
    by (simp add: seq_emit_def SEQ_NEEDBUF_def seq_write_def wrn_def wf_seq_def)
qed

theorem seq_small_buffer_overrun_witness:
  "seq_exec Little sample_dump (Seq_Timer 2 100) (SEQ_DEFINEBUF 7 []) = None"
  by (rule seq_small_buffer_overrun [OF sample.seq_device_axioms])
    (simp_all add: SEQ_DEFINEBUF_def wf_seq_def event_size_def)

text \<open>The two halves of a 32-bit parameter of the Ultrasound are found again in the record.\<close>

lemma gus_parameter:
  "u16_of (p AND 0xffff) = ucast p \<and> u16_of (drop_bit 16 p AND 0xffff) = ucast (drop_bit 16 p)"
proof -
  have "x AND 0xffff = take_bit 16 x" for x :: c_int by (simp add: take_bit_eq_mask mask_numeral)
  then show ?thesis by (auto simp add: u16_of_def bit_simps intro!: bit_word_eqI)
qed

lemma gus_voicefreq:
  "GUS_VOICEFREQ en dump chn voice p s = seq_emit dump ([0xfe, u8_of chn, 6, u8_of voice] @
     bytes_of en (ucast p :: u16) @ bytes_of en (ucast (drop_bit 16 p) :: u16)) s"
  by (simp add: GUS_VOICEFREQ_def event_emits gus_parameter seq_codes gus_VOICEFREQ_def u8_of_numeral)

end
