(* ===== verification/Sve_Context.thy ===== *)
theory Sve_Context
  imports Uapi_Prelude C_Layout
begin

text \<open>
  Where the scalable vector registers of arm64 lie in memory: \<^verbatim>\<open>arch/arm64/asm/sve_context.h\<close>, and the two
  structures that use it, the signal frame (\<^verbatim>\<open>sigcontext.h\<close>) and the register set of \<^verbatim>\<open>ptrace\<close> (\<^verbatim>\<open>ptrace.h\<close>).
  The vector length \<open>vl\<close> is in bytes, \<open>vq\<close> in quadwords. The inner macros compute in \<^verbatim>\<open>__u32\<close>, the outer
  ones start from a \<^verbatim>\<open>sizeof\<close> and compute in 64 bits.
\<close>

section \<open>Lengths\<close>

definition SVE_VQ_BYTES :: int where "SVE_VQ_BYTES = 16"
definition SVE_VQ_MIN :: int where "SVE_VQ_MIN = 1"
definition SVE_VQ_MAX :: int where "SVE_VQ_MAX = 512"
definition SVE_VL_MIN :: int where "SVE_VL_MIN = SVE_VQ_MIN * SVE_VQ_BYTES"
definition SVE_VL_MAX :: int where "SVE_VL_MAX = SVE_VQ_MAX * SVE_VQ_BYTES"
definition SVE_NUM_ZREGS :: u32 where "SVE_NUM_ZREGS = 32"
definition SVE_NUM_PREGS :: u32 where "SVE_NUM_PREGS = 16"

definition sve_vl_valid :: "int \<Rightarrow> bool" where
  "sve_vl_valid vl \<longleftrightarrow> vl mod SVE_VQ_BYTES = 0 \<and> vl \<ge> SVE_VL_MIN \<and> vl \<le> SVE_VL_MAX"

definition sve_vq_from_vl :: "int \<Rightarrow> int" where
  "sve_vq_from_vl vl = vl div SVE_VQ_BYTES"

definition sve_vl_from_vq :: "int \<Rightarrow> int" where
  "sve_vl_from_vq vq = vq * SVE_VQ_BYTES"

section \<open>Registers\<close>

definition SVE_ZREG_SIZE :: "int \<Rightarrow> u32" where
  "SVE_ZREG_SIZE vq = word_of_int vq * word_of_int SVE_VQ_BYTES"

definition SVE_PREG_SIZE :: "int \<Rightarrow> u32" where
  "SVE_PREG_SIZE vq = word_of_int vq * word_of_int (SVE_VQ_BYTES div 8)"

definition SVE_FFR_SIZE :: "int \<Rightarrow> u32" where
  "SVE_FFR_SIZE vq = SVE_PREG_SIZE vq"

definition SVE_ZREGS_OFFSET :: u32 where
  "SVE_ZREGS_OFFSET = 0"

definition SVE_ZREG_OFFSET :: "int \<Rightarrow> u32 \<Rightarrow> u32" where
  "SVE_ZREG_OFFSET vq n = SVE_ZREGS_OFFSET + SVE_ZREG_SIZE vq * n"

definition SVE_ZREGS_SIZE :: "int \<Rightarrow> u32" where
  "SVE_ZREGS_SIZE vq = SVE_ZREG_OFFSET vq SVE_NUM_ZREGS - SVE_ZREGS_OFFSET"

definition SVE_PREGS_OFFSET :: "int \<Rightarrow> u32" where
  "SVE_PREGS_OFFSET vq = SVE_ZREGS_OFFSET + SVE_ZREGS_SIZE vq"

definition SVE_PREG_OFFSET :: "int \<Rightarrow> u32 \<Rightarrow> u32" where
  "SVE_PREG_OFFSET vq n = SVE_PREGS_OFFSET vq + SVE_PREG_SIZE vq * n"

definition SVE_PREGS_SIZE :: "int \<Rightarrow> u32" where
  "SVE_PREGS_SIZE vq = SVE_PREG_OFFSET vq SVE_NUM_PREGS - SVE_PREGS_OFFSET vq"

definition SVE_FFR_OFFSET :: "int \<Rightarrow> u32" where
  "SVE_FFR_OFFSET vq = SVE_PREGS_OFFSET vq + SVE_PREGS_SIZE vq"

text \<open>The idiom \<^verbatim>\<open>(x + (__SVE_VQ_BYTES - 1)) / __SVE_VQ_BYTES * __SVE_VQ_BYTES\<close>.\<close>

definition vq_round :: "u64 \<Rightarrow> u64" where
  "vq_round x = (x + (16 - 1)) div 16 * 16"

section \<open>The signal frame\<close>

definition struct_aarch64_ctx :: ctype where
  "struct_aarch64_ctx = Struct [Scalar 4, Scalar 4]"

definition struct_sve_context :: ctype where
  "struct_sve_context = Struct [struct_aarch64_ctx, Scalar 2, Arr (Scalar 2) 3]"

definition SVE_SIG_ZREG_SIZE :: "int \<Rightarrow> u32" where "SVE_SIG_ZREG_SIZE vq = SVE_ZREG_SIZE vq"
definition SVE_SIG_PREG_SIZE :: "int \<Rightarrow> u32" where "SVE_SIG_PREG_SIZE vq = SVE_PREG_SIZE vq"
definition SVE_SIG_FFR_SIZE :: "int \<Rightarrow> u32" where "SVE_SIG_FFR_SIZE vq = SVE_FFR_SIZE vq"

definition SVE_SIG_REGS_OFFSET :: u64 where
  "SVE_SIG_REGS_OFFSET = vq_round (word_of_nat (sizeof 8 struct_sve_context))"

definition SVE_SIG_ZREGS_OFFSET :: u64 where
  "SVE_SIG_ZREGS_OFFSET = SVE_SIG_REGS_OFFSET + ucast SVE_ZREGS_OFFSET"

definition SVE_SIG_ZREG_OFFSET :: "int \<Rightarrow> u32 \<Rightarrow> u64" where
  "SVE_SIG_ZREG_OFFSET vq n = SVE_SIG_REGS_OFFSET + ucast (SVE_ZREG_OFFSET vq n)"

definition SVE_SIG_ZREGS_SIZE :: "int \<Rightarrow> u32" where "SVE_SIG_ZREGS_SIZE vq = SVE_ZREGS_SIZE vq"

definition SVE_SIG_PREGS_OFFSET :: "int \<Rightarrow> u64" where
  "SVE_SIG_PREGS_OFFSET vq = SVE_SIG_REGS_OFFSET + ucast (SVE_PREGS_OFFSET vq)"

definition SVE_SIG_PREG_OFFSET :: "int \<Rightarrow> u32 \<Rightarrow> u64" where
  "SVE_SIG_PREG_OFFSET vq n = SVE_SIG_REGS_OFFSET + ucast (SVE_PREG_OFFSET vq n)"

definition SVE_SIG_PREGS_SIZE :: "int \<Rightarrow> u32" where "SVE_SIG_PREGS_SIZE vq = SVE_PREGS_SIZE vq"

definition SVE_SIG_FFR_OFFSET :: "int \<Rightarrow> u64" where
  "SVE_SIG_FFR_OFFSET vq = SVE_SIG_REGS_OFFSET + ucast (SVE_FFR_OFFSET vq)"

definition SVE_SIG_REGS_SIZE :: "int \<Rightarrow> u32" where
  "SVE_SIG_REGS_SIZE vq = SVE_FFR_OFFSET vq + SVE_FFR_SIZE vq"

definition SVE_SIG_CONTEXT_SIZE :: "int \<Rightarrow> u64" where
  "SVE_SIG_CONTEXT_SIZE vq = SVE_SIG_REGS_OFFSET + ucast (SVE_SIG_REGS_SIZE vq)"

section \<open>The register set of ptrace\<close>

definition struct_user_sve_header :: ctype where
  "struct_user_sve_header = Struct [Scalar 4, Scalar 4, Scalar 2, Scalar 2, Scalar 2, Scalar 2]"

definition struct_user_fpsimd_state :: ctype where
  "struct_user_fpsimd_state = Struct [Arr (Scalar 16) 32, Scalar 4, Scalar 4, Arr (Scalar 4) 2]"

definition SVE_PT_REGS_MASK :: c_int where "SVE_PT_REGS_MASK = push_bit 0 1"
definition SVE_PT_REGS_FPSIMD :: c_int where "SVE_PT_REGS_FPSIMD = 0"
definition SVE_PT_REGS_SVE :: c_int where "SVE_PT_REGS_SVE = SVE_PT_REGS_MASK"
definition SVE_PT_VL_INHERIT :: c_int where "SVE_PT_VL_INHERIT = drop_bit 16 (push_bit 17 1)"
definition SVE_PT_VL_ONEXEC :: c_int where "SVE_PT_VL_ONEXEC = drop_bit 16 (push_bit 18 1)"

definition SVE_PT_REGS_OFFSET :: u64 where
  "SVE_PT_REGS_OFFSET = vq_round (word_of_nat (sizeof 8 struct_user_sve_header))"

definition SVE_PT_FPSIMD_OFFSET :: u64 where "SVE_PT_FPSIMD_OFFSET = SVE_PT_REGS_OFFSET"

definition SVE_PT_FPSIMD_SIZE :: "int \<Rightarrow> c_int \<Rightarrow> u64" where
  "SVE_PT_FPSIMD_SIZE vq flags = word_of_nat (sizeof 16 struct_user_fpsimd_state)"

definition SVE_PT_SVE_ZREG_SIZE :: "int \<Rightarrow> u32" where "SVE_PT_SVE_ZREG_SIZE vq = SVE_ZREG_SIZE vq"
definition SVE_PT_SVE_PREG_SIZE :: "int \<Rightarrow> u32" where "SVE_PT_SVE_PREG_SIZE vq = SVE_PREG_SIZE vq"
definition SVE_PT_SVE_FFR_SIZE :: "int \<Rightarrow> u32" where "SVE_PT_SVE_FFR_SIZE vq = SVE_FFR_SIZE vq"
definition SVE_PT_SVE_FPSR_SIZE :: u64 where "SVE_PT_SVE_FPSR_SIZE = 4"
definition SVE_PT_SVE_FPCR_SIZE :: u64 where "SVE_PT_SVE_FPCR_SIZE = 4"
definition SVE_PT_SVE_OFFSET :: u64 where "SVE_PT_SVE_OFFSET = SVE_PT_REGS_OFFSET"

definition SVE_PT_SVE_ZREGS_OFFSET :: u64 where
  "SVE_PT_SVE_ZREGS_OFFSET = SVE_PT_REGS_OFFSET + ucast SVE_ZREGS_OFFSET"

definition SVE_PT_SVE_ZREG_OFFSET :: "int \<Rightarrow> u32 \<Rightarrow> u64" where
  "SVE_PT_SVE_ZREG_OFFSET vq n = SVE_PT_REGS_OFFSET + ucast (SVE_ZREG_OFFSET vq n)"

definition SVE_PT_SVE_ZREGS_SIZE :: "int \<Rightarrow> u64" where
  "SVE_PT_SVE_ZREGS_SIZE vq = SVE_PT_SVE_ZREG_OFFSET vq SVE_NUM_ZREGS - SVE_PT_SVE_ZREGS_OFFSET"

definition SVE_PT_SVE_PREGS_OFFSET :: "int \<Rightarrow> u64" where
  "SVE_PT_SVE_PREGS_OFFSET vq = SVE_PT_REGS_OFFSET + ucast (SVE_PREGS_OFFSET vq)"

definition SVE_PT_SVE_PREG_OFFSET :: "int \<Rightarrow> u32 \<Rightarrow> u64" where
  "SVE_PT_SVE_PREG_OFFSET vq n = SVE_PT_REGS_OFFSET + ucast (SVE_PREG_OFFSET vq n)"

definition SVE_PT_SVE_PREGS_SIZE :: "int \<Rightarrow> u64" where
  "SVE_PT_SVE_PREGS_SIZE vq = SVE_PT_SVE_PREG_OFFSET vq SVE_NUM_PREGS - SVE_PT_SVE_PREGS_OFFSET vq"

definition SVE_PT_SVE_FFR_OFFSET :: "int \<Rightarrow> u64" where
  "SVE_PT_SVE_FFR_OFFSET vq = SVE_PT_REGS_OFFSET + ucast (SVE_FFR_OFFSET vq)"

definition SVE_PT_SVE_FPSR_OFFSET :: "int \<Rightarrow> u64" where
  "SVE_PT_SVE_FPSR_OFFSET vq = vq_round (SVE_PT_SVE_FFR_OFFSET vq + ucast (SVE_PT_SVE_FFR_SIZE vq))"

definition SVE_PT_SVE_FPCR_OFFSET :: "int \<Rightarrow> u64" where
  "SVE_PT_SVE_FPCR_OFFSET vq = SVE_PT_SVE_FPSR_OFFSET vq + SVE_PT_SVE_FPSR_SIZE"

definition SVE_PT_SVE_SIZE :: "int \<Rightarrow> c_int \<Rightarrow> u64" where
  "SVE_PT_SVE_SIZE vq flags =
     vq_round (SVE_PT_SVE_FPCR_OFFSET vq + SVE_PT_SVE_FPCR_SIZE - SVE_PT_SVE_OFFSET)"

definition SVE_PT_SIZE :: "int \<Rightarrow> c_int \<Rightarrow> u64" where
  "SVE_PT_SIZE vq flags = (if flags AND SVE_PT_REGS_MASK = SVE_PT_REGS_SVE
     then SVE_PT_SVE_OFFSET + SVE_PT_SVE_SIZE vq flags
     else SVE_PT_FPSIMD_OFFSET + SVE_PT_FPSIMD_SIZE vq flags)"

section \<open>Offsets in closed form\<close>

lemma valid_vl:
  assumes "sve_vl_valid vl"
  obtains q where "sve_vq_from_vl vl = int q" "1 \<le> q" "q \<le> 512" "vl = 16 * int q"
proof
  show "sve_vq_from_vl vl = int (nat (vl div 16))" "1 \<le> nat (vl div 16)" "nat (vl div 16) \<le> 512"
    "vl = 16 * int (nat (vl div 16))"
    using assms by (auto simp add: sve_vl_valid_def sve_vq_from_vl_def SVE_VQ_BYTES_def SVE_VL_MIN_def
        SVE_VL_MAX_def SVE_VQ_MIN_def SVE_VQ_MAX_def)
qed

lemma sve_words:
  "SVE_ZREG_SIZE (int q) = word_of_nat (16 * q)"
  "SVE_PREG_SIZE (int q) = word_of_nat (2 * q)"
  "SVE_ZREG_OFFSET (int q) (word_of_nat n) = word_of_nat (16 * q * n)"
  "SVE_PREGS_OFFSET (int q) = word_of_nat (512 * q)"
  "SVE_PREG_OFFSET (int q) (word_of_nat n) = word_of_nat (512 * q + 2 * q * n)"
  "SVE_FFR_OFFSET (int q) = word_of_nat (544 * q)"
  "SVE_FFR_SIZE (int q) = word_of_nat (2 * q)"
  "SVE_SIG_REGS_SIZE (int q) = word_of_nat (546 * q)"
  by (simp_all add: SVE_ZREG_SIZE_def SVE_PREG_SIZE_def SVE_ZREG_OFFSET_def SVE_PREGS_OFFSET_def
      SVE_ZREGS_OFFSET_def SVE_ZREGS_SIZE_def SVE_NUM_ZREGS_def SVE_PREG_OFFSET_def SVE_FFR_OFFSET_def
      SVE_PREGS_SIZE_def SVE_NUM_PREGS_def SVE_FFR_SIZE_def SVE_SIG_REGS_SIZE_def SVE_VQ_BYTES_def algebra_simps)

lemma unat_small:
  assumes "n < 2 ^ 32"
  shows "unat (word_of_nat n :: u32) = n"
    and "unat (16 + ucast (word_of_nat n :: u32) :: u64) = 16 + n"
    and "unat (ucast (word_of_nat n :: u32) :: u64) = n"
proof -
  show u: "unat (word_of_nat n :: u32) = n"
    using assms by (simp add: unsigned_of_nat take_bit_nat_eq_self)
  then show v: "unat (ucast (word_of_nat n :: u32) :: u64) = n"
    using assms by (simp add: unsigned_ucast_eq take_bit_nat_eq_self)
  show "unat (16 + ucast (word_of_nat n :: u32) :: u64) = 16 + n"
    using assms v by (simp add: unat_word_ariths)
qed

lemma regs_offsets: "SVE_SIG_REGS_OFFSET = 16" "SVE_PT_REGS_OFFSET = 16"
  by code_simp+

lemma unat_vq_round:
  assumes "unat x < 2 ^ 32"
  shows "unat (vq_round x) = align_up 16 (unat x)"
proof -
  have "unat (x + 15) = unat x + 15" using assms by (simp add: unat_word_ariths)
  then have d: "unat ((x + 15) div 16) = (unat x + 15) div 16" by (simp add: unat_div_distrib)
  have "(unat x + 15) div 16 * 16 \<le> unat x + 15" by simp
  also have "\<dots> < 2 ^ 64" using assms by simp
  finally have "unat ((x + 15) div 16 * 16) = (unat x + 15) div 16 * 16"
    by (subst unat_word_ariths) (simp add: d)
  then show ?thesis by (simp add: vq_round_def align_up_def)
qed

section \<open>Layouts\<close>

text \<open>Parts, given by offset and size, that fill the space from \<open>a\<close> to \<open>b\<close> one after the other.\<close>

fun contiguous :: "nat \<Rightarrow> (nat \<times> nat) list \<Rightarrow> nat \<Rightarrow> bool" where
  "contiguous a [] b \<longleftrightarrow> a = b"
| "contiguous a ((off, sz) # ps) b \<longleftrightarrow> off = a \<and> contiguous (a + sz) ps b"

lemma contiguous_append:
  "contiguous a ps m \<Longrightarrow> contiguous m qs b \<Longrightarrow> contiguous a (ps @ qs) b"
  by (induction a ps m rule: contiguous.induct) auto

lemma contiguous_regs:
  assumes "\<And>n. n < k \<Longrightarrow> f n = (a + sz * n, sz)"
  shows "contiguous a (map f [0..<k]) (a + sz * k)"
  using assms
proof (induction k)
  case (Suc k)
  have "contiguous a (map f [0..<k]) (a + sz * k)" using Suc by simp
  moreover have "contiguous (a + sz * k) [f k] (a + sz * Suc k)" using Suc.prems [of k] by simp
  ultimately show ?case using contiguous_append [of a _ "a + sz * k" "[f k]"] by simp
qed simp

text \<open>The registers in the order in which they lie, for both structures.\<close>

definition sve_parts :: "(int \<Rightarrow> u32 \<Rightarrow> u64) \<Rightarrow> (int \<Rightarrow> u32) \<Rightarrow> (int \<Rightarrow> u32 \<Rightarrow> u64) \<Rightarrow> (int \<Rightarrow> u32) \<Rightarrow>
    (int \<Rightarrow> u64) \<Rightarrow> (int \<Rightarrow> u32) \<Rightarrow> int \<Rightarrow> (nat \<times> nat) list" where
  "sve_parts zoff zsize poff psize foff fsize vq =
     map (\<lambda>n. (unat (zoff vq (word_of_nat n)), unat (zsize vq))) [0..<unat SVE_NUM_ZREGS] @
     map (\<lambda>n. (unat (poff vq (word_of_nat n)), unat (psize vq))) [0..<unat SVE_NUM_PREGS] @
     [(unat (foff vq), unat (fsize vq))]"

lemma sve_parts_contiguous:
  assumes "q \<le> 512"
    and z: "\<And>vq n. zoff vq n = 16 + ucast (SVE_ZREG_OFFSET vq n)" "\<And>vq. zsize vq = SVE_ZREG_SIZE vq"
    and p: "\<And>vq n. poff vq n = 16 + ucast (SVE_PREG_OFFSET vq n)" "\<And>vq. psize vq = SVE_PREG_SIZE vq"
    and f: "\<And>vq. foff vq = 16 + ucast (SVE_FFR_OFFSET vq)" "\<And>vq. fsize vq = SVE_FFR_SIZE vq"
  shows "contiguous 16 (sve_parts zoff zsize poff psize foff fsize (int q)) (16 + 546 * q)"
proof -
  have z': "contiguous 16 (map (\<lambda>n. (unat (zoff (int q) (word_of_nat n)), unat (zsize (int q)))) [0..<32])
      (16 + 16 * q * 32)"
  proof (rule contiguous_regs)
    fix n :: nat assume "n < 32"
    then have "16 * q * n \<le> 16 * 512 * 32" using assms(1) by (intro mult_le_mono) simp_all
    then show "(unat (zoff (int q) (word_of_nat n)), unat (zsize (int q))) = (16 + 16 * q * n, 16 * q)"
      using assms(1) unat_small [of "16 * q * n"] unat_small(1) [of "16 * q"]
      by (simp only: z sve_words) simp
  qed
  have p': "contiguous (16 + 512 * q) (map (\<lambda>n. (unat (poff (int q) (word_of_nat n)), unat (psize (int q))))
      [0..<16]) (16 + 512 * q + 2 * q * 16)"
  proof (rule contiguous_regs)
    fix n :: nat assume "n < 16"
    then have "2 * q * n \<le> 2 * 512 * 16" using assms(1) by (intro mult_le_mono) simp_all
    then have "512 * q + 2 * q * n \<le> 512 * 512 + 2 * 512 * 16" using assms(1) by (intro add_le_mono) simp_all
    then have "512 * q + 2 * q * n < 2 ^ 32" by (rule le_less_trans) simp
    from unat_small(2) [OF this] show "(unat (poff (int q) (word_of_nat n)), unat (psize (int q))) =
        (16 + 512 * q + 2 * q * n, 2 * q)"
      using assms(1) unat_small(1) [of "2 * q"] by (simp only: p sve_words) simp
  qed
  have f': "contiguous (16 + 512 * q + 2 * q * 16) [(unat (foff (int q)), unat (fsize (int q)))] (16 + 546 * q)"
    using assms(1) unat_small [of "544 * q"] unat_small(1) [of "2 * q"]
    by (simp only: f sve_words) simp
  have "16 + 16 * q * 32 = 16 + 512 * q" by simp
  from contiguous_append [OF z' [unfolded this] contiguous_append [OF p' f']]
  show ?thesis by (simp add: sve_parts_def SVE_NUM_ZREGS_def SVE_NUM_PREGS_def)
qed

text \<open>
  C17: In the signal frame the 32 vector registers, the 16 predicate registers and the first-fault register
  lie one after the other behind the header and fill the context exactly, for every valid vector length;
  no offset wraps. The length is recovered from its number of quadwords.
\<close>

theorem sve_sig_layout:
  assumes "sve_vl_valid vl" "vq = sve_vq_from_vl vl"
  shows "contiguous (unat SVE_SIG_REGS_OFFSET)
      (sve_parts SVE_SIG_ZREG_OFFSET SVE_SIG_ZREG_SIZE SVE_SIG_PREG_OFFSET SVE_SIG_PREG_SIZE
        SVE_SIG_FFR_OFFSET SVE_SIG_FFR_SIZE vq) (unat (SVE_SIG_CONTEXT_SIZE vq)) \<and>
    sizeof 8 struct_sve_context \<le> unat SVE_SIG_REGS_OFFSET \<and>
    sve_vl_from_vq vq = vl \<and> SVE_VQ_MIN \<le> vq \<and> vq \<le> SVE_VQ_MAX"
proof -
  obtain q where q: "vq = int q" "1 \<le> q" "q \<le> 512" "vl = 16 * int q"
    using valid_vl [OF assms(1)] assms(2) by metis
  have "unat (SVE_SIG_CONTEXT_SIZE (int q)) = 16 + 546 * q"
    using q(3) unat_small(2) [of "546 * q"]
    by (simp only: SVE_SIG_CONTEXT_SIZE_def regs_offsets sve_words) simp
  moreover have "sizeof 8 struct_sve_context = 16" by code_simp
  ultimately show ?thesis
    using q sve_parts_contiguous [OF q(3), of SVE_SIG_ZREG_OFFSET SVE_SIG_ZREG_SIZE SVE_SIG_PREG_OFFSET
        SVE_SIG_PREG_SIZE SVE_SIG_FFR_OFFSET SVE_SIG_FFR_SIZE]
    by (simp add: regs_offsets SVE_SIG_ZREG_OFFSET_def SVE_SIG_ZREG_SIZE_def SVE_SIG_PREG_OFFSET_def
        SVE_SIG_PREG_SIZE_def SVE_SIG_FFR_OFFSET_def SVE_SIG_FFR_SIZE_def sve_vl_from_vq_def SVE_VQ_BYTES_def
        SVE_VQ_MIN_def SVE_VQ_MAX_def)
qed

theorem sve_sig_layout_witness:
  "contiguous (unat SVE_SIG_REGS_OFFSET)
     (sve_parts SVE_SIG_ZREG_OFFSET SVE_SIG_ZREG_SIZE SVE_SIG_PREG_OFFSET SVE_SIG_PREG_SIZE
       SVE_SIG_FFR_OFFSET SVE_SIG_FFR_SIZE 4) (unat (SVE_SIG_CONTEXT_SIZE 4)) \<and> sve_vl_from_vq 4 = 64"
proof -
  have "sve_vl_valid 64" "4 = sve_vq_from_vl 64" by code_simp+
  from sve_sig_layout [OF this] show ?thesis by simp
qed

text \<open>The words behind the registers of \<^verbatim>\<open>ptrace\<close>, and the size.\<close>

lemma pt_status:
  assumes "q \<le> 512"
  shows "unat (SVE_PT_SVE_FPSR_OFFSET (int q)) = align_up 16 (16 + 546 * q)"
    and "unat (SVE_PT_SVE_FPCR_OFFSET (int q)) = align_up 16 (16 + 546 * q) + 4"
proof -
  have lt: "544 * q < 2 ^ 32" "2 * q < 2 ^ 32" using assms by simp_all
  have "unat (SVE_PT_SVE_FFR_OFFSET (int q) + ucast (SVE_PT_SVE_FFR_SIZE (int q))) = 16 + 546 * q"
    using unat_small(2) [OF lt(1)] unat_small(3) [OF lt(2)] assms
    by (simp only: SVE_PT_SVE_FFR_OFFSET_def SVE_PT_SVE_FFR_SIZE_def regs_offsets sve_words)
      (simp add: unat_word_ariths)
  then show r: "unat (SVE_PT_SVE_FPSR_OFFSET (int q)) = align_up 16 (16 + 546 * q)"
    using assms by (simp add: SVE_PT_SVE_FPSR_OFFSET_def unat_vq_round)
  show "unat (SVE_PT_SVE_FPCR_OFFSET (int q)) = align_up 16 (16 + 546 * q) + 4"
    using r align_up_less [of 16 "16 + 546 * q"] assms
    by (simp add: SVE_PT_SVE_FPCR_OFFSET_def SVE_PT_SVE_FPSR_SIZE_def unat_word_ariths)
qed

lemma pt_size:
  assumes "q \<le> 512" "flags AND SVE_PT_REGS_MASK = SVE_PT_REGS_SVE"
  shows "unat (SVE_PT_SIZE (int q) flags) = align_up 16 (unat (SVE_PT_SVE_FPCR_OFFSET (int q)) + 4)"
    and "unat (SVE_PT_SIZE (int q) flags) < 2 ^ 32"
proof -
  define c where "c = unat (SVE_PT_SVE_FPCR_OFFSET (int q))"
  have c: "16 \<le> c" "c < 2 ^ 31"
    using pt_status(2) [OF assms(1)] align_up_ge [of 16 "16 + 546 * q"] align_up_less [of 16 "16 + 546 * q"]
      assms(1) by (simp_all add: c_def)
  have "unat (SVE_PT_SVE_FPCR_OFFSET (int q) + 4) = c + 4" using c by (simp add: c_def unat_word_ariths)
  then have "unat (SVE_PT_SVE_FPCR_OFFSET (int q) + 4 - 16) = c + 4 - 16"
    using c by (subst unat_sub) (simp_all add: word_le_nat_alt)
  then have "unat (SVE_PT_SVE_SIZE (int q) flags) = align_up 16 (c + 4 - 16)"
    using c by (simp add: SVE_PT_SVE_SIZE_def SVE_PT_SVE_FPCR_SIZE_def SVE_PT_SVE_OFFSET_def regs_offsets
        unat_vq_round)
  moreover have "16 + align_up 16 (c + 4 - 16) = align_up 16 (c + 4)"
    using align_up_add [of 16 16 "c + 4 - 16"] c by (simp add: add.commute)
  moreover have "align_up 16 (c + 4) < c + 20" using align_up_less [of 16 "c + 4"] by simp
  ultimately show "unat (SVE_PT_SIZE (int q) flags) = align_up 16 (unat (SVE_PT_SVE_FPCR_OFFSET (int q)) + 4)"
    "unat (SVE_PT_SIZE (int q) flags) < 2 ^ 32"
    using c assms(2)
    by (simp_all add: SVE_PT_SIZE_def SVE_PT_SVE_OFFSET_def regs_offsets unat_word_ariths c_def)
qed

text \<open>
  In the register set of \<^verbatim>\<open>ptrace\<close> the registers lie in the same order behind the header; status and control
  word follow on the next quadword boundary, one behind the other, and the size that is computed covers
  them, is a multiple of a quadword and fits the 32-bit size of the header.
\<close>

theorem sve_pt_layout:
  assumes "sve_vl_valid vl" "vq = sve_vq_from_vl vl" "flags AND SVE_PT_REGS_MASK = SVE_PT_REGS_SVE"
  shows "\<exists>e. contiguous (unat SVE_PT_REGS_OFFSET)
      (sve_parts SVE_PT_SVE_ZREG_OFFSET SVE_PT_SVE_ZREG_SIZE SVE_PT_SVE_PREG_OFFSET SVE_PT_SVE_PREG_SIZE
        SVE_PT_SVE_FFR_OFFSET SVE_PT_SVE_FFR_SIZE vq) e \<and>
    unat (SVE_PT_SVE_FPSR_OFFSET vq) = align_up 16 e \<and>
    unat (SVE_PT_SVE_FPCR_OFFSET vq) = align_up 16 e + 4 \<and>
    unat (SVE_PT_SIZE vq flags) = align_up 16 (unat (SVE_PT_SVE_FPCR_OFFSET vq) + 4) \<and>
    unat (SVE_PT_SIZE vq flags) < 2 ^ 32"
proof -
  obtain q where q: "vq = int q" "q \<le> 512" using valid_vl [OF assms(1)] assms(2) by metis
  have "contiguous 16 (sve_parts SVE_PT_SVE_ZREG_OFFSET SVE_PT_SVE_ZREG_SIZE SVE_PT_SVE_PREG_OFFSET
      SVE_PT_SVE_PREG_SIZE SVE_PT_SVE_FFR_OFFSET SVE_PT_SVE_FFR_SIZE (int q)) (16 + 546 * q)"
    using q(2) by (rule sve_parts_contiguous) (simp_all add: regs_offsets SVE_PT_SVE_ZREG_OFFSET_def
        SVE_PT_SVE_ZREG_SIZE_def SVE_PT_SVE_PREG_OFFSET_def SVE_PT_SVE_PREG_SIZE_def SVE_PT_SVE_FFR_OFFSET_def
        SVE_PT_SVE_FFR_SIZE_def)
  then show ?thesis
    using pt_status [OF q(2)] pt_size [OF q(2) assms(3)]
    by (intro exI [of _ "16 + 546 * q"]) (simp add: q(1) regs_offsets)
qed

theorem sve_pt_layout_witness:
  "unat (SVE_PT_SIZE 4 1) = align_up 16 (unat (SVE_PT_SVE_FPCR_OFFSET 4) + 4) \<and> unat (SVE_PT_SIZE 4 1) < 2 ^ 32"
proof -
  have "sve_vl_valid 64" "4 = sve_vq_from_vl 64" "1 AND SVE_PT_REGS_MASK = SVE_PT_REGS_SVE" by code_simp+
  from sve_pt_layout [OF this] show ?thesis by blast
qed

text \<open>
  The table in \<^verbatim>\<open>sigcontext.h\<close> of the records that fit the 4096 reserved bytes of a signal frame: vectors of up to
  64 bytes need at most the 0x8a0 bytes it allots, with the record rounded up to a quadword.
\<close>

lemma sve_context_allotted:
  assumes "sve_vl_valid vl" "vl \<le> 64"
  shows "align_up 16 (unat (SVE_SIG_CONTEXT_SIZE (sve_vq_from_vl vl))) \<le> 0x8a0"
    and "0x210 + 0x10 + 0x8a0 + 0x20 + 0x10 + 0x510 = (4096 :: nat)"
proof -
  obtain q where q: "sve_vq_from_vl vl = int q" "vl = 16 * int q" using valid_vl [OF assms(1)] by metis
  then have le: "q \<le> 4" using assms(2) by simp
  have "unat (SVE_SIG_CONTEXT_SIZE (int q)) = 16 + 546 * q"
    using le unat_small(2) [of "546 * q"]
    by (simp only: SVE_SIG_CONTEXT_SIZE_def regs_offsets sve_words) simp
  then show "align_up 16 (unat (SVE_SIG_CONTEXT_SIZE (sve_vq_from_vl vl))) \<le> 0x8a0"
    using q(1) le align_up_mono [of 16 "16 + 546 * q" "16 + 546 * 4"] by (simp add: align_up_def)
qed simp

end
