(* ===== verification/Packed_Codes.thy ===== *)
theory Packed_Codes
  imports Uapi_Prelude
begin

text \<open>
  Numbers made of two or more parts, as many headers define them by hand: device numbers, PCI slots, key codes,
  I/O priorities, handles of packet schedulers, version numbers. Each has a macro that joins the parts and one
  for each part that takes it out. The locale \<open>packed_pair\<close> is what programs rely on: the parts of a joined
  code are the parts it was joined from, and every code in range is joined from its parts. The macros work on
  \<^verbatim>\<open>int\<close> or on the type of their argument; only codes that are not negative occur.
\<close>

section \<open>Fields\<close>

text \<open>\<open>place s w x\<close> is the value \<open>x\<close> in the field of \<open>w\<close> bits from bit \<open>s\<close>; \<open>field_at\<close> takes it out.\<close>

definition place :: "nat \<Rightarrow> nat \<Rightarrow> 'a::len word \<Rightarrow> 'a word" where
  "place s w x = push_bit s (x AND mask w)"

definition field_at :: "nat \<Rightarrow> nat \<Rightarrow> 'a::len word \<Rightarrow> 'a word" where
  "field_at s w c = drop_bit s c AND mask w"

named_theorems fields \<open>fields of a word joined from parts\<close>

lemma fits_and_mask: "fits w x \<Longrightarrow> x AND mask w = (x :: 'a::len word)"
  using fits_take_bit [of w x] by (simp add: take_bit_eq_mask)

lemma push_bit_place: "fits w x \<Longrightarrow> push_bit s x = place s w x"
  by (simp add: place_def fits_and_mask)

lemma low_place: "fits w x \<Longrightarrow> x = place 0 w x"
  by (simp add: place_def fits_and_mask)

lemma bit_place: "bit (place s w (x :: 'a::len word)) n \<longleftrightarrow> s \<le> n \<and> n < s + w \<and> n < LENGTH('a) \<and> bit x (n - s)"
  by (auto simp add: place_def bit_simps)

lemma bit_field_at: "bit (field_at s w c) n \<longleftrightarrow> n < w \<and> bit (c :: 'a::len word) (s + n)"
  by (auto simp add: field_at_def bit_simps dest: bit_imp_le_length)

lemma field_at_or [fields]: "field_at s w (a OR b) = field_at s w a OR field_at s w b"
  by (rule bit_word_eqI) (auto simp add: bit_field_at bit_simps)

lemma field_at_place [fields]:
  "s + w \<le> LENGTH('a) \<Longrightarrow> field_at s w (place s w x) = (x :: 'a::len word) AND mask w"
  by (rule bit_word_eqI) (auto simp add: bit_field_at bit_place bit_simps)

lemma field_at_other [fields]:
  "s + w \<le> s' \<or> s' + w' \<le> s \<Longrightarrow> field_at s w (place s' w' x) = (0 :: 'a::len word)"
  by (rule bit_word_eqI) (auto simp add: bit_field_at bit_place)

lemma place_or_fits:
  "fits h a \<Longrightarrow> fits l b \<Longrightarrow> h + l \<le> LENGTH('a) \<Longrightarrow> fits (h + l) (push_bit l a OR (b :: 'a::len word))"
  by (auto simp add: fits_bits bit_simps)

text \<open>Joined numbers are ordered by their parts, the upper part first.\<close>

lemma fits_unat: "fits n (x :: 'a::len word) \<longleftrightarrow> unat x < 2 ^ n"
proof -
  have "fits n x \<longleftrightarrow> unat (drop_bit n x) = 0" by (simp only: fits_def unsigned_eq_0_iff)
  also have "\<dots> \<longleftrightarrow> unat x div 2 ^ n = 0" 
    by (simp only: unat_drop_bit_eq) (simp only: drop_bit_eq_div)
  finally show ?thesis by (simp add: div_eq_0_iff)
qed

lemma unat_joined:
  fixes a b :: "'a::len word"
  assumes "fits h a" "fits l b" "h + l \<le> LENGTH('a)"
  shows "unat (push_bit l a OR b) = unat a * 2 ^ l + unat b"
proof -
  have "unat a + 1 \<le> 2 ^ h" "unat b < 2 ^ l" using assms(1,2) by (simp_all add: fits_unat Suc_le_eq)
  then have "(unat a + 1) * 2 ^ l \<le> 2 ^ h * 2 ^ l" by (intro mult_right_mono) simp_all
  also have "\<dots> \<le> 2 ^ LENGTH('a)" using assms(3) by (simp flip: power_add add: power_increasing)
  finally have less: "unat a * 2 ^ l + unat b < 2 ^ LENGTH('a)" using \<open>unat b < 2 ^ l\<close> by simp
  have "unat (push_bit l a) = unat a * 2 ^ l"
    using less by (simp only: unsigned_push_bit_eq) (simp add: push_bit_eq_mult take_bit_nat_eq_self)
  moreover have "push_bit l a OR b = push_bit l a + b"
    using assms(2) by (intro disjunctive_add [symmetric]) (auto simp add: bit_simps fits_bits not_le)
  ultimately show ?thesis using less by (simp add: unat_word_ariths)
qed

lemma joined_less:
  fixes a b a' b' :: "'a::len word"
  assumes "fits h a" "fits l b" "fits h a'" "fits l b'" "h + l \<le> LENGTH('a)"
  shows "push_bit l a OR b < push_bit l a' OR b' \<longleftrightarrow> a < a' \<or> a = a' \<and> b < b'"
proof -
  have mono: "x * n + y < x' * n + y'" if "x < x'" "y < n" for x y x' y' n :: nat
  proof -
    have "x * n + n \<le> x' * n" using mult_le_mono1 [of "Suc x" x' n] that(1) by simp
    then show ?thesis using that(2) by linarith
  qed
  have less: "unat b < 2 ^ l" "unat b' < 2 ^ l" using assms by (simp_all add: fits_unat)
  show ?thesis
    unfolding word_less_nat_alt unat_joined [OF assms(1,2,5)] unat_joined [OF assms(3,4,5)]
    using mono [OF _ less(1), of "unat a" "unat a'" "unat b'"] mono [OF _ less(2), of "unat a'" "unat a" "unat b"]
    by (cases "unat a" "unat a'" rule: linorder_cases) (auto simp add: unsigned_word_eqI)
qed

section \<open>Two parts\<close>

text \<open>
  What the macros of a pair achieve: joining is one to one between the pairs in range and the codes in range, the
  parts are read back, and codes are ordered by the upper part first.
\<close>

definition packs :: "('a::len word \<Rightarrow> 'a word \<Rightarrow> 'a word) \<Rightarrow> ('a word \<Rightarrow> 'a word) \<Rightarrow> ('a word \<Rightarrow> 'a word) \<Rightarrow> nat \<Rightarrow> nat \<Rightarrow> bool" where
  "packs join hi lo h l \<longleftrightarrow>
    bij_betw (\<lambda>(a, b). join a b) {(a, b). fits h a \<and> fits l b} {c. fits (h + l) c} \<and>
    (\<forall>a b. fits h a \<and> fits l b \<longrightarrow> hi (join a b) = a \<and> lo (join a b) = b) \<and>
    (\<forall>a b a' b'. fits h a \<and> fits l b \<and> fits h a' \<and> fits l b' \<longrightarrow>
      (join a b < join a' b' \<longleftrightarrow> a < a' \<or> a = a' \<and> b < b'))"

locale packed_pair =
  fixes join :: "'a::len word \<Rightarrow> 'a word \<Rightarrow> 'a word"
    and hi lo :: "'a word \<Rightarrow> 'a word"
    and h l :: nat
  assumes hi_join: "fits h a \<Longrightarrow> fits l b \<Longrightarrow> hi (join a b) = a"
    and lo_join: "fits h a \<Longrightarrow> fits l b \<Longrightarrow> lo (join a b) = b"
    and fits_join: "fits h a \<Longrightarrow> fits l b \<Longrightarrow> fits (h + l) (join a b)"
    and fits_hi: "fits (h + l) c \<Longrightarrow> fits h (hi c)"
    and fits_lo: "fits (h + l) c \<Longrightarrow> fits l (lo c)"
    and join_split: "fits (h + l) c \<Longrightarrow> join (hi c) (lo c) = c"
    and join_less: "fits h a \<Longrightarrow> fits l b \<Longrightarrow> fits h a' \<Longrightarrow> fits l b' \<Longrightarrow>
      join a b < join a' b' \<longleftrightarrow> a < a' \<or> a = a' \<and> b < b'"
begin

lemma join_inject:
  "fits h a \<Longrightarrow> fits l b \<Longrightarrow> fits h a' \<Longrightarrow> fits l b' \<Longrightarrow> join a b = join a' b' \<longleftrightarrow> a = a' \<and> b = b'"
  by (metis hi_join lo_join)

lemma split_inject:
  "fits (h + l) c \<Longrightarrow> fits (h + l) c' \<Longrightarrow> hi c = hi c' \<Longrightarrow> lo c = lo c' \<Longrightarrow> c = c'"
  by (metis join_split)

lemma bijective: "bij_betw (\<lambda>(a, b). join a b) {(a, b). fits h a \<and> fits l b} {c. fits (h + l) c}"
  by (rule bij_betw_byWitness [where f' = "\<lambda>c. (hi c, lo c)"])
    (auto simp add: hi_join lo_join fits_join fits_hi fits_lo join_split)

lemma packs: "packs join hi lo h l"
  unfolding packs_def using bijective hi_join lo_join join_less by blast

lemma change_lo: "fits (h + l) c \<Longrightarrow> fits l b \<Longrightarrow> hi (join (hi c) b) = hi c \<and> lo (join (hi c) b) = b"
  by (simp add: hi_join lo_join fits_hi)

end

text \<open>Macros that shift the upper part and mask, or not, satisfy the contract.\<close>

lemma packed_pairI:
  fixes join :: "'a::len word \<Rightarrow> 'a word \<Rightarrow> 'a word"
  assumes len: "h + l \<le> LENGTH('a)"
    and join: "\<And>a b. fits h a \<Longrightarrow> fits l b \<Longrightarrow> join a b = push_bit l a OR b"
    and hi: "\<And>c. fits (h + l) c \<Longrightarrow> hi c = field_at l h c"
    and lo: "\<And>c. fits (h + l) c \<Longrightarrow> lo c = field_at 0 l c"
  shows "packed_pair join hi lo h l"
proof
  fix a b :: "'a word" assume ab: "fits h a" "fits l b"
  then have f: "fits (h + l) (push_bit l a OR b)" using len by (simp add: place_or_fits)
  have j: "push_bit l a OR b = place l h a OR place 0 l b"
    using ab by (simp add: push_bit_place low_place [symmetric])
  show "fits (h + l) (join a b)" using f ab by (simp add: join)
  show "hi (join a b) = a" using f ab len by (simp add: join hi) (simp add: j fields fits_and_mask)
  show "lo (join a b) = b" using f ab len by (simp add: join lo) (simp add: j fields fits_and_mask)
next
  fix c :: "'a word" assume c: "fits (h + l) c"
  show f: "fits h (hi c)" "fits l (lo c)" using c by (simp_all add: hi lo fits_bits bit_field_at)
  have "push_bit l (field_at l h c) OR field_at 0 l c = c"
    using fits_bitD [OF c] by (intro bit_word_eqI) (fastforce simp add: bit_simps bit_field_at)
  then show "join (hi c) (lo c) = c" using c f by (simp add: join) (simp add: hi lo)
qed (simp add: join joined_less [OF _ _ _ _ len])

section \<open>Three parts\<close>

text \<open>Version numbers and identifiers of three parts are told apart and ordered part by part.\<close>

locale packed_triple =
  fixes join3 :: "'a::len word \<Rightarrow> 'a word \<Rightarrow> 'a word \<Rightarrow> 'a word"
    and part1 part2 part3 :: "'a word \<Rightarrow> 'a word"
    and n1 n2 n3 :: nat
  assumes parts: "fits n1 a \<Longrightarrow> fits n2 b \<Longrightarrow> fits n3 c \<Longrightarrow>
      part1 (join3 a b c) = a \<and> part2 (join3 a b c) = b \<and> part3 (join3 a b c) = c"
    and order: "fits n1 a \<Longrightarrow> fits n2 b \<Longrightarrow> fits n3 c \<Longrightarrow> fits n1 a' \<Longrightarrow> fits n2 b' \<Longrightarrow> fits n3 c' \<Longrightarrow>
      join3 a b c < join3 a' b' c' \<longleftrightarrow> a < a' \<or> a = a' \<and> (b < b' \<or> b = b' \<and> c < c')"
begin

lemma join3_inject:
  "fits n1 a \<Longrightarrow> fits n2 b \<Longrightarrow> fits n3 c \<Longrightarrow> fits n1 a' \<Longrightarrow> fits n2 b' \<Longrightarrow> fits n3 c' \<Longrightarrow>
    join3 a b c = join3 a' b' c' \<longleftrightarrow> a = a' \<and> b = b' \<and> c = c'"
  by (metis parts)

end

lemma packed_tripleI:
  fixes join3 :: "'a::len word \<Rightarrow> 'a word \<Rightarrow> 'a word \<Rightarrow> 'a word"
  assumes len: "n1 + (n2 + n3) \<le> LENGTH('a)"
    and join: "\<And>a b c. fits n1 a \<Longrightarrow> fits n2 b \<Longrightarrow> fits n3 c \<Longrightarrow>
      join3 a b c = push_bit (n2 + n3) a OR (push_bit n3 b OR c)"
    and p1: "\<And>x. fits (n1 + (n2 + n3)) x \<Longrightarrow> part1 x = field_at (n2 + n3) n1 x"
    and p2: "\<And>x. part2 x = field_at n3 n2 x"
    and p3: "\<And>x. part3 x = field_at 0 n3 x"
  shows "packed_triple join3 part1 part2 part3 n1 n2 n3"
proof
  fix a b c :: "'a word" assume abc: "fits n1 a" "fits n2 b" "fits n3 c"
  have bc: "fits (n2 + n3) (push_bit n3 b OR c)" using abc len by (intro place_or_fits) simp_all
  have f: "fits (n1 + (n2 + n3)) (join3 a b c)" using place_or_fits [OF abc(1) bc len] abc by (simp add: join)
  have j: "join3 a b c = place (n2 + n3) n1 a OR (place n3 n2 b OR place 0 n3 c)"
    using abc by (simp add: join push_bit_place low_place [symmetric])
  show "part1 (join3 a b c) = a \<and> part2 (join3 a b c) = b \<and> part3 (join3 a b c) = c"
    using f len abc by (simp add: p1 p2 p3) (simp add: j fields fits_and_mask)
  fix a' b' c' :: "'a word" assume abc': "fits n1 a'" "fits n2 b'" "fits n3 c'"
  have bc': "fits (n2 + n3) (push_bit n3 b' OR c')" using abc' len by (intro place_or_fits) simp_all
  have "n2 + n3 \<le> LENGTH('a)" using len by simp
  from joined_less [OF abc(2,3) abc'(2,3) this] joined_less [OF abc(1) bc abc'(1) bc' len]
  show "join3 a b c < join3 a' b' c' \<longleftrightarrow> a < a' \<or> a = a' \<and> (b < b' \<or> b = b' \<and> c < c')"
    using abc abc' by (simp add: join)
qed

lemma or_zero_iff: "a OR b = 0 \<longleftrightarrow> a = 0 \<and> b = (0 :: 'a::len word)"
  by (auto simp add: bit_eq_iff bit_or_iff)

text \<open>A test of one bit.\<close>

lemma and_one_bit: "x AND push_bit i 1 \<noteq> 0 \<longleftrightarrow> bit (x :: 'a::len word) i"
proof -
  have "x AND push_bit i 1 \<noteq> 0 \<longleftrightarrow> (\<exists>k. bit (x AND push_bit i 1) k)"
    by (metis bit_0_eq bit_word_eqI bot_apply bot_bool_def)
  then show ?thesis by (auto simp add: bit_and_iff bit_exp_iff dest: bit_imp_le_length)
qed

text \<open>The masks of the headers.\<close>

lemma u32_masks:
  "(0x7 :: u32) = mask 3" "(0xf :: u32) = mask 4" "(0x1f :: u32) = mask 5" "(0x3f :: u32) = mask 6" "(0xff :: u32) = mask 8"
  "(0x1ff :: u32) = mask 9" "(0x3ff :: u32) = mask 10" "(0xfff :: u32) = mask 12" "(0x3fff :: u32) = mask 14"
  "(0xffff :: u32) = mask 16" "(0xfffff :: u32) = mask 20" "(0xffffff :: u32) = mask 24"
  by (simp_all add: mask_eq_exp_minus_1)

lemma u64_masks:
  "(0x7 :: u64) = mask 3" "(0x1fff :: u64) = mask 13" "(0xffff :: u64) = mask 16" "(0x7fff :: u64) = mask 15"
  "(0x1f :: u64) = mask 5" "(0x7f :: u64) = mask 7" "(0xff :: u64) = mask 8" "(0x1 :: u64) = mask 1"
  "(0xffffffff :: u64) = mask 32"
  by (simp_all add: mask_eq_exp_minus_1)

lemma field_at_top: "fits (h + l) c \<Longrightarrow> drop_bit l c = field_at l h (c :: 'a::len word)"
  by (rule bit_word_eqI) (auto simp add: bit_field_at bit_simps fits_bits not_le intro: ccontr)

lemma field_at_low: "c AND mask l = field_at 0 l c"
  by (simp add: field_at_def)

lemma disjoint_plus: "fits l b \<Longrightarrow> push_bit l a + b = push_bit l a OR (b :: 'a::len word)"
  by (rule disjunctive_add) (auto simp add: bit_simps fits_bits not_le)

section \<open>Getters and setters\<close>

text \<open>
  Fields behind a pair of accessor functions, as several headers define them by hand: a getter, and a
  setter that clears the field and inserts a value, of which it keeps what fits (\<open>clip\<close>). The laws of the
  locale \<open>accessor\<close> are what a caller relies on; \<open>separate_accessors\<close> adds that two fields do not disturb
  each other. The headers' accessors interpret them.
\<close>

lemma unat_and_mask: "unat (x AND mask n) = unat (x :: 'a::len word) mod 2 ^ n"
proof -
  have "unat (x AND mask n) = take_bit n (unat x)"
    by (simp only: unsigned_take_bit_eq flip: take_bit_eq_mask)
  then show ?thesis by (simp only: take_bit_eq_mod)
qed

locale accessor =
  fixes get :: "'s \<Rightarrow> 'v"
    and put :: "'s \<Rightarrow> 'v \<Rightarrow> 's"
    and clip :: "'v \<Rightarrow> 'v"
  assumes get_put: "get (put s v) = clip v"
    and put_get: "put s (get s) = s"
    and put_put: "put (put s v) w = put s w"
begin

lemma clip_get: "clip (get s) = get s"
  using get_put [of s "get s"] by (simp add: put_get)

lemma put_clip: "put s (clip v) = put s v"
  by (metis get_put put_get put_put)

lemma put_eq_iff: "put s v = put s w \<longleftrightarrow> clip v = clip w"
  by (metis get_put put_clip)

lemma eq_by_field: "put s v = put t v \<Longrightarrow> get s = get t \<Longrightarrow> s = t"
  by (metis put_get put_put)

end

locale separate_accessors = f: accessor get put clip + g: accessor get' put' clip'
  for get :: "'s \<Rightarrow> 'v" and put :: "'s \<Rightarrow> 'v \<Rightarrow> 's" and clip :: "'v \<Rightarrow> 'v"
    and get' :: "'s \<Rightarrow> 'w" and put' :: "'s \<Rightarrow> 'w \<Rightarrow> 's" and clip' :: "'w \<Rightarrow> 'w" +
  assumes put_commute: "put (put' s b) a = put' (put s a) b"
begin

lemma get_other: "get (put' s b) = get s"
  by (metis f.get_put f.put_get f.clip_get put_commute)

lemma get'_other: "get' (put s a) = get' s"
  by (metis g.get_put g.put_get g.clip_get put_commute)

lemma both: "get (put (put' s b) a) = clip a" "get' (put (put' s b) a) = clip' b"
  by (simp_all add: f.get_put g.get_put get'_other)

end

end
