(* ===== verification/Drm_Fourcc.thy ===== *)
theory Drm_Fourcc
  imports Packed_Codes
begin

text \<open>
  Pixel formats and format modifiers, \<^verbatim>\<open>include/drm/drm_fourcc.h\<close>. A format is four characters in a 32-bit word;
  a modifier is a vendor in the top byte and 56 bits that the vendor defines. Macros with a vendor or a
  field pasted into names are definitions with the vendor's number or the field as an argument.
\<close>

section \<open>Formats\<close>

definition fourcc_code :: "char \<Rightarrow> char \<Rightarrow> char \<Rightarrow> char \<Rightarrow> u32" where
  "fourcc_code a b c d =
     of_char a OR push_bit 8 (of_char b) OR push_bit 16 (of_char c) OR push_bit 24 (of_char d)"

definition DRM_FORMAT_BIG_ENDIAN :: u32 where
  "DRM_FORMAT_BIG_ENDIAN = push_bit 31 1"

definition DRM_FORMAT_INVALID :: u32 where
  "DRM_FORMAT_INVALID = 0"

definition DRM_FORMAT_C8 :: u32 where
  "DRM_FORMAT_C8 = fourcc_code (CHR ''C'') (CHR ''8'') (CHR 0x20) (CHR 0x20)"

definition DRM_FORMAT_R8 :: u32 where
  "DRM_FORMAT_R8 = fourcc_code (CHR ''R'') (CHR ''8'') (CHR 0x20) (CHR 0x20)"

definition DRM_FORMAT_R16 :: u32 where
  "DRM_FORMAT_R16 = fourcc_code (CHR ''R'') (CHR ''1'') (CHR ''6'') (CHR 0x20)"

definition DRM_FORMAT_RG88 :: u32 where
  "DRM_FORMAT_RG88 = fourcc_code (CHR ''R'') (CHR ''G'') (CHR ''8'') (CHR ''8'')"

definition DRM_FORMAT_GR88 :: u32 where
  "DRM_FORMAT_GR88 = fourcc_code (CHR ''G'') (CHR ''R'') (CHR ''8'') (CHR ''8'')"

definition DRM_FORMAT_RG1616 :: u32 where
  "DRM_FORMAT_RG1616 = fourcc_code (CHR ''R'') (CHR ''G'') (CHR ''3'') (CHR ''2'')"

definition DRM_FORMAT_GR1616 :: u32 where
  "DRM_FORMAT_GR1616 = fourcc_code (CHR ''G'') (CHR ''R'') (CHR ''3'') (CHR ''2'')"

definition DRM_FORMAT_RGB332 :: u32 where
  "DRM_FORMAT_RGB332 = fourcc_code (CHR ''R'') (CHR ''G'') (CHR ''B'') (CHR ''8'')"

definition DRM_FORMAT_BGR233 :: u32 where
  "DRM_FORMAT_BGR233 = fourcc_code (CHR ''B'') (CHR ''G'') (CHR ''R'') (CHR ''8'')"

definition DRM_FORMAT_XRGB4444 :: u32 where
  "DRM_FORMAT_XRGB4444 = fourcc_code (CHR ''X'') (CHR ''R'') (CHR ''1'') (CHR ''2'')"

definition DRM_FORMAT_XBGR4444 :: u32 where
  "DRM_FORMAT_XBGR4444 = fourcc_code (CHR ''X'') (CHR ''B'') (CHR ''1'') (CHR ''2'')"

definition DRM_FORMAT_RGBX4444 :: u32 where
  "DRM_FORMAT_RGBX4444 = fourcc_code (CHR ''R'') (CHR ''X'') (CHR ''1'') (CHR ''2'')"

definition DRM_FORMAT_BGRX4444 :: u32 where
  "DRM_FORMAT_BGRX4444 = fourcc_code (CHR ''B'') (CHR ''X'') (CHR ''1'') (CHR ''2'')"

definition DRM_FORMAT_ARGB4444 :: u32 where
  "DRM_FORMAT_ARGB4444 = fourcc_code (CHR ''A'') (CHR ''R'') (CHR ''1'') (CHR ''2'')"

definition DRM_FORMAT_ABGR4444 :: u32 where
  "DRM_FORMAT_ABGR4444 = fourcc_code (CHR ''A'') (CHR ''B'') (CHR ''1'') (CHR ''2'')"

definition DRM_FORMAT_RGBA4444 :: u32 where
  "DRM_FORMAT_RGBA4444 = fourcc_code (CHR ''R'') (CHR ''A'') (CHR ''1'') (CHR ''2'')"

definition DRM_FORMAT_BGRA4444 :: u32 where
  "DRM_FORMAT_BGRA4444 = fourcc_code (CHR ''B'') (CHR ''A'') (CHR ''1'') (CHR ''2'')"

definition DRM_FORMAT_XRGB1555 :: u32 where
  "DRM_FORMAT_XRGB1555 = fourcc_code (CHR ''X'') (CHR ''R'') (CHR ''1'') (CHR ''5'')"

definition DRM_FORMAT_XBGR1555 :: u32 where
  "DRM_FORMAT_XBGR1555 = fourcc_code (CHR ''X'') (CHR ''B'') (CHR ''1'') (CHR ''5'')"

definition DRM_FORMAT_RGBX5551 :: u32 where
  "DRM_FORMAT_RGBX5551 = fourcc_code (CHR ''R'') (CHR ''X'') (CHR ''1'') (CHR ''5'')"

definition DRM_FORMAT_BGRX5551 :: u32 where
  "DRM_FORMAT_BGRX5551 = fourcc_code (CHR ''B'') (CHR ''X'') (CHR ''1'') (CHR ''5'')"

definition DRM_FORMAT_ARGB1555 :: u32 where
  "DRM_FORMAT_ARGB1555 = fourcc_code (CHR ''A'') (CHR ''R'') (CHR ''1'') (CHR ''5'')"

definition DRM_FORMAT_ABGR1555 :: u32 where
  "DRM_FORMAT_ABGR1555 = fourcc_code (CHR ''A'') (CHR ''B'') (CHR ''1'') (CHR ''5'')"

definition DRM_FORMAT_RGBA5551 :: u32 where
  "DRM_FORMAT_RGBA5551 = fourcc_code (CHR ''R'') (CHR ''A'') (CHR ''1'') (CHR ''5'')"

definition DRM_FORMAT_BGRA5551 :: u32 where
  "DRM_FORMAT_BGRA5551 = fourcc_code (CHR ''B'') (CHR ''A'') (CHR ''1'') (CHR ''5'')"

definition DRM_FORMAT_RGB565 :: u32 where
  "DRM_FORMAT_RGB565 = fourcc_code (CHR ''R'') (CHR ''G'') (CHR ''1'') (CHR ''6'')"

definition DRM_FORMAT_BGR565 :: u32 where
  "DRM_FORMAT_BGR565 = fourcc_code (CHR ''B'') (CHR ''G'') (CHR ''1'') (CHR ''6'')"

definition DRM_FORMAT_RGB888 :: u32 where
  "DRM_FORMAT_RGB888 = fourcc_code (CHR ''R'') (CHR ''G'') (CHR ''2'') (CHR ''4'')"

definition DRM_FORMAT_BGR888 :: u32 where
  "DRM_FORMAT_BGR888 = fourcc_code (CHR ''B'') (CHR ''G'') (CHR ''2'') (CHR ''4'')"

definition DRM_FORMAT_XRGB8888 :: u32 where
  "DRM_FORMAT_XRGB8888 = fourcc_code (CHR ''X'') (CHR ''R'') (CHR ''2'') (CHR ''4'')"

definition DRM_FORMAT_XBGR8888 :: u32 where
  "DRM_FORMAT_XBGR8888 = fourcc_code (CHR ''X'') (CHR ''B'') (CHR ''2'') (CHR ''4'')"

definition DRM_FORMAT_RGBX8888 :: u32 where
  "DRM_FORMAT_RGBX8888 = fourcc_code (CHR ''R'') (CHR ''X'') (CHR ''2'') (CHR ''4'')"

definition DRM_FORMAT_BGRX8888 :: u32 where
  "DRM_FORMAT_BGRX8888 = fourcc_code (CHR ''B'') (CHR ''X'') (CHR ''2'') (CHR ''4'')"

definition DRM_FORMAT_ARGB8888 :: u32 where
  "DRM_FORMAT_ARGB8888 = fourcc_code (CHR ''A'') (CHR ''R'') (CHR ''2'') (CHR ''4'')"

definition DRM_FORMAT_ABGR8888 :: u32 where
  "DRM_FORMAT_ABGR8888 = fourcc_code (CHR ''A'') (CHR ''B'') (CHR ''2'') (CHR ''4'')"

definition DRM_FORMAT_RGBA8888 :: u32 where
  "DRM_FORMAT_RGBA8888 = fourcc_code (CHR ''R'') (CHR ''A'') (CHR ''2'') (CHR ''4'')"

definition DRM_FORMAT_BGRA8888 :: u32 where
  "DRM_FORMAT_BGRA8888 = fourcc_code (CHR ''B'') (CHR ''A'') (CHR ''2'') (CHR ''4'')"

definition DRM_FORMAT_XRGB2101010 :: u32 where
  "DRM_FORMAT_XRGB2101010 = fourcc_code (CHR ''X'') (CHR ''R'') (CHR ''3'') (CHR ''0'')"

definition DRM_FORMAT_XBGR2101010 :: u32 where
  "DRM_FORMAT_XBGR2101010 = fourcc_code (CHR ''X'') (CHR ''B'') (CHR ''3'') (CHR ''0'')"

definition DRM_FORMAT_RGBX1010102 :: u32 where
  "DRM_FORMAT_RGBX1010102 = fourcc_code (CHR ''R'') (CHR ''X'') (CHR ''3'') (CHR ''0'')"

definition DRM_FORMAT_BGRX1010102 :: u32 where
  "DRM_FORMAT_BGRX1010102 = fourcc_code (CHR ''B'') (CHR ''X'') (CHR ''3'') (CHR ''0'')"

definition DRM_FORMAT_ARGB2101010 :: u32 where
  "DRM_FORMAT_ARGB2101010 = fourcc_code (CHR ''A'') (CHR ''R'') (CHR ''3'') (CHR ''0'')"

definition DRM_FORMAT_ABGR2101010 :: u32 where
  "DRM_FORMAT_ABGR2101010 = fourcc_code (CHR ''A'') (CHR ''B'') (CHR ''3'') (CHR ''0'')"

definition DRM_FORMAT_RGBA1010102 :: u32 where
  "DRM_FORMAT_RGBA1010102 = fourcc_code (CHR ''R'') (CHR ''A'') (CHR ''3'') (CHR ''0'')"

definition DRM_FORMAT_BGRA1010102 :: u32 where
  "DRM_FORMAT_BGRA1010102 = fourcc_code (CHR ''B'') (CHR ''A'') (CHR ''3'') (CHR ''0'')"

definition DRM_FORMAT_XRGB16161616 :: u32 where
  "DRM_FORMAT_XRGB16161616 = fourcc_code (CHR ''X'') (CHR ''R'') (CHR ''4'') (CHR ''8'')"

definition DRM_FORMAT_XBGR16161616 :: u32 where
  "DRM_FORMAT_XBGR16161616 = fourcc_code (CHR ''X'') (CHR ''B'') (CHR ''4'') (CHR ''8'')"

definition DRM_FORMAT_ARGB16161616 :: u32 where
  "DRM_FORMAT_ARGB16161616 = fourcc_code (CHR ''A'') (CHR ''R'') (CHR ''4'') (CHR ''8'')"

definition DRM_FORMAT_ABGR16161616 :: u32 where
  "DRM_FORMAT_ABGR16161616 = fourcc_code (CHR ''A'') (CHR ''B'') (CHR ''4'') (CHR ''8'')"

definition DRM_FORMAT_XRGB16161616F :: u32 where
  "DRM_FORMAT_XRGB16161616F = fourcc_code (CHR ''X'') (CHR ''R'') (CHR ''4'') (CHR ''H'')"

definition DRM_FORMAT_XBGR16161616F :: u32 where
  "DRM_FORMAT_XBGR16161616F = fourcc_code (CHR ''X'') (CHR ''B'') (CHR ''4'') (CHR ''H'')"

definition DRM_FORMAT_ARGB16161616F :: u32 where
  "DRM_FORMAT_ARGB16161616F = fourcc_code (CHR ''A'') (CHR ''R'') (CHR ''4'') (CHR ''H'')"

definition DRM_FORMAT_ABGR16161616F :: u32 where
  "DRM_FORMAT_ABGR16161616F = fourcc_code (CHR ''A'') (CHR ''B'') (CHR ''4'') (CHR ''H'')"

definition DRM_FORMAT_AXBXGXRX106106106106 :: u32 where
  "DRM_FORMAT_AXBXGXRX106106106106 = fourcc_code (CHR ''A'') (CHR ''B'') (CHR ''1'') (CHR ''0'')"

definition DRM_FORMAT_YUYV :: u32 where
  "DRM_FORMAT_YUYV = fourcc_code (CHR ''Y'') (CHR ''U'') (CHR ''Y'') (CHR ''V'')"

definition DRM_FORMAT_YVYU :: u32 where
  "DRM_FORMAT_YVYU = fourcc_code (CHR ''Y'') (CHR ''V'') (CHR ''Y'') (CHR ''U'')"

definition DRM_FORMAT_UYVY :: u32 where
  "DRM_FORMAT_UYVY = fourcc_code (CHR ''U'') (CHR ''Y'') (CHR ''V'') (CHR ''Y'')"

definition DRM_FORMAT_VYUY :: u32 where
  "DRM_FORMAT_VYUY = fourcc_code (CHR ''V'') (CHR ''Y'') (CHR ''U'') (CHR ''Y'')"

definition DRM_FORMAT_AYUV :: u32 where
  "DRM_FORMAT_AYUV = fourcc_code (CHR ''A'') (CHR ''Y'') (CHR ''U'') (CHR ''V'')"

definition DRM_FORMAT_XYUV8888 :: u32 where
  "DRM_FORMAT_XYUV8888 = fourcc_code (CHR ''X'') (CHR ''Y'') (CHR ''U'') (CHR ''V'')"

definition DRM_FORMAT_VUY888 :: u32 where
  "DRM_FORMAT_VUY888 = fourcc_code (CHR ''V'') (CHR ''U'') (CHR ''2'') (CHR ''4'')"

definition DRM_FORMAT_VUY101010 :: u32 where
  "DRM_FORMAT_VUY101010 = fourcc_code (CHR ''V'') (CHR ''U'') (CHR ''3'') (CHR ''0'')"

definition DRM_FORMAT_Y210 :: u32 where
  "DRM_FORMAT_Y210 = fourcc_code (CHR ''Y'') (CHR ''2'') (CHR ''1'') (CHR ''0'')"

definition DRM_FORMAT_Y212 :: u32 where
  "DRM_FORMAT_Y212 = fourcc_code (CHR ''Y'') (CHR ''2'') (CHR ''1'') (CHR ''2'')"

definition DRM_FORMAT_Y216 :: u32 where
  "DRM_FORMAT_Y216 = fourcc_code (CHR ''Y'') (CHR ''2'') (CHR ''1'') (CHR ''6'')"

definition DRM_FORMAT_Y410 :: u32 where
  "DRM_FORMAT_Y410 = fourcc_code (CHR ''Y'') (CHR ''4'') (CHR ''1'') (CHR ''0'')"

definition DRM_FORMAT_Y412 :: u32 where
  "DRM_FORMAT_Y412 = fourcc_code (CHR ''Y'') (CHR ''4'') (CHR ''1'') (CHR ''2'')"

definition DRM_FORMAT_Y416 :: u32 where
  "DRM_FORMAT_Y416 = fourcc_code (CHR ''Y'') (CHR ''4'') (CHR ''1'') (CHR ''6'')"

definition DRM_FORMAT_XVYU2101010 :: u32 where
  "DRM_FORMAT_XVYU2101010 = fourcc_code (CHR ''X'') (CHR ''V'') (CHR ''3'') (CHR ''0'')"

definition DRM_FORMAT_XVYU12_16161616 :: u32 where
  "DRM_FORMAT_XVYU12_16161616 = fourcc_code (CHR ''X'') (CHR ''V'') (CHR ''3'') (CHR ''6'')"

definition DRM_FORMAT_XVYU16161616 :: u32 where
  "DRM_FORMAT_XVYU16161616 = fourcc_code (CHR ''X'') (CHR ''V'') (CHR ''4'') (CHR ''8'')"

definition DRM_FORMAT_Y0L0 :: u32 where
  "DRM_FORMAT_Y0L0 = fourcc_code (CHR ''Y'') (CHR ''0'') (CHR ''L'') (CHR ''0'')"

definition DRM_FORMAT_X0L0 :: u32 where
  "DRM_FORMAT_X0L0 = fourcc_code (CHR ''X'') (CHR ''0'') (CHR ''L'') (CHR ''0'')"

definition DRM_FORMAT_Y0L2 :: u32 where
  "DRM_FORMAT_Y0L2 = fourcc_code (CHR ''Y'') (CHR ''0'') (CHR ''L'') (CHR ''2'')"

definition DRM_FORMAT_X0L2 :: u32 where
  "DRM_FORMAT_X0L2 = fourcc_code (CHR ''X'') (CHR ''0'') (CHR ''L'') (CHR ''2'')"

definition DRM_FORMAT_YUV420_8BIT :: u32 where
  "DRM_FORMAT_YUV420_8BIT = fourcc_code (CHR ''Y'') (CHR ''U'') (CHR ''0'') (CHR ''8'')"

definition DRM_FORMAT_YUV420_10BIT :: u32 where
  "DRM_FORMAT_YUV420_10BIT = fourcc_code (CHR ''Y'') (CHR ''U'') (CHR ''1'') (CHR ''0'')"

definition DRM_FORMAT_XRGB8888_A8 :: u32 where
  "DRM_FORMAT_XRGB8888_A8 = fourcc_code (CHR ''X'') (CHR ''R'') (CHR ''A'') (CHR ''8'')"

definition DRM_FORMAT_XBGR8888_A8 :: u32 where
  "DRM_FORMAT_XBGR8888_A8 = fourcc_code (CHR ''X'') (CHR ''B'') (CHR ''A'') (CHR ''8'')"

definition DRM_FORMAT_RGBX8888_A8 :: u32 where
  "DRM_FORMAT_RGBX8888_A8 = fourcc_code (CHR ''R'') (CHR ''X'') (CHR ''A'') (CHR ''8'')"

definition DRM_FORMAT_BGRX8888_A8 :: u32 where
  "DRM_FORMAT_BGRX8888_A8 = fourcc_code (CHR ''B'') (CHR ''X'') (CHR ''A'') (CHR ''8'')"

definition DRM_FORMAT_RGB888_A8 :: u32 where
  "DRM_FORMAT_RGB888_A8 = fourcc_code (CHR ''R'') (CHR ''8'') (CHR ''A'') (CHR ''8'')"

definition DRM_FORMAT_BGR888_A8 :: u32 where
  "DRM_FORMAT_BGR888_A8 = fourcc_code (CHR ''B'') (CHR ''8'') (CHR ''A'') (CHR ''8'')"

definition DRM_FORMAT_RGB565_A8 :: u32 where
  "DRM_FORMAT_RGB565_A8 = fourcc_code (CHR ''R'') (CHR ''5'') (CHR ''A'') (CHR ''8'')"

definition DRM_FORMAT_BGR565_A8 :: u32 where
  "DRM_FORMAT_BGR565_A8 = fourcc_code (CHR ''B'') (CHR ''5'') (CHR ''A'') (CHR ''8'')"

definition DRM_FORMAT_NV12 :: u32 where
  "DRM_FORMAT_NV12 = fourcc_code (CHR ''N'') (CHR ''V'') (CHR ''1'') (CHR ''2'')"

definition DRM_FORMAT_NV21 :: u32 where
  "DRM_FORMAT_NV21 = fourcc_code (CHR ''N'') (CHR ''V'') (CHR ''2'') (CHR ''1'')"

definition DRM_FORMAT_NV16 :: u32 where
  "DRM_FORMAT_NV16 = fourcc_code (CHR ''N'') (CHR ''V'') (CHR ''1'') (CHR ''6'')"

definition DRM_FORMAT_NV61 :: u32 where
  "DRM_FORMAT_NV61 = fourcc_code (CHR ''N'') (CHR ''V'') (CHR ''6'') (CHR ''1'')"

definition DRM_FORMAT_NV24 :: u32 where
  "DRM_FORMAT_NV24 = fourcc_code (CHR ''N'') (CHR ''V'') (CHR ''2'') (CHR ''4'')"

definition DRM_FORMAT_NV42 :: u32 where
  "DRM_FORMAT_NV42 = fourcc_code (CHR ''N'') (CHR ''V'') (CHR ''4'') (CHR ''2'')"

definition DRM_FORMAT_NV15 :: u32 where
  "DRM_FORMAT_NV15 = fourcc_code (CHR ''N'') (CHR ''V'') (CHR ''1'') (CHR ''5'')"

definition DRM_FORMAT_P210 :: u32 where
  "DRM_FORMAT_P210 = fourcc_code (CHR ''P'') (CHR ''2'') (CHR ''1'') (CHR ''0'')"

definition DRM_FORMAT_P010 :: u32 where
  "DRM_FORMAT_P010 = fourcc_code (CHR ''P'') (CHR ''0'') (CHR ''1'') (CHR ''0'')"

definition DRM_FORMAT_P012 :: u32 where
  "DRM_FORMAT_P012 = fourcc_code (CHR ''P'') (CHR ''0'') (CHR ''1'') (CHR ''2'')"

definition DRM_FORMAT_P016 :: u32 where
  "DRM_FORMAT_P016 = fourcc_code (CHR ''P'') (CHR ''0'') (CHR ''1'') (CHR ''6'')"

definition DRM_FORMAT_P030 :: u32 where
  "DRM_FORMAT_P030 = fourcc_code (CHR ''P'') (CHR ''0'') (CHR ''3'') (CHR ''0'')"

definition DRM_FORMAT_Q410 :: u32 where
  "DRM_FORMAT_Q410 = fourcc_code (CHR ''Q'') (CHR ''4'') (CHR ''1'') (CHR ''0'')"

definition DRM_FORMAT_Q401 :: u32 where
  "DRM_FORMAT_Q401 = fourcc_code (CHR ''Q'') (CHR ''4'') (CHR ''0'') (CHR ''1'')"

definition DRM_FORMAT_YUV410 :: u32 where
  "DRM_FORMAT_YUV410 = fourcc_code (CHR ''Y'') (CHR ''U'') (CHR ''V'') (CHR ''9'')"

definition DRM_FORMAT_YVU410 :: u32 where
  "DRM_FORMAT_YVU410 = fourcc_code (CHR ''Y'') (CHR ''V'') (CHR ''U'') (CHR ''9'')"

definition DRM_FORMAT_YUV411 :: u32 where
  "DRM_FORMAT_YUV411 = fourcc_code (CHR ''Y'') (CHR ''U'') (CHR ''1'') (CHR ''1'')"

definition DRM_FORMAT_YVU411 :: u32 where
  "DRM_FORMAT_YVU411 = fourcc_code (CHR ''Y'') (CHR ''V'') (CHR ''1'') (CHR ''1'')"

definition DRM_FORMAT_YUV420 :: u32 where
  "DRM_FORMAT_YUV420 = fourcc_code (CHR ''Y'') (CHR ''U'') (CHR ''1'') (CHR ''2'')"

definition DRM_FORMAT_YVU420 :: u32 where
  "DRM_FORMAT_YVU420 = fourcc_code (CHR ''Y'') (CHR ''V'') (CHR ''1'') (CHR ''2'')"

definition DRM_FORMAT_YUV422 :: u32 where
  "DRM_FORMAT_YUV422 = fourcc_code (CHR ''Y'') (CHR ''U'') (CHR ''1'') (CHR ''6'')"

definition DRM_FORMAT_YVU422 :: u32 where
  "DRM_FORMAT_YVU422 = fourcc_code (CHR ''Y'') (CHR ''V'') (CHR ''1'') (CHR ''6'')"

definition DRM_FORMAT_YUV444 :: u32 where
  "DRM_FORMAT_YUV444 = fourcc_code (CHR ''Y'') (CHR ''U'') (CHR ''2'') (CHR ''4'')"

definition DRM_FORMAT_YVU444 :: u32 where
  "DRM_FORMAT_YVU444 = fourcc_code (CHR ''Y'') (CHR ''V'') (CHR ''2'') (CHR ''4'')"

definition drm_formats :: "u32 list" where
  "drm_formats = [
     DRM_FORMAT_C8, DRM_FORMAT_R8, DRM_FORMAT_R16, DRM_FORMAT_RG88,
     DRM_FORMAT_GR88, DRM_FORMAT_RG1616, DRM_FORMAT_GR1616, DRM_FORMAT_RGB332,
     DRM_FORMAT_BGR233, DRM_FORMAT_XRGB4444, DRM_FORMAT_XBGR4444, DRM_FORMAT_RGBX4444,
     DRM_FORMAT_BGRX4444, DRM_FORMAT_ARGB4444, DRM_FORMAT_ABGR4444, DRM_FORMAT_RGBA4444,
     DRM_FORMAT_BGRA4444, DRM_FORMAT_XRGB1555, DRM_FORMAT_XBGR1555, DRM_FORMAT_RGBX5551,
     DRM_FORMAT_BGRX5551, DRM_FORMAT_ARGB1555, DRM_FORMAT_ABGR1555, DRM_FORMAT_RGBA5551,
     DRM_FORMAT_BGRA5551, DRM_FORMAT_RGB565, DRM_FORMAT_BGR565, DRM_FORMAT_RGB888,
     DRM_FORMAT_BGR888, DRM_FORMAT_XRGB8888, DRM_FORMAT_XBGR8888, DRM_FORMAT_RGBX8888,
     DRM_FORMAT_BGRX8888, DRM_FORMAT_ARGB8888, DRM_FORMAT_ABGR8888, DRM_FORMAT_RGBA8888,
     DRM_FORMAT_BGRA8888, DRM_FORMAT_XRGB2101010, DRM_FORMAT_XBGR2101010, DRM_FORMAT_RGBX1010102,
     DRM_FORMAT_BGRX1010102, DRM_FORMAT_ARGB2101010, DRM_FORMAT_ABGR2101010, DRM_FORMAT_RGBA1010102,
     DRM_FORMAT_BGRA1010102, DRM_FORMAT_XRGB16161616, DRM_FORMAT_XBGR16161616, DRM_FORMAT_ARGB16161616,
     DRM_FORMAT_ABGR16161616, DRM_FORMAT_XRGB16161616F, DRM_FORMAT_XBGR16161616F, DRM_FORMAT_ARGB16161616F,
     DRM_FORMAT_ABGR16161616F, DRM_FORMAT_AXBXGXRX106106106106, DRM_FORMAT_YUYV, DRM_FORMAT_YVYU,
     DRM_FORMAT_UYVY, DRM_FORMAT_VYUY, DRM_FORMAT_AYUV, DRM_FORMAT_XYUV8888,
     DRM_FORMAT_VUY888, DRM_FORMAT_VUY101010, DRM_FORMAT_Y210, DRM_FORMAT_Y212,
     DRM_FORMAT_Y216, DRM_FORMAT_Y410, DRM_FORMAT_Y412, DRM_FORMAT_Y416,
     DRM_FORMAT_XVYU2101010, DRM_FORMAT_XVYU12_16161616, DRM_FORMAT_XVYU16161616, DRM_FORMAT_Y0L0,
     DRM_FORMAT_X0L0, DRM_FORMAT_Y0L2, DRM_FORMAT_X0L2, DRM_FORMAT_YUV420_8BIT,
     DRM_FORMAT_YUV420_10BIT, DRM_FORMAT_XRGB8888_A8, DRM_FORMAT_XBGR8888_A8, DRM_FORMAT_RGBX8888_A8,
     DRM_FORMAT_BGRX8888_A8, DRM_FORMAT_RGB888_A8, DRM_FORMAT_BGR888_A8, DRM_FORMAT_RGB565_A8,
     DRM_FORMAT_BGR565_A8, DRM_FORMAT_NV12, DRM_FORMAT_NV21, DRM_FORMAT_NV16,
     DRM_FORMAT_NV61, DRM_FORMAT_NV24, DRM_FORMAT_NV42, DRM_FORMAT_NV15,
     DRM_FORMAT_P210, DRM_FORMAT_P010, DRM_FORMAT_P012, DRM_FORMAT_P016,
     DRM_FORMAT_P030, DRM_FORMAT_Q410, DRM_FORMAT_Q401, DRM_FORMAT_YUV410,
     DRM_FORMAT_YVU410, DRM_FORMAT_YUV411, DRM_FORMAT_YVU411, DRM_FORMAT_YUV420,
     DRM_FORMAT_YVU420, DRM_FORMAT_YUV422, DRM_FORMAT_YVU422, DRM_FORMAT_YUV444,
     DRM_FORMAT_YVU444]"

lemmas drm_format_codes =
  DRM_FORMAT_C8_def DRM_FORMAT_R8_def DRM_FORMAT_R16_def DRM_FORMAT_RG88_def
  DRM_FORMAT_GR88_def DRM_FORMAT_RG1616_def DRM_FORMAT_GR1616_def DRM_FORMAT_RGB332_def
  DRM_FORMAT_BGR233_def DRM_FORMAT_XRGB4444_def DRM_FORMAT_XBGR4444_def DRM_FORMAT_RGBX4444_def
  DRM_FORMAT_BGRX4444_def DRM_FORMAT_ARGB4444_def DRM_FORMAT_ABGR4444_def DRM_FORMAT_RGBA4444_def
  DRM_FORMAT_BGRA4444_def DRM_FORMAT_XRGB1555_def DRM_FORMAT_XBGR1555_def DRM_FORMAT_RGBX5551_def
  DRM_FORMAT_BGRX5551_def DRM_FORMAT_ARGB1555_def DRM_FORMAT_ABGR1555_def DRM_FORMAT_RGBA5551_def
  DRM_FORMAT_BGRA5551_def DRM_FORMAT_RGB565_def DRM_FORMAT_BGR565_def DRM_FORMAT_RGB888_def
  DRM_FORMAT_BGR888_def DRM_FORMAT_XRGB8888_def DRM_FORMAT_XBGR8888_def DRM_FORMAT_RGBX8888_def
  DRM_FORMAT_BGRX8888_def DRM_FORMAT_ARGB8888_def DRM_FORMAT_ABGR8888_def DRM_FORMAT_RGBA8888_def
  DRM_FORMAT_BGRA8888_def DRM_FORMAT_XRGB2101010_def DRM_FORMAT_XBGR2101010_def DRM_FORMAT_RGBX1010102_def
  DRM_FORMAT_BGRX1010102_def DRM_FORMAT_ARGB2101010_def DRM_FORMAT_ABGR2101010_def DRM_FORMAT_RGBA1010102_def
  DRM_FORMAT_BGRA1010102_def DRM_FORMAT_XRGB16161616_def DRM_FORMAT_XBGR16161616_def DRM_FORMAT_ARGB16161616_def
  DRM_FORMAT_ABGR16161616_def DRM_FORMAT_XRGB16161616F_def DRM_FORMAT_XBGR16161616F_def DRM_FORMAT_ARGB16161616F_def
  DRM_FORMAT_ABGR16161616F_def DRM_FORMAT_AXBXGXRX106106106106_def DRM_FORMAT_YUYV_def DRM_FORMAT_YVYU_def
  DRM_FORMAT_UYVY_def DRM_FORMAT_VYUY_def DRM_FORMAT_AYUV_def DRM_FORMAT_XYUV8888_def
  DRM_FORMAT_VUY888_def DRM_FORMAT_VUY101010_def DRM_FORMAT_Y210_def DRM_FORMAT_Y212_def
  DRM_FORMAT_Y216_def DRM_FORMAT_Y410_def DRM_FORMAT_Y412_def DRM_FORMAT_Y416_def
  DRM_FORMAT_XVYU2101010_def DRM_FORMAT_XVYU12_16161616_def DRM_FORMAT_XVYU16161616_def DRM_FORMAT_Y0L0_def
  DRM_FORMAT_X0L0_def DRM_FORMAT_Y0L2_def DRM_FORMAT_X0L2_def DRM_FORMAT_YUV420_8BIT_def
  DRM_FORMAT_YUV420_10BIT_def DRM_FORMAT_XRGB8888_A8_def DRM_FORMAT_XBGR8888_A8_def DRM_FORMAT_RGBX8888_A8_def
  DRM_FORMAT_BGRX8888_A8_def DRM_FORMAT_RGB888_A8_def DRM_FORMAT_BGR888_A8_def DRM_FORMAT_RGB565_A8_def
  DRM_FORMAT_BGR565_A8_def DRM_FORMAT_NV12_def DRM_FORMAT_NV21_def DRM_FORMAT_NV16_def
  DRM_FORMAT_NV61_def DRM_FORMAT_NV24_def DRM_FORMAT_NV42_def DRM_FORMAT_NV15_def
  DRM_FORMAT_P210_def DRM_FORMAT_P010_def DRM_FORMAT_P012_def DRM_FORMAT_P016_def
  DRM_FORMAT_P030_def DRM_FORMAT_Q410_def DRM_FORMAT_Q401_def DRM_FORMAT_YUV410_def
  DRM_FORMAT_YVU410_def DRM_FORMAT_YUV411_def DRM_FORMAT_YVU411_def DRM_FORMAT_YUV420_def
  DRM_FORMAT_YVU420_def DRM_FORMAT_YUV422_def DRM_FORMAT_YVU422_def DRM_FORMAT_YUV444_def
  DRM_FORMAT_YVU444_def

section \<open>Modifiers\<close>

definition DRM_FORMAT_MOD_VENDOR_NONE :: u64 where "DRM_FORMAT_MOD_VENDOR_NONE = 0"
definition DRM_FORMAT_MOD_VENDOR_INTEL :: u64 where "DRM_FORMAT_MOD_VENDOR_INTEL = 1"
definition DRM_FORMAT_MOD_VENDOR_AMD :: u64 where "DRM_FORMAT_MOD_VENDOR_AMD = 0x2"
definition DRM_FORMAT_MOD_VENDOR_NVIDIA :: u64 where "DRM_FORMAT_MOD_VENDOR_NVIDIA = 0x3"
definition DRM_FORMAT_MOD_VENDOR_SAMSUNG :: u64 where "DRM_FORMAT_MOD_VENDOR_SAMSUNG = 0x4"
definition DRM_FORMAT_MOD_VENDOR_QCOM :: u64 where "DRM_FORMAT_MOD_VENDOR_QCOM = 0x5"
definition DRM_FORMAT_MOD_VENDOR_VIVANTE :: u64 where "DRM_FORMAT_MOD_VENDOR_VIVANTE = 0x6"
definition DRM_FORMAT_MOD_VENDOR_BROADCOM :: u64 where "DRM_FORMAT_MOD_VENDOR_BROADCOM = 0x7"
definition DRM_FORMAT_MOD_VENDOR_ARM :: u64 where "DRM_FORMAT_MOD_VENDOR_ARM = 0x8"
definition DRM_FORMAT_MOD_VENDOR_ALLWINNER :: u64 where "DRM_FORMAT_MOD_VENDOR_ALLWINNER = 0x9"
definition DRM_FORMAT_MOD_VENDOR_AMLOGIC :: u64 where "DRM_FORMAT_MOD_VENDOR_AMLOGIC = 0xa"

definition DRM_FORMAT_RESERVED :: u64 where
  "DRM_FORMAT_RESERVED = push_bit 56 1 - 1"

definition fourcc_mod_code :: "u64 \<Rightarrow> u64 \<Rightarrow> u64" where
  "fourcc_mod_code vendor val = push_bit 56 vendor OR (val AND 0x00ffffffffffffff)"

definition DRM_FORMAT_MOD_INVALID :: u64 where
  "DRM_FORMAT_MOD_INVALID = fourcc_mod_code DRM_FORMAT_MOD_VENDOR_NONE DRM_FORMAT_RESERVED"

definition DRM_FORMAT_MOD_LINEAR :: u64 where
  "DRM_FORMAT_MOD_LINEAR = fourcc_mod_code DRM_FORMAT_MOD_VENDOR_NONE 0"

definition I915_FORMAT_MOD_X_TILED :: u64 where
  "I915_FORMAT_MOD_X_TILED = fourcc_mod_code DRM_FORMAT_MOD_VENDOR_INTEL 1"

definition I915_FORMAT_MOD_Y_TILED :: u64 where
  "I915_FORMAT_MOD_Y_TILED = fourcc_mod_code DRM_FORMAT_MOD_VENDOR_INTEL 2"

definition I915_FORMAT_MOD_Yf_TILED :: u64 where
  "I915_FORMAT_MOD_Yf_TILED = fourcc_mod_code DRM_FORMAT_MOD_VENDOR_INTEL 3"

definition I915_FORMAT_MOD_Y_TILED_CCS :: u64 where
  "I915_FORMAT_MOD_Y_TILED_CCS = fourcc_mod_code DRM_FORMAT_MOD_VENDOR_INTEL 4"

definition I915_FORMAT_MOD_Yf_TILED_CCS :: u64 where
  "I915_FORMAT_MOD_Yf_TILED_CCS = fourcc_mod_code DRM_FORMAT_MOD_VENDOR_INTEL 5"

definition I915_FORMAT_MOD_Y_TILED_GEN12_RC_CCS :: u64 where
  "I915_FORMAT_MOD_Y_TILED_GEN12_RC_CCS = fourcc_mod_code DRM_FORMAT_MOD_VENDOR_INTEL 6"

definition I915_FORMAT_MOD_Y_TILED_GEN12_MC_CCS :: u64 where
  "I915_FORMAT_MOD_Y_TILED_GEN12_MC_CCS = fourcc_mod_code DRM_FORMAT_MOD_VENDOR_INTEL 7"

definition I915_FORMAT_MOD_Y_TILED_GEN12_RC_CCS_CC :: u64 where
  "I915_FORMAT_MOD_Y_TILED_GEN12_RC_CCS_CC = fourcc_mod_code DRM_FORMAT_MOD_VENDOR_INTEL 8"

definition DRM_FORMAT_MOD_SAMSUNG_64_32_TILE :: u64 where
  "DRM_FORMAT_MOD_SAMSUNG_64_32_TILE = fourcc_mod_code DRM_FORMAT_MOD_VENDOR_SAMSUNG 1"

definition DRM_FORMAT_MOD_SAMSUNG_16_16_TILE :: u64 where
  "DRM_FORMAT_MOD_SAMSUNG_16_16_TILE = fourcc_mod_code DRM_FORMAT_MOD_VENDOR_SAMSUNG 2"

definition DRM_FORMAT_MOD_QCOM_COMPRESSED :: u64 where
  "DRM_FORMAT_MOD_QCOM_COMPRESSED = fourcc_mod_code DRM_FORMAT_MOD_VENDOR_QCOM 1"

definition DRM_FORMAT_MOD_VIVANTE_TILED :: u64 where
  "DRM_FORMAT_MOD_VIVANTE_TILED = fourcc_mod_code DRM_FORMAT_MOD_VENDOR_VIVANTE 1"

definition DRM_FORMAT_MOD_VIVANTE_SUPER_TILED :: u64 where
  "DRM_FORMAT_MOD_VIVANTE_SUPER_TILED = fourcc_mod_code DRM_FORMAT_MOD_VENDOR_VIVANTE 2"

definition DRM_FORMAT_MOD_VIVANTE_SPLIT_TILED :: u64 where
  "DRM_FORMAT_MOD_VIVANTE_SPLIT_TILED = fourcc_mod_code DRM_FORMAT_MOD_VENDOR_VIVANTE 3"

definition DRM_FORMAT_MOD_VIVANTE_SPLIT_SUPER_TILED :: u64 where
  "DRM_FORMAT_MOD_VIVANTE_SPLIT_SUPER_TILED = fourcc_mod_code DRM_FORMAT_MOD_VENDOR_VIVANTE 4"

definition DRM_FORMAT_MOD_NVIDIA_TEGRA_TILED :: u64 where
  "DRM_FORMAT_MOD_NVIDIA_TEGRA_TILED = fourcc_mod_code DRM_FORMAT_MOD_VENDOR_NVIDIA 1"

definition DRM_FORMAT_MOD_BROADCOM_VC4_T_TILED :: u64 where
  "DRM_FORMAT_MOD_BROADCOM_VC4_T_TILED = fourcc_mod_code DRM_FORMAT_MOD_VENDOR_BROADCOM 1"

definition DRM_FORMAT_MOD_BROADCOM_UIF :: u64 where
  "DRM_FORMAT_MOD_BROADCOM_UIF = fourcc_mod_code DRM_FORMAT_MOD_VENDOR_BROADCOM 6"

definition DRM_FORMAT_MOD_ALLWINNER_TILED :: u64 where
  "DRM_FORMAT_MOD_ALLWINNER_TILED = fourcc_mod_code DRM_FORMAT_MOD_VENDOR_ALLWINNER 1"

definition AMD_FMT_MOD :: u64 where
  "AMD_FMT_MOD = fourcc_mod_code DRM_FORMAT_MOD_VENDOR_AMD 0"

subsection \<open>Nvidia\<close>

text \<open>The parameters are of type \<^verbatim>\<open>int\<close>; the sum is not negative and is widened to 64 bits.\<close>

definition DRM_FORMAT_MOD_NVIDIA_BLOCK_LINEAR_2D :: "c_int \<Rightarrow> c_int \<Rightarrow> c_int \<Rightarrow> c_int \<Rightarrow> c_int \<Rightarrow> u64" where
  "DRM_FORMAT_MOD_NVIDIA_BLOCK_LINEAR_2D c s g k h = fourcc_mod_code DRM_FORMAT_MOD_VENDOR_NVIDIA
     (scast (0x10 OR (h AND 0xf) OR push_bit 12 (k AND 0xff) OR push_bit 20 (g AND 0x3) OR
       push_bit 22 (s AND 0x1) OR push_bit 23 (c AND 0x7)))"

definition drm_fourcc_canonicalize_nvidia_format_mod :: "u64 \<Rightarrow> u64" where
  "drm_fourcc_canonicalize_nvidia_format_mod modifier =
     (if modifier AND 0x10 = 0 \<or> modifier AND scast (push_bit 12 (0xff :: c_int)) \<noteq> 0 then modifier
      else modifier OR scast (push_bit 12 (0xfe :: c_int)))"

definition DRM_FORMAT_MOD_NVIDIA_16BX2_BLOCK :: "c_int \<Rightarrow> u64" where
  "DRM_FORMAT_MOD_NVIDIA_16BX2_BLOCK v = DRM_FORMAT_MOD_NVIDIA_BLOCK_LINEAR_2D 0 0 0 0 v"

subsection \<open>Broadcom\<close>

definition fourcc_mod_broadcom_param_shift :: nat where "fourcc_mod_broadcom_param_shift = 8"
definition fourcc_mod_broadcom_param_bits :: nat where "fourcc_mod_broadcom_param_bits = 48"

definition fourcc_mod_broadcom_code :: "u64 \<Rightarrow> u64 \<Rightarrow> u64" where
  "fourcc_mod_broadcom_code val params = fourcc_mod_code DRM_FORMAT_MOD_VENDOR_BROADCOM
     (push_bit fourcc_mod_broadcom_param_shift params OR val)"

definition fourcc_mod_broadcom_param :: "u64 \<Rightarrow> c_int" where
  "fourcc_mod_broadcom_param m = ucast (drop_bit fourcc_mod_broadcom_param_shift m AND
     (push_bit fourcc_mod_broadcom_param_bits 1 - 1))"

definition fourcc_mod_broadcom_mod :: "u64 \<Rightarrow> u64" where
  "fourcc_mod_broadcom_mod m = m AND NOT (push_bit fourcc_mod_broadcom_param_shift
     (push_bit fourcc_mod_broadcom_param_bits 1 - 1))"

definition DRM_FORMAT_MOD_BROADCOM_SAND32_COL_HEIGHT :: "u64 \<Rightarrow> u64" where
  "DRM_FORMAT_MOD_BROADCOM_SAND32_COL_HEIGHT v = fourcc_mod_broadcom_code 2 v"

definition DRM_FORMAT_MOD_BROADCOM_SAND64_COL_HEIGHT :: "u64 \<Rightarrow> u64" where
  "DRM_FORMAT_MOD_BROADCOM_SAND64_COL_HEIGHT v = fourcc_mod_broadcom_code 3 v"

definition DRM_FORMAT_MOD_BROADCOM_SAND128_COL_HEIGHT :: "u64 \<Rightarrow> u64" where
  "DRM_FORMAT_MOD_BROADCOM_SAND128_COL_HEIGHT v = fourcc_mod_broadcom_code 4 v"

definition DRM_FORMAT_MOD_BROADCOM_SAND256_COL_HEIGHT :: "u64 \<Rightarrow> u64" where
  "DRM_FORMAT_MOD_BROADCOM_SAND256_COL_HEIGHT v = fourcc_mod_broadcom_code 5 v"

subsection \<open>Arm and Amlogic\<close>

definition DRM_FORMAT_MOD_ARM_TYPE_AFBC :: u64 where "DRM_FORMAT_MOD_ARM_TYPE_AFBC = 0"
definition DRM_FORMAT_MOD_ARM_TYPE_MISC :: u64 where "DRM_FORMAT_MOD_ARM_TYPE_MISC = 1"
definition DRM_FORMAT_MOD_ARM_TYPE_AFRC :: u64 where "DRM_FORMAT_MOD_ARM_TYPE_AFRC = 2"

definition DRM_FORMAT_MOD_ARM_CODE :: "u64 \<Rightarrow> u64 \<Rightarrow> u64" where
  "DRM_FORMAT_MOD_ARM_CODE ty val =
     fourcc_mod_code DRM_FORMAT_MOD_VENDOR_ARM (push_bit 52 ty OR (val AND 0x000fffffffffffff))"

definition DRM_FORMAT_MOD_ARM_AFBC :: "u64 \<Rightarrow> u64" where
  "DRM_FORMAT_MOD_ARM_AFBC afbc_mode = DRM_FORMAT_MOD_ARM_CODE DRM_FORMAT_MOD_ARM_TYPE_AFBC afbc_mode"

definition DRM_FORMAT_MOD_ARM_AFRC :: "u64 \<Rightarrow> u64" where
  "DRM_FORMAT_MOD_ARM_AFRC afrc_mode = DRM_FORMAT_MOD_ARM_CODE DRM_FORMAT_MOD_ARM_TYPE_AFRC afrc_mode"

definition fourcc_mod_amlogic_layout_mask :: u64 where "fourcc_mod_amlogic_layout_mask = 0xff"
definition fourcc_mod_amlogic_options_shift :: nat where "fourcc_mod_amlogic_options_shift = 8"
definition fourcc_mod_amlogic_options_mask :: u64 where "fourcc_mod_amlogic_options_mask = 0xff"

definition DRM_FORMAT_MOD_AMLOGIC_FBC :: "u64 \<Rightarrow> u64 \<Rightarrow> u64" where
  "DRM_FORMAT_MOD_AMLOGIC_FBC layout options = fourcc_mod_code DRM_FORMAT_MOD_VENDOR_AMLOGIC
     ((layout AND fourcc_mod_amlogic_layout_mask) OR
      push_bit fourcc_mod_amlogic_options_shift (options AND fourcc_mod_amlogic_options_mask))"

subsection \<open>AMD\<close>

definition IS_AMD_FMT_MOD :: "u64 \<Rightarrow> bool" where
  "IS_AMD_FMT_MOD val \<longleftrightarrow> drop_bit 56 val = DRM_FORMAT_MOD_VENDOR_AMD"

datatype amd_field =
    AMD_TILE_VERSION
  | AMD_TILE
  | AMD_DCC
  | AMD_DCC_RETILE
  | AMD_DCC_PIPE_ALIGN
  | AMD_DCC_INDEPENDENT_64B
  | AMD_DCC_INDEPENDENT_128B
  | AMD_DCC_MAX_COMPRESSED_BLOCK
  | AMD_DCC_CONSTANT_ENCODE
  | AMD_PIPE_XOR_BITS
  | AMD_BANK_XOR_BITS
  | AMD_PACKERS
  | AMD_RB
  | AMD_PIPE

fun amd_shift :: "amd_field \<Rightarrow> nat" where
  "amd_shift AMD_TILE_VERSION = 0"
| "amd_shift AMD_TILE = 8"
| "amd_shift AMD_DCC = 13"
| "amd_shift AMD_DCC_RETILE = 14"
| "amd_shift AMD_DCC_PIPE_ALIGN = 15"
| "amd_shift AMD_DCC_INDEPENDENT_64B = 16"
| "amd_shift AMD_DCC_INDEPENDENT_128B = 17"
| "amd_shift AMD_DCC_MAX_COMPRESSED_BLOCK = 18"
| "amd_shift AMD_DCC_CONSTANT_ENCODE = 20"
| "amd_shift AMD_PIPE_XOR_BITS = 21"
| "amd_shift AMD_BANK_XOR_BITS = 24"
| "amd_shift AMD_PACKERS = 27"
| "amd_shift AMD_RB = 30"
| "amd_shift AMD_PIPE = 33"

fun amd_mask :: "amd_field \<Rightarrow> u64" where
  "amd_mask AMD_TILE_VERSION = 0xff"
| "amd_mask AMD_TILE = 0x1f"
| "amd_mask AMD_DCC = 1"
| "amd_mask AMD_DCC_RETILE = 1"
| "amd_mask AMD_DCC_PIPE_ALIGN = 1"
| "amd_mask AMD_DCC_INDEPENDENT_64B = 1"
| "amd_mask AMD_DCC_INDEPENDENT_128B = 1"
| "amd_mask AMD_DCC_MAX_COMPRESSED_BLOCK = 0x3"
| "amd_mask AMD_DCC_CONSTANT_ENCODE = 1"
| "amd_mask AMD_PIPE_XOR_BITS = 0x7"
| "amd_mask AMD_BANK_XOR_BITS = 0x7"
| "amd_mask AMD_PACKERS = 0x7"
| "amd_mask AMD_RB = 0x7"
| "amd_mask AMD_PIPE = 0x7"

definition AMD_FMT_MOD_SET :: "amd_field \<Rightarrow> u64 \<Rightarrow> u64" where
  "AMD_FMT_MOD_SET f v = push_bit (amd_shift f) v"

definition AMD_FMT_MOD_GET :: "amd_field \<Rightarrow> u64 \<Rightarrow> u64" where
  "AMD_FMT_MOD_GET f v = drop_bit (amd_shift f) v AND amd_mask f"

definition AMD_FMT_MOD_CLEAR :: "amd_field \<Rightarrow> u64" where
  "AMD_FMT_MOD_CLEAR f = NOT (push_bit (amd_shift f) (amd_mask f))"

section \<open>Formats are distinct\<close>

lemma unat_of_char: "unat (of_char c :: u32) = of_char c"
proof -
  have "(of_char c :: u32) = word_of_nat (of_char c)" by (metis of_nat_of_char)
  then have "unat (of_char c :: u32) = take_bit 32 (of_char c)" by (simp only: unsigned_of_nat) simp
  then show ?thesis using nat_of_char_less_256 [of c] by (simp add: take_bit_nat_eq_self less_trans)
qed

lemma fits_of_char: "fits 8 (of_char c :: u32)"
  by (simp add: fits_iff_less word_less_nat_alt unat_of_char)

lemma of_char_inj: "(of_char a :: u32) = of_char b \<longleftrightarrow> a = b"
  by (metis unat_of_char of_char_eq_iff)

lemma fourcc_chars:
  "take_bit 8 (fourcc_code a b c d) = of_char a"
  "take_bit 8 (drop_bit 8 (fourcc_code a b c d)) = of_char b"
  "take_bit 8 (drop_bit 16 (fourcc_code a b c d)) = of_char c"
  "drop_bit 24 (fourcc_code a b c d) = of_char d"
  unfolding fourcc_code_def
  by (rule bit_word_eqI, auto simp add: bit_simps dest: fits_bitD [OF fits_of_char])+

lemma fourcc_code_inject:
  "fourcc_code a b c d = fourcc_code a' b' c' d' \<longleftrightarrow> a = a' \<and> b = b' \<and> c = c' \<and> d = d'"
  by (metis fourcc_chars of_char_inj)

text \<open>
  The 109 formats have different codes, so a code names one format; none is the invalid code, and the
  flag for a big-endian format is free in all of them.
\<close>

theorem drm_formats_distinct:
  "distinct drm_formats \<and> list_all (\<lambda>f. f \<noteq> DRM_FORMAT_INVALID \<and> f AND DRM_FORMAT_BIG_ENDIAN = 0) drm_formats"
proof
  show "distinct drm_formats"
    unfolding drm_formats_def drm_format_codes by (simp add: fourcc_code_inject)
  show "list_all (\<lambda>f. f \<noteq> DRM_FORMAT_INVALID \<and> f AND DRM_FORMAT_BIG_ENDIAN = 0) drm_formats"
    unfolding drm_formats_def drm_format_codes
    by (simp add: fourcc_code_def DRM_FORMAT_INVALID_def DRM_FORMAT_BIG_ENDIAN_def)
qed

section \<open>Modifiers keep their parts\<close>

lemma mask_56: "(0x00ffffffffffffff :: u64) = mask 56"
  by (simp add: mask_numeral)

lemma mod_code_parts:
  assumes "fits 8 vendor" "fits 56 val"
  shows "drop_bit 56 (fourcc_mod_code vendor val) = vendor" "take_bit 56 (fourcc_mod_code vendor val) = val"
  unfolding fourcc_mod_code_def mask_56
  by (rule bit_word_eqI, auto simp add: bit_simps dest: fits_bitD [OF assms(1)] fits_bitD [OF assms(2)])+

lemma word_nonzero: "(x :: 'a::len word) \<noteq> 0 \<longleftrightarrow> (\<exists>i. bit x i)"
  by (metis bit_0_eq bit_word_eqI bot_apply bot_bool_def)

lemma bit_field:
  assumes "a + w \<le> LENGTH('a)"
  shows "bit (push_bit a (x AND mask w) :: 'a::len word) n \<longleftrightarrow> a \<le> n \<and> n < a + w \<and> bit x (n - a)"
  using assms by (auto simp add: bit_simps)

lemma bit_16: "bit (0x10 :: 'a::len word) n \<longleftrightarrow> n < LENGTH('a) \<and> n = 4"
proof -
  have "(0x10 :: 'a word) = 2 ^ 4" by simp
  then show ?thesis by (simp only: bit_exp_iff) auto
qed

lemma c_int_masks:
  "(h :: c_int) AND 0xf = push_bit 0 (h AND mask 4)" "(k :: c_int) AND 0xff = k AND mask 8"
  "(g :: c_int) AND 0x3 = g AND mask 2" "(r :: c_int) AND 0x1 = r AND mask 1" "(c :: c_int) AND 0x7 = c AND mask 3"
  by (simp_all add: mask_numeral)

lemma bit_int_fields:
  "bit (push_bit 0 (h AND mask 4) :: c_int) n \<longleftrightarrow> n < 4 \<and> bit h n"
  "bit (push_bit 12 (k AND mask 8) :: c_int) n \<longleftrightarrow> 12 \<le> n \<and> n < 20 \<and> bit k (n - 12)"
  "bit (push_bit 20 (g AND mask 2) :: c_int) n \<longleftrightarrow> 20 \<le> n \<and> n < 22 \<and> bit g (n - 20)"
  "bit (push_bit 22 (r AND mask 1) :: c_int) n \<longleftrightarrow> 22 \<le> n \<and> n < 23 \<and> bit r (n - 22)"
  "bit (push_bit 23 (c AND mask 3) :: c_int) n \<longleftrightarrow> 23 \<le> n \<and> n < 26 \<and> bit c (n - 23)"
  by (subst bit_field, simp, simp)+

definition nvidia_low :: "c_int \<Rightarrow> c_int \<Rightarrow> c_int \<Rightarrow> c_int \<Rightarrow> c_int \<Rightarrow> c_int" where
  "nvidia_low c s g k h = 0x10 OR (h AND 0xf) OR push_bit 12 (k AND 0xff) OR push_bit 20 (g AND 0x3) OR
    push_bit 22 (s AND 0x1) OR push_bit 23 (c AND 0x7)"

lemma bit_nvidia_low:
  "bit (nvidia_low c s g k h) n \<longleftrightarrow> (n = 4 \<or> n < 4 \<and> bit h n) \<or> (12 \<le> n \<and> n < 20 \<and> bit k (n - 12)) \<or>
    (20 \<le> n \<and> n < 22 \<and> bit g (n - 20)) \<or> (22 \<le> n \<and> n < 23 \<and> bit s (n - 22)) \<or>
    (23 \<le> n \<and> n < 26 \<and> bit c (n - 23))"
  unfolding nvidia_low_def c_int_masks bit_or_iff bit_int_fields bit_16 by auto

lemma bit_nvidia:
  "bit (DRM_FORMAT_MOD_NVIDIA_BLOCK_LINEAR_2D c s g k h) n \<longleftrightarrow> bit (nvidia_low c s g k h) n \<or> 56 \<le> n \<and> n < 58"
proof -
  have low: "bit (scast (nvidia_low c s g k h) :: u64) n \<longleftrightarrow> bit (nvidia_low c s g k h) n"
  proof (cases "n < 31")
    case True
    then show ?thesis by (simp add: bit_signed_iff)
  next
    case False
    then have "\<not> bit (nvidia_low c s g k h) n" "\<not> bit (nvidia_low c s g k h) 31"
      unfolding bit_nvidia_low by simp_all
    then show ?thesis using False by (simp add: bit_signed_iff min_def)
  qed
  have "(3 :: u64) = NOT 0 AND mask 2" by (simp add: mask_numeral)
  then have vendor: "bit (push_bit 56 (3 :: u64)) n \<longleftrightarrow> 56 \<le> n \<and> n < 58"
    by (simp only:) (subst bit_field, auto simp add: bit_simps)
  have "bit (nvidia_low c s g k h) n \<Longrightarrow> n < 56"
    unfolding bit_nvidia_low by auto
  then show ?thesis
    unfolding DRM_FORMAT_MOD_NVIDIA_BLOCK_LINEAR_2D_def nvidia_low_def [symmetric] fourcc_mod_code_def
      DRM_FORMAT_MOD_VENDOR_NVIDIA_def mask_56 bit_or_iff bit_and_iff vendor low bit_mask_iff
    by auto
qed

lemma kind_masks:
  "scast (push_bit 12 (0xff :: c_int)) = push_bit 12 (NOT 0 AND mask 8 :: u64)"
  "scast (push_bit 12 (0xfe :: c_int)) = push_bit 13 (NOT 0 AND mask 7 :: u64)"
  by (simp_all add: mask_numeral)

lemma bit_kind_masks:
  "bit (push_bit 12 (NOT 0 AND mask 8 :: u64)) n \<longleftrightarrow> 12 \<le> n \<and> n < 20"
  "bit (push_bit 13 (NOT 0 AND mask 7 :: u64)) n \<longleftrightarrow> 13 \<le> n \<and> n < 20"
  by (subst bit_field, auto simp add: bit_simps)+

lemma block_linear_iff: "(modifier :: u64) AND 0x10 = 0 \<longleftrightarrow> \<not> bit modifier 4"
proof -
  have "modifier AND 0x10 \<noteq> 0 \<longleftrightarrow> bit modifier 4"
    unfolding word_nonzero bit_and_iff bit_16 by auto
  then show ?thesis by blast
qed

lemma has_kind_iff:
  "modifier AND scast (push_bit 12 (0xff :: c_int)) \<noteq> 0 \<longleftrightarrow> (\<exists>n. 12 \<le> n \<and> n < 20 \<and> bit (modifier :: u64) n)"
  unfolding kind_masks word_nonzero bit_and_iff bit_kind_masks by blast

lemma bit_canonicalize:
  "bit (drm_fourcc_canonicalize_nvidia_format_mod m) n \<longleftrightarrow>
    bit m n \<or> bit m 4 \<and> (\<forall>i. 12 \<le> i \<and> i < 20 \<longrightarrow> \<not> bit m i) \<and> 13 \<le> n \<and> n < 20"
  unfolding drm_fourcc_canonicalize_nvidia_format_mod_def block_linear_iff has_kind_iff
  by (cases "bit m 4"; cases "\<exists>i. 12 \<le> i \<and> i < 20 \<and> bit m i")
    (simp_all only: if_True if_False simp_thms bit_or_iff kind_masks bit_kind_masks, auto)

lemma bit_0xfe: "bit (0xfe :: c_int) n \<longleftrightarrow> 1 \<le> n \<and> n < 8"
proof -
  have "(0xfe :: c_int) = push_bit 1 (NOT 0 AND mask 7)" by (simp add: mask_numeral)
  then show ?thesis by (simp only:) (subst bit_field, auto simp add: bit_simps)
qed

lemma kind_zero_iff: "(k :: c_int) AND 0xff = 0 \<longleftrightarrow> (\<forall>n < 8. \<not> bit k n)"
proof -
  have "k AND 0xff \<noteq> 0 \<longleftrightarrow> (\<exists>n < 8. bit k n)"
    unfolding word_nonzero c_int_masks bit_and_iff bit_mask_iff by (auto dest: bit_imp_le_length)
  then show ?thesis by blast
qed

lemma kind_bits: "(\<forall>i. 12 \<le> i \<and> i < 20 \<longrightarrow> \<not> bit (DRM_FORMAT_MOD_NVIDIA_BLOCK_LINEAR_2D c s g k h) i) \<longleftrightarrow> k AND 0xff = 0"
proof -
  have low: "bit (DRM_FORMAT_MOD_NVIDIA_BLOCK_LINEAR_2D c s g k h) i \<longleftrightarrow> bit k (i - 12)" if "12 \<le> i" "i < 20" for i
    unfolding bit_nvidia bit_nvidia_low using that by auto
  have "\<not> bit k n" if "\<forall>i. 12 \<le> i \<and> i < 20 \<longrightarrow> \<not> bit k (i - 12)" "n < 8" for n
    using that(1) [rule_format, of "n + 12"] that(2) by simp
  then show ?thesis
    unfolding kind_zero_iff using low by (auto simp add: less_diff_conv2)
qed

text \<open>
  Canonicalising an NVIDIA block linear modifier replaces the page kind 0 by the generic kind 0xfe and
  leaves every other part, and every modifier with another kind, alone; doing it again changes nothing, for any
  64-bit modifier.
\<close>

theorem nvidia_canonical_kind:
  "drm_fourcc_canonicalize_nvidia_format_mod (DRM_FORMAT_MOD_NVIDIA_BLOCK_LINEAR_2D c s g k h) =
      DRM_FORMAT_MOD_NVIDIA_BLOCK_LINEAR_2D c s g (if k AND 0xff = 0 then 0xfe else k) h \<and>
    drm_fourcc_canonicalize_nvidia_format_mod (drm_fourcc_canonicalize_nvidia_format_mod m) =
      drm_fourcc_canonicalize_nvidia_format_mod m"
proof
  have four: "bit (DRM_FORMAT_MOD_NVIDIA_BLOCK_LINEAR_2D c s g k h) 4"
    by (simp add: bit_nvidia bit_nvidia_low)
  show "drm_fourcc_canonicalize_nvidia_format_mod (DRM_FORMAT_MOD_NVIDIA_BLOCK_LINEAR_2D c s g k h) =
      DRM_FORMAT_MOD_NVIDIA_BLOCK_LINEAR_2D c s g (if k AND 0xff = 0 then 0xfe else k) h"
  proof (rule bit_word_eqI)
    fix n
    show "bit (drm_fourcc_canonicalize_nvidia_format_mod (DRM_FORMAT_MOD_NVIDIA_BLOCK_LINEAR_2D c s g k h)) n \<longleftrightarrow>
      bit (DRM_FORMAT_MOD_NVIDIA_BLOCK_LINEAR_2D c s g (if k AND 0xff = 0 then 0xfe else k) h) n"
    proof (cases "k AND 0xff = 0")
      case True
      then have "12 \<le> n \<and> n < 20 \<Longrightarrow> \<not> bit k (n - 12)" unfolding kind_zero_iff by auto
      then show ?thesis
        unfolding bit_canonicalize kind_bits using four True
        by (simp only: if_True simp_thms bit_nvidia bit_nvidia_low bit_0xfe) (cases "12 \<le> n \<and> n < 20"; auto)
    next
      case False
      then show ?thesis unfolding bit_canonicalize kind_bits by simp
    qed
  qed
  show "drm_fourcc_canonicalize_nvidia_format_mod (drm_fourcc_canonicalize_nvidia_format_mod m) =
      drm_fourcc_canonicalize_nvidia_format_mod m"
    by (rule bit_word_eqI) (auto simp add: bit_canonicalize)
qed

section \<open>Broadcom parameters\<close>

lemma broadcom_param_mask: "push_bit fourcc_mod_broadcom_param_bits 1 - 1 = (mask 48 :: u64)"
  by (simp add: fourcc_mod_broadcom_param_bits_def mask_eq_decr_exp)

text \<open>
  A Broadcom modifier made from a layout of eight bits and a parameter gives the parameter back, as far as an
  \<open>int\<close> can hold it, and cutting the parameter leaves the modifier of the layout with parameter 0.
\<close>

theorem broadcom_param_roundtrip:
  assumes "fits 8 val"
  shows "fourcc_mod_broadcom_param (fourcc_mod_broadcom_code val params) = ucast params \<and>
    fourcc_mod_broadcom_mod (fourcc_mod_broadcom_code val params) = fourcc_mod_broadcom_code val 0"
proof
  note defs = fourcc_mod_broadcom_param_def fourcc_mod_broadcom_mod_def fourcc_mod_broadcom_code_def
    broadcom_param_mask fourcc_mod_broadcom_param_shift_def fourcc_mod_code_def mask_56
  show "fourcc_mod_broadcom_param (fourcc_mod_broadcom_code val params) = ucast params"
    unfolding defs by (rule bit_word_eqI) (auto simp add: bit_simps dest: fits_bitD [OF assms])
  show "fourcc_mod_broadcom_mod (fourcc_mod_broadcom_code val params) = fourcc_mod_broadcom_code val 0"
    unfolding defs by (rule bit_word_eqI) (auto simp add: bit_simps dest: fits_bitD [OF assms])
qed

theorem broadcom_param_roundtrip_witness:
  "fourcc_mod_broadcom_param (DRM_FORMAT_MOD_BROADCOM_SAND128_COL_HEIGHT 96) = 96 \<and>
    fourcc_mod_broadcom_mod (DRM_FORMAT_MOD_BROADCOM_SAND128_COL_HEIGHT 96) = fourcc_mod_broadcom_code 4 0"
  using broadcom_param_roundtrip [of 4 96]
  by (simp add: DRM_FORMAT_MOD_BROADCOM_SAND128_COL_HEIGHT_def fits_def)

section \<open>The fields of AMD modifiers\<close>

fun amd_width :: "amd_field \<Rightarrow> nat" where
  "amd_width AMD_TILE_VERSION = 8"
| "amd_width AMD_TILE = 5"
| "amd_width AMD_DCC_MAX_COMPRESSED_BLOCK = 2"
| "amd_width AMD_PIPE_XOR_BITS = 3"
| "amd_width AMD_BANK_XOR_BITS = 3"
| "amd_width AMD_PACKERS = 3"
| "amd_width AMD_RB = 3"
| "amd_width AMD_PIPE = 3"
| "amd_width _ = 1"

lemma amd_mask_width: "amd_mask f = mask (amd_width f)"
  by (cases f) (simp_all add: mask_numeral)

lemma amd_fields_disjoint:
  "f = g \<or> amd_shift f + amd_width f \<le> amd_shift g \<or> amd_shift g + amd_width g \<le> amd_shift f"
  by (cases f; cases g; simp)

lemma amd_field_below: "amd_shift f + amd_width f \<le> 36"
  by (cases f) simp_all

text \<open>
  Clearing a field of an AMD modifier and entering a value that the field can hold changes this field to the
  value and leaves each of the other thirteen fields and the vendor as they were.
\<close>

theorem amd_fields_independent:
  assumes "v AND amd_mask f = v"
  shows "AMD_FMT_MOD_GET g ((m AND AMD_FMT_MOD_CLEAR f) OR AMD_FMT_MOD_SET f v) =
      (if g = f then v else AMD_FMT_MOD_GET g m) \<and>
    (IS_AMD_FMT_MOD ((m AND AMD_FMT_MOD_CLEAR f) OR AMD_FMT_MOD_SET f v) \<longleftrightarrow> IS_AMD_FMT_MOD m)"
proof
  have v: "bit v n \<Longrightarrow> n < amd_width f" for n
    using assms unfolding amd_mask_width by (metis bit_and_iff bit_mask_iff)
  note below = amd_field_below [of f] and disjoint = amd_fields_disjoint [of f g]
  note defs = AMD_FMT_MOD_GET_def AMD_FMT_MOD_CLEAR_def AMD_FMT_MOD_SET_def amd_mask_width
  let ?m = "(m AND AMD_FMT_MOD_CLEAR f) OR AMD_FMT_MOD_SET f v"
  have bits: "bit ?m n \<longleftrightarrow> (if amd_shift f \<le> n \<and> n < amd_shift f + amd_width f then bit v (n - amd_shift f) else bit m n)"
    if "n < 64" for n
    using that below v [of "n - amd_shift f"] unfolding defs
    by (auto simp add: bit_simps)
  show "AMD_FMT_MOD_GET g ?m = (if g = f then v else AMD_FMT_MOD_GET g m)"
  proof (rule bit_word_eqI)
    fix n
    have "n < amd_width g \<Longrightarrow> bit ?m (amd_shift g + n) \<longleftrightarrow> (if g = f then bit v n else bit m (amd_shift g + n))"
      using disjoint amd_field_below [of g] by (subst bits) auto
    then show "bit (AMD_FMT_MOD_GET g ?m) n \<longleftrightarrow> bit (if g = f then v else AMD_FMT_MOD_GET g m) n"
      unfolding AMD_FMT_MOD_GET_def amd_mask_width bit_and_iff bit_mask_iff bit_drop_bit_eq o_apply
      using v [of n] amd_field_below [of g] by (auto simp add: bit_simps)
  qed
  have "bit ?m (56 + n) \<longleftrightarrow> bit m (56 + n)" for n
    using below bits [of "56 + n"] by (cases "n < 8") (auto dest: bit_imp_le_length)
  then have "drop_bit 56 ?m = drop_bit 56 m"
    by (intro bit_word_eqI) (simp only: bit_drop_bit_eq o_apply)
  then show "IS_AMD_FMT_MOD ?m \<longleftrightarrow> IS_AMD_FMT_MOD m"
    unfolding IS_AMD_FMT_MOD_def by simp
qed

theorem amd_fields_independent_witness:
  "AMD_FMT_MOD_GET AMD_TILE ((0x200000000000901 AND AMD_FMT_MOD_CLEAR AMD_TILE) OR AMD_FMT_MOD_SET AMD_TILE 27) = 27 \<and>
    AMD_FMT_MOD_GET AMD_TILE_VERSION
      ((0x200000000000901 AND AMD_FMT_MOD_CLEAR AMD_TILE) OR AMD_FMT_MOD_SET AMD_TILE 27) = 1"
  using amd_fields_independent [of 27 AMD_TILE AMD_TILE "0x200000000000901"]
    amd_fields_independent [of 27 AMD_TILE AMD_TILE_VERSION "0x200000000000901"]
  by (simp add: AMD_FMT_MOD_GET_def)

end
