(* ===== verification/Fuse.thy ===== *)
theory Fuse
  imports Sized_Chain "HOL-Library.Code_Target_Nat"
begin

text \<open>
  The protocol between the kernel and a file system in user space, \<^verbatim>\<open>include/linux/fuse.h\<close>: the structures of its
  messages, the sizes of their older forms, and the records of a directory.

  A file system may be a 32-bit program under a 64-bit kernel, and the two exchange raw structures, so that the
  layout has to be the same on every ABI. When a message gained members at its end, the header kept the size of
  the older form (\<^verbatim>\<open>FUSE_COMPAT_*_SIZE\<close>), which has to be the offset of the first new member.
\<close>

section \<open>Messages\<close>

definition fuse_attr_members :: "(string \<times> ctype) list" where
  "fuse_attr_members = [
     (''ino'', u64_t),
     (''size'', u64_t),
     (''blocks'', u64_t),
     (''atime'', u64_t),
     (''mtime'', u64_t),
     (''ctime'', u64_t),
     (''atimensec'', u32_t),
     (''mtimensec'', u32_t),
     (''ctimensec'', u32_t),
     (''mode'', u32_t),
     (''nlink'', u32_t),
     (''uid'', u32_t),
     (''gid'', u32_t),
     (''rdev'', u32_t),
     (''blksize'', u32_t),
     (''flags'', u32_t)]"

definition struct_fuse_attr :: ctype where
  "struct_fuse_attr = c_struct fuse_attr_members"

definition fuse_kstatfs_members :: "(string \<times> ctype) list" where
  "fuse_kstatfs_members = [
     (''blocks'', u64_t),
     (''bfree'', u64_t),
     (''bavail'', u64_t),
     (''files'', u64_t),
     (''ffree'', u64_t),
     (''bsize'', u32_t),
     (''namelen'', u32_t),
     (''frsize'', u32_t),
     (''padding'', u32_t),
     (''spare'', Arr u32_t 6)]"

definition struct_fuse_kstatfs :: ctype where
  "struct_fuse_kstatfs = c_struct fuse_kstatfs_members"

definition struct_fuse_file_lock :: ctype where
  "struct_fuse_file_lock = c_struct [
     (''start'', u64_t),
     (''end'', u64_t),
     (''type'', u32_t),
     (''pid'', u32_t)]"

definition fuse_entry_out_members :: "(string \<times> ctype) list" where
  "fuse_entry_out_members = [
     (''nodeid'', u64_t),
     (''generation'', u64_t),
     (''entry_valid'', u64_t),
     (''attr_valid'', u64_t),
     (''entry_valid_nsec'', u32_t),
     (''attr_valid_nsec'', u32_t),
     (''attr'', struct_fuse_attr)]"

definition struct_fuse_entry_out :: ctype where
  "struct_fuse_entry_out = c_struct fuse_entry_out_members"

definition struct_fuse_forget_in :: ctype where
  "struct_fuse_forget_in = c_struct [
     (''nlookup'', u64_t)]"

definition struct_fuse_forget_one :: ctype where
  "struct_fuse_forget_one = c_struct [
     (''nodeid'', u64_t),
     (''nlookup'', u64_t)]"

definition struct_fuse_batch_forget_in :: ctype where
  "struct_fuse_batch_forget_in = c_struct [
     (''count'', u32_t),
     (''dummy'', u32_t)]"

definition struct_fuse_getattr_in :: ctype where
  "struct_fuse_getattr_in = c_struct [
     (''getattr_flags'', u32_t),
     (''dummy'', u32_t),
     (''fh'', u64_t)]"

definition fuse_attr_out_members :: "(string \<times> ctype) list" where
  "fuse_attr_out_members = [
     (''attr_valid'', u64_t),
     (''attr_valid_nsec'', u32_t),
     (''dummy'', u32_t),
     (''attr'', struct_fuse_attr)]"

definition struct_fuse_attr_out :: ctype where
  "struct_fuse_attr_out = c_struct fuse_attr_out_members"

definition fuse_mknod_in_members :: "(string \<times> ctype) list" where
  "fuse_mknod_in_members = [
     (''mode'', u32_t),
     (''rdev'', u32_t),
     (''umask'', u32_t),
     (''padding'', u32_t)]"

definition struct_fuse_mknod_in :: ctype where
  "struct_fuse_mknod_in = c_struct fuse_mknod_in_members"

definition struct_fuse_mkdir_in :: ctype where
  "struct_fuse_mkdir_in = c_struct [
     (''mode'', u32_t),
     (''umask'', u32_t)]"

definition struct_fuse_rename_in :: ctype where
  "struct_fuse_rename_in = c_struct [
     (''newdir'', u64_t)]"

definition struct_fuse_rename2_in :: ctype where
  "struct_fuse_rename2_in = c_struct [
     (''newdir'', u64_t),
     (''flags'', u32_t),
     (''padding'', u32_t)]"

definition struct_fuse_link_in :: ctype where
  "struct_fuse_link_in = c_struct [
     (''oldnodeid'', u64_t)]"

definition struct_fuse_setattr_in :: ctype where
  "struct_fuse_setattr_in = c_struct [
     (''valid'', u32_t),
     (''padding'', u32_t),
     (''fh'', u64_t),
     (''size'', u64_t),
     (''lock_owner'', u64_t),
     (''atime'', u64_t),
     (''mtime'', u64_t),
     (''ctime'', u64_t),
     (''atimensec'', u32_t),
     (''mtimensec'', u32_t),
     (''ctimensec'', u32_t),
     (''mode'', u32_t),
     (''unused4'', u32_t),
     (''uid'', u32_t),
     (''gid'', u32_t),
     (''unused5'', u32_t)]"

definition struct_fuse_open_in :: ctype where
  "struct_fuse_open_in = c_struct [
     (''flags'', u32_t),
     (''open_flags'', u32_t)]"

definition struct_fuse_create_in :: ctype where
  "struct_fuse_create_in = c_struct [
     (''flags'', u32_t),
     (''mode'', u32_t),
     (''umask'', u32_t),
     (''open_flags'', u32_t)]"

definition struct_fuse_open_out :: ctype where
  "struct_fuse_open_out = c_struct [
     (''fh'', u64_t),
     (''open_flags'', u32_t),
     (''padding'', u32_t)]"

definition struct_fuse_release_in :: ctype where
  "struct_fuse_release_in = c_struct [
     (''fh'', u64_t),
     (''flags'', u32_t),
     (''release_flags'', u32_t),
     (''lock_owner'', u64_t)]"

definition struct_fuse_flush_in :: ctype where
  "struct_fuse_flush_in = c_struct [
     (''fh'', u64_t),
     (''unused'', u32_t),
     (''padding'', u32_t),
     (''lock_owner'', u64_t)]"

definition struct_fuse_read_in :: ctype where
  "struct_fuse_read_in = c_struct [
     (''fh'', u64_t),
     (''offset'', u64_t),
     (''size'', u32_t),
     (''read_flags'', u32_t),
     (''lock_owner'', u64_t),
     (''flags'', u32_t),
     (''padding'', u32_t)]"

definition fuse_write_in_members :: "(string \<times> ctype) list" where
  "fuse_write_in_members = [
     (''fh'', u64_t),
     (''offset'', u64_t),
     (''size'', u32_t),
     (''write_flags'', u32_t),
     (''lock_owner'', u64_t),
     (''flags'', u32_t),
     (''padding'', u32_t)]"

definition struct_fuse_write_in :: ctype where
  "struct_fuse_write_in = c_struct fuse_write_in_members"

definition struct_fuse_write_out :: ctype where
  "struct_fuse_write_out = c_struct [
     (''size'', u32_t),
     (''padding'', u32_t)]"

definition fuse_statfs_out_members :: "(string \<times> ctype) list" where
  "fuse_statfs_out_members = [
     (''st'', struct_fuse_kstatfs)]"

definition struct_fuse_statfs_out :: ctype where
  "struct_fuse_statfs_out = c_struct fuse_statfs_out_members"

definition struct_fuse_fsync_in :: ctype where
  "struct_fuse_fsync_in = c_struct [
     (''fh'', u64_t),
     (''fsync_flags'', u32_t),
     (''padding'', u32_t)]"

definition fuse_setxattr_in_members :: "(string \<times> ctype) list" where
  "fuse_setxattr_in_members = [
     (''size'', u32_t),
     (''flags'', u32_t),
     (''setxattr_flags'', u32_t),
     (''padding'', u32_t)]"

definition struct_fuse_setxattr_in :: ctype where
  "struct_fuse_setxattr_in = c_struct fuse_setxattr_in_members"

definition struct_fuse_getxattr_in :: ctype where
  "struct_fuse_getxattr_in = c_struct [
     (''size'', u32_t),
     (''padding'', u32_t)]"

definition struct_fuse_getxattr_out :: ctype where
  "struct_fuse_getxattr_out = c_struct [
     (''size'', u32_t),
     (''padding'', u32_t)]"

definition struct_fuse_lk_in :: ctype where
  "struct_fuse_lk_in = c_struct [
     (''fh'', u64_t),
     (''owner'', u64_t),
     (''lk'', struct_fuse_file_lock),
     (''lk_flags'', u32_t),
     (''padding'', u32_t)]"

definition struct_fuse_lk_out :: ctype where
  "struct_fuse_lk_out = c_struct [
     (''lk'', struct_fuse_file_lock)]"

definition struct_fuse_access_in :: ctype where
  "struct_fuse_access_in = c_struct [
     (''mask'', u32_t),
     (''padding'', u32_t)]"

definition struct_fuse_init_in :: ctype where
  "struct_fuse_init_in = c_struct [
     (''major'', u32_t),
     (''minor'', u32_t),
     (''max_readahead'', u32_t),
     (''flags'', u32_t)]"

definition fuse_init_out_members :: "(string \<times> ctype) list" where
  "fuse_init_out_members = [
     (''major'', u32_t),
     (''minor'', u32_t),
     (''max_readahead'', u32_t),
     (''flags'', u32_t),
     (''max_background'', u16_t),
     (''congestion_threshold'', u16_t),
     (''max_write'', u32_t),
     (''time_gran'', u32_t),
     (''max_pages'', u16_t),
     (''map_alignment'', u16_t),
     (''unused'', Arr u32_t 8)]"

definition struct_fuse_init_out :: ctype where
  "struct_fuse_init_out = c_struct fuse_init_out_members"

definition struct_cuse_init_in :: ctype where
  "struct_cuse_init_in = c_struct [
     (''major'', u32_t),
     (''minor'', u32_t),
     (''unused'', u32_t),
     (''flags'', u32_t)]"

definition struct_cuse_init_out :: ctype where
  "struct_cuse_init_out = c_struct [
     (''major'', u32_t),
     (''minor'', u32_t),
     (''unused'', u32_t),
     (''flags'', u32_t),
     (''max_read'', u32_t),
     (''max_write'', u32_t),
     (''dev_major'', u32_t),
     (''dev_minor'', u32_t),
     (''spare'', Arr u32_t 10)]"

definition struct_fuse_interrupt_in :: ctype where
  "struct_fuse_interrupt_in = c_struct [
     (''unique'', u64_t)]"

definition struct_fuse_bmap_in :: ctype where
  "struct_fuse_bmap_in = c_struct [
     (''block'', u64_t),
     (''blocksize'', u32_t),
     (''padding'', u32_t)]"

definition struct_fuse_bmap_out :: ctype where
  "struct_fuse_bmap_out = c_struct [
     (''block'', u64_t)]"

definition struct_fuse_ioctl_in :: ctype where
  "struct_fuse_ioctl_in = c_struct [
     (''fh'', u64_t),
     (''flags'', u32_t),
     (''cmd'', u32_t),
     (''arg'', u64_t),
     (''in_size'', u32_t),
     (''out_size'', u32_t)]"

definition struct_fuse_ioctl_iovec :: ctype where
  "struct_fuse_ioctl_iovec = c_struct [
     (''base'', u64_t),
     (''len'', u64_t)]"

definition struct_fuse_ioctl_out :: ctype where
  "struct_fuse_ioctl_out = c_struct [
     (''result'', u32_t),
     (''flags'', u32_t),
     (''in_iovs'', u32_t),
     (''out_iovs'', u32_t)]"

definition struct_fuse_poll_in :: ctype where
  "struct_fuse_poll_in = c_struct [
     (''fh'', u64_t),
     (''kh'', u64_t),
     (''flags'', u32_t),
     (''events'', u32_t)]"

definition struct_fuse_poll_out :: ctype where
  "struct_fuse_poll_out = c_struct [
     (''revents'', u32_t),
     (''padding'', u32_t)]"

definition struct_fuse_notify_poll_wakeup_out :: ctype where
  "struct_fuse_notify_poll_wakeup_out = c_struct [
     (''kh'', u64_t)]"

definition struct_fuse_fallocate_in :: ctype where
  "struct_fuse_fallocate_in = c_struct [
     (''fh'', u64_t),
     (''offset'', u64_t),
     (''length'', u64_t),
     (''mode'', u32_t),
     (''padding'', u32_t)]"

definition struct_fuse_in_header :: ctype where
  "struct_fuse_in_header = c_struct [
     (''len'', u32_t),
     (''opcode'', u32_t),
     (''unique'', u64_t),
     (''nodeid'', u64_t),
     (''uid'', u32_t),
     (''gid'', u32_t),
     (''pid'', u32_t),
     (''padding'', u32_t)]"

definition struct_fuse_out_header :: ctype where
  "struct_fuse_out_header = c_struct [
     (''len'', u32_t),
     (''error'', u32_t),
     (''unique'', u64_t)]"

definition fuse_dirent_members :: "(string \<times> ctype) list" where
  "fuse_dirent_members = [
     (''ino'', u64_t),
     (''off'', u64_t),
     (''namelen'', u32_t),
     (''type'', u32_t),
     (''name'', Arr u8_t 0)]"

definition struct_fuse_dirent :: ctype where
  "struct_fuse_dirent = c_struct fuse_dirent_members"

definition fuse_direntplus_members :: "(string \<times> ctype) list" where
  "fuse_direntplus_members = [
     (''entry_out'', struct_fuse_entry_out),
     (''dirent'', struct_fuse_dirent)]"

definition struct_fuse_direntplus :: ctype where
  "struct_fuse_direntplus = c_struct fuse_direntplus_members"

definition struct_fuse_notify_inval_inode_out :: ctype where
  "struct_fuse_notify_inval_inode_out = c_struct [
     (''ino'', u64_t),
     (''off'', u64_t),
     (''len'', u64_t)]"

definition struct_fuse_notify_inval_entry_out :: ctype where
  "struct_fuse_notify_inval_entry_out = c_struct [
     (''parent'', u64_t),
     (''namelen'', u32_t),
     (''padding'', u32_t)]"

definition struct_fuse_notify_delete_out :: ctype where
  "struct_fuse_notify_delete_out = c_struct [
     (''parent'', u64_t),
     (''child'', u64_t),
     (''namelen'', u32_t),
     (''padding'', u32_t)]"

definition struct_fuse_notify_store_out :: ctype where
  "struct_fuse_notify_store_out = c_struct [
     (''nodeid'', u64_t),
     (''offset'', u64_t),
     (''size'', u32_t),
     (''padding'', u32_t)]"

definition struct_fuse_notify_retrieve_out :: ctype where
  "struct_fuse_notify_retrieve_out = c_struct [
     (''notify_unique'', u64_t),
     (''nodeid'', u64_t),
     (''offset'', u64_t),
     (''size'', u32_t),
     (''padding'', u32_t)]"

definition struct_fuse_notify_retrieve_in :: ctype where
  "struct_fuse_notify_retrieve_in = c_struct [
     (''dummy1'', u64_t),
     (''offset'', u64_t),
     (''size'', u32_t),
     (''dummy2'', u32_t),
     (''dummy3'', u64_t),
     (''dummy4'', u64_t)]"

definition struct_fuse_lseek_in :: ctype where
  "struct_fuse_lseek_in = c_struct [
     (''fh'', u64_t),
     (''offset'', u64_t),
     (''whence'', u32_t),
     (''padding'', u32_t)]"

definition struct_fuse_lseek_out :: ctype where
  "struct_fuse_lseek_out = c_struct [
     (''offset'', u64_t)]"

definition struct_fuse_copy_file_range_in :: ctype where
  "struct_fuse_copy_file_range_in = c_struct [
     (''fh_in'', u64_t),
     (''off_in'', u64_t),
     (''nodeid_out'', u64_t),
     (''fh_out'', u64_t),
     (''off_out'', u64_t),
     (''len'', u64_t),
     (''flags'', u64_t)]"

definition struct_fuse_setupmapping_in :: ctype where
  "struct_fuse_setupmapping_in = c_struct [
     (''fh'', u64_t),
     (''foffset'', u64_t),
     (''len'', u64_t),
     (''flags'', u64_t),
     (''moffset'', u64_t)]"

definition struct_fuse_removemapping_in :: ctype where
  "struct_fuse_removemapping_in = c_struct [
     (''count'', u32_t)]"

definition struct_fuse_removemapping_one :: ctype where
  "struct_fuse_removemapping_one = c_struct [
     (''moffset'', u64_t),
     (''len'', u64_t)]"

definition struct_fuse_syncfs_in :: ctype where
  "struct_fuse_syncfs_in = c_struct [
     (''padding'', u64_t)]"

section \<open>Older forms\<close>

definition FUSE_COMPAT_ENTRY_OUT_SIZE :: nat where "FUSE_COMPAT_ENTRY_OUT_SIZE = 120"
definition FUSE_COMPAT_ATTR_OUT_SIZE :: nat where "FUSE_COMPAT_ATTR_OUT_SIZE = 96"
definition FUSE_COMPAT_MKNOD_IN_SIZE :: nat where "FUSE_COMPAT_MKNOD_IN_SIZE = 8"
definition FUSE_COMPAT_WRITE_IN_SIZE :: nat where "FUSE_COMPAT_WRITE_IN_SIZE = 24"
definition FUSE_COMPAT_STATFS_SIZE :: nat where "FUSE_COMPAT_STATFS_SIZE = 48"
definition FUSE_COMPAT_SETXATTR_IN_SIZE :: nat where "FUSE_COMPAT_SETXATTR_IN_SIZE = 8"
definition FUSE_COMPAT_INIT_OUT_SIZE :: nat where "FUSE_COMPAT_INIT_OUT_SIZE = 8"
definition FUSE_COMPAT_22_INIT_OUT_SIZE :: nat where "FUSE_COMPAT_22_INIT_OUT_SIZE = 24"

section \<open>Directories\<close>

text \<open>
  A directory is read as a sequence of records, each a header, a name of \<^verbatim>\<open>namelen\<close> bytes without terminator, and
  padding to eight bytes. \<open>offsetof\<close> is that of a 64-bit ABI; by \<open>fuse_layout\<close> it is the same on all.
  \<^verbatim>\<open>size_t\<close> has 64 bits, as in the kernel that writes the records; in 32 bits the same sums wrap only for
  names of almost 4 GB.
\<close>

definition FUSE_NAME_OFFSET :: u64 where
  "FUSE_NAME_OFFSET = (case offset_from 8 fuse_dirent_members ''name'' 0 of Some n \<Rightarrow> word_of_nat n | None \<Rightarrow> 0)"

definition FUSE_DIRENT_ALIGN :: "u64 \<Rightarrow> u64" where
  "FUSE_DIRENT_ALIGN x = (x + 8 - 1) AND NOT (8 - 1)"

definition FUSE_DIRENT_SIZE :: "endian \<Rightarrow> u8 list \<Rightarrow> nat \<Rightarrow> u64 option" where
  "FUSE_DIRENT_SIZE e mem d = do {
     namelen \<leftarrow> load e mem (d + 16);
     Some (FUSE_DIRENT_ALIGN (FUSE_NAME_OFFSET + ucast (namelen :: u32)))
   }"

definition FUSE_NAME_OFFSET_DIRENTPLUS :: u64 where
  "FUSE_NAME_OFFSET_DIRENTPLUS = (case offset_from 8 fuse_direntplus_members ''dirent'' 0 of
     Some n \<Rightarrow> word_of_nat n + FUSE_NAME_OFFSET | None \<Rightarrow> 0)"

definition FUSE_DIRENTPLUS_SIZE :: "endian \<Rightarrow> u8 list \<Rightarrow> nat \<Rightarrow> u64 option" where
  "FUSE_DIRENTPLUS_SIZE e mem d = do {
     namelen \<leftarrow> load e mem (d + 128 + 16);
     Some (FUSE_DIRENT_ALIGN (FUSE_NAME_OFFSET_DIRENTPLUS + ucast (namelen :: u32)))
   }"

section \<open>Layout\<close>

definition fuse_structs :: "ctype list" where
  "fuse_structs = [struct_fuse_attr, struct_fuse_kstatfs, struct_fuse_file_lock, struct_fuse_entry_out, struct_fuse_forget_in,
     struct_fuse_forget_one, struct_fuse_batch_forget_in, struct_fuse_getattr_in, struct_fuse_attr_out,
     struct_fuse_mknod_in, struct_fuse_mkdir_in, struct_fuse_rename_in, struct_fuse_rename2_in,
     struct_fuse_link_in, struct_fuse_setattr_in, struct_fuse_open_in, struct_fuse_create_in, struct_fuse_open_out,
     struct_fuse_release_in, struct_fuse_flush_in, struct_fuse_read_in, struct_fuse_write_in,
     struct_fuse_write_out, struct_fuse_statfs_out, struct_fuse_fsync_in, struct_fuse_setxattr_in,
     struct_fuse_getxattr_in, struct_fuse_getxattr_out, struct_fuse_lk_in, struct_fuse_lk_out,
     struct_fuse_access_in, struct_fuse_init_in, struct_fuse_init_out, struct_cuse_init_in, struct_cuse_init_out,
     struct_fuse_interrupt_in, struct_fuse_bmap_in, struct_fuse_bmap_out, struct_fuse_ioctl_in,
     struct_fuse_ioctl_iovec, struct_fuse_ioctl_out, struct_fuse_poll_in, struct_fuse_poll_out,
     struct_fuse_notify_poll_wakeup_out, struct_fuse_fallocate_in, struct_fuse_in_header, struct_fuse_out_header,
     struct_fuse_dirent, struct_fuse_direntplus, struct_fuse_notify_inval_inode_out,
     struct_fuse_notify_inval_entry_out, struct_fuse_notify_delete_out, struct_fuse_notify_store_out,
     struct_fuse_notify_retrieve_out, struct_fuse_notify_retrieve_in, struct_fuse_lseek_in, struct_fuse_lseek_out,
     struct_fuse_copy_file_range_in, struct_fuse_setupmapping_in, struct_fuse_removemapping_in,
     struct_fuse_removemapping_one, struct_fuse_syncfs_in]"

lemma fuse_all_tight: "list_all tight fuse_structs"
  by code_simp

text \<open>
  Each of the 62 structures of the protocol is laid out alike, member by member, by every ABI, and none has a
  byte that belongs to no member: a 32-bit file system and a 64-bit kernel understand each other, and no
  uninitialised byte travels between them.
\<close>

theorem fuse_layout:
  assumes "t \<in> set fuse_structs"
  shows "same_everywhere t \<and> covered (leaves 8 0 t) 0 (sizeof 8 t)"
  using assms fuse_all_tight tight_layout tight_covered by (auto simp add: list_all_iff)

theorem fuse_layout_witness:
  "same_everywhere struct_fuse_init_out \<and> covered (leaves 8 0 struct_fuse_init_out) 0 (sizeof 8 struct_fuse_init_out)"
  by (rule fuse_layout) (simp add: fuse_structs_def)

text \<open>
  The size of the older form of a message is the offset of the first member that the message gained, in the
  message itself or in the attributes or statistics at its end.
\<close>

theorem fuse_compat_sizes:
  "map_option (\<lambda>n. n + 80) (offset_from 8 fuse_entry_out_members ''attr'' 0) = Some FUSE_COMPAT_ENTRY_OUT_SIZE \<and>
    map_option (\<lambda>n. n + 80) (offset_from 8 fuse_attr_out_members ''attr'' 0) = Some FUSE_COMPAT_ATTR_OUT_SIZE \<and>
    offset_from 8 fuse_attr_members ''blksize'' 0 = Some 80 \<and>
    offset_from 8 fuse_mknod_in_members ''umask'' 0 = Some FUSE_COMPAT_MKNOD_IN_SIZE \<and>
    offset_from 8 fuse_write_in_members ''lock_owner'' 0 = Some FUSE_COMPAT_WRITE_IN_SIZE \<and>
    offset_from 8 fuse_statfs_out_members ''st'' 0 = Some 0 \<and>
    offset_from 8 fuse_kstatfs_members ''frsize'' 0 = Some FUSE_COMPAT_STATFS_SIZE \<and>
    offset_from 8 fuse_setxattr_in_members ''setxattr_flags'' 0 = Some FUSE_COMPAT_SETXATTR_IN_SIZE \<and>
    offset_from 8 fuse_init_out_members ''max_readahead'' 0 = Some FUSE_COMPAT_INIT_OUT_SIZE \<and>
    offset_from 8 fuse_init_out_members ''time_gran'' 0 = Some FUSE_COMPAT_22_INIT_OUT_SIZE"
  by code_simp

section \<open>Records of a directory\<close>

record dirent =
  d_ino :: u64
  d_off :: u64
  d_type :: u32
  d_name :: "u8 list"

definition dirent_size :: "nat \<Rightarrow> nat" where
  "dirent_size n = align_up 8 (24 + n)"

definition dirent_bytes :: "endian \<Rightarrow> dirent \<Rightarrow> u8 list" where
  "dirent_bytes e d = bytes_of e (d_ino d) @ bytes_of e (d_off d) @
     bytes_of e (word_of_nat (length (d_name d)) :: u32) @ bytes_of e (d_type d) @ d_name d @
     replicate (dirent_size (length (d_name d)) - (24 + length (d_name d))) 0"

definition dirent_ok :: "dirent \<Rightarrow> bool" where
  "dirent_ok d \<longleftrightarrow> length (d_name d) < 2 ^ 31"

definition read_dirent :: "endian \<Rightarrow> u8 list \<Rightarrow> nat \<Rightarrow> dirent option" where
  "read_dirent e mem p = do {
     ino \<leftarrow> load e mem p;
     off \<leftarrow> load e mem (p + 8);
     namelen \<leftarrow> load e mem (p + 16);
     ty \<leftarrow> load e mem (p + 20);
     name \<leftarrow> rdn mem (p + unat FUSE_NAME_OFFSET) (unat (namelen :: u32));
     Some \<lparr>d_ino = ino, d_off = off, d_type = ty, d_name = name\<rparr>
   }"

lemma name_offset: "FUSE_NAME_OFFSET = 24"
  by code_simp

lemma name_offset_plus: "FUSE_NAME_OFFSET_DIRENTPLUS = 152"
  by code_simp

lemma unat_dirent_align:
  assumes "unat x < 2 ^ 33"
  shows "unat (FUSE_DIRENT_ALIGN x) = align_up 8 (unat x)"
  using unat_align [of 8 3 x] assms by (simp add: FUSE_DIRENT_ALIGN_def)

lemma length_dirent_bytes: "length (dirent_bytes e d) = dirent_size (length (d_name d))"
  using align_up_ge [of 8 "24 + length (d_name d)"] by (simp add: dirent_bytes_def dirent_size_def)

lemma unat_namelen: "dirent_ok d \<Longrightarrow> unat (word_of_nat (length (d_name d)) :: u32) = length (d_name d)"
  by (simp add: dirent_ok_def unsigned_of_nat take_bit_nat_eq_self)

lemma dirent_namelen:
  "load e (pre @ dirent_bytes e d @ post) (length pre + 16) = Some (word_of_nat (length (d_name d)) :: u32)"
  using load_append_at [of "length pre + 16" "pre @ bytes_of e (d_ino d) @ bytes_of e (d_off d)" e
      "word_of_nat (length (d_name d)) :: u32"] by (simp add: dirent_bytes_def)

lemma dirent_size_read:
  assumes "dirent_ok d"
  shows "map_option ucast (FUSE_DIRENT_SIZE e (pre @ dirent_bytes e d @ post) (length pre)) =
    Some (word_of_nat (length (dirent_bytes e d)) :: u32)"
proof -
  let ?n = "ucast (word_of_nat (length (d_name d)) :: u32) :: u64"
  have n: "unat ?n = length (d_name d)" using unat_namelen [OF assms] assms
    by (simp add: dirent_ok_def unsigned_ucast_eq take_bit_nat_eq_self)
  then have "unat (24 + ?n) = 24 + length (d_name d)"
    using assms by (simp add: dirent_ok_def unat_word_ariths)
  then have "unat (FUSE_DIRENT_ALIGN (24 + ?n)) = dirent_size (length (d_name d))"
    using assms unat_dirent_align [of "24 + ?n"] by (simp add: dirent_ok_def dirent_size_def)
  then have "FUSE_DIRENT_ALIGN (24 + ?n) = word_of_nat (dirent_size (length (d_name d)))"
    by (metis of_nat_unat ucast_id)
  moreover have "dirent_size (length (d_name d)) < 2 ^ 64"
    using assms align_up_less [of 8 "24 + length (d_name d)"] by (simp add: dirent_ok_def dirent_size_def)
  ultimately show ?thesis
    by (simp add: FUSE_DIRENT_SIZE_def dirent_namelen name_offset length_dirent_bytes unsigned_of_nat
        take_bit_nat_eq_self)
qed

lemma read_dirent_bytes:
  assumes "dirent_ok d"
  shows "read_dirent e (pre @ dirent_bytes e d @ post) (length pre) = Some d"
proof -
  let ?mem = "pre @ dirent_bytes e d @ post"
  have "load e ?mem (length pre) = Some (d_ino d)"
    by (simp add: dirent_bytes_def load_append)
  moreover have "load e ?mem (length pre + 8) = Some (d_off d)"
    using load_append_at [of "length pre + 8" "pre @ bytes_of e (d_ino d)" e "d_off d"] by (simp add: dirent_bytes_def)
  moreover have "load e ?mem (length pre + 20) = Some (d_type d)"
    using load_append_at [of "length pre + 20" "pre @ bytes_of e (d_ino d) @ bytes_of e (d_off d) @
        bytes_of e (word_of_nat (length (d_name d)) :: u32)" e "d_type d"] by (simp add: dirent_bytes_def)
  moreover have "rdn ?mem (length pre + 24) (length (d_name d)) = Some (d_name d)"
    by (simp add: rdn_def dirent_bytes_def)
  ultimately show ?thesis
    by (simp add: read_dirent_def dirent_namelen unat_namelen [OF assms] name_offset)
qed

interpretation dir: sized_chain "\<lambda>mem p. map_option ucast (FUSE_DIRENT_SIZE e mem p)" "\<lambda>x. \<exists>d. dirent_ok d \<and> x = dirent_bytes e d"
  for e
proof
  fix x pre post
  assume "\<exists>d. dirent_ok d \<and> x = dirent_bytes e d"
  then obtain d where d: "dirent_ok d" "x = dirent_bytes e d" by blast
  show "map_option ucast (FUSE_DIRENT_SIZE e (pre @ x @ post) (length pre)) = Some (word_of_nat (length x) :: u32)"
    unfolding d(2) using dirent_size_read [OF d(1)] .
  have "0 < length x" using align_up_ge [of 8 "24 + length (d_name d)"] by (simp add: d(2) length_dirent_bytes dirent_size_def)
  then show "x \<noteq> []" by simp
qed

lemma visit_collect: "visit (\<lambda>p s. (0, s @ [f p])) ps s = (0, s @ map f ps)"
  by (induction ps arbitrary: s) simp_all

lemma read_positions:
  assumes "\<And>d pre post. d \<in> set ds \<Longrightarrow> reader (pre @ enc d @ post) (length pre) = Some d"
  shows "map (reader (pre @ concat (map enc ds) @ post)) (positions (length pre) (map enc ds)) = map Some ds"
  using assms
proof (induction ds arbitrary: pre)
  case (Cons d ds)
  then show ?case using Cons.IH [of "pre @ enc d"] by simp
qed simp

text \<open>
  C34: The records of a directory are found again: stepping through the buffer by \<^verbatim>\<open>FUSE_DIRENT_SIZE\<close> and taking
  \<^verbatim>\<open>namelen\<close> bytes at \<^verbatim>\<open>FUSE_NAME_OFFSET\<close> gives the records that were put into it, names of every length included.
\<close>

theorem fuse_dirents_roundtrip:
  assumes "list_all dirent_ok ds" "length (concat (map (dirent_bytes e) ds)) < 2 ^ 32" "length ds < fuel"
    and "mem = concat (map (dirent_bytes e) ds)"
  shows "c_iterate (Some (word_of_nat (length mem))) (\<lambda>i. map_option ucast (FUSE_DIRENT_SIZE e mem (unat i)))
      (\<lambda>i s. (0, s @ [read_dirent e mem (unat i)])) fuel 0 0 [] = Some (0, map Some ds, word_of_nat (length mem))"
proof -
  let ?xs = "map (dirent_bytes e) ds"
  have items: "\<forall>x \<in> set ?xs. \<exists>d. dirent_ok d \<and> x = dirent_bytes e d"
    using assms(1) by (auto simp add: list_all_iff)
  obtain ret s i where w: "c_iterate (Some (word_of_nat (length mem))) (\<lambda>i. map_option ucast (FUSE_DIRENT_SIZE e mem (unat i)))
      (\<lambda>i s. (0, s @ [read_dirent e mem (unat i)])) fuel 0 0 [] = Some (ret, s, i)"
    and v: "visit (\<lambda>i s. (0, s @ [read_dirent e mem (unat (i :: u32))])) (map word_of_nat (positions 0 ?xs)) [] = (ret, s)"
    and i: "ret = 0 \<longrightarrow> i = word_of_nat (length mem)"
    using dir.iterate_items [OF items, of "[]" fuel mem "[]" "[]" "Some (word_of_nat (length mem))"
        "\<lambda>i s. (0, s @ [read_dirent e mem (unat i)])" "[]"] assms(2-4)
    by (auto simp del: length_concat)
  have "visit (\<lambda>i s. (0, s @ [read_dirent e mem (unat (i :: u32))])) (map word_of_nat (positions 0 ?xs)) [] =
      (0, map (read_dirent e mem) (positions 0 ?xs))"
    using visit_positions [of 0 ?xs "\<lambda>p s. (0, s @ [read_dirent e mem p])" 0 "[]"] assms(2)
    by (simp add: visit_collect del: length_concat)
  moreover have "map (read_dirent e mem) (positions 0 ?xs) = map Some ds"
    using read_positions [where ds = ds and reader = "read_dirent e" and enc = "dirent_bytes e" and pre = "[]" and post = "[]"]
      assms(1,4) read_dirent_bytes
    by (simp add: list_all_iff)
  ultimately show ?thesis using w v i by simp
qed

theorem fuse_dirents_roundtrip_witness:
  "let ds = [\<lparr>d_ino = 1, d_off = 1, d_type = 4, d_name = [46]\<rparr>, \<lparr>d_ino = 7, d_off = 2, d_type = 8, d_name = [97, 98]\<rparr>];
       mem = concat (map (dirent_bytes Little) ds)
   in c_iterate (Some (word_of_nat (length mem))) (\<lambda>i. map_option ucast (FUSE_DIRENT_SIZE Little mem (unat i)))
      (\<lambda>i s. (0, s @ [read_dirent Little mem (unat i)])) 3 0 0 [] = Some (0, map Some ds, word_of_nat (length mem))"
  unfolding Let_def
  by (rule fuse_dirents_roundtrip) (simp_all add: dirent_ok_def length_dirent_bytes dirent_size_def align_up_def)

end
