(* ===== verification/Abi_Request.thy ===== *)
theory Abi_Request
  imports Ioctl C_Layout "HOL-Library.Code_Target_Nat"
begin

text \<open>
  Tables of ioctl requests. A header declares a request by one of \<^verbatim>\<open>_IO\<close>, \<^verbatim>\<open>_IOR\<close>, \<^verbatim>\<open>_IOW\<close> and \<^verbatim>\<open>_IOWR\<close> with a type
  character, a number and the type of the argument; its value, and with it what the kernel dispatches on,
  depends on the layout of the number (\<open>Ioctl\<close>) and on the size of the argument under the ABI of the program
  (\<open>C_Layout\<close>). The locale \<open>ioctl_interface\<close> states what a table of requests has to meet, and what follows
  from it for every layout and ABI.
\<close>

section \<open>Requests\<close>

datatype request =
    IO_req nat nat
  | IOR_req nat nat ctype
  | IOW_req nat nat ctype
  | IOWR_req nat nat ctype

fun request_number :: "ioc_layout \<Rightarrow> nat \<Rightarrow> request \<Rightarrow> 'l::len word" where
  "request_number L amax (IO_req ty nr) = IO L (word_of_nat ty) (word_of_nat nr)"
| "request_number L amax (IOR_req ty nr t) = IOR L (word_of_nat ty) (word_of_nat nr) (word_of_nat (sizeof amax t))"
| "request_number L amax (IOW_req ty nr t) = IOW L (word_of_nat ty) (word_of_nat nr) (word_of_nat (sizeof amax t))"
| "request_number L amax (IOWR_req ty nr t) = IOWR L (word_of_nat ty) (word_of_nat nr) (word_of_nat (sizeof amax t))"

datatype req_kind = Kind_none | Kind_read | Kind_write | Kind_both

fun req_slot :: "request \<Rightarrow> req_kind \<times> nat \<times> nat" where
  "req_slot (IO_req ty nr) = (Kind_none, ty, nr)"
| "req_slot (IOR_req ty nr t) = (Kind_read, ty, nr)"
| "req_slot (IOW_req ty nr t) = (Kind_write, ty, nr)"
| "req_slot (IOWR_req ty nr t) = (Kind_both, ty, nr)"

fun req_arg :: "request \<Rightarrow> ctype" where
  "req_arg (IO_req ty nr) = Struct []"
| "req_arg (IOR_req ty nr t) = t"
| "req_arg (IOW_req ty nr t) = t"
| "req_arg (IOWR_req ty nr t) = t"

fun kind_dir :: "ioc_layout \<Rightarrow> req_kind \<Rightarrow> u32" where
  "kind_dir L Kind_none = IOC_NONE L"
| "kind_dir L Kind_read = IOC_READ L"
| "kind_dir L Kind_write = IOC_WRITE L"
| "kind_dir L Kind_both = IOC_READ L OR IOC_WRITE L"

definition req_ok :: "request \<Rightarrow> bool" where
  "req_ok r \<longleftrightarrow> fst (snd (req_slot r)) < 256 \<and> snd (snd (req_slot r)) < 256"

definition req_small :: "nat \<Rightarrow> request \<Rightarrow> bool" where
  "req_small amax r \<longleftrightarrow> sizeof amax (req_arg r) < 2 ^ 13"

text \<open>The layouts with the generic decoders.\<close>

definition ioc_layouts :: "ioc_layout set" where
  "ioc_layouts = {generic_ioc, mips_ioc, powerpc_ioc, parisc_ioc, alpha_ioc}"

lemma sizeof_empty: "sizeof amax (Struct []) = 0"
  by (simp add: align_up_def)

lemma request_number_IOC:
  "(request_number L amax r :: 'l::len word) =
    (case req_slot r of (k, ty, nr) \<Rightarrow> IOC L (kind_dir L k) (word_of_nat ty) (word_of_nat nr)
      (word_of_nat (sizeof amax (req_arg r))))"
  by (cases r) (simp_all add: IO_def IOR_def IOW_def IOWR_def sizeof_empty del: sizeof.simps)

lemma layout_facts:
  assumes "L \<in> ioc_layouts"
  shows "wf_ioc L" "13 \<le> IOC_SIZEBITS L" "fits (IOC_DIRBITS L) (kind_dir L k)"
    "kind_dir L j = kind_dir L k \<longleftrightarrow> j = k"
proof -
  show wf: "wf_ioc L" using assms wf_layouts by (auto simp add: ioc_layouts_def)
  show "13 \<le> IOC_SIZEBITS L"
    using assms by (auto simp add: ioc_layouts_def generic_ioc_def mips_ioc_def powerpc_ioc_def parisc_ioc_def
        alpha_ioc_def)
  show "fits (IOC_DIRBITS L) (kind_dir L k)"
    using assms by (cases k) (auto simp add: ioc_layouts_def generic_ioc_def mips_ioc_def powerpc_ioc_def
        parisc_ioc_def alpha_ioc_def fits_def)
  show "kind_dir L j = kind_dir L k \<longleftrightarrow> j = k"
    using assms by (cases j; cases k) (auto simp add: ioc_layouts_def generic_ioc_def mips_ioc_def powerpc_ioc_def
        parisc_ioc_def alpha_ioc_def)
qed

lemma unat_word_of_nat_less: "n < 2 ^ LENGTH('l) \<Longrightarrow> unat (word_of_nat n :: 'l::len word) = n"
  by (simp add: unsigned_of_nat take_bit_nat_eq_self)

lemma word_of_nat_inj:
  "(word_of_nat a :: 'a::len word) = word_of_nat b \<Longrightarrow> a < 2 ^ LENGTH('a) \<Longrightarrow> b < 2 ^ LENGTH('a) \<Longrightarrow> a = b"
  by (metis unat_word_of_nat_less)

lemma fits_of_nat:
  assumes "n < 2 ^ k" "k < LENGTH('l)"
  shows "fits k (word_of_nat n :: 'l::len word)"
proof -
  have "n < 2 ^ LENGTH('l)" using assms by (meson less_trans one_less_numeral_iff power_strict_increasing semiring_norm(76))
  moreover have "unat (2 ^ k :: 'l word) = 2 ^ k"
    using unat_word_of_nat_less [of "2 ^ k", where ?'l = 'l] assms(2) by simp
  ultimately have "unat (word_of_nat n :: 'l word) < unat (2 ^ k :: 'l word)"
    using assms(1) by (simp only: unat_word_of_nat_less)
  then show ?thesis using assms(2) by (simp add: fits_iff_less word_less_nat_alt)
qed

lemma request_valid:
  assumes "L \<in> ioc_layouts" "req_ok r" "req_small amax r" "32 \<le> LENGTH('s)"
  shows "ioc_valid L (kind_dir L (fst (req_slot r))) (word_of_nat (fst (snd (req_slot r))))
    (word_of_nat (snd (snd (req_slot r)))) (word_of_nat (sizeof amax (req_arg r)) :: 's::len word)"
proof -
  have "fits 13 (word_of_nat (sizeof amax (req_arg r)) :: 's word)"
    using assms(3,4) by (intro fits_of_nat) (simp_all add: req_small_def)
  then have "fits (IOC_SIZEBITS L) (word_of_nat (sizeof amax (req_arg r)) :: 's word)"
    using layout_facts(2) [OF assms(1)] by (rule fits_mono)
  moreover have "fits 8 (word_of_nat n :: u32)" if "n < 256" for n using that by (intro fits_of_nat) simp_all
  ultimately show ?thesis using assms(2) layout_facts(3) [OF assms(1)] by (simp add: ioc_valid_def req_ok_def)
qed

section \<open>What a table of requests promises\<close>

text \<open>Two requests differ in direction, type character or number, or else in the size of the argument.\<close>

definition req_key :: "nat \<Rightarrow> request \<Rightarrow> (req_kind \<times> nat \<times> nat) \<times> nat" where
  "req_key amax r = (req_slot r, sizeof amax (req_arg r))"

text \<open>
  A long table is checked by sorting: a key is packed into a number, and the sorted numbers have to ascend.
\<close>

fun ascending :: "nat list \<Rightarrow> bool" where
  "ascending (x # y # zs) = (x < y \<and> ascending (y # zs))"
| "ascending _ = True"

fun kind_code :: "req_kind \<Rightarrow> nat" where
  "kind_code Kind_none = 0"
| "kind_code Kind_read = 1"
| "kind_code Kind_write = 2"
| "kind_code Kind_both = 3"

fun key_code :: "(req_kind \<times> nat \<times> nat) \<times> nat \<Rightarrow> nat" where
  "key_code ((k, ty, nr), n) = ((nr * 256 + ty) * 4 + kind_code k) * 8192 + n"

definition req_codes :: "nat \<Rightarrow> request list \<Rightarrow> nat list" where
  "req_codes amax rs = map (\<lambda>r. key_code (req_key amax r)) rs"

definition table_ok :: "nat \<Rightarrow> request list \<Rightarrow> bool" where
  "table_ok amax rs \<longleftrightarrow> list_all (\<lambda>r. fst (snd (req_slot r)) < 256 \<and> snd (snd (req_slot r)) < 256 \<and>
     sizeof amax (req_arg r) < 8192) rs \<and> ascending (sort (req_codes amax rs))"

lemma ascending_less: "ascending (x # xs) \<Longrightarrow> y \<in> set xs \<Longrightarrow> x < y"
  by (induction xs arbitrary: x) fastforce+

lemma ascending_distinct: "ascending xs \<Longrightarrow> distinct xs"
proof (induction xs rule: ascending.induct)
  case (1 x y zs)
  then show ?case using ascending_less [of x "y # zs"] by auto
qed simp_all

lemma table_keys: "table_ok amax rs \<Longrightarrow> distinct (map (req_key amax) rs)"
  using ascending_distinct [of "sort (req_codes amax rs)"]
  by (auto simp add: table_ok_def req_codes_def distinct_map inj_on_def)

lemma table_ranges: "table_ok amax rs \<Longrightarrow> list_all req_ok rs \<and> list_all (req_small amax) rs"
  by (simp add: table_ok_def req_ok_def req_small_def list_all_iff)

lemma request_number_eq_iff:
  assumes "L \<in> ioc_layouts" "32 \<le> LENGTH('l)" "req_ok r" "req_ok q" "req_small a r" "req_small b q"
  shows "(request_number L a r :: 'l::len word) = request_number L b q \<longleftrightarrow> req_key a r = req_key b q"
proof -
  obtain k ty nr where s: "req_slot r = (k, ty, nr)" by (cases "req_slot r")
  obtain k' ty' nr' where s': "req_slot q = (k', ty', nr')" by (cases "req_slot q")
  have less: "ty < 2 ^ 32" "nr < 2 ^ 32" "ty' < 2 ^ 32" "nr' < 2 ^ 32"
    using assms(3,4) by (simp_all add: req_ok_def s s')
  have size_less: "sizeof a (req_arg r) < 2 ^ LENGTH('l)" "sizeof b (req_arg q) < 2 ^ LENGTH('l)"
    using assms(5,6) power_increasing [of 13 "LENGTH('l)" "2 :: nat"] assms(2) by (simp_all add: req_small_def)
  note contract = ioc_contract [OF layout_facts(1) [OF assms(1)] assms(2)]
  have "(request_number L a r :: 'l word) = request_number L b q \<longleftrightarrow>
      kind_dir L k = kind_dir L k' \<and> (word_of_nat ty :: u32) = word_of_nat ty' \<and>
      (word_of_nat nr :: u32) = word_of_nat nr' \<and>
      (word_of_nat (sizeof a (req_arg r)) :: 'l word) = word_of_nat (sizeof b (req_arg q))"
    using ioctl_number.inject [OF contract
        request_valid [OF assms(1) assms(3,5) assms(2), unfolded s fst_conv snd_conv]
        request_valid [OF assms(1) assms(4,6) assms(2), unfolded s' fst_conv snd_conv]]
    by (simp add: request_number_IOC s s')
  then show ?thesis
    using less size_less word_of_nat_inj [where 'a = 32] word_of_nat_inj [where 'a = 'l]
      layout_facts(4) [OF assms(1)] by (auto simp add: req_key_def s s')
qed

locale ioctl_interface =
  fixes amax :: nat and requests :: "request list"
  assumes in_range: "list_all req_ok requests"
    and small: "list_all (req_small amax) requests"
    and keys: "distinct (map (req_key amax) requests)"
begin

lemma decoded:
  assumes "L \<in> ioc_layouts" "32 \<le> LENGTH('l)" "r \<in> set requests"
  shows "IOC_SIZE L (request_number L amax r :: 'l::len word) = word_of_nat (sizeof amax (req_arg r))"
    and "IOC_NR L (request_number L amax r :: 'l::len word) = word_of_nat (snd (snd (req_slot r)))"
    and "IOC_TYPE L (request_number L amax r :: 'l::len word) = word_of_nat (fst (snd (req_slot r)))"
proof -
  obtain k ty nr where s: "req_slot r = (k, ty, nr)" by (cases "req_slot r")
  have ok: "req_ok r" "req_small amax r" using in_range small assms(3) by (simp_all add: list_all_iff)
  then have less: "ty < 256" "nr < 256" by (simp_all add: req_ok_def s)
  have up: "(ucast (word_of_nat n :: u32) :: 'l word) = word_of_nat n" if "n < 256" for n
    using that assms(2) by (simp add: unsigned_ucast_eq unsigned_of_nat take_bit_nat_eq_self)
  note contract = ioc_contract [OF layout_facts(1) [OF assms(1)] assms(2)]
  note valid = request_valid [OF assms(1) ok assms(2), unfolded s fst_conv snd_conv]
  show "IOC_SIZE L (request_number L amax r :: 'l word) = word_of_nat (sizeof amax (req_arg r))"
    using ioctl_number.size_ok [OF contract valid] by (simp add: request_number_IOC s)
  show "IOC_NR L (request_number L amax r :: 'l word) = word_of_nat (snd (snd (req_slot r)))"
    using ioctl_number.nr_ok [OF contract valid] up [OF less(2)] by (simp add: request_number_IOC s)
  show "IOC_TYPE L (request_number L amax r :: 'l word) = word_of_nat (fst (snd (req_slot r)))"
    using ioctl_number.type_ok [OF contract valid] up [OF less(1)] by (simp add: request_number_IOC s)
qed

lemma number_key:
  assumes "L \<in> ioc_layouts" "32 \<le> LENGTH('l)" "r \<in> set requests" "q \<in> set requests"
    "(request_number L amax r :: 'l::len word) = request_number L amax q"
  shows "req_key amax r = req_key amax q"
  using request_number_eq_iff [OF assms(1,2), of r q amax amax] assms(3-5) in_range small
  by (simp add: list_all_iff)

lemma numbers_distinct:
  assumes "L \<in> ioc_layouts" "32 \<le> LENGTH('l)"
  shows "distinct (map (request_number L amax) requests :: 'l::len word list)"
proof -
  have "inj_on (request_number L amax :: request \<Rightarrow> 'l word) (set requests)"
  proof (rule inj_onI)
    fix r q
    assume rq: "r \<in> set requests" "q \<in> set requests"
      and eq: "(request_number L amax r :: 'l word) = request_number L amax q"
    from number_key [OF assms rq eq] show "r = q" using keys rq by (meson distinct_map inj_onD)
  qed
  then show ?thesis using keys by (simp add: distinct_map)
qed

lemma sound:
  assumes "L \<in> ioc_layouts" "32 \<le> LENGTH('l)"
  shows "distinct (map (request_number L amax) requests :: 'l::len word list) \<and>
    list_all (\<lambda>r. IOC_SIZE L (request_number L amax r :: 'l word) = word_of_nat (sizeof amax (req_arg r))) requests"
  using numbers_distinct [OF assms] decoded(1) [OF assms] by (simp add: list_all_iff)

end

text \<open>What the properties say of the types in a table: no padding, and one layout on every ABI.\<close>

lemma tight_types:
  "list_all tight ts \<Longrightarrow> t \<in> set ts \<Longrightarrow> same_everywhere t \<and> covered (leaves 8 0 t) 0 (sizeof 8 t)"
  by (simp add: list_all_iff tight_layout tight_covered)

lemma table_interface: "table_ok amax rs \<Longrightarrow> ioctl_interface amax rs"
  using table_keys table_ranges by (simp add: ioctl_interface_def)

text \<open>A request with a tight argument has one number on every ABI.\<close>

lemma request_same_number:
  assumes "tight (req_arg r)" "amax \<in> {1, 2, 4, 8}"
  shows "request_number L amax r = request_number L 8 r"
  using tight_sizeof [OF assms(2,1)] by (simp add: request_number_IOC)


text \<open>
  The ABIs with their largest alignment and width of \<^verbatim>\<open>long\<close>: 64-bit, 32-bit with natural alignment (arm,
  mips, powerpc), i386, and m68k.
\<close>

definition abis :: "(nat \<times> nat) list" where
  "abis = [(8, 8), (8, 4), (4, 4), (2, 4)]"

text \<open>
  A 32-bit program under a 64-bit kernel: the requests of the program next to those of the kernel, and the
  requests of the kernel that the program does not reach with the number it uses.
\<close>

locale ioctl_compat = kernel: ioctl_interface 8 requests64 + user: ioctl_interface amax requests32
  for amax :: nat and requests32 :: "request list" and requests64 :: "request list" +
  fixes changed :: "request list"
  assumes pairs: "list_all2 (\<lambda>r q. (req_key amax r = req_key 8 q) \<noteq> (q \<in> set changed)) requests32 requests64"
    and alike: "list_all2 (\<lambda>r q. agree amax (req_arg q) \<or> q \<in> set changed \<or> r \<noteq> q) requests32 requests64"
begin

text \<open>The argument of a request that takes no pointer is read by the kernel as the program wrote it.\<close>

lemma passed:
  "list_all2 (\<lambda>r q. r = q \<longrightarrow> q \<notin> set changed \<longrightarrow> leaves amax 0 (req_arg q) = leaves 8 0 (req_arg q)) requests32 requests64"
  by (rule list.rel_mono_strong [OF alike]) (auto intro: agree_leaves)

lemma reached:
  assumes "L \<in> ioc_layouts" "32 \<le> LENGTH('l)"
  shows "list_all2 (\<lambda>r q. ((request_number L amax r :: 'l::len word) = request_number L 8 q) \<noteq> (q \<in> set changed))
    requests32 requests64"
proof (rule list.rel_mono_strong [OF pairs])
  fix r q
  assume "r \<in> set requests32" "q \<in> set requests64"
    and key: "(req_key amax r = req_key 8 q) \<noteq> (q \<in> set changed)"
  then have "(request_number L amax r :: 'l word) = request_number L 8 q \<longleftrightarrow> req_key amax r = req_key 8 q"
    using user.in_range user.small kernel.in_range kernel.small
    by (intro request_number_eq_iff [OF assms]) (simp_all add: list_all_iff)
  then show "((request_number L amax r :: 'l word) = request_number L 8 q) \<noteq> (q \<in> set changed)"
    using key by simp
qed

end

section \<open>Families of tables\<close>

text \<open>
  Drivers of one subsystem number their requests independently, so that each has a table of its own. A family
  lists the tables by the name of the driver or device.
\<close>

definition family_ok :: "nat \<Rightarrow> (string \<times> request list) list \<Rightarrow> bool" where
  "family_ok amax ds \<longleftrightarrow> list_all (\<lambda>d. table_ok amax (snd d)) ds"

lemma family_interface: "family_ok amax ds \<Longrightarrow> d \<in> set ds \<Longrightarrow> ioctl_interface amax (snd d)"
  by (simp add: family_ok_def list_all_iff table_interface)

lemma family_compat:
  assumes ok: "family_ok amax ds" "family_ok 8 gs"
    and pairs: "list_all2 (\<lambda>d g. list_all2 (\<lambda>r q. (req_key amax r = req_key 8 q) \<noteq> (q \<in> set changed)) (snd d) (snd g)) ds gs"
    and alike: "list_all2 (\<lambda>d g. list_all2 (\<lambda>r q. agree amax (req_arg q) \<or> q \<in> set changed \<or> r \<noteq> q) (snd d) (snd g)) ds gs"
  shows "list_all2 (\<lambda>d g. ioctl_compat amax (snd d) (snd g) changed) ds gs"
proof (rule list_all2_all_nthI)
  show len: "length ds = length gs" using pairs by (rule list_all2_lengthD)
  fix n
  assume n: "n < length ds"
  then show "ioctl_compat amax (snd (ds ! n)) (snd (gs ! n)) changed"
    using list_all2_nthD [OF pairs n] list_all2_nthD [OF alike n] len
      family_interface [OF ok(1), of "ds ! n"] family_interface [OF ok(2), of "gs ! n"]
    by (intro ioctl_compat.intro ioctl_compat_axioms.intro) simp_all
qed

lemma family_requests:
  assumes "list_all2 (\<lambda>d g. ioctl_compat amax (snd d) (snd g) changed) ds gs" "L \<in> ioc_layouts" "32 \<le> LENGTH('l)"
  shows "list_all2 (\<lambda>d g. list_all2 (\<lambda>r q. ((request_number L amax r :: 'l::len word) = request_number L 8 q) \<noteq>
      (q \<in> set changed)) (snd d) (snd g) \<and>
    list_all2 (\<lambda>r q. r = q \<longrightarrow> q \<notin> set changed \<longrightarrow> leaves amax 0 (req_arg q) = leaves 8 0 (req_arg q))
      (snd d) (snd g)) ds gs"
  by (rule list_all2_mono [OF assms(1)]) (blast intro: ioctl_compat.reached [OF _ assms(2,3)] ioctl_compat.passed)

end
