(* ===== verification/Abi_Btrfs.thy ===== *)
theory Abi_Btrfs
  imports Abi_Request
begin

text \<open>
  The ioctl interface of btrfs (\<^verbatim>\<open>include/linux/btrfs.h\<close>): the structures that cross it and its requests. The
  two requests for the label are those of \<^verbatim>\<open>include/linux/fs.h\<close>.
\<close>

section \<open>Structures\<close>

definition struct_btrfs_ioctl_vol_args :: ctype where
  "struct_btrfs_ioctl_vol_args = c_struct [
     (''fd'', u64_t),
     (''name'', Arr u8_t 4088)]"

definition struct_btrfs_qgroup_limit :: ctype where
  "struct_btrfs_qgroup_limit = c_struct [
     (''flags'', u64_t),
     (''max_rfer'', u64_t),
     (''max_excl'', u64_t),
     (''rsv_rfer'', u64_t),
     (''rsv_excl'', u64_t)]"

definition struct_btrfs_qgroup_inherit :: ctype where
  "struct_btrfs_qgroup_inherit = c_struct [
     (''flags'', u64_t),
     (''num_qgroups'', u64_t),
     (''num_ref_copies'', u64_t),
     (''num_excl_copies'', u64_t),
     (''lim'', struct_btrfs_qgroup_limit),
     (''qgroups'', Arr u64_t 0)]"

definition struct_btrfs_ioctl_qgroup_limit_args :: ctype where
  "struct_btrfs_ioctl_qgroup_limit_args = c_struct [
     (''qgroupid'', u64_t),
     (''lim'', struct_btrfs_qgroup_limit)]"

definition struct_btrfs_ioctl_vol_args_v2 :: "nat \<Rightarrow> ctype" where
  "struct_btrfs_ioctl_vol_args_v2 w = c_struct [
     (''fd'', u64_t),
     (''transid'', u64_t),
     (''flags'', u64_t),
     ('''', c_union [ ('''', c_struct [ (''size'', u64_t), (''qgroup_inherit'', ptr_t w)]), (''unused'', Arr u64_t 4)]),
     ('''', c_union [ (''name'', Arr u8_t 4040), (''devid'', u64_t), (''subvolid'', u64_t)])]"

definition struct_btrfs_scrub_progress :: ctype where
  "struct_btrfs_scrub_progress = c_struct [
     (''data_extents_scrubbed'', u64_t),
     (''tree_extents_scrubbed'', u64_t),
     (''data_bytes_scrubbed'', u64_t),
     (''tree_bytes_scrubbed'', u64_t),
     (''read_errors'', u64_t),
     (''csum_errors'', u64_t),
     (''verify_errors'', u64_t),
     (''no_csum'', u64_t),
     (''csum_discards'', u64_t),
     (''super_errors'', u64_t),
     (''malloc_errors'', u64_t),
     (''uncorrectable_errors'', u64_t),
     (''corrected_errors'', u64_t),
     (''last_physical'', u64_t),
     (''unverified_errors'', u64_t)]"

definition struct_btrfs_ioctl_scrub_args :: ctype where
  "struct_btrfs_ioctl_scrub_args = c_struct [
     (''devid'', u64_t),
     (''start'', u64_t),
     (''end'', u64_t),
     (''flags'', u64_t),
     (''progress'', struct_btrfs_scrub_progress),
     (''unused'', Arr u64_t 109)]"

definition struct_btrfs_ioctl_dev_replace_start_params :: ctype where
  "struct_btrfs_ioctl_dev_replace_start_params = c_struct [
     (''srcdevid'', u64_t),
     (''cont_reading_from_srcdev_mode'', u64_t),
     (''srcdev_name'', Arr u8_t 1025),
     (''tgtdev_name'', Arr u8_t 1025)]"

definition struct_btrfs_ioctl_dev_replace_status_params :: ctype where
  "struct_btrfs_ioctl_dev_replace_status_params = c_struct [
     (''replace_state'', u64_t),
     (''progress_1000'', u64_t),
     (''time_started'', u64_t),
     (''time_stopped'', u64_t),
     (''num_write_errors'', u64_t),
     (''num_uncorrectable_read_errors'', u64_t)]"

definition struct_btrfs_ioctl_dev_replace_args :: ctype where
  "struct_btrfs_ioctl_dev_replace_args = c_struct [
     (''cmd'', u64_t),
     (''result'', u64_t),
     ('''', c_union [ (''start'', struct_btrfs_ioctl_dev_replace_start_params), (''status'', struct_btrfs_ioctl_dev_replace_status_params)]),
     (''spare'', Arr u64_t 64)]"

definition struct_btrfs_ioctl_dev_info_args :: ctype where
  "struct_btrfs_ioctl_dev_info_args = c_struct [
     (''devid'', u64_t),
     (''uuid'', Arr u8_t 16),
     (''bytes_used'', u64_t),
     (''total_bytes'', u64_t),
     (''unused'', Arr u64_t 379),
     (''path'', Arr u8_t 1024)]"

definition struct_btrfs_ioctl_fs_info_args :: ctype where
  "struct_btrfs_ioctl_fs_info_args = c_struct [
     (''max_id'', u64_t),
     (''num_devices'', u64_t),
     (''fsid'', Arr u8_t 16),
     (''nodesize'', u32_t),
     (''sectorsize'', u32_t),
     (''clone_alignment'', u32_t),
     (''csum_type'', u16_t),
     (''csum_size'', u16_t),
     (''flags'', u64_t),
     (''generation'', u64_t),
     (''metadata_uuid'', Arr u8_t 16),
     (''reserved'', Arr u8_t 944)]"

definition struct_btrfs_ioctl_feature_flags :: ctype where
  "struct_btrfs_ioctl_feature_flags = c_struct [
     (''compat_flags'', u64_t),
     (''compat_ro_flags'', u64_t),
     (''incompat_flags'', u64_t)]"

definition struct_btrfs_balance_args :: ctype where
  "struct_btrfs_balance_args = c_packed [
     (''profiles'', u64_t),
     ('''', c_union [ (''usage'', u64_t), ('''', c_struct [ (''usage_min'', u32_t), (''usage_max'', u32_t)])]),
     (''devid'', u64_t),
     (''pstart'', u64_t),
     (''pend'', u64_t),
     (''vstart'', u64_t),
     (''vend'', u64_t),
     (''target'', u64_t),
     (''flags'', u64_t),
     ('''', c_union [ (''limit'', u64_t), ('''', c_struct [ (''limit_min'', u32_t), (''limit_max'', u32_t)])]),
     (''stripes_min'', u32_t),
     (''stripes_max'', u32_t),
     (''unused'', Arr u64_t 6)]"

definition struct_btrfs_balance_progress :: ctype where
  "struct_btrfs_balance_progress = c_struct [
     (''expected'', u64_t),
     (''considered'', u64_t),
     (''completed'', u64_t)]"

definition struct_btrfs_ioctl_balance_args :: ctype where
  "struct_btrfs_ioctl_balance_args = c_struct [
     (''flags'', u64_t),
     (''state'', u64_t),
     (''data'', struct_btrfs_balance_args),
     (''meta'', struct_btrfs_balance_args),
     (''sys'', struct_btrfs_balance_args),
     (''stat'', struct_btrfs_balance_progress),
     (''unused'', Arr u64_t 72)]"

definition struct_btrfs_ioctl_ino_lookup_args :: ctype where
  "struct_btrfs_ioctl_ino_lookup_args = c_struct [
     (''treeid'', u64_t),
     (''objectid'', u64_t),
     (''name'', Arr u8_t 4080)]"

definition struct_btrfs_ioctl_ino_lookup_user_args :: ctype where
  "struct_btrfs_ioctl_ino_lookup_user_args = c_struct [
     (''dirid'', u64_t),
     (''treeid'', u64_t),
     (''name'', Arr u8_t 256),
     (''path'', Arr u8_t 3824)]"

definition struct_btrfs_ioctl_search_key :: ctype where
  "struct_btrfs_ioctl_search_key = c_struct [
     (''tree_id'', u64_t),
     (''min_objectid'', u64_t),
     (''max_objectid'', u64_t),
     (''min_offset'', u64_t),
     (''max_offset'', u64_t),
     (''min_transid'', u64_t),
     (''max_transid'', u64_t),
     (''min_type'', u32_t),
     (''max_type'', u32_t),
     (''nr_items'', u32_t),
     (''unused'', u32_t),
     (''unused1'', u64_t),
     (''unused2'', u64_t),
     (''unused3'', u64_t),
     (''unused4'', u64_t)]"

definition struct_btrfs_ioctl_search_header :: ctype where
  "struct_btrfs_ioctl_search_header = c_struct [
     (''transid'', u64_t),
     (''objectid'', u64_t),
     (''offset'', u64_t),
     (''type'', u32_t),
     (''len'', u32_t)]"

definition struct_btrfs_ioctl_search_args :: ctype where
  "struct_btrfs_ioctl_search_args = c_struct [
     (''key'', struct_btrfs_ioctl_search_key),
     (''buf'', Arr u8_t 3992)]"

definition struct_btrfs_ioctl_search_args_v2 :: ctype where
  "struct_btrfs_ioctl_search_args_v2 = c_struct [
     (''key'', struct_btrfs_ioctl_search_key),
     (''buf_size'', u64_t),
     (''buf'', Arr u64_t 0)]"

definition struct_btrfs_ioctl_clone_range_args :: ctype where
  "struct_btrfs_ioctl_clone_range_args = c_struct [
     (''src_fd'', u64_t),
     (''src_offset'', u64_t),
     (''src_length'', u64_t),
     (''dest_offset'', u64_t)]"

definition struct_btrfs_ioctl_defrag_range_args :: ctype where
  "struct_btrfs_ioctl_defrag_range_args = c_struct [
     (''start'', u64_t),
     (''len'', u64_t),
     (''flags'', u64_t),
     (''extent_thresh'', u32_t),
     (''compress_type'', u32_t),
     (''unused'', Arr u32_t 4)]"

definition struct_btrfs_ioctl_same_extent_info :: ctype where
  "struct_btrfs_ioctl_same_extent_info = c_struct [
     (''fd'', u64_t),
     (''logical_offset'', u64_t),
     (''bytes_deduped'', u64_t),
     (''status'', u32_t),
     (''reserved'', u32_t)]"

definition struct_btrfs_ioctl_same_args :: ctype where
  "struct_btrfs_ioctl_same_args = c_struct [
     (''logical_offset'', u64_t),
     (''length'', u64_t),
     (''dest_count'', u16_t),
     (''reserved1'', u16_t),
     (''reserved2'', u32_t),
     (''info'', Arr struct_btrfs_ioctl_same_extent_info 0)]"

definition struct_btrfs_ioctl_space_info :: ctype where
  "struct_btrfs_ioctl_space_info = c_struct [
     (''flags'', u64_t),
     (''total_bytes'', u64_t),
     (''used_bytes'', u64_t)]"

definition struct_btrfs_ioctl_space_args :: ctype where
  "struct_btrfs_ioctl_space_args = c_struct [
     (''space_slots'', u64_t),
     (''total_spaces'', u64_t),
     (''spaces'', Arr struct_btrfs_ioctl_space_info 0)]"

definition struct_btrfs_data_container :: ctype where
  "struct_btrfs_data_container = c_struct [
     (''bytes_left'', u32_t),
     (''bytes_missing'', u32_t),
     (''elem_cnt'', u32_t),
     (''elem_missed'', u32_t),
     (''val'', Arr u64_t 0)]"

definition struct_btrfs_ioctl_ino_path_args :: ctype where
  "struct_btrfs_ioctl_ino_path_args = c_struct [
     (''inum'', u64_t),
     (''size'', u64_t),
     (''reserved'', Arr u64_t 4),
     (''fspath'', u64_t)]"

definition struct_btrfs_ioctl_logical_ino_args :: ctype where
  "struct_btrfs_ioctl_logical_ino_args = c_struct [
     (''logical'', u64_t),
     (''size'', u64_t),
     (''reserved'', Arr u64_t 3),
     (''flags'', u64_t),
     (''inodes'', u64_t)]"

definition struct_btrfs_ioctl_get_dev_stats :: ctype where
  "struct_btrfs_ioctl_get_dev_stats = c_struct [
     (''devid'', u64_t),
     (''nr_items'', u64_t),
     (''flags'', u64_t),
     (''values'', Arr u64_t 5),
     (''unused'', Arr u64_t 121)]"

definition struct_btrfs_ioctl_quota_ctl_args :: ctype where
  "struct_btrfs_ioctl_quota_ctl_args = c_struct [
     (''cmd'', u64_t),
     (''status'', u64_t)]"

definition struct_btrfs_ioctl_quota_rescan_args :: ctype where
  "struct_btrfs_ioctl_quota_rescan_args = c_struct [
     (''flags'', u64_t),
     (''progress'', u64_t),
     (''reserved'', Arr u64_t 6)]"

definition struct_btrfs_ioctl_qgroup_assign_args :: ctype where
  "struct_btrfs_ioctl_qgroup_assign_args = c_struct [
     (''assign'', u64_t),
     (''src'', u64_t),
     (''dst'', u64_t)]"

definition struct_btrfs_ioctl_qgroup_create_args :: ctype where
  "struct_btrfs_ioctl_qgroup_create_args = c_struct [
     (''create'', u64_t),
     (''qgroupid'', u64_t)]"

definition struct_btrfs_ioctl_timespec :: ctype where
  "struct_btrfs_ioctl_timespec = c_struct [
     (''sec'', u64_t),
     (''nsec'', u32_t)]"

definition struct_btrfs_ioctl_received_subvol_args :: ctype where
  "struct_btrfs_ioctl_received_subvol_args = c_struct [
     (''uuid'', Arr u8_t 16),
     (''stransid'', u64_t),
     (''rtransid'', u64_t),
     (''stime'', struct_btrfs_ioctl_timespec),
     (''rtime'', struct_btrfs_ioctl_timespec),
     (''flags'', u64_t),
     (''reserved'', Arr u64_t 16)]"

definition struct_btrfs_ioctl_send_args :: "nat \<Rightarrow> ctype" where
  "struct_btrfs_ioctl_send_args w = c_struct [
     (''send_fd'', u64_t),
     (''clone_sources_count'', u64_t),
     (''clone_sources'', ptr_t w),
     (''parent_root'', u64_t),
     (''flags'', u64_t),
     (''reserved'', Arr u64_t 4)]"

definition struct_btrfs_ioctl_get_subvol_info_args :: ctype where
  "struct_btrfs_ioctl_get_subvol_info_args = c_struct [
     (''treeid'', u64_t),
     (''name'', Arr u8_t 256),
     (''parent_id'', u64_t),
     (''dirid'', u64_t),
     (''generation'', u64_t),
     (''flags'', u64_t),
     (''uuid'', Arr u8_t 16),
     (''parent_uuid'', Arr u8_t 16),
     (''received_uuid'', Arr u8_t 16),
     (''ctransid'', u64_t),
     (''otransid'', u64_t),
     (''stransid'', u64_t),
     (''rtransid'', u64_t),
     (''ctime'', struct_btrfs_ioctl_timespec),
     (''otime'', struct_btrfs_ioctl_timespec),
     (''stime'', struct_btrfs_ioctl_timespec),
     (''rtime'', struct_btrfs_ioctl_timespec),
     (''reserved'', Arr u64_t 8)]"

definition struct_btrfs_ioctl_get_subvol_rootref_args :: ctype where
  "struct_btrfs_ioctl_get_subvol_rootref_args = c_struct [
     (''min_treeid'', u64_t),
     (''rootref'', Arr (c_struct [ (''treeid'', u64_t), (''dirid'', u64_t)]) 255),
     (''num_items'', u8_t),
     (''align'', Arr u8_t 7)]"

section \<open>Requests\<close>

definition BTRFS_IOCTL_MAGIC :: nat where "BTRFS_IOCTL_MAGIC = 0x94"

definition BTRFS_IOC_SNAP_CREATE :: request where
  "BTRFS_IOC_SNAP_CREATE = IOW_req BTRFS_IOCTL_MAGIC 1 struct_btrfs_ioctl_vol_args"

definition BTRFS_IOC_DEFRAG :: request where
  "BTRFS_IOC_DEFRAG = IOW_req BTRFS_IOCTL_MAGIC 2 struct_btrfs_ioctl_vol_args"

definition BTRFS_IOC_RESIZE :: request where
  "BTRFS_IOC_RESIZE = IOW_req BTRFS_IOCTL_MAGIC 3 struct_btrfs_ioctl_vol_args"

definition BTRFS_IOC_SCAN_DEV :: request where
  "BTRFS_IOC_SCAN_DEV = IOW_req BTRFS_IOCTL_MAGIC 4 struct_btrfs_ioctl_vol_args"

definition BTRFS_IOC_FORGET_DEV :: request where
  "BTRFS_IOC_FORGET_DEV = IOW_req BTRFS_IOCTL_MAGIC 5 struct_btrfs_ioctl_vol_args"

definition BTRFS_IOC_TRANS_START :: request where
  "BTRFS_IOC_TRANS_START = IO_req BTRFS_IOCTL_MAGIC 6"

definition BTRFS_IOC_TRANS_END :: request where
  "BTRFS_IOC_TRANS_END = IO_req BTRFS_IOCTL_MAGIC 7"

definition BTRFS_IOC_SYNC :: request where
  "BTRFS_IOC_SYNC = IO_req BTRFS_IOCTL_MAGIC 8"

definition BTRFS_IOC_CLONE :: request where
  "BTRFS_IOC_CLONE = IOW_req BTRFS_IOCTL_MAGIC 9 u32_t"

definition BTRFS_IOC_ADD_DEV :: request where
  "BTRFS_IOC_ADD_DEV = IOW_req BTRFS_IOCTL_MAGIC 10 struct_btrfs_ioctl_vol_args"

definition BTRFS_IOC_RM_DEV :: request where
  "BTRFS_IOC_RM_DEV = IOW_req BTRFS_IOCTL_MAGIC 11 struct_btrfs_ioctl_vol_args"

definition BTRFS_IOC_BALANCE :: request where
  "BTRFS_IOC_BALANCE = IOW_req BTRFS_IOCTL_MAGIC 12 struct_btrfs_ioctl_vol_args"

definition BTRFS_IOC_CLONE_RANGE :: request where
  "BTRFS_IOC_CLONE_RANGE = IOW_req BTRFS_IOCTL_MAGIC 13 struct_btrfs_ioctl_clone_range_args"

definition BTRFS_IOC_SUBVOL_CREATE :: request where
  "BTRFS_IOC_SUBVOL_CREATE = IOW_req BTRFS_IOCTL_MAGIC 14 struct_btrfs_ioctl_vol_args"

definition BTRFS_IOC_SNAP_DESTROY :: request where
  "BTRFS_IOC_SNAP_DESTROY = IOW_req BTRFS_IOCTL_MAGIC 15 struct_btrfs_ioctl_vol_args"

definition BTRFS_IOC_DEFRAG_RANGE :: request where
  "BTRFS_IOC_DEFRAG_RANGE = IOW_req BTRFS_IOCTL_MAGIC 16 struct_btrfs_ioctl_defrag_range_args"

definition BTRFS_IOC_TREE_SEARCH :: request where
  "BTRFS_IOC_TREE_SEARCH = IOWR_req BTRFS_IOCTL_MAGIC 17 struct_btrfs_ioctl_search_args"

definition BTRFS_IOC_TREE_SEARCH_V2 :: request where
  "BTRFS_IOC_TREE_SEARCH_V2 = IOWR_req BTRFS_IOCTL_MAGIC 17 struct_btrfs_ioctl_search_args_v2"

definition BTRFS_IOC_INO_LOOKUP :: request where
  "BTRFS_IOC_INO_LOOKUP = IOWR_req BTRFS_IOCTL_MAGIC 18 struct_btrfs_ioctl_ino_lookup_args"

definition BTRFS_IOC_DEFAULT_SUBVOL :: request where
  "BTRFS_IOC_DEFAULT_SUBVOL = IOW_req BTRFS_IOCTL_MAGIC 19 u64_t"

definition BTRFS_IOC_SPACE_INFO :: request where
  "BTRFS_IOC_SPACE_INFO = IOWR_req BTRFS_IOCTL_MAGIC 20 struct_btrfs_ioctl_space_args"

definition BTRFS_IOC_START_SYNC :: request where
  "BTRFS_IOC_START_SYNC = IOR_req BTRFS_IOCTL_MAGIC 24 u64_t"

definition BTRFS_IOC_WAIT_SYNC :: request where
  "BTRFS_IOC_WAIT_SYNC = IOW_req BTRFS_IOCTL_MAGIC 22 u64_t"

definition BTRFS_IOC_SNAP_CREATE_V2 :: "nat \<Rightarrow> request" where
  "BTRFS_IOC_SNAP_CREATE_V2 w = IOW_req BTRFS_IOCTL_MAGIC 23 (struct_btrfs_ioctl_vol_args_v2 w)"

definition BTRFS_IOC_SUBVOL_CREATE_V2 :: "nat \<Rightarrow> request" where
  "BTRFS_IOC_SUBVOL_CREATE_V2 w = IOW_req BTRFS_IOCTL_MAGIC 24 (struct_btrfs_ioctl_vol_args_v2 w)"

definition BTRFS_IOC_SUBVOL_GETFLAGS :: request where
  "BTRFS_IOC_SUBVOL_GETFLAGS = IOR_req BTRFS_IOCTL_MAGIC 25 u64_t"

definition BTRFS_IOC_SUBVOL_SETFLAGS :: request where
  "BTRFS_IOC_SUBVOL_SETFLAGS = IOW_req BTRFS_IOCTL_MAGIC 26 u64_t"

definition BTRFS_IOC_SCRUB :: request where
  "BTRFS_IOC_SCRUB = IOWR_req BTRFS_IOCTL_MAGIC 27 struct_btrfs_ioctl_scrub_args"

definition BTRFS_IOC_SCRUB_CANCEL :: request where
  "BTRFS_IOC_SCRUB_CANCEL = IO_req BTRFS_IOCTL_MAGIC 28"

definition BTRFS_IOC_SCRUB_PROGRESS :: request where
  "BTRFS_IOC_SCRUB_PROGRESS = IOWR_req BTRFS_IOCTL_MAGIC 29 struct_btrfs_ioctl_scrub_args"

definition BTRFS_IOC_DEV_INFO :: request where
  "BTRFS_IOC_DEV_INFO = IOWR_req BTRFS_IOCTL_MAGIC 30 struct_btrfs_ioctl_dev_info_args"

definition BTRFS_IOC_FS_INFO :: request where
  "BTRFS_IOC_FS_INFO = IOR_req BTRFS_IOCTL_MAGIC 31 struct_btrfs_ioctl_fs_info_args"

definition BTRFS_IOC_BALANCE_V2 :: request where
  "BTRFS_IOC_BALANCE_V2 = IOWR_req BTRFS_IOCTL_MAGIC 32 struct_btrfs_ioctl_balance_args"

definition BTRFS_IOC_BALANCE_CTL :: request where
  "BTRFS_IOC_BALANCE_CTL = IOW_req BTRFS_IOCTL_MAGIC 33 u32_t"

definition BTRFS_IOC_BALANCE_PROGRESS :: request where
  "BTRFS_IOC_BALANCE_PROGRESS = IOR_req BTRFS_IOCTL_MAGIC 34 struct_btrfs_ioctl_balance_args"

definition BTRFS_IOC_INO_PATHS :: request where
  "BTRFS_IOC_INO_PATHS = IOWR_req BTRFS_IOCTL_MAGIC 35 struct_btrfs_ioctl_ino_path_args"

definition BTRFS_IOC_LOGICAL_INO :: request where
  "BTRFS_IOC_LOGICAL_INO = IOWR_req BTRFS_IOCTL_MAGIC 36 struct_btrfs_ioctl_logical_ino_args"

definition BTRFS_IOC_SET_RECEIVED_SUBVOL :: request where
  "BTRFS_IOC_SET_RECEIVED_SUBVOL = IOWR_req BTRFS_IOCTL_MAGIC 37 struct_btrfs_ioctl_received_subvol_args"

definition BTRFS_IOC_SEND :: "nat \<Rightarrow> request" where
  "BTRFS_IOC_SEND w = IOW_req BTRFS_IOCTL_MAGIC 38 (struct_btrfs_ioctl_send_args w)"

definition BTRFS_IOC_DEVICES_READY :: request where
  "BTRFS_IOC_DEVICES_READY = IOR_req BTRFS_IOCTL_MAGIC 39 struct_btrfs_ioctl_vol_args"

definition BTRFS_IOC_QUOTA_CTL :: request where
  "BTRFS_IOC_QUOTA_CTL = IOWR_req BTRFS_IOCTL_MAGIC 40 struct_btrfs_ioctl_quota_ctl_args"

definition BTRFS_IOC_QGROUP_ASSIGN :: request where
  "BTRFS_IOC_QGROUP_ASSIGN = IOW_req BTRFS_IOCTL_MAGIC 41 struct_btrfs_ioctl_qgroup_assign_args"

definition BTRFS_IOC_QGROUP_CREATE :: request where
  "BTRFS_IOC_QGROUP_CREATE = IOW_req BTRFS_IOCTL_MAGIC 42 struct_btrfs_ioctl_qgroup_create_args"

definition BTRFS_IOC_QGROUP_LIMIT :: request where
  "BTRFS_IOC_QGROUP_LIMIT = IOR_req BTRFS_IOCTL_MAGIC 43 struct_btrfs_ioctl_qgroup_limit_args"

definition BTRFS_IOC_QUOTA_RESCAN :: request where
  "BTRFS_IOC_QUOTA_RESCAN = IOW_req BTRFS_IOCTL_MAGIC 44 struct_btrfs_ioctl_quota_rescan_args"

definition BTRFS_IOC_QUOTA_RESCAN_STATUS :: request where
  "BTRFS_IOC_QUOTA_RESCAN_STATUS = IOR_req BTRFS_IOCTL_MAGIC 45 struct_btrfs_ioctl_quota_rescan_args"

definition BTRFS_IOC_QUOTA_RESCAN_WAIT :: request where
  "BTRFS_IOC_QUOTA_RESCAN_WAIT = IO_req BTRFS_IOCTL_MAGIC 46"

definition BTRFS_IOC_GET_DEV_STATS :: request where
  "BTRFS_IOC_GET_DEV_STATS = IOWR_req BTRFS_IOCTL_MAGIC 52 struct_btrfs_ioctl_get_dev_stats"

definition BTRFS_IOC_DEV_REPLACE :: request where
  "BTRFS_IOC_DEV_REPLACE = IOWR_req BTRFS_IOCTL_MAGIC 53 struct_btrfs_ioctl_dev_replace_args"

definition BTRFS_IOC_FILE_EXTENT_SAME :: request where
  "BTRFS_IOC_FILE_EXTENT_SAME = IOWR_req BTRFS_IOCTL_MAGIC 54 struct_btrfs_ioctl_same_args"

definition BTRFS_IOC_GET_FEATURES :: request where
  "BTRFS_IOC_GET_FEATURES = IOR_req BTRFS_IOCTL_MAGIC 57 struct_btrfs_ioctl_feature_flags"

definition BTRFS_IOC_SET_FEATURES :: request where
  "BTRFS_IOC_SET_FEATURES = IOW_req BTRFS_IOCTL_MAGIC 57 (Arr struct_btrfs_ioctl_feature_flags 2)"

definition BTRFS_IOC_GET_SUPPORTED_FEATURES :: request where
  "BTRFS_IOC_GET_SUPPORTED_FEATURES = IOR_req BTRFS_IOCTL_MAGIC 57 (Arr struct_btrfs_ioctl_feature_flags 3)"

definition BTRFS_IOC_RM_DEV_V2 :: "nat \<Rightarrow> request" where
  "BTRFS_IOC_RM_DEV_V2 w = IOW_req BTRFS_IOCTL_MAGIC 58 (struct_btrfs_ioctl_vol_args_v2 w)"

definition BTRFS_IOC_LOGICAL_INO_V2 :: request where
  "BTRFS_IOC_LOGICAL_INO_V2 = IOWR_req BTRFS_IOCTL_MAGIC 59 struct_btrfs_ioctl_logical_ino_args"

definition BTRFS_IOC_GET_SUBVOL_INFO :: request where
  "BTRFS_IOC_GET_SUBVOL_INFO = IOR_req BTRFS_IOCTL_MAGIC 60 struct_btrfs_ioctl_get_subvol_info_args"

definition BTRFS_IOC_GET_SUBVOL_ROOTREF :: request where
  "BTRFS_IOC_GET_SUBVOL_ROOTREF = IOWR_req BTRFS_IOCTL_MAGIC 61 struct_btrfs_ioctl_get_subvol_rootref_args"

definition BTRFS_IOC_INO_LOOKUP_USER :: request where
  "BTRFS_IOC_INO_LOOKUP_USER = IOWR_req BTRFS_IOCTL_MAGIC 62 struct_btrfs_ioctl_ino_lookup_user_args"

definition BTRFS_IOC_SNAP_DESTROY_V2 :: "nat \<Rightarrow> request" where
  "BTRFS_IOC_SNAP_DESTROY_V2 w = IOW_req BTRFS_IOCTL_MAGIC 63 (struct_btrfs_ioctl_vol_args_v2 w)"

definition FS_IOC_GETFSLABEL :: request where
  "FS_IOC_GETFSLABEL = IOR_req 148 49 (Arr u8_t 256)"

definition FS_IOC_SETFSLABEL :: request where
  "FS_IOC_SETFSLABEL = IOW_req 148 50 (Arr u8_t 256)"

definition BTRFS_IOC_GET_FSLABEL :: request where
  "BTRFS_IOC_GET_FSLABEL = FS_IOC_GETFSLABEL"

definition BTRFS_IOC_SET_FSLABEL :: request where
  "BTRFS_IOC_SET_FSLABEL = FS_IOC_SETFSLABEL"

definition btrfs_requests :: "nat \<Rightarrow> request list" where
  "btrfs_requests w = [BTRFS_IOC_SNAP_CREATE, BTRFS_IOC_DEFRAG, BTRFS_IOC_RESIZE, BTRFS_IOC_SCAN_DEV, BTRFS_IOC_FORGET_DEV,
     BTRFS_IOC_TRANS_START, BTRFS_IOC_TRANS_END, BTRFS_IOC_SYNC, BTRFS_IOC_CLONE, BTRFS_IOC_ADD_DEV,
     BTRFS_IOC_RM_DEV, BTRFS_IOC_BALANCE, BTRFS_IOC_CLONE_RANGE, BTRFS_IOC_SUBVOL_CREATE, BTRFS_IOC_SNAP_DESTROY,
     BTRFS_IOC_DEFRAG_RANGE, BTRFS_IOC_TREE_SEARCH_V2, BTRFS_IOC_TREE_SEARCH, BTRFS_IOC_INO_LOOKUP,
     BTRFS_IOC_DEFAULT_SUBVOL, BTRFS_IOC_SPACE_INFO, BTRFS_IOC_WAIT_SYNC, BTRFS_IOC_SNAP_CREATE_V2 w,
     BTRFS_IOC_START_SYNC, BTRFS_IOC_SUBVOL_CREATE_V2 w, BTRFS_IOC_SUBVOL_GETFLAGS, BTRFS_IOC_SUBVOL_SETFLAGS,
     BTRFS_IOC_SCRUB, BTRFS_IOC_SCRUB_CANCEL, BTRFS_IOC_SCRUB_PROGRESS, BTRFS_IOC_DEV_INFO, BTRFS_IOC_FS_INFO,
     BTRFS_IOC_BALANCE_V2, BTRFS_IOC_BALANCE_CTL, BTRFS_IOC_BALANCE_PROGRESS, BTRFS_IOC_INO_PATHS,
     BTRFS_IOC_LOGICAL_INO, BTRFS_IOC_SET_RECEIVED_SUBVOL, BTRFS_IOC_SEND w, BTRFS_IOC_DEVICES_READY,
     BTRFS_IOC_QUOTA_CTL, BTRFS_IOC_QGROUP_ASSIGN, BTRFS_IOC_QGROUP_CREATE, BTRFS_IOC_QGROUP_LIMIT,
     BTRFS_IOC_QUOTA_RESCAN, BTRFS_IOC_QUOTA_RESCAN_STATUS, BTRFS_IOC_QUOTA_RESCAN_WAIT, BTRFS_IOC_GET_DEV_STATS,
     BTRFS_IOC_DEV_REPLACE, BTRFS_IOC_FILE_EXTENT_SAME, BTRFS_IOC_GET_FEATURES, BTRFS_IOC_GET_SUPPORTED_FEATURES,
     BTRFS_IOC_SET_FEATURES, BTRFS_IOC_RM_DEV_V2 w, BTRFS_IOC_LOGICAL_INO_V2, BTRFS_IOC_GET_SUBVOL_INFO,
     BTRFS_IOC_GET_SUBVOL_ROOTREF, BTRFS_IOC_INO_LOOKUP_USER, BTRFS_IOC_SNAP_DESTROY_V2 w, BTRFS_IOC_GET_FSLABEL,
     BTRFS_IOC_SET_FSLABEL]"

text \<open>The requests whose number on i386 is not that of a 64-bit kernel.\<close>

definition btrfs_changed :: "request list" where
  "btrfs_changed = [BTRFS_IOC_SET_RECEIVED_SUBVOL, BTRFS_IOC_SEND 8, BTRFS_IOC_DEV_REPLACE, BTRFS_IOC_GET_SUBVOL_INFO]"

text \<open>The structures without padding.\<close>

definition btrfs_tight :: "ctype list" where
  "btrfs_tight = [struct_btrfs_ioctl_vol_args, struct_btrfs_qgroup_limit, struct_btrfs_qgroup_inherit,
     struct_btrfs_ioctl_qgroup_limit_args, struct_btrfs_scrub_progress, struct_btrfs_ioctl_scrub_args,
     struct_btrfs_ioctl_dev_replace_status_params, struct_btrfs_ioctl_dev_info_args,
     struct_btrfs_ioctl_fs_info_args, struct_btrfs_ioctl_feature_flags, struct_btrfs_balance_args,
     struct_btrfs_balance_progress, struct_btrfs_ioctl_balance_args, struct_btrfs_ioctl_ino_lookup_args,
     struct_btrfs_ioctl_ino_lookup_user_args, struct_btrfs_ioctl_search_key, struct_btrfs_ioctl_search_header,
     struct_btrfs_ioctl_search_args, struct_btrfs_ioctl_search_args_v2, struct_btrfs_ioctl_clone_range_args,
     struct_btrfs_ioctl_defrag_range_args, struct_btrfs_ioctl_same_extent_info, struct_btrfs_ioctl_same_args,
     struct_btrfs_ioctl_space_info, struct_btrfs_ioctl_space_args, struct_btrfs_data_container,
     struct_btrfs_ioctl_ino_path_args, struct_btrfs_ioctl_logical_ino_args, struct_btrfs_ioctl_get_dev_stats,
     struct_btrfs_ioctl_quota_ctl_args, struct_btrfs_ioctl_quota_rescan_args,
     struct_btrfs_ioctl_qgroup_assign_args, struct_btrfs_ioctl_qgroup_create_args,
     struct_btrfs_ioctl_get_subvol_rootref_args]"

section \<open>Properties\<close>

lemma btrfs_table_8_8: "table_ok 8 (btrfs_requests 8)"
  by code_simp

lemma btrfs_table_8_4: "table_ok 8 (btrfs_requests 4)"
  by code_simp

lemma btrfs_table_4_4: "table_ok 4 (btrfs_requests 4)"
  by code_simp

lemma btrfs_table_2_4: "table_ok 2 (btrfs_requests 4)"
  by code_simp

lemmas btrfs_tables = btrfs_table_8_8 btrfs_table_8_4 btrfs_table_4_4 btrfs_table_2_4

lemma btrfs_interface:
  assumes "(amax, w) \<in> set abis"
  shows "ioctl_interface amax (btrfs_requests w)"
  using assms btrfs_tables [THEN table_interface] by (auto simp add: abis_def)

interpretation btrfs_kernel: ioctl_interface 8 "btrfs_requests 8"
  by (rule btrfs_tables(1) [THEN table_interface])

interpretation btrfs_i386: ioctl_compat 4 "btrfs_requests 4" "btrfs_requests 8" btrfs_changed
proof (intro ioctl_compat.intro ioctl_compat_axioms.intro)
  show "ioctl_interface 8 (btrfs_requests 8)" by (rule btrfs_tables(1) [THEN table_interface])
  show "ioctl_interface 4 (btrfs_requests 4)" by (rule btrfs_tables(3) [THEN table_interface])
  show "list_all2 (\<lambda>r q. (req_key 4 r = req_key 8 q) \<noteq> (q \<in> set btrfs_changed)) (btrfs_requests 4) (btrfs_requests 8)"
    by code_simp
  show "list_all2 (\<lambda>r q. agree 4 (req_arg q) \<or> q \<in> set btrfs_changed \<or> r \<noteq> q) (btrfs_requests 4) (btrfs_requests 8)"
    by code_simp
qed

text \<open>
  The requests of btrfs have different numbers on every ABI and layout of request numbers, although several share
  direction, type and number and differ in their argument only; the size that the kernel decodes is the size of the
  argument.
\<close>

theorem btrfs_requests_decoded:
  assumes "(amax, w) \<in> set abis" "L \<in> ioc_layouts" "32 \<le> LENGTH('l)"
  shows "distinct (map (request_number L amax) (btrfs_requests w) :: 'l::len word list) \<and>
    list_all (\<lambda>r. IOC_SIZE L (request_number L amax r :: 'l word) = word_of_nat (sizeof amax (req_arg r)))
      (btrfs_requests w)"
  using btrfs_interface [OF assms(1)] assms(2,3) by (rule ioctl_interface.sound)

theorem btrfs_requests_decoded_witness:
  "distinct (map (request_number generic_ioc 8) (btrfs_requests 8) :: u32 list) \<and>
    list_all (\<lambda>r. IOC_SIZE generic_ioc (request_number generic_ioc 8 r :: u32) = word_of_nat (sizeof 8 (req_arg r)))
      (btrfs_requests 8)"
  by (rule btrfs_requests_decoded) (simp_all add: abis_def ioc_layouts_def)

text \<open>
  An i386 program uses the numbers of the 64-bit kernel, except for the four requests of \<open>btrfs_changed\<close>,
  whose argument i386 lays out differently; the kernel finds every member of the other arguments without pointers
  where the program put it.
\<close>

theorem btrfs_compat_requests:
  assumes "L \<in> ioc_layouts" "32 \<le> LENGTH('l)"
  shows "list_all2 (\<lambda>r q. ((request_number L 4 r :: 'l::len word) = request_number L 8 q) \<noteq> (q \<in> set btrfs_changed))
      (btrfs_requests 4) (btrfs_requests 8) \<and>
    list_all2 (\<lambda>r q. r = q \<longrightarrow> q \<notin> set btrfs_changed \<longrightarrow>
        leaves 4 0 (req_arg q) = leaves 8 0 (req_arg q)) (btrfs_requests 4) (btrfs_requests 8)"
  using btrfs_i386.reached [OF assms] btrfs_i386.passed by blast

theorem btrfs_compat_requests_witness:
  "list_all2 (\<lambda>r q. ((request_number generic_ioc 4 r :: u32) = request_number generic_ioc 8 q) \<noteq> (q \<in> set btrfs_changed))
    (btrfs_requests 4) (btrfs_requests 8)"
  using btrfs_compat_requests [of generic_ioc, where ?'l = 32] by (simp add: ioc_layouts_def)

lemma btrfs_all_tight: "list_all tight btrfs_tight"
  by code_simp

text \<open>
  The structures of btrfs without implicit padding are laid out alike, member by member, by every ABI, and each
  of their bytes belongs to a member.
\<close>

theorem btrfs_layout:
  assumes "t \<in> set btrfs_tight"
  shows "same_everywhere t \<and> covered (leaves 8 0 t) 0 (sizeof 8 t)"
  using btrfs_all_tight assms by (rule tight_types)

theorem btrfs_layout_witness: "same_everywhere struct_btrfs_ioctl_space_info \<and> covered (leaves 8 0 struct_btrfs_ioctl_space_info) 0 (sizeof 8 struct_btrfs_ioctl_space_info)"
  by (rule btrfs_layout) (simp add: btrfs_tight_def)

end
