(* ===== verification/Abi_V4l2.thy ===== *)
theory Abi_V4l2
  imports Abi_Request
begin

text \<open>
  The structures of the video interface: \<^verbatim>\<open>include/linux/videodev2.h\<close> with \<^verbatim>\<open>v4l2-common.h\<close>, \<^verbatim>\<open>v4l2-controls.h\<close>
  (the payloads of compound controls), \<^verbatim>\<open>v4l2-mediabus.h\<close> and \<^verbatim>\<open>v4l2-subdev.h\<close>, and of the media controller,
  \<^verbatim>\<open>media.h\<close>. The structures of times are those of \<^verbatim>\<open>include/linux/time.h\<close>; a C library with 64-bit times on a
  32-bit machine has others.
\<close>

section \<open>Times\<close>

definition struct_timeval :: "nat \<Rightarrow> ctype" where
  "struct_timeval w = c_struct [
     (''tv_sec'', long_t w),
     (''tv_usec'', long_t w)]"

definition struct_timespec :: "nat \<Rightarrow> ctype" where
  "struct_timespec w = c_struct [
     (''tv_sec'', long_t w),
     (''tv_nsec'', long_t w)]"

section \<open>Common structures\<close>

definition struct_v4l2_edid :: "nat \<Rightarrow> ctype" where
  "struct_v4l2_edid w = c_struct [
     (''pad'', u32_t),
     (''start_block'', u32_t),
     (''blocks'', u32_t),
     (''reserved'', Arr u32_t 5),
     (''edid'', ptr_t w)]"

section \<open>Controls\<close>

definition struct_v4l2_ctrl_h264_sps :: ctype where
  "struct_v4l2_ctrl_h264_sps = c_struct [
     (''profile_idc'', u8_t),
     (''constraint_set_flags'', u8_t),
     (''level_idc'', u8_t),
     (''seq_parameter_set_id'', u8_t),
     (''chroma_format_idc'', u8_t),
     (''bit_depth_luma_minus8'', u8_t),
     (''bit_depth_chroma_minus8'', u8_t),
     (''log2_max_frame_num_minus4'', u8_t),
     (''pic_order_cnt_type'', u8_t),
     (''log2_max_pic_order_cnt_lsb_minus4'', u8_t),
     (''max_num_ref_frames'', u8_t),
     (''num_ref_frames_in_pic_order_cnt_cycle'', u8_t),
     (''offset_for_ref_frame'', Arr u32_t 255),
     (''offset_for_non_ref_pic'', u32_t),
     (''offset_for_top_to_bottom_field'', u32_t),
     (''pic_width_in_mbs_minus1'', u16_t),
     (''pic_height_in_map_units_minus1'', u16_t),
     (''flags'', u32_t)]"

definition struct_v4l2_ctrl_h264_pps :: ctype where
  "struct_v4l2_ctrl_h264_pps = c_struct [
     (''pic_parameter_set_id'', u8_t),
     (''seq_parameter_set_id'', u8_t),
     (''num_slice_groups_minus1'', u8_t),
     (''num_ref_idx_l0_default_active_minus1'', u8_t),
     (''num_ref_idx_l1_default_active_minus1'', u8_t),
     (''weighted_bipred_idc'', u8_t),
     (''pic_init_qp_minus26'', u8_t),
     (''pic_init_qs_minus26'', u8_t),
     (''chroma_qp_index_offset'', u8_t),
     (''second_chroma_qp_index_offset'', u8_t),
     (''flags'', u16_t)]"

definition struct_v4l2_ctrl_h264_scaling_matrix :: ctype where
  "struct_v4l2_ctrl_h264_scaling_matrix = c_struct [
     (''scaling_list_4x4'', Arr (Arr u8_t 16) 6),
     (''scaling_list_8x8'', Arr (Arr u8_t 64) 6)]"

definition struct_v4l2_h264_weight_factors :: ctype where
  "struct_v4l2_h264_weight_factors = c_struct [
     (''luma_weight'', Arr u16_t 32),
     (''luma_offset'', Arr u16_t 32),
     (''chroma_weight'', Arr (Arr u16_t 2) 32),
     (''chroma_offset'', Arr (Arr u16_t 2) 32)]"

definition struct_v4l2_ctrl_h264_pred_weights :: ctype where
  "struct_v4l2_ctrl_h264_pred_weights = c_struct [
     (''luma_log2_weight_denom'', u16_t),
     (''chroma_log2_weight_denom'', u16_t),
     (''weight_factors'', Arr struct_v4l2_h264_weight_factors 2)]"

definition struct_v4l2_h264_reference :: ctype where
  "struct_v4l2_h264_reference = c_struct [
     (''fields'', u8_t),
     (''index'', u8_t)]"

definition struct_v4l2_ctrl_h264_slice_params :: ctype where
  "struct_v4l2_ctrl_h264_slice_params = c_struct [
     (''header_bit_size'', u32_t),
     (''first_mb_in_slice'', u32_t),
     (''slice_type'', u8_t),
     (''colour_plane_id'', u8_t),
     (''redundant_pic_cnt'', u8_t),
     (''cabac_init_idc'', u8_t),
     (''slice_qp_delta'', u8_t),
     (''slice_qs_delta'', u8_t),
     (''disable_deblocking_filter_idc'', u8_t),
     (''slice_alpha_c0_offset_div2'', u8_t),
     (''slice_beta_offset_div2'', u8_t),
     (''num_ref_idx_l0_active_minus1'', u8_t),
     (''num_ref_idx_l1_active_minus1'', u8_t),
     (''reserved'', u8_t),
     (''ref_pic_list0'', Arr struct_v4l2_h264_reference 32),
     (''ref_pic_list1'', Arr struct_v4l2_h264_reference 32),
     (''flags'', u32_t)]"

definition struct_v4l2_h264_dpb_entry :: ctype where
  "struct_v4l2_h264_dpb_entry = c_struct [
     (''reference_ts'', u64_t),
     (''pic_num'', u32_t),
     (''frame_num'', u16_t),
     (''fields'', u8_t),
     (''reserved'', Arr u8_t 5),
     (''top_field_order_cnt'', u32_t),
     (''bottom_field_order_cnt'', u32_t),
     (''flags'', u32_t)]"

definition struct_v4l2_ctrl_h264_decode_params :: ctype where
  "struct_v4l2_ctrl_h264_decode_params = c_struct [
     (''dpb'', Arr struct_v4l2_h264_dpb_entry 16),
     (''nal_ref_idc'', u16_t),
     (''frame_num'', u16_t),
     (''top_field_order_cnt'', u32_t),
     (''bottom_field_order_cnt'', u32_t),
     (''idr_pic_id'', u16_t),
     (''pic_order_cnt_lsb'', u16_t),
     (''delta_pic_order_cnt_bottom'', u32_t),
     (''delta_pic_order_cnt0'', u32_t),
     (''delta_pic_order_cnt1'', u32_t),
     (''dec_ref_pic_marking_bit_size'', u32_t),
     (''pic_order_cnt_bit_size'', u32_t),
     (''slice_group_change_cycle'', u32_t),
     (''reserved'', u32_t),
     (''flags'', u32_t)]"

definition struct_v4l2_ctrl_fwht_params :: ctype where
  "struct_v4l2_ctrl_fwht_params = c_struct [
     (''backward_ref_ts'', u64_t),
     (''version'', u32_t),
     (''width'', u32_t),
     (''height'', u32_t),
     (''flags'', u32_t),
     (''colorspace'', u32_t),
     (''xfer_func'', u32_t),
     (''ycbcr_enc'', u32_t),
     (''quantization'', u32_t)]"

definition struct_v4l2_vp8_segment :: ctype where
  "struct_v4l2_vp8_segment = c_struct [
     (''quant_update'', Arr u8_t 4),
     (''lf_update'', Arr u8_t 4),
     (''segment_probs'', Arr u8_t 3),
     (''padding'', u8_t),
     (''flags'', u32_t)]"

definition struct_v4l2_vp8_loop_filter :: ctype where
  "struct_v4l2_vp8_loop_filter = c_struct [
     (''ref_frm_delta'', Arr u8_t 4),
     (''mb_mode_delta'', Arr u8_t 4),
     (''sharpness_level'', u8_t),
     (''level'', u8_t),
     (''padding'', u16_t),
     (''flags'', u32_t)]"

definition struct_v4l2_vp8_quantization :: ctype where
  "struct_v4l2_vp8_quantization = c_struct [
     (''y_ac_qi'', u8_t),
     (''y_dc_delta'', u8_t),
     (''y2_dc_delta'', u8_t),
     (''y2_ac_delta'', u8_t),
     (''uv_dc_delta'', u8_t),
     (''uv_ac_delta'', u8_t),
     (''padding'', u16_t)]"

definition struct_v4l2_vp8_entropy :: ctype where
  "struct_v4l2_vp8_entropy = c_struct [
     (''coeff_probs'', Arr (Arr (Arr (Arr u8_t 11) 3) 8) 4),
     (''y_mode_probs'', Arr u8_t 4),
     (''uv_mode_probs'', Arr u8_t 3),
     (''mv_probs'', Arr (Arr u8_t 19) 2),
     (''padding'', Arr u8_t 3)]"

definition struct_v4l2_vp8_entropy_coder_state :: ctype where
  "struct_v4l2_vp8_entropy_coder_state = c_struct [
     (''range'', u8_t),
     (''value'', u8_t),
     (''bit_count'', u8_t),
     (''padding'', u8_t)]"

definition struct_v4l2_ctrl_vp8_frame :: ctype where
  "struct_v4l2_ctrl_vp8_frame = c_struct [
     (''segment'', struct_v4l2_vp8_segment),
     (''lf'', struct_v4l2_vp8_loop_filter),
     (''quant'', struct_v4l2_vp8_quantization),
     (''entropy'', struct_v4l2_vp8_entropy),
     (''coder_state'', struct_v4l2_vp8_entropy_coder_state),
     (''width'', u16_t),
     (''height'', u16_t),
     (''horizontal_scale'', u8_t),
     (''vertical_scale'', u8_t),
     (''version'', u8_t),
     (''prob_skip_false'', u8_t),
     (''prob_intra'', u8_t),
     (''prob_last'', u8_t),
     (''prob_gf'', u8_t),
     (''num_dct_parts'', u8_t),
     (''first_part_size'', u32_t),
     (''first_part_header_bits'', u32_t),
     (''dct_part_sizes'', Arr u32_t 8),
     (''last_frame_ts'', u64_t),
     (''golden_frame_ts'', u64_t),
     (''alt_frame_ts'', u64_t),
     (''flags'', u64_t)]"

definition struct_v4l2_ctrl_mpeg2_sequence :: ctype where
  "struct_v4l2_ctrl_mpeg2_sequence = c_struct [
     (''horizontal_size'', u16_t),
     (''vertical_size'', u16_t),
     (''vbv_buffer_size'', u32_t),
     (''profile_and_level_indication'', u16_t),
     (''chroma_format'', u8_t),
     (''flags'', u8_t)]"

definition struct_v4l2_ctrl_mpeg2_picture :: ctype where
  "struct_v4l2_ctrl_mpeg2_picture = c_struct [
     (''backward_ref_ts'', u64_t),
     (''forward_ref_ts'', u64_t),
     (''flags'', u32_t),
     (''f_code'', Arr (Arr u8_t 2) 2),
     (''picture_coding_type'', u8_t),
     (''picture_structure'', u8_t),
     (''intra_dc_precision'', u8_t),
     (''reserved'', Arr u8_t 5)]"

definition struct_v4l2_ctrl_mpeg2_quantisation :: ctype where
  "struct_v4l2_ctrl_mpeg2_quantisation = c_struct [
     (''intra_quantiser_matrix'', Arr u8_t 64),
     (''non_intra_quantiser_matrix'', Arr u8_t 64),
     (''chroma_intra_quantiser_matrix'', Arr u8_t 64),
     (''chroma_non_intra_quantiser_matrix'', Arr u8_t 64)]"

definition struct_v4l2_ctrl_hdr10_cll_info :: ctype where
  "struct_v4l2_ctrl_hdr10_cll_info = c_struct [
     (''max_content_light_level'', u16_t),
     (''max_pic_average_light_level'', u16_t)]"

definition struct_v4l2_ctrl_hdr10_mastering_display :: ctype where
  "struct_v4l2_ctrl_hdr10_mastering_display = c_struct [
     (''display_primaries_x'', Arr u16_t 3),
     (''display_primaries_y'', Arr u16_t 3),
     (''white_point_x'', u16_t),
     (''white_point_y'', u16_t),
     (''max_display_mastering_luminance'', u32_t),
     (''min_display_mastering_luminance'', u32_t)]"

section \<open>Video devices\<close>

definition struct_v4l2_rect :: ctype where
  "struct_v4l2_rect = c_struct [
     (''left'', u32_t),
     (''top'', u32_t),
     (''width'', u32_t),
     (''height'', u32_t)]"

definition struct_v4l2_fract :: ctype where
  "struct_v4l2_fract = c_struct [
     (''numerator'', u32_t),
     (''denominator'', u32_t)]"

definition struct_v4l2_area :: ctype where
  "struct_v4l2_area = c_struct [
     (''width'', u32_t),
     (''height'', u32_t)]"

definition struct_v4l2_capability :: ctype where
  "struct_v4l2_capability = c_struct [
     (''driver'', Arr u8_t 16),
     (''card'', Arr u8_t 32),
     (''bus_info'', Arr u8_t 32),
     (''version'', u32_t),
     (''capabilities'', u32_t),
     (''device_caps'', u32_t),
     (''reserved'', Arr u32_t 3)]"

definition struct_v4l2_pix_format :: ctype where
  "struct_v4l2_pix_format = c_struct [
     (''width'', u32_t),
     (''height'', u32_t),
     (''pixelformat'', u32_t),
     (''field'', u32_t),
     (''bytesperline'', u32_t),
     (''sizeimage'', u32_t),
     (''colorspace'', u32_t),
     (''priv'', u32_t),
     (''flags'', u32_t),
     ('''', c_union [ (''ycbcr_enc'', u32_t), (''hsv_enc'', u32_t)]),
     (''quantization'', u32_t),
     (''xfer_func'', u32_t)]"

definition struct_v4l2_fmtdesc :: ctype where
  "struct_v4l2_fmtdesc = c_struct [
     (''index'', u32_t),
     (''type'', u32_t),
     (''flags'', u32_t),
     (''description'', Arr u8_t 32),
     (''pixelformat'', u32_t),
     (''mbus_code'', u32_t),
     (''reserved'', Arr u32_t 3)]"

definition struct_v4l2_frmsize_discrete :: ctype where
  "struct_v4l2_frmsize_discrete = c_struct [
     (''width'', u32_t),
     (''height'', u32_t)]"

definition struct_v4l2_frmsize_stepwise :: ctype where
  "struct_v4l2_frmsize_stepwise = c_struct [
     (''min_width'', u32_t),
     (''max_width'', u32_t),
     (''step_width'', u32_t),
     (''min_height'', u32_t),
     (''max_height'', u32_t),
     (''step_height'', u32_t)]"

definition struct_v4l2_frmsizeenum :: ctype where
  "struct_v4l2_frmsizeenum = c_struct [
     (''index'', u32_t),
     (''pixel_format'', u32_t),
     (''type'', u32_t),
     ('''', c_union [ (''discrete'', struct_v4l2_frmsize_discrete), (''stepwise'', struct_v4l2_frmsize_stepwise)]),
     (''reserved'', Arr u32_t 2)]"

definition struct_v4l2_frmival_stepwise :: ctype where
  "struct_v4l2_frmival_stepwise = c_struct [
     (''min'', struct_v4l2_fract),
     (''max'', struct_v4l2_fract),
     (''step'', struct_v4l2_fract)]"

definition struct_v4l2_frmivalenum :: ctype where
  "struct_v4l2_frmivalenum = c_struct [
     (''index'', u32_t),
     (''pixel_format'', u32_t),
     (''width'', u32_t),
     (''height'', u32_t),
     (''type'', u32_t),
     ('''', c_union [ (''discrete'', struct_v4l2_fract), (''stepwise'', struct_v4l2_frmival_stepwise)]),
     (''reserved'', Arr u32_t 2)]"

definition struct_v4l2_timecode :: ctype where
  "struct_v4l2_timecode = c_struct [
     (''type'', u32_t),
     (''flags'', u32_t),
     (''frames'', u8_t),
     (''seconds'', u8_t),
     (''minutes'', u8_t),
     (''hours'', u8_t),
     (''userbits'', Arr u8_t 4)]"

definition struct_v4l2_jpegcompression :: ctype where
  "struct_v4l2_jpegcompression = c_struct [
     (''quality'', u32_t),
     (''APPn'', u32_t),
     (''APP_len'', u32_t),
     (''APP_data'', Arr u8_t 60),
     (''COM_len'', u32_t),
     (''COM_data'', Arr u8_t 60),
     (''jpeg_markers'', u32_t)]"

definition struct_v4l2_requestbuffers :: ctype where
  "struct_v4l2_requestbuffers = c_struct [
     (''count'', u32_t),
     (''type'', u32_t),
     (''memory'', u32_t),
     (''capabilities'', u32_t),
     (''reserved'', Arr u32_t 1)]"

definition struct_v4l2_plane :: "nat \<Rightarrow> ctype" where
  "struct_v4l2_plane w = c_struct [
     (''bytesused'', u32_t),
     (''length'', u32_t),
     (''m'', c_union [ (''mem_offset'', u32_t), (''userptr'', long_t w), (''fd'', u32_t)]),
     (''data_offset'', u32_t),
     (''reserved'', Arr u32_t 11)]"

definition struct_v4l2_buffer :: "nat \<Rightarrow> ctype" where
  "struct_v4l2_buffer w = c_struct [
     (''index'', u32_t),
     (''type'', u32_t),
     (''bytesused'', u32_t),
     (''flags'', u32_t),
     (''field'', u32_t),
     (''timestamp'', struct_timeval w),
     (''timecode'', struct_v4l2_timecode),
     (''sequence'', u32_t),
     (''memory'', u32_t),
     (''m'', c_union [ (''offset'', u32_t), (''userptr'', long_t w), (''planes'', ptr_t w), (''fd'', u32_t)]),
     (''length'', u32_t),
     (''reserved2'', u32_t),
     ('''', c_union [ (''request_fd'', u32_t), (''reserved'', u32_t)])]"

definition struct_v4l2_exportbuffer :: ctype where
  "struct_v4l2_exportbuffer = c_struct [
     (''type'', u32_t),
     (''index'', u32_t),
     (''plane'', u32_t),
     (''flags'', u32_t),
     (''fd'', u32_t),
     (''reserved'', Arr u32_t 11)]"

definition struct_v4l2_framebuffer :: "nat \<Rightarrow> ctype" where
  "struct_v4l2_framebuffer w = c_struct [
     (''capability'', u32_t),
     (''flags'', u32_t),
     (''base'', ptr_t w),
     (''fmt'', c_struct [ (''width'', u32_t), (''height'', u32_t), (''pixelformat'', u32_t), (''field'', u32_t), (''bytesperline'', u32_t), (''sizeimage'', u32_t), (''colorspace'', u32_t), (''priv'', u32_t)])]"

definition struct_v4l2_clip :: "nat \<Rightarrow> ctype" where
  "struct_v4l2_clip w = c_struct [
     (''c'', struct_v4l2_rect),
     (''next'', ptr_t w)]"

definition struct_v4l2_window :: "nat \<Rightarrow> ctype" where
  "struct_v4l2_window w = c_struct [
     (''w'', struct_v4l2_rect),
     (''field'', u32_t),
     (''chromakey'', u32_t),
     (''clips'', ptr_t w),
     (''clipcount'', u32_t),
     (''bitmap'', ptr_t w),
     (''global_alpha'', u8_t)]"

definition struct_v4l2_captureparm :: ctype where
  "struct_v4l2_captureparm = c_struct [
     (''capability'', u32_t),
     (''capturemode'', u32_t),
     (''timeperframe'', struct_v4l2_fract),
     (''extendedmode'', u32_t),
     (''readbuffers'', u32_t),
     (''reserved'', Arr u32_t 4)]"

definition struct_v4l2_outputparm :: ctype where
  "struct_v4l2_outputparm = c_struct [
     (''capability'', u32_t),
     (''outputmode'', u32_t),
     (''timeperframe'', struct_v4l2_fract),
     (''extendedmode'', u32_t),
     (''writebuffers'', u32_t),
     (''reserved'', Arr u32_t 4)]"

definition struct_v4l2_cropcap :: ctype where
  "struct_v4l2_cropcap = c_struct [
     (''type'', u32_t),
     (''bounds'', struct_v4l2_rect),
     (''defrect'', struct_v4l2_rect),
     (''pixelaspect'', struct_v4l2_fract)]"

definition struct_v4l2_crop :: ctype where
  "struct_v4l2_crop = c_struct [
     (''type'', u32_t),
     (''c'', struct_v4l2_rect)]"

definition struct_v4l2_selection :: ctype where
  "struct_v4l2_selection = c_struct [
     (''type'', u32_t),
     (''target'', u32_t),
     (''flags'', u32_t),
     (''r'', struct_v4l2_rect),
     (''reserved'', Arr u32_t 9)]"

definition struct_v4l2_standard :: ctype where
  "struct_v4l2_standard = c_struct [
     (''index'', u32_t),
     (''id'', u64_t),
     (''name'', Arr u8_t 24),
     (''frameperiod'', struct_v4l2_fract),
     (''framelines'', u32_t),
     (''reserved'', Arr u32_t 4)]"

definition struct_v4l2_bt_timings :: ctype where
  "struct_v4l2_bt_timings = c_packed [
     (''width'', u32_t),
     (''height'', u32_t),
     (''interlaced'', u32_t),
     (''polarities'', u32_t),
     (''pixelclock'', u64_t),
     (''hfrontporch'', u32_t),
     (''hsync'', u32_t),
     (''hbackporch'', u32_t),
     (''vfrontporch'', u32_t),
     (''vsync'', u32_t),
     (''vbackporch'', u32_t),
     (''il_vfrontporch'', u32_t),
     (''il_vsync'', u32_t),
     (''il_vbackporch'', u32_t),
     (''standards'', u32_t),
     (''flags'', u32_t),
     (''picture_aspect'', struct_v4l2_fract),
     (''cea861_vic'', u8_t),
     (''hdmi_vic'', u8_t),
     (''reserved'', Arr u8_t 46)]"

definition struct_v4l2_dv_timings :: ctype where
  "struct_v4l2_dv_timings = c_packed [
     (''type'', u32_t),
     ('''', c_union [ (''bt'', struct_v4l2_bt_timings), (''reserved'', Arr u32_t 32)])]"

definition struct_v4l2_enum_dv_timings :: ctype where
  "struct_v4l2_enum_dv_timings = c_struct [
     (''index'', u32_t),
     (''pad'', u32_t),
     (''reserved'', Arr u32_t 2),
     (''timings'', struct_v4l2_dv_timings)]"

definition struct_v4l2_bt_timings_cap :: ctype where
  "struct_v4l2_bt_timings_cap = c_packed [
     (''min_width'', u32_t),
     (''max_width'', u32_t),
     (''min_height'', u32_t),
     (''max_height'', u32_t),
     (''min_pixelclock'', u64_t),
     (''max_pixelclock'', u64_t),
     (''standards'', u32_t),
     (''capabilities'', u32_t),
     (''reserved'', Arr u32_t 16)]"

definition struct_v4l2_dv_timings_cap :: ctype where
  "struct_v4l2_dv_timings_cap = c_struct [
     (''type'', u32_t),
     (''pad'', u32_t),
     (''reserved'', Arr u32_t 2),
     ('''', c_union [ (''bt'', struct_v4l2_bt_timings_cap), (''raw_data'', Arr u32_t 32)])]"

definition struct_v4l2_input :: ctype where
  "struct_v4l2_input = c_struct [
     (''index'', u32_t),
     (''name'', Arr u8_t 32),
     (''type'', u32_t),
     (''audioset'', u32_t),
     (''tuner'', u32_t),
     (''std'', u64_t),
     (''status'', u32_t),
     (''capabilities'', u32_t),
     (''reserved'', Arr u32_t 3)]"

definition struct_v4l2_output :: ctype where
  "struct_v4l2_output = c_struct [
     (''index'', u32_t),
     (''name'', Arr u8_t 32),
     (''type'', u32_t),
     (''audioset'', u32_t),
     (''modulator'', u32_t),
     (''std'', u64_t),
     (''capabilities'', u32_t),
     (''reserved'', Arr u32_t 3)]"

definition struct_v4l2_control :: ctype where
  "struct_v4l2_control = c_struct [
     (''id'', u32_t),
     (''value'', u32_t)]"

definition struct_v4l2_ext_control :: "nat \<Rightarrow> ctype" where
  "struct_v4l2_ext_control w = c_packed [
     (''id'', u32_t),
     (''size'', u32_t),
     (''reserved2'', Arr u32_t 1),
     ('''', c_union [ (''value'', u32_t), (''value64'', u64_t), (''string'', ptr_t w), (''p_u8'', ptr_t w), (''p_u16'', ptr_t w), (''p_u32'', ptr_t w), (''p_area'', ptr_t w), (''p_h264_sps'', ptr_t w), (''p_h264_pps'', ptr_t w), (''p_h264_scaling_matrix'', ptr_t w), (''p_h264_pred_weights'', ptr_t w), (''p_h264_slice_params'', ptr_t w), (''p_h264_decode_params'', ptr_t w), (''p_fwht_params'', ptr_t w), (''p_vp8_frame'', ptr_t w), (''p_mpeg2_sequence'', ptr_t w), (''p_mpeg2_picture'', ptr_t w), (''p_mpeg2_quantisation'', ptr_t w), (''ptr'', ptr_t w)])]"

definition struct_v4l2_ext_controls :: "nat \<Rightarrow> ctype" where
  "struct_v4l2_ext_controls w = c_struct [
     ('''', c_union [ (''ctrl_class'', u32_t), (''which'', u32_t)]),
     (''count'', u32_t),
     (''error_idx'', u32_t),
     (''request_fd'', u32_t),
     (''reserved'', Arr u32_t 1),
     (''controls'', ptr_t w)]"

definition struct_v4l2_queryctrl :: ctype where
  "struct_v4l2_queryctrl = c_struct [
     (''id'', u32_t),
     (''type'', u32_t),
     (''name'', Arr u8_t 32),
     (''minimum'', u32_t),
     (''maximum'', u32_t),
     (''step'', u32_t),
     (''default_value'', u32_t),
     (''flags'', u32_t),
     (''reserved'', Arr u32_t 2)]"

definition struct_v4l2_query_ext_ctrl :: ctype where
  "struct_v4l2_query_ext_ctrl = c_struct [
     (''id'', u32_t),
     (''type'', u32_t),
     (''name'', Arr u8_t 32),
     (''minimum'', u64_t),
     (''maximum'', u64_t),
     (''step'', u64_t),
     (''default_value'', u64_t),
     (''flags'', u32_t),
     (''elem_size'', u32_t),
     (''elems'', u32_t),
     (''nr_of_dims'', u32_t),
     (''dims'', Arr u32_t 4),
     (''reserved'', Arr u32_t 32)]"

definition struct_v4l2_querymenu :: ctype where
  "struct_v4l2_querymenu = c_packed [
     (''id'', u32_t),
     (''index'', u32_t),
     ('''', c_union [ (''name'', Arr u8_t 32), (''value'', u64_t)]),
     (''reserved'', u32_t)]"

definition struct_v4l2_tuner :: ctype where
  "struct_v4l2_tuner = c_struct [
     (''index'', u32_t),
     (''name'', Arr u8_t 32),
     (''type'', u32_t),
     (''capability'', u32_t),
     (''rangelow'', u32_t),
     (''rangehigh'', u32_t),
     (''rxsubchans'', u32_t),
     (''audmode'', u32_t),
     (''signal'', u32_t),
     (''afc'', u32_t),
     (''reserved'', Arr u32_t 4)]"

definition struct_v4l2_modulator :: ctype where
  "struct_v4l2_modulator = c_struct [
     (''index'', u32_t),
     (''name'', Arr u8_t 32),
     (''capability'', u32_t),
     (''rangelow'', u32_t),
     (''rangehigh'', u32_t),
     (''txsubchans'', u32_t),
     (''type'', u32_t),
     (''reserved'', Arr u32_t 3)]"

definition struct_v4l2_frequency :: ctype where
  "struct_v4l2_frequency = c_struct [
     (''tuner'', u32_t),
     (''type'', u32_t),
     (''frequency'', u32_t),
     (''reserved'', Arr u32_t 8)]"

definition struct_v4l2_frequency_band :: ctype where
  "struct_v4l2_frequency_band = c_struct [
     (''tuner'', u32_t),
     (''type'', u32_t),
     (''index'', u32_t),
     (''capability'', u32_t),
     (''rangelow'', u32_t),
     (''rangehigh'', u32_t),
     (''modulation'', u32_t),
     (''reserved'', Arr u32_t 9)]"

definition struct_v4l2_hw_freq_seek :: ctype where
  "struct_v4l2_hw_freq_seek = c_struct [
     (''tuner'', u32_t),
     (''type'', u32_t),
     (''seek_upward'', u32_t),
     (''wrap_around'', u32_t),
     (''spacing'', u32_t),
     (''rangelow'', u32_t),
     (''rangehigh'', u32_t),
     (''reserved'', Arr u32_t 5)]"

definition struct_v4l2_rds_data :: ctype where
  "struct_v4l2_rds_data = c_packed [
     (''lsb'', u8_t),
     (''msb'', u8_t),
     (''block'', u8_t)]"

definition struct_v4l2_audio :: ctype where
  "struct_v4l2_audio = c_struct [
     (''index'', u32_t),
     (''name'', Arr u8_t 32),
     (''capability'', u32_t),
     (''mode'', u32_t),
     (''reserved'', Arr u32_t 2)]"

definition struct_v4l2_audioout :: ctype where
  "struct_v4l2_audioout = c_struct [
     (''index'', u32_t),
     (''name'', Arr u8_t 32),
     (''capability'', u32_t),
     (''mode'', u32_t),
     (''reserved'', Arr u32_t 2)]"

definition struct_v4l2_enc_idx_entry :: ctype where
  "struct_v4l2_enc_idx_entry = c_struct [
     (''offset'', u64_t),
     (''pts'', u64_t),
     (''length'', u32_t),
     (''flags'', u32_t),
     (''reserved'', Arr u32_t 2)]"

definition struct_v4l2_enc_idx :: ctype where
  "struct_v4l2_enc_idx = c_struct [
     (''entries'', u32_t),
     (''entries_cap'', u32_t),
     (''reserved'', Arr u32_t 4),
     (''entry'', Arr struct_v4l2_enc_idx_entry 64)]"

definition struct_v4l2_encoder_cmd :: ctype where
  "struct_v4l2_encoder_cmd = c_struct [
     (''cmd'', u32_t),
     (''flags'', u32_t),
     ('''', c_union [ (''raw'', c_struct [ (''data'', Arr u32_t 8)])])]"

definition struct_v4l2_decoder_cmd :: ctype where
  "struct_v4l2_decoder_cmd = c_struct [
     (''cmd'', u32_t),
     (''flags'', u32_t),
     ('''', c_union [ (''stop'', c_struct [ (''pts'', u64_t)]), (''start'', c_struct [ (''speed'', u32_t), (''format'', u32_t)]), (''raw'', c_struct [ (''data'', Arr u32_t 16)])])]"

definition struct_v4l2_vbi_format :: ctype where
  "struct_v4l2_vbi_format = c_struct [
     (''sampling_rate'', u32_t),
     (''offset'', u32_t),
     (''samples_per_line'', u32_t),
     (''sample_format'', u32_t),
     (''start'', Arr u32_t 2),
     (''count'', Arr u32_t 2),
     (''flags'', u32_t),
     (''reserved'', Arr u32_t 2)]"

definition struct_v4l2_sliced_vbi_format :: ctype where
  "struct_v4l2_sliced_vbi_format = c_struct [
     (''service_set'', u16_t),
     (''service_lines'', Arr (Arr u16_t 24) 2),
     (''io_size'', u32_t),
     (''reserved'', Arr u32_t 2)]"

definition struct_v4l2_sliced_vbi_cap :: ctype where
  "struct_v4l2_sliced_vbi_cap = c_struct [
     (''service_set'', u16_t),
     (''service_lines'', Arr (Arr u16_t 24) 2),
     (''type'', u32_t),
     (''reserved'', Arr u32_t 3)]"

definition struct_v4l2_sliced_vbi_data :: ctype where
  "struct_v4l2_sliced_vbi_data = c_struct [
     (''id'', u32_t),
     (''field'', u32_t),
     (''line'', u32_t),
     (''reserved'', u32_t),
     (''data'', Arr u8_t 48)]"

definition struct_v4l2_mpeg_vbi_itv0_line :: ctype where
  "struct_v4l2_mpeg_vbi_itv0_line = c_packed [
     (''id'', u8_t),
     (''data'', Arr u8_t 42)]"

definition struct_v4l2_mpeg_vbi_itv0 :: ctype where
  "struct_v4l2_mpeg_vbi_itv0 = c_packed [
     (''linemask'', Arr u32_t 2),
     (''line'', Arr struct_v4l2_mpeg_vbi_itv0_line 35)]"

definition struct_v4l2_mpeg_vbi_ITV0 :: ctype where
  "struct_v4l2_mpeg_vbi_ITV0 = c_packed [
     (''line'', Arr struct_v4l2_mpeg_vbi_itv0_line 36)]"

definition struct_v4l2_mpeg_vbi_fmt_ivtv :: ctype where
  "struct_v4l2_mpeg_vbi_fmt_ivtv = c_packed [
     (''magic'', Arr u8_t 4),
     ('''', c_union [ (''itv0'', struct_v4l2_mpeg_vbi_itv0), (''ITV0'', struct_v4l2_mpeg_vbi_ITV0)])]"

definition struct_v4l2_plane_pix_format :: ctype where
  "struct_v4l2_plane_pix_format = c_packed [
     (''sizeimage'', u32_t),
     (''bytesperline'', u32_t),
     (''reserved'', Arr u16_t 6)]"

definition struct_v4l2_pix_format_mplane :: ctype where
  "struct_v4l2_pix_format_mplane = c_packed [
     (''width'', u32_t),
     (''height'', u32_t),
     (''pixelformat'', u32_t),
     (''field'', u32_t),
     (''colorspace'', u32_t),
     (''plane_fmt'', Arr struct_v4l2_plane_pix_format 8),
     (''num_planes'', u8_t),
     (''flags'', u8_t),
     ('''', c_union [ (''ycbcr_enc'', u8_t), (''hsv_enc'', u8_t)]),
     (''quantization'', u8_t),
     (''xfer_func'', u8_t),
     (''reserved'', Arr u8_t 7)]"

definition struct_v4l2_sdr_format :: ctype where
  "struct_v4l2_sdr_format = c_packed [
     (''pixelformat'', u32_t),
     (''buffersize'', u32_t),
     (''reserved'', Arr u8_t 24)]"

definition struct_v4l2_meta_format :: ctype where
  "struct_v4l2_meta_format = c_packed [
     (''dataformat'', u32_t),
     (''buffersize'', u32_t)]"

definition struct_v4l2_format :: "nat \<Rightarrow> ctype" where
  "struct_v4l2_format w = c_struct [
     (''type'', u32_t),
     (''fmt'', c_union [ (''pix'', struct_v4l2_pix_format), (''pix_mp'', struct_v4l2_pix_format_mplane), (''win'', struct_v4l2_window w), (''vbi'', struct_v4l2_vbi_format), (''sliced'', struct_v4l2_sliced_vbi_format), (''sdr'', struct_v4l2_sdr_format), (''meta'', struct_v4l2_meta_format), (''raw_data'', Arr u8_t 200)])]"

definition struct_v4l2_streamparm :: ctype where
  "struct_v4l2_streamparm = c_struct [
     (''type'', u32_t),
     (''parm'', c_union [ (''capture'', struct_v4l2_captureparm), (''output'', struct_v4l2_outputparm), (''raw_data'', Arr u8_t 200)])]"

definition struct_v4l2_event_vsync :: ctype where
  "struct_v4l2_event_vsync = c_packed [
     (''field'', u8_t)]"

definition struct_v4l2_event_ctrl :: ctype where
  "struct_v4l2_event_ctrl = c_struct [
     (''changes'', u32_t),
     (''type'', u32_t),
     ('''', c_union [ (''value'', u32_t), (''value64'', u64_t)]),
     (''flags'', u32_t),
     (''minimum'', u32_t),
     (''maximum'', u32_t),
     (''step'', u32_t),
     (''default_value'', u32_t)]"

definition struct_v4l2_event_frame_sync :: ctype where
  "struct_v4l2_event_frame_sync = c_struct [
     (''frame_sequence'', u32_t)]"

definition struct_v4l2_event_src_change :: ctype where
  "struct_v4l2_event_src_change = c_struct [
     (''changes'', u32_t)]"

definition struct_v4l2_event_motion_det :: ctype where
  "struct_v4l2_event_motion_det = c_struct [
     (''flags'', u32_t),
     (''frame_sequence'', u32_t),
     (''region_mask'', u32_t)]"

definition struct_v4l2_event :: "nat \<Rightarrow> ctype" where
  "struct_v4l2_event w = c_struct [
     (''type'', u32_t),
     (''u'', c_union [ (''vsync'', struct_v4l2_event_vsync), (''ctrl'', struct_v4l2_event_ctrl), (''frame_sync'', struct_v4l2_event_frame_sync), (''src_change'', struct_v4l2_event_src_change), (''motion_det'', struct_v4l2_event_motion_det), (''data'', Arr u8_t 64)]),
     (''pending'', u32_t),
     (''sequence'', u32_t),
     (''timestamp'', struct_timespec w),
     (''id'', u32_t),
     (''reserved'', Arr u32_t 8)]"

definition struct_v4l2_event_subscription :: ctype where
  "struct_v4l2_event_subscription = c_struct [
     (''type'', u32_t),
     (''id'', u32_t),
     (''flags'', u32_t),
     (''reserved'', Arr u32_t 5)]"

definition struct_v4l2_dbg_match :: ctype where
  "struct_v4l2_dbg_match = c_packed [
     (''type'', u32_t),
     ('''', c_union [ (''addr'', u32_t), (''name'', Arr u8_t 32)])]"

definition struct_v4l2_dbg_register :: ctype where
  "struct_v4l2_dbg_register = c_packed [
     (''match'', struct_v4l2_dbg_match),
     (''size'', u32_t),
     (''reg'', u64_t),
     (''val'', u64_t)]"

definition struct_v4l2_dbg_chip_info :: ctype where
  "struct_v4l2_dbg_chip_info = c_packed [
     (''match'', struct_v4l2_dbg_match),
     (''name'', Arr u8_t 32),
     (''flags'', u32_t),
     (''reserved'', Arr u32_t 32)]"

definition struct_v4l2_create_buffers :: "nat \<Rightarrow> ctype" where
  "struct_v4l2_create_buffers w = c_struct [
     (''index'', u32_t),
     (''count'', u32_t),
     (''memory'', u32_t),
     (''format'', struct_v4l2_format w),
     (''capabilities'', u32_t),
     (''reserved'', Arr u32_t 7)]"

section \<open>Media bus formats\<close>

definition struct_v4l2_mbus_framefmt :: ctype where
  "struct_v4l2_mbus_framefmt = c_struct [
     (''width'', u32_t),
     (''height'', u32_t),
     (''code'', u32_t),
     (''field'', u32_t),
     (''colorspace'', u32_t),
     ('''', c_union [ (''ycbcr_enc'', u16_t), (''hsv_enc'', u16_t)]),
     (''quantization'', u16_t),
     (''xfer_func'', u16_t),
     (''flags'', u16_t),
     (''reserved'', Arr u16_t 10)]"

section \<open>Sub-devices\<close>

definition struct_v4l2_subdev_format :: ctype where
  "struct_v4l2_subdev_format = c_struct [
     (''which'', u32_t),
     (''pad'', u32_t),
     (''format'', struct_v4l2_mbus_framefmt),
     (''reserved'', Arr u32_t 8)]"

definition struct_v4l2_subdev_crop :: ctype where
  "struct_v4l2_subdev_crop = c_struct [
     (''which'', u32_t),
     (''pad'', u32_t),
     (''rect'', struct_v4l2_rect),
     (''reserved'', Arr u32_t 8)]"

definition struct_v4l2_subdev_mbus_code_enum :: ctype where
  "struct_v4l2_subdev_mbus_code_enum = c_struct [
     (''pad'', u32_t),
     (''index'', u32_t),
     (''code'', u32_t),
     (''which'', u32_t),
     (''flags'', u32_t),
     (''reserved'', Arr u32_t 7)]"

definition struct_v4l2_subdev_frame_size_enum :: ctype where
  "struct_v4l2_subdev_frame_size_enum = c_struct [
     (''index'', u32_t),
     (''pad'', u32_t),
     (''code'', u32_t),
     (''min_width'', u32_t),
     (''max_width'', u32_t),
     (''min_height'', u32_t),
     (''max_height'', u32_t),
     (''which'', u32_t),
     (''reserved'', Arr u32_t 8)]"

definition struct_v4l2_subdev_frame_interval :: ctype where
  "struct_v4l2_subdev_frame_interval = c_struct [
     (''pad'', u32_t),
     (''interval'', struct_v4l2_fract),
     (''reserved'', Arr u32_t 9)]"

definition struct_v4l2_subdev_frame_interval_enum :: ctype where
  "struct_v4l2_subdev_frame_interval_enum = c_struct [
     (''index'', u32_t),
     (''pad'', u32_t),
     (''code'', u32_t),
     (''width'', u32_t),
     (''height'', u32_t),
     (''interval'', struct_v4l2_fract),
     (''which'', u32_t),
     (''reserved'', Arr u32_t 8)]"

definition struct_v4l2_subdev_selection :: ctype where
  "struct_v4l2_subdev_selection = c_struct [
     (''which'', u32_t),
     (''pad'', u32_t),
     (''target'', u32_t),
     (''flags'', u32_t),
     (''r'', struct_v4l2_rect),
     (''reserved'', Arr u32_t 8)]"

definition struct_v4l2_subdev_capability :: ctype where
  "struct_v4l2_subdev_capability = c_struct [
     (''version'', u32_t),
     (''capabilities'', u32_t),
     (''reserved'', Arr u32_t 14)]"

section \<open>Media controller\<close>

definition struct_media_device_info :: ctype where
  "struct_media_device_info = c_struct [
     (''driver'', Arr u8_t 16),
     (''model'', Arr u8_t 32),
     (''serial'', Arr u8_t 40),
     (''bus_info'', Arr u8_t 32),
     (''media_version'', u32_t),
     (''hw_revision'', u32_t),
     (''driver_version'', u32_t),
     (''reserved'', Arr u32_t 31)]"

definition struct_media_entity_desc :: ctype where
  "struct_media_entity_desc = c_struct [
     (''id'', u32_t),
     (''name'', Arr u8_t 32),
     (''type'', u32_t),
     (''revision'', u32_t),
     (''flags'', u32_t),
     (''group_id'', u32_t),
     (''pads'', u16_t),
     (''links'', u16_t),
     (''reserved'', Arr u32_t 4),
     ('''', c_union [ (''dev'', c_struct [ (''major'', u32_t), (''minor'', u32_t)]), (''alsa'', c_struct [ (''card'', u32_t), (''device'', u32_t), (''subdevice'', u32_t)]), (''v4l'', c_struct [ (''major'', u32_t), (''minor'', u32_t)]), (''fb'', c_struct [ (''major'', u32_t), (''minor'', u32_t)]), (''dvb'', u32_t), (''raw'', Arr u8_t 184)])]"

definition struct_media_pad_desc :: ctype where
  "struct_media_pad_desc = c_struct [
     (''entity'', u32_t),
     (''index'', u16_t),
     (''flags'', u32_t),
     (''reserved'', Arr u32_t 2)]"

definition struct_media_link_desc :: ctype where
  "struct_media_link_desc = c_struct [
     (''source'', struct_media_pad_desc),
     (''sink'', struct_media_pad_desc),
     (''flags'', u32_t),
     (''reserved'', Arr u32_t 2)]"

definition struct_media_links_enum :: "nat \<Rightarrow> ctype" where
  "struct_media_links_enum w = c_struct [
     (''entity'', u32_t),
     (''pads'', ptr_t w),
     (''links'', ptr_t w),
     (''reserved'', Arr u32_t 4)]"

definition struct_media_v2_entity :: ctype where
  "struct_media_v2_entity = c_packed [
     (''id'', u32_t),
     (''name'', Arr u8_t 64),
     (''function'', u32_t),
     (''flags'', u32_t),
     (''reserved'', Arr u32_t 5)]"

definition struct_media_v2_intf_devnode :: ctype where
  "struct_media_v2_intf_devnode = c_packed [
     (''major'', u32_t),
     (''minor'', u32_t)]"

definition struct_media_v2_interface :: ctype where
  "struct_media_v2_interface = c_packed [
     (''id'', u32_t),
     (''intf_type'', u32_t),
     (''flags'', u32_t),
     (''reserved'', Arr u32_t 9),
     ('''', c_union [ (''devnode'', struct_media_v2_intf_devnode), (''raw'', Arr u32_t 16)])]"

definition struct_media_v2_pad :: ctype where
  "struct_media_v2_pad = c_packed [
     (''id'', u32_t),
     (''entity_id'', u32_t),
     (''flags'', u32_t),
     (''index'', u32_t),
     (''reserved'', Arr u32_t 4)]"

definition struct_media_v2_link :: ctype where
  "struct_media_v2_link = c_packed [
     (''id'', u32_t),
     (''source_id'', u32_t),
     (''sink_id'', u32_t),
     (''flags'', u32_t),
     (''reserved'', Arr u32_t 6)]"

definition struct_media_v2_topology :: ctype where
  "struct_media_v2_topology = c_packed [
     (''topology_version'', u64_t),
     (''num_entities'', u32_t),
     (''reserved1'', u32_t),
     (''ptr_entities'', u64_t),
     (''num_interfaces'', u32_t),
     (''reserved2'', u32_t),
     (''ptr_interfaces'', u64_t),
     (''num_pads'', u32_t),
     (''reserved3'', u32_t),
     (''ptr_pads'', u64_t),
     (''num_links'', u32_t),
     (''reserved4'', u32_t),
     (''ptr_links'', u64_t)]"

section \<open>Layout\<close>

text \<open>The structures without padding.\<close>

definition v4l2_tight :: "ctype list" where
  "v4l2_tight = [struct_v4l2_ctrl_h264_sps, struct_v4l2_ctrl_h264_pps, struct_v4l2_ctrl_h264_scaling_matrix,
     struct_v4l2_h264_weight_factors, struct_v4l2_ctrl_h264_pred_weights, struct_v4l2_h264_reference,
     struct_v4l2_ctrl_h264_slice_params, struct_v4l2_h264_dpb_entry, struct_v4l2_ctrl_h264_decode_params,
     struct_v4l2_ctrl_fwht_params, struct_v4l2_vp8_segment, struct_v4l2_vp8_loop_filter,
     struct_v4l2_vp8_quantization, struct_v4l2_vp8_entropy, struct_v4l2_vp8_entropy_coder_state,
     struct_v4l2_ctrl_vp8_frame, struct_v4l2_ctrl_mpeg2_sequence, struct_v4l2_ctrl_mpeg2_picture,
     struct_v4l2_ctrl_mpeg2_quantisation, struct_v4l2_ctrl_hdr10_cll_info,
     struct_v4l2_ctrl_hdr10_mastering_display, struct_v4l2_rect, struct_v4l2_fract, struct_v4l2_area,
     struct_v4l2_capability, struct_v4l2_pix_format, struct_v4l2_fmtdesc, struct_v4l2_frmsize_discrete,
     struct_v4l2_frmsize_stepwise, struct_v4l2_frmsizeenum, struct_v4l2_frmival_stepwise, struct_v4l2_frmivalenum,
     struct_v4l2_timecode, struct_v4l2_jpegcompression, struct_v4l2_requestbuffers, struct_v4l2_exportbuffer,
     struct_v4l2_captureparm, struct_v4l2_outputparm, struct_v4l2_cropcap, struct_v4l2_crop, struct_v4l2_selection,
     struct_v4l2_bt_timings, struct_v4l2_dv_timings, struct_v4l2_enum_dv_timings, struct_v4l2_bt_timings_cap,
     struct_v4l2_dv_timings_cap, struct_v4l2_output, struct_v4l2_control, struct_v4l2_queryctrl,
     struct_v4l2_query_ext_ctrl, struct_v4l2_querymenu, struct_v4l2_tuner, struct_v4l2_modulator,
     struct_v4l2_frequency, struct_v4l2_frequency_band, struct_v4l2_hw_freq_seek, struct_v4l2_rds_data,
     struct_v4l2_audio, struct_v4l2_audioout, struct_v4l2_enc_idx_entry, struct_v4l2_enc_idx,
     struct_v4l2_encoder_cmd, struct_v4l2_decoder_cmd, struct_v4l2_vbi_format, struct_v4l2_sliced_vbi_data,
     struct_v4l2_mpeg_vbi_itv0_line, struct_v4l2_mpeg_vbi_itv0, struct_v4l2_mpeg_vbi_ITV0,
     struct_v4l2_mpeg_vbi_fmt_ivtv, struct_v4l2_plane_pix_format, struct_v4l2_pix_format_mplane,
     struct_v4l2_sdr_format, struct_v4l2_meta_format, struct_v4l2_streamparm, struct_v4l2_event_vsync,
     struct_v4l2_event_frame_sync, struct_v4l2_event_src_change, struct_v4l2_event_motion_det,
     struct_v4l2_event_subscription, struct_v4l2_dbg_match, struct_v4l2_dbg_register, struct_v4l2_dbg_chip_info,
     struct_v4l2_mbus_framefmt, struct_v4l2_subdev_format, struct_v4l2_subdev_crop,
     struct_v4l2_subdev_mbus_code_enum, struct_v4l2_subdev_frame_size_enum, struct_v4l2_subdev_frame_interval,
     struct_v4l2_subdev_frame_interval_enum, struct_v4l2_subdev_selection, struct_v4l2_subdev_capability,
     struct_media_device_info, struct_media_entity_desc, struct_media_v2_entity, struct_media_v2_intf_devnode,
     struct_media_v2_interface, struct_media_v2_pad, struct_media_v2_link, struct_media_v2_topology]"

lemma v4l2_all_tight: "list_all tight v4l2_tight"
  by code_simp

text \<open>
  The structures of the video and media interfaces without implicit padding are laid out alike, member by
  member, by every ABI, and each of their bytes belongs to a member; this includes every payload of a compound
  control, which programs and kernel exchange as raw bytes.
\<close>

theorem v4l2_layout:
  assumes "t \<in> set v4l2_tight"
  shows "same_everywhere t \<and> covered (leaves 8 0 t) 0 (sizeof 8 t)"
  using v4l2_all_tight assms by (rule tight_types)

theorem v4l2_layout_witness:
  "same_everywhere struct_v4l2_ctrl_h264_sps \<and>
    covered (leaves 8 0 struct_v4l2_ctrl_h264_sps) 0 (sizeof 8 struct_v4l2_ctrl_h264_sps)"
  by (rule v4l2_layout) (simp add: v4l2_tight_def)

end
