(* ===== verification/Abi_V4l2_Ioctl.thy ===== *)
theory Abi_V4l2_Ioctl
  imports Abi_V4l2
begin

text \<open>
  The requests of video devices (\<^verbatim>\<open>videodev2.h\<close>), of sub-devices (\<^verbatim>\<open>v4l2-subdev.h\<close>) and of the media controller
  (\<^verbatim>\<open>media.h\<close>). Sub-devices reuse some requests of video devices, so the tables are kept apart.
\<close>

section \<open>Video devices\<close>

definition VIDIOC_QUERYCAP :: request where
  "VIDIOC_QUERYCAP = IOR_req 0x56 0 struct_v4l2_capability"

definition VIDIOC_ENUM_FMT :: request where
  "VIDIOC_ENUM_FMT = IOWR_req 0x56 2 struct_v4l2_fmtdesc"

definition VIDIOC_G_FMT :: "nat \<Rightarrow> request" where
  "VIDIOC_G_FMT w = IOWR_req 0x56 4 (struct_v4l2_format w)"

definition VIDIOC_S_FMT :: "nat \<Rightarrow> request" where
  "VIDIOC_S_FMT w = IOWR_req 0x56 5 (struct_v4l2_format w)"

definition VIDIOC_REQBUFS :: request where
  "VIDIOC_REQBUFS = IOWR_req 0x56 8 struct_v4l2_requestbuffers"

definition VIDIOC_QUERYBUF :: "nat \<Rightarrow> request" where
  "VIDIOC_QUERYBUF w = IOWR_req 0x56 9 (struct_v4l2_buffer w)"

definition VIDIOC_G_FBUF :: "nat \<Rightarrow> request" where
  "VIDIOC_G_FBUF w = IOR_req 0x56 10 (struct_v4l2_framebuffer w)"

definition VIDIOC_S_FBUF :: "nat \<Rightarrow> request" where
  "VIDIOC_S_FBUF w = IOW_req 0x56 11 (struct_v4l2_framebuffer w)"

definition VIDIOC_OVERLAY :: request where
  "VIDIOC_OVERLAY = IOW_req 0x56 14 u32_t"

definition VIDIOC_QBUF :: "nat \<Rightarrow> request" where
  "VIDIOC_QBUF w = IOWR_req 0x56 15 (struct_v4l2_buffer w)"

definition VIDIOC_EXPBUF :: request where
  "VIDIOC_EXPBUF = IOWR_req 0x56 16 struct_v4l2_exportbuffer"

definition VIDIOC_DQBUF :: "nat \<Rightarrow> request" where
  "VIDIOC_DQBUF w = IOWR_req 0x56 17 (struct_v4l2_buffer w)"

definition VIDIOC_STREAMON :: request where
  "VIDIOC_STREAMON = IOW_req 0x56 18 u32_t"

definition VIDIOC_STREAMOFF :: request where
  "VIDIOC_STREAMOFF = IOW_req 0x56 19 u32_t"

definition VIDIOC_G_PARM :: request where
  "VIDIOC_G_PARM = IOWR_req 0x56 21 struct_v4l2_streamparm"

definition VIDIOC_S_PARM :: request where
  "VIDIOC_S_PARM = IOWR_req 0x56 22 struct_v4l2_streamparm"

definition VIDIOC_G_STD :: request where
  "VIDIOC_G_STD = IOR_req 0x56 23 u64_t"

definition VIDIOC_S_STD :: request where
  "VIDIOC_S_STD = IOW_req 0x56 24 u64_t"

definition VIDIOC_ENUMSTD :: request where
  "VIDIOC_ENUMSTD = IOWR_req 0x56 25 struct_v4l2_standard"

definition VIDIOC_ENUMINPUT :: request where
  "VIDIOC_ENUMINPUT = IOWR_req 0x56 26 struct_v4l2_input"

definition VIDIOC_G_CTRL :: request where
  "VIDIOC_G_CTRL = IOWR_req 0x56 27 struct_v4l2_control"

definition VIDIOC_S_CTRL :: request where
  "VIDIOC_S_CTRL = IOWR_req 0x56 28 struct_v4l2_control"

definition VIDIOC_G_TUNER :: request where
  "VIDIOC_G_TUNER = IOWR_req 0x56 29 struct_v4l2_tuner"

definition VIDIOC_S_TUNER :: request where
  "VIDIOC_S_TUNER = IOW_req 0x56 30 struct_v4l2_tuner"

definition VIDIOC_G_AUDIO :: request where
  "VIDIOC_G_AUDIO = IOR_req 0x56 33 struct_v4l2_audio"

definition VIDIOC_S_AUDIO :: request where
  "VIDIOC_S_AUDIO = IOW_req 0x56 34 struct_v4l2_audio"

definition VIDIOC_QUERYCTRL :: request where
  "VIDIOC_QUERYCTRL = IOWR_req 0x56 36 struct_v4l2_queryctrl"

definition VIDIOC_QUERYMENU :: request where
  "VIDIOC_QUERYMENU = IOWR_req 0x56 37 struct_v4l2_querymenu"

definition VIDIOC_G_INPUT :: request where
  "VIDIOC_G_INPUT = IOR_req 0x56 38 u32_t"

definition VIDIOC_S_INPUT :: request where
  "VIDIOC_S_INPUT = IOWR_req 0x56 39 u32_t"

definition VIDIOC_G_EDID :: "nat \<Rightarrow> request" where
  "VIDIOC_G_EDID w = IOWR_req 0x56 40 (struct_v4l2_edid w)"

definition VIDIOC_S_EDID :: "nat \<Rightarrow> request" where
  "VIDIOC_S_EDID w = IOWR_req 0x56 41 (struct_v4l2_edid w)"

definition VIDIOC_G_OUTPUT :: request where
  "VIDIOC_G_OUTPUT = IOR_req 0x56 46 u32_t"

definition VIDIOC_S_OUTPUT :: request where
  "VIDIOC_S_OUTPUT = IOWR_req 0x56 47 u32_t"

definition VIDIOC_ENUMOUTPUT :: request where
  "VIDIOC_ENUMOUTPUT = IOWR_req 0x56 48 struct_v4l2_output"

definition VIDIOC_G_AUDOUT :: request where
  "VIDIOC_G_AUDOUT = IOR_req 0x56 49 struct_v4l2_audioout"

definition VIDIOC_S_AUDOUT :: request where
  "VIDIOC_S_AUDOUT = IOW_req 0x56 50 struct_v4l2_audioout"

definition VIDIOC_G_MODULATOR :: request where
  "VIDIOC_G_MODULATOR = IOWR_req 0x56 54 struct_v4l2_modulator"

definition VIDIOC_S_MODULATOR :: request where
  "VIDIOC_S_MODULATOR = IOW_req 0x56 55 struct_v4l2_modulator"

definition VIDIOC_G_FREQUENCY :: request where
  "VIDIOC_G_FREQUENCY = IOWR_req 0x56 56 struct_v4l2_frequency"

definition VIDIOC_S_FREQUENCY :: request where
  "VIDIOC_S_FREQUENCY = IOW_req 0x56 57 struct_v4l2_frequency"

definition VIDIOC_CROPCAP :: request where
  "VIDIOC_CROPCAP = IOWR_req 0x56 58 struct_v4l2_cropcap"

definition VIDIOC_G_CROP :: request where
  "VIDIOC_G_CROP = IOWR_req 0x56 59 struct_v4l2_crop"

definition VIDIOC_S_CROP :: request where
  "VIDIOC_S_CROP = IOW_req 0x56 60 struct_v4l2_crop"

definition VIDIOC_G_JPEGCOMP :: request where
  "VIDIOC_G_JPEGCOMP = IOR_req 0x56 61 struct_v4l2_jpegcompression"

definition VIDIOC_S_JPEGCOMP :: request where
  "VIDIOC_S_JPEGCOMP = IOW_req 0x56 62 struct_v4l2_jpegcompression"

definition VIDIOC_QUERYSTD :: request where
  "VIDIOC_QUERYSTD = IOR_req 0x56 63 u64_t"

definition VIDIOC_TRY_FMT :: "nat \<Rightarrow> request" where
  "VIDIOC_TRY_FMT w = IOWR_req 0x56 64 (struct_v4l2_format w)"

definition VIDIOC_ENUMAUDIO :: request where
  "VIDIOC_ENUMAUDIO = IOWR_req 0x56 65 struct_v4l2_audio"

definition VIDIOC_ENUMAUDOUT :: request where
  "VIDIOC_ENUMAUDOUT = IOWR_req 0x56 66 struct_v4l2_audioout"

definition VIDIOC_G_PRIORITY :: request where
  "VIDIOC_G_PRIORITY = IOR_req 0x56 67 u32_t"

definition VIDIOC_S_PRIORITY :: request where
  "VIDIOC_S_PRIORITY = IOW_req 0x56 68 u32_t"

definition VIDIOC_G_SLICED_VBI_CAP :: request where
  "VIDIOC_G_SLICED_VBI_CAP = IOWR_req 0x56 69 struct_v4l2_sliced_vbi_cap"

definition VIDIOC_LOG_STATUS :: request where
  "VIDIOC_LOG_STATUS = IO_req 0x56 70"

definition VIDIOC_G_EXT_CTRLS :: "nat \<Rightarrow> request" where
  "VIDIOC_G_EXT_CTRLS w = IOWR_req 0x56 71 (struct_v4l2_ext_controls w)"

definition VIDIOC_S_EXT_CTRLS :: "nat \<Rightarrow> request" where
  "VIDIOC_S_EXT_CTRLS w = IOWR_req 0x56 72 (struct_v4l2_ext_controls w)"

definition VIDIOC_TRY_EXT_CTRLS :: "nat \<Rightarrow> request" where
  "VIDIOC_TRY_EXT_CTRLS w = IOWR_req 0x56 73 (struct_v4l2_ext_controls w)"

definition VIDIOC_ENUM_FRAMESIZES :: request where
  "VIDIOC_ENUM_FRAMESIZES = IOWR_req 0x56 74 struct_v4l2_frmsizeenum"

definition VIDIOC_ENUM_FRAMEINTERVALS :: request where
  "VIDIOC_ENUM_FRAMEINTERVALS = IOWR_req 0x56 75 struct_v4l2_frmivalenum"

definition VIDIOC_G_ENC_INDEX :: request where
  "VIDIOC_G_ENC_INDEX = IOR_req 0x56 76 struct_v4l2_enc_idx"

definition VIDIOC_ENCODER_CMD :: request where
  "VIDIOC_ENCODER_CMD = IOWR_req 0x56 77 struct_v4l2_encoder_cmd"

definition VIDIOC_TRY_ENCODER_CMD :: request where
  "VIDIOC_TRY_ENCODER_CMD = IOWR_req 0x56 78 struct_v4l2_encoder_cmd"

definition VIDIOC_DBG_S_REGISTER :: request where
  "VIDIOC_DBG_S_REGISTER = IOW_req 0x56 79 struct_v4l2_dbg_register"

definition VIDIOC_DBG_G_REGISTER :: request where
  "VIDIOC_DBG_G_REGISTER = IOWR_req 0x56 80 struct_v4l2_dbg_register"

definition VIDIOC_S_HW_FREQ_SEEK :: request where
  "VIDIOC_S_HW_FREQ_SEEK = IOW_req 0x56 82 struct_v4l2_hw_freq_seek"

definition VIDIOC_S_DV_TIMINGS :: request where
  "VIDIOC_S_DV_TIMINGS = IOWR_req 0x56 87 struct_v4l2_dv_timings"

definition VIDIOC_G_DV_TIMINGS :: request where
  "VIDIOC_G_DV_TIMINGS = IOWR_req 0x56 88 struct_v4l2_dv_timings"

definition VIDIOC_DQEVENT :: "nat \<Rightarrow> request" where
  "VIDIOC_DQEVENT w = IOR_req 0x56 89 (struct_v4l2_event w)"

definition VIDIOC_SUBSCRIBE_EVENT :: request where
  "VIDIOC_SUBSCRIBE_EVENT = IOW_req 0x56 90 struct_v4l2_event_subscription"

definition VIDIOC_UNSUBSCRIBE_EVENT :: request where
  "VIDIOC_UNSUBSCRIBE_EVENT = IOW_req 0x56 91 struct_v4l2_event_subscription"

definition VIDIOC_CREATE_BUFS :: "nat \<Rightarrow> request" where
  "VIDIOC_CREATE_BUFS w = IOWR_req 0x56 92 (struct_v4l2_create_buffers w)"

definition VIDIOC_PREPARE_BUF :: "nat \<Rightarrow> request" where
  "VIDIOC_PREPARE_BUF w = IOWR_req 0x56 93 (struct_v4l2_buffer w)"

definition VIDIOC_G_SELECTION :: request where
  "VIDIOC_G_SELECTION = IOWR_req 0x56 94 struct_v4l2_selection"

definition VIDIOC_S_SELECTION :: request where
  "VIDIOC_S_SELECTION = IOWR_req 0x56 95 struct_v4l2_selection"

definition VIDIOC_DECODER_CMD :: request where
  "VIDIOC_DECODER_CMD = IOWR_req 0x56 96 struct_v4l2_decoder_cmd"

definition VIDIOC_TRY_DECODER_CMD :: request where
  "VIDIOC_TRY_DECODER_CMD = IOWR_req 0x56 97 struct_v4l2_decoder_cmd"

definition VIDIOC_ENUM_DV_TIMINGS :: request where
  "VIDIOC_ENUM_DV_TIMINGS = IOWR_req 0x56 98 struct_v4l2_enum_dv_timings"

definition VIDIOC_QUERY_DV_TIMINGS :: request where
  "VIDIOC_QUERY_DV_TIMINGS = IOR_req 0x56 99 struct_v4l2_dv_timings"

definition VIDIOC_DV_TIMINGS_CAP :: request where
  "VIDIOC_DV_TIMINGS_CAP = IOWR_req 0x56 100 struct_v4l2_dv_timings_cap"

definition VIDIOC_ENUM_FREQ_BANDS :: request where
  "VIDIOC_ENUM_FREQ_BANDS = IOWR_req 0x56 101 struct_v4l2_frequency_band"

definition VIDIOC_DBG_G_CHIP_INFO :: request where
  "VIDIOC_DBG_G_CHIP_INFO = IOWR_req 0x56 102 struct_v4l2_dbg_chip_info"

definition VIDIOC_QUERY_EXT_CTRL :: request where
  "VIDIOC_QUERY_EXT_CTRL = IOWR_req 0x56 103 struct_v4l2_query_ext_ctrl"

definition v4l2_requests :: "nat \<Rightarrow> request list" where
  "v4l2_requests w = [VIDIOC_QUERYCAP, VIDIOC_ENUM_FMT, VIDIOC_G_FMT w, VIDIOC_S_FMT w, VIDIOC_REQBUFS, VIDIOC_QUERYBUF w,
     VIDIOC_G_FBUF w, VIDIOC_S_FBUF w, VIDIOC_OVERLAY, VIDIOC_QBUF w, VIDIOC_EXPBUF, VIDIOC_DQBUF w,
     VIDIOC_STREAMON, VIDIOC_STREAMOFF, VIDIOC_G_PARM, VIDIOC_S_PARM, VIDIOC_G_STD, VIDIOC_S_STD, VIDIOC_ENUMSTD,
     VIDIOC_ENUMINPUT, VIDIOC_G_CTRL, VIDIOC_S_CTRL, VIDIOC_G_TUNER, VIDIOC_S_TUNER, VIDIOC_G_AUDIO,
     VIDIOC_S_AUDIO, VIDIOC_QUERYCTRL, VIDIOC_QUERYMENU, VIDIOC_G_INPUT, VIDIOC_S_INPUT, VIDIOC_G_EDID w,
     VIDIOC_S_EDID w, VIDIOC_G_OUTPUT, VIDIOC_S_OUTPUT, VIDIOC_ENUMOUTPUT, VIDIOC_G_AUDOUT, VIDIOC_S_AUDOUT,
     VIDIOC_G_MODULATOR, VIDIOC_S_MODULATOR, VIDIOC_G_FREQUENCY, VIDIOC_S_FREQUENCY, VIDIOC_CROPCAP, VIDIOC_G_CROP,
     VIDIOC_S_CROP, VIDIOC_G_JPEGCOMP, VIDIOC_S_JPEGCOMP, VIDIOC_QUERYSTD, VIDIOC_TRY_FMT w, VIDIOC_ENUMAUDIO,
     VIDIOC_ENUMAUDOUT, VIDIOC_G_PRIORITY, VIDIOC_S_PRIORITY, VIDIOC_G_SLICED_VBI_CAP, VIDIOC_LOG_STATUS,
     VIDIOC_G_EXT_CTRLS w, VIDIOC_S_EXT_CTRLS w, VIDIOC_TRY_EXT_CTRLS w, VIDIOC_ENUM_FRAMESIZES,
     VIDIOC_ENUM_FRAMEINTERVALS, VIDIOC_G_ENC_INDEX, VIDIOC_ENCODER_CMD, VIDIOC_TRY_ENCODER_CMD,
     VIDIOC_DBG_S_REGISTER, VIDIOC_DBG_G_REGISTER, VIDIOC_S_HW_FREQ_SEEK, VIDIOC_S_DV_TIMINGS, VIDIOC_G_DV_TIMINGS,
     VIDIOC_DQEVENT w, VIDIOC_SUBSCRIBE_EVENT, VIDIOC_UNSUBSCRIBE_EVENT, VIDIOC_CREATE_BUFS w,
     VIDIOC_PREPARE_BUF w, VIDIOC_G_SELECTION, VIDIOC_S_SELECTION, VIDIOC_DECODER_CMD, VIDIOC_TRY_DECODER_CMD,
     VIDIOC_ENUM_DV_TIMINGS, VIDIOC_QUERY_DV_TIMINGS, VIDIOC_DV_TIMINGS_CAP, VIDIOC_ENUM_FREQ_BANDS,
     VIDIOC_DBG_G_CHIP_INFO, VIDIOC_QUERY_EXT_CTRL]"

text \<open>The requests whose number on i386 is not that of a 64-bit kernel.\<close>

definition v4l2_changed :: "request list" where
  "v4l2_changed = [VIDIOC_G_FMT 8, VIDIOC_S_FMT 8, VIDIOC_QUERYBUF 8, VIDIOC_G_FBUF 8, VIDIOC_S_FBUF 8, VIDIOC_QBUF 8,
     VIDIOC_DQBUF 8, VIDIOC_ENUMSTD, VIDIOC_ENUMINPUT, VIDIOC_G_EDID 8, VIDIOC_S_EDID 8, VIDIOC_TRY_FMT 8,
     VIDIOC_G_EXT_CTRLS 8, VIDIOC_S_EXT_CTRLS 8, VIDIOC_TRY_EXT_CTRLS 8, VIDIOC_DQEVENT 8, VIDIOC_CREATE_BUFS 8,
     VIDIOC_PREPARE_BUF 8]"

lemma v4l2_table_8_8: "table_ok 8 (v4l2_requests 8)"
  by code_simp

lemma v4l2_table_8_4: "table_ok 8 (v4l2_requests 4)"
  by code_simp

lemma v4l2_table_4_4: "table_ok 4 (v4l2_requests 4)"
  by code_simp

lemma v4l2_table_2_4: "table_ok 2 (v4l2_requests 4)"
  by code_simp

lemmas v4l2_tables = v4l2_table_8_8 v4l2_table_8_4 v4l2_table_4_4 v4l2_table_2_4

lemma v4l2_interface:
  assumes "(amax, w) \<in> set abis"
  shows "ioctl_interface amax (v4l2_requests w)"
  using assms v4l2_tables [THEN table_interface] by (auto simp add: abis_def)

interpretation v4l2_kernel: ioctl_interface 8 "v4l2_requests 8"
  by (rule v4l2_tables(1) [THEN table_interface])

interpretation v4l2_i386: ioctl_compat 4 "v4l2_requests 4" "v4l2_requests 8" v4l2_changed
proof (intro ioctl_compat.intro ioctl_compat_axioms.intro)
  show "ioctl_interface 8 (v4l2_requests 8)" by (rule v4l2_tables(1) [THEN table_interface])
  show "ioctl_interface 4 (v4l2_requests 4)" by (rule v4l2_tables(3) [THEN table_interface])
  show "list_all2 (\<lambda>r q. (req_key 4 r = req_key 8 q) \<noteq> (q \<in> set v4l2_changed)) (v4l2_requests 4) (v4l2_requests 8)"
    by code_simp
  show "list_all2 (\<lambda>r q. agree 4 (req_arg q) \<or> q \<in> set v4l2_changed \<or> r \<noteq> q) (v4l2_requests 4) (v4l2_requests 8)"
    by code_simp
qed

text \<open>
  The requests of video devices have different numbers on every ABI and layout of request numbers, and the
  size that the kernel decodes is the size of the argument.
\<close>

theorem v4l2_requests_decoded:
  assumes "(amax, w) \<in> set abis" "L \<in> ioc_layouts" "32 \<le> LENGTH('l)"
  shows "distinct (map (request_number L amax) (v4l2_requests w) :: 'l::len word list) \<and>
    list_all (\<lambda>r. IOC_SIZE L (request_number L amax r :: 'l word) = word_of_nat (sizeof amax (req_arg r)))
      (v4l2_requests w)"
  using v4l2_interface [OF assms(1)] assms(2,3) by (rule ioctl_interface.sound)

theorem v4l2_requests_decoded_witness:
  "distinct (map (request_number generic_ioc 8) (v4l2_requests 8) :: u32 list) \<and>
    list_all (\<lambda>r. IOC_SIZE generic_ioc (request_number generic_ioc 8 r :: u32) = word_of_nat (sizeof 8 (req_arg r)))
      (v4l2_requests 8)"
  by (rule v4l2_requests_decoded) (simp_all add: abis_def ioc_layouts_def)

text \<open>
  C18: An i386 program uses the numbers of the 64-bit kernel, except for the requests of \<open>v4l2_changed\<close>: those whose
  argument has a pointer, a time or a 64-bit member behind an odd number of words. The kernel finds every member of
  the other arguments without pointers where the program put it.
\<close>

theorem v4l2_compat_requests:
  assumes "L \<in> ioc_layouts" "32 \<le> LENGTH('l)"
  shows "list_all2 (\<lambda>r q. ((request_number L 4 r :: 'l::len word) = request_number L 8 q) \<noteq> (q \<in> set v4l2_changed))
      (v4l2_requests 4) (v4l2_requests 8) \<and>
    list_all2 (\<lambda>r q. r = q \<longrightarrow> q \<notin> set v4l2_changed \<longrightarrow>
        leaves 4 0 (req_arg q) = leaves 8 0 (req_arg q)) (v4l2_requests 4) (v4l2_requests 8)"
  using v4l2_i386.reached [OF assms] v4l2_i386.passed by blast

theorem v4l2_compat_requests_witness:
  "list_all2 (\<lambda>r q. ((request_number generic_ioc 4 r :: u32) = request_number generic_ioc 8 q) \<noteq> (q \<in> set v4l2_changed))
    (v4l2_requests 4) (v4l2_requests 8)"
  using v4l2_compat_requests [of generic_ioc, where ?'l = 32] by (simp add: ioc_layouts_def)

section \<open>Sub-devices\<close>

definition VIDIOC_SUBDEV_QUERYCAP :: request where
  "VIDIOC_SUBDEV_QUERYCAP = IOR_req 0x56 0 struct_v4l2_subdev_capability"

definition VIDIOC_SUBDEV_G_FMT :: request where
  "VIDIOC_SUBDEV_G_FMT = IOWR_req 0x56 4 struct_v4l2_subdev_format"

definition VIDIOC_SUBDEV_S_FMT :: request where
  "VIDIOC_SUBDEV_S_FMT = IOWR_req 0x56 5 struct_v4l2_subdev_format"

definition VIDIOC_SUBDEV_G_FRAME_INTERVAL :: request where
  "VIDIOC_SUBDEV_G_FRAME_INTERVAL = IOWR_req 0x56 21 struct_v4l2_subdev_frame_interval"

definition VIDIOC_SUBDEV_S_FRAME_INTERVAL :: request where
  "VIDIOC_SUBDEV_S_FRAME_INTERVAL = IOWR_req 0x56 22 struct_v4l2_subdev_frame_interval"

definition VIDIOC_SUBDEV_ENUM_MBUS_CODE :: request where
  "VIDIOC_SUBDEV_ENUM_MBUS_CODE = IOWR_req 0x56 2 struct_v4l2_subdev_mbus_code_enum"

definition VIDIOC_SUBDEV_ENUM_FRAME_SIZE :: request where
  "VIDIOC_SUBDEV_ENUM_FRAME_SIZE = IOWR_req 0x56 74 struct_v4l2_subdev_frame_size_enum"

definition VIDIOC_SUBDEV_ENUM_FRAME_INTERVAL :: request where
  "VIDIOC_SUBDEV_ENUM_FRAME_INTERVAL = IOWR_req 0x56 75 struct_v4l2_subdev_frame_interval_enum"

definition VIDIOC_SUBDEV_G_CROP :: request where
  "VIDIOC_SUBDEV_G_CROP = IOWR_req 0x56 59 struct_v4l2_subdev_crop"

definition VIDIOC_SUBDEV_S_CROP :: request where
  "VIDIOC_SUBDEV_S_CROP = IOWR_req 0x56 60 struct_v4l2_subdev_crop"

definition VIDIOC_SUBDEV_G_SELECTION :: request where
  "VIDIOC_SUBDEV_G_SELECTION = IOWR_req 0x56 61 struct_v4l2_subdev_selection"

definition VIDIOC_SUBDEV_S_SELECTION :: request where
  "VIDIOC_SUBDEV_S_SELECTION = IOWR_req 0x56 62 struct_v4l2_subdev_selection"

definition VIDIOC_SUBDEV_G_STD :: request where
  "VIDIOC_SUBDEV_G_STD = IOR_req 0x56 23 u64_t"

definition VIDIOC_SUBDEV_S_STD :: request where
  "VIDIOC_SUBDEV_S_STD = IOW_req 0x56 24 u64_t"

definition VIDIOC_SUBDEV_ENUMSTD :: request where
  "VIDIOC_SUBDEV_ENUMSTD = IOWR_req 0x56 25 struct_v4l2_standard"

definition VIDIOC_SUBDEV_G_EDID :: "nat \<Rightarrow> request" where
  "VIDIOC_SUBDEV_G_EDID w = IOWR_req 0x56 40 (struct_v4l2_edid w)"

definition VIDIOC_SUBDEV_S_EDID :: "nat \<Rightarrow> request" where
  "VIDIOC_SUBDEV_S_EDID w = IOWR_req 0x56 41 (struct_v4l2_edid w)"

definition VIDIOC_SUBDEV_QUERYSTD :: request where
  "VIDIOC_SUBDEV_QUERYSTD = IOR_req 0x56 63 u64_t"

definition VIDIOC_SUBDEV_S_DV_TIMINGS :: request where
  "VIDIOC_SUBDEV_S_DV_TIMINGS = IOWR_req 0x56 87 struct_v4l2_dv_timings"

definition VIDIOC_SUBDEV_G_DV_TIMINGS :: request where
  "VIDIOC_SUBDEV_G_DV_TIMINGS = IOWR_req 0x56 88 struct_v4l2_dv_timings"

definition VIDIOC_SUBDEV_ENUM_DV_TIMINGS :: request where
  "VIDIOC_SUBDEV_ENUM_DV_TIMINGS = IOWR_req 0x56 98 struct_v4l2_enum_dv_timings"

definition VIDIOC_SUBDEV_QUERY_DV_TIMINGS :: request where
  "VIDIOC_SUBDEV_QUERY_DV_TIMINGS = IOR_req 0x56 99 struct_v4l2_dv_timings"

definition VIDIOC_SUBDEV_DV_TIMINGS_CAP :: request where
  "VIDIOC_SUBDEV_DV_TIMINGS_CAP = IOWR_req 0x56 100 struct_v4l2_dv_timings_cap"

definition subdev_requests :: "nat \<Rightarrow> request list" where
  "subdev_requests w = [VIDIOC_SUBDEV_QUERYCAP, VIDIOC_SUBDEV_ENUM_MBUS_CODE, VIDIOC_SUBDEV_G_FMT, VIDIOC_SUBDEV_S_FMT,
     VIDIOC_SUBDEV_G_FRAME_INTERVAL, VIDIOC_SUBDEV_S_FRAME_INTERVAL, VIDIOC_SUBDEV_G_STD, VIDIOC_SUBDEV_S_STD,
     VIDIOC_SUBDEV_ENUMSTD, VIDIOC_SUBDEV_G_EDID w, VIDIOC_SUBDEV_S_EDID w, VIDIOC_SUBDEV_G_CROP,
     VIDIOC_SUBDEV_S_CROP, VIDIOC_SUBDEV_G_SELECTION, VIDIOC_SUBDEV_S_SELECTION, VIDIOC_SUBDEV_QUERYSTD,
     VIDIOC_SUBDEV_ENUM_FRAME_SIZE, VIDIOC_SUBDEV_ENUM_FRAME_INTERVAL, VIDIOC_SUBDEV_S_DV_TIMINGS,
     VIDIOC_SUBDEV_G_DV_TIMINGS, VIDIOC_SUBDEV_ENUM_DV_TIMINGS, VIDIOC_SUBDEV_QUERY_DV_TIMINGS,
     VIDIOC_SUBDEV_DV_TIMINGS_CAP]"

text \<open>The requests whose number on i386 is not that of a 64-bit kernel.\<close>

definition subdev_changed :: "request list" where
  "subdev_changed = [VIDIOC_SUBDEV_ENUMSTD, VIDIOC_SUBDEV_G_EDID 8, VIDIOC_SUBDEV_S_EDID 8]"

lemma subdev_table_8_8: "table_ok 8 (subdev_requests 8)"
  by code_simp

lemma subdev_table_8_4: "table_ok 8 (subdev_requests 4)"
  by code_simp

lemma subdev_table_4_4: "table_ok 4 (subdev_requests 4)"
  by code_simp

lemma subdev_table_2_4: "table_ok 2 (subdev_requests 4)"
  by code_simp

lemmas subdev_tables = subdev_table_8_8 subdev_table_8_4 subdev_table_4_4 subdev_table_2_4

lemma subdev_interface:
  assumes "(amax, w) \<in> set abis"
  shows "ioctl_interface amax (subdev_requests w)"
  using assms subdev_tables [THEN table_interface] by (auto simp add: abis_def)

interpretation subdev_kernel: ioctl_interface 8 "subdev_requests 8"
  by (rule subdev_tables(1) [THEN table_interface])

interpretation subdev_i386: ioctl_compat 4 "subdev_requests 4" "subdev_requests 8" subdev_changed
proof (intro ioctl_compat.intro ioctl_compat_axioms.intro)
  show "ioctl_interface 8 (subdev_requests 8)" by (rule subdev_tables(1) [THEN table_interface])
  show "ioctl_interface 4 (subdev_requests 4)" by (rule subdev_tables(3) [THEN table_interface])
  show "list_all2 (\<lambda>r q. (req_key 4 r = req_key 8 q) \<noteq> (q \<in> set subdev_changed)) (subdev_requests 4) (subdev_requests 8)"
    by code_simp
  show "list_all2 (\<lambda>r q. agree 4 (req_arg q) \<or> q \<in> set subdev_changed \<or> r \<noteq> q) (subdev_requests 4) (subdev_requests 8)"
    by code_simp
qed

text \<open>
  The requests of sub-devices.
\<close>

theorem subdev_requests_decoded:
  assumes "(amax, w) \<in> set abis" "L \<in> ioc_layouts" "32 \<le> LENGTH('l)"
  shows "distinct (map (request_number L amax) (subdev_requests w) :: 'l::len word list) \<and>
    list_all (\<lambda>r. IOC_SIZE L (request_number L amax r :: 'l word) = word_of_nat (sizeof amax (req_arg r)))
      (subdev_requests w)"
  using subdev_interface [OF assms(1)] assms(2,3) by (rule ioctl_interface.sound)

theorem subdev_requests_decoded_witness:
  "distinct (map (request_number generic_ioc 8) (subdev_requests 8) :: u32 list) \<and>
    list_all (\<lambda>r. IOC_SIZE generic_ioc (request_number generic_ioc 8 r :: u32) = word_of_nat (sizeof 8 (req_arg r)))
      (subdev_requests 8)"
  by (rule subdev_requests_decoded) (simp_all add: abis_def ioc_layouts_def)

text \<open>
  The requests of sub-devices that i386 programs number differently.
\<close>

theorem subdev_compat_requests:
  assumes "L \<in> ioc_layouts" "32 \<le> LENGTH('l)"
  shows "list_all2 (\<lambda>r q. ((request_number L 4 r :: 'l::len word) = request_number L 8 q) \<noteq> (q \<in> set subdev_changed))
      (subdev_requests 4) (subdev_requests 8) \<and>
    list_all2 (\<lambda>r q. r = q \<longrightarrow> q \<notin> set subdev_changed \<longrightarrow>
        leaves 4 0 (req_arg q) = leaves 8 0 (req_arg q)) (subdev_requests 4) (subdev_requests 8)"
  using subdev_i386.reached [OF assms] subdev_i386.passed by blast

theorem subdev_compat_requests_witness:
  "list_all2 (\<lambda>r q. ((request_number generic_ioc 4 r :: u32) = request_number generic_ioc 8 q) \<noteq> (q \<in> set subdev_changed))
    (subdev_requests 4) (subdev_requests 8)"
  using subdev_compat_requests [of generic_ioc, where ?'l = 32] by (simp add: ioc_layouts_def)

section \<open>Media controller\<close>

definition MEDIA_IOC_DEVICE_INFO :: request where
  "MEDIA_IOC_DEVICE_INFO = IOWR_req 0x7c 0 struct_media_device_info"

definition MEDIA_IOC_ENUM_ENTITIES :: request where
  "MEDIA_IOC_ENUM_ENTITIES = IOWR_req 0x7c 1 struct_media_entity_desc"

definition MEDIA_IOC_ENUM_LINKS :: "nat \<Rightarrow> request" where
  "MEDIA_IOC_ENUM_LINKS w = IOWR_req 0x7c 2 (struct_media_links_enum w)"

definition MEDIA_IOC_SETUP_LINK :: request where
  "MEDIA_IOC_SETUP_LINK = IOWR_req 0x7c 3 struct_media_link_desc"

definition MEDIA_IOC_G_TOPOLOGY :: request where
  "MEDIA_IOC_G_TOPOLOGY = IOWR_req 0x7c 4 struct_media_v2_topology"

definition MEDIA_IOC_REQUEST_ALLOC :: request where
  "MEDIA_IOC_REQUEST_ALLOC = IOR_req 0x7c 5 u32_t"

definition MEDIA_REQUEST_IOC_QUEUE :: request where
  "MEDIA_REQUEST_IOC_QUEUE = IO_req 0x7c 128"

definition MEDIA_REQUEST_IOC_REINIT :: request where
  "MEDIA_REQUEST_IOC_REINIT = IO_req 0x7c 129"

definition media_requests :: "nat \<Rightarrow> request list" where
  "media_requests w = [MEDIA_IOC_DEVICE_INFO, MEDIA_IOC_ENUM_ENTITIES, MEDIA_IOC_ENUM_LINKS w, MEDIA_IOC_SETUP_LINK,
     MEDIA_IOC_G_TOPOLOGY, MEDIA_IOC_REQUEST_ALLOC, MEDIA_REQUEST_IOC_QUEUE, MEDIA_REQUEST_IOC_REINIT]"

text \<open>The requests whose number on i386 is not that of a 64-bit kernel.\<close>

definition media_changed :: "request list" where
  "media_changed = [MEDIA_IOC_ENUM_LINKS 8]"

lemma media_table_8_8: "table_ok 8 (media_requests 8)"
  by code_simp

lemma media_table_8_4: "table_ok 8 (media_requests 4)"
  by code_simp

lemma media_table_4_4: "table_ok 4 (media_requests 4)"
  by code_simp

lemma media_table_2_4: "table_ok 2 (media_requests 4)"
  by code_simp

lemmas media_tables = media_table_8_8 media_table_8_4 media_table_4_4 media_table_2_4

lemma media_interface:
  assumes "(amax, w) \<in> set abis"
  shows "ioctl_interface amax (media_requests w)"
  using assms media_tables [THEN table_interface] by (auto simp add: abis_def)

interpretation media_kernel: ioctl_interface 8 "media_requests 8"
  by (rule media_tables(1) [THEN table_interface])

interpretation media_i386: ioctl_compat 4 "media_requests 4" "media_requests 8" media_changed
proof (intro ioctl_compat.intro ioctl_compat_axioms.intro)
  show "ioctl_interface 8 (media_requests 8)" by (rule media_tables(1) [THEN table_interface])
  show "ioctl_interface 4 (media_requests 4)" by (rule media_tables(3) [THEN table_interface])
  show "list_all2 (\<lambda>r q. (req_key 4 r = req_key 8 q) \<noteq> (q \<in> set media_changed)) (media_requests 4) (media_requests 8)"
    by code_simp
  show "list_all2 (\<lambda>r q. agree 4 (req_arg q) \<or> q \<in> set media_changed \<or> r \<noteq> q) (media_requests 4) (media_requests 8)"
    by code_simp
qed

text \<open>
  The requests of the media controller.
\<close>

theorem media_requests_decoded:
  assumes "(amax, w) \<in> set abis" "L \<in> ioc_layouts" "32 \<le> LENGTH('l)"
  shows "distinct (map (request_number L amax) (media_requests w) :: 'l::len word list) \<and>
    list_all (\<lambda>r. IOC_SIZE L (request_number L amax r :: 'l word) = word_of_nat (sizeof amax (req_arg r)))
      (media_requests w)"
  using media_interface [OF assms(1)] assms(2,3) by (rule ioctl_interface.sound)

theorem media_requests_decoded_witness:
  "distinct (map (request_number generic_ioc 8) (media_requests 8) :: u32 list) \<and>
    list_all (\<lambda>r. IOC_SIZE generic_ioc (request_number generic_ioc 8 r :: u32) = word_of_nat (sizeof 8 (req_arg r)))
      (media_requests 8)"
  by (rule media_requests_decoded) (simp_all add: abis_def ioc_layouts_def)

text \<open>
  The requests of the media controller that i386 programs number differently.
\<close>

theorem media_compat_requests:
  assumes "L \<in> ioc_layouts" "32 \<le> LENGTH('l)"
  shows "list_all2 (\<lambda>r q. ((request_number L 4 r :: 'l::len word) = request_number L 8 q) \<noteq> (q \<in> set media_changed))
      (media_requests 4) (media_requests 8) \<and>
    list_all2 (\<lambda>r q. r = q \<longrightarrow> q \<notin> set media_changed \<longrightarrow>
        leaves 4 0 (req_arg q) = leaves 8 0 (req_arg q)) (media_requests 4) (media_requests 8)"
  using media_i386.reached [OF assms] media_i386.passed by blast

theorem media_compat_requests_witness:
  "list_all2 (\<lambda>r q. ((request_number generic_ioc 4 r :: u32) = request_number generic_ioc 8 q) \<noteq> (q \<in> set media_changed))
    (media_requests 4) (media_requests 8)"
  using media_compat_requests [of generic_ioc, where ?'l = 32] by (simp add: ioc_layouts_def)

end
