(* ===== verification/Abi_Drm.thy ===== *)
theory Abi_Drm
  imports Abi_Request
begin

text \<open>
  The core of the graphics interface: \<^verbatim>\<open>include/drm/drm_mode.h\<close> and \<^verbatim>\<open>include/drm/drm.h\<close>, for Linux and C. The
  macros \<^verbatim>\<open>DRM_IO\<close>, \<^verbatim>\<open>DRM_IOR\<close>, \<^verbatim>\<open>DRM_IOW\<close> and \<^verbatim>\<open>DRM_IOWR\<close> are the generic ones with the type \<^verbatim>\<open>'d'\<close>.
\<close>

section \<open>Mode setting\<close>

definition struct_drm_mode_modeinfo :: ctype where
  "struct_drm_mode_modeinfo = c_struct [
     (''clock'', u32_t),
     (''hdisplay'', u16_t),
     (''hsync_start'', u16_t),
     (''hsync_end'', u16_t),
     (''htotal'', u16_t),
     (''hskew'', u16_t),
     (''vdisplay'', u16_t),
     (''vsync_start'', u16_t),
     (''vsync_end'', u16_t),
     (''vtotal'', u16_t),
     (''vscan'', u16_t),
     (''vrefresh'', u32_t),
     (''flags'', u32_t),
     (''type'', u32_t),
     (''name'', Arr u8_t 32)]"

definition struct_drm_mode_card_res :: ctype where
  "struct_drm_mode_card_res = c_struct [
     (''fb_id_ptr'', u64_t),
     (''crtc_id_ptr'', u64_t),
     (''connector_id_ptr'', u64_t),
     (''encoder_id_ptr'', u64_t),
     (''count_fbs'', u32_t),
     (''count_crtcs'', u32_t),
     (''count_connectors'', u32_t),
     (''count_encoders'', u32_t),
     (''min_width'', u32_t),
     (''max_width'', u32_t),
     (''min_height'', u32_t),
     (''max_height'', u32_t)]"

definition struct_drm_mode_crtc :: ctype where
  "struct_drm_mode_crtc = c_struct [
     (''set_connectors_ptr'', u64_t),
     (''count_connectors'', u32_t),
     (''crtc_id'', u32_t),
     (''fb_id'', u32_t),
     (''x'', u32_t),
     (''y'', u32_t),
     (''gamma_size'', u32_t),
     (''mode_valid'', u32_t),
     (''mode'', struct_drm_mode_modeinfo)]"

definition struct_drm_mode_set_plane :: ctype where
  "struct_drm_mode_set_plane = c_struct [
     (''plane_id'', u32_t),
     (''crtc_id'', u32_t),
     (''fb_id'', u32_t),
     (''flags'', u32_t),
     (''crtc_x'', u32_t),
     (''crtc_y'', u32_t),
     (''crtc_w'', u32_t),
     (''crtc_h'', u32_t),
     (''src_x'', u32_t),
     (''src_y'', u32_t),
     (''src_h'', u32_t),
     (''src_w'', u32_t)]"

definition struct_drm_mode_get_plane :: ctype where
  "struct_drm_mode_get_plane = c_struct [
     (''plane_id'', u32_t),
     (''crtc_id'', u32_t),
     (''fb_id'', u32_t),
     (''possible_crtcs'', u32_t),
     (''gamma_size'', u32_t),
     (''count_format_types'', u32_t),
     (''format_type_ptr'', u64_t)]"

definition struct_drm_mode_get_plane_res :: ctype where
  "struct_drm_mode_get_plane_res = c_struct [
     (''plane_id_ptr'', u64_t),
     (''count_planes'', u32_t)]"

definition struct_drm_mode_get_encoder :: ctype where
  "struct_drm_mode_get_encoder = c_struct [
     (''encoder_id'', u32_t),
     (''encoder_type'', u32_t),
     (''crtc_id'', u32_t),
     (''possible_crtcs'', u32_t),
     (''possible_clones'', u32_t)]"

definition struct_drm_mode_get_connector :: ctype where
  "struct_drm_mode_get_connector = c_struct [
     (''encoders_ptr'', u64_t),
     (''modes_ptr'', u64_t),
     (''props_ptr'', u64_t),
     (''prop_values_ptr'', u64_t),
     (''count_modes'', u32_t),
     (''count_props'', u32_t),
     (''count_encoders'', u32_t),
     (''encoder_id'', u32_t),
     (''connector_id'', u32_t),
     (''connector_type'', u32_t),
     (''connector_type_id'', u32_t),
     (''connection'', u32_t),
     (''mm_width'', u32_t),
     (''mm_height'', u32_t),
     (''subpixel'', u32_t),
     (''pad'', u32_t)]"

definition struct_drm_mode_property_enum :: ctype where
  "struct_drm_mode_property_enum = c_struct [
     (''value'', u64_t),
     (''name'', Arr u8_t 32)]"

definition struct_drm_mode_get_property :: ctype where
  "struct_drm_mode_get_property = c_struct [
     (''values_ptr'', u64_t),
     (''enum_blob_ptr'', u64_t),
     (''prop_id'', u32_t),
     (''flags'', u32_t),
     (''name'', Arr u8_t 32),
     (''count_values'', u32_t),
     (''count_enum_blobs'', u32_t)]"

definition struct_drm_mode_connector_set_property :: ctype where
  "struct_drm_mode_connector_set_property = c_struct [
     (''value'', u64_t),
     (''prop_id'', u32_t),
     (''connector_id'', u32_t)]"

definition struct_drm_mode_obj_get_properties :: ctype where
  "struct_drm_mode_obj_get_properties = c_struct [
     (''props_ptr'', u64_t),
     (''prop_values_ptr'', u64_t),
     (''count_props'', u32_t),
     (''obj_id'', u32_t),
     (''obj_type'', u32_t)]"

definition struct_drm_mode_obj_set_property :: ctype where
  "struct_drm_mode_obj_set_property = c_struct [
     (''value'', u64_t),
     (''prop_id'', u32_t),
     (''obj_id'', u32_t),
     (''obj_type'', u32_t)]"

definition struct_drm_mode_get_blob :: ctype where
  "struct_drm_mode_get_blob = c_struct [
     (''blob_id'', u32_t),
     (''length'', u32_t),
     (''data'', u64_t)]"

definition struct_drm_mode_fb_cmd :: ctype where
  "struct_drm_mode_fb_cmd = c_struct [
     (''fb_id'', u32_t),
     (''width'', u32_t),
     (''height'', u32_t),
     (''pitch'', u32_t),
     (''bpp'', u32_t),
     (''depth'', u32_t),
     (''handle'', u32_t)]"

definition struct_drm_mode_fb_cmd2 :: ctype where
  "struct_drm_mode_fb_cmd2 = c_struct [
     (''fb_id'', u32_t),
     (''width'', u32_t),
     (''height'', u32_t),
     (''pixel_format'', u32_t),
     (''flags'', u32_t),
     (''handles'', Arr u32_t 4),
     (''pitches'', Arr u32_t 4),
     (''offsets'', Arr u32_t 4),
     (''modifier'', Arr u64_t 4)]"

definition struct_drm_mode_fb_dirty_cmd :: ctype where
  "struct_drm_mode_fb_dirty_cmd = c_struct [
     (''fb_id'', u32_t),
     (''flags'', u32_t),
     (''color'', u32_t),
     (''num_clips'', u32_t),
     (''clips_ptr'', u64_t)]"

definition struct_drm_mode_mode_cmd :: ctype where
  "struct_drm_mode_mode_cmd = c_struct [
     (''connector_id'', u32_t),
     (''mode'', struct_drm_mode_modeinfo)]"

definition struct_drm_mode_cursor :: ctype where
  "struct_drm_mode_cursor = c_struct [
     (''flags'', u32_t),
     (''crtc_id'', u32_t),
     (''x'', u32_t),
     (''y'', u32_t),
     (''width'', u32_t),
     (''height'', u32_t),
     (''handle'', u32_t)]"

definition struct_drm_mode_cursor2 :: ctype where
  "struct_drm_mode_cursor2 = c_struct [
     (''flags'', u32_t),
     (''crtc_id'', u32_t),
     (''x'', u32_t),
     (''y'', u32_t),
     (''width'', u32_t),
     (''height'', u32_t),
     (''handle'', u32_t),
     (''hot_x'', u32_t),
     (''hot_y'', u32_t)]"

definition struct_drm_mode_crtc_lut :: ctype where
  "struct_drm_mode_crtc_lut = c_struct [
     (''crtc_id'', u32_t),
     (''gamma_size'', u32_t),
     (''red'', u64_t),
     (''green'', u64_t),
     (''blue'', u64_t)]"

definition struct_drm_color_ctm :: ctype where
  "struct_drm_color_ctm = c_struct [
     (''matrix'', Arr u64_t 9)]"

definition struct_drm_color_lut :: ctype where
  "struct_drm_color_lut = c_struct [
     (''red'', u16_t),
     (''green'', u16_t),
     (''blue'', u16_t),
     (''reserved'', u16_t)]"

definition struct_hdr_metadata_infoframe :: ctype where
  "struct_hdr_metadata_infoframe = c_struct [
     (''eotf'', u8_t),
     (''metadata_type'', u8_t),
     (''display_primaries'', Arr (c_struct [ (''x'', u16_t), (''y'', u16_t)]) 3),
     (''white_point'', c_struct [ (''x'', u16_t), (''y'', u16_t)]),
     (''max_display_mastering_luminance'', u16_t),
     (''min_display_mastering_luminance'', u16_t),
     (''max_cll'', u16_t),
     (''max_fall'', u16_t)]"

definition struct_hdr_output_metadata :: ctype where
  "struct_hdr_output_metadata = c_struct [
     (''metadata_type'', u32_t),
     ('''', c_union [ (''hdmi_metadata_type1'', struct_hdr_metadata_infoframe)])]"

definition struct_drm_mode_crtc_page_flip :: ctype where
  "struct_drm_mode_crtc_page_flip = c_struct [
     (''crtc_id'', u32_t),
     (''fb_id'', u32_t),
     (''flags'', u32_t),
     (''reserved'', u32_t),
     (''user_data'', u64_t)]"

definition struct_drm_mode_crtc_page_flip_target :: ctype where
  "struct_drm_mode_crtc_page_flip_target = c_struct [
     (''crtc_id'', u32_t),
     (''fb_id'', u32_t),
     (''flags'', u32_t),
     (''sequence'', u32_t),
     (''user_data'', u64_t)]"

definition struct_drm_mode_create_dumb :: ctype where
  "struct_drm_mode_create_dumb = c_struct [
     (''height'', u32_t),
     (''width'', u32_t),
     (''bpp'', u32_t),
     (''flags'', u32_t),
     (''handle'', u32_t),
     (''pitch'', u32_t),
     (''size'', u64_t)]"

definition struct_drm_mode_map_dumb :: ctype where
  "struct_drm_mode_map_dumb = c_struct [
     (''handle'', u32_t),
     (''pad'', u32_t),
     (''offset'', u64_t)]"

definition struct_drm_mode_destroy_dumb :: ctype where
  "struct_drm_mode_destroy_dumb = c_struct [
     (''handle'', u32_t)]"

definition struct_drm_mode_atomic :: ctype where
  "struct_drm_mode_atomic = c_struct [
     (''flags'', u32_t),
     (''count_objs'', u32_t),
     (''objs_ptr'', u64_t),
     (''count_props_ptr'', u64_t),
     (''props_ptr'', u64_t),
     (''prop_values_ptr'', u64_t),
     (''reserved'', u64_t),
     (''user_data'', u64_t)]"

definition struct_drm_format_modifier_blob :: ctype where
  "struct_drm_format_modifier_blob = c_struct [
     (''version'', u32_t),
     (''flags'', u32_t),
     (''count_formats'', u32_t),
     (''formats_offset'', u32_t),
     (''count_modifiers'', u32_t),
     (''modifiers_offset'', u32_t)]"

definition struct_drm_format_modifier :: ctype where
  "struct_drm_format_modifier = c_struct [
     (''formats'', u64_t),
     (''offset'', u32_t),
     (''pad'', u32_t),
     (''modifier'', u64_t)]"

definition struct_drm_mode_create_blob :: ctype where
  "struct_drm_mode_create_blob = c_struct [
     (''data'', u64_t),
     (''length'', u32_t),
     (''blob_id'', u32_t)]"

definition struct_drm_mode_destroy_blob :: ctype where
  "struct_drm_mode_destroy_blob = c_struct [
     (''blob_id'', u32_t)]"

definition struct_drm_mode_create_lease :: ctype where
  "struct_drm_mode_create_lease = c_struct [
     (''object_ids'', u64_t),
     (''object_count'', u32_t),
     (''flags'', u32_t),
     (''lessee_id'', u32_t),
     (''fd'', u32_t)]"

definition struct_drm_mode_list_lessees :: ctype where
  "struct_drm_mode_list_lessees = c_struct [
     (''count_lessees'', u32_t),
     (''pad'', u32_t),
     (''lessees_ptr'', u64_t)]"

definition struct_drm_mode_get_lease :: ctype where
  "struct_drm_mode_get_lease = c_struct [
     (''count_objects'', u32_t),
     (''pad'', u32_t),
     (''objects_ptr'', u64_t)]"

definition struct_drm_mode_revoke_lease :: ctype where
  "struct_drm_mode_revoke_lease = c_struct [
     (''lessee_id'', u32_t)]"

definition struct_drm_mode_rect :: ctype where
  "struct_drm_mode_rect = c_struct [
     (''x1'', u32_t),
     (''y1'', u32_t),
     (''x2'', u32_t),
     (''y2'', u32_t)]"

section \<open>Core structures\<close>

definition struct_drm_clip_rect :: ctype where
  "struct_drm_clip_rect = c_struct [
     (''x1'', u16_t),
     (''y1'', u16_t),
     (''x2'', u16_t),
     (''y2'', u16_t)]"

definition struct_drm_drawable_info :: "nat \<Rightarrow> ctype" where
  "struct_drm_drawable_info w = c_struct [
     (''num_rects'', u32_t),
     (''rects'', ptr_t w)]"

definition struct_drm_tex_region :: ctype where
  "struct_drm_tex_region = c_struct [
     (''next'', u8_t),
     (''prev'', u8_t),
     (''in_use'', u8_t),
     (''padding'', u8_t),
     (''age'', u32_t)]"

definition struct_drm_hw_lock :: ctype where
  "struct_drm_hw_lock = c_struct [
     (''lock'', u32_t),
     (''padding'', Arr u8_t 60)]"

definition struct_drm_version :: "nat \<Rightarrow> ctype" where
  "struct_drm_version w = c_struct [
     (''version_major'', u32_t),
     (''version_minor'', u32_t),
     (''version_patchlevel'', u32_t),
     (''name_len'', long_t w),
     (''name'', ptr_t w),
     (''date_len'', long_t w),
     (''date'', ptr_t w),
     (''desc_len'', long_t w),
     (''desc'', ptr_t w)]"

definition struct_drm_unique :: "nat \<Rightarrow> ctype" where
  "struct_drm_unique w = c_struct [
     (''unique_len'', long_t w),
     (''unique'', ptr_t w)]"

definition struct_drm_list :: "nat \<Rightarrow> ctype" where
  "struct_drm_list w = c_struct [
     (''count'', u32_t),
     (''version'', ptr_t w)]"

definition struct_drm_block :: ctype where
  "struct_drm_block = c_struct [
     (''unused'', u32_t)]"

definition struct_drm_control :: ctype where
  "struct_drm_control = c_struct [
     (''func'', u32_t),
     (''irq'', u32_t)]"

definition struct_drm_ctx_priv_map :: "nat \<Rightarrow> ctype" where
  "struct_drm_ctx_priv_map w = c_struct [
     (''ctx_id'', u32_t),
     (''handle'', ptr_t w)]"

definition struct_drm_map :: "nat \<Rightarrow> ctype" where
  "struct_drm_map w = c_struct [
     (''offset'', long_t w),
     (''size'', long_t w),
     (''type'', u32_t),
     (''flags'', u32_t),
     (''handle'', ptr_t w),
     (''mtrr'', u32_t)]"

definition struct_drm_client :: "nat \<Rightarrow> ctype" where
  "struct_drm_client w = c_struct [
     (''idx'', u32_t),
     (''auth'', u32_t),
     (''pid'', long_t w),
     (''uid'', long_t w),
     (''magic'', long_t w),
     (''iocs'', long_t w)]"

definition struct_drm_stats :: "nat \<Rightarrow> ctype" where
  "struct_drm_stats w = c_struct [
     (''count'', long_t w),
     (''data'', Arr (c_struct [ (''value'', long_t w), (''type'', u32_t)]) 15)]"

definition struct_drm_lock :: ctype where
  "struct_drm_lock = c_struct [
     (''context'', u32_t),
     (''flags'', u32_t)]"

definition struct_drm_buf_desc :: "nat \<Rightarrow> ctype" where
  "struct_drm_buf_desc w = c_struct [
     (''count'', u32_t),
     (''size'', u32_t),
     (''low_mark'', u32_t),
     (''high_mark'', u32_t),
     (''flags'', u32_t),
     (''agp_start'', long_t w)]"

definition struct_drm_buf_info :: "nat \<Rightarrow> ctype" where
  "struct_drm_buf_info w = c_struct [
     (''count'', u32_t),
     (''list'', ptr_t w)]"

definition struct_drm_buf_free :: "nat \<Rightarrow> ctype" where
  "struct_drm_buf_free w = c_struct [
     (''count'', u32_t),
     (''list'', ptr_t w)]"

definition struct_drm_buf_pub :: "nat \<Rightarrow> ctype" where
  "struct_drm_buf_pub w = c_struct [
     (''idx'', u32_t),
     (''total'', u32_t),
     (''used'', u32_t),
     (''address'', ptr_t w)]"

definition struct_drm_buf_map :: "nat \<Rightarrow> ctype" where
  "struct_drm_buf_map w = c_struct [
     (''count'', u32_t),
     (''virtual'', ptr_t w),
     (''list'', ptr_t w)]"

definition struct_drm_dma :: "nat \<Rightarrow> ctype" where
  "struct_drm_dma w = c_struct [
     (''context'', u32_t),
     (''send_count'', u32_t),
     (''send_indices'', ptr_t w),
     (''send_sizes'', ptr_t w),
     (''flags'', u32_t),
     (''request_count'', u32_t),
     (''request_size'', u32_t),
     (''request_indices'', ptr_t w),
     (''request_sizes'', ptr_t w),
     (''granted_count'', u32_t)]"

definition struct_drm_ctx :: ctype where
  "struct_drm_ctx = c_struct [
     (''handle'', u32_t),
     (''flags'', u32_t)]"

definition struct_drm_ctx_res :: "nat \<Rightarrow> ctype" where
  "struct_drm_ctx_res w = c_struct [
     (''count'', u32_t),
     (''contexts'', ptr_t w)]"

definition struct_drm_draw :: ctype where
  "struct_drm_draw = c_struct [
     (''handle'', u32_t)]"

definition struct_drm_update_draw :: ctype where
  "struct_drm_update_draw = c_struct [
     (''handle'', u32_t),
     (''type'', u32_t),
     (''num'', u32_t),
     (''data'', u64_t)]"

definition struct_drm_auth :: ctype where
  "struct_drm_auth = c_struct [
     (''magic'', u32_t)]"

definition struct_drm_irq_busid :: ctype where
  "struct_drm_irq_busid = c_struct [
     (''irq'', u32_t),
     (''busnum'', u32_t),
     (''devnum'', u32_t),
     (''funcnum'', u32_t)]"

definition struct_drm_wait_vblank_request :: "nat \<Rightarrow> ctype" where
  "struct_drm_wait_vblank_request w = c_struct [
     (''type'', u32_t),
     (''sequence'', u32_t),
     (''signal'', long_t w)]"

definition struct_drm_wait_vblank_reply :: "nat \<Rightarrow> ctype" where
  "struct_drm_wait_vblank_reply w = c_struct [
     (''type'', u32_t),
     (''sequence'', u32_t),
     (''tval_sec'', long_t w),
     (''tval_usec'', long_t w)]"

definition union_drm_wait_vblank :: "nat \<Rightarrow> ctype" where
  "union_drm_wait_vblank w = c_union [
     (''request'', struct_drm_wait_vblank_request w),
     (''reply'', struct_drm_wait_vblank_reply w)]"

definition struct_drm_modeset_ctl :: ctype where
  "struct_drm_modeset_ctl = c_struct [
     (''crtc'', u32_t),
     (''cmd'', u32_t)]"

definition struct_drm_agp_mode :: "nat \<Rightarrow> ctype" where
  "struct_drm_agp_mode w = c_struct [
     (''mode'', long_t w)]"

definition struct_drm_agp_buffer :: "nat \<Rightarrow> ctype" where
  "struct_drm_agp_buffer w = c_struct [
     (''size'', long_t w),
     (''handle'', long_t w),
     (''type'', long_t w),
     (''physical'', long_t w)]"

definition struct_drm_agp_binding :: "nat \<Rightarrow> ctype" where
  "struct_drm_agp_binding w = c_struct [
     (''handle'', long_t w),
     (''offset'', long_t w)]"

definition struct_drm_agp_info :: "nat \<Rightarrow> ctype" where
  "struct_drm_agp_info w = c_struct [
     (''agp_version_major'', u32_t),
     (''agp_version_minor'', u32_t),
     (''mode'', long_t w),
     (''aperture_base'', long_t w),
     (''aperture_size'', long_t w),
     (''memory_allowed'', long_t w),
     (''memory_used'', long_t w),
     (''id_vendor'', u16_t),
     (''id_device'', u16_t)]"

definition struct_drm_scatter_gather :: "nat \<Rightarrow> ctype" where
  "struct_drm_scatter_gather w = c_struct [
     (''size'', long_t w),
     (''handle'', long_t w)]"

definition struct_drm_set_version :: ctype where
  "struct_drm_set_version = c_struct [
     (''drm_di_major'', u32_t),
     (''drm_di_minor'', u32_t),
     (''drm_dd_major'', u32_t),
     (''drm_dd_minor'', u32_t)]"

definition struct_drm_gem_close :: ctype where
  "struct_drm_gem_close = c_struct [
     (''handle'', u32_t),
     (''pad'', u32_t)]"

definition struct_drm_gem_flink :: ctype where
  "struct_drm_gem_flink = c_struct [
     (''handle'', u32_t),
     (''name'', u32_t)]"

definition struct_drm_gem_open :: ctype where
  "struct_drm_gem_open = c_struct [
     (''name'', u32_t),
     (''handle'', u32_t),
     (''size'', u64_t)]"

definition struct_drm_get_cap :: ctype where
  "struct_drm_get_cap = c_struct [
     (''capability'', u64_t),
     (''value'', u64_t)]"

definition struct_drm_set_client_cap :: ctype where
  "struct_drm_set_client_cap = c_struct [
     (''capability'', u64_t),
     (''value'', u64_t)]"

definition struct_drm_prime_handle :: ctype where
  "struct_drm_prime_handle = c_struct [
     (''handle'', u32_t),
     (''flags'', u32_t),
     (''fd'', u32_t)]"

definition struct_drm_syncobj_create :: ctype where
  "struct_drm_syncobj_create = c_struct [
     (''handle'', u32_t),
     (''flags'', u32_t)]"

definition struct_drm_syncobj_destroy :: ctype where
  "struct_drm_syncobj_destroy = c_struct [
     (''handle'', u32_t),
     (''pad'', u32_t)]"

definition struct_drm_syncobj_handle :: ctype where
  "struct_drm_syncobj_handle = c_struct [
     (''handle'', u32_t),
     (''flags'', u32_t),
     (''fd'', u32_t),
     (''pad'', u32_t)]"

definition struct_drm_syncobj_transfer :: ctype where
  "struct_drm_syncobj_transfer = c_struct [
     (''src_handle'', u32_t),
     (''dst_handle'', u32_t),
     (''src_point'', u64_t),
     (''dst_point'', u64_t),
     (''flags'', u32_t),
     (''pad'', u32_t)]"

definition struct_drm_syncobj_wait :: ctype where
  "struct_drm_syncobj_wait = c_struct [
     (''handles'', u64_t),
     (''timeout_nsec'', u64_t),
     (''count_handles'', u32_t),
     (''flags'', u32_t),
     (''first_signaled'', u32_t),
     (''pad'', u32_t)]"

definition struct_drm_syncobj_timeline_wait :: ctype where
  "struct_drm_syncobj_timeline_wait = c_struct [
     (''handles'', u64_t),
     (''points'', u64_t),
     (''timeout_nsec'', u64_t),
     (''count_handles'', u32_t),
     (''flags'', u32_t),
     (''first_signaled'', u32_t),
     (''pad'', u32_t)]"

definition struct_drm_syncobj_array :: ctype where
  "struct_drm_syncobj_array = c_struct [
     (''handles'', u64_t),
     (''count_handles'', u32_t),
     (''pad'', u32_t)]"

definition struct_drm_syncobj_timeline_array :: ctype where
  "struct_drm_syncobj_timeline_array = c_struct [
     (''handles'', u64_t),
     (''points'', u64_t),
     (''count_handles'', u32_t),
     (''flags'', u32_t)]"

definition struct_drm_crtc_get_sequence :: ctype where
  "struct_drm_crtc_get_sequence = c_struct [
     (''crtc_id'', u32_t),
     (''active'', u32_t),
     (''sequence'', u64_t),
     (''sequence_ns'', u64_t)]"

definition struct_drm_crtc_queue_sequence :: ctype where
  "struct_drm_crtc_queue_sequence = c_struct [
     (''crtc_id'', u32_t),
     (''flags'', u32_t),
     (''sequence'', u64_t),
     (''user_data'', u64_t)]"

definition struct_drm_event :: ctype where
  "struct_drm_event = c_struct [
     (''type'', u32_t),
     (''length'', u32_t)]"

definition struct_drm_event_vblank :: ctype where
  "struct_drm_event_vblank = c_struct [
     (''base'', struct_drm_event),
     (''user_data'', u64_t),
     (''tv_sec'', u32_t),
     (''tv_usec'', u32_t),
     (''sequence'', u32_t),
     (''crtc_id'', u32_t)]"

definition struct_drm_event_crtc_sequence :: ctype where
  "struct_drm_event_crtc_sequence = c_struct [
     (''base'', struct_drm_event),
     (''user_data'', u64_t),
     (''time_ns'', u64_t),
     (''sequence'', u64_t)]"

section \<open>Requests\<close>

definition DRM_IOCTL_BASE :: nat where "DRM_IOCTL_BASE = 0x64"

definition DRM_IOCTL_VERSION :: "nat \<Rightarrow> request" where
  "DRM_IOCTL_VERSION w = IOWR_req DRM_IOCTL_BASE 0 (struct_drm_version w)"

definition DRM_IOCTL_GET_UNIQUE :: "nat \<Rightarrow> request" where
  "DRM_IOCTL_GET_UNIQUE w = IOWR_req DRM_IOCTL_BASE 1 (struct_drm_unique w)"

definition DRM_IOCTL_GET_MAGIC :: request where
  "DRM_IOCTL_GET_MAGIC = IOR_req DRM_IOCTL_BASE 2 struct_drm_auth"

definition DRM_IOCTL_IRQ_BUSID :: request where
  "DRM_IOCTL_IRQ_BUSID = IOWR_req DRM_IOCTL_BASE 3 struct_drm_irq_busid"

definition DRM_IOCTL_GET_MAP :: "nat \<Rightarrow> request" where
  "DRM_IOCTL_GET_MAP w = IOWR_req DRM_IOCTL_BASE 4 (struct_drm_map w)"

definition DRM_IOCTL_GET_CLIENT :: "nat \<Rightarrow> request" where
  "DRM_IOCTL_GET_CLIENT w = IOWR_req DRM_IOCTL_BASE 5 (struct_drm_client w)"

definition DRM_IOCTL_GET_STATS :: "nat \<Rightarrow> request" where
  "DRM_IOCTL_GET_STATS w = IOR_req DRM_IOCTL_BASE 6 (struct_drm_stats w)"

definition DRM_IOCTL_SET_VERSION :: request where
  "DRM_IOCTL_SET_VERSION = IOWR_req DRM_IOCTL_BASE 7 struct_drm_set_version"

definition DRM_IOCTL_MODESET_CTL :: request where
  "DRM_IOCTL_MODESET_CTL = IOW_req DRM_IOCTL_BASE 8 struct_drm_modeset_ctl"

definition DRM_IOCTL_GEM_CLOSE :: request where
  "DRM_IOCTL_GEM_CLOSE = IOW_req DRM_IOCTL_BASE 9 struct_drm_gem_close"

definition DRM_IOCTL_GEM_FLINK :: request where
  "DRM_IOCTL_GEM_FLINK = IOWR_req DRM_IOCTL_BASE 10 struct_drm_gem_flink"

definition DRM_IOCTL_GEM_OPEN :: request where
  "DRM_IOCTL_GEM_OPEN = IOWR_req DRM_IOCTL_BASE 11 struct_drm_gem_open"

definition DRM_IOCTL_GET_CAP :: request where
  "DRM_IOCTL_GET_CAP = IOWR_req DRM_IOCTL_BASE 12 struct_drm_get_cap"

definition DRM_IOCTL_SET_CLIENT_CAP :: request where
  "DRM_IOCTL_SET_CLIENT_CAP = IOW_req DRM_IOCTL_BASE 13 struct_drm_set_client_cap"

definition DRM_IOCTL_SET_UNIQUE :: "nat \<Rightarrow> request" where
  "DRM_IOCTL_SET_UNIQUE w = IOW_req DRM_IOCTL_BASE 16 (struct_drm_unique w)"

definition DRM_IOCTL_AUTH_MAGIC :: request where
  "DRM_IOCTL_AUTH_MAGIC = IOW_req DRM_IOCTL_BASE 17 struct_drm_auth"

definition DRM_IOCTL_BLOCK :: request where
  "DRM_IOCTL_BLOCK = IOWR_req DRM_IOCTL_BASE 18 struct_drm_block"

definition DRM_IOCTL_UNBLOCK :: request where
  "DRM_IOCTL_UNBLOCK = IOWR_req DRM_IOCTL_BASE 19 struct_drm_block"

definition DRM_IOCTL_CONTROL :: request where
  "DRM_IOCTL_CONTROL = IOW_req DRM_IOCTL_BASE 20 struct_drm_control"

definition DRM_IOCTL_ADD_MAP :: "nat \<Rightarrow> request" where
  "DRM_IOCTL_ADD_MAP w = IOWR_req DRM_IOCTL_BASE 21 (struct_drm_map w)"

definition DRM_IOCTL_ADD_BUFS :: "nat \<Rightarrow> request" where
  "DRM_IOCTL_ADD_BUFS w = IOWR_req DRM_IOCTL_BASE 22 (struct_drm_buf_desc w)"

definition DRM_IOCTL_MARK_BUFS :: "nat \<Rightarrow> request" where
  "DRM_IOCTL_MARK_BUFS w = IOW_req DRM_IOCTL_BASE 23 (struct_drm_buf_desc w)"

definition DRM_IOCTL_INFO_BUFS :: "nat \<Rightarrow> request" where
  "DRM_IOCTL_INFO_BUFS w = IOWR_req DRM_IOCTL_BASE 24 (struct_drm_buf_info w)"

definition DRM_IOCTL_MAP_BUFS :: "nat \<Rightarrow> request" where
  "DRM_IOCTL_MAP_BUFS w = IOWR_req DRM_IOCTL_BASE 25 (struct_drm_buf_map w)"

definition DRM_IOCTL_FREE_BUFS :: "nat \<Rightarrow> request" where
  "DRM_IOCTL_FREE_BUFS w = IOW_req DRM_IOCTL_BASE 26 (struct_drm_buf_free w)"

definition DRM_IOCTL_RM_MAP :: "nat \<Rightarrow> request" where
  "DRM_IOCTL_RM_MAP w = IOW_req DRM_IOCTL_BASE 27 (struct_drm_map w)"

definition DRM_IOCTL_SET_SAREA_CTX :: "nat \<Rightarrow> request" where
  "DRM_IOCTL_SET_SAREA_CTX w = IOW_req DRM_IOCTL_BASE 28 (struct_drm_ctx_priv_map w)"

definition DRM_IOCTL_GET_SAREA_CTX :: "nat \<Rightarrow> request" where
  "DRM_IOCTL_GET_SAREA_CTX w = IOWR_req DRM_IOCTL_BASE 29 (struct_drm_ctx_priv_map w)"

definition DRM_IOCTL_SET_MASTER :: request where
  "DRM_IOCTL_SET_MASTER = IO_req DRM_IOCTL_BASE 30"

definition DRM_IOCTL_DROP_MASTER :: request where
  "DRM_IOCTL_DROP_MASTER = IO_req DRM_IOCTL_BASE 31"

definition DRM_IOCTL_ADD_CTX :: request where
  "DRM_IOCTL_ADD_CTX = IOWR_req DRM_IOCTL_BASE 32 struct_drm_ctx"

definition DRM_IOCTL_RM_CTX :: request where
  "DRM_IOCTL_RM_CTX = IOWR_req DRM_IOCTL_BASE 33 struct_drm_ctx"

definition DRM_IOCTL_MOD_CTX :: request where
  "DRM_IOCTL_MOD_CTX = IOW_req DRM_IOCTL_BASE 34 struct_drm_ctx"

definition DRM_IOCTL_GET_CTX :: request where
  "DRM_IOCTL_GET_CTX = IOWR_req DRM_IOCTL_BASE 35 struct_drm_ctx"

definition DRM_IOCTL_SWITCH_CTX :: request where
  "DRM_IOCTL_SWITCH_CTX = IOW_req DRM_IOCTL_BASE 36 struct_drm_ctx"

definition DRM_IOCTL_NEW_CTX :: request where
  "DRM_IOCTL_NEW_CTX = IOW_req DRM_IOCTL_BASE 37 struct_drm_ctx"

definition DRM_IOCTL_RES_CTX :: "nat \<Rightarrow> request" where
  "DRM_IOCTL_RES_CTX w = IOWR_req DRM_IOCTL_BASE 38 (struct_drm_ctx_res w)"

definition DRM_IOCTL_ADD_DRAW :: request where
  "DRM_IOCTL_ADD_DRAW = IOWR_req DRM_IOCTL_BASE 39 struct_drm_draw"

definition DRM_IOCTL_RM_DRAW :: request where
  "DRM_IOCTL_RM_DRAW = IOWR_req DRM_IOCTL_BASE 40 struct_drm_draw"

definition DRM_IOCTL_DMA :: "nat \<Rightarrow> request" where
  "DRM_IOCTL_DMA w = IOWR_req DRM_IOCTL_BASE 41 (struct_drm_dma w)"

definition DRM_IOCTL_LOCK :: request where
  "DRM_IOCTL_LOCK = IOW_req DRM_IOCTL_BASE 42 struct_drm_lock"

definition DRM_IOCTL_UNLOCK :: request where
  "DRM_IOCTL_UNLOCK = IOW_req DRM_IOCTL_BASE 43 struct_drm_lock"

definition DRM_IOCTL_FINISH :: request where
  "DRM_IOCTL_FINISH = IOW_req DRM_IOCTL_BASE 44 struct_drm_lock"

definition DRM_IOCTL_PRIME_HANDLE_TO_FD :: request where
  "DRM_IOCTL_PRIME_HANDLE_TO_FD = IOWR_req DRM_IOCTL_BASE 45 struct_drm_prime_handle"

definition DRM_IOCTL_PRIME_FD_TO_HANDLE :: request where
  "DRM_IOCTL_PRIME_FD_TO_HANDLE = IOWR_req DRM_IOCTL_BASE 46 struct_drm_prime_handle"

definition DRM_IOCTL_AGP_ACQUIRE :: request where
  "DRM_IOCTL_AGP_ACQUIRE = IO_req DRM_IOCTL_BASE 48"

definition DRM_IOCTL_AGP_RELEASE :: request where
  "DRM_IOCTL_AGP_RELEASE = IO_req DRM_IOCTL_BASE 49"

definition DRM_IOCTL_AGP_ENABLE :: "nat \<Rightarrow> request" where
  "DRM_IOCTL_AGP_ENABLE w = IOW_req DRM_IOCTL_BASE 50 (struct_drm_agp_mode w)"

definition DRM_IOCTL_AGP_INFO :: "nat \<Rightarrow> request" where
  "DRM_IOCTL_AGP_INFO w = IOR_req DRM_IOCTL_BASE 51 (struct_drm_agp_info w)"

definition DRM_IOCTL_AGP_ALLOC :: "nat \<Rightarrow> request" where
  "DRM_IOCTL_AGP_ALLOC w = IOWR_req DRM_IOCTL_BASE 52 (struct_drm_agp_buffer w)"

definition DRM_IOCTL_AGP_FREE :: "nat \<Rightarrow> request" where
  "DRM_IOCTL_AGP_FREE w = IOW_req DRM_IOCTL_BASE 53 (struct_drm_agp_buffer w)"

definition DRM_IOCTL_AGP_BIND :: "nat \<Rightarrow> request" where
  "DRM_IOCTL_AGP_BIND w = IOW_req DRM_IOCTL_BASE 54 (struct_drm_agp_binding w)"

definition DRM_IOCTL_AGP_UNBIND :: "nat \<Rightarrow> request" where
  "DRM_IOCTL_AGP_UNBIND w = IOW_req DRM_IOCTL_BASE 55 (struct_drm_agp_binding w)"

definition DRM_IOCTL_SG_ALLOC :: "nat \<Rightarrow> request" where
  "DRM_IOCTL_SG_ALLOC w = IOWR_req DRM_IOCTL_BASE 56 (struct_drm_scatter_gather w)"

definition DRM_IOCTL_SG_FREE :: "nat \<Rightarrow> request" where
  "DRM_IOCTL_SG_FREE w = IOW_req DRM_IOCTL_BASE 57 (struct_drm_scatter_gather w)"

definition DRM_IOCTL_WAIT_VBLANK :: "nat \<Rightarrow> request" where
  "DRM_IOCTL_WAIT_VBLANK w = IOWR_req DRM_IOCTL_BASE 58 (union_drm_wait_vblank w)"

definition DRM_IOCTL_CRTC_GET_SEQUENCE :: request where
  "DRM_IOCTL_CRTC_GET_SEQUENCE = IOWR_req DRM_IOCTL_BASE 59 struct_drm_crtc_get_sequence"

definition DRM_IOCTL_CRTC_QUEUE_SEQUENCE :: request where
  "DRM_IOCTL_CRTC_QUEUE_SEQUENCE = IOWR_req DRM_IOCTL_BASE 60 struct_drm_crtc_queue_sequence"

definition DRM_IOCTL_UPDATE_DRAW :: request where
  "DRM_IOCTL_UPDATE_DRAW = IOW_req DRM_IOCTL_BASE 63 struct_drm_update_draw"

definition DRM_IOCTL_MODE_GETRESOURCES :: request where
  "DRM_IOCTL_MODE_GETRESOURCES = IOWR_req DRM_IOCTL_BASE 160 struct_drm_mode_card_res"

definition DRM_IOCTL_MODE_GETCRTC :: request where
  "DRM_IOCTL_MODE_GETCRTC = IOWR_req DRM_IOCTL_BASE 161 struct_drm_mode_crtc"

definition DRM_IOCTL_MODE_SETCRTC :: request where
  "DRM_IOCTL_MODE_SETCRTC = IOWR_req DRM_IOCTL_BASE 162 struct_drm_mode_crtc"

definition DRM_IOCTL_MODE_CURSOR :: request where
  "DRM_IOCTL_MODE_CURSOR = IOWR_req DRM_IOCTL_BASE 163 struct_drm_mode_cursor"

definition DRM_IOCTL_MODE_GETGAMMA :: request where
  "DRM_IOCTL_MODE_GETGAMMA = IOWR_req DRM_IOCTL_BASE 164 struct_drm_mode_crtc_lut"

definition DRM_IOCTL_MODE_SETGAMMA :: request where
  "DRM_IOCTL_MODE_SETGAMMA = IOWR_req DRM_IOCTL_BASE 165 struct_drm_mode_crtc_lut"

definition DRM_IOCTL_MODE_GETENCODER :: request where
  "DRM_IOCTL_MODE_GETENCODER = IOWR_req DRM_IOCTL_BASE 166 struct_drm_mode_get_encoder"

definition DRM_IOCTL_MODE_GETCONNECTOR :: request where
  "DRM_IOCTL_MODE_GETCONNECTOR = IOWR_req DRM_IOCTL_BASE 167 struct_drm_mode_get_connector"

definition DRM_IOCTL_MODE_ATTACHMODE :: request where
  "DRM_IOCTL_MODE_ATTACHMODE = IOWR_req DRM_IOCTL_BASE 168 struct_drm_mode_mode_cmd"

definition DRM_IOCTL_MODE_DETACHMODE :: request where
  "DRM_IOCTL_MODE_DETACHMODE = IOWR_req DRM_IOCTL_BASE 169 struct_drm_mode_mode_cmd"

definition DRM_IOCTL_MODE_GETPROPERTY :: request where
  "DRM_IOCTL_MODE_GETPROPERTY = IOWR_req DRM_IOCTL_BASE 170 struct_drm_mode_get_property"

definition DRM_IOCTL_MODE_SETPROPERTY :: request where
  "DRM_IOCTL_MODE_SETPROPERTY = IOWR_req DRM_IOCTL_BASE 171 struct_drm_mode_connector_set_property"

definition DRM_IOCTL_MODE_GETPROPBLOB :: request where
  "DRM_IOCTL_MODE_GETPROPBLOB = IOWR_req DRM_IOCTL_BASE 172 struct_drm_mode_get_blob"

definition DRM_IOCTL_MODE_GETFB :: request where
  "DRM_IOCTL_MODE_GETFB = IOWR_req DRM_IOCTL_BASE 173 struct_drm_mode_fb_cmd"

definition DRM_IOCTL_MODE_ADDFB :: request where
  "DRM_IOCTL_MODE_ADDFB = IOWR_req DRM_IOCTL_BASE 174 struct_drm_mode_fb_cmd"

definition DRM_IOCTL_MODE_RMFB :: request where
  "DRM_IOCTL_MODE_RMFB = IOWR_req DRM_IOCTL_BASE 175 u32_t"

definition DRM_IOCTL_MODE_PAGE_FLIP :: request where
  "DRM_IOCTL_MODE_PAGE_FLIP = IOWR_req DRM_IOCTL_BASE 176 struct_drm_mode_crtc_page_flip"

definition DRM_IOCTL_MODE_DIRTYFB :: request where
  "DRM_IOCTL_MODE_DIRTYFB = IOWR_req DRM_IOCTL_BASE 177 struct_drm_mode_fb_dirty_cmd"

definition DRM_IOCTL_MODE_CREATE_DUMB :: request where
  "DRM_IOCTL_MODE_CREATE_DUMB = IOWR_req DRM_IOCTL_BASE 178 struct_drm_mode_create_dumb"

definition DRM_IOCTL_MODE_MAP_DUMB :: request where
  "DRM_IOCTL_MODE_MAP_DUMB = IOWR_req DRM_IOCTL_BASE 179 struct_drm_mode_map_dumb"

definition DRM_IOCTL_MODE_DESTROY_DUMB :: request where
  "DRM_IOCTL_MODE_DESTROY_DUMB = IOWR_req DRM_IOCTL_BASE 180 struct_drm_mode_destroy_dumb"

definition DRM_IOCTL_MODE_GETPLANERESOURCES :: request where
  "DRM_IOCTL_MODE_GETPLANERESOURCES = IOWR_req DRM_IOCTL_BASE 181 struct_drm_mode_get_plane_res"

definition DRM_IOCTL_MODE_GETPLANE :: request where
  "DRM_IOCTL_MODE_GETPLANE = IOWR_req DRM_IOCTL_BASE 182 struct_drm_mode_get_plane"

definition DRM_IOCTL_MODE_SETPLANE :: request where
  "DRM_IOCTL_MODE_SETPLANE = IOWR_req DRM_IOCTL_BASE 183 struct_drm_mode_set_plane"

definition DRM_IOCTL_MODE_ADDFB2 :: request where
  "DRM_IOCTL_MODE_ADDFB2 = IOWR_req DRM_IOCTL_BASE 184 struct_drm_mode_fb_cmd2"

definition DRM_IOCTL_MODE_OBJ_GETPROPERTIES :: request where
  "DRM_IOCTL_MODE_OBJ_GETPROPERTIES = IOWR_req DRM_IOCTL_BASE 185 struct_drm_mode_obj_get_properties"

definition DRM_IOCTL_MODE_OBJ_SETPROPERTY :: request where
  "DRM_IOCTL_MODE_OBJ_SETPROPERTY = IOWR_req DRM_IOCTL_BASE 186 struct_drm_mode_obj_set_property"

definition DRM_IOCTL_MODE_CURSOR2 :: request where
  "DRM_IOCTL_MODE_CURSOR2 = IOWR_req DRM_IOCTL_BASE 187 struct_drm_mode_cursor2"

definition DRM_IOCTL_MODE_ATOMIC :: request where
  "DRM_IOCTL_MODE_ATOMIC = IOWR_req DRM_IOCTL_BASE 188 struct_drm_mode_atomic"

definition DRM_IOCTL_MODE_CREATEPROPBLOB :: request where
  "DRM_IOCTL_MODE_CREATEPROPBLOB = IOWR_req DRM_IOCTL_BASE 189 struct_drm_mode_create_blob"

definition DRM_IOCTL_MODE_DESTROYPROPBLOB :: request where
  "DRM_IOCTL_MODE_DESTROYPROPBLOB = IOWR_req DRM_IOCTL_BASE 190 struct_drm_mode_destroy_blob"

definition DRM_IOCTL_SYNCOBJ_CREATE :: request where
  "DRM_IOCTL_SYNCOBJ_CREATE = IOWR_req DRM_IOCTL_BASE 191 struct_drm_syncobj_create"

definition DRM_IOCTL_SYNCOBJ_DESTROY :: request where
  "DRM_IOCTL_SYNCOBJ_DESTROY = IOWR_req DRM_IOCTL_BASE 192 struct_drm_syncobj_destroy"

definition DRM_IOCTL_SYNCOBJ_HANDLE_TO_FD :: request where
  "DRM_IOCTL_SYNCOBJ_HANDLE_TO_FD = IOWR_req DRM_IOCTL_BASE 193 struct_drm_syncobj_handle"

definition DRM_IOCTL_SYNCOBJ_FD_TO_HANDLE :: request where
  "DRM_IOCTL_SYNCOBJ_FD_TO_HANDLE = IOWR_req DRM_IOCTL_BASE 194 struct_drm_syncobj_handle"

definition DRM_IOCTL_SYNCOBJ_WAIT :: request where
  "DRM_IOCTL_SYNCOBJ_WAIT = IOWR_req DRM_IOCTL_BASE 195 struct_drm_syncobj_wait"

definition DRM_IOCTL_SYNCOBJ_RESET :: request where
  "DRM_IOCTL_SYNCOBJ_RESET = IOWR_req DRM_IOCTL_BASE 196 struct_drm_syncobj_array"

definition DRM_IOCTL_SYNCOBJ_SIGNAL :: request where
  "DRM_IOCTL_SYNCOBJ_SIGNAL = IOWR_req DRM_IOCTL_BASE 197 struct_drm_syncobj_array"

definition DRM_IOCTL_MODE_CREATE_LEASE :: request where
  "DRM_IOCTL_MODE_CREATE_LEASE = IOWR_req DRM_IOCTL_BASE 198 struct_drm_mode_create_lease"

definition DRM_IOCTL_MODE_LIST_LESSEES :: request where
  "DRM_IOCTL_MODE_LIST_LESSEES = IOWR_req DRM_IOCTL_BASE 199 struct_drm_mode_list_lessees"

definition DRM_IOCTL_MODE_GET_LEASE :: request where
  "DRM_IOCTL_MODE_GET_LEASE = IOWR_req DRM_IOCTL_BASE 200 struct_drm_mode_get_lease"

definition DRM_IOCTL_MODE_REVOKE_LEASE :: request where
  "DRM_IOCTL_MODE_REVOKE_LEASE = IOWR_req DRM_IOCTL_BASE 201 struct_drm_mode_revoke_lease"

definition DRM_IOCTL_SYNCOBJ_TIMELINE_WAIT :: request where
  "DRM_IOCTL_SYNCOBJ_TIMELINE_WAIT = IOWR_req DRM_IOCTL_BASE 202 struct_drm_syncobj_timeline_wait"

definition DRM_IOCTL_SYNCOBJ_QUERY :: request where
  "DRM_IOCTL_SYNCOBJ_QUERY = IOWR_req DRM_IOCTL_BASE 203 struct_drm_syncobj_timeline_array"

definition DRM_IOCTL_SYNCOBJ_TRANSFER :: request where
  "DRM_IOCTL_SYNCOBJ_TRANSFER = IOWR_req DRM_IOCTL_BASE 204 struct_drm_syncobj_transfer"

definition DRM_IOCTL_SYNCOBJ_TIMELINE_SIGNAL :: request where
  "DRM_IOCTL_SYNCOBJ_TIMELINE_SIGNAL = IOWR_req DRM_IOCTL_BASE 205 struct_drm_syncobj_timeline_array"

definition DRM_IOCTL_MODE_GETFB2 :: request where
  "DRM_IOCTL_MODE_GETFB2 = IOWR_req DRM_IOCTL_BASE 206 struct_drm_mode_fb_cmd2"

definition drm_requests :: "nat \<Rightarrow> request list" where
  "drm_requests w = [DRM_IOCTL_VERSION w, DRM_IOCTL_GET_UNIQUE w, DRM_IOCTL_GET_MAGIC, DRM_IOCTL_IRQ_BUSID, DRM_IOCTL_GET_MAP w,
     DRM_IOCTL_GET_CLIENT w, DRM_IOCTL_GET_STATS w, DRM_IOCTL_SET_VERSION, DRM_IOCTL_MODESET_CTL,
     DRM_IOCTL_GEM_CLOSE, DRM_IOCTL_GEM_FLINK, DRM_IOCTL_GEM_OPEN, DRM_IOCTL_GET_CAP, DRM_IOCTL_SET_CLIENT_CAP,
     DRM_IOCTL_SET_UNIQUE w, DRM_IOCTL_AUTH_MAGIC, DRM_IOCTL_BLOCK, DRM_IOCTL_UNBLOCK, DRM_IOCTL_CONTROL,
     DRM_IOCTL_ADD_MAP w, DRM_IOCTL_ADD_BUFS w, DRM_IOCTL_MARK_BUFS w, DRM_IOCTL_INFO_BUFS w, DRM_IOCTL_MAP_BUFS w,
     DRM_IOCTL_FREE_BUFS w, DRM_IOCTL_RM_MAP w, DRM_IOCTL_SET_SAREA_CTX w, DRM_IOCTL_GET_SAREA_CTX w,
     DRM_IOCTL_SET_MASTER, DRM_IOCTL_DROP_MASTER, DRM_IOCTL_ADD_CTX, DRM_IOCTL_RM_CTX, DRM_IOCTL_MOD_CTX,
     DRM_IOCTL_GET_CTX, DRM_IOCTL_SWITCH_CTX, DRM_IOCTL_NEW_CTX, DRM_IOCTL_RES_CTX w, DRM_IOCTL_ADD_DRAW,
     DRM_IOCTL_RM_DRAW, DRM_IOCTL_DMA w, DRM_IOCTL_LOCK, DRM_IOCTL_UNLOCK, DRM_IOCTL_FINISH,
     DRM_IOCTL_PRIME_HANDLE_TO_FD, DRM_IOCTL_PRIME_FD_TO_HANDLE, DRM_IOCTL_AGP_ACQUIRE, DRM_IOCTL_AGP_RELEASE,
     DRM_IOCTL_AGP_ENABLE w, DRM_IOCTL_AGP_INFO w, DRM_IOCTL_AGP_ALLOC w, DRM_IOCTL_AGP_FREE w,
     DRM_IOCTL_AGP_BIND w, DRM_IOCTL_AGP_UNBIND w, DRM_IOCTL_SG_ALLOC w, DRM_IOCTL_SG_FREE w,
     DRM_IOCTL_WAIT_VBLANK w, DRM_IOCTL_CRTC_GET_SEQUENCE, DRM_IOCTL_CRTC_QUEUE_SEQUENCE, DRM_IOCTL_UPDATE_DRAW,
     DRM_IOCTL_MODE_GETRESOURCES, DRM_IOCTL_MODE_GETCRTC, DRM_IOCTL_MODE_SETCRTC, DRM_IOCTL_MODE_CURSOR,
     DRM_IOCTL_MODE_GETGAMMA, DRM_IOCTL_MODE_SETGAMMA, DRM_IOCTL_MODE_GETENCODER, DRM_IOCTL_MODE_GETCONNECTOR,
     DRM_IOCTL_MODE_ATTACHMODE, DRM_IOCTL_MODE_DETACHMODE, DRM_IOCTL_MODE_GETPROPERTY, DRM_IOCTL_MODE_SETPROPERTY,
     DRM_IOCTL_MODE_GETPROPBLOB, DRM_IOCTL_MODE_GETFB, DRM_IOCTL_MODE_ADDFB, DRM_IOCTL_MODE_RMFB,
     DRM_IOCTL_MODE_PAGE_FLIP, DRM_IOCTL_MODE_DIRTYFB, DRM_IOCTL_MODE_CREATE_DUMB, DRM_IOCTL_MODE_MAP_DUMB,
     DRM_IOCTL_MODE_DESTROY_DUMB, DRM_IOCTL_MODE_GETPLANERESOURCES, DRM_IOCTL_MODE_GETPLANE,
     DRM_IOCTL_MODE_SETPLANE, DRM_IOCTL_MODE_ADDFB2, DRM_IOCTL_MODE_OBJ_GETPROPERTIES,
     DRM_IOCTL_MODE_OBJ_SETPROPERTY, DRM_IOCTL_MODE_CURSOR2, DRM_IOCTL_MODE_ATOMIC, DRM_IOCTL_MODE_CREATEPROPBLOB,
     DRM_IOCTL_MODE_DESTROYPROPBLOB, DRM_IOCTL_SYNCOBJ_CREATE, DRM_IOCTL_SYNCOBJ_DESTROY,
     DRM_IOCTL_SYNCOBJ_HANDLE_TO_FD, DRM_IOCTL_SYNCOBJ_FD_TO_HANDLE, DRM_IOCTL_SYNCOBJ_WAIT,
     DRM_IOCTL_SYNCOBJ_RESET, DRM_IOCTL_SYNCOBJ_SIGNAL, DRM_IOCTL_MODE_CREATE_LEASE, DRM_IOCTL_MODE_LIST_LESSEES,
     DRM_IOCTL_MODE_GET_LEASE, DRM_IOCTL_MODE_REVOKE_LEASE, DRM_IOCTL_SYNCOBJ_TIMELINE_WAIT,
     DRM_IOCTL_SYNCOBJ_QUERY, DRM_IOCTL_SYNCOBJ_TRANSFER, DRM_IOCTL_SYNCOBJ_TIMELINE_SIGNAL, DRM_IOCTL_MODE_GETFB2]"

text \<open>The requests whose number on i386 is not that of a 64-bit kernel.\<close>

definition drm_changed :: "request list" where
  "drm_changed = [DRM_IOCTL_VERSION 8, DRM_IOCTL_GET_UNIQUE 8, DRM_IOCTL_GET_MAP 8, DRM_IOCTL_GET_CLIENT 8,
     DRM_IOCTL_GET_STATS 8, DRM_IOCTL_SET_UNIQUE 8, DRM_IOCTL_ADD_MAP 8, DRM_IOCTL_ADD_BUFS 8,
     DRM_IOCTL_MARK_BUFS 8, DRM_IOCTL_INFO_BUFS 8, DRM_IOCTL_MAP_BUFS 8, DRM_IOCTL_FREE_BUFS 8, DRM_IOCTL_RM_MAP 8,
     DRM_IOCTL_SET_SAREA_CTX 8, DRM_IOCTL_GET_SAREA_CTX 8, DRM_IOCTL_RES_CTX 8, DRM_IOCTL_DMA 8,
     DRM_IOCTL_AGP_ENABLE 8, DRM_IOCTL_AGP_INFO 8, DRM_IOCTL_AGP_ALLOC 8, DRM_IOCTL_AGP_FREE 8,
     DRM_IOCTL_AGP_BIND 8, DRM_IOCTL_AGP_UNBIND 8, DRM_IOCTL_SG_ALLOC 8, DRM_IOCTL_SG_FREE 8,
     DRM_IOCTL_WAIT_VBLANK 8, DRM_IOCTL_UPDATE_DRAW, DRM_IOCTL_MODE_GETPLANERESOURCES, DRM_IOCTL_MODE_ADDFB2,
     DRM_IOCTL_MODE_OBJ_GETPROPERTIES, DRM_IOCTL_MODE_OBJ_SETPROPERTY, DRM_IOCTL_MODE_GETFB2]"

text \<open>The structures without padding.\<close>

definition drm_tight :: "ctype list" where
  "drm_tight = [struct_drm_mode_modeinfo, struct_drm_mode_card_res, struct_drm_mode_crtc, struct_drm_mode_set_plane,
     struct_drm_mode_get_plane, struct_drm_mode_get_encoder, struct_drm_mode_get_connector,
     struct_drm_mode_property_enum, struct_drm_mode_get_property, struct_drm_mode_connector_set_property,
     struct_drm_mode_get_blob, struct_drm_mode_fb_cmd, struct_drm_mode_fb_dirty_cmd, struct_drm_mode_mode_cmd,
     struct_drm_mode_cursor, struct_drm_mode_cursor2, struct_drm_mode_crtc_lut, struct_drm_color_ctm,
     struct_drm_color_lut, struct_hdr_metadata_infoframe, struct_drm_mode_crtc_page_flip,
     struct_drm_mode_crtc_page_flip_target, struct_drm_mode_create_dumb, struct_drm_mode_map_dumb,
     struct_drm_mode_destroy_dumb, struct_drm_mode_atomic, struct_drm_format_modifier_blob,
     struct_drm_format_modifier, struct_drm_mode_create_blob, struct_drm_mode_destroy_blob,
     struct_drm_mode_create_lease, struct_drm_mode_list_lessees, struct_drm_mode_get_lease,
     struct_drm_mode_revoke_lease, struct_drm_mode_rect, struct_drm_clip_rect, struct_drm_tex_region,
     struct_drm_hw_lock, struct_drm_block, struct_drm_control, struct_drm_lock, struct_drm_ctx, struct_drm_draw,
     struct_drm_auth, struct_drm_irq_busid, struct_drm_modeset_ctl, struct_drm_set_version, struct_drm_gem_close,
     struct_drm_gem_flink, struct_drm_gem_open, struct_drm_get_cap, struct_drm_set_client_cap,
     struct_drm_prime_handle, struct_drm_syncobj_create, struct_drm_syncobj_destroy, struct_drm_syncobj_handle,
     struct_drm_syncobj_transfer, struct_drm_syncobj_wait, struct_drm_syncobj_timeline_wait,
     struct_drm_syncobj_array, struct_drm_syncobj_timeline_array, struct_drm_crtc_get_sequence,
     struct_drm_crtc_queue_sequence, struct_drm_event, struct_drm_event_vblank, struct_drm_event_crtc_sequence]"

section \<open>Properties\<close>

lemma drm_table_8_8: "table_ok 8 (drm_requests 8)"
  by code_simp

lemma drm_table_8_4: "table_ok 8 (drm_requests 4)"
  by code_simp

lemma drm_table_4_4: "table_ok 4 (drm_requests 4)"
  by code_simp

lemma drm_table_2_4: "table_ok 2 (drm_requests 4)"
  by code_simp

lemmas drm_tables = drm_table_8_8 drm_table_8_4 drm_table_4_4 drm_table_2_4

lemma drm_interface:
  assumes "(amax, w) \<in> set abis"
  shows "ioctl_interface amax (drm_requests w)"
  using assms drm_tables [THEN table_interface] by (auto simp add: abis_def)

interpretation drm_kernel: ioctl_interface 8 "drm_requests 8"
  by (rule drm_tables(1) [THEN table_interface])

interpretation drm_i386: ioctl_compat 4 "drm_requests 4" "drm_requests 8" drm_changed
proof (intro ioctl_compat.intro ioctl_compat_axioms.intro)
  show "ioctl_interface 8 (drm_requests 8)" by (rule drm_tables(1) [THEN table_interface])
  show "ioctl_interface 4 (drm_requests 4)" by (rule drm_tables(3) [THEN table_interface])
  show "list_all2 (\<lambda>r q. (req_key 4 r = req_key 8 q) \<noteq> (q \<in> set drm_changed)) (drm_requests 4) (drm_requests 8)"
    by code_simp
  show "list_all2 (\<lambda>r q. agree 4 (req_arg q) \<or> q \<in> set drm_changed \<or> r \<noteq> q) (drm_requests 4) (drm_requests 8)"
    by code_simp
qed

text \<open>
  The requests of the graphics core have different numbers on every ABI and layout of request numbers, and the
  size that the kernel decodes is the size of the argument.
\<close>

theorem drm_requests_decoded:
  assumes "(amax, w) \<in> set abis" "L \<in> ioc_layouts" "32 \<le> LENGTH('l)"
  shows "distinct (map (request_number L amax) (drm_requests w) :: 'l::len word list) \<and>
    list_all (\<lambda>r. IOC_SIZE L (request_number L amax r :: 'l word) = word_of_nat (sizeof amax (req_arg r)))
      (drm_requests w)"
  using drm_interface [OF assms(1)] assms(2,3) by (rule ioctl_interface.sound)

theorem drm_requests_decoded_witness:
  "distinct (map (request_number generic_ioc 8) (drm_requests 8) :: u32 list) \<and>
    list_all (\<lambda>r. IOC_SIZE generic_ioc (request_number generic_ioc 8 r :: u32) = word_of_nat (sizeof 8 (req_arg r)))
      (drm_requests 8)"
  by (rule drm_requests_decoded) (simp_all add: abis_def ioc_layouts_def)

text \<open>
  An i386 program uses the numbers of the 64-bit kernel, except for the requests of \<open>drm_changed\<close>;
  the kernel finds every member of the other arguments without pointers where the program put it.
\<close>

theorem drm_compat_requests:
  assumes "L \<in> ioc_layouts" "32 \<le> LENGTH('l)"
  shows "list_all2 (\<lambda>r q. ((request_number L 4 r :: 'l::len word) = request_number L 8 q) \<noteq> (q \<in> set drm_changed))
      (drm_requests 4) (drm_requests 8) \<and>
    list_all2 (\<lambda>r q. r = q \<longrightarrow> q \<notin> set drm_changed \<longrightarrow>
        leaves 4 0 (req_arg q) = leaves 8 0 (req_arg q)) (drm_requests 4) (drm_requests 8)"
  using drm_i386.reached [OF assms] drm_i386.passed by blast

theorem drm_compat_requests_witness:
  "list_all2 (\<lambda>r q. ((request_number generic_ioc 4 r :: u32) = request_number generic_ioc 8 q) \<noteq> (q \<in> set drm_changed))
    (drm_requests 4) (drm_requests 8)"
  using drm_compat_requests [of generic_ioc, where ?'l = 32] by (simp add: ioc_layouts_def)

lemma drm_all_tight: "list_all tight drm_tight"
  by code_simp

text \<open>
  The structures of the graphics core without implicit padding are laid out alike, member by member, by every ABI,
  and each of their bytes belongs to a member.
\<close>

theorem drm_layout:
  assumes "t \<in> set drm_tight"
  shows "same_everywhere t \<and> covered (leaves 8 0 t) 0 (sizeof 8 t)"
  using drm_all_tight assms by (rule tight_types)

theorem drm_layout_witness: "same_everywhere struct_drm_mode_atomic \<and> covered (leaves 8 0 struct_drm_mode_atomic) 0 (sizeof 8 struct_drm_mode_atomic)"
  by (rule drm_layout) (simp add: drm_tight_def)

end
