(* ===== verification/Abi_I915.thy ===== *)
theory Abi_I915
  imports Abi_Drm
begin

text \<open>
  The interface of the Intel graphics driver, \<^verbatim>\<open>include/drm/i915_drm.h\<close>.
\<close>

section \<open>Structures\<close>

definition struct_i915_user_extension :: ctype where
  "struct_i915_user_extension = c_struct [
     (''next_extension'', u64_t),
     (''name'', u32_t),
     (''flags'', u32_t),
     (''rsvd'', Arr u32_t 4)]"

definition struct_i915_engine_class_instance :: ctype where
  "struct_i915_engine_class_instance = c_struct [
     (''engine_class'', u16_t),
     (''engine_instance'', u16_t)]"

definition struct_drm_i915_init :: ctype where
  "struct_drm_i915_init = c_struct [
     (''func'', u32_t),
     (''mmio_offset'', u32_t),
     (''sarea_priv_offset'', u32_t),
     (''ring_start'', u32_t),
     (''ring_end'', u32_t),
     (''ring_size'', u32_t),
     (''front_offset'', u32_t),
     (''back_offset'', u32_t),
     (''depth_offset'', u32_t),
     (''w'', u32_t),
     (''h'', u32_t),
     (''pitch'', u32_t),
     (''pitch_bits'', u32_t),
     (''back_pitch'', u32_t),
     (''depth_pitch'', u32_t),
     (''cpp'', u32_t),
     (''chipset'', u32_t)]"

definition struct_drm_i915_sarea :: ctype where
  "struct_drm_i915_sarea = c_struct [
     (''texList'', Arr struct_drm_tex_region 256),
     (''last_upload'', u32_t),
     (''last_enqueue'', u32_t),
     (''last_dispatch'', u32_t),
     (''ctxOwner'', u32_t),
     (''texAge'', u32_t),
     (''pf_enabled'', u32_t),
     (''pf_active'', u32_t),
     (''pf_current_page'', u32_t),
     (''perf_boxes'', u32_t),
     (''width'', u32_t),
     (''height'', u32_t),
     (''front_handle'', u32_t),
     (''front_offset'', u32_t),
     (''front_size'', u32_t),
     (''back_handle'', u32_t),
     (''back_offset'', u32_t),
     (''back_size'', u32_t),
     (''depth_handle'', u32_t),
     (''depth_offset'', u32_t),
     (''depth_size'', u32_t),
     (''tex_handle'', u32_t),
     (''tex_offset'', u32_t),
     (''tex_size'', u32_t),
     (''log_tex_granularity'', u32_t),
     (''pitch'', u32_t),
     (''rotation'', u32_t),
     (''rotated_offset'', u32_t),
     (''rotated_size'', u32_t),
     (''rotated_pitch'', u32_t),
     (''virtualX'', u32_t),
     (''virtualY'', u32_t),
     (''front_tiled'', u32_t),
     (''back_tiled'', u32_t),
     (''depth_tiled'', u32_t),
     (''rotated_tiled'', u32_t),
     (''rotated2_tiled'', u32_t),
     (''pipeA_x'', u32_t),
     (''pipeA_y'', u32_t),
     (''pipeA_w'', u32_t),
     (''pipeA_h'', u32_t),
     (''pipeB_x'', u32_t),
     (''pipeB_y'', u32_t),
     (''pipeB_w'', u32_t),
     (''pipeB_h'', u32_t),
     (''unused_handle'', u32_t),
     (''unused1'', u32_t),
     (''unused2'', u32_t),
     (''unused3'', u32_t),
     (''front_bo_handle'', u32_t),
     (''back_bo_handle'', u32_t),
     (''unused_bo_handle'', u32_t),
     (''depth_bo_handle'', u32_t)]"

definition struct_drm_i915_batchbuffer :: "nat \<Rightarrow> ctype" where
  "struct_drm_i915_batchbuffer w = c_struct [
     (''start'', u32_t),
     (''used'', u32_t),
     (''DR1'', u32_t),
     (''DR4'', u32_t),
     (''num_cliprects'', u32_t),
     (''cliprects'', ptr_t w)]"

definition struct_drm_i915_cmdbuffer :: "nat \<Rightarrow> ctype" where
  "struct_drm_i915_cmdbuffer w = c_struct [
     (''buf'', ptr_t w),
     (''sz'', u32_t),
     (''DR1'', u32_t),
     (''DR4'', u32_t),
     (''num_cliprects'', u32_t),
     (''cliprects'', ptr_t w)]"

definition struct_drm_i915_irq_emit :: "nat \<Rightarrow> ctype" where
  "struct_drm_i915_irq_emit w = c_struct [
     (''irq_seq'', ptr_t w)]"

definition struct_drm_i915_irq_wait :: ctype where
  "struct_drm_i915_irq_wait = c_struct [
     (''irq_seq'', u32_t)]"

definition struct_drm_i915_getparam :: "nat \<Rightarrow> ctype" where
  "struct_drm_i915_getparam w = c_struct [
     (''param'', u32_t),
     (''value'', ptr_t w)]"

definition struct_drm_i915_setparam :: ctype where
  "struct_drm_i915_setparam = c_struct [
     (''param'', u32_t),
     (''value'', u32_t)]"

definition struct_drm_i915_mem_alloc :: "nat \<Rightarrow> ctype" where
  "struct_drm_i915_mem_alloc w = c_struct [
     (''region'', u32_t),
     (''alignment'', u32_t),
     (''size'', u32_t),
     (''region_offset'', ptr_t w)]"

definition struct_drm_i915_mem_free :: ctype where
  "struct_drm_i915_mem_free = c_struct [
     (''region'', u32_t),
     (''region_offset'', u32_t)]"

definition struct_drm_i915_mem_init_heap :: ctype where
  "struct_drm_i915_mem_init_heap = c_struct [
     (''region'', u32_t),
     (''size'', u32_t),
     (''start'', u32_t)]"

definition struct_drm_i915_mem_destroy_heap :: ctype where
  "struct_drm_i915_mem_destroy_heap = c_struct [
     (''region'', u32_t)]"

definition struct_drm_i915_vblank_pipe :: ctype where
  "struct_drm_i915_vblank_pipe = c_struct [
     (''pipe'', u32_t)]"

definition struct_drm_i915_vblank_swap :: ctype where
  "struct_drm_i915_vblank_swap = c_struct [
     (''drawable'', u32_t),
     (''seqtype'', u32_t),
     (''sequence'', u32_t)]"

definition struct_drm_i915_hws_addr :: ctype where
  "struct_drm_i915_hws_addr = c_struct [
     (''addr'', u64_t)]"

definition struct_drm_i915_gem_init :: ctype where
  "struct_drm_i915_gem_init = c_struct [
     (''gtt_start'', u64_t),
     (''gtt_end'', u64_t)]"

definition struct_drm_i915_gem_create :: ctype where
  "struct_drm_i915_gem_create = c_struct [
     (''size'', u64_t),
     (''handle'', u32_t),
     (''pad'', u32_t)]"

definition struct_drm_i915_gem_pread :: ctype where
  "struct_drm_i915_gem_pread = c_struct [
     (''handle'', u32_t),
     (''pad'', u32_t),
     (''offset'', u64_t),
     (''size'', u64_t),
     (''data_ptr'', u64_t)]"

definition struct_drm_i915_gem_pwrite :: ctype where
  "struct_drm_i915_gem_pwrite = c_struct [
     (''handle'', u32_t),
     (''pad'', u32_t),
     (''offset'', u64_t),
     (''size'', u64_t),
     (''data_ptr'', u64_t)]"

definition struct_drm_i915_gem_mmap :: ctype where
  "struct_drm_i915_gem_mmap = c_struct [
     (''handle'', u32_t),
     (''pad'', u32_t),
     (''offset'', u64_t),
     (''size'', u64_t),
     (''addr_ptr'', u64_t),
     (''flags'', u64_t)]"

definition struct_drm_i915_gem_mmap_gtt :: ctype where
  "struct_drm_i915_gem_mmap_gtt = c_struct [
     (''handle'', u32_t),
     (''pad'', u32_t),
     (''offset'', u64_t)]"

definition struct_drm_i915_gem_mmap_offset :: ctype where
  "struct_drm_i915_gem_mmap_offset = c_struct [
     (''handle'', u32_t),
     (''pad'', u32_t),
     (''offset'', u64_t),
     (''flags'', u64_t),
     (''extensions'', u64_t)]"

definition struct_drm_i915_gem_set_domain :: ctype where
  "struct_drm_i915_gem_set_domain = c_struct [
     (''handle'', u32_t),
     (''read_domains'', u32_t),
     (''write_domain'', u32_t)]"

definition struct_drm_i915_gem_sw_finish :: ctype where
  "struct_drm_i915_gem_sw_finish = c_struct [
     (''handle'', u32_t)]"

definition struct_drm_i915_gem_relocation_entry :: ctype where
  "struct_drm_i915_gem_relocation_entry = c_struct [
     (''target_handle'', u32_t),
     (''delta'', u32_t),
     (''offset'', u64_t),
     (''presumed_offset'', u64_t),
     (''read_domains'', u32_t),
     (''write_domain'', u32_t)]"

definition struct_drm_i915_gem_exec_object :: ctype where
  "struct_drm_i915_gem_exec_object = c_struct [
     (''handle'', u32_t),
     (''relocation_count'', u32_t),
     (''relocs_ptr'', u64_t),
     (''alignment'', u64_t),
     (''offset'', u64_t)]"

definition struct_drm_i915_gem_execbuffer :: ctype where
  "struct_drm_i915_gem_execbuffer = c_struct [
     (''buffers_ptr'', u64_t),
     (''buffer_count'', u32_t),
     (''batch_start_offset'', u32_t),
     (''batch_len'', u32_t),
     (''DR1'', u32_t),
     (''DR4'', u32_t),
     (''num_cliprects'', u32_t),
     (''cliprects_ptr'', u64_t)]"

definition struct_drm_i915_gem_exec_object2 :: ctype where
  "struct_drm_i915_gem_exec_object2 = c_struct [
     (''handle'', u32_t),
     (''relocation_count'', u32_t),
     (''relocs_ptr'', u64_t),
     (''alignment'', u64_t),
     (''offset'', u64_t),
     (''flags'', u64_t),
     ('''', c_union [ (''rsvd1'', u64_t), (''pad_to_size'', u64_t)]),
     (''rsvd2'', u64_t)]"

definition struct_drm_i915_gem_exec_fence :: ctype where
  "struct_drm_i915_gem_exec_fence = c_struct [
     (''handle'', u32_t),
     (''flags'', u32_t)]"

definition struct_drm_i915_gem_execbuffer_ext_timeline_fences :: ctype where
  "struct_drm_i915_gem_execbuffer_ext_timeline_fences = c_struct [
     (''base'', struct_i915_user_extension),
     (''fence_count'', u64_t),
     (''handles_ptr'', u64_t),
     (''values_ptr'', u64_t)]"

definition struct_drm_i915_gem_execbuffer2 :: ctype where
  "struct_drm_i915_gem_execbuffer2 = c_struct [
     (''buffers_ptr'', u64_t),
     (''buffer_count'', u32_t),
     (''batch_start_offset'', u32_t),
     (''batch_len'', u32_t),
     (''DR1'', u32_t),
     (''DR4'', u32_t),
     (''num_cliprects'', u32_t),
     (''cliprects_ptr'', u64_t),
     (''flags'', u64_t),
     (''rsvd1'', u64_t),
     (''rsvd2'', u64_t)]"

definition struct_drm_i915_gem_pin :: ctype where
  "struct_drm_i915_gem_pin = c_struct [
     (''handle'', u32_t),
     (''pad'', u32_t),
     (''alignment'', u64_t),
     (''offset'', u64_t)]"

definition struct_drm_i915_gem_unpin :: ctype where
  "struct_drm_i915_gem_unpin = c_struct [
     (''handle'', u32_t),
     (''pad'', u32_t)]"

definition struct_drm_i915_gem_busy :: ctype where
  "struct_drm_i915_gem_busy = c_struct [
     (''handle'', u32_t),
     (''busy'', u32_t)]"

definition struct_drm_i915_gem_caching :: ctype where
  "struct_drm_i915_gem_caching = c_struct [
     (''handle'', u32_t),
     (''caching'', u32_t)]"

definition struct_drm_i915_gem_set_tiling :: ctype where
  "struct_drm_i915_gem_set_tiling = c_struct [
     (''handle'', u32_t),
     (''tiling_mode'', u32_t),
     (''stride'', u32_t),
     (''swizzle_mode'', u32_t)]"

definition struct_drm_i915_gem_get_tiling :: ctype where
  "struct_drm_i915_gem_get_tiling = c_struct [
     (''handle'', u32_t),
     (''tiling_mode'', u32_t),
     (''swizzle_mode'', u32_t),
     (''phys_swizzle_mode'', u32_t)]"

definition struct_drm_i915_gem_get_aperture :: ctype where
  "struct_drm_i915_gem_get_aperture = c_struct [
     (''aper_size'', u64_t),
     (''aper_available_size'', u64_t)]"

definition struct_drm_i915_get_pipe_from_crtc_id :: ctype where
  "struct_drm_i915_get_pipe_from_crtc_id = c_struct [
     (''crtc_id'', u32_t),
     (''pipe'', u32_t)]"

definition struct_drm_i915_gem_madvise :: ctype where
  "struct_drm_i915_gem_madvise = c_struct [
     (''handle'', u32_t),
     (''madv'', u32_t),
     (''retained'', u32_t)]"

definition struct_drm_intel_overlay_put_image :: ctype where
  "struct_drm_intel_overlay_put_image = c_struct [
     (''flags'', u32_t),
     (''bo_handle'', u32_t),
     (''stride_Y'', u16_t),
     (''stride_UV'', u16_t),
     (''offset_Y'', u32_t),
     (''offset_U'', u32_t),
     (''offset_V'', u32_t),
     (''src_width'', u16_t),
     (''src_height'', u16_t),
     (''src_scan_width'', u16_t),
     (''src_scan_height'', u16_t),
     (''crtc_id'', u32_t),
     (''dst_x'', u16_t),
     (''dst_y'', u16_t),
     (''dst_width'', u16_t),
     (''dst_height'', u16_t)]"

definition struct_drm_intel_overlay_attrs :: ctype where
  "struct_drm_intel_overlay_attrs = c_struct [
     (''flags'', u32_t),
     (''color_key'', u32_t),
     (''brightness'', u32_t),
     (''contrast'', u32_t),
     (''saturation'', u32_t),
     (''gamma0'', u32_t),
     (''gamma1'', u32_t),
     (''gamma2'', u32_t),
     (''gamma3'', u32_t),
     (''gamma4'', u32_t),
     (''gamma5'', u32_t)]"

definition struct_drm_intel_sprite_colorkey :: ctype where
  "struct_drm_intel_sprite_colorkey = c_struct [
     (''plane_id'', u32_t),
     (''min_value'', u32_t),
     (''channel_mask'', u32_t),
     (''max_value'', u32_t),
     (''flags'', u32_t)]"

definition struct_drm_i915_gem_wait :: ctype where
  "struct_drm_i915_gem_wait = c_struct [
     (''bo_handle'', u32_t),
     (''flags'', u32_t),
     (''timeout_ns'', u64_t)]"

definition struct_drm_i915_gem_context_create :: ctype where
  "struct_drm_i915_gem_context_create = c_struct [
     (''ctx_id'', u32_t),
     (''pad'', u32_t)]"

definition struct_drm_i915_gem_context_create_ext :: ctype where
  "struct_drm_i915_gem_context_create_ext = c_struct [
     (''ctx_id'', u32_t),
     (''flags'', u32_t),
     (''extensions'', u64_t)]"

definition struct_drm_i915_gem_context_param :: ctype where
  "struct_drm_i915_gem_context_param = c_struct [
     (''ctx_id'', u32_t),
     (''size'', u32_t),
     (''param'', u64_t),
     (''value'', u64_t)]"

definition struct_drm_i915_gem_context_param_sseu :: ctype where
  "struct_drm_i915_gem_context_param_sseu = c_struct [
     (''engine'', struct_i915_engine_class_instance),
     (''flags'', u32_t),
     (''slice_mask'', u64_t),
     (''subslice_mask'', u64_t),
     (''min_eus_per_subslice'', u16_t),
     (''max_eus_per_subslice'', u16_t),
     (''rsvd'', u32_t)]"

definition struct_i915_context_engines_load_balance :: ctype where
  "struct_i915_context_engines_load_balance = c_packed [
     (''base'', struct_i915_user_extension),
     (''engine_index'', u16_t),
     (''num_siblings'', u16_t),
     (''flags'', u32_t),
     (''mbz64'', u64_t),
     (''engines'', Arr struct_i915_engine_class_instance 0)]"

definition struct_i915_context_engines_bond :: ctype where
  "struct_i915_context_engines_bond = c_packed [
     (''base'', struct_i915_user_extension),
     (''master'', struct_i915_engine_class_instance),
     (''virtual_index'', u16_t),
     (''num_bonds'', u16_t),
     (''flags'', u64_t),
     (''mbz64'', Arr u64_t 4),
     (''engines'', Arr struct_i915_engine_class_instance 0)]"

definition struct_i915_context_param_engines :: ctype where
  "struct_i915_context_param_engines = c_packed [
     (''extensions'', u64_t),
     (''engines'', Arr struct_i915_engine_class_instance 0)]"

definition struct_drm_i915_gem_context_create_ext_setparam :: ctype where
  "struct_drm_i915_gem_context_create_ext_setparam = c_struct [
     (''base'', struct_i915_user_extension),
     (''param'', struct_drm_i915_gem_context_param)]"

definition struct_drm_i915_gem_context_destroy :: ctype where
  "struct_drm_i915_gem_context_destroy = c_struct [
     (''ctx_id'', u32_t),
     (''pad'', u32_t)]"

definition struct_drm_i915_gem_vm_control :: ctype where
  "struct_drm_i915_gem_vm_control = c_struct [
     (''extensions'', u64_t),
     (''flags'', u32_t),
     (''vm_id'', u32_t)]"

definition struct_drm_i915_reg_read :: ctype where
  "struct_drm_i915_reg_read = c_struct [
     (''offset'', u64_t),
     (''val'', u64_t)]"

definition struct_drm_i915_reset_stats :: ctype where
  "struct_drm_i915_reset_stats = c_struct [
     (''ctx_id'', u32_t),
     (''flags'', u32_t),
     (''reset_count'', u32_t),
     (''batch_active'', u32_t),
     (''batch_pending'', u32_t),
     (''pad'', u32_t)]"

definition struct_drm_i915_gem_userptr :: ctype where
  "struct_drm_i915_gem_userptr = c_struct [
     (''user_ptr'', u64_t),
     (''user_size'', u64_t),
     (''flags'', u32_t),
     (''handle'', u32_t)]"

definition struct_drm_i915_perf_open_param :: ctype where
  "struct_drm_i915_perf_open_param = c_struct [
     (''flags'', u32_t),
     (''num_properties'', u32_t),
     (''properties_ptr'', u64_t)]"

definition struct_drm_i915_perf_record_header :: ctype where
  "struct_drm_i915_perf_record_header = c_struct [
     (''type'', u32_t),
     (''pad'', u16_t),
     (''size'', u16_t)]"

definition struct_drm_i915_perf_oa_config :: ctype where
  "struct_drm_i915_perf_oa_config = c_struct [
     (''uuid'', Arr u8_t 36),
     (''n_mux_regs'', u32_t),
     (''n_boolean_regs'', u32_t),
     (''n_flex_regs'', u32_t),
     (''mux_regs_ptr'', u64_t),
     (''boolean_regs_ptr'', u64_t),
     (''flex_regs_ptr'', u64_t)]"

definition struct_drm_i915_query_item :: ctype where
  "struct_drm_i915_query_item = c_struct [
     (''query_id'', u64_t),
     (''length'', u32_t),
     (''flags'', u32_t),
     (''data_ptr'', u64_t)]"

definition struct_drm_i915_query :: ctype where
  "struct_drm_i915_query = c_struct [
     (''num_items'', u32_t),
     (''flags'', u32_t),
     (''items_ptr'', u64_t)]"

definition struct_drm_i915_query_topology_info :: ctype where
  "struct_drm_i915_query_topology_info = c_struct [
     (''flags'', u16_t),
     (''max_slices'', u16_t),
     (''max_subslices'', u16_t),
     (''max_eus_per_subslice'', u16_t),
     (''subslice_offset'', u16_t),
     (''subslice_stride'', u16_t),
     (''eu_offset'', u16_t),
     (''eu_stride'', u16_t),
     (''data'', Arr u8_t 0)]"

definition struct_drm_i915_engine_info :: ctype where
  "struct_drm_i915_engine_info = c_struct [
     (''engine'', struct_i915_engine_class_instance),
     (''rsvd0'', u32_t),
     (''flags'', u64_t),
     (''capabilities'', u64_t),
     (''rsvd1'', Arr u64_t 4)]"

definition struct_drm_i915_query_engine_info :: ctype where
  "struct_drm_i915_query_engine_info = c_struct [
     (''num_engines'', u32_t),
     (''rsvd'', Arr u32_t 3),
     (''engines'', Arr struct_drm_i915_engine_info 0)]"

definition struct_drm_i915_query_perf_config :: ctype where
  "struct_drm_i915_query_perf_config = c_struct [
     ('''', c_union [ (''n_configs'', u64_t), (''config'', u64_t), (''uuid'', Arr u8_t 36)]),
     (''flags'', u32_t),
     (''data'', Arr u8_t 0)]"

definition struct_drm_i915_gem_memory_class_instance :: ctype where
  "struct_drm_i915_gem_memory_class_instance = c_struct [
     (''memory_class'', u16_t),
     (''memory_instance'', u16_t)]"

definition struct_drm_i915_memory_region_info :: ctype where
  "struct_drm_i915_memory_region_info = c_struct [
     (''region'', struct_drm_i915_gem_memory_class_instance),
     (''rsvd0'', u32_t),
     (''probed_size'', u64_t),
     (''unallocated_size'', u64_t),
     (''rsvd1'', Arr u64_t 8)]"

definition struct_drm_i915_query_memory_regions :: ctype where
  "struct_drm_i915_query_memory_regions = c_struct [
     (''num_regions'', u32_t),
     (''rsvd'', Arr u32_t 3),
     (''regions'', Arr struct_drm_i915_memory_region_info 0)]"

definition struct_drm_i915_gem_create_ext :: ctype where
  "struct_drm_i915_gem_create_ext = c_struct [
     (''size'', u64_t),
     (''handle'', u32_t),
     (''flags'', u32_t),
     (''extensions'', u64_t)]"

definition struct_drm_i915_gem_create_ext_memory_regions :: ctype where
  "struct_drm_i915_gem_create_ext_memory_regions = c_struct [
     (''base'', struct_i915_user_extension),
     (''pad'', u32_t),
     (''num_regions'', u32_t),
     (''regions'', u64_t)]"

section \<open>Requests\<close>

definition DRM_IOCTL_I915_INIT :: request where
  "DRM_IOCTL_I915_INIT = IOW_req DRM_IOCTL_BASE 64 struct_drm_i915_init"

definition DRM_IOCTL_I915_FLUSH :: request where
  "DRM_IOCTL_I915_FLUSH = IO_req DRM_IOCTL_BASE 65"

definition DRM_IOCTL_I915_FLIP :: request where
  "DRM_IOCTL_I915_FLIP = IO_req DRM_IOCTL_BASE 66"

definition DRM_IOCTL_I915_BATCHBUFFER :: "nat \<Rightarrow> request" where
  "DRM_IOCTL_I915_BATCHBUFFER w = IOW_req DRM_IOCTL_BASE 67 (struct_drm_i915_batchbuffer w)"

definition DRM_IOCTL_I915_IRQ_EMIT :: "nat \<Rightarrow> request" where
  "DRM_IOCTL_I915_IRQ_EMIT w = IOWR_req DRM_IOCTL_BASE 68 (struct_drm_i915_irq_emit w)"

definition DRM_IOCTL_I915_IRQ_WAIT :: request where
  "DRM_IOCTL_I915_IRQ_WAIT = IOW_req DRM_IOCTL_BASE 69 struct_drm_i915_irq_wait"

definition DRM_IOCTL_I915_GETPARAM :: "nat \<Rightarrow> request" where
  "DRM_IOCTL_I915_GETPARAM w = IOWR_req DRM_IOCTL_BASE 70 (struct_drm_i915_getparam w)"

definition DRM_IOCTL_I915_SETPARAM :: request where
  "DRM_IOCTL_I915_SETPARAM = IOW_req DRM_IOCTL_BASE 71 struct_drm_i915_setparam"

definition DRM_IOCTL_I915_ALLOC :: "nat \<Rightarrow> request" where
  "DRM_IOCTL_I915_ALLOC w = IOWR_req DRM_IOCTL_BASE 72 (struct_drm_i915_mem_alloc w)"

definition DRM_IOCTL_I915_FREE :: request where
  "DRM_IOCTL_I915_FREE = IOW_req DRM_IOCTL_BASE 73 struct_drm_i915_mem_free"

definition DRM_IOCTL_I915_INIT_HEAP :: request where
  "DRM_IOCTL_I915_INIT_HEAP = IOW_req DRM_IOCTL_BASE 74 struct_drm_i915_mem_init_heap"

definition DRM_IOCTL_I915_CMDBUFFER :: "nat \<Rightarrow> request" where
  "DRM_IOCTL_I915_CMDBUFFER w = IOW_req DRM_IOCTL_BASE 75 (struct_drm_i915_cmdbuffer w)"

definition DRM_IOCTL_I915_DESTROY_HEAP :: request where
  "DRM_IOCTL_I915_DESTROY_HEAP = IOW_req DRM_IOCTL_BASE 76 struct_drm_i915_mem_destroy_heap"

definition DRM_IOCTL_I915_SET_VBLANK_PIPE :: request where
  "DRM_IOCTL_I915_SET_VBLANK_PIPE = IOW_req DRM_IOCTL_BASE 77 struct_drm_i915_vblank_pipe"

definition DRM_IOCTL_I915_GET_VBLANK_PIPE :: request where
  "DRM_IOCTL_I915_GET_VBLANK_PIPE = IOR_req DRM_IOCTL_BASE 78 struct_drm_i915_vblank_pipe"

definition DRM_IOCTL_I915_VBLANK_SWAP :: request where
  "DRM_IOCTL_I915_VBLANK_SWAP = IOWR_req DRM_IOCTL_BASE 79 struct_drm_i915_vblank_swap"

definition DRM_IOCTL_I915_HWS_ADDR :: request where
  "DRM_IOCTL_I915_HWS_ADDR = IOW_req DRM_IOCTL_BASE 81 struct_drm_i915_gem_init"

definition DRM_IOCTL_I915_GEM_INIT :: request where
  "DRM_IOCTL_I915_GEM_INIT = IOW_req DRM_IOCTL_BASE 83 struct_drm_i915_gem_init"

definition DRM_IOCTL_I915_GEM_EXECBUFFER :: request where
  "DRM_IOCTL_I915_GEM_EXECBUFFER = IOW_req DRM_IOCTL_BASE 84 struct_drm_i915_gem_execbuffer"

definition DRM_IOCTL_I915_GEM_EXECBUFFER2 :: request where
  "DRM_IOCTL_I915_GEM_EXECBUFFER2 = IOW_req DRM_IOCTL_BASE 105 struct_drm_i915_gem_execbuffer2"

definition DRM_IOCTL_I915_GEM_EXECBUFFER2_WR :: request where
  "DRM_IOCTL_I915_GEM_EXECBUFFER2_WR = IOWR_req DRM_IOCTL_BASE 105 struct_drm_i915_gem_execbuffer2"

definition DRM_IOCTL_I915_GEM_PIN :: request where
  "DRM_IOCTL_I915_GEM_PIN = IOWR_req DRM_IOCTL_BASE 85 struct_drm_i915_gem_pin"

definition DRM_IOCTL_I915_GEM_UNPIN :: request where
  "DRM_IOCTL_I915_GEM_UNPIN = IOW_req DRM_IOCTL_BASE 86 struct_drm_i915_gem_unpin"

definition DRM_IOCTL_I915_GEM_BUSY :: request where
  "DRM_IOCTL_I915_GEM_BUSY = IOWR_req DRM_IOCTL_BASE 87 struct_drm_i915_gem_busy"

definition DRM_IOCTL_I915_GEM_SET_CACHING :: request where
  "DRM_IOCTL_I915_GEM_SET_CACHING = IOW_req DRM_IOCTL_BASE 111 struct_drm_i915_gem_caching"

definition DRM_IOCTL_I915_GEM_GET_CACHING :: request where
  "DRM_IOCTL_I915_GEM_GET_CACHING = IOWR_req DRM_IOCTL_BASE 112 struct_drm_i915_gem_caching"

definition DRM_IOCTL_I915_GEM_THROTTLE :: request where
  "DRM_IOCTL_I915_GEM_THROTTLE = IO_req DRM_IOCTL_BASE 88"

definition DRM_IOCTL_I915_GEM_ENTERVT :: request where
  "DRM_IOCTL_I915_GEM_ENTERVT = IO_req DRM_IOCTL_BASE 89"

definition DRM_IOCTL_I915_GEM_LEAVEVT :: request where
  "DRM_IOCTL_I915_GEM_LEAVEVT = IO_req DRM_IOCTL_BASE 90"

definition DRM_IOCTL_I915_GEM_CREATE :: request where
  "DRM_IOCTL_I915_GEM_CREATE = IOWR_req DRM_IOCTL_BASE 91 struct_drm_i915_gem_create"

definition DRM_IOCTL_I915_GEM_CREATE_EXT :: request where
  "DRM_IOCTL_I915_GEM_CREATE_EXT = IOWR_req DRM_IOCTL_BASE 124 struct_drm_i915_gem_create_ext"

definition DRM_IOCTL_I915_GEM_PREAD :: request where
  "DRM_IOCTL_I915_GEM_PREAD = IOW_req DRM_IOCTL_BASE 92 struct_drm_i915_gem_pread"

definition DRM_IOCTL_I915_GEM_PWRITE :: request where
  "DRM_IOCTL_I915_GEM_PWRITE = IOW_req DRM_IOCTL_BASE 93 struct_drm_i915_gem_pwrite"

definition DRM_IOCTL_I915_GEM_MMAP :: request where
  "DRM_IOCTL_I915_GEM_MMAP = IOWR_req DRM_IOCTL_BASE 94 struct_drm_i915_gem_mmap"

definition DRM_IOCTL_I915_GEM_MMAP_GTT :: request where
  "DRM_IOCTL_I915_GEM_MMAP_GTT = IOWR_req DRM_IOCTL_BASE 100 struct_drm_i915_gem_mmap_gtt"

definition DRM_IOCTL_I915_GEM_MMAP_OFFSET :: request where
  "DRM_IOCTL_I915_GEM_MMAP_OFFSET = IOWR_req DRM_IOCTL_BASE 100 struct_drm_i915_gem_mmap_offset"

definition DRM_IOCTL_I915_GEM_SET_DOMAIN :: request where
  "DRM_IOCTL_I915_GEM_SET_DOMAIN = IOW_req DRM_IOCTL_BASE 95 struct_drm_i915_gem_set_domain"

definition DRM_IOCTL_I915_GEM_SW_FINISH :: request where
  "DRM_IOCTL_I915_GEM_SW_FINISH = IOW_req DRM_IOCTL_BASE 96 struct_drm_i915_gem_sw_finish"

definition DRM_IOCTL_I915_GEM_SET_TILING :: request where
  "DRM_IOCTL_I915_GEM_SET_TILING = IOWR_req DRM_IOCTL_BASE 97 struct_drm_i915_gem_set_tiling"

definition DRM_IOCTL_I915_GEM_GET_TILING :: request where
  "DRM_IOCTL_I915_GEM_GET_TILING = IOWR_req DRM_IOCTL_BASE 98 struct_drm_i915_gem_get_tiling"

definition DRM_IOCTL_I915_GEM_GET_APERTURE :: request where
  "DRM_IOCTL_I915_GEM_GET_APERTURE = IOR_req DRM_IOCTL_BASE 99 struct_drm_i915_gem_get_aperture"

definition DRM_IOCTL_I915_GET_PIPE_FROM_CRTC_ID :: request where
  "DRM_IOCTL_I915_GET_PIPE_FROM_CRTC_ID = IOWR_req DRM_IOCTL_BASE 101 struct_drm_i915_get_pipe_from_crtc_id"

definition DRM_IOCTL_I915_GEM_MADVISE :: request where
  "DRM_IOCTL_I915_GEM_MADVISE = IOWR_req DRM_IOCTL_BASE 102 struct_drm_i915_gem_madvise"

definition DRM_IOCTL_I915_OVERLAY_PUT_IMAGE :: request where
  "DRM_IOCTL_I915_OVERLAY_PUT_IMAGE = IOW_req DRM_IOCTL_BASE 103 struct_drm_intel_overlay_put_image"

definition DRM_IOCTL_I915_OVERLAY_ATTRS :: request where
  "DRM_IOCTL_I915_OVERLAY_ATTRS = IOWR_req DRM_IOCTL_BASE 104 struct_drm_intel_overlay_attrs"

definition DRM_IOCTL_I915_SET_SPRITE_COLORKEY :: request where
  "DRM_IOCTL_I915_SET_SPRITE_COLORKEY = IOWR_req DRM_IOCTL_BASE 107 struct_drm_intel_sprite_colorkey"

definition DRM_IOCTL_I915_GET_SPRITE_COLORKEY :: request where
  "DRM_IOCTL_I915_GET_SPRITE_COLORKEY = IOWR_req DRM_IOCTL_BASE 106 struct_drm_intel_sprite_colorkey"

definition DRM_IOCTL_I915_GEM_WAIT :: request where
  "DRM_IOCTL_I915_GEM_WAIT = IOWR_req DRM_IOCTL_BASE 108 struct_drm_i915_gem_wait"

definition DRM_IOCTL_I915_GEM_CONTEXT_CREATE :: request where
  "DRM_IOCTL_I915_GEM_CONTEXT_CREATE = IOWR_req DRM_IOCTL_BASE 109 struct_drm_i915_gem_context_create"

definition DRM_IOCTL_I915_GEM_CONTEXT_CREATE_EXT :: request where
  "DRM_IOCTL_I915_GEM_CONTEXT_CREATE_EXT = IOWR_req DRM_IOCTL_BASE 109 struct_drm_i915_gem_context_create_ext"

definition DRM_IOCTL_I915_GEM_CONTEXT_DESTROY :: request where
  "DRM_IOCTL_I915_GEM_CONTEXT_DESTROY = IOW_req DRM_IOCTL_BASE 110 struct_drm_i915_gem_context_destroy"

definition DRM_IOCTL_I915_REG_READ :: request where
  "DRM_IOCTL_I915_REG_READ = IOWR_req DRM_IOCTL_BASE 113 struct_drm_i915_reg_read"

definition DRM_IOCTL_I915_GET_RESET_STATS :: request where
  "DRM_IOCTL_I915_GET_RESET_STATS = IOWR_req DRM_IOCTL_BASE 114 struct_drm_i915_reset_stats"

definition DRM_IOCTL_I915_GEM_USERPTR :: request where
  "DRM_IOCTL_I915_GEM_USERPTR = IOWR_req DRM_IOCTL_BASE 115 struct_drm_i915_gem_userptr"

definition DRM_IOCTL_I915_GEM_CONTEXT_GETPARAM :: request where
  "DRM_IOCTL_I915_GEM_CONTEXT_GETPARAM = IOWR_req DRM_IOCTL_BASE 116 struct_drm_i915_gem_context_param"

definition DRM_IOCTL_I915_GEM_CONTEXT_SETPARAM :: request where
  "DRM_IOCTL_I915_GEM_CONTEXT_SETPARAM = IOWR_req DRM_IOCTL_BASE 117 struct_drm_i915_gem_context_param"

definition DRM_IOCTL_I915_PERF_OPEN :: request where
  "DRM_IOCTL_I915_PERF_OPEN = IOW_req DRM_IOCTL_BASE 118 struct_drm_i915_perf_open_param"

definition DRM_IOCTL_I915_PERF_ADD_CONFIG :: request where
  "DRM_IOCTL_I915_PERF_ADD_CONFIG = IOW_req DRM_IOCTL_BASE 119 struct_drm_i915_perf_oa_config"

definition DRM_IOCTL_I915_PERF_REMOVE_CONFIG :: request where
  "DRM_IOCTL_I915_PERF_REMOVE_CONFIG = IOW_req DRM_IOCTL_BASE 120 u64_t"

definition DRM_IOCTL_I915_QUERY :: request where
  "DRM_IOCTL_I915_QUERY = IOWR_req DRM_IOCTL_BASE 121 struct_drm_i915_query"

definition DRM_IOCTL_I915_GEM_VM_CREATE :: request where
  "DRM_IOCTL_I915_GEM_VM_CREATE = IOWR_req DRM_IOCTL_BASE 122 struct_drm_i915_gem_vm_control"

definition DRM_IOCTL_I915_GEM_VM_DESTROY :: request where
  "DRM_IOCTL_I915_GEM_VM_DESTROY = IOW_req DRM_IOCTL_BASE 123 struct_drm_i915_gem_vm_control"

definition i915_requests :: "nat \<Rightarrow> request list" where
  "i915_requests w = [DRM_IOCTL_I915_INIT, DRM_IOCTL_I915_FLUSH, DRM_IOCTL_I915_FLIP, DRM_IOCTL_I915_BATCHBUFFER w,
     DRM_IOCTL_I915_IRQ_EMIT w, DRM_IOCTL_I915_IRQ_WAIT, DRM_IOCTL_I915_GETPARAM w, DRM_IOCTL_I915_SETPARAM,
     DRM_IOCTL_I915_ALLOC w, DRM_IOCTL_I915_FREE, DRM_IOCTL_I915_INIT_HEAP, DRM_IOCTL_I915_CMDBUFFER w,
     DRM_IOCTL_I915_DESTROY_HEAP, DRM_IOCTL_I915_SET_VBLANK_PIPE, DRM_IOCTL_I915_GET_VBLANK_PIPE,
     DRM_IOCTL_I915_VBLANK_SWAP, DRM_IOCTL_I915_HWS_ADDR, DRM_IOCTL_I915_GEM_INIT, DRM_IOCTL_I915_GEM_EXECBUFFER,
     DRM_IOCTL_I915_GEM_PIN, DRM_IOCTL_I915_GEM_UNPIN, DRM_IOCTL_I915_GEM_BUSY, DRM_IOCTL_I915_GEM_THROTTLE,
     DRM_IOCTL_I915_GEM_ENTERVT, DRM_IOCTL_I915_GEM_LEAVEVT, DRM_IOCTL_I915_GEM_CREATE, DRM_IOCTL_I915_GEM_PREAD,
     DRM_IOCTL_I915_GEM_PWRITE, DRM_IOCTL_I915_GEM_MMAP, DRM_IOCTL_I915_GEM_SET_DOMAIN,
     DRM_IOCTL_I915_GEM_SW_FINISH, DRM_IOCTL_I915_GEM_SET_TILING, DRM_IOCTL_I915_GEM_GET_TILING,
     DRM_IOCTL_I915_GEM_GET_APERTURE, DRM_IOCTL_I915_GEM_MMAP_GTT, DRM_IOCTL_I915_GEM_MMAP_OFFSET,
     DRM_IOCTL_I915_GET_PIPE_FROM_CRTC_ID, DRM_IOCTL_I915_GEM_MADVISE, DRM_IOCTL_I915_OVERLAY_PUT_IMAGE,
     DRM_IOCTL_I915_OVERLAY_ATTRS, DRM_IOCTL_I915_GEM_EXECBUFFER2, DRM_IOCTL_I915_GEM_EXECBUFFER2_WR,
     DRM_IOCTL_I915_GET_SPRITE_COLORKEY, DRM_IOCTL_I915_SET_SPRITE_COLORKEY, DRM_IOCTL_I915_GEM_WAIT,
     DRM_IOCTL_I915_GEM_CONTEXT_CREATE, DRM_IOCTL_I915_GEM_CONTEXT_CREATE_EXT, DRM_IOCTL_I915_GEM_CONTEXT_DESTROY,
     DRM_IOCTL_I915_GEM_SET_CACHING, DRM_IOCTL_I915_GEM_GET_CACHING, DRM_IOCTL_I915_REG_READ,
     DRM_IOCTL_I915_GET_RESET_STATS, DRM_IOCTL_I915_GEM_USERPTR, DRM_IOCTL_I915_GEM_CONTEXT_GETPARAM,
     DRM_IOCTL_I915_GEM_CONTEXT_SETPARAM, DRM_IOCTL_I915_PERF_OPEN, DRM_IOCTL_I915_PERF_ADD_CONFIG,
     DRM_IOCTL_I915_PERF_REMOVE_CONFIG, DRM_IOCTL_I915_QUERY, DRM_IOCTL_I915_GEM_VM_CREATE,
     DRM_IOCTL_I915_GEM_VM_DESTROY, DRM_IOCTL_I915_GEM_CREATE_EXT]"

text \<open>The requests whose number on i386 is not that of a 64-bit kernel.\<close>

definition i915_changed :: "request list" where
  "i915_changed = [DRM_IOCTL_I915_BATCHBUFFER 8, DRM_IOCTL_I915_IRQ_EMIT 8, DRM_IOCTL_I915_GETPARAM 8, DRM_IOCTL_I915_ALLOC 8,
     DRM_IOCTL_I915_CMDBUFFER 8]"

text \<open>The structures without padding.\<close>

definition i915_tight :: "ctype list" where
  "i915_tight = [struct_i915_user_extension, struct_i915_engine_class_instance, struct_drm_i915_init, struct_drm_i915_sarea,
     struct_drm_i915_irq_wait, struct_drm_i915_setparam, struct_drm_i915_mem_free, struct_drm_i915_mem_init_heap,
     struct_drm_i915_mem_destroy_heap, struct_drm_i915_vblank_pipe, struct_drm_i915_vblank_swap,
     struct_drm_i915_hws_addr, struct_drm_i915_gem_init, struct_drm_i915_gem_create, struct_drm_i915_gem_pread,
     struct_drm_i915_gem_pwrite, struct_drm_i915_gem_mmap, struct_drm_i915_gem_mmap_gtt,
     struct_drm_i915_gem_mmap_offset, struct_drm_i915_gem_set_domain, struct_drm_i915_gem_sw_finish,
     struct_drm_i915_gem_relocation_entry, struct_drm_i915_gem_exec_object, struct_drm_i915_gem_execbuffer,
     struct_drm_i915_gem_exec_object2, struct_drm_i915_gem_exec_fence,
     struct_drm_i915_gem_execbuffer_ext_timeline_fences, struct_drm_i915_gem_execbuffer2, struct_drm_i915_gem_pin,
     struct_drm_i915_gem_unpin, struct_drm_i915_gem_busy, struct_drm_i915_gem_caching,
     struct_drm_i915_gem_set_tiling, struct_drm_i915_gem_get_tiling, struct_drm_i915_gem_get_aperture,
     struct_drm_i915_get_pipe_from_crtc_id, struct_drm_i915_gem_madvise, struct_drm_intel_overlay_put_image,
     struct_drm_intel_overlay_attrs, struct_drm_intel_sprite_colorkey, struct_drm_i915_gem_wait,
     struct_drm_i915_gem_context_create, struct_drm_i915_gem_context_create_ext, struct_drm_i915_gem_context_param,
     struct_drm_i915_gem_context_param_sseu, struct_i915_context_engines_load_balance,
     struct_i915_context_engines_bond, struct_i915_context_param_engines,
     struct_drm_i915_gem_context_create_ext_setparam, struct_drm_i915_gem_context_destroy,
     struct_drm_i915_gem_vm_control, struct_drm_i915_reg_read, struct_drm_i915_reset_stats,
     struct_drm_i915_gem_userptr, struct_drm_i915_perf_open_param, struct_drm_i915_perf_record_header,
     struct_drm_i915_perf_oa_config, struct_drm_i915_query_item, struct_drm_i915_query,
     struct_drm_i915_query_topology_info, struct_drm_i915_engine_info, struct_drm_i915_query_engine_info,
     struct_drm_i915_gem_memory_class_instance, struct_drm_i915_memory_region_info,
     struct_drm_i915_query_memory_regions, struct_drm_i915_gem_create_ext,
     struct_drm_i915_gem_create_ext_memory_regions]"

section \<open>Properties\<close>

lemma i915_table_8_8: "table_ok 8 (i915_requests 8)"
  by code_simp

lemma i915_table_8_4: "table_ok 8 (i915_requests 4)"
  by code_simp

lemma i915_table_4_4: "table_ok 4 (i915_requests 4)"
  by code_simp

lemma i915_table_2_4: "table_ok 2 (i915_requests 4)"
  by code_simp

lemmas i915_tables = i915_table_8_8 i915_table_8_4 i915_table_4_4 i915_table_2_4

lemma i915_interface:
  assumes "(amax, w) \<in> set abis"
  shows "ioctl_interface amax (i915_requests w)"
  using assms i915_tables [THEN table_interface] by (auto simp add: abis_def)

interpretation i915_kernel: ioctl_interface 8 "i915_requests 8"
  by (rule i915_tables(1) [THEN table_interface])

interpretation i915_i386: ioctl_compat 4 "i915_requests 4" "i915_requests 8" i915_changed
proof (intro ioctl_compat.intro ioctl_compat_axioms.intro)
  show "ioctl_interface 8 (i915_requests 8)" by (rule i915_tables(1) [THEN table_interface])
  show "ioctl_interface 4 (i915_requests 4)" by (rule i915_tables(3) [THEN table_interface])
  show "list_all2 (\<lambda>r q. (req_key 4 r = req_key 8 q) \<noteq> (q \<in> set i915_changed)) (i915_requests 4) (i915_requests 8)"
    by code_simp
  show "list_all2 (\<lambda>r q. agree 4 (req_arg q) \<or> q \<in> set i915_changed \<or> r \<noteq> q) (i915_requests 4) (i915_requests 8)"
    by code_simp
qed

text \<open>
  The requests of the Intel driver have different numbers on every ABI and layout of request numbers, although
  several share direction and number and differ in their argument only; the size that the kernel decodes is the
  size of the argument.
\<close>

theorem i915_requests_decoded:
  assumes "(amax, w) \<in> set abis" "L \<in> ioc_layouts" "32 \<le> LENGTH('l)"
  shows "distinct (map (request_number L amax) (i915_requests w) :: 'l::len word list) \<and>
    list_all (\<lambda>r. IOC_SIZE L (request_number L amax r :: 'l word) = word_of_nat (sizeof amax (req_arg r)))
      (i915_requests w)"
  using i915_interface [OF assms(1)] assms(2,3) by (rule ioctl_interface.sound)

theorem i915_requests_decoded_witness:
  "distinct (map (request_number generic_ioc 8) (i915_requests 8) :: u32 list) \<and>
    list_all (\<lambda>r. IOC_SIZE generic_ioc (request_number generic_ioc 8 r :: u32) = word_of_nat (sizeof 8 (req_arg r)))
      (i915_requests 8)"
  by (rule i915_requests_decoded) (simp_all add: abis_def ioc_layouts_def)

text \<open>
  An i386 program uses the numbers of the 64-bit kernel for the requests of the Intel driver, except for the
  five of \<open>i915_changed\<close>, all of the time before GEM; the kernel finds every
  member of the other arguments without pointers where the program put it.
\<close>

theorem i915_compat_requests:
  assumes "L \<in> ioc_layouts" "32 \<le> LENGTH('l)"
  shows "list_all2 (\<lambda>r q. ((request_number L 4 r :: 'l::len word) = request_number L 8 q) \<noteq> (q \<in> set i915_changed))
      (i915_requests 4) (i915_requests 8) \<and>
    list_all2 (\<lambda>r q. r = q \<longrightarrow> q \<notin> set i915_changed \<longrightarrow>
        leaves 4 0 (req_arg q) = leaves 8 0 (req_arg q)) (i915_requests 4) (i915_requests 8)"
  using i915_i386.reached [OF assms] i915_i386.passed by blast

theorem i915_compat_requests_witness:
  "list_all2 (\<lambda>r q. ((request_number generic_ioc 4 r :: u32) = request_number generic_ioc 8 q) \<noteq> (q \<in> set i915_changed))
    (i915_requests 4) (i915_requests 8)"
  using i915_compat_requests [of generic_ioc, where ?'l = 32] by (simp add: ioc_layouts_def)

lemma i915_all_tight: "list_all tight i915_tight"
  by code_simp

text \<open>
  The structures of the Intel driver without implicit padding are laid out alike, member by member, by every ABI,
  and each of their bytes belongs to a member.
\<close>

theorem i915_layout:
  assumes "t \<in> set i915_tight"
  shows "same_everywhere t \<and> covered (leaves 8 0 t) 0 (sizeof 8 t)"
  using i915_all_tight assms by (rule tight_types)

theorem i915_layout_witness: "same_everywhere struct_drm_i915_gem_execbuffer2 \<and> covered (leaves 8 0 struct_drm_i915_gem_execbuffer2) 0 (sizeof 8 struct_drm_i915_gem_execbuffer2)"
  by (rule i915_layout) (simp add: i915_tight_def)

end
