(* ===== verification/Abi_Amdgpu.thy ===== *)
theory Abi_Amdgpu
  imports Abi_Drm
begin

text \<open>
  The interface of the AMD graphics driver, \<^verbatim>\<open>include/drm/amdgpu_drm.h\<close>.
\<close>

section \<open>Structures\<close>

definition struct_drm_amdgpu_gem_create_in :: ctype where
  "struct_drm_amdgpu_gem_create_in = c_struct [
     (''bo_size'', u64_t),
     (''alignment'', u64_t),
     (''domains'', u64_t),
     (''domain_flags'', u64_t)]"

definition struct_drm_amdgpu_gem_create_out :: ctype where
  "struct_drm_amdgpu_gem_create_out = c_struct [
     (''handle'', u32_t),
     (''_pad'', u32_t)]"

definition union_drm_amdgpu_gem_create :: ctype where
  "union_drm_amdgpu_gem_create = c_union [
     (''in'', struct_drm_amdgpu_gem_create_in),
     (''out'', struct_drm_amdgpu_gem_create_out)]"

definition struct_drm_amdgpu_bo_list_in :: ctype where
  "struct_drm_amdgpu_bo_list_in = c_struct [
     (''operation'', u32_t),
     (''list_handle'', u32_t),
     (''bo_number'', u32_t),
     (''bo_info_size'', u32_t),
     (''bo_info_ptr'', u64_t)]"

definition struct_drm_amdgpu_bo_list_entry :: ctype where
  "struct_drm_amdgpu_bo_list_entry = c_struct [
     (''bo_handle'', u32_t),
     (''bo_priority'', u32_t)]"

definition struct_drm_amdgpu_bo_list_out :: ctype where
  "struct_drm_amdgpu_bo_list_out = c_struct [
     (''list_handle'', u32_t),
     (''_pad'', u32_t)]"

definition union_drm_amdgpu_bo_list :: ctype where
  "union_drm_amdgpu_bo_list = c_union [
     (''in'', struct_drm_amdgpu_bo_list_in),
     (''out'', struct_drm_amdgpu_bo_list_out)]"

definition struct_drm_amdgpu_ctx_in :: ctype where
  "struct_drm_amdgpu_ctx_in = c_struct [
     (''op'', u32_t),
     (''flags'', u32_t),
     (''ctx_id'', u32_t),
     (''priority'', u32_t)]"

definition union_drm_amdgpu_ctx_out :: ctype where
  "union_drm_amdgpu_ctx_out = c_union [
     (''alloc'', c_struct [ (''ctx_id'', u32_t), (''_pad'', u32_t)]),
     (''state'', c_struct [ (''flags'', u64_t), (''hangs'', u32_t), (''reset_status'', u32_t)])]"

definition union_drm_amdgpu_ctx :: ctype where
  "union_drm_amdgpu_ctx = c_union [
     (''in'', struct_drm_amdgpu_ctx_in),
     (''out'', union_drm_amdgpu_ctx_out)]"

definition struct_drm_amdgpu_vm_in :: ctype where
  "struct_drm_amdgpu_vm_in = c_struct [
     (''op'', u32_t),
     (''flags'', u32_t)]"

definition struct_drm_amdgpu_vm_out :: ctype where
  "struct_drm_amdgpu_vm_out = c_struct [
     (''flags'', u64_t)]"

definition union_drm_amdgpu_vm :: ctype where
  "union_drm_amdgpu_vm = c_union [
     (''in'', struct_drm_amdgpu_vm_in),
     (''out'', struct_drm_amdgpu_vm_out)]"

definition struct_drm_amdgpu_sched_in :: ctype where
  "struct_drm_amdgpu_sched_in = c_struct [
     (''op'', u32_t),
     (''fd'', u32_t),
     (''priority'', u32_t),
     (''ctx_id'', u32_t)]"

definition union_drm_amdgpu_sched :: ctype where
  "union_drm_amdgpu_sched = c_union [
     (''in'', struct_drm_amdgpu_sched_in)]"

definition struct_drm_amdgpu_gem_userptr :: ctype where
  "struct_drm_amdgpu_gem_userptr = c_struct [
     (''addr'', u64_t),
     (''size'', u64_t),
     (''flags'', u32_t),
     (''handle'', u32_t)]"

definition struct_drm_amdgpu_gem_metadata :: ctype where
  "struct_drm_amdgpu_gem_metadata = c_struct [
     (''handle'', u32_t),
     (''op'', u32_t),
     (''data'', c_struct [ (''flags'', u64_t), (''tiling_info'', u64_t), (''data_size_bytes'', u32_t), (''data'', Arr u32_t 64)])]"

definition struct_drm_amdgpu_gem_mmap_in :: ctype where
  "struct_drm_amdgpu_gem_mmap_in = c_struct [
     (''handle'', u32_t),
     (''_pad'', u32_t)]"

definition struct_drm_amdgpu_gem_mmap_out :: ctype where
  "struct_drm_amdgpu_gem_mmap_out = c_struct [
     (''addr_ptr'', u64_t)]"

definition union_drm_amdgpu_gem_mmap :: ctype where
  "union_drm_amdgpu_gem_mmap = c_union [
     (''in'', struct_drm_amdgpu_gem_mmap_in),
     (''out'', struct_drm_amdgpu_gem_mmap_out)]"

definition struct_drm_amdgpu_gem_wait_idle_in :: ctype where
  "struct_drm_amdgpu_gem_wait_idle_in = c_struct [
     (''handle'', u32_t),
     (''flags'', u32_t),
     (''timeout'', u64_t)]"

definition struct_drm_amdgpu_gem_wait_idle_out :: ctype where
  "struct_drm_amdgpu_gem_wait_idle_out = c_struct [
     (''status'', u32_t),
     (''domain'', u32_t)]"

definition union_drm_amdgpu_gem_wait_idle :: ctype where
  "union_drm_amdgpu_gem_wait_idle = c_union [
     (''in'', struct_drm_amdgpu_gem_wait_idle_in),
     (''out'', struct_drm_amdgpu_gem_wait_idle_out)]"

definition struct_drm_amdgpu_wait_cs_in :: ctype where
  "struct_drm_amdgpu_wait_cs_in = c_struct [
     (''handle'', u64_t),
     (''timeout'', u64_t),
     (''ip_type'', u32_t),
     (''ip_instance'', u32_t),
     (''ring'', u32_t),
     (''ctx_id'', u32_t)]"

definition struct_drm_amdgpu_wait_cs_out :: ctype where
  "struct_drm_amdgpu_wait_cs_out = c_struct [
     (''status'', u64_t)]"

definition union_drm_amdgpu_wait_cs :: ctype where
  "union_drm_amdgpu_wait_cs = c_union [
     (''in'', struct_drm_amdgpu_wait_cs_in),
     (''out'', struct_drm_amdgpu_wait_cs_out)]"

definition struct_drm_amdgpu_fence :: ctype where
  "struct_drm_amdgpu_fence = c_struct [
     (''ctx_id'', u32_t),
     (''ip_type'', u32_t),
     (''ip_instance'', u32_t),
     (''ring'', u32_t),
     (''seq_no'', u64_t)]"

definition struct_drm_amdgpu_wait_fences_in :: ctype where
  "struct_drm_amdgpu_wait_fences_in = c_struct [
     (''fences'', u64_t),
     (''fence_count'', u32_t),
     (''wait_all'', u32_t),
     (''timeout_ns'', u64_t)]"

definition struct_drm_amdgpu_wait_fences_out :: ctype where
  "struct_drm_amdgpu_wait_fences_out = c_struct [
     (''status'', u32_t),
     (''first_signaled'', u32_t)]"

definition union_drm_amdgpu_wait_fences :: ctype where
  "union_drm_amdgpu_wait_fences = c_union [
     (''in'', struct_drm_amdgpu_wait_fences_in),
     (''out'', struct_drm_amdgpu_wait_fences_out)]"

definition struct_drm_amdgpu_gem_op :: ctype where
  "struct_drm_amdgpu_gem_op = c_struct [
     (''handle'', u32_t),
     (''op'', u32_t),
     (''value'', u64_t)]"

definition struct_drm_amdgpu_gem_va :: ctype where
  "struct_drm_amdgpu_gem_va = c_struct [
     (''handle'', u32_t),
     (''_pad'', u32_t),
     (''operation'', u32_t),
     (''flags'', u32_t),
     (''va_address'', u64_t),
     (''offset_in_bo'', u64_t),
     (''map_size'', u64_t)]"

definition struct_drm_amdgpu_cs_chunk :: ctype where
  "struct_drm_amdgpu_cs_chunk = c_struct [
     (''chunk_id'', u32_t),
     (''length_dw'', u32_t),
     (''chunk_data'', u64_t)]"

definition struct_drm_amdgpu_cs_in :: ctype where
  "struct_drm_amdgpu_cs_in = c_struct [
     (''ctx_id'', u32_t),
     (''bo_list_handle'', u32_t),
     (''num_chunks'', u32_t),
     (''flags'', u32_t),
     (''chunks'', u64_t)]"

definition struct_drm_amdgpu_cs_out :: ctype where
  "struct_drm_amdgpu_cs_out = c_struct [
     (''handle'', u64_t)]"

definition union_drm_amdgpu_cs :: ctype where
  "union_drm_amdgpu_cs = c_union [
     (''in'', struct_drm_amdgpu_cs_in),
     (''out'', struct_drm_amdgpu_cs_out)]"

definition struct_drm_amdgpu_cs_chunk_ib :: ctype where
  "struct_drm_amdgpu_cs_chunk_ib = c_struct [
     (''_pad'', u32_t),
     (''flags'', u32_t),
     (''va_start'', u64_t),
     (''ib_bytes'', u32_t),
     (''ip_type'', u32_t),
     (''ip_instance'', u32_t),
     (''ring'', u32_t)]"

definition struct_drm_amdgpu_cs_chunk_dep :: ctype where
  "struct_drm_amdgpu_cs_chunk_dep = c_struct [
     (''ip_type'', u32_t),
     (''ip_instance'', u32_t),
     (''ring'', u32_t),
     (''ctx_id'', u32_t),
     (''handle'', u64_t)]"

definition struct_drm_amdgpu_cs_chunk_fence :: ctype where
  "struct_drm_amdgpu_cs_chunk_fence = c_struct [
     (''handle'', u32_t),
     (''offset'', u32_t)]"

definition struct_drm_amdgpu_cs_chunk_sem :: ctype where
  "struct_drm_amdgpu_cs_chunk_sem = c_struct [
     (''handle'', u32_t)]"

definition struct_drm_amdgpu_cs_chunk_syncobj :: ctype where
  "struct_drm_amdgpu_cs_chunk_syncobj = c_struct [
     (''handle'', u32_t),
     (''flags'', u32_t),
     (''point'', u64_t)]"

definition union_drm_amdgpu_fence_to_handle :: ctype where
  "union_drm_amdgpu_fence_to_handle = c_union [
     (''in'', c_struct [ (''fence'', struct_drm_amdgpu_fence), (''what'', u32_t), (''pad'', u32_t)]),
     (''out'', c_struct [ (''handle'', u32_t)])]"

definition struct_drm_amdgpu_cs_chunk_data :: ctype where
  "struct_drm_amdgpu_cs_chunk_data = c_struct [
     ('''', c_union [ (''ib_data'', struct_drm_amdgpu_cs_chunk_ib), (''fence_data'', struct_drm_amdgpu_cs_chunk_fence)])]"

definition struct_drm_amdgpu_query_fw :: ctype where
  "struct_drm_amdgpu_query_fw = c_struct [
     (''fw_type'', u32_t),
     (''ip_instance'', u32_t),
     (''index'', u32_t),
     (''_pad'', u32_t)]"

definition struct_drm_amdgpu_info :: ctype where
  "struct_drm_amdgpu_info = c_struct [
     (''return_pointer'', u64_t),
     (''return_size'', u32_t),
     (''query'', u32_t),
     ('''', c_union [ (''mode_crtc'', c_struct [ (''id'', u32_t), (''_pad'', u32_t)]), (''query_hw_ip'', c_struct [ (''type'', u32_t), (''ip_instance'', u32_t)]), (''read_mmr_reg'', c_struct [ (''dword_offset'', u32_t), (''count'', u32_t), (''instance'', u32_t), (''flags'', u32_t)]), (''query_fw'', struct_drm_amdgpu_query_fw), (''vbios_info'', c_struct [ (''type'', u32_t), (''offset'', u32_t)]), (''sensor_info'', c_struct [ (''type'', u32_t)]), (''video_cap'', c_struct [ (''type'', u32_t)])])]"

definition struct_drm_amdgpu_info_gds :: ctype where
  "struct_drm_amdgpu_info_gds = c_struct [
     (''gds_gfx_partition_size'', u32_t),
     (''compute_partition_size'', u32_t),
     (''gds_total_size'', u32_t),
     (''gws_per_gfx_partition'', u32_t),
     (''gws_per_compute_partition'', u32_t),
     (''oa_per_gfx_partition'', u32_t),
     (''oa_per_compute_partition'', u32_t),
     (''_pad'', u32_t)]"

definition struct_drm_amdgpu_info_vram_gtt :: ctype where
  "struct_drm_amdgpu_info_vram_gtt = c_struct [
     (''vram_size'', u64_t),
     (''vram_cpu_accessible_size'', u64_t),
     (''gtt_size'', u64_t)]"

definition struct_drm_amdgpu_heap_info :: ctype where
  "struct_drm_amdgpu_heap_info = c_struct [
     (''total_heap_size'', u64_t),
     (''usable_heap_size'', u64_t),
     (''heap_usage'', u64_t),
     (''max_allocation'', u64_t)]"

definition struct_drm_amdgpu_memory_info :: ctype where
  "struct_drm_amdgpu_memory_info = c_struct [
     (''vram'', struct_drm_amdgpu_heap_info),
     (''cpu_accessible_vram'', struct_drm_amdgpu_heap_info),
     (''gtt'', struct_drm_amdgpu_heap_info)]"

definition struct_drm_amdgpu_info_firmware :: ctype where
  "struct_drm_amdgpu_info_firmware = c_struct [
     (''ver'', u32_t),
     (''feature'', u32_t)]"

definition struct_drm_amdgpu_info_vbios :: ctype where
  "struct_drm_amdgpu_info_vbios = c_struct [
     (''name'', Arr u8_t 64),
     (''vbios_pn'', Arr u8_t 64),
     (''version'', u32_t),
     (''pad'', u32_t),
     (''vbios_ver_str'', Arr u8_t 32),
     (''date'', Arr u8_t 32)]"

definition struct_drm_amdgpu_info_device :: ctype where
  "struct_drm_amdgpu_info_device = c_struct [
     (''device_id'', u32_t),
     (''chip_rev'', u32_t),
     (''external_rev'', u32_t),
     (''pci_rev'', u32_t),
     (''family'', u32_t),
     (''num_shader_engines'', u32_t),
     (''num_shader_arrays_per_engine'', u32_t),
     (''gpu_counter_freq'', u32_t),
     (''max_engine_clock'', u64_t),
     (''max_memory_clock'', u64_t),
     (''cu_active_number'', u32_t),
     (''cu_ao_mask'', u32_t),
     (''cu_bitmap'', Arr (Arr u32_t 4) 4),
     (''enabled_rb_pipes_mask'', u32_t),
     (''num_rb_pipes'', u32_t),
     (''num_hw_gfx_contexts'', u32_t),
     (''_pad'', u32_t),
     (''ids_flags'', u64_t),
     (''virtual_address_offset'', u64_t),
     (''virtual_address_max'', u64_t),
     (''virtual_address_alignment'', u32_t),
     (''pte_fragment_size'', u32_t),
     (''gart_page_size'', u32_t),
     (''ce_ram_size'', u32_t),
     (''vram_type'', u32_t),
     (''vram_bit_width'', u32_t),
     (''vce_harvest_config'', u32_t),
     (''gc_double_offchip_lds_buf'', u32_t),
     (''prim_buf_gpu_addr'', u64_t),
     (''pos_buf_gpu_addr'', u64_t),
     (''cntl_sb_buf_gpu_addr'', u64_t),
     (''param_buf_gpu_addr'', u64_t),
     (''prim_buf_size'', u32_t),
     (''pos_buf_size'', u32_t),
     (''cntl_sb_buf_size'', u32_t),
     (''param_buf_size'', u32_t),
     (''wave_front_size'', u32_t),
     (''num_shader_visible_vgprs'', u32_t),
     (''num_cu_per_sh'', u32_t),
     (''num_tcc_blocks'', u32_t),
     (''gs_vgt_table_depth'', u32_t),
     (''gs_prim_buffer_depth'', u32_t),
     (''max_gs_waves_per_vgt'', u32_t),
     (''_pad1'', u32_t),
     (''cu_ao_bitmap'', Arr (Arr u32_t 4) 4),
     (''high_va_offset'', u64_t),
     (''high_va_max'', u64_t),
     (''pa_sc_tile_steering_override'', u32_t),
     (''tcc_disabled_mask'', u64_t)]"

definition struct_drm_amdgpu_info_hw_ip :: ctype where
  "struct_drm_amdgpu_info_hw_ip = c_struct [
     (''hw_ip_version_major'', u32_t),
     (''hw_ip_version_minor'', u32_t),
     (''capabilities_flags'', u64_t),
     (''ib_start_alignment'', u32_t),
     (''ib_size_alignment'', u32_t),
     (''available_rings'', u32_t),
     (''_pad'', u32_t)]"

definition struct_drm_amdgpu_info_num_handles :: ctype where
  "struct_drm_amdgpu_info_num_handles = c_struct [
     (''uvd_max_handles'', u32_t),
     (''uvd_used_handles'', u32_t)]"

definition struct_drm_amdgpu_info_vce_clock_table_entry :: ctype where
  "struct_drm_amdgpu_info_vce_clock_table_entry = c_struct [
     (''sclk'', u32_t),
     (''mclk'', u32_t),
     (''eclk'', u32_t),
     (''pad'', u32_t)]"

definition struct_drm_amdgpu_info_vce_clock_table :: ctype where
  "struct_drm_amdgpu_info_vce_clock_table = c_struct [
     (''entries'', Arr struct_drm_amdgpu_info_vce_clock_table_entry 6),
     (''num_valid_entries'', u32_t),
     (''pad'', u32_t)]"

definition struct_drm_amdgpu_info_video_codec_info :: ctype where
  "struct_drm_amdgpu_info_video_codec_info = c_struct [
     (''valid'', u32_t),
     (''max_width'', u32_t),
     (''max_height'', u32_t),
     (''max_pixels_per_frame'', u32_t),
     (''max_level'', u32_t),
     (''pad'', u32_t)]"

definition struct_drm_amdgpu_info_video_caps :: ctype where
  "struct_drm_amdgpu_info_video_caps = c_struct [
     (''codec_info'', Arr struct_drm_amdgpu_info_video_codec_info 8)]"

section \<open>Requests\<close>

definition DRM_IOCTL_AMDGPU_GEM_CREATE :: request where
  "DRM_IOCTL_AMDGPU_GEM_CREATE = IOWR_req DRM_IOCTL_BASE 64 union_drm_amdgpu_gem_create"

definition DRM_IOCTL_AMDGPU_GEM_MMAP :: request where
  "DRM_IOCTL_AMDGPU_GEM_MMAP = IOWR_req DRM_IOCTL_BASE 65 union_drm_amdgpu_gem_mmap"

definition DRM_IOCTL_AMDGPU_CTX :: request where
  "DRM_IOCTL_AMDGPU_CTX = IOWR_req DRM_IOCTL_BASE 66 union_drm_amdgpu_ctx"

definition DRM_IOCTL_AMDGPU_BO_LIST :: request where
  "DRM_IOCTL_AMDGPU_BO_LIST = IOWR_req DRM_IOCTL_BASE 67 union_drm_amdgpu_bo_list"

definition DRM_IOCTL_AMDGPU_CS :: request where
  "DRM_IOCTL_AMDGPU_CS = IOWR_req DRM_IOCTL_BASE 68 union_drm_amdgpu_cs"

definition DRM_IOCTL_AMDGPU_INFO :: request where
  "DRM_IOCTL_AMDGPU_INFO = IOW_req DRM_IOCTL_BASE 69 struct_drm_amdgpu_info"

definition DRM_IOCTL_AMDGPU_GEM_METADATA :: request where
  "DRM_IOCTL_AMDGPU_GEM_METADATA = IOWR_req DRM_IOCTL_BASE 70 struct_drm_amdgpu_gem_metadata"

definition DRM_IOCTL_AMDGPU_GEM_WAIT_IDLE :: request where
  "DRM_IOCTL_AMDGPU_GEM_WAIT_IDLE = IOWR_req DRM_IOCTL_BASE 71 union_drm_amdgpu_gem_wait_idle"

definition DRM_IOCTL_AMDGPU_GEM_VA :: request where
  "DRM_IOCTL_AMDGPU_GEM_VA = IOW_req DRM_IOCTL_BASE 72 struct_drm_amdgpu_gem_va"

definition DRM_IOCTL_AMDGPU_WAIT_CS :: request where
  "DRM_IOCTL_AMDGPU_WAIT_CS = IOWR_req DRM_IOCTL_BASE 73 union_drm_amdgpu_wait_cs"

definition DRM_IOCTL_AMDGPU_GEM_OP :: request where
  "DRM_IOCTL_AMDGPU_GEM_OP = IOWR_req DRM_IOCTL_BASE 80 struct_drm_amdgpu_gem_op"

definition DRM_IOCTL_AMDGPU_GEM_USERPTR :: request where
  "DRM_IOCTL_AMDGPU_GEM_USERPTR = IOWR_req DRM_IOCTL_BASE 81 struct_drm_amdgpu_gem_userptr"

definition DRM_IOCTL_AMDGPU_WAIT_FENCES :: request where
  "DRM_IOCTL_AMDGPU_WAIT_FENCES = IOWR_req DRM_IOCTL_BASE 82 union_drm_amdgpu_wait_fences"

definition DRM_IOCTL_AMDGPU_VM :: request where
  "DRM_IOCTL_AMDGPU_VM = IOWR_req DRM_IOCTL_BASE 83 union_drm_amdgpu_vm"

definition DRM_IOCTL_AMDGPU_FENCE_TO_HANDLE :: request where
  "DRM_IOCTL_AMDGPU_FENCE_TO_HANDLE = IOWR_req DRM_IOCTL_BASE 84 union_drm_amdgpu_fence_to_handle"

definition DRM_IOCTL_AMDGPU_SCHED :: request where
  "DRM_IOCTL_AMDGPU_SCHED = IOW_req DRM_IOCTL_BASE 85 union_drm_amdgpu_sched"

definition amdgpu_requests :: "request list" where
  "amdgpu_requests = [DRM_IOCTL_AMDGPU_GEM_CREATE, DRM_IOCTL_AMDGPU_GEM_MMAP, DRM_IOCTL_AMDGPU_CTX, DRM_IOCTL_AMDGPU_BO_LIST,
     DRM_IOCTL_AMDGPU_CS, DRM_IOCTL_AMDGPU_INFO, DRM_IOCTL_AMDGPU_GEM_METADATA, DRM_IOCTL_AMDGPU_GEM_WAIT_IDLE,
     DRM_IOCTL_AMDGPU_GEM_VA, DRM_IOCTL_AMDGPU_WAIT_CS, DRM_IOCTL_AMDGPU_GEM_OP, DRM_IOCTL_AMDGPU_GEM_USERPTR,
     DRM_IOCTL_AMDGPU_WAIT_FENCES, DRM_IOCTL_AMDGPU_VM, DRM_IOCTL_AMDGPU_FENCE_TO_HANDLE, DRM_IOCTL_AMDGPU_SCHED]"

text \<open>The requests whose number on i386 is not that of a 64-bit kernel.\<close>

definition amdgpu_changed :: "request list" where
  "amdgpu_changed = [DRM_IOCTL_AMDGPU_GEM_METADATA]"

text \<open>The structures without padding.\<close>

definition amdgpu_tight :: "ctype list" where
  "amdgpu_tight = [struct_drm_amdgpu_gem_create_in, struct_drm_amdgpu_gem_create_out, union_drm_amdgpu_gem_create,
     struct_drm_amdgpu_bo_list_in, struct_drm_amdgpu_bo_list_entry, struct_drm_amdgpu_bo_list_out,
     union_drm_amdgpu_bo_list, struct_drm_amdgpu_ctx_in, union_drm_amdgpu_ctx_out, union_drm_amdgpu_ctx,
     struct_drm_amdgpu_vm_in, struct_drm_amdgpu_vm_out, union_drm_amdgpu_vm, struct_drm_amdgpu_sched_in,
     union_drm_amdgpu_sched, struct_drm_amdgpu_gem_userptr, struct_drm_amdgpu_gem_mmap_in,
     struct_drm_amdgpu_gem_mmap_out, union_drm_amdgpu_gem_mmap, struct_drm_amdgpu_gem_wait_idle_in,
     struct_drm_amdgpu_gem_wait_idle_out, union_drm_amdgpu_gem_wait_idle, struct_drm_amdgpu_wait_cs_in,
     struct_drm_amdgpu_wait_cs_out, union_drm_amdgpu_wait_cs, struct_drm_amdgpu_fence,
     struct_drm_amdgpu_wait_fences_in, struct_drm_amdgpu_wait_fences_out, union_drm_amdgpu_wait_fences,
     struct_drm_amdgpu_gem_op, struct_drm_amdgpu_gem_va, struct_drm_amdgpu_cs_chunk, struct_drm_amdgpu_cs_in,
     struct_drm_amdgpu_cs_out, union_drm_amdgpu_cs, struct_drm_amdgpu_cs_chunk_ib, struct_drm_amdgpu_cs_chunk_dep,
     struct_drm_amdgpu_cs_chunk_fence, struct_drm_amdgpu_cs_chunk_sem, struct_drm_amdgpu_cs_chunk_syncobj,
     union_drm_amdgpu_fence_to_handle, struct_drm_amdgpu_cs_chunk_data, struct_drm_amdgpu_query_fw,
     struct_drm_amdgpu_info, struct_drm_amdgpu_info_gds, struct_drm_amdgpu_info_vram_gtt,
     struct_drm_amdgpu_heap_info, struct_drm_amdgpu_memory_info, struct_drm_amdgpu_info_firmware,
     struct_drm_amdgpu_info_vbios, struct_drm_amdgpu_info_hw_ip, struct_drm_amdgpu_info_num_handles,
     struct_drm_amdgpu_info_vce_clock_table_entry, struct_drm_amdgpu_info_vce_clock_table,
     struct_drm_amdgpu_info_video_codec_info, struct_drm_amdgpu_info_video_caps]"

section \<open>Properties\<close>

lemma amdgpu_table_8_8: "table_ok 8 amdgpu_requests"
  by code_simp

lemma amdgpu_table_4_4: "table_ok 4 amdgpu_requests"
  by code_simp

lemma amdgpu_table_2_4: "table_ok 2 amdgpu_requests"
  by code_simp

lemmas amdgpu_tables = amdgpu_table_8_8 amdgpu_table_4_4 amdgpu_table_2_4

lemma amdgpu_interface:
  assumes "amax \<in> {2, 4, 8}"
  shows "ioctl_interface amax amdgpu_requests"
  using assms amdgpu_tables [THEN table_interface] by auto

interpretation amdgpu_kernel: ioctl_interface 8 amdgpu_requests
  by (rule amdgpu_tables(1) [THEN table_interface])

interpretation amdgpu_i386: ioctl_compat 4 amdgpu_requests amdgpu_requests amdgpu_changed
proof (intro ioctl_compat.intro ioctl_compat_axioms.intro)
  show "ioctl_interface 8 amdgpu_requests" by (rule amdgpu_tables(1) [THEN table_interface])
  show "ioctl_interface 4 amdgpu_requests" by (rule amdgpu_tables(2) [THEN table_interface])
  show "list_all2 (\<lambda>r q. (req_key 4 r = req_key 8 q) \<noteq> (q \<in> set amdgpu_changed)) amdgpu_requests amdgpu_requests"
    by code_simp
  show "list_all2 (\<lambda>r q. agree 4 (req_arg q) \<or> q \<in> set amdgpu_changed \<or> r \<noteq> q) amdgpu_requests amdgpu_requests"
    by code_simp
qed

text \<open>
  The requests of the AMD driver have different numbers on every ABI and layout, and decode to the size of
  their argument.
\<close>

theorem amdgpu_requests_decoded:
  assumes "amax \<in> {2, 4, 8}" "L \<in> ioc_layouts" "32 \<le> LENGTH('l)"
  shows "distinct (map (request_number L amax) amdgpu_requests :: 'l::len word list) \<and>
    list_all (\<lambda>r. IOC_SIZE L (request_number L amax r :: 'l word) = word_of_nat (sizeof amax (req_arg r)))
      amdgpu_requests"
  using amdgpu_interface [OF assms(1)] assms(2,3) by (rule ioctl_interface.sound)

theorem amdgpu_requests_decoded_witness:
  "distinct (map (request_number generic_ioc 8) amdgpu_requests :: u32 list) \<and>
    list_all (\<lambda>r. IOC_SIZE generic_ioc (request_number generic_ioc 8 r :: u32) = word_of_nat (sizeof 8 (req_arg r)))
      amdgpu_requests"
  by (rule amdgpu_requests_decoded) (simp_all add: abis_def ioc_layouts_def)

text \<open>
  An i386 program uses the numbers of the 64-bit kernel for the requests of the AMD driver, except for one;
  the kernel finds every member of the other arguments where the program put it.
\<close>

theorem amdgpu_compat_requests:
  assumes "L \<in> ioc_layouts" "32 \<le> LENGTH('l)"
  shows "list_all2 (\<lambda>r q. ((request_number L 4 r :: 'l::len word) = request_number L 8 q) \<noteq> (q \<in> set amdgpu_changed))
      amdgpu_requests amdgpu_requests \<and>
    list_all2 (\<lambda>r q. r = q \<longrightarrow> q \<notin> set amdgpu_changed \<longrightarrow>
        leaves 4 0 (req_arg q) = leaves 8 0 (req_arg q)) amdgpu_requests amdgpu_requests"
  using amdgpu_i386.reached [OF assms] amdgpu_i386.passed by blast

theorem amdgpu_compat_requests_witness:
  "list_all2 (\<lambda>r q. ((request_number generic_ioc 4 r :: u32) = request_number generic_ioc 8 q) \<noteq> (q \<in> set amdgpu_changed))
    amdgpu_requests amdgpu_requests"
  using amdgpu_compat_requests [of generic_ioc, where ?'l = 32] by (simp add: ioc_layouts_def)

lemma amdgpu_all_tight: "list_all tight amdgpu_tight"
  by code_simp

text \<open>
  The structures of the AMD driver without implicit padding are laid out alike by every ABI, and each of their
  bytes belongs to a member.
\<close>

theorem amdgpu_layout:
  assumes "t \<in> set amdgpu_tight"
  shows "same_everywhere t \<and> covered (leaves 8 0 t) 0 (sizeof 8 t)"
  using amdgpu_all_tight assms by (rule tight_types)

theorem amdgpu_layout_witness: "same_everywhere union_drm_amdgpu_cs \<and> covered (leaves 8 0 union_drm_amdgpu_cs) 0 (sizeof 8 union_drm_amdgpu_cs)"
  by (rule amdgpu_layout) (simp add: amdgpu_tight_def)

end
