(* ===== verification/Abi_Kvm.thy ===== *)
theory Abi_Kvm
  imports Abi_Request
begin

text \<open>
  The structures of the virtual machine interface, \<^verbatim>\<open>include/linux/kvm.h\<close>, on x86: \<^verbatim>\<open>arch/x86/asm/kvm.h\<close> provides
  the structures of the architecture, and selects the conditional parts of the common header. The union of
  \<^verbatim>\<open>struct kvm_run\<close>, one member per kind of exit, is a definition of its own.
\<close>

section \<open>Structures of x86\<close>

definition struct_kvm_memory_alias :: ctype where
  "struct_kvm_memory_alias = c_struct [
     (''slot'', u32_t),
     (''flags'', u32_t),
     (''guest_phys_addr'', u64_t),
     (''memory_size'', u64_t),
     (''target_phys_addr'', u64_t)]"

definition struct_kvm_pic_state :: ctype where
  "struct_kvm_pic_state = c_struct [
     (''last_irr'', u8_t),
     (''irr'', u8_t),
     (''imr'', u8_t),
     (''isr'', u8_t),
     (''priority_add'', u8_t),
     (''irq_base'', u8_t),
     (''read_reg_select'', u8_t),
     (''poll'', u8_t),
     (''special_mask'', u8_t),
     (''init_state'', u8_t),
     (''auto_eoi'', u8_t),
     (''rotate_on_auto_eoi'', u8_t),
     (''special_fully_nested_mode'', u8_t),
     (''init4'', u8_t),
     (''elcr'', u8_t),
     (''elcr_mask'', u8_t)]"

definition struct_kvm_ioapic_state :: ctype where
  "struct_kvm_ioapic_state = c_struct [
     (''base_address'', u64_t),
     (''ioregsel'', u32_t),
     (''id'', u32_t),
     (''irr'', u32_t),
     (''pad'', u32_t),
     (''redirtbl'', Arr (c_union [ (''bits'', u64_t), (''fields'', c_struct [ (''vector'', u8_t), (''delivery_mode'', u8_t), (''mask'', u8_t), (''reserved'', Arr u8_t 4), (''dest_id'', u8_t)])]) 24)]"

definition struct_kvm_regs :: ctype where
  "struct_kvm_regs = c_struct [
     (''rax'', u64_t),
     (''rbx'', u64_t),
     (''rcx'', u64_t),
     (''rdx'', u64_t),
     (''rsi'', u64_t),
     (''rdi'', u64_t),
     (''rsp'', u64_t),
     (''rbp'', u64_t),
     (''r8'', u64_t),
     (''r9'', u64_t),
     (''r10'', u64_t),
     (''r11'', u64_t),
     (''r12'', u64_t),
     (''r13'', u64_t),
     (''r14'', u64_t),
     (''r15'', u64_t),
     (''rip'', u64_t),
     (''rflags'', u64_t)]"

definition struct_kvm_lapic_state :: ctype where
  "struct_kvm_lapic_state = c_struct [
     (''regs'', Arr u8_t 1024)]"

definition struct_kvm_segment :: ctype where
  "struct_kvm_segment = c_struct [
     (''base'', u64_t),
     (''limit'', u32_t),
     (''selector'', u16_t),
     (''type'', u8_t),
     (''present'', u8_t),
     (''dpl'', u8_t),
     (''db'', u8_t),
     (''s'', u8_t),
     (''l'', u8_t),
     (''g'', u8_t),
     (''avl'', u8_t),
     (''unusable'', u8_t),
     (''padding'', u8_t)]"

definition struct_kvm_dtable :: ctype where
  "struct_kvm_dtable = c_struct [
     (''base'', u64_t),
     (''limit'', u16_t),
     (''padding'', Arr u16_t 3)]"

definition struct_kvm_sregs :: ctype where
  "struct_kvm_sregs = c_struct [
     (''cs'', struct_kvm_segment),
     (''ds'', struct_kvm_segment),
     (''es'', struct_kvm_segment),
     (''fs'', struct_kvm_segment),
     (''gs'', struct_kvm_segment),
     (''ss'', struct_kvm_segment),
     (''tr'', struct_kvm_segment),
     (''ldt'', struct_kvm_segment),
     (''gdt'', struct_kvm_dtable),
     (''idt'', struct_kvm_dtable),
     (''cr0'', u64_t),
     (''cr2'', u64_t),
     (''cr3'', u64_t),
     (''cr4'', u64_t),
     (''cr8'', u64_t),
     (''efer'', u64_t),
     (''apic_base'', u64_t),
     (''interrupt_bitmap'', Arr u64_t 4)]"

definition struct_kvm_sregs2 :: ctype where
  "struct_kvm_sregs2 = c_struct [
     (''cs'', struct_kvm_segment),
     (''ds'', struct_kvm_segment),
     (''es'', struct_kvm_segment),
     (''fs'', struct_kvm_segment),
     (''gs'', struct_kvm_segment),
     (''ss'', struct_kvm_segment),
     (''tr'', struct_kvm_segment),
     (''ldt'', struct_kvm_segment),
     (''gdt'', struct_kvm_dtable),
     (''idt'', struct_kvm_dtable),
     (''cr0'', u64_t),
     (''cr2'', u64_t),
     (''cr3'', u64_t),
     (''cr4'', u64_t),
     (''cr8'', u64_t),
     (''efer'', u64_t),
     (''apic_base'', u64_t),
     (''flags'', u64_t),
     (''pdptrs'', Arr u64_t 4)]"

definition struct_kvm_fpu :: ctype where
  "struct_kvm_fpu = c_struct [
     (''fpr'', Arr (Arr u8_t 16) 8),
     (''fcw'', u16_t),
     (''fsw'', u16_t),
     (''ftwx'', u8_t),
     (''pad1'', u8_t),
     (''last_opcode'', u16_t),
     (''last_ip'', u64_t),
     (''last_dp'', u64_t),
     (''xmm'', Arr (Arr u8_t 16) 16),
     (''mxcsr'', u32_t),
     (''pad2'', u32_t)]"

definition struct_kvm_msr_entry :: ctype where
  "struct_kvm_msr_entry = c_struct [
     (''index'', u32_t),
     (''reserved'', u32_t),
     (''data'', u64_t)]"

definition struct_kvm_msrs :: ctype where
  "struct_kvm_msrs = c_struct [
     (''nmsrs'', u32_t),
     (''pad'', u32_t),
     (''entries'', Arr struct_kvm_msr_entry 0)]"

definition struct_kvm_msr_list :: ctype where
  "struct_kvm_msr_list = c_struct [
     (''nmsrs'', u32_t),
     (''indices'', Arr u32_t 0)]"

definition struct_kvm_msr_filter_range :: "nat \<Rightarrow> ctype" where
  "struct_kvm_msr_filter_range w = c_struct [
     (''flags'', u32_t),
     (''nmsrs'', u32_t),
     (''base'', u32_t),
     (''bitmap'', ptr_t w)]"

definition struct_kvm_msr_filter :: "nat \<Rightarrow> ctype" where
  "struct_kvm_msr_filter w = c_struct [
     (''flags'', u32_t),
     (''ranges'', Arr (struct_kvm_msr_filter_range w) 16)]"

definition struct_kvm_cpuid_entry :: ctype where
  "struct_kvm_cpuid_entry = c_struct [
     (''function'', u32_t),
     (''eax'', u32_t),
     (''ebx'', u32_t),
     (''ecx'', u32_t),
     (''edx'', u32_t),
     (''padding'', u32_t)]"

definition struct_kvm_cpuid :: ctype where
  "struct_kvm_cpuid = c_struct [
     (''nent'', u32_t),
     (''padding'', u32_t),
     (''entries'', Arr struct_kvm_cpuid_entry 0)]"

definition struct_kvm_cpuid_entry2 :: ctype where
  "struct_kvm_cpuid_entry2 = c_struct [
     (''function'', u32_t),
     (''index'', u32_t),
     (''flags'', u32_t),
     (''eax'', u32_t),
     (''ebx'', u32_t),
     (''ecx'', u32_t),
     (''edx'', u32_t),
     (''padding'', Arr u32_t 3)]"

definition struct_kvm_cpuid2 :: ctype where
  "struct_kvm_cpuid2 = c_struct [
     (''nent'', u32_t),
     (''padding'', u32_t),
     (''entries'', Arr struct_kvm_cpuid_entry2 0)]"

definition struct_kvm_pit_channel_state :: ctype where
  "struct_kvm_pit_channel_state = c_struct [
     (''count'', u32_t),
     (''latched_count'', u16_t),
     (''count_latched'', u8_t),
     (''status_latched'', u8_t),
     (''status'', u8_t),
     (''read_state'', u8_t),
     (''write_state'', u8_t),
     (''write_latch'', u8_t),
     (''rw_mode'', u8_t),
     (''mode'', u8_t),
     (''bcd'', u8_t),
     (''gate'', u8_t),
     (''count_load_time'', u64_t)]"

definition struct_kvm_debug_exit_arch :: ctype where
  "struct_kvm_debug_exit_arch = c_struct [
     (''exception'', u32_t),
     (''pad'', u32_t),
     (''pc'', u64_t),
     (''dr6'', u64_t),
     (''dr7'', u64_t)]"

definition struct_kvm_guest_debug_arch :: ctype where
  "struct_kvm_guest_debug_arch = c_struct [
     (''debugreg'', Arr u64_t 8)]"

definition struct_kvm_pit_state :: ctype where
  "struct_kvm_pit_state = c_struct [
     (''channels'', Arr struct_kvm_pit_channel_state 3)]"

definition struct_kvm_pit_state2 :: ctype where
  "struct_kvm_pit_state2 = c_struct [
     (''channels'', Arr struct_kvm_pit_channel_state 3),
     (''flags'', u32_t),
     (''reserved'', Arr u32_t 9)]"

definition struct_kvm_reinject_control :: ctype where
  "struct_kvm_reinject_control = c_struct [
     (''pit_reinject'', u8_t),
     (''reserved'', Arr u8_t 31)]"

definition struct_kvm_vcpu_events :: ctype where
  "struct_kvm_vcpu_events = c_struct [
     (''exception'', c_struct [ (''injected'', u8_t), (''nr'', u8_t), (''has_error_code'', u8_t), (''pending'', u8_t), (''error_code'', u32_t)]),
     (''interrupt'', c_struct [ (''injected'', u8_t), (''nr'', u8_t), (''soft'', u8_t), (''shadow'', u8_t)]),
     (''nmi'', c_struct [ (''injected'', u8_t), (''pending'', u8_t), (''masked'', u8_t), (''pad'', u8_t)]),
     (''sipi_vector'', u32_t),
     (''flags'', u32_t),
     (''smi'', c_struct [ (''smm'', u8_t), (''pending'', u8_t), (''smm_inside_nmi'', u8_t), (''latched_init'', u8_t)]),
     (''reserved'', Arr u8_t 27),
     (''exception_has_payload'', u8_t),
     (''exception_payload'', u64_t)]"

definition struct_kvm_debugregs :: ctype where
  "struct_kvm_debugregs = c_struct [
     (''db'', Arr u64_t 4),
     (''dr6'', u64_t),
     (''dr7'', u64_t),
     (''flags'', u64_t),
     (''reserved'', Arr u64_t 9)]"

definition struct_kvm_xsave :: ctype where
  "struct_kvm_xsave = c_struct [
     (''region'', Arr u32_t 1024)]"

definition struct_kvm_xcr :: ctype where
  "struct_kvm_xcr = c_struct [
     (''xcr'', u32_t),
     (''reserved'', u32_t),
     (''value'', u64_t)]"

definition struct_kvm_xcrs :: ctype where
  "struct_kvm_xcrs = c_struct [
     (''nr_xcrs'', u32_t),
     (''flags'', u32_t),
     (''xcrs'', Arr struct_kvm_xcr 16),
     (''padding'', Arr u64_t 16)]"

definition struct_kvm_sync_regs :: ctype where
  "struct_kvm_sync_regs = c_struct [
     (''regs'', struct_kvm_regs),
     (''sregs'', struct_kvm_sregs),
     (''events'', struct_kvm_vcpu_events)]"

definition struct_kvm_vmx_nested_state_data :: ctype where
  "struct_kvm_vmx_nested_state_data = c_struct [
     (''vmcs12'', Arr u8_t 4096),
     (''shadow_vmcs12'', Arr u8_t 4096)]"

definition struct_kvm_vmx_nested_state_hdr :: ctype where
  "struct_kvm_vmx_nested_state_hdr = c_struct [
     (''vmxon_pa'', u64_t),
     (''vmcs12_pa'', u64_t),
     (''smm'', c_struct [ (''flags'', u16_t)]),
     (''pad'', u16_t),
     (''flags'', u32_t),
     (''preemption_timer_deadline'', u64_t)]"

definition struct_kvm_svm_nested_state_data :: ctype where
  "struct_kvm_svm_nested_state_data = c_struct [
     (''vmcb12'', Arr u8_t 4096)]"

definition struct_kvm_svm_nested_state_hdr :: ctype where
  "struct_kvm_svm_nested_state_hdr = c_struct [
     (''vmcb_pa'', u64_t)]"

definition struct_kvm_nested_state :: ctype where
  "struct_kvm_nested_state = c_struct [
     (''flags'', u16_t),
     (''format'', u16_t),
     (''size'', u32_t),
     (''hdr'', c_union [ (''vmx'', struct_kvm_vmx_nested_state_hdr), (''svm'', struct_kvm_svm_nested_state_hdr), (''pad'', Arr u8_t 120)]),
     (''data'', c_union [ (''vmx'', Arr struct_kvm_vmx_nested_state_data 0), (''svm'', Arr struct_kvm_svm_nested_state_data 0)])]"

definition struct_kvm_pmu_event_filter :: ctype where
  "struct_kvm_pmu_event_filter = c_struct [
     (''action'', u32_t),
     (''nevents'', u32_t),
     (''fixed_counter_bitmap'', u32_t),
     (''flags'', u32_t),
     (''pad'', Arr u32_t 4),
     (''events'', Arr u64_t 0)]"

section \<open>Common structures\<close>

definition struct_kvm_user_trace_setup :: ctype where
  "struct_kvm_user_trace_setup = c_struct [
     (''buf_size'', u32_t),
     (''buf_nr'', u32_t)]"

definition struct_kvm_breakpoint :: ctype where
  "struct_kvm_breakpoint = c_struct [
     (''enabled'', u32_t),
     (''padding'', u32_t),
     (''address'', u64_t)]"

definition struct_kvm_debug_guest :: ctype where
  "struct_kvm_debug_guest = c_struct [
     (''enabled'', u32_t),
     (''pad'', u32_t),
     (''breakpoints'', Arr struct_kvm_breakpoint 4),
     (''singlestep'', u32_t)]"

definition struct_kvm_memory_region :: ctype where
  "struct_kvm_memory_region = c_struct [
     (''slot'', u32_t),
     (''flags'', u32_t),
     (''guest_phys_addr'', u64_t),
     (''memory_size'', u64_t)]"

definition struct_kvm_userspace_memory_region :: ctype where
  "struct_kvm_userspace_memory_region = c_struct [
     (''slot'', u32_t),
     (''flags'', u32_t),
     (''guest_phys_addr'', u64_t),
     (''memory_size'', u64_t),
     (''userspace_addr'', u64_t)]"

definition struct_kvm_irq_level :: ctype where
  "struct_kvm_irq_level = c_struct [
     ('''', c_union [ (''irq'', u32_t), (''status'', u32_t)]),
     (''level'', u32_t)]"

definition struct_kvm_irqchip :: ctype where
  "struct_kvm_irqchip = c_struct [
     (''chip_id'', u32_t),
     (''pad'', u32_t),
     (''chip'', c_union [ (''dummy'', Arr u8_t 512), (''pic'', struct_kvm_pic_state), (''ioapic'', struct_kvm_ioapic_state)])]"

definition struct_kvm_pit_config :: ctype where
  "struct_kvm_pit_config = c_struct [
     (''flags'', u32_t),
     (''pad'', Arr u32_t 15)]"

definition struct_kvm_s390_skeys :: ctype where
  "struct_kvm_s390_skeys = c_struct [
     (''start_gfn'', u64_t),
     (''count'', u64_t),
     (''skeydata_addr'', u64_t),
     (''flags'', u32_t),
     (''reserved'', Arr u32_t 9)]"

definition struct_kvm_s390_cmma_log :: ctype where
  "struct_kvm_s390_cmma_log = c_struct [
     (''start_gfn'', u64_t),
     (''count'', u32_t),
     (''flags'', u32_t),
     ('''', c_union [ (''remaining'', u64_t), (''mask'', u64_t)]),
     (''values'', u64_t)]"

definition struct_kvm_hyperv_exit :: ctype where
  "struct_kvm_hyperv_exit = c_struct [
     (''type'', u32_t),
     (''pad1'', u32_t),
     (''u'', c_union [ (''synic'', c_struct [ (''msr'', u32_t), (''pad2'', u32_t), (''control'', u64_t), (''evt_page'', u64_t), (''msg_page'', u64_t)]), (''hcall'', c_struct [ (''input'', u64_t), (''result'', u64_t), (''params'', Arr u64_t 2)]), (''syndbg'', c_struct [ (''msr'', u32_t), (''pad2'', u32_t), (''control'', u64_t), (''status'', u64_t), (''send_page'', u64_t), (''recv_page'', u64_t), (''pending_page'', u64_t)])])]"

definition struct_kvm_xen_exit :: ctype where
  "struct_kvm_xen_exit = c_struct [
     (''type'', u32_t),
     (''u'', c_union [ (''hcall'', c_struct [ (''longmode'', u32_t), (''cpl'', u32_t), (''input'', u64_t), (''result'', u64_t), (''params'', Arr u64_t 6)])])]"

definition kvm_run_exits :: "(string \<times> ctype) list" where
  "kvm_run_exits = [
     (''hw'', c_struct [ (''hardware_exit_reason'', u64_t)]),
     (''fail_entry'', c_struct [ (''hardware_entry_failure_reason'', u64_t), (''cpu'', u32_t)]),
     (''ex'', c_struct [ (''exception'', u32_t), (''error_code'', u32_t)]),
     (''io'', c_struct [ (''direction'', u8_t), (''size'', u8_t), (''port'', u16_t), (''count'', u32_t), (''data_offset'', u64_t)]),
     (''debug'', c_struct [ (''arch'', struct_kvm_debug_exit_arch)]),
     (''mmio'', c_struct [ (''phys_addr'', u64_t), (''data'', Arr u8_t 8), (''len'', u32_t), (''is_write'', u8_t)]),
     (''hypercall'', c_struct [ (''nr'', u64_t), (''args'', Arr u64_t 6), (''ret'', u64_t), (''longmode'', u32_t), (''pad'', u32_t)]),
     (''tpr_access'', c_struct [ (''rip'', u64_t), (''is_write'', u32_t), (''pad'', u32_t)]),
     (''s390_sieic'', c_struct [ (''icptcode'', u8_t), (''ipa'', u16_t), (''ipb'', u32_t)]),
     (''s390_reset_flags'', u64_t),
     (''s390_ucontrol'', c_struct [ (''trans_exc_code'', u64_t), (''pgm_code'', u32_t)]),
     (''dcr'', c_struct [ (''dcrn'', u32_t), (''data'', u32_t), (''is_write'', u8_t)]),
     (''internal'', c_struct [ (''suberror'', u32_t), (''ndata'', u32_t), (''data'', Arr u64_t 16)]),
     (''emulation_failure'', c_struct [ (''suberror'', u32_t), (''ndata'', u32_t), (''flags'', u64_t), (''insn_size'', u8_t), (''insn_bytes'', Arr u8_t 15)]),
     (''osi'', c_struct [ (''gprs'', Arr u64_t 32)]),
     (''papr_hcall'', c_struct [ (''nr'', u64_t), (''ret'', u64_t), (''args'', Arr u64_t 9)]),
     (''s390_tsch'', c_struct [ (''subchannel_id'', u16_t), (''subchannel_nr'', u16_t), (''io_int_parm'', u32_t), (''io_int_word'', u32_t), (''ipb'', u32_t), (''dequeued'', u8_t)]),
     (''epr'', c_struct [ (''epr'', u32_t)]),
     (''system_event'', c_struct [ (''type'', u32_t), (''flags'', u64_t)]),
     (''s390_stsi'', c_struct [ (''addr'', u64_t), (''ar'', u8_t), (''reserved'', u8_t), (''fc'', u8_t), (''sel1'', u8_t), (''sel2'', u16_t)]),
     (''eoi'', c_struct [ (''vector'', u8_t)]),
     (''hyperv'', struct_kvm_hyperv_exit),
     (''arm_nisv'', c_struct [ (''esr_iss'', u64_t), (''fault_ipa'', u64_t)]),
     (''msr'', c_struct [ (''error'', u8_t), (''pad'', Arr u8_t 7), (''reason'', u32_t), (''index'', u32_t), (''data'', u64_t)]),
     (''xen'', struct_kvm_xen_exit),
     (''padding'', Arr u8_t 256)]"

definition struct_kvm_run :: ctype where
  "struct_kvm_run = c_struct [
     (''request_interrupt_window'', u8_t),
     (''immediate_exit'', u8_t),
     (''padding1'', Arr u8_t 6),
     (''exit_reason'', u32_t),
     (''ready_for_interrupt_injection'', u8_t),
     (''if_flag'', u8_t),
     (''flags'', u16_t),
     (''cr8'', u64_t),
     (''apic_base'', u64_t),
     ('''', c_union kvm_run_exits),
     (''kvm_valid_regs'', u64_t),
     (''kvm_dirty_regs'', u64_t),
     (''s'', c_union [ (''regs'', struct_kvm_sync_regs), (''padding'', Arr u8_t 2048)])]"

definition struct_kvm_coalesced_mmio_zone :: ctype where
  "struct_kvm_coalesced_mmio_zone = c_struct [
     (''addr'', u64_t),
     (''size'', u32_t),
     ('''', c_union [ (''pad'', u32_t), (''pio'', u32_t)])]"

definition struct_kvm_coalesced_mmio :: ctype where
  "struct_kvm_coalesced_mmio = c_struct [
     (''phys_addr'', u64_t),
     (''len'', u32_t),
     ('''', c_union [ (''pad'', u32_t), (''pio'', u32_t)]),
     (''data'', Arr u8_t 8)]"

definition struct_kvm_coalesced_mmio_ring :: ctype where
  "struct_kvm_coalesced_mmio_ring = c_struct [
     (''first'', u32_t),
     (''last'', u32_t),
     (''coalesced_mmio'', Arr struct_kvm_coalesced_mmio 0)]"

definition struct_kvm_translation :: ctype where
  "struct_kvm_translation = c_struct [
     (''linear_address'', u64_t),
     (''physical_address'', u64_t),
     (''valid'', u8_t),
     (''writeable'', u8_t),
     (''usermode'', u8_t),
     (''pad'', Arr u8_t 5)]"

definition struct_kvm_s390_mem_op :: ctype where
  "struct_kvm_s390_mem_op = c_struct [
     (''gaddr'', u64_t),
     (''flags'', u64_t),
     (''size'', u32_t),
     (''op'', u32_t),
     (''buf'', u64_t),
     ('''', c_union [ (''ar'', u8_t), (''sida_offset'', u32_t), (''reserved'', Arr u8_t 32)])]"

definition struct_kvm_interrupt :: ctype where
  "struct_kvm_interrupt = c_struct [
     (''irq'', u32_t)]"

definition struct_kvm_dirty_log :: "nat \<Rightarrow> ctype" where
  "struct_kvm_dirty_log w = c_struct [
     (''slot'', u32_t),
     (''padding1'', u32_t),
     ('''', c_union [ (''dirty_bitmap'', ptr_t w), (''padding2'', u64_t)])]"

definition struct_kvm_clear_dirty_log :: "nat \<Rightarrow> ctype" where
  "struct_kvm_clear_dirty_log w = c_struct [
     (''slot'', u32_t),
     (''num_pages'', u32_t),
     (''first_page'', u64_t),
     ('''', c_union [ (''dirty_bitmap'', ptr_t w), (''padding2'', u64_t)])]"

definition struct_kvm_signal_mask :: ctype where
  "struct_kvm_signal_mask = c_struct [
     (''len'', u32_t),
     (''sigset'', Arr u8_t 0)]"

definition struct_kvm_tpr_access_ctl :: ctype where
  "struct_kvm_tpr_access_ctl = c_struct [
     (''enabled'', u32_t),
     (''flags'', u32_t),
     (''reserved'', Arr u32_t 8)]"

definition struct_kvm_vapic_addr :: ctype where
  "struct_kvm_vapic_addr = c_struct [
     (''vapic_addr'', u64_t)]"

definition struct_kvm_mp_state :: ctype where
  "struct_kvm_mp_state = c_struct [
     (''mp_state'', u32_t)]"

definition struct_kvm_s390_psw :: ctype where
  "struct_kvm_s390_psw = c_struct [
     (''mask'', u64_t),
     (''addr'', u64_t)]"

definition struct_kvm_s390_interrupt :: ctype where
  "struct_kvm_s390_interrupt = c_struct [
     (''type'', u32_t),
     (''parm'', u32_t),
     (''parm64'', u64_t)]"

definition struct_kvm_s390_io_info :: ctype where
  "struct_kvm_s390_io_info = c_struct [
     (''subchannel_id'', u16_t),
     (''subchannel_nr'', u16_t),
     (''io_int_parm'', u32_t),
     (''io_int_word'', u32_t)]"

definition struct_kvm_s390_ext_info :: ctype where
  "struct_kvm_s390_ext_info = c_struct [
     (''ext_params'', u32_t),
     (''pad'', u32_t),
     (''ext_params2'', u64_t)]"

definition struct_kvm_s390_pgm_info :: ctype where
  "struct_kvm_s390_pgm_info = c_struct [
     (''trans_exc_code'', u64_t),
     (''mon_code'', u64_t),
     (''per_address'', u64_t),
     (''data_exc_code'', u32_t),
     (''code'', u16_t),
     (''mon_class_nr'', u16_t),
     (''per_code'', u8_t),
     (''per_atmid'', u8_t),
     (''exc_access_id'', u8_t),
     (''per_access_id'', u8_t),
     (''op_access_id'', u8_t),
     (''flags'', u8_t),
     (''pad'', Arr u8_t 2)]"

definition struct_kvm_s390_prefix_info :: ctype where
  "struct_kvm_s390_prefix_info = c_struct [
     (''address'', u32_t)]"

definition struct_kvm_s390_extcall_info :: ctype where
  "struct_kvm_s390_extcall_info = c_struct [
     (''code'', u16_t)]"

definition struct_kvm_s390_emerg_info :: ctype where
  "struct_kvm_s390_emerg_info = c_struct [
     (''code'', u16_t)]"

definition struct_kvm_s390_stop_info :: ctype where
  "struct_kvm_s390_stop_info = c_struct [
     (''flags'', u32_t)]"

definition struct_kvm_s390_mchk_info :: ctype where
  "struct_kvm_s390_mchk_info = c_struct [
     (''cr14'', u64_t),
     (''mcic'', u64_t),
     (''failing_storage_address'', u64_t),
     (''ext_damage_code'', u32_t),
     (''pad'', u32_t),
     (''fixed_logout'', Arr u8_t 16)]"

definition struct_kvm_s390_irq :: ctype where
  "struct_kvm_s390_irq = c_struct [
     (''type'', u64_t),
     (''u'', c_union [ (''io'', struct_kvm_s390_io_info), (''ext'', struct_kvm_s390_ext_info), (''pgm'', struct_kvm_s390_pgm_info), (''emerg'', struct_kvm_s390_emerg_info), (''extcall'', struct_kvm_s390_extcall_info), (''prefix'', struct_kvm_s390_prefix_info), (''stop'', struct_kvm_s390_stop_info), (''mchk'', struct_kvm_s390_mchk_info), (''reserved'', Arr u8_t 64)])]"

definition struct_kvm_s390_irq_state :: ctype where
  "struct_kvm_s390_irq_state = c_struct [
     (''buf'', u64_t),
     (''flags'', u32_t),
     (''len'', u32_t),
     (''reserved'', Arr u32_t 4)]"

definition struct_kvm_guest_debug :: ctype where
  "struct_kvm_guest_debug = c_struct [
     (''control'', u32_t),
     (''pad'', u32_t),
     (''arch'', struct_kvm_guest_debug_arch)]"

definition struct_kvm_ioeventfd :: ctype where
  "struct_kvm_ioeventfd = c_struct [
     (''datamatch'', u64_t),
     (''addr'', u64_t),
     (''len'', u32_t),
     (''fd'', u32_t),
     (''flags'', u32_t),
     (''pad'', Arr u8_t 36)]"

definition struct_kvm_enable_cap :: ctype where
  "struct_kvm_enable_cap = c_struct [
     (''cap'', u32_t),
     (''flags'', u32_t),
     (''args'', Arr u64_t 4),
     (''pad'', Arr u8_t 64)]"

definition struct_kvm_ppc_pvinfo :: ctype where
  "struct_kvm_ppc_pvinfo = c_struct [
     (''flags'', u32_t),
     (''hcall'', Arr u32_t 4),
     (''pad'', Arr u8_t 108)]"

definition struct_kvm_ppc_one_page_size :: ctype where
  "struct_kvm_ppc_one_page_size = c_struct [
     (''page_shift'', u32_t),
     (''pte_enc'', u32_t)]"

definition struct_kvm_ppc_one_seg_page_size :: ctype where
  "struct_kvm_ppc_one_seg_page_size = c_struct [
     (''page_shift'', u32_t),
     (''slb_enc'', u32_t),
     (''enc'', Arr struct_kvm_ppc_one_page_size 8)]"

definition struct_kvm_ppc_smmu_info :: ctype where
  "struct_kvm_ppc_smmu_info = c_struct [
     (''flags'', u64_t),
     (''slb_size'', u32_t),
     (''data_keys'', u16_t),
     (''instr_keys'', u16_t),
     (''sps'', Arr struct_kvm_ppc_one_seg_page_size 8)]"

definition struct_kvm_ppc_resize_hpt :: ctype where
  "struct_kvm_ppc_resize_hpt = c_struct [
     (''flags'', u64_t),
     (''shift'', u32_t),
     (''pad'', u32_t)]"

definition struct_kvm_irq_routing_irqchip :: ctype where
  "struct_kvm_irq_routing_irqchip = c_struct [
     (''irqchip'', u32_t),
     (''pin'', u32_t)]"

definition struct_kvm_irq_routing_msi :: ctype where
  "struct_kvm_irq_routing_msi = c_struct [
     (''address_lo'', u32_t),
     (''address_hi'', u32_t),
     (''data'', u32_t),
     ('''', c_union [ (''pad'', u32_t), (''devid'', u32_t)])]"

definition struct_kvm_irq_routing_s390_adapter :: ctype where
  "struct_kvm_irq_routing_s390_adapter = c_struct [
     (''ind_addr'', u64_t),
     (''summary_addr'', u64_t),
     (''ind_offset'', u64_t),
     (''summary_offset'', u32_t),
     (''adapter_id'', u32_t)]"

definition struct_kvm_irq_routing_hv_sint :: ctype where
  "struct_kvm_irq_routing_hv_sint = c_struct [
     (''vcpu'', u32_t),
     (''sint'', u32_t)]"

definition struct_kvm_irq_routing_entry :: ctype where
  "struct_kvm_irq_routing_entry = c_struct [
     (''gsi'', u32_t),
     (''type'', u32_t),
     (''flags'', u32_t),
     (''pad'', u32_t),
     (''u'', c_union [ (''irqchip'', struct_kvm_irq_routing_irqchip), (''msi'', struct_kvm_irq_routing_msi), (''adapter'', struct_kvm_irq_routing_s390_adapter), (''hv_sint'', struct_kvm_irq_routing_hv_sint), (''pad'', Arr u32_t 8)])]"

definition struct_kvm_irq_routing :: ctype where
  "struct_kvm_irq_routing = c_struct [
     (''nr'', u32_t),
     (''flags'', u32_t),
     (''entries'', Arr struct_kvm_irq_routing_entry 0)]"

definition struct_kvm_x86_mce :: ctype where
  "struct_kvm_x86_mce = c_struct [
     (''status'', u64_t),
     (''addr'', u64_t),
     (''misc'', u64_t),
     (''mcg_status'', u64_t),
     (''bank'', u8_t),
     (''pad1'', Arr u8_t 7),
     (''pad2'', Arr u64_t 3)]"

definition struct_kvm_xen_hvm_config :: ctype where
  "struct_kvm_xen_hvm_config = c_struct [
     (''flags'', u32_t),
     (''msr'', u32_t),
     (''blob_addr_32'', u64_t),
     (''blob_addr_64'', u64_t),
     (''blob_size_32'', u8_t),
     (''blob_size_64'', u8_t),
     (''pad2'', Arr u8_t 30)]"

definition struct_kvm_irqfd :: ctype where
  "struct_kvm_irqfd = c_struct [
     (''fd'', u32_t),
     (''gsi'', u32_t),
     (''flags'', u32_t),
     (''resamplefd'', u32_t),
     (''pad'', Arr u8_t 16)]"

definition struct_kvm_clock_data :: ctype where
  "struct_kvm_clock_data = c_struct [
     (''clock'', u64_t),
     (''flags'', u32_t),
     (''pad'', Arr u32_t 9)]"

definition struct_kvm_config_tlb :: ctype where
  "struct_kvm_config_tlb = c_struct [
     (''params'', u64_t),
     (''array'', u64_t),
     (''mmu_type'', u32_t),
     (''array_len'', u32_t)]"

definition struct_kvm_dirty_tlb :: ctype where
  "struct_kvm_dirty_tlb = c_struct [
     (''bitmap'', u64_t),
     (''num_dirty'', u32_t)]"

definition struct_kvm_reg_list :: ctype where
  "struct_kvm_reg_list = c_struct [
     (''n'', u64_t),
     (''reg'', Arr u64_t 0)]"

definition struct_kvm_one_reg :: ctype where
  "struct_kvm_one_reg = c_struct [
     (''id'', u64_t),
     (''addr'', u64_t)]"

definition struct_kvm_msi :: ctype where
  "struct_kvm_msi = c_struct [
     (''address_lo'', u32_t),
     (''address_hi'', u32_t),
     (''data'', u32_t),
     (''flags'', u32_t),
     (''devid'', u32_t),
     (''pad'', Arr u8_t 12)]"

definition struct_kvm_arm_device_addr :: ctype where
  "struct_kvm_arm_device_addr = c_struct [
     (''id'', u64_t),
     (''addr'', u64_t)]"

definition struct_kvm_create_device :: ctype where
  "struct_kvm_create_device = c_struct [
     (''type'', u32_t),
     (''fd'', u32_t),
     (''flags'', u32_t)]"

definition struct_kvm_device_attr :: ctype where
  "struct_kvm_device_attr = c_struct [
     (''flags'', u32_t),
     (''group'', u32_t),
     (''attr'', u64_t),
     (''addr'', u64_t)]"

definition struct_kvm_vfio_spapr_tce :: ctype where
  "struct_kvm_vfio_spapr_tce = c_struct [
     (''groupfd'', u32_t),
     (''tablefd'', u32_t)]"

definition struct_kvm_s390_ucas_mapping :: ctype where
  "struct_kvm_s390_ucas_mapping = c_struct [
     (''user_addr'', u64_t),
     (''vcpu_addr'', u64_t),
     (''length'', u64_t)]"

definition struct_kvm_enc_region :: ctype where
  "struct_kvm_enc_region = c_struct [
     (''addr'', u64_t),
     (''size'', u64_t)]"

definition struct_kvm_s390_pv_sec_parm :: ctype where
  "struct_kvm_s390_pv_sec_parm = c_struct [
     (''origin'', u64_t),
     (''length'', u64_t)]"

definition struct_kvm_s390_pv_unp :: ctype where
  "struct_kvm_s390_pv_unp = c_struct [
     (''addr'', u64_t),
     (''size'', u64_t),
     (''tweak'', u64_t)]"

definition struct_kvm_pv_cmd :: ctype where
  "struct_kvm_pv_cmd = c_struct [
     (''cmd'', u32_t),
     (''rc'', u16_t),
     (''rrc'', u16_t),
     (''data'', u64_t),
     (''flags'', u32_t),
     (''reserved'', Arr u32_t 3)]"

definition struct_kvm_xen_hvm_attr :: ctype where
  "struct_kvm_xen_hvm_attr = c_struct [
     (''type'', u16_t),
     (''pad'', Arr u16_t 3),
     (''u'', c_union [ (''long_mode'', u8_t), (''vector'', u8_t), (''shared_info'', c_struct [ (''gfn'', u64_t)]), (''pad'', Arr u64_t 8)])]"

definition struct_kvm_xen_vcpu_attr :: ctype where
  "struct_kvm_xen_vcpu_attr = c_struct [
     (''type'', u16_t),
     (''pad'', Arr u16_t 3),
     (''u'', c_union [ (''gpa'', u64_t), (''pad'', Arr u64_t 8), (''runstate'', c_struct [ (''state'', u64_t), (''state_entry_time'', u64_t), (''time_running'', u64_t), (''time_runnable'', u64_t), (''time_blocked'', u64_t), (''time_offline'', u64_t)])])]"

definition struct_kvm_sev_cmd :: ctype where
  "struct_kvm_sev_cmd = c_struct [
     (''id'', u32_t),
     (''data'', u64_t),
     (''error'', u32_t),
     (''sev_fd'', u32_t)]"

definition struct_kvm_sev_launch_start :: ctype where
  "struct_kvm_sev_launch_start = c_struct [
     (''handle'', u32_t),
     (''policy'', u32_t),
     (''dh_uaddr'', u64_t),
     (''dh_len'', u32_t),
     (''session_uaddr'', u64_t),
     (''session_len'', u32_t)]"

definition struct_kvm_sev_launch_update_data :: ctype where
  "struct_kvm_sev_launch_update_data = c_struct [
     (''uaddr'', u64_t),
     (''len'', u32_t)]"

definition struct_kvm_sev_launch_secret :: ctype where
  "struct_kvm_sev_launch_secret = c_struct [
     (''hdr_uaddr'', u64_t),
     (''hdr_len'', u32_t),
     (''guest_uaddr'', u64_t),
     (''guest_len'', u32_t),
     (''trans_uaddr'', u64_t),
     (''trans_len'', u32_t)]"

definition struct_kvm_sev_launch_measure :: ctype where
  "struct_kvm_sev_launch_measure = c_struct [
     (''uaddr'', u64_t),
     (''len'', u32_t)]"

definition struct_kvm_sev_guest_status :: ctype where
  "struct_kvm_sev_guest_status = c_struct [
     (''handle'', u32_t),
     (''policy'', u32_t),
     (''state'', u32_t)]"

definition struct_kvm_sev_dbg :: ctype where
  "struct_kvm_sev_dbg = c_struct [
     (''src_uaddr'', u64_t),
     (''dst_uaddr'', u64_t),
     (''len'', u32_t)]"

definition struct_kvm_sev_attestation_report :: ctype where
  "struct_kvm_sev_attestation_report = c_struct [
     (''mnonce'', Arr u8_t 16),
     (''uaddr'', u64_t),
     (''len'', u32_t)]"

definition struct_kvm_sev_send_start :: ctype where
  "struct_kvm_sev_send_start = c_struct [
     (''policy'', u32_t),
     (''pdh_cert_uaddr'', u64_t),
     (''pdh_cert_len'', u32_t),
     (''plat_certs_uaddr'', u64_t),
     (''plat_certs_len'', u32_t),
     (''amd_certs_uaddr'', u64_t),
     (''amd_certs_len'', u32_t),
     (''session_uaddr'', u64_t),
     (''session_len'', u32_t)]"

definition struct_kvm_sev_send_update_data :: ctype where
  "struct_kvm_sev_send_update_data = c_struct [
     (''hdr_uaddr'', u64_t),
     (''hdr_len'', u32_t),
     (''guest_uaddr'', u64_t),
     (''guest_len'', u32_t),
     (''trans_uaddr'', u64_t),
     (''trans_len'', u32_t)]"

definition struct_kvm_sev_receive_start :: ctype where
  "struct_kvm_sev_receive_start = c_struct [
     (''handle'', u32_t),
     (''policy'', u32_t),
     (''pdh_uaddr'', u64_t),
     (''pdh_len'', u32_t),
     (''session_uaddr'', u64_t),
     (''session_len'', u32_t)]"

definition struct_kvm_sev_receive_update_data :: ctype where
  "struct_kvm_sev_receive_update_data = c_struct [
     (''hdr_uaddr'', u64_t),
     (''hdr_len'', u32_t),
     (''guest_uaddr'', u64_t),
     (''guest_len'', u32_t),
     (''trans_uaddr'', u64_t),
     (''trans_len'', u32_t)]"

definition struct_kvm_assigned_pci_dev :: ctype where
  "struct_kvm_assigned_pci_dev = c_struct [
     (''assigned_dev_id'', u32_t),
     (''busnr'', u32_t),
     (''devfn'', u32_t),
     (''flags'', u32_t),
     (''segnr'', u32_t),
     ('''', c_union [ (''reserved'', Arr u32_t 11)])]"

definition struct_kvm_assigned_irq :: ctype where
  "struct_kvm_assigned_irq = c_struct [
     (''assigned_dev_id'', u32_t),
     (''host_irq'', u32_t),
     (''guest_irq'', u32_t),
     (''flags'', u32_t),
     ('''', c_union [ (''reserved'', Arr u32_t 12)])]"

definition struct_kvm_assigned_msix_nr :: ctype where
  "struct_kvm_assigned_msix_nr = c_struct [
     (''assigned_dev_id'', u32_t),
     (''entry_nr'', u16_t),
     (''padding'', u16_t)]"

definition struct_kvm_assigned_msix_entry :: ctype where
  "struct_kvm_assigned_msix_entry = c_struct [
     (''assigned_dev_id'', u32_t),
     (''gsi'', u32_t),
     (''entry'', u16_t),
     (''padding'', Arr u16_t 3)]"

definition struct_kvm_hyperv_eventfd :: ctype where
  "struct_kvm_hyperv_eventfd = c_struct [
     (''conn_id'', u32_t),
     (''fd'', u32_t),
     (''flags'', u32_t),
     (''padding'', Arr u32_t 3)]"

definition struct_kvm_dirty_gfn :: ctype where
  "struct_kvm_dirty_gfn = c_struct [
     (''flags'', u32_t),
     (''slot'', u32_t),
     (''offset'', u64_t)]"

definition struct_kvm_stats_header :: ctype where
  "struct_kvm_stats_header = c_struct [
     (''flags'', u32_t),
     (''name_size'', u32_t),
     (''num_desc'', u32_t),
     (''id_offset'', u32_t),
     (''desc_offset'', u32_t),
     (''data_offset'', u32_t)]"

definition struct_kvm_stats_desc :: ctype where
  "struct_kvm_stats_desc = c_struct [
     (''flags'', u32_t),
     (''exponent'', u16_t),
     (''size'', u16_t),
     (''offset'', u32_t),
     (''bucket_size'', u32_t),
     (''name'', Arr u8_t 0)]"

section \<open>Layout\<close>

text \<open>The structures without padding.\<close>

definition kvm_tight :: "ctype list" where
  "kvm_tight = [struct_kvm_memory_alias, struct_kvm_pic_state, struct_kvm_ioapic_state, struct_kvm_regs,
     struct_kvm_lapic_state, struct_kvm_segment, struct_kvm_dtable, struct_kvm_sregs, struct_kvm_sregs2,
     struct_kvm_fpu, struct_kvm_msr_entry, struct_kvm_msrs, struct_kvm_msr_list, struct_kvm_cpuid_entry,
     struct_kvm_cpuid, struct_kvm_cpuid_entry2, struct_kvm_cpuid2, struct_kvm_pit_channel_state,
     struct_kvm_debug_exit_arch, struct_kvm_guest_debug_arch, struct_kvm_pit_state, struct_kvm_pit_state2,
     struct_kvm_reinject_control, struct_kvm_vcpu_events, struct_kvm_debugregs, struct_kvm_xsave, struct_kvm_xcr,
     struct_kvm_xcrs, struct_kvm_sync_regs, struct_kvm_vmx_nested_state_data, struct_kvm_vmx_nested_state_hdr,
     struct_kvm_svm_nested_state_data, struct_kvm_svm_nested_state_hdr, struct_kvm_nested_state,
     struct_kvm_pmu_event_filter, struct_kvm_user_trace_setup, struct_kvm_breakpoint, struct_kvm_memory_region,
     struct_kvm_userspace_memory_region, struct_kvm_irq_level, struct_kvm_irqchip, struct_kvm_pit_config,
     struct_kvm_s390_skeys, struct_kvm_s390_cmma_log, struct_kvm_hyperv_exit, struct_kvm_coalesced_mmio_zone,
     struct_kvm_coalesced_mmio, struct_kvm_coalesced_mmio_ring, struct_kvm_translation, struct_kvm_s390_mem_op,
     struct_kvm_interrupt, struct_kvm_signal_mask, struct_kvm_tpr_access_ctl, struct_kvm_vapic_addr,
     struct_kvm_mp_state, struct_kvm_s390_psw, struct_kvm_s390_interrupt, struct_kvm_s390_io_info,
     struct_kvm_s390_ext_info, struct_kvm_s390_pgm_info, struct_kvm_s390_prefix_info, struct_kvm_s390_extcall_info,
     struct_kvm_s390_emerg_info, struct_kvm_s390_stop_info, struct_kvm_s390_mchk_info, struct_kvm_s390_irq,
     struct_kvm_s390_irq_state, struct_kvm_guest_debug, struct_kvm_ioeventfd, struct_kvm_enable_cap,
     struct_kvm_ppc_pvinfo, struct_kvm_ppc_one_page_size, struct_kvm_ppc_one_seg_page_size,
     struct_kvm_ppc_smmu_info, struct_kvm_ppc_resize_hpt, struct_kvm_irq_routing_irqchip,
     struct_kvm_irq_routing_msi, struct_kvm_irq_routing_s390_adapter, struct_kvm_irq_routing_hv_sint,
     struct_kvm_irq_routing_entry, struct_kvm_irq_routing, struct_kvm_x86_mce, struct_kvm_xen_hvm_config,
     struct_kvm_irqfd, struct_kvm_clock_data, struct_kvm_config_tlb, struct_kvm_reg_list, struct_kvm_one_reg,
     struct_kvm_msi, struct_kvm_arm_device_addr, struct_kvm_create_device, struct_kvm_device_attr,
     struct_kvm_vfio_spapr_tce, struct_kvm_s390_ucas_mapping, struct_kvm_enc_region, struct_kvm_s390_pv_sec_parm,
     struct_kvm_s390_pv_unp, struct_kvm_pv_cmd, struct_kvm_xen_hvm_attr, struct_kvm_xen_vcpu_attr,
     struct_kvm_sev_guest_status, struct_kvm_assigned_pci_dev, struct_kvm_assigned_irq,
     struct_kvm_assigned_msix_nr, struct_kvm_assigned_msix_entry, struct_kvm_hyperv_eventfd, struct_kvm_dirty_gfn,
     struct_kvm_stats_header, struct_kvm_stats_desc]"

lemma kvm_all_tight: "list_all tight kvm_tight"
  by code_simp

text \<open>
  The structures of the virtual machine interface without implicit padding are laid out alike, member by
  member, by every ABI, and each of their bytes belongs to a member.
\<close>

theorem kvm_layout:
  assumes "t \<in> set kvm_tight"
  shows "same_everywhere t \<and> covered (leaves 8 0 t) 0 (sizeof 8 t)"
  using kvm_all_tight assms by (rule tight_types)

theorem kvm_layout_witness:
  "same_everywhere struct_kvm_regs \<and> covered (leaves 8 0 struct_kvm_regs) 0 (sizeof 8 struct_kvm_regs)"
  by (rule kvm_layout) (simp add: kvm_tight_def)

text \<open>
  The page that the kernel shares with the program while a virtual processor runs: the part outside the union
  of exits, and the exits that both sides lay out alike.
\<close>

lemma kvm_run_frame:
  "sizeof 4 struct_kvm_run = sizeof 8 struct_kvm_run \<and> sizeof 8 struct_kvm_run = 2352 \<and>
    sizeof 4 (c_union kvm_run_exits) = 256 \<and> sizeof 8 (c_union kvm_run_exits) = 256"
  by code_simp

lemma kvm_exits_alike:
  "list_all (\<lambda>(n, t). agree 4 t \<or> n = ''system_event'' \<or> n = ''xen'') kvm_run_exits"
  by code_simp

lemma kvm_exits_differ:
  "list_all (\<lambda>(n, t). n \<noteq> ''system_event'' \<and> n \<noteq> ''xen'' \<or> leaves 4 0 t \<noteq> leaves 8 0 t) kvm_run_exits"
  by code_simp

text \<open>
  C19: An i386 program that runs a virtual machine under a 64-bit kernel finds the members of an exit where the
  kernel puts them, for every kind of exit but two: in \<^verbatim>\<open>system_event\<close> and \<^verbatim>\<open>xen\<close> a 64-bit member follows a single
  32-bit one, and the two sides disagree on its place.
\<close>

theorem kvm_run_exit_layout:
  assumes "(n, t) \<in> set kvm_run_exits"
  shows "leaves 4 0 t = leaves 8 0 t \<longleftrightarrow> n \<noteq> ''system_event'' \<and> n \<noteq> ''xen''"
  using kvm_exits_alike kvm_exits_differ assms agree_leaves [of 4 t 0] by (auto simp add: list_all_iff)

theorem kvm_run_exit_layout_witness:
  "leaves 4 0 (c_struct [(''type'', u32_t), (''flags'', u64_t)]) \<noteq> leaves 8 0 (c_struct [(''type'', u32_t), (''flags'', u64_t)])"
  using kvm_run_exit_layout [of "''system_event''" "c_struct [(''type'', u32_t), (''flags'', u64_t)]"]
  by (simp add: kvm_run_exits_def)

text \<open>
  The requests of \<^verbatim>\<open>include/linux/kvm.h\<close> whose argument is declared there or in \<^verbatim>\<open>arch/x86/asm/kvm.h\<close>; eleven
  requests of powerpc and arm take structures of their own architecture headers and are left out.
\<close>

section \<open>Requests\<close>

definition KVMIO :: nat where "KVMIO = 0xAE"

definition KVM_GET_API_VERSION :: request where
  "KVM_GET_API_VERSION = IO_req KVMIO 0"

definition KVM_CREATE_VM :: request where
  "KVM_CREATE_VM = IO_req KVMIO 1"

definition KVM_GET_MSR_INDEX_LIST :: request where
  "KVM_GET_MSR_INDEX_LIST = IOWR_req KVMIO 2 struct_kvm_msr_list"

definition KVM_S390_ENABLE_SIE :: request where
  "KVM_S390_ENABLE_SIE = IO_req KVMIO 6"

definition KVM_CHECK_EXTENSION :: request where
  "KVM_CHECK_EXTENSION = IO_req KVMIO 3"

definition KVM_GET_VCPU_MMAP_SIZE :: request where
  "KVM_GET_VCPU_MMAP_SIZE = IO_req KVMIO 4"

definition KVM_GET_SUPPORTED_CPUID :: request where
  "KVM_GET_SUPPORTED_CPUID = IOWR_req KVMIO 5 struct_kvm_cpuid2"

definition KVM_GET_EMULATED_CPUID :: request where
  "KVM_GET_EMULATED_CPUID = IOWR_req KVMIO 9 struct_kvm_cpuid2"

definition KVM_GET_MSR_FEATURE_INDEX_LIST :: request where
  "KVM_GET_MSR_FEATURE_INDEX_LIST = IOWR_req KVMIO 10 struct_kvm_msr_list"

definition KVM_SET_MEMORY_REGION :: request where
  "KVM_SET_MEMORY_REGION = IOW_req KVMIO 64 struct_kvm_memory_region"

definition KVM_CREATE_VCPU :: request where
  "KVM_CREATE_VCPU = IO_req KVMIO 65"

definition KVM_GET_DIRTY_LOG :: "nat \<Rightarrow> request" where
  "KVM_GET_DIRTY_LOG w = IOW_req KVMIO 66 (struct_kvm_dirty_log w)"

definition KVM_SET_MEMORY_ALIAS :: request where
  "KVM_SET_MEMORY_ALIAS = IOW_req KVMIO 67 struct_kvm_memory_alias"

definition KVM_SET_NR_MMU_PAGES :: request where
  "KVM_SET_NR_MMU_PAGES = IO_req KVMIO 68"

definition KVM_GET_NR_MMU_PAGES :: request where
  "KVM_GET_NR_MMU_PAGES = IO_req KVMIO 69"

definition KVM_SET_USER_MEMORY_REGION :: request where
  "KVM_SET_USER_MEMORY_REGION = IOW_req KVMIO 70 struct_kvm_userspace_memory_region"

definition KVM_SET_TSS_ADDR :: request where
  "KVM_SET_TSS_ADDR = IO_req KVMIO 71"

definition KVM_SET_IDENTITY_MAP_ADDR :: request where
  "KVM_SET_IDENTITY_MAP_ADDR = IOW_req KVMIO 72 u64_t"

definition KVM_S390_UCAS_MAP :: request where
  "KVM_S390_UCAS_MAP = IOW_req KVMIO 80 struct_kvm_s390_ucas_mapping"

definition KVM_S390_UCAS_UNMAP :: request where
  "KVM_S390_UCAS_UNMAP = IOW_req KVMIO 81 struct_kvm_s390_ucas_mapping"

definition KVM_S390_VCPU_FAULT :: "nat \<Rightarrow> request" where
  "KVM_S390_VCPU_FAULT w = IOW_req KVMIO 82 (long_t w)"

definition KVM_CREATE_IRQCHIP :: request where
  "KVM_CREATE_IRQCHIP = IO_req KVMIO 96"

definition KVM_IRQ_LINE :: request where
  "KVM_IRQ_LINE = IOW_req KVMIO 97 struct_kvm_irq_level"

definition KVM_GET_IRQCHIP :: request where
  "KVM_GET_IRQCHIP = IOWR_req KVMIO 98 struct_kvm_irqchip"

definition KVM_SET_IRQCHIP :: request where
  "KVM_SET_IRQCHIP = IOR_req KVMIO 99 struct_kvm_irqchip"

definition KVM_CREATE_PIT :: request where
  "KVM_CREATE_PIT = IO_req KVMIO 100"

definition KVM_GET_PIT :: request where
  "KVM_GET_PIT = IOWR_req KVMIO 101 struct_kvm_pit_state"

definition KVM_SET_PIT :: request where
  "KVM_SET_PIT = IOR_req KVMIO 102 struct_kvm_pit_state"

definition KVM_IRQ_LINE_STATUS :: request where
  "KVM_IRQ_LINE_STATUS = IOWR_req KVMIO 103 struct_kvm_irq_level"

definition KVM_REGISTER_COALESCED_MMIO :: request where
  "KVM_REGISTER_COALESCED_MMIO = IOW_req KVMIO 103 struct_kvm_coalesced_mmio_zone"

definition KVM_UNREGISTER_COALESCED_MMIO :: request where
  "KVM_UNREGISTER_COALESCED_MMIO = IOW_req KVMIO 104 struct_kvm_coalesced_mmio_zone"

definition KVM_ASSIGN_PCI_DEVICE :: request where
  "KVM_ASSIGN_PCI_DEVICE = IOR_req KVMIO 105 struct_kvm_assigned_pci_dev"

definition KVM_SET_GSI_ROUTING :: request where
  "KVM_SET_GSI_ROUTING = IOW_req KVMIO 106 struct_kvm_irq_routing"

definition KVM_ASSIGN_DEV_IRQ :: request where
  "KVM_ASSIGN_DEV_IRQ = IOW_req KVMIO 112 struct_kvm_assigned_irq"

definition KVM_REINJECT_CONTROL :: request where
  "KVM_REINJECT_CONTROL = IO_req KVMIO 113"

definition KVM_DEASSIGN_PCI_DEVICE :: request where
  "KVM_DEASSIGN_PCI_DEVICE = IOW_req KVMIO 114 struct_kvm_assigned_pci_dev"

definition KVM_ASSIGN_SET_MSIX_NR :: request where
  "KVM_ASSIGN_SET_MSIX_NR = IOW_req KVMIO 115 struct_kvm_assigned_msix_nr"

definition KVM_ASSIGN_SET_MSIX_ENTRY :: request where
  "KVM_ASSIGN_SET_MSIX_ENTRY = IOW_req KVMIO 116 struct_kvm_assigned_msix_entry"

definition KVM_DEASSIGN_DEV_IRQ :: request where
  "KVM_DEASSIGN_DEV_IRQ = IOW_req KVMIO 117 struct_kvm_assigned_irq"

definition KVM_IRQFD :: request where
  "KVM_IRQFD = IOW_req KVMIO 118 struct_kvm_irqfd"

definition KVM_CREATE_PIT2 :: request where
  "KVM_CREATE_PIT2 = IOW_req KVMIO 119 struct_kvm_pit_config"

definition KVM_SET_BOOT_CPU_ID :: request where
  "KVM_SET_BOOT_CPU_ID = IO_req KVMIO 120"

definition KVM_IOEVENTFD :: request where
  "KVM_IOEVENTFD = IOW_req KVMIO 121 struct_kvm_ioeventfd"

definition KVM_XEN_HVM_CONFIG :: request where
  "KVM_XEN_HVM_CONFIG = IOW_req KVMIO 122 struct_kvm_xen_hvm_config"

definition KVM_SET_CLOCK :: request where
  "KVM_SET_CLOCK = IOW_req KVMIO 123 struct_kvm_clock_data"

definition KVM_GET_CLOCK :: request where
  "KVM_GET_CLOCK = IOR_req KVMIO 124 struct_kvm_clock_data"

definition KVM_GET_PIT2 :: request where
  "KVM_GET_PIT2 = IOR_req KVMIO 159 struct_kvm_pit_state2"

definition KVM_SET_PIT2 :: request where
  "KVM_SET_PIT2 = IOW_req KVMIO 160 struct_kvm_pit_state2"

definition KVM_PPC_GET_PVINFO :: request where
  "KVM_PPC_GET_PVINFO = IOW_req KVMIO 161 struct_kvm_ppc_pvinfo"

definition KVM_SET_TSC_KHZ :: request where
  "KVM_SET_TSC_KHZ = IO_req KVMIO 162"

definition KVM_GET_TSC_KHZ :: request where
  "KVM_GET_TSC_KHZ = IO_req KVMIO 163"

definition KVM_ASSIGN_SET_INTX_MASK :: request where
  "KVM_ASSIGN_SET_INTX_MASK = IOW_req KVMIO 164 struct_kvm_assigned_pci_dev"

definition KVM_SIGNAL_MSI :: request where
  "KVM_SIGNAL_MSI = IOW_req KVMIO 165 struct_kvm_msi"

definition KVM_PPC_GET_SMMU_INFO :: request where
  "KVM_PPC_GET_SMMU_INFO = IOR_req KVMIO 166 struct_kvm_ppc_smmu_info"

definition KVM_PPC_ALLOCATE_HTAB :: request where
  "KVM_PPC_ALLOCATE_HTAB = IOWR_req KVMIO 167 u32_t"

definition KVM_ARM_SET_DEVICE_ADDR :: request where
  "KVM_ARM_SET_DEVICE_ADDR = IOW_req KVMIO 171 struct_kvm_arm_device_addr"

definition KVM_PPC_RESIZE_HPT_PREPARE :: request where
  "KVM_PPC_RESIZE_HPT_PREPARE = IOR_req KVMIO 173 struct_kvm_ppc_resize_hpt"

definition KVM_PPC_RESIZE_HPT_COMMIT :: request where
  "KVM_PPC_RESIZE_HPT_COMMIT = IOR_req KVMIO 174 struct_kvm_ppc_resize_hpt"

definition KVM_SET_PMU_EVENT_FILTER :: request where
  "KVM_SET_PMU_EVENT_FILTER = IOW_req KVMIO 178 struct_kvm_pmu_event_filter"

definition KVM_PPC_SVM_OFF :: request where
  "KVM_PPC_SVM_OFF = IO_req KVMIO 179"

definition KVM_CREATE_DEVICE :: request where
  "KVM_CREATE_DEVICE = IOWR_req KVMIO 224 struct_kvm_create_device"

definition KVM_SET_DEVICE_ATTR :: request where
  "KVM_SET_DEVICE_ATTR = IOW_req KVMIO 225 struct_kvm_device_attr"

definition KVM_GET_DEVICE_ATTR :: request where
  "KVM_GET_DEVICE_ATTR = IOW_req KVMIO 226 struct_kvm_device_attr"

definition KVM_HAS_DEVICE_ATTR :: request where
  "KVM_HAS_DEVICE_ATTR = IOW_req KVMIO 227 struct_kvm_device_attr"

definition KVM_RUN :: request where
  "KVM_RUN = IO_req KVMIO 128"

definition KVM_GET_REGS :: request where
  "KVM_GET_REGS = IOR_req KVMIO 129 struct_kvm_regs"

definition KVM_SET_REGS :: request where
  "KVM_SET_REGS = IOW_req KVMIO 130 struct_kvm_regs"

definition KVM_GET_SREGS :: request where
  "KVM_GET_SREGS = IOR_req KVMIO 131 struct_kvm_sregs"

definition KVM_SET_SREGS :: request where
  "KVM_SET_SREGS = IOW_req KVMIO 132 struct_kvm_sregs"

definition KVM_TRANSLATE :: request where
  "KVM_TRANSLATE = IOWR_req KVMIO 133 struct_kvm_translation"

definition KVM_INTERRUPT :: request where
  "KVM_INTERRUPT = IOW_req KVMIO 134 struct_kvm_interrupt"

definition KVM_GET_MSRS :: request where
  "KVM_GET_MSRS = IOWR_req KVMIO 136 struct_kvm_msrs"

definition KVM_SET_MSRS :: request where
  "KVM_SET_MSRS = IOW_req KVMIO 137 struct_kvm_msrs"

definition KVM_SET_CPUID :: request where
  "KVM_SET_CPUID = IOW_req KVMIO 138 struct_kvm_cpuid"

definition KVM_SET_SIGNAL_MASK :: request where
  "KVM_SET_SIGNAL_MASK = IOW_req KVMIO 139 struct_kvm_signal_mask"

definition KVM_GET_FPU :: request where
  "KVM_GET_FPU = IOR_req KVMIO 140 struct_kvm_fpu"

definition KVM_SET_FPU :: request where
  "KVM_SET_FPU = IOW_req KVMIO 141 struct_kvm_fpu"

definition KVM_GET_LAPIC :: request where
  "KVM_GET_LAPIC = IOR_req KVMIO 142 struct_kvm_lapic_state"

definition KVM_SET_LAPIC :: request where
  "KVM_SET_LAPIC = IOW_req KVMIO 143 struct_kvm_lapic_state"

definition KVM_SET_CPUID2 :: request where
  "KVM_SET_CPUID2 = IOW_req KVMIO 144 struct_kvm_cpuid2"

definition KVM_GET_CPUID2 :: request where
  "KVM_GET_CPUID2 = IOWR_req KVMIO 145 struct_kvm_cpuid2"

definition KVM_TPR_ACCESS_REPORTING :: request where
  "KVM_TPR_ACCESS_REPORTING = IOWR_req KVMIO 146 struct_kvm_tpr_access_ctl"

definition KVM_SET_VAPIC_ADDR :: request where
  "KVM_SET_VAPIC_ADDR = IOW_req KVMIO 147 struct_kvm_vapic_addr"

definition KVM_S390_INTERRUPT :: request where
  "KVM_S390_INTERRUPT = IOW_req KVMIO 148 struct_kvm_s390_interrupt"

definition KVM_S390_STORE_STATUS :: "nat \<Rightarrow> request" where
  "KVM_S390_STORE_STATUS w = IOW_req KVMIO 149 (long_t w)"

definition KVM_S390_SET_INITIAL_PSW :: request where
  "KVM_S390_SET_INITIAL_PSW = IOW_req KVMIO 150 struct_kvm_s390_psw"

definition KVM_S390_INITIAL_RESET :: request where
  "KVM_S390_INITIAL_RESET = IO_req KVMIO 151"

definition KVM_GET_MP_STATE :: request where
  "KVM_GET_MP_STATE = IOR_req KVMIO 152 struct_kvm_mp_state"

definition KVM_SET_MP_STATE :: request where
  "KVM_SET_MP_STATE = IOW_req KVMIO 153 struct_kvm_mp_state"

definition KVM_NMI :: request where
  "KVM_NMI = IO_req KVMIO 154"

definition KVM_SET_GUEST_DEBUG :: request where
  "KVM_SET_GUEST_DEBUG = IOW_req KVMIO 155 struct_kvm_guest_debug"

definition KVM_X86_SETUP_MCE :: request where
  "KVM_X86_SETUP_MCE = IOW_req KVMIO 156 u64_t"

definition KVM_X86_GET_MCE_CAP_SUPPORTED :: request where
  "KVM_X86_GET_MCE_CAP_SUPPORTED = IOR_req KVMIO 157 u64_t"

definition KVM_X86_SET_MCE :: request where
  "KVM_X86_SET_MCE = IOW_req KVMIO 158 struct_kvm_x86_mce"

definition KVM_GET_VCPU_EVENTS :: request where
  "KVM_GET_VCPU_EVENTS = IOR_req KVMIO 159 struct_kvm_vcpu_events"

definition KVM_SET_VCPU_EVENTS :: request where
  "KVM_SET_VCPU_EVENTS = IOW_req KVMIO 160 struct_kvm_vcpu_events"

definition KVM_GET_DEBUGREGS :: request where
  "KVM_GET_DEBUGREGS = IOR_req KVMIO 161 struct_kvm_debugregs"

definition KVM_SET_DEBUGREGS :: request where
  "KVM_SET_DEBUGREGS = IOW_req KVMIO 162 struct_kvm_debugregs"

definition KVM_ENABLE_CAP :: request where
  "KVM_ENABLE_CAP = IOW_req KVMIO 163 struct_kvm_enable_cap"

definition KVM_GET_XSAVE :: request where
  "KVM_GET_XSAVE = IOR_req KVMIO 164 struct_kvm_xsave"

definition KVM_SET_XSAVE :: request where
  "KVM_SET_XSAVE = IOW_req KVMIO 165 struct_kvm_xsave"

definition KVM_GET_XCRS :: request where
  "KVM_GET_XCRS = IOR_req KVMIO 166 struct_kvm_xcrs"

definition KVM_SET_XCRS :: request where
  "KVM_SET_XCRS = IOW_req KVMIO 167 struct_kvm_xcrs"

definition KVM_DIRTY_TLB :: request where
  "KVM_DIRTY_TLB = IOW_req KVMIO 170 struct_kvm_dirty_tlb"

definition KVM_GET_ONE_REG :: request where
  "KVM_GET_ONE_REG = IOW_req KVMIO 171 struct_kvm_one_reg"

definition KVM_SET_ONE_REG :: request where
  "KVM_SET_ONE_REG = IOW_req KVMIO 172 struct_kvm_one_reg"

definition KVM_KVMCLOCK_CTRL :: request where
  "KVM_KVMCLOCK_CTRL = IO_req KVMIO 173"

definition KVM_GET_REG_LIST :: request where
  "KVM_GET_REG_LIST = IOWR_req KVMIO 176 struct_kvm_reg_list"

definition KVM_S390_MEM_OP :: request where
  "KVM_S390_MEM_OP = IOW_req KVMIO 177 struct_kvm_s390_mem_op"

definition KVM_S390_GET_SKEYS :: request where
  "KVM_S390_GET_SKEYS = IOW_req KVMIO 178 struct_kvm_s390_skeys"

definition KVM_S390_SET_SKEYS :: request where
  "KVM_S390_SET_SKEYS = IOW_req KVMIO 179 struct_kvm_s390_skeys"

definition KVM_S390_IRQ :: request where
  "KVM_S390_IRQ = IOW_req KVMIO 180 struct_kvm_s390_irq"

definition KVM_S390_SET_IRQ_STATE :: request where
  "KVM_S390_SET_IRQ_STATE = IOW_req KVMIO 181 struct_kvm_s390_irq_state"

definition KVM_S390_GET_IRQ_STATE :: request where
  "KVM_S390_GET_IRQ_STATE = IOW_req KVMIO 182 struct_kvm_s390_irq_state"

definition KVM_SMI :: request where
  "KVM_SMI = IO_req KVMIO 183"

definition KVM_S390_GET_CMMA_BITS :: request where
  "KVM_S390_GET_CMMA_BITS = IOWR_req KVMIO 184 struct_kvm_s390_cmma_log"

definition KVM_S390_SET_CMMA_BITS :: request where
  "KVM_S390_SET_CMMA_BITS = IOW_req KVMIO 185 struct_kvm_s390_cmma_log"

definition KVM_MEMORY_ENCRYPT_OP :: "nat \<Rightarrow> request" where
  "KVM_MEMORY_ENCRYPT_OP w = IOWR_req KVMIO 186 (long_t w)"

definition KVM_MEMORY_ENCRYPT_REG_REGION :: request where
  "KVM_MEMORY_ENCRYPT_REG_REGION = IOR_req KVMIO 187 struct_kvm_enc_region"

definition KVM_MEMORY_ENCRYPT_UNREG_REGION :: request where
  "KVM_MEMORY_ENCRYPT_UNREG_REGION = IOR_req KVMIO 188 struct_kvm_enc_region"

definition KVM_HYPERV_EVENTFD :: request where
  "KVM_HYPERV_EVENTFD = IOW_req KVMIO 189 struct_kvm_hyperv_eventfd"

definition KVM_GET_NESTED_STATE :: request where
  "KVM_GET_NESTED_STATE = IOWR_req KVMIO 190 struct_kvm_nested_state"

definition KVM_SET_NESTED_STATE :: request where
  "KVM_SET_NESTED_STATE = IOW_req KVMIO 191 struct_kvm_nested_state"

definition KVM_CLEAR_DIRTY_LOG :: "nat \<Rightarrow> request" where
  "KVM_CLEAR_DIRTY_LOG w = IOWR_req KVMIO 192 (struct_kvm_clear_dirty_log w)"

definition KVM_GET_SUPPORTED_HV_CPUID :: request where
  "KVM_GET_SUPPORTED_HV_CPUID = IOWR_req KVMIO 193 struct_kvm_cpuid2"

definition KVM_ARM_VCPU_FINALIZE :: request where
  "KVM_ARM_VCPU_FINALIZE = IOW_req KVMIO 194 u32_t"

definition KVM_S390_NORMAL_RESET :: request where
  "KVM_S390_NORMAL_RESET = IO_req KVMIO 195"

definition KVM_S390_CLEAR_RESET :: request where
  "KVM_S390_CLEAR_RESET = IO_req KVMIO 196"

definition KVM_S390_PV_COMMAND :: request where
  "KVM_S390_PV_COMMAND = IOWR_req KVMIO 197 struct_kvm_pv_cmd"

definition KVM_X86_SET_MSR_FILTER :: "nat \<Rightarrow> request" where
  "KVM_X86_SET_MSR_FILTER w = IOW_req KVMIO 198 (struct_kvm_msr_filter w)"

definition KVM_RESET_DIRTY_RINGS :: request where
  "KVM_RESET_DIRTY_RINGS = IO_req KVMIO 199"

definition KVM_XEN_HVM_GET_ATTR :: request where
  "KVM_XEN_HVM_GET_ATTR = IOWR_req KVMIO 200 struct_kvm_xen_hvm_attr"

definition KVM_XEN_HVM_SET_ATTR :: request where
  "KVM_XEN_HVM_SET_ATTR = IOW_req KVMIO 201 struct_kvm_xen_hvm_attr"

definition KVM_XEN_VCPU_GET_ATTR :: request where
  "KVM_XEN_VCPU_GET_ATTR = IOWR_req KVMIO 202 struct_kvm_xen_vcpu_attr"

definition KVM_XEN_VCPU_SET_ATTR :: request where
  "KVM_XEN_VCPU_SET_ATTR = IOW_req KVMIO 203 struct_kvm_xen_vcpu_attr"

definition KVM_GET_SREGS2 :: request where
  "KVM_GET_SREGS2 = IOR_req KVMIO 204 struct_kvm_sregs2"

definition KVM_SET_SREGS2 :: request where
  "KVM_SET_SREGS2 = IOW_req KVMIO 205 struct_kvm_sregs2"

definition KVM_GET_STATS_FD :: request where
  "KVM_GET_STATS_FD = IO_req KVMIO 206"

definition kvm_requests :: "nat \<Rightarrow> request list" where
  "kvm_requests w = [KVM_GET_API_VERSION, KVM_CREATE_VM, KVM_GET_MSR_INDEX_LIST, KVM_CHECK_EXTENSION, KVM_GET_VCPU_MMAP_SIZE,
     KVM_GET_SUPPORTED_CPUID, KVM_S390_ENABLE_SIE, KVM_GET_EMULATED_CPUID, KVM_GET_MSR_FEATURE_INDEX_LIST,
     KVM_SET_MEMORY_REGION, KVM_CREATE_VCPU, KVM_GET_DIRTY_LOG w, KVM_SET_MEMORY_ALIAS, KVM_SET_NR_MMU_PAGES,
     KVM_GET_NR_MMU_PAGES, KVM_SET_USER_MEMORY_REGION, KVM_SET_TSS_ADDR, KVM_SET_IDENTITY_MAP_ADDR,
     KVM_S390_UCAS_MAP, KVM_S390_UCAS_UNMAP, KVM_S390_VCPU_FAULT w, KVM_CREATE_IRQCHIP, KVM_IRQ_LINE,
     KVM_GET_IRQCHIP, KVM_SET_IRQCHIP, KVM_CREATE_PIT, KVM_GET_PIT, KVM_SET_PIT, KVM_REGISTER_COALESCED_MMIO,
     KVM_IRQ_LINE_STATUS, KVM_UNREGISTER_COALESCED_MMIO, KVM_ASSIGN_PCI_DEVICE, KVM_SET_GSI_ROUTING,
     KVM_ASSIGN_DEV_IRQ, KVM_REINJECT_CONTROL, KVM_DEASSIGN_PCI_DEVICE, KVM_ASSIGN_SET_MSIX_NR,
     KVM_ASSIGN_SET_MSIX_ENTRY, KVM_DEASSIGN_DEV_IRQ, KVM_IRQFD, KVM_CREATE_PIT2, KVM_SET_BOOT_CPU_ID,
     KVM_IOEVENTFD, KVM_XEN_HVM_CONFIG, KVM_SET_CLOCK, KVM_GET_CLOCK, KVM_RUN, KVM_GET_REGS, KVM_SET_REGS,
     KVM_GET_SREGS, KVM_SET_SREGS, KVM_TRANSLATE, KVM_INTERRUPT, KVM_GET_MSRS, KVM_SET_MSRS, KVM_SET_CPUID,
     KVM_SET_SIGNAL_MASK, KVM_GET_FPU, KVM_SET_FPU, KVM_GET_LAPIC, KVM_SET_LAPIC, KVM_SET_CPUID2, KVM_GET_CPUID2,
     KVM_TPR_ACCESS_REPORTING, KVM_SET_VAPIC_ADDR, KVM_S390_INTERRUPT, KVM_S390_STORE_STATUS w,
     KVM_S390_SET_INITIAL_PSW, KVM_S390_INITIAL_RESET, KVM_GET_MP_STATE, KVM_SET_MP_STATE, KVM_NMI,
     KVM_SET_GUEST_DEBUG, KVM_X86_SETUP_MCE, KVM_X86_GET_MCE_CAP_SUPPORTED, KVM_X86_SET_MCE, KVM_GET_VCPU_EVENTS,
     KVM_GET_PIT2, KVM_SET_VCPU_EVENTS, KVM_SET_PIT2, KVM_GET_DEBUGREGS, KVM_PPC_GET_PVINFO, KVM_SET_TSC_KHZ,
     KVM_SET_DEBUGREGS, KVM_GET_TSC_KHZ, KVM_ENABLE_CAP, KVM_GET_XSAVE, KVM_ASSIGN_SET_INTX_MASK, KVM_SIGNAL_MSI,
     KVM_SET_XSAVE, KVM_GET_XCRS, KVM_PPC_GET_SMMU_INFO, KVM_SET_XCRS, KVM_PPC_ALLOCATE_HTAB, KVM_DIRTY_TLB,
     KVM_GET_ONE_REG, KVM_SET_ONE_REG, KVM_KVMCLOCK_CTRL, KVM_PPC_RESIZE_HPT_PREPARE, KVM_PPC_RESIZE_HPT_COMMIT,
     KVM_GET_REG_LIST, KVM_S390_MEM_OP, KVM_SET_PMU_EVENT_FILTER, KVM_S390_GET_SKEYS, KVM_PPC_SVM_OFF,
     KVM_S390_SET_SKEYS, KVM_S390_IRQ, KVM_S390_SET_IRQ_STATE, KVM_S390_GET_IRQ_STATE, KVM_SMI,
     KVM_S390_GET_CMMA_BITS, KVM_S390_SET_CMMA_BITS, KVM_MEMORY_ENCRYPT_OP w, KVM_MEMORY_ENCRYPT_REG_REGION,
     KVM_MEMORY_ENCRYPT_UNREG_REGION, KVM_HYPERV_EVENTFD, KVM_GET_NESTED_STATE, KVM_SET_NESTED_STATE,
     KVM_CLEAR_DIRTY_LOG w, KVM_GET_SUPPORTED_HV_CPUID, KVM_ARM_VCPU_FINALIZE, KVM_S390_NORMAL_RESET,
     KVM_S390_CLEAR_RESET, KVM_S390_PV_COMMAND, KVM_X86_SET_MSR_FILTER w, KVM_RESET_DIRTY_RINGS,
     KVM_XEN_HVM_GET_ATTR, KVM_XEN_HVM_SET_ATTR, KVM_XEN_VCPU_GET_ATTR, KVM_XEN_VCPU_SET_ATTR, KVM_GET_SREGS2,
     KVM_SET_SREGS2, KVM_GET_STATS_FD, KVM_CREATE_DEVICE, KVM_SET_DEVICE_ATTR, KVM_GET_DEVICE_ATTR,
     KVM_HAS_DEVICE_ATTR]"

text \<open>The requests whose number on i386 is not that of a 64-bit kernel.\<close>

definition kvm_changed :: "request list" where
  "kvm_changed = [KVM_S390_VCPU_FAULT 8, KVM_S390_STORE_STATUS 8, KVM_DIRTY_TLB, KVM_MEMORY_ENCRYPT_OP 8,
     KVM_X86_SET_MSR_FILTER 8]"

section \<open>Properties\<close>

lemma kvm_table_8_8: "table_ok 8 (kvm_requests 8)"
  by code_simp

lemma kvm_table_8_4: "table_ok 8 (kvm_requests 4)"
  by code_simp

lemma kvm_table_4_4: "table_ok 4 (kvm_requests 4)"
  by code_simp

lemma kvm_table_2_4: "table_ok 2 (kvm_requests 4)"
  by code_simp

lemmas kvm_tables = kvm_table_8_8 kvm_table_8_4 kvm_table_4_4 kvm_table_2_4

lemma kvm_interface:
  assumes "(amax, w) \<in> set abis"
  shows "ioctl_interface amax (kvm_requests w)"
  using assms kvm_tables [THEN table_interface] by (auto simp add: abis_def)

interpretation kvm_kernel: ioctl_interface 8 "kvm_requests 8"
  by (rule kvm_tables(1) [THEN table_interface])

interpretation kvm_i386: ioctl_compat 4 "kvm_requests 4" "kvm_requests 8" kvm_changed
proof (intro ioctl_compat.intro ioctl_compat_axioms.intro)
  show "ioctl_interface 8 (kvm_requests 8)" by (rule kvm_tables(1) [THEN table_interface])
  show "ioctl_interface 4 (kvm_requests 4)" by (rule kvm_tables(3) [THEN table_interface])
  show "list_all2 (\<lambda>r q. (req_key 4 r = req_key 8 q) \<noteq> (q \<in> set kvm_changed)) (kvm_requests 4) (kvm_requests 8)"
    by code_simp
  show "list_all2 (\<lambda>r q. agree 4 (req_arg q) \<or> q \<in> set kvm_changed \<or> r \<noteq> q) (kvm_requests 4) (kvm_requests 8)"
    by code_simp
qed

text \<open>
  The requests of the virtual machine interface have different numbers on every ABI and layout of request
  numbers, apart from the one that \<open>kvm_shared_number\<close> is about, and the size that the kernel decodes is the size of
  the argument.
\<close>

theorem kvm_requests_decoded:
  assumes "(amax, w) \<in> set abis" "L \<in> ioc_layouts" "32 \<le> LENGTH('l)"
  shows "distinct (map (request_number L amax) (kvm_requests w) :: 'l::len word list) \<and>
    list_all (\<lambda>r. IOC_SIZE L (request_number L amax r :: 'l word) = word_of_nat (sizeof amax (req_arg r)))
      (kvm_requests w)"
  using kvm_interface [OF assms(1)] assms(2,3) by (rule ioctl_interface.sound)

theorem kvm_requests_decoded_witness:
  "distinct (map (request_number generic_ioc 8) (kvm_requests 8) :: u32 list) \<and>
    list_all (\<lambda>r. IOC_SIZE generic_ioc (request_number generic_ioc 8 r :: u32) = word_of_nat (sizeof 8 (req_arg r)))
      (kvm_requests 8)"
  by (rule kvm_requests_decoded) (simp_all add: abis_def ioc_layouts_def)

text \<open>
  An i386 program uses the numbers of the 64-bit kernel, except for the requests of \<open>kvm_changed\<close>; the kernel
  finds every member of the other arguments without pointers where the program put it.
\<close>

theorem kvm_compat_requests:
  assumes "L \<in> ioc_layouts" "32 \<le> LENGTH('l)"
  shows "list_all2 (\<lambda>r q. ((request_number L 4 r :: 'l::len word) = request_number L 8 q) \<noteq> (q \<in> set kvm_changed))
      (kvm_requests 4) (kvm_requests 8) \<and>
    list_all2 (\<lambda>r q. r = q \<longrightarrow> q \<notin> set kvm_changed \<longrightarrow>
        leaves 4 0 (req_arg q) = leaves 8 0 (req_arg q)) (kvm_requests 4) (kvm_requests 8)"
  using kvm_i386.reached [OF assms] kvm_i386.passed by blast

theorem kvm_compat_requests_witness:
  "list_all2 (\<lambda>r q. ((request_number generic_ioc 4 r :: u32) = request_number generic_ioc 8 q) \<noteq> (q \<in> set kvm_changed))
    (kvm_requests 4) (kvm_requests 8)"
  using kvm_compat_requests [of generic_ioc, where ?'l = 32] by (simp add: ioc_layouts_def)

text \<open>
  \<^verbatim>\<open>KVM_ARM_SET_DEVICE_ADDR\<close> and \<^verbatim>\<open>KVM_GET_ONE_REG\<close> have the same number on every ABI and layout: direction,
  type and number are the same, and so are the sizes of their different arguments. Only the file they are
  applied to tells them apart.
\<close>

theorem kvm_shared_number:
  assumes "amax \<in> {1, 2, 4, 8}"
  shows "(request_number L amax KVM_ARM_SET_DEVICE_ADDR :: 'l::len word) = request_number L amax KVM_GET_ONE_REG \<and>
    req_arg KVM_ARM_SET_DEVICE_ADDR = struct_kvm_arm_device_addr \<and> req_arg KVM_GET_ONE_REG = struct_kvm_one_reg"
proof -
  have "sizeof 8 struct_kvm_arm_device_addr = sizeof 8 struct_kvm_one_reg" by code_simp
  moreover have "tight struct_kvm_arm_device_addr" "tight struct_kvm_one_reg" by code_simp+
  ultimately have "sizeof amax struct_kvm_arm_device_addr = sizeof amax struct_kvm_one_reg"
    using tight_sizeof [OF assms] by simp
  then show ?thesis by (simp add: KVM_ARM_SET_DEVICE_ADDR_def KVM_GET_ONE_REG_def)
qed

theorem kvm_shared_number_witness:
  "(request_number generic_ioc 8 KVM_ARM_SET_DEVICE_ADDR :: u32) = request_number generic_ioc 8 KVM_GET_ONE_REG"
  using kvm_shared_number [of 8 generic_ioc, where ?'l = 32] by simp

end
