(* ===== verification/Bcache.thy ===== *)
theory Bcache
  imports Packed_Codes Uapi_Memory
begin

text \<open>
  The on-disk format of bcache (\<^verbatim>\<open>include/linux/bcache.h\<close>): btree keys with their bit fields, the
  pointers of a key, the arithmetic that steps through a set of keys, and the flags and magic numbers
  of the superblock.

  A \<^verbatim>\<open>struct bkey\<close> ends in a flexible array; here \<open>ptr\<close> holds the words of the enclosing object behind
  the key, and an access outside of it is \<open>None\<close>. Memory that holds keys is an array of \<^verbatim>\<open>__u64\<close> and a
  \<^verbatim>\<open>struct bkey *\<close> an index into it: a key is always aligned to such a word.
\<close>

section \<open>The accessor macros\<close>

definition BITMASK :: "nat \<Rightarrow> nat \<Rightarrow> u64 \<Rightarrow> u64" where
  "BITMASK offset sz field = drop_bit offset field AND NOT (push_bit sz (NOT 0))"

definition SET_BITMASK :: "nat \<Rightarrow> nat \<Rightarrow> u64 \<Rightarrow> u64 \<Rightarrow> u64" where
  "SET_BITMASK offset sz field v = (let
     field = field AND NOT (push_bit offset (NOT (push_bit sz (NOT 0))))
     in field OR push_bit offset (v AND NOT (push_bit sz (NOT 0))))"

section \<open>Btree keys\<close>

record bkey =
  high :: u64
  low :: u64
  ptr :: "u64 list"

definition KEY_SIZE_BITS :: nat where
  "KEY_SIZE_BITS = 16"

definition KEY_MAX_U64S :: nat where
  "KEY_MAX_U64S = 8"

definition KEY_PTRS :: "bkey \<Rightarrow> u64" where
  "KEY_PTRS k = BITMASK 60 3 (high k)"

definition SET_KEY_PTRS :: "bkey \<Rightarrow> u64 \<Rightarrow> bkey" where
  "SET_KEY_PTRS k v = k\<lparr>high := SET_BITMASK 60 3 (high k) v\<rparr>"

definition HEADER_SIZE :: "bkey \<Rightarrow> u64" where
  "HEADER_SIZE k = BITMASK 58 2 (high k)"

definition SET_HEADER_SIZE :: "bkey \<Rightarrow> u64 \<Rightarrow> bkey" where
  "SET_HEADER_SIZE k v = k\<lparr>high := SET_BITMASK 58 2 (high k) v\<rparr>"

definition KEY_CSUM :: "bkey \<Rightarrow> u64" where
  "KEY_CSUM k = BITMASK 56 2 (high k)"

definition SET_KEY_CSUM :: "bkey \<Rightarrow> u64 \<Rightarrow> bkey" where
  "SET_KEY_CSUM k v = k\<lparr>high := SET_BITMASK 56 2 (high k) v\<rparr>"

definition KEY_PINNED :: "bkey \<Rightarrow> u64" where
  "KEY_PINNED k = BITMASK 55 1 (high k)"

definition SET_KEY_PINNED :: "bkey \<Rightarrow> u64 \<Rightarrow> bkey" where
  "SET_KEY_PINNED k v = k\<lparr>high := SET_BITMASK 55 1 (high k) v\<rparr>"

definition KEY_DIRTY :: "bkey \<Rightarrow> u64" where
  "KEY_DIRTY k = BITMASK 36 1 (high k)"

definition SET_KEY_DIRTY :: "bkey \<Rightarrow> u64 \<Rightarrow> bkey" where
  "SET_KEY_DIRTY k v = k\<lparr>high := SET_BITMASK 36 1 (high k) v\<rparr>"

definition KEY_SIZE :: "bkey \<Rightarrow> u64" where
  "KEY_SIZE k = BITMASK 20 KEY_SIZE_BITS (high k)"

definition SET_KEY_SIZE :: "bkey \<Rightarrow> u64 \<Rightarrow> bkey" where
  "SET_KEY_SIZE k v = k\<lparr>high := SET_BITMASK 20 KEY_SIZE_BITS (high k) v\<rparr>"

definition KEY_INODE :: "bkey \<Rightarrow> u64" where
  "KEY_INODE k = BITMASK 0 20 (high k)"

definition SET_KEY_INODE :: "bkey \<Rightarrow> u64 \<Rightarrow> bkey" where
  "SET_KEY_INODE k v = k\<lparr>high := SET_BITMASK 0 20 (high k) v\<rparr>"

definition KEY_OFFSET :: "bkey \<Rightarrow> u64" where
  "KEY_OFFSET k = low k"

definition SET_KEY_OFFSET :: "bkey \<Rightarrow> u64 \<Rightarrow> bkey" where
  "SET_KEY_OFFSET k v = k\<lparr>low := v\<rparr>"

definition KEY :: "u64 \<Rightarrow> u64 \<Rightarrow> u64 \<Rightarrow> bkey" where
  "KEY inode offset sz =
     \<lparr>high = push_bit 63 1 OR push_bit 20 sz OR inode, low = offset, ptr = []\<rparr>"

definition ZERO_KEY :: bkey where
  "ZERO_KEY = KEY 0 0 0"

text \<open>The argument \<^verbatim>\<open>~(~0 << 20)\<close> is an \<^verbatim>\<open>int\<close>, never negative, widened where it is used.\<close>

definition MAX_KEY_INODE :: c_int where
  "MAX_KEY_INODE = NOT (push_bit 20 (NOT 0))"

definition MAX_KEY_OFFSET :: u64 where
  "MAX_KEY_OFFSET = drop_bit 1 (NOT 0)"

definition MAX_KEY :: bkey where
  "MAX_KEY = KEY (ucast MAX_KEY_INODE) MAX_KEY_OFFSET 0"

definition KEY_START :: "bkey \<Rightarrow> u64" where
  "KEY_START k = KEY_OFFSET k - KEY_SIZE k"

definition START_KEY :: "bkey \<Rightarrow> bkey" where
  "START_KEY k = KEY (KEY_INODE k) (KEY_START k) 0"

section \<open>Pointers of a key\<close>

definition PTR_DEV_BITS :: nat where
  "PTR_DEV_BITS = 12"

definition PTR_FIELD :: "nat \<Rightarrow> nat \<Rightarrow> bkey \<Rightarrow> nat \<Rightarrow> u64 option" where
  "PTR_FIELD offset sz k i = do {
     p \<leftarrow> rd (ptr k) i;
     Some (drop_bit offset p AND NOT (push_bit sz (NOT 0)))
   }"

definition SET_PTR_FIELD :: "nat \<Rightarrow> nat \<Rightarrow> bkey \<Rightarrow> nat \<Rightarrow> u64 \<Rightarrow> bkey option" where
  "SET_PTR_FIELD offset sz k i v = do {
     p \<leftarrow> rd (ptr k) i;
     ps \<leftarrow> wr (ptr k) i (p AND NOT (push_bit offset (NOT (push_bit sz (NOT 0)))));
     p \<leftarrow> rd ps i;
     ps \<leftarrow> wr ps i (p OR push_bit offset (v AND NOT (push_bit sz (NOT 0))));
     Some (k\<lparr>ptr := ps\<rparr>)
   }"

definition PTR_DEV :: "bkey \<Rightarrow> nat \<Rightarrow> u64 option" where
  "PTR_DEV = PTR_FIELD 51 PTR_DEV_BITS"

definition SET_PTR_DEV :: "bkey \<Rightarrow> nat \<Rightarrow> u64 \<Rightarrow> bkey option" where
  "SET_PTR_DEV = SET_PTR_FIELD 51 PTR_DEV_BITS"

definition PTR_OFFSET :: "bkey \<Rightarrow> nat \<Rightarrow> u64 option" where
  "PTR_OFFSET = PTR_FIELD 8 43"

definition SET_PTR_OFFSET :: "bkey \<Rightarrow> nat \<Rightarrow> u64 \<Rightarrow> bkey option" where
  "SET_PTR_OFFSET = SET_PTR_FIELD 8 43"

definition PTR_GEN :: "bkey \<Rightarrow> nat \<Rightarrow> u64 option" where
  "PTR_GEN = PTR_FIELD 0 8"

definition SET_PTR_GEN :: "bkey \<Rightarrow> nat \<Rightarrow> u64 \<Rightarrow> bkey option" where
  "SET_PTR_GEN = SET_PTR_FIELD 0 8"

definition PTR_CHECK_DEV :: c_int where
  "PTR_CHECK_DEV = push_bit PTR_DEV_BITS 1 - 1"

definition MAKE_PTR :: "u64 \<Rightarrow> u64 \<Rightarrow> u64 \<Rightarrow> u64" where
  "MAKE_PTR gen offset dev = push_bit 51 dev OR push_bit 8 offset OR gen"

section \<open>Keys in memory\<close>

text \<open>The key at index \<open>p\<close> of a memory: its two words, and everything behind them as \<open>ptr\<close>.\<close>

definition bkey_at :: "u64 list \<Rightarrow> nat \<Rightarrow> bkey option" where
  "bkey_at d p = do {
     h \<leftarrow> rd d p;
     l \<leftarrow> rd d (Suc p);
     Some \<lparr>high = h, low = l, ptr = drop (Suc (Suc p)) d\<rparr>
   }"

definition bkey_u64s :: "bkey \<Rightarrow> nat" where
  "bkey_u64s k = 16 div 8 + unat (KEY_PTRS k)"

definition bkey_bytes :: "bkey \<Rightarrow> nat" where
  "bkey_bytes k = bkey_u64s k * 8"

definition bkey_copy :: "u64 list \<Rightarrow> nat \<Rightarrow> u64 list \<Rightarrow> nat \<Rightarrow> u64 list option" where
  "bkey_copy dmem dest smem src = do {
     k \<leftarrow> bkey_at smem src;
     ws \<leftarrow> rdn smem src (bkey_bytes k div 8);
     wrn dmem dest ws
   }"

definition bkey_copy_key :: "bkey \<Rightarrow> bkey \<Rightarrow> bkey" where
  "bkey_copy_key dest src = (let
     dest = SET_KEY_INODE dest (KEY_INODE src)
     in SET_KEY_OFFSET dest (KEY_OFFSET src))"

definition bkey_next :: "u64 list \<Rightarrow> nat \<Rightarrow> nat option" where
  "bkey_next d p = do {
     k \<leftarrow> bkey_at d p;
     Some (p + bkey_u64s k)
   }"

definition bkey_idx :: "nat \<Rightarrow> u32 \<Rightarrow> nat" where
  "bkey_idx p nr_keys = p + unat nr_keys"

definition BKEY_PAD :: nat where
  "BKEY_PAD = 8"

section \<open>The superblock\<close>

definition BCACHE_SB_VERSION_CDEV :: u64 where "BCACHE_SB_VERSION_CDEV = 0"
definition BCACHE_SB_VERSION_BDEV :: u64 where "BCACHE_SB_VERSION_BDEV = 1"
definition BCACHE_SB_VERSION_CDEV_WITH_UUID :: u64 where "BCACHE_SB_VERSION_CDEV_WITH_UUID = 3"
definition BCACHE_SB_VERSION_BDEV_WITH_OFFSET :: u64 where "BCACHE_SB_VERSION_BDEV_WITH_OFFSET = 4"
definition BCACHE_SB_VERSION_CDEV_WITH_FEATURES :: u64 where "BCACHE_SB_VERSION_CDEV_WITH_FEATURES = 5"
definition BCACHE_SB_VERSION_BDEV_WITH_FEATURES :: u64 where "BCACHE_SB_VERSION_BDEV_WITH_FEATURES = 6"
definition BCACHE_SB_MAX_VERSION :: u64 where "BCACHE_SB_MAX_VERSION = 6"

definition SB_LABEL_SIZE :: nat where "SB_LABEL_SIZE = 32"
definition SB_JOURNAL_BUCKETS :: nat where "SB_JOURNAL_BUCKETS = 256"

text \<open>
  The in-memory superblock. \<^verbatim>\<open>set_magic\<close> shares its first eight bytes with \<^verbatim>\<open>set_uuid\<close>; the members
  \<^verbatim>\<open>nbuckets\<close> and \<^verbatim>\<open>data_offset\<close>, and \<^verbatim>\<open>njournal_buckets\<close> and \<^verbatim>\<open>keys\<close>, are two names of one member each.
\<close>

record cache_sb =
  sb_offset :: u64
  sb_version :: u64
  sb_magic :: "u8 list"
  sb_uuid :: "u8 list"
  set_uuid :: "u8 list"
  sb_label :: "u8 list"
  sb_flags :: u64
  sb_seq :: u64
  feature_compat :: u64
  feature_incompat :: u64
  feature_ro_compat :: u64
  nbuckets :: u64
  block_size :: u16
  nr_in_set :: u16
  nr_this_dev :: u16
  bucket_size :: u32
  last_mount :: u32
  first_bucket :: u16
  njournal_buckets :: u16
  sb_d :: "u64 list"

definition set_magic :: "endian \<Rightarrow> cache_sb \<Rightarrow> u64 option" where
  "set_magic e sb = load e (set_uuid sb) 0"

definition wf_sb :: "cache_sb \<Rightarrow> bool" where
  "wf_sb sb \<longleftrightarrow> length (sb_magic sb) = 16 \<and> length (sb_uuid sb) = 16 \<and> length (set_uuid sb) = 16 \<and>
     length (sb_label sb) = SB_LABEL_SIZE \<and> length (sb_d sb) = SB_JOURNAL_BUCKETS"

definition SB_IS_BDEV :: "cache_sb \<Rightarrow> bool" where
  "SB_IS_BDEV sb \<longleftrightarrow> sb_version sb = BCACHE_SB_VERSION_BDEV
     \<or> sb_version sb = BCACHE_SB_VERSION_BDEV_WITH_OFFSET
     \<or> sb_version sb = BCACHE_SB_VERSION_BDEV_WITH_FEATURES"

definition CACHE_SYNC :: "cache_sb \<Rightarrow> u64" where
  "CACHE_SYNC sb = BITMASK 0 1 (sb_flags sb)"

definition SET_CACHE_SYNC :: "cache_sb \<Rightarrow> u64 \<Rightarrow> cache_sb" where
  "SET_CACHE_SYNC sb v = sb\<lparr>sb_flags := SET_BITMASK 0 1 (sb_flags sb) v\<rparr>"

definition CACHE_DISCARD :: "cache_sb \<Rightarrow> u64" where
  "CACHE_DISCARD sb = BITMASK 1 1 (sb_flags sb)"

definition SET_CACHE_DISCARD :: "cache_sb \<Rightarrow> u64 \<Rightarrow> cache_sb" where
  "SET_CACHE_DISCARD sb v = sb\<lparr>sb_flags := SET_BITMASK 1 1 (sb_flags sb) v\<rparr>"

definition CACHE_REPLACEMENT :: "cache_sb \<Rightarrow> u64" where
  "CACHE_REPLACEMENT sb = BITMASK 2 3 (sb_flags sb)"

definition SET_CACHE_REPLACEMENT :: "cache_sb \<Rightarrow> u64 \<Rightarrow> cache_sb" where
  "SET_CACHE_REPLACEMENT sb v = sb\<lparr>sb_flags := SET_BITMASK 2 3 (sb_flags sb) v\<rparr>"

definition BDEV_CACHE_MODE :: "cache_sb \<Rightarrow> u64" where
  "BDEV_CACHE_MODE sb = BITMASK 0 4 (sb_flags sb)"

definition SET_BDEV_CACHE_MODE :: "cache_sb \<Rightarrow> u64 \<Rightarrow> cache_sb" where
  "SET_BDEV_CACHE_MODE sb v = sb\<lparr>sb_flags := SET_BITMASK 0 4 (sb_flags sb) v\<rparr>"

definition BDEV_STATE :: "cache_sb \<Rightarrow> u64" where
  "BDEV_STATE sb = BITMASK 61 2 (sb_flags sb)"

definition SET_BDEV_STATE :: "cache_sb \<Rightarrow> u64 \<Rightarrow> cache_sb" where
  "SET_BDEV_STATE sb v = sb\<lparr>sb_flags := SET_BITMASK 61 2 (sb_flags sb) v\<rparr>"

definition JSET_MAGIC :: u64 where "JSET_MAGIC = 0x245235c1a3625032"
definition PSET_MAGIC :: u64 where "PSET_MAGIC = 0x6750e15f87337f91"
definition BSET_MAGIC :: u64 where "BSET_MAGIC = 0x90135c78b99e07f5"

definition jset_magic :: "endian \<Rightarrow> cache_sb \<Rightarrow> u64 option" where
  "jset_magic e sb = map_option (\<lambda>m. m XOR JSET_MAGIC) (set_magic e sb)"

definition pset_magic :: "endian \<Rightarrow> cache_sb \<Rightarrow> u64 option" where
  "pset_magic e sb = map_option (\<lambda>m. m XOR PSET_MAGIC) (set_magic e sb)"

definition bset_magic :: "endian \<Rightarrow> cache_sb \<Rightarrow> u64 option" where
  "bset_magic e sb = map_option (\<lambda>m. m XOR BSET_MAGIC) (set_magic e sb)"

section \<open>The fields of a word\<close>

lemma not_shifted_ones: "NOT (push_bit n (NOT 0)) = (mask n :: 'a::len word)"
  by (rule bit_word_eqI) (auto simp add: bit_simps)

lemma BITMASK_eq: "BITMASK off n w = take_bit n (drop_bit off w)"
  by (simp only: BITMASK_def not_shifted_ones take_bit_eq_mask)

lemma bit_SET_BITMASK: "bit (SET_BITMASK off n w v) i \<longleftrightarrow> i < 64 \<and>
    (if off \<le> i \<and> i < off + n then bit v (i - off) else bit w i)"
  by (auto simp add: SET_BITMASK_def Let_def not_shifted_ones bit_simps dest: bit_imp_le_length)

lemma bit_BITMASK: "bit (BITMASK off n w) i \<longleftrightarrow> i < n \<and> bit w (off + i)"
  by (simp add: BITMASK_eq bit_simps)

lemma BITMASK_SET_same:
  "off + n \<le> 64 \<Longrightarrow> BITMASK off n (SET_BITMASK off n w v) = take_bit n v"
  by (rule bit_word_eqI) (auto simp add: bit_BITMASK bit_SET_BITMASK bit_simps)

lemma BITMASK_SET_other:
  "off + n \<le> 64 \<Longrightarrow> off + n \<le> off' \<or> off' + n' \<le> off \<Longrightarrow>
    BITMASK off n (SET_BITMASK off' n' w v) = BITMASK off n w"
  by (rule bit_word_eqI) (auto simp add: bit_BITMASK bit_SET_BITMASK dest: bit_imp_le_length)

lemma SET_BITMASK_get: "SET_BITMASK off n w (BITMASK off n w) = w"
  by (rule bit_word_eqI) (auto simp add: bit_BITMASK bit_SET_BITMASK)

lemma SET_BITMASK_twice: "SET_BITMASK off n (SET_BITMASK off n w v) v' = SET_BITMASK off n w v'"
  by (rule bit_word_eqI) (auto simp add: bit_SET_BITMASK)

lemma SET_BITMASK_commute:
  "off + n \<le> off' \<or> off' + n' \<le> off \<Longrightarrow>
    SET_BITMASK off n (SET_BITMASK off' n' w v') v = SET_BITMASK off' n' (SET_BITMASK off n w v) v'"
  by (rule bit_word_eqI) (auto simp add: bit_SET_BITMASK)

lemmas bitmask_laws = BITMASK_SET_same BITMASK_SET_other SET_BITMASK_get SET_BITMASK_twice

section \<open>Independence of the fields\<close>

text \<open>The fields of \<^verbatim>\<open>high\<close>, named so that a statement can range over them.\<close>

datatype key_field = Ptrs | Header_Size | Csum | Pinned | Dirty | Size | Inode

fun key_get :: "key_field \<Rightarrow> bkey \<Rightarrow> u64" where
  "key_get Ptrs = KEY_PTRS"
| "key_get Header_Size = HEADER_SIZE"
| "key_get Csum = KEY_CSUM"
| "key_get Pinned = KEY_PINNED"
| "key_get Dirty = KEY_DIRTY"
| "key_get Size = KEY_SIZE"
| "key_get Inode = KEY_INODE"

fun key_set :: "key_field \<Rightarrow> bkey \<Rightarrow> u64 \<Rightarrow> bkey" where
  "key_set Ptrs = SET_KEY_PTRS"
| "key_set Header_Size = SET_HEADER_SIZE"
| "key_set Csum = SET_KEY_CSUM"
| "key_set Pinned = SET_KEY_PINNED"
| "key_set Dirty = SET_KEY_DIRTY"
| "key_set Size = SET_KEY_SIZE"
| "key_set Inode = SET_KEY_INODE"

fun key_offset :: "key_field \<Rightarrow> nat" where
  "key_offset Ptrs = 60"
| "key_offset Header_Size = 58"
| "key_offset Csum = 56"
| "key_offset Pinned = 55"
| "key_offset Dirty = 36"
| "key_offset Size = 20"
| "key_offset Inode = 0"

fun key_width :: "key_field \<Rightarrow> nat" where
  "key_width Ptrs = 3"
| "key_width Header_Size = 2"
| "key_width Csum = 2"
| "key_width Pinned = 1"
| "key_width Dirty = 1"
| "key_width Size = 16"
| "key_width Inode = 20"

lemmas key_field_defs = KEY_PTRS_def SET_KEY_PTRS_def HEADER_SIZE_def SET_HEADER_SIZE_def
  KEY_CSUM_def SET_KEY_CSUM_def KEY_PINNED_def SET_KEY_PINNED_def KEY_DIRTY_def SET_KEY_DIRTY_def
  KEY_SIZE_def SET_KEY_SIZE_def KEY_INODE_def SET_KEY_INODE_def KEY_SIZE_BITS_def

lemma key_get_eq: "key_get f k = BITMASK (key_offset f) (key_width f) (high k)"
  by (cases f) (simp_all add: key_field_defs)

lemma key_set_eq: "key_set f k v = k\<lparr>high := SET_BITMASK (key_offset f) (key_width f) (high k) v\<rparr>"
  by (cases f) (simp_all add: key_field_defs)

lemma key_field_in_word: "key_offset f + key_width f \<le> 64"
  by (cases f) simp_all

lemma key_fields_disjoint: "f \<noteq> g \<Longrightarrow> key_offset f + key_width f \<le> key_offset g \<or>
    key_offset g + key_width g \<le> key_offset f"
  by (cases f; cases g) simp_all

interpretation key: accessor "key_get f" "key_set f" "take_bit (key_width f)" for f
  by unfold_locales (simp_all add: key_get_eq key_set_eq bitmask_laws key_field_in_word)

lemma separate_key_fields:
  assumes "f \<noteq> g"
  shows "separate_accessors (key_get f) (key_set f) (take_bit (key_width f))
    (key_get g) (key_set g) (take_bit (key_width g))"
  by unfold_locales
    (simp add: key_set_eq SET_BITMASK_commute [OF key_fields_disjoint [OF assms]])

text \<open>
  C13: The seven bit fields of a btree key are independent variables: reading a field after a field
  was set gives the low bits of the value that was stored, or what was there before when another
  field was set. Setting a field leaves the offset, the pointers and the order bit 63 alone.
\<close>

theorem bkey_fields_independent:
  "key_get f (key_set g k v) = (if f = g then take_bit (key_width f) v else key_get f k) \<and>
   KEY_OFFSET (key_set g k v) = KEY_OFFSET k \<and> ptr (key_set g k v) = ptr k \<and>
   bit (high (key_set g k v)) 63 = bit (high k) 63"
proof (intro conjI)
  show "key_get f (key_set g k v) = (if f = g then take_bit (key_width f) v else key_get f k)"
    using separate_accessors.get_other [OF separate_key_fields] by (simp add: key.get_put)
  show "bit (high (key_set g k v)) 63 = bit (high k) 63"
    unfolding key_set_eq by (cases g) (simp_all add: bit_SET_BITMASK)
qed (simp_all add: key_set_eq KEY_OFFSET_def)

section \<open>Extents\<close>

lemma bit_top: "bit (push_bit 63 1 :: u64) n \<longleftrightarrow> n = 63"
  by (auto simp only: bit_push_bit_iff bit_1_iff possible_bit_word) simp_all

lemma bit_high_KEY: "bit (high (KEY inode start sz)) n \<longleftrightarrow>
    n = 63 \<or> (20 \<le> n \<and> n < 64 \<and> bit sz (n - 20)) \<or> bit inode n"
  unfolding KEY_def bkey.simps bit_or_iff bit_top by (auto simp add: bit_simps)

lemma key_get_KEY:
  assumes "fits 20 inode" "fits 16 sz"
  shows "key_get f (KEY inode start sz) = (case f of Inode \<Rightarrow> inode | Size \<Rightarrow> sz | _ \<Rightarrow> 0)"
  unfolding key_get_eq using assms
  by (intro bit_word_eqI, cases f)
    (auto simp add: bit_BITMASK bit_high_KEY dest: fits_bitD)

lemma KEY_fields:
  assumes "fits 20 inode" "fits 16 sz"
  shows "KEY_INODE (KEY inode start sz) = inode" "KEY_SIZE (KEY inode start sz) = sz"
    and "KEY_PTRS (KEY inode start sz) = 0" "KEY_OFFSET (KEY inode start sz) = start"
  using key_get_KEY [OF assms, of Inode] key_get_KEY [OF assms, of Size]
    key_get_KEY [OF assms, of Ptrs] by (simp_all add: KEY_OFFSET_def KEY_def)

text \<open>
  An extent of \<open>sz\<close> sectors is stored under the offset of its end. A key made for an inode, an
  end and a length reads back with them, all its other fields empty; \<^verbatim>\<open>KEY_START\<close> is the first sector,
  and \<^verbatim>\<open>START_KEY\<close> is an empty extent of the inode at that place.
\<close>

theorem key_extent:
  assumes "fits 20 inode" "fits 16 sz"
  shows "key_get f (KEY inode (start + sz) sz) = (case f of Inode \<Rightarrow> inode | Size \<Rightarrow> sz | _ \<Rightarrow> 0) \<and>
    KEY_START (KEY inode (start + sz) sz) = start \<and>
    START_KEY (KEY inode (start + sz) sz) = KEY inode start 0 \<and>
    bkey_u64s (KEY inode (start + sz) sz) = 2"
  using key_get_KEY [OF assms] KEY_fields [OF assms]
  by (simp add: KEY_START_def START_KEY_def bkey_u64s_def)

theorem key_extent_witness:
  "key_get f (KEY 7 (100 + 8) 8) = (case f of Inode \<Rightarrow> 7 | Size \<Rightarrow> 8 | _ \<Rightarrow> 0) \<and>
    KEY_START (KEY 7 (100 + 8) 8) = 100 \<and> START_KEY (KEY 7 (100 + 8) 8) = KEY 7 100 0 \<and>
    bkey_u64s (KEY 7 (100 + 8) 8) = 2"
  by (rule key_extent) (simp_all add: fits_def)

text \<open>A length of \<open>0x10000\<close> sectors does not fit and is taken for the dirty flag.\<close>

theorem key_size_spills_into_dirty:
  "KEY_SIZE (KEY inode offset 0x10000) = KEY_SIZE (KEY inode offset 0) \<and>
    KEY_DIRTY (KEY inode offset 0x10000) = 1"
proof -
  have bit16: "bit (0x10000 :: u64) n \<longleftrightarrow> n = 16" for n
    using bit_exp_iff [of 16 n, where ?'a = u64] by (auto simp add: possible_bit_word)
  have hk: "bit (high (KEY inode offset 0x10000)) n \<longleftrightarrow>
      n = 36 \<or> bit (high (KEY inode offset 0)) n" for n
    unfolding bit_high_KEY bit16 by auto
  have "BITMASK 20 16 (high (KEY inode offset 0x10000)) = BITMASK 20 16 (high (KEY inode offset 0))"
    by (rule bit_word_eqI) (auto simp add: bit_BITMASK hk)
  moreover have "BITMASK 36 1 (high (KEY inode offset 0x10000)) = 1"
    by (rule bit_word_eqI) (auto simp add: bit_BITMASK hk bit_1_iff)
  ultimately show ?thesis by (simp add: key_field_defs)
qed

section \<open>Pointers\<close>

lemma PTR_FIELD_in: "i < length (ptr k) \<Longrightarrow> PTR_FIELD off n k i = Some (BITMASK off n (ptr k ! i))"
  by (simp add: PTR_FIELD_def BITMASK_def mem_simps)

lemma SET_PTR_FIELD_in: "i < length (ptr k) \<Longrightarrow> SET_PTR_FIELD off n k i v =
    Some (k\<lparr>ptr := (ptr k)[i := SET_BITMASK off n (ptr k ! i) v]\<rparr>)"
  by (simp add: SET_PTR_FIELD_def SET_BITMASK_def Let_def mem_simps)

lemma bit_MAKE_PTR: "bit (MAKE_PTR gen offset dev) n \<longleftrightarrow>
    (51 \<le> n \<and> n < 64 \<and> bit dev (n - 51)) \<or> (8 \<le> n \<and> n < 64 \<and> bit offset (n - 8)) \<or> bit gen n"
  by (auto simp add: MAKE_PTR_def bit_simps)

lemma MAKE_PTR_fields:
  assumes "fits 8 gen" "fits 43 offset" "fits 12 dev"
  shows "BITMASK 0 8 (MAKE_PTR gen offset dev) = gen"
    "BITMASK 8 43 (MAKE_PTR gen offset dev) = offset"
    "BITMASK 51 12 (MAKE_PTR gen offset dev) = dev"
  using assms [THEN fits_bitD]
  by (auto intro!: bit_word_eqI simp add: bit_MAKE_PTR bit_BITMASK) force+

text \<open>
  A pointer made by \<^verbatim>\<open>MAKE_PTR\<close> and stored in a key reads back with its three parts, and each part can
  be replaced without the others changing. An index outside the key's memory is rejected by all.
\<close>

theorem bkey_pointer_fields:
  assumes "fits 8 gen" "fits 43 offset" "fits 12 dev" "i < length (ptr k)"
  shows "PTR_GEN (k\<lparr>ptr := (ptr k)[i := MAKE_PTR gen offset dev]\<rparr>) i = Some gen \<and>
    PTR_OFFSET (k\<lparr>ptr := (ptr k)[i := MAKE_PTR gen offset dev]\<rparr>) i = Some offset \<and>
    PTR_DEV (k\<lparr>ptr := (ptr k)[i := MAKE_PTR gen offset dev]\<rparr>) i = Some dev \<and>
    do { k \<leftarrow> SET_PTR_GEN k i gen; k \<leftarrow> SET_PTR_OFFSET k i offset; k \<leftarrow> SET_PTR_DEV k i dev;
      g \<leftarrow> PTR_GEN k i; off \<leftarrow> PTR_OFFSET k i; d \<leftarrow> PTR_DEV k i; Some (g, off, d) } =
      Some (gen, offset, dev)"
  using assms(4) by (simp add: PTR_GEN_def PTR_OFFSET_def PTR_DEV_def SET_PTR_GEN_def
      SET_PTR_OFFSET_def SET_PTR_DEV_def PTR_DEV_BITS_def PTR_FIELD_in SET_PTR_FIELD_in
      MAKE_PTR_fields assms(1-3) fits_take_bit BITMASK_SET_same BITMASK_SET_other)

section \<open>Sets of keys\<close>

text \<open>
  The keys of a \<^verbatim>\<open>struct bset\<close> or \<^verbatim>\<open>struct jset\<close> lie one after the other from \<^verbatim>\<open>start\<close>, over \<^verbatim>\<open>keys\<close>
  words. \<open>bset_walk\<close> is the loop these functions are made for,
  \<^verbatim>\<open>for (k = start; k < bkey_idx(start, keys); k = bkey_next(k))\<close>.
\<close>

definition bkey_words :: "bkey \<Rightarrow> u64 list" where
  "bkey_words k = high k # low k # take (unat (KEY_PTRS k)) (ptr k)"

definition wf_bkey :: "bkey \<Rightarrow> bool" where
  "wf_bkey k \<longleftrightarrow> length (ptr k) = unat (KEY_PTRS k)"

definition own_ptrs :: "bkey \<Rightarrow> bkey" where
  "own_ptrs k = k\<lparr>ptr := take (unat (KEY_PTRS k)) (ptr k)\<rparr>"

fun bset_walk :: "nat \<Rightarrow> u64 list \<Rightarrow> nat \<Rightarrow> nat \<Rightarrow> bkey list option" where
  "bset_walk 0 d p stop = None"
| "bset_walk (Suc fuel) d p stop = (if p < stop then do {
     k \<leftarrow> bkey_at d p;
     p \<leftarrow> bkey_next d p;
     ks \<leftarrow> bset_walk fuel d p stop;
     Some (own_ptrs k # ks)
   } else Some [])"

lemma length_bkey_words: "wf_bkey k \<Longrightarrow> length (bkey_words k) = bkey_u64s k"
  by (simp add: bkey_words_def bkey_u64s_def wf_bkey_def)

lemma KEY_PTRS_ptr [simp]: "KEY_PTRS (k\<lparr>ptr := ps\<rparr>) = KEY_PTRS k"
  by (simp add: KEY_PTRS_def)

lemma bkey_at_words:
  assumes "wf_bkey k"
  shows "bkey_at (pre @ bkey_words k @ post) (length pre) = Some (k\<lparr>ptr := ptr k @ post\<rparr>)"
  using assms by (simp add: bkey_at_def bkey_words_def wf_bkey_def rd_def nth_append)

lemma own_ptrs_words: "wf_bkey k \<Longrightarrow> own_ptrs (k\<lparr>ptr := ptr k @ post\<rparr>) = k"
  by (simp add: own_ptrs_def wf_bkey_def)

lemma bkey_next_words:
  assumes "wf_bkey k"
  shows "bkey_next (pre @ bkey_words k @ post) (length pre) = Some (length (pre @ bkey_words k))"
  using length_bkey_words [OF assms] by (simp add: bkey_next_def bkey_at_words assms bkey_u64s_def)

lemma bset_walk_words:
  assumes "\<forall>k \<in> set ks. wf_bkey k" "length ks < fuel"
  shows "bset_walk fuel (pre @ concat (map bkey_words ks) @ post) (length pre)
    (length pre + length (concat (map bkey_words ks))) = Some ks"
  using assms
proof (induction ks arbitrary: pre fuel)
  case Nil
  then show ?case by (cases fuel) auto
next
  case (Cons k ks)
  let ?rest = "concat (map bkey_words ks)"
  obtain f where f: "fuel = Suc f" "length ks < f" using Cons.prems(2) by (cases fuel) auto
  have k: "wf_bkey k" using Cons.prems(1) by simp
  have "bset_walk f ((pre @ bkey_words k) @ ?rest @ post) (length (pre @ bkey_words k))
      (length (pre @ bkey_words k) + length ?rest) = Some ks"
    using Cons.prems(1) f(2) by (intro Cons.IH) simp_all
  moreover have "0 < length (bkey_words k)" by (simp add: bkey_words_def)
  ultimately show ?case
    using f(1) bkey_at_words [OF k, of pre "?rest @ post"] bkey_next_words [OF k, of pre "?rest @ post"]
    by (simp add: own_ptrs_words [OF k] add.assoc)
qed

text \<open>
  C12: The loop over a set of keys visits exactly the keys that were written, each with its own
  pointers, and ends at \<^verbatim>\<open>bkey_idx\<close> of the number of words, for any number of keys whose words are
  counted by the 32-bit member.
\<close>

theorem bset_walk_roundtrip:
  assumes "\<forall>k \<in> set ks. wf_bkey k" "length (concat (map bkey_words ks)) < 2 ^ 32"
  shows "bset_walk (Suc (length ks)) (pre @ concat (map bkey_words ks) @ post) (length pre)
    (bkey_idx (length pre) (word_of_nat (length (concat (map bkey_words ks))))) = Some ks"
proof -
  have "unat (word_of_nat (length (concat (map bkey_words ks))) :: u32) =
      length (concat (map bkey_words ks))"
    using assms(2) by (simp add: unsigned_of_nat take_bit_nat_eq_self del: length_concat)
  then show ?thesis
    unfolding bkey_idx_def using bset_walk_words [OF assms(1) lessI] by (simp only:)
qed

theorem bset_walk_roundtrip_witness:
  "bset_walk (Suc (Suc (Suc 0)))
     ([1] @ concat (map bkey_words [SET_KEY_PTRS (KEY 1 8 8) 1\<lparr>ptr := [5]\<rparr>, KEY 2 9 1]) @ [])
     (Suc 0) (bkey_idx (Suc 0) (word_of_nat (length (concat (map bkey_words
       [SET_KEY_PTRS (KEY 1 8 8) 1\<lparr>ptr := [5]\<rparr>, KEY 2 9 1]))))) =
   Some [SET_KEY_PTRS (KEY 1 8 8) 1\<lparr>ptr := [5]\<rparr>, KEY 2 9 1]"
proof -
  let ?ks = "[SET_KEY_PTRS (KEY 1 8 8) 1\<lparr>ptr := [5]\<rparr>, KEY 2 9 1]"
  have "\<forall>k \<in> set ?ks. wf_bkey k"
    using key.get_put [of Ptrs "KEY 1 8 8" 1]
    by (simp add: wf_bkey_def KEY_fields fits_def) (simp add: KEY_def)
  moreover have "length (concat (map bkey_words ?ks)) < 2 ^ 32"
    by (simp add: bkey_words_def KEY_fields fits_def min_def)
  ultimately show ?thesis
    using bset_walk_roundtrip [of ?ks "[1]" "[]"]
    by (simp only: list.size add_Suc_right add_0_right add_0)
qed

text \<open>
  \<^verbatim>\<open>bkey_copy\<close> into a \<^verbatim>\<open>BKEY_PADDED\<close> key stays inside it for up to six pointers and then makes a key
  with the same fields and pointers. The pointer count of a key has three bits: a key that claims
  seven is copied one word past the padding.
\<close>

theorem bkey_copy_padded:
  assumes "wf_bkey k" "length pad = BKEY_PAD"
  shows "bkey_copy pad 0 (pre @ bkey_words k @ post) (length pre) =
    (if KEY_PTRS k \<le> 6 then Some (bkey_words k @ drop (bkey_u64s k) pad) else None) \<and>
    (KEY_PTRS k \<le> 6 \<longrightarrow>
      map_option own_ptrs (bkey_at (bkey_words k @ drop (bkey_u64s k) pad) 0) = Some k)"
proof -
  have "bkey_bytes (k\<lparr>ptr := ptr k @ post\<rparr>) div 8 = length (bkey_words k)"
    by (simp add: bkey_bytes_def length_bkey_words assms(1)) (simp add: bkey_u64s_def)
  then have "bkey_copy pad 0 (pre @ bkey_words k @ post) (length pre) = wrn pad 0 (bkey_words k)"
    by (simp add: bkey_copy_def bkey_at_words assms(1) rdn_def)
  moreover have "length (bkey_words k) \<le> 8 \<longleftrightarrow> KEY_PTRS k \<le> 6"
    by (simp add: length_bkey_words assms(1) bkey_u64s_def word_le_nat_alt)
  moreover have "bkey_at ([] @ bkey_words k @ drop (bkey_u64s k) pad) (length ([] :: u64 list)) =
      Some (k\<lparr>ptr := ptr k @ drop (bkey_u64s k) pad\<rparr>)"
    by (rule bkey_at_words [OF assms(1)])
  ultimately show ?thesis
    using assms by (simp add: wrn_def BKEY_PAD_def own_ptrs_words length_bkey_words)
qed

theorem bkey_copy_padded_witness:
  "bkey_copy (replicate 8 0) 0 ([1] @ bkey_words (KEY 3 4 0) @ [9]) 1 =
    Some (bkey_words (KEY 3 4 0) @ drop (bkey_u64s (KEY 3 4 0)) (replicate 8 0))"
proof -
  have "wf_bkey (KEY 3 4 0)" by (simp add: wf_bkey_def KEY_fields fits_def) (simp add: KEY_def)
  moreover have "KEY_PTRS (KEY 3 4 0) = 0" by (simp add: KEY_fields fits_def)
  ultimately show ?thesis
    using bkey_copy_padded [of "KEY 3 4 0" "replicate 8 0" "[1]" "[9]"] by (simp add: BKEY_PAD_def)
qed

text \<open>\<^verbatim>\<open>bkey_copy_key\<close> makes two keys equal in inode and offset and leaves every other field alone.\<close>

theorem bkey_copy_key_fields:
  "key_get f (bkey_copy_key dest src) = key_get f (if f = Inode then src else dest) \<and>
   KEY_OFFSET (bkey_copy_key dest src) = KEY_OFFSET src \<and> ptr (bkey_copy_key dest src) = ptr dest"
proof -
  have "bkey_copy_key dest src = (key_set Inode dest (key_get Inode src))\<lparr>low := low src\<rparr>"
    by (simp add: bkey_copy_key_def SET_KEY_OFFSET_def KEY_OFFSET_def)
  moreover have "key_get f (k\<lparr>low := v\<rparr>) = key_get f k" for k v by (simp add: key_get_eq)
  moreover have "key_get f (key_set Inode dest (key_get Inode src)) =
      key_get f (if f = Inode then src else dest)"
    using separate_accessors.get_other [OF separate_key_fields, of f Inode]
      key.get_put [of Inode dest "key_get Inode src"] key.clip_get [of Inode src]
    by (cases "f = Inode") simp_all
  ultimately show ?thesis by (simp add: KEY_OFFSET_def key_set_eq del: key_set.simps)
qed

section \<open>Superblock flags and magic numbers\<close>

lemmas sb_field_defs = CACHE_SYNC_def SET_CACHE_SYNC_def CACHE_DISCARD_def SET_CACHE_DISCARD_def
  CACHE_REPLACEMENT_def SET_CACHE_REPLACEMENT_def BDEV_CACHE_MODE_def SET_BDEV_CACHE_MODE_def
  BDEV_STATE_def SET_BDEV_STATE_def

interpretation cdev_sync_discard: separate_accessors CACHE_SYNC SET_CACHE_SYNC "take_bit 1"
  CACHE_DISCARD SET_CACHE_DISCARD "take_bit 1"
  by unfold_locales (simp_all add: sb_field_defs bitmask_laws SET_BITMASK_commute)

interpretation cdev_sync_replacement: separate_accessors CACHE_SYNC SET_CACHE_SYNC "take_bit 1"
  CACHE_REPLACEMENT SET_CACHE_REPLACEMENT "take_bit 3"
  by unfold_locales (simp_all add: sb_field_defs bitmask_laws SET_BITMASK_commute)

interpretation cdev_discard_replacement: separate_accessors CACHE_DISCARD SET_CACHE_DISCARD "take_bit 1"
  CACHE_REPLACEMENT SET_CACHE_REPLACEMENT "take_bit 3"
  by unfold_locales (simp_all add: sb_field_defs bitmask_laws SET_BITMASK_commute)

interpretation bdev_mode_state: separate_accessors BDEV_CACHE_MODE SET_BDEV_CACHE_MODE "take_bit 4"
  BDEV_STATE SET_BDEV_STATE "take_bit 2"
  by unfold_locales (simp_all add: sb_field_defs bitmask_laws SET_BITMASK_commute)

text \<open>
  The flags of a backing device share bits with those of a cache device: the mode \<open>0\<close> to \<open>3\<close> of
  the one is read as the synchronous and discard flags of the other, so \<^verbatim>\<open>SB_IS_BDEV\<close> has to be asked
  first.
\<close>

theorem bdev_mode_overlaps_cdev_flags:
  "CACHE_SYNC (SET_BDEV_CACHE_MODE sb 3) = 1 \<and> CACHE_DISCARD (SET_BDEV_CACHE_MODE sb 3) = 1 \<and>
   SB_IS_BDEV (SET_BDEV_CACHE_MODE sb 3) = SB_IS_BDEV sb"
proof -
  have "bit (3 :: u64) 0" "bit (3 :: u64) 1" by simp_all
  then show ?thesis
    by (auto intro!: bit_word_eqI simp add: sb_field_defs SB_IS_BDEV_def bit_BITMASK bit_SET_BITMASK bit_1_iff)
qed

text \<open>
  The three kinds of on-disk sets of one cache set never carry the same magic number, and two cache
  sets share their numbers only when the first half of their UUIDs is the same.
\<close>

theorem set_magics_distinct:
  assumes "wf_sb sb" "wf_sb sb'"
  shows "distinct [jset_magic e sb, pset_magic e sb, bset_magic e sb] \<and>
   (jset_magic e sb = jset_magic e sb' \<longleftrightarrow> take 8 (set_uuid sb) = take 8 (set_uuid sb')) \<and>
   (pset_magic e sb = pset_magic e sb' \<longleftrightarrow> take 8 (set_uuid sb) = take 8 (set_uuid sb')) \<and>
   (bset_magic e sb = bset_magic e sb' \<longleftrightarrow> take 8 (set_uuid sb) = take 8 (set_uuid sb'))"
proof -
  have x: "a XOR x = a XOR y \<longleftrightarrow> x = y" "x XOR a = y XOR a \<longleftrightarrow> x = y" for a x y :: u64
    by (auto simp add: bit_eq_iff bit_simps)
  have sm: "set_magic e s = Some (word_of_bytes e (take 8 (set_uuid s)))" if "wf_sb s" for s
    using that by (simp add: set_magic_def wf_sb_def load_in)
  have "bytes_of e (word_of_bytes e (take 8 (set_uuid s)) :: u64) = take 8 (set_uuid s)" if "wf_sb s" for s
    using that by (intro bytes_of_word_of) (simp add: wf_sb_def)
  then have "word_of_bytes e (take 8 (set_uuid sb)) = (word_of_bytes e (take 8 (set_uuid sb')) :: u64) \<longleftrightarrow>
      take 8 (set_uuid sb) = take 8 (set_uuid sb')"
    using assms by metis
  then show ?thesis
    by (simp add: jset_magic_def pset_magic_def bset_magic_def JSET_MAGIC_def PSET_MAGIC_def
        BSET_MAGIC_def sm assms x)
qed

end
