(* ===== verification/Ia64_Rse.thy ===== *)
theory Ia64_Rse
  imports C_Object "HOL-Library.Signed_Division"
begin

text \<open>
  The register stack engine of ia64 (\<^verbatim>\<open>arch/ia64/asm/rse.h\<close>). Registers are spilled to a backing store
  of eight-byte slots; every 64th slot, the one whose address has all of the bits 3 to 8 set, holds the
  collected NaT bits (RNAT) instead of a register. The functions convert between numbers of
  registers and addresses.

  An address is a 64-bit word and \<^verbatim>\<open>unsigned long *\<close> arithmetic counts in units of eight bytes. \<^verbatim>\<open>long\<close>
  is a word that is read with \<open>sint\<close>; its division rounds towards zero (\<open>sdiv\<close>).
\<close>

section \<open>The functions\<close>

definition ia64_rse_slot_num :: "u64 \<Rightarrow> u64" where
  "ia64_rse_slot_num addr = drop_bit 3 addr AND 0x3f"

definition ia64_rse_is_rnat_slot :: "u64 \<Rightarrow> bool" where
  "ia64_rse_is_rnat_slot addr \<longleftrightarrow> ia64_rse_slot_num addr = 0x3f"

definition ia64_rse_rnat_addr :: "u64 \<Rightarrow> u64" where
  "ia64_rse_rnat_addr slot_addr = slot_addr OR push_bit 3 0x3f"

text \<open>The difference of two pointers to eight-byte objects.\<close>

definition slot_diff :: "u64 \<Rightarrow> u64 \<Rightarrow> u64" where
  "slot_diff p q = word_of_int (sint (p - q) sdiv 8)"

definition ia64_rse_num_regs :: "u64 \<Rightarrow> u64 \<Rightarrow> u64" where
  "ia64_rse_num_regs bspstore bsp = (let
     slots = slot_diff bsp bspstore
     in slots - (ia64_rse_slot_num bspstore + slots) div 0x40)"

definition ia64_rse_skip_regs :: "u64 \<Rightarrow> u64 \<Rightarrow> u64" where
  "ia64_rse_skip_regs addr num_regs = (let
     delta = ia64_rse_slot_num addr + num_regs;
     delta = (if sint num_regs < 0 then delta - 0x3e else delta)
     in addr + 8 * num_regs + 8 * word_of_int (sint delta sdiv 0x3f))"

section \<open>Slots as integers\<close>

definition slot_aligned :: "u64 \<Rightarrow> bool" where
  "slot_aligned a \<longleftrightarrow> 8 dvd uint a"

lemma uint_slot_num: "uint (ia64_rse_slot_num a) = uint a div 8 mod 64"
proof -
  have "ia64_rse_slot_num a = take_bit 6 (drop_bit 3 a)"
    by (simp add: ia64_rse_slot_num_def take_bit_eq_mask mask_numeral)
  then show ?thesis
    by (simp add: drop_bit_eq_div take_bit_eq_mod uint_mod_distrib uint_div_distrib)
qed

lemma slot_num_range: "0 \<le> uint (ia64_rse_slot_num a)" "uint (ia64_rse_slot_num a) < 64"
  by (simp_all add: uint_slot_num)

lemma mod_div_mod: "(8 * k mod 2 ^ 64) div 8 mod 64 = k mod (64 :: int)"
proof -
  have "8 * k mod 2 ^ 64 = 8 * (k mod 2 ^ 61)"
    using mult_mod_right [of 8 k "2 ^ 61"] by simp
  moreover have "k mod 2 ^ 61 mod 2 ^ 6 = k mod 2 ^ 6" by (rule mod_mod_cancel) simp
  ultimately show ?thesis by simp
qed

lemma slot_num_move:
  assumes "slot_aligned a"
  shows "uint (ia64_rse_slot_num (a + 8 * word_of_int k)) = (uint (ia64_rse_slot_num a) + k) mod 64"
proof -
  obtain m where m: "uint a = 8 * m" using assms by (auto simp add: slot_aligned_def)
  have "a + 8 * word_of_int k = word_of_int (8 * (m + k))"
    using m word_of_int_uint [of a] by (simp add: algebra_simps flip: m)
  then have "uint (a + 8 * word_of_int k) = 8 * (m + k) mod 2 ^ 64"
    by (simp only: uint_word_of_int) simp
  then show ?thesis by (simp only: uint_slot_num m mod_div_mod) (simp add: mod_simps)
qed

lemma slot_diff_move:
  assumes "- (2 ^ 60) \<le> k" "k < 2 ^ 60"
  shows "slot_diff (a + 8 * word_of_int k) a = word_of_int k"
proof -
  have "a + 8 * word_of_int k - a = word_of_int (8 * k)" by simp
  moreover have "sint (word_of_int (8 * k) :: u64) = 8 * k"
    using assms by (simp only: signed_of_int) (simp add: signed_take_bit_int_eq_self)
  moreover have "(8 * k) sdiv 8 = k"
    by (simp add: signed_divide_int_def abs_mult sgn_mult) (simp add: abs_mult_sgn mult.commute)
  ultimately show ?thesis by (simp only: slot_diff_def)
qed

lemma sint_add_uint:
  fixes x n :: u64
  assumes "- (2 ^ 63) \<le> uint x + sint n + k" "uint x + sint n + k < 2 ^ 63"
  shows "sint (x + n + word_of_int k) = uint x + sint n + k"
proof -
  have "x + n + word_of_int k = word_of_int (uint x + sint n + k)" by simp
  then show ?thesis using assms by (simp only: signed_of_int) (simp add: signed_take_bit_int_eq_self)
qed

lemma sdiv_pos: "0 \<le> x \<Longrightarrow> x sdiv 63 = x div (63 :: int)"
  by (cases "x = 0") (simp_all add: signed_divide_int_def)

lemma sdiv_neg:
  assumes "x \<le> (62 :: int)"
  shows "(x - 62) sdiv 63 = x div 63"
proof -
  have "62 - x = (62 - x mod 63) + (- (x div 63)) * 63"
    using div_mult_mod_eq [of x 63] by linarith
  then have "(62 - x) div 63 = ((62 - x mod 63) + (- (x div 63)) * 63) div 63"
    by (rule arg_cong)
  also have "\<dots> = - (x div 63) + (62 - x mod 63) div 63" by (rule div_mult_self1) simp
  also have "(62 - x mod 63) div 63 = 0"
    using pos_mod_bound [of 63 x] pos_mod_sign [of 63 x] by (intro div_pos_pos_trivial) linarith+
  finally have "(62 - x) div 63 = - (x div 63)" by simp
  then show ?thesis using assms
    by (cases "x = 62") (simp_all add: signed_divide_int_def)
qed

text \<open>
  Registers are counted modulo 63 where slots are counted modulo 64: skipping \<open>n\<close> registers moves
  by \<open>n\<close> slots and one more for every RNAT slot on the way, forwards or backwards.
\<close>

lemma skip_regs_move:
  assumes "\<bar>sint n\<bar> < 2 ^ 58"
  shows "ia64_rse_skip_regs a n =
    a + 8 * word_of_int (sint n + (uint (ia64_rse_slot_num a) + sint n) div 63)"
proof -
  let ?s = "uint (ia64_rse_slot_num a)"
  have "sint (if sint n < 0 then ia64_rse_slot_num a + n - 0x3e else ia64_rse_slot_num a + n) sdiv 63 =
      (?s + sint n) div 63"
  proof (cases "sint n < 0")
    case True
    then have "sint (ia64_rse_slot_num a + n + word_of_int (- 62)) = ?s + sint n + - 62"
      using assms slot_num_range [of a] by (intro sint_add_uint; simp; linarith)
    then show ?thesis using True slot_num_range [of a] sdiv_neg [of "?s + sint n"] by simp
  next
    case False
    then have "sint (ia64_rse_slot_num a + n + word_of_int 0) = ?s + sint n + 0"
      using assms slot_num_range [of a] by (intro sint_add_uint; simp; linarith)
    then show ?thesis using False slot_num_range [of a] sdiv_pos [of "?s + sint n"] by simp
  qed
  then show ?thesis
    unfolding ia64_rse_skip_regs_def Let_def by (simp only: distrib_left of_int_add add.assoc) simp
qed

lemma reg_slot:
  fixes y :: int
  shows "(y + y div 63) div 64 = y div 63" "(y + y div 63) mod 64 = y mod 63"
proof -
  have y: "y + y div 63 = y mod 63 + y div 63 * 64" using div_mult_mod_eq [of y 63] by linarith
  have r: "0 \<le> y mod 63" "y mod 63 < 64" using pos_mod_bound [of 63 y] by simp_all
  show "(y + y div 63) div 64 = y div 63" unfolding y using r by simp
  show "(y + y div 63) mod 64 = y mod 63" unfolding y using r by simp
qed

lemma slot_num_skip:
  assumes "slot_aligned a" "\<bar>sint n\<bar> < 2 ^ 58"
  shows "uint (ia64_rse_slot_num (ia64_rse_skip_regs a n)) =
    (uint (ia64_rse_slot_num a) + sint n) mod 63"
  using reg_slot(2) [of "uint (ia64_rse_slot_num a) + sint n"]
  unfolding skip_regs_move [OF assms(2)] slot_num_move [OF assms(1)] by (simp add: add.assoc)

lemma slot_aligned_move: "slot_aligned a \<Longrightarrow> slot_aligned (a + 8 * k)"
  by (simp add: slot_aligned_def uint_word_ariths dvd_mod)

lemma num_regs_move:
  assumes "0 \<le> k" "k < 2 ^ 60"
  shows "ia64_rse_num_regs a (a + 8 * word_of_int k) =
    word_of_int (k - (uint (ia64_rse_slot_num a) + k) div 64)"
proof -
  let ?s = "ia64_rse_slot_num a"
  have "?s + word_of_int k = word_of_int (uint ?s + k)" by simp
  moreover have "uint (word_of_int (uint ?s + k) :: u64) = uint ?s + k"
    using assms slot_num_range [of a] by (simp only: uint_word_of_int) simp
  ultimately have "uint ((?s + word_of_int k) div 64) = (uint ?s + k) div 64"
    by (simp add: uint_div_distrib)
  then have "(?s + word_of_int k) div 64 = word_of_int ((uint ?s + k) div 64)"
    by (metis word_of_int_uint)
  moreover have "slot_diff (a + 8 * word_of_int k) a = word_of_int k"
    using assms by (intro slot_diff_move) simp_all
  ultimately show ?thesis by (simp add: ia64_rse_num_regs_def Let_def)
qed

text \<open>
  C14: \<^verbatim>\<open>ia64_rse_skip_regs\<close> is the inverse of \<^verbatim>\<open>ia64_rse_num_regs\<close>, as its comment says, in both
  directions of the stack: the registers between an address and the address \<open>n\<close> registers further are
  \<open>n\<close>, also when \<open>n\<close> is negative; the result is a slot of a register, never an RNAT slot.
\<close>

theorem rse_skip_regs_inverse:
  assumes "slot_aligned a" "\<bar>sint n\<bar> < 2 ^ 58"
  shows "(if 0 \<le> sint n then ia64_rse_num_regs a (ia64_rse_skip_regs a n) = n
      else ia64_rse_num_regs (ia64_rse_skip_regs a n) a = - n) \<and>
    \<not> ia64_rse_is_rnat_slot (ia64_rse_skip_regs a n) \<and>
    slot_aligned (ia64_rse_skip_regs a n)"
proof -
  let ?y = "uint (ia64_rse_slot_num a) + sint n" and ?b = "ia64_rse_skip_regs a n"
  define k where "k = sint n + ?y div 63"
  have b: "?b = a + 8 * word_of_int k" using skip_regs_move [OF assms(2)] by (simp add: k_def)
  have slot: "uint (ia64_rse_slot_num ?b) = ?y mod 63" using assms by (rule slot_num_skip)
  have "?y mod 63 < 63" by simp
  then have rnat: "\<not> ia64_rse_is_rnat_slot ?b"
    using slot by (auto simp add: ia64_rse_is_rnat_slot_def)
  have q: "?y div 63 * 63 \<le> ?y" "?y < ?y div 63 * 63 + 63"
    using div_mult_mod_eq [of ?y 63] pos_mod_bound [of 63 ?y] pos_mod_sign [of 63 ?y] by linarith+
  have n: "sint n < 288230376151711744" "- 288230376151711744 < sint n" using assms(2) by simp_all
  have "k < 1152921504606846976" "- k < 1152921504606846976"
    using q n slot_num_range [of a] unfolding k_def by linarith+
  then have k: "k < 2 ^ 60" "- k < 2 ^ 60" by simp_all
  show ?thesis
  proof (cases "0 \<le> sint n")
    case True
    then have "0 \<le> k" using q slot_num_range [of a] unfolding k_def by linarith
    moreover have "k - (uint (ia64_rse_slot_num a) + k) div 64 = sint n"
      using reg_slot(1) [of ?y] by (simp add: k_def add.assoc)
    ultimately have "ia64_rse_num_regs a ?b = n"
      using num_regs_move [of k a] k by (simp add: b)
    with True rnat b slot_aligned_move [OF assms(1)] show ?thesis by simp
  next
    case False
    then have "0 \<le> - k" using q slot_num_range [of a] unfolding k_def by linarith
    moreover have "a = ?b + 8 * word_of_int (- k)" by (simp add: b)
    moreover have "?y mod 63 - k = uint (ia64_rse_slot_num a) + - (?y div 63) * 64"
      using div_mult_mod_eq [of ?y 63] unfolding k_def by linarith
    then have "(?y mod 63 - k) div 64 = - (?y div 63)"
      using slot_num_range [of a] div_mult_self1 [of 64 "uint (ia64_rse_slot_num a)" "- (?y div 63)"]
      by (simp only: div_pos_pos_trivial)
    ultimately have "ia64_rse_num_regs ?b a = word_of_int (- k + ?y div 63)"
      using num_regs_move [of "- k" ?b] k slot by simp
    also have "\<dots> = - n" by (simp add: k_def)
    finally have "ia64_rse_num_regs ?b a = - n" .
    with False rnat show ?thesis
      using slot_aligned_move [OF assms(1), of "word_of_int k"] by (simp only: b if_False) simp
  qed
qed

theorem rse_skip_regs_inverse_witness:
  "ia64_rse_num_regs 0x1e8 (ia64_rse_skip_regs 0x1e8 5) = 5 \<and>
    \<not> ia64_rse_is_rnat_slot (ia64_rse_skip_regs 0x1e8 5) \<and>
    slot_aligned (ia64_rse_skip_regs 0x1e8 5)"
  using rse_skip_regs_inverse [of "0x1e8" 5] by (simp add: slot_aligned_def)

text \<open>
  Skipping registers composes: skipping \<open>m\<close> and then \<open>n\<close> registers is skipping \<open>m + n\<close>, whatever the
  signs, so that a walk over the backing store can be undone or cut into pieces.
\<close>

theorem rse_skip_regs_compose:
  assumes "slot_aligned a" "\<bar>sint m\<bar> < 2 ^ 57" "\<bar>sint n\<bar> < 2 ^ 57"
  shows "ia64_rse_skip_regs (ia64_rse_skip_regs a m) n = ia64_rse_skip_regs a (m + n)"
proof -
  let ?s = "uint (ia64_rse_slot_num a)"
  have mn: "sint (m + n) = sint m + sint n"
  proof -
    have "m + n = word_of_int (sint m + sint n)" by simp
    moreover have "sint (word_of_int (sint m + sint n) :: u64) = sint m + sint n"
      using assms(2,3) by (simp only: signed_of_int) (simp add: signed_take_bit_int_eq_self)
    ultimately show ?thesis by (simp only:)
  qed
  have "((?s + sint m) mod 63 + sint n) div 63 + (?s + sint m) div 63 =
      (?s + sint m + sint n) div 63"
    using div_mult_mod_eq [of "?s + sint m" 63]
      div_mult_self1 [of 63 "(?s + sint m) mod 63 + sint n" "(?s + sint m) div 63"]
    by (simp add: algebra_simps)
  then have sum: "sint (m + n) + (?s + sint (m + n)) div 63 = (sint m + (?s + sint m) div 63) +
      (sint n + ((?s + sint m) mod 63 + sint n) div 63)"
    by (simp add: mn add.assoc)
  have bounds: "\<bar>sint m\<bar> < 2 ^ 58" "\<bar>sint n\<bar> < 2 ^ 58" "\<bar>sint (m + n)\<bar> < 2 ^ 58"
    using assms(2,3) mn by simp_all
  show ?thesis
    unfolding skip_regs_move [OF bounds(2)] slot_num_skip [OF assms(1) bounds(1)]
    unfolding skip_regs_move [OF bounds(1)] skip_regs_move [OF bounds(3)] sum
    by (simp add: distrib_left add.assoc)
qed

lemma slot_aligned_bits: "slot_aligned x \<longleftrightarrow> (\<forall>i<3. \<not> bit x i)"
proof -
  have "uint (take_bit 3 x) = uint x mod 8" by (simp add: take_bit_eq_mod uint_mod_distrib)
  then have "slot_aligned x \<longleftrightarrow> take_bit 3 x = 0"
    unfolding slot_aligned_def dvd_eq_mod_eq_0 by (metis uint_0_iff)
  also have "\<dots> \<longleftrightarrow> (\<forall>i<3. \<not> bit x i)" by (auto simp add: bit_eq_iff bit_simps)
  finally show ?thesis .
qed

lemma mask6: "0x3f = (mask 6 :: u64)"
  by (simp add: mask_numeral)

lemma is_rnat_slot_bits: "ia64_rse_is_rnat_slot x \<longleftrightarrow> (\<forall>i. 3 \<le> i \<and> i < 9 \<longrightarrow> bit x i)"
proof -
  have "ia64_rse_is_rnat_slot x \<longleftrightarrow> (\<forall>i<64. i < 6 \<longrightarrow> bit x (3 + i))"
    unfolding ia64_rse_is_rnat_slot_def ia64_rse_slot_num_def mask6
    by (auto simp add: bit_eq_iff bit_simps)
  also have "\<dots> \<longleftrightarrow> (\<forall>i. 3 \<le> i \<and> i < 9 \<longrightarrow> bit x i)" (is "?l \<longleftrightarrow> ?r")
  proof
    assume ?l
    show ?r
    proof (intro allI impI)
      fix i :: nat assume "3 \<le> i \<and> i < 9"
      then show "bit x i" using spec [OF \<open>?l\<close>, of "i - 3"] by (simp add: less_diff_conv2)
    qed
  qed simp
  finally show ?thesis .
qed

lemma bit_rnat_addr: "bit (ia64_rse_rnat_addr x) i \<longleftrightarrow> bit x i \<or> (3 \<le> i \<and> i < 9)"
  unfolding ia64_rse_rnat_addr_def mask6 by (auto simp add: bit_simps)

lemma drop_bit_eq_bits:
  "drop_bit n x = drop_bit n y \<longleftrightarrow> (\<forall>i\<ge>n. bit x i = bit (y :: 'a::len word) i)"
    (is "?l \<longleftrightarrow> ?r")
proof
  assume ?l
  show ?r
  proof (intro allI impI)
    fix i assume "n \<le> i"
    then show "bit x i = bit y i"
      using arg_cong [OF \<open>?l\<close>, of "\<lambda>w. bit w (i - n)"] by (simp add: bit_simps)
  qed
qed (auto intro!: bit_word_eqI simp add: bit_simps)

text \<open>
  The RNAT slot that covers a slot is the one RNAT slot of its 512-byte group.
\<close>

theorem rse_rnat_addr_covers:
  assumes "slot_aligned a"
  shows "slot_aligned b \<and> drop_bit 9 b = drop_bit 9 a \<and> ia64_rse_is_rnat_slot b \<longleftrightarrow>
      b = ia64_rse_rnat_addr a"
    (is "?l \<longleftrightarrow> ?r")
proof
  assume ?l
  then have b: "\<forall>i<3. \<not> bit b i" "\<forall>i\<ge>9. bit b i = bit a i" "\<forall>i. 3 \<le> i \<and> i < 9 \<longrightarrow> bit b i"
    unfolding slot_aligned_bits drop_bit_eq_bits is_rnat_slot_bits by blast+
  show ?r
  proof (rule bit_word_eqI)
    fix i :: nat
    consider "i < 3" | "3 \<le> i" "i < 9" | "9 \<le> i" by linarith
    then show "bit b i \<longleftrightarrow> bit (ia64_rse_rnat_addr a) i"
      using b assms by cases (auto simp add: bit_rnat_addr slot_aligned_bits)
  qed
next
  assume ?r
  then show ?l
    using assms by (auto simp add: slot_aligned_bits drop_bit_eq_bits is_rnat_slot_bits bit_rnat_addr)
qed

end
