(* ===== verification/Phonet.thy ===== *)
theory Phonet
  imports Packed_Codes Uapi_Memory
begin

text \<open>
  Phonet addresses (\<^verbatim>\<open>include/linux/phonet.h\<close>). An object handle packs a six-bit device address and a
  ten-bit port into sixteen bits; the two high bits of the port share a byte with the address. A socket
  address holds the handle in two bytes, beside a resource number.
\<close>

section \<open>Handles\<close>

definition pn_object :: "u8 \<Rightarrow> u16 \<Rightarrow> u16" where
  "pn_object addr port = u16_of (push_bit 8 (promote addr) OR (promote16 port AND 0x3ff))"

definition pn_obj :: "u16 \<Rightarrow> u8" where
  "pn_obj handle = u8_of (promote16 handle AND 0xff)"

definition pn_dev :: "u16 \<Rightarrow> u8" where
  "pn_dev handle = u8_of (drop_bit 8 (promote16 handle))"

definition pn_port :: "u16 \<Rightarrow> u16" where
  "pn_port handle = u16_of (promote16 handle AND 0x3ff)"

definition pn_addr :: "u16 \<Rightarrow> u8" where
  "pn_addr handle = u8_of (drop_bit 8 (promote16 handle) AND 0xfc)"

section \<open>Socket addresses\<close>

record sockaddr_pn =
  spn_family :: u16
  spn_obj :: u8
  spn_dev :: u8
  spn_resource :: u8
  spn_zero :: "u8 list"

definition pn_sockaddr_set_addr :: "sockaddr_pn \<Rightarrow> u8 \<Rightarrow> sockaddr_pn" where
  "pn_sockaddr_set_addr spn addr = (let
     spn = spn\<lparr>spn_dev := u8_of (promote (spn_dev spn) AND 0x03)\<rparr>
     in spn\<lparr>spn_dev := u8_of (promote (spn_dev spn) OR (promote addr AND 0xfc))\<rparr>)"

definition pn_sockaddr_set_port :: "sockaddr_pn \<Rightarrow> u16 \<Rightarrow> sockaddr_pn" where
  "pn_sockaddr_set_port spn port = (let
     spn = spn\<lparr>spn_dev := u8_of (promote (spn_dev spn) AND 0xfc)\<rparr>;
     spn = spn\<lparr>spn_dev := u8_of (promote (spn_dev spn) OR (drop_bit 8 (promote16 port) AND 0x03))\<rparr>
     in spn\<lparr>spn_obj := u8_of (promote16 port AND 0xff)\<rparr>)"

definition pn_sockaddr_set_object :: "sockaddr_pn \<Rightarrow> u16 \<Rightarrow> sockaddr_pn" where
  "pn_sockaddr_set_object spn handle = (let
     spn = spn\<lparr>spn_dev := pn_dev handle\<rparr>
     in spn\<lparr>spn_obj := pn_obj handle\<rparr>)"

definition pn_sockaddr_set_resource :: "sockaddr_pn \<Rightarrow> u8 \<Rightarrow> sockaddr_pn" where
  "pn_sockaddr_set_resource spn resource = spn\<lparr>spn_resource := resource\<rparr>"

definition pn_sockaddr_get_addr :: "sockaddr_pn \<Rightarrow> u8" where
  "pn_sockaddr_get_addr spn = u8_of (promote (spn_dev spn) AND 0xfc)"

definition pn_sockaddr_get_port :: "sockaddr_pn \<Rightarrow> u16" where
  "pn_sockaddr_get_port spn =
     u16_of (push_bit 8 (promote (spn_dev spn) AND 0x03) OR promote (spn_obj spn))"

definition pn_sockaddr_get_object :: "sockaddr_pn \<Rightarrow> u16" where
  "pn_sockaddr_get_object spn = pn_object (spn_dev spn) (ucast (spn_obj spn))"

definition pn_sockaddr_get_resource :: "sockaddr_pn \<Rightarrow> u8" where
  "pn_sockaddr_get_resource spn = spn_resource spn"

section \<open>The bits of the fields\<close>

lemma masks:
  "0x3ff = (mask 10 :: c_int)" "0xff = (mask 8 :: c_int)" "0x03 = (mask 2 :: c_int)"
  "0xfc = (push_bit 2 (mask 6) :: c_int)"
  by (simp_all add: mask_numeral push_bit_eq_mult)

lemmas conversions = promote_def promote16_def u8_of_def u16_of_def

lemma bit_pn_object: "bit (pn_object a p) i \<longleftrightarrow> (8 \<le> i \<and> bit a (i - 8)) \<or> (i < 10 \<and> bit p i)"
  unfolding pn_object_def masks
  by (auto simp add: conversions bit_simps dest: bit_imp_le_length)

lemma bit_pn_obj: "bit (pn_obj h) i \<longleftrightarrow> i < 8 \<and> bit h i"
  unfolding pn_obj_def masks by (auto simp add: conversions bit_simps dest: bit_imp_le_length)

lemma bit_pn_dev: "bit (pn_dev h) i \<longleftrightarrow> bit h (8 + i)"
  unfolding pn_dev_def by (auto simp add: conversions bit_simps dest: bit_imp_le_length)

lemma bit_pn_port: "bit (pn_port h) i \<longleftrightarrow> i < 10 \<and> bit h i"
  unfolding pn_port_def masks by (auto simp add: conversions bit_simps dest: bit_imp_le_length)

lemma bit_pn_addr: "bit (pn_addr h) i \<longleftrightarrow> 2 \<le> i \<and> bit h (8 + i)"
  unfolding pn_addr_def masks by (auto simp add: conversions bit_simps dest: bit_imp_le_length)

lemma bit_set_addr: "bit (spn_dev (pn_sockaddr_set_addr s a)) i \<longleftrightarrow>
    (if i < 2 then bit (spn_dev s) i else bit a i)"
  unfolding pn_sockaddr_set_addr_def Let_def masks
  by (auto simp add: conversions bit_simps dest: bit_imp_le_length)

lemma bit_set_port: "bit (spn_dev (pn_sockaddr_set_port s p)) i \<longleftrightarrow>
    (if i < 2 then bit p (8 + i) else bit (spn_dev s) i)"
  "bit (spn_obj (pn_sockaddr_set_port s p)) i \<longleftrightarrow> i < 8 \<and> bit p i"
  unfolding pn_sockaddr_set_port_def Let_def masks
  by (auto simp add: conversions bit_simps dest: bit_imp_le_length)

lemma bit_get_addr: "bit (pn_sockaddr_get_addr s) i \<longleftrightarrow> 2 \<le> i \<and> bit (spn_dev s) i"
  unfolding pn_sockaddr_get_addr_def masks
  by (auto simp add: conversions bit_simps dest: bit_imp_le_length)

lemma bit_get_port: "bit (pn_sockaddr_get_port s) i \<longleftrightarrow>
    (if i < 8 then bit (spn_obj s) i else i < 10 \<and> bit (spn_dev s) (i - 8))"
  unfolding pn_sockaddr_get_port_def masks
  by (auto simp add: conversions bit_simps dest: bit_imp_le_length)

lemma set_frames:
  "spn_family (pn_sockaddr_set_addr s a) = spn_family s"
  "spn_family (pn_sockaddr_set_port s p) = spn_family s"
  "spn_zero (pn_sockaddr_set_addr s a) = spn_zero s"
  "spn_zero (pn_sockaddr_set_port s p) = spn_zero s"
  "spn_obj (pn_sockaddr_set_addr s a) = spn_obj s"
  "spn_resource (pn_sockaddr_set_addr s a) = spn_resource s"
  "spn_resource (pn_sockaddr_set_port s p) = spn_resource s"
  by (simp_all add: pn_sockaddr_set_addr_def pn_sockaddr_set_port_def Let_def)

lemma sockaddr_eqI:
  "(\<And>i. bit (spn_dev s) i = bit (spn_dev t) i) \<Longrightarrow> (\<And>i. bit (spn_obj s) i = bit (spn_obj t) i) \<Longrightarrow>
    spn_resource s = spn_resource t \<Longrightarrow> spn_family s = spn_family t \<Longrightarrow> spn_zero s = spn_zero t \<Longrightarrow>
    s = (t :: sockaddr_pn)"
  by (rule sockaddr_pn.equality) (auto intro!: bit_word_eqI)

lemmas pn_bits = bit_pn_object bit_pn_obj bit_pn_dev bit_pn_port bit_pn_addr bit_set_addr
  bit_set_port bit_get_addr bit_get_port

lemma bit_u8: "bit (b :: u8) i \<Longrightarrow> i < 8"
  by (auto dest: bit_imp_le_length)

section \<open>Accessors\<close>

interpretation addr: accessor pn_sockaddr_get_addr pn_sockaddr_set_addr "\<lambda>a. a AND 0xfc"
proof
  have m: "(0xfc :: u8) = push_bit 2 (mask 6)" by (simp add: mask_numeral push_bit_eq_mult)
  show "pn_sockaddr_get_addr (pn_sockaddr_set_addr s a) = a AND 0xfc" for s a
    unfolding m by (rule bit_word_eqI) (auto simp add: pn_bits bit_simps)
qed (auto intro!: sockaddr_eqI simp add: pn_bits set_frames split: if_splits)

interpretation port: accessor pn_sockaddr_get_port pn_sockaddr_set_port "take_bit 10"
  by unfold_locales
    (auto intro!: sockaddr_eqI bit_word_eqI simp add: pn_bits set_frames bit_simps
      dest: bit_u8 split: if_splits)

interpretation addr_port: separate_accessors pn_sockaddr_get_addr pn_sockaddr_set_addr
  "\<lambda>a. a AND 0xfc" pn_sockaddr_get_port pn_sockaddr_set_port "take_bit 10"
  by unfold_locales (auto intro!: sockaddr_eqI simp add: pn_bits set_frames split: if_splits)

text \<open>
  The address, port and resource of a Phonet socket address are separate fields: each reads back
  what was stored in it, cut to its bits, whichever of the others is set later. Setting the object is
  setting address and port at once, and an object handle splits into the two it was made from.
\<close>

theorem phonet_sockaddr_fields:
  fixes s :: sockaddr_pn and r :: u8
  assumes "a AND 0x03 = 0" "p < 1024"
    and t: "t = pn_sockaddr_set_port (pn_sockaddr_set_addr (pn_sockaddr_set_resource s r) a) p"
  shows "pn_sockaddr_get_addr t = a \<and> pn_sockaddr_get_port t = p \<and>
    pn_sockaddr_get_resource t = r \<and> pn_sockaddr_get_object t = pn_object a p \<and>
    pn_sockaddr_set_object (pn_sockaddr_set_resource s r) (pn_object a p) = t \<and>
    pn_addr (pn_object a p) = a \<and> pn_port (pn_object a p) = p"
proof -
  have "(0x03 :: u8) = mask 2" by (simp add: mask_numeral)
  with assms(1) have "take_bit 2 a = 0" by (simp add: take_bit_eq_mask)
  from arg_cong [OF this, of "\<lambda>w. bit w i" for i] have a: "2 \<le> i" if "bit a i" for i
    using that by (simp add: bit_simps) (metis not_less)
  have "fits 10 p" using assms(2) by (simp add: fits_iff_less)
  then have p: "i < 10" if "bit p i" for i using that by (rule fits_bitD)
  have p': "\<not> bit p (8 + i)" if "2 \<le> i" for i using that p [of "8 + i"] by auto
  have obj: "bit (pn_object a p) i \<longleftrightarrow> (10 \<le> i \<and> bit a (i - 8)) \<or> bit p i" for i
    unfolding bit_pn_object by (auto dest: p a [of "i - 8"])
  have "pn_sockaddr_get_addr t = a"
    unfolding t by (rule bit_word_eqI) (auto simp add: pn_bits dest: a)
  moreover have "pn_sockaddr_get_port t = p"
    using \<open>fits 10 p\<close> by (simp add: t port.get_put fits_take_bit)
  moreover have "pn_sockaddr_get_resource t = r"
    by (simp add: t pn_sockaddr_get_resource_def set_frames pn_sockaddr_set_resource_def)
  moreover have set: "pn_sockaddr_set_object (pn_sockaddr_set_resource s r) (pn_object a p) = t"
    unfolding t by (rule sockaddr_eqI)
      (auto simp add: pn_sockaddr_set_object_def pn_bits(2,3,6,7,8,9) obj set_frames dest: a p)
  moreover have "pn_sockaddr_get_object t = pn_object a p"
    unfolding set [symmetric] by (rule bit_word_eqI)
      (auto simp add: pn_sockaddr_get_object_def pn_sockaddr_set_object_def pn_bits(2,3) bit_pn_object
        bit_simps)
  moreover have "pn_addr (pn_object a p) = a" "pn_port (pn_object a p) = p"
    by (auto intro!: bit_word_eqI simp add: pn_bits(4,5) obj p' dest: a p)
  ultimately show ?thesis by blast
qed

theorem phonet_sockaddr_fields_witness:
  "pn_sockaddr_get_port (pn_sockaddr_set_port (pn_sockaddr_set_addr (pn_sockaddr_set_resource
     \<lparr>spn_family = 35, spn_obj = 1, spn_dev = 2, spn_resource = 3, spn_zero = replicate 11 0\<rparr> 4) 0x10) 0x345) = 0x345 \<and> pn_addr (pn_object 0x10 0x345) = 0x10"
  using phonet_sockaddr_fields [of "0x10" "0x345" _ "\<lparr>spn_family = 35, spn_obj = 1, spn_dev = 2, spn_resource = 3, spn_zero = replicate 11 0\<rparr>" 4]
  by simp

end
