(* ===== verification/Usb_Endpoint.thy ===== *)
theory Usb_Endpoint
  imports Byteorder Packed_Codes
begin

text \<open>
  The endpoint queries of \<^verbatim>\<open>include/linux/usb/ch9.h\<close>. A descriptor is a packed structure as the device
  sent it, so \<^verbatim>\<open>wMaxPacketSize\<close> is little-endian in memory; a query on it applies \<^verbatim>\<open>__le16_to_cpu\<close> of the
  host, the argument \<open>le16\<close> below. \<^verbatim>\<open>int\<close> results that are truth values are of type \<open>bool\<close>.
\<close>

record usb_endpoint_descriptor =
  bLength :: u8
  bDescriptorType :: u8
  bEndpointAddress :: u8
  bmAttributes :: u8
  wMaxPacketSize :: u16
  bInterval :: u8
  bRefresh :: u8
  bSynchAddress :: u8

section \<open>Constants\<close>

definition USB_DIR_OUT :: c_int where "USB_DIR_OUT = 0"
definition USB_DIR_IN :: c_int where "USB_DIR_IN = 0x80"
definition USB_ENDPOINT_NUMBER_MASK :: c_int where "USB_ENDPOINT_NUMBER_MASK = 0x0f"
definition USB_ENDPOINT_DIR_MASK :: c_int where "USB_ENDPOINT_DIR_MASK = 0x80"
definition USB_ENDPOINT_XFERTYPE_MASK :: c_int where "USB_ENDPOINT_XFERTYPE_MASK = 0x03"
definition USB_ENDPOINT_XFER_CONTROL :: c_int where "USB_ENDPOINT_XFER_CONTROL = 0"
definition USB_ENDPOINT_XFER_ISOC :: c_int where "USB_ENDPOINT_XFER_ISOC = 1"
definition USB_ENDPOINT_XFER_BULK :: c_int where "USB_ENDPOINT_XFER_BULK = 2"
definition USB_ENDPOINT_XFER_INT :: c_int where "USB_ENDPOINT_XFER_INT = 3"
definition USB_ENDPOINT_MAXP_MASK :: c_int where "USB_ENDPOINT_MAXP_MASK = 0x07ff"
definition USB_EP_MAXP_MULT_SHIFT :: nat where "USB_EP_MAXP_MULT_SHIFT = 11"
definition USB_EP_MAXP_MULT_MASK :: c_int where
  "USB_EP_MAXP_MULT_MASK = push_bit USB_EP_MAXP_MULT_SHIFT 3"
definition USB_EP_MAXP_MULT :: "c_int \<Rightarrow> c_int" where
  "USB_EP_MAXP_MULT m = drop_bit USB_EP_MAXP_MULT_SHIFT (m AND USB_EP_MAXP_MULT_MASK)"
definition USB_ENDPOINT_INTRTYPE :: c_int where "USB_ENDPOINT_INTRTYPE = 0x30"

section \<open>Queries\<close>

definition usb_endpoint_num :: "usb_endpoint_descriptor \<Rightarrow> c_int" where
  "usb_endpoint_num epd = promote (bEndpointAddress epd) AND USB_ENDPOINT_NUMBER_MASK"

definition usb_endpoint_type :: "usb_endpoint_descriptor \<Rightarrow> c_int" where
  "usb_endpoint_type epd = promote (bmAttributes epd) AND USB_ENDPOINT_XFERTYPE_MASK"

definition usb_endpoint_dir_in :: "usb_endpoint_descriptor \<Rightarrow> bool" where
  "usb_endpoint_dir_in epd \<longleftrightarrow>
     promote (bEndpointAddress epd) AND USB_ENDPOINT_DIR_MASK = USB_DIR_IN"

definition usb_endpoint_dir_out :: "usb_endpoint_descriptor \<Rightarrow> bool" where
  "usb_endpoint_dir_out epd \<longleftrightarrow>
     promote (bEndpointAddress epd) AND USB_ENDPOINT_DIR_MASK = USB_DIR_OUT"

definition usb_endpoint_xfer_bulk :: "usb_endpoint_descriptor \<Rightarrow> bool" where
  "usb_endpoint_xfer_bulk epd \<longleftrightarrow>
     promote (bmAttributes epd) AND USB_ENDPOINT_XFERTYPE_MASK = USB_ENDPOINT_XFER_BULK"

definition usb_endpoint_xfer_control :: "usb_endpoint_descriptor \<Rightarrow> bool" where
  "usb_endpoint_xfer_control epd \<longleftrightarrow>
     promote (bmAttributes epd) AND USB_ENDPOINT_XFERTYPE_MASK = USB_ENDPOINT_XFER_CONTROL"

definition usb_endpoint_xfer_int :: "usb_endpoint_descriptor \<Rightarrow> bool" where
  "usb_endpoint_xfer_int epd \<longleftrightarrow>
     promote (bmAttributes epd) AND USB_ENDPOINT_XFERTYPE_MASK = USB_ENDPOINT_XFER_INT"

definition usb_endpoint_xfer_isoc :: "usb_endpoint_descriptor \<Rightarrow> bool" where
  "usb_endpoint_xfer_isoc epd \<longleftrightarrow>
     promote (bmAttributes epd) AND USB_ENDPOINT_XFERTYPE_MASK = USB_ENDPOINT_XFER_ISOC"

definition usb_endpoint_is_bulk_in :: "usb_endpoint_descriptor \<Rightarrow> bool" where
  "usb_endpoint_is_bulk_in epd \<longleftrightarrow> usb_endpoint_xfer_bulk epd \<and> usb_endpoint_dir_in epd"

definition usb_endpoint_is_bulk_out :: "usb_endpoint_descriptor \<Rightarrow> bool" where
  "usb_endpoint_is_bulk_out epd \<longleftrightarrow> usb_endpoint_xfer_bulk epd \<and> usb_endpoint_dir_out epd"

definition usb_endpoint_is_int_in :: "usb_endpoint_descriptor \<Rightarrow> bool" where
  "usb_endpoint_is_int_in epd \<longleftrightarrow> usb_endpoint_xfer_int epd \<and> usb_endpoint_dir_in epd"

definition usb_endpoint_is_int_out :: "usb_endpoint_descriptor \<Rightarrow> bool" where
  "usb_endpoint_is_int_out epd \<longleftrightarrow> usb_endpoint_xfer_int epd \<and> usb_endpoint_dir_out epd"

definition usb_endpoint_is_isoc_in :: "usb_endpoint_descriptor \<Rightarrow> bool" where
  "usb_endpoint_is_isoc_in epd \<longleftrightarrow> usb_endpoint_xfer_isoc epd \<and> usb_endpoint_dir_in epd"

definition usb_endpoint_is_isoc_out :: "usb_endpoint_descriptor \<Rightarrow> bool" where
  "usb_endpoint_is_isoc_out epd \<longleftrightarrow> usb_endpoint_xfer_isoc epd \<and> usb_endpoint_dir_out epd"

definition usb_endpoint_maxp :: "(u16 \<Rightarrow> u16) \<Rightarrow> usb_endpoint_descriptor \<Rightarrow> c_int" where
  "usb_endpoint_maxp le16 epd = promote16 (le16 (wMaxPacketSize epd)) AND USB_ENDPOINT_MAXP_MASK"

definition usb_endpoint_maxp_mult :: "(u16 \<Rightarrow> u16) \<Rightarrow> usb_endpoint_descriptor \<Rightarrow> c_int" where
  "usb_endpoint_maxp_mult le16 epd = (let
     maxp = promote16 (le16 (wMaxPacketSize epd))
     in USB_EP_MAXP_MULT maxp + 1)"

definition usb_endpoint_interrupt_type :: "usb_endpoint_descriptor \<Rightarrow> c_int" where
  "usb_endpoint_interrupt_type epd = promote (bmAttributes epd) AND USB_ENDPOINT_INTRTYPE"

section \<open>SuperSpeed companions\<close>

record usb_ss_ep_comp_descriptor =
  ss_bLength :: u8
  ss_bDescriptorType :: u8
  bMaxBurst :: u8
  ss_bmAttributes :: u8
  wBytesPerInterval :: u16

text \<open>The argument may be a null pointer.\<close>

definition usb_ss_max_streams :: "usb_ss_ep_comp_descriptor option \<Rightarrow> c_int" where
  "usb_ss_max_streams ep_comp = (case ep_comp of None \<Rightarrow> 0 | Some ep_comp \<Rightarrow> (let
     max_streams = promote (ss_bmAttributes ep_comp) AND 0x1f
     in if max_streams = 0 then 0 else (let
     max_streams = push_bit (unat max_streams) 1
     in max_streams)))"

definition USB_SS_MULT :: "c_int \<Rightarrow> c_int" where
  "USB_SS_MULT p = 1 + (p AND 0x3)"

definition USB_SS_SSP_ISOC_COMP :: "c_int \<Rightarrow> c_int" where
  "USB_SS_SSP_ISOC_COMP p = p AND push_bit 7 1"

section \<open>Descriptors in memory\<close>

definition usb_endpoint_at :: "endian \<Rightarrow> u8 list \<Rightarrow> nat \<Rightarrow> usb_endpoint_descriptor option" where
  "usb_endpoint_at e mem p = do {
     a \<leftarrow> rd mem p;
     b \<leftarrow> rd mem (p + 1);
     c \<leftarrow> rd mem (p + 2);
     d \<leftarrow> rd mem (p + 3);
     w \<leftarrow> load e mem (p + 4);
     f \<leftarrow> rd mem (p + 6);
     g \<leftarrow> rd mem (p + 7);
     h \<leftarrow> rd mem (p + 8);
     Some \<lparr>bLength = a, bDescriptorType = b, bEndpointAddress = c, bmAttributes = d,
       wMaxPacketSize = w, bInterval = f, bRefresh = g, bSynchAddress = h\<rparr>
   }"

lemma xfertype_cases:
  "usb_endpoint_type epd \<in> {USB_ENDPOINT_XFER_CONTROL, USB_ENDPOINT_XFER_ISOC,
     USB_ENDPOINT_XFER_BULK, USB_ENDPOINT_XFER_INT}"
proof -
  have "(3 :: c_int) = mask 2" by (simp add: mask_numeral)
  then have "unat (x AND 3) < 4" for x :: c_int using unat_and_mask [of x 2] by simp
  then have "unat (usb_endpoint_type epd) < 4"
    by (simp add: usb_endpoint_type_def USB_ENDPOINT_XFERTYPE_MASK_def)
  then obtain n where "unat (usb_endpoint_type epd) = n" "n < 4" by blast
  moreover from this have "usb_endpoint_type epd = word_of_nat n" by (metis of_nat_unat ucast_id)
  moreover from calculation have "n = 0 \<or> n = 1 \<or> n = 2 \<or> n = 3" by linarith
  ultimately show ?thesis
    by (auto simp add: USB_ENDPOINT_XFER_CONTROL_def USB_ENDPOINT_XFER_ISOC_def
        USB_ENDPOINT_XFER_BULK_def USB_ENDPOINT_XFER_INT_def)
qed

lemma dir_cases: "usb_endpoint_dir_in epd \<noteq> usb_endpoint_dir_out epd"
proof -
  have "(0x80 :: c_int) = push_bit 7 1" by simp
  then have "x AND 0x80 = (if bit x 7 then 0x80 else 0)" for x :: c_int
    by (auto intro!: bit_word_eqI simp only: bit_simps split: if_splits) auto
  then show ?thesis
    by (simp add: usb_endpoint_dir_in_def usb_endpoint_dir_out_def USB_ENDPOINT_DIR_MASK_def
        USB_DIR_IN_def USB_DIR_OUT_def)
qed

text \<open>
  Every endpoint is classified once: it has one direction, its type is one of the four, and the
  six combined predicates are mutually exclusive, exactly one of them holding for every endpoint that
  is not a control endpoint.
\<close>

theorem usb_endpoint_classified:
  "usb_endpoint_dir_in epd \<noteq> usb_endpoint_dir_out epd \<and>
   length (filter (\<lambda>b. b) [usb_endpoint_xfer_control epd, usb_endpoint_xfer_isoc epd,
     usb_endpoint_xfer_bulk epd, usb_endpoint_xfer_int epd]) = 1 \<and>
   length (filter (\<lambda>b. b) [usb_endpoint_is_bulk_in epd, usb_endpoint_is_bulk_out epd,
     usb_endpoint_is_int_in epd, usb_endpoint_is_int_out epd,
     usb_endpoint_is_isoc_in epd, usb_endpoint_is_isoc_out epd]) =
     (if usb_endpoint_xfer_control epd then 0 else 1)"
proof -
  have x: "usb_endpoint_xfer_control epd \<longleftrightarrow> usb_endpoint_type epd = 0"
    "usb_endpoint_xfer_isoc epd \<longleftrightarrow> usb_endpoint_type epd = 1"
    "usb_endpoint_xfer_bulk epd \<longleftrightarrow> usb_endpoint_type epd = 2"
    "usb_endpoint_xfer_int epd \<longleftrightarrow> usb_endpoint_type epd = 3"
    by (simp_all add: usb_endpoint_xfer_control_def usb_endpoint_xfer_isoc_def
        usb_endpoint_xfer_bulk_def usb_endpoint_xfer_int_def usb_endpoint_type_def
        USB_ENDPOINT_XFER_CONTROL_def USB_ENDPOINT_XFER_ISOC_def USB_ENDPOINT_XFER_BULK_def
        USB_ENDPOINT_XFER_INT_def)
  have "usb_endpoint_type epd \<in> {0, 1, 2, 3}"
    using xfertype_cases [of epd] by (simp add: USB_ENDPOINT_XFER_CONTROL_def
        USB_ENDPOINT_XFER_ISOC_def USB_ENDPOINT_XFER_BULK_def USB_ENDPOINT_XFER_INT_def)
  then show ?thesis
    using dir_cases [of epd] unfolding x usb_endpoint_is_bulk_in_def usb_endpoint_is_bulk_out_def
      usb_endpoint_is_int_in_def usb_endpoint_is_int_out_def usb_endpoint_is_isoc_in_def
      usb_endpoint_is_isoc_out_def by auto
qed

section \<open>Packet sizes\<close>

lemma load_le16:
  assumes "off + 2 \<le> length mem"
  shows "(load Little mem off :: u16 option) = Some (be16 (mem ! Suc off) (mem ! off))"
proof -
  have "take 2 (drop off mem) = [mem ! off, mem ! Suc off]"
    using assms by (simp add: numeral_2_eq_2 take_Suc_conv_app_nth)
  then show ?thesis
    using assms
    by (simp add: load_in word_of_bytes_def order_bytes_def)
      (auto intro!: bit_word_eqI simp add: bit_be16 bit_simps)
qed

lemma unat_be16: "unat (be16 a b) = 256 * unat a + unat b"
proof -
  have "fits 8 (promote b)" by (auto simp add: fits_bits promote_def bit_simps dest: bit_imp_le_length)
  then have "be16 a b = u16_of (push_bit 8 (promote a) + promote b)"
    unfolding be16_def by (simp only: or_eq_add_field)
  moreover have "unat a < 256" "unat b < 256"
    using unsigned_less [of a, where ?'a = nat] unsigned_less [of b, where ?'a = nat] by simp_all
  ultimately show ?thesis
    by (simp add: u16_of_def unsigned_ucast_eq push_bit_eq_mult unat_word_ariths unat_promote
        take_bit_eq_mod mult.commute)
qed

lemma unat_maxp: "unat (usb_endpoint_maxp le16 epd) = unat (le16 (wMaxPacketSize epd)) mod 2048"
proof -
  have "(0x07ff :: c_int) = mask 11" by (simp add: mask_numeral)
  then show ?thesis
    using unat_and_mask [of "promote16 (le16 (wMaxPacketSize epd))" 11]
    by (simp add: usb_endpoint_maxp_def USB_ENDPOINT_MAXP_MASK_def unat_promote16)
qed

lemma unat_maxp_mult:
  "unat (usb_endpoint_maxp_mult le16 epd) = unat (le16 (wMaxPacketSize epd)) div 2048 mod 4 + 1"
proof -
  let ?w = "promote16 (le16 (wMaxPacketSize epd))"
  have m3: "(3 :: c_int) = mask 2" by (simp add: mask_numeral)
  have "drop_bit 11 (?w AND push_bit 11 3) = take_bit 2 (drop_bit 11 ?w)"
    unfolding m3 by (auto intro!: bit_word_eqI simp add: bit_simps)
  then have *: "usb_endpoint_maxp_mult le16 epd = take_bit 2 (drop_bit 11 ?w) + 1"
    unfolding usb_endpoint_maxp_mult_def USB_EP_MAXP_MULT_def USB_EP_MAXP_MULT_MASK_def
      USB_EP_MAXP_MULT_SHIFT_def Let_def by (simp only:)
  have m: "unat (take_bit 2 (drop_bit 11 ?w)) = unat (le16 (wMaxPacketSize epd)) div 2048 mod 4"
    by (simp add: take_bit_eq_mod drop_bit_eq_div unat_mod_distrib unat_div_distrib unat_promote16)
  have "unat (take_bit 2 (drop_bit 11 ?w)) < 4" unfolding m by simp
  then show ?thesis unfolding * by (simp add: unat_word_ariths m)
qed

lemma usb_endpoint_at_le16:
  assumes "p + 9 \<le> length mem"
    and "\<And>off. map_option le16 (load e mem off) = (load Little mem off :: u16 option)"
  shows "\<exists>epd. usb_endpoint_at e mem p = Some epd \<and>
    unat (le16 (wMaxPacketSize epd)) = 256 * unat (mem ! (p + 5)) + unat (mem ! (p + 4))"
proof -
  have "(load Little mem (p + 4) :: u16 option) = Some (be16 (mem ! (p + 5)) (mem ! (p + 4)))"
    using assms(1) load_le16 [of "p + 4" mem] by (simp add: add.commute)
  with assms(2) [of "p + 4"] obtain w where
    "load e mem (p + 4) = Some w" "le16 w = be16 (mem ! (p + 5)) (mem ! (p + 4))" by auto
  then show ?thesis using assms(1) by (simp add: usb_endpoint_at_def rd_def unat_be16)
qed

text \<open>
  The packet size and the number of transactions of an endpoint are bits 0 to 10, and one more
  than bits 11 and 12, of the little-endian word in the descriptor, on hosts of either byte order.
\<close>

theorem usb_endpoint_maxp_any_host:
  assumes "host_el c" "host_eb c'" "p + 9 \<le> length mem"
  defines "w \<equiv> 256 * unat (mem ! (p + 5)) + unat (mem ! (p + 4))"
  shows "map_option (\<lambda>d. (unat (usb_endpoint_maxp (le16_to_cpu_el c k) d),
        unat (usb_endpoint_maxp_mult (le16_to_cpu_el c k) d))) (usb_endpoint_at Little mem p) =
      Some (w mod 2048, w div 2048 mod 4 + 1) \<and>
    map_option (\<lambda>d. (unat (usb_endpoint_maxp (le16_to_cpu_eb c' k) d),
        unat (usb_endpoint_maxp_mult (le16_to_cpu_eb c' k) d))) (usb_endpoint_at Big mem p) =
      Some (w mod 2048, w div 2048 mod 4 + 1)"
  using usb_endpoint_at_le16 [OF assms(3) host_el.loads(1) [OF assms(1), of k]]
    usb_endpoint_at_le16 [OF assms(3) host_eb.loads(1) [OF assms(2), of k]]
  by (auto simp add: unat_maxp unat_maxp_mult w_def)

theorem usb_endpoint_maxp_any_host_witness:
  "map_option (\<lambda>d. (unat (usb_endpoint_maxp (le16_to_cpu_eb (generic_config Big 64 False) True) d),
      unat (usb_endpoint_maxp_mult (le16_to_cpu_eb (generic_config Big 64 False) True) d)))
    (usb_endpoint_at Big [9, 5, 0x81, 1, 0x00, 0x14, 1, 0, 0] 0) = Some (1024, 3)"
  using usb_endpoint_maxp_any_host [OF generic_el.host_el_axioms generic_eb.host_eb_axioms,
      of 0 "[9, 5, 0x81, 1, 0x00, 0x14, 1, 0, 0]"]
  by simp

text \<open>
  The number of streams of a SuperSpeed endpoint is a power of two, or zero without a companion.
  For the one reserved value 31 the shift leaves the range of \<^verbatim>\<open>int\<close> and the result is negative.
\<close>

theorem usb_ss_max_streams_values:
  "usb_ss_max_streams None = 0 \<and>
   sint (usb_ss_max_streams (Some d)) = (let n = unat (ss_bmAttributes d) mod 32 in
     if n = 0 then 0 else if n = 31 then - (2 ^ 31) else 2 ^ n)"
proof -
  have "(0x1f :: c_int) = mask 5" by (simp add: mask_numeral)
  then have n: "unat (promote (ss_bmAttributes d) AND 0x1f) = unat (ss_bmAttributes d) mod 32"
    using unat_and_mask [of "promote (ss_bmAttributes d)" 5] by (simp add: unat_promote)
  then have z: "promote (ss_bmAttributes d) AND 0x1f = 0 \<longleftrightarrow> unat (ss_bmAttributes d) mod 32 = 0"
    by (metis unat_eq_0)
  have p: "sint (2 ^ m :: c_int) = 2 ^ m" if "m < 31" for m
  proof -
    have "(2 :: int) ^ m < 2 ^ 31" using that by (intro power_strict_increasing) simp_all
    moreover have "(2 ^ m :: c_int) = word_of_int (2 ^ m)" by simp
    moreover have "- (2 ^ 31) \<le> (2 :: int) ^ m" by (rule order_trans [of _ 0]) simp_all
    ultimately show ?thesis
      by (simp only: signed_of_int) (simp add: signed_take_bit_int_eq_self)
  qed
  have "unat (ss_bmAttributes d) mod 32 < 32" by simp
  then consider "unat (ss_bmAttributes d) mod 32 = 0" | "unat (ss_bmAttributes d) mod 32 = 31"
    | "0 < unat (ss_bmAttributes d) mod 32" "unat (ss_bmAttributes d) mod 32 < 31" by linarith
  then show ?thesis
    by cases (simp_all add: usb_ss_max_streams_def Let_def z n p)
qed

end
