(* ===== verification/Usb_Audio.thy ===== *)
theory Usb_Audio
  imports Uapi_Memory
begin

text \<open>
  The unit descriptors of USB audio (\<^verbatim>\<open>include/linux/usb/audio.h\<close>). Behind a fixed part, a unit descriptor
  has a list of source pins whose length it gives, and then members whose position and size depend on the
  length of that list and on the version of the audio class; the header has an accessor for each.

  A descriptor pointer is the bytes from it to the end of the buffer it points into, and a pointer into
  the descriptor is an offset. A read outside the buffer, or through a null pointer, is undefined
  behaviour and \<open>None\<close>; accessors that return a pointer give \<open>Some None\<close> for \<^verbatim>\<open>NULL\<close>.
\<close>

definition UAC_VERSION_1 :: c_int where "UAC_VERSION_1 = 0x00"
definition UAC_VERSION_2 :: c_int where "UAC_VERSION_2 = 0x20"
definition UAC_VERSION_3 :: c_int where "UAC_VERSION_3 = 0x30"

definition UAC_DT_FEATURE_UNIT_SIZE :: "nat \<Rightarrow> nat" where
  "UAC_DT_FEATURE_UNIT_SIZE ch = 7 + (ch + 1) * 2"

text \<open>\<^verbatim>\<open>raw[desc->bLength - 1]\<close>, the last byte of a descriptor.\<close>

definition last_byte :: "u8 list \<Rightarrow> u8 option" where
  "last_byte desc = do {
     bLength \<leftarrow> rd desc 0;
     if bLength = 0 then None else rd desc (unat bLength - 1)
   }"

section \<open>Mixer, selector and feature units\<close>

definition mixer_bNrInPins :: "u8 list \<Rightarrow> nat option" where
  "mixer_bNrInPins desc = map_option unat (rd desc 4)"

definition mixer_baSourceID :: "u8 list \<Rightarrow> nat \<Rightarrow> u8 option" where
  "mixer_baSourceID desc i = rd desc (5 + i)"

definition uac_mixer_unit_bNrChannels :: "u8 list \<Rightarrow> u8 option" where
  "uac_mixer_unit_bNrChannels desc = do {
     n \<leftarrow> mixer_bNrInPins desc;
     mixer_baSourceID desc n
   }"

definition uac_mixer_unit_wChannelConfig :: "u8 list \<Rightarrow> c_int \<Rightarrow> u32 option" where
  "uac_mixer_unit_wChannelConfig desc protocol = do {
     n \<leftarrow> mixer_bNrInPins desc;
     if protocol = UAC_VERSION_1 then do {
       b2 \<leftarrow> mixer_baSourceID desc (n + 2);
       b1 \<leftarrow> mixer_baSourceID desc (n + 1);
       Some (push_bit 8 (promote b2) OR promote b1)
     } else do {
       b4 \<leftarrow> mixer_baSourceID desc (n + 4);
       b3 \<leftarrow> mixer_baSourceID desc (n + 3);
       b2 \<leftarrow> mixer_baSourceID desc (n + 2);
       b1 \<leftarrow> mixer_baSourceID desc (n + 1);
       Some (push_bit 24 (promote b4) OR push_bit 16 (promote b3) OR push_bit 8 (promote b2) OR
         promote b1)
     }
   }"

definition uac_mixer_unit_iChannelNames :: "u8 list \<Rightarrow> c_int \<Rightarrow> u8 option" where
  "uac_mixer_unit_iChannelNames desc protocol = do {
     n \<leftarrow> mixer_bNrInPins desc;
     if protocol = UAC_VERSION_1 then mixer_baSourceID desc (n + 3)
     else mixer_baSourceID desc (n + 5)
   }"

definition uac_mixer_unit_bmControls :: "u8 list \<Rightarrow> c_int \<Rightarrow> nat option option" where
  "uac_mixer_unit_bmControls desc protocol =
     (if protocol = UAC_VERSION_1 then do { n \<leftarrow> mixer_bNrInPins desc; Some (Some (5 + (n + 4))) }
      else if protocol = UAC_VERSION_2 then do { n \<leftarrow> mixer_bNrInPins desc; Some (Some (5 + (n + 6))) }
      else if protocol = UAC_VERSION_3 then do { n \<leftarrow> mixer_bNrInPins desc; Some (Some (5 + (n + 2))) }
      else Some None)"

definition uac3_mixer_unit_wClusterDescrID :: "u8 list \<Rightarrow> u16 option" where
  "uac3_mixer_unit_wClusterDescrID desc = do {
     n \<leftarrow> mixer_bNrInPins desc;
     b1 \<leftarrow> mixer_baSourceID desc (n + 1);
     b0 \<leftarrow> mixer_baSourceID desc n;
     Some (be16 b1 b0)
   }"

definition uac_mixer_unit_iMixer :: "u8 list \<Rightarrow> u8 option" where
  "uac_mixer_unit_iMixer desc = last_byte desc"

definition uac_selector_unit_iSelector :: "u8 list \<Rightarrow> u8 option" where
  "uac_selector_unit_iSelector desc = last_byte desc"

definition uac_feature_unit_iFeature :: "u8 list \<Rightarrow> u8 option" where
  "uac_feature_unit_iFeature desc = last_byte desc"

section \<open>Processing and extension units\<close>

definition processing_bNrInPins :: "u8 list \<Rightarrow> nat option" where
  "processing_bNrInPins desc = map_option unat (rd desc 6)"

definition processing_baSourceID :: "u8 list \<Rightarrow> nat \<Rightarrow> u8 option" where
  "processing_baSourceID desc i = rd desc (7 + i)"

definition uac_processing_unit_bNrChannels :: "u8 list \<Rightarrow> u8 option" where
  "uac_processing_unit_bNrChannels desc = do {
     n \<leftarrow> processing_bNrInPins desc;
     processing_baSourceID desc n
   }"

definition uac_processing_unit_wChannelConfig :: "u8 list \<Rightarrow> c_int \<Rightarrow> u32 option" where
  "uac_processing_unit_wChannelConfig desc protocol = do {
     n \<leftarrow> processing_bNrInPins desc;
     if protocol = UAC_VERSION_1 then do {
       b2 \<leftarrow> processing_baSourceID desc (n + 2);
       b1 \<leftarrow> processing_baSourceID desc (n + 1);
       Some (push_bit 8 (promote b2) OR promote b1)
     } else do {
       b4 \<leftarrow> processing_baSourceID desc (n + 4);
       b3 \<leftarrow> processing_baSourceID desc (n + 3);
       b2 \<leftarrow> processing_baSourceID desc (n + 2);
       b1 \<leftarrow> processing_baSourceID desc (n + 1);
       Some (push_bit 24 (promote b4) OR push_bit 16 (promote b3) OR push_bit 8 (promote b2) OR
         promote b1)
     }
   }"

definition uac_processing_unit_iChannelNames :: "u8 list \<Rightarrow> c_int \<Rightarrow> u8 option" where
  "uac_processing_unit_iChannelNames desc protocol = do {
     n \<leftarrow> processing_bNrInPins desc;
     if protocol = UAC_VERSION_1 then processing_baSourceID desc (n + 3)
     else processing_baSourceID desc (n + 5)
   }"

definition uac_processing_unit_bControlSize :: "u8 list \<Rightarrow> c_int \<Rightarrow> u8 option" where
  "uac_processing_unit_bControlSize desc protocol =
     (if protocol = UAC_VERSION_1 then do {
        n \<leftarrow> processing_bNrInPins desc;
        processing_baSourceID desc (n + 4)
      }
      else if protocol = UAC_VERSION_2 then Some 2
      else if protocol = UAC_VERSION_3 then Some 4
      else Some 1)"

definition uac_processing_unit_bmControls :: "u8 list \<Rightarrow> c_int \<Rightarrow> nat option option" where
  "uac_processing_unit_bmControls desc protocol =
     (if protocol = UAC_VERSION_1 then do { n \<leftarrow> processing_bNrInPins desc; Some (Some (7 + (n + 5))) }
      else if protocol = UAC_VERSION_2 then do { n \<leftarrow> processing_bNrInPins desc; Some (Some (7 + (n + 6))) }
      else if protocol = UAC_VERSION_3 then do { n \<leftarrow> processing_bNrInPins desc; Some (Some (7 + (n + 2))) }
      else Some None)"

definition uac_processing_unit_iProcessing :: "u8 list \<Rightarrow> c_int \<Rightarrow> u8 option" where
  "uac_processing_unit_iProcessing desc protocol = do {
     control_size \<leftarrow> uac_processing_unit_bControlSize desc protocol;
     if protocol = UAC_VERSION_3 then Some 0
     else do {
       p \<leftarrow> uac_processing_unit_bmControls desc protocol;
       a \<leftarrow> p;
       rd desc (a + unat control_size)
     }
   }"

definition uac_processing_unit_specific :: "u8 list \<Rightarrow> c_int \<Rightarrow> nat option" where
  "uac_processing_unit_specific desc protocol = do {
     control_size \<leftarrow> uac_processing_unit_bControlSize desc protocol;
     if protocol = UAC_VERSION_3 then do {
       p \<leftarrow> uac_processing_unit_bmControls desc protocol;
       a \<leftarrow> p;
       Some (a + unat control_size)
     } else do {
       p \<leftarrow> uac_processing_unit_bmControls desc protocol;
       a \<leftarrow> p;
       Some (a + unat control_size + 1)
     }
   }"

definition uac_extension_unit_bControlSize :: "u8 list \<Rightarrow> c_int \<Rightarrow> u8 option" where
  "uac_extension_unit_bControlSize desc protocol =
     (if protocol = UAC_VERSION_1 then do {
        n \<leftarrow> processing_bNrInPins desc;
        processing_baSourceID desc (n + 4)
      }
      else if protocol = UAC_VERSION_2 then Some 1
      else if protocol = UAC_VERSION_3 then Some 4
      else Some 1)"

definition uac_extension_unit_iExtension :: "u8 list \<Rightarrow> c_int \<Rightarrow> u8 option" where
  "uac_extension_unit_iExtension desc protocol = do {
     control_size \<leftarrow> uac_extension_unit_bControlSize desc protocol;
     if protocol = UAC_VERSION_3 then Some 0
     else do {
       p \<leftarrow> uac_processing_unit_bmControls desc protocol;
       a \<leftarrow> p;
       rd desc (a + unat control_size)
     }
   }"

section \<open>Descriptors written out\<close>

text \<open>
  The order of the variable members in versions 1 and 2 of a processing unit, after the seven bytes of the
  fixed part; \<open>sources\<close> has one byte for each pin, \<open>controls\<close> one for each byte of the control bitmap.
\<close>

datatype uac = V1 | V2

fun uac_protocol :: "uac \<Rightarrow> c_int" where
  "uac_protocol V1 = UAC_VERSION_1"
| "uac_protocol V2 = UAC_VERSION_2"

record unit_fields =
  sources :: "u8 list"
  channels :: u8
  config :: u32
  names :: u8
  controls :: "u8 list"
  index :: u8
  specific :: "u8 list"

fun unit_tail :: "uac \<Rightarrow> unit_fields \<Rightarrow> u8 list" where
  "unit_tail V1 u = sources u @ [channels u] @ take 2 (le_bytes (config u)) @ [names u] @
     [word_of_nat (length (controls u))] @ controls u @ [index u] @ specific u"
| "unit_tail V2 u = sources u @ [channels u] @ le_bytes (config u) @ [names u] @
     controls u @ [index u] @ specific u"

definition unit_bytes :: "uac \<Rightarrow> u8 list \<Rightarrow> unit_fields \<Rightarrow> u8 list" where
  "unit_bytes v hdr u = hdr @ [word_of_nat (length (sources u))] @ unit_tail v u"

fun processing_ok :: "uac \<Rightarrow> unit_fields \<Rightarrow> bool" where
  "processing_ok V1 u \<longleftrightarrow> length (sources u) < 256 \<and> length (controls u) < 256 \<and> fits 16 (config u)"
| "processing_ok V2 u \<longleftrightarrow> length (sources u) < 256 \<and> length (controls u) = 2"

fun extension_ok :: "uac \<Rightarrow> unit_fields \<Rightarrow> bool" where
  "extension_ok V1 u \<longleftrightarrow> processing_ok V1 u"
| "extension_ok V2 u \<longleftrightarrow> length (sources u) < 256 \<and> length (controls u) = 1"

lemma versions_distinct [simp]:
  "UAC_VERSION_2 \<noteq> UAC_VERSION_1" "UAC_VERSION_3 \<noteq> UAC_VERSION_1" "UAC_VERSION_3 \<noteq> UAC_VERSION_2"
  "UAC_VERSION_1 \<noteq> UAC_VERSION_2" "UAC_VERSION_1 \<noteq> UAC_VERSION_3" "UAC_VERSION_2 \<noteq> UAC_VERSION_3"
  by (simp_all add: UAC_VERSION_1_def UAC_VERSION_2_def UAC_VERSION_3_def)

lemma unat_length: "length xs < 256 \<Longrightarrow> unat (word_of_nat (length xs) :: u8) = length xs"
  by (simp add: unsigned_of_nat take_bit_nat_eq_self)

lemma le_config:
  "push_bit 24 (promote (byte_of 3 c)) OR push_bit 16 (promote (byte_of 2 c)) OR
     push_bit 8 (promote (byte_of 1 c)) OR promote (byte_of 0 c) = (c :: u32)" (is "?l = c")
proof (rule bit_word_eqI)
  fix n assume "n < LENGTH(32)"
  then consider "n < 8" | "8 \<le> n" "n < 16" | "16 \<le> n" "n < 24" | "24 \<le> n" "n < 32" by force
  then show "bit ?l n \<longleftrightarrow> bit c n"
    by cases (auto simp add: promote_def bit_simps bit_byte_of less_diff_conv2)
qed

lemma le_config16:
  assumes "fits 16 (c :: u32)"
  shows "push_bit 8 (promote (byte_of 1 c)) OR promote (byte_of 0 c) = c" (is "?l = c")
proof (rule bit_word_eqI)
  fix n
  have "\<not> bit c n" if "16 \<le> n" using that assms by (simp add: fits_bits)
  note high = this
  consider "n < 8" | "8 \<le> n" "n < 16" | "16 \<le> n" by linarith
  then show "bit ?l n \<longleftrightarrow> bit c n"
    by cases (auto simp add: promote_def bit_simps bit_byte_of less_diff_conv2 high)
qed

lemma rd_append: "length xs \<le> k \<Longrightarrow> rd (xs @ ys) k = rd ys (k - length xs)"
  by (auto simp add: rd_def nth_append)

lemma rd_Cons: "rd (x # xs) 0 = Some x" "0 < k \<Longrightarrow> rd (x # xs) k = rd xs (k - 1)"
  by (auto simp add: rd_def gr0_conv_Suc)

lemma unit_bytes_accessors:
  assumes "length hdr = 6" "length (sources u) < 256"
  shows "processing_bNrInPins (unit_bytes v hdr u) = Some (length (sources u))"
    and "processing_baSourceID (unit_bytes v hdr u) i = rd (unit_tail v u) i"
  using assms by (simp_all add: processing_bNrInPins_def processing_baSourceID_def unit_bytes_def
      rd_append rd_Cons unat_length)

lemmas unit_defs = uac_processing_unit_bNrChannels_def uac_processing_unit_wChannelConfig_def
  uac_processing_unit_iChannelNames_def uac_processing_unit_bControlSize_def
  uac_processing_unit_bmControls_def uac_processing_unit_iProcessing_def
  uac_processing_unit_specific_def uac_extension_unit_bControlSize_def
  uac_extension_unit_iExtension_def

lemma unit_behind:
  assumes "length hdr = 6" "7 \<le> k"
  shows "drop k (unit_bytes v hdr u) = drop (k - 7) (unit_tail v u)"
    "rd (unit_bytes v hdr u) k = rd (unit_tail v u) (k - 7)"
  using assms by (simp_all add: unit_bytes_def rd_append rd_Cons drop_Cons')

text \<open>
  The accessors of a processing unit read back every member of a descriptor of version 1 or 2 of
  the audio class, for any number of pins and, in version 1, any size of the control bitmap; the
  controls and the process-specific part are where the returned pointers point.
\<close>

theorem uac_processing_unit_roundtrip:
  assumes "processing_ok v u" "length hdr = 6" and d: "d = unit_bytes v hdr u"
  shows "uac_processing_unit_bNrChannels d = Some (channels u) \<and>
    uac_processing_unit_wChannelConfig d (uac_protocol v) = Some (config u) \<and>
    uac_processing_unit_iChannelNames d (uac_protocol v) = Some (names u) \<and>
    uac_processing_unit_bControlSize d (uac_protocol v) = Some (word_of_nat (length (controls u))) \<and>
    uac_processing_unit_iProcessing d (uac_protocol v) = Some (index u) \<and>
    (\<exists>p. uac_processing_unit_bmControls d (uac_protocol v) = Some (Some p) \<and>
      take (length (controls u)) (drop p d) = controls u) \<and>
    (\<exists>q. uac_processing_unit_specific d (uac_protocol v) = Some q \<and> drop q d = specific u)"
proof -
  have n: "length (sources u) < 256" using assms(1) by (cases v) simp_all
  note acc = unit_bytes_accessors [OF assms(2) n]
  show ?thesis
  proof (cases v)
    case V1
    then have ok: "length (controls u) < 256" "fits 16 (config u)" using assms(1) by simp_all
    show ?thesis
      using ok unfolding d V1
      by (simp add: unit_defs acc unit_behind [OF assms(2)] unat_length
          le_config16 [unfolded One_nat_def] rd_append rd_Cons drop_Cons' le_bytes32)
  next
    case V2
    then have ok: "length (controls u) = 2" using assms(1) by simp
    show ?thesis
      using ok unfolding d V2
      by (simp add: unit_defs acc unit_behind [OF assms(2)] le_config [unfolded One_nat_def] rd_append rd_Cons le_bytes32)
  qed
qed

theorem uac_processing_unit_roundtrip_witness:
  "uac_processing_unit_iProcessing (unit_bytes V1 [17, 0x24, 7, 5, 1, 0] \<lparr>sources = [3], channels = 2,
     config = 3, names = 0, controls = [1], index = 9, specific = []\<rparr>) (uac_protocol V1) = Some 9"
  using uac_processing_unit_roundtrip [of V1 "\<lparr>sources = [3], channels = 2, config = 3, names = 0,
      controls = [1], index = 9, specific = []\<rparr>" "[17, 0x24, 7, 5, 1, 0]" _]
  by (simp add: fits_def)

text \<open>An extension unit has the same layout with one byte of controls in version 2.\<close>

theorem uac_extension_unit_index:
  assumes "extension_ok v u" "length hdr = 6"
  shows "uac_extension_unit_iExtension (unit_bytes v hdr u) (uac_protocol v) = Some (index u)"
proof -
  have n: "length (sources u) < 256" using assms(1) by (cases v) simp_all
  note acc = unit_bytes_accessors [OF assms(2) n] unit_behind [OF assms(2)]
  show ?thesis
    using assms(1)
    by (cases v) (simp_all add: unit_defs acc unat_length rd_append rd_Cons le_bytes32)
qed

text \<open>
  For a protocol number that is none of the three versions, the pointer to the controls is null, and
  the accessors that are built on it use it all the same: \<^verbatim>\<open>iProcessing\<close> and \<^verbatim>\<open>iExtension\<close> dereference
  it and \<^verbatim>\<open>specific\<close> adds to it, whatever the descriptor holds.
\<close>

theorem uac_unknown_protocol_null:
  assumes "protocol \<notin> {UAC_VERSION_1, UAC_VERSION_2, UAC_VERSION_3}"
  shows "uac_processing_unit_bmControls desc protocol = Some None \<and>
    uac_mixer_unit_bmControls desc protocol = Some None \<and>
    uac_processing_unit_iProcessing desc protocol = None \<and>
    uac_extension_unit_iExtension desc protocol = None \<and>
    uac_processing_unit_specific desc protocol = None"
  using assms by (simp add: unit_defs uac_mixer_unit_bmControls_def)

theorem uac_unknown_protocol_null_witness:
  "uac_processing_unit_iProcessing (replicate 40 0) 0x10 = None"
  using uac_unknown_protocol_null [of "0x10" "replicate 40 0"]
  by (simp add: UAC_VERSION_1_def UAC_VERSION_2_def UAC_VERSION_3_def)

section \<open>Mixer units\<close>

fun mixer_config :: "uac \<Rightarrow> u32 \<Rightarrow> u8 list" where
  "mixer_config V1 c = take 2 (le_bytes c)"
| "mixer_config V2 c = le_bytes c"

definition mixer_bytes :: "uac \<Rightarrow> u8 \<Rightarrow> u8 \<Rightarrow> u8 \<Rightarrow> unit_fields \<Rightarrow> u8 list" where
  "mixer_bytes v ty st uid u = (let
     tail = sources u @ [channels u] @ mixer_config v (config u) @ [names u] @ controls u @ [index u]
     in word_of_nat (5 + length tail) # ty # st # uid # word_of_nat (length (sources u)) # tail)"

text \<open>
  The accessors of a mixer unit read back its members; \<^verbatim>\<open>iMixer\<close> is the last byte by the length the
  descriptor gives.
\<close>

theorem uac_mixer_unit_roundtrip:
  assumes "length (mixer_bytes v ty st uid u) < 256" "v = V1 \<longrightarrow> fits 16 (config u)"
    and d: "d = mixer_bytes v ty st uid u"
  shows "uac_mixer_unit_bNrChannels d = Some (channels u) \<and>
    uac_mixer_unit_wChannelConfig d (uac_protocol v) = Some (config u) \<and>
    uac_mixer_unit_iChannelNames d (uac_protocol v) = Some (names u) \<and>
    uac_mixer_unit_iMixer d = Some (index u) \<and>
    (\<exists>p. uac_mixer_unit_bmControls d (uac_protocol v) = Some (Some p) \<and>
      take (length (controls u)) (drop p d) = controls u)"
proof -
  have n: "length (sources u) < 256" using assms(1) by (simp add: mixer_bytes_def)
  have len: "unat (word_of_nat (length d) :: u8) = length d" "(word_of_nat (length d) :: u8) \<noteq> 0"
  proof -
    show l: "unat (word_of_nat (length d) :: u8) = length d"
      using assms(1) unat_length [of d] by (simp add: d)
    have "0 < length d" by (simp add: d mixer_bytes_def Let_def)
    then show "(word_of_nat (length d) :: u8) \<noteq> 0" using l by (metis less_irrefl unat_0)
  qed
  have d0: "rd d 0 = Some (word_of_nat (length d))" unfolding d mixer_bytes_def Let_def
    by (simp add: rd_Cons)
  have "rd d (length d - 1) = Some (index u)"
    unfolding d mixer_bytes_def Let_def by (simp add: rd_Cons rd_append)
  then have m: "uac_mixer_unit_iMixer d = Some (index u)"
    using len by (simp add: uac_mixer_unit_iMixer_def last_byte_def d0)
  have cfg: "length (mixer_config v (config u)) = (case v of V1 \<Rightarrow> 2 | V2 \<Rightarrow> 4)"
    by (cases v) (simp_all add: le_bytes32)
  show ?thesis
    unfolding d using m [unfolded d] assms(2) n
    by (cases v) (simp_all add: mixer_bytes_def Let_def mixer_bNrInPins_def mixer_baSourceID_def
        uac_mixer_unit_bNrChannels_def uac_mixer_unit_wChannelConfig_def
        uac_mixer_unit_iChannelNames_def uac_mixer_unit_bmControls_def rd_Cons rd_append unat_length
        le_bytes32 le_config [unfolded One_nat_def] le_config16 [unfolded One_nat_def] drop_Cons')
qed

end
