(* ===== verification/Alpha_Fpu.thy ===== *)
theory Alpha_Fpu
  imports Uapi_Prelude
begin

text \<open>
  The floating-point control words of alpha (\<^verbatim>\<open>arch/alpha/asm/fpu.h\<close>): the software word that programs
  see, with trap enables, mapping modes and status bits, and the hardware register, where the traps are
  disables and the bits lie elsewhere. Two functions convert between them.
\<close>

section \<open>Bits of the hardware register\<close>

definition FPCR_DNOD :: u64 where "FPCR_DNOD = push_bit 47 1"
definition FPCR_DNZ :: u64 where "FPCR_DNZ = push_bit 48 1"
definition FPCR_INVD :: u64 where "FPCR_INVD = push_bit 49 1"
definition FPCR_DZED :: u64 where "FPCR_DZED = push_bit 50 1"
definition FPCR_OVFD :: u64 where "FPCR_OVFD = push_bit 51 1"
definition FPCR_INV :: u64 where "FPCR_INV = push_bit 52 1"
definition FPCR_DZE :: u64 where "FPCR_DZE = push_bit 53 1"
definition FPCR_OVF :: u64 where "FPCR_OVF = push_bit 54 1"
definition FPCR_UNF :: u64 where "FPCR_UNF = push_bit 55 1"
definition FPCR_INE :: u64 where "FPCR_INE = push_bit 56 1"
definition FPCR_IOV :: u64 where "FPCR_IOV = push_bit 57 1"
definition FPCR_UNDZ :: u64 where "FPCR_UNDZ = push_bit 60 1"
definition FPCR_UNFD :: u64 where "FPCR_UNFD = push_bit 61 1"
definition FPCR_INED :: u64 where "FPCR_INED = push_bit 62 1"
definition FPCR_SUM :: u64 where "FPCR_SUM = push_bit 63 1"
definition FPCR_DYN_SHIFT :: nat where "FPCR_DYN_SHIFT = 58"
definition FPCR_DYN_MASK :: u64 where "FPCR_DYN_MASK = push_bit FPCR_DYN_SHIFT 0x3"
definition FPCR_MASK :: u64 where "FPCR_MASK = 0xffff800000000000"

section \<open>Bits of the software word\<close>

definition IEEE_TRAP_ENABLE_INV :: u64 where "IEEE_TRAP_ENABLE_INV = push_bit 1 1"
definition IEEE_TRAP_ENABLE_DZE :: u64 where "IEEE_TRAP_ENABLE_DZE = push_bit 2 1"
definition IEEE_TRAP_ENABLE_OVF :: u64 where "IEEE_TRAP_ENABLE_OVF = push_bit 3 1"
definition IEEE_TRAP_ENABLE_UNF :: u64 where "IEEE_TRAP_ENABLE_UNF = push_bit 4 1"
definition IEEE_TRAP_ENABLE_INE :: u64 where "IEEE_TRAP_ENABLE_INE = push_bit 5 1"
definition IEEE_TRAP_ENABLE_DNO :: u64 where "IEEE_TRAP_ENABLE_DNO = push_bit 6 1"

definition IEEE_TRAP_ENABLE_MASK :: u64 where
  "IEEE_TRAP_ENABLE_MASK = IEEE_TRAP_ENABLE_INV OR IEEE_TRAP_ENABLE_DZE OR IEEE_TRAP_ENABLE_OVF OR
     IEEE_TRAP_ENABLE_UNF OR IEEE_TRAP_ENABLE_INE OR IEEE_TRAP_ENABLE_DNO"

definition IEEE_MAP_DMZ :: u64 where "IEEE_MAP_DMZ = push_bit 12 1"
definition IEEE_MAP_UMZ :: u64 where "IEEE_MAP_UMZ = push_bit 13 1"
definition IEEE_MAP_MASK :: u64 where "IEEE_MAP_MASK = IEEE_MAP_DMZ OR IEEE_MAP_UMZ"

definition IEEE_STATUS_INV :: u64 where "IEEE_STATUS_INV = push_bit 17 1"
definition IEEE_STATUS_DZE :: u64 where "IEEE_STATUS_DZE = push_bit 18 1"
definition IEEE_STATUS_OVF :: u64 where "IEEE_STATUS_OVF = push_bit 19 1"
definition IEEE_STATUS_UNF :: u64 where "IEEE_STATUS_UNF = push_bit 20 1"
definition IEEE_STATUS_INE :: u64 where "IEEE_STATUS_INE = push_bit 21 1"
definition IEEE_STATUS_DNO :: u64 where "IEEE_STATUS_DNO = push_bit 22 1"

definition IEEE_STATUS_MASK :: u64 where
  "IEEE_STATUS_MASK = IEEE_STATUS_INV OR IEEE_STATUS_DZE OR IEEE_STATUS_OVF OR
     IEEE_STATUS_UNF OR IEEE_STATUS_INE OR IEEE_STATUS_DNO"

definition IEEE_SW_MASK :: u64 where
  "IEEE_SW_MASK = IEEE_TRAP_ENABLE_MASK OR IEEE_STATUS_MASK OR IEEE_MAP_MASK"

section \<open>Conversions\<close>

definition ieee_swcr_to_fpcr :: "u64 \<Rightarrow> u64" where
  "ieee_swcr_to_fpcr sw = (let
     fp = push_bit 35 (sw AND IEEE_STATUS_MASK);
     fp = fp OR push_bit 36 (sw AND IEEE_MAP_DMZ);
     fp = fp OR (if sw AND IEEE_STATUS_MASK \<noteq> 0 then FPCR_SUM else 0);
     fp = fp OR push_bit 48 (NOT sw AND (IEEE_TRAP_ENABLE_INV OR IEEE_TRAP_ENABLE_DZE OR
       IEEE_TRAP_ENABLE_OVF));
     fp = fp OR push_bit 57 (NOT sw AND (IEEE_TRAP_ENABLE_UNF OR IEEE_TRAP_ENABLE_INE));
     fp = fp OR (if sw AND IEEE_MAP_UMZ \<noteq> 0 then FPCR_UNDZ OR FPCR_UNFD else 0);
     fp = fp OR push_bit 41 (NOT sw AND IEEE_TRAP_ENABLE_DNO)
     in fp)"

definition ieee_fpcr_to_swcr :: "u64 \<Rightarrow> u64" where
  "ieee_fpcr_to_swcr fp = (let
     sw = drop_bit 35 fp AND IEEE_STATUS_MASK;
     sw = sw OR (drop_bit 36 fp AND IEEE_MAP_DMZ);
     sw = sw OR (drop_bit 48 (NOT fp) AND (IEEE_TRAP_ENABLE_INV OR IEEE_TRAP_ENABLE_DZE OR
       IEEE_TRAP_ENABLE_OVF));
     sw = sw OR (drop_bit 57 (NOT fp) AND (IEEE_TRAP_ENABLE_UNF OR IEEE_TRAP_ENABLE_INE));
     sw = sw OR (drop_bit 47 fp AND IEEE_MAP_UMZ);
     sw = sw OR (drop_bit 41 (NOT fp) AND IEEE_TRAP_ENABLE_DNO)
     in sw)"

section \<open>Bit by bit\<close>

lemma bit_one_bit: "bit (push_bit n 1 :: u64) i \<longleftrightarrow> i = n \<and> n < 64"
  by (auto simp only: bit_push_bit_iff bit_1_iff possible_bit_word) simp_all

lemmas sw_bit_defs = IEEE_TRAP_ENABLE_INV_def IEEE_TRAP_ENABLE_DZE_def IEEE_TRAP_ENABLE_OVF_def
  IEEE_TRAP_ENABLE_UNF_def IEEE_TRAP_ENABLE_INE_def IEEE_TRAP_ENABLE_DNO_def IEEE_MAP_DMZ_def
  IEEE_MAP_UMZ_def IEEE_STATUS_INV_def IEEE_STATUS_DZE_def IEEE_STATUS_OVF_def IEEE_STATUS_UNF_def
  IEEE_STATUS_INE_def IEEE_STATUS_DNO_def

lemma sw_masks:
  "bit (IEEE_TRAP_ENABLE_INV OR IEEE_TRAP_ENABLE_DZE OR IEEE_TRAP_ENABLE_OVF) i \<longleftrightarrow> i \<in> {1, 2, 3}"
  "bit (IEEE_TRAP_ENABLE_UNF OR IEEE_TRAP_ENABLE_INE) i \<longleftrightarrow> i \<in> {4, 5}"
  "bit IEEE_TRAP_ENABLE_DNO i \<longleftrightarrow> i = 6"
  "bit IEEE_MAP_DMZ i \<longleftrightarrow> i = 12"
  "bit IEEE_MAP_UMZ i \<longleftrightarrow> i = 13"
  "bit IEEE_STATUS_MASK i \<longleftrightarrow> i \<in> {17..22}"
  "bit IEEE_SW_MASK i \<longleftrightarrow> i \<in> {1..6} \<union> {12, 13} \<union> {17..22}"
  unfolding IEEE_SW_MASK_def IEEE_TRAP_ENABLE_MASK_def IEEE_MAP_MASK_def IEEE_STATUS_MASK_def
    sw_bit_defs bit_or_iff bit_one_bit by (simp_all, presburger+)

lemma fp_masks:
  "bit FPCR_SUM i \<longleftrightarrow> i = 63" "bit FPCR_UNDZ i \<longleftrightarrow> i = 60" "bit FPCR_UNFD i \<longleftrightarrow> i = 61"
  unfolding FPCR_SUM_def FPCR_UNDZ_def FPCR_UNFD_def bit_one_bit by simp_all

lemma and_nonzero: "x AND m \<noteq> 0 \<longleftrightarrow> (\<exists>i. bit m i \<and> bit (x :: u64) i)"
proof -
  have "x AND m \<noteq> 0 \<longleftrightarrow> (\<exists>i. bit (x AND m) i)" by (metis bit_0_eq bit_word_eqI bot_apply bot_bool_def)
  then show ?thesis by (auto simp add: bit_and_iff)
qed

lemma moved_bits:
  "bit (push_bit k (x AND m) :: u64) i \<longleftrightarrow> k \<le> i \<and> i < 64 \<and> bit m (i - k) \<and> bit x (i - k)"
  "bit (push_bit k (NOT x AND m) :: u64) i \<longleftrightarrow> k \<le> i \<and> i < 64 \<and> bit m (i - k) \<and> \<not> bit x (i - k)"
  "bit (drop_bit k x AND m :: u64) i \<longleftrightarrow> bit m i \<and> bit x (k + i)"
  "bit (drop_bit k (NOT x) AND m :: u64) i \<longleftrightarrow> bit m i \<and> k + i < 64 \<and> \<not> bit x (k + i)"
  by (auto simp add: bit_simps dest: bit_imp_le_length)

lemma swcr_to_fpcr_parts:
  "bit (push_bit 35 (sw AND IEEE_STATUS_MASK)) i \<longleftrightarrow> i \<in> {52..57} \<and> bit sw (i - 35)"
  "bit (push_bit 36 (sw AND IEEE_MAP_DMZ)) i \<longleftrightarrow> i = 48 \<and> bit sw 12"
  "bit (if sw AND IEEE_STATUS_MASK \<noteq> 0 then FPCR_SUM else 0) i \<longleftrightarrow>
     i = 63 \<and> (\<exists>j \<in> {17..22}. bit sw j)"
  "bit (push_bit 48 (NOT sw AND (IEEE_TRAP_ENABLE_INV OR IEEE_TRAP_ENABLE_DZE OR
     IEEE_TRAP_ENABLE_OVF))) i \<longleftrightarrow> i \<in> {49..51} \<and> \<not> bit sw (i - 48)"
  "bit (push_bit 57 (NOT sw AND (IEEE_TRAP_ENABLE_UNF OR IEEE_TRAP_ENABLE_INE))) i \<longleftrightarrow>
     i \<in> {61, 62} \<and> \<not> bit sw (i - 57)"
  "bit (if sw AND IEEE_MAP_UMZ \<noteq> 0 then FPCR_UNDZ OR FPCR_UNFD else 0) i \<longleftrightarrow>
     i \<in> {60, 61} \<and> bit sw 13"
  "bit (push_bit 41 (NOT sw AND IEEE_TRAP_ENABLE_DNO)) i \<longleftrightarrow> i = 47 \<and> \<not> bit sw 6"
  unfolding moved_bits and_nonzero sw_masks by (auto simp add: fp_masks bit_or_iff bit_not_iff)

lemma fpcr_to_swcr_parts:
  "bit (drop_bit 35 fp AND IEEE_STATUS_MASK) i \<longleftrightarrow> i \<in> {17..22} \<and> bit fp (35 + i)"
  "bit (drop_bit 36 fp AND IEEE_MAP_DMZ) i \<longleftrightarrow> i = 12 \<and> bit fp 48"
  "bit (drop_bit 48 (NOT fp) AND (IEEE_TRAP_ENABLE_INV OR IEEE_TRAP_ENABLE_DZE OR
     IEEE_TRAP_ENABLE_OVF)) i \<longleftrightarrow> i \<in> {1..3} \<and> \<not> bit fp (48 + i)"
  "bit (drop_bit 57 (NOT fp) AND (IEEE_TRAP_ENABLE_UNF OR IEEE_TRAP_ENABLE_INE)) i \<longleftrightarrow>
     i \<in> {4, 5} \<and> \<not> bit fp (57 + i)"
  "bit (drop_bit 47 fp AND IEEE_MAP_UMZ) i \<longleftrightarrow> i = 13 \<and> bit fp 60"
  "bit (drop_bit 41 (NOT fp) AND IEEE_TRAP_ENABLE_DNO) i \<longleftrightarrow> i = 6 \<and> \<not> bit fp 47"
  unfolding moved_bits sw_masks by (auto simp add: bit_not_iff)

lemma bit_swcr_to_fpcr: "bit (ieee_swcr_to_fpcr sw) i \<longleftrightarrow>
    (i \<in> {52..57} \<and> bit sw (i - 35)) \<or> (i = 48 \<and> bit sw 12) \<or> (i = 63 \<and> (\<exists>j \<in> {17..22}. bit sw j)) \<or>
    (i \<in> {49..51} \<and> \<not> bit sw (i - 48)) \<or> (i \<in> {61, 62} \<and> \<not> bit sw (i - 57)) \<or>
    (i \<in> {60, 61} \<and> bit sw 13) \<or> (i = 47 \<and> \<not> bit sw 6)"
  unfolding ieee_swcr_to_fpcr_def Let_def bit_or_iff [of "_ OR _"] swcr_to_fpcr_parts
    bit_or_iff [of "push_bit 35 _"] by blast

lemma bit_fpcr_to_swcr: "bit (ieee_fpcr_to_swcr fp) i \<longleftrightarrow>
    (i \<in> {17..22} \<and> bit fp (35 + i)) \<or> (i = 12 \<and> bit fp 48) \<or> (i \<in> {1..3} \<and> \<not> bit fp (48 + i)) \<or>
    (i \<in> {4, 5} \<and> \<not> bit fp (57 + i)) \<or> (i = 13 \<and> bit fp 60) \<or> (i = 6 \<and> \<not> bit fp 47)"
  unfolding ieee_fpcr_to_swcr_def Let_def bit_or_iff [of "_ OR _"] fpcr_to_swcr_parts
    bit_or_iff [of "drop_bit 35 _ AND _"] by blast

lemma converted_range:
  "bit (ieee_fpcr_to_swcr fp) i \<Longrightarrow> i \<in> {1..6} \<union> {12, 13} \<union> {17..22}"
  "bit (ieee_swcr_to_fpcr sw) i \<Longrightarrow> 47 \<le> i \<and> i \<noteq> 58 \<and> i \<noteq> 59"
  unfolding bit_fpcr_to_swcr bit_swcr_to_fpcr by auto

lemma fpcr_at:
  "bit (ieee_swcr_to_fpcr sw) 47 \<longleftrightarrow> \<not> bit sw 6" "bit (ieee_swcr_to_fpcr sw) 48 \<longleftrightarrow> bit sw 12"
  "bit (ieee_swcr_to_fpcr sw) 49 \<longleftrightarrow> \<not> bit sw (Suc 0)" "bit (ieee_swcr_to_fpcr sw) 50 \<longleftrightarrow> \<not> bit sw 2"
  "bit (ieee_swcr_to_fpcr sw) 51 \<longleftrightarrow> \<not> bit sw 3" "bit (ieee_swcr_to_fpcr sw) 60 \<longleftrightarrow> bit sw 13"
  "bit (ieee_swcr_to_fpcr sw) 61 \<longleftrightarrow> \<not> bit sw 4 \<or> bit sw 13"
  "bit (ieee_swcr_to_fpcr sw) 62 \<longleftrightarrow> \<not> bit sw 5"
  "bit (ieee_swcr_to_fpcr sw) 63 \<longleftrightarrow> (\<exists>j \<in> {17..22}. bit sw j)"
  "17 \<le> j \<Longrightarrow> j \<le> 22 \<Longrightarrow> bit (ieee_swcr_to_fpcr sw) (35 + j) \<longleftrightarrow> bit sw j"
  by (simp_all add: bit_swcr_to_fpcr)

lemma swcr_at:
  "bit (ieee_fpcr_to_swcr fp) (Suc 0) \<longleftrightarrow> \<not> bit fp 49" "bit (ieee_fpcr_to_swcr fp) 2 \<longleftrightarrow> \<not> bit fp 50"
  "bit (ieee_fpcr_to_swcr fp) 3 \<longleftrightarrow> \<not> bit fp 51" "bit (ieee_fpcr_to_swcr fp) 4 \<longleftrightarrow> \<not> bit fp 61"
  "bit (ieee_fpcr_to_swcr fp) 5 \<longleftrightarrow> \<not> bit fp 62" "bit (ieee_fpcr_to_swcr fp) 6 \<longleftrightarrow> \<not> bit fp 47"
  "bit (ieee_fpcr_to_swcr fp) 12 \<longleftrightarrow> bit fp 48" "bit (ieee_fpcr_to_swcr fp) 13 \<longleftrightarrow> bit fp 60"
  "17 \<le> j \<Longrightarrow> j \<le> 22 \<Longrightarrow> bit (ieee_fpcr_to_swcr fp) j \<longleftrightarrow> bit fp (35 + j)"
  by (simp_all add: bit_fpcr_to_swcr)

text \<open>
  The conversion of the software word to the hardware register and back keeps every bit of the
  software word, with one exception: the trap on underflow is lost when underflows are mapped to zero,
  because both settings drive the same hardware bit.
\<close>

theorem swcr_roundtrip:
  "ieee_fpcr_to_swcr (ieee_swcr_to_fpcr sw) =
    (if bit sw 13 then sw AND IEEE_SW_MASK AND NOT IEEE_TRAP_ENABLE_UNF else sw AND IEEE_SW_MASK)"
  (is "?l = ?r")
proof (rule bit_word_eqI)
  fix i assume "i < LENGTH(64)"
  then have unf: "bit (NOT IEEE_TRAP_ENABLE_UNF) i \<longleftrightarrow> i \<noteq> 4"
    by (simp only: bit_not_iff IEEE_TRAP_ENABLE_UNF_def bit_one_bit possible_bit_word) simp
  have r: "bit ?r i \<longleftrightarrow> bit sw i \<and> i \<in> {1..6} \<union> {12, 13} \<union> {17..22} \<and> (bit sw 13 \<longrightarrow> i \<noteq> 4)"
    unfolding if_distrib [of "\<lambda>w. bit w i"] bit_and_iff sw_masks unf by (cases "bit sw 13") simp_all
  consider "17 \<le> i" "i \<le> 22" | "i = 12" | "i = 13" | "i = 1" | "i = 2" | "i = 3" | "i = 4" | "i = 5" | "i = 6"
    | "i \<notin> {1..6} \<union> {12, 13} \<union> {17..22}" by force
  then have "bit ?l i \<longleftrightarrow> bit sw i \<and> i \<in> {1..6} \<union> {12, 13} \<union> {17..22} \<and> (bit sw 13 \<longrightarrow> i \<noteq> 4)"
  proof cases
    case 10
    then show ?thesis using converted_range(1) by blast
  qed (auto simp add: swcr_at fpcr_at)
  then show "bit ?l i \<longleftrightarrow> bit ?r i" by (simp only: r)
qed

text \<open>
  In the other direction, a register value is restored when its unimplemented low bits and its dynamic
  rounding mode are zero, its summary bit is set exactly when a status bit is, and it does not map
  underflows to zero with the underflow trap on.
\<close>

theorem fpcr_roundtrip:
  assumes "\<And>i. i < 47 \<or> i \<in> {58, 59} \<Longrightarrow> \<not> bit fp i"
    and "bit fp 63 \<longleftrightarrow> (\<exists>j \<in> {52..57}. bit fp j)" and "bit fp 60 \<longrightarrow> bit fp 61"
  shows "ieee_swcr_to_fpcr (ieee_fpcr_to_swcr fp) = fp"
proof (rule bit_word_eqI)
  fix i assume "i < LENGTH(64)"
  have status: "(\<exists>j \<in> {17..22}. bit (ieee_fpcr_to_swcr fp) j) \<longleftrightarrow> bit fp 63"
  proof -
    have "(\<exists>j \<in> {17..22}. bit (ieee_fpcr_to_swcr fp) j) \<longleftrightarrow> (\<exists>j \<in> {17..22}. bit fp (35 + j))"
      by (rule bex_cong) (simp_all add: swcr_at)
    also have "\<dots> \<longleftrightarrow> (\<exists>j \<in> (+) 35 ` {17..22}. bit fp j)" by blast
    also have "(+) 35 ` {17..22 :: nat} = {52..57}" by (simp add: image_add_atLeastAtMost)
    finally show ?thesis using assms(2) by simp
  qed
  consider "i < 47" | "i \<in> {58, 59}" | "52 \<le> i" "i \<le> 57" | "i = 47" | "i = 48" | "i = 49" | "i = 50" | "i = 51"
    | "i = 60" | "i = 61" | "i = 62" | "i = 63" using \<open>i < _\<close> by force
  then show "bit (ieee_swcr_to_fpcr (ieee_fpcr_to_swcr fp)) i \<longleftrightarrow> bit fp i"
  proof cases
    case 3
    then show ?thesis
      using fpcr_at(10) [of "i - 35" "ieee_fpcr_to_swcr fp"] swcr_at(9) [of "i - 35" fp] by simp
  next
    case 10
    then show ?thesis using assms(3) by (simp only: fpcr_at swcr_at) blast
  next
    case 12
    then show ?thesis by (simp only: fpcr_at status)
  qed (use assms(1) [of i] converted_range(2) [of "ieee_fpcr_to_swcr fp" i] in
      \<open>auto simp add: fpcr_at swcr_at status\<close>)
qed

end
