(* ===== verification/Nilfs.thy ===== *)
theory Nilfs
  imports Byteorder
begin

text \<open>
  The flag words of nilfs2: checkpoints and segment usages on disk (\<^verbatim>\<open>include/linux/nilfs2_ondisk.h\<close>),
  little-endian whatever the host, and their images in the ioctl interface
  (\<^verbatim>\<open>include/linux/nilfs2_api.h\<close>) in the order of the host. The header generates one setter, clearer and
  test for every flag from a macro; the macro is a definition with the bit as its argument.

  \<open>to_le32\<close>, \<open>le32_to\<close> and \<open>to_le64\<close> are the conversions of the host, \<^verbatim>\<open>__cpu_to_le32\<close> and so on.
\<close>

section \<open>Checkpoints\<close>

record nilfs_snapshot_list =
  ssl_next :: u64
  ssl_prev :: u64

record nilfs_inode =
  i_blocks :: u64
  i_size :: u64
  i_ctime :: u64
  i_mtime :: u64
  i_ctime_nsec :: u32
  i_mtime_nsec :: u32
  i_uid :: u32
  i_gid :: u32
  i_mode :: u16
  i_links_count :: u16
  i_flags :: u32
  i_bmap :: "u64 list"
  i_xattr :: u64
  i_generation :: u32
  i_pad :: u32

record nilfs_checkpoint =
  cp_flags :: u32
  cp_checkpoints_count :: u32
  cp_snapshot_list :: nilfs_snapshot_list
  cp_cno :: u64
  cp_create :: u64
  cp_nblk_inc :: u64
  cp_inodes_count :: u64
  cp_blocks_count :: u64
  cp_ifile_inode :: nilfs_inode

definition NILFS_CHECKPOINT_SNAPSHOT :: nat where "NILFS_CHECKPOINT_SNAPSHOT = 0"
definition NILFS_CHECKPOINT_INVALID :: nat where "NILFS_CHECKPOINT_INVALID = 1"
definition NILFS_CHECKPOINT_SKETCH :: nat where "NILFS_CHECKPOINT_SKETCH = 2"
definition NILFS_CHECKPOINT_MINOR :: nat where "NILFS_CHECKPOINT_MINOR = 3"

definition nilfs_checkpoint_set ::
  "(u32 \<Rightarrow> u32) \<Rightarrow> (u32 \<Rightarrow> u32) \<Rightarrow> nat \<Rightarrow> nilfs_checkpoint \<Rightarrow> nilfs_checkpoint" where
  "nilfs_checkpoint_set to_le32 le32_to fl cp =
     cp\<lparr>cp_flags := to_le32 (le32_to (cp_flags cp) OR push_bit fl 1)\<rparr>"

definition nilfs_checkpoint_clear ::
  "(u32 \<Rightarrow> u32) \<Rightarrow> (u32 \<Rightarrow> u32) \<Rightarrow> nat \<Rightarrow> nilfs_checkpoint \<Rightarrow> nilfs_checkpoint" where
  "nilfs_checkpoint_clear to_le32 le32_to fl cp =
     cp\<lparr>cp_flags := to_le32 (le32_to (cp_flags cp) AND NOT (push_bit fl 1))\<rparr>"

definition nilfs_checkpoint_test :: "(u32 \<Rightarrow> u32) \<Rightarrow> nat \<Rightarrow> nilfs_checkpoint \<Rightarrow> bool" where
  "nilfs_checkpoint_test le32_to fl cp \<longleftrightarrow> le32_to (cp_flags cp) AND push_bit fl 1 \<noteq> 0"

section \<open>Segment usage\<close>

record nilfs_segment_usage =
  su_lastmod :: u64
  su_nblocks :: u32
  su_flags :: u32

definition NILFS_SEGMENT_USAGE_ACTIVE :: nat where "NILFS_SEGMENT_USAGE_ACTIVE = 0"
definition NILFS_SEGMENT_USAGE_DIRTY :: nat where "NILFS_SEGMENT_USAGE_DIRTY = 1"
definition NILFS_SEGMENT_USAGE_ERROR :: nat where "NILFS_SEGMENT_USAGE_ERROR = 2"

definition nilfs_segment_usage_set ::
  "(u32 \<Rightarrow> u32) \<Rightarrow> (u32 \<Rightarrow> u32) \<Rightarrow> nat \<Rightarrow> nilfs_segment_usage \<Rightarrow> nilfs_segment_usage" where
  "nilfs_segment_usage_set to_le32 le32_to fl su =
     su\<lparr>su_flags := to_le32 (le32_to (su_flags su) OR push_bit fl 1)\<rparr>"

definition nilfs_segment_usage_clear ::
  "(u32 \<Rightarrow> u32) \<Rightarrow> (u32 \<Rightarrow> u32) \<Rightarrow> nat \<Rightarrow> nilfs_segment_usage \<Rightarrow> nilfs_segment_usage" where
  "nilfs_segment_usage_clear to_le32 le32_to fl su =
     su\<lparr>su_flags := to_le32 (le32_to (su_flags su) AND NOT (push_bit fl 1))\<rparr>"

definition nilfs_segment_usage_test :: "(u32 \<Rightarrow> u32) \<Rightarrow> nat \<Rightarrow> nilfs_segment_usage \<Rightarrow> bool" where
  "nilfs_segment_usage_test le32_to fl su \<longleftrightarrow> le32_to (su_flags su) AND push_bit fl 1 \<noteq> 0"

definition nilfs_segment_usage_set_clean ::
  "(u32 \<Rightarrow> u32) \<Rightarrow> (u64 \<Rightarrow> u64) \<Rightarrow> nilfs_segment_usage \<Rightarrow> nilfs_segment_usage" where
  "nilfs_segment_usage_set_clean to_le32 to_le64 su =
     su\<lparr>su_lastmod := to_le64 0, su_nblocks := to_le32 0, su_flags := to_le32 0\<rparr>"

definition nilfs_segment_usage_clean :: "(u32 \<Rightarrow> u32) \<Rightarrow> nilfs_segment_usage \<Rightarrow> bool" where
  "nilfs_segment_usage_clean le32_to su \<longleftrightarrow> le32_to (su_flags su) = 0"

section \<open>The ioctl images\<close>

definition NILFS_CPINFO_SNAPSHOT :: nat where "NILFS_CPINFO_SNAPSHOT = 0"
definition NILFS_CPINFO_INVALID :: nat where "NILFS_CPINFO_INVALID = 1"
definition NILFS_CPINFO_MINOR :: nat where "NILFS_CPINFO_MINOR = 3"

record nilfs_cpinfo =
  ci_flags :: u32
  ci_pad :: u32
  ci_cno :: u64
  ci_create :: u64
  ci_nblk_inc :: u64
  ci_inodes_count :: u64
  ci_blocks_count :: u64
  ci_next :: u64

definition nilfs_cpinfo_test :: "nat \<Rightarrow> nilfs_cpinfo \<Rightarrow> bool" where
  "nilfs_cpinfo_test fl cpinfo \<longleftrightarrow> ci_flags cpinfo AND push_bit fl 1 \<noteq> 0"

definition NILFS_SUINFO_ACTIVE :: nat where "NILFS_SUINFO_ACTIVE = 0"
definition NILFS_SUINFO_DIRTY :: nat where "NILFS_SUINFO_DIRTY = 1"
definition NILFS_SUINFO_ERROR :: nat where "NILFS_SUINFO_ERROR = 2"

record nilfs_suinfo =
  sui_lastmod :: u64
  sui_nblocks :: u32
  sui_flags :: u32

text \<open>An \<^verbatim>\<open>int\<close> that is not normalised to 0 or 1.\<close>

definition nilfs_suinfo_test :: "nat \<Rightarrow> nilfs_suinfo \<Rightarrow> c_int" where
  "nilfs_suinfo_test fl si = sui_flags si AND push_bit fl 1"

definition nilfs_suinfo_clean :: "nilfs_suinfo \<Rightarrow> bool" where
  "nilfs_suinfo_clean si \<longleftrightarrow> sui_flags si = 0"

definition NILFS_SUINFO_UPDATE_LASTMOD :: nat where "NILFS_SUINFO_UPDATE_LASTMOD = 0"
definition NILFS_SUINFO_UPDATE_NBLOCKS :: nat where "NILFS_SUINFO_UPDATE_NBLOCKS = 1"
definition NILFS_SUINFO_UPDATE_FLAGS :: nat where "NILFS_SUINFO_UPDATE_FLAGS = 2"

record nilfs_suinfo_update =
  sup_segnum :: u64
  sup_flags :: u32
  sup_reserved :: u32
  sup_sui :: nilfs_suinfo

definition nilfs_suinfo_update_set :: "nat \<Rightarrow> nilfs_suinfo_update \<Rightarrow> nilfs_suinfo_update" where
  "nilfs_suinfo_update_set fl upd = upd\<lparr>sup_flags := sup_flags upd OR push_bit fl 1\<rparr>"

definition nilfs_suinfo_update_clear :: "nat \<Rightarrow> nilfs_suinfo_update \<Rightarrow> nilfs_suinfo_update" where
  "nilfs_suinfo_update_clear fl upd = upd\<lparr>sup_flags := sup_flags upd AND NOT (push_bit fl 1)\<rparr>"

definition nilfs_suinfo_update_test :: "nat \<Rightarrow> nilfs_suinfo_update \<Rightarrow> bool" where
  "nilfs_suinfo_update_test fl upd \<longleftrightarrow> sup_flags upd AND push_bit fl 1 \<noteq> 0"

section \<open>Sets of flags\<close>

text \<open>
  The abstract view of a flag word is a set of flags. A family of setters, clearers and tests
  implements it when the tests after an operation are those of the set with the flag inserted or removed.
\<close>

locale flag_set =
  fixes test :: "nat \<Rightarrow> 's \<Rightarrow> bool"
    and set_flag clear_flag :: "nat \<Rightarrow> 's \<Rightarrow> 's"
    and width :: nat
  assumes test_set: "f < width \<Longrightarrow> test g (set_flag f s) \<longleftrightarrow> g = f \<or> test g s"
    and test_clear: "f < width \<Longrightarrow> test g (clear_flag f s) \<longleftrightarrow> g \<noteq> f \<and> test g s"
begin

lemma flags_set: "f < width \<Longrightarrow> {g. test g (set_flag f s)} = insert f {g. test g s}"
  by (auto simp add: test_set)

lemma flags_clear: "f < width \<Longrightarrow> {g. test g (clear_flag f s)} = {g. test g s} - {f}"
  by (auto simp add: test_clear)

lemma flags_fold:
  "\<forall>f \<in> set fs. f < width \<Longrightarrow> {g. test g (fold set_flag fs s)} = set fs \<union> {g. test g s}"
  by (induction fs arbitrary: s) (auto simp add: test_set)

end

text \<open>The simplifier writes \<^verbatim>\<open>1 << f\<close> as a power.\<close>

lemma and_flag: "x AND 2 ^ fl \<noteq> 0 \<longleftrightarrow> bit (x :: u32) fl"
proof -
  have "x AND 2 ^ fl \<noteq> 0 \<longleftrightarrow> (\<exists>i. bit (x AND 2 ^ fl) i)"
    by (metis bit_0_eq bit_word_eqI bot_apply bot_bool_def)
  also have "\<dots> \<longleftrightarrow> bit x fl"
    by (auto simp add: bit_and_iff bit_exp_iff dest: bit_imp_le_length)
  finally show ?thesis .
qed

lemma bit_flag:
  "fl < 32 \<Longrightarrow> bit (x OR 2 ^ fl :: u32) g \<longleftrightarrow> g = fl \<or> bit x g"
  "fl < 32 \<Longrightarrow> bit (x AND NOT (2 ^ fl) :: u32) g \<longleftrightarrow> g \<noteq> fl \<and> bit x g"
  by (auto simp add: bit_and_iff bit_or_iff bit_not_iff bit_exp_iff dest: bit_imp_le_length)

text \<open>The on-disk words, on a host whose conversion back undoes the conversion.\<close>

lemma checkpoint_flag_set:
  assumes "\<And>x. le32_to (to_le32 x) = x"
  shows "flag_set (nilfs_checkpoint_test le32_to) (nilfs_checkpoint_set to_le32 le32_to)
    (nilfs_checkpoint_clear to_le32 le32_to) 32"
  by unfold_locales (simp_all add: nilfs_checkpoint_test_def nilfs_checkpoint_set_def
      nilfs_checkpoint_clear_def and_flag bit_flag assms)

lemma segment_usage_flag_set:
  assumes "\<And>x. le32_to (to_le32 x) = x"
  shows "flag_set (nilfs_segment_usage_test le32_to) (nilfs_segment_usage_set to_le32 le32_to)
    (nilfs_segment_usage_clear to_le32 le32_to) 32"
  by unfold_locales (simp_all add: nilfs_segment_usage_test_def nilfs_segment_usage_set_def
      nilfs_segment_usage_clear_def and_flag bit_flag assms)

interpretation update: flag_set nilfs_suinfo_update_test nilfs_suinfo_update_set
  nilfs_suinfo_update_clear 32
  by unfold_locales (simp_all add: nilfs_suinfo_update_test_def nilfs_suinfo_update_set_def
      nilfs_suinfo_update_clear_def and_flag bit_flag)

interpretation checkpoint_el: flag_set "nilfs_checkpoint_test (le32_to_cpu_el (generic_config Little n t) k)"
  "nilfs_checkpoint_set (cpu_to_le32_el (generic_config Little n t) k) (le32_to_cpu_el (generic_config Little n t) k)"
  "nilfs_checkpoint_clear (cpu_to_le32_el (generic_config Little n t) k) (le32_to_cpu_el (generic_config Little n t) k)"
  32 for n t k
  by (intro checkpoint_flag_set host_el.inverses(3)) (rule generic_el.host_el_axioms)

interpretation usage_eb: flag_set "nilfs_segment_usage_test (le32_to_cpu_eb (generic_config Big n t) k)"
  "nilfs_segment_usage_set (cpu_to_le32_eb (generic_config Big n t) k) (le32_to_cpu_eb (generic_config Big n t) k)"
  "nilfs_segment_usage_clear (cpu_to_le32_eb (generic_config Big n t) k) (le32_to_cpu_eb (generic_config Big n t) k)"
  32 for n t k
  by (intro segment_usage_flag_set host_eb.inverses(3)) (rule generic_eb.host_eb_axioms)

lemma disk_flags:
  assumes "host_el c" "host_eb c'" "store Little mem p (cpu_to_le32_el c k x) = Some mem'"
  shows "map_option (le32_to_cpu_eb c' k') (load Big mem' p) = Some x"
  using assms(3) load_store [of Little mem p x mem']
  by (simp add: host_el.stores [OF assms(1)] host_eb.loads [OF assms(2)])

text \<open>
  Flags travel between hosts on disk: when a little-endian host sets and clears flags of a
  checkpoint or a segment and writes the flag word, a big-endian host that reads the word finds
  exactly the flags the set and clear operations of the abstract set leave.
\<close>

theorem nilfs_flags_on_disk:
  assumes "host_el c" "host_eb c'" "f < 32" "h < 32"
    and cp: "cp' = nilfs_checkpoint_clear (cpu_to_le32_el c k) (le32_to_cpu_el c k) h
        (nilfs_checkpoint_set (cpu_to_le32_el c k) (le32_to_cpu_el c k) f cp)"
    and "store Little mem p (cp_flags cp') = Some mem'"
  shows "\<exists>w. load Big mem' p = Some w \<and>
    {g. nilfs_checkpoint_test (le32_to_cpu_eb c' k') g (cp\<lparr>cp_flags := w\<rparr>)} =
    insert f {g. nilfs_checkpoint_test (le32_to_cpu_el c k) g cp} - {h} \<and>
    cp' = cp\<lparr>cp_flags := cp_flags cp'\<rparr>"
proof -
  note fs = checkpoint_flag_set [of "le32_to_cpu_el c k" "cpu_to_le32_el c k",
      OF host_el.inverses(3) [OF assms(1)]]
  define x where "x = le32_to_cpu_el c k (cp_flags cp')"
  have x: "cp_flags cp' = cpu_to_le32_el c k x"
    by (simp add: x_def cp nilfs_checkpoint_clear_def host_el.inverses [OF assms(1)])
  obtain w where w: "load Big mem' p = Some w" "le32_to_cpu_eb c' k' w = x"
    using disk_flags [OF assms(1,2) assms(6) [unfolded x], of k'] by auto
  have "{g. nilfs_checkpoint_test (le32_to_cpu_eb c' k') g (cp\<lparr>cp_flags := w\<rparr>)} =
      {g. nilfs_checkpoint_test (le32_to_cpu_el c k) g cp'}"
    by (simp add: nilfs_checkpoint_test_def w x_def)
  also have "\<dots> = insert f {g. nilfs_checkpoint_test (le32_to_cpu_el c k) g cp} - {h}"
    unfolding cp using assms(3,4)
    by (simp only: flag_set.flags_clear [OF fs] flag_set.flags_set [OF fs])
  finally show ?thesis
    using w(1) by (simp add: cp nilfs_checkpoint_clear_def nilfs_checkpoint_set_def)
qed

definition zero_checkpoint :: nilfs_checkpoint where
  "zero_checkpoint = \<lparr>cp_flags = 0, cp_checkpoints_count = 0,
     cp_snapshot_list = \<lparr>ssl_next = 0, ssl_prev = 0\<rparr>, cp_cno = 0, cp_create = 0, cp_nblk_inc = 0,
     cp_inodes_count = 0, cp_blocks_count = 0,
     cp_ifile_inode = \<lparr>i_blocks = 0, i_size = 0, i_ctime = 0, i_mtime = 0, i_ctime_nsec = 0,
       i_mtime_nsec = 0, i_uid = 0, i_gid = 0, i_mode = 0, i_links_count = 0, i_flags = 0,
       i_bmap = replicate 7 0, i_xattr = 0, i_generation = 0, i_pad = 0\<rparr>\<rparr>"

theorem nilfs_flags_on_disk_witness:
  "\<exists>w. load Big (bytes_of Little (2 :: u32)) 0 = Some w \<and>
    {g. nilfs_checkpoint_test (le32_to_cpu_eb (generic_config Big 64 False) False) g
      (zero_checkpoint\<lparr>cp_flags := w\<rparr>)} = insert 1 {g. nilfs_checkpoint_test
      (le32_to_cpu_el (generic_config Little 64 False) False) g (zero_checkpoint\<lparr>cp_flags := 1\<rparr>)} - {0}"
proof -
  have "store Little [0, 0, 0, 0] 0 (cp_flags (nilfs_checkpoint_clear
      (cpu_to_le32_el (generic_config Little 64 False) False)
      (le32_to_cpu_el (generic_config Little 64 False) False) 0 (nilfs_checkpoint_set
      (cpu_to_le32_el (generic_config Little 64 False) False)
      (le32_to_cpu_el (generic_config Little 64 False) False) 1 (zero_checkpoint\<lparr>cp_flags := 1\<rparr>)))) =
      Some (bytes_of Little (2 :: u32))"
    by (simp add: nilfs_checkpoint_clear_def nilfs_checkpoint_set_def cpu_to_le32_el_def
        le32_to_cpu_el_def store_def wrn_def)
  from nilfs_flags_on_disk [OF generic_el.host_el_axioms generic_eb.host_eb_axioms [of 64 False]
      _ _ refl this, of False]
  show ?thesis by simp blast
qed

text \<open>
  A segment that was made clean tests as clean on a host of either byte order, and every flag that is
  set on it makes it dirty again.
\<close>

theorem nilfs_segment_clean:
  assumes "host_eb c" "f < 32"
  shows "nilfs_segment_usage_clean (le32_to_cpu_eb c k)
      (nilfs_segment_usage_set_clean (cpu_to_le32_eb c k) (cpu_to_le64_eb c k) su) \<and>
    \<not> nilfs_segment_usage_clean (le32_to_cpu_eb c k)
      (nilfs_segment_usage_set (cpu_to_le32_eb c k) (le32_to_cpu_eb c k) f su)"
proof -
  have "x OR 2 ^ f \<noteq> 0" for x :: u32
    using bit_flag(1) [OF assms(2), of x f] by (metis bit_0_eq bot_apply bot_bool_def)
  then show ?thesis
    by (simp add: nilfs_segment_usage_clean_def nilfs_segment_usage_set_clean_def
        nilfs_segment_usage_set_def host_eb.inverses [OF assms(1)])
qed

end
