(* ===== verification/Fanotify.thy ===== *)
theory Fanotify
  imports Tlv_Chain
begin

text \<open>
  The event buffers of fanotify, \<^verbatim>\<open>include/linux/fanotify.h\<close>: \<^verbatim>\<open>read\<close> fills a buffer with events, each a
  \<^verbatim>\<open>struct fanotify_event_metadata\<close> with its total length and information records behind it, and programs step
  through them with \<^verbatim>\<open>FAN_EVENT_OK\<close> and \<^verbatim>\<open>FAN_EVENT_NEXT\<close>. There is no padding between events. The
  remaining length has the width of \<^verbatim>\<open>long\<close>, the type that \<^verbatim>\<open>read\<close> returns, 32 or 64 bits.
\<close>

section \<open>Events\<close>

record fanotify_event_metadata =
  event_len :: u32
  vers :: u8
  reserved :: u8
  metadata_len :: u16
  fan_mask :: u64
  fan_fd :: u32
  fan_pid :: u32

definition struct_fanotify_event_metadata :: ctype where
  "struct_fanotify_event_metadata = c_struct
    [(''event_len'', u32_t), (''vers'', u8_t), (''reserved'', u8_t), (''metadata_len'', u16_t),
     (''mask'', aligned_u64_t), (''fd'', u32_t), (''pid'', u32_t)]"

definition FANOTIFY_METADATA_VERSION :: u8 where "FANOTIFY_METADATA_VERSION = 3"

definition metadata_bytes :: "endian \<Rightarrow> fanotify_event_metadata \<Rightarrow> u8 list" where
  "metadata_bytes e h = bytes_of e (event_len h) @ [vers h] @ [reserved h] @
     bytes_of e (metadata_len h) @ bytes_of e (fan_mask h) @ bytes_of e (fan_fd h) @ bytes_of e (fan_pid h)"

definition get_metadata :: "endian \<Rightarrow> u8 list \<Rightarrow> nat \<Rightarrow> fanotify_event_metadata option" where
  "get_metadata e mem p = do {
     l \<leftarrow> load e mem p;
     v \<leftarrow> rd mem (p + 4);
     r \<leftarrow> rd mem (p + 5);
     ml \<leftarrow> load e mem (p + 6);
     m \<leftarrow> load e mem (p + 8);
     fd \<leftarrow> load e mem (p + 16);
     pid \<leftarrow> load e mem (p + 20);
     Some \<lparr>event_len = l, vers = v, reserved = r, metadata_len = ml, fan_mask = m, fan_fd = fd, fan_pid = pid\<rparr>
   }"

section \<open>Macros\<close>

definition FAN_EVENT_METADATA_LEN :: nat where
  "FAN_EVENT_METADATA_LEN = sizeof 8 struct_fanotify_event_metadata"

definition FAN_EVENT_NEXT :: "endian \<Rightarrow> u8 list \<Rightarrow> nat \<Rightarrow> 'l::len word \<Rightarrow> (nat \<times> 'l word) option" where
  "FAN_EVENT_NEXT e mem meta len = do {
     l \<leftarrow> load e mem meta :: u32 option;
     Some (meta + unat l, len - ucast l)
   }"

definition FAN_EVENT_OK :: "endian \<Rightarrow> u8 list \<Rightarrow> nat \<Rightarrow> 'l::len word \<Rightarrow> bool option" where
  "FAN_EVENT_OK e mem meta len =
     (if sint len \<ge> sint (word_of_nat FAN_EVENT_METADATA_LEN :: 'l word) then do {
        l \<leftarrow> load e mem meta :: u32 option;
        Some (sint (ucast l :: 'l word) \<ge> sint (word_of_nat FAN_EVENT_METADATA_LEN :: 'l word) \<and>
          sint (ucast l :: 'l word) \<le> sint len)
      } else Some False)"

section \<open>The chain of events\<close>

lemma metadata_len_24: "FAN_EVENT_METADATA_LEN = 24"
  by (simp add: FAN_EVENT_METADATA_LEN_def struct_fanotify_event_metadata_def c_struct_def align_up_def)

definition fan_rlen :: "endian \<Rightarrow> u8 list \<Rightarrow> nat \<Rightarrow> nat option" where
  "fan_rlen e mem p = map_option unat (load e mem p :: u32 option)"

text \<open>
  The conversion of the length field to \<^verbatim>\<open>long\<close> loses nothing on a 64-bit host; on a 32-bit host a length of
  \<open>2\<^sup>3\<^sup>1\<close> or more becomes negative and is refused, and as no buffer is that long the test is the same.
\<close>

lemma event_len_tests:
  fixes l :: u32 and len :: "'l::len word"
  assumes "LENGTH('l) = 32 \<or> LENGTH('l) = 64" "0 \<le> sint len"
  shows "sint (ucast l :: 'l word) \<ge> 24 \<and> sint (ucast l :: 'l word) \<le> sint len \<longleftrightarrow>
    24 \<le> unat l \<and> int (unat l) \<le> sint len"
proof -
  define n where "n = int (unat l)"
  have n: "0 \<le> n" "n < 2 ^ 32" 
    unfolding n_def using unsigned_less [of l, where ?'a = int] by simp_all
  have u: "(ucast l :: 'l word) = word_of_int n"
    by (simp add: n_def flip: uint_nat)
  show ?thesis
  proof (cases "n < 2 ^ (LENGTH('l) - 1)")
    case True
    have "sint (ucast l :: 'l word) = n"
      unfolding u using True n by (simp only: signed_of_int) (simp add: signed_take_bit_int_eq_self)
    moreover have "24 \<le> n \<longleftrightarrow> 24 \<le> unat l" unfolding n_def by linarith
    ultimately show ?thesis unfolding n_def by simp
  next
    case False
    with n assms(1) have w: "LENGTH('l) = 32" "2147483648 \<le> n" by auto
    have "signed_take_bit 31 n = n - 2 ^ 32"
    proof -
      have "signed_take_bit 31 n = signed_take_bit 31 (n - 2 ^ 32)"
        using mod_add_self2 [of "n - 2147483648" 4294967296]
        by (subst (1 2) signed_take_bit_eq_take_bit_shift) (simp add: take_bit_eq_mod add.commute)
      also have "\<dots> = n - 2 ^ 32" using w n by (intro signed_take_bit_int_eq_self) simp_all
      finally show ?thesis .
    qed
    then have "sint (ucast l :: 'l word) < 0"
      unfolding u using w n by (simp only: signed_of_int) simp
    moreover have "sint len < 2 ^ 31" using sint_less [of len] w by simp
    ultimately show ?thesis using w by (simp add: n_def)
  qed
qed

lemma fan_chain:
  assumes "LENGTH('l) = 32 \<or> LENGTH('l::len) = 64"
  shows "tlv_chain 1 24 (fan_rlen e) (FAN_EVENT_OK e)
    (FAN_EVENT_NEXT e :: u8 list \<Rightarrow> nat \<Rightarrow> 'l word \<Rightarrow> (nat \<times> 'l word) option)"
proof
  show "3 \<le> LENGTH('l)" using assms by auto
  have m: "sint (word_of_nat FAN_EVENT_METADATA_LEN :: 'l word) = 24"
    using assms by (auto simp add: metadata_len_24 signed_of_nat signed_take_bit_int_eq_self)
  show "FAN_EVENT_OK e mem p len = (if sint len < int 24 then Some False
      else map_option (\<lambda>n. 24 \<le> n \<and> int n \<le> sint len) (fan_rlen e mem p))" for mem p and len :: "'l word"
  proof (cases "sint len < 24")
    case False
    then show ?thesis using event_len_tests [OF assms, of len]
      by (cases "load e mem p :: u32 option") (simp_all add: FAN_EVENT_OK_def fan_rlen_def m)
  qed (simp add: FAN_EVENT_OK_def m)
  show "FAN_EVENT_NEXT e mem p len = Some (p + align_up 1 n, len - word_of_nat (align_up 1 n))"
    if "fan_rlen e mem p = Some n" for mem p n and len :: "'l word"
    using that by (auto simp add: FAN_EVENT_NEXT_def fan_rlen_def align_up_def)
qed (auto simp add: fan_rlen_def load_def rdn_def)

interpretation fan32: tlv_chain 1 24 "fan_rlen e" "FAN_EVENT_OK e"
  "FAN_EVENT_NEXT e :: u8 list \<Rightarrow> nat \<Rightarrow> 32 word \<Rightarrow> (nat \<times> 32 word) option" for e
  by (rule fan_chain) simp

interpretation fan64: tlv_chain 1 24 "fan_rlen e" "FAN_EVENT_OK e"
  "FAN_EVENT_NEXT e :: u8 list \<Rightarrow> nat \<Rightarrow> 64 word \<Rightarrow> (nat \<times> 64 word) option" for e
  by (rule fan_chain) simp

text \<open>An event as the buffer has it: the metadata, whose length field counts the information records, and these.\<close>

definition fan_event_bytes :: "endian \<Rightarrow> fanotify_event_metadata \<times> u8 list \<Rightarrow> u8 list" where
  "fan_event_bytes e ev = metadata_bytes e (fst ev) @ snd ev"

definition event_wf :: "fanotify_event_metadata \<times> u8 list \<Rightarrow> bool" where
  "event_wf ev \<longleftrightarrow> unat (event_len (fst ev)) = FAN_EVENT_METADATA_LEN + length (snd ev)"

definition event_read :: "endian \<Rightarrow> u8 list \<Rightarrow> nat \<Rightarrow> (fanotify_event_metadata \<times> u8 list) option" where
  "event_read e mem p = do {
     h \<leftarrow> get_metadata e mem p;
     d \<leftarrow> rdn mem (p + FAN_EVENT_METADATA_LEN) (unat (event_len h) - FAN_EVENT_METADATA_LEN);
     Some (h, d)
   }"

lemma length_metadata_bytes [simp]: "length (metadata_bytes e h) = 24"
  by (simp add: metadata_bytes_def)

lemma get_metadata_bytes: "get_metadata e (pre @ metadata_bytes e h @ post) (length pre) = Some h"
proof -
  let ?l = "bytes_of e (event_len h)" and ?ml = "bytes_of e (metadata_len h)"
  let ?m = "bytes_of e (fan_mask h)" and ?fd = "bytes_of e (fan_fd h)" and ?pid = "bytes_of e (fan_pid h)"
  let ?mem = "pre @ ?l @ [vers h] @ [reserved h] @ ?ml @ ?m @ ?fd @ ?pid @ post"
  have mem: "pre @ metadata_bytes e h @ post = ?mem" by (simp add: metadata_bytes_def)
  have "load e ?mem (length pre) = Some (event_len h)" by (simp add: load_append)
  moreover have "rd ?mem (length pre + 4) = Some (vers h)" "rd ?mem (length pre + 5) = Some (reserved h)"
    by (simp_all add: rd_def nth_append)
  moreover have "load e ?mem (length pre + 6) = Some (metadata_len h)"
    using load_append_at [where pre = "pre @ ?l @ [vers h] @ [reserved h]" and w = "metadata_len h" and e = e] by simp
  moreover have "load e ?mem (length pre + 8) = Some (fan_mask h)"
    using load_append_at [where pre = "pre @ ?l @ [vers h] @ [reserved h] @ ?ml" and w = "fan_mask h" and e = e] by simp
  moreover have "load e ?mem (length pre + 16) = Some (fan_fd h)"
    using load_append_at [where pre = "pre @ ?l @ [vers h] @ [reserved h] @ ?ml @ ?m" and w = "fan_fd h" and e = e] by simp
  moreover have "load e ?mem (length pre + 20) = Some (fan_pid h)"
    using load_append_at [where pre = "pre @ ?l @ [vers h] @ [reserved h] @ ?ml @ ?m @ ?fd" and w = "fan_pid h" and e = e]
    by simp
  ultimately show ?thesis unfolding mem get_metadata_def by simp
qed

lemma event_item:
  assumes "event_wf ev"
  shows "\<exists>n. fan_rlen e (pre @ fan_event_bytes e ev @ post) (length pre) = Some n \<and> 24 \<le> n \<and>
    length (fan_event_bytes e ev) = align_up 1 n \<and>
    event_read e (pre @ fan_event_bytes e ev @ post) (length pre) = Some ev"
proof -
  obtain h d where ev: "ev = (h, d)" by (cases ev)
  have len: "unat (event_len h) = 24 + length d" using assms by (simp add: ev event_wf_def metadata_len_24)
  have g: "get_metadata e (pre @ fan_event_bytes e ev @ post) (length pre) = Some h"
    using get_metadata_bytes [of e pre h "d @ post"] by (simp add: ev fan_event_bytes_def)
  then have "fan_rlen e (pre @ fan_event_bytes e ev @ post) (length pre) = Some (24 + length d)"
    by (auto simp add: fan_rlen_def get_metadata_def len [symmetric] split: bind_splits)
  moreover have "event_read e (pre @ fan_event_bytes e ev @ post) (length pre) = Some ev"
    using g by (simp add: event_read_def len metadata_len_24 rdn_def) (simp add: ev fan_event_bytes_def)
  ultimately show ?thesis by (simp add: align_up_def ev fan_event_bytes_def)
qed

section \<open>Properties\<close>

lemma event_read_inside:
  assumes "fan_rlen e mem q = Some n" "24 \<le> n" "q + n \<le> length mem"
  shows "event_read e mem q \<noteq> None"
proof -
  obtain h where "get_metadata e mem q = Some h" "unat (event_len h) = n"
    using assms by (auto simp add: fan_rlen_def get_metadata_def load_def rdn_def rd_def)
  then show ?thesis using assms by (simp add: event_read_def metadata_len_24 rdn_def)
qed

text \<open>
  On hosts of either width, the loop over \<^verbatim>\<open>FAN_EVENT_OK\<close> and \<^verbatim>\<open>FAN_EVENT_NEXT\<close> ends and stays inside the
  buffer that \<^verbatim>\<open>read\<close> filled, whatever the length fields say.
\<close>

theorem fan_event_walk_total:
  fixes len32 :: "32 word" and len64 :: "64 word"
  assumes "int p + sint len32 \<le> int (length mem)" "nat (sint len32) div 4 < fuel"
    "int p + sint len64 \<le> int (length mem)" "nat (sint len64) div 4 < fuel"
  shows "tlv_walk (FAN_EVENT_OK e) (FAN_EVENT_NEXT e) (event_read e) fuel mem p len32 \<noteq> None \<and>
    tlv_walk (FAN_EVENT_OK e) (FAN_EVENT_NEXT e) (event_read e) fuel mem p len64 \<noteq> None"
  using fan32.walk_total [OF assms(1,2), where e = e and visit = "event_read e"]
    fan64.walk_total [OF assms(3,4), where e = e and visit = "event_read e"] event_read_inside
  by blast

theorem fan_event_walk_total_witness:
  "tlv_walk (FAN_EVENT_OK Little) (FAN_EVENT_NEXT Little) (event_read Little) 8 (replicate 30 255) 0 (30 :: 32 word) \<noteq> None \<and>
   tlv_walk (FAN_EVENT_OK Little) (FAN_EVENT_NEXT Little) (event_read Little) 8 (replicate 30 255) 0 (30 :: 64 word) \<noteq> None"
  by (rule fan_event_walk_total) simp_all

text \<open>
  C21: A buffer of events is read back event by event, with the information records of each, on hosts of either
  width.
\<close>

theorem fan_event_roundtrip:
  assumes "list_all event_wf evs" "length (concat (map (fan_event_bytes e) evs)) < 2 ^ 31" "length evs < fuel"
  shows "tlv_walk (FAN_EVENT_OK e) (FAN_EVENT_NEXT e) (event_read e) fuel
      (pre @ concat (map (fan_event_bytes e) evs) @ post) (length pre)
      (word_of_nat (length (concat (map (fan_event_bytes e) evs))) :: 32 word) = Some evs \<and>
    tlv_walk (FAN_EVENT_OK e) (FAN_EVENT_NEXT e) (event_read e) fuel
      (pre @ concat (map (fan_event_bytes e) evs) @ post) (length pre)
      (word_of_nat (length (concat (map (fan_event_bytes e) evs))) :: 64 word) = Some evs"
proof -
  let ?n = "length (concat (map (fan_event_bytes e) evs))"
  have "sint (word_of_nat ?n :: 32 word) = int ?n" "sint (word_of_nat ?n :: 64 word) = int ?n"
    using assms(2) by (simp_all add: signed_of_nat signed_take_bit_int_eq_self)
  then show ?thesis
    using fan32.walk_items [where items = evs and enc = "fan_event_bytes e" and e = e and val = "\<lambda>m. m"
        and visit = "event_read e" and len = "word_of_nat ?n" and fuel = fuel and pre = pre and post = post]
      fan64.walk_items [where items = evs and enc = "fan_event_bytes e" and e = e and val = "\<lambda>m. m"
        and visit = "event_read e" and len = "word_of_nat ?n" and fuel = fuel and pre = pre and post = post]
      event_item assms(1,3)
    by (simp add: list_all_iff)
qed

theorem fan_event_roundtrip_witness:
  "let ev = (\<lparr>event_len = 26, vers = 3, reserved = 0, metadata_len = 24, fan_mask = 0x20, fan_fd = 5, fan_pid = 99\<rparr>, [1, 2]) in
   tlv_walk (FAN_EVENT_OK Big) (FAN_EVENT_NEXT Big) (event_read Big) 3
     ([7] @ concat (map (fan_event_bytes Big) [ev, ev]) @ []) (length [7 :: u8])
     (word_of_nat (length (concat (map (fan_event_bytes Big) [ev, ev]))) :: 64 word) = Some [ev, ev]"
  unfolding Let_def
  using fan_event_roundtrip [of "[(\<lparr>event_len = 26, vers = 3, reserved = 0, metadata_len = 24, fan_mask = 0x20, fan_fd = 5,
      fan_pid = 99\<rparr>, [1, 2]), (\<lparr>event_len = 26, vers = 3, reserved = 0, metadata_len = 24, fan_mask = 0x20, fan_fd = 5,
      fan_pid = 99\<rparr>, [1, 2])]" Big 3 "[7]" "[]"]
  by (simp add: event_wf_def metadata_len_24 fan_event_bytes_def)

end
