(* ===== verification/Atags.thy ===== *)
theory Atags
  imports C_Object
begin

text \<open>
  The tagged list that an ARM boot loader hands to the kernel, \<^verbatim>\<open>arch/arm/asm/setup.h\<close>: tags with a size in words
  and a type, each followed by the structure of its type, up to a tag of size 0. The list is walked with
  \<^verbatim>\<open>for_each_tag\<close> and \<^verbatim>\<open>tag_next\<close>; \<^verbatim>\<open>tag_size\<close> gives the size of a tag from its type. A pointer is an offset
  into the memory that holds the list.
\<close>

section \<open>Tags\<close>

definition ATAG_NONE :: u32 where "ATAG_NONE = 0"
definition ATAG_CORE :: u32 where "ATAG_CORE = 0x54410001"
definition ATAG_MEM :: u32 where "ATAG_MEM = 0x54410002"
definition ATAG_VIDEOTEXT :: u32 where "ATAG_VIDEOTEXT = 0x54410003"
definition ATAG_RAMDISK :: u32 where "ATAG_RAMDISK = 0x54410004"
definition ATAG_INITRD :: u32 where "ATAG_INITRD = 0x54410005"
definition ATAG_INITRD2 :: u32 where "ATAG_INITRD2 = 0x54420005"
definition ATAG_SERIAL :: u32 where "ATAG_SERIAL = 0x54410006"
definition ATAG_REVISION :: u32 where "ATAG_REVISION = 0x54410007"
definition ATAG_VIDEOLFB :: u32 where "ATAG_VIDEOLFB = 0x54410008"
definition ATAG_CMDLINE :: u32 where "ATAG_CMDLINE = 0x54410009"
definition ATAG_ACORN :: u32 where "ATAG_ACORN = 0x41000101"
definition ATAG_MEMCLK :: u32 where "ATAG_MEMCLK = 0x41000402"

lemmas atag_ids = ATAG_NONE_def ATAG_CORE_def ATAG_MEM_def ATAG_VIDEOTEXT_def ATAG_RAMDISK_def
  ATAG_INITRD_def ATAG_INITRD2_def ATAG_SERIAL_def ATAG_REVISION_def ATAG_VIDEOLFB_def
  ATAG_CMDLINE_def ATAG_ACORN_def ATAG_MEMCLK_def

type_synonym c_members = "(string \<times> ctype) list"

definition tag_header :: c_members where
  "tag_header = [(''size'', u32_t), (''tag'', u32_t)]"

definition tag_core :: c_members where
  "tag_core = [(''flags'', u32_t), (''pagesize'', u32_t), (''rootdev'', u32_t)]"

definition tag_mem32 :: c_members where
  "tag_mem32 = [(''size'', u32_t), (''start'', u32_t)]"

definition tag_videotext :: c_members where
  "tag_videotext = [(''x'', u8_t), (''y'', u8_t), (''video_page'', u16_t), (''video_mode'', u8_t),
    (''video_cols'', u8_t), (''video_ega_bx'', u16_t), (''video_lines'', u8_t), (''video_isvga'', u8_t),
    (''video_points'', u16_t)]"

definition tag_ramdisk :: c_members where
  "tag_ramdisk = [(''flags'', u32_t), (''size'', u32_t), (''start'', u32_t)]"

definition tag_initrd :: c_members where
  "tag_initrd = [(''start'', u32_t), (''size'', u32_t)]"

definition tag_serialnr :: c_members where
  "tag_serialnr = [(''low'', u32_t), (''high'', u32_t)]"

definition tag_revision :: c_members where
  "tag_revision = [(''rev'', u32_t)]"

definition tag_videolfb :: c_members where
  "tag_videolfb = [(''lfb_width'', u16_t), (''lfb_height'', u16_t), (''lfb_depth'', u16_t),
    (''lfb_linelength'', u16_t), (''lfb_base'', u32_t), (''lfb_size'', u32_t), (''red_size'', u8_t),
    (''red_pos'', u8_t), (''green_size'', u8_t), (''green_pos'', u8_t), (''blue_size'', u8_t),
    (''blue_pos'', u8_t), (''rsvd_size'', u8_t), (''rsvd_pos'', u8_t)]"

definition tag_cmdline :: c_members where
  "tag_cmdline = [(''cmdline'', Arr u8_t 1)]"

definition tag_acorn :: c_members where
  "tag_acorn = [(''memc_control_reg'', u32_t), (''vram_pages'', u32_t), (''sounddefault'', u8_t),
    (''adfsdrives'', u8_t)]"

definition tag_memclk :: c_members where
  "tag_memclk = [(''fmemclk'', u32_t)]"

definition struct_tag :: c_members where
  "struct_tag = [(''hdr'', c_struct tag_header), (''u'', c_union
    [(''core'', c_struct tag_core), (''mem'', c_struct tag_mem32), (''videotext'', c_struct tag_videotext),
     (''ramdisk'', c_struct tag_ramdisk), (''initrd'', c_struct tag_initrd), (''serialnr'', c_struct tag_serialnr),
     (''revision'', c_struct tag_revision), (''videolfb'', c_struct tag_videolfb),
     (''cmdline'', c_struct tag_cmdline), (''acorn'', c_struct tag_acorn), (''memclk'', c_struct tag_memclk)])]"

text \<open>The structure that goes with each type; the command line is a string of any length.\<close>

definition tag_table :: "(u32 \<times> c_members) list" where
  "tag_table = [(ATAG_CORE, tag_core), (ATAG_MEM, tag_mem32), (ATAG_VIDEOTEXT, tag_videotext),
    (ATAG_RAMDISK, tag_ramdisk), (ATAG_INITRD, tag_initrd), (ATAG_INITRD2, tag_initrd),
    (ATAG_SERIAL, tag_serialnr), (ATAG_REVISION, tag_revision), (ATAG_VIDEOLFB, tag_videolfb),
    (ATAG_ACORN, tag_acorn), (ATAG_MEMCLK, tag_memclk)]"

lemmas tag_structs = tag_core_def tag_mem32_def tag_videotext_def tag_ramdisk_def tag_initrd_def
  tag_serialnr_def tag_revision_def tag_videolfb_def tag_acorn_def tag_memclk_def

section \<open>Macros\<close>

text \<open>\<^verbatim>\<open>unsigned long\<close> has 32 bits here, and the product with the size wraps.\<close>

definition tag_member_present :: "endian \<Rightarrow> u8 list \<Rightarrow> nat \<Rightarrow> c_members \<Rightarrow> string \<Rightarrow> bool option" where
  "tag_member_present e mem t ms f = do {
     u \<leftarrow> offset_from 8 struct_tag ''u'' 0;
     off \<leftarrow> offset_from 8 ms f 0;
     m \<leftarrow> map_of ms f;
     size \<leftarrow> load e mem t :: u32 option;
     Some (word_of_nat (u + off + sizeof 8 m) \<le> size * 4)
   }"

definition tag_next :: "endian \<Rightarrow> u8 list \<Rightarrow> nat \<Rightarrow> nat option" where
  "tag_next e mem t = do {
     size \<leftarrow> load e mem t :: u32 option;
     Some (t + 4 * unat size)
   }"

definition tag_size :: "c_members \<Rightarrow> u32" where
  "tag_size ms = word_of_nat ((sizeof 8 (c_struct tag_header) + sizeof 8 (c_struct ms)) div 4)"

fun for_each_tag :: "endian \<Rightarrow> (u8 list \<Rightarrow> nat \<Rightarrow> 'r option) \<Rightarrow> nat \<Rightarrow> u8 list \<Rightarrow> nat \<Rightarrow> 'r list option" where
  "for_each_tag e body 0 mem t = None"
| "for_each_tag e body (Suc fuel) mem t = do {
     size \<leftarrow> load e mem t :: u32 option;
     if size \<noteq> 0 then do {
       r \<leftarrow> body mem t;
       t' \<leftarrow> tag_next e mem t;
       rs \<leftarrow> for_each_tag e body fuel mem t';
       Some (r # rs)
     } else Some []
   }"

section \<open>Writing and reading tags\<close>

text \<open>A tag with the values of its structure's members, or a command line with \<open>k\<close> bytes behind its end.\<close>

datatype atag = Tag u32 "u64 list" | Cmdline "u8 list" nat

fun tag_wf :: "atag \<Rightarrow> bool" where
  "tag_wf (Tag ty vs) = (case map_of tag_table ty of None \<Rightarrow> False
     | Some ms \<Rightarrow> list_all2 (scalar_ok 8) (map snd ms) vs)"
| "tag_wf (Cmdline s k) = (0 \<notin> set s \<and> 4 dvd 9 + length s + k \<and> 9 + length s + k < 2 ^ 32)"

fun tag_bytes :: "endian \<Rightarrow> atag \<Rightarrow> u8 list" where
  "tag_bytes e (Tag ty vs) = (case map_of tag_table ty of None \<Rightarrow> []
     | Some ms \<Rightarrow> bytes_of e (tag_size ms) @ bytes_of e ty @ object_bytes e 8 (map snd ms) vs)"
| "tag_bytes e (Cmdline s k) =
     bytes_of e (word_of_nat ((9 + length s + k) div 4) :: u32) @ bytes_of e ATAG_CMDLINE @ s @ [0] @ replicate k 0"

definition list_end :: "endian \<Rightarrow> u8 list" where
  "list_end e = bytes_of e (0 :: u32) @ bytes_of e ATAG_NONE"

definition cstring_at :: "u8 list \<Rightarrow> nat \<Rightarrow> u8 list option" where
  "cstring_at mem p = (if 0 \<in> set (drop p mem) then Some (takeWhile (\<lambda>b. b \<noteq> 0) (drop p mem)) else None)"

definition tag_read :: "endian \<Rightarrow> u8 list \<Rightarrow> nat \<Rightarrow> (u32 \<times> (u64 list + u8 list)) option" where
  "tag_read e mem t = do {
     ty \<leftarrow> load e mem (t + 4) :: u32 option;
     if ty = ATAG_CMDLINE then map_option (\<lambda>s. (ty, Inr s)) (cstring_at mem (t + 8))
     else do {
       ms \<leftarrow> map_of tag_table ty;
       vs \<leftarrow> object_load e 8 (map snd ms) mem (t + 8);
       Some (ty, Inl vs)
     }
   }"

fun tag_content :: "atag \<Rightarrow> u32 \<times> (u64 list + u8 list)" where
  "tag_content (Tag ty vs) = (ty, Inl vs)"
| "tag_content (Cmdline s k) = (ATAG_CMDLINE, Inr s)"

lemma tag_table_sizes:
  assumes "map_of tag_table ty = Some ms"
  shows "sizeof 8 (c_struct ms) \<in> {4, 8, 12, 24}" "ty \<noteq> ATAG_CMDLINE"
proof -
  have sizes: "list_all (\<lambda>p. sizeof 8 (c_struct (snd p)) \<in> {4, 8, 12, 24} \<and> fst p \<noteq> ATAG_CMDLINE) tag_table"
    by code_simp
  have "(ty, ms) \<in> set tag_table" using assms by (rule map_of_SomeD)
  then show "sizeof 8 (c_struct ms) \<in> {4, 8, 12, 24}" "ty \<noteq> ATAG_CMDLINE"
    using sizes by (auto simp add: list_all_iff)
qed

lemma unat_tag_size:
  assumes "map_of tag_table ty = Some ms"
  shows "4 * unat (tag_size ms) = 8 + sizeof 8 (c_struct ms)"
  using tag_table_sizes(1) [OF assms]
  by (auto simp add: tag_size_def tag_header_def c_struct_def [of tag_header] c_struct_def align_up_def)

lemma tag_layout:
  assumes "tag_wf x"
  obtains size ty body where "tag_bytes e x = bytes_of e size @ bytes_of e ty @ body"
    "size \<noteq> (0 :: u32)" "4 * unat size = 8 + length body" "fst (tag_content x) = (ty :: u32)"
proof (cases x)
  case (Tag ty vs)
  with assms obtain ms where ms: "map_of tag_table ty = Some ms" "list_all2 (scalar_ok 8) (map snd ms) vs"
    by (auto split: option.splits)
  have "length (object_bytes e 8 (map snd ms) vs) = sizeof 8 (c_struct ms)"
    using length_object_bytes [OF ms(2)] by (simp add: c_struct_def)
  moreover have "tag_size ms \<noteq> 0" using unat_tag_size [OF ms(1)] by auto
  ultimately show ?thesis using that ms unat_tag_size [OF ms(1)] Tag by auto
next
  case (Cmdline s k)
  define n where "n = (9 + length s + k) div 4"
  have n: "4 * n = 9 + length s + k" "n < 2 ^ 32" using assms Cmdline by (auto simp add: n_def)
  have u: "unat (word_of_nat n :: u32) = n" using n(2) by (simp add: unsigned_of_nat take_bit_nat_eq_self)
  then have "(word_of_nat n :: u32) \<noteq> 0" using n(1) by auto
  then show ?thesis using that [of "word_of_nat n" ATAG_CMDLINE "s @ [0] @ replicate k 0"] n u Cmdline
    by (simp add: n_def)
qed

lemma tag_read_bytes:
  assumes "tag_wf x"
  shows "tag_read e (pre @ tag_bytes e x @ post) (length pre) = Some (tag_content x)"
proof (cases x)
  case (Tag ty vs)
  with assms obtain ms where ms: "map_of tag_table ty = Some ms" "list_all2 (scalar_ok 8) (map snd ms) vs"
    by (auto split: option.splits)
  let ?h = "bytes_of e (tag_size ms)" and ?o = "object_bytes e 8 (map snd ms) vs"
  have "load e ((pre @ ?h) @ bytes_of e ty @ ?o @ post) (length pre + 4) = Some ty"
    by (rule load_append_at) simp_all
  moreover have "object_load e 8 (map snd ms) ((pre @ ?h @ bytes_of e ty) @ ?o @ post) (length pre + 8) = Some vs"
    using object_load_bytes [OF ms(2), of e "pre @ ?h @ bytes_of e ty" post] by simp
  ultimately show ?thesis using ms tag_table_sizes(2) [OF ms(1)] by (simp add: tag_read_def Tag)
next
  case (Cmdline s k)
  let ?h = "bytes_of e (word_of_nat ((9 + length s + k) div 4) :: u32)"
  let ?s = "s @ [0] @ replicate k 0"
  have "load e ((pre @ ?h) @ bytes_of e ATAG_CMDLINE @ ?s @ post) (length pre + 4) = Some ATAG_CMDLINE"
    by (rule load_append_at) simp_all
  moreover have "takeWhile (\<lambda>b. b \<noteq> 0) (s @ 0 # r) = s" for r
    using assms Cmdline by (subst takeWhile_append2) auto
  then have "cstring_at ((pre @ ?h @ bytes_of e ATAG_CMDLINE) @ ?s @ post) (length pre + 8) = Some s"
    by (simp add: cstring_at_def)
  ultimately show ?thesis by (simp add: tag_read_def Cmdline)
qed

section \<open>Properties\<close>

text \<open>
  C22: A boot loader's list of tags, sized with \<^verbatim>\<open>tag_size\<close> and ended by \<^verbatim>\<open>ATAG_NONE\<close>, is read back tag by tag
  with \<^verbatim>\<open>for_each_tag\<close>, wherever it lies in memory and whatever follows it: the members of every structure
  and the command line come back as they were written.
\<close>

theorem atags_roundtrip:
  assumes "list_all tag_wf xs" "length xs < fuel"
  shows "for_each_tag e (tag_read e) fuel (pre @ concat (map (tag_bytes e) xs) @ list_end e @ post) (length pre) =
    Some (map tag_content xs)"
  using assms
proof (induction xs arbitrary: fuel pre)
  case Nil
  then obtain f where "fuel = Suc f" by (cases fuel) auto
  then show ?case by (simp add: list_end_def load_append)
next
  case (Cons x xs)
  obtain f where f: "fuel = Suc f" "length xs < f" using Cons.prems(2) by (cases fuel) auto
  obtain size ty body where x: "tag_bytes e x = bytes_of e size @ bytes_of e ty @ body"
    "size \<noteq> (0 :: u32)" "4 * unat size = 8 + length body" "fst (tag_content x) = (ty :: u32)"
    using Cons.prems(1) by (auto intro: tag_layout [of x e])
  let ?rest = "concat (map (tag_bytes e) xs) @ list_end e @ post"
  have "load e (pre @ tag_bytes e x @ ?rest) (length pre) = Some size" by (simp add: x(1) load_append)
  moreover have "tag_read e (pre @ tag_bytes e x @ ?rest) (length pre) = Some (tag_content x)"
    using Cons.prems(1) by (simp add: tag_read_bytes)
  moreover have "for_each_tag e (tag_read e) f ((pre @ tag_bytes e x) @ ?rest) (length (pre @ tag_bytes e x)) =
      Some (map tag_content xs)"
    using Cons.prems(1) f(2) by (intro Cons.IH) simp_all
  moreover have "length (pre @ tag_bytes e x) = length pre + 4 * unat size" using x by simp
  ultimately show ?case using x(2) f(1) by (simp add: tag_next_def)
qed

theorem atags_roundtrip_witness:
  "for_each_tag Little (tag_read Little) 4 ([] @ concat (map (tag_bytes Little)
      [Tag ATAG_CORE [1, 4096, 0], Tag ATAG_ACORN [7, 8, 9, 10], Cmdline [72, 105] 1]) @ list_end Little @ [])
      (length ([] :: u8 list)) =
    Some (map tag_content [Tag ATAG_CORE [1, 4096, 0], Tag ATAG_ACORN [7, 8, 9, 10], Cmdline [72, 105] 1])"
  by (rule atags_roundtrip)
    (simp_all add: tag_table_def atag_ids tag_core_def tag_acorn_def scalar_ok_def fits_def)

text \<open>
  A tag of size \<^verbatim>\<open>tag_size\<close> has all members of its structure by the test \<^verbatim>\<open>tag_member_present\<close>, and a tag that
  only consists of its header has none.
\<close>

theorem atag_members_present:
  assumes "(ty, ms) \<in> set tag_table" "(f, m) \<in> set ms" "load e mem t = Some (n :: u32)"
  shows "(n = tag_size ms \<longrightarrow> tag_member_present e mem t ms f = Some True) \<and>
    (n = 2 \<longrightarrow> tag_member_present e mem t ms f = Some False)"
proof -
  have u: "offset_from 8 struct_tag ''u'' 0 = Some 8"
    by (simp add: struct_tag_def tag_structs tag_cmdline_def tag_header_def c_struct_def c_union_def align_up_def)
  have "list_all (\<lambda>p. list_all (\<lambda>q. case offset_from 8 (snd p) (fst q) 0 of None \<Rightarrow> False | Some off \<Rightarrow>
      map_of (snd p) (fst q) = Some (snd q) \<and> (word_of_nat (8 + off + sizeof 8 (snd q)) :: u32) \<le> tag_size (snd p) * 4 \<and>
      \<not> (word_of_nat (8 + off + sizeof 8 (snd q)) :: u32) \<le> 8) (snd p)) tag_table"
    by code_simp
  then obtain off where "offset_from 8 ms f 0 = Some off" "map_of ms f = Some m"
    "(word_of_nat (8 + off + sizeof 8 m) :: u32) \<le> tag_size ms * 4" "\<not> (word_of_nat (8 + off + sizeof 8 m) :: u32) \<le> 8"
    using assms(1,2) by (fastforce simp add: list_all_iff split: option.splits)
  then show ?thesis using assms(3) u by (simp add: tag_member_present_def)
qed

end
