(* ===== verification/Code_Numbers.thy ===== *)
theory Code_Numbers
  imports Packed_Codes
begin

text \<open>
  The numbers of two and three parts: device numbers (\<^verbatim>\<open>kdev_t.h\<close>), PCI device and function (\<^verbatim>\<open>pci.h\<close>), key codes
  (\<^verbatim>\<open>keyboard.h\<close>), I/O priorities (\<^verbatim>\<open>ioprio.h\<close>), handles of packet schedulers and classifiers (\<^verbatim>\<open>pkt_sched.h\<close>,
  \<^verbatim>\<open>pkt_cls.h\<close>), PSCI and TLS versions (\<^verbatim>\<open>psci.h\<close>, \<^verbatim>\<open>tls.h\<close>), owners of file system mappings (\<^verbatim>\<open>fsmap.h\<close>),
  RDMA netlink types (\<^verbatim>\<open>rdma/rdma_netlink.h\<close>), boot information versions of m68k, relocations (\<^verbatim>\<open>elf.h\<close>),
  type information (\<^verbatim>\<open>btf.h\<close>), Zorro identifiers (\<^verbatim>\<open>zorro.h\<close>), sound protocol versions (\<^verbatim>\<open>sound/asound.h\<close>,
  \<^verbatim>\<open>sound/sof/abi.h\<close>) and ATM socket options (\<^verbatim>\<open>atm.h\<close>). The pairs interpret \<open>packed_pair\<close>.
  The operands of the macros are unsigned words of the width of the number they make.
\<close>

section \<open>Pairs\<close>

definition MAJOR :: "u32 \<Rightarrow> u32" where "MAJOR dev = drop_bit 8 dev"
definition MINOR :: "u32 \<Rightarrow> u32" where "MINOR dev = dev AND 0xff"
definition MKDEV :: "u32 \<Rightarrow> u32 \<Rightarrow> u32" where "MKDEV ma mi = push_bit 8 ma OR mi"

interpretation kdev: packed_pair MKDEV MAJOR MINOR 24 8
  by (rule packed_pairI)
    (simp_all add: MKDEV_def MAJOR_def MINOR_def u32_masks field_at_top [where h = 24] field_at_low)

definition PCI_DEVFN :: "u32 \<Rightarrow> u32 \<Rightarrow> u32" where
  "PCI_DEVFN slot func = push_bit 3 (slot AND 0x1f) OR (func AND 0x07)"
definition PCI_SLOT :: "u32 \<Rightarrow> u32" where "PCI_SLOT devfn = drop_bit 3 devfn AND 0x1f"
definition PCI_FUNC :: "u32 \<Rightarrow> u32" where "PCI_FUNC devfn = devfn AND 0x07"

interpretation pci: packed_pair PCI_DEVFN PCI_SLOT PCI_FUNC 5 3
  by (rule packed_pairI)
    (simp_all add: PCI_DEVFN_def PCI_SLOT_def PCI_FUNC_def u32_masks fits_and_mask field_at_def)

definition K :: "u32 \<Rightarrow> u32 \<Rightarrow> u32" where "K t v = push_bit 8 t OR v"
definition KTYP :: "u32 \<Rightarrow> u32" where "KTYP x = drop_bit 8 x"
definition KVAL :: "u32 \<Rightarrow> u32" where "KVAL x = x AND 0xff"

interpretation key: packed_pair K KTYP KVAL 8 8
  by (rule packed_pairI)
    (simp_all add: K_def KTYP_def KVAL_def u32_masks field_at_top [where h = 8] field_at_low)

definition IOPRIO_CLASS_SHIFT :: nat where "IOPRIO_CLASS_SHIFT = 13"
definition IOPRIO_CLASS_MASK :: u64 where "IOPRIO_CLASS_MASK = 0x07"
definition IOPRIO_PRIO_MASK :: u64 where "IOPRIO_PRIO_MASK = push_bit IOPRIO_CLASS_SHIFT 1 - 1"
definition IOPRIO_PRIO_CLASS :: "u64 \<Rightarrow> u64" where
  "IOPRIO_PRIO_CLASS ioprio = drop_bit IOPRIO_CLASS_SHIFT ioprio AND IOPRIO_CLASS_MASK"
definition IOPRIO_PRIO_DATA :: "u64 \<Rightarrow> u64" where
  "IOPRIO_PRIO_DATA ioprio = ioprio AND IOPRIO_PRIO_MASK"
definition IOPRIO_PRIO_VALUE :: "u64 \<Rightarrow> u64 \<Rightarrow> u64" where
  "IOPRIO_PRIO_VALUE cls data =
     push_bit IOPRIO_CLASS_SHIFT (cls AND IOPRIO_CLASS_MASK) OR (data AND IOPRIO_PRIO_MASK)"

lemma ioprio_mask: "IOPRIO_PRIO_MASK = mask 13" "IOPRIO_CLASS_MASK = mask 3"
  by (simp_all add: IOPRIO_PRIO_MASK_def IOPRIO_CLASS_MASK_def IOPRIO_CLASS_SHIFT_def mask_eq_exp_minus_1)

interpretation ioprio: packed_pair IOPRIO_PRIO_VALUE IOPRIO_PRIO_CLASS IOPRIO_PRIO_DATA 3 13
  by (rule packed_pairI)
    (simp_all add: IOPRIO_PRIO_VALUE_def IOPRIO_PRIO_CLASS_def IOPRIO_PRIO_DATA_def ioprio_mask
      IOPRIO_CLASS_SHIFT_def fits_and_mask field_at_def)

text \<open>The parts of a handle stay in place: the callers shift the major number themselves.\<close>

definition TC_H_MAJ_MASK :: u32 where "TC_H_MAJ_MASK = 0xFFFF0000"
definition TC_H_MIN_MASK :: u32 where "TC_H_MIN_MASK = 0x0000FFFF"
definition TC_H_MAJ :: "u32 \<Rightarrow> u32" where "TC_H_MAJ x = x AND TC_H_MAJ_MASK"
definition TC_H_MIN :: "u32 \<Rightarrow> u32" where "TC_H_MIN x = x AND TC_H_MIN_MASK"
definition TC_H_MAKE :: "u32 \<Rightarrow> u32 \<Rightarrow> u32" where
  "TC_H_MAKE ma mi = (ma AND TC_H_MAJ_MASK) OR (mi AND TC_H_MIN_MASK)"

lemma tc_h_masks: "TC_H_MAJ_MASK = push_bit 16 (mask 16)" "TC_H_MIN_MASK = mask 16"
  by (simp_all add: TC_H_MAJ_MASK_def TC_H_MIN_MASK_def mask_eq_exp_minus_1)

lemma shifted_and: "push_bit n a AND push_bit n m = push_bit n (a AND (m :: 'a::len word))"
  by (rule bit_word_eqI) (auto simp add: bit_simps)

lemma drop_push_mask: "n + w \<le> LENGTH('a) \<Longrightarrow> drop_bit n (push_bit n (mask w)) = (mask w :: 'a::len word)"
  by (rule bit_word_eqI) (auto simp add: bit_simps)

interpretation tc_h: packed_pair "\<lambda>a b. TC_H_MAKE (push_bit 16 a) b" "\<lambda>c. drop_bit 16 (TC_H_MAJ c)" TC_H_MIN 16 16
  by (rule packed_pairI)
    (simp_all add: TC_H_MAKE_def TC_H_MAJ_def TC_H_MIN_def tc_h_masks shifted_and drop_push_mask fits_and_mask field_at_def)

definition PSCI_VERSION_MAJOR_SHIFT :: nat where "PSCI_VERSION_MAJOR_SHIFT = 16"
definition PSCI_VERSION_MINOR_MASK :: u32 where "PSCI_VERSION_MINOR_MASK = push_bit PSCI_VERSION_MAJOR_SHIFT 1 - 1"
definition PSCI_VERSION_MAJOR_MASK :: u32 where "PSCI_VERSION_MAJOR_MASK = NOT PSCI_VERSION_MINOR_MASK"
definition PSCI_VERSION_MAJOR :: "u32 \<Rightarrow> u32" where
  "PSCI_VERSION_MAJOR ver = drop_bit PSCI_VERSION_MAJOR_SHIFT (ver AND PSCI_VERSION_MAJOR_MASK)"
definition PSCI_VERSION_MINOR :: "u32 \<Rightarrow> u32" where
  "PSCI_VERSION_MINOR ver = ver AND PSCI_VERSION_MINOR_MASK"
definition PSCI_VERSION :: "u32 \<Rightarrow> u32 \<Rightarrow> u32" where
  "PSCI_VERSION ma mi = (push_bit PSCI_VERSION_MAJOR_SHIFT ma AND PSCI_VERSION_MAJOR_MASK) OR
     (mi AND PSCI_VERSION_MINOR_MASK)"

lemma psci_masks: "PSCI_VERSION_MINOR_MASK = mask 16" "PSCI_VERSION_MAJOR_MASK = push_bit 16 (mask 16)"
  by (simp_all add: PSCI_VERSION_MINOR_MASK_def PSCI_VERSION_MAJOR_MASK_def PSCI_VERSION_MAJOR_SHIFT_def
      mask_eq_exp_minus_1)

interpretation psci: packed_pair PSCI_VERSION PSCI_VERSION_MAJOR PSCI_VERSION_MINOR 16 16
  by (rule packed_pairI)
    (simp_all add: PSCI_VERSION_def PSCI_VERSION_MAJOR_def PSCI_VERSION_MINOR_def psci_masks
      PSCI_VERSION_MAJOR_SHIFT_def shifted_and drop_push_mask fits_and_mask field_at_def)

definition TLS_VERSION_MINOR :: "u32 \<Rightarrow> u32" where "TLS_VERSION_MINOR ver = ver AND 0xFF"
definition TLS_VERSION_MAJOR :: "u32 \<Rightarrow> u32" where "TLS_VERSION_MAJOR ver = drop_bit 8 ver AND 0xFF"
definition TLS_VERSION_NUMBER :: "u32 \<Rightarrow> u32 \<Rightarrow> u32" where
  "TLS_VERSION_NUMBER ma mi = push_bit 8 (ma AND 0xFF) OR (mi AND 0xFF)"

interpretation tls: packed_pair TLS_VERSION_NUMBER TLS_VERSION_MAJOR TLS_VERSION_MINOR 8 8
  by (rule packed_pairI)
    (simp_all add: TLS_VERSION_NUMBER_def TLS_VERSION_MAJOR_def TLS_VERSION_MINOR_def u32_masks fits_and_mask
      field_at_def)

definition FMR_OWNER :: "u64 \<Rightarrow> u64 \<Rightarrow> u64" where
  "FMR_OWNER ty code = push_bit 32 ty OR (code AND 0xFFFFFFFF)"
definition FMR_OWNER_TYPE :: "u64 \<Rightarrow> u32" where "FMR_OWNER_TYPE owner = ucast (drop_bit 32 owner)"
definition FMR_OWNER_CODE :: "u64 \<Rightarrow> u32" where "FMR_OWNER_CODE owner = ucast (owner AND 0xFFFFFFFF)"

lemma ucast_ucast_mask32: "(ucast (ucast x :: u32) :: u64) = x AND mask 32"
  by (rule bit_word_eqI) (auto simp add: bit_simps)

interpretation fmr: packed_pair FMR_OWNER "\<lambda>c. ucast (FMR_OWNER_TYPE c)" "\<lambda>c. ucast (FMR_OWNER_CODE c)" 32 32
  by (rule packed_pairI)
    (simp_all add: FMR_OWNER_def FMR_OWNER_TYPE_def FMR_OWNER_CODE_def u64_masks ucast_ucast_mask32 fits_and_mask
      field_at_def and.assoc)

definition RDMA_NL_GET_CLIENT :: "u32 \<Rightarrow> u32" where
  "RDMA_NL_GET_CLIENT ty = drop_bit 10 (ty AND push_bit 10 (push_bit 6 1 - 1))"
definition RDMA_NL_GET_OP :: "u32 \<Rightarrow> u32" where "RDMA_NL_GET_OP ty = ty AND (push_bit 10 1 - 1)"
definition RDMA_NL_GET_TYPE :: "u32 \<Rightarrow> u32 \<Rightarrow> u32" where
  "RDMA_NL_GET_TYPE client opr = push_bit 10 client + opr"

interpretation rdma_nl: packed_pair RDMA_NL_GET_TYPE RDMA_NL_GET_CLIENT RDMA_NL_GET_OP 6 10
proof (rule packed_pairI)
  have m: "push_bit 6 1 - 1 = (mask 6 :: u32)" "push_bit 10 1 - 1 = (mask 10 :: u32)"
    by (simp_all add: mask_eq_exp_minus_1)
  show "RDMA_NL_GET_CLIENT c = field_at 10 6 c" "RDMA_NL_GET_OP c = field_at 0 10 c" for c
    unfolding RDMA_NL_GET_CLIENT_def RDMA_NL_GET_OP_def m by (simp_all add: drop_push_mask field_at_def)
qed (simp_all add: RDMA_NL_GET_TYPE_def disjoint_plus)

definition MK_BI_VERSION :: "u32 \<Rightarrow> u32 \<Rightarrow> u32" where "MK_BI_VERSION ma mi = push_bit 16 ma + mi"
definition BI_VERSION_MAJOR :: "u32 \<Rightarrow> u32" where "BI_VERSION_MAJOR v = drop_bit 16 v AND 0xffff"
definition BI_VERSION_MINOR :: "u32 \<Rightarrow> u32" where "BI_VERSION_MINOR v = v AND 0xffff"

interpretation bi_version: packed_pair MK_BI_VERSION BI_VERSION_MAJOR BI_VERSION_MINOR 16 16
  by (rule packed_pairI)
    (simp_all add: MK_BI_VERSION_def BI_VERSION_MAJOR_def BI_VERSION_MINOR_def u32_masks disjoint_plus field_at_def)

text \<open>Headers that only take a number apart; the number is its parts side by side.\<close>

definition ELF32_R_SYM :: "u32 \<Rightarrow> u32" where "ELF32_R_SYM x = drop_bit 8 x"
definition ELF32_R_TYPE :: "u32 \<Rightarrow> u32" where "ELF32_R_TYPE x = x AND 0xff"
definition ELF64_R_SYM :: "u64 \<Rightarrow> u64" where "ELF64_R_SYM i = drop_bit 32 i"
definition ELF64_R_TYPE :: "u64 \<Rightarrow> u64" where "ELF64_R_TYPE i = i AND 0xffffffff"
definition ELF_ST_BIND :: "u32 \<Rightarrow> u32" where "ELF_ST_BIND x = drop_bit 4 x"
definition ELF_ST_TYPE :: "u32 \<Rightarrow> u32" where "ELF_ST_TYPE x = x AND 0xf"
definition BTF_MEMBER_BITFIELD_SIZE :: "u32 \<Rightarrow> u32" where "BTF_MEMBER_BITFIELD_SIZE val = drop_bit 24 val"
definition BTF_MEMBER_BIT_OFFSET :: "u32 \<Rightarrow> u32" where "BTF_MEMBER_BIT_OFFSET val = val AND 0xffffff"

interpretation elf32_r: packed_pair "\<lambda>a b. push_bit 8 a OR b" ELF32_R_SYM ELF32_R_TYPE 24 8
  by (rule packed_pairI)
    (simp_all add: ELF32_R_SYM_def ELF32_R_TYPE_def u32_masks field_at_top [where h = 24] field_at_low)

interpretation elf64_r: packed_pair "\<lambda>a b. push_bit 32 a OR b" ELF64_R_SYM ELF64_R_TYPE 32 32
  by (rule packed_pairI)
    (simp_all add: ELF64_R_SYM_def ELF64_R_TYPE_def u64_masks field_at_top [where h = 32] field_at_low)

interpretation elf_st: packed_pair "\<lambda>a b. push_bit 4 a OR b" ELF_ST_BIND ELF_ST_TYPE 4 4
  by (rule packed_pairI)
    (simp_all add: ELF_ST_BIND_def ELF_ST_TYPE_def u32_masks field_at_top [where h = 4] field_at_low)

interpretation btf_member: packed_pair "\<lambda>a b. push_bit 24 a OR b" BTF_MEMBER_BITFIELD_SIZE BTF_MEMBER_BIT_OFFSET 8 24
  by (rule packed_pairI)
    (simp_all add: BTF_MEMBER_BITFIELD_SIZE_def BTF_MEMBER_BIT_OFFSET_def u32_masks field_at_top [where h = 8] field_at_low)

section \<open>Three parts\<close>

text \<open>A manufacturer's number is one of the constants of \<^verbatim>\<open>zorro_ids.h\<close>, here the argument.\<close>

definition ZORRO_MANUF :: "u32 \<Rightarrow> u32" where "ZORRO_MANUF i = drop_bit 16 i"
definition ZORRO_PROD :: "u32 \<Rightarrow> u32" where "ZORRO_PROD i = drop_bit 8 i AND 0xff"
definition ZORRO_EPC :: "u32 \<Rightarrow> u32" where "ZORRO_EPC i = i AND 0xff"
definition ZORRO_ID :: "u32 \<Rightarrow> u32 \<Rightarrow> u32 \<Rightarrow> u32" where
  "ZORRO_ID manuf product epc = push_bit 16 manuf OR push_bit 8 product OR epc"

interpretation zorro: packed_triple ZORRO_ID ZORRO_MANUF ZORRO_PROD ZORRO_EPC 16 8 8
  by (rule packed_tripleI)
    (simp_all add: ZORRO_ID_def ZORRO_MANUF_def ZORRO_PROD_def ZORRO_EPC_def u32_masks or.assoc
      field_at_top [where h = 16] field_at_low, simp add: field_at_def)

definition SNDRV_PROTOCOL_VERSION :: "u32 \<Rightarrow> u32 \<Rightarrow> u32 \<Rightarrow> u32" where
  "SNDRV_PROTOCOL_VERSION major minor subminor = push_bit 16 major OR push_bit 8 minor OR subminor"
definition SNDRV_PROTOCOL_MAJOR :: "u32 \<Rightarrow> u32" where "SNDRV_PROTOCOL_MAJOR v = drop_bit 16 v AND 0xffff"
definition SNDRV_PROTOCOL_MINOR :: "u32 \<Rightarrow> u32" where "SNDRV_PROTOCOL_MINOR v = drop_bit 8 v AND 0xff"
definition SNDRV_PROTOCOL_MICRO :: "u32 \<Rightarrow> u32" where "SNDRV_PROTOCOL_MICRO v = v AND 0xff"
definition SNDRV_PROTOCOL_INCOMPATIBLE :: "u32 \<Rightarrow> u32 \<Rightarrow> bool" where
  "SNDRV_PROTOCOL_INCOMPATIBLE kversion uversion \<longleftrightarrow>
     SNDRV_PROTOCOL_MAJOR kversion \<noteq> SNDRV_PROTOCOL_MAJOR uversion \<or>
     (SNDRV_PROTOCOL_MAJOR kversion = SNDRV_PROTOCOL_MAJOR uversion \<and>
      SNDRV_PROTOCOL_MINOR kversion \<noteq> SNDRV_PROTOCOL_MINOR uversion)"

interpretation sndrv: packed_triple SNDRV_PROTOCOL_VERSION SNDRV_PROTOCOL_MAJOR SNDRV_PROTOCOL_MINOR
  SNDRV_PROTOCOL_MICRO 16 8 8
  by (rule packed_tripleI)
    (simp_all add: SNDRV_PROTOCOL_VERSION_def SNDRV_PROTOCOL_MAJOR_def SNDRV_PROTOCOL_MINOR_def
      SNDRV_PROTOCOL_MICRO_def u32_masks or.assoc field_at_def)

definition SOF_ABI_VER :: "u32 \<Rightarrow> u32 \<Rightarrow> u32 \<Rightarrow> u32" where
  "SOF_ABI_VER major minor patch = push_bit 24 major OR push_bit 12 minor OR push_bit 0 patch"
definition SOF_ABI_VERSION_MAJOR :: "u32 \<Rightarrow> u32" where "SOF_ABI_VERSION_MAJOR v = drop_bit 24 v AND 0xff"
definition SOF_ABI_VERSION_MINOR :: "u32 \<Rightarrow> u32" where "SOF_ABI_VERSION_MINOR v = drop_bit 12 v AND 0xfff"
definition SOF_ABI_VERSION_PATCH :: "u32 \<Rightarrow> u32" where "SOF_ABI_VERSION_PATCH v = drop_bit 0 v AND 0xfff"
definition SOF_ABI_VERSION_INCOMPATIBLE :: "u32 \<Rightarrow> u32 \<Rightarrow> bool" where
  "SOF_ABI_VERSION_INCOMPATIBLE sof_ver client_ver \<longleftrightarrow>
     SOF_ABI_VERSION_MAJOR sof_ver \<noteq> SOF_ABI_VERSION_MAJOR client_ver"

interpretation sof: packed_triple SOF_ABI_VER SOF_ABI_VERSION_MAJOR SOF_ABI_VERSION_MINOR SOF_ABI_VERSION_PATCH 8 12 12
  by (rule packed_tripleI)
    (simp_all add: SOF_ABI_VER_def SOF_ABI_VERSION_MAJOR_def SOF_ABI_VERSION_MINOR_def
      SOF_ABI_VERSION_PATCH_def u32_masks or.assoc field_at_def)

text \<open>Options of ATM sockets: level, number and size of the value; the level is only compared.\<close>

definition SO_ENCODE :: "u32 \<Rightarrow> u32 \<Rightarrow> u32 \<Rightarrow> u32" where
  "SO_ENCODE l n size_t = push_bit 22 (l AND 0x1FF) OR push_bit 16 n OR size_t"
definition SO_LEVEL_MATCH :: "u32 \<Rightarrow> u32 \<Rightarrow> bool" where
  "SO_LEVEL_MATCH c m \<longleftrightarrow> drop_bit 22 c = m AND 0x1FF"
definition SO_NUMBER :: "u32 \<Rightarrow> u32" where "SO_NUMBER c = drop_bit 16 c AND 0x3f"
definition SO_SIZE :: "u32 \<Rightarrow> u32" where "SO_SIZE c = c AND 0x3fff"

section \<open>Properties\<close>

text \<open>
  Versions of the sound interfaces are compared as the code words: of two versions in range, the lower
  word is the lower version part by part, a client whose major or minor number differs is incompatible, and
  a different patch level never is.
\<close>

theorem sound_versions_ordered:
  assumes "fits 16 a" "fits 8 b" "fits 8 c" "fits 16 a'" "fits 8 b'" "fits 8 c'"
  shows "(SNDRV_PROTOCOL_VERSION a b c < SNDRV_PROTOCOL_VERSION a' b' c' \<longleftrightarrow>
      a < a' \<or> a = a' \<and> (b < b' \<or> b = b' \<and> c < c')) \<and>
    (SNDRV_PROTOCOL_INCOMPATIBLE (SNDRV_PROTOCOL_VERSION a b c) (SNDRV_PROTOCOL_VERSION a' b' c') \<longleftrightarrow>
      a \<noteq> a' \<or> b \<noteq> b')"
  using sndrv.order [OF assms] sndrv.parts [OF assms(1-3)] sndrv.parts [OF assms(4-6)]
  by (auto simp add: SNDRV_PROTOCOL_INCOMPATIBLE_def)

theorem sound_versions_ordered_witness:
  "SNDRV_PROTOCOL_VERSION 2 0 255 < SNDRV_PROTOCOL_VERSION 2 1 0 \<and>
    SNDRV_PROTOCOL_INCOMPATIBLE (SNDRV_PROTOCOL_VERSION 2 0 255) (SNDRV_PROTOCOL_VERSION 2 1 0)"
  using sound_versions_ordered [of 2 0 255 2 1 0] by (simp add: fits_def)

text \<open>
  The number of an option names its level, number and size: for levels below 512, 64 numbers and values
  of less than 16 kB, an option matches its own level only and gives its number and size.
\<close>

theorem atm_options_decoded:
  assumes "fits 9 l" "fits 6 n" "fits 14 s" "fits 9 m"
  shows "SO_NUMBER (SO_ENCODE l n s) = n \<and> SO_SIZE (SO_ENCODE l n s) = s \<and>
    (SO_LEVEL_MATCH (SO_ENCODE l n s) m \<longleftrightarrow> m = l)"
proof -
  have j: "SO_ENCODE l n s = place 22 9 l OR (place 16 6 n OR place 0 14 s)"
    using assms low_place [OF assms(3)]
    by (simp add: SO_ENCODE_def u32_masks fits_and_mask push_bit_place or.assoc)
  have "fits (9 + 22) (SO_ENCODE l n s)" unfolding j by (simp add: fits_bits bit_simps bit_place)
  then have "drop_bit 22 (SO_ENCODE l n s) = field_at 22 9 (SO_ENCODE l n s)" by (rule field_at_top)
  also have "\<dots> = l" using assms by (simp add: j fields fits_and_mask)
  finally have l: "drop_bit 22 (SO_ENCODE l n s) = l" .
  have "field_at 16 6 (SO_ENCODE l n s) = n" "field_at 0 14 (SO_ENCODE l n s) = s"
    using assms by (simp_all add: j fields fits_and_mask)
  then show ?thesis
    using assms(4) by (auto simp add: SO_NUMBER_def SO_SIZE_def SO_LEVEL_MATCH_def u32_masks field_at_def l fits_and_mask)
qed

theorem atm_options_decoded_witness:
  "SO_NUMBER (SO_ENCODE 264 3 72) = 3 \<and> SO_SIZE (SO_ENCODE 264 3 72) = 72 \<and>
    (SO_LEVEL_MATCH (SO_ENCODE 264 3 72) 264)"
  using atm_options_decoded [of 264 3 72 264] by (simp add: fits_def)

text \<open>
  C25: Joining and taking apart are inverse: device numbers, PCI functions, key codes, I/O priorities, scheduler
  handles, PSCI and TLS versions, mapping owners, RDMA message types and boot information versions are in one to one
  correspondence with the pairs of their parts in range, every part is read back, and the codes are ordered as
  the parts, the upper part first.
\<close>

theorem packed_numbers_bijective:
  "packs MKDEV MAJOR MINOR 24 8 \<and>
   packs PCI_DEVFN PCI_SLOT PCI_FUNC 5 3 \<and>
   packs K KTYP KVAL 8 8 \<and>
   packs IOPRIO_PRIO_VALUE IOPRIO_PRIO_CLASS IOPRIO_PRIO_DATA 3 13 \<and>
   packs (\<lambda>a b. TC_H_MAKE (push_bit 16 a) b) (\<lambda>c. drop_bit 16 (TC_H_MAJ c)) TC_H_MIN 16 16 \<and>
   packs PSCI_VERSION PSCI_VERSION_MAJOR PSCI_VERSION_MINOR 16 16 \<and>
   packs TLS_VERSION_NUMBER TLS_VERSION_MAJOR TLS_VERSION_MINOR 8 8 \<and>
   packs FMR_OWNER (\<lambda>c. ucast (FMR_OWNER_TYPE c)) (\<lambda>c. ucast (FMR_OWNER_CODE c)) 32 32 \<and>
   packs RDMA_NL_GET_TYPE RDMA_NL_GET_CLIENT RDMA_NL_GET_OP 6 10 \<and>
   packs MK_BI_VERSION BI_VERSION_MAJOR BI_VERSION_MINOR 16 16"
  using kdev.packs pci.packs key.packs ioprio.packs tc_h.packs psci.packs tls.packs fmr.packs rdma_nl.packs bi_version.packs
  by blast

section \<open>Commands of targets in user space\<close>

text \<open>
  The command ring entries of the SCSI target (\<^verbatim>\<open>include/linux/target_core_user.h\<close>): the opcode of an
  entry lives in the low three bits of its length, which is a multiple of eight.
\<close>

definition TCMU_OP_PAD :: u32 where "TCMU_OP_PAD = 0"
definition TCMU_OP_CMD :: u32 where "TCMU_OP_CMD = 1"
definition TCMU_OP_TMR :: u32 where "TCMU_OP_TMR = 2"

definition TCMU_OP_MASK :: u32 where
  "TCMU_OP_MASK = 0x7"

definition tcmu_hdr_get_op :: "u32 \<Rightarrow> u32" where
  "tcmu_hdr_get_op len_op = len_op AND TCMU_OP_MASK"

definition tcmu_hdr_set_op :: "u32 \<Rightarrow> u32 \<Rightarrow> u32" where
  "tcmu_hdr_set_op len_op op = (let
     len_op = len_op AND NOT TCMU_OP_MASK
     in len_op OR (op AND TCMU_OP_MASK))"

definition tcmu_hdr_get_len :: "u32 \<Rightarrow> u32" where
  "tcmu_hdr_get_len len_op = len_op AND NOT TCMU_OP_MASK"

definition tcmu_hdr_set_len :: "u32 \<Rightarrow> u32 \<Rightarrow> u32" where
  "tcmu_hdr_set_len len_op len = (let
     len_op = len_op AND TCMU_OP_MASK
     in len_op OR len)"

lemma op_mask: "TCMU_OP_MASK = mask 3"
  by (simp add: TCMU_OP_MASK_def mask_numeral)

lemma tcmu_bits:
  "bit (tcmu_hdr_get_op h) i \<longleftrightarrow> i < 3 \<and> bit h i"
  "bit (tcmu_hdr_set_op h x) i \<longleftrightarrow> bit (if i < 3 then x else h) i"
  "bit (tcmu_hdr_get_len h) i \<longleftrightarrow> 3 \<le> i \<and> bit h i"
  "bit (tcmu_hdr_set_len h x) i \<longleftrightarrow> (i < 3 \<and> bit h i) \<or> bit x i"
  by (auto simp add: tcmu_hdr_get_op_def tcmu_hdr_set_op_def tcmu_hdr_get_len_def
      tcmu_hdr_set_len_def op_mask Let_def bit_simps dest: bit_imp_le_length)

interpretation tcmu_op: accessor tcmu_hdr_get_op tcmu_hdr_set_op "take_bit 3"
  by unfold_locales (auto intro!: bit_word_eqI simp add: tcmu_bits bit_simps split: if_splits)

text \<open>
  Opcode and length share a word without disturbing each other as long as the length is a
  multiple of eight; any other length would change the opcode, to the bitwise or of both.
\<close>

theorem tcmu_header_fields:
  "tcmu_hdr_get_op (tcmu_hdr_set_len h len) = tcmu_hdr_get_op h OR take_bit 3 len \<and>
   tcmu_hdr_get_len (tcmu_hdr_set_len h len) = len AND NOT TCMU_OP_MASK \<and>
   tcmu_hdr_get_op (tcmu_hdr_set_op h x) = take_bit 3 x \<and>
   tcmu_hdr_get_len (tcmu_hdr_set_op h x) = tcmu_hdr_get_len h \<and>
   (tcmu_hdr_set_len (tcmu_hdr_set_op h x) len = tcmu_hdr_set_op (tcmu_hdr_set_len h len) x \<longleftrightarrow>
     take_bit 3 len OR take_bit 3 x = take_bit 3 x)"
proof (intro conjI)
  have "take_bit 3 len OR take_bit 3 x = take_bit 3 x \<longleftrightarrow> (\<forall>i<32. i < 3 \<and> bit len i \<longrightarrow> bit x i)"
    by (auto simp add: bit_eq_iff bit_simps)
  moreover have "tcmu_hdr_set_len (tcmu_hdr_set_op h x) len = tcmu_hdr_set_op (tcmu_hdr_set_len h len) x
      \<longleftrightarrow> (\<forall>i<32. i < 3 \<and> bit len i \<longrightarrow> bit x i)"
    by (auto simp add: bit_eq_iff tcmu_bits)
  ultimately show "tcmu_hdr_set_len (tcmu_hdr_set_op h x) len =
      tcmu_hdr_set_op (tcmu_hdr_set_len h len) x \<longleftrightarrow>
    take_bit 3 len OR take_bit 3 x = take_bit 3 x" by simp
qed (auto intro!: bit_word_eqI simp add: tcmu_bits op_mask bit_simps)

end
