(* ===== verification/Kvm_Arm64_Regs.thy ===== *)
theory Kvm_Arm64_Regs
  imports Packed_Codes C_Layout
begin

text \<open>
  The identifiers under which the registers of a 64-bit ARM guest are read and written, \<^verbatim>\<open>arch/arm64/asm/kvm.h\<close>
  with the common parts of \<^verbatim>\<open>include/linux/kvm.h\<close>: 64-bit numbers with the architecture, the size of the
  register, the family and an index whose fields depend on the family. \<open>reg_of\<close> takes an identifier apart with
  the masks that the header gives as a key.
\<close>

section \<open>Parts of an identifier\<close>

definition KVM_REG_ARCH_MASK :: u64 where "KVM_REG_ARCH_MASK = 0xff00000000000000"
definition KVM_REG_ARM64 :: u64 where "KVM_REG_ARM64 = 0x6000000000000000"
definition KVM_REG_SIZE_SHIFT :: nat where "KVM_REG_SIZE_SHIFT = 52"
definition KVM_REG_SIZE_MASK :: u64 where "KVM_REG_SIZE_MASK = 0x00f0000000000000"
definition KVM_REG_SIZE_U32 :: u64 where "KVM_REG_SIZE_U32 = 0x0020000000000000"
definition KVM_REG_SIZE_U64 :: u64 where "KVM_REG_SIZE_U64 = 0x0030000000000000"
definition KVM_REG_SIZE_U128 :: u64 where "KVM_REG_SIZE_U128 = 0x0040000000000000"
definition KVM_REG_SIZE_U256 :: u64 where "KVM_REG_SIZE_U256 = 0x0050000000000000"
definition KVM_REG_SIZE_U512 :: u64 where "KVM_REG_SIZE_U512 = 0x0060000000000000"
definition KVM_REG_SIZE_U2048 :: u64 where "KVM_REG_SIZE_U2048 = 0x0080000000000000"

definition KVM_REG_SIZE :: "u64 \<Rightarrow> u32" where
  "KVM_REG_SIZE i = push_bit (unat (drop_bit KVM_REG_SIZE_SHIFT (i AND KVM_REG_SIZE_MASK))) 1"

definition KVM_REG_ARM_COPROC_MASK :: u64 where "KVM_REG_ARM_COPROC_MASK = 0x000000000FFF0000"
definition KVM_REG_ARM_COPROC_SHIFT :: nat where "KVM_REG_ARM_COPROC_SHIFT = 16"
definition KVM_REG_ARM_CORE :: u64 where "KVM_REG_ARM_CORE = push_bit KVM_REG_ARM_COPROC_SHIFT 0x0010"
definition KVM_REG_ARM_DEMUX :: u64 where "KVM_REG_ARM_DEMUX = push_bit KVM_REG_ARM_COPROC_SHIFT 0x0011"
definition KVM_REG_ARM_DEMUX_ID_MASK :: u64 where "KVM_REG_ARM_DEMUX_ID_MASK = 0x000000000000FF00"
definition KVM_REG_ARM_DEMUX_ID_SHIFT :: nat where "KVM_REG_ARM_DEMUX_ID_SHIFT = 8"
definition KVM_REG_ARM_DEMUX_VAL_MASK :: u64 where "KVM_REG_ARM_DEMUX_VAL_MASK = 0x00000000000000FF"
definition KVM_REG_ARM_DEMUX_VAL_SHIFT :: nat where "KVM_REG_ARM_DEMUX_VAL_SHIFT = 0"
definition KVM_REG_ARM64_SYSREG :: u64 where "KVM_REG_ARM64_SYSREG = push_bit KVM_REG_ARM_COPROC_SHIFT 0x0013"
definition KVM_REG_ARM_FW :: u64 where "KVM_REG_ARM_FW = push_bit KVM_REG_ARM_COPROC_SHIFT 0x0014"
definition KVM_REG_ARM64_SVE :: u64 where "KVM_REG_ARM64_SVE = push_bit KVM_REG_ARM_COPROC_SHIFT 0x15"

section \<open>Core registers\<close>

definition user_pt_regs :: "(string \<times> ctype) list" where
  "user_pt_regs = [(''regs'', Arr u64_t 31), (''sp'', u64_t), (''pc'', u64_t), (''pstate'', u64_t)]"

text \<open>\<^verbatim>\<open>__uint128_t\<close> is aligned to its 16 bytes.\<close>

definition user_fpsimd_state :: "(string \<times> ctype) list" where
  "user_fpsimd_state = [(''vregs'', Arr (Aligned 16 (Scalar 16)) 32), (''fpsr'', u32_t), (''fpcr'', u32_t),
     (''__reserved'', Arr u32_t 2)]"

definition KVM_NR_SPSR :: nat where "KVM_NR_SPSR = 5"

definition kvm_regs :: "(string \<times> ctype) list" where
  "kvm_regs = [(''regs'', c_struct user_pt_regs), (''sp_el1'', u64_t), (''elr_el1'', u64_t),
     (''spsr'', Arr u64_t KVM_NR_SPSR), (''fp_regs'', c_struct user_fpsimd_state)]"

text \<open>The index of a member of \<^verbatim>\<open>struct kvm_regs\<close>: its offset in words of four bytes.\<close>

definition KVM_REG_ARM_CORE_REG :: "string \<Rightarrow> nat option" where
  "KVM_REG_ARM_CORE_REG name = map_option (\<lambda>off. off div 4) (offset_from 8 kvm_regs name 0)"

section \<open>System registers\<close>

definition KVM_REG_ARM64_SYSREG_OP0_MASK :: u64 where "KVM_REG_ARM64_SYSREG_OP0_MASK = 0x000000000000c000"
definition KVM_REG_ARM64_SYSREG_OP0_SHIFT :: nat where "KVM_REG_ARM64_SYSREG_OP0_SHIFT = 14"
definition KVM_REG_ARM64_SYSREG_OP1_MASK :: u64 where "KVM_REG_ARM64_SYSREG_OP1_MASK = 0x0000000000003800"
definition KVM_REG_ARM64_SYSREG_OP1_SHIFT :: nat where "KVM_REG_ARM64_SYSREG_OP1_SHIFT = 11"
definition KVM_REG_ARM64_SYSREG_CRN_MASK :: u64 where "KVM_REG_ARM64_SYSREG_CRN_MASK = 0x0000000000000780"
definition KVM_REG_ARM64_SYSREG_CRN_SHIFT :: nat where "KVM_REG_ARM64_SYSREG_CRN_SHIFT = 7"
definition KVM_REG_ARM64_SYSREG_CRM_MASK :: u64 where "KVM_REG_ARM64_SYSREG_CRM_MASK = 0x0000000000000078"
definition KVM_REG_ARM64_SYSREG_CRM_SHIFT :: nat where "KVM_REG_ARM64_SYSREG_CRM_SHIFT = 3"
definition KVM_REG_ARM64_SYSREG_OP2_MASK :: u64 where "KVM_REG_ARM64_SYSREG_OP2_MASK = 0x0000000000000007"
definition KVM_REG_ARM64_SYSREG_OP2_SHIFT :: nat where "KVM_REG_ARM64_SYSREG_OP2_SHIFT = 0"

lemmas sysreg_fields =
  KVM_REG_ARM64_SYSREG_OP0_MASK_def KVM_REG_ARM64_SYSREG_OP0_SHIFT_def
  KVM_REG_ARM64_SYSREG_OP1_MASK_def KVM_REG_ARM64_SYSREG_OP1_SHIFT_def
  KVM_REG_ARM64_SYSREG_CRN_MASK_def KVM_REG_ARM64_SYSREG_CRN_SHIFT_def
  KVM_REG_ARM64_SYSREG_CRM_MASK_def KVM_REG_ARM64_SYSREG_CRM_SHIFT_def
  KVM_REG_ARM64_SYSREG_OP2_MASK_def KVM_REG_ARM64_SYSREG_OP2_SHIFT_def

text \<open>The macro pastes the field's name; here its shift and mask are arguments.\<close>

definition ARM64_SYS_REG_SHIFT_MASK :: "u64 \<Rightarrow> nat \<Rightarrow> u64 \<Rightarrow> u64" where
  "ARM64_SYS_REG_SHIFT_MASK x shift m = push_bit shift x AND m"

definition ARM64_SYS_REG_base :: "u64 \<Rightarrow> u64 \<Rightarrow> u64 \<Rightarrow> u64 \<Rightarrow> u64 \<Rightarrow> u64" where
  "ARM64_SYS_REG_base op0 op1 crn crm op2 =
     KVM_REG_ARM64 OR KVM_REG_ARM64_SYSREG OR
     ARM64_SYS_REG_SHIFT_MASK op0 KVM_REG_ARM64_SYSREG_OP0_SHIFT KVM_REG_ARM64_SYSREG_OP0_MASK OR
     ARM64_SYS_REG_SHIFT_MASK op1 KVM_REG_ARM64_SYSREG_OP1_SHIFT KVM_REG_ARM64_SYSREG_OP1_MASK OR
     ARM64_SYS_REG_SHIFT_MASK crn KVM_REG_ARM64_SYSREG_CRN_SHIFT KVM_REG_ARM64_SYSREG_CRN_MASK OR
     ARM64_SYS_REG_SHIFT_MASK crm KVM_REG_ARM64_SYSREG_CRM_SHIFT KVM_REG_ARM64_SYSREG_CRM_MASK OR
     ARM64_SYS_REG_SHIFT_MASK op2 KVM_REG_ARM64_SYSREG_OP2_SHIFT KVM_REG_ARM64_SYSREG_OP2_MASK"

definition ARM64_SYS_REG :: "u64 \<Rightarrow> u64 \<Rightarrow> u64 \<Rightarrow> u64 \<Rightarrow> u64 \<Rightarrow> u64" where
  "ARM64_SYS_REG op0 op1 crn crm op2 = ARM64_SYS_REG_base op0 op1 crn crm op2 OR KVM_REG_SIZE_U64"

definition KVM_REG_ARM_PTIMER_CTL :: u64 where "KVM_REG_ARM_PTIMER_CTL = ARM64_SYS_REG 3 3 14 2 1"
definition KVM_REG_ARM_PTIMER_CVAL :: u64 where "KVM_REG_ARM_PTIMER_CVAL = ARM64_SYS_REG 3 3 14 2 2"
definition KVM_REG_ARM_PTIMER_CNT :: u64 where "KVM_REG_ARM_PTIMER_CNT = ARM64_SYS_REG 3 3 14 0 1"
definition KVM_REG_ARM_TIMER_CTL :: u64 where "KVM_REG_ARM_TIMER_CTL = ARM64_SYS_REG 3 3 14 3 1"
definition KVM_REG_ARM_TIMER_CVAL :: u64 where "KVM_REG_ARM_TIMER_CVAL = ARM64_SYS_REG 3 3 14 0 2"
definition KVM_REG_ARM_TIMER_CNT :: u64 where "KVM_REG_ARM_TIMER_CNT = ARM64_SYS_REG 3 3 14 3 2"

section \<open>Firmware and vector registers\<close>

definition KVM_REG_ARM_FW_REG :: "u64 \<Rightarrow> u64" where
  "KVM_REG_ARM_FW_REG r = KVM_REG_ARM64 OR KVM_REG_SIZE_U64 OR KVM_REG_ARM_FW OR (r AND 0xffff)"

definition KVM_REG_ARM64_SVE_ZREG_BASE :: u64 where "KVM_REG_ARM64_SVE_ZREG_BASE = 0"
definition KVM_REG_ARM64_SVE_PREG_BASE :: u64 where "KVM_REG_ARM64_SVE_PREG_BASE = 0x400"
definition KVM_REG_ARM64_SVE_FFR_BASE :: u64 where "KVM_REG_ARM64_SVE_FFR_BASE = 0x600"
definition KVM_ARM64_SVE_NUM_ZREGS :: u64 where "KVM_ARM64_SVE_NUM_ZREGS = 32"
definition KVM_ARM64_SVE_NUM_PREGS :: u64 where "KVM_ARM64_SVE_NUM_PREGS = 16"
definition KVM_ARM64_SVE_MAX_SLICES :: u64 where "KVM_ARM64_SVE_MAX_SLICES = 32"

definition KVM_REG_ARM64_SVE_ZREG :: "u64 \<Rightarrow> u64 \<Rightarrow> u64" where
  "KVM_REG_ARM64_SVE_ZREG n i = KVM_REG_ARM64 OR KVM_REG_ARM64_SVE OR KVM_REG_ARM64_SVE_ZREG_BASE OR
     KVM_REG_SIZE_U2048 OR push_bit 5 (n AND (KVM_ARM64_SVE_NUM_ZREGS - 1)) OR (i AND (KVM_ARM64_SVE_MAX_SLICES - 1))"

definition KVM_REG_ARM64_SVE_PREG :: "u64 \<Rightarrow> u64 \<Rightarrow> u64" where
  "KVM_REG_ARM64_SVE_PREG n i = KVM_REG_ARM64 OR KVM_REG_ARM64_SVE OR KVM_REG_ARM64_SVE_PREG_BASE OR
     KVM_REG_SIZE_U256 OR push_bit 5 (n AND (KVM_ARM64_SVE_NUM_PREGS - 1)) OR (i AND (KVM_ARM64_SVE_MAX_SLICES - 1))"

definition KVM_REG_ARM64_SVE_FFR :: "u64 \<Rightarrow> u64" where
  "KVM_REG_ARM64_SVE_FFR i = KVM_REG_ARM64 OR KVM_REG_ARM64_SVE OR KVM_REG_ARM64_SVE_FFR_BASE OR
     KVM_REG_SIZE_U256 OR (i AND (KVM_ARM64_SVE_MAX_SLICES - 1))"

definition KVM_REG_ARM64_SVE_VLS :: u64 where
  "KVM_REG_ARM64_SVE_VLS = KVM_REG_ARM64 OR KVM_REG_ARM64_SVE OR KVM_REG_SIZE_U512 OR 0xffff"

section \<open>Registers and their identifiers\<close>

datatype arm64_reg =
    Core u64 u64
  | Demux u64 u64 u64
  | Sysreg u64 u64 u64 u64 u64
  | Firmware u64
  | Zreg u64 u64
  | Preg u64 u64
  | Ffr u64
  | Vls

text \<open>
  A core register has the code of its size (32, 64 or 128 bits, by the type of the member) and an index below the
  size of \<^verbatim>\<open>struct kvm_regs\<close> in words; a demultiplexed one the code of its size, a kind and a value.
\<close>

fun reg_id :: "arm64_reg \<Rightarrow> u64" where
  "reg_id (Core sz k) = KVM_REG_ARM64 OR push_bit KVM_REG_SIZE_SHIFT sz OR KVM_REG_ARM_CORE OR k"
| "reg_id (Demux sz d v) = KVM_REG_ARM64 OR push_bit KVM_REG_SIZE_SHIFT sz OR KVM_REG_ARM_DEMUX OR
     push_bit KVM_REG_ARM_DEMUX_ID_SHIFT d OR push_bit KVM_REG_ARM_DEMUX_VAL_SHIFT v"
| "reg_id (Sysreg op0 op1 crn crm op2) = ARM64_SYS_REG op0 op1 crn crm op2"
| "reg_id (Firmware r) = KVM_REG_ARM_FW_REG r"
| "reg_id (Zreg n i) = KVM_REG_ARM64_SVE_ZREG n i"
| "reg_id (Preg n i) = KVM_REG_ARM64_SVE_PREG n i"
| "reg_id (Ffr i) = KVM_REG_ARM64_SVE_FFR i"
| "reg_id Vls = KVM_REG_ARM64_SVE_VLS"

fun reg_ok :: "arm64_reg \<Rightarrow> bool" where
  "reg_ok (Core sz k) = (2 \<le> sz \<and> sz \<le> 4 \<and> k < word_of_nat (sizeof 8 (c_struct kvm_regs) div 4))"
| "reg_ok (Demux sz d v) = (fits 4 sz \<and> fits 8 d \<and> fits 8 v)"
| "reg_ok (Sysreg op0 op1 crn crm op2) = (fits 2 op0 \<and> fits 3 op1 \<and> fits 4 crn \<and> fits 4 crm \<and> fits 3 op2)"
| "reg_ok (Firmware r) = fits 16 r"
| "reg_ok (Zreg n i) = (n < KVM_ARM64_SVE_NUM_ZREGS \<and> i < KVM_ARM64_SVE_MAX_SLICES)"
| "reg_ok (Preg n i) = (n < KVM_ARM64_SVE_NUM_PREGS \<and> i < KVM_ARM64_SVE_MAX_SLICES)"
| "reg_ok (Ffr i) = (i < KVM_ARM64_SVE_MAX_SLICES)"
| "reg_ok Vls = True"

text \<open>How many bytes the value of a register has; the vector registers come in slices of 2048 bits.\<close>

fun reg_bytes :: "arm64_reg \<Rightarrow> u32" where
  "reg_bytes (Core sz k) = push_bit (unat sz) 1"
| "reg_bytes (Demux sz d v) = push_bit (unat sz) 1"
| "reg_bytes (Zreg n i) = 256"
| "reg_bytes (Preg n i) = 32"
| "reg_bytes (Ffr i) = 32"
| "reg_bytes Vls = 64"
| "reg_bytes _ = 8"

definition reg_of :: "u64 \<Rightarrow> arm64_reg option" where
  "reg_of i = (let cop = drop_bit KVM_REG_ARM_COPROC_SHIFT (i AND KVM_REG_ARM_COPROC_MASK) in
     if i AND KVM_REG_ARCH_MASK \<noteq> KVM_REG_ARM64 then None
     else if cop = 0x10 then Some (Core (drop_bit KVM_REG_SIZE_SHIFT (i AND KVM_REG_SIZE_MASK)) (field_at 0 16 i))
     else if cop = 0x11 then Some (Demux (drop_bit KVM_REG_SIZE_SHIFT (i AND KVM_REG_SIZE_MASK))
       (drop_bit KVM_REG_ARM_DEMUX_ID_SHIFT (i AND KVM_REG_ARM_DEMUX_ID_MASK))
       (drop_bit KVM_REG_ARM_DEMUX_VAL_SHIFT (i AND KVM_REG_ARM_DEMUX_VAL_MASK)))
     else if cop = 0x13 then Some (Sysreg
       (drop_bit KVM_REG_ARM64_SYSREG_OP0_SHIFT (i AND KVM_REG_ARM64_SYSREG_OP0_MASK))
       (drop_bit KVM_REG_ARM64_SYSREG_OP1_SHIFT (i AND KVM_REG_ARM64_SYSREG_OP1_MASK))
       (drop_bit KVM_REG_ARM64_SYSREG_CRN_SHIFT (i AND KVM_REG_ARM64_SYSREG_CRN_MASK))
       (drop_bit KVM_REG_ARM64_SYSREG_CRM_SHIFT (i AND KVM_REG_ARM64_SYSREG_CRM_MASK))
       (drop_bit KVM_REG_ARM64_SYSREG_OP2_SHIFT (i AND KVM_REG_ARM64_SYSREG_OP2_MASK)))
     else if cop = 0x14 then Some (Firmware (field_at 0 16 i))
     else if cop = 0x15 then
       (if field_at 0 16 i = 0xffff then Some Vls
        else if field_at 10 1 i = 0 then Some (Zreg (field_at 5 5 i) (field_at 0 5 i))
        else if field_at 9 1 i = 0 then Some (Preg (field_at 5 4 i) (field_at 0 5 i))
        else Some (Ffr (field_at 0 5 i)))
     else None)"

lemma and_field:
  "i AND push_bit s (mask w) = place s w (field_at s w (i :: 'a::len word))"
  by (rule bit_word_eqI) (auto simp add: bit_simps bit_place bit_field_at)

lemma drop_and_field:
  "s + w \<le> LENGTH('a) \<Longrightarrow> drop_bit s (i AND push_bit s (mask w)) = field_at s w (i :: 'a::len word)"
  by (rule bit_word_eqI) (auto simp add: bit_simps bit_field_at)

lemma shift_and_field: "push_bit s x AND push_bit s (mask w) = place s w (x :: 'a::len word)"
  by (rule bit_word_eqI) (auto simp add: bit_simps bit_place)

lemma reg_places:
  "KVM_REG_ARM64 = place 56 8 0x60"
  "KVM_REG_SIZE_U64 = place 52 4 3" "KVM_REG_SIZE_U256 = place 52 4 5"
  "KVM_REG_SIZE_U512 = place 52 4 6" "KVM_REG_SIZE_U2048 = place 52 4 8"
  "KVM_REG_ARM_CORE = place 16 12 0x10" "KVM_REG_ARM_DEMUX = place 16 12 0x11" "KVM_REG_ARM64_SYSREG = place 16 12 0x13"
  "KVM_REG_ARM_FW = place 16 12 0x14" "KVM_REG_ARM64_SVE = place 16 12 0x15"
  "KVM_REG_ARM64_SVE_ZREG_BASE = 0" "KVM_REG_ARM64_SVE_PREG_BASE = place 10 1 1"
  "KVM_REG_ARM64_SVE_FFR_BASE = place 9 1 1 OR place 10 1 1"
  by (simp_all add: KVM_REG_ARM64_def KVM_REG_SIZE_U64_def KVM_REG_SIZE_U256_def KVM_REG_SIZE_U512_def
      KVM_REG_SIZE_U2048_def KVM_REG_ARM_CORE_def KVM_REG_ARM_DEMUX_def KVM_REG_ARM64_SYSREG_def KVM_REG_ARM_FW_def
      KVM_REG_ARM64_SVE_def KVM_REG_ARM64_SVE_ZREG_BASE_def KVM_REG_ARM64_SVE_PREG_BASE_def
      KVM_REG_ARM64_SVE_FFR_BASE_def KVM_REG_ARM_COPROC_SHIFT_def place_def mask_eq_exp_minus_1)

lemma reg_masks:
  "KVM_REG_ARCH_MASK = push_bit 56 (mask 8)" "KVM_REG_SIZE_MASK = push_bit 52 (mask 4)"
  "KVM_REG_ARM_COPROC_MASK = push_bit 16 (mask 12)"
  "KVM_REG_ARM_DEMUX_ID_MASK = push_bit 8 (mask 8)" "KVM_REG_ARM_DEMUX_VAL_MASK = push_bit 0 (mask 8)"
  "KVM_REG_ARM64_SYSREG_OP0_MASK = push_bit 14 (mask 2)" "KVM_REG_ARM64_SYSREG_OP1_MASK = push_bit 11 (mask 3)"
  "KVM_REG_ARM64_SYSREG_CRN_MASK = push_bit 7 (mask 4)" "KVM_REG_ARM64_SYSREG_CRM_MASK = push_bit 3 (mask 4)"
  "KVM_REG_ARM64_SYSREG_OP2_MASK = push_bit 0 (mask 3)"
  by (simp_all add: KVM_REG_ARCH_MASK_def KVM_REG_SIZE_MASK_def KVM_REG_ARM_COPROC_MASK_def sysreg_fields
      KVM_REG_ARM_DEMUX_ID_MASK_def KVM_REG_ARM_DEMUX_VAL_MASK_def
      mask_eq_exp_minus_1)

lemma slice_masks:
  "KVM_ARM64_SVE_NUM_ZREGS - 1 = mask 5" "KVM_ARM64_SVE_NUM_PREGS - 1 = mask 4"
  "KVM_ARM64_SVE_MAX_SLICES - 1 = mask 5" "(0xffff :: u64) = mask 16"
  by (simp_all add: KVM_ARM64_SVE_NUM_ZREGS_def KVM_ARM64_SVE_NUM_PREGS_def KVM_ARM64_SVE_MAX_SLICES_def
      mask_eq_exp_minus_1)

text \<open>Every identifier as its fields side by side.\<close>

lemma reg_id_fields:
  "fits 4 sz \<Longrightarrow> fits 16 k \<Longrightarrow> reg_id (Core sz k) = place 56 8 0x60 OR place 52 4 sz OR place 16 12 0x10 OR place 0 16 k"
  "fits 4 sz \<Longrightarrow> fits 8 d \<Longrightarrow> fits 8 v \<Longrightarrow>
     reg_id (Demux sz d v) = place 56 8 0x60 OR place 52 4 sz OR place 16 12 0x11 OR place 8 8 d OR place 0 8 v"
  "reg_id (Sysreg op0 op1 crn crm op2) = place 56 8 0x60 OR place 16 12 0x13 OR place 14 2 op0 OR place 11 3 op1 OR
     place 7 4 crn OR place 3 4 crm OR place 0 3 op2 OR place 52 4 3"
  "reg_id (Firmware r) = place 56 8 0x60 OR place 52 4 3 OR place 16 12 0x14 OR place 0 16 r"
  "reg_id (Zreg n i) = place 56 8 0x60 OR place 16 12 0x15 OR place 52 4 8 OR place 5 5 n OR place 0 5 i"
  "reg_id (Preg n i) = place 56 8 0x60 OR place 16 12 0x15 OR place 10 1 1 OR place 52 4 5 OR place 5 4 n OR place 0 5 i"
  "reg_id (Ffr i) = place 56 8 0x60 OR place 16 12 0x15 OR (place 9 1 1 OR place 10 1 1) OR place 52 4 5 OR place 0 5 i"
  "reg_id Vls = place 56 8 0x60 OR place 16 12 0x15 OR place 52 4 6 OR place 0 16 (mask 16)"
  by (simp_all add: ARM64_SYS_REG_def ARM64_SYS_REG_base_def ARM64_SYS_REG_SHIFT_MASK_def
      KVM_REG_ARM_FW_REG_def KVM_REG_ARM64_SVE_ZREG_def KVM_REG_ARM64_SVE_PREG_def KVM_REG_ARM64_SVE_FFR_def
      KVM_REG_ARM64_SVE_VLS_def reg_places reg_masks slice_masks KVM_REG_SIZE_SHIFT_def push_bit_place
      KVM_REG_ARM_DEMUX_ID_SHIFT_def KVM_REG_ARM_DEMUX_VAL_SHIFT_def
      shift_and_field KVM_REG_ARM64_SYSREG_OP0_SHIFT_def KVM_REG_ARM64_SYSREG_OP1_SHIFT_def
      KVM_REG_ARM64_SYSREG_CRN_SHIFT_def KVM_REG_ARM64_SYSREG_CRM_SHIFT_def KVM_REG_ARM64_SYSREG_OP2_SHIFT_def)
    (simp_all add: place_def fits_and_mask or.assoc)

lemma place_eq_iff:
  "s + w \<le> LENGTH('a) \<Longrightarrow> place s w x = place s w y \<longleftrightarrow> x AND mask w = (y :: 'a::len word) AND mask w"
  by (metis field_at_place place_def)

lemma field_at_clip: "field_at s w i AND mask w = field_at s w (i :: 'a::len word)"
  by (simp add: field_at_def and.assoc)

lemma reg_getters:
  "drop_bit KVM_REG_SIZE_SHIFT (i AND KVM_REG_SIZE_MASK) = field_at 52 4 i"
  "drop_bit KVM_REG_ARM_COPROC_SHIFT (i AND KVM_REG_ARM_COPROC_MASK) = field_at 16 12 i"
  "drop_bit KVM_REG_ARM_DEMUX_ID_SHIFT (i AND KVM_REG_ARM_DEMUX_ID_MASK) = field_at 8 8 i"
  "drop_bit KVM_REG_ARM_DEMUX_VAL_SHIFT (i AND KVM_REG_ARM_DEMUX_VAL_MASK) = field_at 0 8 i"
  "drop_bit KVM_REG_ARM64_SYSREG_OP0_SHIFT (i AND KVM_REG_ARM64_SYSREG_OP0_MASK) = field_at 14 2 i"
  "drop_bit KVM_REG_ARM64_SYSREG_OP1_SHIFT (i AND KVM_REG_ARM64_SYSREG_OP1_MASK) = field_at 11 3 i"
  "drop_bit KVM_REG_ARM64_SYSREG_CRN_SHIFT (i AND KVM_REG_ARM64_SYSREG_CRN_MASK) = field_at 7 4 i"
  "drop_bit KVM_REG_ARM64_SYSREG_CRM_SHIFT (i AND KVM_REG_ARM64_SYSREG_CRM_MASK) = field_at 3 4 i"
  "drop_bit KVM_REG_ARM64_SYSREG_OP2_SHIFT (i AND KVM_REG_ARM64_SYSREG_OP2_MASK) = field_at 0 3 i"
  unfolding reg_masks KVM_REG_ARM_COPROC_SHIFT_def KVM_REG_SIZE_SHIFT_def
    KVM_REG_ARM_DEMUX_ID_SHIFT_def KVM_REG_ARM_DEMUX_VAL_SHIFT_def
    KVM_REG_ARM64_SYSREG_OP0_SHIFT_def KVM_REG_ARM64_SYSREG_OP1_SHIFT_def KVM_REG_ARM64_SYSREG_CRN_SHIFT_def
    KVM_REG_ARM64_SYSREG_CRM_SHIFT_def KVM_REG_ARM64_SYSREG_OP2_SHIFT_def
  by (rule drop_and_field, simp)+

lemma reg_of_fields:
  "reg_of i = (let cop = field_at 16 12 i in
     if field_at 56 8 i \<noteq> 0x60 then None
     else if cop = 0x10 then Some (Core (field_at 52 4 i) (field_at 0 16 i))
     else if cop = 0x11 then Some (Demux (field_at 52 4 i) (field_at 8 8 i) (field_at 0 8 i))
     else if cop = 0x13 then Some (Sysreg (field_at 14 2 i) (field_at 11 3 i) (field_at 7 4 i) (field_at 3 4 i) (field_at 0 3 i))
     else if cop = 0x14 then Some (Firmware (field_at 0 16 i))
     else if cop = 0x15 then
       (if field_at 0 16 i = 0xffff then Some Vls
        else if field_at 10 1 i = 0 then Some (Zreg (field_at 5 5 i) (field_at 0 5 i))
        else if field_at 9 1 i = 0 then Some (Preg (field_at 5 4 i) (field_at 0 5 i))
        else Some (Ffr (field_at 0 5 i)))
     else None)"
proof -
  have "i AND KVM_REG_ARCH_MASK = KVM_REG_ARM64 \<longleftrightarrow> field_at 56 8 i = 0x60"
    using place_eq_iff [of 56 8 "field_at 56 8 i" "0x60"]
    by (simp add: reg_masks reg_places(1) and_field field_at_clip) (simp add: mask_eq_exp_minus_1)
  then show ?thesis
    unfolding reg_of_def reg_getters by (simp only:)
qed

lemma reg_size_field: "KVM_REG_SIZE i = push_bit (unat (field_at 52 4 i)) 1"
  by (simp only: KVM_REG_SIZE_def reg_getters)

lemma not_vls: "\<not> bit i 15 \<Longrightarrow> field_at 0 16 (i :: u64) \<noteq> 0xffff"
proof
  assume "\<not> bit i 15" "field_at 0 16 i = 0xffff"
  moreover have "bit (0xffff :: u64) 15" by simp
  ultimately show False using bit_field_at [of 0 16 i 15] by simp
qed

lemma code_fits:
  "fits 8 (0x60 :: u64)" "fits 12 (0x10 :: u64)" "fits 12 (0x11 :: u64)" "fits 12 (0x13 :: u64)" "fits 12 (0x14 :: u64)"
  "fits 12 (0x15 :: u64)" "fits 4 (3 :: u64)" "fits 4 (5 :: u64)" "fits 4 (6 :: u64)" "fits 4 (8 :: u64)"
  "fits (Suc 0) (1 :: u64)" "fits 16 (mask 16 :: u64)"
  by (simp_all add: fits_def mask_eq_exp_minus_1)

section \<open>Properties\<close>

text \<open>
  C23: Every register has an identifier of its own: the masks of the header give back the family, the index of a
  core register, the kind and value of a demultiplexed one, the operands of a system register, and the number and slice of a vector register, and \<^verbatim>\<open>KVM_REG_SIZE\<close> gives the size of its
  value.
\<close>

theorem arm64_reg_roundtrip:
  assumes "reg_ok r"
  shows "reg_of (reg_id r) = Some r \<and> KVM_REG_SIZE (reg_id r) = reg_bytes r"
proof (cases r)
  case (Core sz k)
  then have "sizeof 8 (c_struct kvm_regs) div 4 = 216" "2 \<le> sz" "sz \<le> 4" using assms
    by (simp_all add: kvm_regs_def user_pt_regs_def user_fpsimd_state_def c_struct_def KVM_NR_SPSR_def align_up_def)
  with Core assms have "fits 4 sz" "fits 16 k"
    by (simp_all add: fits_iff_less word_less_nat_alt word_le_nat_alt)
  then show ?thesis
    by (simp only: reg_of_fields reg_size_field Core reg_id_fields)
      (simp add: fields fits_and_mask code_fits)
next
  case (Demux sz d v)
  with assms have "fits 4 sz" "fits 8 d" "fits 8 v" by simp_all
  then show ?thesis
    by (simp only: reg_of_fields reg_size_field Demux reg_id_fields)
      (simp add: fields fits_and_mask code_fits)
next
  case (Sysreg op0 op1 crn crm op2)
  with assms show ?thesis
    by (simp only: reg_of_fields reg_size_field Sysreg reg_id_fields) (simp add: fields fits_and_mask code_fits)
next
  case (Firmware r)
  with assms show ?thesis
    by (simp only: reg_of_fields reg_size_field Firmware reg_id_fields) (simp add: fields fits_and_mask code_fits)
next
  case (Zreg n i)
  with assms have "fits 5 n" "fits 5 i"
    by (simp_all add: fits_iff_less KVM_ARM64_SVE_NUM_ZREGS_def KVM_ARM64_SVE_MAX_SLICES_def)
  then have f: "field_at 56 8 (reg_id r) = 0x60" "field_at 16 12 (reg_id r) = 0x15" "field_at 52 4 (reg_id r) = 8"
    "field_at 10 1 (reg_id r) = 0" "field_at 5 5 (reg_id r) = n" "field_at 0 5 (reg_id r) = i"
    unfolding Zreg reg_id_fields by (simp_all add: fields fits_and_mask code_fits)
  have "\<not> bit (reg_id r) 15" unfolding Zreg reg_id_fields by (simp add: bit_or_iff bit_place)
  from f not_vls [OF this] show ?thesis
    by (simp add: reg_of_fields reg_size_field Zreg del: reg_id.simps)
next
  case (Preg n i)
  with assms have "fits 4 n" "fits 5 i"
    by (simp_all add: fits_iff_less KVM_ARM64_SVE_NUM_PREGS_def KVM_ARM64_SVE_MAX_SLICES_def)
  then have f: "field_at 56 8 (reg_id r) = 0x60" "field_at 16 12 (reg_id r) = 0x15" "field_at 52 4 (reg_id r) = 5"
    "field_at 10 1 (reg_id r) = 1" "field_at 9 1 (reg_id r) = 0" "field_at 5 4 (reg_id r) = n" "field_at 0 5 (reg_id r) = i"
    unfolding Preg reg_id_fields by (simp_all add: fields fits_and_mask code_fits)
  have "\<not> bit (reg_id r) 15" unfolding Preg reg_id_fields by (simp add: bit_or_iff bit_place)
  from f not_vls [OF this] show ?thesis
    by (simp add: reg_of_fields reg_size_field Preg del: reg_id.simps)
next
  case (Ffr i)
  with assms have "fits 5 i" by (simp add: fits_iff_less KVM_ARM64_SVE_MAX_SLICES_def)
  then have f: "field_at 56 8 (reg_id r) = 0x60" "field_at 16 12 (reg_id r) = 0x15" "field_at 52 4 (reg_id r) = 5"
    "field_at 10 1 (reg_id r) = 1" "field_at 9 1 (reg_id r) = 1" "field_at 0 5 (reg_id r) = i"
    unfolding Ffr reg_id_fields by (simp_all add: fields fits_and_mask code_fits)
  have "\<not> bit (reg_id r) 15" unfolding Ffr reg_id_fields by (simp add: bit_or_iff bit_place)
  from f not_vls [OF this] show ?thesis
    by (simp add: reg_of_fields reg_size_field Ffr del: reg_id.simps)
next
  case Vls
  then show ?thesis
    by (simp only: reg_of_fields reg_size_field Vls reg_id_fields) (simp add: fields fits_and_mask code_fits slice_masks)
qed

theorem arm64_reg_roundtrip_witness:
  "reg_of (reg_id (Sysreg 3 3 14 3 1)) = Some (Sysreg 3 3 14 3 1) \<and> KVM_REG_SIZE (reg_id (Preg 15 2)) = 32"
  using arm64_reg_roundtrip [of "Sysreg 3 3 14 3 1"] arm64_reg_roundtrip [of "Preg 15 2"]
  by (simp add: fits_def KVM_ARM64_SVE_NUM_PREGS_def KVM_ARM64_SVE_MAX_SLICES_def del: reg_id.simps)

text \<open>
  The virtual timer's compare value and counter are swapped, as the header warns: the identifier called \<^verbatim>\<open>CVAL\<close>
  is that of the counter register (\<open>CRm = 0\<close>) and \<^verbatim>\<open>CNT\<close> that of the compare register (\<open>CRm = 3\<close>), unlike
  those of the physical timer.
\<close>

theorem arm64_timer_swapped:
  "reg_of KVM_REG_ARM_TIMER_CVAL = Some (Sysreg 3 3 14 0 2) \<and> reg_of KVM_REG_ARM_TIMER_CNT = Some (Sysreg 3 3 14 3 2) \<and>
   reg_of KVM_REG_ARM_PTIMER_CVAL = Some (Sysreg 3 3 14 2 2) \<and> reg_of KVM_REG_ARM_PTIMER_CNT = Some (Sysreg 3 3 14 0 1)"
  by code_simp

end
