(* ===== verification/Wire_Virtio.thy ===== *)
theory Wire_Virtio
  imports Abi_Request
begin

text \<open>
  The structures that drivers of virtual devices exchange with the hypervisor: configuration spaces, request and
  response headers and event records of \<^verbatim>\<open>include/linux/virtio_*.h\<close>. A guest of any kind runs on a host of any
  kind, so a structure has to be the same for every compiler.
\<close>

section \<open>\<^verbatim>\<open>include/linux/virtio_9p.h\<close>\<close>

definition struct_virtio_9p_config :: ctype where
  "struct_virtio_9p_config = c_packed [
     (''tag_len'', u16_t),
     (''tag'', Arr u8_t 0)]"

definition virtio_virtio_9p_structs :: "ctype list" where
  "virtio_virtio_9p_structs = [struct_virtio_9p_config]"

section \<open>\<^verbatim>\<open>include/linux/virtio_balloon.h\<close>\<close>

definition struct_virtio_balloon_config :: ctype where
  "struct_virtio_balloon_config = c_struct [
     (''num_pages'', u32_t),
     (''actual'', u32_t),
     ('''', c_union [ (''free_page_hint_cmd_id'', u32_t), (''free_page_report_cmd_id'', u32_t)]),
     (''poison_val'', u32_t)]"

definition struct_virtio_balloon_stat :: ctype where
  "struct_virtio_balloon_stat = c_packed [
     (''tag'', u16_t),
     (''val'', u64_t)]"

definition virtio_virtio_balloon_structs :: "ctype list" where
  "virtio_virtio_balloon_structs = [struct_virtio_balloon_config, struct_virtio_balloon_stat]"

section \<open>\<^verbatim>\<open>include/linux/virtio_blk.h\<close>\<close>

definition struct_virtio_blk_config :: ctype where
  "struct_virtio_blk_config = c_packed [
     (''capacity'', u64_t),
     (''size_max'', u32_t),
     (''seg_max'', u32_t),
     (''geometry'', c_struct [ (''cylinders'', u16_t), (''heads'', u8_t), (''sectors'', u8_t)]),
     (''blk_size'', u32_t),
     (''physical_block_exp'', u8_t),
     (''alignment_offset'', u8_t),
     (''min_io_size'', u16_t),
     (''opt_io_size'', u32_t),
     (''wce'', u8_t),
     (''unused'', u8_t),
     (''num_queues'', u16_t),
     (''max_discard_sectors'', u32_t),
     (''max_discard_seg'', u32_t),
     (''discard_sector_alignment'', u32_t),
     (''max_write_zeroes_sectors'', u32_t),
     (''max_write_zeroes_seg'', u32_t),
     (''write_zeroes_may_unmap'', u8_t),
     (''unused1'', Arr u8_t 3)]"

definition struct_virtio_blk_outhdr :: ctype where
  "struct_virtio_blk_outhdr = c_struct [
     (''type'', u32_t),
     (''ioprio'', u32_t),
     (''sector'', u64_t)]"

definition struct_virtio_blk_discard_write_zeroes :: ctype where
  "struct_virtio_blk_discard_write_zeroes = c_struct [
     (''sector'', u64_t),
     (''num_sectors'', u32_t),
     (''flags'', u32_t)]"

definition struct_virtio_scsi_inhdr :: ctype where
  "struct_virtio_scsi_inhdr = c_struct [
     (''errors'', u32_t),
     (''data_len'', u32_t),
     (''sense_len'', u32_t),
     (''residual'', u32_t)]"

definition virtio_virtio_blk_structs :: "ctype list" where
  "virtio_virtio_blk_structs = [struct_virtio_blk_config, struct_virtio_blk_outhdr, struct_virtio_blk_discard_write_zeroes,
     struct_virtio_scsi_inhdr]"

section \<open>\<^verbatim>\<open>include/linux/virtio_bt.h\<close>\<close>

definition struct_virtio_bt_config :: ctype where
  "struct_virtio_bt_config = c_packed [
     (''type'', u8_t),
     (''vendor'', u16_t),
     (''msft_opcode'', u16_t)]"

definition virtio_virtio_bt_structs :: "ctype list" where
  "virtio_virtio_bt_structs = [struct_virtio_bt_config]"

section \<open>\<^verbatim>\<open>include/linux/virtio_console.h\<close>\<close>

definition struct_virtio_console_config :: ctype where
  "struct_virtio_console_config = c_packed [
     (''cols'', u16_t),
     (''rows'', u16_t),
     (''max_nr_ports'', u32_t),
     (''emerg_wr'', u32_t)]"

definition struct_virtio_console_control :: ctype where
  "struct_virtio_console_control = c_struct [
     (''id'', u32_t),
     (''event'', u16_t),
     (''value'', u16_t)]"

definition virtio_virtio_console_structs :: "ctype list" where
  "virtio_virtio_console_structs = [struct_virtio_console_config, struct_virtio_console_control]"

section \<open>\<^verbatim>\<open>include/linux/virtio_crypto.h\<close>\<close>

definition struct_virtio_crypto_ctrl_header :: ctype where
  "struct_virtio_crypto_ctrl_header = c_struct [
     (''opcode'', u32_t),
     (''algo'', u32_t),
     (''flag'', u32_t),
     (''queue_id'', u32_t)]"

definition struct_virtio_crypto_cipher_session_para :: ctype where
  "struct_virtio_crypto_cipher_session_para = c_struct [
     (''algo'', u32_t),
     (''keylen'', u32_t),
     (''op'', u32_t),
     (''padding'', u32_t)]"

definition struct_virtio_crypto_session_input :: ctype where
  "struct_virtio_crypto_session_input = c_struct [
     (''session_id'', u64_t),
     (''status'', u32_t),
     (''padding'', u32_t)]"

definition struct_virtio_crypto_cipher_session_req :: ctype where
  "struct_virtio_crypto_cipher_session_req = c_struct [
     (''para'', struct_virtio_crypto_cipher_session_para),
     (''padding'', Arr u8_t 32)]"

definition struct_virtio_crypto_hash_session_para :: ctype where
  "struct_virtio_crypto_hash_session_para = c_struct [
     (''algo'', u32_t),
     (''hash_result_len'', u32_t),
     (''padding'', Arr u8_t 8)]"

definition struct_virtio_crypto_hash_create_session_req :: ctype where
  "struct_virtio_crypto_hash_create_session_req = c_struct [
     (''para'', struct_virtio_crypto_hash_session_para),
     (''padding'', Arr u8_t 40)]"

definition struct_virtio_crypto_mac_session_para :: ctype where
  "struct_virtio_crypto_mac_session_para = c_struct [
     (''algo'', u32_t),
     (''hash_result_len'', u32_t),
     (''auth_key_len'', u32_t),
     (''padding'', u32_t)]"

definition struct_virtio_crypto_mac_create_session_req :: ctype where
  "struct_virtio_crypto_mac_create_session_req = c_struct [
     (''para'', struct_virtio_crypto_mac_session_para),
     (''padding'', Arr u8_t 40)]"

definition struct_virtio_crypto_aead_session_para :: ctype where
  "struct_virtio_crypto_aead_session_para = c_struct [
     (''algo'', u32_t),
     (''key_len'', u32_t),
     (''hash_result_len'', u32_t),
     (''aad_len'', u32_t),
     (''op'', u32_t),
     (''padding'', u32_t)]"

definition struct_virtio_crypto_aead_create_session_req :: ctype where
  "struct_virtio_crypto_aead_create_session_req = c_struct [
     (''para'', struct_virtio_crypto_aead_session_para),
     (''padding'', Arr u8_t 32)]"

definition struct_virtio_crypto_alg_chain_session_para :: ctype where
  "struct_virtio_crypto_alg_chain_session_para = c_struct [
     (''alg_chain_order'', u32_t),
     (''hash_mode'', u32_t),
     (''cipher_param'', struct_virtio_crypto_cipher_session_para),
     (''u'', c_union [ (''hash_param'', struct_virtio_crypto_hash_session_para), (''mac_param'', struct_virtio_crypto_mac_session_para), (''padding'', Arr u8_t 16)]),
     (''aad_len'', u32_t),
     (''padding'', u32_t)]"

definition struct_virtio_crypto_alg_chain_session_req :: ctype where
  "struct_virtio_crypto_alg_chain_session_req = c_struct [
     (''para'', struct_virtio_crypto_alg_chain_session_para)]"

definition struct_virtio_crypto_sym_create_session_req :: ctype where
  "struct_virtio_crypto_sym_create_session_req = c_struct [
     (''u'', c_union [ (''cipher'', struct_virtio_crypto_cipher_session_req), (''chain'', struct_virtio_crypto_alg_chain_session_req), (''padding'', Arr u8_t 48)]),
     (''op_type'', u32_t),
     (''padding'', u32_t)]"

definition struct_virtio_crypto_destroy_session_req :: ctype where
  "struct_virtio_crypto_destroy_session_req = c_struct [
     (''session_id'', u64_t),
     (''padding'', Arr u8_t 48)]"

definition struct_virtio_crypto_op_ctrl_req :: ctype where
  "struct_virtio_crypto_op_ctrl_req = c_struct [
     (''header'', struct_virtio_crypto_ctrl_header),
     (''u'', c_union [ (''sym_create_session'', struct_virtio_crypto_sym_create_session_req), (''hash_create_session'', struct_virtio_crypto_hash_create_session_req), (''mac_create_session'', struct_virtio_crypto_mac_create_session_req), (''aead_create_session'', struct_virtio_crypto_aead_create_session_req), (''destroy_session'', struct_virtio_crypto_destroy_session_req), (''padding'', Arr u8_t 56)])]"

definition struct_virtio_crypto_op_header :: ctype where
  "struct_virtio_crypto_op_header = c_struct [
     (''opcode'', u32_t),
     (''algo'', u32_t),
     (''session_id'', u64_t),
     (''flag'', u32_t),
     (''padding'', u32_t)]"

definition struct_virtio_crypto_cipher_para :: ctype where
  "struct_virtio_crypto_cipher_para = c_struct [
     (''iv_len'', u32_t),
     (''src_data_len'', u32_t),
     (''dst_data_len'', u32_t),
     (''padding'', u32_t)]"

definition struct_virtio_crypto_hash_para :: ctype where
  "struct_virtio_crypto_hash_para = c_struct [
     (''src_data_len'', u32_t),
     (''hash_result_len'', u32_t)]"

definition struct_virtio_crypto_mac_para :: ctype where
  "struct_virtio_crypto_mac_para = c_struct [
     (''hash'', struct_virtio_crypto_hash_para)]"

definition struct_virtio_crypto_aead_para :: ctype where
  "struct_virtio_crypto_aead_para = c_struct [
     (''iv_len'', u32_t),
     (''aad_len'', u32_t),
     (''src_data_len'', u32_t),
     (''dst_data_len'', u32_t)]"

definition struct_virtio_crypto_cipher_data_req :: ctype where
  "struct_virtio_crypto_cipher_data_req = c_struct [
     (''para'', struct_virtio_crypto_cipher_para),
     (''padding'', Arr u8_t 24)]"

definition struct_virtio_crypto_hash_data_req :: ctype where
  "struct_virtio_crypto_hash_data_req = c_struct [
     (''para'', struct_virtio_crypto_hash_para),
     (''padding'', Arr u8_t 40)]"

definition struct_virtio_crypto_mac_data_req :: ctype where
  "struct_virtio_crypto_mac_data_req = c_struct [
     (''para'', struct_virtio_crypto_mac_para),
     (''padding'', Arr u8_t 40)]"

definition struct_virtio_crypto_alg_chain_data_para :: ctype where
  "struct_virtio_crypto_alg_chain_data_para = c_struct [
     (''iv_len'', u32_t),
     (''src_data_len'', u32_t),
     (''dst_data_len'', u32_t),
     (''cipher_start_src_offset'', u32_t),
     (''len_to_cipher'', u32_t),
     (''hash_start_src_offset'', u32_t),
     (''len_to_hash'', u32_t),
     (''aad_len'', u32_t),
     (''hash_result_len'', u32_t),
     (''reserved'', u32_t)]"

definition struct_virtio_crypto_alg_chain_data_req :: ctype where
  "struct_virtio_crypto_alg_chain_data_req = c_struct [
     (''para'', struct_virtio_crypto_alg_chain_data_para)]"

definition struct_virtio_crypto_sym_data_req :: ctype where
  "struct_virtio_crypto_sym_data_req = c_struct [
     (''u'', c_union [ (''cipher'', struct_virtio_crypto_cipher_data_req), (''chain'', struct_virtio_crypto_alg_chain_data_req), (''padding'', Arr u8_t 40)]),
     (''op_type'', u32_t),
     (''padding'', u32_t)]"

definition struct_virtio_crypto_aead_data_req :: ctype where
  "struct_virtio_crypto_aead_data_req = c_struct [
     (''para'', struct_virtio_crypto_aead_para),
     (''padding'', Arr u8_t 32)]"

definition struct_virtio_crypto_op_data_req :: ctype where
  "struct_virtio_crypto_op_data_req = c_struct [
     (''header'', struct_virtio_crypto_op_header),
     (''u'', c_union [ (''sym_req'', struct_virtio_crypto_sym_data_req), (''hash_req'', struct_virtio_crypto_hash_data_req), (''mac_req'', struct_virtio_crypto_mac_data_req), (''aead_req'', struct_virtio_crypto_aead_data_req), (''padding'', Arr u8_t 48)])]"

definition struct_virtio_crypto_config :: ctype where
  "struct_virtio_crypto_config = c_struct [
     (''status'', u32_t),
     (''max_dataqueues'', u32_t),
     (''crypto_services'', u32_t),
     (''cipher_algo_l'', u32_t),
     (''cipher_algo_h'', u32_t),
     (''hash_algo'', u32_t),
     (''mac_algo_l'', u32_t),
     (''mac_algo_h'', u32_t),
     (''aead_algo'', u32_t),
     (''max_cipher_key_len'', u32_t),
     (''max_auth_key_len'', u32_t),
     (''reserve'', u32_t),
     (''max_size'', u64_t)]"

definition struct_virtio_crypto_inhdr :: ctype where
  "struct_virtio_crypto_inhdr = c_struct [
     (''status'', u8_t)]"

definition virtio_virtio_crypto_structs :: "ctype list" where
  "virtio_virtio_crypto_structs = [struct_virtio_crypto_ctrl_header, struct_virtio_crypto_cipher_session_para,
     struct_virtio_crypto_session_input, struct_virtio_crypto_cipher_session_req,
     struct_virtio_crypto_hash_session_para, struct_virtio_crypto_hash_create_session_req,
     struct_virtio_crypto_mac_session_para, struct_virtio_crypto_mac_create_session_req,
     struct_virtio_crypto_aead_session_para, struct_virtio_crypto_aead_create_session_req,
     struct_virtio_crypto_alg_chain_session_para, struct_virtio_crypto_alg_chain_session_req,
     struct_virtio_crypto_sym_create_session_req, struct_virtio_crypto_destroy_session_req,
     struct_virtio_crypto_op_ctrl_req, struct_virtio_crypto_op_header, struct_virtio_crypto_cipher_para,
     struct_virtio_crypto_hash_para, struct_virtio_crypto_mac_para, struct_virtio_crypto_aead_para,
     struct_virtio_crypto_cipher_data_req, struct_virtio_crypto_hash_data_req, struct_virtio_crypto_mac_data_req,
     struct_virtio_crypto_alg_chain_data_para, struct_virtio_crypto_alg_chain_data_req,
     struct_virtio_crypto_sym_data_req, struct_virtio_crypto_aead_data_req, struct_virtio_crypto_op_data_req,
     struct_virtio_crypto_config, struct_virtio_crypto_inhdr]"

section \<open>\<^verbatim>\<open>include/linux/virtio_fs.h\<close>\<close>

definition struct_virtio_fs_config :: ctype where
  "struct_virtio_fs_config = c_packed [
     (''tag'', Arr u8_t 36),
     (''num_request_queues'', u32_t)]"

definition virtio_virtio_fs_structs :: "ctype list" where
  "virtio_virtio_fs_structs = [struct_virtio_fs_config]"

section \<open>\<^verbatim>\<open>include/linux/virtio_gpio.h\<close>\<close>

definition struct_virtio_gpio_config :: ctype where
  "struct_virtio_gpio_config = c_packed [
     (''ngpio'', u16_t),
     (''padding'', Arr u8_t 2),
     (''gpio_names_size'', u32_t)]"

definition struct_virtio_gpio_request :: ctype where
  "struct_virtio_gpio_request = c_struct [
     (''type'', u16_t),
     (''gpio'', u16_t),
     (''value'', u32_t)]"

definition struct_virtio_gpio_response :: ctype where
  "struct_virtio_gpio_response = c_struct [
     (''status'', u8_t),
     (''value'', u8_t)]"

definition struct_virtio_gpio_response_get_names :: ctype where
  "struct_virtio_gpio_response_get_names = c_struct [
     (''status'', u8_t),
     (''value'', Arr u8_t 0)]"

definition virtio_virtio_gpio_structs :: "ctype list" where
  "virtio_virtio_gpio_structs = [struct_virtio_gpio_config, struct_virtio_gpio_request, struct_virtio_gpio_response,
     struct_virtio_gpio_response_get_names]"

section \<open>\<^verbatim>\<open>include/linux/virtio_gpu.h\<close>\<close>

definition struct_virtio_gpu_ctrl_hdr :: ctype where
  "struct_virtio_gpu_ctrl_hdr = c_struct [
     (''type'', u32_t),
     (''flags'', u32_t),
     (''fence_id'', u64_t),
     (''ctx_id'', u32_t),
     (''padding'', u32_t)]"

definition struct_virtio_gpu_cursor_pos :: ctype where
  "struct_virtio_gpu_cursor_pos = c_struct [
     (''scanout_id'', u32_t),
     (''x'', u32_t),
     (''y'', u32_t),
     (''padding'', u32_t)]"

definition struct_virtio_gpu_update_cursor :: ctype where
  "struct_virtio_gpu_update_cursor = c_struct [
     (''hdr'', struct_virtio_gpu_ctrl_hdr),
     (''pos'', struct_virtio_gpu_cursor_pos),
     (''resource_id'', u32_t),
     (''hot_x'', u32_t),
     (''hot_y'', u32_t),
     (''padding'', u32_t)]"

definition struct_virtio_gpu_rect :: ctype where
  "struct_virtio_gpu_rect = c_struct [
     (''x'', u32_t),
     (''y'', u32_t),
     (''width'', u32_t),
     (''height'', u32_t)]"

definition struct_virtio_gpu_resource_unref :: ctype where
  "struct_virtio_gpu_resource_unref = c_struct [
     (''hdr'', struct_virtio_gpu_ctrl_hdr),
     (''resource_id'', u32_t),
     (''padding'', u32_t)]"

definition struct_virtio_gpu_resource_create_2d :: ctype where
  "struct_virtio_gpu_resource_create_2d = c_struct [
     (''hdr'', struct_virtio_gpu_ctrl_hdr),
     (''resource_id'', u32_t),
     (''format'', u32_t),
     (''width'', u32_t),
     (''height'', u32_t)]"

definition struct_virtio_gpu_set_scanout :: ctype where
  "struct_virtio_gpu_set_scanout = c_struct [
     (''hdr'', struct_virtio_gpu_ctrl_hdr),
     (''r'', struct_virtio_gpu_rect),
     (''scanout_id'', u32_t),
     (''resource_id'', u32_t)]"

definition struct_virtio_gpu_resource_flush :: ctype where
  "struct_virtio_gpu_resource_flush = c_struct [
     (''hdr'', struct_virtio_gpu_ctrl_hdr),
     (''r'', struct_virtio_gpu_rect),
     (''resource_id'', u32_t),
     (''padding'', u32_t)]"

definition struct_virtio_gpu_transfer_to_host_2d :: ctype where
  "struct_virtio_gpu_transfer_to_host_2d = c_struct [
     (''hdr'', struct_virtio_gpu_ctrl_hdr),
     (''r'', struct_virtio_gpu_rect),
     (''offset'', u64_t),
     (''resource_id'', u32_t),
     (''padding'', u32_t)]"

definition struct_virtio_gpu_mem_entry :: ctype where
  "struct_virtio_gpu_mem_entry = c_struct [
     (''addr'', u64_t),
     (''length'', u32_t),
     (''padding'', u32_t)]"

definition struct_virtio_gpu_resource_attach_backing :: ctype where
  "struct_virtio_gpu_resource_attach_backing = c_struct [
     (''hdr'', struct_virtio_gpu_ctrl_hdr),
     (''resource_id'', u32_t),
     (''nr_entries'', u32_t)]"

definition struct_virtio_gpu_resource_detach_backing :: ctype where
  "struct_virtio_gpu_resource_detach_backing = c_struct [
     (''hdr'', struct_virtio_gpu_ctrl_hdr),
     (''resource_id'', u32_t),
     (''padding'', u32_t)]"

definition struct_virtio_gpu_resp_display_info :: ctype where
  "struct_virtio_gpu_resp_display_info = c_struct [
     (''hdr'', struct_virtio_gpu_ctrl_hdr),
     (''pmodes'', Arr (c_struct [ (''r'', struct_virtio_gpu_rect), (''enabled'', u32_t), (''flags'', u32_t)]) 16)]"

definition struct_virtio_gpu_box :: ctype where
  "struct_virtio_gpu_box = c_struct [
     (''x'', u32_t),
     (''y'', u32_t),
     (''z'', u32_t),
     (''w'', u32_t),
     (''h'', u32_t),
     (''d'', u32_t)]"

definition struct_virtio_gpu_transfer_host_3d :: ctype where
  "struct_virtio_gpu_transfer_host_3d = c_struct [
     (''hdr'', struct_virtio_gpu_ctrl_hdr),
     (''box'', struct_virtio_gpu_box),
     (''offset'', u64_t),
     (''resource_id'', u32_t),
     (''level'', u32_t),
     (''stride'', u32_t),
     (''layer_stride'', u32_t)]"

definition struct_virtio_gpu_resource_create_3d :: ctype where
  "struct_virtio_gpu_resource_create_3d = c_struct [
     (''hdr'', struct_virtio_gpu_ctrl_hdr),
     (''resource_id'', u32_t),
     (''target'', u32_t),
     (''format'', u32_t),
     (''bind'', u32_t),
     (''width'', u32_t),
     (''height'', u32_t),
     (''depth'', u32_t),
     (''array_size'', u32_t),
     (''last_level'', u32_t),
     (''nr_samples'', u32_t),
     (''flags'', u32_t),
     (''padding'', u32_t)]"

definition struct_virtio_gpu_ctx_create :: ctype where
  "struct_virtio_gpu_ctx_create = c_struct [
     (''hdr'', struct_virtio_gpu_ctrl_hdr),
     (''nlen'', u32_t),
     (''padding'', u32_t),
     (''debug_name'', Arr u8_t 64)]"

definition struct_virtio_gpu_ctx_destroy :: ctype where
  "struct_virtio_gpu_ctx_destroy = c_struct [
     (''hdr'', struct_virtio_gpu_ctrl_hdr)]"

definition struct_virtio_gpu_ctx_resource :: ctype where
  "struct_virtio_gpu_ctx_resource = c_struct [
     (''hdr'', struct_virtio_gpu_ctrl_hdr),
     (''resource_id'', u32_t),
     (''padding'', u32_t)]"

definition struct_virtio_gpu_cmd_submit :: ctype where
  "struct_virtio_gpu_cmd_submit = c_struct [
     (''hdr'', struct_virtio_gpu_ctrl_hdr),
     (''size'', u32_t),
     (''padding'', u32_t)]"

definition struct_virtio_gpu_get_capset_info :: ctype where
  "struct_virtio_gpu_get_capset_info = c_struct [
     (''hdr'', struct_virtio_gpu_ctrl_hdr),
     (''capset_index'', u32_t),
     (''padding'', u32_t)]"

definition struct_virtio_gpu_resp_capset_info :: ctype where
  "struct_virtio_gpu_resp_capset_info = c_struct [
     (''hdr'', struct_virtio_gpu_ctrl_hdr),
     (''capset_id'', u32_t),
     (''capset_max_version'', u32_t),
     (''capset_max_size'', u32_t),
     (''padding'', u32_t)]"

definition struct_virtio_gpu_get_capset :: ctype where
  "struct_virtio_gpu_get_capset = c_struct [
     (''hdr'', struct_virtio_gpu_ctrl_hdr),
     (''capset_id'', u32_t),
     (''capset_version'', u32_t)]"

definition struct_virtio_gpu_resp_capset :: ctype where
  "struct_virtio_gpu_resp_capset = c_struct [
     (''hdr'', struct_virtio_gpu_ctrl_hdr),
     (''capset_data'', Arr u8_t 0)]"

definition struct_virtio_gpu_cmd_get_edid :: ctype where
  "struct_virtio_gpu_cmd_get_edid = c_struct [
     (''hdr'', struct_virtio_gpu_ctrl_hdr),
     (''scanout'', u32_t),
     (''padding'', u32_t)]"

definition struct_virtio_gpu_resp_edid :: ctype where
  "struct_virtio_gpu_resp_edid = c_struct [
     (''hdr'', struct_virtio_gpu_ctrl_hdr),
     (''size'', u32_t),
     (''padding'', u32_t),
     (''edid'', Arr u8_t 1024)]"

definition struct_virtio_gpu_config :: ctype where
  "struct_virtio_gpu_config = c_struct [
     (''events_read'', u32_t),
     (''events_clear'', u32_t),
     (''num_scanouts'', u32_t),
     (''num_capsets'', u32_t)]"

definition struct_virtio_gpu_resource_assign_uuid :: ctype where
  "struct_virtio_gpu_resource_assign_uuid = c_struct [
     (''hdr'', struct_virtio_gpu_ctrl_hdr),
     (''resource_id'', u32_t),
     (''padding'', u32_t)]"

definition struct_virtio_gpu_resp_resource_uuid :: ctype where
  "struct_virtio_gpu_resp_resource_uuid = c_struct [
     (''hdr'', struct_virtio_gpu_ctrl_hdr),
     (''uuid'', Arr u8_t 16)]"

definition struct_virtio_gpu_resource_create_blob :: ctype where
  "struct_virtio_gpu_resource_create_blob = c_struct [
     (''hdr'', struct_virtio_gpu_ctrl_hdr),
     (''resource_id'', u32_t),
     (''blob_mem'', u32_t),
     (''blob_flags'', u32_t),
     (''nr_entries'', u32_t),
     (''blob_id'', u64_t),
     (''size'', u64_t)]"

definition struct_virtio_gpu_set_scanout_blob :: ctype where
  "struct_virtio_gpu_set_scanout_blob = c_struct [
     (''hdr'', struct_virtio_gpu_ctrl_hdr),
     (''r'', struct_virtio_gpu_rect),
     (''scanout_id'', u32_t),
     (''resource_id'', u32_t),
     (''width'', u32_t),
     (''height'', u32_t),
     (''format'', u32_t),
     (''padding'', u32_t),
     (''strides'', Arr u32_t 4),
     (''offsets'', Arr u32_t 4)]"

definition struct_virtio_gpu_resource_map_blob :: ctype where
  "struct_virtio_gpu_resource_map_blob = c_struct [
     (''hdr'', struct_virtio_gpu_ctrl_hdr),
     (''resource_id'', u32_t),
     (''padding'', u32_t),
     (''offset'', u64_t)]"

definition struct_virtio_gpu_resp_map_info :: ctype where
  "struct_virtio_gpu_resp_map_info = c_struct [
     (''hdr'', struct_virtio_gpu_ctrl_hdr),
     (''map_info'', u32_t),
     (''padding'', u32_t)]"

definition struct_virtio_gpu_resource_unmap_blob :: ctype where
  "struct_virtio_gpu_resource_unmap_blob = c_struct [
     (''hdr'', struct_virtio_gpu_ctrl_hdr),
     (''resource_id'', u32_t),
     (''padding'', u32_t)]"

definition virtio_virtio_gpu_structs :: "ctype list" where
  "virtio_virtio_gpu_structs = [struct_virtio_gpu_ctrl_hdr, struct_virtio_gpu_cursor_pos, struct_virtio_gpu_update_cursor,
     struct_virtio_gpu_rect, struct_virtio_gpu_resource_unref, struct_virtio_gpu_resource_create_2d,
     struct_virtio_gpu_set_scanout, struct_virtio_gpu_resource_flush, struct_virtio_gpu_transfer_to_host_2d,
     struct_virtio_gpu_mem_entry, struct_virtio_gpu_resource_attach_backing,
     struct_virtio_gpu_resource_detach_backing, struct_virtio_gpu_resp_display_info, struct_virtio_gpu_box,
     struct_virtio_gpu_transfer_host_3d, struct_virtio_gpu_resource_create_3d, struct_virtio_gpu_ctx_create,
     struct_virtio_gpu_ctx_destroy, struct_virtio_gpu_ctx_resource, struct_virtio_gpu_cmd_submit,
     struct_virtio_gpu_get_capset_info, struct_virtio_gpu_resp_capset_info, struct_virtio_gpu_get_capset,
     struct_virtio_gpu_resp_capset, struct_virtio_gpu_cmd_get_edid, struct_virtio_gpu_resp_edid,
     struct_virtio_gpu_config, struct_virtio_gpu_resource_assign_uuid, struct_virtio_gpu_resp_resource_uuid,
     struct_virtio_gpu_resource_create_blob, struct_virtio_gpu_set_scanout_blob,
     struct_virtio_gpu_resource_map_blob, struct_virtio_gpu_resp_map_info, struct_virtio_gpu_resource_unmap_blob]"

section \<open>\<^verbatim>\<open>include/linux/virtio_i2c.h\<close>\<close>

definition struct_virtio_i2c_out_hdr :: ctype where
  "struct_virtio_i2c_out_hdr = c_struct [
     (''addr'', u16_t),
     (''padding'', u16_t),
     (''flags'', u32_t)]"

definition struct_virtio_i2c_in_hdr :: ctype where
  "struct_virtio_i2c_in_hdr = c_struct [
     (''status'', u8_t)]"

definition virtio_virtio_i2c_structs :: "ctype list" where
  "virtio_virtio_i2c_structs = [struct_virtio_i2c_out_hdr, struct_virtio_i2c_in_hdr]"

section \<open>\<^verbatim>\<open>include/linux/virtio_input.h\<close>\<close>

definition struct_virtio_input_absinfo :: ctype where
  "struct_virtio_input_absinfo = c_struct [
     (''min'', u32_t),
     (''max'', u32_t),
     (''fuzz'', u32_t),
     (''flat'', u32_t),
     (''res'', u32_t)]"

definition struct_virtio_input_devids :: ctype where
  "struct_virtio_input_devids = c_struct [
     (''bustype'', u16_t),
     (''vendor'', u16_t),
     (''product'', u16_t),
     (''version'', u16_t)]"

definition struct_virtio_input_config :: ctype where
  "struct_virtio_input_config = c_struct [
     (''select'', u8_t),
     (''subsel'', u8_t),
     (''size'', u8_t),
     (''reserved'', Arr u8_t 5),
     (''u'', c_union [ (''string'', Arr u8_t 128), (''bitmap'', Arr u8_t 128), (''abs'', struct_virtio_input_absinfo), (''ids'', struct_virtio_input_devids)])]"

definition struct_virtio_input_event :: ctype where
  "struct_virtio_input_event = c_struct [
     (''type'', u16_t),
     (''code'', u16_t),
     (''value'', u32_t)]"

definition virtio_virtio_input_structs :: "ctype list" where
  "virtio_virtio_input_structs = [struct_virtio_input_absinfo, struct_virtio_input_devids, struct_virtio_input_config, struct_virtio_input_event]"

section \<open>\<^verbatim>\<open>include/linux/virtio_iommu.h\<close>\<close>

definition struct_virtio_iommu_range_64 :: ctype where
  "struct_virtio_iommu_range_64 = c_struct [
     (''start'', u64_t),
     (''end'', u64_t)]"

definition struct_virtio_iommu_range_32 :: ctype where
  "struct_virtio_iommu_range_32 = c_struct [
     (''start'', u32_t),
     (''end'', u32_t)]"

definition struct_virtio_iommu_config :: ctype where
  "struct_virtio_iommu_config = c_struct [
     (''page_size_mask'', u64_t),
     (''input_range'', struct_virtio_iommu_range_64),
     (''domain_range'', struct_virtio_iommu_range_32),
     (''probe_size'', u32_t)]"

definition struct_virtio_iommu_req_head :: ctype where
  "struct_virtio_iommu_req_head = c_struct [
     (''type'', u8_t),
     (''reserved'', Arr u8_t 3)]"

definition struct_virtio_iommu_req_tail :: ctype where
  "struct_virtio_iommu_req_tail = c_struct [
     (''status'', u8_t),
     (''reserved'', Arr u8_t 3)]"

definition struct_virtio_iommu_req_attach :: ctype where
  "struct_virtio_iommu_req_attach = c_struct [
     (''head'', struct_virtio_iommu_req_head),
     (''domain'', u32_t),
     (''endpoint'', u32_t),
     (''reserved'', Arr u8_t 8),
     (''tail'', struct_virtio_iommu_req_tail)]"

definition struct_virtio_iommu_req_detach :: ctype where
  "struct_virtio_iommu_req_detach = c_struct [
     (''head'', struct_virtio_iommu_req_head),
     (''domain'', u32_t),
     (''endpoint'', u32_t),
     (''reserved'', Arr u8_t 8),
     (''tail'', struct_virtio_iommu_req_tail)]"

definition struct_virtio_iommu_req_map :: ctype where
  "struct_virtio_iommu_req_map = c_struct [
     (''head'', struct_virtio_iommu_req_head),
     (''domain'', u32_t),
     (''virt_start'', u64_t),
     (''virt_end'', u64_t),
     (''phys_start'', u64_t),
     (''flags'', u32_t),
     (''tail'', struct_virtio_iommu_req_tail)]"

definition struct_virtio_iommu_req_unmap :: ctype where
  "struct_virtio_iommu_req_unmap = c_struct [
     (''head'', struct_virtio_iommu_req_head),
     (''domain'', u32_t),
     (''virt_start'', u64_t),
     (''virt_end'', u64_t),
     (''reserved'', Arr u8_t 4),
     (''tail'', struct_virtio_iommu_req_tail)]"

definition struct_virtio_iommu_probe_property :: ctype where
  "struct_virtio_iommu_probe_property = c_struct [
     (''type'', u16_t),
     (''length'', u16_t)]"

definition struct_virtio_iommu_probe_resv_mem :: ctype where
  "struct_virtio_iommu_probe_resv_mem = c_struct [
     (''head'', struct_virtio_iommu_probe_property),
     (''subtype'', u8_t),
     (''reserved'', Arr u8_t 3),
     (''start'', u64_t),
     (''end'', u64_t)]"

definition struct_virtio_iommu_req_probe :: ctype where
  "struct_virtio_iommu_req_probe = c_struct [
     (''head'', struct_virtio_iommu_req_head),
     (''endpoint'', u32_t),
     (''reserved'', Arr u8_t 64),
     (''properties'', Arr u8_t 0)]"

definition struct_virtio_iommu_fault :: ctype where
  "struct_virtio_iommu_fault = c_struct [
     (''reason'', u8_t),
     (''reserved'', Arr u8_t 3),
     (''flags'', u32_t),
     (''endpoint'', u32_t),
     (''reserved2'', Arr u8_t 4),
     (''address'', u64_t)]"

definition virtio_virtio_iommu_structs :: "ctype list" where
  "virtio_virtio_iommu_structs = [struct_virtio_iommu_range_64, struct_virtio_iommu_range_32, struct_virtio_iommu_req_head,
     struct_virtio_iommu_req_tail, struct_virtio_iommu_req_attach, struct_virtio_iommu_req_detach,
     struct_virtio_iommu_req_map, struct_virtio_iommu_req_unmap, struct_virtio_iommu_probe_property,
     struct_virtio_iommu_probe_resv_mem, struct_virtio_iommu_req_probe, struct_virtio_iommu_fault]"

section \<open>\<^verbatim>\<open>include/linux/virtio_mem.h\<close>\<close>

definition struct_virtio_mem_req_plug :: ctype where
  "struct_virtio_mem_req_plug = c_struct [
     (''addr'', u64_t),
     (''nb_blocks'', u16_t),
     (''padding'', Arr u16_t 3)]"

definition struct_virtio_mem_req_unplug :: ctype where
  "struct_virtio_mem_req_unplug = c_struct [
     (''addr'', u64_t),
     (''nb_blocks'', u16_t),
     (''padding'', Arr u16_t 3)]"

definition struct_virtio_mem_req_state :: ctype where
  "struct_virtio_mem_req_state = c_struct [
     (''addr'', u64_t),
     (''nb_blocks'', u16_t),
     (''padding'', Arr u16_t 3)]"

definition struct_virtio_mem_req :: ctype where
  "struct_virtio_mem_req = c_struct [
     (''type'', u16_t),
     (''padding'', Arr u16_t 3),
     (''u'', c_union [ (''plug'', struct_virtio_mem_req_plug), (''unplug'', struct_virtio_mem_req_unplug), (''state'', struct_virtio_mem_req_state)])]"

definition struct_virtio_mem_resp_state :: ctype where
  "struct_virtio_mem_resp_state = c_struct [
     (''state'', u16_t)]"

definition struct_virtio_mem_resp :: ctype where
  "struct_virtio_mem_resp = c_struct [
     (''type'', u16_t),
     (''padding'', Arr u16_t 3),
     (''u'', c_union [ (''state'', struct_virtio_mem_resp_state)])]"

definition struct_virtio_mem_config :: ctype where
  "struct_virtio_mem_config = c_struct [
     (''block_size'', u64_t),
     (''node_id'', u16_t),
     (''padding'', Arr u8_t 6),
     (''addr'', u64_t),
     (''region_size'', u64_t),
     (''usable_region_size'', u64_t),
     (''plugged_size'', u64_t),
     (''requested_size'', u64_t)]"

definition virtio_virtio_mem_structs :: "ctype list" where
  "virtio_virtio_mem_structs = [struct_virtio_mem_req_plug, struct_virtio_mem_req_unplug, struct_virtio_mem_req_state, struct_virtio_mem_req,
     struct_virtio_mem_resp_state, struct_virtio_mem_resp, struct_virtio_mem_config]"

section \<open>\<^verbatim>\<open>include/linux/virtio_net.h\<close>\<close>

definition struct_virtio_net_config :: ctype where
  "struct_virtio_net_config = c_packed [
     (''mac'', Arr u8_t 6),
     (''status'', u16_t),
     (''max_virtqueue_pairs'', u16_t),
     (''mtu'', u16_t),
     (''speed'', u32_t),
     (''duplex'', u8_t),
     (''rss_max_key_size'', u8_t),
     (''rss_max_indirection_table_length'', u16_t),
     (''supported_hash_types'', u32_t)]"

definition struct_virtio_net_hdr_v1 :: ctype where
  "struct_virtio_net_hdr_v1 = c_struct [
     (''flags'', u8_t),
     (''gso_type'', u8_t),
     (''hdr_len'', u16_t),
     (''gso_size'', u16_t),
     ('''', c_union [ ('''', c_struct [ (''csum_start'', u16_t), (''csum_offset'', u16_t)]), (''csum'', c_struct [ (''start'', u16_t), (''offset'', u16_t)]), (''rsc'', c_struct [ (''segments'', u16_t), (''dup_acks'', u16_t)])]),
     (''num_buffers'', u16_t)]"

definition struct_virtio_net_hdr_v1_hash :: ctype where
  "struct_virtio_net_hdr_v1_hash = c_struct [
     (''hdr'', struct_virtio_net_hdr_v1),
     (''hash_value'', u32_t),
     (''hash_report'', u16_t),
     (''padding'', u16_t)]"

definition struct_virtio_net_hdr :: ctype where
  "struct_virtio_net_hdr = c_struct [
     (''flags'', u8_t),
     (''gso_type'', u8_t),
     (''hdr_len'', u16_t),
     (''gso_size'', u16_t),
     (''csum_start'', u16_t),
     (''csum_offset'', u16_t)]"

definition struct_virtio_net_hdr_mrg_rxbuf :: ctype where
  "struct_virtio_net_hdr_mrg_rxbuf = c_struct [
     (''hdr'', struct_virtio_net_hdr),
     (''num_buffers'', u16_t)]"

definition struct_virtio_net_ctrl_hdr :: ctype where
  "struct_virtio_net_ctrl_hdr = c_packed [
     (''class'', u8_t),
     (''cmd'', u8_t)]"

definition struct_virtio_net_ctrl_mac :: ctype where
  "struct_virtio_net_ctrl_mac = c_packed [
     (''entries'', u32_t),
     (''macs'', Arr (Arr u8_t 6) 0)]"

definition struct_virtio_net_ctrl_mq :: ctype where
  "struct_virtio_net_ctrl_mq = c_struct [
     (''virtqueue_pairs'', u16_t)]"

definition struct_virtio_net_rss_config :: ctype where
  "struct_virtio_net_rss_config = c_struct [
     (''hash_types'', u32_t),
     (''indirection_table_mask'', u16_t),
     (''unclassified_queue'', u16_t),
     (''indirection_table'', Arr u16_t 1),
     (''max_tx_vq'', u16_t),
     (''hash_key_length'', u8_t),
     (''hash_key_data'', Arr u8_t 0)]"

definition struct_virtio_net_hash_config :: ctype where
  "struct_virtio_net_hash_config = c_struct [
     (''hash_types'', u32_t),
     (''reserved'', Arr u16_t 4),
     (''hash_key_length'', u8_t),
     (''hash_key_data'', Arr u8_t 0)]"

definition virtio_virtio_net_structs :: "ctype list" where
  "virtio_virtio_net_structs = [struct_virtio_net_config, struct_virtio_net_hdr_v1, struct_virtio_net_hdr_v1_hash, struct_virtio_net_hdr,
     struct_virtio_net_hdr_mrg_rxbuf, struct_virtio_net_ctrl_hdr, struct_virtio_net_ctrl_mac,
     struct_virtio_net_ctrl_mq]"

section \<open>\<^verbatim>\<open>include/linux/virtio_pci.h\<close>\<close>

definition struct_virtio_pci_cap :: ctype where
  "struct_virtio_pci_cap = c_struct [
     (''cap_vndr'', u8_t),
     (''cap_next'', u8_t),
     (''cap_len'', u8_t),
     (''cfg_type'', u8_t),
     (''bar'', u8_t),
     (''id'', u8_t),
     (''padding'', Arr u8_t 2),
     (''offset'', u32_t),
     (''length'', u32_t)]"

definition struct_virtio_pci_cap64 :: ctype where
  "struct_virtio_pci_cap64 = c_struct [
     (''cap'', struct_virtio_pci_cap),
     (''offset_hi'', u32_t),
     (''length_hi'', u32_t)]"

definition struct_virtio_pci_notify_cap :: ctype where
  "struct_virtio_pci_notify_cap = c_struct [
     (''cap'', struct_virtio_pci_cap),
     (''notify_off_multiplier'', u32_t)]"

definition struct_virtio_pci_common_cfg :: ctype where
  "struct_virtio_pci_common_cfg = c_struct [
     (''device_feature_select'', u32_t),
     (''device_feature'', u32_t),
     (''guest_feature_select'', u32_t),
     (''guest_feature'', u32_t),
     (''msix_config'', u16_t),
     (''num_queues'', u16_t),
     (''device_status'', u8_t),
     (''config_generation'', u8_t),
     (''queue_select'', u16_t),
     (''queue_size'', u16_t),
     (''queue_msix_vector'', u16_t),
     (''queue_enable'', u16_t),
     (''queue_notify_off'', u16_t),
     (''queue_desc_lo'', u32_t),
     (''queue_desc_hi'', u32_t),
     (''queue_avail_lo'', u32_t),
     (''queue_avail_hi'', u32_t),
     (''queue_used_lo'', u32_t),
     (''queue_used_hi'', u32_t)]"

definition struct_virtio_pci_cfg_cap :: ctype where
  "struct_virtio_pci_cfg_cap = c_struct [
     (''cap'', struct_virtio_pci_cap),
     (''pci_cfg_data'', Arr u8_t 4)]"

definition virtio_virtio_pci_structs :: "ctype list" where
  "virtio_virtio_pci_structs = [struct_virtio_pci_cap, struct_virtio_pci_cap64, struct_virtio_pci_notify_cap, struct_virtio_pci_common_cfg,
     struct_virtio_pci_cfg_cap]"

section \<open>\<^verbatim>\<open>include/linux/virtio_pcidev.h\<close>\<close>

definition struct_virtio_pcidev_msg :: ctype where
  "struct_virtio_pcidev_msg = c_struct [
     (''op'', u8_t),
     (''bar'', u8_t),
     (''reserved'', u16_t),
     (''size'', u32_t),
     (''addr'', u64_t),
     (''data'', Arr u8_t 0)]"

definition virtio_virtio_pcidev_structs :: "ctype list" where
  "virtio_virtio_pcidev_structs = [struct_virtio_pcidev_msg]"

section \<open>\<^verbatim>\<open>include/linux/virtio_pmem.h\<close>\<close>

definition struct_virtio_pmem_config :: ctype where
  "struct_virtio_pmem_config = c_struct [
     (''start'', u64_t),
     (''size'', u64_t)]"

definition struct_virtio_pmem_resp :: ctype where
  "struct_virtio_pmem_resp = c_struct [
     (''ret'', u32_t)]"

definition struct_virtio_pmem_req :: ctype where
  "struct_virtio_pmem_req = c_struct [
     (''type'', u32_t)]"

definition virtio_virtio_pmem_structs :: "ctype list" where
  "virtio_virtio_pmem_structs = [struct_virtio_pmem_config, struct_virtio_pmem_resp, struct_virtio_pmem_req]"

section \<open>\<^verbatim>\<open>include/linux/virtio_scsi.h\<close>\<close>

definition struct_virtio_scsi_cmd_req :: ctype where
  "struct_virtio_scsi_cmd_req = c_packed [
     (''lun'', Arr u8_t 8),
     (''tag'', u64_t),
     (''task_attr'', u8_t),
     (''prio'', u8_t),
     (''crn'', u8_t),
     (''cdb'', Arr u8_t 32)]"

definition struct_virtio_scsi_cmd_req_pi :: ctype where
  "struct_virtio_scsi_cmd_req_pi = c_packed [
     (''lun'', Arr u8_t 8),
     (''tag'', u64_t),
     (''task_attr'', u8_t),
     (''prio'', u8_t),
     (''crn'', u8_t),
     (''pi_bytesout'', u32_t),
     (''pi_bytesin'', u32_t),
     (''cdb'', Arr u8_t 32)]"

definition struct_virtio_scsi_cmd_resp :: ctype where
  "struct_virtio_scsi_cmd_resp = c_packed [
     (''sense_len'', u32_t),
     (''resid'', u32_t),
     (''status_qualifier'', u16_t),
     (''status'', u8_t),
     (''response'', u8_t),
     (''sense'', Arr u8_t 96)]"

definition struct_virtio_scsi_ctrl_tmf_req :: ctype where
  "struct_virtio_scsi_ctrl_tmf_req = c_packed [
     (''type'', u32_t),
     (''subtype'', u32_t),
     (''lun'', Arr u8_t 8),
     (''tag'', u64_t)]"

definition struct_virtio_scsi_ctrl_tmf_resp :: ctype where
  "struct_virtio_scsi_ctrl_tmf_resp = c_packed [
     (''response'', u8_t)]"

definition struct_virtio_scsi_ctrl_an_req :: ctype where
  "struct_virtio_scsi_ctrl_an_req = c_packed [
     (''type'', u32_t),
     (''lun'', Arr u8_t 8),
     (''event_requested'', u32_t)]"

definition struct_virtio_scsi_ctrl_an_resp :: ctype where
  "struct_virtio_scsi_ctrl_an_resp = c_packed [
     (''event_actual'', u32_t),
     (''response'', u8_t)]"

definition struct_virtio_scsi_event :: ctype where
  "struct_virtio_scsi_event = c_packed [
     (''event'', u32_t),
     (''lun'', Arr u8_t 8),
     (''reason'', u32_t)]"

definition struct_virtio_scsi_config :: ctype where
  "struct_virtio_scsi_config = c_packed [
     (''num_queues'', u32_t),
     (''seg_max'', u32_t),
     (''max_sectors'', u32_t),
     (''cmd_per_lun'', u32_t),
     (''event_info_size'', u32_t),
     (''sense_size'', u32_t),
     (''cdb_size'', u32_t),
     (''max_channel'', u16_t),
     (''max_target'', u16_t),
     (''max_lun'', u32_t)]"

definition virtio_virtio_scsi_structs :: "ctype list" where
  "virtio_virtio_scsi_structs = [struct_virtio_scsi_cmd_req, struct_virtio_scsi_cmd_req_pi, struct_virtio_scsi_cmd_resp,
     struct_virtio_scsi_ctrl_tmf_req, struct_virtio_scsi_ctrl_tmf_resp, struct_virtio_scsi_ctrl_an_req,
     struct_virtio_scsi_ctrl_an_resp, struct_virtio_scsi_event, struct_virtio_scsi_config]"

section \<open>\<^verbatim>\<open>include/linux/virtio_snd.h\<close>\<close>

definition struct_virtio_snd_config :: ctype where
  "struct_virtio_snd_config = c_struct [
     (''jacks'', u32_t),
     (''streams'', u32_t),
     (''chmaps'', u32_t)]"

definition struct_virtio_snd_hdr :: ctype where
  "struct_virtio_snd_hdr = c_struct [
     (''code'', u32_t)]"

definition struct_virtio_snd_event :: ctype where
  "struct_virtio_snd_event = c_struct [
     (''hdr'', struct_virtio_snd_hdr),
     (''data'', u32_t)]"

definition struct_virtio_snd_query_info :: ctype where
  "struct_virtio_snd_query_info = c_struct [
     (''hdr'', struct_virtio_snd_hdr),
     (''start_id'', u32_t),
     (''count'', u32_t),
     (''size'', u32_t)]"

definition struct_virtio_snd_info :: ctype where
  "struct_virtio_snd_info = c_struct [
     (''hda_fn_nid'', u32_t)]"

definition struct_virtio_snd_jack_hdr :: ctype where
  "struct_virtio_snd_jack_hdr = c_struct [
     (''hdr'', struct_virtio_snd_hdr),
     (''jack_id'', u32_t)]"

definition struct_virtio_snd_jack_info :: ctype where
  "struct_virtio_snd_jack_info = c_struct [
     (''hdr'', struct_virtio_snd_info),
     (''features'', u32_t),
     (''hda_reg_defconf'', u32_t),
     (''hda_reg_caps'', u32_t),
     (''connected'', u8_t),
     (''padding'', Arr u8_t 7)]"

definition struct_virtio_snd_jack_remap :: ctype where
  "struct_virtio_snd_jack_remap = c_struct [
     (''hdr'', struct_virtio_snd_jack_hdr),
     (''association'', u32_t),
     (''sequence'', u32_t)]"

definition struct_virtio_snd_pcm_hdr :: ctype where
  "struct_virtio_snd_pcm_hdr = c_struct [
     (''hdr'', struct_virtio_snd_hdr),
     (''stream_id'', u32_t)]"

definition struct_virtio_snd_pcm_info :: ctype where
  "struct_virtio_snd_pcm_info = c_struct [
     (''hdr'', struct_virtio_snd_info),
     (''features'', u32_t),
     (''formats'', u64_t),
     (''rates'', u64_t),
     (''direction'', u8_t),
     (''channels_min'', u8_t),
     (''channels_max'', u8_t),
     (''padding'', Arr u8_t 5)]"

definition struct_virtio_snd_pcm_set_params :: ctype where
  "struct_virtio_snd_pcm_set_params = c_struct [
     (''hdr'', struct_virtio_snd_pcm_hdr),
     (''buffer_bytes'', u32_t),
     (''period_bytes'', u32_t),
     (''features'', u32_t),
     (''channels'', u8_t),
     (''format'', u8_t),
     (''rate'', u8_t),
     (''padding'', u8_t)]"

definition struct_virtio_snd_pcm_xfer :: ctype where
  "struct_virtio_snd_pcm_xfer = c_struct [
     (''stream_id'', u32_t)]"

definition struct_virtio_snd_pcm_status :: ctype where
  "struct_virtio_snd_pcm_status = c_struct [
     (''status'', u32_t),
     (''latency_bytes'', u32_t)]"

definition struct_virtio_snd_chmap_hdr :: ctype where
  "struct_virtio_snd_chmap_hdr = c_struct [
     (''hdr'', struct_virtio_snd_hdr),
     (''chmap_id'', u32_t)]"

definition struct_virtio_snd_chmap_info :: ctype where
  "struct_virtio_snd_chmap_info = c_struct [
     (''hdr'', struct_virtio_snd_info),
     (''direction'', u8_t),
     (''channels'', u8_t),
     (''positions'', Arr u8_t 18)]"

definition virtio_virtio_snd_structs :: "ctype list" where
  "virtio_virtio_snd_structs = [struct_virtio_snd_config, struct_virtio_snd_hdr, struct_virtio_snd_event, struct_virtio_snd_query_info,
     struct_virtio_snd_info, struct_virtio_snd_jack_hdr, struct_virtio_snd_jack_info, struct_virtio_snd_jack_remap,
     struct_virtio_snd_pcm_hdr, struct_virtio_snd_pcm_info, struct_virtio_snd_pcm_set_params,
     struct_virtio_snd_pcm_xfer, struct_virtio_snd_pcm_status, struct_virtio_snd_chmap_hdr,
     struct_virtio_snd_chmap_info]"

section \<open>\<^verbatim>\<open>include/linux/virtio_vsock.h\<close>\<close>

definition struct_virtio_vsock_config :: ctype where
  "struct_virtio_vsock_config = c_packed [
     (''guest_cid'', u64_t)]"

definition struct_virtio_vsock_event :: ctype where
  "struct_virtio_vsock_event = c_packed [
     (''id'', u32_t)]"

definition struct_virtio_vsock_hdr :: ctype where
  "struct_virtio_vsock_hdr = c_packed [
     (''src_cid'', u64_t),
     (''dst_cid'', u64_t),
     (''src_port'', u32_t),
     (''dst_port'', u32_t),
     (''len'', u32_t),
     (''type'', u16_t),
     (''op'', u16_t),
     (''flags'', u32_t),
     (''buf_alloc'', u32_t),
     (''fwd_cnt'', u32_t)]"

definition virtio_virtio_vsock_structs :: "ctype list" where
  "virtio_virtio_vsock_structs = [struct_virtio_vsock_config, struct_virtio_vsock_event, struct_virtio_vsock_hdr]"

text \<open>The structures with padding at their end.\<close>

definition virtio_padded :: "ctype list" where
  "virtio_padded = [struct_virtio_iommu_config, struct_virtio_net_rss_config, struct_virtio_net_hash_config]"

definition virtio_structs :: "ctype list" where
  "virtio_structs = virtio_virtio_9p_structs @ virtio_virtio_balloon_structs @ virtio_virtio_blk_structs @ virtio_virtio_bt_structs @
     virtio_virtio_console_structs @ virtio_virtio_crypto_structs @ virtio_virtio_fs_structs @
     virtio_virtio_gpio_structs @ virtio_virtio_gpu_structs @ virtio_virtio_i2c_structs @ virtio_virtio_input_structs @
     virtio_virtio_iommu_structs @ virtio_virtio_mem_structs @ virtio_virtio_net_structs @ virtio_virtio_pci_structs @
     virtio_virtio_pcidev_structs @ virtio_virtio_pmem_structs @ virtio_virtio_scsi_structs @
     virtio_virtio_snd_structs @ virtio_virtio_vsock_structs"

section \<open>Properties\<close>

lemma virtio_virtio_9p_structs_tight: "list_all tight virtio_virtio_9p_structs"
  by code_simp

lemma virtio_virtio_balloon_structs_tight: "list_all tight virtio_virtio_balloon_structs"
  by code_simp

lemma virtio_virtio_blk_structs_tight: "list_all tight virtio_virtio_blk_structs"
  by code_simp

lemma virtio_virtio_bt_structs_tight: "list_all tight virtio_virtio_bt_structs"
  by code_simp

lemma virtio_virtio_console_structs_tight: "list_all tight virtio_virtio_console_structs"
  by code_simp

lemma virtio_virtio_crypto_structs_tight: "list_all tight virtio_virtio_crypto_structs"
  by code_simp

lemma virtio_virtio_fs_structs_tight: "list_all tight virtio_virtio_fs_structs"
  by code_simp

lemma virtio_virtio_gpio_structs_tight: "list_all tight virtio_virtio_gpio_structs"
  by code_simp

lemma virtio_virtio_gpu_structs_tight: "list_all tight virtio_virtio_gpu_structs"
  by code_simp

lemma virtio_virtio_i2c_structs_tight: "list_all tight virtio_virtio_i2c_structs"
  by code_simp

lemma virtio_virtio_input_structs_tight: "list_all tight virtio_virtio_input_structs"
  by code_simp

lemma virtio_virtio_iommu_structs_tight: "list_all tight virtio_virtio_iommu_structs"
  by code_simp

lemma virtio_virtio_mem_structs_tight: "list_all tight virtio_virtio_mem_structs"
  by code_simp

lemma virtio_virtio_net_structs_tight: "list_all tight virtio_virtio_net_structs"
  by code_simp

lemma virtio_virtio_pci_structs_tight: "list_all tight virtio_virtio_pci_structs"
  by code_simp

lemma virtio_virtio_pcidev_structs_tight: "list_all tight virtio_virtio_pcidev_structs"
  by code_simp

lemma virtio_virtio_pmem_structs_tight: "list_all tight virtio_virtio_pmem_structs"
  by code_simp

lemma virtio_virtio_scsi_structs_tight: "list_all tight virtio_virtio_scsi_structs"
  by code_simp

lemma virtio_virtio_snd_structs_tight: "list_all tight virtio_virtio_snd_structs"
  by code_simp

lemma virtio_virtio_vsock_structs_tight: "list_all tight virtio_virtio_vsock_structs"
  by code_simp

lemma virtio_all_tight: "list_all tight virtio_structs"
  by (simp add: virtio_structs_def virtio_virtio_9p_structs_tight virtio_virtio_balloon_structs_tight virtio_virtio_blk_structs_tight
     virtio_virtio_bt_structs_tight virtio_virtio_console_structs_tight virtio_virtio_crypto_structs_tight
     virtio_virtio_fs_structs_tight virtio_virtio_gpio_structs_tight virtio_virtio_gpu_structs_tight
     virtio_virtio_i2c_structs_tight virtio_virtio_input_structs_tight virtio_virtio_iommu_structs_tight
     virtio_virtio_mem_structs_tight virtio_virtio_net_structs_tight virtio_virtio_pci_structs_tight
     virtio_virtio_pcidev_structs_tight virtio_virtio_pmem_structs_tight virtio_virtio_scsi_structs_tight
     virtio_virtio_snd_structs_tight virtio_virtio_vsock_structs_tight)

text \<open>
  The structures of virtual devices without implicit padding, nearly all, are laid out alike, member by member, by
  every guest's ABI, and each of their bytes belongs to a member.
\<close>

theorem virtio_layout:
  assumes "t \<in> set virtio_structs"
  shows "same_everywhere t \<and> covered (leaves 8 0 t) 0 (sizeof 8 t)"
  using virtio_all_tight assms by (rule tight_types)

theorem virtio_layout_witness: "same_everywhere struct_virtio_gpu_ctrl_hdr \<and> covered (leaves 8 0 struct_virtio_gpu_ctrl_hdr) 0 (sizeof 8 struct_virtio_gpu_ctrl_hdr)"
  by (rule virtio_layout) (simp add: virtio_structs_def virtio_virtio_9p_structs_def virtio_virtio_balloon_structs_def virtio_virtio_blk_structs_def virtio_virtio_bt_structs_def virtio_virtio_console_structs_def virtio_virtio_crypto_structs_def virtio_virtio_fs_structs_def virtio_virtio_gpio_structs_def virtio_virtio_gpu_structs_def virtio_virtio_i2c_structs_def virtio_virtio_input_structs_def virtio_virtio_iommu_structs_def virtio_virtio_mem_structs_def virtio_virtio_net_structs_def virtio_virtio_pci_structs_def virtio_virtio_pcidev_structs_def virtio_virtio_pmem_structs_def virtio_virtio_scsi_structs_def virtio_virtio_snd_structs_def virtio_virtio_vsock_structs_def)

text \<open>The three others differ in the padding at their end only: their members are in the same places.\<close>

lemma virtio_padded_agree: "list_all (\<lambda>t. agree 2 t \<and> agree 4 t) virtio_padded"
  by code_simp

theorem virtio_padded_leaves:
  "list_all (\<lambda>t. leaves 2 0 t = leaves 8 0 t \<and> leaves 4 0 t = leaves 8 0 t) virtio_padded"
  using virtio_padded_agree by (auto simp add: list_all_iff intro: agree_leaves)

end
