(* ===== verification/Wire_Uverbs.thy ===== *)
theory Wire_Uverbs
  imports Abi_Request
begin

text \<open>
  The commands of the RDMA verbs, \<^verbatim>\<open>include/rdma/ib_user_verbs.h\<close>: what a program writes to the device and
  what it gets back. The header asks that all its structures pack the same way on 32-bit and 64-bit
  architectures, and holds pointers in 64-bit members.
\<close>

section \<open>\<^verbatim>\<open>include/rdma/ib_user_verbs.h\<close>\<close>

definition struct_ib_uverbs_async_event_desc :: ctype where
  "struct_ib_uverbs_async_event_desc = c_struct [
     (''element'', aligned_u64_t),
     (''event_type'', u32_t),
     (''reserved'', u32_t)]"

definition struct_ib_uverbs_comp_event_desc :: ctype where
  "struct_ib_uverbs_comp_event_desc = c_struct [
     (''cq_handle'', aligned_u64_t)]"

definition struct_ib_uverbs_cq_moderation_caps :: ctype where
  "struct_ib_uverbs_cq_moderation_caps = c_struct [
     (''max_cq_moderation_count'', u16_t),
     (''max_cq_moderation_period'', u16_t),
     (''reserved'', u32_t)]"

definition struct_ib_uverbs_cmd_hdr :: ctype where
  "struct_ib_uverbs_cmd_hdr = c_struct [
     (''command'', u32_t),
     (''in_words'', u16_t),
     (''out_words'', u16_t)]"

definition struct_ib_uverbs_ex_cmd_hdr :: ctype where
  "struct_ib_uverbs_ex_cmd_hdr = c_struct [
     (''response'', aligned_u64_t),
     (''provider_in_words'', u16_t),
     (''provider_out_words'', u16_t),
     (''cmd_hdr_reserved'', u32_t)]"

definition struct_ib_uverbs_get_context :: ctype where
  "struct_ib_uverbs_get_context = c_struct [
     (''response'', aligned_u64_t),
     (''driver_data'', Arr aligned_u64_t 0)]"

definition struct_ib_uverbs_get_context_resp :: ctype where
  "struct_ib_uverbs_get_context_resp = c_struct [
     (''async_fd'', u32_t),
     (''num_comp_vectors'', u32_t),
     (''driver_data'', Arr aligned_u64_t 0)]"

definition struct_ib_uverbs_query_device :: ctype where
  "struct_ib_uverbs_query_device = c_struct [
     (''response'', aligned_u64_t),
     (''driver_data'', Arr aligned_u64_t 0)]"

definition struct_ib_uverbs_query_device_resp :: ctype where
  "struct_ib_uverbs_query_device_resp = c_struct [
     (''fw_ver'', aligned_u64_t),
     (''node_guid'', u64_t),
     (''sys_image_guid'', u64_t),
     (''max_mr_size'', aligned_u64_t),
     (''page_size_cap'', aligned_u64_t),
     (''vendor_id'', u32_t),
     (''vendor_part_id'', u32_t),
     (''hw_ver'', u32_t),
     (''max_qp'', u32_t),
     (''max_qp_wr'', u32_t),
     (''device_cap_flags'', u32_t),
     (''max_sge'', u32_t),
     (''max_sge_rd'', u32_t),
     (''max_cq'', u32_t),
     (''max_cqe'', u32_t),
     (''max_mr'', u32_t),
     (''max_pd'', u32_t),
     (''max_qp_rd_atom'', u32_t),
     (''max_ee_rd_atom'', u32_t),
     (''max_res_rd_atom'', u32_t),
     (''max_qp_init_rd_atom'', u32_t),
     (''max_ee_init_rd_atom'', u32_t),
     (''atomic_cap'', u32_t),
     (''max_ee'', u32_t),
     (''max_rdd'', u32_t),
     (''max_mw'', u32_t),
     (''max_raw_ipv6_qp'', u32_t),
     (''max_raw_ethy_qp'', u32_t),
     (''max_mcast_grp'', u32_t),
     (''max_mcast_qp_attach'', u32_t),
     (''max_total_mcast_qp_attach'', u32_t),
     (''max_ah'', u32_t),
     (''max_fmr'', u32_t),
     (''max_map_per_fmr'', u32_t),
     (''max_srq'', u32_t),
     (''max_srq_wr'', u32_t),
     (''max_srq_sge'', u32_t),
     (''max_pkeys'', u16_t),
     (''local_ca_ack_delay'', u8_t),
     (''phys_port_cnt'', u8_t),
     (''reserved'', Arr u8_t 4)]"

definition struct_ib_uverbs_ex_query_device :: ctype where
  "struct_ib_uverbs_ex_query_device = c_struct [
     (''comp_mask'', u32_t),
     (''reserved'', u32_t)]"

definition struct_ib_uverbs_odp_caps :: ctype where
  "struct_ib_uverbs_odp_caps = c_struct [
     (''general_caps'', aligned_u64_t),
     (''per_transport_caps'', c_struct [ (''rc_odp_caps'', u32_t), (''uc_odp_caps'', u32_t), (''ud_odp_caps'', u32_t)]),
     (''reserved'', u32_t)]"

definition struct_ib_uverbs_rss_caps :: ctype where
  "struct_ib_uverbs_rss_caps = c_struct [
     (''supported_qpts'', u32_t),
     (''max_rwq_indirection_tables'', u32_t),
     (''max_rwq_indirection_table_size'', u32_t),
     (''reserved'', u32_t)]"

definition struct_ib_uverbs_tm_caps :: ctype where
  "struct_ib_uverbs_tm_caps = c_struct [
     (''max_rndv_hdr_size'', u32_t),
     (''max_num_tags'', u32_t),
     (''flags'', u32_t),
     (''max_ops'', u32_t),
     (''max_sge'', u32_t),
     (''reserved'', u32_t)]"

definition struct_ib_uverbs_ex_query_device_resp :: ctype where
  "struct_ib_uverbs_ex_query_device_resp = c_struct [
     (''base'', struct_ib_uverbs_query_device_resp),
     (''comp_mask'', u32_t),
     (''response_length'', u32_t),
     (''odp_caps'', struct_ib_uverbs_odp_caps),
     (''timestamp_mask'', aligned_u64_t),
     (''hca_core_clock'', aligned_u64_t),
     (''device_cap_flags_ex'', aligned_u64_t),
     (''rss_caps'', struct_ib_uverbs_rss_caps),
     (''max_wq_type_rq'', u32_t),
     (''raw_packet_caps'', u32_t),
     (''tm_caps'', struct_ib_uverbs_tm_caps),
     (''cq_moderation_caps'', struct_ib_uverbs_cq_moderation_caps),
     (''max_dm_size'', aligned_u64_t),
     (''xrc_odp_caps'', u32_t),
     (''reserved'', u32_t)]"

definition struct_ib_uverbs_query_port :: ctype where
  "struct_ib_uverbs_query_port = c_struct [
     (''response'', aligned_u64_t),
     (''port_num'', u8_t),
     (''reserved'', Arr u8_t 7),
     (''driver_data'', Arr aligned_u64_t 0)]"

definition struct_ib_uverbs_query_port_resp :: ctype where
  "struct_ib_uverbs_query_port_resp = c_struct [
     (''port_cap_flags'', u32_t),
     (''max_msg_sz'', u32_t),
     (''bad_pkey_cntr'', u32_t),
     (''qkey_viol_cntr'', u32_t),
     (''gid_tbl_len'', u32_t),
     (''pkey_tbl_len'', u16_t),
     (''lid'', u16_t),
     (''sm_lid'', u16_t),
     (''state'', u8_t),
     (''max_mtu'', u8_t),
     (''active_mtu'', u8_t),
     (''lmc'', u8_t),
     (''max_vl_num'', u8_t),
     (''sm_sl'', u8_t),
     (''subnet_timeout'', u8_t),
     (''init_type_reply'', u8_t),
     (''active_width'', u8_t),
     (''active_speed'', u8_t),
     (''phys_state'', u8_t),
     (''link_layer'', u8_t),
     (''flags'', u8_t),
     (''reserved'', u8_t)]"

definition struct_ib_uverbs_alloc_pd :: ctype where
  "struct_ib_uverbs_alloc_pd = c_struct [
     (''response'', aligned_u64_t),
     (''driver_data'', Arr aligned_u64_t 0)]"

definition struct_ib_uverbs_alloc_pd_resp :: ctype where
  "struct_ib_uverbs_alloc_pd_resp = c_struct [
     (''pd_handle'', u32_t),
     (''driver_data'', Arr u32_t 0)]"

definition struct_ib_uverbs_dealloc_pd :: ctype where
  "struct_ib_uverbs_dealloc_pd = c_struct [
     (''pd_handle'', u32_t)]"

definition struct_ib_uverbs_open_xrcd :: ctype where
  "struct_ib_uverbs_open_xrcd = c_struct [
     (''response'', aligned_u64_t),
     (''fd'', u32_t),
     (''oflags'', u32_t),
     (''driver_data'', Arr aligned_u64_t 0)]"

definition struct_ib_uverbs_open_xrcd_resp :: ctype where
  "struct_ib_uverbs_open_xrcd_resp = c_struct [
     (''xrcd_handle'', u32_t),
     (''driver_data'', Arr u32_t 0)]"

definition struct_ib_uverbs_close_xrcd :: ctype where
  "struct_ib_uverbs_close_xrcd = c_struct [
     (''xrcd_handle'', u32_t)]"

definition struct_ib_uverbs_reg_mr :: ctype where
  "struct_ib_uverbs_reg_mr = c_struct [
     (''response'', aligned_u64_t),
     (''start'', aligned_u64_t),
     (''length'', aligned_u64_t),
     (''hca_va'', aligned_u64_t),
     (''pd_handle'', u32_t),
     (''access_flags'', u32_t),
     (''driver_data'', Arr aligned_u64_t 0)]"

definition struct_ib_uverbs_reg_mr_resp :: ctype where
  "struct_ib_uverbs_reg_mr_resp = c_struct [
     (''mr_handle'', u32_t),
     (''lkey'', u32_t),
     (''rkey'', u32_t),
     (''driver_data'', Arr u32_t 0)]"

definition struct_ib_uverbs_rereg_mr :: ctype where
  "struct_ib_uverbs_rereg_mr = c_struct [
     (''response'', aligned_u64_t),
     (''mr_handle'', u32_t),
     (''flags'', u32_t),
     (''start'', aligned_u64_t),
     (''length'', aligned_u64_t),
     (''hca_va'', aligned_u64_t),
     (''pd_handle'', u32_t),
     (''access_flags'', u32_t),
     (''driver_data'', Arr aligned_u64_t 0)]"

definition struct_ib_uverbs_rereg_mr_resp :: ctype where
  "struct_ib_uverbs_rereg_mr_resp = c_struct [
     (''lkey'', u32_t),
     (''rkey'', u32_t),
     (''driver_data'', Arr aligned_u64_t 0)]"

definition struct_ib_uverbs_dereg_mr :: ctype where
  "struct_ib_uverbs_dereg_mr = c_struct [
     (''mr_handle'', u32_t)]"

definition struct_ib_uverbs_alloc_mw :: ctype where
  "struct_ib_uverbs_alloc_mw = c_struct [
     (''response'', aligned_u64_t),
     (''pd_handle'', u32_t),
     (''mw_type'', u8_t),
     (''reserved'', Arr u8_t 3),
     (''driver_data'', Arr aligned_u64_t 0)]"

definition struct_ib_uverbs_alloc_mw_resp :: ctype where
  "struct_ib_uverbs_alloc_mw_resp = c_struct [
     (''mw_handle'', u32_t),
     (''rkey'', u32_t),
     (''driver_data'', Arr aligned_u64_t 0)]"

definition struct_ib_uverbs_dealloc_mw :: ctype where
  "struct_ib_uverbs_dealloc_mw = c_struct [
     (''mw_handle'', u32_t)]"

definition struct_ib_uverbs_create_comp_channel :: ctype where
  "struct_ib_uverbs_create_comp_channel = c_struct [
     (''response'', aligned_u64_t)]"

definition struct_ib_uverbs_create_comp_channel_resp :: ctype where
  "struct_ib_uverbs_create_comp_channel_resp = c_struct [
     (''fd'', u32_t)]"

definition struct_ib_uverbs_create_cq :: ctype where
  "struct_ib_uverbs_create_cq = c_struct [
     (''response'', aligned_u64_t),
     (''user_handle'', aligned_u64_t),
     (''cqe'', u32_t),
     (''comp_vector'', u32_t),
     (''comp_channel'', u32_t),
     (''reserved'', u32_t),
     (''driver_data'', Arr aligned_u64_t 0)]"

definition struct_ib_uverbs_ex_create_cq :: ctype where
  "struct_ib_uverbs_ex_create_cq = c_struct [
     (''user_handle'', aligned_u64_t),
     (''cqe'', u32_t),
     (''comp_vector'', u32_t),
     (''comp_channel'', u32_t),
     (''comp_mask'', u32_t),
     (''flags'', u32_t),
     (''reserved'', u32_t)]"

definition struct_ib_uverbs_create_cq_resp :: ctype where
  "struct_ib_uverbs_create_cq_resp = c_struct [
     (''cq_handle'', u32_t),
     (''cqe'', u32_t),
     (''driver_data'', Arr aligned_u64_t 0)]"

definition struct_ib_uverbs_ex_create_cq_resp :: ctype where
  "struct_ib_uverbs_ex_create_cq_resp = c_struct [
     (''base'', struct_ib_uverbs_create_cq_resp),
     (''comp_mask'', u32_t),
     (''response_length'', u32_t)]"

definition struct_ib_uverbs_resize_cq :: ctype where
  "struct_ib_uverbs_resize_cq = c_struct [
     (''response'', aligned_u64_t),
     (''cq_handle'', u32_t),
     (''cqe'', u32_t),
     (''driver_data'', Arr aligned_u64_t 0)]"

definition struct_ib_uverbs_resize_cq_resp :: ctype where
  "struct_ib_uverbs_resize_cq_resp = c_struct [
     (''cqe'', u32_t),
     (''reserved'', u32_t),
     (''driver_data'', Arr aligned_u64_t 0)]"

definition struct_ib_uverbs_poll_cq :: ctype where
  "struct_ib_uverbs_poll_cq = c_struct [
     (''response'', aligned_u64_t),
     (''cq_handle'', u32_t),
     (''ne'', u32_t)]"

definition struct_ib_uverbs_wc :: ctype where
  "struct_ib_uverbs_wc = c_struct [
     (''wr_id'', aligned_u64_t),
     (''status'', u32_t),
     (''opcode'', u32_t),
     (''vendor_err'', u32_t),
     (''byte_len'', u32_t),
     (''ex'', c_union [ (''imm_data'', u32_t), (''invalidate_rkey'', u32_t)]),
     (''qp_num'', u32_t),
     (''src_qp'', u32_t),
     (''wc_flags'', u32_t),
     (''pkey_index'', u16_t),
     (''slid'', u16_t),
     (''sl'', u8_t),
     (''dlid_path_bits'', u8_t),
     (''port_num'', u8_t),
     (''reserved'', u8_t)]"

definition struct_ib_uverbs_poll_cq_resp :: ctype where
  "struct_ib_uverbs_poll_cq_resp = c_struct [
     (''count'', u32_t),
     (''reserved'', u32_t),
     (''wc'', Arr struct_ib_uverbs_wc 0)]"

definition struct_ib_uverbs_req_notify_cq :: ctype where
  "struct_ib_uverbs_req_notify_cq = c_struct [
     (''cq_handle'', u32_t),
     (''solicited_only'', u32_t)]"

definition struct_ib_uverbs_destroy_cq :: ctype where
  "struct_ib_uverbs_destroy_cq = c_struct [
     (''response'', aligned_u64_t),
     (''cq_handle'', u32_t),
     (''reserved'', u32_t)]"

definition struct_ib_uverbs_destroy_cq_resp :: ctype where
  "struct_ib_uverbs_destroy_cq_resp = c_struct [
     (''comp_events_reported'', u32_t),
     (''async_events_reported'', u32_t)]"

definition struct_ib_uverbs_global_route :: ctype where
  "struct_ib_uverbs_global_route = c_struct [
     (''dgid'', Arr u8_t 16),
     (''flow_label'', u32_t),
     (''sgid_index'', u8_t),
     (''hop_limit'', u8_t),
     (''traffic_class'', u8_t),
     (''reserved'', u8_t)]"

definition struct_ib_uverbs_ah_attr :: ctype where
  "struct_ib_uverbs_ah_attr = c_struct [
     (''grh'', struct_ib_uverbs_global_route),
     (''dlid'', u16_t),
     (''sl'', u8_t),
     (''src_path_bits'', u8_t),
     (''static_rate'', u8_t),
     (''is_global'', u8_t),
     (''port_num'', u8_t),
     (''reserved'', u8_t)]"

definition struct_ib_uverbs_qp_attr :: ctype where
  "struct_ib_uverbs_qp_attr = c_struct [
     (''qp_attr_mask'', u32_t),
     (''qp_state'', u32_t),
     (''cur_qp_state'', u32_t),
     (''path_mtu'', u32_t),
     (''path_mig_state'', u32_t),
     (''qkey'', u32_t),
     (''rq_psn'', u32_t),
     (''sq_psn'', u32_t),
     (''dest_qp_num'', u32_t),
     (''qp_access_flags'', u32_t),
     (''ah_attr'', struct_ib_uverbs_ah_attr),
     (''alt_ah_attr'', struct_ib_uverbs_ah_attr),
     (''max_send_wr'', u32_t),
     (''max_recv_wr'', u32_t),
     (''max_send_sge'', u32_t),
     (''max_recv_sge'', u32_t),
     (''max_inline_data'', u32_t),
     (''pkey_index'', u16_t),
     (''alt_pkey_index'', u16_t),
     (''en_sqd_async_notify'', u8_t),
     (''sq_draining'', u8_t),
     (''max_rd_atomic'', u8_t),
     (''max_dest_rd_atomic'', u8_t),
     (''min_rnr_timer'', u8_t),
     (''port_num'', u8_t),
     (''timeout'', u8_t),
     (''retry_cnt'', u8_t),
     (''rnr_retry'', u8_t),
     (''alt_port_num'', u8_t),
     (''alt_timeout'', u8_t),
     (''reserved'', Arr u8_t 5)]"

definition struct_ib_uverbs_create_qp :: ctype where
  "struct_ib_uverbs_create_qp = c_struct [
     (''response'', aligned_u64_t),
     (''user_handle'', aligned_u64_t),
     (''pd_handle'', u32_t),
     (''send_cq_handle'', u32_t),
     (''recv_cq_handle'', u32_t),
     (''srq_handle'', u32_t),
     (''max_send_wr'', u32_t),
     (''max_recv_wr'', u32_t),
     (''max_send_sge'', u32_t),
     (''max_recv_sge'', u32_t),
     (''max_inline_data'', u32_t),
     (''sq_sig_all'', u8_t),
     (''qp_type'', u8_t),
     (''is_srq'', u8_t),
     (''reserved'', u8_t),
     (''driver_data'', Arr aligned_u64_t 0)]"

definition struct_ib_uverbs_ex_create_qp :: ctype where
  "struct_ib_uverbs_ex_create_qp = c_struct [
     (''user_handle'', aligned_u64_t),
     (''pd_handle'', u32_t),
     (''send_cq_handle'', u32_t),
     (''recv_cq_handle'', u32_t),
     (''srq_handle'', u32_t),
     (''max_send_wr'', u32_t),
     (''max_recv_wr'', u32_t),
     (''max_send_sge'', u32_t),
     (''max_recv_sge'', u32_t),
     (''max_inline_data'', u32_t),
     (''sq_sig_all'', u8_t),
     (''qp_type'', u8_t),
     (''is_srq'', u8_t),
     (''reserved'', u8_t),
     (''comp_mask'', u32_t),
     (''create_flags'', u32_t),
     (''rwq_ind_tbl_handle'', u32_t),
     (''source_qpn'', u32_t)]"

definition struct_ib_uverbs_open_qp :: ctype where
  "struct_ib_uverbs_open_qp = c_struct [
     (''response'', aligned_u64_t),
     (''user_handle'', aligned_u64_t),
     (''pd_handle'', u32_t),
     (''qpn'', u32_t),
     (''qp_type'', u8_t),
     (''reserved'', Arr u8_t 7),
     (''driver_data'', Arr aligned_u64_t 0)]"

definition struct_ib_uverbs_create_qp_resp :: ctype where
  "struct_ib_uverbs_create_qp_resp = c_struct [
     (''qp_handle'', u32_t),
     (''qpn'', u32_t),
     (''max_send_wr'', u32_t),
     (''max_recv_wr'', u32_t),
     (''max_send_sge'', u32_t),
     (''max_recv_sge'', u32_t),
     (''max_inline_data'', u32_t),
     (''reserved'', u32_t),
     (''driver_data'', Arr u32_t 0)]"

definition struct_ib_uverbs_ex_create_qp_resp :: ctype where
  "struct_ib_uverbs_ex_create_qp_resp = c_struct [
     (''base'', struct_ib_uverbs_create_qp_resp),
     (''comp_mask'', u32_t),
     (''response_length'', u32_t)]"

definition struct_ib_uverbs_qp_dest :: ctype where
  "struct_ib_uverbs_qp_dest = c_struct [
     (''dgid'', Arr u8_t 16),
     (''flow_label'', u32_t),
     (''dlid'', u16_t),
     (''reserved'', u16_t),
     (''sgid_index'', u8_t),
     (''hop_limit'', u8_t),
     (''traffic_class'', u8_t),
     (''sl'', u8_t),
     (''src_path_bits'', u8_t),
     (''static_rate'', u8_t),
     (''is_global'', u8_t),
     (''port_num'', u8_t)]"

definition struct_ib_uverbs_query_qp :: ctype where
  "struct_ib_uverbs_query_qp = c_struct [
     (''response'', aligned_u64_t),
     (''qp_handle'', u32_t),
     (''attr_mask'', u32_t),
     (''driver_data'', Arr aligned_u64_t 0)]"

definition struct_ib_uverbs_query_qp_resp :: ctype where
  "struct_ib_uverbs_query_qp_resp = c_struct [
     (''dest'', struct_ib_uverbs_qp_dest),
     (''alt_dest'', struct_ib_uverbs_qp_dest),
     (''max_send_wr'', u32_t),
     (''max_recv_wr'', u32_t),
     (''max_send_sge'', u32_t),
     (''max_recv_sge'', u32_t),
     (''max_inline_data'', u32_t),
     (''qkey'', u32_t),
     (''rq_psn'', u32_t),
     (''sq_psn'', u32_t),
     (''dest_qp_num'', u32_t),
     (''qp_access_flags'', u32_t),
     (''pkey_index'', u16_t),
     (''alt_pkey_index'', u16_t),
     (''qp_state'', u8_t),
     (''cur_qp_state'', u8_t),
     (''path_mtu'', u8_t),
     (''path_mig_state'', u8_t),
     (''sq_draining'', u8_t),
     (''max_rd_atomic'', u8_t),
     (''max_dest_rd_atomic'', u8_t),
     (''min_rnr_timer'', u8_t),
     (''port_num'', u8_t),
     (''timeout'', u8_t),
     (''retry_cnt'', u8_t),
     (''rnr_retry'', u8_t),
     (''alt_port_num'', u8_t),
     (''alt_timeout'', u8_t),
     (''sq_sig_all'', u8_t),
     (''reserved'', Arr u8_t 5),
     (''driver_data'', Arr aligned_u64_t 0)]"

definition struct_ib_uverbs_modify_qp :: ctype where
  "struct_ib_uverbs_modify_qp = c_struct [
     (''dest'', struct_ib_uverbs_qp_dest),
     (''alt_dest'', struct_ib_uverbs_qp_dest),
     (''qp_handle'', u32_t),
     (''attr_mask'', u32_t),
     (''qkey'', u32_t),
     (''rq_psn'', u32_t),
     (''sq_psn'', u32_t),
     (''dest_qp_num'', u32_t),
     (''qp_access_flags'', u32_t),
     (''pkey_index'', u16_t),
     (''alt_pkey_index'', u16_t),
     (''qp_state'', u8_t),
     (''cur_qp_state'', u8_t),
     (''path_mtu'', u8_t),
     (''path_mig_state'', u8_t),
     (''en_sqd_async_notify'', u8_t),
     (''max_rd_atomic'', u8_t),
     (''max_dest_rd_atomic'', u8_t),
     (''min_rnr_timer'', u8_t),
     (''port_num'', u8_t),
     (''timeout'', u8_t),
     (''retry_cnt'', u8_t),
     (''rnr_retry'', u8_t),
     (''alt_port_num'', u8_t),
     (''alt_timeout'', u8_t),
     (''reserved'', Arr u8_t 2),
     (''driver_data'', Arr aligned_u64_t 0)]"

definition struct_ib_uverbs_ex_modify_qp :: ctype where
  "struct_ib_uverbs_ex_modify_qp = c_struct [
     (''base'', struct_ib_uverbs_modify_qp),
     (''rate_limit'', u32_t),
     (''reserved'', u32_t)]"

definition struct_ib_uverbs_ex_modify_qp_resp :: ctype where
  "struct_ib_uverbs_ex_modify_qp_resp = c_struct [
     (''comp_mask'', u32_t),
     (''response_length'', u32_t)]"

definition struct_ib_uverbs_destroy_qp :: ctype where
  "struct_ib_uverbs_destroy_qp = c_struct [
     (''response'', aligned_u64_t),
     (''qp_handle'', u32_t),
     (''reserved'', u32_t)]"

definition struct_ib_uverbs_destroy_qp_resp :: ctype where
  "struct_ib_uverbs_destroy_qp_resp = c_struct [
     (''events_reported'', u32_t)]"

definition struct_ib_uverbs_sge :: ctype where
  "struct_ib_uverbs_sge = c_struct [
     (''addr'', aligned_u64_t),
     (''length'', u32_t),
     (''lkey'', u32_t)]"

definition struct_ib_uverbs_send_wr :: ctype where
  "struct_ib_uverbs_send_wr = c_struct [
     (''wr_id'', aligned_u64_t),
     (''num_sge'', u32_t),
     (''opcode'', u32_t),
     (''send_flags'', u32_t),
     (''ex'', c_union [ (''imm_data'', u32_t), (''invalidate_rkey'', u32_t)]),
     (''wr'', c_union [ (''rdma'', c_struct [ (''remote_addr'', aligned_u64_t), (''rkey'', u32_t), (''reserved'', u32_t)]), (''atomic'', c_struct [ (''remote_addr'', aligned_u64_t), (''compare_add'', aligned_u64_t), (''swap'', aligned_u64_t), (''rkey'', u32_t), (''reserved'', u32_t)]), (''ud'', c_struct [ (''ah'', u32_t), (''remote_qpn'', u32_t), (''remote_qkey'', u32_t), (''reserved'', u32_t)])])]"

definition struct_ib_uverbs_post_send :: ctype where
  "struct_ib_uverbs_post_send = c_struct [
     (''response'', aligned_u64_t),
     (''qp_handle'', u32_t),
     (''wr_count'', u32_t),
     (''sge_count'', u32_t),
     (''wqe_size'', u32_t),
     (''send_wr'', Arr struct_ib_uverbs_send_wr 0)]"

definition struct_ib_uverbs_post_send_resp :: ctype where
  "struct_ib_uverbs_post_send_resp = c_struct [
     (''bad_wr'', u32_t)]"

definition struct_ib_uverbs_recv_wr :: ctype where
  "struct_ib_uverbs_recv_wr = c_struct [
     (''wr_id'', aligned_u64_t),
     (''num_sge'', u32_t),
     (''reserved'', u32_t)]"

definition struct_ib_uverbs_post_recv :: ctype where
  "struct_ib_uverbs_post_recv = c_struct [
     (''response'', aligned_u64_t),
     (''qp_handle'', u32_t),
     (''wr_count'', u32_t),
     (''sge_count'', u32_t),
     (''wqe_size'', u32_t),
     (''recv_wr'', Arr struct_ib_uverbs_recv_wr 0)]"

definition struct_ib_uverbs_post_recv_resp :: ctype where
  "struct_ib_uverbs_post_recv_resp = c_struct [
     (''bad_wr'', u32_t)]"

definition struct_ib_uverbs_post_srq_recv :: ctype where
  "struct_ib_uverbs_post_srq_recv = c_struct [
     (''response'', aligned_u64_t),
     (''srq_handle'', u32_t),
     (''wr_count'', u32_t),
     (''sge_count'', u32_t),
     (''wqe_size'', u32_t),
     (''recv'', Arr struct_ib_uverbs_recv_wr 0)]"

definition struct_ib_uverbs_post_srq_recv_resp :: ctype where
  "struct_ib_uverbs_post_srq_recv_resp = c_struct [
     (''bad_wr'', u32_t)]"

definition struct_ib_uverbs_create_ah :: ctype where
  "struct_ib_uverbs_create_ah = c_struct [
     (''response'', aligned_u64_t),
     (''user_handle'', aligned_u64_t),
     (''pd_handle'', u32_t),
     (''reserved'', u32_t),
     (''attr'', struct_ib_uverbs_ah_attr),
     (''driver_data'', Arr aligned_u64_t 0)]"

definition struct_ib_uverbs_create_ah_resp :: ctype where
  "struct_ib_uverbs_create_ah_resp = c_struct [
     (''ah_handle'', u32_t),
     (''driver_data'', Arr u32_t 0)]"

definition struct_ib_uverbs_destroy_ah :: ctype where
  "struct_ib_uverbs_destroy_ah = c_struct [
     (''ah_handle'', u32_t)]"

definition struct_ib_uverbs_attach_mcast :: ctype where
  "struct_ib_uverbs_attach_mcast = c_struct [
     (''gid'', Arr u8_t 16),
     (''qp_handle'', u32_t),
     (''mlid'', u16_t),
     (''reserved'', u16_t),
     (''driver_data'', Arr aligned_u64_t 0)]"

definition struct_ib_uverbs_detach_mcast :: ctype where
  "struct_ib_uverbs_detach_mcast = c_struct [
     (''gid'', Arr u8_t 16),
     (''qp_handle'', u32_t),
     (''mlid'', u16_t),
     (''reserved'', u16_t),
     (''driver_data'', Arr aligned_u64_t 0)]"

definition struct_ib_uverbs_flow_spec_hdr :: ctype where
  "struct_ib_uverbs_flow_spec_hdr = c_struct [
     (''type'', u32_t),
     (''size'', u16_t),
     (''reserved'', u16_t),
     (''flow_spec_data'', Arr aligned_u64_t 0)]"

definition struct_ib_uverbs_flow_eth_filter :: ctype where
  "struct_ib_uverbs_flow_eth_filter = c_struct [
     (''dst_mac'', Arr u8_t 6),
     (''src_mac'', Arr u8_t 6),
     (''ether_type'', u16_t),
     (''vlan_tag'', u16_t)]"

definition struct_ib_uverbs_flow_spec_eth :: ctype where
  "struct_ib_uverbs_flow_spec_eth = c_struct [
     ('''', c_union [ (''hdr'', struct_ib_uverbs_flow_spec_hdr), ('''', c_struct [ (''type'', u32_t), (''size'', u16_t), (''reserved'', u16_t)])]),
     (''val'', struct_ib_uverbs_flow_eth_filter),
     (''mask'', struct_ib_uverbs_flow_eth_filter)]"

definition struct_ib_uverbs_flow_ipv4_filter :: ctype where
  "struct_ib_uverbs_flow_ipv4_filter = c_struct [
     (''src_ip'', u32_t),
     (''dst_ip'', u32_t),
     (''proto'', u8_t),
     (''tos'', u8_t),
     (''ttl'', u8_t),
     (''flags'', u8_t)]"

definition struct_ib_uverbs_flow_spec_ipv4 :: ctype where
  "struct_ib_uverbs_flow_spec_ipv4 = c_struct [
     ('''', c_union [ (''hdr'', struct_ib_uverbs_flow_spec_hdr), ('''', c_struct [ (''type'', u32_t), (''size'', u16_t), (''reserved'', u16_t)])]),
     (''val'', struct_ib_uverbs_flow_ipv4_filter),
     (''mask'', struct_ib_uverbs_flow_ipv4_filter)]"

definition struct_ib_uverbs_flow_tcp_udp_filter :: ctype where
  "struct_ib_uverbs_flow_tcp_udp_filter = c_struct [
     (''dst_port'', u16_t),
     (''src_port'', u16_t)]"

definition struct_ib_uverbs_flow_spec_tcp_udp :: ctype where
  "struct_ib_uverbs_flow_spec_tcp_udp = c_struct [
     ('''', c_union [ (''hdr'', struct_ib_uverbs_flow_spec_hdr), ('''', c_struct [ (''type'', u32_t), (''size'', u16_t), (''reserved'', u16_t)])]),
     (''val'', struct_ib_uverbs_flow_tcp_udp_filter),
     (''mask'', struct_ib_uverbs_flow_tcp_udp_filter)]"

definition struct_ib_uverbs_flow_ipv6_filter :: ctype where
  "struct_ib_uverbs_flow_ipv6_filter = c_struct [
     (''src_ip'', Arr u8_t 16),
     (''dst_ip'', Arr u8_t 16),
     (''flow_label'', u32_t),
     (''next_hdr'', u8_t),
     (''traffic_class'', u8_t),
     (''hop_limit'', u8_t),
     (''reserved'', u8_t)]"

definition struct_ib_uverbs_flow_spec_ipv6 :: ctype where
  "struct_ib_uverbs_flow_spec_ipv6 = c_struct [
     ('''', c_union [ (''hdr'', struct_ib_uverbs_flow_spec_hdr), ('''', c_struct [ (''type'', u32_t), (''size'', u16_t), (''reserved'', u16_t)])]),
     (''val'', struct_ib_uverbs_flow_ipv6_filter),
     (''mask'', struct_ib_uverbs_flow_ipv6_filter)]"

definition struct_ib_uverbs_flow_spec_action_tag :: ctype where
  "struct_ib_uverbs_flow_spec_action_tag = c_struct [
     ('''', c_union [ (''hdr'', struct_ib_uverbs_flow_spec_hdr), ('''', c_struct [ (''type'', u32_t), (''size'', u16_t), (''reserved'', u16_t)])]),
     (''tag_id'', u32_t),
     (''reserved1'', u32_t)]"

definition struct_ib_uverbs_flow_spec_action_drop :: ctype where
  "struct_ib_uverbs_flow_spec_action_drop = c_struct [
     ('''', c_union [ (''hdr'', struct_ib_uverbs_flow_spec_hdr), ('''', c_struct [ (''type'', u32_t), (''size'', u16_t), (''reserved'', u16_t)])])]"

definition struct_ib_uverbs_flow_spec_action_handle :: ctype where
  "struct_ib_uverbs_flow_spec_action_handle = c_struct [
     ('''', c_union [ (''hdr'', struct_ib_uverbs_flow_spec_hdr), ('''', c_struct [ (''type'', u32_t), (''size'', u16_t), (''reserved'', u16_t)])]),
     (''handle'', u32_t),
     (''reserved1'', u32_t)]"

definition struct_ib_uverbs_flow_spec_action_count :: ctype where
  "struct_ib_uverbs_flow_spec_action_count = c_struct [
     ('''', c_union [ (''hdr'', struct_ib_uverbs_flow_spec_hdr), ('''', c_struct [ (''type'', u32_t), (''size'', u16_t), (''reserved'', u16_t)])]),
     (''handle'', u32_t),
     (''reserved1'', u32_t)]"

definition struct_ib_uverbs_flow_tunnel_filter :: ctype where
  "struct_ib_uverbs_flow_tunnel_filter = c_struct [
     (''tunnel_id'', u32_t)]"

definition struct_ib_uverbs_flow_spec_tunnel :: ctype where
  "struct_ib_uverbs_flow_spec_tunnel = c_struct [
     ('''', c_union [ (''hdr'', struct_ib_uverbs_flow_spec_hdr), ('''', c_struct [ (''type'', u32_t), (''size'', u16_t), (''reserved'', u16_t)])]),
     (''val'', struct_ib_uverbs_flow_tunnel_filter),
     (''mask'', struct_ib_uverbs_flow_tunnel_filter)]"

definition struct_ib_uverbs_flow_spec_esp_filter :: ctype where
  "struct_ib_uverbs_flow_spec_esp_filter = c_struct [
     (''spi'', u32_t),
     (''seq'', u32_t)]"

definition struct_ib_uverbs_flow_spec_esp :: ctype where
  "struct_ib_uverbs_flow_spec_esp = c_struct [
     ('''', c_union [ (''hdr'', struct_ib_uverbs_flow_spec_hdr), ('''', c_struct [ (''type'', u32_t), (''size'', u16_t), (''reserved'', u16_t)])]),
     (''val'', struct_ib_uverbs_flow_spec_esp_filter),
     (''mask'', struct_ib_uverbs_flow_spec_esp_filter)]"

definition struct_ib_uverbs_flow_gre_filter :: ctype where
  "struct_ib_uverbs_flow_gre_filter = c_struct [
     (''c_ks_res0_ver'', u16_t),
     (''protocol'', u16_t),
     (''key'', u32_t)]"

definition struct_ib_uverbs_flow_spec_gre :: ctype where
  "struct_ib_uverbs_flow_spec_gre = c_struct [
     ('''', c_union [ (''hdr'', struct_ib_uverbs_flow_spec_hdr), ('''', c_struct [ (''type'', u32_t), (''size'', u16_t), (''reserved'', u16_t)])]),
     (''val'', struct_ib_uverbs_flow_gre_filter),
     (''mask'', struct_ib_uverbs_flow_gre_filter)]"

definition struct_ib_uverbs_flow_mpls_filter :: ctype where
  "struct_ib_uverbs_flow_mpls_filter = c_struct [
     (''label'', u32_t)]"

definition struct_ib_uverbs_flow_spec_mpls :: ctype where
  "struct_ib_uverbs_flow_spec_mpls = c_struct [
     ('''', c_union [ (''hdr'', struct_ib_uverbs_flow_spec_hdr), ('''', c_struct [ (''type'', u32_t), (''size'', u16_t), (''reserved'', u16_t)])]),
     (''val'', struct_ib_uverbs_flow_mpls_filter),
     (''mask'', struct_ib_uverbs_flow_mpls_filter)]"

definition struct_ib_uverbs_flow_attr :: ctype where
  "struct_ib_uverbs_flow_attr = c_struct [
     (''type'', u32_t),
     (''size'', u16_t),
     (''priority'', u16_t),
     (''num_of_specs'', u8_t),
     (''reserved'', Arr u8_t 2),
     (''port'', u8_t),
     (''flags'', u32_t),
     (''flow_specs'', Arr struct_ib_uverbs_flow_spec_hdr 0)]"

definition struct_ib_uverbs_create_flow :: ctype where
  "struct_ib_uverbs_create_flow = c_struct [
     (''comp_mask'', u32_t),
     (''qp_handle'', u32_t),
     (''flow_attr'', struct_ib_uverbs_flow_attr)]"

definition struct_ib_uverbs_create_flow_resp :: ctype where
  "struct_ib_uverbs_create_flow_resp = c_struct [
     (''comp_mask'', u32_t),
     (''flow_handle'', u32_t)]"

definition struct_ib_uverbs_destroy_flow :: ctype where
  "struct_ib_uverbs_destroy_flow = c_struct [
     (''comp_mask'', u32_t),
     (''flow_handle'', u32_t)]"

definition struct_ib_uverbs_create_srq :: ctype where
  "struct_ib_uverbs_create_srq = c_struct [
     (''response'', aligned_u64_t),
     (''user_handle'', aligned_u64_t),
     (''pd_handle'', u32_t),
     (''max_wr'', u32_t),
     (''max_sge'', u32_t),
     (''srq_limit'', u32_t),
     (''driver_data'', Arr aligned_u64_t 0)]"

definition struct_ib_uverbs_create_xsrq :: ctype where
  "struct_ib_uverbs_create_xsrq = c_struct [
     (''response'', aligned_u64_t),
     (''user_handle'', aligned_u64_t),
     (''srq_type'', u32_t),
     (''pd_handle'', u32_t),
     (''max_wr'', u32_t),
     (''max_sge'', u32_t),
     (''srq_limit'', u32_t),
     (''max_num_tags'', u32_t),
     (''xrcd_handle'', u32_t),
     (''cq_handle'', u32_t),
     (''driver_data'', Arr aligned_u64_t 0)]"

definition struct_ib_uverbs_create_srq_resp :: ctype where
  "struct_ib_uverbs_create_srq_resp = c_struct [
     (''srq_handle'', u32_t),
     (''max_wr'', u32_t),
     (''max_sge'', u32_t),
     (''srqn'', u32_t),
     (''driver_data'', Arr u32_t 0)]"

definition struct_ib_uverbs_modify_srq :: ctype where
  "struct_ib_uverbs_modify_srq = c_struct [
     (''srq_handle'', u32_t),
     (''attr_mask'', u32_t),
     (''max_wr'', u32_t),
     (''srq_limit'', u32_t),
     (''driver_data'', Arr aligned_u64_t 0)]"

definition struct_ib_uverbs_query_srq :: ctype where
  "struct_ib_uverbs_query_srq = c_struct [
     (''response'', aligned_u64_t),
     (''srq_handle'', u32_t),
     (''reserved'', u32_t),
     (''driver_data'', Arr aligned_u64_t 0)]"

definition struct_ib_uverbs_query_srq_resp :: ctype where
  "struct_ib_uverbs_query_srq_resp = c_struct [
     (''max_wr'', u32_t),
     (''max_sge'', u32_t),
     (''srq_limit'', u32_t),
     (''reserved'', u32_t)]"

definition struct_ib_uverbs_destroy_srq :: ctype where
  "struct_ib_uverbs_destroy_srq = c_struct [
     (''response'', aligned_u64_t),
     (''srq_handle'', u32_t),
     (''reserved'', u32_t)]"

definition struct_ib_uverbs_destroy_srq_resp :: ctype where
  "struct_ib_uverbs_destroy_srq_resp = c_struct [
     (''events_reported'', u32_t)]"

definition struct_ib_uverbs_ex_create_wq :: ctype where
  "struct_ib_uverbs_ex_create_wq = c_struct [
     (''comp_mask'', u32_t),
     (''wq_type'', u32_t),
     (''user_handle'', aligned_u64_t),
     (''pd_handle'', u32_t),
     (''cq_handle'', u32_t),
     (''max_wr'', u32_t),
     (''max_sge'', u32_t),
     (''create_flags'', u32_t),
     (''reserved'', u32_t)]"

definition struct_ib_uverbs_ex_create_wq_resp :: ctype where
  "struct_ib_uverbs_ex_create_wq_resp = c_struct [
     (''comp_mask'', u32_t),
     (''response_length'', u32_t),
     (''wq_handle'', u32_t),
     (''max_wr'', u32_t),
     (''max_sge'', u32_t),
     (''wqn'', u32_t)]"

definition struct_ib_uverbs_ex_destroy_wq :: ctype where
  "struct_ib_uverbs_ex_destroy_wq = c_struct [
     (''comp_mask'', u32_t),
     (''wq_handle'', u32_t)]"

definition struct_ib_uverbs_ex_destroy_wq_resp :: ctype where
  "struct_ib_uverbs_ex_destroy_wq_resp = c_struct [
     (''comp_mask'', u32_t),
     (''response_length'', u32_t),
     (''events_reported'', u32_t),
     (''reserved'', u32_t)]"

definition struct_ib_uverbs_ex_modify_wq :: ctype where
  "struct_ib_uverbs_ex_modify_wq = c_struct [
     (''attr_mask'', u32_t),
     (''wq_handle'', u32_t),
     (''wq_state'', u32_t),
     (''curr_wq_state'', u32_t),
     (''flags'', u32_t),
     (''flags_mask'', u32_t)]"

definition struct_ib_uverbs_ex_create_rwq_ind_table :: ctype where
  "struct_ib_uverbs_ex_create_rwq_ind_table = c_struct [
     (''comp_mask'', u32_t),
     (''log_ind_tbl_size'', u32_t),
     (''wq_handles'', Arr u32_t 0)]"

definition struct_ib_uverbs_ex_create_rwq_ind_table_resp :: ctype where
  "struct_ib_uverbs_ex_create_rwq_ind_table_resp = c_struct [
     (''comp_mask'', u32_t),
     (''response_length'', u32_t),
     (''ind_tbl_handle'', u32_t),
     (''ind_tbl_num'', u32_t)]"

definition struct_ib_uverbs_ex_destroy_rwq_ind_table :: ctype where
  "struct_ib_uverbs_ex_destroy_rwq_ind_table = c_struct [
     (''comp_mask'', u32_t),
     (''ind_tbl_handle'', u32_t)]"

definition struct_ib_uverbs_cq_moderation :: ctype where
  "struct_ib_uverbs_cq_moderation = c_struct [
     (''cq_count'', u16_t),
     (''cq_period'', u16_t)]"

definition struct_ib_uverbs_ex_modify_cq :: ctype where
  "struct_ib_uverbs_ex_modify_cq = c_struct [
     (''cq_handle'', u32_t),
     (''attr_mask'', u32_t),
     (''attr'', struct_ib_uverbs_cq_moderation),
     (''reserved'', u32_t)]"

definition uverbs_structs :: "ctype list" where
  "uverbs_structs = [struct_ib_uverbs_async_event_desc, struct_ib_uverbs_comp_event_desc, struct_ib_uverbs_cq_moderation_caps,
     struct_ib_uverbs_cmd_hdr, struct_ib_uverbs_ex_cmd_hdr, struct_ib_uverbs_get_context,
     struct_ib_uverbs_get_context_resp, struct_ib_uverbs_query_device, struct_ib_uverbs_query_device_resp,
     struct_ib_uverbs_ex_query_device, struct_ib_uverbs_odp_caps, struct_ib_uverbs_rss_caps,
     struct_ib_uverbs_tm_caps, struct_ib_uverbs_ex_query_device_resp, struct_ib_uverbs_query_port,
     struct_ib_uverbs_query_port_resp, struct_ib_uverbs_alloc_pd, struct_ib_uverbs_alloc_pd_resp,
     struct_ib_uverbs_dealloc_pd, struct_ib_uverbs_open_xrcd, struct_ib_uverbs_open_xrcd_resp,
     struct_ib_uverbs_close_xrcd, struct_ib_uverbs_reg_mr, struct_ib_uverbs_reg_mr_resp, struct_ib_uverbs_rereg_mr,
     struct_ib_uverbs_rereg_mr_resp, struct_ib_uverbs_dereg_mr, struct_ib_uverbs_alloc_mw,
     struct_ib_uverbs_alloc_mw_resp, struct_ib_uverbs_dealloc_mw, struct_ib_uverbs_create_comp_channel,
     struct_ib_uverbs_create_comp_channel_resp, struct_ib_uverbs_create_cq, struct_ib_uverbs_ex_create_cq,
     struct_ib_uverbs_create_cq_resp, struct_ib_uverbs_ex_create_cq_resp, struct_ib_uverbs_resize_cq,
     struct_ib_uverbs_resize_cq_resp, struct_ib_uverbs_poll_cq, struct_ib_uverbs_wc, struct_ib_uverbs_poll_cq_resp,
     struct_ib_uverbs_req_notify_cq, struct_ib_uverbs_destroy_cq, struct_ib_uverbs_destroy_cq_resp,
     struct_ib_uverbs_global_route, struct_ib_uverbs_ah_attr, struct_ib_uverbs_qp_attr, struct_ib_uverbs_create_qp,
     struct_ib_uverbs_ex_create_qp, struct_ib_uverbs_open_qp, struct_ib_uverbs_create_qp_resp,
     struct_ib_uverbs_ex_create_qp_resp, struct_ib_uverbs_qp_dest, struct_ib_uverbs_query_qp,
     struct_ib_uverbs_query_qp_resp, struct_ib_uverbs_modify_qp, struct_ib_uverbs_ex_modify_qp,
     struct_ib_uverbs_ex_modify_qp_resp, struct_ib_uverbs_destroy_qp, struct_ib_uverbs_destroy_qp_resp,
     struct_ib_uverbs_sge, struct_ib_uverbs_send_wr, struct_ib_uverbs_post_send, struct_ib_uverbs_post_send_resp,
     struct_ib_uverbs_recv_wr, struct_ib_uverbs_post_recv, struct_ib_uverbs_post_recv_resp,
     struct_ib_uverbs_post_srq_recv, struct_ib_uverbs_post_srq_recv_resp, struct_ib_uverbs_create_ah,
     struct_ib_uverbs_create_ah_resp, struct_ib_uverbs_destroy_ah, struct_ib_uverbs_attach_mcast,
     struct_ib_uverbs_detach_mcast, struct_ib_uverbs_flow_spec_hdr, struct_ib_uverbs_flow_eth_filter,
     struct_ib_uverbs_flow_spec_eth, struct_ib_uverbs_flow_ipv4_filter, struct_ib_uverbs_flow_spec_ipv4,
     struct_ib_uverbs_flow_tcp_udp_filter, struct_ib_uverbs_flow_spec_tcp_udp, struct_ib_uverbs_flow_ipv6_filter,
     struct_ib_uverbs_flow_spec_ipv6, struct_ib_uverbs_flow_spec_action_tag,
     struct_ib_uverbs_flow_spec_action_drop, struct_ib_uverbs_flow_spec_action_handle,
     struct_ib_uverbs_flow_spec_action_count, struct_ib_uverbs_flow_tunnel_filter,
     struct_ib_uverbs_flow_spec_tunnel, struct_ib_uverbs_flow_spec_esp_filter, struct_ib_uverbs_flow_spec_esp,
     struct_ib_uverbs_flow_gre_filter, struct_ib_uverbs_flow_spec_gre, struct_ib_uverbs_flow_mpls_filter,
     struct_ib_uverbs_flow_spec_mpls, struct_ib_uverbs_flow_attr, struct_ib_uverbs_create_flow,
     struct_ib_uverbs_create_flow_resp, struct_ib_uverbs_destroy_flow, struct_ib_uverbs_create_srq,
     struct_ib_uverbs_create_xsrq, struct_ib_uverbs_create_srq_resp, struct_ib_uverbs_modify_srq,
     struct_ib_uverbs_query_srq, struct_ib_uverbs_query_srq_resp, struct_ib_uverbs_destroy_srq,
     struct_ib_uverbs_destroy_srq_resp, struct_ib_uverbs_ex_create_wq, struct_ib_uverbs_ex_create_wq_resp,
     struct_ib_uverbs_ex_destroy_wq, struct_ib_uverbs_ex_destroy_wq_resp, struct_ib_uverbs_ex_modify_wq,
     struct_ib_uverbs_ex_create_rwq_ind_table, struct_ib_uverbs_ex_create_rwq_ind_table_resp,
     struct_ib_uverbs_ex_destroy_rwq_ind_table, struct_ib_uverbs_cq_moderation, struct_ib_uverbs_ex_modify_cq]"

section \<open>Properties\<close>

lemma uverbs_structs_tight: "list_all tight uverbs_structs"
  by code_simp

lemmas uverbs_all_tight = uverbs_structs_tight

text \<open>
  As the header demands, all structures of the RDMA verbs pack the same way on 32-bit and 64-bit architectures:
  every ABI lays them out alike, member by member, without a byte of padding.
\<close>

theorem uverbs_layout:
  assumes "t \<in> set uverbs_structs"
  shows "same_everywhere t \<and> covered (leaves 8 0 t) 0 (sizeof 8 t)"
  using uverbs_all_tight assms by (rule tight_types)

theorem uverbs_layout_witness: "same_everywhere struct_ib_uverbs_create_qp \<and> covered (leaves 8 0 struct_ib_uverbs_create_qp) 0 (sizeof 8 struct_ib_uverbs_create_qp)"
  by (rule uverbs_layout) (simp add: uverbs_structs_def)

end
