(* ===== verification/Wire_Rdma.thy ===== *)
theory Wire_Rdma
  imports Wire_Uverbs
begin

text \<open>
  The structures of the RDMA connection manager, the software devices and the drivers of RDMA hardware,
  \<^verbatim>\<open>include/rdma\<close>: the driver's part of the verbs, which the kernel and a driver library in the program exchange, and
  queues that both map. Like those of the verbs they have to pack the same way for 32-bit and 64-bit programs.
\<close>

section \<open>\<^verbatim>\<open>include/linux/in.h\<close>\<close>

definition struct_in_addr :: ctype where
  "struct_in_addr = c_struct [
     (''s_addr'', u32_t)]"

definition struct_sockaddr_in :: ctype where
  "struct_sockaddr_in = c_struct [
     (''sin_family'', u16_t),
     (''sin_port'', u16_t),
     (''sin_addr'', struct_in_addr),
     (''__pad'', Arr u8_t 8)]"

definition rdma_in_structs :: "ctype list" where
  "rdma_in_structs = [struct_in_addr, struct_sockaddr_in]"

section \<open>\<^verbatim>\<open>include/linux/in6.h\<close>\<close>

definition struct_in6_addr :: ctype where
  "struct_in6_addr = c_struct [
     (''in6_u'', c_union [ (''u6_addr8'', Arr u8_t 16), (''u6_addr16'', Arr u16_t 8), (''u6_addr32'', Arr u32_t 4)])]"

definition struct_sockaddr_in6 :: ctype where
  "struct_sockaddr_in6 = c_struct [
     (''sin6_family'', u16_t),
     (''sin6_port'', u16_t),
     (''sin6_flowinfo'', u32_t),
     (''sin6_addr'', struct_in6_addr),
     (''sin6_scope_id'', u32_t)]"

definition rdma_in6_structs :: "ctype list" where
  "rdma_in6_structs = [struct_in6_addr, struct_sockaddr_in6]"

section \<open>\<^verbatim>\<open>include/linux/socket.h\<close>\<close>

definition struct_kernel_sockaddr_storage :: "nat \<Rightarrow> ctype" where
  "struct_kernel_sockaddr_storage w = c_struct [
     ('''', c_union [ ('''', c_struct [ (''ss_family'', u16_t), (''__data'', Arr u8_t 126)]), (''__align'', ptr_t w)])]"

section \<open>\<^verbatim>\<open>include/rdma/ib_user_ioctl_verbs.h\<close>\<close>

definition struct_ib_uverbs_flow_action_esp_keymat_aes_gcm :: ctype where
  "struct_ib_uverbs_flow_action_esp_keymat_aes_gcm = c_struct [
     (''iv'', aligned_u64_t),
     (''iv_algo'', u32_t),
     (''salt'', u32_t),
     (''icv_len'', u32_t),
     (''key_len'', u32_t),
     (''aes_key'', Arr u32_t 8)]"

definition struct_ib_uverbs_flow_action_esp_replay_bmp :: ctype where
  "struct_ib_uverbs_flow_action_esp_replay_bmp = c_struct [
     (''size'', u32_t)]"

definition struct_ib_uverbs_flow_action_esp_encap :: ctype where
  "struct_ib_uverbs_flow_action_esp_encap = c_struct [
     (''val_ptr'', aligned_u64_t),
     (''next_ptr'', aligned_u64_t),
     (''len'', u16_t),
     (''type'', u16_t)]"

definition struct_ib_uverbs_flow_action_esp :: ctype where
  "struct_ib_uverbs_flow_action_esp = c_struct [
     (''spi'', u32_t),
     (''seq'', u32_t),
     (''tfc_pad'', u32_t),
     (''flags'', u32_t),
     (''hard_limit_pkts'', aligned_u64_t)]"

definition struct_ib_uverbs_query_port_resp_ex :: ctype where
  "struct_ib_uverbs_query_port_resp_ex = c_struct [
     (''legacy_resp'', struct_ib_uverbs_query_port_resp),
     (''port_cap_flags2'', u16_t),
     (''reserved'', Arr u8_t 6)]"

definition struct_ib_uverbs_qp_cap :: ctype where
  "struct_ib_uverbs_qp_cap = c_struct [
     (''max_send_wr'', u32_t),
     (''max_recv_wr'', u32_t),
     (''max_send_sge'', u32_t),
     (''max_recv_sge'', u32_t),
     (''max_inline_data'', u32_t)]"

definition struct_ib_uverbs_gid_entry :: ctype where
  "struct_ib_uverbs_gid_entry = c_struct [
     (''gid'', Arr aligned_u64_t 2),
     (''gid_index'', u32_t),
     (''port_num'', u32_t),
     (''gid_type'', u32_t),
     (''netdev_ifindex'', u32_t)]"

definition rdma_ib_user_ioctl_verbs_structs :: "ctype list" where
  "rdma_ib_user_ioctl_verbs_structs = [struct_ib_uverbs_flow_action_esp_keymat_aes_gcm, struct_ib_uverbs_flow_action_esp_replay_bmp,
     struct_ib_uverbs_flow_action_esp, struct_ib_uverbs_query_port_resp_ex, struct_ib_uverbs_qp_cap,
     struct_ib_uverbs_gid_entry]"

section \<open>\<^verbatim>\<open>include/rdma/ib_user_sa.h\<close>\<close>

definition struct_ib_path_rec_data :: ctype where
  "struct_ib_path_rec_data = c_struct [
     (''flags'', u32_t),
     (''reserved'', u32_t),
     (''path_rec'', Arr u32_t 16)]"

definition struct_ib_user_path_rec :: ctype where
  "struct_ib_user_path_rec = c_struct [
     (''dgid'', Arr u8_t 16),
     (''sgid'', Arr u8_t 16),
     (''dlid'', u16_t),
     (''slid'', u16_t),
     (''raw_traffic'', u32_t),
     (''flow_label'', u32_t),
     (''reversible'', u32_t),
     (''mtu'', u32_t),
     (''pkey'', u16_t),
     (''hop_limit'', u8_t),
     (''traffic_class'', u8_t),
     (''numb_path'', u8_t),
     (''sl'', u8_t),
     (''mtu_selector'', u8_t),
     (''rate_selector'', u8_t),
     (''rate'', u8_t),
     (''packet_life_time_selector'', u8_t),
     (''packet_life_time'', u8_t),
     (''preference'', u8_t)]"

definition rdma_ib_user_sa_structs :: "ctype list" where
  "rdma_ib_user_sa_structs = [struct_ib_path_rec_data, struct_ib_user_path_rec]"

section \<open>\<^verbatim>\<open>include/rdma/rdma_user_cm.h\<close>\<close>

definition struct_rdma_ucm_cmd_hdr :: ctype where
  "struct_rdma_ucm_cmd_hdr = c_struct [
     (''cmd'', u32_t),
     (''in'', u16_t),
     (''out'', u16_t)]"

definition struct_rdma_ucm_create_id :: ctype where
  "struct_rdma_ucm_create_id = c_struct [
     (''uid'', aligned_u64_t),
     (''response'', aligned_u64_t),
     (''ps'', u16_t),
     (''qp_type'', u8_t),
     (''reserved'', Arr u8_t 5)]"

definition struct_rdma_ucm_create_id_resp :: ctype where
  "struct_rdma_ucm_create_id_resp = c_struct [
     (''id'', u32_t)]"

definition struct_rdma_ucm_destroy_id :: ctype where
  "struct_rdma_ucm_destroy_id = c_struct [
     (''response'', aligned_u64_t),
     (''id'', u32_t),
     (''reserved'', u32_t)]"

definition struct_rdma_ucm_destroy_id_resp :: ctype where
  "struct_rdma_ucm_destroy_id_resp = c_struct [
     (''events_reported'', u32_t)]"

definition struct_rdma_ucm_bind_ip :: ctype where
  "struct_rdma_ucm_bind_ip = c_struct [
     (''response'', aligned_u64_t),
     (''addr'', struct_sockaddr_in6),
     (''id'', u32_t)]"

definition struct_rdma_ucm_bind :: "nat \<Rightarrow> ctype" where
  "struct_rdma_ucm_bind w = c_struct [
     (''id'', u32_t),
     (''addr_size'', u16_t),
     (''reserved'', u16_t),
     (''addr'', struct_kernel_sockaddr_storage w)]"

definition struct_rdma_ucm_resolve_ip :: ctype where
  "struct_rdma_ucm_resolve_ip = c_struct [
     (''src_addr'', struct_sockaddr_in6),
     (''dst_addr'', struct_sockaddr_in6),
     (''id'', u32_t),
     (''timeout_ms'', u32_t)]"

definition struct_rdma_ucm_resolve_addr :: "nat \<Rightarrow> ctype" where
  "struct_rdma_ucm_resolve_addr w = c_struct [
     (''id'', u32_t),
     (''timeout_ms'', u32_t),
     (''src_size'', u16_t),
     (''dst_size'', u16_t),
     (''reserved'', u32_t),
     (''src_addr'', struct_kernel_sockaddr_storage w),
     (''dst_addr'', struct_kernel_sockaddr_storage w)]"

definition struct_rdma_ucm_resolve_route :: ctype where
  "struct_rdma_ucm_resolve_route = c_struct [
     (''id'', u32_t),
     (''timeout_ms'', u32_t)]"

definition struct_rdma_ucm_query :: ctype where
  "struct_rdma_ucm_query = c_struct [
     (''response'', aligned_u64_t),
     (''id'', u32_t),
     (''option'', u32_t)]"

definition struct_rdma_ucm_query_route_resp :: ctype where
  "struct_rdma_ucm_query_route_resp = c_struct [
     (''node_guid'', aligned_u64_t),
     (''ib_route'', Arr struct_ib_user_path_rec 2),
     (''src_addr'', struct_sockaddr_in6),
     (''dst_addr'', struct_sockaddr_in6),
     (''num_paths'', u32_t),
     (''port_num'', u8_t),
     (''reserved'', Arr u8_t 3),
     (''ibdev_index'', u32_t),
     (''reserved1'', u32_t)]"

definition struct_rdma_ucm_query_addr_resp :: "nat \<Rightarrow> ctype" where
  "struct_rdma_ucm_query_addr_resp w = c_struct [
     (''node_guid'', aligned_u64_t),
     (''port_num'', u8_t),
     (''reserved'', u8_t),
     (''pkey'', u16_t),
     (''src_size'', u16_t),
     (''dst_size'', u16_t),
     (''src_addr'', struct_kernel_sockaddr_storage w),
     (''dst_addr'', struct_kernel_sockaddr_storage w),
     (''ibdev_index'', u32_t),
     (''reserved1'', u32_t)]"

definition struct_rdma_ucm_query_path_resp :: ctype where
  "struct_rdma_ucm_query_path_resp = c_struct [
     (''num_paths'', u32_t),
     (''reserved'', u32_t),
     (''path_data'', Arr struct_ib_path_rec_data 0)]"

definition struct_rdma_ucm_conn_param :: ctype where
  "struct_rdma_ucm_conn_param = c_struct [
     (''qp_num'', u32_t),
     (''qkey'', u32_t),
     (''private_data'', Arr u8_t 256),
     (''private_data_len'', u8_t),
     (''srq'', u8_t),
     (''responder_resources'', u8_t),
     (''initiator_depth'', u8_t),
     (''flow_control'', u8_t),
     (''retry_count'', u8_t),
     (''rnr_retry_count'', u8_t),
     (''valid'', u8_t)]"

definition struct_rdma_ucm_ud_param :: ctype where
  "struct_rdma_ucm_ud_param = c_struct [
     (''qp_num'', u32_t),
     (''qkey'', u32_t),
     (''ah_attr'', struct_ib_uverbs_ah_attr),
     (''private_data'', Arr u8_t 256),
     (''private_data_len'', u8_t),
     (''reserved'', Arr u8_t 7)]"

definition struct_rdma_ucm_ece :: ctype where
  "struct_rdma_ucm_ece = c_struct [
     (''vendor_id'', u32_t),
     (''attr_mod'', u32_t)]"

definition struct_rdma_ucm_connect :: ctype where
  "struct_rdma_ucm_connect = c_struct [
     (''conn_param'', struct_rdma_ucm_conn_param),
     (''id'', u32_t),
     (''reserved'', u32_t),
     (''ece'', struct_rdma_ucm_ece)]"

definition struct_rdma_ucm_listen :: ctype where
  "struct_rdma_ucm_listen = c_struct [
     (''id'', u32_t),
     (''backlog'', u32_t)]"

definition struct_rdma_ucm_accept :: ctype where
  "struct_rdma_ucm_accept = c_struct [
     (''uid'', aligned_u64_t),
     (''conn_param'', struct_rdma_ucm_conn_param),
     (''id'', u32_t),
     (''reserved'', u32_t),
     (''ece'', struct_rdma_ucm_ece)]"

definition struct_rdma_ucm_reject :: ctype where
  "struct_rdma_ucm_reject = c_struct [
     (''id'', u32_t),
     (''private_data_len'', u8_t),
     (''reason'', u8_t),
     (''reserved'', Arr u8_t 2),
     (''private_data'', Arr u8_t 256)]"

definition struct_rdma_ucm_disconnect :: ctype where
  "struct_rdma_ucm_disconnect = c_struct [
     (''id'', u32_t)]"

definition struct_rdma_ucm_init_qp_attr :: ctype where
  "struct_rdma_ucm_init_qp_attr = c_struct [
     (''response'', aligned_u64_t),
     (''id'', u32_t),
     (''qp_state'', u32_t)]"

definition struct_rdma_ucm_notify :: ctype where
  "struct_rdma_ucm_notify = c_struct [
     (''id'', u32_t),
     (''event'', u32_t)]"

definition struct_rdma_ucm_join_ip_mcast :: ctype where
  "struct_rdma_ucm_join_ip_mcast = c_struct [
     (''response'', aligned_u64_t),
     (''uid'', aligned_u64_t),
     (''addr'', struct_sockaddr_in6),
     (''id'', u32_t)]"

definition struct_rdma_ucm_join_mcast :: "nat \<Rightarrow> ctype" where
  "struct_rdma_ucm_join_mcast w = c_struct [
     (''response'', aligned_u64_t),
     (''uid'', aligned_u64_t),
     (''id'', u32_t),
     (''addr_size'', u16_t),
     (''join_flags'', u16_t),
     (''addr'', struct_kernel_sockaddr_storage w)]"

definition struct_rdma_ucm_get_event :: ctype where
  "struct_rdma_ucm_get_event = c_struct [
     (''response'', aligned_u64_t)]"

definition struct_rdma_ucm_event_resp :: ctype where
  "struct_rdma_ucm_event_resp = c_struct [
     (''uid'', aligned_u64_t),
     (''id'', u32_t),
     (''event'', u32_t),
     (''status'', u32_t),
     (''param'', c_union [ (''conn'', struct_rdma_ucm_conn_param), (''ud'', struct_rdma_ucm_ud_param)]),
     (''reserved'', u32_t),
     (''ece'', struct_rdma_ucm_ece)]"

definition struct_rdma_ucm_set_option :: ctype where
  "struct_rdma_ucm_set_option = c_struct [
     (''optval'', aligned_u64_t),
     (''id'', u32_t),
     (''level'', u32_t),
     (''optname'', u32_t),
     (''optlen'', u32_t)]"

definition struct_rdma_ucm_migrate_id :: ctype where
  "struct_rdma_ucm_migrate_id = c_struct [
     (''response'', aligned_u64_t),
     (''id'', u32_t),
     (''fd'', u32_t)]"

definition struct_rdma_ucm_migrate_resp :: ctype where
  "struct_rdma_ucm_migrate_resp = c_struct [
     (''events_reported'', u32_t)]"

definition rdma_rdma_user_cm_structs :: "ctype list" where
  "rdma_rdma_user_cm_structs = [struct_rdma_ucm_cmd_hdr, struct_rdma_ucm_create_id, struct_rdma_ucm_create_id_resp,
     struct_rdma_ucm_destroy_id, struct_rdma_ucm_destroy_id_resp, struct_rdma_ucm_bind_ip,
     struct_rdma_ucm_resolve_ip, struct_rdma_ucm_resolve_route, struct_rdma_ucm_query,
     struct_rdma_ucm_query_route_resp, struct_rdma_ucm_query_path_resp, struct_rdma_ucm_conn_param,
     struct_rdma_ucm_ud_param, struct_rdma_ucm_ece, struct_rdma_ucm_connect, struct_rdma_ucm_listen,
     struct_rdma_ucm_accept, struct_rdma_ucm_reject, struct_rdma_ucm_disconnect, struct_rdma_ucm_init_qp_attr,
     struct_rdma_ucm_notify, struct_rdma_ucm_join_ip_mcast, struct_rdma_ucm_get_event, struct_rdma_ucm_event_resp,
     struct_rdma_ucm_set_option, struct_rdma_ucm_migrate_id, struct_rdma_ucm_migrate_resp]"

section \<open>\<^verbatim>\<open>include/rdma/rdma_user_ioctl_cmds.h\<close>\<close>

definition struct_ib_uverbs_attr :: ctype where
  "struct_ib_uverbs_attr = c_struct [
     (''attr_id'', u16_t),
     (''len'', u16_t),
     (''flags'', u16_t),
     (''attr_data'', c_union [ (''enum_data'', c_struct [ (''elem_id'', u8_t), (''reserved'', u8_t)]), (''reserved'', u16_t)]),
     ('''', c_union [ (''data'', aligned_u64_t), (''data_s64'', u64_t)])]"

definition struct_ib_uverbs_ioctl_hdr :: ctype where
  "struct_ib_uverbs_ioctl_hdr = c_struct [
     (''length'', u16_t),
     (''object_id'', u16_t),
     (''method_id'', u16_t),
     (''num_attrs'', u16_t),
     (''reserved1'', aligned_u64_t),
     (''driver_id'', u32_t),
     (''reserved2'', u32_t),
     (''attrs'', Arr struct_ib_uverbs_attr 0)]"

definition rdma_rdma_user_ioctl_cmds_structs :: "ctype list" where
  "rdma_rdma_user_ioctl_cmds_structs = [struct_ib_uverbs_attr, struct_ib_uverbs_ioctl_hdr]"

section \<open>\<^verbatim>\<open>include/rdma/rdma_user_rxe.h\<close>\<close>

definition union_rxe_gid :: ctype where
  "union_rxe_gid = c_union [
     (''raw'', Arr u8_t 16),
     (''global'', c_struct [ (''subnet_prefix'', u64_t), (''interface_id'', u64_t)])]"

definition struct_rxe_global_route :: ctype where
  "struct_rxe_global_route = c_struct [
     (''dgid'', union_rxe_gid),
     (''flow_label'', u32_t),
     (''sgid_index'', u8_t),
     (''hop_limit'', u8_t),
     (''traffic_class'', u8_t)]"

definition struct_rxe_av :: ctype where
  "struct_rxe_av = c_struct [
     (''port_num'', u8_t),
     (''network_type'', u8_t),
     (''dmac'', Arr u8_t 6),
     (''grh'', struct_rxe_global_route),
     (''sgid_addr'', c_union [ (''_sockaddr_in'', struct_sockaddr_in), (''_sockaddr_in6'', struct_sockaddr_in6)]),
     (''dgid_addr'', c_union [ (''_sockaddr_in'', struct_sockaddr_in), (''_sockaddr_in6'', struct_sockaddr_in6)])]"

definition struct_rxe_send_wr :: ctype where
  "struct_rxe_send_wr = c_struct [
     (''wr_id'', aligned_u64_t),
     (''num_sge'', u32_t),
     (''opcode'', u32_t),
     (''send_flags'', u32_t),
     (''ex'', c_union [ (''imm_data'', u32_t), (''invalidate_rkey'', u32_t)]),
     (''wr'', c_union [ (''rdma'', c_struct [ (''remote_addr'', aligned_u64_t), (''rkey'', u32_t), (''reserved'', u32_t)]), (''atomic'', c_struct [ (''remote_addr'', aligned_u64_t), (''compare_add'', aligned_u64_t), (''swap'', aligned_u64_t), (''rkey'', u32_t), (''reserved'', u32_t)]), (''ud'', c_struct [ (''remote_qpn'', u32_t), (''remote_qkey'', u32_t), (''pkey_index'', u16_t)]), (''mw'', c_struct [ (''addr'', aligned_u64_t), (''length'', aligned_u64_t), (''mr_lkey'', u32_t), (''mw_rkey'', u32_t), (''rkey'', u32_t), (''access'', u32_t)])])]"

definition struct_rxe_sge :: ctype where
  "struct_rxe_sge = c_struct [
     (''addr'', aligned_u64_t),
     (''length'', u32_t),
     (''lkey'', u32_t)]"

definition struct_mminfo :: ctype where
  "struct_mminfo = c_struct [
     (''offset'', aligned_u64_t),
     (''size'', u32_t),
     (''pad'', u32_t)]"

definition struct_rxe_dma_info :: ctype where
  "struct_rxe_dma_info = c_struct [
     (''length'', u32_t),
     (''resid'', u32_t),
     (''cur_sge'', u32_t),
     (''num_sge'', u32_t),
     (''sge_offset'', u32_t),
     (''reserved'', u32_t),
     ('''', c_union [ (''inline_data'', Arr u8_t 0), (''sge'', Arr struct_rxe_sge 0)])]"

definition struct_rxe_send_wqe :: ctype where
  "struct_rxe_send_wqe = c_struct [
     (''wr'', struct_rxe_send_wr),
     (''av'', struct_rxe_av),
     (''status'', u32_t),
     (''state'', u32_t),
     (''iova'', aligned_u64_t),
     (''mask'', u32_t),
     (''first_psn'', u32_t),
     (''last_psn'', u32_t),
     (''ack_length'', u32_t),
     (''ssn'', u32_t),
     (''has_rd_atomic'', u32_t),
     (''dma'', struct_rxe_dma_info)]"

definition struct_rxe_recv_wqe :: ctype where
  "struct_rxe_recv_wqe = c_struct [
     (''wr_id'', aligned_u64_t),
     (''num_sge'', u32_t),
     (''padding'', u32_t),
     (''dma'', struct_rxe_dma_info)]"

definition struct_rxe_create_cq_resp :: ctype where
  "struct_rxe_create_cq_resp = c_struct [
     (''mi'', struct_mminfo)]"

definition struct_rxe_resize_cq_resp :: ctype where
  "struct_rxe_resize_cq_resp = c_struct [
     (''mi'', struct_mminfo)]"

definition struct_rxe_create_qp_resp :: ctype where
  "struct_rxe_create_qp_resp = c_struct [
     (''rq_mi'', struct_mminfo),
     (''sq_mi'', struct_mminfo)]"

definition struct_rxe_create_srq_resp :: ctype where
  "struct_rxe_create_srq_resp = c_struct [
     (''mi'', struct_mminfo),
     (''srq_num'', u32_t),
     (''reserved'', u32_t)]"

definition struct_rxe_modify_srq_cmd :: ctype where
  "struct_rxe_modify_srq_cmd = c_struct [
     (''mmap_info_addr'', aligned_u64_t)]"

definition struct_rxe_queue_buf :: ctype where
  "struct_rxe_queue_buf = c_struct [
     (''log2_elem_size'', u32_t),
     (''index_mask'', u32_t),
     (''pad_1'', Arr u32_t 30),
     (''producer_index'', u32_t),
     (''pad_2'', Arr u32_t 31),
     (''consumer_index'', u32_t),
     (''pad_3'', Arr u32_t 31),
     (''data'', Arr u8_t 0)]"

definition rdma_rdma_user_rxe_structs :: "ctype list" where
  "rdma_rdma_user_rxe_structs = [union_rxe_gid, struct_rxe_sge, struct_mminfo, struct_rxe_dma_info, struct_rxe_recv_wqe,
     struct_rxe_create_cq_resp, struct_rxe_resize_cq_resp, struct_rxe_create_qp_resp, struct_rxe_create_srq_resp,
     struct_rxe_modify_srq_cmd, struct_rxe_queue_buf]"

section \<open>\<^verbatim>\<open>include/rdma/rvt-abi.h\<close>\<close>

definition struct_rvt_wqe_sge :: ctype where
  "struct_rvt_wqe_sge = c_struct [
     (''addr'', aligned_u64_t),
     (''length'', u32_t),
     (''lkey'', u32_t)]"

definition struct_rvt_cq_wc :: ctype where
  "struct_rvt_cq_wc = c_struct [
     (''head'', c_struct [ (''val'', u32_t)]),
     (''tail'', c_struct [ (''val'', u32_t)]),
     (''uqueue'', Arr struct_ib_uverbs_wc 0)]"

definition struct_rvt_rwqe :: ctype where
  "struct_rvt_rwqe = c_struct [
     (''wr_id'', u64_t),
     (''num_sge'', u8_t),
     (''padding'', Arr u8_t 7),
     (''sg_list'', Arr struct_rvt_wqe_sge 0)]"

definition struct_rvt_rwq :: ctype where
  "struct_rvt_rwq = c_struct [
     (''head'', c_struct [ (''val'', u32_t)]),
     (''tail'', c_struct [ (''val'', u32_t)]),
     (''wq'', Arr struct_rvt_rwqe 0)]"

definition rdma_rvt_structs :: "ctype list" where
  "rdma_rvt_structs = [struct_rvt_wqe_sge, struct_rvt_cq_wc, struct_rvt_rwqe, struct_rvt_rwq]"

section \<open>\<^verbatim>\<open>include/rdma/bnxt_re-abi.h\<close>\<close>

definition struct_bnxt_re_uctx_resp :: ctype where
  "struct_bnxt_re_uctx_resp = c_struct [
     (''dev_id'', u32_t),
     (''max_qp'', u32_t),
     (''pg_size'', u32_t),
     (''cqe_sz'', u32_t),
     (''max_cqd'', u32_t),
     (''rsvd'', u32_t),
     (''comp_mask'', aligned_u64_t),
     (''chip_id0'', u32_t),
     (''chip_id1'', u32_t),
     (''mode'', u32_t),
     (''rsvd1'', u32_t)]"

definition struct_bnxt_re_pd_resp :: ctype where
  "struct_bnxt_re_pd_resp = Aligned 4 (c_packed [
     (''pdid'', u32_t),
     (''dpi'', u32_t),
     (''dbr'', u64_t)])"

definition struct_bnxt_re_cq_req :: ctype where
  "struct_bnxt_re_cq_req = c_struct [
     (''cq_va'', aligned_u64_t),
     (''cq_handle'', aligned_u64_t)]"

definition struct_bnxt_re_cq_resp :: ctype where
  "struct_bnxt_re_cq_resp = c_struct [
     (''cqid'', u32_t),
     (''tail'', u32_t),
     (''phase'', u32_t),
     (''rsvd'', u32_t)]"

definition struct_bnxt_re_qp_req :: ctype where
  "struct_bnxt_re_qp_req = c_struct [
     (''qpsva'', aligned_u64_t),
     (''qprva'', aligned_u64_t),
     (''qp_handle'', aligned_u64_t)]"

definition struct_bnxt_re_qp_resp :: ctype where
  "struct_bnxt_re_qp_resp = c_struct [
     (''qpid'', u32_t),
     (''rsvd'', u32_t)]"

definition struct_bnxt_re_srq_req :: ctype where
  "struct_bnxt_re_srq_req = c_struct [
     (''srqva'', aligned_u64_t),
     (''srq_handle'', aligned_u64_t)]"

definition struct_bnxt_re_srq_resp :: ctype where
  "struct_bnxt_re_srq_resp = c_struct [
     (''srqid'', u32_t)]"

definition rdma_bnxt_re_structs :: "ctype list" where
  "rdma_bnxt_re_structs = [struct_bnxt_re_uctx_resp, struct_bnxt_re_pd_resp, struct_bnxt_re_cq_req, struct_bnxt_re_cq_resp,
     struct_bnxt_re_qp_req, struct_bnxt_re_qp_resp, struct_bnxt_re_srq_req, struct_bnxt_re_srq_resp]"

section \<open>\<^verbatim>\<open>include/rdma/cxgb4-abi.h\<close>\<close>

definition struct_c4iw_create_cq :: ctype where
  "struct_c4iw_create_cq = c_struct [
     (''flags'', u32_t),
     (''reserved'', u32_t)]"

definition struct_c4iw_create_cq_resp :: ctype where
  "struct_c4iw_create_cq_resp = c_struct [
     (''key'', aligned_u64_t),
     (''gts_key'', aligned_u64_t),
     (''memsize'', aligned_u64_t),
     (''cqid'', u32_t),
     (''size'', u32_t),
     (''qid_mask'', u32_t),
     (''flags'', u32_t)]"

definition struct_c4iw_create_qp_resp :: ctype where
  "struct_c4iw_create_qp_resp = c_struct [
     (''ma_sync_key'', aligned_u64_t),
     (''sq_key'', aligned_u64_t),
     (''rq_key'', aligned_u64_t),
     (''sq_db_gts_key'', aligned_u64_t),
     (''rq_db_gts_key'', aligned_u64_t),
     (''sq_memsize'', aligned_u64_t),
     (''rq_memsize'', aligned_u64_t),
     (''sqid'', u32_t),
     (''rqid'', u32_t),
     (''sq_size'', u32_t),
     (''rq_size'', u32_t),
     (''qid_mask'', u32_t),
     (''flags'', u32_t)]"

definition struct_c4iw_create_srq_resp :: ctype where
  "struct_c4iw_create_srq_resp = c_struct [
     (''srq_key'', aligned_u64_t),
     (''srq_db_gts_key'', aligned_u64_t),
     (''srq_memsize'', aligned_u64_t),
     (''srqid'', u32_t),
     (''srq_size'', u32_t),
     (''rqt_abs_idx'', u32_t),
     (''qid_mask'', u32_t),
     (''flags'', u32_t),
     (''reserved'', u32_t)]"

definition struct_c4iw_alloc_ucontext_resp :: ctype where
  "struct_c4iw_alloc_ucontext_resp = c_struct [
     (''status_page_key'', aligned_u64_t),
     (''status_page_size'', u32_t),
     (''reserved'', u32_t)]"

definition struct_c4iw_alloc_pd_resp :: ctype where
  "struct_c4iw_alloc_pd_resp = c_struct [
     (''pdid'', u32_t)]"

definition rdma_cxgb4_structs :: "ctype list" where
  "rdma_cxgb4_structs = [struct_c4iw_create_cq, struct_c4iw_create_cq_resp, struct_c4iw_create_qp_resp, struct_c4iw_create_srq_resp,
     struct_c4iw_alloc_ucontext_resp, struct_c4iw_alloc_pd_resp]"

section \<open>\<^verbatim>\<open>include/rdma/efa-abi.h\<close>\<close>

definition struct_efa_ibv_alloc_ucontext_cmd :: ctype where
  "struct_efa_ibv_alloc_ucontext_cmd = c_struct [
     (''comp_mask'', u32_t),
     (''reserved_20'', Arr u8_t 4)]"

definition struct_efa_ibv_alloc_ucontext_resp :: ctype where
  "struct_efa_ibv_alloc_ucontext_resp = c_struct [
     (''comp_mask'', u32_t),
     (''cmds_supp_udata_mask'', u32_t),
     (''sub_cqs_per_cq'', u16_t),
     (''inline_buf_size'', u16_t),
     (''max_llq_size'', u32_t),
     (''max_tx_batch'', u16_t),
     (''min_sq_wr'', u16_t),
     (''reserved_a0'', Arr u8_t 4)]"

definition struct_efa_ibv_alloc_pd_resp :: ctype where
  "struct_efa_ibv_alloc_pd_resp = c_struct [
     (''comp_mask'', u32_t),
     (''pdn'', u16_t),
     (''reserved_30'', Arr u8_t 2)]"

definition struct_efa_ibv_create_cq :: ctype where
  "struct_efa_ibv_create_cq = c_struct [
     (''comp_mask'', u32_t),
     (''cq_entry_size'', u32_t),
     (''num_sub_cqs'', u16_t),
     (''reserved_50'', Arr u8_t 6)]"

definition struct_efa_ibv_create_cq_resp :: ctype where
  "struct_efa_ibv_create_cq_resp = c_struct [
     (''comp_mask'', u32_t),
     (''reserved_20'', Arr u8_t 4),
     (''q_mmap_key'', aligned_u64_t),
     (''q_mmap_size'', aligned_u64_t),
     (''cq_idx'', u16_t),
     (''reserved_d0'', Arr u8_t 6)]"

definition struct_efa_ibv_create_qp :: ctype where
  "struct_efa_ibv_create_qp = c_struct [
     (''comp_mask'', u32_t),
     (''rq_ring_size'', u32_t),
     (''sq_ring_size'', u32_t),
     (''driver_qp_type'', u32_t)]"

definition struct_efa_ibv_create_qp_resp :: ctype where
  "struct_efa_ibv_create_qp_resp = c_struct [
     (''comp_mask'', u32_t),
     (''rq_db_offset'', u32_t),
     (''sq_db_offset'', u32_t),
     (''llq_desc_offset'', u32_t),
     (''rq_mmap_key'', aligned_u64_t),
     (''rq_mmap_size'', aligned_u64_t),
     (''rq_db_mmap_key'', aligned_u64_t),
     (''sq_db_mmap_key'', aligned_u64_t),
     (''llq_desc_mmap_key'', aligned_u64_t),
     (''send_sub_cq_idx'', u16_t),
     (''recv_sub_cq_idx'', u16_t),
     (''reserved_1e0'', Arr u8_t 4)]"

definition struct_efa_ibv_create_ah_resp :: ctype where
  "struct_efa_ibv_create_ah_resp = c_struct [
     (''comp_mask'', u32_t),
     (''efa_address_handle'', u16_t),
     (''reserved_30'', Arr u8_t 2)]"

definition struct_efa_ibv_ex_query_device_resp :: ctype where
  "struct_efa_ibv_ex_query_device_resp = c_struct [
     (''comp_mask'', u32_t),
     (''max_sq_wr'', u32_t),
     (''max_rq_wr'', u32_t),
     (''max_sq_sge'', u16_t),
     (''max_rq_sge'', u16_t),
     (''max_rdma_size'', u32_t),
     (''device_caps'', u32_t)]"

definition rdma_efa_structs :: "ctype list" where
  "rdma_efa_structs = [struct_efa_ibv_alloc_ucontext_cmd, struct_efa_ibv_alloc_ucontext_resp, struct_efa_ibv_alloc_pd_resp,
     struct_efa_ibv_create_cq, struct_efa_ibv_create_cq_resp, struct_efa_ibv_create_qp,
     struct_efa_ibv_create_qp_resp, struct_efa_ibv_create_ah_resp, struct_efa_ibv_ex_query_device_resp]"

section \<open>\<^verbatim>\<open>include/rdma/hns-abi.h\<close>\<close>

definition struct_hns_roce_ib_create_cq :: ctype where
  "struct_hns_roce_ib_create_cq = c_struct [
     (''buf_addr'', aligned_u64_t),
     (''db_addr'', aligned_u64_t),
     (''cqe_size'', u32_t),
     (''reserved'', u32_t)]"

definition struct_hns_roce_ib_create_cq_resp :: ctype where
  "struct_hns_roce_ib_create_cq_resp = c_struct [
     (''cqn'', aligned_u64_t),
     (''cap_flags'', aligned_u64_t)]"

definition struct_hns_roce_ib_create_srq :: ctype where
  "struct_hns_roce_ib_create_srq = c_struct [
     (''buf_addr'', aligned_u64_t),
     (''db_addr'', aligned_u64_t),
     (''que_addr'', aligned_u64_t)]"

definition struct_hns_roce_ib_create_srq_resp :: ctype where
  "struct_hns_roce_ib_create_srq_resp = c_struct [
     (''srqn'', u32_t),
     (''reserved'', u32_t)]"

definition struct_hns_roce_ib_create_qp :: ctype where
  "struct_hns_roce_ib_create_qp = c_struct [
     (''buf_addr'', aligned_u64_t),
     (''db_addr'', aligned_u64_t),
     (''log_sq_bb_count'', u8_t),
     (''log_sq_stride'', u8_t),
     (''sq_no_prefetch'', u8_t),
     (''reserved'', Arr u8_t 5),
     (''sdb_addr'', aligned_u64_t)]"

definition struct_hns_roce_ib_create_qp_resp :: ctype where
  "struct_hns_roce_ib_create_qp_resp = c_struct [
     (''cap_flags'', aligned_u64_t)]"

definition struct_hns_roce_ib_alloc_ucontext_resp :: ctype where
  "struct_hns_roce_ib_alloc_ucontext_resp = c_struct [
     (''qp_tab_size'', u32_t),
     (''cqe_size'', u32_t),
     (''srq_tab_size'', u32_t),
     (''reserved'', u32_t)]"

definition struct_hns_roce_ib_alloc_pd_resp :: ctype where
  "struct_hns_roce_ib_alloc_pd_resp = c_struct [
     (''pdn'', u32_t)]"

definition rdma_hns_structs :: "ctype list" where
  "rdma_hns_structs = [struct_hns_roce_ib_create_cq, struct_hns_roce_ib_create_cq_resp, struct_hns_roce_ib_create_srq,
     struct_hns_roce_ib_create_srq_resp, struct_hns_roce_ib_create_qp, struct_hns_roce_ib_create_qp_resp,
     struct_hns_roce_ib_alloc_ucontext_resp, struct_hns_roce_ib_alloc_pd_resp]"

section \<open>\<^verbatim>\<open>include/rdma/irdma-abi.h\<close>\<close>

definition struct_irdma_alloc_ucontext_req :: ctype where
  "struct_irdma_alloc_ucontext_req = c_struct [
     (''rsvd32'', u32_t),
     (''userspace_ver'', u8_t),
     (''rsvd8'', Arr u8_t 3)]"

definition struct_irdma_alloc_ucontext_resp :: ctype where
  "struct_irdma_alloc_ucontext_resp = c_struct [
     (''max_pds'', u32_t),
     (''max_qps'', u32_t),
     (''wq_size'', u32_t),
     (''kernel_ver'', u8_t),
     (''rsvd'', Arr u8_t 3),
     (''feature_flags'', aligned_u64_t),
     (''db_mmap_key'', aligned_u64_t),
     (''max_hw_wq_frags'', u32_t),
     (''max_hw_read_sges'', u32_t),
     (''max_hw_inline'', u32_t),
     (''max_hw_rq_quanta'', u32_t),
     (''max_hw_wq_quanta'', u32_t),
     (''min_hw_cq_size'', u32_t),
     (''max_hw_cq_size'', u32_t),
     (''max_hw_sq_chunk'', u16_t),
     (''hw_rev'', u8_t),
     (''rsvd2'', u8_t)]"

definition struct_irdma_alloc_pd_resp :: ctype where
  "struct_irdma_alloc_pd_resp = c_struct [
     (''pd_id'', u32_t),
     (''rsvd'', Arr u8_t 4)]"

definition struct_irdma_resize_cq_req :: ctype where
  "struct_irdma_resize_cq_req = c_struct [
     (''user_cq_buffer'', aligned_u64_t)]"

definition struct_irdma_create_cq_req :: ctype where
  "struct_irdma_create_cq_req = c_struct [
     (''user_cq_buf'', aligned_u64_t),
     (''user_shadow_area'', aligned_u64_t)]"

definition struct_irdma_create_qp_req :: ctype where
  "struct_irdma_create_qp_req = c_struct [
     (''user_wqe_bufs'', aligned_u64_t),
     (''user_compl_ctx'', aligned_u64_t)]"

definition struct_irdma_mem_reg_req :: ctype where
  "struct_irdma_mem_reg_req = c_struct [
     (''reg_type'', u16_t),
     (''cq_pages'', u16_t),
     (''rq_pages'', u16_t),
     (''sq_pages'', u16_t)]"

definition struct_irdma_modify_qp_req :: ctype where
  "struct_irdma_modify_qp_req = c_struct [
     (''sq_flush'', u8_t),
     (''rq_flush'', u8_t),
     (''rsvd'', Arr u8_t 6)]"

definition struct_irdma_create_cq_resp :: ctype where
  "struct_irdma_create_cq_resp = c_struct [
     (''cq_id'', u32_t),
     (''cq_size'', u32_t)]"

definition struct_irdma_create_qp_resp :: ctype where
  "struct_irdma_create_qp_resp = c_struct [
     (''qp_id'', u32_t),
     (''actual_sq_size'', u32_t),
     (''actual_rq_size'', u32_t),
     (''irdma_drv_opt'', u32_t),
     (''push_idx'', u16_t),
     (''lsmm'', u8_t),
     (''rsvd'', u8_t),
     (''qp_caps'', u32_t)]"

definition struct_irdma_modify_qp_resp :: ctype where
  "struct_irdma_modify_qp_resp = c_struct [
     (''push_wqe_mmap_key'', aligned_u64_t),
     (''push_db_mmap_key'', aligned_u64_t),
     (''push_offset'', u16_t),
     (''push_valid'', u8_t),
     (''rsvd'', Arr u8_t 5)]"

definition struct_irdma_create_ah_resp :: ctype where
  "struct_irdma_create_ah_resp = c_struct [
     (''ah_id'', u32_t),
     (''rsvd'', Arr u8_t 4)]"

definition rdma_irdma_structs :: "ctype list" where
  "rdma_irdma_structs = [struct_irdma_alloc_ucontext_req, struct_irdma_alloc_ucontext_resp, struct_irdma_alloc_pd_resp,
     struct_irdma_resize_cq_req, struct_irdma_create_cq_req, struct_irdma_create_qp_req, struct_irdma_mem_reg_req,
     struct_irdma_modify_qp_req, struct_irdma_create_cq_resp, struct_irdma_create_qp_resp,
     struct_irdma_modify_qp_resp, struct_irdma_create_ah_resp]"

section \<open>\<^verbatim>\<open>include/rdma/mlx4-abi.h\<close>\<close>

definition struct_mlx4_ib_alloc_ucontext_resp_v3 :: ctype where
  "struct_mlx4_ib_alloc_ucontext_resp_v3 = c_struct [
     (''qp_tab_size'', u32_t),
     (''bf_reg_size'', u16_t),
     (''bf_regs_per_page'', u16_t)]"

definition struct_mlx4_ib_alloc_ucontext_resp :: ctype where
  "struct_mlx4_ib_alloc_ucontext_resp = c_struct [
     (''dev_caps'', u32_t),
     (''qp_tab_size'', u32_t),
     (''bf_reg_size'', u16_t),
     (''bf_regs_per_page'', u16_t),
     (''cqe_size'', u32_t)]"

definition struct_mlx4_ib_alloc_pd_resp :: ctype where
  "struct_mlx4_ib_alloc_pd_resp = c_struct [
     (''pdn'', u32_t),
     (''reserved'', u32_t)]"

definition struct_mlx4_ib_create_cq :: ctype where
  "struct_mlx4_ib_create_cq = c_struct [
     (''buf_addr'', aligned_u64_t),
     (''db_addr'', aligned_u64_t)]"

definition struct_mlx4_ib_create_cq_resp :: ctype where
  "struct_mlx4_ib_create_cq_resp = c_struct [
     (''cqn'', u32_t),
     (''reserved'', u32_t)]"

definition struct_mlx4_ib_resize_cq :: ctype where
  "struct_mlx4_ib_resize_cq = c_struct [
     (''buf_addr'', aligned_u64_t)]"

definition struct_mlx4_ib_create_srq :: ctype where
  "struct_mlx4_ib_create_srq = c_struct [
     (''buf_addr'', aligned_u64_t),
     (''db_addr'', aligned_u64_t)]"

definition struct_mlx4_ib_create_srq_resp :: ctype where
  "struct_mlx4_ib_create_srq_resp = c_struct [
     (''srqn'', u32_t),
     (''reserved'', u32_t)]"

definition struct_mlx4_ib_create_qp_rss :: ctype where
  "struct_mlx4_ib_create_qp_rss = c_struct [
     (''rx_hash_fields_mask'', aligned_u64_t),
     (''rx_hash_function'', u8_t),
     (''reserved'', Arr u8_t 7),
     (''rx_hash_key'', Arr u8_t 40),
     (''comp_mask'', u32_t),
     (''reserved1'', u32_t)]"

definition struct_mlx4_ib_create_qp :: ctype where
  "struct_mlx4_ib_create_qp = c_struct [
     (''buf_addr'', aligned_u64_t),
     (''db_addr'', aligned_u64_t),
     (''log_sq_bb_count'', u8_t),
     (''log_sq_stride'', u8_t),
     (''sq_no_prefetch'', u8_t),
     (''reserved'', u8_t),
     (''inl_recv_sz'', u32_t)]"

definition struct_mlx4_ib_create_wq :: ctype where
  "struct_mlx4_ib_create_wq = c_struct [
     (''buf_addr'', aligned_u64_t),
     (''db_addr'', aligned_u64_t),
     (''log_range_size'', u8_t),
     (''reserved'', Arr u8_t 3),
     (''comp_mask'', u32_t)]"

definition struct_mlx4_ib_modify_wq :: ctype where
  "struct_mlx4_ib_modify_wq = c_struct [
     (''comp_mask'', u32_t),
     (''reserved'', u32_t)]"

definition struct_mlx4_ib_create_rwq_ind_tbl_resp :: ctype where
  "struct_mlx4_ib_create_rwq_ind_tbl_resp = c_struct [
     (''response_length'', u32_t),
     (''reserved'', u32_t)]"

definition struct_mlx4_ib_rss_caps :: ctype where
  "struct_mlx4_ib_rss_caps = c_struct [
     (''rx_hash_fields_mask'', aligned_u64_t),
     (''rx_hash_function'', u8_t),
     (''reserved'', Arr u8_t 7)]"

definition struct_mlx4_ib_tso_caps :: ctype where
  "struct_mlx4_ib_tso_caps = c_struct [
     (''max_tso'', u32_t),
     (''supported_qpts'', u32_t)]"

definition struct_mlx4_uverbs_ex_query_device_resp :: ctype where
  "struct_mlx4_uverbs_ex_query_device_resp = c_struct [
     (''comp_mask'', u32_t),
     (''response_length'', u32_t),
     (''hca_core_clock_offset'', aligned_u64_t),
     (''max_inl_recv_sz'', u32_t),
     (''reserved'', u32_t),
     (''rss_caps'', struct_mlx4_ib_rss_caps),
     (''tso_caps'', struct_mlx4_ib_tso_caps)]"

definition rdma_mlx4_structs :: "ctype list" where
  "rdma_mlx4_structs = [struct_mlx4_ib_alloc_ucontext_resp_v3, struct_mlx4_ib_alloc_ucontext_resp, struct_mlx4_ib_alloc_pd_resp,
     struct_mlx4_ib_create_cq, struct_mlx4_ib_create_cq_resp, struct_mlx4_ib_resize_cq, struct_mlx4_ib_create_srq,
     struct_mlx4_ib_create_srq_resp, struct_mlx4_ib_create_qp_rss, struct_mlx4_ib_create_qp,
     struct_mlx4_ib_create_wq, struct_mlx4_ib_modify_wq, struct_mlx4_ib_create_rwq_ind_tbl_resp,
     struct_mlx4_ib_rss_caps, struct_mlx4_ib_tso_caps, struct_mlx4_uverbs_ex_query_device_resp]"

section \<open>\<^verbatim>\<open>include/rdma/mlx5-abi.h\<close>\<close>

definition struct_mlx5_ib_alloc_ucontext_req :: ctype where
  "struct_mlx5_ib_alloc_ucontext_req = c_struct [
     (''total_num_bfregs'', u32_t),
     (''num_low_latency_bfregs'', u32_t)]"

definition struct_mlx5_ib_alloc_ucontext_req_v2 :: ctype where
  "struct_mlx5_ib_alloc_ucontext_req_v2 = c_struct [
     (''total_num_bfregs'', u32_t),
     (''num_low_latency_bfregs'', u32_t),
     (''flags'', u32_t),
     (''comp_mask'', u32_t),
     (''max_cqe_version'', u8_t),
     (''reserved0'', u8_t),
     (''reserved1'', u16_t),
     (''reserved2'', u32_t),
     (''lib_caps'', aligned_u64_t)]"

definition struct_mlx5_ib_alloc_ucontext_resp :: ctype where
  "struct_mlx5_ib_alloc_ucontext_resp = c_struct [
     (''qp_tab_size'', u32_t),
     (''bf_reg_size'', u32_t),
     (''tot_bfregs'', u32_t),
     (''cache_line_size'', u32_t),
     (''max_sq_desc_sz'', u16_t),
     (''max_rq_desc_sz'', u16_t),
     (''max_send_wqebb'', u32_t),
     (''max_recv_wr'', u32_t),
     (''max_srq_recv_wr'', u32_t),
     (''num_ports'', u16_t),
     (''flow_action_flags'', u16_t),
     (''comp_mask'', u32_t),
     (''response_length'', u32_t),
     (''cqe_version'', u8_t),
     (''cmds_supp_uhw'', u8_t),
     (''eth_min_inline'', u8_t),
     (''clock_info_versions'', u8_t),
     (''hca_core_clock_offset'', aligned_u64_t),
     (''log_uar_size'', u32_t),
     (''num_uars_per_page'', u32_t),
     (''num_dyn_bfregs'', u32_t),
     (''dump_fill_mkey'', u32_t)]"

definition struct_mlx5_ib_alloc_pd_resp :: ctype where
  "struct_mlx5_ib_alloc_pd_resp = c_struct [
     (''pdn'', u32_t)]"

definition struct_mlx5_ib_tso_caps :: ctype where
  "struct_mlx5_ib_tso_caps = c_struct [
     (''max_tso'', u32_t),
     (''supported_qpts'', u32_t)]"

definition struct_mlx5_ib_rss_caps :: ctype where
  "struct_mlx5_ib_rss_caps = c_struct [
     (''rx_hash_fields_mask'', aligned_u64_t),
     (''rx_hash_function'', u8_t),
     (''reserved'', Arr u8_t 7)]"

definition struct_mlx5_ib_cqe_comp_caps :: ctype where
  "struct_mlx5_ib_cqe_comp_caps = c_struct [
     (''max_num'', u32_t),
     (''supported_format'', u32_t)]"

definition struct_mlx5_packet_pacing_caps :: ctype where
  "struct_mlx5_packet_pacing_caps = c_struct [
     (''qp_rate_limit_min'', u32_t),
     (''qp_rate_limit_max'', u32_t),
     (''supported_qpts'', u32_t),
     (''cap_flags'', u8_t),
     (''reserved'', Arr u8_t 3)]"

definition struct_mlx5_ib_sw_parsing_caps :: ctype where
  "struct_mlx5_ib_sw_parsing_caps = c_struct [
     (''sw_parsing_offloads'', u32_t),
     (''supported_qpts'', u32_t)]"

definition struct_mlx5_ib_striding_rq_caps :: ctype where
  "struct_mlx5_ib_striding_rq_caps = c_struct [
     (''min_single_stride_log_num_of_bytes'', u32_t),
     (''max_single_stride_log_num_of_bytes'', u32_t),
     (''min_single_wqe_log_num_of_strides'', u32_t),
     (''max_single_wqe_log_num_of_strides'', u32_t),
     (''supported_qpts'', u32_t),
     (''reserved'', u32_t)]"

definition struct_mlx5_ib_dci_streams_caps :: ctype where
  "struct_mlx5_ib_dci_streams_caps = c_struct [
     (''max_log_num_concurent'', u8_t),
     (''max_log_num_errored'', u8_t)]"

definition struct_mlx5_ib_query_device_resp :: ctype where
  "struct_mlx5_ib_query_device_resp = c_struct [
     (''comp_mask'', u32_t),
     (''response_length'', u32_t),
     (''tso_caps'', struct_mlx5_ib_tso_caps),
     (''rss_caps'', struct_mlx5_ib_rss_caps),
     (''cqe_comp_caps'', struct_mlx5_ib_cqe_comp_caps),
     (''packet_pacing_caps'', struct_mlx5_packet_pacing_caps),
     (''mlx5_ib_support_multi_pkt_send_wqes'', u32_t),
     (''flags'', u32_t),
     (''sw_parsing_caps'', struct_mlx5_ib_sw_parsing_caps),
     (''striding_rq_caps'', struct_mlx5_ib_striding_rq_caps),
     (''tunnel_offloads_caps'', u32_t),
     (''dci_streams_caps'', struct_mlx5_ib_dci_streams_caps),
     (''reserved'', u16_t)]"

definition struct_mlx5_ib_create_cq :: ctype where
  "struct_mlx5_ib_create_cq = c_struct [
     (''buf_addr'', aligned_u64_t),
     (''db_addr'', aligned_u64_t),
     (''cqe_size'', u32_t),
     (''cqe_comp_en'', u8_t),
     (''cqe_comp_res_format'', u8_t),
     (''flags'', u16_t),
     (''uar_page_index'', u16_t),
     (''reserved0'', u16_t),
     (''reserved1'', u32_t)]"

definition struct_mlx5_ib_create_cq_resp :: ctype where
  "struct_mlx5_ib_create_cq_resp = c_struct [
     (''cqn'', u32_t),
     (''reserved'', u32_t)]"

definition struct_mlx5_ib_resize_cq :: ctype where
  "struct_mlx5_ib_resize_cq = c_struct [
     (''buf_addr'', aligned_u64_t),
     (''cqe_size'', u16_t),
     (''reserved0'', u16_t),
     (''reserved1'', u32_t)]"

definition struct_mlx5_ib_create_srq :: ctype where
  "struct_mlx5_ib_create_srq = c_struct [
     (''buf_addr'', aligned_u64_t),
     (''db_addr'', aligned_u64_t),
     (''flags'', u32_t),
     (''reserved0'', u32_t),
     (''uidx'', u32_t),
     (''reserved1'', u32_t)]"

definition struct_mlx5_ib_create_srq_resp :: ctype where
  "struct_mlx5_ib_create_srq_resp = c_struct [
     (''srqn'', u32_t),
     (''reserved'', u32_t)]"

definition struct_mlx5_ib_create_qp_dci_streams :: ctype where
  "struct_mlx5_ib_create_qp_dci_streams = c_struct [
     (''log_num_concurent'', u8_t),
     (''log_num_errored'', u8_t)]"

definition struct_mlx5_ib_create_qp :: ctype where
  "struct_mlx5_ib_create_qp = c_struct [
     (''buf_addr'', aligned_u64_t),
     (''db_addr'', aligned_u64_t),
     (''sq_wqe_count'', u32_t),
     (''rq_wqe_count'', u32_t),
     (''rq_wqe_shift'', u32_t),
     (''flags'', u32_t),
     (''uidx'', u32_t),
     (''bfreg_index'', u32_t),
     ('''', c_union [ (''sq_buf_addr'', aligned_u64_t), (''access_key'', aligned_u64_t)]),
     (''ece_options'', u32_t),
     (''dci_streams'', struct_mlx5_ib_create_qp_dci_streams),
     (''reserved'', u16_t)]"

definition struct_mlx5_ib_create_qp_rss :: ctype where
  "struct_mlx5_ib_create_qp_rss = c_struct [
     (''rx_hash_fields_mask'', aligned_u64_t),
     (''rx_hash_function'', u8_t),
     (''rx_key_len'', u8_t),
     (''reserved'', Arr u8_t 6),
     (''rx_hash_key'', Arr u8_t 128),
     (''comp_mask'', u32_t),
     (''flags'', u32_t)]"

definition struct_mlx5_ib_create_qp_resp :: ctype where
  "struct_mlx5_ib_create_qp_resp = c_struct [
     (''bfreg_index'', u32_t),
     (''ece_options'', u32_t),
     (''comp_mask'', u32_t),
     (''tirn'', u32_t),
     (''tisn'', u32_t),
     (''rqn'', u32_t),
     (''sqn'', u32_t),
     (''reserved1'', u32_t),
     (''tir_icm_addr'', u64_t)]"

definition struct_mlx5_ib_alloc_mw :: ctype where
  "struct_mlx5_ib_alloc_mw = c_struct [
     (''comp_mask'', u32_t),
     (''num_klms'', u8_t),
     (''reserved1'', u8_t),
     (''reserved2'', u16_t)]"

definition struct_mlx5_ib_create_wq :: ctype where
  "struct_mlx5_ib_create_wq = c_struct [
     (''buf_addr'', aligned_u64_t),
     (''db_addr'', aligned_u64_t),
     (''rq_wqe_count'', u32_t),
     (''rq_wqe_shift'', u32_t),
     (''user_index'', u32_t),
     (''flags'', u32_t),
     (''comp_mask'', u32_t),
     (''single_stride_log_num_of_bytes'', u32_t),
     (''single_wqe_log_num_of_strides'', u32_t),
     (''two_byte_shift_en'', u32_t)]"

definition struct_mlx5_ib_create_ah_resp :: ctype where
  "struct_mlx5_ib_create_ah_resp = c_struct [
     (''response_length'', u32_t),
     (''dmac'', Arr u8_t 6),
     (''reserved'', Arr u8_t 6)]"

definition struct_mlx5_ib_burst_info :: ctype where
  "struct_mlx5_ib_burst_info = c_struct [
     (''max_burst_sz'', u32_t),
     (''typical_pkt_sz'', u16_t),
     (''reserved'', u16_t)]"

definition struct_mlx5_ib_modify_qp :: ctype where
  "struct_mlx5_ib_modify_qp = c_struct [
     (''comp_mask'', u32_t),
     (''burst_info'', struct_mlx5_ib_burst_info),
     (''ece_options'', u32_t)]"

definition struct_mlx5_ib_modify_qp_resp :: ctype where
  "struct_mlx5_ib_modify_qp_resp = c_struct [
     (''response_length'', u32_t),
     (''dctn'', u32_t),
     (''ece_options'', u32_t),
     (''reserved'', u32_t)]"

definition struct_mlx5_ib_create_wq_resp :: ctype where
  "struct_mlx5_ib_create_wq_resp = c_struct [
     (''response_length'', u32_t),
     (''reserved'', u32_t)]"

definition struct_mlx5_ib_create_rwq_ind_tbl_resp :: ctype where
  "struct_mlx5_ib_create_rwq_ind_tbl_resp = c_struct [
     (''response_length'', u32_t),
     (''reserved'', u32_t)]"

definition struct_mlx5_ib_modify_wq :: ctype where
  "struct_mlx5_ib_modify_wq = c_struct [
     (''comp_mask'', u32_t),
     (''reserved'', u32_t)]"

definition struct_mlx5_ib_clock_info :: ctype where
  "struct_mlx5_ib_clock_info = c_struct [
     (''sign'', u32_t),
     (''resv'', u32_t),
     (''nsec'', aligned_u64_t),
     (''cycles'', aligned_u64_t),
     (''frac'', aligned_u64_t),
     (''mult'', u32_t),
     (''shift'', u32_t),
     (''mask'', aligned_u64_t),
     (''overflow_period'', aligned_u64_t)]"

definition struct_mlx5_ib_flow_counters_desc :: ctype where
  "struct_mlx5_ib_flow_counters_desc = c_struct [
     (''description'', u32_t),
     (''index'', u32_t)]"

definition struct_mlx5_ib_flow_counters_data :: ctype where
  "struct_mlx5_ib_flow_counters_data = c_struct [
     (''counters_data'', aligned_u64_t),
     (''ncounters'', u32_t),
     (''reserved'', u32_t)]"

definition struct_mlx5_ib_create_flow :: ctype where
  "struct_mlx5_ib_create_flow = c_struct [
     (''ncounters_data'', u32_t),
     (''reserved'', u32_t),
     (''data'', Arr struct_mlx5_ib_flow_counters_data 0)]"

definition rdma_mlx5_structs :: "ctype list" where
  "rdma_mlx5_structs = [struct_mlx5_ib_alloc_ucontext_req, struct_mlx5_ib_alloc_ucontext_req_v2, struct_mlx5_ib_alloc_ucontext_resp,
     struct_mlx5_ib_alloc_pd_resp, struct_mlx5_ib_tso_caps, struct_mlx5_ib_rss_caps, struct_mlx5_ib_cqe_comp_caps,
     struct_mlx5_packet_pacing_caps, struct_mlx5_ib_sw_parsing_caps, struct_mlx5_ib_striding_rq_caps,
     struct_mlx5_ib_dci_streams_caps, struct_mlx5_ib_query_device_resp, struct_mlx5_ib_create_cq,
     struct_mlx5_ib_create_cq_resp, struct_mlx5_ib_resize_cq, struct_mlx5_ib_create_srq,
     struct_mlx5_ib_create_srq_resp, struct_mlx5_ib_create_qp_dci_streams, struct_mlx5_ib_create_qp,
     struct_mlx5_ib_create_qp_rss, struct_mlx5_ib_create_qp_resp, struct_mlx5_ib_alloc_mw,
     struct_mlx5_ib_create_wq, struct_mlx5_ib_create_ah_resp, struct_mlx5_ib_burst_info, struct_mlx5_ib_modify_qp,
     struct_mlx5_ib_modify_qp_resp, struct_mlx5_ib_create_wq_resp, struct_mlx5_ib_create_rwq_ind_tbl_resp,
     struct_mlx5_ib_modify_wq, struct_mlx5_ib_clock_info, struct_mlx5_ib_flow_counters_desc,
     struct_mlx5_ib_flow_counters_data, struct_mlx5_ib_create_flow]"

section \<open>\<^verbatim>\<open>include/rdma/mlx5_user_ioctl_cmds.h\<close>\<close>

definition struct_mlx5_ib_match_params :: ctype where
  "struct_mlx5_ib_match_params = c_struct [
     (''match_params'', Arr u32_t 144)]"

definition rdma_mlx5_user_ioctl_cmds_structs :: "ctype list" where
  "rdma_mlx5_user_ioctl_cmds_structs = [struct_mlx5_ib_match_params]"

section \<open>\<^verbatim>\<open>include/rdma/mlx5_user_ioctl_verbs.h\<close>\<close>

definition struct_mlx5_ib_uapi_devx_async_cmd_hdr :: ctype where
  "struct_mlx5_ib_uapi_devx_async_cmd_hdr = c_struct [
     (''wr_id'', aligned_u64_t),
     (''out_data'', Arr u8_t 0)]"

definition struct_mlx5_ib_uapi_devx_async_event_hdr :: ctype where
  "struct_mlx5_ib_uapi_devx_async_event_hdr = c_struct [
     (''cookie'', aligned_u64_t),
     (''out_data'', Arr u8_t 0)]"

definition struct_mlx5_ib_uapi_reg :: ctype where
  "struct_mlx5_ib_uapi_reg = c_struct [
     (''value'', u32_t),
     (''mask'', u32_t)]"

definition struct_mlx5_ib_uapi_query_port :: ctype where
  "struct_mlx5_ib_uapi_query_port = c_struct [
     (''flags'', aligned_u64_t),
     (''vport'', u16_t),
     (''vport_vhca_id'', u16_t),
     (''esw_owner_vhca_id'', u16_t),
     (''rsvd0'', u16_t),
     (''vport_steering_icm_rx'', aligned_u64_t),
     (''vport_steering_icm_tx'', aligned_u64_t),
     (''reg_c0'', struct_mlx5_ib_uapi_reg)]"

definition rdma_mlx5_user_ioctl_verbs_structs :: "ctype list" where
  "rdma_mlx5_user_ioctl_verbs_structs = [struct_mlx5_ib_uapi_devx_async_cmd_hdr, struct_mlx5_ib_uapi_devx_async_event_hdr, struct_mlx5_ib_uapi_reg,
     struct_mlx5_ib_uapi_query_port]"

section \<open>\<^verbatim>\<open>include/rdma/mthca-abi.h\<close>\<close>

definition struct_mthca_alloc_ucontext_resp :: ctype where
  "struct_mthca_alloc_ucontext_resp = c_struct [
     (''qp_tab_size'', u32_t),
     (''uarc_size'', u32_t)]"

definition struct_mthca_alloc_pd_resp :: ctype where
  "struct_mthca_alloc_pd_resp = c_struct [
     (''pdn'', u32_t),
     (''reserved'', u32_t)]"

definition struct_mthca_reg_mr :: ctype where
  "struct_mthca_reg_mr = c_struct [
     (''mr_attrs'', u32_t),
     (''reserved'', u32_t)]"

definition struct_mthca_create_cq :: ctype where
  "struct_mthca_create_cq = c_struct [
     (''lkey'', u32_t),
     (''pdn'', u32_t),
     (''arm_db_page'', aligned_u64_t),
     (''set_db_page'', aligned_u64_t),
     (''arm_db_index'', u32_t),
     (''set_db_index'', u32_t)]"

definition struct_mthca_create_cq_resp :: ctype where
  "struct_mthca_create_cq_resp = c_struct [
     (''cqn'', u32_t),
     (''reserved'', u32_t)]"

definition struct_mthca_resize_cq :: ctype where
  "struct_mthca_resize_cq = c_struct [
     (''lkey'', u32_t),
     (''reserved'', u32_t)]"

definition struct_mthca_create_srq :: ctype where
  "struct_mthca_create_srq = c_struct [
     (''lkey'', u32_t),
     (''db_index'', u32_t),
     (''db_page'', aligned_u64_t)]"

definition struct_mthca_create_srq_resp :: ctype where
  "struct_mthca_create_srq_resp = c_struct [
     (''srqn'', u32_t),
     (''reserved'', u32_t)]"

definition struct_mthca_create_qp :: ctype where
  "struct_mthca_create_qp = c_struct [
     (''lkey'', u32_t),
     (''reserved'', u32_t),
     (''sq_db_page'', aligned_u64_t),
     (''rq_db_page'', aligned_u64_t),
     (''sq_db_index'', u32_t),
     (''rq_db_index'', u32_t)]"

definition rdma_mthca_structs :: "ctype list" where
  "rdma_mthca_structs = [struct_mthca_alloc_ucontext_resp, struct_mthca_alloc_pd_resp, struct_mthca_reg_mr, struct_mthca_create_cq,
     struct_mthca_create_cq_resp, struct_mthca_resize_cq, struct_mthca_create_srq, struct_mthca_create_srq_resp,
     struct_mthca_create_qp]"

section \<open>\<^verbatim>\<open>include/rdma/ocrdma-abi.h\<close>\<close>

definition struct_ocrdma_alloc_ucontext_resp :: ctype where
  "struct_ocrdma_alloc_ucontext_resp = c_struct [
     (''dev_id'', u32_t),
     (''wqe_size'', u32_t),
     (''max_inline_data'', u32_t),
     (''dpp_wqe_size'', u32_t),
     (''ah_tbl_page'', aligned_u64_t),
     (''ah_tbl_len'', u32_t),
     (''rqe_size'', u32_t),
     (''fw_ver'', Arr u8_t 32),
     (''rsvd1'', aligned_u64_t),
     (''rsvd2'', aligned_u64_t)]"

definition struct_ocrdma_alloc_pd_ureq :: ctype where
  "struct_ocrdma_alloc_pd_ureq = c_struct [
     (''rsvd'', Arr u32_t 2)]"

definition struct_ocrdma_alloc_pd_uresp :: ctype where
  "struct_ocrdma_alloc_pd_uresp = c_struct [
     (''id'', u32_t),
     (''dpp_enabled'', u32_t),
     (''dpp_page_addr_hi'', u32_t),
     (''dpp_page_addr_lo'', u32_t),
     (''rsvd'', Arr u32_t 2)]"

definition struct_ocrdma_create_cq_ureq :: ctype where
  "struct_ocrdma_create_cq_ureq = c_struct [
     (''dpp_cq'', u32_t),
     (''rsvd'', u32_t)]"

definition struct_ocrdma_create_cq_uresp :: ctype where
  "struct_ocrdma_create_cq_uresp = c_struct [
     (''cq_id'', u32_t),
     (''page_size'', u32_t),
     (''num_pages'', u32_t),
     (''max_hw_cqe'', u32_t),
     (''page_addr'', Arr aligned_u64_t 8),
     (''db_page_addr'', aligned_u64_t),
     (''db_page_size'', u32_t),
     (''phase_change'', u32_t),
     (''rsvd1'', aligned_u64_t),
     (''rsvd2'', aligned_u64_t)]"

definition struct_ocrdma_create_qp_ureq :: ctype where
  "struct_ocrdma_create_qp_ureq = c_struct [
     (''enable_dpp_cq'', u8_t),
     (''rsvd'', u8_t),
     (''dpp_cq_id'', u16_t),
     (''rsvd1'', u32_t)]"

definition struct_ocrdma_create_qp_uresp :: ctype where
  "struct_ocrdma_create_qp_uresp = c_struct [
     (''qp_id'', u16_t),
     (''sq_dbid'', u16_t),
     (''rq_dbid'', u16_t),
     (''resv0'', u16_t),
     (''sq_page_size'', u32_t),
     (''rq_page_size'', u32_t),
     (''num_sq_pages'', u32_t),
     (''num_rq_pages'', u32_t),
     (''sq_page_addr'', Arr aligned_u64_t 8),
     (''rq_page_addr'', Arr aligned_u64_t 8),
     (''db_page_addr'', aligned_u64_t),
     (''db_page_size'', u32_t),
     (''dpp_credit'', u32_t),
     (''dpp_offset'', u32_t),
     (''num_wqe_allocated'', u32_t),
     (''num_rqe_allocated'', u32_t),
     (''db_sq_offset'', u32_t),
     (''db_rq_offset'', u32_t),
     (''db_shift'', u32_t),
     (''rsvd'', Arr aligned_u64_t 11)]"

definition struct_ocrdma_create_srq_uresp :: ctype where
  "struct_ocrdma_create_srq_uresp = c_struct [
     (''rq_dbid'', u16_t),
     (''resv0'', u16_t),
     (''resv1'', u32_t),
     (''rq_page_size'', u32_t),
     (''num_rq_pages'', u32_t),
     (''rq_page_addr'', Arr aligned_u64_t 8),
     (''db_page_addr'', aligned_u64_t),
     (''db_page_size'', u32_t),
     (''num_rqe_allocated'', u32_t),
     (''db_rq_offset'', u32_t),
     (''db_shift'', u32_t),
     (''rsvd2'', aligned_u64_t),
     (''rsvd3'', aligned_u64_t)]"

definition rdma_ocrdma_structs :: "ctype list" where
  "rdma_ocrdma_structs = [struct_ocrdma_alloc_ucontext_resp, struct_ocrdma_alloc_pd_ureq, struct_ocrdma_alloc_pd_uresp,
     struct_ocrdma_create_cq_ureq, struct_ocrdma_create_cq_uresp, struct_ocrdma_create_qp_ureq,
     struct_ocrdma_create_qp_uresp, struct_ocrdma_create_srq_uresp]"

section \<open>\<^verbatim>\<open>include/rdma/qedr-abi.h\<close>\<close>

definition struct_qedr_alloc_ucontext_req :: ctype where
  "struct_qedr_alloc_ucontext_req = c_struct [
     (''context_flags'', u32_t),
     (''reserved'', u32_t)]"

definition struct_qedr_alloc_ucontext_resp :: ctype where
  "struct_qedr_alloc_ucontext_resp = c_struct [
     (''db_pa'', aligned_u64_t),
     (''db_size'', u32_t),
     (''max_send_wr'', u32_t),
     (''max_recv_wr'', u32_t),
     (''max_srq_wr'', u32_t),
     (''sges_per_send_wr'', u32_t),
     (''sges_per_recv_wr'', u32_t),
     (''sges_per_srq_wr'', u32_t),
     (''max_cqes'', u32_t),
     (''dpm_flags'', u8_t),
     (''wids_enabled'', u8_t),
     (''wid_count'', u16_t),
     (''ldpm_limit_size'', u16_t),
     (''edpm_trans_size'', u8_t),
     (''reserved'', u8_t),
     (''edpm_limit_size'', u16_t),
     (''padding'', Arr u8_t 6)]"

definition struct_qedr_alloc_pd_ureq :: ctype where
  "struct_qedr_alloc_pd_ureq = c_struct [
     (''rsvd1'', aligned_u64_t)]"

definition struct_qedr_alloc_pd_uresp :: ctype where
  "struct_qedr_alloc_pd_uresp = c_struct [
     (''pd_id'', u32_t),
     (''reserved'', u32_t)]"

definition struct_qedr_create_cq_ureq :: ctype where
  "struct_qedr_create_cq_ureq = c_struct [
     (''addr'', aligned_u64_t),
     (''len'', aligned_u64_t)]"

definition struct_qedr_create_cq_uresp :: ctype where
  "struct_qedr_create_cq_uresp = c_struct [
     (''db_offset'', u32_t),
     (''icid'', u16_t),
     (''reserved'', u16_t),
     (''db_rec_addr'', aligned_u64_t)]"

definition struct_qedr_create_qp_ureq :: ctype where
  "struct_qedr_create_qp_ureq = c_struct [
     (''qp_handle_hi'', u32_t),
     (''qp_handle_lo'', u32_t),
     (''sq_addr'', aligned_u64_t),
     (''sq_len'', aligned_u64_t),
     (''rq_addr'', aligned_u64_t),
     (''rq_len'', aligned_u64_t)]"

definition struct_qedr_create_qp_uresp :: ctype where
  "struct_qedr_create_qp_uresp = c_struct [
     (''qp_id'', u32_t),
     (''atomic_supported'', u32_t),
     (''sq_db_offset'', u32_t),
     (''sq_icid'', u16_t),
     (''rq_db_offset'', u32_t),
     (''rq_icid'', u16_t),
     (''rq_db2_offset'', u32_t),
     (''reserved'', u32_t),
     (''sq_db_rec_addr'', aligned_u64_t),
     (''rq_db_rec_addr'', aligned_u64_t)]"

definition struct_qedr_create_srq_ureq :: ctype where
  "struct_qedr_create_srq_ureq = c_struct [
     (''prod_pair_addr'', aligned_u64_t),
     (''srq_addr'', aligned_u64_t),
     (''srq_len'', aligned_u64_t)]"

definition struct_qedr_create_srq_uresp :: ctype where
  "struct_qedr_create_srq_uresp = c_struct [
     (''srq_id'', u16_t),
     (''reserved0'', u16_t),
     (''reserved1'', u32_t)]"

definition struct_qedr_user_db_rec :: ctype where
  "struct_qedr_user_db_rec = c_struct [
     (''db_data'', aligned_u64_t)]"

definition rdma_qedr_structs :: "ctype list" where
  "rdma_qedr_structs = [struct_qedr_alloc_ucontext_req, struct_qedr_alloc_ucontext_resp, struct_qedr_alloc_pd_ureq,
     struct_qedr_alloc_pd_uresp, struct_qedr_create_cq_ureq, struct_qedr_create_cq_uresp,
     struct_qedr_create_qp_ureq, struct_qedr_create_srq_ureq, struct_qedr_create_srq_uresp, struct_qedr_user_db_rec]"

section \<open>\<^verbatim>\<open>include/rdma/siw-abi.h\<close>\<close>

definition struct_siw_uresp_create_cq :: ctype where
  "struct_siw_uresp_create_cq = c_struct [
     (''cq_id'', u32_t),
     (''num_cqe'', u32_t),
     (''cq_key'', aligned_u64_t)]"

definition struct_siw_uresp_create_qp :: ctype where
  "struct_siw_uresp_create_qp = c_struct [
     (''qp_id'', u32_t),
     (''num_sqe'', u32_t),
     (''num_rqe'', u32_t),
     (''pad'', u32_t),
     (''sq_key'', aligned_u64_t),
     (''rq_key'', aligned_u64_t)]"

definition struct_siw_ureq_reg_mr :: ctype where
  "struct_siw_ureq_reg_mr = c_struct [
     (''stag_key'', u8_t),
     (''reserved'', Arr u8_t 3),
     (''pad'', u32_t)]"

definition struct_siw_uresp_reg_mr :: ctype where
  "struct_siw_uresp_reg_mr = c_struct [
     (''stag'', u32_t),
     (''pad'', u32_t)]"

definition struct_siw_uresp_create_srq :: ctype where
  "struct_siw_uresp_create_srq = c_struct [
     (''num_rqe'', u32_t),
     (''pad'', u32_t),
     (''srq_key'', aligned_u64_t)]"

definition struct_siw_uresp_alloc_ctx :: ctype where
  "struct_siw_uresp_alloc_ctx = c_struct [
     (''dev_id'', u32_t),
     (''pad'', u32_t)]"

definition struct_siw_sge :: ctype where
  "struct_siw_sge = c_struct [
     (''laddr'', aligned_u64_t),
     (''length'', u32_t),
     (''lkey'', u32_t)]"

definition struct_siw_sqe :: ctype where
  "struct_siw_sqe = c_struct [
     (''id'', aligned_u64_t),
     (''flags'', u16_t),
     (''num_sge'', u8_t),
     (''opcode'', u8_t),
     (''rkey'', u32_t),
     ('''', c_union [ (''raddr'', aligned_u64_t), (''base_mr'', aligned_u64_t)]),
     ('''', c_union [ (''sge'', Arr struct_siw_sge 6), (''access'', aligned_u64_t)])]"

definition struct_siw_rqe :: ctype where
  "struct_siw_rqe = c_struct [
     (''id'', aligned_u64_t),
     (''flags'', u16_t),
     (''num_sge'', u8_t),
     (''opcode'', u8_t),
     (''unused'', u32_t),
     (''sge'', Arr struct_siw_sge 6)]"

definition struct_siw_cqe :: "nat \<Rightarrow> ctype" where
  "struct_siw_cqe w = c_struct [
     (''id'', aligned_u64_t),
     (''flags'', u8_t),
     (''opcode'', u8_t),
     (''status'', u16_t),
     (''bytes'', u32_t),
     ('''', c_union [ (''imm_data'', aligned_u64_t), (''inval_stag'', u32_t)]),
     ('''', c_union [ (''base_qp'', ptr_t w), (''qp_id'', aligned_u64_t)])]"

definition struct_siw_cq_ctrl :: ctype where
  "struct_siw_cq_ctrl = c_struct [
     (''flags'', u32_t),
     (''pad'', u32_t)]"

definition rdma_siw_structs :: "ctype list" where
  "rdma_siw_structs = [struct_siw_uresp_create_cq, struct_siw_uresp_create_qp, struct_siw_ureq_reg_mr, struct_siw_uresp_reg_mr,
     struct_siw_uresp_create_srq, struct_siw_uresp_alloc_ctx, struct_siw_sge, struct_siw_sqe, struct_siw_rqe,
     struct_siw_cq_ctrl]"

section \<open>\<^verbatim>\<open>include/rdma/vmw_pvrdma-abi.h\<close>\<close>

definition struct_pvrdma_alloc_ucontext_resp :: ctype where
  "struct_pvrdma_alloc_ucontext_resp = c_struct [
     (''qp_tab_size'', u32_t),
     (''reserved'', u32_t)]"

definition struct_pvrdma_alloc_pd_resp :: ctype where
  "struct_pvrdma_alloc_pd_resp = c_struct [
     (''pdn'', u32_t),
     (''reserved'', u32_t)]"

definition struct_pvrdma_create_cq :: ctype where
  "struct_pvrdma_create_cq = c_struct [
     (''buf_addr'', aligned_u64_t),
     (''buf_size'', u32_t),
     (''reserved'', u32_t)]"

definition struct_pvrdma_create_cq_resp :: ctype where
  "struct_pvrdma_create_cq_resp = c_struct [
     (''cqn'', u32_t),
     (''reserved'', u32_t)]"

definition struct_pvrdma_resize_cq :: ctype where
  "struct_pvrdma_resize_cq = c_struct [
     (''buf_addr'', aligned_u64_t),
     (''buf_size'', u32_t),
     (''reserved'', u32_t)]"

definition struct_pvrdma_create_srq :: ctype where
  "struct_pvrdma_create_srq = c_struct [
     (''buf_addr'', aligned_u64_t),
     (''buf_size'', u32_t),
     (''reserved'', u32_t)]"

definition struct_pvrdma_create_srq_resp :: ctype where
  "struct_pvrdma_create_srq_resp = c_struct [
     (''srqn'', u32_t),
     (''reserved'', u32_t)]"

definition struct_pvrdma_create_qp :: ctype where
  "struct_pvrdma_create_qp = c_struct [
     (''rbuf_addr'', aligned_u64_t),
     (''sbuf_addr'', aligned_u64_t),
     (''rbuf_size'', u32_t),
     (''sbuf_size'', u32_t),
     (''qp_addr'', aligned_u64_t)]"

definition struct_pvrdma_create_qp_resp :: ctype where
  "struct_pvrdma_create_qp_resp = c_struct [
     (''qpn'', u32_t),
     (''qp_handle'', u32_t)]"

definition struct_pvrdma_ex_cmp_swap :: ctype where
  "struct_pvrdma_ex_cmp_swap = c_struct [
     (''swap_val'', aligned_u64_t),
     (''compare_val'', aligned_u64_t),
     (''swap_mask'', aligned_u64_t),
     (''compare_mask'', aligned_u64_t)]"

definition struct_pvrdma_ex_fetch_add :: ctype where
  "struct_pvrdma_ex_fetch_add = c_struct [
     (''add_val'', aligned_u64_t),
     (''field_boundary'', aligned_u64_t)]"

definition struct_pvrdma_av :: ctype where
  "struct_pvrdma_av = c_struct [
     (''port_pd'', u32_t),
     (''sl_tclass_flowlabel'', u32_t),
     (''dgid'', Arr u8_t 16),
     (''src_path_bits'', u8_t),
     (''gid_index'', u8_t),
     (''stat_rate'', u8_t),
     (''hop_limit'', u8_t),
     (''dmac'', Arr u8_t 6),
     (''reserved'', Arr u8_t 6)]"

definition struct_pvrdma_sge :: ctype where
  "struct_pvrdma_sge = c_struct [
     (''addr'', aligned_u64_t),
     (''length'', u32_t),
     (''lkey'', u32_t)]"

definition struct_pvrdma_rq_wqe_hdr :: ctype where
  "struct_pvrdma_rq_wqe_hdr = c_struct [
     (''wr_id'', aligned_u64_t),
     (''num_sge'', u32_t),
     (''total_len'', u32_t)]"

definition struct_pvrdma_sq_wqe_hdr :: ctype where
  "struct_pvrdma_sq_wqe_hdr = c_struct [
     (''wr_id'', aligned_u64_t),
     (''num_sge'', u32_t),
     (''total_len'', u32_t),
     (''opcode'', u32_t),
     (''send_flags'', u32_t),
     (''ex'', c_union [ (''imm_data'', u32_t), (''invalidate_rkey'', u32_t)]),
     (''reserved'', u32_t),
     (''wr'', c_union [ (''rdma'', c_struct [ (''remote_addr'', aligned_u64_t), (''rkey'', u32_t), (''reserved'', Arr u8_t 4)]), (''atomic'', c_struct [ (''remote_addr'', aligned_u64_t), (''compare_add'', aligned_u64_t), (''swap'', aligned_u64_t), (''rkey'', u32_t), (''reserved'', u32_t)]), (''masked_atomics'', c_struct [ (''remote_addr'', aligned_u64_t), (''log_arg_sz'', u32_t), (''rkey'', u32_t), (''wr_data'', c_union [ (''cmp_swap'', struct_pvrdma_ex_cmp_swap), (''fetch_add'', struct_pvrdma_ex_fetch_add)])]), (''fast_reg'', c_struct [ (''iova_start'', aligned_u64_t), (''pl_pdir_dma'', aligned_u64_t), (''page_shift'', u32_t), (''page_list_len'', u32_t), (''length'', u32_t), (''access_flags'', u32_t), (''rkey'', u32_t), (''reserved'', u32_t)]), (''ud'', c_struct [ (''remote_qpn'', u32_t), (''remote_qkey'', u32_t), (''av'', struct_pvrdma_av)])])]"

definition struct_pvrdma_cqe :: ctype where
  "struct_pvrdma_cqe = c_struct [
     (''wr_id'', aligned_u64_t),
     (''qp'', aligned_u64_t),
     (''opcode'', u32_t),
     (''status'', u32_t),
     (''byte_len'', u32_t),
     (''imm_data'', u32_t),
     (''src_qp'', u32_t),
     (''wc_flags'', u32_t),
     (''vendor_err'', u32_t),
     (''pkey_index'', u16_t),
     (''slid'', u16_t),
     (''sl'', u8_t),
     (''dlid_path_bits'', u8_t),
     (''port_num'', u8_t),
     (''smac'', Arr u8_t 6),
     (''network_hdr_type'', u8_t),
     (''reserved2'', Arr u8_t 6)]"

definition rdma_vmw_pvrdma_structs :: "ctype list" where
  "rdma_vmw_pvrdma_structs = [struct_pvrdma_alloc_ucontext_resp, struct_pvrdma_alloc_pd_resp, struct_pvrdma_create_cq,
     struct_pvrdma_create_cq_resp, struct_pvrdma_resize_cq, struct_pvrdma_create_srq,
     struct_pvrdma_create_srq_resp, struct_pvrdma_create_qp, struct_pvrdma_create_qp_resp,
     struct_pvrdma_ex_cmp_swap, struct_pvrdma_ex_fetch_add, struct_pvrdma_av, struct_pvrdma_sge,
     struct_pvrdma_rq_wqe_hdr, struct_pvrdma_sq_wqe_hdr, struct_pvrdma_cqe]"

text \<open>The structures with padding, and those with a socket address or a pointer.\<close>

definition rdma_padded :: "ctype list" where
  "rdma_padded = [struct_ib_uverbs_flow_action_esp_encap, struct_rxe_global_route, struct_rxe_av, struct_rxe_send_wr,
     struct_rxe_send_wqe, struct_qedr_create_qp_uresp]"

definition rdma_pointers :: "(nat \<Rightarrow> ctype) list" where
  "rdma_pointers = [struct_kernel_sockaddr_storage, struct_rdma_ucm_bind, struct_rdma_ucm_resolve_addr,
     struct_rdma_ucm_query_addr_resp, struct_rdma_ucm_join_mcast, struct_siw_cqe]"

definition rdma_structs :: "ctype list" where
  "rdma_structs = rdma_in_structs @ rdma_in6_structs @ rdma_ib_user_ioctl_verbs_structs @ rdma_ib_user_sa_structs @
     rdma_rdma_user_cm_structs @ rdma_rdma_user_ioctl_cmds_structs @ rdma_rdma_user_rxe_structs @ rdma_rvt_structs @
     rdma_bnxt_re_structs @ rdma_cxgb4_structs @ rdma_efa_structs @ rdma_hns_structs @ rdma_irdma_structs @
     rdma_mlx4_structs @ rdma_mlx5_structs @ rdma_mlx5_user_ioctl_cmds_structs @ rdma_mlx5_user_ioctl_verbs_structs @
     rdma_mthca_structs @ rdma_ocrdma_structs @ rdma_qedr_structs @ rdma_siw_structs @ rdma_vmw_pvrdma_structs"

section \<open>Properties\<close>

lemma rdma_in_structs_tight: "list_all tight rdma_in_structs"
  by code_simp

lemma rdma_in6_structs_tight: "list_all tight rdma_in6_structs"
  by code_simp

lemma rdma_ib_user_ioctl_verbs_structs_tight: "list_all tight rdma_ib_user_ioctl_verbs_structs"
  by code_simp

lemma rdma_ib_user_sa_structs_tight: "list_all tight rdma_ib_user_sa_structs"
  by code_simp

lemma rdma_rdma_user_cm_structs_tight: "list_all tight rdma_rdma_user_cm_structs"
  by code_simp

lemma rdma_rdma_user_ioctl_cmds_structs_tight: "list_all tight rdma_rdma_user_ioctl_cmds_structs"
  by code_simp

lemma rdma_rdma_user_rxe_structs_tight: "list_all tight rdma_rdma_user_rxe_structs"
  by code_simp

lemma rdma_rvt_structs_tight: "list_all tight rdma_rvt_structs"
  by code_simp

lemma rdma_bnxt_re_structs_tight: "list_all tight rdma_bnxt_re_structs"
  by code_simp

lemma rdma_cxgb4_structs_tight: "list_all tight rdma_cxgb4_structs"
  by code_simp

lemma rdma_efa_structs_tight: "list_all tight rdma_efa_structs"
  by code_simp

lemma rdma_hns_structs_tight: "list_all tight rdma_hns_structs"
  by code_simp

lemma rdma_irdma_structs_tight: "list_all tight rdma_irdma_structs"
  by code_simp

lemma rdma_mlx4_structs_tight: "list_all tight rdma_mlx4_structs"
  by code_simp

lemma rdma_mlx5_structs_tight: "list_all tight rdma_mlx5_structs"
  by code_simp

lemma rdma_mlx5_user_ioctl_cmds_structs_tight: "list_all tight rdma_mlx5_user_ioctl_cmds_structs"
  by code_simp

lemma rdma_mlx5_user_ioctl_verbs_structs_tight: "list_all tight rdma_mlx5_user_ioctl_verbs_structs"
  by code_simp

lemma rdma_mthca_structs_tight: "list_all tight rdma_mthca_structs"
  by code_simp

lemma rdma_ocrdma_structs_tight: "list_all tight rdma_ocrdma_structs"
  by code_simp

lemma rdma_qedr_structs_tight: "list_all tight rdma_qedr_structs"
  by code_simp

lemma rdma_siw_structs_tight: "list_all tight rdma_siw_structs"
  by code_simp

lemma rdma_vmw_pvrdma_structs_tight: "list_all tight rdma_vmw_pvrdma_structs"
  by code_simp

lemma rdma_all_tight: "list_all tight rdma_structs"
  by (simp add: rdma_structs_def rdma_in_structs_tight rdma_in6_structs_tight rdma_ib_user_ioctl_verbs_structs_tight
     rdma_ib_user_sa_structs_tight rdma_rdma_user_cm_structs_tight rdma_rdma_user_ioctl_cmds_structs_tight
     rdma_rdma_user_rxe_structs_tight rdma_rvt_structs_tight rdma_bnxt_re_structs_tight
     rdma_cxgb4_structs_tight rdma_efa_structs_tight rdma_hns_structs_tight rdma_irdma_structs_tight
     rdma_mlx4_structs_tight rdma_mlx5_structs_tight rdma_mlx5_user_ioctl_cmds_structs_tight
     rdma_mlx5_user_ioctl_verbs_structs_tight rdma_mthca_structs_tight rdma_ocrdma_structs_tight
     rdma_qedr_structs_tight rdma_siw_structs_tight rdma_vmw_pvrdma_structs_tight)

text \<open>
  The structures of RDMA drivers, connection management and software devices without implicit padding, nearly all, are
  laid out alike, member by member, for 32-bit and 64-bit programs, and each of their bytes belongs to a member.
\<close>

theorem rdma_layout:
  assumes "t \<in> set rdma_structs"
  shows "same_everywhere t \<and> covered (leaves 8 0 t) 0 (sizeof 8 t)"
  using rdma_all_tight assms by (rule tight_types)

theorem rdma_layout_witness: "same_everywhere struct_mlx5_ib_create_qp \<and> covered (leaves 8 0 struct_mlx5_ib_create_qp) 0 (sizeof 8 struct_mlx5_ib_create_qp)"
  by (rule rdma_layout) (simp add: rdma_structs_def rdma_in_structs_def rdma_in6_structs_def rdma_ib_user_ioctl_verbs_structs_def rdma_ib_user_sa_structs_def rdma_rdma_user_cm_structs_def rdma_rdma_user_ioctl_cmds_structs_def rdma_rdma_user_rxe_structs_def rdma_rvt_structs_def rdma_bnxt_re_structs_def rdma_cxgb4_structs_def rdma_efa_structs_def rdma_hns_structs_def rdma_irdma_structs_def rdma_mlx4_structs_def rdma_mlx5_structs_def rdma_mlx5_user_ioctl_cmds_structs_def rdma_mlx5_user_ioctl_verbs_structs_def rdma_mthca_structs_def rdma_ocrdma_structs_def rdma_qedr_structs_def rdma_siw_structs_def rdma_vmw_pvrdma_structs_def)

text \<open>
  The others: those with padding have their members in the same places on i386, and those with a pointer inside
  have the same size, as the pointer only sets the alignment of an address or shares its place with a number.
\<close>

lemma rdma_padded_agree: "list_all (\<lambda>t. agree 4 t \<and> sizeof 4 t = sizeof 8 t) rdma_padded"
  by code_simp

lemma rdma_pointers_size: "list_all (\<lambda>t. sizeof 4 (t 4) = sizeof 8 (t 8)) rdma_pointers"
  by code_simp

theorem rdma_compat:
  "list_all (\<lambda>t. leaves 4 0 t = leaves 8 0 t \<and> sizeof 4 t = sizeof 8 t) rdma_padded \<and>
   list_all (\<lambda>t. sizeof 4 (t 4) = sizeof 8 (t 8)) rdma_pointers"
  using rdma_padded_agree rdma_pointers_size by (auto simp add: list_all_iff intro: agree_leaves)

end
