(* ===== verification/Wire_Fc.thy ===== *)
theory Wire_Fc
  imports Abi_Request C_Object
begin

text \<open>
  The frames of Fibre Channel, \<^verbatim>\<open>include/scsi/fc\<close>: frame headers, extended link services, the descriptors of
  performance notifications, and the name server's requests. Numbers are big endian on the wire. The
  descriptors form a list, which \<^verbatim>\<open>fc_tlv_next_desc\<close> steps through.
\<close>

section \<open>\<^verbatim>\<open>include/scsi/fc/fc_fs.h\<close>\<close>

definition struct_fc_frame_header :: ctype where
  "struct_fc_frame_header = c_struct [
     (''fh_r_ctl'', u8_t),
     (''fh_d_id'', Arr u8_t 3),
     (''fh_cs_ctl'', u8_t),
     (''fh_s_id'', Arr u8_t 3),
     (''fh_type'', u8_t),
     (''fh_f_ctl'', Arr u8_t 3),
     (''fh_seq_id'', u8_t),
     (''fh_df_ctl'', u8_t),
     (''fh_seq_cnt'', u16_t),
     (''fh_ox_id'', u16_t),
     (''fh_rx_id'', u16_t),
     (''fh_parm_offset'', u32_t)]"

definition struct_fc_ba_acc :: ctype where
  "struct_fc_ba_acc = c_struct [
     (''ba_seq_id_val'', u8_t),
     (''ba_seq_id'', u8_t),
     (''ba_resvd'', Arr u8_t 2),
     (''ba_ox_id'', u16_t),
     (''ba_rx_id'', u16_t),
     (''ba_low_seq_cnt'', u16_t),
     (''ba_high_seq_cnt'', u16_t)]"

definition struct_fc_ba_rjt :: ctype where
  "struct_fc_ba_rjt = c_struct [
     (''br_resvd'', u8_t),
     (''br_reason'', u8_t),
     (''br_explan'', u8_t),
     (''br_vendor'', u8_t)]"

definition struct_fc_pf_rjt :: ctype where
  "struct_fc_pf_rjt = c_struct [
     (''rj_action'', u8_t),
     (''rj_reason'', u8_t),
     (''rj_resvd'', u8_t),
     (''rj_vendor'', u8_t)]"

definition fc_fc_fs_structs :: "ctype list" where
  "fc_fc_fs_structs = [struct_fc_frame_header, struct_fc_ba_acc, struct_fc_ba_rjt, struct_fc_pf_rjt]"

section \<open>\<^verbatim>\<open>include/scsi/fc/fc_els.h\<close>\<close>

definition struct_fc_els_ls_acc :: ctype where
  "struct_fc_els_ls_acc = c_struct [
     (''la_cmd'', u8_t),
     (''la_resv'', Arr u8_t 3)]"

definition struct_fc_els_ls_rjt :: ctype where
  "struct_fc_els_ls_rjt = c_struct [
     (''er_cmd'', u8_t),
     (''er_resv'', Arr u8_t 4),
     (''er_reason'', u8_t),
     (''er_explan'', u8_t),
     (''er_vendor'', u8_t)]"

definition struct_fc_tlv_desc :: ctype where
  "struct_fc_tlv_desc = c_struct [
     (''desc_tag'', u32_t),
     (''desc_len'', u32_t),
     (''desc_value'', Arr u8_t 0)]"

definition struct_fc_els_lsri_desc :: ctype where
  "struct_fc_els_lsri_desc = c_struct [
     (''desc_tag'', u32_t),
     (''desc_len'', u32_t),
     (''rqst_w0'', c_struct [ (''cmd'', u8_t), (''bytes'', Arr u8_t 3)])]"

definition struct_fc_els_csp :: ctype where
  "struct_fc_els_csp = c_struct [
     (''sp_hi_ver'', u8_t),
     (''sp_lo_ver'', u8_t),
     (''sp_bb_cred'', u16_t),
     (''sp_features'', u16_t),
     (''sp_bb_data'', u16_t),
     (''sp_u'', c_union [ (''sp_plogi'', c_struct [ (''_sp_tot_seq'', u16_t), (''_sp_rel_off'', u16_t)]), (''sp_flogi_acc'', c_struct [ (''_sp_r_a_tov'', u32_t)])]),
     (''sp_e_d_tov'', u32_t)]"

definition struct_fc_els_cssp :: ctype where
  "struct_fc_els_cssp = c_struct [
     (''cp_class'', u16_t),
     (''cp_init'', u16_t),
     (''cp_recip'', u16_t),
     (''cp_rdfs'', u16_t),
     (''cp_con_seq'', u16_t),
     (''cp_ee_cred'', u16_t),
     (''cp_resv1'', u8_t),
     (''cp_open_seq'', u8_t),
     (''_cp_resv2'', Arr u8_t 2)]"

definition struct_fc_els_flogi :: ctype where
  "struct_fc_els_flogi = c_packed [
     (''fl_cmd'', u8_t),
     (''_fl_resvd'', Arr u8_t 3),
     (''fl_csp'', struct_fc_els_csp),
     (''fl_wwpn'', u64_t),
     (''fl_wwnn'', u64_t),
     (''fl_cssp'', Arr struct_fc_els_cssp 4),
     (''fl_vend'', Arr u8_t 16)]"

definition struct_fc_els_spp :: ctype where
  "struct_fc_els_spp = c_struct [
     (''spp_type'', u8_t),
     (''spp_type_ext'', u8_t),
     (''spp_flags'', u8_t),
     (''_spp_resvd'', u8_t),
     (''spp_orig_pa'', u32_t),
     (''spp_resp_pa'', u32_t),
     (''spp_params'', u32_t)]"

definition struct_fc_els_rrq :: ctype where
  "struct_fc_els_rrq = c_struct [
     (''rrq_cmd'', u8_t),
     (''rrq_zero'', Arr u8_t 3),
     (''rrq_resvd'', u8_t),
     (''rrq_s_id'', Arr u8_t 3),
     (''rrq_ox_id'', u16_t),
     (''rrq_rx_id'', u16_t)]"

definition struct_fc_els_rec :: ctype where
  "struct_fc_els_rec = c_struct [
     (''rec_cmd'', u8_t),
     (''rec_zero'', Arr u8_t 3),
     (''rec_resvd'', u8_t),
     (''rec_s_id'', Arr u8_t 3),
     (''rec_ox_id'', u16_t),
     (''rec_rx_id'', u16_t)]"

definition struct_fc_els_rec_acc :: ctype where
  "struct_fc_els_rec_acc = c_struct [
     (''reca_cmd'', u8_t),
     (''reca_zero'', Arr u8_t 3),
     (''reca_ox_id'', u16_t),
     (''reca_rx_id'', u16_t),
     (''reca_resvd1'', u8_t),
     (''reca_ofid'', Arr u8_t 3),
     (''reca_resvd2'', u8_t),
     (''reca_rfid'', Arr u8_t 3),
     (''reca_fc4value'', u32_t),
     (''reca_e_stat'', u32_t)]"

definition struct_fc_els_prli :: ctype where
  "struct_fc_els_prli = c_struct [
     (''prli_cmd'', u8_t),
     (''prli_spp_len'', u8_t),
     (''prli_len'', u16_t)]"

definition struct_fc_els_prlo :: ctype where
  "struct_fc_els_prlo = c_struct [
     (''prlo_cmd'', u8_t),
     (''prlo_obs'', u8_t),
     (''prlo_len'', u16_t)]"

definition struct_fc_els_adisc :: ctype where
  "struct_fc_els_adisc = c_packed [
     (''adisc_cmd'', u8_t),
     (''adisc_resv'', Arr u8_t 3),
     (''adisc_resv1'', u8_t),
     (''adisc_hard_addr'', Arr u8_t 3),
     (''adisc_wwpn'', u64_t),
     (''adisc_wwnn'', u64_t),
     (''adisc_resv2'', u8_t),
     (''adisc_port_id'', Arr u8_t 3)]"

definition struct_fc_els_logo :: ctype where
  "struct_fc_els_logo = c_struct [
     (''fl_cmd'', u8_t),
     (''fl_zero'', Arr u8_t 3),
     (''fl_resvd'', u8_t),
     (''fl_n_port_id'', Arr u8_t 3),
     (''fl_n_port_wwn'', u64_t)]"

definition struct_fc_els_rtv :: ctype where
  "struct_fc_els_rtv = c_struct [
     (''rtv_cmd'', u8_t),
     (''rtv_zero'', Arr u8_t 3)]"

definition struct_fc_els_rtv_acc :: ctype where
  "struct_fc_els_rtv_acc = c_struct [
     (''rtv_cmd'', u8_t),
     (''rtv_zero'', Arr u8_t 3),
     (''rtv_r_a_tov'', u32_t),
     (''rtv_e_d_tov'', u32_t),
     (''rtv_toq'', u32_t)]"

definition struct_fc_els_scr :: ctype where
  "struct_fc_els_scr = c_struct [
     (''scr_cmd'', u8_t),
     (''scr_resv'', Arr u8_t 6),
     (''scr_reg_func'', u8_t)]"

definition struct_fc_els_rscn :: ctype where
  "struct_fc_els_rscn = c_struct [
     (''rscn_cmd'', u8_t),
     (''rscn_page_len'', u8_t),
     (''rscn_plen'', u16_t)]"

definition struct_fc_els_rscn_page :: ctype where
  "struct_fc_els_rscn_page = c_struct [
     (''rscn_page_flags'', u8_t),
     (''rscn_fid'', Arr u8_t 3)]"

definition struct_fc_els_rnid :: ctype where
  "struct_fc_els_rnid = c_struct [
     (''rnid_cmd'', u8_t),
     (''rnid_resv'', Arr u8_t 3),
     (''rnid_fmt'', u8_t),
     (''rnid_resv2'', Arr u8_t 3)]"

definition struct_fc_els_rnid_resp :: ctype where
  "struct_fc_els_rnid_resp = c_struct [
     (''rnid_cmd'', u8_t),
     (''rnid_resv'', Arr u8_t 3),
     (''rnid_fmt'', u8_t),
     (''rnid_cid_len'', u8_t),
     (''rnid_resv2'', u8_t),
     (''rnid_sid_len'', u8_t)]"

definition struct_fc_els_rnid_cid :: ctype where
  "struct_fc_els_rnid_cid = c_struct [
     (''rnid_wwpn'', u64_t),
     (''rnid_wwnn'', u64_t)]"

definition struct_fc_els_rnid_gen :: ctype where
  "struct_fc_els_rnid_gen = c_struct [
     (''rnid_vend_id'', Arr u8_t 16),
     (''rnid_atype'', u32_t),
     (''rnid_phys_port'', u32_t),
     (''rnid_att_nodes'', u32_t),
     (''rnid_node_mgmt'', u8_t),
     (''rnid_ip_ver'', u8_t),
     (''rnid_prot_port'', u16_t),
     (''rnid_ip_addr'', Arr u32_t 4),
     (''rnid_resvd'', Arr u8_t 2),
     (''rnid_vend_spec'', u16_t)]"

definition struct_fc_els_rpl :: ctype where
  "struct_fc_els_rpl = c_struct [
     (''rpl_cmd'', u8_t),
     (''rpl_resv'', Arr u8_t 5),
     (''rpl_max_size'', u16_t),
     (''rpl_resv1'', u8_t),
     (''rpl_index'', Arr u8_t 3)]"

definition struct_fc_els_pnb :: ctype where
  "struct_fc_els_pnb = c_struct [
     (''pnb_phys_pn'', u32_t),
     (''pnb_resv'', u8_t),
     (''pnb_port_id'', Arr u8_t 3),
     (''pnb_wwpn'', u64_t)]"

definition struct_fc_els_rpl_resp :: ctype where
  "struct_fc_els_rpl_resp = c_struct [
     (''rpl_cmd'', u8_t),
     (''rpl_resv1'', u8_t),
     (''rpl_plen'', u16_t),
     (''rpl_resv2'', u8_t),
     (''rpl_llen'', Arr u8_t 3),
     (''rpl_resv3'', u8_t),
     (''rpl_index'', Arr u8_t 3),
     (''rpl_pnb'', Arr struct_fc_els_pnb 1)]"

definition struct_fc_els_lesb :: ctype where
  "struct_fc_els_lesb = c_struct [
     (''lesb_link_fail'', u32_t),
     (''lesb_sync_loss'', u32_t),
     (''lesb_sig_loss'', u32_t),
     (''lesb_prim_err'', u32_t),
     (''lesb_inv_word'', u32_t),
     (''lesb_inv_crc'', u32_t)]"

definition struct_fc_els_rps :: ctype where
  "struct_fc_els_rps = c_struct [
     (''rps_cmd'', u8_t),
     (''rps_resv'', Arr u8_t 2),
     (''rps_flag'', u8_t),
     (''rps_port_spec'', u64_t)]"

definition struct_fc_els_rps_resp :: ctype where
  "struct_fc_els_rps_resp = c_struct [
     (''rps_cmd'', u8_t),
     (''rps_resv'', Arr u8_t 2),
     (''rps_flag'', u8_t),
     (''rps_resv2'', Arr u8_t 2),
     (''rps_status'', u16_t),
     (''rps_lesb'', struct_fc_els_lesb)]"

definition struct_fc_els_lirr :: ctype where
  "struct_fc_els_lirr = c_struct [
     (''lirr_cmd'', u8_t),
     (''lirr_resv'', Arr u8_t 3),
     (''lirr_func'', u8_t),
     (''lirr_fmt'', u8_t),
     (''lirr_resv2'', Arr u8_t 2)]"

definition struct_fc_els_srl :: ctype where
  "struct_fc_els_srl = c_struct [
     (''srl_cmd'', u8_t),
     (''srl_resv'', Arr u8_t 3),
     (''srl_flag'', u8_t),
     (''srl_flag_param'', Arr u8_t 3)]"

definition struct_fc_els_rls :: ctype where
  "struct_fc_els_rls = c_struct [
     (''rls_cmd'', u8_t),
     (''rls_resv'', Arr u8_t 4),
     (''rls_port_id'', Arr u8_t 3)]"

definition struct_fc_els_rls_resp :: ctype where
  "struct_fc_els_rls_resp = c_struct [
     (''rls_cmd'', u8_t),
     (''rls_resv'', Arr u8_t 3),
     (''rls_lesb'', struct_fc_els_lesb)]"

definition struct_fc_els_rlir :: ctype where
  "struct_fc_els_rlir = c_struct [
     (''rlir_cmd'', u8_t),
     (''rlir_resv'', Arr u8_t 3),
     (''rlir_fmt'', u8_t),
     (''rlir_clr_len'', u8_t),
     (''rlir_cld_len'', u8_t),
     (''rlir_slr_len'', u8_t)]"

definition struct_fc_els_clir :: ctype where
  "struct_fc_els_clir = c_struct [
     (''clir_wwpn'', u64_t),
     (''clir_wwnn'', u64_t),
     (''clir_port_type'', u8_t),
     (''clir_port_id'', Arr u8_t 3),
     (''clir_conn_wwpn'', u64_t),
     (''clir_conn_wwnn'', u64_t),
     (''clir_fab_name'', u64_t),
     (''clir_phys_port'', u32_t),
     (''clir_trans_id'', u32_t),
     (''clir_resv'', Arr u8_t 3),
     (''clir_ts_fmt'', u8_t),
     (''clir_timestamp'', u64_t)]"

definition struct_fc_els_clid :: ctype where
  "struct_fc_els_clid = c_struct [
     (''clid_iq'', u8_t),
     (''clid_ic'', u8_t),
     (''clid_epai'', u16_t)]"

definition struct_fc_fn_li_desc :: ctype where
  "struct_fc_fn_li_desc = c_struct [
     (''desc_tag'', u32_t),
     (''desc_len'', u32_t),
     (''detecting_wwpn'', u64_t),
     (''attached_wwpn'', u64_t),
     (''event_type'', u16_t),
     (''event_modifier'', u16_t),
     (''event_threshold'', u32_t),
     (''event_count'', u32_t),
     (''pname_count'', u32_t),
     (''pname_list'', Arr u64_t 0)]"

definition struct_fc_fn_deli_desc :: ctype where
  "struct_fc_fn_deli_desc = c_struct [
     (''desc_tag'', u32_t),
     (''desc_len'', u32_t),
     (''detecting_wwpn'', u64_t),
     (''attached_wwpn'', u64_t),
     (''deli_reason_code'', u32_t)]"

definition struct_fc_fn_peer_congn_desc :: ctype where
  "struct_fc_fn_peer_congn_desc = c_struct [
     (''desc_tag'', u32_t),
     (''desc_len'', u32_t),
     (''detecting_wwpn'', u64_t),
     (''attached_wwpn'', u64_t),
     (''event_type'', u16_t),
     (''event_modifier'', u16_t),
     (''event_period'', u32_t),
     (''pname_count'', u32_t),
     (''pname_list'', Arr u64_t 0)]"

definition struct_fc_fn_congn_desc :: ctype where
  "struct_fc_fn_congn_desc = c_struct [
     (''desc_tag'', u32_t),
     (''desc_len'', u32_t),
     (''event_type'', u16_t),
     (''event_modifier'', u16_t),
     (''event_period'', u32_t),
     (''severity'', u8_t),
     (''resv'', Arr u8_t 3)]"

definition struct_fc_els_fpin :: ctype where
  "struct_fc_els_fpin = c_struct [
     (''fpin_cmd'', u8_t),
     (''fpin_zero'', Arr u8_t 3),
     (''desc_len'', u32_t),
     (''fpin_desc'', Arr struct_fc_tlv_desc 0)]"

definition struct_fc_df_desc_fpin_reg :: ctype where
  "struct_fc_df_desc_fpin_reg = c_struct [
     (''desc_tag'', u32_t),
     (''desc_len'', u32_t),
     (''count'', u32_t),
     (''desc_tags'', Arr u32_t 0)]"

definition struct_fc_els_rdf :: ctype where
  "struct_fc_els_rdf = c_struct [
     (''fpin_cmd'', u8_t),
     (''fpin_zero'', Arr u8_t 3),
     (''desc_len'', u32_t),
     (''desc'', Arr struct_fc_tlv_desc 0)]"

definition struct_fc_els_rdf_resp :: ctype where
  "struct_fc_els_rdf_resp = c_struct [
     (''acc_hdr'', struct_fc_els_ls_acc),
     (''desc_list_len'', u32_t),
     (''lsri'', struct_fc_els_lsri_desc),
     (''desc'', Arr struct_fc_tlv_desc 0)]"

definition struct_fc_diag_lnkflt_desc :: ctype where
  "struct_fc_diag_lnkflt_desc = c_struct [
     (''desc_tag'', u32_t),
     (''desc_len'', u32_t),
     (''degrade_activate_threshold'', u32_t),
     (''degrade_deactivate_threshold'', u32_t),
     (''fec_degrade_interval'', u32_t)]"

definition struct_fc_diag_cg_sig_freq :: ctype where
  "struct_fc_diag_cg_sig_freq = c_struct [
     (''count'', u16_t),
     (''units'', u16_t)]"

definition struct_fc_diag_cg_sig_desc :: ctype where
  "struct_fc_diag_cg_sig_desc = c_struct [
     (''desc_tag'', u32_t),
     (''desc_len'', u32_t),
     (''xmt_signal_capability'', u32_t),
     (''xmt_signal_frequency'', struct_fc_diag_cg_sig_freq),
     (''rcv_signal_capability'', u32_t),
     (''rcv_signal_frequency'', struct_fc_diag_cg_sig_freq)]"

definition struct_fc_els_edc :: ctype where
  "struct_fc_els_edc = c_struct [
     (''edc_cmd'', u8_t),
     (''edc_zero'', Arr u8_t 3),
     (''desc_len'', u32_t),
     (''desc'', Arr struct_fc_tlv_desc 0)]"

definition struct_fc_els_edc_resp :: ctype where
  "struct_fc_els_edc_resp = c_struct [
     (''acc_hdr'', struct_fc_els_ls_acc),
     (''desc_list_len'', u32_t),
     (''lsri'', struct_fc_els_lsri_desc),
     (''desc'', Arr struct_fc_tlv_desc 0)]"

definition fc_fc_els_structs :: "ctype list" where
  "fc_fc_els_structs = [struct_fc_els_ls_acc, struct_fc_els_ls_rjt, struct_fc_tlv_desc, struct_fc_els_lsri_desc, struct_fc_els_csp,
     struct_fc_els_cssp, struct_fc_els_flogi, struct_fc_els_spp, struct_fc_els_rrq, struct_fc_els_rec,
     struct_fc_els_rec_acc, struct_fc_els_prli, struct_fc_els_prlo, struct_fc_els_adisc, struct_fc_els_logo,
     struct_fc_els_rtv, struct_fc_els_rtv_acc, struct_fc_els_scr, struct_fc_els_rscn, struct_fc_els_rscn_page,
     struct_fc_els_rnid, struct_fc_els_rnid_resp, struct_fc_els_rnid_cid, struct_fc_els_rnid_gen,
     struct_fc_els_rpl, struct_fc_els_pnb, struct_fc_els_lesb, struct_fc_els_rps_resp, struct_fc_els_lirr,
     struct_fc_els_srl, struct_fc_els_rls, struct_fc_els_rls_resp, struct_fc_els_rlir, struct_fc_els_clid,
     struct_fc_fn_li_desc, struct_fc_fn_congn_desc, struct_fc_els_fpin, struct_fc_df_desc_fpin_reg,
     struct_fc_els_rdf, struct_fc_els_rdf_resp, struct_fc_diag_lnkflt_desc, struct_fc_diag_cg_sig_freq,
     struct_fc_diag_cg_sig_desc, struct_fc_els_edc, struct_fc_els_edc_resp]"

section \<open>\<^verbatim>\<open>include/scsi/fc/fc_gs.h\<close>\<close>

definition struct_fc_ct_hdr :: ctype where
  "struct_fc_ct_hdr = c_struct [
     (''ct_rev'', u8_t),
     (''ct_in_id'', Arr u8_t 3),
     (''ct_fs_type'', u8_t),
     (''ct_fs_subtype'', u8_t),
     (''ct_options'', u8_t),
     (''_ct_resvd1'', u8_t),
     (''ct_cmd'', u16_t),
     (''ct_mr_size'', u16_t),
     (''_ct_resvd2'', u8_t),
     (''ct_reason'', u8_t),
     (''ct_explan'', u8_t),
     (''ct_vendor'', u8_t)]"

definition fc_fc_gs_structs :: "ctype list" where
  "fc_fc_gs_structs = [struct_fc_ct_hdr]"

section \<open>\<^verbatim>\<open>include/scsi/fc/fc_ns.h\<close>\<close>

definition struct_fc_ns_pt_obj :: ctype where
  "struct_fc_ns_pt_obj = c_struct [
     (''pt_type'', u8_t)]"

definition struct_fc_ns_fid :: ctype where
  "struct_fc_ns_fid = c_struct [
     (''fp_flags'', u8_t),
     (''fp_fid'', Arr u8_t 3)]"

definition struct_fc_ns_fts :: ctype where
  "struct_fc_ns_fts = c_struct [
     (''ff_type_map'', Arr u32_t 8)]"

definition struct_fc_ns_ff :: ctype where
  "struct_fc_ns_ff = c_struct [
     (''fd_feat'', Arr u32_t 32)]"

definition struct_fc_ns_gid_pt :: ctype where
  "struct_fc_ns_gid_pt = c_struct [
     (''fn_pt_type'', u8_t),
     (''fn_domain_id_scope'', u8_t),
     (''fn_area_id_scope'', u8_t),
     (''fn_resvd'', u8_t)]"

definition struct_fc_ns_gid_ft :: ctype where
  "struct_fc_ns_gid_ft = c_struct [
     (''fn_resvd'', u8_t),
     (''fn_domain_id_scope'', u8_t),
     (''fn_area_id_scope'', u8_t),
     (''fn_fc4_type'', u8_t)]"

definition struct_fc_gpn_ft_resp :: ctype where
  "struct_fc_gpn_ft_resp = c_struct [
     (''fp_flags'', u8_t),
     (''fp_fid'', Arr u8_t 3),
     (''fp_resvd'', u32_t),
     (''fp_wwpn'', u64_t)]"

definition struct_fc_ns_gid_pn :: ctype where
  "struct_fc_ns_gid_pn = c_struct [
     (''fn_wwpn'', u64_t)]"

definition struct_fc_gid_pn_resp :: ctype where
  "struct_fc_gid_pn_resp = c_struct [
     (''fp_resvd'', u8_t),
     (''fp_fid'', Arr u8_t 3)]"

definition struct_fc_gspn_resp :: ctype where
  "struct_fc_gspn_resp = c_struct [
     (''fp_name_len'', u8_t),
     (''fp_name'', Arr u8_t 0)]"

definition struct_fc_ns_rft_id :: ctype where
  "struct_fc_ns_rft_id = c_struct [
     (''fr_fid'', struct_fc_ns_fid),
     (''fr_fts'', struct_fc_ns_fts)]"

definition struct_fc_ns_rn_id :: ctype where
  "struct_fc_ns_rn_id = c_packed [
     (''fr_fid'', struct_fc_ns_fid),
     (''fr_wwn'', u64_t)]"

definition struct_fc_ns_rsnn :: ctype where
  "struct_fc_ns_rsnn = c_packed [
     (''fr_wwn'', u64_t),
     (''fr_name_len'', u8_t),
     (''fr_name'', Arr u8_t 0)]"

definition struct_fc_ns_rspn :: ctype where
  "struct_fc_ns_rspn = c_packed [
     (''fr_fid'', struct_fc_ns_fid),
     (''fr_name_len'', u8_t),
     (''fr_name'', Arr u8_t 0)]"

definition struct_fc_ns_rff_id :: ctype where
  "struct_fc_ns_rff_id = c_packed [
     (''fr_fid'', struct_fc_ns_fid),
     (''fr_resvd'', Arr u8_t 2),
     (''fr_feat'', u8_t),
     (''fr_type'', u8_t)]"

definition fc_fc_ns_structs :: "ctype list" where
  "fc_fc_ns_structs = [struct_fc_ns_pt_obj, struct_fc_ns_fid, struct_fc_ns_fts, struct_fc_ns_ff, struct_fc_ns_gid_pt,
     struct_fc_ns_gid_ft, struct_fc_gpn_ft_resp, struct_fc_ns_gid_pn, struct_fc_gid_pn_resp, struct_fc_gspn_resp,
     struct_fc_ns_rft_id, struct_fc_ns_rn_id, struct_fc_ns_rsnn, struct_fc_ns_rspn, struct_fc_ns_rff_id]"

section \<open>Descriptor lists\<close>

definition FC_TLV_DESC_HDR_SZ :: "nat \<Rightarrow> nat" where
  "FC_TLV_DESC_HDR_SZ amax = sizeof amax struct_fc_tlv_desc"

text \<open>The macro's argument is a descriptor, of which it only uses the type.\<close>

definition FC_TLV_DESC_LENGTH_FROM_SZ :: "nat \<Rightarrow> ctype \<Rightarrow> nat" where
  "FC_TLV_DESC_LENGTH_FROM_SZ amax desc = sizeof amax desc - FC_TLV_DESC_HDR_SZ amax"

text \<open>
  The length field is converted from big endian. The sum is taken in \<^verbatim>\<open>size_t\<close> of the host's width \<open>'w\<close>.
\<close>

definition FC_TLV_DESC_SZ_FROM_LENGTH :: "u8 list \<Rightarrow> nat \<Rightarrow> 'w::len word option" where
  "FC_TLV_DESC_SZ_FROM_LENGTH mem tlv = do {
     desc_len \<leftarrow> load Big mem (tlv + 4) :: u32 option;
     Some (ucast desc_len + word_of_nat (FC_TLV_DESC_HDR_SZ 8))
   }"

definition fc_tlv_next_desc :: "'w::len itself \<Rightarrow> u8 list \<Rightarrow> nat \<Rightarrow> nat option" where
  "fc_tlv_next_desc W mem desc = do {
     n \<leftarrow> FC_TLV_DESC_SZ_FROM_LENGTH mem desc :: 'w word option;
     Some (desc + unat n)
   }"

text \<open>A descriptor in a frame, and the positions that \<open>k\<close> steps reach from a descriptor.\<close>

definition fc_desc_bytes :: "u32 \<times> u8 list \<Rightarrow> u8 list" where
  "fc_desc_bytes d = bytes_of Big (fst d) @ bytes_of Big (word_of_nat (length (snd d)) :: u32) @ snd d"

fun fc_tlv_steps :: "'w::len itself \<Rightarrow> u8 list \<Rightarrow> nat \<Rightarrow> nat \<Rightarrow> nat list option" where
  "fc_tlv_steps W mem desc 0 = Some [desc]"
| "fc_tlv_steps W mem desc (Suc k) = do {
     next_desc \<leftarrow> fc_tlv_next_desc W mem desc;
     ps \<leftarrow> fc_tlv_steps W mem next_desc k;
     Some (desc # ps)
   }"

fun fc_positions :: "nat \<Rightarrow> (u32 \<times> u8 list) list \<Rightarrow> nat list" where
  "fc_positions p [] = [p]"
| "fc_positions p (d # ds) = p # fc_positions (p + length (fc_desc_bytes d)) ds"

definition fc_structs :: "ctype list" where
  "fc_structs = fc_fc_fs_structs @ fc_fc_els_structs @ fc_fc_gs_structs @ fc_fc_ns_structs"

section \<open>Properties\<close>

lemma fc_fc_fs_structs_tight: "list_all tight fc_fc_fs_structs"
  by code_simp

lemma fc_fc_els_structs_tight: "list_all tight fc_fc_els_structs"
  by code_simp

lemma fc_fc_gs_structs_tight: "list_all tight fc_fc_gs_structs"
  by code_simp

lemma fc_fc_ns_structs_tight: "list_all tight fc_fc_ns_structs"
  by code_simp

lemma fc_all_tight: "list_all tight fc_structs"
  by (simp add: fc_structs_def fc_fc_fs_structs_tight fc_fc_els_structs_tight fc_fc_gs_structs_tight fc_fc_ns_structs_tight)

text \<open>
  The Fibre Channel structures without implicit padding are laid out alike, member by member, by every ABI, and each of
  their bytes belongs to a member, so that a frame can be read through them.
\<close>

theorem fc_layout:
  assumes "t \<in> set fc_structs"
  shows "same_everywhere t \<and> covered (leaves 8 0 t) 0 (sizeof 8 t)"
  using fc_all_tight assms by (rule tight_types)

theorem fc_layout_witness: "same_everywhere struct_fc_frame_header \<and> covered (leaves 8 0 struct_fc_frame_header) 0 (sizeof 8 struct_fc_frame_header)"
  by (rule fc_layout) (simp add: fc_structs_def fc_fc_fs_structs_def fc_fc_els_structs_def fc_fc_gs_structs_def fc_fc_ns_structs_def)

lemma fc_hdr_sz: "FC_TLV_DESC_HDR_SZ 8 = 8" "FC_TLV_DESC_HDR_SZ 4 = 8"
  by code_simp+

lemma fc_next_desc:
  assumes "8 + length (snd d) < 2 ^ 32" "32 \<le> LENGTH('w::len)"
  shows "fc_tlv_next_desc TYPE('w) (pre @ fc_desc_bytes d @ post) (length pre) =
    Some (length pre + length (fc_desc_bytes d))"
proof -
  let ?n = "length (snd d)"
  have "load Big ((pre @ bytes_of Big (fst d)) @ bytes_of Big (word_of_nat ?n :: u32) @ snd d @ post) (length pre + 4) =
      Some (word_of_nat ?n :: u32)"
    by (rule load_append_at) simp_all
  then have l: "load Big (pre @ fc_desc_bytes d @ post) (length pre + 4) = Some (word_of_nat ?n :: u32)"
    by (simp add: fc_desc_bytes_def)
  have "(ucast (word_of_nat ?n :: u32) :: 'w word) = word_of_nat ?n"
    using assms(1) by (simp add: unsigned_of_nat take_bit_nat_eq_self)
  moreover have "(2 :: nat) ^ 32 \<le> 2 ^ LENGTH('w)" using assms(2) by (intro power_increasing) simp_all
  with assms(1) have "8 + ?n < 2 ^ LENGTH('w)" by (rule less_le_trans)
  then have "unat (word_of_nat (8 + ?n) :: 'w word) = 8 + ?n"
    by (simp only: unsigned_of_nat take_bit_nat_eq_self of_nat_id)
  ultimately show ?thesis
    by (simp add: fc_tlv_next_desc_def FC_TLV_DESC_SZ_FROM_LENGTH_def l fc_hdr_sz add.commute)
      (simp add: fc_desc_bytes_def)
qed

text \<open>
  Stepping through a list of descriptors visits each descriptor and ends behind the last one, on hosts of
  32 bits and more, whatever the descriptors hold.
\<close>

theorem fc_desc_walk:
  assumes "list_all (\<lambda>d. 8 + length (snd d) < 2 ^ 32) ds" "32 \<le> LENGTH('w::len)"
  shows "fc_tlv_steps TYPE('w) (pre @ concat (map fc_desc_bytes ds) @ post) (length pre) (length ds) =
    Some (fc_positions (length pre) ds)"
  using assms(1)
proof (induction ds arbitrary: pre)
  case (Cons d ds)
  have "fc_tlv_next_desc TYPE('w) (pre @ fc_desc_bytes d @ concat (map fc_desc_bytes ds) @ post) (length pre) =
      Some (length pre + length (fc_desc_bytes d))"
    using Cons.prems assms(2) by (intro fc_next_desc) simp_all
  then show ?case using Cons.IH [of "pre @ fc_desc_bytes d"] Cons.prems by simp
qed simp

theorem fc_desc_walk_witness:
  "fc_tlv_steps TYPE(32) ([9] @ concat (map fc_desc_bytes [(0x20002, replicate 20 0), (1, [])]) @ []) (length [9 :: u8])
     (length [(0x20002 :: u32, replicate 20 (0 :: u8)), (1, [])]) = Some (fc_positions (length [9 :: u8]) [(0x20002, replicate 20 0), (1, [])])"
  by (rule fc_desc_walk) simp_all

text \<open>
  Five structures of the wire format are laid out differently by a 32-bit x86 compiler and by others: the
  port selection of a status request, the port names of an incident record, the list of names of a congestion
  notification and the entries of a port list stand four bytes further on, and the size of a delivery
  notification, from which \<^verbatim>\<open>FC_TLV_DESC_LENGTH_FROM_SZ\<close> computes the length to send, is four bytes more.
\<close>

theorem fc_wire_depends_on_abi:
  "(8, 8) \<in> set (leaves 8 0 struct_fc_els_rps) \<and> (4, 8) \<in> set (leaves 4 0 struct_fc_els_rps) \<and>
   (24, 8) \<in> set (leaves 8 0 struct_fc_els_clir) \<and> (20, 8) \<in> set (leaves 4 0 struct_fc_els_clir) \<and>
   sizeof 8 struct_fc_els_rpl_resp = 32 \<and> sizeof 4 struct_fc_els_rpl_resp = 28 \<and>
   sizeof 8 struct_fc_fn_peer_congn_desc = 40 \<and> sizeof 4 struct_fc_fn_peer_congn_desc = 36 \<and>
   FC_TLV_DESC_LENGTH_FROM_SZ 8 struct_fc_fn_deli_desc = 24 \<and> FC_TLV_DESC_LENGTH_FROM_SZ 4 struct_fc_fn_deli_desc = 20"
  by code_simp

end
