(* ===== verification/Disk_Structs.thy ===== *)
theory Disk_Structs
  imports Abi_Request
begin

text \<open>
  The structures of file systems and volumes on disk: btrfs (\<^verbatim>\<open>btrfs_tree.h\<close>), GFS2 (\<^verbatim>\<open>gfs2_ondisk.h\<close>), software
  RAID (\<^verbatim>\<open>raid/md_p.h\<close>), ISO 9660 (\<^verbatim>\<open>iso_fs.h\<close>) and the smaller formats of \<^verbatim>\<open>include/linux\<close>. A disk is read by another host than the
  one that wrote it, so that nothing of a structure may be left to the compiler. The superblock of software
  RAID is that of a big-endian host; on a little-endian one the halves of two counters change places.
\<close>

section \<open>\<^verbatim>\<open>include/linux/btrfs_tree.h\<close>\<close>

definition struct_btrfs_disk_key :: ctype where
  "struct_btrfs_disk_key = c_packed [
     (''objectid'', u64_t),
     (''type'', u8_t),
     (''offset'', u64_t)]"

definition struct_btrfs_key :: ctype where
  "struct_btrfs_key = c_packed [
     (''objectid'', u64_t),
     (''type'', u8_t),
     (''offset'', u64_t)]"

definition struct_btrfs_dev_item :: ctype where
  "struct_btrfs_dev_item = c_packed [
     (''devid'', u64_t),
     (''total_bytes'', u64_t),
     (''bytes_used'', u64_t),
     (''io_align'', u32_t),
     (''io_width'', u32_t),
     (''sector_size'', u32_t),
     (''type'', u64_t),
     (''generation'', u64_t),
     (''start_offset'', u64_t),
     (''dev_group'', u32_t),
     (''seek_speed'', u8_t),
     (''bandwidth'', u8_t),
     (''uuid'', Arr u8_t 16),
     (''fsid'', Arr u8_t 16)]"

definition struct_btrfs_stripe :: ctype where
  "struct_btrfs_stripe = c_packed [
     (''devid'', u64_t),
     (''offset'', u64_t),
     (''dev_uuid'', Arr u8_t 16)]"

definition struct_btrfs_chunk :: ctype where
  "struct_btrfs_chunk = c_packed [
     (''length'', u64_t),
     (''owner'', u64_t),
     (''stripe_len'', u64_t),
     (''type'', u64_t),
     (''io_align'', u32_t),
     (''io_width'', u32_t),
     (''sector_size'', u32_t),
     (''num_stripes'', u16_t),
     (''sub_stripes'', u16_t),
     (''stripe'', struct_btrfs_stripe)]"

definition struct_btrfs_free_space_entry :: ctype where
  "struct_btrfs_free_space_entry = c_packed [
     (''offset'', u64_t),
     (''bytes'', u64_t),
     (''type'', u8_t)]"

definition struct_btrfs_free_space_header :: ctype where
  "struct_btrfs_free_space_header = c_packed [
     (''location'', struct_btrfs_disk_key),
     (''generation'', u64_t),
     (''num_entries'', u64_t),
     (''num_bitmaps'', u64_t)]"

definition struct_btrfs_extent_item :: ctype where
  "struct_btrfs_extent_item = c_packed [
     (''refs'', u64_t),
     (''generation'', u64_t),
     (''flags'', u64_t)]"

definition struct_btrfs_extent_item_v0 :: ctype where
  "struct_btrfs_extent_item_v0 = c_packed [
     (''refs'', u32_t)]"

definition struct_btrfs_tree_block_info :: ctype where
  "struct_btrfs_tree_block_info = c_packed [
     (''key'', struct_btrfs_disk_key),
     (''level'', u8_t)]"

definition struct_btrfs_extent_data_ref :: ctype where
  "struct_btrfs_extent_data_ref = c_packed [
     (''root'', u64_t),
     (''objectid'', u64_t),
     (''offset'', u64_t),
     (''count'', u32_t)]"

definition struct_btrfs_shared_data_ref :: ctype where
  "struct_btrfs_shared_data_ref = c_packed [
     (''count'', u32_t)]"

definition struct_btrfs_extent_inline_ref :: ctype where
  "struct_btrfs_extent_inline_ref = c_packed [
     (''type'', u8_t),
     (''offset'', u64_t)]"

definition struct_btrfs_dev_extent :: ctype where
  "struct_btrfs_dev_extent = c_packed [
     (''chunk_tree'', u64_t),
     (''chunk_objectid'', u64_t),
     (''chunk_offset'', u64_t),
     (''length'', u64_t),
     (''chunk_tree_uuid'', Arr u8_t 16)]"

definition struct_btrfs_inode_ref :: ctype where
  "struct_btrfs_inode_ref = c_packed [
     (''index'', u64_t),
     (''name_len'', u16_t)]"

definition struct_btrfs_inode_extref :: ctype where
  "struct_btrfs_inode_extref = c_packed [
     (''parent_objectid'', u64_t),
     (''index'', u64_t),
     (''name_len'', u16_t),
     (''name'', Arr u8_t 0)]"

definition struct_btrfs_timespec :: ctype where
  "struct_btrfs_timespec = c_packed [
     (''sec'', u64_t),
     (''nsec'', u32_t)]"

definition struct_btrfs_inode_item :: ctype where
  "struct_btrfs_inode_item = c_packed [
     (''generation'', u64_t),
     (''transid'', u64_t),
     (''size'', u64_t),
     (''nbytes'', u64_t),
     (''block_group'', u64_t),
     (''nlink'', u32_t),
     (''uid'', u32_t),
     (''gid'', u32_t),
     (''mode'', u32_t),
     (''rdev'', u64_t),
     (''flags'', u64_t),
     (''sequence'', u64_t),
     (''reserved'', Arr u64_t 4),
     (''atime'', struct_btrfs_timespec),
     (''ctime'', struct_btrfs_timespec),
     (''mtime'', struct_btrfs_timespec),
     (''otime'', struct_btrfs_timespec)]"

definition struct_btrfs_dir_log_item :: ctype where
  "struct_btrfs_dir_log_item = c_packed [
     (''end'', u64_t)]"

definition struct_btrfs_dir_item :: ctype where
  "struct_btrfs_dir_item = c_packed [
     (''location'', struct_btrfs_disk_key),
     (''transid'', u64_t),
     (''data_len'', u16_t),
     (''name_len'', u16_t),
     (''type'', u8_t)]"

definition struct_btrfs_root_item :: ctype where
  "struct_btrfs_root_item = c_packed [
     (''inode'', struct_btrfs_inode_item),
     (''generation'', u64_t),
     (''root_dirid'', u64_t),
     (''bytenr'', u64_t),
     (''byte_limit'', u64_t),
     (''bytes_used'', u64_t),
     (''last_snapshot'', u64_t),
     (''flags'', u64_t),
     (''refs'', u32_t),
     (''drop_progress'', struct_btrfs_disk_key),
     (''drop_level'', u8_t),
     (''level'', u8_t),
     (''generation_v2'', u64_t),
     (''uuid'', Arr u8_t 16),
     (''parent_uuid'', Arr u8_t 16),
     (''received_uuid'', Arr u8_t 16),
     (''ctransid'', u64_t),
     (''otransid'', u64_t),
     (''stransid'', u64_t),
     (''rtransid'', u64_t),
     (''ctime'', struct_btrfs_timespec),
     (''otime'', struct_btrfs_timespec),
     (''stime'', struct_btrfs_timespec),
     (''rtime'', struct_btrfs_timespec),
     (''reserved'', Arr u64_t 8)]"

definition struct_btrfs_root_ref :: ctype where
  "struct_btrfs_root_ref = c_packed [
     (''dirid'', u64_t),
     (''sequence'', u64_t),
     (''name_len'', u16_t)]"

definition struct_btrfs_disk_balance_args :: ctype where
  "struct_btrfs_disk_balance_args = c_packed [
     (''profiles'', u64_t),
     ('''', c_union [ (''usage'', u64_t), ('''', c_struct [ (''usage_min'', u32_t), (''usage_max'', u32_t)])]),
     (''devid'', u64_t),
     (''pstart'', u64_t),
     (''pend'', u64_t),
     (''vstart'', u64_t),
     (''vend'', u64_t),
     (''target'', u64_t),
     (''flags'', u64_t),
     ('''', c_union [ (''limit'', u64_t), ('''', c_struct [ (''limit_min'', u32_t), (''limit_max'', u32_t)])]),
     (''stripes_min'', u32_t),
     (''stripes_max'', u32_t),
     (''unused'', Arr u64_t 6)]"

definition struct_btrfs_balance_item :: ctype where
  "struct_btrfs_balance_item = c_packed [
     (''flags'', u64_t),
     (''data'', struct_btrfs_disk_balance_args),
     (''meta'', struct_btrfs_disk_balance_args),
     (''sys'', struct_btrfs_disk_balance_args),
     (''unused'', Arr u64_t 4)]"

definition struct_btrfs_file_extent_item :: ctype where
  "struct_btrfs_file_extent_item = c_packed [
     (''generation'', u64_t),
     (''ram_bytes'', u64_t),
     (''compression'', u8_t),
     (''encryption'', u8_t),
     (''other_encoding'', u16_t),
     (''type'', u8_t),
     (''disk_bytenr'', u64_t),
     (''disk_num_bytes'', u64_t),
     (''offset'', u64_t),
     (''num_bytes'', u64_t)]"

definition struct_btrfs_csum_item :: ctype where
  "struct_btrfs_csum_item = c_packed [
     (''csum'', u8_t)]"

definition struct_btrfs_dev_stats_item :: ctype where
  "struct_btrfs_dev_stats_item = c_packed [
     (''values'', Arr u64_t 5)]"

definition struct_btrfs_dev_replace_item :: ctype where
  "struct_btrfs_dev_replace_item = c_packed [
     (''src_devid'', u64_t),
     (''cursor_left'', u64_t),
     (''cursor_right'', u64_t),
     (''cont_reading_from_srcdev_mode'', u64_t),
     (''replace_state'', u64_t),
     (''time_started'', u64_t),
     (''time_stopped'', u64_t),
     (''num_write_errors'', u64_t),
     (''num_uncorrectable_read_errors'', u64_t)]"

definition struct_btrfs_block_group_item :: ctype where
  "struct_btrfs_block_group_item = c_packed [
     (''used'', u64_t),
     (''chunk_objectid'', u64_t),
     (''flags'', u64_t)]"

definition struct_btrfs_free_space_info :: ctype where
  "struct_btrfs_free_space_info = c_packed [
     (''extent_count'', u32_t),
     (''flags'', u32_t)]"

definition struct_btrfs_qgroup_status_item :: ctype where
  "struct_btrfs_qgroup_status_item = c_packed [
     (''version'', u64_t),
     (''generation'', u64_t),
     (''flags'', u64_t),
     (''rescan'', u64_t)]"

definition struct_btrfs_qgroup_info_item :: ctype where
  "struct_btrfs_qgroup_info_item = c_packed [
     (''generation'', u64_t),
     (''rfer'', u64_t),
     (''rfer_cmpr'', u64_t),
     (''excl'', u64_t),
     (''excl_cmpr'', u64_t)]"

definition struct_btrfs_qgroup_limit_item :: ctype where
  "struct_btrfs_qgroup_limit_item = c_packed [
     (''flags'', u64_t),
     (''max_rfer'', u64_t),
     (''max_excl'', u64_t),
     (''rsv_rfer'', u64_t),
     (''rsv_excl'', u64_t)]"

definition struct_btrfs_verity_descriptor_item :: ctype where
  "struct_btrfs_verity_descriptor_item = c_packed [
     (''size'', u64_t),
     (''reserved'', Arr u64_t 2),
     (''encryption'', u8_t)]"

definition disk_btrfs_tree_structs :: "ctype list" where
  "disk_btrfs_tree_structs = [struct_btrfs_disk_key, struct_btrfs_key, struct_btrfs_dev_item, struct_btrfs_stripe, struct_btrfs_chunk,
     struct_btrfs_free_space_entry, struct_btrfs_free_space_header, struct_btrfs_extent_item,
     struct_btrfs_extent_item_v0, struct_btrfs_tree_block_info, struct_btrfs_extent_data_ref,
     struct_btrfs_shared_data_ref, struct_btrfs_extent_inline_ref, struct_btrfs_dev_extent, struct_btrfs_inode_ref,
     struct_btrfs_inode_extref, struct_btrfs_timespec, struct_btrfs_inode_item, struct_btrfs_dir_log_item,
     struct_btrfs_dir_item, struct_btrfs_root_item, struct_btrfs_root_ref, struct_btrfs_disk_balance_args,
     struct_btrfs_balance_item, struct_btrfs_file_extent_item, struct_btrfs_csum_item, struct_btrfs_dev_stats_item,
     struct_btrfs_dev_replace_item, struct_btrfs_block_group_item, struct_btrfs_free_space_info,
     struct_btrfs_qgroup_status_item, struct_btrfs_qgroup_info_item, struct_btrfs_qgroup_limit_item,
     struct_btrfs_verity_descriptor_item]"

section \<open>\<^verbatim>\<open>include/linux/gfs2_ondisk.h\<close>\<close>

definition struct_gfs2_inum :: ctype where
  "struct_gfs2_inum = c_struct [
     (''no_formal_ino'', u64_t),
     (''no_addr'', u64_t)]"

definition struct_gfs2_meta_header :: ctype where
  "struct_gfs2_meta_header = c_struct [
     (''mh_magic'', u32_t),
     (''mh_type'', u32_t),
     (''__pad0'', u64_t),
     (''mh_format'', u32_t),
     ('''', c_union [ (''mh_jid'', u32_t), (''__pad1'', u32_t)])]"

definition struct_gfs2_sb :: ctype where
  "struct_gfs2_sb = c_struct [
     (''sb_header'', struct_gfs2_meta_header),
     (''sb_fs_format'', u32_t),
     (''sb_multihost_format'', u32_t),
     (''__pad0'', u32_t),
     (''sb_bsize'', u32_t),
     (''sb_bsize_shift'', u32_t),
     (''__pad1'', u32_t),
     (''sb_master_dir'', struct_gfs2_inum),
     (''__pad2'', struct_gfs2_inum),
     (''sb_root_dir'', struct_gfs2_inum),
     (''sb_lockproto'', Arr u8_t 64),
     (''sb_locktable'', Arr u8_t 64),
     (''__pad3'', struct_gfs2_inum),
     (''__pad4'', struct_gfs2_inum),
     (''sb_uuid'', Arr u8_t 16)]"

definition struct_gfs2_rindex :: ctype where
  "struct_gfs2_rindex = c_struct [
     (''ri_addr'', u64_t),
     (''ri_length'', u32_t),
     (''__pad'', u32_t),
     (''ri_data0'', u64_t),
     (''ri_data'', u32_t),
     (''ri_bitbytes'', u32_t),
     (''ri_reserved'', Arr u8_t 64)]"

definition struct_gfs2_inode_lvb :: ctype where
  "struct_gfs2_inode_lvb = c_struct [
     (''ri_magic'', u32_t),
     (''__pad'', u32_t),
     (''ri_generation_deleted'', u64_t)]"

definition struct_gfs2_rgrp_lvb :: ctype where
  "struct_gfs2_rgrp_lvb = c_struct [
     (''rl_magic'', u32_t),
     (''rl_flags'', u32_t),
     (''rl_free'', u32_t),
     (''rl_dinodes'', u32_t),
     (''rl_igeneration'', u64_t),
     (''rl_unlinked'', u32_t),
     (''__pad'', u32_t)]"

definition struct_gfs2_rgrp :: ctype where
  "struct_gfs2_rgrp = c_struct [
     (''rg_header'', struct_gfs2_meta_header),
     (''rg_flags'', u32_t),
     (''rg_free'', u32_t),
     (''rg_dinodes'', u32_t),
     ('''', c_union [ (''__pad'', u32_t), (''rg_skip'', u32_t)]),
     (''rg_igeneration'', u64_t),
     (''rg_data0'', u64_t),
     (''rg_data'', u32_t),
     (''rg_bitbytes'', u32_t),
     (''rg_crc'', u32_t),
     (''rg_reserved'', Arr u8_t 60)]"

definition struct_gfs2_quota :: ctype where
  "struct_gfs2_quota = c_struct [
     (''qu_limit'', u64_t),
     (''qu_warn'', u64_t),
     (''qu_value'', u64_t),
     (''qu_reserved'', Arr u8_t 64)]"

definition struct_gfs2_dinode :: ctype where
  "struct_gfs2_dinode = c_struct [
     (''di_header'', struct_gfs2_meta_header),
     (''di_num'', struct_gfs2_inum),
     (''di_mode'', u32_t),
     (''di_uid'', u32_t),
     (''di_gid'', u32_t),
     (''di_nlink'', u32_t),
     (''di_size'', u64_t),
     (''di_blocks'', u64_t),
     (''di_atime'', u64_t),
     (''di_mtime'', u64_t),
     (''di_ctime'', u64_t),
     (''di_major'', u32_t),
     (''di_minor'', u32_t),
     (''di_goal_meta'', u64_t),
     (''di_goal_data'', u64_t),
     (''di_generation'', u64_t),
     (''di_flags'', u32_t),
     (''di_payload_format'', u32_t),
     (''__pad1'', u16_t),
     (''di_height'', u16_t),
     (''__pad2'', u32_t),
     (''__pad3'', u16_t),
     (''di_depth'', u16_t),
     (''di_entries'', u32_t),
     (''__pad4'', struct_gfs2_inum),
     (''di_eattr'', u64_t),
     (''di_atime_nsec'', u32_t),
     (''di_mtime_nsec'', u32_t),
     (''di_ctime_nsec'', u32_t),
     (''di_reserved'', Arr u8_t 44)]"

definition struct_gfs2_dirent :: ctype where
  "struct_gfs2_dirent = c_struct [
     (''de_inum'', struct_gfs2_inum),
     (''de_hash'', u32_t),
     (''de_rec_len'', u16_t),
     (''de_name_len'', u16_t),
     (''de_type'', u16_t),
     (''de_rahead'', u16_t),
     ('''', c_union [ (''__pad'', Arr u8_t 12), ('''', c_struct [ (''de_cookie'', u32_t), (''pad3'', Arr u8_t 8)])])]"

definition struct_gfs2_leaf :: ctype where
  "struct_gfs2_leaf = c_struct [
     (''lf_header'', struct_gfs2_meta_header),
     (''lf_depth'', u16_t),
     (''lf_entries'', u16_t),
     (''lf_dirent_format'', u32_t),
     (''lf_next'', u64_t),
     ('''', c_union [ (''lf_reserved'', Arr u8_t 64), ('''', c_struct [ (''lf_inode'', u64_t), (''lf_dist'', u32_t), (''lf_nsec'', u32_t), (''lf_sec'', u64_t), (''lf_reserved2'', Arr u8_t 40)])])]"

definition struct_gfs2_ea_header :: ctype where
  "struct_gfs2_ea_header = c_struct [
     (''ea_rec_len'', u32_t),
     (''ea_data_len'', u32_t),
     (''ea_name_len'', u8_t),
     (''ea_type'', u8_t),
     (''ea_flags'', u8_t),
     (''ea_num_ptrs'', u8_t),
     (''__pad'', u32_t)]"

definition struct_gfs2_log_header :: ctype where
  "struct_gfs2_log_header = c_struct [
     (''lh_header'', struct_gfs2_meta_header),
     (''lh_sequence'', u64_t),
     (''lh_flags'', u32_t),
     (''lh_tail'', u32_t),
     (''lh_blkno'', u32_t),
     (''lh_hash'', u32_t),
     (''lh_crc'', u32_t),
     (''lh_nsec'', u32_t),
     (''lh_sec'', u64_t),
     (''lh_addr'', u64_t),
     (''lh_jinode'', u64_t),
     (''lh_statfs_addr'', u64_t),
     (''lh_quota_addr'', u64_t),
     (''lh_local_total'', u64_t),
     (''lh_local_free'', u64_t),
     (''lh_local_dinodes'', u64_t)]"

definition struct_gfs2_log_descriptor :: ctype where
  "struct_gfs2_log_descriptor = c_struct [
     (''ld_header'', struct_gfs2_meta_header),
     (''ld_type'', u32_t),
     (''ld_length'', u32_t),
     (''ld_data1'', u32_t),
     (''ld_data2'', u32_t),
     (''ld_reserved'', Arr u8_t 32)]"

definition struct_gfs2_inum_range :: ctype where
  "struct_gfs2_inum_range = c_struct [
     (''ir_start'', u64_t),
     (''ir_length'', u64_t)]"

definition struct_gfs2_statfs_change :: ctype where
  "struct_gfs2_statfs_change = c_struct [
     (''sc_total'', u64_t),
     (''sc_free'', u64_t),
     (''sc_dinodes'', u64_t)]"

definition struct_gfs2_quota_change :: ctype where
  "struct_gfs2_quota_change = c_struct [
     (''qc_change'', u64_t),
     (''qc_flags'', u32_t),
     (''qc_id'', u32_t)]"

definition struct_gfs2_quota_lvb :: ctype where
  "struct_gfs2_quota_lvb = c_struct [
     (''qb_magic'', u32_t),
     (''__pad'', u32_t),
     (''qb_limit'', u64_t),
     (''qb_warn'', u64_t),
     (''qb_value'', u64_t)]"

definition disk_gfs2_ondisk_structs :: "ctype list" where
  "disk_gfs2_ondisk_structs = [struct_gfs2_inum, struct_gfs2_meta_header, struct_gfs2_sb, struct_gfs2_rindex, struct_gfs2_inode_lvb,
     struct_gfs2_rgrp_lvb, struct_gfs2_rgrp, struct_gfs2_quota, struct_gfs2_dinode, struct_gfs2_dirent,
     struct_gfs2_leaf, struct_gfs2_ea_header, struct_gfs2_log_header, struct_gfs2_log_descriptor,
     struct_gfs2_inum_range, struct_gfs2_statfs_change, struct_gfs2_quota_change, struct_gfs2_quota_lvb]"

section \<open>\<^verbatim>\<open>include/linux/raid/md_p.h\<close>\<close>

definition struct_mdp_device_descriptor_s :: ctype where
  "struct_mdp_device_descriptor_s = c_struct [
     (''number'', u32_t),
     (''major'', u32_t),
     (''minor'', u32_t),
     (''raid_disk'', u32_t),
     (''state'', u32_t),
     (''reserved'', Arr u32_t 27)]"

definition struct_mdp_superblock_s :: ctype where
  "struct_mdp_superblock_s = c_struct [
     (''md_magic'', u32_t),
     (''major_version'', u32_t),
     (''minor_version'', u32_t),
     (''patch_version'', u32_t),
     (''gvalid_words'', u32_t),
     (''set_uuid0'', u32_t),
     (''ctime'', u32_t),
     (''level'', u32_t),
     (''size'', u32_t),
     (''nr_disks'', u32_t),
     (''raid_disks'', u32_t),
     (''md_minor'', u32_t),
     (''not_persistent'', u32_t),
     (''set_uuid1'', u32_t),
     (''set_uuid2'', u32_t),
     (''set_uuid3'', u32_t),
     (''gstate_creserved'', Arr u32_t 16),
     (''utime'', u32_t),
     (''state'', u32_t),
     (''active_disks'', u32_t),
     (''working_disks'', u32_t),
     (''failed_disks'', u32_t),
     (''spare_disks'', u32_t),
     (''sb_csum'', u32_t),
     (''events_hi'', u32_t),
     (''events_lo'', u32_t),
     (''cp_events_hi'', u32_t),
     (''cp_events_lo'', u32_t),
     (''recovery_cp'', u32_t),
     (''reshape_position'', u64_t),
     (''new_level'', u32_t),
     (''delta_disks'', u32_t),
     (''new_layout'', u32_t),
     (''new_chunk'', u32_t),
     (''gstate_sreserved'', Arr u32_t 14),
     (''layout'', u32_t),
     (''chunk_size'', u32_t),
     (''root_pv'', u32_t),
     (''root_block'', u32_t),
     (''pstate_reserved'', Arr u32_t 60),
     (''disks'', Arr struct_mdp_device_descriptor_s 27),
     (''reserved'', Arr u32_t 0),
     (''this_disk'', struct_mdp_device_descriptor_s)]"

definition struct_mdp_superblock_1 :: ctype where
  "struct_mdp_superblock_1 = c_struct [
     (''magic'', u32_t),
     (''major_version'', u32_t),
     (''feature_map'', u32_t),
     (''pad0'', u32_t),
     (''set_uuid'', Arr u8_t 16),
     (''set_name'', Arr u8_t 32),
     (''ctime'', u64_t),
     (''level'', u32_t),
     (''layout'', u32_t),
     (''size'', u64_t),
     (''chunksize'', u32_t),
     (''raid_disks'', u32_t),
     ('''', c_union [ (''bitmap_offset'', u32_t), (''ppl'', c_struct [ (''offset'', u16_t), (''size'', u16_t)])]),
     (''new_level'', u32_t),
     (''reshape_position'', u64_t),
     (''delta_disks'', u32_t),
     (''new_layout'', u32_t),
     (''new_chunk'', u32_t),
     (''new_offset'', u32_t),
     (''data_offset'', u64_t),
     (''data_size'', u64_t),
     (''super_offset'', u64_t),
     ('''', c_union [ (''recovery_offset'', u64_t), (''journal_tail'', u64_t)]),
     (''dev_number'', u32_t),
     (''cnt_corrected_read'', u32_t),
     (''device_uuid'', Arr u8_t 16),
     (''devflags'', u8_t),
     (''bblog_shift'', u8_t),
     (''bblog_size'', u16_t),
     (''bblog_offset'', u32_t),
     (''utime'', u64_t),
     (''events'', u64_t),
     (''resync_offset'', u64_t),
     (''sb_csum'', u32_t),
     (''max_dev'', u32_t),
     (''pad3'', Arr u8_t 32),
     (''dev_roles'', Arr u16_t 0)]"

definition struct_r5l_payload_header :: ctype where
  "struct_r5l_payload_header = c_packed [
     (''type'', u16_t),
     (''flags'', u16_t)]"

definition struct_r5l_payload_data_parity :: ctype where
  "struct_r5l_payload_data_parity = c_packed [
     (''header'', struct_r5l_payload_header),
     (''size'', u32_t),
     (''location'', u64_t),
     (''checksum'', Arr u32_t 0)]"

definition struct_r5l_payload_flush :: ctype where
  "struct_r5l_payload_flush = c_packed [
     (''header'', struct_r5l_payload_header),
     (''size'', u32_t),
     (''flush_stripes'', Arr u64_t 0)]"

definition struct_r5l_meta_block :: ctype where
  "struct_r5l_meta_block = c_packed [
     (''magic'', u32_t),
     (''checksum'', u32_t),
     (''version'', u8_t),
     (''__zero_pading_1'', u8_t),
     (''__zero_pading_2'', u16_t),
     (''meta_size'', u32_t),
     (''seq'', u64_t),
     (''position'', u64_t),
     (''payloads'', Arr struct_r5l_payload_header 0)]"

definition struct_ppl_header_entry :: ctype where
  "struct_ppl_header_entry = c_packed [
     (''data_sector'', u64_t),
     (''pp_size'', u32_t),
     (''data_size'', u32_t),
     (''parity_disk'', u32_t),
     (''checksum'', u32_t)]"

definition struct_ppl_header :: ctype where
  "struct_ppl_header = c_packed [
     (''reserved'', Arr u8_t 512),
     (''signature'', u32_t),
     (''padding'', u32_t),
     (''generation'', u64_t),
     (''entries_count'', u32_t),
     (''checksum'', u32_t),
     (''entries'', Arr struct_ppl_header_entry 148)]"

definition disk_md_p_structs :: "ctype list" where
  "disk_md_p_structs = [struct_mdp_device_descriptor_s, struct_mdp_superblock_s, struct_mdp_superblock_1, struct_r5l_payload_header,
     struct_r5l_payload_data_parity, struct_r5l_payload_flush, struct_r5l_meta_block, struct_ppl_header_entry,
     struct_ppl_header]"

section \<open>\<^verbatim>\<open>include/linux/bfs_fs.h\<close>\<close>

definition struct_bfs_inode :: ctype where
  "struct_bfs_inode = c_struct [
     (''i_ino'', u16_t),
     (''i_unused'', u16_t),
     (''i_sblock'', u32_t),
     (''i_eblock'', u32_t),
     (''i_eoffset'', u32_t),
     (''i_vtype'', u32_t),
     (''i_mode'', u32_t),
     (''i_uid'', u32_t),
     (''i_gid'', u32_t),
     (''i_nlink'', u32_t),
     (''i_atime'', u32_t),
     (''i_mtime'', u32_t),
     (''i_ctime'', u32_t),
     (''i_padding'', Arr u32_t 4)]"

definition struct_bfs_dirent :: ctype where
  "struct_bfs_dirent = c_struct [
     (''ino'', u16_t),
     (''name'', Arr u8_t 14)]"

definition struct_bfs_super_block :: ctype where
  "struct_bfs_super_block = c_struct [
     (''s_magic'', u32_t),
     (''s_start'', u32_t),
     (''s_end'', u32_t),
     (''s_from'', u32_t),
     (''s_to'', u32_t),
     (''s_bfrom'', u32_t),
     (''s_bto'', u32_t),
     (''s_fsname'', Arr u8_t 6),
     (''s_volume'', Arr u8_t 6),
     (''s_padding'', Arr u32_t 118)]"

definition disk_bfs_fs_structs :: "ctype list" where
  "disk_bfs_fs_structs = [struct_bfs_inode, struct_bfs_dirent, struct_bfs_super_block]"

section \<open>\<^verbatim>\<open>include/linux/romfs_fs.h\<close>\<close>

definition struct_romfs_super_block :: ctype where
  "struct_romfs_super_block = c_struct [
     (''word0'', u32_t),
     (''word1'', u32_t),
     (''size'', u32_t),
     (''checksum'', u32_t),
     (''name'', Arr u8_t 0)]"

definition struct_romfs_inode :: ctype where
  "struct_romfs_inode = c_struct [
     (''next'', u32_t),
     (''spec'', u32_t),
     (''size'', u32_t),
     (''checksum'', u32_t),
     (''name'', Arr u8_t 0)]"

definition disk_romfs_fs_structs :: "ctype list" where
  "disk_romfs_fs_structs = [struct_romfs_super_block, struct_romfs_inode]"

section \<open>\<^verbatim>\<open>include/linux/cramfs_fs.h\<close>\<close>

definition struct_cramfs_inode :: ctype where
  "struct_cramfs_inode = c_struct [
     (''mode_uid'', u32_t),
     (''size_gid'', u32_t),
     (''namelen_offset'', u32_t)]"

definition struct_cramfs_info :: ctype where
  "struct_cramfs_info = c_struct [
     (''crc'', u32_t),
     (''edition'', u32_t),
     (''blocks'', u32_t),
     (''files'', u32_t)]"

definition struct_cramfs_super :: ctype where
  "struct_cramfs_super = c_struct [
     (''magic'', u32_t),
     (''size'', u32_t),
     (''flags'', u32_t),
     (''future'', u32_t),
     (''signature'', Arr u8_t 16),
     (''fsid'', struct_cramfs_info),
     (''name'', Arr u8_t 16),
     (''root'', struct_cramfs_inode)]"

definition disk_cramfs_fs_structs :: "ctype list" where
  "disk_cramfs_fs_structs = [struct_cramfs_inode, struct_cramfs_info, struct_cramfs_super]"

section \<open>\<^verbatim>\<open>include/linux/minix_fs.h\<close>\<close>

definition struct_minix_inode :: ctype where
  "struct_minix_inode = c_struct [
     (''i_mode'', u16_t),
     (''i_uid'', u16_t),
     (''i_size'', u32_t),
     (''i_time'', u32_t),
     (''i_gid'', u8_t),
     (''i_nlinks'', u8_t),
     (''i_zone'', Arr u16_t 9)]"

definition struct_minix2_inode :: ctype where
  "struct_minix2_inode = c_struct [
     (''i_mode'', u16_t),
     (''i_nlinks'', u16_t),
     (''i_uid'', u16_t),
     (''i_gid'', u16_t),
     (''i_size'', u32_t),
     (''i_atime'', u32_t),
     (''i_mtime'', u32_t),
     (''i_ctime'', u32_t),
     (''i_zone'', Arr u32_t 10)]"

definition struct_minix_super_block :: ctype where
  "struct_minix_super_block = c_struct [
     (''s_ninodes'', u16_t),
     (''s_nzones'', u16_t),
     (''s_imap_blocks'', u16_t),
     (''s_zmap_blocks'', u16_t),
     (''s_firstdatazone'', u16_t),
     (''s_log_zone_size'', u16_t),
     (''s_max_size'', u32_t),
     (''s_magic'', u16_t),
     (''s_state'', u16_t),
     (''s_zones'', u32_t)]"

definition struct_minix3_super_block :: ctype where
  "struct_minix3_super_block = c_struct [
     (''s_ninodes'', u32_t),
     (''s_pad0'', u16_t),
     (''s_imap_blocks'', u16_t),
     (''s_zmap_blocks'', u16_t),
     (''s_firstdatazone'', u16_t),
     (''s_log_zone_size'', u16_t),
     (''s_pad1'', u16_t),
     (''s_max_size'', u32_t),
     (''s_zones'', u32_t),
     (''s_magic'', u16_t),
     (''s_pad2'', u16_t),
     (''s_blocksize'', u16_t),
     (''s_disk_version'', u8_t)]"

definition struct_minix_dir_entry :: ctype where
  "struct_minix_dir_entry = c_struct [
     (''inode'', u16_t),
     (''name'', Arr u8_t 0)]"

definition struct_minix3_dir_entry :: ctype where
  "struct_minix3_dir_entry = c_struct [
     (''inode'', u32_t),
     (''name'', Arr u8_t 0)]"

definition disk_minix_fs_structs :: "ctype list" where
  "disk_minix_fs_structs = [struct_minix_inode, struct_minix2_inode, struct_minix_super_block, struct_minix_dir_entry,
     struct_minix3_dir_entry]"

section \<open>\<^verbatim>\<open>include/linux/affs_hardblocks.h\<close>\<close>

definition struct_RigidDiskBlock :: ctype where
  "struct_RigidDiskBlock = c_struct [
     (''rdb_ID'', u32_t),
     (''rdb_SummedLongs'', u32_t),
     (''rdb_ChkSum'', u32_t),
     (''rdb_HostID'', u32_t),
     (''rdb_BlockBytes'', u32_t),
     (''rdb_Flags'', u32_t),
     (''rdb_BadBlockList'', u32_t),
     (''rdb_PartitionList'', u32_t),
     (''rdb_FileSysHeaderList'', u32_t),
     (''rdb_DriveInit'', u32_t),
     (''rdb_Reserved1'', Arr u32_t 6),
     (''rdb_Cylinders'', u32_t),
     (''rdb_Sectors'', u32_t),
     (''rdb_Heads'', u32_t),
     (''rdb_Interleave'', u32_t),
     (''rdb_Park'', u32_t),
     (''rdb_Reserved2'', Arr u32_t 3),
     (''rdb_WritePreComp'', u32_t),
     (''rdb_ReducedWrite'', u32_t),
     (''rdb_StepRate'', u32_t),
     (''rdb_Reserved3'', Arr u32_t 5),
     (''rdb_RDBBlocksLo'', u32_t),
     (''rdb_RDBBlocksHi'', u32_t),
     (''rdb_LoCylinder'', u32_t),
     (''rdb_HiCylinder'', u32_t),
     (''rdb_CylBlocks'', u32_t),
     (''rdb_AutoParkSeconds'', u32_t),
     (''rdb_HighRDSKBlock'', u32_t),
     (''rdb_Reserved4'', u32_t),
     (''rdb_DiskVendor'', Arr u8_t 8),
     (''rdb_DiskProduct'', Arr u8_t 16),
     (''rdb_DiskRevision'', Arr u8_t 4),
     (''rdb_ControllerVendor'', Arr u8_t 8),
     (''rdb_ControllerProduct'', Arr u8_t 16),
     (''rdb_ControllerRevision'', Arr u8_t 4),
     (''rdb_Reserved5'', Arr u32_t 10)]"

definition struct_PartitionBlock :: ctype where
  "struct_PartitionBlock = c_struct [
     (''pb_ID'', u32_t),
     (''pb_SummedLongs'', u32_t),
     (''pb_ChkSum'', u32_t),
     (''pb_HostID'', u32_t),
     (''pb_Next'', u32_t),
     (''pb_Flags'', u32_t),
     (''pb_Reserved1'', Arr u32_t 2),
     (''pb_DevFlags'', u32_t),
     (''pb_DriveName'', Arr u8_t 32),
     (''pb_Reserved2'', Arr u32_t 15),
     (''pb_Environment'', Arr u32_t 17),
     (''pb_EReserved'', Arr u32_t 15)]"

definition disk_affs_hardblocks_structs :: "ctype list" where
  "disk_affs_hardblocks_structs = [struct_RigidDiskBlock, struct_PartitionBlock]"

section \<open>\<^verbatim>\<open>include/linux/adfs_fs.h\<close>\<close>

definition struct_adfs_discrecord :: ctype where
  "struct_adfs_discrecord = Aligned 4 (c_packed [
     (''log2secsize'', u8_t),
     (''secspertrack'', u8_t),
     (''heads'', u8_t),
     (''density'', u8_t),
     (''idlen'', u8_t),
     (''log2bpmb'', u8_t),
     (''skew'', u8_t),
     (''bootoption'', u8_t),
     (''lowsector'', u8_t),
     (''nzones'', u8_t),
     (''zone_spare'', u16_t),
     (''root'', u32_t),
     (''disc_size'', u32_t),
     (''disc_id'', u16_t),
     (''disc_name'', Arr u8_t 10),
     (''disc_type'', u32_t),
     (''disc_size_high'', u32_t),
     (''log2sharesize'', u8_t),
     (''big_flag'', u8_t),
     (''nzones_high'', u8_t),
     (''reserved43'', u8_t),
     (''format_version'', u32_t),
     (''root_size'', u32_t),
     (''unused52'', Arr u8_t 8)])"

definition disk_adfs_fs_structs :: "ctype list" where
  "disk_adfs_fs_structs = [struct_adfs_discrecord]"

section \<open>\<^verbatim>\<open>include/linux/jffs2.h\<close>\<close>

definition struct_jffs2_unknown_node :: ctype where
  "struct_jffs2_unknown_node = c_struct [
     (''magic'', Packed [u16_t]),
     (''nodetype'', Packed [u16_t]),
     (''totlen'', Packed [u32_t]),
     (''hdr_crc'', Packed [u32_t])]"

definition struct_jffs2_raw_dirent :: ctype where
  "struct_jffs2_raw_dirent = c_struct [
     (''magic'', Packed [u16_t]),
     (''nodetype'', Packed [u16_t]),
     (''totlen'', Packed [u32_t]),
     (''hdr_crc'', Packed [u32_t]),
     (''pino'', Packed [u32_t]),
     (''version'', Packed [u32_t]),
     (''ino'', Packed [u32_t]),
     (''mctime'', Packed [u32_t]),
     (''nsize'', u8_t),
     (''type'', u8_t),
     (''unused'', Arr u8_t 2),
     (''node_crc'', Packed [u32_t]),
     (''name_crc'', Packed [u32_t]),
     (''name'', Arr u8_t 0)]"

definition struct_jffs2_raw_inode :: ctype where
  "struct_jffs2_raw_inode = c_struct [
     (''magic'', Packed [u16_t]),
     (''nodetype'', Packed [u16_t]),
     (''totlen'', Packed [u32_t]),
     (''hdr_crc'', Packed [u32_t]),
     (''ino'', Packed [u32_t]),
     (''version'', Packed [u32_t]),
     (''mode'', Packed [u32_t]),
     (''uid'', Packed [u16_t]),
     (''gid'', Packed [u16_t]),
     (''isize'', Packed [u32_t]),
     (''atime'', Packed [u32_t]),
     (''mtime'', Packed [u32_t]),
     (''ctime'', Packed [u32_t]),
     (''offset'', Packed [u32_t]),
     (''csize'', Packed [u32_t]),
     (''dsize'', Packed [u32_t]),
     (''compr'', u8_t),
     (''usercompr'', u8_t),
     (''flags'', Packed [u16_t]),
     (''data_crc'', Packed [u32_t]),
     (''node_crc'', Packed [u32_t]),
     (''data'', Arr u8_t 0)]"

definition struct_jffs2_raw_xattr :: ctype where
  "struct_jffs2_raw_xattr = c_packed [
     (''magic'', Packed [u16_t]),
     (''nodetype'', Packed [u16_t]),
     (''totlen'', Packed [u32_t]),
     (''hdr_crc'', Packed [u32_t]),
     (''xid'', Packed [u32_t]),
     (''version'', Packed [u32_t]),
     (''xprefix'', u8_t),
     (''name_len'', u8_t),
     (''value_len'', Packed [u16_t]),
     (''data_crc'', Packed [u32_t]),
     (''node_crc'', Packed [u32_t]),
     (''data'', Arr u8_t 0)]"

definition struct_jffs2_raw_xref :: ctype where
  "struct_jffs2_raw_xref = c_packed [
     (''magic'', Packed [u16_t]),
     (''nodetype'', Packed [u16_t]),
     (''totlen'', Packed [u32_t]),
     (''hdr_crc'', Packed [u32_t]),
     (''ino'', Packed [u32_t]),
     (''xid'', Packed [u32_t]),
     (''xseqno'', Packed [u32_t]),
     (''node_crc'', Packed [u32_t])]"

definition struct_jffs2_raw_summary :: ctype where
  "struct_jffs2_raw_summary = c_struct [
     (''magic'', Packed [u16_t]),
     (''nodetype'', Packed [u16_t]),
     (''totlen'', Packed [u32_t]),
     (''hdr_crc'', Packed [u32_t]),
     (''sum_num'', Packed [u32_t]),
     (''cln_mkr'', Packed [u32_t]),
     (''padded'', Packed [u32_t]),
     (''sum_crc'', Packed [u32_t]),
     (''node_crc'', Packed [u32_t]),
     (''sum'', Arr (Packed [u32_t]) 0)]"

definition union_jffs2_node_union :: ctype where
  "union_jffs2_node_union = c_union [
     (''i'', struct_jffs2_raw_inode),
     (''d'', struct_jffs2_raw_dirent),
     (''x'', struct_jffs2_raw_xattr),
     (''r'', struct_jffs2_raw_xref),
     (''s'', struct_jffs2_raw_summary),
     (''u'', struct_jffs2_unknown_node)]"

definition union_jffs2_device_node :: ctype where
  "union_jffs2_device_node = c_union [
     (''old_id'', Packed [u16_t]),
     (''new_id'', Packed [u32_t])]"

definition disk_jffs2_structs :: "ctype list" where
  "disk_jffs2_structs = [struct_jffs2_unknown_node, struct_jffs2_raw_dirent, struct_jffs2_raw_inode, struct_jffs2_raw_xattr,
     struct_jffs2_raw_xref, struct_jffs2_raw_summary, union_jffs2_node_union, union_jffs2_device_node]"

section \<open>\<^verbatim>\<open>include/linux/msdos_fs.h\<close>\<close>

definition struct_fat_boot_sector :: ctype where
  "struct_fat_boot_sector = c_struct [
     (''ignored'', Arr u8_t 3),
     (''system_id'', Arr u8_t 8),
     (''sector_size'', Arr u8_t 2),
     (''sec_per_clus'', u8_t),
     (''reserved'', u16_t),
     (''fats'', u8_t),
     (''dir_entries'', Arr u8_t 2),
     (''sectors'', Arr u8_t 2),
     (''media'', u8_t),
     (''fat_length'', u16_t),
     (''secs_track'', u16_t),
     (''heads'', u16_t),
     (''hidden'', u32_t),
     (''total_sect'', u32_t),
     ('''', c_union [ (''fat16'', c_struct [ (''drive_number'', u8_t), (''state'', u8_t), (''signature'', u8_t), (''vol_id'', Arr u8_t 4), (''vol_label'', Arr u8_t 11), (''fs_type'', Arr u8_t 8)]), (''fat32'', c_struct [ (''length'', u32_t), (''flags'', u16_t), (''version'', Arr u8_t 2), (''root_cluster'', u32_t), (''info_sector'', u16_t), (''backup_boot'', u16_t), (''reserved2'', Arr u16_t 6), (''drive_number'', u8_t), (''state'', u8_t), (''signature'', u8_t), (''vol_id'', Arr u8_t 4), (''vol_label'', Arr u8_t 11), (''fs_type'', Arr u8_t 8)])])]"

definition struct_fat_boot_fsinfo :: ctype where
  "struct_fat_boot_fsinfo = c_struct [
     (''signature1'', u32_t),
     (''reserved1'', Arr u32_t 120),
     (''signature2'', u32_t),
     (''free_clusters'', u32_t),
     (''next_cluster'', u32_t),
     (''reserved2'', Arr u32_t 4)]"

definition struct_msdos_dir_entry :: ctype where
  "struct_msdos_dir_entry = c_struct [
     (''name'', Arr u8_t 11),
     (''attr'', u8_t),
     (''lcase'', u8_t),
     (''ctime_cs'', u8_t),
     (''ctime'', u16_t),
     (''cdate'', u16_t),
     (''adate'', u16_t),
     (''starthi'', u16_t),
     (''time'', u16_t),
     (''date'', u16_t),
     (''start'', u16_t),
     (''size'', u32_t)]"

definition struct_msdos_dir_slot :: ctype where
  "struct_msdos_dir_slot = c_struct [
     (''id'', u8_t),
     (''name0_4'', Arr u8_t 10),
     (''attr'', u8_t),
     (''reserved'', u8_t),
     (''alias_checksum'', u8_t),
     (''name5_10'', Arr u8_t 12),
     (''start'', u16_t),
     (''name11_12'', Arr u8_t 4)]"

definition disk_msdos_fs_structs :: "ctype list" where
  "disk_msdos_fs_structs = [struct_fat_boot_fsinfo, struct_msdos_dir_entry, struct_msdos_dir_slot]"

section \<open>\<^verbatim>\<open>include/linux/efs_fs_sb.h\<close>\<close>

definition struct_efs_super :: ctype where
  "struct_efs_super = c_struct [
     (''fs_size'', u32_t),
     (''fs_firstcg'', u32_t),
     (''fs_cgfsize'', u32_t),
     (''fs_cgisize'', u16_t),
     (''fs_sectors'', u16_t),
     (''fs_heads'', u16_t),
     (''fs_ncg'', u16_t),
     (''fs_dirty'', u16_t),
     (''fs_time'', u32_t),
     (''fs_magic'', u32_t),
     (''fs_fname'', Arr u8_t 6),
     (''fs_fpack'', Arr u8_t 6),
     (''fs_bmsize'', u32_t),
     (''fs_tfree'', u32_t),
     (''fs_tinode'', u32_t),
     (''fs_bmblock'', u32_t),
     (''fs_replsb'', u32_t),
     (''fs_lastialloc'', u32_t),
     (''fs_spare'', Arr u8_t 20),
     (''fs_checksum'', u32_t)]"

definition struct_efs_sb_info :: ctype where
  "struct_efs_sb_info = c_struct [
     (''fs_magic'', u32_t),
     (''fs_start'', u32_t),
     (''first_block'', u32_t),
     (''total_blocks'', u32_t),
     (''group_size'', u32_t),
     (''data_free'', u32_t),
     (''inode_free'', u32_t),
     (''inode_blocks'', u16_t),
     (''total_groups'', u16_t)]"

definition disk_efs_fs_sb_structs :: "ctype list" where
  "disk_efs_fs_sb_structs = [struct_efs_sb_info]"

section \<open>\<^verbatim>\<open>include/linux/qnx4_fs.h\<close>\<close>

definition struct_qnx4_inode_entry :: ctype where
  "struct_qnx4_inode_entry = c_struct [
     (''di_fname'', Arr u8_t 16),
     (''di_size'', u32_t),
     (''di_first_xtnt'', c_struct [(''xtnt_blk'', u32_t), (''xtnt_size'', u32_t)]),
     (''di_xblk'', u32_t),
     (''di_ftime'', u32_t),
     (''di_mtime'', u32_t),
     (''di_atime'', u32_t),
     (''di_ctime'', u32_t),
     (''di_num_xtnts'', u16_t),
     (''di_mode'', u16_t),
     (''di_uid'', u16_t),
     (''di_gid'', u16_t),
     (''di_nlink'', u16_t),
     (''di_zero'', Arr u8_t 4),
     (''di_type'', u8_t),
     (''di_status'', u8_t)]"

definition struct_qnx4_link_info :: ctype where
  "struct_qnx4_link_info = c_struct [
     (''dl_fname'', Arr u8_t 48),
     (''dl_inode_blk'', u32_t),
     (''dl_inode_ndx'', u8_t),
     (''dl_spare'', Arr u8_t 10),
     (''dl_status'', u8_t)]"

definition struct_qnx4_xblk :: ctype where
  "struct_qnx4_xblk = c_struct [
     (''xblk_next_xblk'', u32_t),
     (''xblk_prev_xblk'', u32_t),
     (''xblk_num_xtnts'', u8_t),
     (''xblk_spare'', Arr u8_t 3),
     (''xblk_num_blocks'', u32_t),
     (''xblk_xtnts'', Arr (c_struct [(''xtnt_blk'', u32_t), (''xtnt_size'', u32_t)]) 60),
     (''xblk_signature'', Arr u8_t 8),
     (''xblk_first_xtnt'', c_struct [(''xtnt_blk'', u32_t), (''xtnt_size'', u32_t)])]"

definition struct_qnx4_super_block :: ctype where
  "struct_qnx4_super_block = c_struct [
     (''RootDir'', struct_qnx4_inode_entry),
     (''Inode'', struct_qnx4_inode_entry),
     (''Boot'', struct_qnx4_inode_entry),
     (''AltBoot'', struct_qnx4_inode_entry)]"

definition disk_qnx4_fs_structs :: "ctype list" where
  "disk_qnx4_fs_structs = [struct_qnx4_inode_entry, struct_qnx4_link_info, struct_qnx4_xblk, struct_qnx4_super_block]"

section \<open>\<^verbatim>\<open>include/linux/nilfs2_ondisk.h\<close>\<close>

definition struct_nilfs_inode :: ctype where
  "struct_nilfs_inode = c_struct [
     (''i_blocks'', u64_t),
     (''i_size'', u64_t),
     (''i_ctime'', u64_t),
     (''i_mtime'', u64_t),
     (''i_ctime_nsec'', u32_t),
     (''i_mtime_nsec'', u32_t),
     (''i_uid'', u32_t),
     (''i_gid'', u32_t),
     (''i_mode'', u16_t),
     (''i_links_count'', u16_t),
     (''i_flags'', u32_t),
     (''i_bmap'', Arr u64_t 7),
     (''i_xattr'', u64_t),
     (''i_generation'', u32_t),
     (''i_pad'', u32_t)]"

definition struct_nilfs_super_root :: ctype where
  "struct_nilfs_super_root = c_struct [
     (''sr_sum'', u32_t),
     (''sr_bytes'', u16_t),
     (''sr_flags'', u16_t),
     (''sr_nongc_ctime'', u64_t),
     (''sr_dat'', struct_nilfs_inode),
     (''sr_cpfile'', struct_nilfs_inode),
     (''sr_sufile'', struct_nilfs_inode)]"

definition struct_nilfs_super_block :: ctype where
  "struct_nilfs_super_block = c_struct [
     (''s_rev_level'', u32_t),
     (''s_minor_rev_level'', u16_t),
     (''s_magic'', u16_t),
     (''s_bytes'', u16_t),
     (''s_flags'', u16_t),
     (''s_crc_seed'', u32_t),
     (''s_sum'', u32_t),
     (''s_log_block_size'', u32_t),
     (''s_nsegments'', u64_t),
     (''s_dev_size'', u64_t),
     (''s_first_data_block'', u64_t),
     (''s_blocks_per_segment'', u32_t),
     (''s_r_segments_percentage'', u32_t),
     (''s_last_cno'', u64_t),
     (''s_last_pseg'', u64_t),
     (''s_last_seq'', u64_t),
     (''s_free_blocks_count'', u64_t),
     (''s_ctime'', u64_t),
     (''s_mtime'', u64_t),
     (''s_wtime'', u64_t),
     (''s_mnt_count'', u16_t),
     (''s_max_mnt_count'', u16_t),
     (''s_state'', u16_t),
     (''s_errors'', u16_t),
     (''s_lastcheck'', u64_t),
     (''s_checkinterval'', u32_t),
     (''s_creator_os'', u32_t),
     (''s_def_resuid'', u16_t),
     (''s_def_resgid'', u16_t),
     (''s_first_ino'', u32_t),
     (''s_inode_size'', u16_t),
     (''s_dat_entry_size'', u16_t),
     (''s_checkpoint_size'', u16_t),
     (''s_segment_usage_size'', u16_t),
     (''s_uuid'', Arr u8_t 16),
     (''s_volume_name'', Arr u8_t 80),
     (''s_c_interval'', u32_t),
     (''s_c_block_max'', u32_t),
     (''s_feature_compat'', u64_t),
     (''s_feature_compat_ro'', u64_t),
     (''s_feature_incompat'', u64_t),
     (''s_reserved'', Arr u32_t 186)]"

definition struct_nilfs_dir_entry :: ctype where
  "struct_nilfs_dir_entry = c_struct [
     (''inode'', u64_t),
     (''rec_len'', u16_t),
     (''name_len'', u8_t),
     (''file_type'', u8_t),
     (''name'', Arr u8_t 255),
     (''pad'', u8_t)]"

definition struct_nilfs_finfo :: ctype where
  "struct_nilfs_finfo = c_struct [
     (''fi_ino'', u64_t),
     (''fi_cno'', u64_t),
     (''fi_nblocks'', u32_t),
     (''fi_ndatablk'', u32_t)]"

definition struct_nilfs_binfo_v :: ctype where
  "struct_nilfs_binfo_v = c_struct [
     (''bi_vblocknr'', u64_t),
     (''bi_blkoff'', u64_t)]"

definition struct_nilfs_binfo_dat :: ctype where
  "struct_nilfs_binfo_dat = c_struct [
     (''bi_blkoff'', u64_t),
     (''bi_level'', u8_t),
     (''bi_pad'', Arr u8_t 7)]"

definition union_nilfs_binfo :: ctype where
  "union_nilfs_binfo = c_union [
     (''bi_v'', struct_nilfs_binfo_v),
     (''bi_dat'', struct_nilfs_binfo_dat)]"

definition struct_nilfs_segment_summary :: ctype where
  "struct_nilfs_segment_summary = c_struct [
     (''ss_datasum'', u32_t),
     (''ss_sumsum'', u32_t),
     (''ss_magic'', u32_t),
     (''ss_bytes'', u16_t),
     (''ss_flags'', u16_t),
     (''ss_seq'', u64_t),
     (''ss_create'', u64_t),
     (''ss_next'', u64_t),
     (''ss_nblocks'', u32_t),
     (''ss_nfinfo'', u32_t),
     (''ss_sumbytes'', u32_t),
     (''ss_pad'', u32_t),
     (''ss_cno'', u64_t)]"

definition struct_nilfs_btree_node :: ctype where
  "struct_nilfs_btree_node = c_struct [
     (''bn_flags'', u8_t),
     (''bn_level'', u8_t),
     (''bn_nchildren'', u16_t),
     (''bn_pad'', u32_t)]"

definition struct_nilfs_direct_node :: ctype where
  "struct_nilfs_direct_node = c_struct [
     (''dn_flags'', u8_t),
     (''pad'', Arr u8_t 7)]"

definition struct_nilfs_palloc_group_desc :: ctype where
  "struct_nilfs_palloc_group_desc = c_struct [
     (''pg_nfrees'', u32_t)]"

definition struct_nilfs_dat_entry :: ctype where
  "struct_nilfs_dat_entry = c_struct [
     (''de_blocknr'', u64_t),
     (''de_start'', u64_t),
     (''de_end'', u64_t),
     (''de_rsv'', u64_t)]"

definition struct_nilfs_snapshot_list :: ctype where
  "struct_nilfs_snapshot_list = c_struct [
     (''ssl_next'', u64_t),
     (''ssl_prev'', u64_t)]"

definition struct_nilfs_checkpoint :: ctype where
  "struct_nilfs_checkpoint = c_struct [
     (''cp_flags'', u32_t),
     (''cp_checkpoints_count'', u32_t),
     (''cp_snapshot_list'', struct_nilfs_snapshot_list),
     (''cp_cno'', u64_t),
     (''cp_create'', u64_t),
     (''cp_nblk_inc'', u64_t),
     (''cp_inodes_count'', u64_t),
     (''cp_blocks_count'', u64_t),
     (''cp_ifile_inode'', struct_nilfs_inode)]"

definition struct_nilfs_cpfile_header :: ctype where
  "struct_nilfs_cpfile_header = c_struct [
     (''ch_ncheckpoints'', u64_t),
     (''ch_nsnapshots'', u64_t),
     (''ch_snapshot_list'', struct_nilfs_snapshot_list)]"

definition struct_nilfs_segment_usage :: ctype where
  "struct_nilfs_segment_usage = c_struct [
     (''su_lastmod'', u64_t),
     (''su_nblocks'', u32_t),
     (''su_flags'', u32_t)]"

definition struct_nilfs_sufile_header :: ctype where
  "struct_nilfs_sufile_header = c_struct [
     (''sh_ncleansegs'', u64_t),
     (''sh_ndirtysegs'', u64_t),
     (''sh_last_alloc'', u64_t)]"

definition disk_nilfs2_ondisk_structs :: "ctype list" where
  "disk_nilfs2_ondisk_structs = [struct_nilfs_inode, struct_nilfs_super_root, struct_nilfs_super_block, struct_nilfs_finfo,
     struct_nilfs_binfo_v, struct_nilfs_binfo_dat, union_nilfs_binfo, struct_nilfs_segment_summary,
     struct_nilfs_btree_node, struct_nilfs_direct_node, struct_nilfs_palloc_group_desc, struct_nilfs_dat_entry,
     struct_nilfs_snapshot_list, struct_nilfs_checkpoint, struct_nilfs_cpfile_header, struct_nilfs_segment_usage,
     struct_nilfs_sufile_header]"

text \<open>The structures that a compiler pads.\<close>

definition disk_padded :: "ctype list" where
  "disk_padded = [struct_minix3_super_block, struct_fat_boot_sector, struct_efs_super, struct_nilfs_dir_entry]"

definition disk_structs :: "ctype list" where
  "disk_structs = disk_btrfs_tree_structs @ disk_gfs2_ondisk_structs @ disk_md_p_structs @ disk_bfs_fs_structs @
     disk_romfs_fs_structs @ disk_cramfs_fs_structs @ disk_minix_fs_structs @ disk_affs_hardblocks_structs @
     disk_adfs_fs_structs @ disk_jffs2_structs @ disk_msdos_fs_structs @ disk_efs_fs_sb_structs @ disk_qnx4_fs_structs @
     disk_nilfs2_ondisk_structs"

section \<open>Properties\<close>

lemma disk_btrfs_tree_structs_tight: "list_all tight disk_btrfs_tree_structs"
  by code_simp

lemma disk_gfs2_ondisk_structs_tight: "list_all tight disk_gfs2_ondisk_structs"
  by code_simp

lemma disk_md_p_structs_tight: "list_all tight disk_md_p_structs"
  by code_simp

lemma disk_bfs_fs_structs_tight: "list_all tight disk_bfs_fs_structs"
  by code_simp

lemma disk_romfs_fs_structs_tight: "list_all tight disk_romfs_fs_structs"
  by code_simp

lemma disk_cramfs_fs_structs_tight: "list_all tight disk_cramfs_fs_structs"
  by code_simp

lemma disk_minix_fs_structs_tight: "list_all tight disk_minix_fs_structs"
  by code_simp

lemma disk_affs_hardblocks_structs_tight: "list_all tight disk_affs_hardblocks_structs"
  by code_simp

lemma disk_adfs_fs_structs_tight: "list_all tight disk_adfs_fs_structs"
  by code_simp

lemma disk_jffs2_structs_tight: "list_all tight disk_jffs2_structs"
  by code_simp

lemma disk_msdos_fs_structs_tight: "list_all tight disk_msdos_fs_structs"
  by code_simp

lemma disk_efs_fs_sb_structs_tight: "list_all tight disk_efs_fs_sb_structs"
  by code_simp

lemma disk_qnx4_fs_structs_tight: "list_all tight disk_qnx4_fs_structs"
  by code_simp

lemma disk_nilfs2_ondisk_structs_tight: "list_all tight disk_nilfs2_ondisk_structs"
  by code_simp

lemma disk_all_tight: "list_all tight disk_structs"
  by (simp add: disk_structs_def disk_btrfs_tree_structs_tight disk_gfs2_ondisk_structs_tight disk_md_p_structs_tight
     disk_bfs_fs_structs_tight disk_romfs_fs_structs_tight disk_cramfs_fs_structs_tight
     disk_minix_fs_structs_tight disk_affs_hardblocks_structs_tight disk_adfs_fs_structs_tight
     disk_jffs2_structs_tight disk_msdos_fs_structs_tight disk_efs_fs_sb_structs_tight
     disk_qnx4_fs_structs_tight disk_nilfs2_ondisk_structs_tight)

text \<open>The others have their members in the same places, on i386 as on 64-bit hosts.\<close>

lemma disk_padded_agree: "list_all (agree 4) disk_padded"
  by code_simp

lemma disk_padded_leaves: "list_all (\<lambda>t. leaves 4 0 t = leaves 8 0 t) disk_padded"
  using disk_padded_agree by (auto simp add: list_all_iff intro: agree_leaves)

text \<open>A byte of each that belongs to no member.\<close>

definition padding_at :: "ctype \<Rightarrow> nat \<Rightarrow> bool" where
  "padding_at t i \<longleftrightarrow> i < sizeof 8 t \<and> list_all (\<lambda>(p, n). i < p \<or> p + n \<le> i) (leaves 8 0 t)"

lemma disk_padding_at: "list_all2 padding_at disk_padded [31, 90, 22, 268]"
  by code_simp

lemma padding_at_uncovered: "padding_at t i \<Longrightarrow> \<not> covered (leaves 8 0 t) 0 (sizeof 8 t)"
proof
  assume i: "padding_at t i" and c: "covered (leaves 8 0 t) 0 (sizeof 8 t)"
  have "i < 0 + sizeof 8 t" using i by (simp add: padding_at_def)
  from coveredD [OF c _ this] obtain x where x: "x \<in> set (leaves 8 0 t)" "fst x \<le> i" "i < fst x + snd x"
    by blast
  have "i < fst x \<or> fst x + snd x \<le> i" using i x(1) by (auto simp add: padding_at_def list_all_iff)
  with x show False by simp
qed

lemma disk_padded_uncovered:
  assumes "t \<in> set disk_padded"
  shows "\<not> covered (leaves 8 0 t) 0 (sizeof 8 t)"
proof -
  obtain i where "padding_at t i"
    using disk_padding_at assms by (auto simp add: list_all2_conv_all_nth in_set_conv_nth)
  then show ?thesis by (rule padding_at_uncovered)
qed

text \<open>
  C26: The structures of file systems on disk are in two lists. Those of the first, all but four, are laid out alike,
  member by member, by every ABI, and each of their bytes belongs to a member. The four of the second
  (\<^verbatim>\<open>minix3_super_block\<close>, \<^verbatim>\<open>fat_boot_sector\<close>, \<^verbatim>\<open>efs_super\<close>, \<^verbatim>\<open>nilfs_dir_entry\<close>) have their members in the same
  places on i386 and on 64-bit hosts, but hold a byte that belongs to no member.
\<close>

theorem disk_layout:
  assumes "t \<in> set (disk_structs @ disk_padded)"
  shows "(t \<in> set disk_structs \<longrightarrow> same_everywhere t \<and> covered (leaves 8 0 t) 0 (sizeof 8 t)) \<and>
    (t \<in> set disk_padded \<longrightarrow> leaves 4 0 t = leaves 8 0 t \<and> \<not> covered (leaves 8 0 t) 0 (sizeof 8 t))"
  using tight_types [OF disk_all_tight] disk_padded_leaves disk_padded_uncovered
  by (auto simp add: list_all_iff)

theorem disk_layout_witness: "same_everywhere struct_btrfs_root_item \<and> covered (leaves 8 0 struct_btrfs_root_item) 0 (sizeof 8 struct_btrfs_root_item)"
  using disk_layout [of struct_btrfs_root_item] by (simp add: disk_structs_def disk_btrfs_tree_structs_def disk_gfs2_ondisk_structs_def disk_md_p_structs_def disk_bfs_fs_structs_def disk_romfs_fs_structs_def disk_cramfs_fs_structs_def disk_minix_fs_structs_def disk_affs_hardblocks_structs_def disk_adfs_fs_structs_def disk_jffs2_structs_def disk_msdos_fs_structs_def disk_efs_fs_sb_structs_def disk_qnx4_fs_structs_def disk_nilfs2_ondisk_structs_def)

section \<open>Descriptors of ISO 9660\<close>

text \<open>
  The descriptors of an ISO 9660 file system and of its High Sierra predecessor, \<^verbatim>\<open>include/linux/iso_fs.h\<close>. Every
  member is an array of bytes, declared by the first and last byte it has in the standard, counted from 1;
  \<^verbatim>\<open>ISODCL\<close> turns these into a length. The standard's positions hold only if the members leave no gap
  and do not overlap.
\<close>

definition ISODCL :: "nat \<Rightarrow> nat \<Rightarrow> nat" where
  "ISODCL f t = t - f + 1"

text \<open>The members of a descriptor with the bounds of \<^verbatim>\<open>ISODCL\<close>, and the structure they declare.\<close>

definition iso_volume_descriptor :: "(string \<times> nat \<times> nat) list" where
  "iso_volume_descriptor = [(''type'', 1, 1), (''id'', 2, 6), (''version'', 7, 7), (''data'', 8, 2048)]"

definition iso_primary_descriptor :: "(string \<times> nat \<times> nat) list" where
  "iso_primary_descriptor = [(''type'', 1, 1), (''id'', 2, 6), (''version'', 7, 7), (''unused1'', 8, 8), (''system_id'', 9, 40),
     (''volume_id'', 41, 72), (''unused2'', 73, 80), (''volume_space_size'', 81, 88), (''unused3'', 89, 120),
     (''volume_set_size'', 121, 124), (''volume_sequence_number'', 125, 128), (''logical_block_size'', 129, 132),
     (''path_table_size'', 133, 140), (''type_l_path_table'', 141, 144), (''opt_type_l_path_table'', 145, 148),
     (''type_m_path_table'', 149, 152), (''opt_type_m_path_table'', 153, 156),
     (''root_directory_record'', 157, 190), (''volume_set_id'', 191, 318), (''publisher_id'', 319, 446),
     (''preparer_id'', 447, 574), (''application_id'', 575, 702), (''copyright_file_id'', 703, 739),
     (''abstract_file_id'', 740, 776), (''bibliographic_file_id'', 777, 813), (''creation_date'', 814, 830),
     (''modification_date'', 831, 847), (''expiration_date'', 848, 864), (''effective_date'', 865, 881),
     (''file_structure_version'', 882, 882), (''unused4'', 883, 883), (''application_data'', 884, 1395),
     (''unused5'', 1396, 2048)]"

definition iso_supplementary_descriptor :: "(string \<times> nat \<times> nat) list" where
  "iso_supplementary_descriptor = [(''type'', 1, 1), (''id'', 2, 6), (''version'', 7, 7), (''flags'', 8, 8), (''system_id'', 9, 40),
     (''volume_id'', 41, 72), (''unused2'', 73, 80), (''volume_space_size'', 81, 88), (''escape'', 89, 120),
     (''volume_set_size'', 121, 124), (''volume_sequence_number'', 125, 128), (''logical_block_size'', 129, 132),
     (''path_table_size'', 133, 140), (''type_l_path_table'', 141, 144), (''opt_type_l_path_table'', 145, 148),
     (''type_m_path_table'', 149, 152), (''opt_type_m_path_table'', 153, 156),
     (''root_directory_record'', 157, 190), (''volume_set_id'', 191, 318), (''publisher_id'', 319, 446),
     (''preparer_id'', 447, 574), (''application_id'', 575, 702), (''copyright_file_id'', 703, 739),
     (''abstract_file_id'', 740, 776), (''bibliographic_file_id'', 777, 813), (''creation_date'', 814, 830),
     (''modification_date'', 831, 847), (''expiration_date'', 848, 864), (''effective_date'', 865, 881),
     (''file_structure_version'', 882, 882), (''unused4'', 883, 883), (''application_data'', 884, 1395),
     (''unused5'', 1396, 2048)]"

definition hs_volume_descriptor :: "(string \<times> nat \<times> nat) list" where
  "hs_volume_descriptor = [(''foo'', 1, 8), (''type'', 9, 9), (''id'', 10, 14), (''version'', 15, 15), (''data'', 16, 2048)]"

definition hs_primary_descriptor :: "(string \<times> nat \<times> nat) list" where
  "hs_primary_descriptor = [(''foo'', 1, 8), (''type'', 9, 9), (''id'', 10, 14), (''version'', 15, 15), (''unused1'', 16, 16),
     (''system_id'', 17, 48), (''volume_id'', 49, 80), (''unused2'', 81, 88), (''volume_space_size'', 89, 96),
     (''unused3'', 97, 128), (''volume_set_size'', 129, 132), (''volume_sequence_number'', 133, 136),
     (''logical_block_size'', 137, 140), (''path_table_size'', 141, 148), (''type_l_path_table'', 149, 152),
     (''unused4'', 153, 180), (''root_directory_record'', 181, 214)]"

definition iso_directory_record :: "(string \<times> nat \<times> nat) list" where
  "iso_directory_record = [(''length'', 1, 1), (''ext_attr_length'', 2, 2), (''extent'', 3, 10), (''size'', 11, 18), (''date'', 19, 25),
     (''flags'', 26, 26), (''file_unit_size'', 27, 27), (''interleave'', 28, 28),
     (''volume_sequence_number'', 29, 32), (''name_len'', 33, 33)]"

definition iso_members :: "(string \<times> nat \<times> nat) list \<Rightarrow> (string \<times> ctype) list" where
  "iso_members ds = map (\<lambda>(n, f, t). (n, Arr u8_t (ISODCL f t))) ds"

text \<open>The records have a name of variable length behind their last member.\<close>

definition struct_iso_directory_record :: ctype where
  "struct_iso_directory_record = c_packed (iso_members iso_directory_record @ [(''name'', Arr u8_t 0)])"

definition struct_iso_path_table :: ctype where
  "struct_iso_path_table = c_packed
    [(''name_len'', Arr u8_t 2), (''extent'', Arr u8_t 4), (''parent'', Arr u8_t 2), (''name'', Arr u8_t 0)]"

definition iso_descriptors :: "(string \<times> nat \<times> nat) list list" where
  "iso_descriptors = [iso_volume_descriptor, iso_primary_descriptor, iso_supplementary_descriptor, hs_volume_descriptor,
     hs_primary_descriptor, iso_directory_record]"

subsection \<open>Properties\<close>

text \<open>The bounds of the declarations are consecutive: each member starts behind the one before.\<close>

fun consecutive :: "nat \<Rightarrow> (string \<times> nat \<times> nat) list \<Rightarrow> bool" where
  "consecutive p [] = True"
| "consecutive p ((n, f, t) # ds) = (f = p + 1 \<and> f \<le> t \<and> consecutive t ds)"

lemma bounds_consecutive: "list_all (consecutive 0) iso_descriptors"
  by code_simp

lemma names_distinct: "list_all (\<lambda>ds. distinct (map fst ds)) iso_descriptors"
  by code_simp

lemma bytes_align: "align_up (alignof amax (Arr u8_t k)) p = p" if "1 \<le> amax" for amax k p
  using that by (simp add: align_up_def)

lemma consecutive_offsets:
  assumes "consecutive p ds" "(n, f, t) \<in> set ds" "distinct (map fst ds)" "1 \<le> amax"
  shows "offset_from amax (iso_members ds) n p = Some (f - 1)"
  using assms
proof (induction p ds rule: consecutive.induct)
  case (2 p n' f' t' ds)
  have "p + ISODCL f' t' = t'" using 2(2) by (simp add: ISODCL_def)
  then show ?case using 2 bytes_align [OF 2(5)] by (auto simp add: iso_members_def image_iff)
qed simp

text \<open>
  Every member of a volume descriptor and of a directory record lies at the bytes that its declaration names,
  for every ABI, and the volume descriptors of ISO 9660 fill exactly one block of 2048 bytes.
\<close>

theorem iso_members_in_place:
  assumes "ds \<in> set iso_descriptors" "(n, f, t) \<in> set ds" "1 \<le> amax"
  shows "offset_from amax (iso_members ds) n 0 = Some (f - 1) \<and> map_of (iso_members ds) n = Some (Arr u8_t (ISODCL f t)) \<and>
    list_all (\<lambda>d. sizeof 8 (c_struct (iso_members d)) = 2048)
      [iso_volume_descriptor, iso_primary_descriptor, iso_supplementary_descriptor, hs_volume_descriptor]"
proof -
  have c: "consecutive 0 ds" "distinct (map fst ds)"
    using assms(1) bounds_consecutive names_distinct by (auto simp add: list_all_iff)
  have "distinct (map fst (iso_members ds))" using c(2) by (simp add: iso_members_def comp_def case_prod_unfold)
  moreover have "(n, Arr u8_t (ISODCL f t)) \<in> set (iso_members ds)" using assms(2) by (force simp add: iso_members_def)
  ultimately have "map_of (iso_members ds) n = Some (Arr u8_t (ISODCL f t))" by simp
  moreover have "list_all (\<lambda>d. sizeof 8 (c_struct (iso_members d)) = 2048)
      [iso_volume_descriptor, iso_primary_descriptor, iso_supplementary_descriptor, hs_volume_descriptor]"
    by code_simp
  ultimately show ?thesis using consecutive_offsets [OF c(1) assms(2) c(2) assms(3)] by simp
qed

theorem iso_members_in_place_witness:
  "offset_from 4 (iso_members iso_primary_descriptor) ''root_directory_record'' 0 = Some (157 - 1)"
  using iso_members_in_place [of iso_primary_descriptor "''root_directory_record''" 157 190 4]
  by (simp add: iso_descriptors_def iso_primary_descriptor_def)

end
