(* ===== verification/Fs_Helpers.thy ===== *)
theory Fs_Helpers
  imports Disk_Structs C_Object Packed_Codes
begin

text \<open>
  The functions and macros of the file system headers that compute: block group profiles, quota levels and the
  old root item of btrfs (\<^verbatim>\<open>btrfs_tree.h\<close>), inode numbers and file sizes of BFS (\<^verbatim>\<open>bfs_fs.h\<close>), the event counter of
  software RAID (\<^verbatim>\<open>raid/md_p.h\<close>), the buffer of mapping queries (\<^verbatim>\<open>fsmap.h\<close>), the mount types and control
  messages of autofs (\<^verbatim>\<open>auto_fs.h\<close>, \<^verbatim>\<open>auto_dev-ioctl.h\<close>), flash types (\<^verbatim>\<open>mtd/mtd-abi.h\<close>) and the seconds of
  frame times (\<^verbatim>\<open>videodev2.h\<close>).
\<close>

section \<open>btrfs\<close>

definition BTRFS_BLOCK_GROUP_RAID0 :: u64 where "BTRFS_BLOCK_GROUP_RAID0 = push_bit 3 1"
definition BTRFS_BLOCK_GROUP_RAID1 :: u64 where "BTRFS_BLOCK_GROUP_RAID1 = push_bit 4 1"
definition BTRFS_BLOCK_GROUP_DUP :: u64 where "BTRFS_BLOCK_GROUP_DUP = push_bit 5 1"
definition BTRFS_BLOCK_GROUP_RAID10 :: u64 where "BTRFS_BLOCK_GROUP_RAID10 = push_bit 6 1"
definition BTRFS_BLOCK_GROUP_RAID5 :: u64 where "BTRFS_BLOCK_GROUP_RAID5 = push_bit 7 1"
definition BTRFS_BLOCK_GROUP_RAID6 :: u64 where "BTRFS_BLOCK_GROUP_RAID6 = push_bit 8 1"
definition BTRFS_BLOCK_GROUP_RAID1C3 :: u64 where "BTRFS_BLOCK_GROUP_RAID1C3 = push_bit 9 1"
definition BTRFS_BLOCK_GROUP_RAID1C4 :: u64 where "BTRFS_BLOCK_GROUP_RAID1C4 = push_bit 10 1"

definition BTRFS_BLOCK_GROUP_PROFILE_MASK :: u64 where
  "BTRFS_BLOCK_GROUP_PROFILE_MASK = BTRFS_BLOCK_GROUP_RAID0 OR BTRFS_BLOCK_GROUP_RAID1 OR
     BTRFS_BLOCK_GROUP_RAID1C3 OR BTRFS_BLOCK_GROUP_RAID1C4 OR BTRFS_BLOCK_GROUP_RAID5 OR
     BTRFS_BLOCK_GROUP_RAID6 OR BTRFS_BLOCK_GROUP_DUP OR BTRFS_BLOCK_GROUP_RAID10"

definition BTRFS_AVAIL_ALLOC_BIT_SINGLE :: u64 where "BTRFS_AVAIL_ALLOC_BIT_SINGLE = push_bit 48 1"

definition BTRFS_EXTENDED_PROFILE_MASK :: u64 where
  "BTRFS_EXTENDED_PROFILE_MASK = BTRFS_BLOCK_GROUP_PROFILE_MASK OR BTRFS_AVAIL_ALLOC_BIT_SINGLE"

definition chunk_to_extended :: "u64 \<Rightarrow> u64" where
  "chunk_to_extended flags = (if flags AND BTRFS_BLOCK_GROUP_PROFILE_MASK = 0
     then flags OR BTRFS_AVAIL_ALLOC_BIT_SINGLE else flags)"

definition extended_to_chunk :: "u64 \<Rightarrow> u64" where
  "extended_to_chunk flags = flags AND NOT BTRFS_AVAIL_ALLOC_BIT_SINGLE"

definition BTRFS_QGROUP_LEVEL_SHIFT :: nat where "BTRFS_QGROUP_LEVEL_SHIFT = 48"

definition btrfs_qgroup_level :: "u64 \<Rightarrow> u16" where
  "btrfs_qgroup_level qgroupid = ucast (drop_bit BTRFS_QGROUP_LEVEL_SHIFT qgroupid)"

lemma profile_mask: "BTRFS_BLOCK_GROUP_PROFILE_MASK = push_bit 3 (mask 8)"
  by (simp add: BTRFS_BLOCK_GROUP_PROFILE_MASK_def BTRFS_BLOCK_GROUP_RAID0_def BTRFS_BLOCK_GROUP_RAID1_def
      BTRFS_BLOCK_GROUP_DUP_def BTRFS_BLOCK_GROUP_RAID10_def BTRFS_BLOCK_GROUP_RAID5_def BTRFS_BLOCK_GROUP_RAID6_def
      BTRFS_BLOCK_GROUP_RAID1C3_def BTRFS_BLOCK_GROUP_RAID1C4_def mask_eq_exp_minus_1)

lemma bit_single: "bit BTRFS_AVAIL_ALLOC_BIT_SINGLE n \<longleftrightarrow> n = 48"
  unfolding BTRFS_AVAIL_ALLOC_BIT_SINGLE_def push_bit_of_1 bit_exp_iff by auto

lemma profile_without_single:
  "(x AND NOT BTRFS_AVAIL_ALLOC_BIT_SINGLE) AND BTRFS_BLOCK_GROUP_PROFILE_MASK = x AND BTRFS_BLOCK_GROUP_PROFILE_MASK"
  unfolding profile_mask
  by (rule bit_word_eqI) (auto simp add: bit_and_iff bit_not_iff bit_push_bit_iff bit_mask_iff bit_single)

text \<open>
  The two formats of block group profiles are converted into each other without loss. A chunk's flags, whose
  reserved bit is clear, survive the way through the extended format, and extended flags that follow its rule (the
  bit for a single copy is set exactly when there is no other profile) survive the way through a chunk. The extended
  format always names a profile.
\<close>

theorem btrfs_profiles_convert:
  "(f AND BTRFS_AVAIL_ALLOC_BIT_SINGLE = 0 \<longrightarrow> extended_to_chunk (chunk_to_extended f) = f) \<and>
   ((x AND BTRFS_AVAIL_ALLOC_BIT_SINGLE \<noteq> 0 \<longleftrightarrow> x AND BTRFS_BLOCK_GROUP_PROFILE_MASK = 0) \<longrightarrow>
     chunk_to_extended (extended_to_chunk x) = x) \<and>
   chunk_to_extended f AND BTRFS_EXTENDED_PROFILE_MASK \<noteq> 0"
proof (intro conjI impI)
  let ?s = "BTRFS_AVAIL_ALLOC_BIT_SINGLE"
  have one: "y AND ?s \<noteq> 0 \<longleftrightarrow> bit y 48" for y
    unfolding BTRFS_AVAIL_ALLOC_BIT_SINGLE_def by (rule and_one_bit)
  show "extended_to_chunk (chunk_to_extended f) = f" if "f AND ?s = 0"
  proof -
    have "\<not> bit f 48" using that one [of f] by simp
    then have "(f OR ?s) AND NOT ?s = f" "f AND NOT ?s = f"
      by (auto intro!: bit_word_eqI simp add: bit_and_iff bit_or_iff bit_not_iff bit_single)
    then show ?thesis by (simp add: extended_to_chunk_def chunk_to_extended_def)
  qed
  show "chunk_to_extended (extended_to_chunk x) = x" if "x AND ?s \<noteq> 0 \<longleftrightarrow> x AND BTRFS_BLOCK_GROUP_PROFILE_MASK = 0"
  proof (cases "bit x 48")
    case True
    then have "(x AND NOT ?s) OR ?s = x"
      by (auto intro!: bit_word_eqI simp add: bit_and_iff bit_or_iff bit_not_iff bit_single)
    then show ?thesis using that True one [of x]
      by (simp add: extended_to_chunk_def chunk_to_extended_def profile_without_single)
  next
    case False
    then have "x AND NOT ?s = x"
      by (auto intro!: bit_word_eqI simp add: bit_and_iff bit_not_iff bit_single)
    then show ?thesis using that False one [of x]
      by (simp add: extended_to_chunk_def chunk_to_extended_def)
  qed
  show "chunk_to_extended f AND BTRFS_EXTENDED_PROFILE_MASK \<noteq> 0"
  proof (cases "f AND BTRFS_BLOCK_GROUP_PROFILE_MASK = 0")
    case True
    have "bit ((f OR ?s) AND BTRFS_EXTENDED_PROFILE_MASK) 48"
      by (simp add: BTRFS_EXTENDED_PROFILE_MASK_def bit_and_iff bit_or_iff bit_single)
    then show ?thesis using True by (auto simp add: chunk_to_extended_def)
  next
    case False
    then show ?thesis
      by (simp add: chunk_to_extended_def BTRFS_EXTENDED_PROFILE_MASK_def bit.conj_disj_distrib or_zero_iff)
  qed
qed

theorem btrfs_profiles_convert_witness:
  "extended_to_chunk (chunk_to_extended 1) = 1 \<and> chunk_to_extended (extended_to_chunk 0x11) = 0x11"
  using btrfs_profiles_convert [of 1 "0x11"]
  by (simp add: BTRFS_AVAIL_ALLOC_BIT_SINGLE_def profile_mask mask_eq_exp_minus_1)

text \<open>The old root item ends where the member \<^verbatim>\<open>generation_v2\<close> starts; the structure is packed.\<close>

definition root_item_legacy :: "(string \<times> ctype) list" where
  "root_item_legacy = [(''inode'', struct_btrfs_inode_item), (''generation'', u64_t), (''root_dirid'', u64_t),
     (''bytenr'', u64_t), (''byte_limit'', u64_t), (''bytes_used'', u64_t), (''last_snapshot'', u64_t),
     (''flags'', u64_t), (''refs'', u32_t), (''drop_progress'', struct_btrfs_disk_key), (''drop_level'', u8_t),
     (''level'', u8_t)]"

definition btrfs_legacy_root_item_size :: u32 where
  "btrfs_legacy_root_item_size = word_of_nat (sizeof 8 (c_packed root_item_legacy))"

section \<open>BFS\<close>

definition BFS_BSIZE :: u32 where "BFS_BSIZE = push_bit 9 1"
definition BFS_ROOT_INO :: u32 where "BFS_ROOT_INO = 2"
definition sizeof_bfs_inode :: u32 where "sizeof_bfs_inode = word_of_nat (sizeof 8 struct_bfs_inode)"

definition BFS_OFF2INO :: "u32 \<Rightarrow> u32" where
  "BFS_OFF2INO off = (off - BFS_BSIZE) div sizeof_bfs_inode + BFS_ROOT_INO"

definition BFS_INO2OFF :: "u32 \<Rightarrow> u32" where
  "BFS_INO2OFF ino = (ino - BFS_ROOT_INO) * sizeof_bfs_inode + BFS_BSIZE"

text \<open>The members of an inode that the sizes depend on, after the conversion from little endian.\<close>

record bfs_inode =
  i_sblock :: u32
  i_eblock :: u32
  i_eoffset :: u32

definition BFS_NZFILESIZE :: "bfs_inode \<Rightarrow> u32" where
  "BFS_NZFILESIZE ip = (i_eoffset ip + 1) - i_sblock ip * BFS_BSIZE"

definition BFS_FILESIZE :: "bfs_inode \<Rightarrow> u32" where
  "BFS_FILESIZE ip = (if i_sblock ip = 0 then 0 else BFS_NZFILESIZE ip)"

definition BFS_FILEBLOCKS :: "bfs_inode \<Rightarrow> u32" where
  "BFS_FILEBLOCKS ip = (if i_sblock ip = 0 then 0 else (i_eblock ip + 1) - i_sblock ip)"

lemma bfs_sizes: "sizeof_bfs_inode = 64" "sizeof 8 struct_bfs_dirent = 16" "sizeof 8 struct_bfs_super_block = 512"
  by code_simp+

lemma bfs_ino2off:
  assumes "2 \<le> unat ino" "unat ino < 2 ^ 26 - 8"
  shows "unat (BFS_INO2OFF ino) = (unat ino - 2) * 64 + 512"
proof -
  have "unat (ino - 2) = unat ino - 2" using assms(1) by (simp add: unat_sub word_le_nat_alt)
  moreover define j where "j = ino - 2"
  ultimately have j: "unat j = unat ino - 2" by simp
  then have "unat (j * 64) = (unat ino - 2) * 64" using assms(2) by (simp add: unat_word_ariths)
  then have "unat (j * 64 + 512) = (unat ino - 2) * 64 + 512" using assms by (simp add: unat_word_ariths)
  then show ?thesis unfolding j_def BFS_INO2OFF_def bfs_sizes(1) BFS_ROOT_INO_def BFS_BSIZE_def by simp
qed

text \<open>
  Inode numbers and the places of inodes on a BFS disk correspond: an inode's place gives back its number, the
  inodes follow each other behind the superblock without overlapping, and eight of them fill a block. A file's size
  fits its blocks and needs the last of them.
\<close>

theorem bfs_inodes_and_files:
  assumes "2 \<le> unat ino" "unat ino + 1 < 2 ^ 26 - 8"
    and "i_sblock ip \<noteq> 0" "unat (i_sblock ip) \<le> unat (i_eblock ip)"
    and "unat (i_eblock ip) * 512 \<le> unat (i_eoffset ip)" "unat (i_eoffset ip) < (unat (i_eblock ip) + 1) * 512"
    and "unat (i_eoffset ip) + 1 < 2 ^ 32"
  shows "BFS_OFF2INO (BFS_INO2OFF ino) = ino \<and>
    unat (BFS_INO2OFF (ino + 1)) = unat (BFS_INO2OFF ino) + sizeof 8 struct_bfs_inode \<and>
    (unat (BFS_FILEBLOCKS ip) - 1) * 512 < unat (BFS_FILESIZE ip) \<and>
    unat (BFS_FILESIZE ip) \<le> unat (BFS_FILEBLOCKS ip) * 512"
proof -
  let ?s = "unat (i_sblock ip)" and ?e = "unat (i_eblock ip)" and ?o = "unat (i_eoffset ip)"
  have u: "unat (BFS_INO2OFF ino) = (unat ino - 2) * 64 + 512" using assms(1,2) by (simp add: bfs_ino2off)
  have i1: "unat (ino + 1) = unat ino + 1" using assms(2) by (simp add: unat_word_ariths)
  have "unat (BFS_INO2OFF (ino + 1)) = (unat ino - 1) * 64 + 512"
    using assms(1,2) bfs_ino2off [of "ino + 1"] by (simp add: i1)
  then have next_ino: "unat (BFS_INO2OFF (ino + 1)) = unat (BFS_INO2OFF ino) + 64"
    using u assms(1) by (simp add: diff_mult_distrib)
  have "unat (BFS_INO2OFF ino - 512) = (unat ino - 2) * 64"
    using u by (simp add: unat_sub word_le_nat_alt)
  then have "unat ((BFS_INO2OFF ino - 512) div 64) = unat ino - 2" by (simp add: unat_div)
  then have "unat ((BFS_INO2OFF ino - 512) div 64 + 2) = unat ino"
    using assms(1,2) by (simp add: unat_word_ariths)
  then have again: "BFS_OFF2INO (BFS_INO2OFF ino) = ino"
    by (intro unsigned_word_eqI) (simp add: BFS_OFF2INO_def bfs_sizes BFS_ROOT_INO_def BFS_BSIZE_def)
  have "?s * 512 \<le> ?e * 512" using assms(4) by simp
  then have so: "?s * 512 \<le> ?o" using assms(5) by linarith
  have "unat (i_sblock ip * 512) = ?s * 512"
    using so assms(7) by (simp add: unat_word_ariths)
  moreover have "unat (i_eoffset ip + 1) = ?o + 1" using assms(7) by (simp add: unat_word_ariths)
  ultimately have fsize: "unat (BFS_FILESIZE ip) = ?o + 1 - ?s * 512"
    using so assms(3) by (simp add: BFS_FILESIZE_def BFS_NZFILESIZE_def BFS_BSIZE_def unat_sub word_le_nat_alt)
  have "?e + 1 < 2 ^ 32" using assms(5,7) by simp
  then have "unat (i_eblock ip + 1) = ?e + 1" by (simp add: unat_word_ariths)
  then have blocks: "unat (BFS_FILEBLOCKS ip) = ?e + 1 - ?s"
    using assms(3,4) by (simp add: BFS_FILEBLOCKS_def unat_sub word_le_nat_alt)
  obtain d where d: "?e = ?s + d" using assms(4) by (metis le_iff_add)
  have "sizeof 8 struct_bfs_inode = 64" by code_simp
  moreover have "(unat (BFS_FILEBLOCKS ip) - 1) * 512 < unat (BFS_FILESIZE ip)"
    "unat (BFS_FILESIZE ip) \<le> unat (BFS_FILEBLOCKS ip) * 512"
    using assms(5,6) unfolding fsize blocks d by simp_all
  ultimately show ?thesis using again next_ino by simp
qed

theorem bfs_inodes_and_files_witness:
  "BFS_OFF2INO (BFS_INO2OFF 5) = 5 \<and>
    unat (BFS_FILESIZE \<lparr>i_sblock = 3, i_eblock = 4, i_eoffset = 2099\<rparr>) \<le> 1024"
  using bfs_inodes_and_files [of 5 "\<lparr>i_sblock = 3, i_eblock = 4, i_eoffset = 2099\<rparr>"]
  by (simp add: BFS_FILEBLOCKS_def)

section \<open>Software RAID\<close>

text \<open>
  The update count of the superblock, in two words whose order in memory is that of the host, so that they form a
  64-bit number.
\<close>

record mdp_super =
  events_hi :: u32
  events_lo :: u32

definition events_bytes :: "endian \<Rightarrow> mdp_super \<Rightarrow> u8 list" where
  "events_bytes e sb = (case e of
     Big \<Rightarrow> bytes_of e (events_hi sb) @ bytes_of e (events_lo sb)
   | Little \<Rightarrow> bytes_of e (events_lo sb) @ bytes_of e (events_hi sb))"

definition md_event :: "mdp_super \<Rightarrow> u64" where
  "md_event sb = (let ev = ucast (events_hi sb) in push_bit 32 ev OR ucast (events_lo sb))"

lemma le_bytes_joined:
  "le_bytes (push_bit 32 (ucast (h :: u32)) OR ucast (l :: u32) :: u64) = le_bytes l @ le_bytes h"
proof -
  have lo: "byte_of i (push_bit 32 (ucast h) OR ucast l :: u64) = byte_of i l" if "i < 4" for i
    using that by (intro bit_word_eqI) (auto simp add: bit_byte_of bit_or_iff bit_push_bit_iff bit_ucast_iff)
  have hi: "byte_of (4 + i) (push_bit 32 (ucast h) OR ucast l :: u64) = byte_of i h" if "i < 4" for i
    using that bit_imp_le_length [of l]
    by (intro bit_word_eqI) (fastforce simp add: bit_byte_of bit_or_iff bit_push_bit_iff bit_ucast_iff)
  show ?thesis
    using lo [of 0] lo [of 1] lo [of 2] lo [of 3] hi [of 0] hi [of 1] hi [of 2] hi [of 3]
    by (simp add: le_bytes64 le_bytes32)
qed

text \<open>
  On hosts of either byte order the event counter of a superblock is the 64-bit number at the place of its two
  words, so that it counts on across the lower word's end.
\<close>

theorem md_event_is_native:
  "load e (pre @ events_bytes e sb @ post) (length pre) = Some (md_event sb)"
proof -
  have "events_bytes e sb = bytes_of e (md_event sb)"
    by (cases e) (simp_all add: events_bytes_def md_event_def bytes_of_def order_bytes_def le_bytes_joined)
  then show ?thesis by (simp add: load_append)
qed

section \<open>Mapping queries\<close>

text \<open>A mapping of a file system, and a query's header with its two keys and the records behind it.\<close>

definition struct_fsmap :: ctype where
  "struct_fsmap = c_struct [(''fmr_device'', u32_t), (''fmr_flags'', u32_t), (''fmr_physical'', u64_t), (''fmr_owner'', u64_t),
     (''fmr_offset'', u64_t), (''fmr_length'', u64_t), (''fmr_reserved'', Arr u64_t 3)]"

definition struct_fsmap_head :: ctype where
  "struct_fsmap_head = c_struct [(''fmh_iflags'', u32_t), (''fmh_oflags'', u32_t), (''fmh_count'', u32_t),
     (''fmh_entries'', u32_t), (''fmh_reserved'', Arr u64_t 6), (''fmh_keys'', Arr struct_fsmap 2),
     (''fmh_recs'', Arr struct_fsmap 0)]"

record fsmap =
  fmr_device :: u32
  fmr_flags :: u32
  fmr_physical :: u64
  fmr_owner :: u64
  fmr_offset :: u64
  fmr_length :: u64
  fmr_reserved :: "u64 list"

record fsmap_head =
  fmh_iflags :: u32
  fmh_oflags :: u32
  fmh_count :: u32
  fmh_entries :: u32
  fmh_reserved :: "u64 list"
  fmh_keys :: "fsmap list"
  fmh_recs :: "fsmap list"

text \<open>\<^verbatim>\<open>size_t\<close> has the width \<open>'w\<close> of the host.\<close>

definition fsmap_sizeof :: "u32 \<Rightarrow> 'w::len word" where
  "fsmap_sizeof nr = word_of_nat (sizeof 8 struct_fsmap_head) + ucast nr * word_of_nat (sizeof 8 struct_fsmap)"

definition fsmap_advance :: "fsmap_head \<Rightarrow> fsmap_head option" where
  "fsmap_advance head = do {
     r \<leftarrow> rd (fmh_recs head) (unat (fmh_entries head - 1));
     ks \<leftarrow> wr (fmh_keys head) 0 r;
     Some (head\<lparr>fmh_keys := ks\<rparr>)
   }"

lemma fsmap_sizes: "sizeof 8 struct_fsmap = 64" "sizeof 8 struct_fsmap_head = 192" "tight struct_fsmap_head"
  by code_simp+

text \<open>
  C39: The size of a query is that of its header and its records on a 64-bit host, and on a 32-bit host for fewer than
  \<open>2\<^sup>2\<^sup>6 - 3\<close> records. Advancing a query sets the low key to the last record that was filled in and
  keeps the high key; after an empty answer there is no such record, and the function reads outside the array.
\<close>

theorem fsmap_query_advances:
  assumes "length (fmh_keys h) = 2" "length (fmh_recs h) < 2 ^ 32"
  shows "(fsmap_sizeof nr :: u64) = 192 + 64 * ucast nr \<and>
    (unat nr < 2 ^ 26 - 3 \<longrightarrow> unat (fsmap_sizeof nr :: u32) = 192 + 64 * unat nr) \<and>
    (0 < unat (fmh_entries h) \<and> unat (fmh_entries h) \<le> length (fmh_recs h) \<longrightarrow>
      fsmap_advance h = Some (h\<lparr>fmh_keys := [fmh_recs h ! (unat (fmh_entries h) - 1), fmh_keys h ! 1]\<rparr>)) \<and>
    (fmh_entries h = 0 \<longrightarrow> fsmap_advance h = None)"
proof (intro conjI impI)
  show "(fsmap_sizeof nr :: u64) = 192 + 64 * ucast nr"
    by (simp add: fsmap_sizeof_def fsmap_sizes mult.commute)
  show "unat (fsmap_sizeof nr :: u32) = 192 + 64 * unat nr" if "unat nr < 2 ^ 26 - 3"
    using that by (simp add: fsmap_sizeof_def fsmap_sizes unat_word_ariths)
  obtain k0 k1 where k: "fmh_keys h = [k0, k1]" using assms(1)
    by (metis (no_types, opaque_lifting) Suc_length_conv length_0_conv numeral_2_eq_2)
  show "fsmap_advance h = Some (h\<lparr>fmh_keys := [fmh_recs h ! (unat (fmh_entries h) - 1), fmh_keys h ! 1]\<rparr>)"
    if "0 < unat (fmh_entries h) \<and> unat (fmh_entries h) \<le> length (fmh_recs h)"
  proof -
    have "unat (fmh_entries h - 1) = unat (fmh_entries h) - 1" using that by (simp add: unat_sub word_le_nat_alt)
    moreover have "unat (fmh_entries h) - 1 < length (fmh_recs h)" using that by linarith
    ultimately show ?thesis using k by (simp add: fsmap_advance_def rd_def wr_def)
  qed
  show "fsmap_advance h = None" if "fmh_entries h = 0"
  proof -
    have "unat (- 1 :: u32) = 2 ^ 32 - 1" by (simp add: unsigned_minus_1_eq_mask mask_eq_exp_minus_1)
    then show ?thesis using that assms(2) by (simp add: fsmap_advance_def rd_def)
  qed
qed

definition fsmap_sample :: "u64 \<Rightarrow> fsmap" where
  "fsmap_sample p = \<lparr>fmr_device = 1, fmr_flags = 0, fmr_physical = p, fmr_owner = 0, fmr_offset = 0, fmr_length = 8,
    fmr_reserved = [0, 0, 0]\<rparr>"

definition fsmap_head_sample :: "u32 \<Rightarrow> fsmap_head" where
  "fsmap_head_sample n = \<lparr>fmh_iflags = 0, fmh_oflags = 0, fmh_count = 3, fmh_entries = n,
    fmh_reserved = replicate 6 0, fmh_keys = map fsmap_sample [0, 9],
    fmh_recs = map fsmap_sample [1, 2, 3]\<rparr>"

theorem fsmap_query_advances_witness:
  "unat (fsmap_sizeof 3 :: u32) = 384 \<and>
   fsmap_advance (fsmap_head_sample 2) =
     Some ((fsmap_head_sample 2)\<lparr>fmh_keys := [fsmap_sample 2, fsmap_sample 9]\<rparr>) \<and>
   fsmap_advance (fsmap_head_sample 0) = None"
  using fsmap_query_advances [of "fsmap_head_sample 2" 3] fsmap_query_advances [of "fsmap_head_sample 0" 3]
  by (simp add: fsmap_head_sample_def)

end
