(* ===== verification/Bit_Struct.thy ===== *)
theory Bit_Struct
  imports Uapi_Memory Packed_Codes
begin

text \<open>
  Structures with bit fields. A compiler allocates bit fields from the least significant bit of their bytes on a
  little-endian host and from the most significant bit on a big-endian one, so headers that describe a wire format
  declare them twice, in opposite orders, under \<^verbatim>\<open>__LITTLE_ENDIAN_BITFIELD\<close> and \<^verbatim>\<open>__BIG_ENDIAN_BITFIELD\<close>. Here a
  structure is a list of members for each host, a member is placed on bits of the bytes of the structure, and
  members are read and assigned through their places. Bit \<open>i\<close> of byte \<open>k\<close> is at place \<open>8 * k + i\<close>.

  The locale \<open>exchanged_struct\<close> is the contract between two hosts: they place a member on the same bits.
\<close>

section \<open>Bits of a byte array\<close>

definition bit_at :: "u8 list \<Rightarrow> nat \<Rightarrow> bool" where
  "bit_at bs p = bit (bs ! (p div 8)) (p mod 8)"

definition put_bit :: "nat \<Rightarrow> bool \<Rightarrow> u8 list \<Rightarrow> u8 list" where
  "put_bit p b bs = bs[p div 8 := (if b then set_bit else unset_bit) (p mod 8) (bs ! (p div 8))]"

fun get_bits :: "nat list \<Rightarrow> u8 list \<Rightarrow> nat" where
  "get_bits [] bs = 0"
| "get_bits (p # ps) bs = of_bool (bit_at bs p) + 2 * get_bits ps bs"

fun put_bits :: "nat list \<Rightarrow> nat \<Rightarrow> u8 list \<Rightarrow> u8 list" where
  "put_bits [] v bs = bs"
| "put_bits (p # ps) v bs = put_bits ps (v div 2) (put_bit p (odd v) bs)"

lemma length_put_bit [simp]: "length (put_bit p b bs) = length bs"
  by (simp add: put_bit_def)

lemma length_put_bits [simp]: "length (put_bits ps v bs) = length bs"
  by (induction ps arbitrary: v bs) simp_all

lemma bit_at_put_bit:
  assumes "q < 8 * length bs"
  shows "bit_at (put_bit q b bs) p \<longleftrightarrow> (if p = q then b else bit_at bs p)"
proof -
  have q: "q div 8 < length bs" using assms by (simp add: less_mult_imp_div_less mult.commute)
  have "p = q" if "p div 8 = q div 8" "p mod 8 = q mod 8" using that by (metis div_mult_mod_eq)
  then show ?thesis using q
    by (cases "p div 8 = q div 8")
      (auto simp add: bit_at_def put_bit_def bit_set_bit_iff bit_unset_bit_iff)
qed

lemma bit_at_put_bits:
  "\<lbrakk>p \<notin> set ps; \<forall>q \<in> set ps. q < 8 * length bs\<rbrakk> \<Longrightarrow> bit_at (put_bits ps v bs) p \<longleftrightarrow> bit_at bs p"
  by (induction ps arbitrary: v bs) (simp_all add: bit_at_put_bit)

lemma get_bits_cong: "(\<And>p. p \<in> set ps \<Longrightarrow> bit_at bs p = bit_at cs p) \<Longrightarrow> get_bits ps bs = get_bits ps cs"
  by (induction ps) simp_all

lemma get_put_bits:
  "\<lbrakk>distinct ps; \<forall>q \<in> set ps. q < 8 * length bs\<rbrakk> \<Longrightarrow> get_bits ps (put_bits ps v bs) = take_bit (length ps) v"
proof (induction ps arbitrary: v bs)
  case (Cons p ps)
  then have "get_bits ps (put_bits ps (v div 2) (put_bit p (odd v) bs)) = take_bit (length ps) (v div 2)"
    by simp
  moreover have "bit_at (put_bits ps (v div 2) (put_bit p (odd v) bs)) p \<longleftrightarrow> odd v"
    using Cons.prems by (simp add: bit_at_put_bits bit_at_put_bit)
  ultimately show ?case by (simp add: take_bit_Suc mod_2_eq_odd)
qed simp

lemma get_bits_less: "get_bits ps bs < 2 ^ length ps"
  by (induction ps) auto

lemma get_put_bits_other:
  "\<lbrakk>set ps \<inter> set qs = {}; \<forall>q \<in> set ps. q < 8 * length bs\<rbrakk> \<Longrightarrow> get_bits qs (put_bits ps v bs) = get_bits qs bs"
  by (rule get_bits_cong, rule bit_at_put_bits) auto

section \<open>Places of members\<close>

text \<open>
  \<^verbatim>\<open>Bits w fs\<close> is a group of bit fields of a type of \<open>w\<close> bits, in the order of their declaration; the name of an unnamed
  field is empty. \<^verbatim>\<open>Host\<close> is a scalar in the order of the host, \<^verbatim>\<open>Net\<close> a scalar in network order, whose value is
  the one after conversion, \<^verbatim>\<open>Octets\<close> an array of bytes, whose value has the first byte lowest.
\<close>

datatype wmember =
    Bits nat "(string \<times> nat) list"
  | Host string nat
  | Net string nat
  | Octets string nat

type_synonym places = "(string \<times> nat list) list"

type_synonym wstruct = "bool \<times> (endian \<Rightarrow> wmember list)"

definition run_places :: "endian \<Rightarrow> nat \<Rightarrow> nat \<Rightarrow> nat list" where
  "run_places e start w = map (\<lambda>k. case e of
     Little \<Rightarrow> start + k
   | Big \<Rightarrow> (let p = start + w - 1 - k in 8 * (p div 8) + (7 - p mod 8))) [0..<w]"

definition scalar_places :: "endian \<Rightarrow> nat \<Rightarrow> nat \<Rightarrow> nat list" where
  "scalar_places e start n = map (\<lambda>k. case e of
     Little \<Rightarrow> start + k
   | Big \<Rightarrow> start + 8 * (n - 1 - k div 8) + k mod 8) [0..<8 * n]"

text \<open>A spot is the position of a bit field or of a scalar; its bits are the places.\<close>

datatype spot = Run endian nat nat | Cell endian nat nat

fun spot_places :: "spot \<Rightarrow> nat list" where
  "spot_places (Run e start w) = run_places e start w"
| "spot_places (Cell e start n) = scalar_places e start n"

definition places_of :: "(string \<times> spot) list \<Rightarrow> places" where
  "places_of sl = map (\<lambda>(f, p). (f, spot_places p)) sl"

definition round_to :: "nat \<Rightarrow> nat \<Rightarrow> nat" where
  "round_to a k = (k + a - 1) div a * a"

text \<open>A bit field that does not fit into the rest of a unit of its type starts the next unit.\<close>

definition field_start :: "nat \<Rightarrow> nat \<Rightarrow> nat \<Rightarrow> nat" where
  "field_start unit k w = (if k mod unit + w \<le> unit then k else round_to unit k)"

fun place_fields :: "endian \<Rightarrow> nat \<Rightarrow> nat \<Rightarrow> (string \<times> nat) list \<Rightarrow> (string \<times> spot) list" where
  "place_fields e unit k [] = []"
| "place_fields e unit k ((f, w) # fs) =
    (f, Run e (field_start unit k w) w) # place_fields e unit (field_start unit k w + w) fs"

fun fields_end :: "nat \<Rightarrow> nat \<Rightarrow> (string \<times> nat) list \<Rightarrow> nat" where
  "fields_end unit k [] = k"
| "fields_end unit k ((f, w) # fs) = fields_end unit (field_start unit k w + w) fs"

definition scalar_start :: "bool \<Rightarrow> nat \<Rightarrow> nat \<Rightarrow> nat" where
  "scalar_start packed n k = round_to (if packed then 8 else 8 * n) k"

fun place_member :: "endian \<Rightarrow> bool \<Rightarrow> nat \<Rightarrow> wmember \<Rightarrow> (string \<times> spot) list" where
  "place_member e packed k (Bits unit fs) = place_fields e unit k fs"
| "place_member e packed k (Host f n) = [(f, Cell e (scalar_start packed n k) n)]"
| "place_member e packed k (Net f n) = [(f, Cell Big (scalar_start packed n k) n)]"
| "place_member e packed k (Octets f n) = [(f, Cell Little (round_to 8 k) n)]"

fun member_end :: "bool \<Rightarrow> nat \<Rightarrow> wmember \<Rightarrow> nat" where
  "member_end packed k (Bits unit fs) = fields_end unit k fs"
| "member_end packed k (Host f n) = scalar_start packed n k + 8 * n"
| "member_end packed k (Net f n) = scalar_start packed n k + 8 * n"
| "member_end packed k (Octets f n) = round_to 8 k + 8 * n"

fun place_members :: "endian \<Rightarrow> bool \<Rightarrow> nat \<Rightarrow> wmember list \<Rightarrow> (string \<times> spot) list" where
  "place_members e packed k [] = []"
| "place_members e packed k (m # ms) = place_member e packed k m @ place_members e packed (member_end packed k m) ms"

fun members_end :: "bool \<Rightarrow> nat \<Rightarrow> wmember list \<Rightarrow> nat" where
  "members_end packed k [] = k"
| "members_end packed k (m # ms) = members_end packed (member_end packed k m) ms"

definition spots :: "endian \<Rightarrow> wstruct \<Rightarrow> (string \<times> spot) list" where
  "spots e s = filter (\<lambda>(f, p). f \<noteq> []) (place_members e (fst s) 0 (snd s e))"

definition placement :: "endian \<Rightarrow> wstruct \<Rightarrow> places" where
  "placement e s = places_of (spots e s)"

definition wire_size :: "endian \<Rightarrow> wstruct \<Rightarrow> nat" where
  "wire_size e s = round_to 8 (members_end (fst s) 0 (snd s e)) div 8"

definition places_ok :: "nat \<Rightarrow> places \<Rightarrow> bool" where
  "places_ok n pl \<longleftrightarrow> distinct (map fst pl) \<and> distinct (concat (map snd pl)) \<and>
    (\<forall>p \<in> set (concat (map snd pl)). p < 8 * n)"

text \<open>
  Members never overlap. The places of a member are those of an interval of the order of allocation, which a
  big-endian host turns around in every byte, and the intervals of successive members follow each other.
\<close>

definition turn :: "endian \<Rightarrow> nat \<Rightarrow> nat" where
  "turn e k = (case e of Little \<Rightarrow> k | Big \<Rightarrow> 8 * (k div 8) + (7 - k mod 8))"

fun allocated :: "endian \<Rightarrow> nat \<Rightarrow> places \<Rightarrow> nat \<Rightarrow> bool" where
  "allocated e k [] k' \<longleftrightarrow> k \<le> k'"
| "allocated e k ((f, ps) # pl) k' \<longleftrightarrow>
    (\<exists>s w. k \<le> s \<and> distinct ps \<and> set ps = turn e ` {s..<s + w} \<and> allocated e (s + w) pl k')"

lemma turn_div [simp]: "turn e k div 8 = k div 8"
  by (cases e) (simp_all add: turn_def)

lemma turn_turn [simp]: "turn e (turn e k) = k"
proof (cases e)
  case Big
  define r where "r = 7 - k mod 8"
  have "r < 8" "7 - r = k mod 8" using mod_less_divisor [of 8 k] unfolding r_def by linarith+
  then show ?thesis using Big by (simp add: turn_def flip: r_def)
qed (simp add: turn_def)

lemma inj_turn: "inj (turn e)"
  by (metis injI turn_turn)

lemma turn_bytes:
  assumes "8 dvd s"
  shows "turn e ` {s..<s + 8 * n} = {s..<s + 8 * n}"
proof -
  obtain b where b: "s = 8 * b" using assms by blast
  have iff: "x \<in> {s..<s + 8 * n} \<longleftrightarrow> b \<le> x div 8 \<and> x div 8 < b + n" for x
    unfolding b atLeastLessThan_iff by (simp add: less_eq_div_iff_mult_less_eq div_less_iff_less_mult) linarith
  have closed: "turn e x \<in> {s..<s + 8 * n}" if "x \<in> {s..<s + 8 * n}" for x
    using that unfolding iff by simp
  have "x \<in> turn e ` {s..<s + 8 * n}" if "x \<in> {s..<s + 8 * n}" for x
    by (rule image_eqI [OF _ closed [OF that]]) simp
  then show ?thesis using closed by blast
qed

lemma allocated_le: "allocated e k pl k' \<Longrightarrow> k \<le> k'"
  by (induction pl arbitrary: k) (fastforce simp: split_paired_all)+

lemma allocatedI:
  "\<lbrakk>k \<le> s; distinct ps; set ps = turn e ` {s..<s + w}; allocated e (s + w) pl k'\<rbrakk> \<Longrightarrow> allocated e k ((f, ps) # pl) k'"
  by auto

lemma allocated_weaken:
  assumes "allocated e k pl k'" "j \<le> k"
  shows "allocated e j pl k'"
proof (cases pl)
  case (Cons a ql)
  obtain f ps s w where "a = (f, ps)" "k \<le> s" "distinct ps" "set ps = turn e ` {s..<s + w}"
    "allocated e (s + w) ql k'" using assms(1) Cons by (cases a) auto
  then show ?thesis using Cons assms(2) by (auto intro: allocatedI [of _ s] simp del: allocated.simps)
qed (use assms in simp)

lemma allocated_append: "\<lbrakk>allocated e k pl j; allocated e j ql k'\<rbrakk> \<Longrightarrow> allocated e k (pl @ ql) k'"
proof (induction pl arbitrary: k)
  case Nil
  then show ?case by (simp add: allocated_weaken)
next
  case (Cons a pl)
  then show ?case by (cases a) auto
qed

lemma allocated_filter: "allocated e k pl k' \<Longrightarrow> allocated e k (filter P pl) k'"
proof (induction pl arbitrary: k)
  case (Cons a pl)
  obtain f ps s w where a: "a = (f, ps)" "k \<le> s" "distinct ps" "set ps = turn e ` {s..<s + w}"
    "allocated e (s + w) pl k'" using Cons.prems by (cases a) auto
  note ih = Cons.IH [OF a(5)]
  have "allocated e k (filter P pl) k'" using allocated_weaken [OF ih] a(2) by simp
  then show ?case using a ih by auto
qed simp

lemma allocated_disjoint:
  "allocated e k pl k' \<Longrightarrow> distinct (concat (map snd pl)) \<and> set (concat (map snd pl)) \<subseteq> turn e ` {k..<k'}"
proof (induction pl arbitrary: k)
  case (Cons a pl)
  then obtain ps s w where a: "snd a = ps" "k \<le> s" "distinct ps" "set ps = turn e ` {s..<s + w}"
    "allocated e (s + w) pl k'" by (cases a) auto
  note ih = Cons.IH [OF a(5)] and le = allocated_le [OF a(5)]
  have "turn e ` {s..<s + w} \<inter> turn e ` {s + w..<k'} = {}"
    by (simp add: image_Int [OF inj_turn, symmetric])
  then have dis: "set ps \<inter> set (concat (map snd pl)) = {}" using a(4) ih by blast
  have "turn e ` {s..<s + w} \<subseteq> turn e ` {k..<k'}" "turn e ` {s + w..<k'} \<subseteq> turn e ` {k..<k'}"
    using a(2) le by (intro image_mono; auto)+
  then have "set ps \<subseteq> turn e ` {k..<k'}" "set (concat (map snd pl)) \<subseteq> turn e ` {k..<k'}"
    unfolding a(4) using ih by (blast intro: order_trans)+
  then show ?case using a(1,3) ih dis
    by (simp only: list.map concat.simps distinct_append set_append Un_subset_iff simp_thms)
qed simp

lemma run_places_allocated:
  "distinct (run_places e start w)" "set (run_places e start w) = turn e ` {start..<start + w}"
proof -
  have map: "run_places e start w = map (\<lambda>k. turn e (case e of Little \<Rightarrow> start + k | Big \<Rightarrow> start + w - 1 - k)) [0..<w]"
    by (cases e) (simp_all add: run_places_def turn_def Let_def)
  have "inj_on (\<lambda>k. turn e (case e of Little \<Rightarrow> start + k | Big \<Rightarrow> start + w - 1 - k)) {0..<w}"
    by (cases e) (auto simp: inj_on_def dest!: injD [OF inj_turn])
  then show "distinct (run_places e start w)" by (simp add: map distinct_map)
  have "(\<lambda>k. case e of Little \<Rightarrow> start + k | Big \<Rightarrow> start + w - 1 - k) ` {0..<w} = {start..<start + w}"
  proof (cases e)
    case Big
    have "x \<in> (\<lambda>k. start + w - 1 - k) ` {0..<w}" if "x \<in> {start..<start + w}" for x
      using that by (intro image_eqI [of _ _ "start + w - 1 - x"]) auto
    then show ?thesis using Big by auto
  qed (simp add: image_add_atLeastLessThan add.commute)
  moreover have "set (run_places e start w) =
      turn e ` ((\<lambda>k. case e of Little \<Rightarrow> start + k | Big \<Rightarrow> start + w - 1 - k) ` {0..<w})"
    unfolding map image_image by simp
  ultimately show "set (run_places e start w) = turn e ` {start..<start + w}" by simp
qed

lemma scalar_places_allocated:
  assumes "8 dvd start"
  shows "distinct (scalar_places d start n)" "set (scalar_places d start n) = turn e ` {start..<start + 8 * n}"
proof -
  define g where "g k = (case d of Little \<Rightarrow> k | Big \<Rightarrow> 8 * (n - 1 - k div 8) + k mod 8)" for k
  have less: "g k < 8 * n" if "k < 8 * n" for k
  proof -
    have "k div 8 < n" using that by (simp add: less_mult_imp_div_less mult.commute)
    then have "8 * (n - 1 - k div 8) + 8 \<le> 8 * n" by simp
    then show ?thesis using that mod_less_divisor [of 8 k] by (cases d) (simp_all add: g_def)
  qed
  have gg: "g (g k) = k" if "k < 8 * n" for k
  proof -
    have "k div 8 < n" using that by (simp add: less_mult_imp_div_less mult.commute)
    then have "n - 1 - (n - 1 - k div 8) = k div 8" by simp
    then show ?thesis by (cases d) (simp_all add: g_def)
  qed
  have map: "scalar_places d start n = map (\<lambda>k. start + g k) [0..<8 * n]"
    by (cases d) (simp_all add: scalar_places_def g_def)
  have "inj_on g {0..<8 * n}" using gg by (intro inj_on_inverseI) simp
  then have "inj_on (\<lambda>k. start + g k) {0..<8 * n}" by (simp only: inj_on_def add_left_cancel)
  then show "distinct (scalar_places d start n)" by (simp only: map distinct_map set_upt distinct_upt simp_thms)
  have "x \<in> g ` {0..<8 * n}" if "x < 8 * n" for x using gg [OF that] less [OF that] by (intro image_eqI [of _ _ "g x"]) simp_all
  then have "g ` {0..<8 * n} = {0..<8 * n}" using less by auto
  then have "(+) start ` (g ` {0..<8 * n}) = {start..<start + 8 * n}" by (simp add: add.commute)
  then have "(\<lambda>k. start + g k) ` {0..<8 * n} = {start..<start + 8 * n}" unfolding image_image .
  then show "set (scalar_places d start n) = turn e ` {start..<start + 8 * n}" using assms by (simp add: map turn_bytes)
qed

lemma scalar_allocated:
  "\<lbrakk>8 dvd start; k \<le> start\<rbrakk> \<Longrightarrow> allocated e k [(f, scalar_places d start n)] (start + 8 * n)"
  using scalar_places_allocated [of start d n] by (intro allocatedI [of _ start _ _ "8 * n"]) simp_all

lemma round_to_le: "0 < a \<Longrightarrow> k \<le> round_to a k"
  using div_mult_mod_eq [of "k + a - 1" a] mod_less_divisor [of a "k + a - 1"] unfolding round_to_def by linarith

lemma dvd_round_to [simp]: "8 dvd round_to 8 k" "8 dvd round_to (8 * n) k"
  by (simp_all add: round_to_def)

fun wf_member :: "wmember \<Rightarrow> bool" where
  "wf_member (Bits unit fs) \<longleftrightarrow> 0 < unit"
| "wf_member (Host f n) \<longleftrightarrow> 0 < n"
| "wf_member (Net f n) \<longleftrightarrow> 0 < n"
| "wf_member (Octets f n) \<longleftrightarrow> True"

lemma places_of_append: "places_of (sl @ ul) = places_of sl @ places_of ul"
  by (simp add: places_of_def)

lemma places_of_filter: "places_of (filter (\<lambda>(f, p). P f) sl) = filter (\<lambda>(f, ps). P f) (places_of sl)"
  by (induction sl) (auto simp add: places_of_def)

lemma names_placement: "map fst (placement e s) = map fst (spots e s)"
  by (simp add: placement_def places_of_def case_prod_beta comp_def)

lemma place_fields_allocated: "0 < unit \<Longrightarrow> allocated e k (places_of (place_fields e unit k fs)) (fields_end unit k fs)"
proof (induction e unit k fs rule: place_fields.induct)
  case (2 e unit k f w fs)
  have "k \<le> field_start unit k w" using round_to_le [OF 2(2)] by (simp add: field_start_def)
  then show ?case using 2 run_places_allocated [of e "field_start unit k w" w]
    by (simp add: places_of_def allocatedI [of k "field_start unit k w"] del: allocated.simps)
qed (simp add: places_of_def)

lemma place_member_allocated: "wf_member m \<Longrightarrow> allocated e k (places_of (place_member e packed k m)) (member_end packed k m)"
proof (cases m)
  case (Bits unit fs)
  then show "wf_member m \<Longrightarrow> allocated e k (places_of (place_member e packed k m)) (member_end packed k m)"
    by (simp add: place_fields_allocated)
qed (auto simp add: places_of_def scalar_start_def simp del: allocated.simps intro!: scalar_allocated round_to_le)

lemma place_members_allocated:
  "list_all wf_member ms \<Longrightarrow> allocated e k (places_of (place_members e packed k ms)) (members_end packed k ms)"
  by (induction e packed k ms rule: place_members.induct)
    (simp_all add: places_of_append allocated_append [OF place_member_allocated], simp add: places_of_def)

lemma placement_ok:
  assumes "list_all wf_member (snd s e)" "distinct (map fst (placement e s))"
  shows "places_ok (wire_size e s) (placement e s)"
proof -
  define k where "k = members_end (fst s) 0 (snd s e)"
  have "allocated e 0 (placement e s) k"
    using allocated_filter [OF place_members_allocated [OF assms(1)]] 
    by (simp add: placement_def spots_def places_of_filter k_def)
  from allocated_disjoint [OF this] have d: "distinct (concat (map snd (placement e s)))"
    and r: "set (concat (map snd (placement e s))) \<subseteq> turn e ` {0..<k}" by auto
  have "turn e x < 8 * wire_size e s" if "x < k" for x
  proof -
    have "8 * wire_size e s = round_to 8 k" by (simp add: wire_size_def k_def)
    then obtain b where b: "round_to 8 k = 8 * b" by (metis)
    have "x < 8 * b" using that round_to_le [of 8 k] b by simp
    then have "turn e x \<in> turn e ` {0..<0 + 8 * b}" by simp
    then show ?thesis using turn_bytes [of 0 e b] b \<open>8 * wire_size e s = _\<close> by auto
  qed
  then have "turn e ` {0..<k} \<subseteq> {0..<8 * wire_size e s}" by auto
  then have "set (concat (map snd (placement e s))) \<subseteq> {0..<8 * wire_size e s}" using r by (rule order_trans [rotated])
  then show ?thesis using assms(2) d unfolding places_ok_def by (meson atLeastLessThan_iff subsetD)
qed

text \<open>Reading the places of a scalar gives its value, and part of them a field of the value.\<close>

lemma length_scalar_places [simp]: "length (scalar_places e start n) = 8 * n"
  by (simp add: scalar_places_def)

lemma bit_at_word:
  assumes "k < LENGTH('a)" "8 dvd LENGTH('a)"
  shows "bit_at (pre @ bytes_of e (v :: 'a::len word) @ post) (scalar_places e (8 * length pre) (LENGTH('a) div 8) ! k)
    \<longleftrightarrow> bit v k"
proof -
  obtain m where m: "LENGTH('a) = 8 * m" using assms(2) by blast
  have k: "k div 8 < m" using assms(1) m by (simp add: less_mult_imp_div_less)
  have div: "(8 * a + r) div 8 = a" "(8 * a + r) mod 8 = r" if "r < 8" for a r :: nat using that by simp_all
  show ?thesis
  proof (cases e)
    case Little
    have "(8 * length pre + k) div 8 = length pre + k div 8" by simp
    then show ?thesis using Little k m assms(1)
      by (simp add: bit_at_def scalar_places_def nth_append bytes_of_def order_bytes_def nth_le_bytes bit_byte_of)
  next
    case Big
    have "8 * length pre + 8 * (m - Suc (k div 8)) + k mod 8 = 8 * (length pre + (m - Suc (k div 8))) + k mod 8"
      by simp
    then show ?thesis using Big k m assms(1) div
      by (simp add: bit_at_def scalar_places_def nth_append bytes_of_def order_bytes_def rev_nth nth_le_bytes
          bit_byte_of)
  qed
qed

lemma bit_get_bits: "bit (get_bits ps bs) j \<longleftrightarrow> j < length ps \<and> bit_at bs (ps ! j)"
proof (induction ps arbitrary: j)
  case (Cons p ps)
  show ?case
  proof (cases j)
    case 0
    then show ?thesis by (simp add: bit_0)
  next
    case (Suc i)
    then show ?thesis using Cons.IH [of i] by (simp add: bit_Suc)
  qed
qed simp

lemma get_bits_word:
  assumes "s + w \<le> LENGTH('a)" "8 dvd LENGTH('a)"
  shows "get_bits (take w (drop s (scalar_places e 0 (LENGTH('a) div 8)))) (bytes_of e (v :: 'a::len word)) =
    unat (field_at s w v)"
proof (rule bit_eqI)
  fix j
  have len: "8 * (LENGTH('a) div 8) = LENGTH('a)" using assms(2) by (rule dvd_mult_div_cancel)
  show "bit (get_bits (take w (drop s (scalar_places e 0 (LENGTH('a) div 8)))) (bytes_of e v)) j \<longleftrightarrow>
    bit (unat (field_at s w v)) j"
    using bit_at_word [of "s + j" "[]" e v "[]"] assms len
    by (auto simp add: bit_get_bits bit_unsigned_iff bit_field_at)
qed

section \<open>Members read and assigned\<close>

definition read_member :: "places \<Rightarrow> string \<Rightarrow> u8 list \<Rightarrow> nat option" where
  "read_member pl f bs = do {
     ps \<leftarrow> map_of pl f;
     if list_all (\<lambda>p. p < 8 * length bs) ps then Some (get_bits ps bs) else None
   }"

definition assign_member :: "places \<Rightarrow> string \<Rightarrow> nat \<Rightarrow> u8 list \<Rightarrow> u8 list option" where
  "assign_member pl f v bs = do {
     ps \<leftarrow> map_of pl f;
     if list_all (\<lambda>p. p < 8 * length bs) ps then Some (put_bits ps v bs) else None
   }"

definition member_width :: "places \<Rightarrow> string \<Rightarrow> nat" where
  "member_width pl f = (case map_of pl f of None \<Rightarrow> 0 | Some ps \<Rightarrow> length ps)"

locale exchanged_struct =
  fixes pl :: "endian \<Rightarrow> places" and n :: nat and shared :: "string list"
  assumes ok: "places_ok n (pl e)"
    and same: "f \<in> set shared \<Longrightarrow> map_of (pl Little) f = map_of (pl Big) f"
    and present: "f \<in> set shared \<Longrightarrow> map_of (pl e) f \<noteq> None"
begin

lemma same_place: "f \<in> set shared \<Longrightarrow> map_of (pl e) f = map_of (pl e') f"
  using same by (cases e; cases e') simp_all

lemma in_range:
  assumes "map_of (pl e) f = Some ps" "n \<le> length bs"
  shows "list_all (\<lambda>p. p < 8 * length bs) ps" "distinct ps"
proof -
  have m: "ps \<in> set (map snd (pl e))" using map_of_SomeD [OF assms(1)] by (force simp: image_iff)
  then have "\<forall>p \<in> set ps. p < 8 * n" using ok [of e] by (fastforce simp: places_ok_def)
  then show "list_all (\<lambda>p. p < 8 * length bs) ps" using assms(2) by (fastforce simp: list_all_iff)
  show "distinct ps" using ok [of e] m by (auto simp: places_ok_def distinct_concat_iff)
qed

lemma disjoint_places:
  assumes "f \<noteq> g" "map_of (pl e) f = Some ps" "map_of (pl e) g = Some qs"
  shows "set ps \<inter> set qs = {}"
proof -
  have d: "distinct (concat (map snd (pl e)))" using ok [of e] by (simp add: places_ok_def)
  have "set (snd x) \<inter> set (snd y) = {}" if "x \<in> set l" "y \<in> set l" "fst x \<noteq> fst y" "distinct (concat (map snd l))"
    for x y and l :: places
    using that by (induction l) fastforce+
  from this [OF map_of_SomeD [OF assms(2)] map_of_SomeD [OF assms(3)] _ d] show ?thesis using assms(1) by simp
qed

text \<open>
  One host assigns a member, the other reads the value, and every other member as it was, those
  too that the two hosts place apart.
\<close>

lemma exchange:
  assumes f: "f \<in> set shared" and n: "n \<le> length bs"
  shows "\<exists>cs. assign_member (pl e) f v bs = Some cs \<and> length cs = length bs \<and>
    read_member (pl e') f cs = Some (take_bit (member_width (pl e) f) v) \<and>
    (\<forall>g. g \<noteq> f \<longrightarrow> read_member (pl e') g cs = read_member (pl e') g bs)"
proof -
  obtain ps where ps: "map_of (pl e) f = Some ps" using present [OF f] by auto
  note r = in_range [OF ps n]
  let ?cs = "put_bits ps v bs"
  have "read_member (pl e') f ?cs = Some (take_bit (member_width (pl e) f) v)"
    using same_place [OF f, of e' e] ps r by (simp add: read_member_def member_width_def get_put_bits list_all_iff)
  moreover have "read_member (pl e') g ?cs = read_member (pl e') g bs" if g: "g \<noteq> f" for g
  proof (cases "map_of (pl e') g")
    case (Some qs)
    have "map_of (pl e') f = Some ps" using same_place [OF f, of e' e] ps by simp
    from disjoint_places [OF g [symmetric] this Some] have "set ps \<inter> set qs = {}" .
    then show ?thesis using Some r by (simp add: read_member_def get_put_bits_other list_all_iff)
  qed (simp add: read_member_def)
  moreover have "assign_member (pl e) f v bs = Some ?cs" using ps r(1) by (simp add: assign_member_def)
  moreover have "length ?cs = length bs" by simp
  ultimately show ?thesis by blast
qed

end

text \<open>The contract of a structure computes: the members but for those that the hosts place apart.\<close>

definition shared_members :: "string list \<Rightarrow> wstruct \<Rightarrow> string list" where
  "shared_members apart s = filter (\<lambda>f. f \<notin> set apart) (map fst (spots Little s))"

fun agree_but :: "string list \<Rightarrow> (string \<times> spot) list \<Rightarrow> (string \<times> spot) list \<Rightarrow> bool" where
  "agree_but apart [] ul \<longleftrightarrow> True"
| "agree_but apart ((f, p) # sl) ul \<longleftrightarrow>
    (f \<in> set apart \<or> (case map_of ul f of None \<Rightarrow> False | Some q \<Rightarrow> p = q \<or> spot_places p = spot_places q)) \<and>
    agree_but apart sl ul"

definition names_ok :: "endian \<Rightarrow> wstruct \<Rightarrow> bool" where
  "names_ok e s \<longleftrightarrow> list_all wf_member (snd s e) \<and> distinct (map fst (spots e s))"

definition exchange_ok :: "string list \<Rightarrow> wstruct \<Rightarrow> bool" where
  "exchange_ok apart s \<longleftrightarrow> wire_size Little s = wire_size Big s \<and> names_ok Little s \<and> names_ok Big s \<and>
    agree_but apart (spots Little s) (spots Big s)"

lemma map_of_places: "map_of (places_of sl) f = map_option spot_places (map_of sl f)"
  by (induction sl) (auto simp add: places_of_def)

lemma agree_butD:
  "\<lbrakk>agree_but apart sl ul; (f, p) \<in> set sl; f \<notin> set apart\<rbrakk> \<Longrightarrow> map_of (places_of ul) f = Some (spot_places p)"
  by (induction apart sl ul rule: agree_but.induct) (auto simp add: map_of_places split: option.splits)

lemma exchange_ok_struct:
  assumes "exchange_ok apart s"
  shows "exchanged_struct (\<lambda>e. placement e s) (wire_size Little s) (shared_members apart s)"
proof
  show "places_ok (wire_size Little s) (placement e s)" for e using assms placement_ok [of s e] by (cases e) (auto simp: exchange_ok_def names_ok_def names_placement)
  show s: "map_of (placement Little s) f = map_of (placement Big s) f" if f: "f \<in> set (shared_members apart s)" for f
  proof -
    obtain p where p: "(f, p) \<in> set (spots Little s)" "f \<notin> set apart"
      using f by (auto simp: shared_members_def)
    have "map_of (spots Little s) f = Some p"
      using assms p(1) by (simp add: exchange_ok_def names_ok_def map_of_is_SomeI)
    moreover have "map_of (placement Big s) f = Some (spot_places p)"
      using assms agree_butD [OF _ p] by (simp add: exchange_ok_def placement_def)
    ultimately show ?thesis by (simp only: placement_def map_of_places option.map)
  qed
  have "map_of (placement Little s) f \<noteq> None" if "f \<in> set (shared_members apart s)" for f
    using that by (auto simp add: shared_members_def map_of_eq_None_iff placement_def map_of_places)
  then show "map_of (placement e s) f \<noteq> None" if "f \<in> set (shared_members apart s)" for e f
    using s that by (cases e) simp_all
qed

end
