(* ===== verification/Wire_Bits.thy ===== *)
theory Wire_Bits
  imports Bit_Struct Byteorder
begin

text \<open>
  The headers with bit fields that are declared once for each order of bits: packets of the network
  (\<^verbatim>\<open>ip.h\<close>, \<^verbatim>\<open>ipv6.h\<close>, \<^verbatim>\<open>tcp.h\<close>, \<^verbatim>\<open>dccp.h\<close>, \<^verbatim>\<open>icmp.h\<close>, \<^verbatim>\<open>icmpv6.h\<close>, \<^verbatim>\<open>igmp.h\<close>, \<^verbatim>\<open>rpl.h\<close>, \<^verbatim>\<open>ioam6.h\<close>,
  \<^verbatim>\<open>erspan.h\<close>, \<^verbatim>\<open>if_pppox.h\<close>, \<^verbatim>\<open>batadv_packet.h\<close>, \<^verbatim>\<open>if_hippi.h\<close>) and answers of optical drives (\<^verbatim>\<open>cdrom.h\<close>).
  The two declarations of each describe one wire format. Then the flags of a TCP header, which programs may read
  from the bit fields or from the fourth word of the header, and the structures laid over one word
  (\<^verbatim>\<open>perf_event.h\<close>, \<^verbatim>\<open>if_packet.h\<close>).
\<close>

section \<open>Packets\<close>

text \<open>The first component of a structure says whether it is packed. Flexible arrays at the end take no place.\<close>

definition iphdr :: wstruct where
  "iphdr = (False, \<lambda>e. [
    Bits 8 (case e of Little \<Rightarrow>
        [(''ihl'', 4), (''version'', 4)]
      | Big \<Rightarrow>
        [(''version'', 4), (''ihl'', 4)]),
    Octets ''tos'' 1, Net ''tot_len'' 2, Net ''id'' 2, Net ''frag_off'' 2, Octets ''ttl'' 1,
    Octets ''protocol'' 1, Net ''check'' 2, Net ''saddr'' 4, Net ''daddr'' 4])"

definition ipv6hdr :: wstruct where
  "ipv6hdr = (False, \<lambda>e. [
    Bits 8 (case e of Little \<Rightarrow>
        [(''priority'', 4), (''version'', 4)]
      | Big \<Rightarrow>
        [(''version'', 4), (''priority'', 4)]),
    Octets ''flow_lbl'' 3, Net ''payload_len'' 2, Octets ''nexthdr'' 1, Octets ''hop_limit'' 1,
    Octets ''saddr'' 16, Octets ''daddr'' 16])"

definition tcphdr :: wstruct where
  "tcphdr = (False, \<lambda>e. [
    Net ''source'' 2, Net ''dest'' 2, Net ''seq'' 4, Net ''ack_seq'' 4,
    Bits 16 (case e of Little \<Rightarrow>
        [(''res1'', 4), (''doff'', 4), (''fin'', 1), (''syn'', 1), (''rst'', 1), (''psh'', 1), (''ack'', 1),
         (''urg'', 1), (''ece'', 1), (''cwr'', 1)]
      | Big \<Rightarrow>
        [(''doff'', 4), (''res1'', 4), (''cwr'', 1), (''ece'', 1), (''urg'', 1), (''ack'', 1), (''psh'', 1),
         (''rst'', 1), (''syn'', 1), (''fin'', 1)]),
    Net ''window'' 2, Net ''check'' 2, Net ''urg_ptr'' 2])"

definition dccp_hdr :: wstruct where
  "dccp_hdr = (False, \<lambda>e. [
    Net ''dccph_sport'' 2, Net ''dccph_dport'' 2, Octets ''dccph_doff'' 1,
    Bits 8 (case e of Little \<Rightarrow>
        [(''dccph_cscov'', 4), (''dccph_ccval'', 4)]
      | Big \<Rightarrow>
        [(''dccph_ccval'', 4), (''dccph_cscov'', 4)]),
    Net ''dccph_checksum'' 2,
    Bits 8 (case e of Little \<Rightarrow>
        [(''dccph_x'', 1), (''dccph_type'', 4), (''dccph_reserved'', 3)]
      | Big \<Rightarrow>
        [(''dccph_reserved'', 3), (''dccph_type'', 4), (''dccph_x'', 1)]),
    Octets ''dccph_seq2'' 1, Net ''dccph_seq'' 2])"

definition icmp_ext_hdr :: wstruct where
  "icmp_ext_hdr = (False, \<lambda>e. [
    Bits 8 (case e of Little \<Rightarrow>
        [(''reserved1'', 4), (''version'', 4)]
      | Big \<Rightarrow>
        [(''version'', 4), (''reserved1'', 4)]),
    Octets ''reserved2'' 1, Net ''checksum'' 2])"

definition icmpv6_nd_advt :: wstruct where
  "icmpv6_nd_advt = (False, \<lambda>e. [
    Bits 32 (case e of Little \<Rightarrow>
        [(''reserved'', 5), (''override'', 1), (''solicited'', 1), (''router'', 1), (''reserved2'', 24)]
      | Big \<Rightarrow>
        [(''router'', 1), (''solicited'', 1), (''override'', 1), (''reserved'', 29)])])"

definition icmpv6_nd_ra :: wstruct where
  "icmpv6_nd_ra = (False, \<lambda>e. [
    Octets ''hop_limit'' 1,
    Bits 8 (case e of Little \<Rightarrow>
        [(''reserved'', 3), (''router_pref'', 2), (''home_agent'', 1), (''other'', 1), (''managed'', 1)]
      | Big \<Rightarrow>
        [(''managed'', 1), (''other'', 1), (''home_agent'', 1), (''router_pref'', 2), (''reserved'', 3)]),
    Net ''rt_lifetime'' 2])"

definition igmpv3_query :: wstruct where
  "igmpv3_query = (False, \<lambda>e. [
    Octets ''type'' 1, Octets ''code'' 1, Net ''csum'' 2, Net ''group'' 4,
    Bits 8 (case e of Little \<Rightarrow>
        [(''qrv'', 3), (''suppress'', 1), (''resv'', 4)]
      | Big \<Rightarrow>
        [(''resv'', 4), (''suppress'', 1), (''qrv'', 3)]),
    Octets ''qqic'' 1, Net ''nsrcs'' 2])"

definition ipv6_rpl_sr_hdr :: wstruct where
  "ipv6_rpl_sr_hdr = (True, \<lambda>e. [
    Octets ''nexthdr'' 1, Octets ''hdrlen'' 1, Octets ''type'' 1, Octets ''segments_left'' 1,
    Bits 32 (case e of Little \<Rightarrow>
        [(''cmpre'', 4), (''cmpri'', 4), (''reserved'', 4), (''pad'', 4), (''reserved1'', 16)]
      | Big \<Rightarrow>
        [(''cmpri'', 4), (''cmpre'', 4), (''pad'', 4), (''reserved'', 20)])])"

text \<open>
  The trace type of an IOAM header is a union of a word in network order, \<^verbatim>\<open>type_be32\<close>, and of
  bit fields: one structure for each of the two views.
\<close>

definition ioam6_trace_hdr_be32 :: wstruct where
  "ioam6_trace_hdr_be32 = (True, \<lambda>e. [
    Net ''namespace_id'' 2,
    Bits 8 (case e of Little \<Rightarrow>
        [('''', 1), ('''', 1), (''overflow'', 1), (''nodelen'', 5), (''remlen'', 7), ('''', 1)]
      | Big \<Rightarrow>
        [(''nodelen'', 5), (''overflow'', 1), ('''', 1), ('''', 1), ('''', 1), (''remlen'', 7)]),
    Net ''type_be32'' 4])"

definition ioam6_trace_hdr :: wstruct where
  "ioam6_trace_hdr = (True, \<lambda>e. [
    Net ''namespace_id'' 2,
    Bits 8 (case e of Little \<Rightarrow>
        [('''', 1), ('''', 1), (''overflow'', 1), (''nodelen'', 5), (''remlen'', 7), ('''', 1)]
      | Big \<Rightarrow>
        [(''nodelen'', 5), (''overflow'', 1), ('''', 1), ('''', 1), ('''', 1), (''remlen'', 7)]),
    Bits 32 (case e of Little \<Rightarrow>
        [(''bit7'', 1), (''bit6'', 1), (''bit5'', 1), (''bit4'', 1), (''bit3'', 1), (''bit2'', 1), (''bit1'', 1),
         (''bit0'', 1), (''bit15'', 1), (''bit14'', 1), (''bit13'', 1), (''bit12'', 1), (''bit11'', 1),
         (''bit10'', 1), (''bit9'', 1), (''bit8'', 1), (''bit23'', 1), (''bit22'', 1), (''bit21'', 1),
         (''bit20'', 1), (''bit19'', 1), (''bit18'', 1), (''bit17'', 1), (''bit16'', 1), ('''', 8)]
      | Big \<Rightarrow>
        [(''bit0'', 1), (''bit1'', 1), (''bit2'', 1), (''bit3'', 1), (''bit4'', 1), (''bit5'', 1), (''bit6'', 1),
         (''bit7'', 1), (''bit8'', 1), (''bit9'', 1), (''bit10'', 1), (''bit11'', 1), (''bit12'', 1),
         (''bit13'', 1), (''bit14'', 1), (''bit15'', 1), (''bit16'', 1), (''bit17'', 1), (''bit18'', 1),
         (''bit19'', 1), (''bit20'', 1), (''bit21'', 1), (''bit22'', 1), (''bit23'', 1), ('''', 8)])])"

definition erspan_md2 :: wstruct where
  "erspan_md2 = (False, \<lambda>e. [
    Net ''timestamp'' 4, Net ''sgt'' 2,
    Bits 8 (case e of Little \<Rightarrow>
        [(''hwid_upper'', 2), (''ft'', 5), (''p'', 1), (''o'', 1), (''gra'', 2), (''dir'', 1), (''hwid'', 4)]
      | Big \<Rightarrow>
        [(''p'', 1), (''ft'', 5), (''hwid_upper'', 2), (''hwid'', 4), (''dir'', 1), (''gra'', 2), (''o'', 1)])])"

definition pppoe_hdr :: wstruct where
  "pppoe_hdr = (True, \<lambda>e. [
    Bits 8 (case e of Little \<Rightarrow>
        [(''type'', 4), (''ver'', 4)]
      | Big \<Rightarrow>
        [(''ver'', 4), (''type'', 4)]),
    Octets ''code'' 1, Net ''sid'' 2, Net ''length'' 2])"

definition batadv_frag_packet :: wstruct where
  "batadv_frag_packet = (False, \<lambda>e. [
    Octets ''packet_type'' 1, Octets ''version'' 1, Octets ''ttl'' 1,
    Bits 8 (case e of Little \<Rightarrow>
        [(''reserved'', 1), (''priority'', 3), (''no'', 4)]
      | Big \<Rightarrow>
        [(''no'', 4), (''priority'', 3), (''reserved'', 1)]),
    Octets ''dest'' 6, Octets ''orig'' 6, Net ''seqno'' 2, Net ''total_size'' 2])"

definition hippi_le_hdr :: wstruct where
  "hippi_le_hdr = (True, \<lambda>e. [
    Bits 8 (case e of Little \<Rightarrow>
        [(''message_type'', 4), (''double_wide'', 1), (''fc'', 3)]
      | Big \<Rightarrow>
        [(''fc'', 3), (''double_wide'', 1), (''message_type'', 4)]),
    Octets ''dest_switch_addr'' 3,
    Bits 8 (case e of Little \<Rightarrow>
        [(''src_addr_type'', 4), (''dest_addr_type'', 4)]
      | Big \<Rightarrow>
        [(''dest_addr_type'', 4), (''src_addr_type'', 4)]),
    Octets ''src_switch_addr'' 3, Host ''reserved'' 2, Octets ''daddr'' 6, Host ''locally_administered'' 2,
    Octets ''saddr'' 6])"

section \<open>Answers of optical drives\<close>

definition request_sense :: wstruct where
  "request_sense = (False, \<lambda>e. [
    Bits 8 (case e of Little \<Rightarrow>
        [(''error_code'', 7), (''valid'', 1)]
      | Big \<Rightarrow>
        [(''valid'', 1), (''error_code'', 7)]),
    Octets ''segment_number'' 1,
    Bits 8 (case e of Little \<Rightarrow>
        [(''sense_key'', 4), (''reserved2'', 1), (''ili'', 1), (''reserved1'', 2)]
      | Big \<Rightarrow>
        [(''reserved1'', 2), (''ili'', 1), (''reserved2'', 1), (''sense_key'', 4)]),
    Octets ''information'' 4, Octets ''add_sense_len'' 1, Octets ''command_info'' 4, Octets ''asc'' 1,
    Octets ''ascq'' 1, Octets ''fruc'' 1, Octets ''sks'' 3, Octets ''asb'' 46])"

definition mrw_feature_desc :: wstruct where
  "mrw_feature_desc = (False, \<lambda>e. [
    Net ''feature_code'' 2,
    Bits 8 (case e of Little \<Rightarrow>
        [(''curr'', 1), (''persistent'', 1), (''feature_version'', 4), (''reserved1'', 2)]
      | Big \<Rightarrow>
        [(''reserved1'', 2), (''feature_version'', 4), (''persistent'', 1), (''curr'', 1)]),
    Octets ''add_len'' 1,
    Bits 8 (case e of Little \<Rightarrow>
        [(''write'', 1), (''reserved2'', 7)]
      | Big \<Rightarrow>
        [(''reserved2'', 7), (''write'', 1)]),
    Octets ''reserved3'' 1, Octets ''reserved4'' 1, Octets ''reserved5'' 1])"

definition rwrt_feature_desc :: wstruct where
  "rwrt_feature_desc = (False, \<lambda>e. [
    Net ''feature_code'' 2,
    Bits 8 (case e of Little \<Rightarrow>
        [(''curr'', 1), (''persistent'', 1), (''feature_version'', 4), (''reserved1'', 2)]
      | Big \<Rightarrow>
        [(''reserved1'', 2), (''feature_version'', 4), (''persistent'', 1), (''curr'', 1)]),
    Octets ''add_len'' 1, Host ''last_lba'' 4, Host ''block_size'' 4, Host ''blocking'' 2,
    Bits 8 (case e of Little \<Rightarrow>
        [(''page_present'', 1), (''reserved2'', 7)]
      | Big \<Rightarrow>
        [(''reserved2'', 7), (''page_present'', 1)]),
    Octets ''reserved3'' 1])"

definition rm_feature_desc :: wstruct where
  "rm_feature_desc = (False, \<lambda>e. [
    Net ''feature_code'' 2,
    Bits 8 (case e of Little \<Rightarrow>
        [(''curr'', 1), (''persistent'', 1), (''feature_version'', 4), (''reserved1'', 2)]
      | Big \<Rightarrow>
        [(''reserved1'', 2), (''feature_version'', 4), (''persistent'', 1), (''curr'', 1)]),
    Octets ''add_len'' 1,
    Bits 8 (case e of Little \<Rightarrow>
        [(''lock'', 1), (''dbml'', 1), (''pvnt_jmpr'', 1), (''eject'', 1), (''load'', 1), (''mech_type'', 3)]
      | Big \<Rightarrow>
        [(''mech_type'', 3), (''load'', 1), (''eject'', 1), (''pvnt_jmpr'', 1), (''dbml'', 1), (''lock'', 1)]),
    Octets ''reserved2'' 1, Octets ''reserved3'' 1, Octets ''reserved4'' 1])"

definition disc_information :: wstruct where
  "disc_information = (False, \<lambda>e. [
    Net ''disc_information_length'' 2,
    Bits 8 (case e of Little \<Rightarrow>
        [(''disc_status'', 2), (''border_status'', 2), (''erasable'', 1), (''reserved1'', 3)]
      | Big \<Rightarrow>
        [(''reserved1'', 3), (''erasable'', 1), (''border_status'', 2), (''disc_status'', 2)]),
    Octets ''n_first_track'' 1, Octets ''n_sessions_lsb'' 1, Octets ''first_track_lsb'' 1,
    Octets ''last_track_lsb'' 1,
    Bits 8 (case e of Little \<Rightarrow>
        [(''mrw_status'', 2), (''dbit'', 1), (''reserved2'', 2), (''uru'', 1), (''dbc_v'', 1), (''did_v'', 1)]
      | Big \<Rightarrow>
        [(''did_v'', 1), (''dbc_v'', 1), (''uru'', 1), (''reserved2'', 2), (''dbit'', 1), (''mrw_status'', 2)]),
    Octets ''disc_type'' 1, Octets ''n_sessions_msb'' 1, Octets ''first_track_msb'' 1,
    Octets ''last_track_msb'' 1, Host ''disc_id'' 4, Host ''lead_in'' 4, Host ''lead_out'' 4,
    Octets ''disc_bar_code'' 8, Octets ''reserved3'' 1, Octets ''n_opc'' 1])"

definition track_information :: wstruct where
  "track_information = (False, \<lambda>e. [
    Net ''track_information_length'' 2, Octets ''track_lsb'' 1, Octets ''session_lsb'' 1,
    Octets ''reserved1'' 1,
    Bits 8 (case e of Little \<Rightarrow>
        [(''track_mode'', 4), (''copy'', 1), (''damage'', 1), (''reserved2'', 2), (''data_mode'', 4),
         (''fp'', 1), (''packet'', 1), (''blank'', 1), (''rt'', 1), (''nwa_v'', 1), (''lra_v'', 1),
         (''reserved3'', 6)]
      | Big \<Rightarrow>
        [(''reserved2'', 2), (''damage'', 1), (''copy'', 1), (''track_mode'', 4), (''rt'', 1), (''blank'', 1),
         (''packet'', 1), (''fp'', 1), (''data_mode'', 4), (''reserved3'', 6), (''lra_v'', 1), (''nwa_v'', 1)]),
    Net ''track_start'' 4, Net ''next_writable'' 4, Net ''free_blocks'' 4, Net ''fixed_packet_size'' 4,
    Net ''track_size'' 4, Net ''last_rec_address'' 4])"

section \<open>Exchange between hosts\<close>

text \<open>
  Every structure with the members that the two kinds of hosts place apart: members in the order of the host, and
  reserved bits that are one member on one host and two on the other.
\<close>

definition wire_headers :: "(string \<times> wstruct \<times> string list) list" where
  "wire_headers =
    [(''iphdr'', iphdr, []),
     (''ipv6hdr'', ipv6hdr, []),
     (''tcphdr'', tcphdr, []),
     (''dccp_hdr'', dccp_hdr, []),
     (''icmp_ext_hdr'', icmp_ext_hdr, []),
     (''icmpv6_nd_advt'', icmpv6_nd_advt, [''reserved'', ''reserved2'']),
     (''icmpv6_nd_ra'', icmpv6_nd_ra, []),
     (''igmpv3_query'', igmpv3_query, []),
     (''ipv6_rpl_sr_hdr'', ipv6_rpl_sr_hdr, [''reserved'', ''reserved1'']),
     (''ioam6_trace_hdr'', ioam6_trace_hdr, []),
     (''ioam6_trace_hdr_be32'', ioam6_trace_hdr_be32, []),
     (''erspan_md2'', erspan_md2, []),
     (''pppoe_hdr'', pppoe_hdr, []),
     (''batadv_frag_packet'', batadv_frag_packet, []),
     (''hippi_le_hdr'', hippi_le_hdr, [''reserved'', ''locally_administered'']),
     (''request_sense'', request_sense, []),
     (''mrw_feature_desc'', mrw_feature_desc, []),
     (''rwrt_feature_desc'', rwrt_feature_desc, [''last_lba'', ''block_size'', ''blocking'']),
     (''rm_feature_desc'', rm_feature_desc, []),
     (''disc_information'', disc_information, [''disc_id'', ''lead_in'', ''lead_out'']),
     (''track_information'', track_information, [])]"

lemmas header_defs = iphdr_def ipv6hdr_def tcphdr_def dccp_hdr_def icmp_ext_hdr_def
  icmpv6_nd_advt_def icmpv6_nd_ra_def igmpv3_query_def ipv6_rpl_sr_hdr_def ioam6_trace_hdr_def
  ioam6_trace_hdr_be32_def
  erspan_md2_def pppoe_hdr_def batadv_frag_packet_def hippi_le_hdr_def request_sense_def
  mrw_feature_desc_def rwrt_feature_desc_def rm_feature_desc_def disc_information_def track_information_def

lemma iphdr_ok: "exchange_ok [] iphdr"
  by code_simp

lemma ipv6hdr_ok: "exchange_ok [] ipv6hdr"
  by code_simp

lemma tcphdr_ok: "exchange_ok [] tcphdr"
  by code_simp

lemma dccp_hdr_ok: "exchange_ok [] dccp_hdr"
  by code_simp

lemma icmp_ext_hdr_ok: "exchange_ok [] icmp_ext_hdr"
  by code_simp

lemma icmpv6_nd_advt_ok: "exchange_ok [''reserved'', ''reserved2''] icmpv6_nd_advt"
  by code_simp

lemma icmpv6_nd_ra_ok: "exchange_ok [] icmpv6_nd_ra"
  by code_simp

lemma igmpv3_query_ok: "exchange_ok [] igmpv3_query"
  by code_simp

lemma ipv6_rpl_sr_hdr_ok: "exchange_ok [''reserved'', ''reserved1''] ipv6_rpl_sr_hdr"
  by code_simp

lemma ioam6_trace_hdr_ok: "exchange_ok [] ioam6_trace_hdr"
  by code_simp

lemma ioam6_trace_hdr_be32_ok: "exchange_ok [] ioam6_trace_hdr_be32"
  by code_simp

lemma erspan_md2_ok: "exchange_ok [] erspan_md2"
  by code_simp

lemma pppoe_hdr_ok: "exchange_ok [] pppoe_hdr"
  by code_simp

lemma batadv_frag_packet_ok: "exchange_ok [] batadv_frag_packet"
  by code_simp

lemma hippi_le_hdr_ok: "exchange_ok [''reserved'', ''locally_administered''] hippi_le_hdr"
  by code_simp

lemma request_sense_ok: "exchange_ok [] request_sense"
  by code_simp

lemma mrw_feature_desc_ok: "exchange_ok [] mrw_feature_desc"
  by code_simp

lemma rwrt_feature_desc_ok: "exchange_ok [''last_lba'', ''block_size'', ''blocking''] rwrt_feature_desc"
  by code_simp

lemma rm_feature_desc_ok: "exchange_ok [] rm_feature_desc"
  by code_simp

lemma disc_information_ok: "exchange_ok [''disc_id'', ''lead_in'', ''lead_out''] disc_information"
  by code_simp

lemma track_information_ok: "exchange_ok [] track_information"
  by code_simp

lemma headers_exchange_ok: "list_all (\<lambda>(h, s, apart). exchange_ok apart s) wire_headers"
  unfolding wire_headers_def
  by (simp add: iphdr_ok ipv6hdr_ok tcphdr_ok dccp_hdr_ok icmp_ext_hdr_ok
      icmpv6_nd_advt_ok icmpv6_nd_ra_ok igmpv3_query_ok ipv6_rpl_sr_hdr_ok ioam6_trace_hdr_ok ioam6_trace_hdr_be32_ok
      erspan_md2_ok pppoe_hdr_ok batadv_frag_packet_ok hippi_le_hdr_ok request_sense_ok
      mrw_feature_desc_ok rwrt_feature_desc_ok rm_feature_desc_ok disc_information_ok track_information_ok)

text \<open>The members listed are placed differently, each of them.\<close>

definition places_differ :: "wstruct \<Rightarrow> string list \<Rightarrow> bool" where
  "places_differ s fs \<longleftrightarrow> list_all (\<lambda>f. map_of (placement Little s) f \<noteq> map_of (placement Big s) f) fs"

lemma icmpv6_nd_advt_apart: "places_differ icmpv6_nd_advt [''reserved'', ''reserved2'']"
  by code_simp

lemma ipv6_rpl_sr_hdr_apart: "places_differ ipv6_rpl_sr_hdr [''reserved'', ''reserved1'']"
  by code_simp

lemma hippi_le_hdr_apart: "places_differ hippi_le_hdr [''reserved'', ''locally_administered'']"
  by code_simp

lemma rwrt_feature_desc_apart: "places_differ rwrt_feature_desc [''last_lba'', ''block_size'', ''blocking'']"
  by code_simp

lemma disc_information_apart: "places_differ disc_information [''disc_id'', ''lead_in'', ''lead_out'']"
  by code_simp

lemma headers_apart: "list_all (\<lambda>(h, s, apart). places_differ s apart) wire_headers"
  unfolding wire_headers_def
  by (simp add: icmpv6_nd_advt_apart ipv6_rpl_sr_hdr_apart hippi_le_hdr_apart rwrt_feature_desc_apart disc_information_apart places_differ_def [of _ "[]"])

interpretation tcp: exchanged_struct "\<lambda>e. placement e tcphdr" "wire_size Little tcphdr" "shared_members [] tcphdr"
  by (rule exchange_ok_struct [OF tcphdr_ok])

text \<open>
  C9: In every header, for every member but the twelve listed as placed apart (reserved bits of
  \<^verbatim>\<open>icmp6hdr\<close>, \<^verbatim>\<open>ipv6_rpl_sr_hdr\<close> and \<^verbatim>\<open>hippi_le_hdr\<close> with \<^verbatim>\<open>locally_administered\<close>, and multi-byte
  members of two answers of optical drives): a host of either byte order assigns the member inside the
  header, a host of either order reads the value back, cut to the width of the member, and reads every
  other member, the ones placed apart included, as before. The members listed are placed
  differently, each of them.
\<close>

theorem wire_bits_exchange:
  assumes "(h, s, apart) \<in> set wire_headers" "f \<in> set (shared_members apart s)" "wire_size Little s \<le> length bs"
  shows "(\<exists>cs. assign_member (placement e s) f v bs = Some cs \<and> length cs = length bs \<and>
      read_member (placement e' s) f cs = Some (take_bit (member_width (placement e s) f) v) \<and>
      (\<forall>g. g \<noteq> f \<longrightarrow> read_member (placement e' s) g cs = read_member (placement e' s) g bs)) \<and>
    places_differ s apart"
proof -
  have "exchange_ok apart s" using headers_exchange_ok assms(1) by (auto simp: list_all_iff)
  from exchanged_struct.exchange [OF exchange_ok_struct [OF this] assms(2,3)] show ?thesis
    using headers_apart assms(1) by (auto simp: list_all_iff)
qed

theorem wire_bits_exchange_witness:
  "\<exists>cs. assign_member (placement Little tcphdr) ''syn'' 1 (replicate 20 0) = Some cs \<and> length cs = 20 \<and>
    read_member (placement Big tcphdr) ''syn'' cs = Some 1"
proof -
  have h: "(''tcphdr'', tcphdr, []) \<in> set wire_headers" by (simp add: wire_headers_def)
  have f: "''syn'' \<in> set (shared_members [] tcphdr)" "wire_size Little tcphdr \<le> length (replicate 20 (0 :: u8))"
    by code_simp+
  have "take_bit (member_width (placement Little tcphdr) ''syn'') 1 = (1 :: nat)" by code_simp
  then show ?thesis using wire_bits_exchange [OF h f, of Little 1 Big] by auto
qed

section \<open>Flags of a TCP header\<close>

text \<open>The fourth of the words of \<^verbatim>\<open>union tcp_word_hdr\<close>, and the flags as constants of the host.\<close>

definition tcp_flag_word :: "endian \<Rightarrow> u8 list \<Rightarrow> nat \<Rightarrow> u32 option" where
  "tcp_flag_word e mem tp = load e mem (tp + 3 * 4)"

definition constant_cpu_to_be32 :: "endian \<Rightarrow> u32 \<Rightarrow> u32" where
  "constant_cpu_to_be32 e x = (case e of Little \<Rightarrow> constant_cpu_to_be32_el x | Big \<Rightarrow> constant_cpu_to_be32_eb x)"

definition TCP_FLAG_CWR :: "endian \<Rightarrow> u32" where "TCP_FLAG_CWR e = constant_cpu_to_be32 e 0x00800000"
definition TCP_FLAG_ECE :: "endian \<Rightarrow> u32" where "TCP_FLAG_ECE e = constant_cpu_to_be32 e 0x00400000"
definition TCP_FLAG_URG :: "endian \<Rightarrow> u32" where "TCP_FLAG_URG e = constant_cpu_to_be32 e 0x00200000"
definition TCP_FLAG_ACK :: "endian \<Rightarrow> u32" where "TCP_FLAG_ACK e = constant_cpu_to_be32 e 0x00100000"
definition TCP_FLAG_PSH :: "endian \<Rightarrow> u32" where "TCP_FLAG_PSH e = constant_cpu_to_be32 e 0x00080000"
definition TCP_FLAG_RST :: "endian \<Rightarrow> u32" where "TCP_FLAG_RST e = constant_cpu_to_be32 e 0x00040000"
definition TCP_FLAG_SYN :: "endian \<Rightarrow> u32" where "TCP_FLAG_SYN e = constant_cpu_to_be32 e 0x00020000"
definition TCP_FLAG_FIN :: "endian \<Rightarrow> u32" where "TCP_FLAG_FIN e = constant_cpu_to_be32 e 0x00010000"
definition TCP_RESERVED_BITS :: "endian \<Rightarrow> u32" where "TCP_RESERVED_BITS e = constant_cpu_to_be32 e 0x0F000000"
definition TCP_DATA_OFFSET :: "endian \<Rightarrow> u32" where "TCP_DATA_OFFSET e = constant_cpu_to_be32 e 0xF0000000"

text \<open>The constants with the members they stand for.\<close>

definition tcp_flags :: "endian \<Rightarrow> (u32 \<times> string) list" where
  "tcp_flags e = [(TCP_FLAG_CWR e, ''cwr''), (TCP_FLAG_ECE e, ''ece''), (TCP_FLAG_URG e, ''urg''),
    (TCP_FLAG_ACK e, ''ack''), (TCP_FLAG_PSH e, ''psh''), (TCP_FLAG_RST e, ''rst''), (TCP_FLAG_SYN e, ''syn''),
    (TCP_FLAG_FIN e, ''fin''), (TCP_RESERVED_BITS e, ''res1''), (TCP_DATA_OFFSET e, ''doff'')]"

lemma load_bit_at:
  assumes "load e mem (p + q) = Some (w :: u32)" "k < 32"
  shows "bit w k \<longleftrightarrow> bit_at (drop p mem) (scalar_places e (8 * q) 4 ! k)"
proof -
  have l: "p + q + 4 \<le> length mem" and w: "w = word_of_bytes e (take 4 (drop (p + q) mem))"
    using assms(1) by (auto simp add: load_def rdn_def split: if_splits)
  let ?pre = "take q (drop p mem)"
  have "drop p mem = ?pre @ take 4 (drop (p + q) mem) @ drop 4 (drop (p + q) mem)"
    by (metis add.commute append_take_drop_id drop_drop)
  moreover have "take 4 (drop (p + q) mem) = bytes_of e w"
    using l w bytes_of_word_of [of "take 4 (drop (p + q) mem)", where 'a = 32, of e] by simp
  ultimately have d: "drop p mem = ?pre @ bytes_of e w @ drop 4 (drop (p + q) mem)" by simp
  have "length ?pre = q" using l by simp
  then have "bit_at (?pre @ bytes_of e w @ drop 4 (drop (p + q) mem)) (scalar_places e (8 * q) 4 ! k) \<longleftrightarrow> bit w k"
    using bit_at_word [of k ?pre e w "drop 4 (drop (p + q) mem)"] assms(2) by simp
  then show ?thesis unfolding d [symmetric] by simp
qed

text \<open>Every constant covers consecutive bits of the word, and these are the places of the member.\<close>

definition flag_rows :: "endian \<Rightarrow> (string \<times> nat \<times> nat) list" where
  "flag_rows e = (case e of
     Little \<Rightarrow> [(''cwr'', 15, 1), (''ece'', 14, 1), (''urg'', 13, 1), (''ack'', 12, 1), (''psh'', 11, 1), (''rst'', 10, 1),
       (''syn'', 9, 1), (''fin'', 8, 1), (''res1'', 0, 4), (''doff'', 4, 4)]
   | Big \<Rightarrow> [(''cwr'', 23, 1), (''ece'', 22, 1), (''urg'', 21, 1), (''ack'', 20, 1), (''psh'', 19, 1), (''rst'', 18, 1),
       (''syn'', 17, 1), (''fin'', 16, 1), (''res1'', 24, 4), (''doff'', 28, 4)])"

definition row_ok :: "endian \<Rightarrow> string \<Rightarrow> nat \<Rightarrow> nat \<Rightarrow> bool" where
  "row_ok e f a n \<longleftrightarrow> a + n \<le> 32 \<and> (push_bit a (mask n), f) \<in> set (tcp_flags e) \<and>
    map_of (placement e tcphdr) f = Some (take n (drop a (scalar_places e 96 4)))"

lemma flag_rows_ok:
  "list_all (\<lambda>(f, a, n). row_ok Little f a n) (flag_rows Little)" "list_all (\<lambda>(f, a, n). row_ok Big f a n) (flag_rows Big)"
  by code_simp+

lemma flags_in_rows:
  "list_all (\<lambda>(m, f). list_ex (\<lambda>(g, a, n). g = f \<and> m = push_bit a (mask n)) (flag_rows Little)) (tcp_flags Little)"
  "list_all (\<lambda>(m, f). list_ex (\<lambda>(g, a, n). g = f \<and> m = push_bit a (mask n)) (flag_rows Big)) (tcp_flags Big)"
  by code_simp+

lemma get_bits_load:
  assumes "load e mem (p + q) = Some (w :: u32)" "a + n \<le> 32"
  shows "get_bits (take n (drop a (scalar_places e (8 * q) 4))) (drop p mem) = unat (field_at a n w)"
proof (rule bit_eqI)
  show "bit (get_bits (take n (drop a (scalar_places e (8 * q) 4))) (drop p mem)) j \<longleftrightarrow>
      bit (unat (field_at a n w)) j" for j
    using load_bit_at [OF assms(1), of "a + j"] assms(2)
    by (auto simp add: bit_get_bits bit_unsigned_iff bit_field_at)
qed

lemma scalar_places_less:
  assumes "8 dvd start"
  shows "p \<in> set (scalar_places e start n) \<Longrightarrow> p < start + 8 * n"
  using scalar_places_allocated(2) [OF assms, of e n Little] by (simp add: turn_def)

lemma tcp_flag_read:
  assumes "tcp_flag_word e mem tp = Some w" "(m, f) \<in> set (tcp_flags e)"
  obtains a n where "m = push_bit a (mask n)" "(f, a, n) \<in> set (flag_rows e)"
    "read_member (placement e tcphdr) f (drop tp mem) = Some (unat (field_at a n w))"
proof -
  obtain a n where r: "(f, a, n) \<in> set (flag_rows e)" and m: "m = push_bit a (mask n)"
    using flags_in_rows assms(2) by (cases e) (fastforce simp: list_all_iff list_ex_iff)+
  then have ok: "row_ok e f a n" using flag_rows_ok by (cases e) (fastforce simp: list_all_iff)+
  have load: "load e mem (tp + 12) = Some w" using assms(1) by (simp add: tcp_flag_word_def)
  then have "tp + 16 \<le> length mem" by (auto simp add: load_def rdn_def split: if_splits)
  moreover have "p < 128" if "p \<in> set (take n (drop a (scalar_places e 96 4)))" for p
    using scalar_places_less [of 96 p e 4] that by (auto dest: in_set_takeD in_set_dropD)
  ultimately have "list_all (\<lambda>p. p < 8 * length (drop tp mem)) (take n (drop a (scalar_places e 96 4)))"
    by (fastforce simp: list_all_iff)
  then have "read_member (placement e tcphdr) f (drop tp mem) = Some (unat (field_at a n w))"
    using ok get_bits_load [OF load, of a n] by (simp add: read_member_def row_ok_def)
  with m r show thesis by (rule that)
qed

lemma and_bit_field: "w AND push_bit a (mask n) = push_bit a (field_at a n w)" if "a + n \<le> 32" for w :: u32
  using that by (intro bit_word_eqI) (auto simp add: bit_simps bit_field_at)

text \<open>
  C20: The flag word and the bit fields of a TCP header say the same, on a host of either order: a flag is set in
  the word at the pointer exactly when its bit field is not zero, a flag of one bit is then one, and the data
  offset is the part of the word that its constant selects.
\<close>

theorem tcp_flags_agree:
  assumes "tcp_flag_word e mem tp = Some w" "(m, f) \<in> set (tcp_flags e)"
  shows "\<exists>v. read_member (placement e tcphdr) f (drop tp mem) = Some v \<and> (v \<noteq> 0 \<longleftrightarrow> w AND m \<noteq> 0) \<and>
    (f = ''doff'' \<or> f = ''res1'' \<or> v \<le> 1) \<and>
    (m = TCP_DATA_OFFSET e \<longrightarrow> v = unat (drop_bit (case e of Little \<Rightarrow> 4 | Big \<Rightarrow> 28) (w AND m)))"
proof -
  obtain a n where m: "m = push_bit a (mask n)" and r: "(f, a, n) \<in> set (flag_rows e)"
    and v: "read_member (placement e tcphdr) f (drop tp mem) = Some (unat (field_at a n w))"
    using tcp_flag_read [OF assms] .
  have le: "a + n \<le> 32" using flag_rows_ok r by (cases e) (fastforce simp: list_all_iff row_ok_def)+
  have small: "f = ''doff'' \<or> f = ''res1'' \<or> n = 1" using r by (cases e) (auto simp: flag_rows_def)
  have eq: "w AND m = push_bit a (field_at a n w)" unfolding m by (rule and_bit_field [OF le])
  have drop: "drop_bit a (push_bit a (field_at a n w)) = field_at a n w"
    using le by (intro bit_word_eqI) (auto simp add: bit_simps bit_field_at dest: bit_imp_le_length)
  have "unat (field_at a n w) \<noteq> 0 \<longleftrightarrow> w AND m \<noteq> 0" unfolding eq
    using drop by (metis drop_bit_of_0 push_bit_of_0 unat_eq_zero)
  moreover have "unat (field_at a 1 w) \<le> 1"
    using fits_unat [of 1 "field_at a 1 w"] by (auto simp add: fits_bits bit_field_at)
  moreover have "a = (case e of Little \<Rightarrow> 4 | Big \<Rightarrow> 28)" if "m = TCP_DATA_OFFSET e"
  proof -
    have rows: "list_all (\<lambda>(f, a, n). push_bit a (mask n) = TCP_DATA_OFFSET Little \<longrightarrow> a = 4) (flag_rows Little)"
      "list_all (\<lambda>(f, a, n). push_bit a (mask n) = TCP_DATA_OFFSET Big \<longrightarrow> a = 28) (flag_rows Big)"
      by code_simp+
    then show ?thesis using r m that by (cases e) (fastforce simp: list_all_iff)+
  qed
  ultimately have "v = unat (field_at a n w) \<Longrightarrow> (v \<noteq> 0 \<longleftrightarrow> w AND m \<noteq> 0) \<and> (f = ''doff'' \<or> f = ''res1'' \<or> v \<le> 1) \<and>
    (m = TCP_DATA_OFFSET e \<longrightarrow> v = unat (drop_bit (case e of Little \<Rightarrow> 4 | Big \<Rightarrow> 28) (w AND m)))" for v
    using small eq drop by metis
  with v show ?thesis by blast
qed

theorem tcp_flags_agree_witness:
  "tcp_flag_word Little (map word_of_nat [0..<20]) 0 = Some 0x0F0E0D0C \<and>
   (\<exists>v. read_member (placement Little tcphdr) ''ack'' (drop 0 (map word_of_nat [0..<20])) = Some v \<and>
      (v \<noteq> 0 \<longleftrightarrow> 0x0F0E0D0C AND TCP_FLAG_ACK Little \<noteq> 0))"
proof -
  have w: "tcp_flag_word Little (map word_of_nat [0..<20]) 0 = Some 0x0F0E0D0C" by code_simp
  have "(TCP_FLAG_ACK Little, ''ack'') \<in> set (tcp_flags Little)" by (simp add: tcp_flags_def)
  from tcp_flags_agree [OF w this] show ?thesis using w by auto
qed

section \<open>Structures over one word\<close>

text \<open>
  The source of a memory access and the weights of a sample, unions of a 64-bit value with a structure, and the
  argument of the fanout option, which is passed as an \<^verbatim>\<open>int\<close> as well.
\<close>

definition perf_mem_data_src :: wstruct where
  "perf_mem_data_src = (False, \<lambda>e. [
    Bits 64 (case e of Little \<Rightarrow>
        [(''mem_op'', 5), (''mem_lvl'', 14), (''mem_snoop'', 5), (''mem_lock'', 2), (''mem_dtlb'', 7),
         (''mem_lvl_num'', 4), (''mem_remote'', 1), (''mem_snoopx'', 2), (''mem_blk'', 3), (''mem_rsvd'', 21)]
      | Big \<Rightarrow>
        [(''mem_rsvd'', 21), (''mem_blk'', 3), (''mem_snoopx'', 2), (''mem_remote'', 1), (''mem_lvl_num'', 4),
         (''mem_dtlb'', 7), (''mem_lock'', 2), (''mem_snoop'', 5), (''mem_lvl'', 14), (''mem_op'', 5)])])"

definition perf_sample_weight :: wstruct where
  "perf_sample_weight = (False, \<lambda>e. case e of
     Little \<Rightarrow> [Host ''var1_dw'' 4, Host ''var2_w'' 2, Host ''var3_w'' 2]
   | Big \<Rightarrow> [Host ''var3_w'' 2, Host ''var2_w'' 2, Host ''var1_dw'' 4])"

definition fanout_args :: wstruct where
  "fanout_args = (False, \<lambda>e. case e of
     Little \<Rightarrow> [Host ''id'' 2, Host ''type_flags'' 2, Host ''max_num_members'' 4]
   | Big \<Rightarrow> [Host ''type_flags'' 2, Host ''id'' 2, Host ''max_num_members'' 4])"

definition PERF_MEM_OP_SHIFT :: nat where "PERF_MEM_OP_SHIFT = 0"
definition PERF_MEM_LVL_SHIFT :: nat where "PERF_MEM_LVL_SHIFT = 5"
definition PERF_MEM_REMOTE_SHIFT :: nat where "PERF_MEM_REMOTE_SHIFT = 37"
definition PERF_MEM_LVLNUM_SHIFT :: nat where "PERF_MEM_LVLNUM_SHIFT = 33"
definition PERF_MEM_SNOOP_SHIFT :: nat where "PERF_MEM_SNOOP_SHIFT = 19"
definition PERF_MEM_SNOOPX_SHIFT :: nat where "PERF_MEM_SNOOPX_SHIFT = 38"
definition PERF_MEM_LOCK_SHIFT :: nat where "PERF_MEM_LOCK_SHIFT = 24"
definition PERF_MEM_TLB_SHIFT :: nat where "PERF_MEM_TLB_SHIFT = 26"
definition PERF_MEM_BLK_SHIFT :: nat where "PERF_MEM_BLK_SHIFT = 40"

definition PERF_MEM_S :: "nat \<Rightarrow> u64 \<Rightarrow> u64" where
  "PERF_MEM_S shift s = push_bit shift s"

text \<open>The field that each shift is for, with its width.\<close>

definition perf_mem_fields :: "(nat \<times> string \<times> nat) list" where
  "perf_mem_fields = [(PERF_MEM_OP_SHIFT, ''mem_op'', 5), (PERF_MEM_LVL_SHIFT, ''mem_lvl'', 14),
    (PERF_MEM_SNOOP_SHIFT, ''mem_snoop'', 5), (PERF_MEM_LOCK_SHIFT, ''mem_lock'', 2), (PERF_MEM_TLB_SHIFT, ''mem_dtlb'', 7),
    (PERF_MEM_LVLNUM_SHIFT, ''mem_lvl_num'', 4), (PERF_MEM_REMOTE_SHIFT, ''mem_remote'', 1),
    (PERF_MEM_SNOOPX_SHIFT, ''mem_snoopx'', 2), (PERF_MEM_BLK_SHIFT, ''mem_blk'', 3)]"

text \<open>A member of a structure over a value of \<open>n\<close> bytes is the field of the value from bit \<open>a\<close> on.\<close>

definition field_of_value :: "wstruct \<Rightarrow> nat \<Rightarrow> string \<Rightarrow> nat \<Rightarrow> nat \<Rightarrow> bool" where
  "field_of_value s n f a w \<longleftrightarrow> a + w \<le> 8 * n \<and>
    map_of (placement Little s) f = Some (take w (drop a (scalar_places Little 0 n))) \<and>
    map_of (placement Big s) f = Some (take w (drop a (scalar_places Big 0 n)))"

lemma perf_mem_fields_ok: "list_all (\<lambda>(a, f, w). field_of_value perf_mem_data_src 8 f a w) perf_mem_fields"
  by code_simp

lemma perf_weights_ok:
  "field_of_value perf_sample_weight 8 ''var1_dw'' 0 32" "field_of_value perf_sample_weight 8 ''var2_w'' 32 16"
  "field_of_value perf_sample_weight 8 ''var3_w'' 48 16"
  "field_of_value fanout_args 4 ''id'' 0 16" "field_of_value fanout_args 4 ''type_flags'' 16 16"
  by code_simp+

lemma read_field_of_value:
  assumes "field_of_value s (LENGTH('a) div 8) f a w" "8 dvd LENGTH('a)"
  shows "read_member (placement e s) f (bytes_of e (v :: 'a::len word)) = Some (unat (field_at a w v))"
proof -
  let ?ps = "take w (drop a (scalar_places e 0 (LENGTH('a) div 8)))"
  have n: "8 * (LENGTH('a) div 8) = LENGTH('a)" using assms(2) by (rule dvd_mult_div_cancel)
  have m: "map_of (placement e s) f = Some ?ps" using assms(1) by (cases e) (simp_all add: field_of_value_def)
  have "list_all (\<lambda>p. p < 8 * length (bytes_of e v)) ?ps"
    using scalar_places_less [of 0 _ e "LENGTH('a) div 8"] by (auto simp: list_all_iff dest!: in_set_takeD in_set_dropD)
  moreover have "get_bits ?ps (bytes_of e v) = unat (field_at a w v)"
    using get_bits_word [of a w e v] assms n by (simp add: field_of_value_def)
  ultimately show ?thesis using m by (simp add: read_member_def)
qed

text \<open>
  C35: On a host of either order, the members over a 64-bit value are fields of the value, and \<^verbatim>\<open>PERF_MEM_S\<close> writes into
  the member its shift is named after: adding \<open>x\<close> to a value adds it to this member and leaves the other eight
  members as they were. The weights of a sample and the argument of the fanout option join up in the value as
  well.
\<close>

theorem perf_values_portable:
  assumes "(a, f, w) \<in> set perf_mem_fields" "(a', g, w') \<in> set perf_mem_fields" "fits w x"
  shows "read_member (placement e perf_mem_data_src) g (bytes_of e (v OR PERF_MEM_S a x)) =
      Some (if g = f then unat (field_at a w v OR x) else unat (field_at a' w' v)) \<and>
    read_member (placement e perf_mem_data_src) g (bytes_of e v) = Some (unat (field_at a' w' v)) \<and>
    map (\<lambda>n. read_member (placement e perf_sample_weight) n (bytes_of e v)) [''var1_dw'', ''var2_w'', ''var3_w''] =
      [Some (unat (field_at 0 32 v)), Some (unat (field_at 32 16 v)), Some (unat (field_at 48 16 v))] \<and>
    map (\<lambda>n. read_member (placement e fanout_args) n (bytes_of e (arg :: u32))) [''id'', ''type_flags''] =
      [Some (unat (field_at 0 16 arg)), Some (unat (field_at 16 16 arg))]"
proof -
  have g: "field_of_value perf_mem_data_src (LENGTH(64) div 8) g a' w'" "field_of_value perf_mem_data_src 8 f a w"
    using perf_mem_fields_ok assms(1,2) by (auto simp: list_all_iff)
  note read = read_field_of_value [OF g(1), of e]
  have same: "a' = a \<and> w' = w" if "g = f"
    using assms(1,2) that by (auto simp: perf_mem_fields_def)
  have apart: "a' + w' \<le> a \<or> a + w \<le> a'" if "g \<noteq> f"
  proof -
    have "list_all (\<lambda>(a, f, w). list_all (\<lambda>(a', g, w'). g = f \<or> a' + w' \<le> a \<or> a + w \<le> a') perf_mem_fields) perf_mem_fields"
      by code_simp
    then show ?thesis using assms(1,2) that by (auto simp: list_all_iff)
  qed
  have le: "a + w \<le> 64" using g(2) by (simp add: field_of_value_def)
  have s: "PERF_MEM_S a x = place a w x" using assms(3) by (simp add: PERF_MEM_S_def push_bit_place)
  have "field_at a' w' (v OR PERF_MEM_S a x) = (if g = f then field_at a w v OR x else field_at a' w' v)"
    unfolding s using same apart le assms(3) by (auto simp add: fields fits_and_mask)
  moreover note read_field_of_value [where 'a = 64, simplified, OF perf_weights_ok(1), of e v]
    read_field_of_value [where 'a = 64, simplified, OF perf_weights_ok(2), of e v]
    read_field_of_value [where 'a = 64, simplified, OF perf_weights_ok(3), of e v]
    read_field_of_value [where 'a = 32, simplified, OF perf_weights_ok(4), of e arg]
    read_field_of_value [where 'a = 32, simplified, OF perf_weights_ok(5), of e arg]
  ultimately show ?thesis using read by simp
qed

theorem perf_values_portable_witness:
  "read_member (placement Big perf_mem_data_src) ''mem_snoopx'' (bytes_of Big (0 OR PERF_MEM_S PERF_MEM_SNOOPX_SHIFT 1)) =
    Some (unat (field_at 38 2 0 OR (1 :: u64)))"
proof -
  have "(PERF_MEM_SNOOPX_SHIFT, ''mem_snoopx'', 2) \<in> set perf_mem_fields" by (simp add: perf_mem_fields_def)
  moreover have "fits 2 (1 :: u64)" by code_simp
  ultimately have "read_member (placement Big perf_mem_data_src) ''mem_snoopx''
      (bytes_of Big (0 OR PERF_MEM_S PERF_MEM_SNOOPX_SHIFT 1)) =
    Some (if ''mem_snoopx'' = ''mem_snoopx'' then unat (field_at PERF_MEM_SNOOPX_SHIFT 2 0 OR (1 :: u64))
      else unat (field_at PERF_MEM_SNOOPX_SHIFT 2 (0 :: u64)))"
    using perf_values_portable by blast
  then show ?thesis by (simp add: PERF_MEM_SNOOPX_SHIFT_def)
qed

end
