(* ===== verification/Net_Helpers.thy ===== *)
theory Net_Helpers
  imports Packed_Codes C_Layout
begin

text \<open>
  The functions of the network headers: link speed, ring cookies and the checks of link settings
  (\<^verbatim>\<open>ethtool.h\<close>), the number of a device behind a port (\<^verbatim>\<open>mdio.h\<close>), the length of the headers of DCCP packets
  (\<^verbatim>\<open>dccp.h\<close>), and whether ATM addresses and service access points are in use (\<^verbatim>\<open>atm.h\<close>, \<^verbatim>\<open>atmsap.h\<close>).
\<close>

section \<open>Link settings\<close>

record ethtool_cmd =
  cmd :: u32
  supported :: u32
  advertising :: u32
  speed :: u16
  duplex :: u8
  port :: u8
  phy_address :: u8
  transceiver :: u8
  autoneg :: u8
  mdio_support :: u8
  maxtxpkt :: u32
  maxrxpkt :: u32
  speed_hi :: u16
  eth_tp_mdix :: u8
  eth_tp_mdix_ctrl :: u8
  lp_advertising :: u32
  ethtool_reserved :: "u32 list"

definition ethtool_cmd_speed_set :: "ethtool_cmd \<Rightarrow> u32 \<Rightarrow> ethtool_cmd" where
  "ethtool_cmd_speed_set ep s = ep\<lparr>speed := ucast (s AND 0xFFFF), speed_hi := ucast (drop_bit 16 s)\<rparr>"

text \<open>The upper half is shifted as an \<^verbatim>\<open>int\<close>; a bit that reaches the sign is kept, as compilers do.\<close>

definition ethtool_cmd_speed :: "ethtool_cmd \<Rightarrow> u32" where
  "ethtool_cmd_speed ep = push_bit 16 (promote16 (speed_hi ep)) OR promote16 (speed ep)"

definition ETHTOOL_RX_FLOW_SPEC_RING :: u64 where "ETHTOOL_RX_FLOW_SPEC_RING = 0x00000000FFFFFFFF"
definition ETHTOOL_RX_FLOW_SPEC_RING_VF :: u64 where "ETHTOOL_RX_FLOW_SPEC_RING_VF = 0x000000FF00000000"
definition ETHTOOL_RX_FLOW_SPEC_RING_VF_OFF :: nat where "ETHTOOL_RX_FLOW_SPEC_RING_VF_OFF = 32"

definition ethtool_get_flow_spec_ring :: "u64 \<Rightarrow> u64" where
  "ethtool_get_flow_spec_ring ring_cookie = ETHTOOL_RX_FLOW_SPEC_RING AND ring_cookie"

definition ethtool_get_flow_spec_ring_vf :: "u64 \<Rightarrow> u64" where
  "ethtool_get_flow_spec_ring_vf ring_cookie =
     drop_bit ETHTOOL_RX_FLOW_SPEC_RING_VF_OFF (ETHTOOL_RX_FLOW_SPEC_RING_VF AND ring_cookie)"

definition SPEED_UNKNOWN :: c_int where "SPEED_UNKNOWN = - 1"
definition C_INT_MAX :: u32 where "C_INT_MAX = 0x7FFFFFFF"

definition ethtool_validate_speed :: "u32 \<Rightarrow> bool" where
  "ethtool_validate_speed s \<longleftrightarrow> s \<le> C_INT_MAX \<or> s = SPEED_UNKNOWN"

definition DUPLEX_HALF :: u8 where "DUPLEX_HALF = 0x00"
definition DUPLEX_FULL :: u8 where "DUPLEX_FULL = 0x01"
definition DUPLEX_UNKNOWN :: u8 where "DUPLEX_UNKNOWN = 0xff"

definition ethtool_validate_duplex :: "u8 \<Rightarrow> bool" where
  "ethtool_validate_duplex d \<longleftrightarrow> d \<in> set [DUPLEX_HALF, DUPLEX_FULL, DUPLEX_UNKNOWN]"

lemma speed_set_get: "ethtool_cmd_speed (ethtool_cmd_speed_set ep s) = s"
proof (rule bit_word_eqI)
  have m: "(0xFFFF :: u32) = mask 16" by code_simp
  show "bit (ethtool_cmd_speed (ethtool_cmd_speed_set ep s)) n \<longleftrightarrow> bit s n" if "n < LENGTH(32)" for n
    using that unfolding ethtool_cmd_speed_def ethtool_cmd_speed_set_def m
    by (cases "n < 16") (auto simp add: bit_simps promote16_def)
qed

lemma speed_get_set: "ethtool_cmd_speed_set ep (ethtool_cmd_speed ep) = ep"
proof -
  have m: "(0xFFFF :: u32) = mask 16" by code_simp
  have "ucast (ethtool_cmd_speed ep AND 0xFFFF) = speed ep" unfolding ethtool_cmd_speed_def m
    by (rule bit_word_eqI) (auto simp add: bit_simps promote16_def)
  moreover have "ucast (drop_bit 16 (ethtool_cmd_speed ep)) = speed_hi ep" unfolding ethtool_cmd_speed_def
    by (rule bit_word_eqI) (auto simp add: bit_simps promote16_def dest: bit_imp_le_length)
  ultimately show ?thesis by (simp add: ethtool_cmd_speed_set_def)
qed

lemma valid_speed_signed: "ethtool_validate_speed s \<longleftrightarrow> - 1 \<le> sint s"
proof -
  have "s \<le> C_INT_MAX \<longleftrightarrow> 0 \<le> sint s"
  proof -
    have "s \<le> C_INT_MAX \<longleftrightarrow> uint s < 2 ^ 31" by (simp add: C_INT_MAX_def word_le_def) linarith
    also have "\<dots> \<longleftrightarrow> even (uint s div 2 ^ 31)"
    proof -
      have "uint s div 2 ^ 31 < 2" "0 \<le> uint s div 2 ^ 31" using uint_lt2p [of s] by (auto simp add: pos_imp_zdiv_nonneg_iff)
      then have "uint s div 2 ^ 31 = 0 \<or> uint s div 2 ^ 31 = 1" by linarith
      then show ?thesis using uint_lt2p [of s] by auto
    qed
    also have "\<dots> \<longleftrightarrow> 0 \<le> sint s" using uint_lt2p [of s]
      by (auto simp add: sint_uint signed_take_bit_eq_take_bit_minus take_bit_int_eq_self bit_iff_odd)
    finally show ?thesis .
  qed
  moreover have "s = SPEED_UNKNOWN \<longleftrightarrow> sint s = - 1"
    by (simp add: SPEED_UNKNOWN_def) (metis signed_minus_1 signed_word_eqI)
  ultimately show ?thesis by (auto simp: ethtool_validate_speed_def)
qed

text \<open>
  A link speed is read back as it was set, in all 32 bits, setting the speed that is read changes nothing, and
  nothing but the two halves is changed by setting. A speed is valid exactly if as a signed number it is not
  below minus one. The queue and the function of a ring cookie are its lower five bytes.
\<close>

theorem ethtool_link_settings:
  "ethtool_cmd_speed (ethtool_cmd_speed_set ep s) = s \<and>
   ethtool_cmd_speed_set ep (ethtool_cmd_speed ep) = ep \<and>
   (ethtool_cmd_speed_set ep s)\<lparr>speed := speed ep, speed_hi := speed_hi ep\<rparr> = ep \<and>
   (ethtool_validate_speed s \<longleftrightarrow> - 1 \<le> sint s) \<and>
   ethtool_get_flow_spec_ring c OR push_bit 32 (ethtool_get_flow_spec_ring_vf c) = c AND mask 40 \<and>
   fits 32 (ethtool_get_flow_spec_ring c) \<and> fits 8 (ethtool_get_flow_spec_ring_vf c)"
proof (intro conjI)
  have m: "ETHTOOL_RX_FLOW_SPEC_RING = mask 32" "ETHTOOL_RX_FLOW_SPEC_RING_VF = push_bit 32 (mask 8)"
    by code_simp+
  note defs = ethtool_get_flow_spec_ring_def ethtool_get_flow_spec_ring_vf_def ETHTOOL_RX_FLOW_SPEC_RING_VF_OFF_def m
  show "ethtool_get_flow_spec_ring c OR push_bit 32 (ethtool_get_flow_spec_ring_vf c) = c AND mask 40"
    unfolding defs by (rule bit_word_eqI) (auto simp add: bit_simps)
  show "fits 32 (ethtool_get_flow_spec_ring c)" unfolding defs by (auto simp add: fits_bits bit_simps)
  show "fits 8 (ethtool_get_flow_spec_ring_vf c)" unfolding defs by (auto simp add: fits_bits bit_simps)
qed (simp_all add: speed_set_get speed_get_set valid_speed_signed, simp add: ethtool_cmd_speed_set_def)

section \<open>Devices behind a port\<close>

definition MDIO_PHY_ID_C45 :: c_int where "MDIO_PHY_ID_C45 = 0x8000"
definition MDIO_PHY_ID_PRTAD :: c_int where "MDIO_PHY_ID_PRTAD = 0x03e0"
definition MDIO_PHY_ID_DEVAD :: c_int where "MDIO_PHY_ID_DEVAD = 0x001f"
definition MDIO_PHY_ID_C45_MASK :: c_int where
  "MDIO_PHY_ID_C45_MASK = MDIO_PHY_ID_C45 OR MDIO_PHY_ID_PRTAD OR MDIO_PHY_ID_DEVAD"

definition mdio_phy_id_c45 :: "c_int \<Rightarrow> c_int \<Rightarrow> u16" where
  "mdio_phy_id_c45 prtad devad = ucast (MDIO_PHY_ID_C45 OR push_bit 5 prtad OR devad)"

text \<open>
  The number of a device holds its port address and its device address under their masks and the mark of
  clause 45, and nothing else.
\<close>

theorem mdio_phy_id_parts:
  assumes "fits 5 prtad" "fits 5 devad"
  shows "promote16 (mdio_phy_id_c45 prtad devad) AND MDIO_PHY_ID_PRTAD = push_bit 5 prtad \<and>
    promote16 (mdio_phy_id_c45 prtad devad) AND MDIO_PHY_ID_DEVAD = devad \<and>
    promote16 (mdio_phy_id_c45 prtad devad) AND MDIO_PHY_ID_C45 = MDIO_PHY_ID_C45 \<and>
    promote16 (mdio_phy_id_c45 prtad devad) AND NOT MDIO_PHY_ID_C45_MASK = 0"
proof -
  have c: "MDIO_PHY_ID_C45 = push_bit 15 1" "MDIO_PHY_ID_PRTAD = push_bit 5 (mask 5)" "MDIO_PHY_ID_DEVAD = mask 5"
    by code_simp+
  have mark: "bit MDIO_PHY_ID_C45 n \<longleftrightarrow> n = 15" for n unfolding c(1) bit_push_bit_iff bit_1_iff by auto
  have prt: "bit MDIO_PHY_ID_PRTAD n \<longleftrightarrow> 5 \<le> n \<and> n < 10" for n
    unfolding c(2) bit_push_bit_iff bit_mask_iff by auto
  have dev: "bit MDIO_PHY_ID_DEVAD n \<longleftrightarrow> n < 5" for n unfolding c(3) bit_mask_iff by auto
  have d: "n < 5" if "bit devad n" for n using fits_bitD [OF assms(2) that] .
  have p: "5 \<le> n \<and> n < 10" if "bit (push_bit 5 prtad) n" for n
    using that fits_bitD [OF assms(1), of "n - 5"] by (auto simp add: bit_push_bit_iff)
  have id: "bit (promote16 (mdio_phy_id_c45 prtad devad)) n \<longleftrightarrow> n = 15 \<or> bit (push_bit 5 prtad) n \<or> bit devad n" for n
    unfolding promote16_def mdio_phy_id_c45_def bit_ucast_iff bit_or_iff mark using d [of n] p [of n] by auto
  note bits = bit_and_iff bit_or_iff id mark prt dev
  show ?thesis
  proof (intro conjI bit_word_eqI)
    fix n :: nat assume n: "n < LENGTH(32)"
    show "bit (promote16 (mdio_phy_id_c45 prtad devad) AND MDIO_PHY_ID_PRTAD) n \<longleftrightarrow> bit (push_bit 5 prtad) n"
      unfolding bits using d [of n] p [of n] by auto
    show "bit (promote16 (mdio_phy_id_c45 prtad devad) AND MDIO_PHY_ID_DEVAD) n \<longleftrightarrow> bit devad n"
      unfolding bits using d [of n] p [of n] by auto
    show "bit (promote16 (mdio_phy_id_c45 prtad devad) AND MDIO_PHY_ID_C45) n \<longleftrightarrow> bit MDIO_PHY_ID_C45 n"
      unfolding bits by auto
    show "bit (promote16 (mdio_phy_id_c45 prtad devad) AND NOT MDIO_PHY_ID_C45_MASK) n \<longleftrightarrow> bit (0 :: c_int) n"
      unfolding MDIO_PHY_ID_C45_MASK_def bits bit_not_iff using d [of n] p [of n] by auto
  qed
qed

theorem mdio_phy_id_parts_witness:
  "fits 5 (3 :: c_int) \<and> fits 5 (7 :: c_int) \<and>
   promote16 (mdio_phy_id_c45 3 7) AND MDIO_PHY_ID_PRTAD = push_bit 5 3 \<and>
   promote16 (mdio_phy_id_c45 3 7) AND MDIO_PHY_ID_DEVAD = 7"
proof -
  have f: "fits 5 (3 :: c_int)" "fits 5 (7 :: c_int)" by code_simp+
  from mdio_phy_id_parts [OF f] show ?thesis using f by blast
qed

section \<open>Headers of DCCP packets\<close>

definition dccp_hdr_ext :: ctype where "dccp_hdr_ext = c_struct [(''dccph_seq_low'', u32_t)]"
definition dccp_hdr_request :: ctype where "dccp_hdr_request = c_struct [(''dccph_req_service'', u32_t)]"

definition dccp_hdr_ack_bits :: ctype where
  "dccp_hdr_ack_bits =
    c_struct [(''dccph_reserved1'', u16_t), (''dccph_ack_nr_high'', u16_t), (''dccph_ack_nr_low'', u32_t)]"

definition dccp_hdr_response :: ctype where
  "dccp_hdr_response = c_struct [(''dccph_resp_ack'', dccp_hdr_ack_bits), (''dccph_resp_service'', u32_t)]"

definition dccp_hdr_reset :: ctype where
  "dccp_hdr_reset = c_struct [(''dccph_reset_ack'', dccp_hdr_ack_bits), (''dccph_reset_code'', u8_t),
    (''dccph_reset_data'', Arr u8_t 3)]"

definition DCCP_PKT_REQUEST :: u8 where "DCCP_PKT_REQUEST = 0"
definition DCCP_PKT_RESPONSE :: u8 where "DCCP_PKT_RESPONSE = 1"
definition DCCP_PKT_DATA :: u8 where "DCCP_PKT_DATA = 2"
definition DCCP_PKT_ACK :: u8 where "DCCP_PKT_ACK = 3"
definition DCCP_PKT_DATAACK :: u8 where "DCCP_PKT_DATAACK = 4"
definition DCCP_PKT_CLOSEREQ :: u8 where "DCCP_PKT_CLOSEREQ = 5"
definition DCCP_PKT_CLOSE :: u8 where "DCCP_PKT_CLOSE = 6"
definition DCCP_PKT_RESET :: u8 where "DCCP_PKT_RESET = 7"
definition DCCP_PKT_SYNC :: u8 where "DCCP_PKT_SYNC = 8"
definition DCCP_PKT_SYNCACK :: u8 where "DCCP_PKT_SYNCACK = 9"
definition DCCP_PKT_INVALID :: u8 where "DCCP_PKT_INVALID = 10"
definition DCCP_NR_PKT_TYPES :: u8 where "DCCP_NR_PKT_TYPES = DCCP_PKT_INVALID"

definition dccp_packet_hdr_len :: "u8 \<Rightarrow> u32" where
  "dccp_packet_hdr_len type =
    (if type = DCCP_PKT_DATA then 0
     else if type = DCCP_PKT_DATAACK \<or> type = DCCP_PKT_ACK \<or> type = DCCP_PKT_SYNC \<or> type = DCCP_PKT_SYNCACK \<or>
       type = DCCP_PKT_CLOSE \<or> type = DCCP_PKT_CLOSEREQ then word_of_nat (sizeof 8 dccp_hdr_ack_bits)
     else if type = DCCP_PKT_REQUEST then word_of_nat (sizeof 8 dccp_hdr_request)
     else if type = DCCP_PKT_RESPONSE then word_of_nat (sizeof 8 dccp_hdr_response)
     else word_of_nat (sizeof 8 dccp_hdr_reset))"

text \<open>
  The lengths of the headers of the ten types as RFC 4340 draws them, in 32-bit words: two words for the acknowledgement number,
  one for a service code, one for the code and data of a reset. A type that does not exist counts as a reset.
\<close>

definition dccp_words :: "u8 \<Rightarrow> u32" where
  "dccp_words t = (if t < DCCP_NR_PKT_TYPES then [1, 3, 0, 2, 2, 2, 2, 3, 2, 2] ! unat t else 3)"

lemma dccp_header_lengths: "dccp_packet_hdr_len t = 4 * dccp_words t"
proof -
  have "list_all (\<lambda>n. dccp_packet_hdr_len (word_of_nat n) = 4 * dccp_words (word_of_nat n)) [0..<256]" by code_simp
  moreover have "unat t \<in> set [0..<256]" using unsigned_less [of t] by simp
  ultimately have "dccp_packet_hdr_len (word_of_nat (unat t)) = 4 * dccp_words (word_of_nat (unat t))"
    by (simp only: list_all_iff)
  then show ?thesis by simp
qed

section \<open>Addresses in use\<close>

record sockaddr_atmsvc =
  sas_family :: u16
  sas_prv :: "u8 list"
  sas_pub :: "u8 list"
  sas_lij_type :: u8
  sas_lij_id :: u32

record sockaddr_atmpvc =
  sap_family :: u16
  sap_itf :: u16
  sap_vpi :: u16
  sap_vci :: c_int

definition atmsvc_addr_in_use :: "sockaddr_atmsvc \<Rightarrow> bool option" where
  "atmsvc_addr_in_use addr = do {
     p \<leftarrow> rd (sas_prv addr) 0;
     if p \<noteq> 0 then Some True else do { q \<leftarrow> rd (sas_pub addr) 0; Some (q \<noteq> 0) }
   }"

definition atmpvc_addr_in_use :: "sockaddr_atmpvc \<Rightarrow> bool" where
  "atmpvc_addr_in_use addr \<longleftrightarrow> sap_itf addr \<noteq> 0 \<or> sap_vpi addr \<noteq> 0 \<or> sap_vci addr \<noteq> 0"

record atm_blli =
  l2_proto :: u8
  l2_info :: "u8 list"
  l3_proto :: u8
  l3_info :: "u8 list"

definition blli_in_use :: "atm_blli \<Rightarrow> bool" where
  "blli_in_use blli \<longleftrightarrow> l2_proto blli \<noteq> 0 \<or> l3_proto blli \<noteq> 0"

text \<open>An address cleared with zeros, as unused addresses must be, is not in use.\<close>

lemma cleared_not_in_use:
  assumes "sas_prv a = replicate 20 0" "sas_pub a = replicate 13 0"
  shows "atmsvc_addr_in_use a = Some False"
  using assms by (simp add: atmsvc_addr_in_use_def rd_def)

end
