(* ===== verification/Host_Helpers.thy ===== *)
theory Host_Helpers
  imports Packed_Codes C_Layout Uapi_Memory
begin

text \<open>
  The remaining functions: handles of remote coverage (\<^verbatim>\<open>kcov.h\<close>), the wake-up flag of event polling
  (\<^verbatim>\<open>eventpoll.h\<close>), the types of mounts and the argument of the control device of the automounter
  (\<^verbatim>\<open>auto_fs.h\<close>, \<^verbatim>\<open>auto_dev-ioctl.h\<close>), the kind of a flash device (\<^verbatim>\<open>mtd-abi.h\<close>), the flags of raw USB transfers
  (\<^verbatim>\<open>usb/raw_gadget.h\<close>), the names of the commands of memory modules (\<^verbatim>\<open>ndctl.h\<close>) and the times of video buffers
  (\<^verbatim>\<open>videodev2.h\<close>).
\<close>

section \<open>Handles of remote coverage\<close>

definition KCOV_SUBSYSTEM_COMMON :: u64 where "KCOV_SUBSYSTEM_COMMON = push_bit 56 0x00"
definition KCOV_SUBSYSTEM_USB :: u64 where "KCOV_SUBSYSTEM_USB = push_bit 56 0x01"
definition KCOV_SUBSYSTEM_MASK :: u64 where "KCOV_SUBSYSTEM_MASK = push_bit 56 0xff"
definition KCOV_INSTANCE_MASK :: u64 where "KCOV_INSTANCE_MASK = 0xffffffff"

definition kcov_remote_handle :: "u64 \<Rightarrow> u64 \<Rightarrow> u64" where
  "kcov_remote_handle subsys inst =
    (if subsys AND NOT KCOV_SUBSYSTEM_MASK \<noteq> 0 \<or> inst AND NOT KCOV_INSTANCE_MASK \<noteq> 0 then 0 else subsys OR inst)"

lemma in_mask: "x AND NOT m = 0 \<longleftrightarrow> x AND m = (x :: 'a::len word)"
proof
  show "x AND NOT m = 0" if "x AND m = x"
  proof -
    have "(x AND m) AND NOT m = 0" by (rule bit_word_eqI) (auto simp add: bit_simps)
    then show ?thesis unfolding that .
  qed
  assume z: "x AND NOT m = 0"
  have "x = (x AND m) OR (x AND NOT m)" by (rule bit_word_eqI) (auto simp add: bit_simps)
  then show "x AND m = x" using z by simp
qed

text \<open>
  A subsystem and an instance within their masks give a handle from which both are read back; anything else
  gives zero.
\<close>

theorem kcov_handle_parts:
  "(subsys AND NOT KCOV_SUBSYSTEM_MASK = 0 \<and> inst AND NOT KCOV_INSTANCE_MASK = 0 \<and>
     kcov_remote_handle subsys inst AND KCOV_SUBSYSTEM_MASK = subsys \<and>
     kcov_remote_handle subsys inst AND KCOV_INSTANCE_MASK = inst) \<or>
   ((subsys AND NOT KCOV_SUBSYSTEM_MASK, inst AND NOT KCOV_INSTANCE_MASK) \<noteq> (0, 0) \<and>
     kcov_remote_handle subsys inst = 0)"
proof (cases "subsys AND NOT KCOV_SUBSYSTEM_MASK = 0 \<and> inst AND NOT KCOV_INSTANCE_MASK = 0")
  case True
  have apart: "KCOV_SUBSYSTEM_MASK AND KCOV_INSTANCE_MASK = 0" by code_simp
  have s: "subsys AND KCOV_SUBSYSTEM_MASK = subsys" "inst AND KCOV_INSTANCE_MASK = inst"
    using True by (simp_all add: in_mask)
  have "(inst AND KCOV_INSTANCE_MASK) AND KCOV_SUBSYSTEM_MASK = 0" "(subsys AND KCOV_SUBSYSTEM_MASK) AND KCOV_INSTANCE_MASK = 0"
    unfolding and.assoc using apart by (simp_all only: and.commute [of KCOV_INSTANCE_MASK] and_zero_eq)
  then have "inst AND KCOV_SUBSYSTEM_MASK = 0" "subsys AND KCOV_INSTANCE_MASK = 0" unfolding s .
  then show ?thesis using True s by (simp add: kcov_remote_handle_def bit.conj_disj_distrib2)
qed (auto simp add: kcov_remote_handle_def)

section \<open>The wake-up flag\<close>

record epoll_event =
  events :: u32
  data :: u64

definition EPOLLWAKEUP :: u32 where "EPOLLWAKEUP = push_bit 29 1"
definition CAP_BLOCK_SUSPEND :: int where "CAP_BLOCK_SUSPEND = 36"

text \<open>
  The function exists in two versions, with and without support for sleeping. \<^verbatim>\<open>capable\<close> belongs to the kernel
  and is an argument.
\<close>

definition ep_take_care_of_epollwakeup :: "bool \<Rightarrow> (int \<Rightarrow> bool) \<Rightarrow> epoll_event \<Rightarrow> epoll_event" where
  "ep_take_care_of_epollwakeup config_pm_sleep capable epev =
    (if config_pm_sleep
     then if events epev AND EPOLLWAKEUP \<noteq> 0 \<and> \<not> capable CAP_BLOCK_SUSPEND
       then epev\<lparr>events := events epev AND NOT EPOLLWAKEUP\<rparr> else epev
     else epev\<lparr>events := events epev AND NOT EPOLLWAKEUP\<rparr>)"

text \<open>
  The wake-up flag of an event is kept exactly where sleeping is supported and the process may block it; every
  other flag and the data stay.
\<close>

lemma epollwakeup_kept:
  "bit (events (ep_take_care_of_epollwakeup pm capable ev)) n \<longleftrightarrow>
     bit (events ev) n \<and> (n = 29 \<longrightarrow> pm \<and> capable CAP_BLOCK_SUSPEND)"
  "data (ep_take_care_of_epollwakeup pm capable ev) = data ev"
proof -
  have b: "bit (EPOLLWAKEUP :: u32) k \<longleftrightarrow> k = 29" for k
    unfolding EPOLLWAKEUP_def bit_push_bit_iff bit_1_iff by auto
  have z: "events ev AND EPOLLWAKEUP \<noteq> 0 \<longleftrightarrow> bit (events ev) 29"
    unfolding EPOLLWAKEUP_def by (simp add: bit_iff_and_push_bit_not_eq_0)
  show "bit (events (ep_take_care_of_epollwakeup pm capable ev)) n \<longleftrightarrow>
     bit (events ev) n \<and> (n = 29 \<longrightarrow> pm \<and> capable CAP_BLOCK_SUSPEND)"
    using bit_imp_le_length [of "events ev" n] z
    by (auto simp add: ep_take_care_of_epollwakeup_def bit_and_iff bit_not_iff b)
  show "data (ep_take_care_of_epollwakeup pm capable ev) = data ev" by (simp add: ep_take_care_of_epollwakeup_def)
qed

section \<open>The automounter\<close>

definition AUTOFS_TYPE_ANY :: u32 where "AUTOFS_TYPE_ANY = 0"
definition AUTOFS_TYPE_INDIRECT :: u32 where "AUTOFS_TYPE_INDIRECT = 1"
definition AUTOFS_TYPE_DIRECT :: u32 where "AUTOFS_TYPE_DIRECT = 2"
definition AUTOFS_TYPE_OFFSET :: u32 where "AUTOFS_TYPE_OFFSET = 4"

text \<open>The setters assign through a pointer; here they give the new value of the variable.\<close>

definition set_autofs_type_indirect :: "u32 \<Rightarrow> u32" where "set_autofs_type_indirect type = AUTOFS_TYPE_INDIRECT"
definition autofs_type_indirect :: "u32 \<Rightarrow> bool" where "autofs_type_indirect type \<longleftrightarrow> type = AUTOFS_TYPE_INDIRECT"
definition set_autofs_type_direct :: "u32 \<Rightarrow> u32" where "set_autofs_type_direct type = AUTOFS_TYPE_DIRECT"
definition autofs_type_direct :: "u32 \<Rightarrow> bool" where "autofs_type_direct type \<longleftrightarrow> type = AUTOFS_TYPE_DIRECT"
definition set_autofs_type_offset :: "u32 \<Rightarrow> u32" where "set_autofs_type_offset type = AUTOFS_TYPE_OFFSET"
definition autofs_type_offset :: "u32 \<Rightarrow> bool" where "autofs_type_offset type \<longleftrightarrow> type = AUTOFS_TYPE_OFFSET"
definition autofs_type_trigger :: "u32 \<Rightarrow> bool" where
  "autofs_type_trigger type \<longleftrightarrow> type = AUTOFS_TYPE_DIRECT \<or> type = AUTOFS_TYPE_OFFSET"
definition set_autofs_type_any :: "u32 \<Rightarrow> u32" where "set_autofs_type_any type = AUTOFS_TYPE_ANY"
definition autofs_type_any :: "u32 \<Rightarrow> bool" where "autofs_type_any type \<longleftrightarrow> type = AUTOFS_TYPE_ANY"

lemma autofs_types_distinct:
  "map (\<lambda>q. map q (map (\<lambda>s. s t) [set_autofs_type_any, set_autofs_type_indirect, set_autofs_type_direct,
      set_autofs_type_offset])) [autofs_type_any, autofs_type_indirect, autofs_type_direct, autofs_type_offset,
      autofs_type_trigger] =
   [[True, False, False, False], [False, True, False, False], [False, False, True, False], [False, False, False, True],
    [False, False, True, True]]"
  by code_simp

definition args_protover :: ctype where "args_protover = c_struct [(''version'', u32_t)]"
definition args_protosubver :: ctype where "args_protosubver = c_struct [(''sub_version'', u32_t)]"
definition args_openmount :: ctype where "args_openmount = c_struct [(''devid'', u32_t)]"
definition args_ready :: ctype where "args_ready = c_struct [(''token'', u32_t)]"
definition args_fail :: ctype where "args_fail = c_struct [(''token'', u32_t), (''status'', u32_t)]"
definition args_setpipefd :: ctype where "args_setpipefd = c_struct [(''pipefd'', u32_t)]"
definition args_timeout :: ctype where "args_timeout = c_struct [(''timeout'', u64_t)]"
definition args_requester :: ctype where "args_requester = c_struct [(''uid'', u32_t), (''gid'', u32_t)]"
definition args_expire :: ctype where "args_expire = c_struct [(''how'', u32_t)]"
definition args_askumount :: ctype where "args_askumount = c_struct [(''may_umount'', u32_t)]"
definition args_ismountpoint :: ctype where
  "args_ismountpoint = c_struct [(''u'', c_union [(''in'', c_struct [(''type'', u32_t)]),
    (''out'', c_struct [(''devid'', u32_t), (''magic'', u32_t)])])]"

definition autofs_dev_ioctl :: ctype where
  "autofs_dev_ioctl = c_struct [(''ver_major'', u32_t), (''ver_minor'', u32_t), (''size'', u32_t), (''ioctlfd'', u32_t),
    (''args'', c_union [(''protover'', args_protover), (''protosubver'', args_protosubver),
      (''openmount'', args_openmount), (''ready'', args_ready), (''fail'', args_fail), (''setpipefd'', args_setpipefd),
      (''timeout'', args_timeout), (''requester'', args_requester), (''expire'', args_expire),
      (''askumount'', args_askumount), (''ismountpoint'', args_ismountpoint)]), (''path'', Arr u8_t 0)]"

definition AUTOFS_DEV_IOCTL_VERSION_MAJOR :: u32 where "AUTOFS_DEV_IOCTL_VERSION_MAJOR = 1"
definition AUTOFS_DEV_IOCTL_VERSION_MINOR :: u32 where "AUTOFS_DEV_IOCTL_VERSION_MINOR = 1"
definition AUTOFS_DEV_IOCTL_SIZE :: "nat \<Rightarrow> nat" where "AUTOFS_DEV_IOCTL_SIZE amax = sizeof amax autofs_dev_ioctl"

text \<open>On a host whose largest alignment is \<open>amax\<close>; the pointer is an offset into memory.\<close>

definition init_autofs_dev_ioctl :: "nat \<Rightarrow> endian \<Rightarrow> u8 list \<Rightarrow> nat \<Rightarrow> u8 list option" where
  "init_autofs_dev_ioctl amax e mem p = do {
     mem \<leftarrow> wrn mem p (replicate (AUTOFS_DEV_IOCTL_SIZE amax) 0);
     mem \<leftarrow> store e mem p AUTOFS_DEV_IOCTL_VERSION_MAJOR;
     mem \<leftarrow> store e mem (p + 4) AUTOFS_DEV_IOCTL_VERSION_MINOR;
     mem \<leftarrow> store e mem (p + 8) (word_of_nat (AUTOFS_DEV_IOCTL_SIZE amax) :: u32);
     store e mem (p + 12) (- 1 :: u32)
   }"

lemma autofs_sizes: "AUTOFS_DEV_IOCTL_SIZE 4 = 24" "AUTOFS_DEV_IOCTL_SIZE 8 = 24"
  by code_simp+

text \<open>
  The argument of the control device is set up inside its 24 bytes on every host: version 1.1, the size, no
  file descriptor, and zeros for the parameters; the memory around it is kept. Less memory than that is not
  enough.
\<close>

theorem autofs_argument_initialised:
  assumes "length buf = 24" "amax = 4 \<or> amax = 8"
  shows "init_autofs_dev_ioctl amax e (pre @ buf @ post) (length pre) =
      Some (pre @ (bytes_of e (1 :: u32) @ bytes_of e (1 :: u32) @ bytes_of e (24 :: u32) @ bytes_of e (- 1 :: u32) @
        replicate 8 0) @ post) \<and>
    (n < 24 \<longrightarrow> init_autofs_dev_ioctl amax e (pre @ replicate n b) (length pre) = None)"
proof (intro conjI impI)
  have size: "AUTOFS_DEV_IOCTL_SIZE amax = 24" using assms(2) autofs_sizes by auto
  have clear: "wrn (pre @ buf @ post) (length pre) (replicate 24 0) = Some (pre @ replicate 24 0 @ post)"
    using assms(1) by (simp add: wrn_def)
  show "init_autofs_dev_ioctl amax e (pre @ buf @ post) (length pre) =
      Some (pre @ (bytes_of e (1 :: u32) @ bytes_of e (1 :: u32) @ bytes_of e (24 :: u32) @ bytes_of e (- 1 :: u32) @
        replicate 8 0) @ post)"
    unfolding init_autofs_dev_ioctl_def size clear
    by (simp add: store_def wrn_def AUTOFS_DEV_IOCTL_VERSION_MAJOR_def AUTOFS_DEV_IOCTL_VERSION_MINOR_def)
  show "init_autofs_dev_ioctl amax e (pre @ replicate n b) (length pre) = None" if "n < 24"
    using that by (simp add: init_autofs_dev_ioctl_def size wrn_def)
qed

theorem autofs_argument_initialised_witness:
  "init_autofs_dev_ioctl 8 Little (replicate 26 7) 1 =
    Some (7 # [1, 0, 0, 0, 1, 0, 0, 0, 24, 0, 0, 0, 255, 255, 255, 255, 0, 0, 0, 0, 0, 0, 0, 0] @ [7])"
proof -
  have "bytes_of Little (1 :: u32) = [1, 0, 0, 0]" "bytes_of Little (24 :: u32) = [24, 0, 0, 0]"
    "bytes_of Little (- 1 :: u32) = [255, 255, 255, 255]" "replicate 26 (7 :: u8) = [7] @ replicate 24 7 @ [7]"
    "replicate 8 (0 :: u8) = [0, 0, 0, 0, 0, 0, 0, 0]"
    by code_simp+
  then show ?thesis using autofs_argument_initialised [of "replicate 24 7" 8 Little "[7]" "[7]"] by simp
qed

section \<open>Kinds and flags\<close>

definition MTD_NANDFLASH :: u8 where "MTD_NANDFLASH = 4"
definition MTD_MLCNANDFLASH :: u8 where "MTD_MLCNANDFLASH = 8"

record mtd_info_user =
  mtd_type :: u8
  mtd_flags :: u32
  mtd_size :: u32
  mtd_erasesize :: u32
  mtd_writesize :: u32
  mtd_oobsize :: u32
  mtd_padding :: u64

definition mtd_type_is_nand_user :: "mtd_info_user \<Rightarrow> bool" where
  "mtd_type_is_nand_user mtd \<longleftrightarrow> mtd_type mtd = MTD_NANDFLASH \<or> mtd_type mtd = MTD_MLCNANDFLASH"

definition USB_RAW_IO_FLAGS_ZERO :: c_int where "USB_RAW_IO_FLAGS_ZERO = 0x0001"
definition USB_RAW_IO_FLAGS_MASK :: c_int where "USB_RAW_IO_FLAGS_MASK = 0x0001"

definition usb_raw_io_flags_valid :: "u16 \<Rightarrow> bool" where
  "usb_raw_io_flags_valid flags \<longleftrightarrow> promote16 flags AND NOT USB_RAW_IO_FLAGS_MASK = 0"

definition usb_raw_io_flags_zero :: "u16 \<Rightarrow> c_int" where
  "usb_raw_io_flags_zero flags = promote16 flags AND USB_RAW_IO_FLAGS_ZERO"

text \<open>Flags are valid exactly if they say no more than whether to send a zero-length packet.\<close>

lemma raw_flags_valid: "usb_raw_io_flags_valid f \<longleftrightarrow> promote16 f = usb_raw_io_flags_zero f"
  unfolding usb_raw_io_flags_valid_def usb_raw_io_flags_zero_def in_mask USB_RAW_IO_FLAGS_MASK_def
    USB_RAW_IO_FLAGS_ZERO_def by (rule eq_commute)

section \<open>Commands of memory modules\<close>

definition ND_CMD_ARS_CAP :: u32 where "ND_CMD_ARS_CAP = 1"
definition ND_CMD_ARS_START :: u32 where "ND_CMD_ARS_START = 2"
definition ND_CMD_ARS_STATUS :: u32 where "ND_CMD_ARS_STATUS = 3"
definition ND_CMD_CLEAR_ERROR :: u32 where "ND_CMD_CLEAR_ERROR = 4"
definition ND_CMD_SMART :: u32 where "ND_CMD_SMART = 1"
definition ND_CMD_SMART_THRESHOLD :: u32 where "ND_CMD_SMART_THRESHOLD = 2"
definition ND_CMD_DIMM_FLAGS :: u32 where "ND_CMD_DIMM_FLAGS = 3"
definition ND_CMD_GET_CONFIG_SIZE :: u32 where "ND_CMD_GET_CONFIG_SIZE = 4"
definition ND_CMD_GET_CONFIG_DATA :: u32 where "ND_CMD_GET_CONFIG_DATA = 5"
definition ND_CMD_SET_CONFIG_DATA :: u32 where "ND_CMD_SET_CONFIG_DATA = 6"
definition ND_CMD_VENDOR_EFFECT_LOG_SIZE :: u32 where "ND_CMD_VENDOR_EFFECT_LOG_SIZE = 7"
definition ND_CMD_VENDOR_EFFECT_LOG :: u32 where "ND_CMD_VENDOR_EFFECT_LOG = 8"
definition ND_CMD_VENDOR :: u32 where "ND_CMD_VENDOR = 9"
definition ND_CMD_CALL :: u32 where "ND_CMD_CALL = 10"

definition nvdimm_bus_cmd_name :: "u32 \<Rightarrow> string" where
  "nvdimm_bus_cmd_name c =
    (if c = ND_CMD_ARS_CAP then ''ars_cap''
     else if c = ND_CMD_ARS_START then ''ars_start''
     else if c = ND_CMD_ARS_STATUS then ''ars_status''
     else if c = ND_CMD_CLEAR_ERROR then ''clear_error''
     else if c = ND_CMD_CALL then ''cmd_call''
     else ''unknown'')"

definition nvdimm_cmd_name :: "u32 \<Rightarrow> string" where
  "nvdimm_cmd_name c =
    (if c = ND_CMD_SMART then ''smart''
     else if c = ND_CMD_SMART_THRESHOLD then ''smart_thresh''
     else if c = ND_CMD_DIMM_FLAGS then ''flags''
     else if c = ND_CMD_GET_CONFIG_SIZE then ''get_size''
     else if c = ND_CMD_GET_CONFIG_DATA then ''get_data''
     else if c = ND_CMD_SET_CONFIG_DATA then ''set_data''
     else if c = ND_CMD_VENDOR_EFFECT_LOG_SIZE then ''effect_size''
     else if c = ND_CMD_VENDOR_EFFECT_LOG then ''effect_log''
     else if c = ND_CMD_VENDOR then ''vendor''
     else if c = ND_CMD_CALL then ''cmd_call''
     else ''unknown'')"

text \<open>Commands of the bus and of a module with the same number have different names, but for the call.\<close>

lemma nvdimm_names:
  "distinct (map (nvdimm_cmd_name \<circ> word_of_nat) [0..<11])"
  "distinct (map (nvdimm_bus_cmd_name \<circ> word_of_nat) [0, 1, 2, 3, 4, 10])"
  "map (\<lambda>n. nvdimm_cmd_name (word_of_nat n) = nvdimm_bus_cmd_name (word_of_nat n)) [1, 2, 3, 4, 10] =
    [False, False, False, False, True]"
  by code_simp+

section \<open>Times of video buffers\<close>

text \<open>
  The arguments are the members of the structure the pointer refers to. \<^verbatim>\<open>long\<close> has the width \<open>'l\<close>; the product with
  the microseconds is taken in this width.
\<close>

definition v4l2_timeval_to_ns :: "'l::len word \<Rightarrow> 'l word \<Rightarrow> u64" where
  "v4l2_timeval_to_ns tv_sec tv_usec = scast tv_sec * 1000000000 + scast (tv_usec * 1000)"

lemma scast_uint: "0 \<le> sint x \<Longrightarrow> sint (x :: 'l::len word) < 2 ^ 64 \<Longrightarrow> uint (scast x :: u64) = sint x"
proof -
  assume x: "0 \<le> sint x" "sint x < 2 ^ 64"
  have "(scast x :: u64) = word_of_int (sint x)" by simp
  then show "uint (scast x :: u64) = sint x" using x uint_word_of_int [of "sint x", where 'a = 64]
    by (simp only: mod_pos_pos_trivial) simp
qed

text \<open>
  The time of a buffer in nanoseconds is exact for every time of less than 18446744073 seconds with a
  fraction below one second, on hosts with a \<^verbatim>\<open>long\<close> of 32 or 64 bits.
\<close>

theorem v4l2_timeval_exact:
  fixes sec usec :: "'l::len word"
  assumes "32 \<le> LENGTH('l)" "0 \<le> sint sec" "sint sec < 18446744073" "0 \<le> sint usec"
    "sint usec < 1000000"
  shows "uint (v4l2_timeval_to_ns sec usec) = sint sec * 1000000000 + sint usec * 1000"
proof -
  have "(2 :: int) ^ 31 \<le> 2 ^ (LENGTH('l) - 1)" using assms(1) by (intro power_increasing) auto
  then have "sint usec * 1000 < 2 ^ (LENGTH('l) - 1)" using assms(5) by simp
  moreover have "sint (1000 :: 'l word) = 1000"
    using \<open>2 ^ 31 \<le> 2 ^ (LENGTH('l) - 1)\<close> by (simp add: signed_take_bit_int_eq_self sint_sbintrunc')
  ultimately have u: "sint (usec * 1000) = sint usec * 1000"
    using assms(4) unfolding sint_word_ariths by (simp add: signed_take_bit_int_eq_self)
  have s: "uint (scast sec :: u64) = sint sec" using assms(2,3) by (intro scast_uint) auto
  have m: "uint (scast (usec * 1000) :: u64) = sint usec * 1000"
    using assms(4,5) u scast_uint [of "usec * 1000"] by simp
  have "sint sec * 1000000000 + sint usec * 1000 < 2 ^ 64" using assms(3,5) by simp
  then show ?thesis unfolding v4l2_timeval_to_ns_def
    using assms(2,4) by (simp add: uint_word_ariths s m mod_simps)
qed

theorem v4l2_timeval_exact_witness:
  "uint (v4l2_timeval_to_ns (1700000000 :: 32 word) 999999) = 1700000000999999000"
  using v4l2_timeval_exact [of "1700000000 :: 32 word" 999999] by simp

end
