(* ===== verification/Sound_Tlv.thy ===== *)
theory Sound_Tlv
  imports Packed_Codes C_Object
begin

text \<open>
  The TLV items with which drivers describe mixer controls (\<^verbatim>\<open>include/sound/tlv.h\<close>): arrays of \<^verbatim>\<open>unsigned int\<close>, written by
  macros that may be nested, as items in containers. The arguments of a macro are a list of words; integer
  arguments that may be negative are their 32-bit values. An item is read the way the header documents: its type, its
  length in bytes, and the data, whose length is rounded up to whole words.
\<close>

section \<open>Items\<close>

definition SNDRV_CTL_TLVT_CONTAINER :: u32 where "SNDRV_CTL_TLVT_CONTAINER = 0"
definition SNDRV_CTL_TLVT_DB_SCALE :: u32 where "SNDRV_CTL_TLVT_DB_SCALE = 1"
definition SNDRV_CTL_TLVT_DB_LINEAR :: u32 where "SNDRV_CTL_TLVT_DB_LINEAR = 2"
definition SNDRV_CTL_TLVT_DB_RANGE :: u32 where "SNDRV_CTL_TLVT_DB_RANGE = 3"
definition SNDRV_CTL_TLVT_DB_MINMAX :: u32 where "SNDRV_CTL_TLVT_DB_MINMAX = 4"
definition SNDRV_CTL_TLVT_DB_MINMAX_MUTE :: u32 where "SNDRV_CTL_TLVT_DB_MINMAX_MUTE = 5"

definition SNDRV_CTL_TLVD_LENGTH :: "u32 list \<Rightarrow> u32" where
  "SNDRV_CTL_TLVD_LENGTH va_args = word_of_nat (4 * length va_args)"

definition SNDRV_CTL_TLVD_ITEM :: "u32 \<Rightarrow> u32 list \<Rightarrow> u32 list" where
  "SNDRV_CTL_TLVD_ITEM type va_args = [type, SNDRV_CTL_TLVD_LENGTH va_args] @ va_args"

definition SNDRV_CTL_TLVO_TYPE :: nat where "SNDRV_CTL_TLVO_TYPE = 0"
definition SNDRV_CTL_TLVO_LEN :: nat where "SNDRV_CTL_TLVO_LEN = 1"

definition SNDRV_CTL_TLVD_CONTAINER_ITEM :: "u32 list \<Rightarrow> u32 list" where
  "SNDRV_CTL_TLVD_CONTAINER_ITEM va_args = SNDRV_CTL_TLVD_ITEM SNDRV_CTL_TLVT_CONTAINER va_args"

definition SNDRV_CTL_TLVD_DECLARE_CONTAINER :: "u32 list \<Rightarrow> u32 list" where
  "SNDRV_CTL_TLVD_DECLARE_CONTAINER va_args = SNDRV_CTL_TLVD_CONTAINER_ITEM va_args"

definition SNDRV_CTL_TLVD_DB_SCALE_MASK :: u32 where "SNDRV_CTL_TLVD_DB_SCALE_MASK = 0xffff"
definition SNDRV_CTL_TLVD_DB_SCALE_MUTE :: u32 where "SNDRV_CTL_TLVD_DB_SCALE_MUTE = 0x10000"

definition SNDRV_CTL_TLVD_DB_SCALE_ITEM :: "u32 \<Rightarrow> u32 \<Rightarrow> bool \<Rightarrow> u32 list" where
  "SNDRV_CTL_TLVD_DB_SCALE_ITEM mn step mute = SNDRV_CTL_TLVD_ITEM SNDRV_CTL_TLVT_DB_SCALE
     [mn, (step AND SNDRV_CTL_TLVD_DB_SCALE_MASK) OR (if mute then SNDRV_CTL_TLVD_DB_SCALE_MUTE else 0)]"

definition SNDRV_CTL_TLVD_DECLARE_DB_SCALE :: "u32 \<Rightarrow> u32 \<Rightarrow> bool \<Rightarrow> u32 list" where
  "SNDRV_CTL_TLVD_DECLARE_DB_SCALE mn step mute = SNDRV_CTL_TLVD_DB_SCALE_ITEM mn step mute"

definition SNDRV_CTL_TLVO_DB_SCALE_MIN :: nat where "SNDRV_CTL_TLVO_DB_SCALE_MIN = 2"
definition SNDRV_CTL_TLVO_DB_SCALE_MUTE_AND_STEP :: nat where "SNDRV_CTL_TLVO_DB_SCALE_MUTE_AND_STEP = 3"

definition SNDRV_CTL_TLVD_DB_MINMAX_ITEM :: "u32 \<Rightarrow> u32 \<Rightarrow> u32 list" where
  "SNDRV_CTL_TLVD_DB_MINMAX_ITEM min_dB max_dB = SNDRV_CTL_TLVD_ITEM SNDRV_CTL_TLVT_DB_MINMAX [min_dB, max_dB]"

definition SNDRV_CTL_TLVD_DB_MINMAX_MUTE_ITEM :: "u32 \<Rightarrow> u32 \<Rightarrow> u32 list" where
  "SNDRV_CTL_TLVD_DB_MINMAX_MUTE_ITEM min_dB max_dB =
    SNDRV_CTL_TLVD_ITEM SNDRV_CTL_TLVT_DB_MINMAX_MUTE [min_dB, max_dB]"

definition SNDRV_CTL_TLVD_DECLARE_DB_MINMAX :: "u32 \<Rightarrow> u32 \<Rightarrow> u32 list" where
  "SNDRV_CTL_TLVD_DECLARE_DB_MINMAX min_dB max_dB = SNDRV_CTL_TLVD_DB_MINMAX_ITEM min_dB max_dB"

definition SNDRV_CTL_TLVD_DECLARE_DB_MINMAX_MUTE :: "u32 \<Rightarrow> u32 \<Rightarrow> u32 list" where
  "SNDRV_CTL_TLVD_DECLARE_DB_MINMAX_MUTE min_dB max_dB = SNDRV_CTL_TLVD_DB_MINMAX_MUTE_ITEM min_dB max_dB"

definition SNDRV_CTL_TLVO_DB_MINMAX_MIN :: nat where "SNDRV_CTL_TLVO_DB_MINMAX_MIN = 2"
definition SNDRV_CTL_TLVO_DB_MINMAX_MAX :: nat where "SNDRV_CTL_TLVO_DB_MINMAX_MAX = 3"

definition SNDRV_CTL_TLVD_DB_LINEAR_ITEM :: "u32 \<Rightarrow> u32 \<Rightarrow> u32 list" where
  "SNDRV_CTL_TLVD_DB_LINEAR_ITEM min_dB max_dB = SNDRV_CTL_TLVD_ITEM SNDRV_CTL_TLVT_DB_LINEAR [min_dB, max_dB]"

definition SNDRV_CTL_TLVD_DECLARE_DB_LINEAR :: "u32 \<Rightarrow> u32 \<Rightarrow> u32 list" where
  "SNDRV_CTL_TLVD_DECLARE_DB_LINEAR min_dB max_dB = SNDRV_CTL_TLVD_DB_LINEAR_ITEM min_dB max_dB"

definition SNDRV_CTL_TLVO_DB_LINEAR_MIN :: nat where "SNDRV_CTL_TLVO_DB_LINEAR_MIN = 2"
definition SNDRV_CTL_TLVO_DB_LINEAR_MAX :: nat where "SNDRV_CTL_TLVO_DB_LINEAR_MAX = 3"

definition SNDRV_CTL_TLVD_DB_RANGE_ITEM :: "u32 list \<Rightarrow> u32 list" where
  "SNDRV_CTL_TLVD_DB_RANGE_ITEM va_args = SNDRV_CTL_TLVD_ITEM SNDRV_CTL_TLVT_DB_RANGE va_args"

definition SNDRV_CTL_TLVD_DECLARE_DB_RANGE :: "u32 list \<Rightarrow> u32 list" where
  "SNDRV_CTL_TLVD_DECLARE_DB_RANGE va_args = SNDRV_CTL_TLVD_DB_RANGE_ITEM va_args"

text \<open>
  The block length of the documentation, in words, and the readers: of one item, of the items of a container and
  of the items of a range, each behind its two limits. \<open>None\<close> is an array that ends early.
\<close>

definition block_words :: "u32 \<Rightarrow> nat" where
  "block_words len = unat ((len + 3) AND NOT 3) div 4"

definition read_item :: "u32 list \<Rightarrow> (u32 \<times> u32 list \<times> u32 list) option" where
  "read_item xs = do {
     t \<leftarrow> rd xs SNDRV_CTL_TLVO_TYPE;
     n \<leftarrow> rd xs SNDRV_CTL_TLVO_LEN;
     ds \<leftarrow> rdn xs 2 (block_words n);
     Some (t, ds, drop (2 + block_words n) xs)
   }"

function read_items :: "u32 list \<Rightarrow> (u32 \<times> u32 list) list option" where
  "read_items xs = (if xs = [] then Some [] else do {
     (t, ds, rest) \<leftarrow> read_item xs;
     if length rest < length xs then map_option ((#) (t, ds)) (read_items rest) else None
   })"
  by pat_completeness auto
termination by (relation "measure length") auto

function read_ranges :: "u32 list \<Rightarrow> (u32 \<times> u32 \<times> u32 \<times> u32 list) list option" where
  "read_ranges xs = (if xs = [] then Some [] else do {
     lo \<leftarrow> rd xs 0;
     hi \<leftarrow> rd xs 1;
     (t, ds, rest) \<leftarrow> read_item (drop 2 xs);
     if length rest < length xs then map_option ((#) (lo, hi, t, ds)) (read_ranges rest) else None
   })"
  by pat_completeness auto
termination by (relation "measure length") auto

declare read_items.simps [simp del] read_ranges.simps [simp del]

section \<open>Round trips\<close>

lemma block_words_length: "4 * length ds < 2 ^ 32 - 4 \<Longrightarrow> block_words (SNDRV_CTL_TLVD_LENGTH ds) = length ds"
proof -
  assume a: "4 * length ds < 2 ^ 32 - 4"
  have m: "(3 :: u32) = mask 2" by code_simp
  let ?n = "word_of_nat (4 * length ds) + 3 :: u32"
  have n: "unat ?n = 4 * length ds + 3"
    using a by (simp add: unat_word_ariths unsigned_of_nat take_bit_nat_eq_self)
  have "unat (?n AND NOT 3) = unat ?n div 2 ^ 2 * 2 ^ 2" unfolding m by (rule unat_and_not_mask)
  also have "\<dots> = 4 * length ds" unfolding n by simp
  finally show ?thesis by (simp add: block_words_def SNDRV_CTL_TLVD_LENGTH_def)
qed

definition item_ok :: "u32 list \<Rightarrow> bool" where
  "item_ok ds \<longleftrightarrow> 4 * length ds < 2 ^ 32 - 4"

lemma read_item_ITEM: "item_ok ds \<Longrightarrow> read_item (SNDRV_CTL_TLVD_ITEM t ds @ rest) = Some (t, ds, rest)"
  by (simp add: read_item_def SNDRV_CTL_TLVD_ITEM_def rd_def rdn_def SNDRV_CTL_TLVO_TYPE_def SNDRV_CTL_TLVO_LEN_def
      block_words_length item_ok_def)

lemma read_items_ITEMs:
  "list_all (\<lambda>(t, ds). item_ok ds) its \<Longrightarrow>
    read_items (concat (map (\<lambda>(t, ds). SNDRV_CTL_TLVD_ITEM t ds) its)) = Some its"
proof (induction its)
  case (Cons a its)
  obtain t ds where a: "a = (t, ds)" by fastforce
  have "SNDRV_CTL_TLVD_ITEM t ds \<noteq> []" by (simp add: SNDRV_CTL_TLVD_ITEM_def)
  then show ?case using Cons a by (subst read_items.simps) (simp add: read_item_ITEM)
qed (simp add: read_items.simps)

lemma read_ranges_ITEMs:
  "list_all (\<lambda>(lo, hi, t, ds). item_ok ds) its \<Longrightarrow>
    read_ranges (concat (map (\<lambda>(lo, hi, t, ds). [lo, hi] @ SNDRV_CTL_TLVD_ITEM t ds) its)) = Some its"
proof (induction its)
  case (Cons a its)
  obtain lo hi t ds where a: "a = (lo, hi, t, ds)" by (cases a) auto
  then show ?case using Cons by (subst read_ranges.simps) (simp add: read_item_ITEM rd_def)
qed (simp add: read_ranges.simps)

text \<open>
  C24: A container is read back as one item of the type of containers, and its data as the items it was declared
  with; a range likewise as its items between their limits. The words at the offsets of a dB scale are its
  minimum, its step and its mute mark.
\<close>

theorem sound_tlv_roundtrip:
  assumes "list_all (\<lambda>(t, ds). item_ok ds) its" "item_ok (concat (map (\<lambda>(t, ds). SNDRV_CTL_TLVD_ITEM t ds) its))"
    "list_all (\<lambda>(lo, hi, t, ds). item_ok ds) ranges"
    "item_ok (concat (map (\<lambda>(lo, hi, t, ds). [lo, hi] @ SNDRV_CTL_TLVD_ITEM t ds) ranges))" "fits 16 step"
  shows "do {
      (t, ds, rest) \<leftarrow> read_item (SNDRV_CTL_TLVD_DECLARE_CONTAINER (concat (map (\<lambda>(t, ds). SNDRV_CTL_TLVD_ITEM t ds) its)));
      items \<leftarrow> read_items ds;
      Some (t, items, rest)
    } = Some (SNDRV_CTL_TLVT_CONTAINER, its, []) \<and>
    do {
      (t, ds, rest) \<leftarrow> read_item (SNDRV_CTL_TLVD_DECLARE_DB_RANGE
        (concat (map (\<lambda>(lo, hi, t, ds). [lo, hi] @ SNDRV_CTL_TLVD_ITEM t ds) ranges)));
      items \<leftarrow> read_ranges ds;
      Some (t, items, rest)
    } = Some (SNDRV_CTL_TLVT_DB_RANGE, ranges, []) \<and>
    (let a = SNDRV_CTL_TLVD_DECLARE_DB_SCALE mn step mute in
      rd a SNDRV_CTL_TLVO_DB_SCALE_MIN = Some mn \<and>
      map_option (\<lambda>x. x AND SNDRV_CTL_TLVD_DB_SCALE_MASK) (rd a SNDRV_CTL_TLVO_DB_SCALE_MUTE_AND_STEP) = Some step \<and>
      map_option (\<lambda>x. x AND SNDRV_CTL_TLVD_DB_SCALE_MUTE \<noteq> 0) (rd a SNDRV_CTL_TLVO_DB_SCALE_MUTE_AND_STEP) = Some mute)"
proof (intro conjI)
  let ?s = "(step AND SNDRV_CTL_TLVD_DB_SCALE_MASK) OR (if mute then SNDRV_CTL_TLVD_DB_SCALE_MUTE else 0)"
  have m: "SNDRV_CTL_TLVD_DB_SCALE_MASK = mask 16" "SNDRV_CTL_TLVD_DB_SCALE_MUTE = push_bit 16 1" by code_simp+
  have mute: "bit SNDRV_CTL_TLVD_DB_SCALE_MUTE n \<longleftrightarrow> n = 16" for n
    unfolding m(2) bit_push_bit_iff bit_1_iff by auto
  have "?s AND SNDRV_CTL_TLVD_DB_SCALE_MASK = step AND mask 16" unfolding m(1)
    by (rule bit_word_eqI) (auto simp add: bit_and_iff bit_or_iff bit_mask_iff mute)
  then have s: "?s AND SNDRV_CTL_TLVD_DB_SCALE_MASK = step" using assms(5) by (simp add: fits_and_mask)
  have "?s AND SNDRV_CTL_TLVD_DB_SCALE_MUTE = (if mute then SNDRV_CTL_TLVD_DB_SCALE_MUTE else 0)" unfolding m(1)
    by (rule bit_word_eqI) (auto simp add: bit_and_iff bit_or_iff bit_mask_iff mute)
  moreover have "SNDRV_CTL_TLVD_DB_SCALE_MUTE \<noteq> 0" by code_simp
  ultimately have t: "?s AND SNDRV_CTL_TLVD_DB_SCALE_MUTE \<noteq> 0 \<longleftrightarrow> mute" by simp
  let ?a = "SNDRV_CTL_TLVD_DECLARE_DB_SCALE mn step mute"
  have a: "?a = [SNDRV_CTL_TLVT_DB_SCALE, SNDRV_CTL_TLVD_LENGTH [mn, ?s], mn, ?s]"
    by (simp add: SNDRV_CTL_TLVD_DECLARE_DB_SCALE_def SNDRV_CTL_TLVD_DB_SCALE_ITEM_def SNDRV_CTL_TLVD_ITEM_def
        SNDRV_CTL_TLVD_LENGTH_def)
  have r: "rd ?a SNDRV_CTL_TLVO_DB_SCALE_MIN = Some mn" "rd ?a SNDRV_CTL_TLVO_DB_SCALE_MUTE_AND_STEP = Some ?s"
    unfolding a by (simp_all add: rd_def SNDRV_CTL_TLVO_DB_SCALE_MIN_def SNDRV_CTL_TLVO_DB_SCALE_MUTE_AND_STEP_def)
  show "let a = ?a in rd a SNDRV_CTL_TLVO_DB_SCALE_MIN = Some mn \<and>
      map_option (\<lambda>x. x AND SNDRV_CTL_TLVD_DB_SCALE_MASK) (rd a SNDRV_CTL_TLVO_DB_SCALE_MUTE_AND_STEP) = Some step \<and>
      map_option (\<lambda>x. x AND SNDRV_CTL_TLVD_DB_SCALE_MUTE \<noteq> 0) (rd a SNDRV_CTL_TLVO_DB_SCALE_MUTE_AND_STEP) = Some mute"
    unfolding Let_def r option.map s t by simp
qed (use read_item_ITEM [OF assms(2), of _ "[]"] read_item_ITEM [OF assms(4), of _ "[]"] read_items_ITEMs [OF assms(1)]
    read_ranges_ITEMs [OF assms(3)] in
    \<open>simp_all add: SNDRV_CTL_TLVD_DECLARE_CONTAINER_def SNDRV_CTL_TLVD_CONTAINER_ITEM_def SNDRV_CTL_TLVD_DECLARE_DB_RANGE_def
      SNDRV_CTL_TLVD_DB_RANGE_ITEM_def\<close>)

theorem sound_tlv_roundtrip_witness:
  "do {
      (t, ds, rest) \<leftarrow> read_item (SNDRV_CTL_TLVD_DECLARE_CONTAINER
        (SNDRV_CTL_TLVD_DB_MINMAX_ITEM 1 2 @ SNDRV_CTL_TLVD_DB_LINEAR_ITEM 3 4));
      items \<leftarrow> read_items ds;
      Some (t, items, rest)
    } = Some (SNDRV_CTL_TLVT_CONTAINER, [(SNDRV_CTL_TLVT_DB_MINMAX, [1, 2]), (SNDRV_CTL_TLVT_DB_LINEAR, [3, 4])], [])"
proof -
  have "fits 16 (0 :: u32)" by code_simp
  then show ?thesis
    using sound_tlv_roundtrip [of "[(SNDRV_CTL_TLVT_DB_MINMAX, [1, 2]), (SNDRV_CTL_TLVT_DB_LINEAR, [3, 4])]" "[]" 0]
    by (simp add: item_ok_def SNDRV_CTL_TLVD_ITEM_def SNDRV_CTL_TLVD_DB_MINMAX_ITEM_def SNDRV_CTL_TLVD_DB_LINEAR_ITEM_def)
qed

end
