(* ===== verification/Class_Codes.thy ===== *)
theory Class_Codes
  imports Packed_Codes Bit_Map
begin

text \<open>
  Numbers whose parts are compared in place, without shifting: the classes of internet addresses (\<^verbatim>\<open>in.h\<close>), the
  codes of packet filter instructions (\<^verbatim>\<open>bpf_common.h\<close>, \<^verbatim>\<open>filter.h\<close>) and the samples of infrared receivers
  (\<^verbatim>\<open>lirc.h\<close>); and small sets kept by macros: interfaces of multicast routing (\<^verbatim>\<open>mroute.h\<close>), TCP options
  (\<^verbatim>\<open>xt_TCPOPTSTRIP.h\<close>), capabilities (\<^verbatim>\<open>capability.h\<close>) and system calls of audit rules (\<^verbatim>\<open>audit.h\<close>),
  interfaces of IPv6 multicast routing (\<^verbatim>\<open>mroute6.h\<close>). The characters of seven-segment displays
  (\<^verbatim>\<open>map_to_7segment.h\<close>) and the processor state of sparc (\<^verbatim>\<open>psrcompat.h\<close>) follow.
\<close>

section \<open>Classes of addresses\<close>

text \<open>Addresses in the order of the host, converted to \<^verbatim>\<open>long int\<close> of the width \<open>'l\<close>.\<close>

definition IN_CLASSA :: "'l::len itself \<Rightarrow> u32 \<Rightarrow> bool" where
  "IN_CLASSA l a \<longleftrightarrow> (ucast a :: 'l word) AND 0x80000000 = 0"
definition IN_CLASSB :: "'l::len itself \<Rightarrow> u32 \<Rightarrow> bool" where
  "IN_CLASSB l a \<longleftrightarrow> (ucast a :: 'l word) AND 0xc0000000 = 0x80000000"
definition IN_CLASSC :: "'l::len itself \<Rightarrow> u32 \<Rightarrow> bool" where
  "IN_CLASSC l a \<longleftrightarrow> (ucast a :: 'l word) AND 0xe0000000 = 0xc0000000"
definition IN_CLASSD :: "'l::len itself \<Rightarrow> u32 \<Rightarrow> bool" where
  "IN_CLASSD l a \<longleftrightarrow> (ucast a :: 'l word) AND 0xf0000000 = 0xe0000000"
definition IN_CLASSE :: "'l::len itself \<Rightarrow> u32 \<Rightarrow> bool" where
  "IN_CLASSE l a \<longleftrightarrow> (ucast a :: 'l word) AND 0xf0000000 = 0xf0000000"
definition IN_MULTICAST :: "'l::len itself \<Rightarrow> u32 \<Rightarrow> bool" where "IN_MULTICAST l a \<longleftrightarrow> IN_CLASSD l a"
definition IN_BADCLASS :: "'l::len itself \<Rightarrow> u32 \<Rightarrow> bool" where
  "IN_BADCLASS l a \<longleftrightarrow> (ucast a :: 'l word) = 0xffffffff"
definition IN_EXPERIMENTAL :: "'l::len itself \<Rightarrow> u32 \<Rightarrow> bool" where "IN_EXPERIMENTAL l a \<longleftrightarrow> IN_BADCLASS l a"
definition IN_LOOPBACK :: "'l::len itself \<Rightarrow> u32 \<Rightarrow> bool" where
  "IN_LOOPBACK l a \<longleftrightarrow> (ucast a :: 'l word) AND 0xff000000 = 0x7f000000"

definition IN_CLASSA_NET :: u32 where "IN_CLASSA_NET = 0xff000000"
definition IN_CLASSA_HOST :: u32 where "IN_CLASSA_HOST = 0xffffffff AND NOT IN_CLASSA_NET"
definition IN_CLASSB_NET :: u32 where "IN_CLASSB_NET = 0xffff0000"
definition IN_CLASSB_HOST :: u32 where "IN_CLASSB_HOST = 0xffffffff AND NOT IN_CLASSB_NET"
definition IN_CLASSC_NET :: u32 where "IN_CLASSC_NET = 0xffffff00"
definition IN_CLASSC_HOST :: u32 where "IN_CLASSC_HOST = 0xffffffff AND NOT IN_CLASSC_NET"

text \<open>Widening keeps a comparison of masked bits.\<close>

lemma ucast_masked:
  assumes "32 \<le> LENGTH('l::len)"
  shows "(ucast a :: 'l word) AND ucast m = ucast c \<longleftrightarrow> (a :: u32) AND m = c"
proof -
  have "(ucast a :: 'l word) AND ucast m = ucast (a AND m)" by (rule bit_word_eqI) (auto simp add: bit_simps)
  moreover have "inj (ucast :: u32 \<Rightarrow> 'l word)"
  proof (rule injI)
    fix x y :: u32 assume "(ucast x :: 'l word) = ucast y"
    then have "bit x n \<longleftrightarrow> bit y n" if "n < 32" for n
      using that assms bit_ucast_iff [of x n, where 'a = 'l] bit_ucast_iff [of y n, where 'a = 'l] by (metis less_le_trans)
    then show "x = y" by (intro bit_word_eqI) simp
  qed
  ultimately show ?thesis by (simp add: inj_eq)
qed

lemma top_bits:
  assumes "k \<le> 32" "fits (32 - k) c"
  shows "a AND push_bit k (mask (32 - k)) = push_bit k c \<longleftrightarrow> drop_bit k a = (c :: u32)"
proof
  have "a AND push_bit k (mask (32 - k)) = push_bit k (drop_bit k a)"
    by (rule bit_word_eqI) (auto simp add: bit_and_iff bit_push_bit_iff bit_mask_iff bit_drop_bit_eq)
  moreover have "drop_bit k (push_bit k x) = x" if "fits (32 - k) x" for x :: u32
    using that assms(1) by (intro bit_word_eqI) (fastforce simp add: bit_drop_bit_eq bit_push_bit_iff dest: fits_bitD)
  moreover have "fits (32 - k) (drop_bit k a)"
    by (auto simp add: fits_bits bit_drop_bit_eq dest: bit_imp_le_length)
  ultimately show "drop_bit k a = c" if "a AND push_bit k (mask (32 - k)) = push_bit k c"
    using that assms(2) by metis
  show "a AND push_bit k (mask (32 - k)) = push_bit k c" if "drop_bit k a = c"
    using that \<open>a AND push_bit k (mask (32 - k)) = push_bit k (drop_bit k a)\<close> by simp
qed

definition first_octet :: "u32 \<Rightarrow> nat" where
  "first_octet a = unat a div 2 ^ 24"

lemma class_octets:
  assumes "32 \<le> LENGTH('l::len)"
  shows "IN_CLASSA TYPE('l) a \<longleftrightarrow> first_octet a < 128"
    "IN_CLASSB TYPE('l) a \<longleftrightarrow> 128 \<le> first_octet a \<and> first_octet a < 192"
    "IN_CLASSC TYPE('l) a \<longleftrightarrow> 192 \<le> first_octet a \<and> first_octet a < 224"
    "IN_CLASSD TYPE('l) a \<longleftrightarrow> 224 \<le> first_octet a \<and> first_octet a < 240"
    "IN_CLASSE TYPE('l) a \<longleftrightarrow> 240 \<le> first_octet a"
    "IN_LOOPBACK TYPE('l) a \<longleftrightarrow> first_octet a = 127"
    "IN_BADCLASS TYPE('l) a \<longleftrightarrow> a = 0xffffffff"
proof -
  have "unat a < 2 ^ LENGTH(32)" by (rule unsigned_less)
  then have o: "first_octet a < 256" by (simp add: first_octet_def less_mult_imp_div_less)
  have d: "drop_bit k a = c \<longleftrightarrow> first_octet a div 2 ^ (k - 24) = unat c" if "24 \<le> k" for k c
  proof -
    have "unat (drop_bit k a) = unat a div 2 ^ k" by (simp only: unat_drop_bit_eq) (simp only: drop_bit_eq_div)
    also have "\<dots> = first_octet a div 2 ^ (k - 24)"
      unfolding first_octet_def div_mult2_eq [symmetric] power_add [symmetric] using that by simp
    finally have "unat (drop_bit k a) = first_octet a div 2 ^ (k - 24)" .
    then show ?thesis by (metis unsigned_word_eqI)
  qed
  have m: "(0x80000000 :: u32) = push_bit 31 (mask (32 - 31))" "(0xc0000000 :: u32) = push_bit 30 (mask (32 - 30))"
    "(0xe0000000 :: u32) = push_bit 29 (mask (32 - 29))" "(0xf0000000 :: u32) = push_bit 28 (mask (32 - 28))"
    "(0xff000000 :: u32) = push_bit 24 (mask (32 - 24))" by code_simp+
  have v: "(0x80000000 :: u32) = push_bit 30 2" "(0xc0000000 :: u32) = push_bit 29 6" "(0xe0000000 :: u32) = push_bit 28 14"
    "(0xf0000000 :: u32) = push_bit 28 15" "(0x7f000000 :: u32) = push_bit 24 127" by code_simp+
  have f: "fits (32 - 31) (0 :: u32)" "fits (32 - 30) (2 :: u32)" "fits (32 - 29) (6 :: u32)" "fits (32 - 28) (14 :: u32)"
    "fits (32 - 28) (15 :: u32)" "fits (32 - 24) (127 :: u32)" by code_simp+
  have cls: "(ucast a :: 'l word) AND ucast (push_bit k (mask (32 - k)) :: u32) = ucast (push_bit k c :: u32) \<longleftrightarrow>
      first_octet a div 2 ^ (k - 24) = unat c" if "24 \<le> k" "k \<le> 32" "fits (32 - k) c" for k c
    unfolding ucast_masked [OF assms] top_bits [OF that(2,3)] by (rule d [OF that(1)])
  have u: "(0x80000000 :: 'l word) = ucast (0x80000000 :: u32)" "(0xc0000000 :: 'l word) = ucast (0xc0000000 :: u32)"
    "(0xe0000000 :: 'l word) = ucast (0xe0000000 :: u32)" "(0xf0000000 :: 'l word) = ucast (0xf0000000 :: u32)"
    "(0xff000000 :: 'l word) = ucast (0xff000000 :: u32)" "(0x7f000000 :: 'l word) = ucast (0x7f000000 :: u32)"
    "(0xffffffff :: 'l word) = ucast (0xffffffff :: u32)"
    by simp_all
  have "IN_CLASSA TYPE('l) a \<longleftrightarrow> first_octet a div 2 ^ 7 = 0" unfolding IN_CLASSA_def u(1) m(1)
    using cls [OF _ _ f(1)] by simp
  then show "IN_CLASSA TYPE('l) a \<longleftrightarrow> first_octet a < 128" by (simp add: div_eq_0_iff)
  have "IN_CLASSB TYPE('l) a \<longleftrightarrow> first_octet a div 2 ^ 6 = 2" unfolding IN_CLASSB_def u(1,2) m(2) v(1)
    using cls [OF _ _ f(2)] by simp
  then show "IN_CLASSB TYPE('l) a \<longleftrightarrow> 128 \<le> first_octet a \<and> first_octet a < 192" by auto
  have "IN_CLASSC TYPE('l) a \<longleftrightarrow> first_octet a div 2 ^ 5 = 6" unfolding IN_CLASSC_def u(2,3) m(3) v(2)
    using cls [OF _ _ f(3)] by simp
  then show "IN_CLASSC TYPE('l) a \<longleftrightarrow> 192 \<le> first_octet a \<and> first_octet a < 224" by auto
  have "IN_CLASSD TYPE('l) a \<longleftrightarrow> first_octet a div 2 ^ 4 = 14" unfolding IN_CLASSD_def u(3,4) m(4) v(3)
    using cls [OF _ _ f(4)] by simp
  then show "IN_CLASSD TYPE('l) a \<longleftrightarrow> 224 \<le> first_octet a \<and> first_octet a < 240" by auto
  have "IN_CLASSE TYPE('l) a \<longleftrightarrow> first_octet a div 2 ^ 4 = 15"
    using cls [OF _ _ f(5)] unfolding IN_CLASSE_def u(4) m(4) [symmetric] v(4) [symmetric] by simp
  then show "IN_CLASSE TYPE('l) a \<longleftrightarrow> 240 \<le> first_octet a" using o by auto
  have "IN_LOOPBACK TYPE('l) a \<longleftrightarrow> first_octet a div 2 ^ 0 = 127" unfolding IN_LOOPBACK_def u(5,6) m(5) v(5)
    using cls [OF _ _ f(6)] by simp
  then show "IN_LOOPBACK TYPE('l) a \<longleftrightarrow> first_octet a = 127" by simp
  have "(ucast a :: 'l word) AND ucast (- 1 :: u32) = ucast a"
    by (rule bit_word_eqI) (auto simp add: bit_and_iff bit_ucast_iff dest: bit_imp_le_length)
  then show "IN_BADCLASS TYPE('l) a \<longleftrightarrow> a = 0xffffffff"
    using ucast_masked [OF assms, of a "- 1" "0xffffffff"] unfolding IN_BADCLASS_def u(7) by simp
qed

text \<open>
  Every address is in exactly one of the classes A to E, by the ranges of its first octet, whether \<^verbatim>\<open>long\<close> has
  32 or 64 bits; the loopback network is in class A, the bad class is the broadcast address alone. The network
  and the host part of an address make up the address.
\<close>

theorem in_classes_partition:
  assumes "32 \<le> LENGTH('l::len)"
  shows "length (filter (\<lambda>c. c a) [IN_CLASSA TYPE('l), IN_CLASSB TYPE('l), IN_CLASSC TYPE('l), IN_CLASSD TYPE('l),
      IN_CLASSE TYPE('l)]) = 1 \<and>
    map (\<lambda>c. c a) [IN_CLASSA TYPE('l), IN_CLASSB TYPE('l), IN_CLASSC TYPE('l), IN_MULTICAST TYPE('l), IN_CLASSE TYPE('l),
        IN_LOOPBACK TYPE('l)] =
      [first_octet a < 128, 128 \<le> first_octet a \<and> first_octet a < 192, 192 \<le> first_octet a \<and> first_octet a < 224,
       224 \<le> first_octet a \<and> first_octet a < 240, 240 \<le> first_octet a, first_octet a = 127] \<and>
    (IN_EXPERIMENTAL TYPE('l) a \<longleftrightarrow> a = 0xffffffff) \<and>
    (a AND IN_CLASSA_NET) OR (a AND IN_CLASSA_HOST) = a \<and> (a AND IN_CLASSB_NET) OR (a AND IN_CLASSB_HOST) = a \<and>
    (a AND IN_CLASSC_NET) OR (a AND IN_CLASSC_HOST) = a"
proof (intro conjI)
  note o = class_octets [OF assms, of a]
  show "length (filter (\<lambda>c. c a) [IN_CLASSA TYPE('l), IN_CLASSB TYPE('l), IN_CLASSC TYPE('l), IN_CLASSD TYPE('l),
      IN_CLASSE TYPE('l)]) = 1" by (simp add: o)
  show "IN_EXPERIMENTAL TYPE('l) a \<longleftrightarrow> a = 0xffffffff" by (simp add: IN_EXPERIMENTAL_def o)
  have split: "(a AND m) OR (a AND (0xffffffff AND NOT m)) = a" for m :: u32
  proof -
    have f: "(0xffffffff :: u32) = mask 32" by code_simp
    show ?thesis unfolding f by (rule bit_word_eqI) (auto simp only: bit_and_iff bit_or_iff bit_not_iff bit_mask_iff possible_bit_word, simp)
  qed
  show "(a AND IN_CLASSA_NET) OR (a AND IN_CLASSA_HOST) = a" "(a AND IN_CLASSB_NET) OR (a AND IN_CLASSB_HOST) = a"
    "(a AND IN_CLASSC_NET) OR (a AND IN_CLASSC_HOST) = a"
    unfolding IN_CLASSA_HOST_def IN_CLASSB_HOST_def IN_CLASSC_HOST_def by (rule split)+
qed (simp_all add: class_octets [OF assms] IN_MULTICAST_def)

theorem in_classes_partition_witness:
  "length (filter (\<lambda>c. c 0xc0a80001) [IN_CLASSA TYPE(64), IN_CLASSB TYPE(64), IN_CLASSC TYPE(64), IN_CLASSD TYPE(64),
      IN_CLASSE TYPE(64)]) = 1 \<and> first_octet 0xc0a80001 = 192"
proof -
  have "32 \<le> LENGTH(64)" "first_octet 0xc0a80001 = 192" by (simp_all add: first_octet_def)
  with in_classes_partition [OF this(1), of "0xc0a80001"] show ?thesis by blast
qed

section \<open>Codes of filter instructions\<close>

definition BPF_CLASS :: "c_int \<Rightarrow> c_int" where "BPF_CLASS code = code AND 0x07"
definition BPF_SIZE :: "c_int \<Rightarrow> c_int" where "BPF_SIZE code = code AND 0x18"
definition BPF_MODE :: "c_int \<Rightarrow> c_int" where "BPF_MODE code = code AND 0xe0"
definition BPF_OP :: "c_int \<Rightarrow> c_int" where "BPF_OP code = code AND 0xf0"
definition BPF_SRC :: "c_int \<Rightarrow> c_int" where "BPF_SRC code = code AND 0x08"
definition BPF_RVAL :: "c_int \<Rightarrow> c_int" where "BPF_RVAL code = code AND 0x18"
definition BPF_MISCOP :: "c_int \<Rightarrow> c_int" where "BPF_MISCOP code = code AND 0xf8"

record sock_filter =
  sf_code :: u16
  sf_jt :: u8
  sf_jf :: u8
  sf_k :: u32

definition BPF_STMT :: "c_int \<Rightarrow> u32 \<Rightarrow> sock_filter" where
  "BPF_STMT code k = \<lparr>sf_code = u16_of code, sf_jt = 0, sf_jf = 0, sf_k = k\<rparr>"

definition BPF_JUMP :: "c_int \<Rightarrow> u32 \<Rightarrow> u8 \<Rightarrow> u8 \<Rightarrow> sock_filter" where
  "BPF_JUMP code k jt jf = \<lparr>sf_code = u16_of code, sf_jt = jt, sf_jf = jf, sf_k = k\<rparr>"

text \<open>The parts of a code: class, size and mode of a load; class, source and operation of arithmetic and jumps.\<close>

lemma bpf_parts:
  "BPF_CLASS c OR BPF_SIZE c OR BPF_MODE c = c AND 0xff" "BPF_CLASS c OR BPF_SRC c OR BPF_OP c = c AND 0xff"
  "BPF_CLASS c OR BPF_MISCOP c = c AND 0xff" "BPF_RVAL c = BPF_SIZE c"
proof -
  have join: "(c AND a) OR (c AND b) OR (c AND d) = c AND (a OR b OR d)" for a b d :: c_int
    by (rule bit_word_eqI) (auto simp add: bit_and_iff bit_or_iff)
  show "BPF_CLASS c OR BPF_SIZE c OR BPF_MODE c = c AND 0xff" "BPF_CLASS c OR BPF_SRC c OR BPF_OP c = c AND 0xff"
    unfolding BPF_CLASS_def BPF_SIZE_def BPF_MODE_def BPF_SRC_def BPF_OP_def join by simp_all
  show "BPF_CLASS c OR BPF_MISCOP c = c AND 0xff"
    using join [of 7 0 "0xf8"] by (simp add: BPF_CLASS_def BPF_MISCOP_def)
  show "BPF_RVAL c = BPF_SIZE c" by (simp add: BPF_RVAL_def BPF_SIZE_def)
qed

section \<open>Samples of infrared receivers\<close>

definition LIRC_MODE2_SPACE :: u32 where "LIRC_MODE2_SPACE = 0x00000000"
definition LIRC_MODE2_PULSE :: u32 where "LIRC_MODE2_PULSE = 0x01000000"
definition LIRC_MODE2_FREQUENCY :: u32 where "LIRC_MODE2_FREQUENCY = 0x02000000"
definition LIRC_MODE2_TIMEOUT :: u32 where "LIRC_MODE2_TIMEOUT = 0x03000000"
definition LIRC_VALUE_MASK :: u32 where "LIRC_VALUE_MASK = 0x00FFFFFF"
definition LIRC_MODE2_MASK :: u32 where "LIRC_MODE2_MASK = 0xFF000000"
definition LIRC_SPACE :: "u32 \<Rightarrow> u32" where "LIRC_SPACE val = (val AND LIRC_VALUE_MASK) OR LIRC_MODE2_SPACE"
definition LIRC_PULSE :: "u32 \<Rightarrow> u32" where "LIRC_PULSE val = (val AND LIRC_VALUE_MASK) OR LIRC_MODE2_PULSE"
definition LIRC_FREQUENCY :: "u32 \<Rightarrow> u32" where
  "LIRC_FREQUENCY val = (val AND LIRC_VALUE_MASK) OR LIRC_MODE2_FREQUENCY"
definition LIRC_TIMEOUT :: "u32 \<Rightarrow> u32" where "LIRC_TIMEOUT val = (val AND LIRC_VALUE_MASK) OR LIRC_MODE2_TIMEOUT"
definition LIRC_VALUE :: "u32 \<Rightarrow> u32" where "LIRC_VALUE val = val AND LIRC_VALUE_MASK"
definition LIRC_MODE2 :: "u32 \<Rightarrow> u32" where "LIRC_MODE2 val = val AND LIRC_MODE2_MASK"
definition LIRC_IS_SPACE :: "u32 \<Rightarrow> bool" where "LIRC_IS_SPACE val \<longleftrightarrow> LIRC_MODE2 val = LIRC_MODE2_SPACE"
definition LIRC_IS_PULSE :: "u32 \<Rightarrow> bool" where "LIRC_IS_PULSE val \<longleftrightarrow> LIRC_MODE2 val = LIRC_MODE2_PULSE"
definition LIRC_IS_FREQUENCY :: "u32 \<Rightarrow> bool" where "LIRC_IS_FREQUENCY val \<longleftrightarrow> LIRC_MODE2 val = LIRC_MODE2_FREQUENCY"
definition LIRC_IS_TIMEOUT :: "u32 \<Rightarrow> bool" where "LIRC_IS_TIMEOUT val \<longleftrightarrow> LIRC_MODE2 val = LIRC_MODE2_TIMEOUT"

text \<open>A sample is of the kind it was made for and of no other, and has the lower 24 bits of its value.\<close>

lemma lirc_samples:
  "LIRC_VALUE ((v AND LIRC_VALUE_MASK) OR (m AND LIRC_MODE2_MASK)) = v AND LIRC_VALUE_MASK"
  "LIRC_MODE2 ((v AND LIRC_VALUE_MASK) OR (m AND LIRC_MODE2_MASK)) = m AND LIRC_MODE2_MASK"
proof -
  have a: "LIRC_VALUE_MASK AND LIRC_MODE2_MASK = 0" by code_simp
  then have n: "\<not> (bit LIRC_VALUE_MASK n \<and> bit LIRC_MODE2_MASK n)" for n by (metis bit_0_eq bit_and_iff bot_apply bot_bool_def)
  show "LIRC_VALUE ((v AND LIRC_VALUE_MASK) OR (m AND LIRC_MODE2_MASK)) = v AND LIRC_VALUE_MASK"
    unfolding LIRC_VALUE_def using n by (intro bit_word_eqI) (auto simp add: bit_and_iff bit_or_iff)
  show "LIRC_MODE2 ((v AND LIRC_VALUE_MASK) OR (m AND LIRC_MODE2_MASK)) = m AND LIRC_MODE2_MASK"
    unfolding LIRC_MODE2_def using n by (intro bit_word_eqI) (auto simp add: bit_and_iff bit_or_iff)
qed

section \<open>Small sets\<close>

text \<open>A shift by more than the width of the type is undefined.\<close>

definition VIFM_SET :: "nat \<Rightarrow> u32 \<Rightarrow> u32 option" where
  "VIFM_SET n m = (if n < 32 then Some (m OR push_bit n 1) else None)"
definition VIFM_CLR :: "nat \<Rightarrow> u32 \<Rightarrow> u32 option" where
  "VIFM_CLR n m = (if n < 32 then Some (m AND NOT (push_bit n 1)) else None)"
definition VIFM_ISSET :: "nat \<Rightarrow> u32 \<Rightarrow> u32 option" where
  "VIFM_ISSET n m = (if n < 32 then Some (m AND push_bit n 1) else None)"
definition VIFM_CLRALL :: "u32 \<Rightarrow> u32" where "VIFM_CLRALL m = 0"
definition VIFM_COPY :: "u32 \<Rightarrow> u32 \<Rightarrow> u32" where "VIFM_COPY mfrom mto = mfrom"
definition VIFM_SAME :: "u32 \<Rightarrow> u32 \<Rightarrow> bool" where "VIFM_SAME m1 m2 \<longleftrightarrow> m1 = m2"

definition tcpoptstrip_set_bit :: "u32 list \<Rightarrow> nat \<Rightarrow> u32 list option" where
  "tcpoptstrip_set_bit bmap idx = do {
     w \<leftarrow> rd bmap (drop_bit 5 idx);
     wr bmap (drop_bit 5 idx) (w OR push_bit (idx AND 31) 1)
   }"

definition tcpoptstrip_test_bit :: "u32 list \<Rightarrow> nat \<Rightarrow> bool option" where
  "tcpoptstrip_test_bit bmap idx = do {
     w \<leftarrow> rd bmap (drop_bit 5 idx);
     Some (push_bit (idx AND 31) 1 AND w \<noteq> 0)
   }"

definition CAP_LAST_CAP :: int where "CAP_LAST_CAP = 40"
definition cap_valid :: "int \<Rightarrow> bool" where "cap_valid x \<longleftrightarrow> x \<ge> 0 \<and> x \<le> CAP_LAST_CAP"
definition CAP_TO_INDEX :: "nat \<Rightarrow> nat" where "CAP_TO_INDEX x = drop_bit 5 x"
definition CAP_TO_MASK :: "nat \<Rightarrow> u32" where "CAP_TO_MASK x = push_bit (x AND 31) 1"

definition AUDIT_BITMASK_SIZE :: nat where "AUDIT_BITMASK_SIZE = 64"
definition AUDIT_WORD :: "nat \<Rightarrow> u32" where "AUDIT_WORD nr = word_of_nat (nr div 32)"
definition AUDIT_BIT :: "nat \<Rightarrow> u32" where "AUDIT_BIT nr = push_bit (unat (word_of_nat nr - AUDIT_WORD nr * 32)) 1"

interpretation vifm: bit_map "\<lambda>n ms. case ms of [m] \<Rightarrow> map_option (\<lambda>m'. [m']) (VIFM_SET n m) | _ \<Rightarrow> None"
  "\<lambda>n ms. case ms of [m] \<Rightarrow> map_option (\<lambda>m'. [m']) (VIFM_CLR n m) | _ \<Rightarrow> None"
  "\<lambda>n ms. case ms of [m] \<Rightarrow> map_option (\<lambda>r. r \<noteq> 0) (VIFM_ISSET n m) | _ \<Rightarrow> None" 1
proof
  fix ms :: "u32 list" and n :: nat assume "length ms = 1"
  then obtain m where m: "ms = [m]" by (metis One_nat_def length_0_conv length_Suc_conv)
  show "(case ms of [m] \<Rightarrow> map_option (\<lambda>m'. [m']) (VIFM_SET n m) | _ \<Rightarrow> None) = None" if "32 * 1 \<le> n"
    using that m by (simp add: VIFM_SET_def)
  assume "n < 32 * 1"
  then have n: "n < 32" "n div 32 = 0" "n mod 32 = n" by simp_all
  show "\<exists>m'. (case ms of [m] \<Rightarrow> map_option (\<lambda>m'. [m']) (VIFM_SET n m) | _ \<Rightarrow> None) = Some m' \<and> length m' = 1 \<and>
      members m' = insert n (members ms)"
    using n m word_members(1) [of n "[m]"] by (simp add: VIFM_SET_def)
  show "\<exists>m'. (case ms of [m] \<Rightarrow> map_option (\<lambda>m'. [m']) (VIFM_CLR n m) | _ \<Rightarrow> None) = Some m' \<and> length m' = 1 \<and>
      members m' = members ms - {n}"
    using n m word_members(2) [of n "[m]"] by (simp add: VIFM_CLR_def)
  show "(case ms of [m] \<Rightarrow> map_option (\<lambda>r. r \<noteq> 0) (VIFM_ISSET n m) | _ \<Rightarrow> None) = Some (n \<in> members ms)"
    using n m word_test [of m n] by (simp add: VIFM_ISSET_def members_def)
qed

lemma word_index: "drop_bit 5 n = n div 32" "n AND 31 = n mod 32" for n :: nat
  using take_bit_eq_mod [of 5 n] take_bit_eq_mask [of 5 n] by (simp_all add: drop_bit_eq_div mask_eq_exp_minus_1)

text \<open>Setting an option adds it to the set, the test reads membership.\<close>

lemma tcpoptstrip_sets:
  assumes "length m = 8" "n < 256" "i < 256"
  shows "do { m' \<leftarrow> tcpoptstrip_set_bit m n; tcpoptstrip_test_bit m' i } = Some (i = n \<or> i \<in> members m)"
proof -
  have d: "n div 32 < 8" "i div 32 < 8" using assms by (simp_all add: div_less_iff_less_mult)
  let ?m = "m[n div 32 := m ! (n div 32) OR push_bit (n mod 32) 1]"
  have "tcpoptstrip_set_bit m n = Some ?m" using d assms(1) by (simp add: tcpoptstrip_set_bit_def word_index mem_simps)
  moreover have "tcpoptstrip_test_bit ?m i = Some (i \<in> members ?m)"
    using d assms(1) word_test [of "?m ! (i div 32)" "i mod 32"]
    by (simp add: tcpoptstrip_test_bit_def word_index mem_simps members_def and.commute)
  ultimately show ?thesis using word_members(1) [of n m] d assms(1) by simp
qed

text \<open>
  Audit rules and capability sets keep a number in the same word and bit, computed in different ways:
  word \<open>n div 32\<close> and bit \<open>n mod 32\<close>, for every number below \<open>2\<^sup>3\<^sup>2\<close>; different numbers have different places.
\<close>

theorem bit_places_agree:
  assumes "n < 2 ^ 32" "i < 2 ^ 32"
  shows "unat (AUDIT_WORD n) = CAP_TO_INDEX n \<and> AUDIT_BIT n = CAP_TO_MASK n \<and> CAP_TO_INDEX n = n div 32 \<and>
    (\<forall>b. bit (CAP_TO_MASK n) b \<longleftrightarrow> b = n mod 32) \<and>
    ((AUDIT_WORD n, AUDIT_BIT n) = (AUDIT_WORD i, AUDIT_BIT i) \<longleftrightarrow> n = i)"
proof -
  have w: "unat (AUDIT_WORD n) = n div 32" if "n < 2 ^ 32" for n
    using that by (simp add: AUDIT_WORD_def unsigned_of_nat take_bit_nat_eq_self)
  have b: "AUDIT_BIT n = push_bit (n mod 32) 1" if "n < 2 ^ 32" for n
  proof -
    have "AUDIT_WORD n * 32 = word_of_nat (n div 32 * 32)" by (simp add: AUDIT_WORD_def)
    then have "word_of_nat n - AUDIT_WORD n * 32 = word_of_nat (n - n div 32 * 32)" by (simp add: of_nat_diff)
    also have "n - n div 32 * 32 = n mod 32" by (simp add: minus_div_mult_eq_mod)
    finally show ?thesis by (simp add: AUDIT_BIT_def unsigned_of_nat take_bit_nat_eq_self)
  qed
  have bits: "bit (push_bit (n mod 32) 1 :: u32) j \<longleftrightarrow> j = n mod 32" for n j :: nat
    unfolding bit_push_bit_iff bit_1_iff by auto
  have "n = i" if "AUDIT_WORD n = AUDIT_WORD i" "AUDIT_BIT n = AUDIT_BIT i"
  proof -
    have "n div 32 = i div 32" using that(1) w assms by metis
    moreover have "n mod 32 = i mod 32" using that(2) b assms bits by metis
    ultimately show ?thesis by (metis div_mult_mod_eq)
  qed
  then show ?thesis using assms w [of n] b [of n] bits [of n]
    by (auto simp add: CAP_TO_INDEX_def CAP_TO_MASK_def word_index)
qed

theorem bit_places_agree_witness: "AUDIT_BIT 40 = CAP_TO_MASK 40 \<and> unat (AUDIT_WORD 40) = CAP_TO_INDEX 40"
  using bit_places_agree [of 40 0] by simp

section \<open>Interface sets of IPv6 multicast routing\<close>

text \<open>
  The interface sets of IPv6 multicast routing, \<^verbatim>\<open>include/linux/mroute6.h\<close>: \<^verbatim>\<open>struct if_set\<close> has one bit for each
  of \<^verbatim>\<open>IF_SETSIZE\<close> interfaces. \<^verbatim>\<open>IF_ISSET\<close> gives the bit in place, not 0 or 1.
\<close>

definition IF_SETSIZE :: nat where
  "IF_SETSIZE = 256"

definition NIFBITS :: nat where
  "NIFBITS = 4 * 8"

record if_set =
  ifs_bits :: "u32 list"

definition wf_if_set :: "if_set \<Rightarrow> bool" where
  "wf_if_set p \<longleftrightarrow> length (ifs_bits p) = (IF_SETSIZE + NIFBITS - 1) div NIFBITS"

definition IF_SET :: "nat \<Rightarrow> if_set \<Rightarrow> if_set option" where
  "IF_SET n p = do {
     w \<leftarrow> rd (ifs_bits p) (n div NIFBITS);
     b \<leftarrow> wr (ifs_bits p) (n div NIFBITS) (w OR push_bit (n mod NIFBITS) 1);
     Some (p\<lparr>ifs_bits := b\<rparr>)
   }"

definition IF_CLR :: "nat \<Rightarrow> if_set \<Rightarrow> if_set option" where
  "IF_CLR n p = do {
     w \<leftarrow> rd (ifs_bits p) (n div NIFBITS);
     b \<leftarrow> wr (ifs_bits p) (n div NIFBITS) (w AND NOT (push_bit (n mod NIFBITS) 1));
     Some (p\<lparr>ifs_bits := b\<rparr>)
   }"

definition IF_ISSET :: "nat \<Rightarrow> if_set \<Rightarrow> c_int option" where
  "IF_ISSET n p = do {
     w \<leftarrow> rd (ifs_bits p) (n div NIFBITS);
     Some (w AND push_bit (n mod NIFBITS) 1)
   }"

definition IF_COPY :: "if_set \<Rightarrow> if_set \<Rightarrow> if_set option" where
  "IF_COPY f t = do {
     b \<leftarrow> wrn (ifs_bits t) 0 (ifs_bits f);
     Some (t\<lparr>ifs_bits := b\<rparr>)
   }"

definition IF_ZERO :: "if_set \<Rightarrow> if_set" where
  "IF_ZERO p = p\<lparr>ifs_bits := memset_words (ifs_bits p) 0\<rparr>"

interpretation if_set: bit_map "\<lambda>n m. map_option ifs_bits (IF_SET n \<lparr>ifs_bits = m\<rparr>)"
  "\<lambda>n m. map_option ifs_bits (IF_CLR n \<lparr>ifs_bits = m\<rparr>)"
  "\<lambda>n m. map_option (\<lambda>r. r \<noteq> 0) (IF_ISSET n \<lparr>ifs_bits = m\<rparr>)" words for words
  by (rule bit_map_words)
    (simp_all add: IF_SET_def IF_CLR_def IF_ISSET_def NIFBITS_def map_option_bind comp_def)

text \<open>
  An interface set behaves as a set of interface numbers below \<^verbatim>\<open>IF_SETSIZE\<close>: an interface is in it
  after \<^verbatim>\<open>IF_SET\<close> and not after \<^verbatim>\<open>IF_CLR\<close>, the other interfaces stay as they were, and the first number
  beyond the size is outside the array.
\<close>

theorem if_set_operations:
  assumes "wf_if_set p" "n < IF_SETSIZE" "k < IF_SETSIZE"
  shows "do { p' \<leftarrow> IF_SET n p; map_option (\<lambda>r. r \<noteq> 0) (IF_ISSET k p') } =
      Some (k = n \<or> k \<in> members (ifs_bits p)) \<and>
    do { p' \<leftarrow> IF_CLR n p; map_option (\<lambda>r. r \<noteq> 0) (IF_ISSET k p') } =
      Some (k \<noteq> n \<and> k \<in> members (ifs_bits p)) \<and>
    map_option (\<lambda>r. r \<noteq> 0) (IF_ISSET k (IF_ZERO p)) = Some False \<and>
    IF_SET IF_SETSIZE p = None"
proof -
  have len: "length (ifs_bits p) = 8" and n: "n < 32 * 8" "k < 32 * 8" "32 * 8 \<le> IF_SETSIZE"
    using assms by (simp_all add: wf_if_set_def IF_SETSIZE_def NIFBITS_def)
  have eta: "\<lparr>ifs_bits = ifs_bits q\<rparr> = q" for q :: if_set by simp
  have z: "length (ifs_bits (IF_ZERO p)) = 8" "members (ifs_bits (IF_ZERO p)) = {}"
    using len members_memset by (simp_all add: IF_ZERO_def memset_words_def)
  show ?thesis
    using if_set.has_put [OF len n(1,2)] if_set.has_del [OF len n(1,2)] if_set.has [OF z(1) n(2)] z(2)
      if_set.put_outside [OF len n(3)]
    by (simp add: eta bind_map_option comp_def)
qed

theorem if_set_operations_witness:
  "do { p' \<leftarrow> IF_SET 31 \<lparr>ifs_bits = replicate 8 0\<rparr>; map_option (\<lambda>r. r \<noteq> 0) (IF_ISSET 31 p') } = Some True"
  using if_set_operations [of "\<lparr>ifs_bits = replicate 8 0\<rparr>" 31 31]
  by (simp add: wf_if_set_def IF_SETSIZE_def NIFBITS_def)

section \<open>Seven-segment displays\<close>

text \<open>
  The conversion of characters to seven-segment displays, \<^verbatim>\<open>include/linux/map_to_7segment.h\<close>: a table of 128 bytes,
  one bit for each segment, two character sets for it, and the function that looks a character up.
\<close>

subsection \<open>Conversion\<close>

record seg7_conversion_map =
  seg7_table :: "u8 list"

definition wf_seg7 :: "seg7_conversion_map \<Rightarrow> bool" where
  "wf_seg7 m \<longleftrightarrow> length (seg7_table m) = 128"

definition SEG7_EINVAL :: int where "SEG7_EINVAL = 22"

text \<open>The character is a signed \<^verbatim>\<open>int\<close>; a negative one fails the first test, before the comparison with a size.\<close>

definition map_to_seg7 :: "seg7_conversion_map \<Rightarrow> int \<Rightarrow> int option" where
  "map_to_seg7 m c = (if c \<ge> 0 \<and> c < int (length (seg7_table m))
     then map_option (\<lambda>b. int (unat b)) (rd (seg7_table m) (nat c)) else Some (- SEG7_EINVAL))"

subsection \<open>Character sets\<close>

definition BIT_SEG7_A :: nat where "BIT_SEG7_A = 0"
definition BIT_SEG7_B :: nat where "BIT_SEG7_B = 1"
definition BIT_SEG7_C :: nat where "BIT_SEG7_C = 2"
definition BIT_SEG7_D :: nat where "BIT_SEG7_D = 3"
definition BIT_SEG7_E :: nat where "BIT_SEG7_E = 4"
definition BIT_SEG7_F :: nat where "BIT_SEG7_F = 5"
definition BIT_SEG7_G :: nat where "BIT_SEG7_G = 6"

definition SEG7 :: "u8 \<Rightarrow> u8 \<Rightarrow> u8 \<Rightarrow> u8 \<Rightarrow> u8 \<Rightarrow> u8 \<Rightarrow> u8 \<Rightarrow> u8" where
  "SEG7 a b c d e f g = push_bit BIT_SEG7_A a OR push_bit BIT_SEG7_B b OR push_bit BIT_SEG7_C c OR
     push_bit BIT_SEG7_D d OR push_bit BIT_SEG7_E e OR push_bit BIT_SEG7_F f OR push_bit BIT_SEG7_G g"

definition MAP_0_32_ASCII_SEG7_NON_PRINTABLE :: "u8 list" where
  "MAP_0_32_ASCII_SEG7_NON_PRINTABLE = replicate 33 0"

definition MAP_33_47_ASCII_SEG7_SYMBOL :: "u8 list" where
  "MAP_33_47_ASCII_SEG7_SYMBOL = [
     SEG7 0 0 0 0 1 1 0, SEG7 0 1 0 0 0 1 0, SEG7 0 1 1 0 1 1 0, SEG7 1 0 1 1 0 1 1,
     SEG7 0 0 1 0 0 1 0, SEG7 1 0 1 1 1 1 1, SEG7 0 0 0 0 0 1 0, SEG7 1 0 0 1 1 1 0,
     SEG7 1 1 1 1 0 0 0, SEG7 0 1 1 0 1 1 1, SEG7 0 1 1 0 0 0 1, SEG7 0 0 0 0 1 0 0,
     SEG7 0 0 0 0 0 0 1, SEG7 0 0 0 0 1 0 0, SEG7 0 1 0 0 1 0 1]"

definition MAP_48_57_ASCII_SEG7_NUMERIC :: "u8 list" where
  "MAP_48_57_ASCII_SEG7_NUMERIC = [
     SEG7 1 1 1 1 1 1 0, SEG7 0 1 1 0 0 0 0, SEG7 1 1 0 1 1 0 1, SEG7 1 1 1 1 0 0 1,
     SEG7 0 1 1 0 0 1 1, SEG7 1 0 1 1 0 1 1, SEG7 1 0 1 1 1 1 1, SEG7 1 1 1 0 0 0 0,
     SEG7 1 1 1 1 1 1 1, SEG7 1 1 1 1 0 1 1]"

definition MAP_58_64_ASCII_SEG7_SYMBOL :: "u8 list" where
  "MAP_58_64_ASCII_SEG7_SYMBOL = [
     SEG7 0 0 0 1 0 0 1, SEG7 0 0 0 1 0 0 1, SEG7 1 0 0 0 0 1 1, SEG7 0 0 0 1 0 0 1,
     SEG7 1 1 0 0 0 0 1, SEG7 1 1 1 0 0 1 0, SEG7 1 1 0 1 1 1 1]"

definition MAP_65_90_ASCII_SEG7_ALPHA_UPPR :: "u8 list" where
  "MAP_65_90_ASCII_SEG7_ALPHA_UPPR = [
     SEG7 1 1 1 0 1 1 1, SEG7 1 1 1 1 1 1 1, SEG7 1 0 0 1 1 1 0, SEG7 1 1 1 1 1 1 0,
     SEG7 1 0 0 1 1 1 1, SEG7 1 0 0 0 1 1 1, SEG7 1 1 1 1 0 1 1, SEG7 0 1 1 0 1 1 1,
     SEG7 0 1 1 0 0 0 0, SEG7 0 1 1 1 0 0 0, SEG7 0 1 1 0 1 1 1, SEG7 0 0 0 1 1 1 0,
     SEG7 1 1 1 0 1 1 0, SEG7 1 1 1 0 1 1 0, SEG7 1 1 1 1 1 1 0, SEG7 1 1 0 0 1 1 1,
     SEG7 1 1 1 1 1 1 0, SEG7 1 1 1 0 1 1 1, SEG7 1 0 1 1 0 1 1, SEG7 0 0 0 1 1 1 1,
     SEG7 0 1 1 1 1 1 0, SEG7 0 1 1 1 1 1 0, SEG7 0 1 1 1 1 1 1, SEG7 0 1 1 0 1 1 1,
     SEG7 0 1 1 0 0 1 1, SEG7 1 1 0 1 1 0 1]"

definition MAP_91_96_ASCII_SEG7_SYMBOL :: "u8 list" where
  "MAP_91_96_ASCII_SEG7_SYMBOL = [
     SEG7 1 0 0 1 1 1 0, SEG7 0 0 1 0 0 1 1, SEG7 1 1 1 1 0 0 0, SEG7 1 1 0 0 0 1 0,
     SEG7 0 0 0 1 0 0 0, SEG7 0 1 0 0 0 0 0]"

definition MAP_97_122_ASCII_SEG7_ALPHA_LOWER :: "u8 list" where
  "MAP_97_122_ASCII_SEG7_ALPHA_LOWER = [
     SEG7 1 1 1 0 1 1 1, SEG7 0 0 1 1 1 1 1, SEG7 0 0 0 1 1 0 1, SEG7 0 1 1 1 1 0 1,
     SEG7 1 0 0 1 1 1 1, SEG7 1 0 0 0 1 1 1, SEG7 1 1 1 1 0 1 1, SEG7 0 0 1 0 1 1 1,
     SEG7 0 0 1 0 0 0 0, SEG7 0 0 1 1 0 0 0, SEG7 0 0 1 0 1 1 1, SEG7 0 0 0 1 1 1 0,
     SEG7 1 1 1 0 1 1 0, SEG7 0 0 1 0 1 0 1, SEG7 0 0 1 1 1 0 1, SEG7 1 1 0 0 1 1 1,
     SEG7 1 1 1 0 0 1 1, SEG7 0 0 0 0 1 0 1, SEG7 1 0 1 1 0 1 1, SEG7 0 0 0 1 1 1 1,
     SEG7 0 0 1 1 1 0 0, SEG7 0 0 1 1 1 0 0, SEG7 0 1 1 1 1 1 1, SEG7 0 1 1 0 1 1 1,
     SEG7 0 1 1 1 0 1 1, SEG7 1 1 0 1 1 0 1]"

definition MAP_123_126_ASCII_SEG7_SYMBOL :: "u8 list" where
  "MAP_123_126_ASCII_SEG7_SYMBOL = [
     SEG7 1 0 0 1 1 1 0, SEG7 0 0 0 0 1 1 0, SEG7 1 1 1 1 0 0 0, SEG7 1 0 0 0 0 0 0]"

text \<open>The array has one element more than the sets list; C sets it to zero.\<close>

definition SEG7_CONVERSION_MAP :: "u8 list \<Rightarrow> seg7_conversion_map" where
  "SEG7_CONVERSION_MAP m = \<lparr>seg7_table = m @ replicate (128 - length m) 0\<rparr>"

definition MAP_ASCII7SEG_ALPHANUM :: "u8 list" where
  "MAP_ASCII7SEG_ALPHANUM = MAP_0_32_ASCII_SEG7_NON_PRINTABLE @ MAP_33_47_ASCII_SEG7_SYMBOL @
     MAP_48_57_ASCII_SEG7_NUMERIC @ MAP_58_64_ASCII_SEG7_SYMBOL @ MAP_65_90_ASCII_SEG7_ALPHA_UPPR @
     MAP_91_96_ASCII_SEG7_SYMBOL @ MAP_97_122_ASCII_SEG7_ALPHA_LOWER @ MAP_123_126_ASCII_SEG7_SYMBOL"

definition MAP_ASCII7SEG_ALPHANUM_LC :: "u8 list" where
  "MAP_ASCII7SEG_ALPHANUM_LC = MAP_0_32_ASCII_SEG7_NON_PRINTABLE @ MAP_33_47_ASCII_SEG7_SYMBOL @
     MAP_48_57_ASCII_SEG7_NUMERIC @ MAP_58_64_ASCII_SEG7_SYMBOL @ MAP_97_122_ASCII_SEG7_ALPHA_LOWER @
     MAP_91_96_ASCII_SEG7_SYMBOL @ MAP_97_122_ASCII_SEG7_ALPHA_LOWER @ MAP_123_126_ASCII_SEG7_SYMBOL"

definition SEG7_DEFAULT_MAP :: seg7_conversion_map where
  "SEG7_DEFAULT_MAP = SEG7_CONVERSION_MAP MAP_ASCII7SEG_ALPHANUM"

definition char_code :: "char \<Rightarrow> int" where "char_code c = of_char c"

subsection \<open>Properties\<close>

text \<open>Every entry stands at its character's place, and no entry uses the reserved bit.\<close>

lemma seg7_tables:
  "length MAP_ASCII7SEG_ALPHANUM = 127" "length MAP_ASCII7SEG_ALPHANUM_LC = 127"
  "list_all (\<lambda>b. \<not> bit b 7) MAP_ASCII7SEG_ALPHANUM" "list_all (\<lambda>b. \<not> bit b 7) MAP_ASCII7SEG_ALPHANUM_LC"
  by code_simp+

lemma wf_default: "wf_seg7 SEG7_DEFAULT_MAP" "wf_seg7 (SEG7_CONVERSION_MAP MAP_ASCII7SEG_ALPHANUM_LC)"
  by (simp_all add: wf_seg7_def SEG7_DEFAULT_MAP_def SEG7_CONVERSION_MAP_def seg7_tables)

text \<open>
  The lookup is total and never leaves the table: a character outside 0 to 127, negative ones included, gives
  \<^verbatim>\<open>-SEG7_EINVAL\<close>, every other one a byte, and with the header's two sets a byte without the reserved bit.
\<close>

theorem map_to_seg7_total:
  assumes "wf_seg7 m"
  shows "\<exists>r. map_to_seg7 m c = Some r \<and>
    (if c < 0 \<or> 128 \<le> c then r = - SEG7_EINVAL else 0 \<le> r \<and> r < 256 \<and>
      (m \<in> {SEG7_DEFAULT_MAP, SEG7_CONVERSION_MAP MAP_ASCII7SEG_ALPHANUM_LC} \<longrightarrow> r < 128))"
proof (cases "c < 0 \<or> 128 \<le> c")
  case True
  then show ?thesis using assms by (auto simp add: map_to_seg7_def wf_seg7_def)
next
  case False
  then have c: "nat c < length (seg7_table m)" "0 \<le> c" using assms by (auto simp add: wf_seg7_def)
  then have r: "map_to_seg7 m c = Some (int (unat (seg7_table m ! nat c)))"
    by (simp add: map_to_seg7_def rd_def nat_less_iff)
  have "\<not> bit (seg7_table m ! nat c) 7"
    if "m \<in> {SEG7_DEFAULT_MAP, SEG7_CONVERSION_MAP MAP_ASCII7SEG_ALPHANUM_LC}"
  proof -
    have "list_all (\<lambda>b. \<not> bit b 7) (seg7_table m)"
      using that seg7_tables by (auto simp add: SEG7_DEFAULT_MAP_def SEG7_CONVERSION_MAP_def)
    then show ?thesis using c by (simp add: list_all_length)
  qed
  moreover have "uint b < 128" if "\<not> bit b 7" for b :: u8
  proof -
    have "\<not> bit b k" if "7 \<le> k" for k
      using that \<open>\<not> bit b 7\<close> bit_imp_le_length [of b k] by (cases "k = 7") auto
    then have "fits 7 b" by (simp add: fits_bits)
    then show ?thesis by (simp add: fits_iff_less word_less_def)
  qed
  moreover have "int (unat (seg7_table m ! nat c)) < 256"
    using unsigned_less [of "seg7_table m ! nat c", where ?'a = int] by simp
  ultimately show ?thesis using False r by auto
qed

theorem map_to_seg7_total_witness:
  "\<exists>r. map_to_seg7 SEG7_DEFAULT_MAP (- 1) = Some r \<and> r = - SEG7_EINVAL"
  using map_to_seg7_total [OF wf_default(1), of "- 1"] by simp

text \<open>
  The lower-case set tells the sixteen hexadecimal digits apart and shows a letter alike in upper and lower
  case, as its comment says; the default set shows B as 8 and D as 0.
\<close>

theorem seg7_hex_digits:
  "distinct (map (\<lambda>c. map_to_seg7 (SEG7_CONVERSION_MAP MAP_ASCII7SEG_ALPHANUM_LC) (char_code c)) ''0123456789abcdef'') \<and>
   list_all (\<lambda>k. map_to_seg7 (SEG7_CONVERSION_MAP MAP_ASCII7SEG_ALPHANUM_LC) k =
     map_to_seg7 (SEG7_CONVERSION_MAP MAP_ASCII7SEG_ALPHANUM_LC) (k + 32)) [65..90] \<and>
   map_to_seg7 SEG7_DEFAULT_MAP (char_code CHR ''B'') = map_to_seg7 SEG7_DEFAULT_MAP (char_code CHR ''8'') \<and>
   map_to_seg7 SEG7_DEFAULT_MAP (char_code CHR ''D'') = map_to_seg7 SEG7_DEFAULT_MAP (char_code CHR ''0'')"
  by code_simp

section \<open>Processor state of sparc\<close>

text \<open>
  Conversion between the trap state of a 64-bit sparc and the processor state register that 32-bit programs know,
  \<^verbatim>\<open>arch/sparc/asm/psrcompat.h\<close> with the trap state fields of \<^verbatim>\<open>pstate.h\<close>. The condition codes of 32-bit results
  (\<^verbatim>\<open>icc\<close>) and of 64-bit results (\<^verbatim>\<open>xcc\<close>) are kept; the latter where the implementation and version fields say that the
  processor has 64 bits.
\<close>

definition TSTATE_CCR :: u64 where "TSTATE_CCR = 0x000000ff00000000"
definition TSTATE_XCC :: u64 where "TSTATE_XCC = 0x000000f000000000"
definition TSTATE_ICC :: u64 where "TSTATE_ICC = 0x0000000f00000000"
definition TSTATE_SYSCALL :: u64 where "TSTATE_SYSCALL = 0x0000000000000020"
definition TSTATE_CWP :: u64 where "TSTATE_CWP = 0x000000000000001f"

definition PSR_CWP :: u32 where "PSR_CWP = 0x0000001f"
definition PSR_S :: u32 where "PSR_S = 0x00000080"
definition PSR_SYSCALL :: u32 where "PSR_SYSCALL = 0x00004000"
definition PSR_ICC :: u32 where "PSR_ICC = 0x00f00000"
definition PSR_VERS :: u32 where "PSR_VERS = 0x0f000000"
definition PSR_IMPL :: u32 where "PSR_IMPL = 0xf0000000"
definition PSR_V8PLUS :: u32 where "PSR_V8PLUS = 0xff000000"
definition PSR_XCC :: u32 where "PSR_XCC = 0x000f0000"

text \<open>The expression has the type \<^verbatim>\<open>unsigned long\<close> and is truncated to \<^verbatim>\<open>unsigned int\<close> on return.\<close>

definition tstate_to_psr :: "u64 \<Rightarrow> u32" where
  "tstate_to_psr tstate = ucast ((tstate AND TSTATE_CWP) OR ucast PSR_S OR drop_bit 12 (tstate AND TSTATE_ICC) OR
     drop_bit 20 (tstate AND TSTATE_XCC) OR (if tstate AND TSTATE_SYSCALL \<noteq> 0 then ucast PSR_SYSCALL else 0) OR
     ucast PSR_V8PLUS)"

definition psr_to_tstate_icc :: "u32 \<Rightarrow> u64" where
  "psr_to_tstate_icc psr = (let tstate = push_bit 12 (ucast (psr AND PSR_ICC)) in
     if psr AND (PSR_VERS OR PSR_IMPL) = PSR_V8PLUS
     then tstate OR push_bit 20 (ucast (psr AND PSR_XCC)) else tstate)"

lemma tstate_masks:
  "TSTATE_CCR = push_bit 32 (mask 8)" "TSTATE_XCC = push_bit 36 (mask 4)" "TSTATE_ICC = push_bit 32 (mask 4)"
  "TSTATE_SYSCALL = push_bit 5 1" "TSTATE_CWP = mask 5"
  by (simp_all add: TSTATE_CCR_def TSTATE_XCC_def TSTATE_ICC_def TSTATE_SYSCALL_def TSTATE_CWP_def mask_eq_exp_minus_1)

lemma psr_masks:
  "PSR_CWP = mask 5" "PSR_S = push_bit 7 1" "PSR_SYSCALL = push_bit 14 1" "PSR_ICC = push_bit 20 (mask 4)"
  "PSR_VERS OR PSR_IMPL = push_bit 24 (mask 8)" "PSR_V8PLUS = push_bit 24 (mask 8)" "PSR_XCC = push_bit 16 (mask 4)"
  by (simp_all add: PSR_CWP_def PSR_S_def PSR_SYSCALL_def PSR_ICC_def PSR_VERS_def PSR_IMPL_def PSR_V8PLUS_def
      PSR_XCC_def mask_eq_exp_minus_1)

text \<open>The parts of the converted register.\<close>

lemma bit_masked: "bit (x AND push_bit s (mask w)) n \<longleftrightarrow> s \<le> n \<and> n < s + w \<and> bit (x :: 'a::len word) n"
  using bit_imp_le_length [of x n] by (auto simp add: bit_and_iff bit_push_bit_iff bit_mask_iff)

lemma bit_moved_down:
  "bit (drop_bit k (x AND push_bit s (mask w))) n \<longleftrightarrow> s \<le> k + n \<and> k + n < s + w \<and> bit (x :: 'a::len word) (k + n)"
  by (simp add: bit_drop_bit_eq bit_masked del: drop_bit_and)

lemma bit_constant: "bit (push_bit s 1 :: 'a::len word) n \<longleftrightarrow> n = s \<and> n < LENGTH('a)"
  by (auto simp add: push_bit_of_1 bit_exp_iff)

lemma bit_tstate_to_psr:
  "bit (tstate_to_psr t) n \<longleftrightarrow> n < 32 \<and> (n < 5 \<and> bit t n \<or> n = 7 \<or> 20 \<le> n \<and> n < 24 \<and> bit t (12 + n) \<or>
    16 \<le> n \<and> n < 20 \<and> bit t (20 + n) \<or> n = 14 \<and> bit t 5 \<or> 24 \<le> n)"
proof -
  have top: "bit (ucast (push_bit 24 (mask 8) :: u32) :: u64) n \<longleftrightarrow> 24 \<le> n \<and> n < 32"
    by (auto simp add: bit_ucast_iff bit_push_bit_iff bit_mask_iff)
  have c: "bit (ucast (push_bit s 1 :: u32) :: u64) n \<longleftrightarrow> n = s \<and> n < 32" for s
    by (simp only: bit_ucast_iff bit_constant) auto
  have low: "bit (t AND mask 5) n \<longleftrightarrow> n < 5 \<and> bit t n"
    by (auto simp add: bit_and_iff bit_mask_iff)
  have sys: "bit (if bit t 5 then ucast (push_bit 14 1 :: u32) else 0 :: u64) n \<longleftrightarrow> n = 14 \<and> bit t 5"
    by (cases "bit t 5") (simp_all only: c if_True if_False bit_0_eq, auto)
  show ?thesis unfolding tstate_to_psr_def tstate_masks psr_masks and_one_bit
    by (subst bit_ucast_iff) (simp only: bit_or_iff low c bit_moved_down top sys, auto)
qed

text \<open>
  Converting a trap state to a register of a 32-bit program and back keeps exactly the condition codes, those
  of 32-bit and of 64-bit results, and the converted register carries the window pointer and the system call mark
  and says that the processor has 64 bits.
\<close>

theorem psr_condition_codes:
  "psr_to_tstate_icc (tstate_to_psr t) = t AND TSTATE_CCR \<and>
   tstate_to_psr t AND PSR_V8PLUS = PSR_V8PLUS \<and>
   ucast (tstate_to_psr t AND PSR_CWP) = t AND TSTATE_CWP \<and>
   (tstate_to_psr t AND PSR_SYSCALL \<noteq> 0 \<longleftrightarrow> t AND TSTATE_SYSCALL \<noteq> 0)"
proof -
  let ?p = "tstate_to_psr t"
  have v: "?p AND push_bit 24 (mask 8) = push_bit 24 (mask 8)"
    by (rule bit_word_eqI) (auto simp add: bit_simps bit_tstate_to_psr)
  have icc: "bit (?p AND push_bit 20 (mask 4)) n \<longleftrightarrow> 20 \<le> n \<and> n < 24 \<and> bit t (12 + n)"
    and xcc: "bit (?p AND push_bit 16 (mask 4)) n \<longleftrightarrow> 16 \<le> n \<and> n < 20 \<and> bit t (20 + n)" for n
    by (auto simp add: bit_masked bit_tstate_to_psr)
  have b: "bit (push_bit 12 (ucast (?p AND push_bit 20 (mask 4)) :: u64)) n \<longleftrightarrow> 32 \<le> n \<and> n < 36 \<and> bit t n"
    "bit (push_bit 20 (ucast (?p AND push_bit 16 (mask 4)) :: u64)) n \<longleftrightarrow> 36 \<le> n \<and> n < 40 \<and> bit t n" for n
    by (auto simp add: bit_push_bit_iff bit_ucast_iff icc xcc)
  have "push_bit 12 (ucast (?p AND push_bit 20 (mask 4))) OR push_bit 20 (ucast (?p AND push_bit 16 (mask 4))) =
      t AND push_bit 32 (mask 8)"
    by (rule bit_word_eqI) (simp only: bit_or_iff b bit_masked, auto)
  then have "psr_to_tstate_icc ?p = t AND TSTATE_CCR"
    by (simp only: psr_to_tstate_icc_def psr_masks tstate_masks v Let_def simp_thms if_True)
  moreover have "ucast (?p AND PSR_CWP) = t AND TSTATE_CWP"
    unfolding psr_masks tstate_masks by (rule bit_word_eqI) (auto simp add: bit_simps bit_tstate_to_psr)
  moreover have "?p AND push_bit 14 1 \<noteq> 0 \<longleftrightarrow> t AND push_bit 5 1 \<noteq> 0"
    unfolding and_one_bit using bit_tstate_to_psr [of t 14] by simp
  ultimately show ?thesis using v by (simp only: psr_masks tstate_masks simp_thms)
qed

end
