(* ===== verification/Abi_Gpu.thy ===== *)
theory Abi_Gpu
  imports Abi_Drm
begin

text \<open>
  The interfaces of fifteen more graphics drivers of \<^verbatim>\<open>include/drm\<close>, each on the core of \<open>Abi_Drm\<close>: their structures
  and their requests. Drivers number their requests independently, from \<^verbatim>\<open>DRM_COMMAND_BASE\<close> on, so that every
  driver has a table of its own. The header of the VMware driver gives the numbers of commands only, without
  requests.
\<close>

section \<open>Vivante: \<^verbatim>\<open>etnaviv_drm.h\<close>\<close>

definition struct_drm_etnaviv_timespec :: ctype where
  "struct_drm_etnaviv_timespec = c_struct [
     (''tv_sec'', u64_t),
     (''tv_nsec'', u64_t)]"

definition struct_drm_etnaviv_param :: ctype where
  "struct_drm_etnaviv_param = c_struct [
     (''pipe'', u32_t),
     (''param'', u32_t),
     (''value'', u64_t)]"

definition struct_drm_etnaviv_gem_new :: ctype where
  "struct_drm_etnaviv_gem_new = c_struct [
     (''size'', u64_t),
     (''flags'', u32_t),
     (''handle'', u32_t)]"

definition struct_drm_etnaviv_gem_info :: ctype where
  "struct_drm_etnaviv_gem_info = c_struct [
     (''handle'', u32_t),
     (''pad'', u32_t),
     (''offset'', u64_t)]"

definition struct_drm_etnaviv_gem_cpu_prep :: ctype where
  "struct_drm_etnaviv_gem_cpu_prep = c_struct [
     (''handle'', u32_t),
     (''op'', u32_t),
     (''timeout'', struct_drm_etnaviv_timespec)]"

definition struct_drm_etnaviv_gem_cpu_fini :: ctype where
  "struct_drm_etnaviv_gem_cpu_fini = c_struct [
     (''handle'', u32_t),
     (''flags'', u32_t)]"

definition struct_drm_etnaviv_gem_submit_reloc :: ctype where
  "struct_drm_etnaviv_gem_submit_reloc = c_struct [
     (''submit_offset'', u32_t),
     (''reloc_idx'', u32_t),
     (''reloc_offset'', u64_t),
     (''flags'', u32_t)]"

definition struct_drm_etnaviv_gem_submit_bo :: ctype where
  "struct_drm_etnaviv_gem_submit_bo = c_struct [
     (''flags'', u32_t),
     (''handle'', u32_t),
     (''presumed'', u64_t)]"

definition struct_drm_etnaviv_gem_submit_pmr :: ctype where
  "struct_drm_etnaviv_gem_submit_pmr = c_struct [
     (''flags'', u32_t),
     (''domain'', u8_t),
     (''pad'', u8_t),
     (''signal'', u16_t),
     (''sequence'', u32_t),
     (''read_offset'', u32_t),
     (''read_idx'', u32_t)]"

definition struct_drm_etnaviv_gem_submit :: ctype where
  "struct_drm_etnaviv_gem_submit = c_struct [
     (''fence'', u32_t),
     (''pipe'', u32_t),
     (''exec_state'', u32_t),
     (''nr_bos'', u32_t),
     (''nr_relocs'', u32_t),
     (''stream_size'', u32_t),
     (''bos'', u64_t),
     (''relocs'', u64_t),
     (''stream'', u64_t),
     (''flags'', u32_t),
     (''fence_fd'', u32_t),
     (''pmrs'', u64_t),
     (''nr_pmrs'', u32_t),
     (''pad'', u32_t)]"

definition struct_drm_etnaviv_wait_fence :: ctype where
  "struct_drm_etnaviv_wait_fence = c_struct [
     (''pipe'', u32_t),
     (''fence'', u32_t),
     (''flags'', u32_t),
     (''pad'', u32_t),
     (''timeout'', struct_drm_etnaviv_timespec)]"

definition struct_drm_etnaviv_gem_userptr :: ctype where
  "struct_drm_etnaviv_gem_userptr = c_struct [
     (''user_ptr'', u64_t),
     (''user_size'', u64_t),
     (''flags'', u32_t),
     (''handle'', u32_t)]"

definition struct_drm_etnaviv_gem_wait :: ctype where
  "struct_drm_etnaviv_gem_wait = c_struct [
     (''pipe'', u32_t),
     (''handle'', u32_t),
     (''flags'', u32_t),
     (''pad'', u32_t),
     (''timeout'', struct_drm_etnaviv_timespec)]"

definition struct_drm_etnaviv_pm_domain :: ctype where
  "struct_drm_etnaviv_pm_domain = c_struct [
     (''pipe'', u32_t),
     (''iter'', u8_t),
     (''id'', u8_t),
     (''nr_signals'', u16_t),
     (''name'', Arr u8_t 64)]"

definition struct_drm_etnaviv_pm_signal :: ctype where
  "struct_drm_etnaviv_pm_signal = c_struct [
     (''pipe'', u32_t),
     (''domain'', u8_t),
     (''pad'', u8_t),
     (''iter'', u16_t),
     (''id'', u16_t),
     (''name'', Arr u8_t 64)]"

definition DRM_IOCTL_ETNAVIV_GET_PARAM :: request where
  "DRM_IOCTL_ETNAVIV_GET_PARAM = IOWR_req DRM_IOCTL_BASE 64 struct_drm_etnaviv_param"

definition DRM_IOCTL_ETNAVIV_GEM_NEW :: request where
  "DRM_IOCTL_ETNAVIV_GEM_NEW = IOWR_req DRM_IOCTL_BASE 66 struct_drm_etnaviv_gem_new"

definition DRM_IOCTL_ETNAVIV_GEM_INFO :: request where
  "DRM_IOCTL_ETNAVIV_GEM_INFO = IOWR_req DRM_IOCTL_BASE 67 struct_drm_etnaviv_gem_info"

definition DRM_IOCTL_ETNAVIV_GEM_CPU_PREP :: request where
  "DRM_IOCTL_ETNAVIV_GEM_CPU_PREP = IOW_req DRM_IOCTL_BASE 68 struct_drm_etnaviv_gem_cpu_prep"

definition DRM_IOCTL_ETNAVIV_GEM_CPU_FINI :: request where
  "DRM_IOCTL_ETNAVIV_GEM_CPU_FINI = IOW_req DRM_IOCTL_BASE 69 struct_drm_etnaviv_gem_cpu_fini"

definition DRM_IOCTL_ETNAVIV_GEM_SUBMIT :: request where
  "DRM_IOCTL_ETNAVIV_GEM_SUBMIT = IOWR_req DRM_IOCTL_BASE 70 struct_drm_etnaviv_gem_submit"

definition DRM_IOCTL_ETNAVIV_WAIT_FENCE :: request where
  "DRM_IOCTL_ETNAVIV_WAIT_FENCE = IOW_req DRM_IOCTL_BASE 71 struct_drm_etnaviv_wait_fence"

definition DRM_IOCTL_ETNAVIV_GEM_USERPTR :: request where
  "DRM_IOCTL_ETNAVIV_GEM_USERPTR = IOWR_req DRM_IOCTL_BASE 72 struct_drm_etnaviv_gem_userptr"

definition DRM_IOCTL_ETNAVIV_GEM_WAIT :: request where
  "DRM_IOCTL_ETNAVIV_GEM_WAIT = IOW_req DRM_IOCTL_BASE 73 struct_drm_etnaviv_gem_wait"

definition DRM_IOCTL_ETNAVIV_PM_QUERY_DOM :: request where
  "DRM_IOCTL_ETNAVIV_PM_QUERY_DOM = IOWR_req DRM_IOCTL_BASE 74 struct_drm_etnaviv_pm_domain"

definition DRM_IOCTL_ETNAVIV_PM_QUERY_SIG :: request where
  "DRM_IOCTL_ETNAVIV_PM_QUERY_SIG = IOWR_req DRM_IOCTL_BASE 75 struct_drm_etnaviv_pm_signal"

definition etnaviv_requests :: "request list" where
  "etnaviv_requests = [DRM_IOCTL_ETNAVIV_GET_PARAM, DRM_IOCTL_ETNAVIV_GEM_NEW, DRM_IOCTL_ETNAVIV_GEM_INFO,
     DRM_IOCTL_ETNAVIV_GEM_CPU_PREP, DRM_IOCTL_ETNAVIV_GEM_CPU_FINI, DRM_IOCTL_ETNAVIV_GEM_SUBMIT,
     DRM_IOCTL_ETNAVIV_WAIT_FENCE, DRM_IOCTL_ETNAVIV_GEM_USERPTR, DRM_IOCTL_ETNAVIV_GEM_WAIT,
     DRM_IOCTL_ETNAVIV_PM_QUERY_DOM, DRM_IOCTL_ETNAVIV_PM_QUERY_SIG]"

section \<open>Samsung Exynos: \<^verbatim>\<open>exynos_drm.h\<close>\<close>

definition struct_drm_exynos_gem_create :: ctype where
  "struct_drm_exynos_gem_create = c_struct [
     (''size'', u64_t),
     (''flags'', u32_t),
     (''handle'', u32_t)]"

definition struct_drm_exynos_gem_map :: ctype where
  "struct_drm_exynos_gem_map = c_struct [
     (''handle'', u32_t),
     (''reserved'', u32_t),
     (''offset'', u64_t)]"

definition struct_drm_exynos_gem_info :: ctype where
  "struct_drm_exynos_gem_info = c_struct [
     (''handle'', u32_t),
     (''flags'', u32_t),
     (''size'', u64_t)]"

definition struct_drm_exynos_vidi_connection :: ctype where
  "struct_drm_exynos_vidi_connection = c_struct [
     (''connection'', u32_t),
     (''extensions'', u32_t),
     (''edid'', u64_t)]"

definition struct_drm_exynos_g2d_get_ver :: ctype where
  "struct_drm_exynos_g2d_get_ver = c_struct [
     (''major'', u32_t),
     (''minor'', u32_t)]"

definition struct_drm_exynos_g2d_cmd :: ctype where
  "struct_drm_exynos_g2d_cmd = c_struct [
     (''offset'', u32_t),
     (''data'', u32_t)]"

definition struct_drm_exynos_g2d_userptr :: "nat \<Rightarrow> ctype" where
  "struct_drm_exynos_g2d_userptr w = c_struct [
     (''userptr'', long_t w),
     (''size'', long_t w)]"

definition struct_drm_exynos_g2d_set_cmdlist :: ctype where
  "struct_drm_exynos_g2d_set_cmdlist = c_struct [
     (''cmd'', u64_t),
     (''cmd_buf'', u64_t),
     (''cmd_nr'', u32_t),
     (''cmd_buf_nr'', u32_t),
     (''event_type'', u64_t),
     (''user_data'', u64_t)]"

definition struct_drm_exynos_g2d_exec :: ctype where
  "struct_drm_exynos_g2d_exec = c_struct [
     (''async'', u64_t)]"

definition struct_drm_exynos_ioctl_ipp_get_res :: ctype where
  "struct_drm_exynos_ioctl_ipp_get_res = c_struct [
     (''count_ipps'', u32_t),
     (''reserved'', u32_t),
     (''ipp_id_ptr'', u64_t)]"

definition struct_drm_exynos_ipp_format :: ctype where
  "struct_drm_exynos_ipp_format = c_struct [
     (''fourcc'', u32_t),
     (''type'', u32_t),
     (''modifier'', u64_t)]"

definition struct_drm_exynos_ioctl_ipp_get_caps :: ctype where
  "struct_drm_exynos_ioctl_ipp_get_caps = c_struct [
     (''ipp_id'', u32_t),
     (''capabilities'', u32_t),
     (''reserved'', u32_t),
     (''formats_count'', u32_t),
     (''formats_ptr'', u64_t)]"

definition struct_drm_exynos_ipp_limit_val :: ctype where
  "struct_drm_exynos_ipp_limit_val = c_struct [
     (''min'', u32_t),
     (''max'', u32_t),
     (''align'', u32_t),
     (''reserved'', u32_t)]"

definition struct_drm_exynos_ipp_limit :: ctype where
  "struct_drm_exynos_ipp_limit = c_struct [
     (''type'', u32_t),
     (''reserved'', u32_t),
     (''h'', struct_drm_exynos_ipp_limit_val),
     (''v'', struct_drm_exynos_ipp_limit_val)]"

definition struct_drm_exynos_ioctl_ipp_get_limits :: ctype where
  "struct_drm_exynos_ioctl_ipp_get_limits = c_struct [
     (''ipp_id'', u32_t),
     (''fourcc'', u32_t),
     (''modifier'', u64_t),
     (''type'', u32_t),
     (''limits_count'', u32_t),
     (''limits_ptr'', u64_t)]"

definition struct_drm_exynos_ipp_task_buffer :: ctype where
  "struct_drm_exynos_ipp_task_buffer = c_struct [
     (''id'', u32_t),
     (''fourcc'', u32_t),
     (''width'', u32_t),
     (''height'', u32_t),
     (''gem_id'', Arr u32_t 4),
     (''offset'', Arr u32_t 4),
     (''pitch'', Arr u32_t 4),
     (''modifier'', u64_t)]"

definition struct_drm_exynos_ipp_task_rect :: ctype where
  "struct_drm_exynos_ipp_task_rect = c_struct [
     (''id'', u32_t),
     (''reserved'', u32_t),
     (''x'', u32_t),
     (''y'', u32_t),
     (''w'', u32_t),
     (''h'', u32_t)]"

definition struct_drm_exynos_ipp_task_transform :: ctype where
  "struct_drm_exynos_ipp_task_transform = c_struct [
     (''id'', u32_t),
     (''rotation'', u32_t)]"

definition struct_drm_exynos_ipp_task_alpha :: ctype where
  "struct_drm_exynos_ipp_task_alpha = c_struct [
     (''id'', u32_t),
     (''value'', u32_t)]"

definition struct_drm_exynos_ioctl_ipp_commit :: ctype where
  "struct_drm_exynos_ioctl_ipp_commit = c_struct [
     (''ipp_id'', u32_t),
     (''flags'', u32_t),
     (''reserved'', u32_t),
     (''params_size'', u32_t),
     (''params_ptr'', u64_t),
     (''user_data'', u64_t)]"

definition struct_drm_exynos_g2d_event :: ctype where
  "struct_drm_exynos_g2d_event = c_struct [
     (''base'', struct_drm_event),
     (''user_data'', u64_t),
     (''tv_sec'', u32_t),
     (''tv_usec'', u32_t),
     (''cmdlist_no'', u32_t),
     (''reserved'', u32_t)]"

definition struct_drm_exynos_ipp_event :: ctype where
  "struct_drm_exynos_ipp_event = c_struct [
     (''base'', struct_drm_event),
     (''user_data'', u64_t),
     (''tv_sec'', u32_t),
     (''tv_usec'', u32_t),
     (''ipp_id'', u32_t),
     (''sequence'', u32_t),
     (''reserved'', u64_t)]"

definition DRM_IOCTL_EXYNOS_GEM_CREATE :: request where
  "DRM_IOCTL_EXYNOS_GEM_CREATE = IOWR_req DRM_IOCTL_BASE 64 struct_drm_exynos_gem_create"

definition DRM_IOCTL_EXYNOS_GEM_MAP :: request where
  "DRM_IOCTL_EXYNOS_GEM_MAP = IOWR_req DRM_IOCTL_BASE 65 struct_drm_exynos_gem_map"

definition DRM_IOCTL_EXYNOS_GEM_GET :: request where
  "DRM_IOCTL_EXYNOS_GEM_GET = IOWR_req DRM_IOCTL_BASE 68 struct_drm_exynos_gem_info"

definition DRM_IOCTL_EXYNOS_VIDI_CONNECTION :: request where
  "DRM_IOCTL_EXYNOS_VIDI_CONNECTION = IOWR_req DRM_IOCTL_BASE 71 struct_drm_exynos_vidi_connection"

definition DRM_IOCTL_EXYNOS_G2D_GET_VER :: request where
  "DRM_IOCTL_EXYNOS_G2D_GET_VER = IOWR_req DRM_IOCTL_BASE 96 struct_drm_exynos_g2d_get_ver"

definition DRM_IOCTL_EXYNOS_G2D_SET_CMDLIST :: request where
  "DRM_IOCTL_EXYNOS_G2D_SET_CMDLIST = IOWR_req DRM_IOCTL_BASE 97 struct_drm_exynos_g2d_set_cmdlist"

definition DRM_IOCTL_EXYNOS_G2D_EXEC :: request where
  "DRM_IOCTL_EXYNOS_G2D_EXEC = IOWR_req DRM_IOCTL_BASE 98 struct_drm_exynos_g2d_exec"

definition DRM_IOCTL_EXYNOS_IPP_GET_RESOURCES :: request where
  "DRM_IOCTL_EXYNOS_IPP_GET_RESOURCES = IOWR_req DRM_IOCTL_BASE 128 struct_drm_exynos_ioctl_ipp_get_res"

definition DRM_IOCTL_EXYNOS_IPP_GET_CAPS :: request where
  "DRM_IOCTL_EXYNOS_IPP_GET_CAPS = IOWR_req DRM_IOCTL_BASE 129 struct_drm_exynos_ioctl_ipp_get_caps"

definition DRM_IOCTL_EXYNOS_IPP_GET_LIMITS :: request where
  "DRM_IOCTL_EXYNOS_IPP_GET_LIMITS = IOWR_req DRM_IOCTL_BASE 130 struct_drm_exynos_ioctl_ipp_get_limits"

definition DRM_IOCTL_EXYNOS_IPP_COMMIT :: request where
  "DRM_IOCTL_EXYNOS_IPP_COMMIT = IOWR_req DRM_IOCTL_BASE 131 struct_drm_exynos_ioctl_ipp_commit"

definition exynos_requests :: "request list" where
  "exynos_requests = [DRM_IOCTL_EXYNOS_GEM_CREATE, DRM_IOCTL_EXYNOS_GEM_MAP, DRM_IOCTL_EXYNOS_GEM_GET,
     DRM_IOCTL_EXYNOS_VIDI_CONNECTION, DRM_IOCTL_EXYNOS_G2D_GET_VER, DRM_IOCTL_EXYNOS_G2D_SET_CMDLIST,
     DRM_IOCTL_EXYNOS_G2D_EXEC, DRM_IOCTL_EXYNOS_IPP_GET_RESOURCES, DRM_IOCTL_EXYNOS_IPP_GET_CAPS,
     DRM_IOCTL_EXYNOS_IPP_GET_LIMITS, DRM_IOCTL_EXYNOS_IPP_COMMIT]"

section \<open>ARM Mali Utgard: \<^verbatim>\<open>lima_drm.h\<close>\<close>

definition struct_drm_lima_get_param :: ctype where
  "struct_drm_lima_get_param = c_struct [
     (''param'', u32_t),
     (''pad'', u32_t),
     (''value'', u64_t)]"

definition struct_drm_lima_gem_create :: ctype where
  "struct_drm_lima_gem_create = c_struct [
     (''size'', u32_t),
     (''flags'', u32_t),
     (''handle'', u32_t),
     (''pad'', u32_t)]"

definition struct_drm_lima_gem_info :: ctype where
  "struct_drm_lima_gem_info = c_struct [
     (''handle'', u32_t),
     (''va'', u32_t),
     (''offset'', u64_t)]"

definition struct_drm_lima_gem_submit_bo :: ctype where
  "struct_drm_lima_gem_submit_bo = c_struct [
     (''handle'', u32_t),
     (''flags'', u32_t)]"

definition struct_drm_lima_gp_frame :: ctype where
  "struct_drm_lima_gp_frame = c_struct [
     (''frame'', Arr u32_t 6)]"

definition struct_drm_lima_m400_pp_frame :: ctype where
  "struct_drm_lima_m400_pp_frame = c_struct [
     (''frame'', Arr u32_t 23),
     (''num_pp'', u32_t),
     (''wb'', Arr u32_t 36),
     (''plbu_array_address'', Arr u32_t 4),
     (''fragment_stack_address'', Arr u32_t 4)]"

definition struct_drm_lima_m450_pp_frame :: ctype where
  "struct_drm_lima_m450_pp_frame = c_struct [
     (''frame'', Arr u32_t 23),
     (''num_pp'', u32_t),
     (''wb'', Arr u32_t 36),
     (''use_dlbu'', u32_t),
     (''_pad'', u32_t),
     ('''', c_union [ (''plbu_array_address'', Arr u32_t 8), (''dlbu_regs'', Arr u32_t 4)]),
     (''fragment_stack_address'', Arr u32_t 8)]"

definition struct_drm_lima_gem_submit :: ctype where
  "struct_drm_lima_gem_submit = c_struct [
     (''ctx'', u32_t),
     (''pipe'', u32_t),
     (''nr_bos'', u32_t),
     (''frame_size'', u32_t),
     (''bos'', u64_t),
     (''frame'', u64_t),
     (''flags'', u32_t),
     (''out_sync'', u32_t),
     (''in_sync'', Arr u32_t 2)]"

definition struct_drm_lima_gem_wait :: ctype where
  "struct_drm_lima_gem_wait = c_struct [
     (''handle'', u32_t),
     (''op'', u32_t),
     (''timeout_ns'', u64_t)]"

definition struct_drm_lima_ctx_create :: ctype where
  "struct_drm_lima_ctx_create = c_struct [
     (''id'', u32_t),
     (''_pad'', u32_t)]"

definition struct_drm_lima_ctx_free :: ctype where
  "struct_drm_lima_ctx_free = c_struct [
     (''id'', u32_t),
     (''_pad'', u32_t)]"

definition DRM_IOCTL_LIMA_GET_PARAM :: request where
  "DRM_IOCTL_LIMA_GET_PARAM = IOWR_req DRM_IOCTL_BASE 64 struct_drm_lima_get_param"

definition DRM_IOCTL_LIMA_GEM_CREATE :: request where
  "DRM_IOCTL_LIMA_GEM_CREATE = IOWR_req DRM_IOCTL_BASE 65 struct_drm_lima_gem_create"

definition DRM_IOCTL_LIMA_GEM_INFO :: request where
  "DRM_IOCTL_LIMA_GEM_INFO = IOWR_req DRM_IOCTL_BASE 66 struct_drm_lima_gem_info"

definition DRM_IOCTL_LIMA_GEM_SUBMIT :: request where
  "DRM_IOCTL_LIMA_GEM_SUBMIT = IOW_req DRM_IOCTL_BASE 67 struct_drm_lima_gem_submit"

definition DRM_IOCTL_LIMA_GEM_WAIT :: request where
  "DRM_IOCTL_LIMA_GEM_WAIT = IOW_req DRM_IOCTL_BASE 68 struct_drm_lima_gem_wait"

definition DRM_IOCTL_LIMA_CTX_CREATE :: request where
  "DRM_IOCTL_LIMA_CTX_CREATE = IOR_req DRM_IOCTL_BASE 69 struct_drm_lima_ctx_create"

definition DRM_IOCTL_LIMA_CTX_FREE :: request where
  "DRM_IOCTL_LIMA_CTX_FREE = IOW_req DRM_IOCTL_BASE 70 struct_drm_lima_ctx_free"

definition lima_requests :: "request list" where
  "lima_requests = [DRM_IOCTL_LIMA_GET_PARAM, DRM_IOCTL_LIMA_GEM_CREATE, DRM_IOCTL_LIMA_GEM_INFO, DRM_IOCTL_LIMA_GEM_SUBMIT,
     DRM_IOCTL_LIMA_GEM_WAIT, DRM_IOCTL_LIMA_CTX_CREATE, DRM_IOCTL_LIMA_CTX_FREE]"

section \<open>Qualcomm: \<^verbatim>\<open>msm_drm.h\<close>\<close>

definition struct_drm_msm_timespec :: ctype where
  "struct_drm_msm_timespec = c_struct [
     (''tv_sec'', u64_t),
     (''tv_nsec'', u64_t)]"

definition struct_drm_msm_param :: ctype where
  "struct_drm_msm_param = c_struct [
     (''pipe'', u32_t),
     (''param'', u32_t),
     (''value'', u64_t)]"

definition struct_drm_msm_gem_new :: ctype where
  "struct_drm_msm_gem_new = c_struct [
     (''size'', u64_t),
     (''flags'', u32_t),
     (''handle'', u32_t)]"

definition struct_drm_msm_gem_info :: ctype where
  "struct_drm_msm_gem_info = c_struct [
     (''handle'', u32_t),
     (''info'', u32_t),
     (''value'', u64_t),
     (''len'', u32_t),
     (''pad'', u32_t)]"

definition struct_drm_msm_gem_cpu_prep :: ctype where
  "struct_drm_msm_gem_cpu_prep = c_struct [
     (''handle'', u32_t),
     (''op'', u32_t),
     (''timeout'', struct_drm_msm_timespec)]"

definition struct_drm_msm_gem_cpu_fini :: ctype where
  "struct_drm_msm_gem_cpu_fini = c_struct [
     (''handle'', u32_t)]"

definition struct_drm_msm_gem_submit_reloc :: ctype where
  "struct_drm_msm_gem_submit_reloc = c_struct [
     (''submit_offset'', u32_t),
     (''or'', u32_t),
     (''shift'', u32_t),
     (''reloc_idx'', u32_t),
     (''reloc_offset'', u64_t)]"

definition struct_drm_msm_gem_submit_cmd :: ctype where
  "struct_drm_msm_gem_submit_cmd = c_struct [
     (''type'', u32_t),
     (''submit_idx'', u32_t),
     (''submit_offset'', u32_t),
     (''size'', u32_t),
     (''pad'', u32_t),
     (''nr_relocs'', u32_t),
     (''relocs'', u64_t)]"

definition struct_drm_msm_gem_submit_bo :: ctype where
  "struct_drm_msm_gem_submit_bo = c_struct [
     (''flags'', u32_t),
     (''handle'', u32_t),
     (''presumed'', u64_t)]"

definition struct_drm_msm_gem_submit_syncobj :: ctype where
  "struct_drm_msm_gem_submit_syncobj = c_struct [
     (''handle'', u32_t),
     (''flags'', u32_t),
     (''point'', u64_t)]"

definition struct_drm_msm_gem_submit :: ctype where
  "struct_drm_msm_gem_submit = c_struct [
     (''flags'', u32_t),
     (''fence'', u32_t),
     (''nr_bos'', u32_t),
     (''nr_cmds'', u32_t),
     (''bos'', u64_t),
     (''cmds'', u64_t),
     (''fence_fd'', u32_t),
     (''queueid'', u32_t),
     (''in_syncobjs'', u64_t),
     (''out_syncobjs'', u64_t),
     (''nr_in_syncobjs'', u32_t),
     (''nr_out_syncobjs'', u32_t),
     (''syncobj_stride'', u32_t),
     (''pad'', u32_t)]"

definition struct_drm_msm_wait_fence :: ctype where
  "struct_drm_msm_wait_fence = c_struct [
     (''fence'', u32_t),
     (''pad'', u32_t),
     (''timeout'', struct_drm_msm_timespec),
     (''queueid'', u32_t)]"

definition struct_drm_msm_gem_madvise :: ctype where
  "struct_drm_msm_gem_madvise = c_struct [
     (''handle'', u32_t),
     (''madv'', u32_t),
     (''retained'', u32_t)]"

definition struct_drm_msm_submitqueue :: ctype where
  "struct_drm_msm_submitqueue = c_struct [
     (''flags'', u32_t),
     (''prio'', u32_t),
     (''id'', u32_t)]"

definition struct_drm_msm_submitqueue_query :: ctype where
  "struct_drm_msm_submitqueue_query = c_struct [
     (''data'', u64_t),
     (''id'', u32_t),
     (''param'', u32_t),
     (''len'', u32_t),
     (''pad'', u32_t)]"

definition DRM_IOCTL_MSM_GET_PARAM :: request where
  "DRM_IOCTL_MSM_GET_PARAM = IOWR_req DRM_IOCTL_BASE 64 struct_drm_msm_param"

definition DRM_IOCTL_MSM_GEM_NEW :: request where
  "DRM_IOCTL_MSM_GEM_NEW = IOWR_req DRM_IOCTL_BASE 66 struct_drm_msm_gem_new"

definition DRM_IOCTL_MSM_GEM_INFO :: request where
  "DRM_IOCTL_MSM_GEM_INFO = IOWR_req DRM_IOCTL_BASE 67 struct_drm_msm_gem_info"

definition DRM_IOCTL_MSM_GEM_CPU_PREP :: request where
  "DRM_IOCTL_MSM_GEM_CPU_PREP = IOW_req DRM_IOCTL_BASE 68 struct_drm_msm_gem_cpu_prep"

definition DRM_IOCTL_MSM_GEM_CPU_FINI :: request where
  "DRM_IOCTL_MSM_GEM_CPU_FINI = IOW_req DRM_IOCTL_BASE 69 struct_drm_msm_gem_cpu_fini"

definition DRM_IOCTL_MSM_GEM_SUBMIT :: request where
  "DRM_IOCTL_MSM_GEM_SUBMIT = IOWR_req DRM_IOCTL_BASE 70 struct_drm_msm_gem_submit"

definition DRM_IOCTL_MSM_WAIT_FENCE :: request where
  "DRM_IOCTL_MSM_WAIT_FENCE = IOW_req DRM_IOCTL_BASE 71 struct_drm_msm_wait_fence"

definition DRM_IOCTL_MSM_GEM_MADVISE :: request where
  "DRM_IOCTL_MSM_GEM_MADVISE = IOWR_req DRM_IOCTL_BASE 72 struct_drm_msm_gem_madvise"

definition DRM_IOCTL_MSM_SUBMITQUEUE_NEW :: request where
  "DRM_IOCTL_MSM_SUBMITQUEUE_NEW = IOWR_req DRM_IOCTL_BASE 74 struct_drm_msm_submitqueue"

definition DRM_IOCTL_MSM_SUBMITQUEUE_CLOSE :: request where
  "DRM_IOCTL_MSM_SUBMITQUEUE_CLOSE = IOW_req DRM_IOCTL_BASE 75 u32_t"

definition DRM_IOCTL_MSM_SUBMITQUEUE_QUERY :: request where
  "DRM_IOCTL_MSM_SUBMITQUEUE_QUERY = IOW_req DRM_IOCTL_BASE 76 struct_drm_msm_submitqueue_query"

definition msm_requests :: "request list" where
  "msm_requests = [DRM_IOCTL_MSM_GET_PARAM, DRM_IOCTL_MSM_GEM_NEW, DRM_IOCTL_MSM_GEM_INFO, DRM_IOCTL_MSM_GEM_CPU_PREP,
     DRM_IOCTL_MSM_GEM_CPU_FINI, DRM_IOCTL_MSM_GEM_SUBMIT, DRM_IOCTL_MSM_WAIT_FENCE, DRM_IOCTL_MSM_GEM_MADVISE,
     DRM_IOCTL_MSM_SUBMITQUEUE_NEW, DRM_IOCTL_MSM_SUBMITQUEUE_CLOSE, DRM_IOCTL_MSM_SUBMITQUEUE_QUERY]"

section \<open>NVIDIA: \<^verbatim>\<open>nouveau_drm.h\<close>\<close>

definition struct_drm_nouveau_gem_info :: ctype where
  "struct_drm_nouveau_gem_info = c_struct [
     (''handle'', u32_t),
     (''domain'', u32_t),
     (''size'', u64_t),
     (''offset'', u64_t),
     (''map_handle'', u64_t),
     (''tile_mode'', u32_t),
     (''tile_flags'', u32_t)]"

definition struct_drm_nouveau_gem_new :: ctype where
  "struct_drm_nouveau_gem_new = c_struct [
     (''info'', struct_drm_nouveau_gem_info),
     (''channel_hint'', u32_t),
     (''align'', u32_t)]"

definition struct_drm_nouveau_gem_pushbuf_bo_presumed :: ctype where
  "struct_drm_nouveau_gem_pushbuf_bo_presumed = c_struct [
     (''valid'', u32_t),
     (''domain'', u32_t),
     (''offset'', u64_t)]"

definition struct_drm_nouveau_gem_pushbuf_bo :: ctype where
  "struct_drm_nouveau_gem_pushbuf_bo = c_struct [
     (''user_priv'', u64_t),
     (''handle'', u32_t),
     (''read_domains'', u32_t),
     (''write_domains'', u32_t),
     (''valid_domains'', u32_t),
     (''presumed'', struct_drm_nouveau_gem_pushbuf_bo_presumed)]"

definition struct_drm_nouveau_gem_pushbuf_reloc :: ctype where
  "struct_drm_nouveau_gem_pushbuf_reloc = c_struct [
     (''reloc_bo_index'', u32_t),
     (''reloc_bo_offset'', u32_t),
     (''bo_index'', u32_t),
     (''flags'', u32_t),
     (''data'', u32_t),
     (''vor'', u32_t),
     (''tor'', u32_t)]"

definition struct_drm_nouveau_gem_pushbuf_push :: ctype where
  "struct_drm_nouveau_gem_pushbuf_push = c_struct [
     (''bo_index'', u32_t),
     (''pad'', u32_t),
     (''offset'', u64_t),
     (''length'', u64_t)]"

definition struct_drm_nouveau_gem_pushbuf :: ctype where
  "struct_drm_nouveau_gem_pushbuf = c_struct [
     (''channel'', u32_t),
     (''nr_buffers'', u32_t),
     (''buffers'', u64_t),
     (''nr_relocs'', u32_t),
     (''nr_push'', u32_t),
     (''relocs'', u64_t),
     (''push'', u64_t),
     (''suffix0'', u32_t),
     (''suffix1'', u32_t),
     (''vram_available'', u64_t),
     (''gart_available'', u64_t)]"

definition struct_drm_nouveau_gem_cpu_prep :: ctype where
  "struct_drm_nouveau_gem_cpu_prep = c_struct [
     (''handle'', u32_t),
     (''flags'', u32_t)]"

definition struct_drm_nouveau_gem_cpu_fini :: ctype where
  "struct_drm_nouveau_gem_cpu_fini = c_struct [
     (''handle'', u32_t)]"

definition struct_drm_nouveau_svm_init :: ctype where
  "struct_drm_nouveau_svm_init = c_struct [
     (''unmanaged_addr'', u64_t),
     (''unmanaged_size'', u64_t)]"

definition struct_drm_nouveau_svm_bind :: ctype where
  "struct_drm_nouveau_svm_bind = c_struct [
     (''header'', u64_t),
     (''va_start'', u64_t),
     (''va_end'', u64_t),
     (''npages'', u64_t),
     (''stride'', u64_t),
     (''result'', u64_t),
     (''reserved0'', u64_t),
     (''reserved1'', u64_t)]"

definition DRM_IOCTL_NOUVEAU_SVM_INIT :: request where
  "DRM_IOCTL_NOUVEAU_SVM_INIT = IOWR_req DRM_IOCTL_BASE 72 struct_drm_nouveau_svm_init"

definition DRM_IOCTL_NOUVEAU_SVM_BIND :: request where
  "DRM_IOCTL_NOUVEAU_SVM_BIND = IOWR_req DRM_IOCTL_BASE 73 struct_drm_nouveau_svm_bind"

definition DRM_IOCTL_NOUVEAU_GEM_NEW :: request where
  "DRM_IOCTL_NOUVEAU_GEM_NEW = IOWR_req DRM_IOCTL_BASE 128 struct_drm_nouveau_gem_new"

definition DRM_IOCTL_NOUVEAU_GEM_PUSHBUF :: request where
  "DRM_IOCTL_NOUVEAU_GEM_PUSHBUF = IOWR_req DRM_IOCTL_BASE 129 struct_drm_nouveau_gem_pushbuf"

definition DRM_IOCTL_NOUVEAU_GEM_CPU_PREP :: request where
  "DRM_IOCTL_NOUVEAU_GEM_CPU_PREP = IOW_req DRM_IOCTL_BASE 130 struct_drm_nouveau_gem_cpu_prep"

definition DRM_IOCTL_NOUVEAU_GEM_CPU_FINI :: request where
  "DRM_IOCTL_NOUVEAU_GEM_CPU_FINI = IOW_req DRM_IOCTL_BASE 131 struct_drm_nouveau_gem_cpu_fini"

definition DRM_IOCTL_NOUVEAU_GEM_INFO :: request where
  "DRM_IOCTL_NOUVEAU_GEM_INFO = IOWR_req DRM_IOCTL_BASE 132 struct_drm_nouveau_gem_info"

definition nouveau_requests :: "request list" where
  "nouveau_requests = [DRM_IOCTL_NOUVEAU_SVM_INIT, DRM_IOCTL_NOUVEAU_SVM_BIND, DRM_IOCTL_NOUVEAU_GEM_NEW,
     DRM_IOCTL_NOUVEAU_GEM_PUSHBUF, DRM_IOCTL_NOUVEAU_GEM_CPU_PREP, DRM_IOCTL_NOUVEAU_GEM_CPU_FINI,
     DRM_IOCTL_NOUVEAU_GEM_INFO]"

section \<open>Texas Instruments: \<^verbatim>\<open>omap_drm.h\<close>\<close>

definition struct_drm_omap_param :: ctype where
  "struct_drm_omap_param = c_struct [
     (''param'', u64_t),
     (''value'', u64_t)]"

definition union_omap_gem_size :: ctype where
  "union_omap_gem_size = c_union [
     (''bytes'', u32_t),
     (''tiled'', c_struct [ (''width'', u16_t), (''height'', u16_t)])]"

definition struct_drm_omap_gem_new :: ctype where
  "struct_drm_omap_gem_new = c_struct [
     (''size'', union_omap_gem_size),
     (''flags'', u32_t),
     (''handle'', u32_t),
     (''__pad'', u32_t)]"

definition struct_drm_omap_gem_cpu_prep :: ctype where
  "struct_drm_omap_gem_cpu_prep = c_struct [
     (''handle'', u32_t),
     (''op'', u32_t)]"

definition struct_drm_omap_gem_cpu_fini :: ctype where
  "struct_drm_omap_gem_cpu_fini = c_struct [
     (''handle'', u32_t),
     (''op'', u32_t),
     (''nregions'', u32_t),
     (''__pad'', u32_t)]"

definition struct_drm_omap_gem_info :: ctype where
  "struct_drm_omap_gem_info = c_struct [
     (''handle'', u32_t),
     (''pad'', u32_t),
     (''offset'', u64_t),
     (''size'', u32_t),
     (''__pad'', u32_t)]"

definition DRM_IOCTL_OMAP_GET_PARAM :: request where
  "DRM_IOCTL_OMAP_GET_PARAM = IOWR_req DRM_IOCTL_BASE 64 struct_drm_omap_param"

definition DRM_IOCTL_OMAP_SET_PARAM :: request where
  "DRM_IOCTL_OMAP_SET_PARAM = IOW_req DRM_IOCTL_BASE 65 struct_drm_omap_param"

definition DRM_IOCTL_OMAP_GEM_NEW :: request where
  "DRM_IOCTL_OMAP_GEM_NEW = IOWR_req DRM_IOCTL_BASE 67 struct_drm_omap_gem_new"

definition DRM_IOCTL_OMAP_GEM_CPU_PREP :: request where
  "DRM_IOCTL_OMAP_GEM_CPU_PREP = IOW_req DRM_IOCTL_BASE 68 struct_drm_omap_gem_cpu_prep"

definition DRM_IOCTL_OMAP_GEM_CPU_FINI :: request where
  "DRM_IOCTL_OMAP_GEM_CPU_FINI = IOW_req DRM_IOCTL_BASE 69 struct_drm_omap_gem_cpu_fini"

definition DRM_IOCTL_OMAP_GEM_INFO :: request where
  "DRM_IOCTL_OMAP_GEM_INFO = IOWR_req DRM_IOCTL_BASE 70 struct_drm_omap_gem_info"

definition omap_requests :: "request list" where
  "omap_requests = [DRM_IOCTL_OMAP_GET_PARAM, DRM_IOCTL_OMAP_SET_PARAM, DRM_IOCTL_OMAP_GEM_NEW, DRM_IOCTL_OMAP_GEM_CPU_PREP,
     DRM_IOCTL_OMAP_GEM_CPU_FINI, DRM_IOCTL_OMAP_GEM_INFO]"

section \<open>ARM Mali Midgard: \<^verbatim>\<open>panfrost_drm.h\<close>\<close>

definition struct_drm_panfrost_submit :: ctype where
  "struct_drm_panfrost_submit = c_struct [
     (''jc'', u64_t),
     (''in_syncs'', u64_t),
     (''in_sync_count'', u32_t),
     (''out_sync'', u32_t),
     (''bo_handles'', u64_t),
     (''bo_handle_count'', u32_t),
     (''requirements'', u32_t)]"

definition struct_drm_panfrost_wait_bo :: ctype where
  "struct_drm_panfrost_wait_bo = c_struct [
     (''handle'', u32_t),
     (''pad'', u32_t),
     (''timeout_ns'', u64_t)]"

definition struct_drm_panfrost_create_bo :: ctype where
  "struct_drm_panfrost_create_bo = c_struct [
     (''size'', u32_t),
     (''flags'', u32_t),
     (''handle'', u32_t),
     (''pad'', u32_t),
     (''offset'', u64_t)]"

definition struct_drm_panfrost_mmap_bo :: ctype where
  "struct_drm_panfrost_mmap_bo = c_struct [
     (''handle'', u32_t),
     (''flags'', u32_t),
     (''offset'', u64_t)]"

definition struct_drm_panfrost_get_param :: ctype where
  "struct_drm_panfrost_get_param = c_struct [
     (''param'', u32_t),
     (''pad'', u32_t),
     (''value'', u64_t)]"

definition struct_drm_panfrost_get_bo_offset :: ctype where
  "struct_drm_panfrost_get_bo_offset = c_struct [
     (''handle'', u32_t),
     (''pad'', u32_t),
     (''offset'', u64_t)]"

definition struct_drm_panfrost_perfcnt_enable :: ctype where
  "struct_drm_panfrost_perfcnt_enable = c_struct [
     (''enable'', u32_t),
     (''counterset'', u32_t)]"

definition struct_drm_panfrost_perfcnt_dump :: ctype where
  "struct_drm_panfrost_perfcnt_dump = c_struct [
     (''buf_ptr'', u64_t)]"

definition struct_drm_panfrost_madvise :: ctype where
  "struct_drm_panfrost_madvise = c_struct [
     (''handle'', u32_t),
     (''madv'', u32_t),
     (''retained'', u32_t)]"

definition DRM_IOCTL_PANFROST_SUBMIT :: request where
  "DRM_IOCTL_PANFROST_SUBMIT = IOW_req DRM_IOCTL_BASE 64 struct_drm_panfrost_submit"

definition DRM_IOCTL_PANFROST_WAIT_BO :: request where
  "DRM_IOCTL_PANFROST_WAIT_BO = IOW_req DRM_IOCTL_BASE 65 struct_drm_panfrost_wait_bo"

definition DRM_IOCTL_PANFROST_CREATE_BO :: request where
  "DRM_IOCTL_PANFROST_CREATE_BO = IOWR_req DRM_IOCTL_BASE 66 struct_drm_panfrost_create_bo"

definition DRM_IOCTL_PANFROST_MMAP_BO :: request where
  "DRM_IOCTL_PANFROST_MMAP_BO = IOWR_req DRM_IOCTL_BASE 67 struct_drm_panfrost_mmap_bo"

definition DRM_IOCTL_PANFROST_GET_PARAM :: request where
  "DRM_IOCTL_PANFROST_GET_PARAM = IOWR_req DRM_IOCTL_BASE 68 struct_drm_panfrost_get_param"

definition DRM_IOCTL_PANFROST_GET_BO_OFFSET :: request where
  "DRM_IOCTL_PANFROST_GET_BO_OFFSET = IOWR_req DRM_IOCTL_BASE 69 struct_drm_panfrost_get_bo_offset"

definition DRM_IOCTL_PANFROST_MADVISE :: request where
  "DRM_IOCTL_PANFROST_MADVISE = IOWR_req DRM_IOCTL_BASE 72 struct_drm_panfrost_madvise"

definition DRM_IOCTL_PANFROST_PERFCNT_ENABLE :: request where
  "DRM_IOCTL_PANFROST_PERFCNT_ENABLE = IOW_req DRM_IOCTL_BASE 70 struct_drm_panfrost_perfcnt_enable"

definition DRM_IOCTL_PANFROST_PERFCNT_DUMP :: request where
  "DRM_IOCTL_PANFROST_PERFCNT_DUMP = IOW_req DRM_IOCTL_BASE 71 struct_drm_panfrost_perfcnt_dump"

definition panfrost_requests :: "request list" where
  "panfrost_requests = [DRM_IOCTL_PANFROST_SUBMIT, DRM_IOCTL_PANFROST_WAIT_BO, DRM_IOCTL_PANFROST_CREATE_BO,
     DRM_IOCTL_PANFROST_MMAP_BO, DRM_IOCTL_PANFROST_GET_PARAM, DRM_IOCTL_PANFROST_GET_BO_OFFSET,
     DRM_IOCTL_PANFROST_PERFCNT_ENABLE, DRM_IOCTL_PANFROST_PERFCNT_DUMP, DRM_IOCTL_PANFROST_MADVISE]"

section \<open>QXL: \<^verbatim>\<open>qxl_drm.h\<close>\<close>

definition struct_drm_qxl_alloc :: ctype where
  "struct_drm_qxl_alloc = c_struct [
     (''size'', u32_t),
     (''handle'', u32_t)]"

definition struct_drm_qxl_map :: ctype where
  "struct_drm_qxl_map = c_struct [
     (''offset'', u64_t),
     (''handle'', u32_t),
     (''pad'', u32_t)]"

definition struct_drm_qxl_reloc :: ctype where
  "struct_drm_qxl_reloc = c_struct [
     (''src_offset'', u64_t),
     (''dst_offset'', u64_t),
     (''src_handle'', u32_t),
     (''dst_handle'', u32_t),
     (''reloc_type'', u32_t),
     (''pad'', u32_t)]"

definition struct_drm_qxl_command :: ctype where
  "struct_drm_qxl_command = c_struct [
     (''command'', u64_t),
     (''relocs'', u64_t),
     (''type'', u32_t),
     (''command_size'', u32_t),
     (''relocs_num'', u32_t),
     (''pad'', u32_t)]"

definition struct_drm_qxl_execbuffer :: ctype where
  "struct_drm_qxl_execbuffer = c_struct [
     (''flags'', u32_t),
     (''commands_num'', u32_t),
     (''commands'', u64_t)]"

definition struct_drm_qxl_update_area :: ctype where
  "struct_drm_qxl_update_area = c_struct [
     (''handle'', u32_t),
     (''top'', u32_t),
     (''left'', u32_t),
     (''bottom'', u32_t),
     (''right'', u32_t),
     (''pad'', u32_t)]"

definition struct_drm_qxl_getparam :: ctype where
  "struct_drm_qxl_getparam = c_struct [
     (''param'', u64_t),
     (''value'', u64_t)]"

definition struct_drm_qxl_clientcap :: ctype where
  "struct_drm_qxl_clientcap = c_struct [
     (''index'', u32_t),
     (''pad'', u32_t)]"

definition struct_drm_qxl_alloc_surf :: ctype where
  "struct_drm_qxl_alloc_surf = c_struct [
     (''format'', u32_t),
     (''width'', u32_t),
     (''height'', u32_t),
     (''stride'', u32_t),
     (''handle'', u32_t),
     (''pad'', u32_t)]"

definition DRM_IOCTL_QXL_ALLOC :: request where
  "DRM_IOCTL_QXL_ALLOC = IOWR_req DRM_IOCTL_BASE 64 struct_drm_qxl_alloc"

definition DRM_IOCTL_QXL_MAP :: request where
  "DRM_IOCTL_QXL_MAP = IOWR_req DRM_IOCTL_BASE 65 struct_drm_qxl_map"

definition DRM_IOCTL_QXL_EXECBUFFER :: request where
  "DRM_IOCTL_QXL_EXECBUFFER = IOW_req DRM_IOCTL_BASE 66 struct_drm_qxl_execbuffer"

definition DRM_IOCTL_QXL_UPDATE_AREA :: request where
  "DRM_IOCTL_QXL_UPDATE_AREA = IOW_req DRM_IOCTL_BASE 67 struct_drm_qxl_update_area"

definition DRM_IOCTL_QXL_GETPARAM :: request where
  "DRM_IOCTL_QXL_GETPARAM = IOWR_req DRM_IOCTL_BASE 68 struct_drm_qxl_getparam"

definition DRM_IOCTL_QXL_CLIENTCAP :: request where
  "DRM_IOCTL_QXL_CLIENTCAP = IOW_req DRM_IOCTL_BASE 69 struct_drm_qxl_clientcap"

definition DRM_IOCTL_QXL_ALLOC_SURF :: request where
  "DRM_IOCTL_QXL_ALLOC_SURF = IOWR_req DRM_IOCTL_BASE 70 struct_drm_qxl_alloc_surf"

definition qxl_requests :: "request list" where
  "qxl_requests = [DRM_IOCTL_QXL_ALLOC, DRM_IOCTL_QXL_MAP, DRM_IOCTL_QXL_EXECBUFFER, DRM_IOCTL_QXL_UPDATE_AREA,
     DRM_IOCTL_QXL_GETPARAM, DRM_IOCTL_QXL_CLIENTCAP, DRM_IOCTL_QXL_ALLOC_SURF]"

section \<open>AMD Radeon: \<^verbatim>\<open>radeon_drm.h\<close>\<close>

definition struct_drm_radeon_init :: "nat \<Rightarrow> ctype" where
  "struct_drm_radeon_init w = c_struct [
     (''func'', u32_t),
     (''sarea_priv_offset'', long_t w),
     (''is_pci'', u32_t),
     (''cp_mode'', u32_t),
     (''gart_size'', u32_t),
     (''ring_size'', u32_t),
     (''usec_timeout'', u32_t),
     (''fb_bpp'', u32_t),
     (''front_offset'', u32_t),
     (''front_pitch'', u32_t),
     (''back_offset'', u32_t),
     (''back_pitch'', u32_t),
     (''depth_bpp'', u32_t),
     (''depth_offset'', u32_t),
     (''depth_pitch'', u32_t),
     (''fb_offset'', long_t w),
     (''mmio_offset'', long_t w),
     (''ring_offset'', long_t w),
     (''ring_rptr_offset'', long_t w),
     (''buffers_offset'', long_t w),
     (''gart_textures_offset'', long_t w)]"

definition struct_drm_radeon_cp_stop :: ctype where
  "struct_drm_radeon_cp_stop = c_struct [
     (''flush'', u32_t),
     (''idle'', u32_t)]"

definition struct_drm_radeon_fullscreen :: ctype where
  "struct_drm_radeon_fullscreen = c_struct [
     (''func'', u32_t)]"

definition union_drm_radeon_clear_rect :: ctype where
  "union_drm_radeon_clear_rect = c_union [
     (''f'', Arr u32_t 5),
     (''ui'', Arr u32_t 5)]"

definition struct_drm_radeon_clear :: "nat \<Rightarrow> ctype" where
  "struct_drm_radeon_clear w = c_struct [
     (''flags'', u32_t),
     (''clear_color'', u32_t),
     (''clear_depth'', u32_t),
     (''color_mask'', u32_t),
     (''depth_mask'', u32_t),
     (''depth_boxes'', ptr_t w)]"

definition struct_drm_radeon_vertex :: ctype where
  "struct_drm_radeon_vertex = c_struct [
     (''prim'', u32_t),
     (''idx'', u32_t),
     (''count'', u32_t),
     (''discard'', u32_t)]"

definition struct_drm_radeon_indices :: ctype where
  "struct_drm_radeon_indices = c_struct [
     (''prim'', u32_t),
     (''idx'', u32_t),
     (''start'', u32_t),
     (''end'', u32_t),
     (''discard'', u32_t)]"

definition struct_drm_radeon_vertex2 :: "nat \<Rightarrow> ctype" where
  "struct_drm_radeon_vertex2 w = c_struct [
     (''idx'', u32_t),
     (''discard'', u32_t),
     (''nr_states'', u32_t),
     (''state'', ptr_t w),
     (''nr_prims'', u32_t),
     (''prim'', ptr_t w)]"

definition struct_drm_radeon_cmd_buffer :: "nat \<Rightarrow> ctype" where
  "struct_drm_radeon_cmd_buffer w = c_struct [
     (''bufsz'', u32_t),
     (''buf'', ptr_t w),
     (''nbox'', u32_t),
     (''boxes'', ptr_t w)]"

definition struct_drm_radeon_tex_image :: "nat \<Rightarrow> ctype" where
  "struct_drm_radeon_tex_image w = c_struct [
     (''x'', u32_t),
     (''y'', u32_t),
     (''width'', u32_t),
     (''height'', u32_t),
     (''data'', ptr_t w)]"

definition struct_drm_radeon_texture :: "nat \<Rightarrow> ctype" where
  "struct_drm_radeon_texture w = c_struct [
     (''offset'', u32_t),
     (''pitch'', u32_t),
     (''format'', u32_t),
     (''width'', u32_t),
     (''height'', u32_t),
     (''image'', ptr_t w)]"

definition struct_drm_radeon_stipple :: "nat \<Rightarrow> ctype" where
  "struct_drm_radeon_stipple w = c_struct [
     (''mask'', ptr_t w)]"

definition struct_drm_radeon_indirect :: ctype where
  "struct_drm_radeon_indirect = c_struct [
     (''idx'', u32_t),
     (''start'', u32_t),
     (''end'', u32_t),
     (''discard'', u32_t)]"

definition struct_drm_radeon_getparam :: "nat \<Rightarrow> ctype" where
  "struct_drm_radeon_getparam w = c_struct [
     (''param'', u32_t),
     (''value'', ptr_t w)]"

definition struct_drm_radeon_mem_alloc :: "nat \<Rightarrow> ctype" where
  "struct_drm_radeon_mem_alloc w = c_struct [
     (''region'', u32_t),
     (''alignment'', u32_t),
     (''size'', u32_t),
     (''region_offset'', ptr_t w)]"

definition struct_drm_radeon_mem_free :: ctype where
  "struct_drm_radeon_mem_free = c_struct [
     (''region'', u32_t),
     (''region_offset'', u32_t)]"

definition struct_drm_radeon_mem_init_heap :: ctype where
  "struct_drm_radeon_mem_init_heap = c_struct [
     (''region'', u32_t),
     (''size'', u32_t),
     (''start'', u32_t)]"

definition struct_drm_radeon_irq_emit :: "nat \<Rightarrow> ctype" where
  "struct_drm_radeon_irq_emit w = c_struct [
     (''irq_seq'', ptr_t w)]"

definition struct_drm_radeon_irq_wait :: ctype where
  "struct_drm_radeon_irq_wait = c_struct [
     (''irq_seq'', u32_t)]"

definition struct_drm_radeon_setparam :: ctype where
  "struct_drm_radeon_setparam = c_struct [
     (''param'', u32_t),
     (''value'', u64_t)]"

definition struct_drm_radeon_surface_alloc :: ctype where
  "struct_drm_radeon_surface_alloc = c_struct [
     (''address'', u32_t),
     (''size'', u32_t),
     (''flags'', u32_t)]"

definition struct_drm_radeon_surface_free :: ctype where
  "struct_drm_radeon_surface_free = c_struct [
     (''address'', u32_t)]"

definition struct_drm_radeon_gem_info :: ctype where
  "struct_drm_radeon_gem_info = c_struct [
     (''gart_size'', u64_t),
     (''vram_size'', u64_t),
     (''vram_visible'', u64_t)]"

definition struct_drm_radeon_gem_create :: ctype where
  "struct_drm_radeon_gem_create = c_struct [
     (''size'', u64_t),
     (''alignment'', u64_t),
     (''handle'', u32_t),
     (''initial_domain'', u32_t),
     (''flags'', u32_t)]"

definition struct_drm_radeon_gem_userptr :: ctype where
  "struct_drm_radeon_gem_userptr = c_struct [
     (''addr'', u64_t),
     (''size'', u64_t),
     (''flags'', u32_t),
     (''handle'', u32_t)]"

definition struct_drm_radeon_gem_set_tiling :: ctype where
  "struct_drm_radeon_gem_set_tiling = c_struct [
     (''handle'', u32_t),
     (''tiling_flags'', u32_t),
     (''pitch'', u32_t)]"

definition struct_drm_radeon_gem_get_tiling :: ctype where
  "struct_drm_radeon_gem_get_tiling = c_struct [
     (''handle'', u32_t),
     (''tiling_flags'', u32_t),
     (''pitch'', u32_t)]"

definition struct_drm_radeon_gem_mmap :: ctype where
  "struct_drm_radeon_gem_mmap = c_struct [
     (''handle'', u32_t),
     (''pad'', u32_t),
     (''offset'', u64_t),
     (''size'', u64_t),
     (''addr_ptr'', u64_t)]"

definition struct_drm_radeon_gem_set_domain :: ctype where
  "struct_drm_radeon_gem_set_domain = c_struct [
     (''handle'', u32_t),
     (''read_domains'', u32_t),
     (''write_domain'', u32_t)]"

definition struct_drm_radeon_gem_wait_idle :: ctype where
  "struct_drm_radeon_gem_wait_idle = c_struct [
     (''handle'', u32_t),
     (''pad'', u32_t)]"

definition struct_drm_radeon_gem_busy :: ctype where
  "struct_drm_radeon_gem_busy = c_struct [
     (''handle'', u32_t),
     (''domain'', u32_t)]"

definition struct_drm_radeon_gem_pread :: ctype where
  "struct_drm_radeon_gem_pread = c_struct [
     (''handle'', u32_t),
     (''pad'', u32_t),
     (''offset'', u64_t),
     (''size'', u64_t),
     (''data_ptr'', u64_t)]"

definition struct_drm_radeon_gem_pwrite :: ctype where
  "struct_drm_radeon_gem_pwrite = c_struct [
     (''handle'', u32_t),
     (''pad'', u32_t),
     (''offset'', u64_t),
     (''size'', u64_t),
     (''data_ptr'', u64_t)]"

definition struct_drm_radeon_gem_op :: ctype where
  "struct_drm_radeon_gem_op = c_struct [
     (''handle'', u32_t),
     (''op'', u32_t),
     (''value'', u64_t)]"

definition struct_drm_radeon_gem_va :: ctype where
  "struct_drm_radeon_gem_va = c_struct [
     (''handle'', u32_t),
     (''operation'', u32_t),
     (''vm_id'', u32_t),
     (''flags'', u32_t),
     (''offset'', u64_t)]"

definition struct_drm_radeon_cs_chunk :: ctype where
  "struct_drm_radeon_cs_chunk = c_struct [
     (''chunk_id'', u32_t),
     (''length_dw'', u32_t),
     (''chunk_data'', u64_t)]"

definition struct_drm_radeon_cs_reloc :: ctype where
  "struct_drm_radeon_cs_reloc = c_struct [
     (''handle'', u32_t),
     (''read_domains'', u32_t),
     (''write_domain'', u32_t),
     (''flags'', u32_t)]"

definition struct_drm_radeon_cs :: ctype where
  "struct_drm_radeon_cs = c_struct [
     (''num_chunks'', u32_t),
     (''cs_id'', u32_t),
     (''chunks'', u64_t),
     (''gart_limit'', u64_t),
     (''vram_limit'', u64_t)]"

definition struct_drm_radeon_info :: ctype where
  "struct_drm_radeon_info = c_struct [
     (''request'', u32_t),
     (''pad'', u32_t),
     (''value'', u64_t)]"

definition DRM_IOCTL_RADEON_CP_INIT :: "nat \<Rightarrow> request" where
  "DRM_IOCTL_RADEON_CP_INIT w = IOW_req DRM_IOCTL_BASE 64 (struct_drm_radeon_init w)"

definition DRM_IOCTL_RADEON_CP_START :: request where
  "DRM_IOCTL_RADEON_CP_START = IO_req DRM_IOCTL_BASE 65"

definition DRM_IOCTL_RADEON_CP_STOP :: request where
  "DRM_IOCTL_RADEON_CP_STOP = IOW_req DRM_IOCTL_BASE 66 struct_drm_radeon_cp_stop"

definition DRM_IOCTL_RADEON_CP_RESET :: request where
  "DRM_IOCTL_RADEON_CP_RESET = IO_req DRM_IOCTL_BASE 67"

definition DRM_IOCTL_RADEON_CP_IDLE :: request where
  "DRM_IOCTL_RADEON_CP_IDLE = IO_req DRM_IOCTL_BASE 68"

definition DRM_IOCTL_RADEON_RESET :: request where
  "DRM_IOCTL_RADEON_RESET = IO_req DRM_IOCTL_BASE 69"

definition DRM_IOCTL_RADEON_FULLSCREEN :: request where
  "DRM_IOCTL_RADEON_FULLSCREEN = IOW_req DRM_IOCTL_BASE 70 struct_drm_radeon_fullscreen"

definition DRM_IOCTL_RADEON_SWAP :: request where
  "DRM_IOCTL_RADEON_SWAP = IO_req DRM_IOCTL_BASE 71"

definition DRM_IOCTL_RADEON_CLEAR :: "nat \<Rightarrow> request" where
  "DRM_IOCTL_RADEON_CLEAR w = IOW_req DRM_IOCTL_BASE 72 (struct_drm_radeon_clear w)"

definition DRM_IOCTL_RADEON_VERTEX :: request where
  "DRM_IOCTL_RADEON_VERTEX = IOW_req DRM_IOCTL_BASE 73 struct_drm_radeon_vertex"

definition DRM_IOCTL_RADEON_INDICES :: request where
  "DRM_IOCTL_RADEON_INDICES = IOW_req DRM_IOCTL_BASE 74 struct_drm_radeon_indices"

definition DRM_IOCTL_RADEON_STIPPLE :: "nat \<Rightarrow> request" where
  "DRM_IOCTL_RADEON_STIPPLE w = IOW_req DRM_IOCTL_BASE 76 (struct_drm_radeon_stipple w)"

definition DRM_IOCTL_RADEON_INDIRECT :: request where
  "DRM_IOCTL_RADEON_INDIRECT = IOWR_req DRM_IOCTL_BASE 77 struct_drm_radeon_indirect"

definition DRM_IOCTL_RADEON_TEXTURE :: "nat \<Rightarrow> request" where
  "DRM_IOCTL_RADEON_TEXTURE w = IOWR_req DRM_IOCTL_BASE 78 (struct_drm_radeon_texture w)"

definition DRM_IOCTL_RADEON_VERTEX2 :: "nat \<Rightarrow> request" where
  "DRM_IOCTL_RADEON_VERTEX2 w = IOW_req DRM_IOCTL_BASE 79 (struct_drm_radeon_vertex2 w)"

definition DRM_IOCTL_RADEON_CMDBUF :: "nat \<Rightarrow> request" where
  "DRM_IOCTL_RADEON_CMDBUF w = IOW_req DRM_IOCTL_BASE 80 (struct_drm_radeon_cmd_buffer w)"

definition DRM_IOCTL_RADEON_GETPARAM :: "nat \<Rightarrow> request" where
  "DRM_IOCTL_RADEON_GETPARAM w = IOWR_req DRM_IOCTL_BASE 81 (struct_drm_radeon_getparam w)"

definition DRM_IOCTL_RADEON_FLIP :: request where
  "DRM_IOCTL_RADEON_FLIP = IO_req DRM_IOCTL_BASE 82"

definition DRM_IOCTL_RADEON_ALLOC :: "nat \<Rightarrow> request" where
  "DRM_IOCTL_RADEON_ALLOC w = IOWR_req DRM_IOCTL_BASE 83 (struct_drm_radeon_mem_alloc w)"

definition DRM_IOCTL_RADEON_FREE :: request where
  "DRM_IOCTL_RADEON_FREE = IOW_req DRM_IOCTL_BASE 84 struct_drm_radeon_mem_free"

definition DRM_IOCTL_RADEON_INIT_HEAP :: request where
  "DRM_IOCTL_RADEON_INIT_HEAP = IOW_req DRM_IOCTL_BASE 85 struct_drm_radeon_mem_init_heap"

definition DRM_IOCTL_RADEON_IRQ_EMIT :: "nat \<Rightarrow> request" where
  "DRM_IOCTL_RADEON_IRQ_EMIT w = IOWR_req DRM_IOCTL_BASE 86 (struct_drm_radeon_irq_emit w)"

definition DRM_IOCTL_RADEON_IRQ_WAIT :: request where
  "DRM_IOCTL_RADEON_IRQ_WAIT = IOW_req DRM_IOCTL_BASE 87 struct_drm_radeon_irq_wait"

definition DRM_IOCTL_RADEON_CP_RESUME :: request where
  "DRM_IOCTL_RADEON_CP_RESUME = IO_req DRM_IOCTL_BASE 88"

definition DRM_IOCTL_RADEON_SETPARAM :: request where
  "DRM_IOCTL_RADEON_SETPARAM = IOW_req DRM_IOCTL_BASE 89 struct_drm_radeon_setparam"

definition DRM_IOCTL_RADEON_SURF_ALLOC :: request where
  "DRM_IOCTL_RADEON_SURF_ALLOC = IOW_req DRM_IOCTL_BASE 90 struct_drm_radeon_surface_alloc"

definition DRM_IOCTL_RADEON_SURF_FREE :: request where
  "DRM_IOCTL_RADEON_SURF_FREE = IOW_req DRM_IOCTL_BASE 91 struct_drm_radeon_surface_free"

definition DRM_IOCTL_RADEON_GEM_INFO :: request where
  "DRM_IOCTL_RADEON_GEM_INFO = IOWR_req DRM_IOCTL_BASE 92 struct_drm_radeon_gem_info"

definition DRM_IOCTL_RADEON_GEM_CREATE :: request where
  "DRM_IOCTL_RADEON_GEM_CREATE = IOWR_req DRM_IOCTL_BASE 93 struct_drm_radeon_gem_create"

definition DRM_IOCTL_RADEON_GEM_MMAP :: request where
  "DRM_IOCTL_RADEON_GEM_MMAP = IOWR_req DRM_IOCTL_BASE 94 struct_drm_radeon_gem_mmap"

definition DRM_IOCTL_RADEON_GEM_PREAD :: request where
  "DRM_IOCTL_RADEON_GEM_PREAD = IOWR_req DRM_IOCTL_BASE 97 struct_drm_radeon_gem_pread"

definition DRM_IOCTL_RADEON_GEM_PWRITE :: request where
  "DRM_IOCTL_RADEON_GEM_PWRITE = IOWR_req DRM_IOCTL_BASE 98 struct_drm_radeon_gem_pwrite"

definition DRM_IOCTL_RADEON_GEM_SET_DOMAIN :: request where
  "DRM_IOCTL_RADEON_GEM_SET_DOMAIN = IOWR_req DRM_IOCTL_BASE 99 struct_drm_radeon_gem_set_domain"

definition DRM_IOCTL_RADEON_GEM_WAIT_IDLE :: request where
  "DRM_IOCTL_RADEON_GEM_WAIT_IDLE = IOW_req DRM_IOCTL_BASE 100 struct_drm_radeon_gem_wait_idle"

definition DRM_IOCTL_RADEON_CS :: request where
  "DRM_IOCTL_RADEON_CS = IOWR_req DRM_IOCTL_BASE 102 struct_drm_radeon_cs"

definition DRM_IOCTL_RADEON_INFO :: request where
  "DRM_IOCTL_RADEON_INFO = IOWR_req DRM_IOCTL_BASE 103 struct_drm_radeon_info"

definition DRM_IOCTL_RADEON_GEM_SET_TILING :: request where
  "DRM_IOCTL_RADEON_GEM_SET_TILING = IOWR_req DRM_IOCTL_BASE 104 struct_drm_radeon_gem_set_tiling"

definition DRM_IOCTL_RADEON_GEM_GET_TILING :: request where
  "DRM_IOCTL_RADEON_GEM_GET_TILING = IOWR_req DRM_IOCTL_BASE 105 struct_drm_radeon_gem_get_tiling"

definition DRM_IOCTL_RADEON_GEM_BUSY :: request where
  "DRM_IOCTL_RADEON_GEM_BUSY = IOWR_req DRM_IOCTL_BASE 106 struct_drm_radeon_gem_busy"

definition DRM_IOCTL_RADEON_GEM_VA :: request where
  "DRM_IOCTL_RADEON_GEM_VA = IOWR_req DRM_IOCTL_BASE 107 struct_drm_radeon_gem_va"

definition DRM_IOCTL_RADEON_GEM_OP :: request where
  "DRM_IOCTL_RADEON_GEM_OP = IOWR_req DRM_IOCTL_BASE 108 struct_drm_radeon_gem_op"

definition DRM_IOCTL_RADEON_GEM_USERPTR :: request where
  "DRM_IOCTL_RADEON_GEM_USERPTR = IOWR_req DRM_IOCTL_BASE 109 struct_drm_radeon_gem_userptr"

definition radeon_requests :: "nat \<Rightarrow> request list" where
  "radeon_requests w = [DRM_IOCTL_RADEON_CP_INIT w, DRM_IOCTL_RADEON_CP_START, DRM_IOCTL_RADEON_CP_STOP, DRM_IOCTL_RADEON_CP_RESET,
     DRM_IOCTL_RADEON_CP_IDLE, DRM_IOCTL_RADEON_RESET, DRM_IOCTL_RADEON_FULLSCREEN, DRM_IOCTL_RADEON_SWAP,
     DRM_IOCTL_RADEON_CLEAR w, DRM_IOCTL_RADEON_VERTEX, DRM_IOCTL_RADEON_INDICES, DRM_IOCTL_RADEON_STIPPLE w,
     DRM_IOCTL_RADEON_INDIRECT, DRM_IOCTL_RADEON_TEXTURE w, DRM_IOCTL_RADEON_VERTEX2 w, DRM_IOCTL_RADEON_CMDBUF w,
     DRM_IOCTL_RADEON_GETPARAM w, DRM_IOCTL_RADEON_FLIP, DRM_IOCTL_RADEON_ALLOC w, DRM_IOCTL_RADEON_FREE,
     DRM_IOCTL_RADEON_INIT_HEAP, DRM_IOCTL_RADEON_IRQ_EMIT w, DRM_IOCTL_RADEON_IRQ_WAIT,
     DRM_IOCTL_RADEON_CP_RESUME, DRM_IOCTL_RADEON_SETPARAM, DRM_IOCTL_RADEON_SURF_ALLOC,
     DRM_IOCTL_RADEON_SURF_FREE, DRM_IOCTL_RADEON_GEM_INFO, DRM_IOCTL_RADEON_GEM_CREATE, DRM_IOCTL_RADEON_GEM_MMAP,
     DRM_IOCTL_RADEON_GEM_PREAD, DRM_IOCTL_RADEON_GEM_PWRITE, DRM_IOCTL_RADEON_GEM_SET_DOMAIN,
     DRM_IOCTL_RADEON_GEM_WAIT_IDLE, DRM_IOCTL_RADEON_CS, DRM_IOCTL_RADEON_INFO, DRM_IOCTL_RADEON_GEM_SET_TILING,
     DRM_IOCTL_RADEON_GEM_GET_TILING, DRM_IOCTL_RADEON_GEM_BUSY, DRM_IOCTL_RADEON_GEM_VA, DRM_IOCTL_RADEON_GEM_OP,
     DRM_IOCTL_RADEON_GEM_USERPTR]"

section \<open>NVIDIA Tegra: \<^verbatim>\<open>tegra_drm.h\<close>\<close>

definition struct_drm_tegra_gem_create :: ctype where
  "struct_drm_tegra_gem_create = c_struct [
     (''size'', u64_t),
     (''flags'', u32_t),
     (''handle'', u32_t)]"

definition struct_drm_tegra_gem_mmap :: ctype where
  "struct_drm_tegra_gem_mmap = c_struct [
     (''handle'', u32_t),
     (''pad'', u32_t),
     (''offset'', u64_t)]"

definition struct_drm_tegra_syncpt_read :: ctype where
  "struct_drm_tegra_syncpt_read = c_struct [
     (''id'', u32_t),
     (''value'', u32_t)]"

definition struct_drm_tegra_syncpt_incr :: ctype where
  "struct_drm_tegra_syncpt_incr = c_struct [
     (''id'', u32_t),
     (''pad'', u32_t)]"

definition struct_drm_tegra_syncpt_wait :: ctype where
  "struct_drm_tegra_syncpt_wait = c_struct [
     (''id'', u32_t),
     (''thresh'', u32_t),
     (''timeout'', u32_t),
     (''value'', u32_t)]"

definition struct_drm_tegra_open_channel :: ctype where
  "struct_drm_tegra_open_channel = c_struct [
     (''client'', u32_t),
     (''pad'', u32_t),
     (''context'', u64_t)]"

definition struct_drm_tegra_close_channel :: ctype where
  "struct_drm_tegra_close_channel = c_struct [
     (''context'', u64_t)]"

definition struct_drm_tegra_get_syncpt :: ctype where
  "struct_drm_tegra_get_syncpt = c_struct [
     (''context'', u64_t),
     (''index'', u32_t),
     (''id'', u32_t)]"

definition struct_drm_tegra_get_syncpt_base :: ctype where
  "struct_drm_tegra_get_syncpt_base = c_struct [
     (''context'', u64_t),
     (''syncpt'', u32_t),
     (''id'', u32_t)]"

definition struct_drm_tegra_syncpt :: ctype where
  "struct_drm_tegra_syncpt = c_struct [
     (''id'', u32_t),
     (''incrs'', u32_t)]"

definition struct_drm_tegra_cmdbuf :: ctype where
  "struct_drm_tegra_cmdbuf = c_struct [
     (''handle'', u32_t),
     (''offset'', u32_t),
     (''words'', u32_t),
     (''pad'', u32_t)]"

definition struct_drm_tegra_reloc :: ctype where
  "struct_drm_tegra_reloc = c_struct [
     (''cmdbuf'', c_struct [ (''handle'', u32_t), (''offset'', u32_t)]),
     (''target'', c_struct [ (''handle'', u32_t), (''offset'', u32_t)]),
     (''shift'', u32_t),
     (''pad'', u32_t)]"

definition struct_drm_tegra_waitchk :: ctype where
  "struct_drm_tegra_waitchk = c_struct [
     (''handle'', u32_t),
     (''offset'', u32_t),
     (''syncpt'', u32_t),
     (''thresh'', u32_t)]"

definition struct_drm_tegra_submit :: ctype where
  "struct_drm_tegra_submit = c_struct [
     (''context'', u64_t),
     (''num_syncpts'', u32_t),
     (''num_cmdbufs'', u32_t),
     (''num_relocs'', u32_t),
     (''num_waitchks'', u32_t),
     (''waitchk_mask'', u32_t),
     (''timeout'', u32_t),
     (''syncpts'', u64_t),
     (''cmdbufs'', u64_t),
     (''relocs'', u64_t),
     (''waitchks'', u64_t),
     (''fence'', u32_t),
     (''reserved'', Arr u32_t 5)]"

definition struct_drm_tegra_gem_set_tiling :: ctype where
  "struct_drm_tegra_gem_set_tiling = c_struct [
     (''handle'', u32_t),
     (''mode'', u32_t),
     (''value'', u32_t),
     (''pad'', u32_t)]"

definition struct_drm_tegra_gem_get_tiling :: ctype where
  "struct_drm_tegra_gem_get_tiling = c_struct [
     (''handle'', u32_t),
     (''mode'', u32_t),
     (''value'', u32_t),
     (''pad'', u32_t)]"

definition struct_drm_tegra_gem_set_flags :: ctype where
  "struct_drm_tegra_gem_set_flags = c_struct [
     (''handle'', u32_t),
     (''flags'', u32_t)]"

definition struct_drm_tegra_gem_get_flags :: ctype where
  "struct_drm_tegra_gem_get_flags = c_struct [
     (''handle'', u32_t),
     (''flags'', u32_t)]"

definition struct_drm_tegra_channel_open :: ctype where
  "struct_drm_tegra_channel_open = c_struct [
     (''host1x_class'', u32_t),
     (''flags'', u32_t),
     (''context'', u32_t),
     (''version'', u32_t),
     (''capabilities'', u32_t),
     (''padding'', u32_t)]"

definition struct_drm_tegra_channel_close :: ctype where
  "struct_drm_tegra_channel_close = c_struct [
     (''context'', u32_t),
     (''padding'', u32_t)]"

definition struct_drm_tegra_channel_map :: ctype where
  "struct_drm_tegra_channel_map = c_struct [
     (''context'', u32_t),
     (''handle'', u32_t),
     (''flags'', u32_t),
     (''mapping'', u32_t)]"

definition struct_drm_tegra_channel_unmap :: ctype where
  "struct_drm_tegra_channel_unmap = c_struct [
     (''context'', u32_t),
     (''mapping'', u32_t)]"

definition struct_drm_tegra_submit_buf :: ctype where
  "struct_drm_tegra_submit_buf = c_struct [
     (''mapping'', u32_t),
     (''flags'', u32_t),
     (''reloc'', c_struct [ (''target_offset'', u64_t), (''gather_offset_words'', u32_t), (''shift'', u32_t)])]"

definition struct_drm_tegra_submit_cmd_gather_uptr :: ctype where
  "struct_drm_tegra_submit_cmd_gather_uptr = c_struct [
     (''words'', u32_t),
     (''reserved'', Arr u32_t 3)]"

definition struct_drm_tegra_submit_cmd_wait_syncpt :: ctype where
  "struct_drm_tegra_submit_cmd_wait_syncpt = c_struct [
     (''id'', u32_t),
     (''value'', u32_t),
     (''reserved'', Arr u32_t 2)]"

definition struct_drm_tegra_submit_cmd :: ctype where
  "struct_drm_tegra_submit_cmd = c_struct [
     (''type'', u32_t),
     (''flags'', u32_t),
     ('''', c_union [ (''gather_uptr'', struct_drm_tegra_submit_cmd_gather_uptr), (''wait_syncpt'', struct_drm_tegra_submit_cmd_wait_syncpt), (''reserved'', Arr u32_t 4)])]"

definition struct_drm_tegra_submit_syncpt :: ctype where
  "struct_drm_tegra_submit_syncpt = c_struct [
     (''id'', u32_t),
     (''flags'', u32_t),
     (''increments'', u32_t),
     (''value'', u32_t)]"

definition struct_drm_tegra_channel_submit :: ctype where
  "struct_drm_tegra_channel_submit = c_struct [
     (''context'', u32_t),
     (''num_bufs'', u32_t),
     (''num_cmds'', u32_t),
     (''gather_data_words'', u32_t),
     (''bufs_ptr'', u64_t),
     (''cmds_ptr'', u64_t),
     (''gather_data_ptr'', u64_t),
     (''syncobj_in'', u32_t),
     (''syncobj_out'', u32_t),
     (''syncpt'', struct_drm_tegra_submit_syncpt)]"

definition struct_drm_tegra_syncpoint_allocate :: ctype where
  "struct_drm_tegra_syncpoint_allocate = c_struct [
     (''id'', u32_t),
     (''padding'', u32_t)]"

definition struct_drm_tegra_syncpoint_free :: ctype where
  "struct_drm_tegra_syncpoint_free = c_struct [
     (''id'', u32_t),
     (''padding'', u32_t)]"

definition struct_drm_tegra_syncpoint_wait :: ctype where
  "struct_drm_tegra_syncpoint_wait = c_struct [
     (''timeout_ns'', u64_t),
     (''id'', u32_t),
     (''threshold'', u32_t),
     (''value'', u32_t),
     (''padding'', u32_t)]"

definition DRM_IOCTL_TEGRA_GEM_CREATE :: request where
  "DRM_IOCTL_TEGRA_GEM_CREATE = IOWR_req DRM_IOCTL_BASE 64 struct_drm_tegra_gem_create"

definition DRM_IOCTL_TEGRA_GEM_MMAP :: request where
  "DRM_IOCTL_TEGRA_GEM_MMAP = IOWR_req DRM_IOCTL_BASE 65 struct_drm_tegra_gem_mmap"

definition DRM_IOCTL_TEGRA_SYNCPT_READ :: request where
  "DRM_IOCTL_TEGRA_SYNCPT_READ = IOWR_req DRM_IOCTL_BASE 66 struct_drm_tegra_syncpt_read"

definition DRM_IOCTL_TEGRA_SYNCPT_INCR :: request where
  "DRM_IOCTL_TEGRA_SYNCPT_INCR = IOWR_req DRM_IOCTL_BASE 67 struct_drm_tegra_syncpt_incr"

definition DRM_IOCTL_TEGRA_SYNCPT_WAIT :: request where
  "DRM_IOCTL_TEGRA_SYNCPT_WAIT = IOWR_req DRM_IOCTL_BASE 68 struct_drm_tegra_syncpt_wait"

definition DRM_IOCTL_TEGRA_OPEN_CHANNEL :: request where
  "DRM_IOCTL_TEGRA_OPEN_CHANNEL = IOWR_req DRM_IOCTL_BASE 69 struct_drm_tegra_open_channel"

definition DRM_IOCTL_TEGRA_CLOSE_CHANNEL :: request where
  "DRM_IOCTL_TEGRA_CLOSE_CHANNEL = IOWR_req DRM_IOCTL_BASE 70 struct_drm_tegra_close_channel"

definition DRM_IOCTL_TEGRA_GET_SYNCPT :: request where
  "DRM_IOCTL_TEGRA_GET_SYNCPT = IOWR_req DRM_IOCTL_BASE 71 struct_drm_tegra_get_syncpt"

definition DRM_IOCTL_TEGRA_SUBMIT :: request where
  "DRM_IOCTL_TEGRA_SUBMIT = IOWR_req DRM_IOCTL_BASE 72 struct_drm_tegra_submit"

definition DRM_IOCTL_TEGRA_GET_SYNCPT_BASE :: request where
  "DRM_IOCTL_TEGRA_GET_SYNCPT_BASE = IOWR_req DRM_IOCTL_BASE 73 struct_drm_tegra_get_syncpt_base"

definition DRM_IOCTL_TEGRA_GEM_SET_TILING :: request where
  "DRM_IOCTL_TEGRA_GEM_SET_TILING = IOWR_req DRM_IOCTL_BASE 74 struct_drm_tegra_gem_set_tiling"

definition DRM_IOCTL_TEGRA_GEM_GET_TILING :: request where
  "DRM_IOCTL_TEGRA_GEM_GET_TILING = IOWR_req DRM_IOCTL_BASE 75 struct_drm_tegra_gem_get_tiling"

definition DRM_IOCTL_TEGRA_GEM_SET_FLAGS :: request where
  "DRM_IOCTL_TEGRA_GEM_SET_FLAGS = IOWR_req DRM_IOCTL_BASE 76 struct_drm_tegra_gem_set_flags"

definition DRM_IOCTL_TEGRA_GEM_GET_FLAGS :: request where
  "DRM_IOCTL_TEGRA_GEM_GET_FLAGS = IOWR_req DRM_IOCTL_BASE 77 struct_drm_tegra_gem_get_flags"

definition DRM_IOCTL_TEGRA_CHANNEL_OPEN :: request where
  "DRM_IOCTL_TEGRA_CHANNEL_OPEN = IOWR_req DRM_IOCTL_BASE 80 struct_drm_tegra_channel_open"

definition DRM_IOCTL_TEGRA_CHANNEL_CLOSE :: request where
  "DRM_IOCTL_TEGRA_CHANNEL_CLOSE = IOWR_req DRM_IOCTL_BASE 81 struct_drm_tegra_channel_close"

definition DRM_IOCTL_TEGRA_CHANNEL_MAP :: request where
  "DRM_IOCTL_TEGRA_CHANNEL_MAP = IOWR_req DRM_IOCTL_BASE 82 struct_drm_tegra_channel_map"

definition DRM_IOCTL_TEGRA_CHANNEL_UNMAP :: request where
  "DRM_IOCTL_TEGRA_CHANNEL_UNMAP = IOWR_req DRM_IOCTL_BASE 83 struct_drm_tegra_channel_unmap"

definition DRM_IOCTL_TEGRA_CHANNEL_SUBMIT :: request where
  "DRM_IOCTL_TEGRA_CHANNEL_SUBMIT = IOWR_req DRM_IOCTL_BASE 84 struct_drm_tegra_channel_submit"

definition DRM_IOCTL_TEGRA_SYNCPOINT_ALLOCATE :: request where
  "DRM_IOCTL_TEGRA_SYNCPOINT_ALLOCATE = IOWR_req DRM_IOCTL_BASE 96 struct_drm_tegra_syncpoint_allocate"

definition DRM_IOCTL_TEGRA_SYNCPOINT_FREE :: request where
  "DRM_IOCTL_TEGRA_SYNCPOINT_FREE = IOWR_req DRM_IOCTL_BASE 97 struct_drm_tegra_syncpoint_free"

definition DRM_IOCTL_TEGRA_SYNCPOINT_WAIT :: request where
  "DRM_IOCTL_TEGRA_SYNCPOINT_WAIT = IOWR_req DRM_IOCTL_BASE 98 struct_drm_tegra_syncpoint_wait"

definition tegra_requests :: "request list" where
  "tegra_requests = [DRM_IOCTL_TEGRA_GEM_CREATE, DRM_IOCTL_TEGRA_GEM_MMAP, DRM_IOCTL_TEGRA_SYNCPT_READ,
     DRM_IOCTL_TEGRA_SYNCPT_INCR, DRM_IOCTL_TEGRA_SYNCPT_WAIT, DRM_IOCTL_TEGRA_OPEN_CHANNEL,
     DRM_IOCTL_TEGRA_CLOSE_CHANNEL, DRM_IOCTL_TEGRA_GET_SYNCPT, DRM_IOCTL_TEGRA_SUBMIT,
     DRM_IOCTL_TEGRA_GET_SYNCPT_BASE, DRM_IOCTL_TEGRA_GEM_SET_TILING, DRM_IOCTL_TEGRA_GEM_GET_TILING,
     DRM_IOCTL_TEGRA_GEM_SET_FLAGS, DRM_IOCTL_TEGRA_GEM_GET_FLAGS, DRM_IOCTL_TEGRA_CHANNEL_OPEN,
     DRM_IOCTL_TEGRA_CHANNEL_CLOSE, DRM_IOCTL_TEGRA_CHANNEL_MAP, DRM_IOCTL_TEGRA_CHANNEL_UNMAP,
     DRM_IOCTL_TEGRA_CHANNEL_SUBMIT, DRM_IOCTL_TEGRA_SYNCPOINT_ALLOCATE, DRM_IOCTL_TEGRA_SYNCPOINT_FREE,
     DRM_IOCTL_TEGRA_SYNCPOINT_WAIT]"

section \<open>Broadcom V3D: \<^verbatim>\<open>v3d_drm.h\<close>\<close>

definition struct_drm_v3d_submit_cl :: ctype where
  "struct_drm_v3d_submit_cl = c_struct [
     (''bcl_start'', u32_t),
     (''bcl_end'', u32_t),
     (''rcl_start'', u32_t),
     (''rcl_end'', u32_t),
     (''in_sync_bcl'', u32_t),
     (''in_sync_rcl'', u32_t),
     (''out_sync'', u32_t),
     (''qma'', u32_t),
     (''qms'', u32_t),
     (''qts'', u32_t),
     (''bo_handles'', u64_t),
     (''bo_handle_count'', u32_t),
     (''flags'', u32_t),
     (''perfmon_id'', u32_t),
     (''pad'', u32_t)]"

definition struct_drm_v3d_wait_bo :: ctype where
  "struct_drm_v3d_wait_bo = c_struct [
     (''handle'', u32_t),
     (''pad'', u32_t),
     (''timeout_ns'', u64_t)]"

definition struct_drm_v3d_create_bo :: ctype where
  "struct_drm_v3d_create_bo = c_struct [
     (''size'', u32_t),
     (''flags'', u32_t),
     (''handle'', u32_t),
     (''offset'', u32_t)]"

definition struct_drm_v3d_mmap_bo :: ctype where
  "struct_drm_v3d_mmap_bo = c_struct [
     (''handle'', u32_t),
     (''flags'', u32_t),
     (''offset'', u64_t)]"

definition struct_drm_v3d_get_param :: ctype where
  "struct_drm_v3d_get_param = c_struct [
     (''param'', u32_t),
     (''pad'', u32_t),
     (''value'', u64_t)]"

definition struct_drm_v3d_get_bo_offset :: ctype where
  "struct_drm_v3d_get_bo_offset = c_struct [
     (''handle'', u32_t),
     (''offset'', u32_t)]"

definition struct_drm_v3d_submit_tfu :: ctype where
  "struct_drm_v3d_submit_tfu = c_struct [
     (''icfg'', u32_t),
     (''iia'', u32_t),
     (''iis'', u32_t),
     (''ica'', u32_t),
     (''iua'', u32_t),
     (''ioa'', u32_t),
     (''ios'', u32_t),
     (''coef'', Arr u32_t 4),
     (''bo_handles'', Arr u32_t 4),
     (''in_sync'', u32_t),
     (''out_sync'', u32_t)]"

definition struct_drm_v3d_submit_csd :: ctype where
  "struct_drm_v3d_submit_csd = c_struct [
     (''cfg'', Arr u32_t 7),
     (''coef'', Arr u32_t 4),
     (''bo_handles'', u64_t),
     (''bo_handle_count'', u32_t),
     (''in_sync'', u32_t),
     (''out_sync'', u32_t),
     (''perfmon_id'', u32_t)]"

definition struct_drm_v3d_perfmon_create :: ctype where
  "struct_drm_v3d_perfmon_create = c_struct [
     (''id'', u32_t),
     (''ncounters'', u32_t),
     (''counters'', Arr u8_t 32)]"

definition struct_drm_v3d_perfmon_destroy :: ctype where
  "struct_drm_v3d_perfmon_destroy = c_struct [
     (''id'', u32_t)]"

definition struct_drm_v3d_perfmon_get_values :: ctype where
  "struct_drm_v3d_perfmon_get_values = c_struct [
     (''id'', u32_t),
     (''pad'', u32_t),
     (''values_ptr'', u64_t)]"

definition DRM_IOCTL_V3D_SUBMIT_CL :: request where
  "DRM_IOCTL_V3D_SUBMIT_CL = IOWR_req DRM_IOCTL_BASE 64 struct_drm_v3d_submit_cl"

definition DRM_IOCTL_V3D_WAIT_BO :: request where
  "DRM_IOCTL_V3D_WAIT_BO = IOWR_req DRM_IOCTL_BASE 65 struct_drm_v3d_wait_bo"

definition DRM_IOCTL_V3D_CREATE_BO :: request where
  "DRM_IOCTL_V3D_CREATE_BO = IOWR_req DRM_IOCTL_BASE 66 struct_drm_v3d_create_bo"

definition DRM_IOCTL_V3D_MMAP_BO :: request where
  "DRM_IOCTL_V3D_MMAP_BO = IOWR_req DRM_IOCTL_BASE 67 struct_drm_v3d_mmap_bo"

definition DRM_IOCTL_V3D_GET_PARAM :: request where
  "DRM_IOCTL_V3D_GET_PARAM = IOWR_req DRM_IOCTL_BASE 68 struct_drm_v3d_get_param"

definition DRM_IOCTL_V3D_GET_BO_OFFSET :: request where
  "DRM_IOCTL_V3D_GET_BO_OFFSET = IOWR_req DRM_IOCTL_BASE 69 struct_drm_v3d_get_bo_offset"

definition DRM_IOCTL_V3D_SUBMIT_TFU :: request where
  "DRM_IOCTL_V3D_SUBMIT_TFU = IOW_req DRM_IOCTL_BASE 70 struct_drm_v3d_submit_tfu"

definition DRM_IOCTL_V3D_SUBMIT_CSD :: request where
  "DRM_IOCTL_V3D_SUBMIT_CSD = IOW_req DRM_IOCTL_BASE 71 struct_drm_v3d_submit_csd"

definition DRM_IOCTL_V3D_PERFMON_CREATE :: request where
  "DRM_IOCTL_V3D_PERFMON_CREATE = IOWR_req DRM_IOCTL_BASE 72 struct_drm_v3d_perfmon_create"

definition DRM_IOCTL_V3D_PERFMON_DESTROY :: request where
  "DRM_IOCTL_V3D_PERFMON_DESTROY = IOWR_req DRM_IOCTL_BASE 73 struct_drm_v3d_perfmon_destroy"

definition DRM_IOCTL_V3D_PERFMON_GET_VALUES :: request where
  "DRM_IOCTL_V3D_PERFMON_GET_VALUES = IOWR_req DRM_IOCTL_BASE 74 struct_drm_v3d_perfmon_get_values"

definition v3d_requests :: "request list" where
  "v3d_requests = [DRM_IOCTL_V3D_SUBMIT_CL, DRM_IOCTL_V3D_WAIT_BO, DRM_IOCTL_V3D_CREATE_BO, DRM_IOCTL_V3D_MMAP_BO,
     DRM_IOCTL_V3D_GET_PARAM, DRM_IOCTL_V3D_GET_BO_OFFSET, DRM_IOCTL_V3D_SUBMIT_TFU, DRM_IOCTL_V3D_SUBMIT_CSD,
     DRM_IOCTL_V3D_PERFMON_CREATE, DRM_IOCTL_V3D_PERFMON_DESTROY, DRM_IOCTL_V3D_PERFMON_GET_VALUES]"

section \<open>Broadcom VC4: \<^verbatim>\<open>vc4_drm.h\<close>\<close>

definition struct_drm_vc4_submit_rcl_surface :: ctype where
  "struct_drm_vc4_submit_rcl_surface = c_struct [
     (''hindex'', u32_t),
     (''offset'', u32_t),
     (''bits'', u16_t),
     (''flags'', u16_t)]"

definition struct_drm_vc4_submit_cl :: ctype where
  "struct_drm_vc4_submit_cl = c_struct [
     (''bin_cl'', u64_t),
     (''shader_rec'', u64_t),
     (''uniforms'', u64_t),
     (''bo_handles'', u64_t),
     (''bin_cl_size'', u32_t),
     (''shader_rec_size'', u32_t),
     (''shader_rec_count'', u32_t),
     (''uniforms_size'', u32_t),
     (''bo_handle_count'', u32_t),
     (''width'', u16_t),
     (''height'', u16_t),
     (''min_x_tile'', u8_t),
     (''min_y_tile'', u8_t),
     (''max_x_tile'', u8_t),
     (''max_y_tile'', u8_t),
     (''color_read'', struct_drm_vc4_submit_rcl_surface),
     (''color_write'', struct_drm_vc4_submit_rcl_surface),
     (''zs_read'', struct_drm_vc4_submit_rcl_surface),
     (''zs_write'', struct_drm_vc4_submit_rcl_surface),
     (''msaa_color_write'', struct_drm_vc4_submit_rcl_surface),
     (''msaa_zs_write'', struct_drm_vc4_submit_rcl_surface),
     (''clear_color'', Arr u32_t 2),
     (''clear_z'', u32_t),
     (''clear_s'', u8_t),
     (''pad'', u32_t),
     (''flags'', u32_t),
     (''seqno'', u64_t),
     (''perfmonid'', u32_t),
     (''in_sync'', u32_t),
     (''out_sync'', u32_t),
     (''pad2'', u32_t)]"

definition struct_drm_vc4_wait_seqno :: ctype where
  "struct_drm_vc4_wait_seqno = c_struct [
     (''seqno'', u64_t),
     (''timeout_ns'', u64_t)]"

definition struct_drm_vc4_wait_bo :: ctype where
  "struct_drm_vc4_wait_bo = c_struct [
     (''handle'', u32_t),
     (''pad'', u32_t),
     (''timeout_ns'', u64_t)]"

definition struct_drm_vc4_create_bo :: ctype where
  "struct_drm_vc4_create_bo = c_struct [
     (''size'', u32_t),
     (''flags'', u32_t),
     (''handle'', u32_t),
     (''pad'', u32_t)]"

definition struct_drm_vc4_mmap_bo :: ctype where
  "struct_drm_vc4_mmap_bo = c_struct [
     (''handle'', u32_t),
     (''flags'', u32_t),
     (''offset'', u64_t)]"

definition struct_drm_vc4_create_shader_bo :: ctype where
  "struct_drm_vc4_create_shader_bo = c_struct [
     (''size'', u32_t),
     (''flags'', u32_t),
     (''data'', u64_t),
     (''handle'', u32_t),
     (''pad'', u32_t)]"

definition struct_drm_vc4_get_hang_state_bo :: ctype where
  "struct_drm_vc4_get_hang_state_bo = c_struct [
     (''handle'', u32_t),
     (''paddr'', u32_t),
     (''size'', u32_t),
     (''pad'', u32_t)]"

definition struct_drm_vc4_get_hang_state :: ctype where
  "struct_drm_vc4_get_hang_state = c_struct [
     (''bo'', u64_t),
     (''bo_count'', u32_t),
     (''start_bin'', u32_t),
     (''start_render'', u32_t),
     (''ct0ca'', u32_t),
     (''ct0ea'', u32_t),
     (''ct1ca'', u32_t),
     (''ct1ea'', u32_t),
     (''ct0cs'', u32_t),
     (''ct1cs'', u32_t),
     (''ct0ra0'', u32_t),
     (''ct1ra0'', u32_t),
     (''bpca'', u32_t),
     (''bpcs'', u32_t),
     (''bpoa'', u32_t),
     (''bpos'', u32_t),
     (''vpmbase'', u32_t),
     (''dbge'', u32_t),
     (''fdbgo'', u32_t),
     (''fdbgb'', u32_t),
     (''fdbgr'', u32_t),
     (''fdbgs'', u32_t),
     (''errstat'', u32_t),
     (''pad'', Arr u32_t 16)]"

definition struct_drm_vc4_get_param :: ctype where
  "struct_drm_vc4_get_param = c_struct [
     (''param'', u32_t),
     (''pad'', u32_t),
     (''value'', u64_t)]"

definition struct_drm_vc4_get_tiling :: ctype where
  "struct_drm_vc4_get_tiling = c_struct [
     (''handle'', u32_t),
     (''flags'', u32_t),
     (''modifier'', u64_t)]"

definition struct_drm_vc4_set_tiling :: ctype where
  "struct_drm_vc4_set_tiling = c_struct [
     (''handle'', u32_t),
     (''flags'', u32_t),
     (''modifier'', u64_t)]"

definition struct_drm_vc4_label_bo :: ctype where
  "struct_drm_vc4_label_bo = c_struct [
     (''handle'', u32_t),
     (''len'', u32_t),
     (''name'', u64_t)]"

definition struct_drm_vc4_gem_madvise :: ctype where
  "struct_drm_vc4_gem_madvise = c_struct [
     (''handle'', u32_t),
     (''madv'', u32_t),
     (''retained'', u32_t),
     (''pad'', u32_t)]"

definition struct_drm_vc4_perfmon_create :: ctype where
  "struct_drm_vc4_perfmon_create = c_struct [
     (''id'', u32_t),
     (''ncounters'', u32_t),
     (''events'', Arr u8_t 16)]"

definition struct_drm_vc4_perfmon_destroy :: ctype where
  "struct_drm_vc4_perfmon_destroy = c_struct [
     (''id'', u32_t)]"

definition struct_drm_vc4_perfmon_get_values :: ctype where
  "struct_drm_vc4_perfmon_get_values = c_struct [
     (''id'', u32_t),
     (''values_ptr'', u64_t)]"

definition DRM_IOCTL_VC4_SUBMIT_CL :: request where
  "DRM_IOCTL_VC4_SUBMIT_CL = IOWR_req DRM_IOCTL_BASE 64 struct_drm_vc4_submit_cl"

definition DRM_IOCTL_VC4_WAIT_SEQNO :: request where
  "DRM_IOCTL_VC4_WAIT_SEQNO = IOWR_req DRM_IOCTL_BASE 65 struct_drm_vc4_wait_seqno"

definition DRM_IOCTL_VC4_WAIT_BO :: request where
  "DRM_IOCTL_VC4_WAIT_BO = IOWR_req DRM_IOCTL_BASE 66 struct_drm_vc4_wait_bo"

definition DRM_IOCTL_VC4_CREATE_BO :: request where
  "DRM_IOCTL_VC4_CREATE_BO = IOWR_req DRM_IOCTL_BASE 67 struct_drm_vc4_create_bo"

definition DRM_IOCTL_VC4_MMAP_BO :: request where
  "DRM_IOCTL_VC4_MMAP_BO = IOWR_req DRM_IOCTL_BASE 68 struct_drm_vc4_mmap_bo"

definition DRM_IOCTL_VC4_CREATE_SHADER_BO :: request where
  "DRM_IOCTL_VC4_CREATE_SHADER_BO = IOWR_req DRM_IOCTL_BASE 69 struct_drm_vc4_create_shader_bo"

definition DRM_IOCTL_VC4_GET_HANG_STATE :: request where
  "DRM_IOCTL_VC4_GET_HANG_STATE = IOWR_req DRM_IOCTL_BASE 70 struct_drm_vc4_get_hang_state"

definition DRM_IOCTL_VC4_GET_PARAM :: request where
  "DRM_IOCTL_VC4_GET_PARAM = IOWR_req DRM_IOCTL_BASE 71 struct_drm_vc4_get_param"

definition DRM_IOCTL_VC4_SET_TILING :: request where
  "DRM_IOCTL_VC4_SET_TILING = IOWR_req DRM_IOCTL_BASE 72 struct_drm_vc4_set_tiling"

definition DRM_IOCTL_VC4_GET_TILING :: request where
  "DRM_IOCTL_VC4_GET_TILING = IOWR_req DRM_IOCTL_BASE 73 struct_drm_vc4_get_tiling"

definition DRM_IOCTL_VC4_LABEL_BO :: request where
  "DRM_IOCTL_VC4_LABEL_BO = IOWR_req DRM_IOCTL_BASE 74 struct_drm_vc4_label_bo"

definition DRM_IOCTL_VC4_GEM_MADVISE :: request where
  "DRM_IOCTL_VC4_GEM_MADVISE = IOWR_req DRM_IOCTL_BASE 75 struct_drm_vc4_gem_madvise"

definition DRM_IOCTL_VC4_PERFMON_CREATE :: request where
  "DRM_IOCTL_VC4_PERFMON_CREATE = IOWR_req DRM_IOCTL_BASE 76 struct_drm_vc4_perfmon_create"

definition DRM_IOCTL_VC4_PERFMON_DESTROY :: request where
  "DRM_IOCTL_VC4_PERFMON_DESTROY = IOWR_req DRM_IOCTL_BASE 77 struct_drm_vc4_perfmon_destroy"

definition DRM_IOCTL_VC4_PERFMON_GET_VALUES :: request where
  "DRM_IOCTL_VC4_PERFMON_GET_VALUES = IOWR_req DRM_IOCTL_BASE 78 struct_drm_vc4_perfmon_get_values"

definition vc4_requests :: "request list" where
  "vc4_requests = [DRM_IOCTL_VC4_SUBMIT_CL, DRM_IOCTL_VC4_WAIT_SEQNO, DRM_IOCTL_VC4_WAIT_BO, DRM_IOCTL_VC4_CREATE_BO,
     DRM_IOCTL_VC4_MMAP_BO, DRM_IOCTL_VC4_CREATE_SHADER_BO, DRM_IOCTL_VC4_GET_HANG_STATE, DRM_IOCTL_VC4_GET_PARAM,
     DRM_IOCTL_VC4_SET_TILING, DRM_IOCTL_VC4_GET_TILING, DRM_IOCTL_VC4_LABEL_BO, DRM_IOCTL_VC4_GEM_MADVISE,
     DRM_IOCTL_VC4_PERFMON_CREATE, DRM_IOCTL_VC4_PERFMON_DESTROY, DRM_IOCTL_VC4_PERFMON_GET_VALUES]"

section \<open>Virtual memory objects: \<^verbatim>\<open>vgem_drm.h\<close>\<close>

definition struct_drm_vgem_fence_attach :: ctype where
  "struct_drm_vgem_fence_attach = c_struct [
     (''handle'', u32_t),
     (''flags'', u32_t),
     (''out_fence'', u32_t),
     (''pad'', u32_t)]"

definition struct_drm_vgem_fence_signal :: ctype where
  "struct_drm_vgem_fence_signal = c_struct [
     (''fence'', u32_t),
     (''flags'', u32_t)]"

definition DRM_IOCTL_VGEM_FENCE_ATTACH :: request where
  "DRM_IOCTL_VGEM_FENCE_ATTACH = IOWR_req DRM_IOCTL_BASE 65 struct_drm_vgem_fence_attach"

definition DRM_IOCTL_VGEM_FENCE_SIGNAL :: request where
  "DRM_IOCTL_VGEM_FENCE_SIGNAL = IOW_req DRM_IOCTL_BASE 66 struct_drm_vgem_fence_signal"

definition vgem_requests :: "request list" where
  "vgem_requests = [DRM_IOCTL_VGEM_FENCE_ATTACH, DRM_IOCTL_VGEM_FENCE_SIGNAL]"

section \<open>Virtio: \<^verbatim>\<open>virtgpu_drm.h\<close>\<close>

definition struct_drm_virtgpu_map :: ctype where
  "struct_drm_virtgpu_map = c_struct [
     (''offset'', u64_t),
     (''handle'', u32_t),
     (''pad'', u32_t)]"

definition struct_drm_virtgpu_execbuffer :: ctype where
  "struct_drm_virtgpu_execbuffer = c_struct [
     (''flags'', u32_t),
     (''size'', u32_t),
     (''command'', u64_t),
     (''bo_handles'', u64_t),
     (''num_bo_handles'', u32_t),
     (''fence_fd'', u32_t)]"

definition struct_drm_virtgpu_getparam :: ctype where
  "struct_drm_virtgpu_getparam = c_struct [
     (''param'', u64_t),
     (''value'', u64_t)]"

definition struct_drm_virtgpu_resource_create :: ctype where
  "struct_drm_virtgpu_resource_create = c_struct [
     (''target'', u32_t),
     (''format'', u32_t),
     (''bind'', u32_t),
     (''width'', u32_t),
     (''height'', u32_t),
     (''depth'', u32_t),
     (''array_size'', u32_t),
     (''last_level'', u32_t),
     (''nr_samples'', u32_t),
     (''flags'', u32_t),
     (''bo_handle'', u32_t),
     (''res_handle'', u32_t),
     (''size'', u32_t),
     (''stride'', u32_t)]"

definition struct_drm_virtgpu_resource_info :: ctype where
  "struct_drm_virtgpu_resource_info = c_struct [
     (''bo_handle'', u32_t),
     (''res_handle'', u32_t),
     (''size'', u32_t),
     (''blob_mem'', u32_t)]"

definition struct_drm_virtgpu_3d_box :: ctype where
  "struct_drm_virtgpu_3d_box = c_struct [
     (''x'', u32_t),
     (''y'', u32_t),
     (''z'', u32_t),
     (''w'', u32_t),
     (''h'', u32_t),
     (''d'', u32_t)]"

definition struct_drm_virtgpu_3d_transfer_to_host :: ctype where
  "struct_drm_virtgpu_3d_transfer_to_host = c_struct [
     (''bo_handle'', u32_t),
     (''box'', struct_drm_virtgpu_3d_box),
     (''level'', u32_t),
     (''offset'', u32_t),
     (''stride'', u32_t),
     (''layer_stride'', u32_t)]"

definition struct_drm_virtgpu_3d_transfer_from_host :: ctype where
  "struct_drm_virtgpu_3d_transfer_from_host = c_struct [
     (''bo_handle'', u32_t),
     (''box'', struct_drm_virtgpu_3d_box),
     (''level'', u32_t),
     (''offset'', u32_t),
     (''stride'', u32_t),
     (''layer_stride'', u32_t)]"

definition struct_drm_virtgpu_3d_wait :: ctype where
  "struct_drm_virtgpu_3d_wait = c_struct [
     (''handle'', u32_t),
     (''flags'', u32_t)]"

definition struct_drm_virtgpu_get_caps :: ctype where
  "struct_drm_virtgpu_get_caps = c_struct [
     (''cap_set_id'', u32_t),
     (''cap_set_ver'', u32_t),
     (''addr'', u64_t),
     (''size'', u32_t),
     (''pad'', u32_t)]"

definition struct_drm_virtgpu_resource_create_blob :: ctype where
  "struct_drm_virtgpu_resource_create_blob = c_struct [
     (''blob_mem'', u32_t),
     (''blob_flags'', u32_t),
     (''bo_handle'', u32_t),
     (''res_handle'', u32_t),
     (''size'', u64_t),
     (''pad'', u32_t),
     (''cmd_size'', u32_t),
     (''cmd'', u64_t),
     (''blob_id'', u64_t)]"

definition DRM_IOCTL_VIRTGPU_MAP :: request where
  "DRM_IOCTL_VIRTGPU_MAP = IOWR_req DRM_IOCTL_BASE 65 struct_drm_virtgpu_map"

definition DRM_IOCTL_VIRTGPU_EXECBUFFER :: request where
  "DRM_IOCTL_VIRTGPU_EXECBUFFER = IOWR_req DRM_IOCTL_BASE 66 struct_drm_virtgpu_execbuffer"

definition DRM_IOCTL_VIRTGPU_GETPARAM :: request where
  "DRM_IOCTL_VIRTGPU_GETPARAM = IOWR_req DRM_IOCTL_BASE 67 struct_drm_virtgpu_getparam"

definition DRM_IOCTL_VIRTGPU_RESOURCE_CREATE :: request where
  "DRM_IOCTL_VIRTGPU_RESOURCE_CREATE = IOWR_req DRM_IOCTL_BASE 68 struct_drm_virtgpu_resource_create"

definition DRM_IOCTL_VIRTGPU_RESOURCE_INFO :: request where
  "DRM_IOCTL_VIRTGPU_RESOURCE_INFO = IOWR_req DRM_IOCTL_BASE 69 struct_drm_virtgpu_resource_info"

definition DRM_IOCTL_VIRTGPU_TRANSFER_FROM_HOST :: request where
  "DRM_IOCTL_VIRTGPU_TRANSFER_FROM_HOST = IOWR_req DRM_IOCTL_BASE 70 struct_drm_virtgpu_3d_transfer_from_host"

definition DRM_IOCTL_VIRTGPU_TRANSFER_TO_HOST :: request where
  "DRM_IOCTL_VIRTGPU_TRANSFER_TO_HOST = IOWR_req DRM_IOCTL_BASE 71 struct_drm_virtgpu_3d_transfer_to_host"

definition DRM_IOCTL_VIRTGPU_WAIT :: request where
  "DRM_IOCTL_VIRTGPU_WAIT = IOWR_req DRM_IOCTL_BASE 72 struct_drm_virtgpu_3d_wait"

definition DRM_IOCTL_VIRTGPU_GET_CAPS :: request where
  "DRM_IOCTL_VIRTGPU_GET_CAPS = IOWR_req DRM_IOCTL_BASE 73 struct_drm_virtgpu_get_caps"

definition DRM_IOCTL_VIRTGPU_RESOURCE_CREATE_BLOB :: request where
  "DRM_IOCTL_VIRTGPU_RESOURCE_CREATE_BLOB = IOWR_req DRM_IOCTL_BASE 74 struct_drm_virtgpu_resource_create_blob"

definition virtgpu_requests :: "request list" where
  "virtgpu_requests = [DRM_IOCTL_VIRTGPU_MAP, DRM_IOCTL_VIRTGPU_EXECBUFFER, DRM_IOCTL_VIRTGPU_GETPARAM,
     DRM_IOCTL_VIRTGPU_RESOURCE_CREATE, DRM_IOCTL_VIRTGPU_RESOURCE_INFO, DRM_IOCTL_VIRTGPU_TRANSFER_FROM_HOST,
     DRM_IOCTL_VIRTGPU_TRANSFER_TO_HOST, DRM_IOCTL_VIRTGPU_WAIT, DRM_IOCTL_VIRTGPU_GET_CAPS,
     DRM_IOCTL_VIRTGPU_RESOURCE_CREATE_BLOB]"

section \<open>VMware: \<^verbatim>\<open>vmwgfx_drm.h\<close>\<close>

definition struct_drm_vmw_getparam_arg :: ctype where
  "struct_drm_vmw_getparam_arg = c_struct [
     (''value'', u64_t),
     (''param'', u32_t),
     (''pad64'', u32_t)]"

definition struct_drm_vmw_context_arg :: ctype where
  "struct_drm_vmw_context_arg = c_struct [
     (''cid'', u32_t),
     (''pad64'', u32_t)]"

definition struct_drm_vmw_surface_create_req :: ctype where
  "struct_drm_vmw_surface_create_req = c_struct [
     (''flags'', u32_t),
     (''format'', u32_t),
     (''mip_levels'', Arr u32_t 6),
     (''size_addr'', u64_t),
     (''shareable'', u32_t),
     (''scanout'', u32_t)]"

definition struct_drm_vmw_surface_arg :: ctype where
  "struct_drm_vmw_surface_arg = c_struct [
     (''sid'', u32_t),
     (''handle_type'', u32_t)]"

definition struct_drm_vmw_size :: ctype where
  "struct_drm_vmw_size = c_struct [
     (''width'', u32_t),
     (''height'', u32_t),
     (''depth'', u32_t),
     (''pad64'', u32_t)]"

definition union_drm_vmw_surface_create_arg :: ctype where
  "union_drm_vmw_surface_create_arg = c_union [
     (''rep'', struct_drm_vmw_surface_arg),
     (''req'', struct_drm_vmw_surface_create_req)]"

definition union_drm_vmw_surface_reference_arg :: ctype where
  "union_drm_vmw_surface_reference_arg = c_union [
     (''rep'', struct_drm_vmw_surface_create_req),
     (''req'', struct_drm_vmw_surface_arg)]"

definition struct_drm_vmw_execbuf_arg :: ctype where
  "struct_drm_vmw_execbuf_arg = c_struct [
     (''commands'', u64_t),
     (''command_size'', u32_t),
     (''throttle_us'', u32_t),
     (''fence_rep'', u64_t),
     (''version'', u32_t),
     (''flags'', u32_t),
     (''context_handle'', u32_t),
     (''imported_fence_fd'', u32_t)]"

definition struct_drm_vmw_fence_rep :: ctype where
  "struct_drm_vmw_fence_rep = c_struct [
     (''handle'', u32_t),
     (''mask'', u32_t),
     (''seqno'', u32_t),
     (''passed_seqno'', u32_t),
     (''fd'', u32_t),
     (''error'', u32_t)]"

definition struct_drm_vmw_alloc_bo_req :: ctype where
  "struct_drm_vmw_alloc_bo_req = c_struct [
     (''size'', u32_t),
     (''pad64'', u32_t)]"

definition struct_drm_vmw_bo_rep :: ctype where
  "struct_drm_vmw_bo_rep = c_struct [
     (''map_handle'', u64_t),
     (''handle'', u32_t),
     (''cur_gmr_id'', u32_t),
     (''cur_gmr_offset'', u32_t),
     (''pad64'', u32_t)]"

definition union_drm_vmw_alloc_bo_arg :: ctype where
  "union_drm_vmw_alloc_bo_arg = c_union [
     (''req'', struct_drm_vmw_alloc_bo_req),
     (''rep'', struct_drm_vmw_bo_rep)]"

definition struct_drm_vmw_rect :: ctype where
  "struct_drm_vmw_rect = c_struct [
     (''x'', u32_t),
     (''y'', u32_t),
     (''w'', u32_t),
     (''h'', u32_t)]"

definition struct_drm_vmw_control_stream_arg :: ctype where
  "struct_drm_vmw_control_stream_arg = c_struct [
     (''stream_id'', u32_t),
     (''enabled'', u32_t),
     (''flags'', u32_t),
     (''color_key'', u32_t),
     (''handle'', u32_t),
     (''offset'', u32_t),
     (''format'', u32_t),
     (''size'', u32_t),
     (''width'', u32_t),
     (''height'', u32_t),
     (''pitch'', Arr u32_t 3),
     (''pad64'', u32_t),
     (''src'', struct_drm_vmw_rect),
     (''dst'', struct_drm_vmw_rect)]"

definition struct_drm_vmw_cursor_bypass_arg :: ctype where
  "struct_drm_vmw_cursor_bypass_arg = c_struct [
     (''flags'', u32_t),
     (''crtc_id'', u32_t),
     (''xpos'', u32_t),
     (''ypos'', u32_t),
     (''xhot'', u32_t),
     (''yhot'', u32_t)]"

definition struct_drm_vmw_stream_arg :: ctype where
  "struct_drm_vmw_stream_arg = c_struct [
     (''stream_id'', u32_t),
     (''pad64'', u32_t)]"

definition struct_drm_vmw_get_3d_cap_arg :: ctype where
  "struct_drm_vmw_get_3d_cap_arg = c_struct [
     (''buffer'', u64_t),
     (''max_size'', u32_t),
     (''pad64'', u32_t)]"

definition struct_drm_vmw_fence_wait_arg :: ctype where
  "struct_drm_vmw_fence_wait_arg = c_struct [
     (''handle'', u32_t),
     (''cookie_valid'', u32_t),
     (''kernel_cookie'', u64_t),
     (''timeout_us'', u64_t),
     (''lazy'', u32_t),
     (''flags'', u32_t),
     (''wait_options'', u32_t),
     (''pad64'', u32_t)]"

definition struct_drm_vmw_fence_signaled_arg :: ctype where
  "struct_drm_vmw_fence_signaled_arg = c_struct [
     (''handle'', u32_t),
     (''flags'', u32_t),
     (''signaled'', u32_t),
     (''passed_seqno'', u32_t),
     (''signaled_flags'', u32_t),
     (''pad64'', u32_t)]"

definition struct_drm_vmw_fence_arg :: ctype where
  "struct_drm_vmw_fence_arg = c_struct [
     (''handle'', u32_t),
     (''pad64'', u32_t)]"

definition struct_drm_vmw_event_fence :: ctype where
  "struct_drm_vmw_event_fence = c_struct [
     (''base'', struct_drm_event),
     (''user_data'', u64_t),
     (''tv_sec'', u32_t),
     (''tv_usec'', u32_t)]"

definition struct_drm_vmw_fence_event_arg :: ctype where
  "struct_drm_vmw_fence_event_arg = c_struct [
     (''fence_rep'', u64_t),
     (''user_data'', u64_t),
     (''handle'', u32_t),
     (''flags'', u32_t)]"

definition struct_drm_vmw_present_arg :: ctype where
  "struct_drm_vmw_present_arg = c_struct [
     (''fb_id'', u32_t),
     (''sid'', u32_t),
     (''dest_x'', u32_t),
     (''dest_y'', u32_t),
     (''clips_ptr'', u64_t),
     (''num_clips'', u32_t),
     (''pad64'', u32_t)]"

definition struct_drm_vmw_present_readback_arg :: ctype where
  "struct_drm_vmw_present_readback_arg = c_struct [
     (''fb_id'', u32_t),
     (''num_clips'', u32_t),
     (''clips_ptr'', u64_t),
     (''fence_rep'', u64_t)]"

definition struct_drm_vmw_update_layout_arg :: ctype where
  "struct_drm_vmw_update_layout_arg = c_struct [
     (''num_outputs'', u32_t),
     (''pad64'', u32_t),
     (''rects'', u64_t)]"

definition struct_drm_vmw_shader_create_arg :: ctype where
  "struct_drm_vmw_shader_create_arg = c_struct [
     (''shader_type'', u32_t),
     (''size'', u32_t),
     (''buffer_handle'', u32_t),
     (''shader_handle'', u32_t),
     (''offset'', u64_t)]"

definition struct_drm_vmw_shader_arg :: ctype where
  "struct_drm_vmw_shader_arg = c_struct [
     (''handle'', u32_t),
     (''pad64'', u32_t)]"

definition struct_drm_vmw_gb_surface_create_req :: ctype where
  "struct_drm_vmw_gb_surface_create_req = c_struct [
     (''svga3d_flags'', u32_t),
     (''format'', u32_t),
     (''mip_levels'', u32_t),
     (''drm_surface_flags'', u32_t),
     (''multisample_count'', u32_t),
     (''autogen_filter'', u32_t),
     (''buffer_handle'', u32_t),
     (''array_size'', u32_t),
     (''base_size'', struct_drm_vmw_size)]"

definition struct_drm_vmw_gb_surface_create_rep :: ctype where
  "struct_drm_vmw_gb_surface_create_rep = c_struct [
     (''handle'', u32_t),
     (''backup_size'', u32_t),
     (''buffer_handle'', u32_t),
     (''buffer_size'', u32_t),
     (''buffer_map_handle'', u64_t)]"

definition union_drm_vmw_gb_surface_create_arg :: ctype where
  "union_drm_vmw_gb_surface_create_arg = c_union [
     (''rep'', struct_drm_vmw_gb_surface_create_rep),
     (''req'', struct_drm_vmw_gb_surface_create_req)]"

definition struct_drm_vmw_gb_surface_ref_rep :: ctype where
  "struct_drm_vmw_gb_surface_ref_rep = c_struct [
     (''creq'', struct_drm_vmw_gb_surface_create_req),
     (''crep'', struct_drm_vmw_gb_surface_create_rep)]"

definition union_drm_vmw_gb_surface_reference_arg :: ctype where
  "union_drm_vmw_gb_surface_reference_arg = c_union [
     (''rep'', struct_drm_vmw_gb_surface_ref_rep),
     (''req'', struct_drm_vmw_surface_arg)]"

definition struct_drm_vmw_synccpu_arg :: ctype where
  "struct_drm_vmw_synccpu_arg = c_struct [
     (''op'', u32_t),
     (''flags'', u32_t),
     (''handle'', u32_t),
     (''pad64'', u32_t)]"

definition union_drm_vmw_extended_context_arg :: ctype where
  "union_drm_vmw_extended_context_arg = c_union [
     (''req'', u32_t),
     (''rep'', struct_drm_vmw_context_arg)]"

definition struct_drm_vmw_handle_close_arg :: ctype where
  "struct_drm_vmw_handle_close_arg = c_struct [
     (''handle'', u32_t),
     (''pad64'', u32_t)]"

definition struct_drm_vmw_gb_surface_create_ext_req :: ctype where
  "struct_drm_vmw_gb_surface_create_ext_req = c_struct [
     (''base'', struct_drm_vmw_gb_surface_create_req),
     (''version'', u32_t),
     (''svga3d_flags_upper_32_bits'', u32_t),
     (''multisample_pattern'', u32_t),
     (''quality_level'', u32_t),
     (''buffer_byte_stride'', u32_t),
     (''must_be_zero'', u32_t)]"

definition union_drm_vmw_gb_surface_create_ext_arg :: ctype where
  "union_drm_vmw_gb_surface_create_ext_arg = c_union [
     (''rep'', struct_drm_vmw_gb_surface_create_rep),
     (''req'', struct_drm_vmw_gb_surface_create_ext_req)]"

definition struct_drm_vmw_gb_surface_ref_ext_rep :: ctype where
  "struct_drm_vmw_gb_surface_ref_ext_rep = c_struct [
     (''creq'', struct_drm_vmw_gb_surface_create_ext_req),
     (''crep'', struct_drm_vmw_gb_surface_create_rep)]"

definition union_drm_vmw_gb_surface_reference_ext_arg :: ctype where
  "union_drm_vmw_gb_surface_reference_ext_arg = c_union [
     (''rep'', struct_drm_vmw_gb_surface_ref_ext_rep),
     (''req'', struct_drm_vmw_surface_arg)]"

definition struct_drm_vmw_msg_arg :: ctype where
  "struct_drm_vmw_msg_arg = c_struct [
     (''send'', u64_t),
     (''receive'', u64_t),
     (''send_only'', u32_t),
     (''receive_len'', u32_t)]"

definition struct_drm_vmw_mksstat_add_arg :: ctype where
  "struct_drm_vmw_mksstat_add_arg = c_struct [
     (''stat'', u64_t),
     (''info'', u64_t),
     (''strs'', u64_t),
     (''stat_len'', u64_t),
     (''info_len'', u64_t),
     (''strs_len'', u64_t),
     (''description'', u64_t),
     (''id'', u64_t)]"

definition struct_drm_vmw_mksstat_remove_arg :: ctype where
  "struct_drm_vmw_mksstat_remove_arg = c_struct [
     (''id'', u64_t)]"

section \<open>Tables\<close>

text \<open>The drivers with their requests, for a program whose pointers have \<open>w\<close> bytes.\<close>

definition gpu_drivers :: "nat \<Rightarrow> (string \<times> request list) list" where
  "gpu_drivers w = [(''etnaviv'', etnaviv_requests), (''exynos'', exynos_requests), (''lima'', lima_requests),
     (''msm'', msm_requests), (''nouveau'', nouveau_requests), (''omap'', omap_requests),
     (''panfrost'', panfrost_requests), (''qxl'', qxl_requests), (''radeon'', radeon_requests w),
     (''tegra'', tegra_requests), (''v3d'', v3d_requests), (''vc4'', vc4_requests), (''vgem'', vgem_requests),
     (''virtgpu'', virtgpu_requests)]"

text \<open>The requests whose number on i386 is not that of a 64-bit kernel.\<close>

definition gpu_changed :: "request list" where
  "gpu_changed = [DRM_IOCTL_MSM_WAIT_FENCE, DRM_IOCTL_RADEON_CP_INIT 8, DRM_IOCTL_RADEON_CLEAR 8, DRM_IOCTL_RADEON_STIPPLE 8,
     DRM_IOCTL_RADEON_TEXTURE 8, DRM_IOCTL_RADEON_VERTEX2 8, DRM_IOCTL_RADEON_CMDBUF 8,
     DRM_IOCTL_RADEON_GETPARAM 8, DRM_IOCTL_RADEON_ALLOC 8, DRM_IOCTL_RADEON_IRQ_EMIT 8, DRM_IOCTL_RADEON_SETPARAM,
     DRM_IOCTL_RADEON_GEM_CREATE, DRM_IOCTL_V3D_SUBMIT_CSD, DRM_IOCTL_VC4_SUBMIT_CL,
     DRM_IOCTL_VC4_PERFMON_GET_VALUES]"

text \<open>The structures without padding.\<close>

definition gpu_tight :: "ctype list" where
  "gpu_tight = [struct_drm_etnaviv_timespec, struct_drm_etnaviv_param, struct_drm_etnaviv_gem_new,
     struct_drm_etnaviv_gem_info, struct_drm_etnaviv_gem_cpu_prep, struct_drm_etnaviv_gem_cpu_fini,
     struct_drm_etnaviv_gem_submit_bo, struct_drm_etnaviv_gem_submit_pmr, struct_drm_etnaviv_gem_submit,
     struct_drm_etnaviv_wait_fence, struct_drm_etnaviv_gem_userptr, struct_drm_etnaviv_gem_wait,
     struct_drm_etnaviv_pm_domain, struct_drm_exynos_gem_create, struct_drm_exynos_gem_map,
     struct_drm_exynos_gem_info, struct_drm_exynos_vidi_connection, struct_drm_exynos_g2d_get_ver,
     struct_drm_exynos_g2d_cmd, struct_drm_exynos_g2d_set_cmdlist, struct_drm_exynos_g2d_exec,
     struct_drm_exynos_ioctl_ipp_get_res, struct_drm_exynos_ipp_format, struct_drm_exynos_ioctl_ipp_get_caps,
     struct_drm_exynos_ipp_limit_val, struct_drm_exynos_ipp_limit, struct_drm_exynos_ioctl_ipp_get_limits,
     struct_drm_exynos_ipp_task_buffer, struct_drm_exynos_ipp_task_rect, struct_drm_exynos_ipp_task_transform,
     struct_drm_exynos_ipp_task_alpha, struct_drm_exynos_ioctl_ipp_commit, struct_drm_exynos_g2d_event,
     struct_drm_exynos_ipp_event, struct_drm_lima_get_param, struct_drm_lima_gem_create, struct_drm_lima_gem_info,
     struct_drm_lima_gem_submit_bo, struct_drm_lima_gp_frame, struct_drm_lima_m400_pp_frame,
     struct_drm_lima_m450_pp_frame, struct_drm_lima_gem_submit, struct_drm_lima_gem_wait,
     struct_drm_lima_ctx_create, struct_drm_lima_ctx_free, struct_drm_msm_timespec, struct_drm_msm_param,
     struct_drm_msm_gem_new, struct_drm_msm_gem_info, struct_drm_msm_gem_cpu_prep, struct_drm_msm_gem_cpu_fini,
     struct_drm_msm_gem_submit_reloc, struct_drm_msm_gem_submit_cmd, struct_drm_msm_gem_submit_bo,
     struct_drm_msm_gem_submit_syncobj, struct_drm_msm_gem_submit, struct_drm_msm_gem_madvise,
     struct_drm_msm_submitqueue, struct_drm_msm_submitqueue_query, struct_drm_nouveau_gem_info,
     struct_drm_nouveau_gem_new, struct_drm_nouveau_gem_pushbuf_bo_presumed, struct_drm_nouveau_gem_pushbuf_bo,
     struct_drm_nouveau_gem_pushbuf_reloc, struct_drm_nouveau_gem_pushbuf_push, struct_drm_nouveau_gem_pushbuf,
     struct_drm_nouveau_gem_cpu_prep, struct_drm_nouveau_gem_cpu_fini, struct_drm_nouveau_svm_init,
     struct_drm_nouveau_svm_bind, struct_drm_omap_param, union_omap_gem_size, struct_drm_omap_gem_new,
     struct_drm_omap_gem_cpu_prep, struct_drm_omap_gem_cpu_fini, struct_drm_omap_gem_info,
     struct_drm_panfrost_submit, struct_drm_panfrost_wait_bo, struct_drm_panfrost_create_bo,
     struct_drm_panfrost_mmap_bo, struct_drm_panfrost_get_param, struct_drm_panfrost_get_bo_offset,
     struct_drm_panfrost_perfcnt_enable, struct_drm_panfrost_perfcnt_dump, struct_drm_panfrost_madvise,
     struct_drm_qxl_alloc, struct_drm_qxl_map, struct_drm_qxl_reloc, struct_drm_qxl_command,
     struct_drm_qxl_execbuffer, struct_drm_qxl_update_area, struct_drm_qxl_getparam, struct_drm_qxl_clientcap,
     struct_drm_qxl_alloc_surf, struct_drm_radeon_cp_stop, struct_drm_radeon_fullscreen,
     union_drm_radeon_clear_rect, struct_drm_radeon_vertex, struct_drm_radeon_indices, struct_drm_radeon_indirect,
     struct_drm_radeon_mem_free, struct_drm_radeon_mem_init_heap, struct_drm_radeon_irq_wait,
     struct_drm_radeon_surface_alloc, struct_drm_radeon_surface_free, struct_drm_radeon_gem_info,
     struct_drm_radeon_gem_userptr, struct_drm_radeon_gem_set_tiling, struct_drm_radeon_gem_get_tiling,
     struct_drm_radeon_gem_mmap, struct_drm_radeon_gem_set_domain, struct_drm_radeon_gem_wait_idle,
     struct_drm_radeon_gem_busy, struct_drm_radeon_gem_pread, struct_drm_radeon_gem_pwrite,
     struct_drm_radeon_gem_op, struct_drm_radeon_gem_va, struct_drm_radeon_cs_chunk, struct_drm_radeon_cs_reloc,
     struct_drm_radeon_cs, struct_drm_radeon_info, struct_drm_tegra_gem_create, struct_drm_tegra_gem_mmap,
     struct_drm_tegra_syncpt_read, struct_drm_tegra_syncpt_incr, struct_drm_tegra_syncpt_wait,
     struct_drm_tegra_open_channel, struct_drm_tegra_close_channel, struct_drm_tegra_get_syncpt,
     struct_drm_tegra_get_syncpt_base, struct_drm_tegra_syncpt, struct_drm_tegra_cmdbuf, struct_drm_tegra_reloc,
     struct_drm_tegra_waitchk, struct_drm_tegra_submit, struct_drm_tegra_gem_set_tiling,
     struct_drm_tegra_gem_get_tiling, struct_drm_tegra_gem_set_flags, struct_drm_tegra_gem_get_flags,
     struct_drm_tegra_channel_open, struct_drm_tegra_channel_close, struct_drm_tegra_channel_map,
     struct_drm_tegra_channel_unmap, struct_drm_tegra_submit_buf, struct_drm_tegra_submit_cmd_gather_uptr,
     struct_drm_tegra_submit_cmd_wait_syncpt, struct_drm_tegra_submit_cmd, struct_drm_tegra_submit_syncpt,
     struct_drm_tegra_channel_submit, struct_drm_tegra_syncpoint_allocate, struct_drm_tegra_syncpoint_free,
     struct_drm_tegra_syncpoint_wait, struct_drm_v3d_submit_cl, struct_drm_v3d_wait_bo, struct_drm_v3d_create_bo,
     struct_drm_v3d_mmap_bo, struct_drm_v3d_get_param, struct_drm_v3d_get_bo_offset, struct_drm_v3d_submit_tfu,
     struct_drm_v3d_perfmon_create, struct_drm_v3d_perfmon_destroy, struct_drm_v3d_perfmon_get_values,
     struct_drm_vc4_submit_rcl_surface, struct_drm_vc4_wait_seqno, struct_drm_vc4_wait_bo,
     struct_drm_vc4_create_bo, struct_drm_vc4_mmap_bo, struct_drm_vc4_create_shader_bo,
     struct_drm_vc4_get_hang_state_bo, struct_drm_vc4_get_hang_state, struct_drm_vc4_get_param,
     struct_drm_vc4_get_tiling, struct_drm_vc4_set_tiling, struct_drm_vc4_label_bo, struct_drm_vc4_gem_madvise,
     struct_drm_vc4_perfmon_create, struct_drm_vc4_perfmon_destroy, struct_drm_vgem_fence_attach,
     struct_drm_vgem_fence_signal, struct_drm_virtgpu_map, struct_drm_virtgpu_execbuffer,
     struct_drm_virtgpu_getparam, struct_drm_virtgpu_resource_create, struct_drm_virtgpu_resource_info,
     struct_drm_virtgpu_3d_box, struct_drm_virtgpu_3d_transfer_to_host, struct_drm_virtgpu_3d_transfer_from_host,
     struct_drm_virtgpu_3d_wait, struct_drm_virtgpu_get_caps, struct_drm_virtgpu_resource_create_blob,
     struct_drm_vmw_getparam_arg, struct_drm_vmw_context_arg, struct_drm_vmw_surface_create_req,
     struct_drm_vmw_surface_arg, struct_drm_vmw_size, union_drm_vmw_surface_create_arg,
     union_drm_vmw_surface_reference_arg, struct_drm_vmw_execbuf_arg, struct_drm_vmw_fence_rep,
     struct_drm_vmw_alloc_bo_req, struct_drm_vmw_bo_rep, union_drm_vmw_alloc_bo_arg, struct_drm_vmw_rect,
     struct_drm_vmw_control_stream_arg, struct_drm_vmw_cursor_bypass_arg, struct_drm_vmw_stream_arg,
     struct_drm_vmw_get_3d_cap_arg, struct_drm_vmw_fence_wait_arg, struct_drm_vmw_fence_signaled_arg,
     struct_drm_vmw_fence_arg, struct_drm_vmw_event_fence, struct_drm_vmw_fence_event_arg,
     struct_drm_vmw_present_arg, struct_drm_vmw_present_readback_arg, struct_drm_vmw_update_layout_arg,
     struct_drm_vmw_shader_create_arg, struct_drm_vmw_shader_arg, struct_drm_vmw_gb_surface_create_req,
     struct_drm_vmw_gb_surface_create_rep, union_drm_vmw_gb_surface_create_arg, struct_drm_vmw_gb_surface_ref_rep,
     union_drm_vmw_gb_surface_reference_arg, struct_drm_vmw_synccpu_arg, union_drm_vmw_extended_context_arg,
     struct_drm_vmw_handle_close_arg, struct_drm_vmw_gb_surface_create_ext_req,
     union_drm_vmw_gb_surface_create_ext_arg, struct_drm_vmw_gb_surface_ref_ext_rep,
     union_drm_vmw_gb_surface_reference_ext_arg, struct_drm_vmw_msg_arg, struct_drm_vmw_mksstat_add_arg,
     struct_drm_vmw_mksstat_remove_arg]"

section \<open>Properties\<close>

lemma gpu_family_8_8: "family_ok 8 (gpu_drivers 8)"
  by code_simp

lemma gpu_family_8_4: "family_ok 8 (gpu_drivers 4)"
  by code_simp

lemma gpu_family_4_4: "family_ok 4 (gpu_drivers 4)"
  by code_simp

lemma gpu_family_2_4: "family_ok 2 (gpu_drivers 4)"
  by code_simp

lemma gpu_interface:
  assumes "(amax, w) \<in> set abis" "d \<in> set (gpu_drivers w)"
  shows "ioctl_interface amax (snd d)"
  using assms gpu_family_8_8 gpu_family_8_4 gpu_family_4_4 gpu_family_2_4
  by (auto simp add: abis_def intro: family_interface)

lemma gpu_pairs:
  "list_all2 (\<lambda>d g. list_all2 (\<lambda>r q. (req_key 4 r = req_key 8 q) \<noteq> (q \<in> set gpu_changed)) (snd d) (snd g))
    (gpu_drivers 4) (gpu_drivers 8)"
  by code_simp

lemma gpu_alike:
  "list_all2 (\<lambda>d g. list_all2 (\<lambda>r q. agree 4 (req_arg q) \<or> q \<in> set gpu_changed \<or> r \<noteq> q) (snd d) (snd g))
    (gpu_drivers 4) (gpu_drivers 8)"
  by code_simp

lemmas gpu_compat = family_compat [OF gpu_family_4_4 gpu_family_8_8 gpu_pairs gpu_alike]

interpretation msm_i386: ioctl_compat 4 msm_requests msm_requests gpu_changed
  using gpu_compat by (simp add: gpu_drivers_def)

interpretation radeon_i386: ioctl_compat 4 "radeon_requests 4" "radeon_requests 8" gpu_changed
  using gpu_compat by (simp add: gpu_drivers_def)

text \<open>
  The requests of each driver have different numbers on every ABI and layout of request numbers, and the size
  that the kernel decodes is the size of the argument.
\<close>

theorem gpu_requests_decoded:
  assumes "(amax, w) \<in> set abis" "L \<in> ioc_layouts" "32 \<le> LENGTH('l)" "d \<in> set (gpu_drivers w)"
  shows "distinct (map (request_number L amax) (snd d) :: 'l::len word list) \<and>
    list_all (\<lambda>r. IOC_SIZE L (request_number L amax r :: 'l word) = word_of_nat (sizeof amax (req_arg r))) (snd d)"
  using gpu_interface [OF assms(1,4)] assms(2,3) by (rule ioctl_interface.sound)

theorem gpu_requests_decoded_witness:
  "distinct (map (request_number generic_ioc 8) (snd (''tegra'', tegra_requests)) :: u32 list) \<and>
   list_all (\<lambda>r. IOC_SIZE generic_ioc (request_number generic_ioc 8 r :: u32) = word_of_nat (sizeof 8 (req_arg r)))
     (snd (''tegra'', tegra_requests))"
  by (rule gpu_requests_decoded [where w = 8]) (simp_all add: abis_def ioc_layouts_def gpu_drivers_def)

text \<open>
  An i386 program uses the numbers of the 64-bit kernel for the requests of every driver, except for those of
  \<open>gpu_changed\<close>: requests of the old Radeon interface that pass pointers, and six whose argument
  ends with, or contains, a 64-bit member behind an odd number of words. The kernel finds every member of
  the other arguments without pointers where the program put it.
\<close>

theorem gpu_compat_requests:
  assumes "L \<in> ioc_layouts" "32 \<le> LENGTH('l)"
  shows "list_all2 (\<lambda>d g. list_all2 (\<lambda>r q. ((request_number L 4 r :: 'l::len word) = request_number L 8 q) \<noteq>
      (q \<in> set gpu_changed)) (snd d) (snd g) \<and>
    list_all2 (\<lambda>r q. r = q \<longrightarrow> q \<notin> set gpu_changed \<longrightarrow> leaves 4 0 (req_arg q) = leaves 8 0 (req_arg q))
      (snd d) (snd g)) (gpu_drivers 4) (gpu_drivers 8)"
  using gpu_compat assms by (rule family_requests)

theorem gpu_compat_requests_witness:
  "list_all2 (\<lambda>d g. list_all2 (\<lambda>r q. ((request_number generic_ioc 4 r :: u32) = request_number generic_ioc 8 q) \<noteq>
      (q \<in> set gpu_changed)) (snd d) (snd g)) (gpu_drivers 4) (gpu_drivers 8)"
  by (rule list_all2_mono [OF gpu_compat_requests [of generic_ioc, where ?'l = 32]])
    (simp_all add: ioc_layouts_def)

lemma gpu_all_tight: "list_all tight gpu_tight"
  by code_simp

text \<open>
  The structures of these drivers without implicit padding are laid out alike, member by member, by every ABI,
  and each of their bytes belongs to a member.
\<close>

theorem gpu_layout:
  assumes "t \<in> set gpu_tight"
  shows "same_everywhere t \<and> covered (leaves 8 0 t) 0 (sizeof 8 t)"
  using gpu_all_tight assms by (rule tight_types)

theorem gpu_layout_witness:
  "same_everywhere struct_drm_tegra_channel_submit \<and> covered (leaves 8 0 struct_drm_tegra_channel_submit) 0 (sizeof 8 struct_drm_tegra_channel_submit)"
  by (rule gpu_layout) (simp add: gpu_tight_def)

end
