(* ===== verification/Abi_Sound.thy ===== *)
theory Abi_Sound
  imports Abi_V4l2 Uapi_Memory
begin

text \<open>
  The sound interface: the structures and requests of \<^verbatim>\<open>include/sound/asound.h\<close> and \<^verbatim>\<open>asequencer.h\<close>, and the structures of
  compressed streams, topology files, sound fonts, FireWire units and firmware. Stream positions are counted in
  \<^verbatim>\<open>unsigned long\<close> and times in \<^verbatim>\<open>struct timespec\<close>, so that three kinds of programs meet one kernel:
  64-bit ones, 32-bit ones with 32-bit times and 32-bit ones with 64-bit times. The last share memory with
  a 64-bit kernel through structures that pad positions to 64 bits, in an order that depends on the byte order.

  \<^verbatim>\<open>struct timespec\<close> is declared by the C library. It is the parameter \<open>ts\<close>, and the size of \<^verbatim>\<open>time_t\<close> the parameter
  \<open>tm\<close>; the requests are stated for the old \<^verbatim>\<open>struct timespec\<close> of \<^verbatim>\<open>include/linux/time.h\<close>.
\<close>

section \<open>Devices: \<^verbatim>\<open>asound.h\<close>\<close>

definition struct_snd_aes_iec958 :: ctype where
  "struct_snd_aes_iec958 = c_struct [
     (''status'', Arr u8_t 24),
     (''subcode'', Arr u8_t 147),
     (''pad'', u8_t),
     (''dig_subframe'', Arr u8_t 4)]"

definition struct_snd_cea_861_aud_if :: ctype where
  "struct_snd_cea_861_aud_if = c_struct [
     (''db1_ct_cc'', u8_t),
     (''db2_sf_ss'', u8_t),
     (''db3'', u8_t),
     (''db4_ca'', u8_t),
     (''db5_dminh_lsv'', u8_t)]"

definition struct_snd_hwdep_info :: ctype where
  "struct_snd_hwdep_info = c_struct [
     (''device'', u32_t),
     (''card'', u32_t),
     (''id'', Arr u8_t 64),
     (''name'', Arr u8_t 80),
     (''iface'', u32_t),
     (''reserved'', Arr u8_t 64)]"

definition struct_snd_hwdep_dsp_status :: ctype where
  "struct_snd_hwdep_dsp_status = c_struct [
     (''version'', u32_t),
     (''id'', Arr u8_t 32),
     (''num_dsps'', u32_t),
     (''dsp_loaded'', u32_t),
     (''chip_ready'', u32_t),
     (''reserved'', Arr u8_t 16)]"

definition struct_snd_hwdep_dsp_image :: "nat \<Rightarrow> ctype" where
  "struct_snd_hwdep_dsp_image w = c_struct [
     (''index'', u32_t),
     (''name'', Arr u8_t 64),
     (''image'', ptr_t w),
     (''length'', long_t w),
     (''driver_data'', long_t w)]"

definition union_snd_pcm_sync_id :: ctype where
  "union_snd_pcm_sync_id = c_union [
     (''id'', Arr u8_t 16),
     (''id16'', Arr u16_t 8),
     (''id32'', Arr u32_t 4)]"

definition struct_snd_pcm_info :: ctype where
  "struct_snd_pcm_info = c_struct [
     (''device'', u32_t),
     (''subdevice'', u32_t),
     (''stream'', u32_t),
     (''card'', u32_t),
     (''id'', Arr u8_t 64),
     (''name'', Arr u8_t 80),
     (''subname'', Arr u8_t 32),
     (''dev_class'', u32_t),
     (''dev_subclass'', u32_t),
     (''subdevices_count'', u32_t),
     (''subdevices_avail'', u32_t),
     (''sync'', union_snd_pcm_sync_id),
     (''reserved'', Arr u8_t 64)]"

definition struct_snd_interval :: ctype where
  "struct_snd_interval = c_struct [
     (''min'', u32_t),
     (''max'', u32_t),
     (''openmin_openmax_integer_empty'', u32_t)]"

definition struct_snd_mask :: ctype where
  "struct_snd_mask = c_struct [
     (''bits'', Arr u32_t 8)]"

definition struct_snd_pcm_hw_params :: "nat \<Rightarrow> ctype" where
  "struct_snd_pcm_hw_params w = c_struct [
     (''flags'', u32_t),
     (''masks'', Arr struct_snd_mask 3),
     (''mres'', Arr struct_snd_mask 5),
     (''intervals'', Arr struct_snd_interval 12),
     (''ires'', Arr struct_snd_interval 9),
     (''rmask'', u32_t),
     (''cmask'', u32_t),
     (''info'', u32_t),
     (''msbits'', u32_t),
     (''rate_num'', u32_t),
     (''rate_den'', u32_t),
     (''fifo_size'', long_t w),
     (''reserved'', Arr u8_t 64)]"

definition struct_snd_pcm_sw_params :: "nat \<Rightarrow> ctype" where
  "struct_snd_pcm_sw_params w = c_struct [
     (''tstamp_mode'', u32_t),
     (''period_step'', u32_t),
     (''sleep_min'', u32_t),
     (''avail_min'', long_t w),
     (''xfer_align'', long_t w),
     (''start_threshold'', long_t w),
     (''stop_threshold'', long_t w),
     (''silence_threshold'', long_t w),
     (''silence_size'', long_t w),
     (''boundary'', long_t w),
     (''proto'', u32_t),
     (''tstamp_type'', u32_t),
     (''reserved'', Arr u8_t 56)]"

definition struct_snd_pcm_channel_info :: "nat \<Rightarrow> ctype" where
  "struct_snd_pcm_channel_info w = c_struct [
     (''channel'', u32_t),
     (''offset'', long_t w),
     (''first'', u32_t),
     (''step'', u32_t)]"

definition struct_snd_timespec64 :: ctype where
  "struct_snd_timespec64 = c_struct [
     (''tv_sec'', u64_t),
     (''tv_nsec'', u64_t)]"

definition struct_snd_pcm_mmap_control :: "nat \<Rightarrow> ctype" where
  "struct_snd_pcm_mmap_control w = c_struct [
     (''appl_ptr'', long_t w),
     (''avail_min'', long_t w)]"

definition struct_snd_xferi :: "nat \<Rightarrow> ctype" where
  "struct_snd_xferi w = c_struct [
     (''result'', long_t w),
     (''buf'', ptr_t w),
     (''frames'', long_t w)]"

definition struct_snd_xfern :: "nat \<Rightarrow> ctype" where
  "struct_snd_xfern w = c_struct [
     (''result'', long_t w),
     (''bufs'', ptr_t w),
     (''frames'', long_t w)]"

definition struct_snd_rawmidi_info :: ctype where
  "struct_snd_rawmidi_info = c_struct [
     (''device'', u32_t),
     (''subdevice'', u32_t),
     (''stream'', u32_t),
     (''card'', u32_t),
     (''flags'', u32_t),
     (''id'', Arr u8_t 64),
     (''name'', Arr u8_t 80),
     (''subname'', Arr u8_t 32),
     (''subdevices_count'', u32_t),
     (''subdevices_avail'', u32_t),
     (''reserved'', Arr u8_t 64)]"

definition struct_snd_rawmidi_framing_tstamp :: ctype where
  "struct_snd_rawmidi_framing_tstamp = c_packed [
     (''frame_type'', u8_t),
     (''length'', u8_t),
     (''reserved'', Arr u8_t 2),
     (''tv_nsec'', u32_t),
     (''tv_sec'', u64_t),
     (''data'', Arr u8_t 16)]"

definition struct_snd_rawmidi_params :: "nat \<Rightarrow> ctype" where
  "struct_snd_rawmidi_params w = c_struct [
     (''stream'', u32_t),
     (''buffer_size'', long_t w),
     (''avail_min'', long_t w),
     (''no_active_sensing'', u32_t),
     (''mode'', u32_t),
     (''reserved'', Arr u8_t 12)]"

definition struct_snd_timer_id :: ctype where
  "struct_snd_timer_id = c_struct [
     (''dev_class'', u32_t),
     (''dev_sclass'', u32_t),
     (''card'', u32_t),
     (''device'', u32_t),
     (''subdevice'', u32_t)]"

definition struct_snd_timer_ginfo :: "nat \<Rightarrow> ctype" where
  "struct_snd_timer_ginfo w = c_struct [
     (''tid'', struct_snd_timer_id),
     (''flags'', u32_t),
     (''card'', u32_t),
     (''id'', Arr u8_t 64),
     (''name'', Arr u8_t 80),
     (''reserved0'', long_t w),
     (''resolution'', long_t w),
     (''resolution_min'', long_t w),
     (''resolution_max'', long_t w),
     (''clients'', u32_t),
     (''reserved'', Arr u8_t 32)]"

definition struct_snd_timer_gparams :: "nat \<Rightarrow> ctype" where
  "struct_snd_timer_gparams w = c_struct [
     (''tid'', struct_snd_timer_id),
     (''period_num'', long_t w),
     (''period_den'', long_t w),
     (''reserved'', Arr u8_t 32)]"

definition struct_snd_timer_gstatus :: "nat \<Rightarrow> ctype" where
  "struct_snd_timer_gstatus w = c_struct [
     (''tid'', struct_snd_timer_id),
     (''resolution'', long_t w),
     (''resolution_num'', long_t w),
     (''resolution_den'', long_t w),
     (''reserved'', Arr u8_t 32)]"

definition struct_snd_timer_select :: ctype where
  "struct_snd_timer_select = c_struct [
     (''id'', struct_snd_timer_id),
     (''reserved'', Arr u8_t 32)]"

definition struct_snd_timer_info :: "nat \<Rightarrow> ctype" where
  "struct_snd_timer_info w = c_struct [
     (''flags'', u32_t),
     (''card'', u32_t),
     (''id'', Arr u8_t 64),
     (''name'', Arr u8_t 80),
     (''reserved0'', long_t w),
     (''resolution'', long_t w),
     (''reserved'', Arr u8_t 64)]"

definition struct_snd_timer_params :: ctype where
  "struct_snd_timer_params = c_struct [
     (''flags'', u32_t),
     (''ticks'', u32_t),
     (''queue_size'', u32_t),
     (''reserved0'', u32_t),
     (''filter'', u32_t),
     (''reserved'', Arr u8_t 60)]"

definition struct_snd_timer_read :: ctype where
  "struct_snd_timer_read = c_struct [
     (''resolution'', u32_t),
     (''ticks'', u32_t)]"

definition struct_snd_ctl_card_info :: ctype where
  "struct_snd_ctl_card_info = c_struct [
     (''card'', u32_t),
     (''pad'', u32_t),
     (''id'', Arr u8_t 16),
     (''driver'', Arr u8_t 16),
     (''name'', Arr u8_t 32),
     (''longname'', Arr u8_t 80),
     (''reserved_'', Arr u8_t 16),
     (''mixername'', Arr u8_t 80),
     (''components'', Arr u8_t 128)]"

definition struct_snd_ctl_elem_id :: ctype where
  "struct_snd_ctl_elem_id = c_struct [
     (''numid'', u32_t),
     (''iface'', u32_t),
     (''device'', u32_t),
     (''subdevice'', u32_t),
     (''name'', Arr u8_t 44),
     (''index'', u32_t)]"

definition struct_snd_ctl_elem_list :: "nat \<Rightarrow> ctype" where
  "struct_snd_ctl_elem_list w = c_struct [
     (''offset'', u32_t),
     (''space'', u32_t),
     (''used'', u32_t),
     (''count'', u32_t),
     (''pids'', ptr_t w),
     (''reserved'', Arr u8_t 50)]"

definition struct_snd_ctl_elem_info :: "nat \<Rightarrow> ctype" where
  "struct_snd_ctl_elem_info w = c_struct [
     (''id'', struct_snd_ctl_elem_id),
     (''type'', u32_t),
     (''access'', u32_t),
     (''count'', u32_t),
     (''owner'', u32_t),
     (''value'', c_union [ (''integer'', c_struct [ (''min'', long_t w), (''max'', long_t w), (''step'', long_t w)]), (''integer64'', c_struct [ (''min'', u64_t), (''max'', u64_t), (''step'', u64_t)]), (''enumerated'', c_struct [ (''items'', u32_t), (''item'', u32_t), (''name'', Arr u8_t 64), (''names_ptr'', u64_t), (''names_length'', u32_t)]), (''reserved'', Arr u8_t 128)]),
     (''reserved'', Arr u8_t 64)]"

definition struct_snd_ctl_elem_value :: "nat \<Rightarrow> ctype" where
  "struct_snd_ctl_elem_value w = c_struct [
     (''id'', struct_snd_ctl_elem_id),
     (''indirect'', u32_t),
     (''value'', c_union [ (''integer'', c_union [ (''value'', Arr (long_t w) 128), (''value_ptr'', ptr_t w)]), (''integer64'', c_union [ (''value'', Arr u64_t 64), (''value_ptr'', ptr_t w)]), (''enumerated'', c_union [ (''item'', Arr u32_t 128), (''item_ptr'', ptr_t w)]), (''bytes'', c_union [ (''data'', Arr u8_t 512), (''data_ptr'', ptr_t w)]), (''iec958'', struct_snd_aes_iec958)]),
     (''reserved'', Arr u8_t 128)]"

definition struct_snd_ctl_tlv :: ctype where
  "struct_snd_ctl_tlv = c_struct [
     (''numid'', u32_t),
     (''length'', u32_t),
     (''tlv'', Arr u32_t 0)]"

definition struct_snd_ctl_event :: ctype where
  "struct_snd_ctl_event = c_struct [
     (''type'', u32_t),
     (''data'', c_union [ (''elem'', c_struct [ (''mask'', u32_t), (''id'', struct_snd_ctl_elem_id)]), (''data8'', Arr u8_t 60)])]"

section \<open>Structures with times\<close>

definition time_pad :: "nat \<Rightarrow> ctype" where
  "time_pad tm = c_struct [(''pad'', Arr u8_t (tm - 4))]"

text \<open>The size of \<open>ts\<close>, which the last member depends on, is that of the ABI \<open>amax\<close>.\<close>

definition struct_snd_pcm_status :: "nat \<Rightarrow> nat \<Rightarrow> ctype \<Rightarrow> nat \<Rightarrow> ctype" where
  "struct_snd_pcm_status amax tm ts w = c_struct [
     (''state'', u32_t),
     (''pad1'', time_pad tm),
     (''trigger_tstamp'', ts),
     (''tstamp'', ts),
     (''appl_ptr'', long_t w),
     (''hw_ptr'', long_t w),
     (''delay'', long_t w),
     (''avail'', long_t w),
     (''avail_max'', long_t w),
     (''overrange'', long_t w),
     (''suspended_state'', u32_t),
     (''audio_tstamp_data'', u32_t),
     (''audio_tstamp'', ts),
     (''driver_tstamp'', ts),
     (''audio_tstamp_accuracy'', u32_t),
     (''reserved'', Arr u8_t (52 - 2 * sizeof amax ts))]"

definition snd_pcm_mmap_status_members :: "ctype \<Rightarrow> nat \<Rightarrow> (string \<times> ctype) list" where
  "snd_pcm_mmap_status_members ts w = [
     (''state'', u32_t),
     (''pad1'', u32_t),
     (''hw_ptr'', long_t w),
     (''tstamp'', ts),
     (''suspended_state'', u32_t),
     (''audio_tstamp'', ts)]"

definition struct_snd_pcm_mmap_status :: "ctype \<Rightarrow> nat \<Rightarrow> ctype" where
  "struct_snd_pcm_mmap_status ts w = c_struct (snd_pcm_mmap_status_members ts w)"

definition struct_snd_pcm_sync_ptr :: "ctype \<Rightarrow> nat \<Rightarrow> ctype" where
  "struct_snd_pcm_sync_ptr ts w = c_struct [
     (''flags'', u32_t),
     (''s'', c_union [(''status'', struct_snd_pcm_mmap_status ts w), (''reserved'', Arr u8_t 64)]),
     (''c'', c_union [(''control'', struct_snd_pcm_mmap_control w), (''reserved'', Arr u8_t 64)])]"

text \<open>The padding around a position, in front of it on big-endian hosts and behind it on little-endian ones.\<close>

definition pad_before_uframe :: "endian \<Rightarrow> nat \<Rightarrow> ctype" where
  "pad_before_uframe e w = (case e of Big \<Rightarrow> Arr u8_t (8 - w) | Little \<Rightarrow> Arr u8_t 0)"

definition pad_after_uframe :: "endian \<Rightarrow> nat \<Rightarrow> ctype" where
  "pad_after_uframe e w = (case e of Big \<Rightarrow> Arr u8_t 0 | Little \<Rightarrow> Arr u8_t (8 - w))"

definition snd_pcm_mmap_status64_members :: "endian \<Rightarrow> ctype \<Rightarrow> nat \<Rightarrow> (string \<times> ctype) list" where
  "snd_pcm_mmap_status64_members e ts w = [
     (''state'', u32_t),
     (''pad1'', u32_t),
     (''__pad1'', pad_before_uframe e w),
     (''hw_ptr'', long_t w),
     (''__pad2'', pad_after_uframe e w),
     (''tstamp'', ts),
     (''suspended_state'', u32_t),
     (''pad3'', u32_t),
     (''audio_tstamp'', ts)]"

definition struct_snd_pcm_mmap_status64 :: "endian \<Rightarrow> ctype \<Rightarrow> nat \<Rightarrow> ctype" where
  "struct_snd_pcm_mmap_status64 e ts w = c_struct (snd_pcm_mmap_status64_members e ts w)"

definition snd_pcm_mmap_control64_members :: "endian \<Rightarrow> nat \<Rightarrow> (string \<times> ctype) list" where
  "snd_pcm_mmap_control64_members e w = [
     (''__pad1'', pad_before_uframe e w),
     (''appl_ptr'', long_t w),
     (''__pad2'', pad_before_uframe e w),
     (''__pad3'', pad_before_uframe e w),
     (''avail_min'', long_t w),
     (''__pad4'', pad_after_uframe e w)]"

definition struct_snd_pcm_mmap_control64 :: "endian \<Rightarrow> nat \<Rightarrow> ctype" where
  "struct_snd_pcm_mmap_control64 e w = c_struct (snd_pcm_mmap_control64_members e w)"

definition struct_snd_pcm_sync_ptr64 :: "endian \<Rightarrow> ctype \<Rightarrow> nat \<Rightarrow> ctype" where
  "struct_snd_pcm_sync_ptr64 e ts w = c_struct [
     (''flags'', u32_t),
     (''pad1'', u32_t),
     (''s'', c_union [(''status'', struct_snd_pcm_mmap_status64 e ts w), (''reserved'', Arr u8_t 64)]),
     (''c'', c_union [(''control'', struct_snd_pcm_mmap_control64 e w), (''reserved'', Arr u8_t 64)])]"

definition struct_snd_rawmidi_status :: "nat \<Rightarrow> ctype \<Rightarrow> nat \<Rightarrow> ctype" where
  "struct_snd_rawmidi_status tm ts w = c_struct [
     (''stream'', u32_t),
     (''pad1'', time_pad tm),
     (''tstamp'', ts),
     (''avail'', long_t w),
     (''xruns'', long_t w),
     (''reserved'', Arr u8_t 16)]"

definition struct_snd_timer_status :: "ctype \<Rightarrow> ctype" where
  "struct_snd_timer_status ts = c_struct [
     (''tstamp'', ts),
     (''resolution'', u32_t),
     (''lost'', u32_t),
     (''overrun'', u32_t),
     (''queue'', u32_t),
     (''reserved'', Arr u8_t 64)]"

definition struct_snd_timer_tread :: "nat \<Rightarrow> ctype \<Rightarrow> ctype" where
  "struct_snd_timer_tread tm ts = c_struct [
     (''event'', u32_t),
     (''pad1'', time_pad tm),
     (''tstamp'', ts),
     (''val'', u32_t),
     (''pad2'', time_pad tm)]"

section \<open>Sequencer: \<^verbatim>\<open>asequencer.h\<close>\<close>

definition struct_snd_seq_addr :: ctype where
  "struct_snd_seq_addr = c_struct [
     (''client'', u8_t),
     (''port'', u8_t)]"

definition struct_snd_seq_connect :: ctype where
  "struct_snd_seq_connect = c_struct [
     (''sender'', struct_snd_seq_addr),
     (''dest'', struct_snd_seq_addr)]"

definition struct_snd_seq_ev_note :: ctype where
  "struct_snd_seq_ev_note = c_struct [
     (''channel'', u8_t),
     (''note'', u8_t),
     (''velocity'', u8_t),
     (''off_velocity'', u8_t),
     (''duration'', u32_t)]"

definition struct_snd_seq_ev_ctrl :: ctype where
  "struct_snd_seq_ev_ctrl = c_struct [
     (''channel'', u8_t),
     (''unused1'', u8_t),
     (''unused2'', u8_t),
     (''unused3'', u8_t),
     (''param'', u32_t),
     (''value'', u32_t)]"

definition struct_snd_seq_ev_raw8 :: ctype where
  "struct_snd_seq_ev_raw8 = c_struct [
     (''d'', Arr u8_t 12)]"

definition struct_snd_seq_ev_raw32 :: ctype where
  "struct_snd_seq_ev_raw32 = c_struct [
     (''d'', Arr u32_t 3)]"

definition struct_snd_seq_ev_ext :: "nat \<Rightarrow> ctype" where
  "struct_snd_seq_ev_ext w = c_packed [
     (''len'', u32_t),
     (''ptr'', ptr_t w)]"

definition struct_snd_seq_result :: ctype where
  "struct_snd_seq_result = c_struct [
     (''event'', u32_t),
     (''result'', u32_t)]"

definition struct_snd_seq_real_time :: ctype where
  "struct_snd_seq_real_time = c_struct [
     (''tv_sec'', u32_t),
     (''tv_nsec'', u32_t)]"

definition union_snd_seq_timestamp :: ctype where
  "union_snd_seq_timestamp = c_union [
     (''tick'', u32_t),
     (''time'', struct_snd_seq_real_time)]"

definition struct_snd_seq_queue_skew :: ctype where
  "struct_snd_seq_queue_skew = c_struct [
     (''value'', u32_t),
     (''base'', u32_t)]"

definition struct_snd_seq_ev_queue_control :: ctype where
  "struct_snd_seq_ev_queue_control = c_struct [
     (''queue'', u8_t),
     (''pad'', Arr u8_t 3),
     (''param'', c_union [ (''value'', u32_t), (''time'', union_snd_seq_timestamp), (''position'', u32_t), (''skew'', struct_snd_seq_queue_skew), (''d32'', Arr u32_t 2), (''d8'', Arr u8_t 8)])]"

definition struct_snd_seq_ev_quote :: "nat \<Rightarrow> ctype" where
  "struct_snd_seq_ev_quote w = c_packed [
     (''origin'', struct_snd_seq_addr),
     (''value'', u16_t),
     (''event'', ptr_t w)]"

definition struct_snd_seq_event :: "nat \<Rightarrow> ctype" where
  "struct_snd_seq_event w = c_struct [
     (''type'', u8_t),
     (''flags'', u8_t),
     (''tag'', u8_t),
     (''queue'', u8_t),
     (''time'', union_snd_seq_timestamp),
     (''source'', struct_snd_seq_addr),
     (''dest'', struct_snd_seq_addr),
     (''data'', c_union [ (''note'', struct_snd_seq_ev_note), (''control'', struct_snd_seq_ev_ctrl), (''raw8'', struct_snd_seq_ev_raw8), (''raw32'', struct_snd_seq_ev_raw32), (''ext'', struct_snd_seq_ev_ext w), (''queue'', struct_snd_seq_ev_queue_control), (''time'', union_snd_seq_timestamp), (''addr'', struct_snd_seq_addr), (''connect'', struct_snd_seq_connect), (''result'', struct_snd_seq_result), (''quote'', struct_snd_seq_ev_quote w)])]"

definition struct_snd_seq_event_bounce :: "nat \<Rightarrow> ctype" where
  "struct_snd_seq_event_bounce w = c_struct [
     (''err'', u32_t),
     (''event'', struct_snd_seq_event w)]"

definition struct_snd_seq_system_info :: ctype where
  "struct_snd_seq_system_info = c_struct [
     (''queues'', u32_t),
     (''clients'', u32_t),
     (''ports'', u32_t),
     (''channels'', u32_t),
     (''cur_clients'', u32_t),
     (''cur_queues'', u32_t),
     (''reserved'', Arr u8_t 24)]"

definition struct_snd_seq_running_info :: ctype where
  "struct_snd_seq_running_info = c_struct [
     (''client'', u8_t),
     (''big_endian'', u8_t),
     (''cpu_mode'', u8_t),
     (''pad'', u8_t),
     (''reserved'', Arr u8_t 12)]"

definition struct_snd_seq_client_info :: ctype where
  "struct_snd_seq_client_info = c_struct [
     (''client'', u32_t),
     (''type'', u32_t),
     (''name'', Arr u8_t 64),
     (''filter'', u32_t),
     (''multicast_filter'', Arr u8_t 8),
     (''event_filter'', Arr u8_t 32),
     (''num_ports'', u32_t),
     (''event_lost'', u32_t),
     (''card'', u32_t),
     (''pid'', u32_t),
     (''reserved'', Arr u8_t 56)]"

definition struct_snd_seq_client_pool :: ctype where
  "struct_snd_seq_client_pool = c_struct [
     (''client'', u32_t),
     (''output_pool'', u32_t),
     (''input_pool'', u32_t),
     (''output_room'', u32_t),
     (''output_free'', u32_t),
     (''input_free'', u32_t),
     (''reserved'', Arr u8_t 64)]"

definition struct_snd_seq_remove_events :: ctype where
  "struct_snd_seq_remove_events = c_struct [
     (''remove_mode'', u32_t),
     (''time'', union_snd_seq_timestamp),
     (''queue'', u8_t),
     (''dest'', struct_snd_seq_addr),
     (''channel'', u8_t),
     (''type'', u32_t),
     (''tag'', u8_t),
     (''reserved'', Arr u32_t 10)]"

definition struct_snd_seq_port_info :: "nat \<Rightarrow> ctype" where
  "struct_snd_seq_port_info w = c_struct [
     (''addr'', struct_snd_seq_addr),
     (''name'', Arr u8_t 64),
     (''capability'', u32_t),
     (''type'', u32_t),
     (''midi_channels'', u32_t),
     (''midi_voices'', u32_t),
     (''synth_voices'', u32_t),
     (''read_use'', u32_t),
     (''write_use'', u32_t),
     (''kernel'', ptr_t w),
     (''flags'', u32_t),
     (''time_queue'', u8_t),
     (''reserved'', Arr u8_t 59)]"

definition struct_snd_seq_queue_info :: ctype where
  "struct_snd_seq_queue_info = c_struct [
     (''queue'', u32_t),
     (''owner'', u32_t),
     (''locked'', u32_t),
     (''name'', Arr u8_t 64),
     (''flags'', u32_t),
     (''reserved'', Arr u8_t 60)]"

definition struct_snd_seq_queue_status :: ctype where
  "struct_snd_seq_queue_status = c_struct [
     (''queue'', u32_t),
     (''events'', u32_t),
     (''tick'', u32_t),
     (''time'', struct_snd_seq_real_time),
     (''running'', u32_t),
     (''flags'', u32_t),
     (''reserved'', Arr u8_t 64)]"

definition struct_snd_seq_queue_tempo :: ctype where
  "struct_snd_seq_queue_tempo = c_struct [
     (''queue'', u32_t),
     (''tempo'', u32_t),
     (''ppq'', u32_t),
     (''skew_value'', u32_t),
     (''skew_base'', u32_t),
     (''reserved'', Arr u8_t 24)]"

definition struct_snd_seq_queue_timer :: ctype where
  "struct_snd_seq_queue_timer = c_struct [
     (''queue'', u32_t),
     (''type'', u32_t),
     (''u'', c_union [ (''alsa'', c_struct [ (''id'', struct_snd_timer_id), (''resolution'', u32_t)])]),
     (''reserved'', Arr u8_t 64)]"

definition struct_snd_seq_queue_client :: ctype where
  "struct_snd_seq_queue_client = c_struct [
     (''queue'', u32_t),
     (''client'', u32_t),
     (''used'', u32_t),
     (''reserved'', Arr u8_t 64)]"

definition struct_snd_seq_port_subscribe :: ctype where
  "struct_snd_seq_port_subscribe = c_struct [
     (''sender'', struct_snd_seq_addr),
     (''dest'', struct_snd_seq_addr),
     (''voices'', u32_t),
     (''flags'', u32_t),
     (''queue'', u8_t),
     (''pad'', Arr u8_t 3),
     (''reserved'', Arr u8_t 64)]"

definition struct_snd_seq_query_subs :: ctype where
  "struct_snd_seq_query_subs = c_struct [
     (''root'', struct_snd_seq_addr),
     (''type'', u32_t),
     (''index'', u32_t),
     (''num_subs'', u32_t),
     (''addr'', struct_snd_seq_addr),
     (''queue'', u8_t),
     (''flags'', u32_t),
     (''reserved'', Arr u8_t 64)]"

section \<open>Compressed streams: \<^verbatim>\<open>compress_params.h\<close>, \<^verbatim>\<open>compress_offload.h\<close>\<close>

definition struct_snd_enc_wma :: ctype where
  "struct_snd_enc_wma = c_struct [
     (''super_block_align'', u32_t)]"

definition struct_snd_enc_vorbis :: ctype where
  "struct_snd_enc_vorbis = Aligned 4 (c_packed [
     (''quality'', u32_t),
     (''managed'', u32_t),
     (''max_bit_rate'', u32_t),
     (''min_bit_rate'', u32_t),
     (''downmix'', u32_t)])"

definition struct_snd_enc_real :: ctype where
  "struct_snd_enc_real = Aligned 4 (c_packed [
     (''quant_bits'', u32_t),
     (''start_region'', u32_t),
     (''num_regions'', u32_t)])"

definition struct_snd_enc_flac :: ctype where
  "struct_snd_enc_flac = Aligned 4 (c_packed [
     (''num'', u32_t),
     (''gain'', u32_t)])"

definition struct_snd_enc_generic :: ctype where
  "struct_snd_enc_generic = Aligned 4 (c_packed [
     (''bw'', u32_t),
     (''reserved'', Arr u32_t 15)])"

definition struct_snd_dec_flac :: ctype where
  "struct_snd_dec_flac = Aligned 4 (c_packed [
     (''sample_size'', u16_t),
     (''min_blk_size'', u16_t),
     (''max_blk_size'', u16_t),
     (''min_frame_size'', u16_t),
     (''max_frame_size'', u16_t),
     (''reserved'', u16_t)])"

definition struct_snd_dec_wma :: ctype where
  "struct_snd_dec_wma = Aligned 4 (c_packed [
     (''encoder_option'', u32_t),
     (''adv_encoder_option'', u32_t),
     (''adv_encoder_option2'', u32_t),
     (''reserved'', u32_t)])"

definition struct_snd_dec_alac :: ctype where
  "struct_snd_dec_alac = Aligned 4 (c_packed [
     (''frame_length'', u32_t),
     (''compatible_version'', u8_t),
     (''pb'', u8_t),
     (''mb'', u8_t),
     (''kb'', u8_t),
     (''max_run'', u32_t),
     (''max_frame_bytes'', u32_t)])"

definition struct_snd_dec_ape :: ctype where
  "struct_snd_dec_ape = Aligned 4 (c_packed [
     (''compatible_version'', u16_t),
     (''compression_level'', u16_t),
     (''format_flags'', u32_t),
     (''blocks_per_frame'', u32_t),
     (''final_frame_blocks'', u32_t),
     (''total_frames'', u32_t),
     (''seek_table_present'', u32_t)])"

definition union_snd_codec_options :: ctype where
  "union_snd_codec_options = Packed [Aligned 4 (c_union [
     (''wma'', struct_snd_enc_wma),
     (''vorbis'', struct_snd_enc_vorbis),
     (''real'', struct_snd_enc_real),
     (''flac'', struct_snd_enc_flac),
     (''generic'', struct_snd_enc_generic),
     (''flac_d'', struct_snd_dec_flac),
     (''wma_d'', struct_snd_dec_wma),
     (''alac_d'', struct_snd_dec_alac),
     (''ape_d'', struct_snd_dec_ape)])]"

definition struct_snd_codec_desc :: ctype where
  "struct_snd_codec_desc = Aligned 4 (c_packed [
     (''max_ch'', u32_t),
     (''sample_rates'', Arr u32_t 32),
     (''num_sample_rates'', u32_t),
     (''bit_rate'', Arr u32_t 32),
     (''num_bitrates'', u32_t),
     (''rate_control'', u32_t),
     (''profiles'', u32_t),
     (''modes'', u32_t),
     (''formats'', u32_t),
     (''min_buffer'', u32_t),
     (''reserved'', Arr u32_t 15)])"

definition struct_snd_codec :: ctype where
  "struct_snd_codec = Aligned 4 (c_packed [
     (''id'', u32_t),
     (''ch_in'', u32_t),
     (''ch_out'', u32_t),
     (''sample_rate'', u32_t),
     (''bit_rate'', u32_t),
     (''rate_control'', u32_t),
     (''profile'', u32_t),
     (''level'', u32_t),
     (''ch_mode'', u32_t),
     (''format'', u32_t),
     (''align'', u32_t),
     (''options'', union_snd_codec_options),
     (''reserved'', Arr u32_t 3)])"

definition struct_snd_compressed_buffer :: ctype where
  "struct_snd_compressed_buffer = Aligned 4 (c_packed [
     (''fragment_size'', u32_t),
     (''fragments'', u32_t)])"

definition struct_snd_compr_params :: ctype where
  "struct_snd_compr_params = Aligned 4 (c_packed [
     (''buffer'', struct_snd_compressed_buffer),
     (''codec'', struct_snd_codec),
     (''no_wake_mode'', u8_t)])"

definition struct_snd_compr_tstamp :: ctype where
  "struct_snd_compr_tstamp = Aligned 4 (c_packed [
     (''byte_offset'', u32_t),
     (''copied_total'', u32_t),
     (''pcm_frames'', u32_t),
     (''pcm_io_frames'', u32_t),
     (''sampling_rate'', u32_t)])"

definition struct_snd_compr_avail :: ctype where
  "struct_snd_compr_avail = Aligned 4 (c_packed [
     (''avail'', u64_t),
     (''tstamp'', struct_snd_compr_tstamp)])"

definition struct_snd_compr_caps :: ctype where
  "struct_snd_compr_caps = Aligned 4 (c_packed [
     (''num_codecs'', u32_t),
     (''direction'', u32_t),
     (''min_fragment_size'', u32_t),
     (''max_fragment_size'', u32_t),
     (''min_fragments'', u32_t),
     (''max_fragments'', u32_t),
     (''codecs'', Arr u32_t 32),
     (''reserved'', Arr u32_t 11)])"

definition struct_snd_compr_codec_caps :: ctype where
  "struct_snd_compr_codec_caps = Aligned 4 (c_packed [
     (''codec'', u32_t),
     (''num_descriptors'', u32_t),
     (''descriptor'', Arr struct_snd_codec_desc 32)])"

definition struct_snd_compr_metadata :: ctype where
  "struct_snd_compr_metadata = Aligned 4 (c_packed [
     (''key'', u32_t),
     (''value'', Arr u32_t 8)])"

section \<open>Topology files: \<^verbatim>\<open>asoc.h\<close>\<close>

definition struct_snd_soc_tplg_hdr :: ctype where
  "struct_snd_soc_tplg_hdr = c_packed [
     (''magic'', u32_t),
     (''abi'', u32_t),
     (''version'', u32_t),
     (''type'', u32_t),
     (''size'', u32_t),
     (''vendor_type'', u32_t),
     (''payload_size'', u32_t),
     (''index'', u32_t),
     (''count'', u32_t)]"

definition struct_snd_soc_tplg_vendor_uuid_elem :: ctype where
  "struct_snd_soc_tplg_vendor_uuid_elem = c_packed [
     (''token'', u32_t),
     (''uuid'', Arr u8_t 16)]"

definition struct_snd_soc_tplg_vendor_value_elem :: ctype where
  "struct_snd_soc_tplg_vendor_value_elem = c_packed [
     (''token'', u32_t),
     (''value'', u32_t)]"

definition struct_snd_soc_tplg_vendor_string_elem :: ctype where
  "struct_snd_soc_tplg_vendor_string_elem = c_packed [
     (''token'', u32_t),
     (''string'', Arr u8_t 44)]"

definition struct_snd_soc_tplg_vendor_array :: ctype where
  "struct_snd_soc_tplg_vendor_array = c_packed [
     (''size'', u32_t),
     (''type'', u32_t),
     (''num_elems'', u32_t),
     ('''', c_union [ (''uuid'', Arr struct_snd_soc_tplg_vendor_uuid_elem 0), (''value'', Arr struct_snd_soc_tplg_vendor_value_elem 0), (''string'', Arr struct_snd_soc_tplg_vendor_string_elem 0)])]"

definition struct_snd_soc_tplg_private :: ctype where
  "struct_snd_soc_tplg_private = c_packed [
     (''size'', u32_t),
     ('''', c_union [ (''data'', Arr u8_t 0), (''array'', Arr struct_snd_soc_tplg_vendor_array 0)])]"

definition struct_snd_soc_tplg_tlv_dbscale :: ctype where
  "struct_snd_soc_tplg_tlv_dbscale = c_packed [
     (''min'', u32_t),
     (''step'', u32_t),
     (''mute'', u32_t)]"

definition struct_snd_soc_tplg_ctl_tlv :: ctype where
  "struct_snd_soc_tplg_ctl_tlv = c_packed [
     (''size'', u32_t),
     (''type'', u32_t),
     ('''', c_union [ (''data'', Arr u32_t 32), (''scale'', struct_snd_soc_tplg_tlv_dbscale)])]"

definition struct_snd_soc_tplg_channel :: ctype where
  "struct_snd_soc_tplg_channel = c_packed [
     (''size'', u32_t),
     (''reg'', u32_t),
     (''shift'', u32_t),
     (''id'', u32_t)]"

definition struct_snd_soc_tplg_io_ops :: ctype where
  "struct_snd_soc_tplg_io_ops = c_packed [
     (''get'', u32_t),
     (''put'', u32_t),
     (''info'', u32_t)]"

definition struct_snd_soc_tplg_ctl_hdr :: ctype where
  "struct_snd_soc_tplg_ctl_hdr = c_packed [
     (''size'', u32_t),
     (''type'', u32_t),
     (''name'', Arr u8_t 44),
     (''access'', u32_t),
     (''ops'', struct_snd_soc_tplg_io_ops),
     (''tlv'', struct_snd_soc_tplg_ctl_tlv)]"

definition struct_snd_soc_tplg_stream_caps :: ctype where
  "struct_snd_soc_tplg_stream_caps = c_packed [
     (''size'', u32_t),
     (''name'', Arr u8_t 44),
     (''formats'', u64_t),
     (''rates'', u32_t),
     (''rate_min'', u32_t),
     (''rate_max'', u32_t),
     (''channels_min'', u32_t),
     (''channels_max'', u32_t),
     (''periods_min'', u32_t),
     (''periods_max'', u32_t),
     (''period_size_min'', u32_t),
     (''period_size_max'', u32_t),
     (''buffer_size_min'', u32_t),
     (''buffer_size_max'', u32_t),
     (''sig_bits'', u32_t)]"

definition struct_snd_soc_tplg_stream :: ctype where
  "struct_snd_soc_tplg_stream = c_packed [
     (''size'', u32_t),
     (''name'', Arr u8_t 44),
     (''format'', u64_t),
     (''rate'', u32_t),
     (''period_bytes'', u32_t),
     (''buffer_bytes'', u32_t),
     (''channels'', u32_t)]"

definition struct_snd_soc_tplg_hw_config :: ctype where
  "struct_snd_soc_tplg_hw_config = c_packed [
     (''size'', u32_t),
     (''id'', u32_t),
     (''fmt'', u32_t),
     (''clock_gated'', u8_t),
     (''invert_bclk'', u8_t),
     (''invert_fsync'', u8_t),
     (''bclk_provider'', u8_t),
     (''fsync_provider'', u8_t),
     (''mclk_direction'', u8_t),
     (''reserved'', u16_t),
     (''mclk_rate'', u32_t),
     (''bclk_rate'', u32_t),
     (''fsync_rate'', u32_t),
     (''tdm_slots'', u32_t),
     (''tdm_slot_width'', u32_t),
     (''tx_slots'', u32_t),
     (''rx_slots'', u32_t),
     (''tx_channels'', u32_t),
     (''tx_chanmap'', Arr u32_t 8),
     (''rx_channels'', u32_t),
     (''rx_chanmap'', Arr u32_t 8)]"

definition struct_snd_soc_tplg_manifest :: ctype where
  "struct_snd_soc_tplg_manifest = c_packed [
     (''size'', u32_t),
     (''control_elems'', u32_t),
     (''widget_elems'', u32_t),
     (''graph_elems'', u32_t),
     (''pcm_elems'', u32_t),
     (''dai_link_elems'', u32_t),
     (''dai_elems'', u32_t),
     (''reserved'', Arr u32_t 20),
     (''priv'', struct_snd_soc_tplg_private)]"

definition struct_snd_soc_tplg_mixer_control :: ctype where
  "struct_snd_soc_tplg_mixer_control = c_packed [
     (''hdr'', struct_snd_soc_tplg_ctl_hdr),
     (''size'', u32_t),
     (''min'', u32_t),
     (''max'', u32_t),
     (''platform_max'', u32_t),
     (''invert'', u32_t),
     (''num_channels'', u32_t),
     (''channel'', Arr struct_snd_soc_tplg_channel 8),
     (''priv'', struct_snd_soc_tplg_private)]"

definition struct_snd_soc_tplg_enum_control :: ctype where
  "struct_snd_soc_tplg_enum_control = c_packed [
     (''hdr'', struct_snd_soc_tplg_ctl_hdr),
     (''size'', u32_t),
     (''num_channels'', u32_t),
     (''channel'', Arr struct_snd_soc_tplg_channel 8),
     (''items'', u32_t),
     (''mask'', u32_t),
     (''count'', u32_t),
     (''texts'', Arr (Arr u8_t 44) 16),
     (''values'', Arr u32_t 176),
     (''priv'', struct_snd_soc_tplg_private)]"

definition struct_snd_soc_tplg_bytes_control :: ctype where
  "struct_snd_soc_tplg_bytes_control = c_packed [
     (''hdr'', struct_snd_soc_tplg_ctl_hdr),
     (''size'', u32_t),
     (''max'', u32_t),
     (''mask'', u32_t),
     (''base'', u32_t),
     (''num_regs'', u32_t),
     (''ext_ops'', struct_snd_soc_tplg_io_ops),
     (''priv'', struct_snd_soc_tplg_private)]"

definition struct_snd_soc_tplg_dapm_graph_elem :: ctype where
  "struct_snd_soc_tplg_dapm_graph_elem = c_packed [
     (''sink'', Arr u8_t 44),
     (''control'', Arr u8_t 44),
     (''source'', Arr u8_t 44)]"

definition struct_snd_soc_tplg_dapm_widget :: ctype where
  "struct_snd_soc_tplg_dapm_widget = c_packed [
     (''size'', u32_t),
     (''id'', u32_t),
     (''name'', Arr u8_t 44),
     (''sname'', Arr u8_t 44),
     (''reg'', u32_t),
     (''shift'', u32_t),
     (''mask'', u32_t),
     (''subseq'', u32_t),
     (''invert'', u32_t),
     (''ignore_suspend'', u32_t),
     (''event_flags'', u16_t),
     (''event_type'', u16_t),
     (''num_kcontrols'', u32_t),
     (''priv'', struct_snd_soc_tplg_private)]"

definition struct_snd_soc_tplg_pcm :: ctype where
  "struct_snd_soc_tplg_pcm = c_packed [
     (''size'', u32_t),
     (''pcm_name'', Arr u8_t 44),
     (''dai_name'', Arr u8_t 44),
     (''pcm_id'', u32_t),
     (''dai_id'', u32_t),
     (''playback'', u32_t),
     (''capture'', u32_t),
     (''compress'', u32_t),
     (''stream'', Arr struct_snd_soc_tplg_stream 8),
     (''num_streams'', u32_t),
     (''caps'', Arr struct_snd_soc_tplg_stream_caps 2),
     (''flag_mask'', u32_t),
     (''flags'', u32_t),
     (''priv'', struct_snd_soc_tplg_private)]"

definition struct_snd_soc_tplg_link_config :: ctype where
  "struct_snd_soc_tplg_link_config = c_packed [
     (''size'', u32_t),
     (''id'', u32_t),
     (''name'', Arr u8_t 44),
     (''stream_name'', Arr u8_t 44),
     (''stream'', Arr struct_snd_soc_tplg_stream 8),
     (''num_streams'', u32_t),
     (''hw_config'', Arr struct_snd_soc_tplg_hw_config 8),
     (''num_hw_configs'', u32_t),
     (''default_hw_config_id'', u32_t),
     (''flag_mask'', u32_t),
     (''flags'', u32_t),
     (''priv'', struct_snd_soc_tplg_private)]"

definition struct_snd_soc_tplg_dai :: ctype where
  "struct_snd_soc_tplg_dai = c_packed [
     (''size'', u32_t),
     (''dai_name'', Arr u8_t 44),
     (''dai_id'', u32_t),
     (''playback'', u32_t),
     (''capture'', u32_t),
     (''caps'', Arr struct_snd_soc_tplg_stream_caps 2),
     (''flag_mask'', u32_t),
     (''flags'', u32_t),
     (''priv'', struct_snd_soc_tplg_private)]"

definition struct_snd_soc_tplg_manifest_v4 :: ctype where
  "struct_snd_soc_tplg_manifest_v4 = c_packed [
     (''size'', u32_t),
     (''control_elems'', u32_t),
     (''widget_elems'', u32_t),
     (''graph_elems'', u32_t),
     (''pcm_elems'', u32_t),
     (''dai_link_elems'', u32_t),
     (''priv'', struct_snd_soc_tplg_private)]"

definition struct_snd_soc_tplg_stream_caps_v4 :: ctype where
  "struct_snd_soc_tplg_stream_caps_v4 = c_packed [
     (''size'', u32_t),
     (''name'', Arr u8_t 44),
     (''formats'', u64_t),
     (''rates'', u32_t),
     (''rate_min'', u32_t),
     (''rate_max'', u32_t),
     (''channels_min'', u32_t),
     (''channels_max'', u32_t),
     (''periods_min'', u32_t),
     (''periods_max'', u32_t),
     (''period_size_min'', u32_t),
     (''period_size_max'', u32_t),
     (''buffer_size_min'', u32_t),
     (''buffer_size_max'', u32_t)]"

definition struct_snd_soc_tplg_pcm_v4 :: ctype where
  "struct_snd_soc_tplg_pcm_v4 = c_packed [
     (''size'', u32_t),
     (''pcm_name'', Arr u8_t 44),
     (''dai_name'', Arr u8_t 44),
     (''pcm_id'', u32_t),
     (''dai_id'', u32_t),
     (''playback'', u32_t),
     (''capture'', u32_t),
     (''compress'', u32_t),
     (''stream'', Arr struct_snd_soc_tplg_stream 8),
     (''num_streams'', u32_t),
     (''caps'', Arr struct_snd_soc_tplg_stream_caps_v4 2)]"

definition struct_snd_soc_tplg_link_config_v4 :: ctype where
  "struct_snd_soc_tplg_link_config_v4 = c_packed [
     (''size'', u32_t),
     (''id'', u32_t),
     (''stream'', Arr struct_snd_soc_tplg_stream 8),
     (''num_streams'', u32_t)]"

section \<open>Sound fonts, FireWire units and firmware\<close>

definition struct_soundfont_patch_info :: ctype where
  "struct_soundfont_patch_info = c_struct [
     (''key'', u16_t),
     (''device_no'', u16_t),
     (''sf_id'', u16_t),
     (''optarg'', u16_t),
     (''len'', u32_t),
     (''type'', u16_t),
     (''reserved'', u16_t)]"

definition struct_soundfont_open_parm :: ctype where
  "struct_soundfont_open_parm = c_struct [
     (''type'', u16_t),
     (''reserved'', u16_t),
     (''name'', Arr u8_t 32)]"

definition struct_soundfont_voice_parm :: ctype where
  "struct_soundfont_voice_parm = c_struct [
     (''moddelay'', u16_t),
     (''modatkhld'', u16_t),
     (''moddcysus'', u16_t),
     (''modrelease'', u16_t),
     (''modkeyhold'', u16_t),
     (''modkeydecay'', u16_t),
     (''voldelay'', u16_t),
     (''volatkhld'', u16_t),
     (''voldcysus'', u16_t),
     (''volrelease'', u16_t),
     (''volkeyhold'', u16_t),
     (''volkeydecay'', u16_t),
     (''lfo1delay'', u16_t),
     (''lfo2delay'', u16_t),
     (''pefe'', u16_t),
     (''fmmod'', u16_t),
     (''tremfrq'', u16_t),
     (''fm2frq2'', u16_t),
     (''cutoff'', u8_t),
     (''filterQ'', u8_t),
     (''chorus'', u8_t),
     (''reverb'', u8_t),
     (''reserved'', Arr u16_t 4)]"

definition struct_soundfont_voice_info :: ctype where
  "struct_soundfont_voice_info = c_struct [
     (''sf_id'', u16_t),
     (''sample'', u16_t),
     (''start'', u32_t),
     (''end'', u32_t),
     (''loopstart'', u32_t),
     (''loopend'', u32_t),
     (''rate_offset'', u16_t),
     (''mode'', u16_t),
     (''root'', u16_t),
     (''tune'', u16_t),
     (''low'', u8_t),
     (''high'', u8_t),
     (''vellow'', u8_t),
     (''velhigh'', u8_t),
     (''fixkey'', u8_t),
     (''fixvel'', u8_t),
     (''pan'', u8_t),
     (''fixpan'', u8_t),
     (''exclusiveClass'', u16_t),
     (''amplitude'', u8_t),
     (''attenuation'', u8_t),
     (''scaleTuning'', u16_t),
     (''parm'', struct_soundfont_voice_parm),
     (''sample_mode'', u16_t)]"

definition struct_soundfont_voice_rec_hdr :: ctype where
  "struct_soundfont_voice_rec_hdr = c_struct [
     (''bank'', u8_t),
     (''instr'', u8_t),
     (''nvoices'', u8_t),
     (''write_mode'', u8_t)]"

definition struct_soundfont_sample_info :: ctype where
  "struct_soundfont_sample_info = c_struct [
     (''sf_id'', u16_t),
     (''sample'', u16_t),
     (''start'', u32_t),
     (''end'', u32_t),
     (''loopstart'', u32_t),
     (''loopend'', u32_t),
     (''size'', u32_t),
     (''dummy'', u16_t),
     (''mode_flags'', u16_t),
     (''truesize'', u32_t)]"

definition struct_soundfont_voice_map :: ctype where
  "struct_soundfont_voice_map = c_struct [
     (''map_bank'', u32_t),
     (''map_instr'', u32_t),
     (''map_key'', u32_t),
     (''src_bank'', u32_t),
     (''src_instr'', u32_t),
     (''src_key'', u32_t)]"

definition struct_snd_emux_misc_mode :: ctype where
  "struct_snd_emux_misc_mode = c_struct [
     (''port'', u32_t),
     (''mode'', u32_t),
     (''value'', u32_t),
     (''value2'', u32_t)]"

definition struct_snd_firewire_event_common :: ctype where
  "struct_snd_firewire_event_common = c_struct [
     (''type'', u32_t)]"

definition struct_snd_firewire_event_lock_status :: ctype where
  "struct_snd_firewire_event_lock_status = c_struct [
     (''type'', u32_t),
     (''status'', u32_t)]"

definition struct_snd_firewire_event_dice_notification :: ctype where
  "struct_snd_firewire_event_dice_notification = c_struct [
     (''type'', u32_t),
     (''notification'', u32_t)]"

definition struct_snd_efw_transaction :: ctype where
  "struct_snd_efw_transaction = c_struct [
     (''length'', u32_t),
     (''version'', u32_t),
     (''seqnum'', u32_t),
     (''category'', u32_t),
     (''command'', u32_t),
     (''status'', u32_t),
     (''params'', Arr u32_t 0)]"

definition struct_snd_firewire_event_efw_response :: ctype where
  "struct_snd_firewire_event_efw_response = c_struct [
     (''type'', u32_t),
     (''response'', Arr u32_t 0)]"

definition struct_snd_firewire_event_digi00x_message :: ctype where
  "struct_snd_firewire_event_digi00x_message = c_struct [
     (''type'', u32_t),
     (''message'', u32_t)]"

definition struct_snd_firewire_event_motu_notification :: ctype where
  "struct_snd_firewire_event_motu_notification = c_struct [
     (''type'', u32_t),
     (''message'', u32_t)]"

definition struct_snd_firewire_tascam_change :: ctype where
  "struct_snd_firewire_tascam_change = c_struct [
     (''index'', u32_t),
     (''before'', u32_t),
     (''after'', u32_t)]"

definition struct_snd_firewire_event_tascam_control :: ctype where
  "struct_snd_firewire_event_tascam_control = c_struct [
     (''type'', u32_t),
     (''changes'', Arr struct_snd_firewire_tascam_change 0)]"

definition union_snd_firewire_event :: ctype where
  "union_snd_firewire_event = c_union [
     (''common'', struct_snd_firewire_event_common),
     (''lock_status'', struct_snd_firewire_event_lock_status),
     (''dice_notification'', struct_snd_firewire_event_dice_notification),
     (''efw_response'', struct_snd_firewire_event_efw_response),
     (''digi00x_message'', struct_snd_firewire_event_digi00x_message),
     (''tascam_control'', struct_snd_firewire_event_tascam_control),
     (''motu_notification'', struct_snd_firewire_event_motu_notification)]"

definition struct_snd_firewire_get_info :: ctype where
  "struct_snd_firewire_get_info = c_struct [
     (''type'', u32_t),
     (''card'', u32_t),
     (''guid'', Arr u8_t 8),
     (''device_name'', Arr u8_t 16)]"

definition struct_snd_firewire_tascam_state :: ctype where
  "struct_snd_firewire_tascam_state = c_struct [
     (''data'', Arr u32_t 64)]"

definition struct_skl_dfw_algo_data :: ctype where
  "struct_skl_dfw_algo_data = c_packed [
     (''set_params'', u32_t),
     (''param_id'', u32_t),
     (''max'', u32_t),
     (''params'', Arr u8_t 0)]"

definition struct_skl_dfw_v4_module_pin :: ctype where
  "struct_skl_dfw_v4_module_pin = c_packed [
     (''module_id'', u16_t),
     (''instance_id'', u16_t)]"

definition struct_skl_dfw_v4_module_fmt :: ctype where
  "struct_skl_dfw_v4_module_fmt = c_packed [
     (''channels'', u32_t),
     (''freq'', u32_t),
     (''bit_depth'', u32_t),
     (''valid_bit_depth'', u32_t),
     (''ch_cfg'', u32_t),
     (''interleaving_style'', u32_t),
     (''sample_type'', u32_t),
     (''ch_map'', u32_t)]"

definition struct_skl_dfw_v4_module_caps :: ctype where
  "struct_skl_dfw_v4_module_caps = c_packed [
     (''set_params'', u32_t),
     (''param_id'', u32_t),
     (''caps_size'', u32_t),
     (''caps'', Arr u32_t 900)]"

definition struct_skl_dfw_v4_pipe :: ctype where
  "struct_skl_dfw_v4_pipe = c_packed [
     (''pipe_id'', u8_t),
     (''pipe_priority'', u8_t),
     (''conn_type'', u16_t)]"

definition struct_skl_dfw_v4_module :: ctype where
  "struct_skl_dfw_v4_module = c_packed [
     (''uuid'', Arr u8_t 40),
     (''module_id'', u16_t),
     (''instance_id'', u16_t),
     (''max_mcps'', u32_t),
     (''mem_pages'', u32_t),
     (''obs'', u32_t),
     (''ibs'', u32_t),
     (''vbus_id'', u32_t),
     (''max_in_queue'', u32_t),
     (''module_type'', u32_t),
     (''params_fixup'', u32_t),
     (''pipe'', struct_skl_dfw_v4_pipe),
     (''in_fmt'', Arr struct_skl_dfw_v4_module_fmt 8),
     (''out_fmt'', Arr struct_skl_dfw_v4_module_fmt 8),
     (''in_pin'', Arr struct_skl_dfw_v4_module_pin 8),
     (''out_pin'', Arr struct_skl_dfw_v4_module_pin 8),
     (''caps'', struct_skl_dfw_v4_module_caps)]"

definition struct_snd_sof_blk_hdr :: ctype where
  "struct_snd_sof_blk_hdr = c_packed [
     (''type'', u32_t),
     (''size'', u32_t),
     (''offset'', u32_t)]"

definition struct_snd_sof_mod_hdr :: ctype where
  "struct_snd_sof_mod_hdr = c_packed [
     (''type'', u32_t),
     (''size'', u32_t),
     (''num_blocks'', u32_t)]"

definition struct_snd_sof_fw_header :: ctype where
  "struct_snd_sof_fw_header = c_packed [
     (''sig'', Arr u8_t 4),
     (''file_size'', u32_t),
     (''num_modules'', u32_t),
     (''abi'', u32_t)]"

definition struct_sof_abi_hdr :: ctype where
  "struct_sof_abi_hdr = c_packed [
     (''magic'', u32_t),
     (''type'', u32_t),
     (''size'', u32_t),
     (''abi'', u32_t),
     (''reserved'', Arr u32_t 4),
     (''data'', Arr u32_t 0)]"


section \<open>Requests\<close>

text \<open>The two forms of \<^verbatim>\<open>SNDRV_PCM_IOCTL_SYNC_PTR\<close>, which share their number; the size of the argument tells them apart.\<close>

definition SNDRV_PCM_IOCTL_SYNC_PTR_OLD :: "ctype \<Rightarrow> nat \<Rightarrow> request" where
  "SNDRV_PCM_IOCTL_SYNC_PTR_OLD ts w = IOWR_req 0x41 0x23 (struct_snd_pcm_sync_ptr ts w)"

definition SNDRV_PCM_IOCTL_SYNC_PTR64 :: "endian \<Rightarrow> ctype \<Rightarrow> nat \<Rightarrow> request" where
  "SNDRV_PCM_IOCTL_SYNC_PTR64 e ts w = IOWR_req 0x41 0x23 (struct_snd_pcm_sync_ptr64 e ts w)"

definition SNDRV_HWDEP_IOCTL_PVERSION :: request where
  "SNDRV_HWDEP_IOCTL_PVERSION = IOR_req 0x48 0 u32_t"

definition SNDRV_HWDEP_IOCTL_INFO :: request where
  "SNDRV_HWDEP_IOCTL_INFO = IOR_req 0x48 1 struct_snd_hwdep_info"

definition SNDRV_HWDEP_IOCTL_DSP_STATUS :: request where
  "SNDRV_HWDEP_IOCTL_DSP_STATUS = IOR_req 0x48 2 struct_snd_hwdep_dsp_status"

definition SNDRV_HWDEP_IOCTL_DSP_LOAD :: "nat \<Rightarrow> request" where
  "SNDRV_HWDEP_IOCTL_DSP_LOAD w = IOW_req 0x48 3 (struct_snd_hwdep_dsp_image w)"

definition SNDRV_PCM_IOCTL_PVERSION :: request where
  "SNDRV_PCM_IOCTL_PVERSION = IOR_req 0x41 0 u32_t"

definition SNDRV_PCM_IOCTL_INFO :: request where
  "SNDRV_PCM_IOCTL_INFO = IOR_req 0x41 1 struct_snd_pcm_info"

definition SNDRV_PCM_IOCTL_TSTAMP :: request where
  "SNDRV_PCM_IOCTL_TSTAMP = IOW_req 0x41 2 u32_t"

definition SNDRV_PCM_IOCTL_TTSTAMP :: request where
  "SNDRV_PCM_IOCTL_TTSTAMP = IOW_req 0x41 3 u32_t"

definition SNDRV_PCM_IOCTL_USER_PVERSION :: request where
  "SNDRV_PCM_IOCTL_USER_PVERSION = IOW_req 0x41 4 u32_t"

definition SNDRV_PCM_IOCTL_HW_REFINE :: "nat \<Rightarrow> request" where
  "SNDRV_PCM_IOCTL_HW_REFINE w = IOWR_req 0x41 16 (struct_snd_pcm_hw_params w)"

definition SNDRV_PCM_IOCTL_HW_PARAMS :: "nat \<Rightarrow> request" where
  "SNDRV_PCM_IOCTL_HW_PARAMS w = IOWR_req 0x41 17 (struct_snd_pcm_hw_params w)"

definition SNDRV_PCM_IOCTL_HW_FREE :: request where
  "SNDRV_PCM_IOCTL_HW_FREE = IO_req 0x41 18"

definition SNDRV_PCM_IOCTL_SW_PARAMS :: "nat \<Rightarrow> request" where
  "SNDRV_PCM_IOCTL_SW_PARAMS w = IOWR_req 0x41 19 (struct_snd_pcm_sw_params w)"

definition SNDRV_PCM_IOCTL_DELAY :: "nat \<Rightarrow> request" where
  "SNDRV_PCM_IOCTL_DELAY w = IOR_req 0x41 33 (long_t w)"

definition SNDRV_PCM_IOCTL_HWSYNC :: request where
  "SNDRV_PCM_IOCTL_HWSYNC = IO_req 0x41 34"

definition SNDRV_PCM_IOCTL_CHANNEL_INFO :: "nat \<Rightarrow> request" where
  "SNDRV_PCM_IOCTL_CHANNEL_INFO w = IOR_req 0x41 50 (struct_snd_pcm_channel_info w)"

definition SNDRV_PCM_IOCTL_PREPARE :: request where
  "SNDRV_PCM_IOCTL_PREPARE = IO_req 0x41 64"

definition SNDRV_PCM_IOCTL_RESET :: request where
  "SNDRV_PCM_IOCTL_RESET = IO_req 0x41 65"

definition SNDRV_PCM_IOCTL_START :: request where
  "SNDRV_PCM_IOCTL_START = IO_req 0x41 66"

definition SNDRV_PCM_IOCTL_DROP :: request where
  "SNDRV_PCM_IOCTL_DROP = IO_req 0x41 67"

definition SNDRV_PCM_IOCTL_DRAIN :: request where
  "SNDRV_PCM_IOCTL_DRAIN = IO_req 0x41 68"

definition SNDRV_PCM_IOCTL_PAUSE :: request where
  "SNDRV_PCM_IOCTL_PAUSE = IOW_req 0x41 69 u32_t"

definition SNDRV_PCM_IOCTL_REWIND :: "nat \<Rightarrow> request" where
  "SNDRV_PCM_IOCTL_REWIND w = IOW_req 0x41 70 (long_t w)"

definition SNDRV_PCM_IOCTL_RESUME :: request where
  "SNDRV_PCM_IOCTL_RESUME = IO_req 0x41 71"

definition SNDRV_PCM_IOCTL_XRUN :: request where
  "SNDRV_PCM_IOCTL_XRUN = IO_req 0x41 72"

definition SNDRV_PCM_IOCTL_FORWARD :: "nat \<Rightarrow> request" where
  "SNDRV_PCM_IOCTL_FORWARD w = IOW_req 0x41 73 (long_t w)"

definition SNDRV_PCM_IOCTL_WRITEI_FRAMES :: "nat \<Rightarrow> request" where
  "SNDRV_PCM_IOCTL_WRITEI_FRAMES w = IOW_req 0x41 80 (struct_snd_xferi w)"

definition SNDRV_PCM_IOCTL_READI_FRAMES :: "nat \<Rightarrow> request" where
  "SNDRV_PCM_IOCTL_READI_FRAMES w = IOR_req 0x41 81 (struct_snd_xferi w)"

definition SNDRV_PCM_IOCTL_WRITEN_FRAMES :: "nat \<Rightarrow> request" where
  "SNDRV_PCM_IOCTL_WRITEN_FRAMES w = IOW_req 0x41 82 (struct_snd_xfern w)"

definition SNDRV_PCM_IOCTL_READN_FRAMES :: "nat \<Rightarrow> request" where
  "SNDRV_PCM_IOCTL_READN_FRAMES w = IOR_req 0x41 83 (struct_snd_xfern w)"

definition SNDRV_PCM_IOCTL_LINK :: request where
  "SNDRV_PCM_IOCTL_LINK = IOW_req 0x41 96 u32_t"

definition SNDRV_PCM_IOCTL_UNLINK :: request where
  "SNDRV_PCM_IOCTL_UNLINK = IO_req 0x41 97"

definition SNDRV_RAWMIDI_IOCTL_PVERSION :: request where
  "SNDRV_RAWMIDI_IOCTL_PVERSION = IOR_req 0x57 0 u32_t"

definition SNDRV_RAWMIDI_IOCTL_INFO :: request where
  "SNDRV_RAWMIDI_IOCTL_INFO = IOR_req 0x57 1 struct_snd_rawmidi_info"

definition SNDRV_RAWMIDI_IOCTL_USER_PVERSION :: request where
  "SNDRV_RAWMIDI_IOCTL_USER_PVERSION = IOW_req 0x57 2 u32_t"

definition SNDRV_RAWMIDI_IOCTL_PARAMS :: "nat \<Rightarrow> request" where
  "SNDRV_RAWMIDI_IOCTL_PARAMS w = IOWR_req 0x57 16 (struct_snd_rawmidi_params w)"

definition SNDRV_RAWMIDI_IOCTL_DROP :: request where
  "SNDRV_RAWMIDI_IOCTL_DROP = IOW_req 0x57 48 u32_t"

definition SNDRV_RAWMIDI_IOCTL_DRAIN :: request where
  "SNDRV_RAWMIDI_IOCTL_DRAIN = IOW_req 0x57 49 u32_t"

definition SNDRV_TIMER_IOCTL_PVERSION :: request where
  "SNDRV_TIMER_IOCTL_PVERSION = IOR_req 0x54 0 u32_t"

definition SNDRV_TIMER_IOCTL_NEXT_DEVICE :: request where
  "SNDRV_TIMER_IOCTL_NEXT_DEVICE = IOWR_req 0x54 1 struct_snd_timer_id"

definition SNDRV_TIMER_IOCTL_TREAD_OLD :: request where
  "SNDRV_TIMER_IOCTL_TREAD_OLD = IOW_req 0x54 2 u32_t"

definition SNDRV_TIMER_IOCTL_GINFO :: "nat \<Rightarrow> request" where
  "SNDRV_TIMER_IOCTL_GINFO w = IOWR_req 0x54 3 (struct_snd_timer_ginfo w)"

definition SNDRV_TIMER_IOCTL_GPARAMS :: "nat \<Rightarrow> request" where
  "SNDRV_TIMER_IOCTL_GPARAMS w = IOW_req 0x54 4 (struct_snd_timer_gparams w)"

definition SNDRV_TIMER_IOCTL_GSTATUS :: "nat \<Rightarrow> request" where
  "SNDRV_TIMER_IOCTL_GSTATUS w = IOWR_req 0x54 5 (struct_snd_timer_gstatus w)"

definition SNDRV_TIMER_IOCTL_SELECT :: request where
  "SNDRV_TIMER_IOCTL_SELECT = IOW_req 0x54 16 struct_snd_timer_select"

definition SNDRV_TIMER_IOCTL_INFO :: "nat \<Rightarrow> request" where
  "SNDRV_TIMER_IOCTL_INFO w = IOR_req 0x54 17 (struct_snd_timer_info w)"

definition SNDRV_TIMER_IOCTL_PARAMS :: request where
  "SNDRV_TIMER_IOCTL_PARAMS = IOW_req 0x54 18 struct_snd_timer_params"

definition SNDRV_TIMER_IOCTL_START :: request where
  "SNDRV_TIMER_IOCTL_START = IO_req 0x54 160"

definition SNDRV_TIMER_IOCTL_STOP :: request where
  "SNDRV_TIMER_IOCTL_STOP = IO_req 0x54 161"

definition SNDRV_TIMER_IOCTL_CONTINUE :: request where
  "SNDRV_TIMER_IOCTL_CONTINUE = IO_req 0x54 162"

definition SNDRV_TIMER_IOCTL_PAUSE :: request where
  "SNDRV_TIMER_IOCTL_PAUSE = IO_req 0x54 163"

definition SNDRV_TIMER_IOCTL_TREAD64 :: request where
  "SNDRV_TIMER_IOCTL_TREAD64 = IOW_req 0x54 164 u32_t"

definition SNDRV_CTL_IOCTL_PVERSION :: request where
  "SNDRV_CTL_IOCTL_PVERSION = IOR_req 0x55 0 u32_t"

definition SNDRV_CTL_IOCTL_CARD_INFO :: request where
  "SNDRV_CTL_IOCTL_CARD_INFO = IOR_req 0x55 1 struct_snd_ctl_card_info"

definition SNDRV_CTL_IOCTL_ELEM_LIST :: "nat \<Rightarrow> request" where
  "SNDRV_CTL_IOCTL_ELEM_LIST w = IOWR_req 0x55 16 (struct_snd_ctl_elem_list w)"

definition SNDRV_CTL_IOCTL_ELEM_INFO :: "nat \<Rightarrow> request" where
  "SNDRV_CTL_IOCTL_ELEM_INFO w = IOWR_req 0x55 17 (struct_snd_ctl_elem_info w)"

definition SNDRV_CTL_IOCTL_ELEM_READ :: "nat \<Rightarrow> request" where
  "SNDRV_CTL_IOCTL_ELEM_READ w = IOWR_req 0x55 18 (struct_snd_ctl_elem_value w)"

definition SNDRV_CTL_IOCTL_ELEM_WRITE :: "nat \<Rightarrow> request" where
  "SNDRV_CTL_IOCTL_ELEM_WRITE w = IOWR_req 0x55 19 (struct_snd_ctl_elem_value w)"

definition SNDRV_CTL_IOCTL_ELEM_LOCK :: request where
  "SNDRV_CTL_IOCTL_ELEM_LOCK = IOW_req 0x55 20 struct_snd_ctl_elem_id"

definition SNDRV_CTL_IOCTL_ELEM_UNLOCK :: request where
  "SNDRV_CTL_IOCTL_ELEM_UNLOCK = IOW_req 0x55 21 struct_snd_ctl_elem_id"

definition SNDRV_CTL_IOCTL_SUBSCRIBE_EVENTS :: request where
  "SNDRV_CTL_IOCTL_SUBSCRIBE_EVENTS = IOWR_req 0x55 22 u32_t"

definition SNDRV_CTL_IOCTL_ELEM_ADD :: "nat \<Rightarrow> request" where
  "SNDRV_CTL_IOCTL_ELEM_ADD w = IOWR_req 0x55 23 (struct_snd_ctl_elem_info w)"

definition SNDRV_CTL_IOCTL_ELEM_REPLACE :: "nat \<Rightarrow> request" where
  "SNDRV_CTL_IOCTL_ELEM_REPLACE w = IOWR_req 0x55 24 (struct_snd_ctl_elem_info w)"

definition SNDRV_CTL_IOCTL_ELEM_REMOVE :: request where
  "SNDRV_CTL_IOCTL_ELEM_REMOVE = IOWR_req 0x55 25 struct_snd_ctl_elem_id"

definition SNDRV_CTL_IOCTL_TLV_READ :: request where
  "SNDRV_CTL_IOCTL_TLV_READ = IOWR_req 0x55 26 struct_snd_ctl_tlv"

definition SNDRV_CTL_IOCTL_TLV_WRITE :: request where
  "SNDRV_CTL_IOCTL_TLV_WRITE = IOWR_req 0x55 27 struct_snd_ctl_tlv"

definition SNDRV_CTL_IOCTL_TLV_COMMAND :: request where
  "SNDRV_CTL_IOCTL_TLV_COMMAND = IOWR_req 0x55 28 struct_snd_ctl_tlv"

definition SNDRV_CTL_IOCTL_HWDEP_NEXT_DEVICE :: request where
  "SNDRV_CTL_IOCTL_HWDEP_NEXT_DEVICE = IOWR_req 0x55 32 u32_t"

definition SNDRV_CTL_IOCTL_HWDEP_INFO :: request where
  "SNDRV_CTL_IOCTL_HWDEP_INFO = IOR_req 0x55 33 struct_snd_hwdep_info"

definition SNDRV_CTL_IOCTL_PCM_NEXT_DEVICE :: request where
  "SNDRV_CTL_IOCTL_PCM_NEXT_DEVICE = IOR_req 0x55 48 u32_t"

definition SNDRV_CTL_IOCTL_PCM_INFO :: request where
  "SNDRV_CTL_IOCTL_PCM_INFO = IOWR_req 0x55 49 struct_snd_pcm_info"

definition SNDRV_CTL_IOCTL_PCM_PREFER_SUBDEVICE :: request where
  "SNDRV_CTL_IOCTL_PCM_PREFER_SUBDEVICE = IOW_req 0x55 50 u32_t"

definition SNDRV_CTL_IOCTL_RAWMIDI_NEXT_DEVICE :: request where
  "SNDRV_CTL_IOCTL_RAWMIDI_NEXT_DEVICE = IOWR_req 0x55 64 u32_t"

definition SNDRV_CTL_IOCTL_RAWMIDI_INFO :: request where
  "SNDRV_CTL_IOCTL_RAWMIDI_INFO = IOWR_req 0x55 65 struct_snd_rawmidi_info"

definition SNDRV_CTL_IOCTL_RAWMIDI_PREFER_SUBDEVICE :: request where
  "SNDRV_CTL_IOCTL_RAWMIDI_PREFER_SUBDEVICE = IOW_req 0x55 66 u32_t"

definition SNDRV_CTL_IOCTL_POWER :: request where
  "SNDRV_CTL_IOCTL_POWER = IOWR_req 0x55 208 u32_t"

definition SNDRV_CTL_IOCTL_POWER_STATE :: request where
  "SNDRV_CTL_IOCTL_POWER_STATE = IOR_req 0x55 209 u32_t"

definition SNDRV_PCM_IOCTL_STATUS :: "nat \<Rightarrow> request" where
  "SNDRV_PCM_IOCTL_STATUS w = IOR_req 0x41 0x20 (struct_snd_pcm_status 8 w (struct_timespec w) w)"

definition SNDRV_PCM_IOCTL_SYNC_PTR :: "nat \<Rightarrow> request" where
  "SNDRV_PCM_IOCTL_SYNC_PTR w = SNDRV_PCM_IOCTL_SYNC_PTR_OLD (struct_timespec w) w"

definition SNDRV_PCM_IOCTL_STATUS_EXT :: "nat \<Rightarrow> request" where
  "SNDRV_PCM_IOCTL_STATUS_EXT w = IOWR_req 0x41 0x24 (struct_snd_pcm_status 8 w (struct_timespec w) w)"

definition SNDRV_RAWMIDI_IOCTL_STATUS :: "nat \<Rightarrow> request" where
  "SNDRV_RAWMIDI_IOCTL_STATUS w = IOWR_req 0x57 0x20 (struct_snd_rawmidi_status w (struct_timespec w) w)"

definition SNDRV_TIMER_IOCTL_STATUS :: "nat \<Rightarrow> request" where
  "SNDRV_TIMER_IOCTL_STATUS w = IOR_req 0x54 0x14 (struct_snd_timer_status (struct_timespec w))"

definition SNDRV_SEQ_IOCTL_PVERSION :: request where
  "SNDRV_SEQ_IOCTL_PVERSION = IOR_req 0x53 0 u32_t"

definition SNDRV_SEQ_IOCTL_CLIENT_ID :: request where
  "SNDRV_SEQ_IOCTL_CLIENT_ID = IOR_req 0x53 1 u32_t"

definition SNDRV_SEQ_IOCTL_SYSTEM_INFO :: request where
  "SNDRV_SEQ_IOCTL_SYSTEM_INFO = IOWR_req 0x53 2 struct_snd_seq_system_info"

definition SNDRV_SEQ_IOCTL_RUNNING_MODE :: request where
  "SNDRV_SEQ_IOCTL_RUNNING_MODE = IOWR_req 0x53 3 struct_snd_seq_running_info"

definition SNDRV_SEQ_IOCTL_GET_CLIENT_INFO :: request where
  "SNDRV_SEQ_IOCTL_GET_CLIENT_INFO = IOWR_req 0x53 16 struct_snd_seq_client_info"

definition SNDRV_SEQ_IOCTL_SET_CLIENT_INFO :: request where
  "SNDRV_SEQ_IOCTL_SET_CLIENT_INFO = IOW_req 0x53 17 struct_snd_seq_client_info"

definition SNDRV_SEQ_IOCTL_CREATE_PORT :: "nat \<Rightarrow> request" where
  "SNDRV_SEQ_IOCTL_CREATE_PORT w = IOWR_req 0x53 32 (struct_snd_seq_port_info w)"

definition SNDRV_SEQ_IOCTL_DELETE_PORT :: "nat \<Rightarrow> request" where
  "SNDRV_SEQ_IOCTL_DELETE_PORT w = IOW_req 0x53 33 (struct_snd_seq_port_info w)"

definition SNDRV_SEQ_IOCTL_GET_PORT_INFO :: "nat \<Rightarrow> request" where
  "SNDRV_SEQ_IOCTL_GET_PORT_INFO w = IOWR_req 0x53 34 (struct_snd_seq_port_info w)"

definition SNDRV_SEQ_IOCTL_SET_PORT_INFO :: "nat \<Rightarrow> request" where
  "SNDRV_SEQ_IOCTL_SET_PORT_INFO w = IOW_req 0x53 35 (struct_snd_seq_port_info w)"

definition SNDRV_SEQ_IOCTL_SUBSCRIBE_PORT :: request where
  "SNDRV_SEQ_IOCTL_SUBSCRIBE_PORT = IOW_req 0x53 48 struct_snd_seq_port_subscribe"

definition SNDRV_SEQ_IOCTL_UNSUBSCRIBE_PORT :: request where
  "SNDRV_SEQ_IOCTL_UNSUBSCRIBE_PORT = IOW_req 0x53 49 struct_snd_seq_port_subscribe"

definition SNDRV_SEQ_IOCTL_CREATE_QUEUE :: request where
  "SNDRV_SEQ_IOCTL_CREATE_QUEUE = IOWR_req 0x53 50 struct_snd_seq_queue_info"

definition SNDRV_SEQ_IOCTL_DELETE_QUEUE :: request where
  "SNDRV_SEQ_IOCTL_DELETE_QUEUE = IOW_req 0x53 51 struct_snd_seq_queue_info"

definition SNDRV_SEQ_IOCTL_GET_QUEUE_INFO :: request where
  "SNDRV_SEQ_IOCTL_GET_QUEUE_INFO = IOWR_req 0x53 52 struct_snd_seq_queue_info"

definition SNDRV_SEQ_IOCTL_SET_QUEUE_INFO :: request where
  "SNDRV_SEQ_IOCTL_SET_QUEUE_INFO = IOWR_req 0x53 53 struct_snd_seq_queue_info"

definition SNDRV_SEQ_IOCTL_GET_NAMED_QUEUE :: request where
  "SNDRV_SEQ_IOCTL_GET_NAMED_QUEUE = IOWR_req 0x53 54 struct_snd_seq_queue_info"

definition SNDRV_SEQ_IOCTL_GET_QUEUE_STATUS :: request where
  "SNDRV_SEQ_IOCTL_GET_QUEUE_STATUS = IOWR_req 0x53 64 struct_snd_seq_queue_status"

definition SNDRV_SEQ_IOCTL_GET_QUEUE_TEMPO :: request where
  "SNDRV_SEQ_IOCTL_GET_QUEUE_TEMPO = IOWR_req 0x53 65 struct_snd_seq_queue_tempo"

definition SNDRV_SEQ_IOCTL_SET_QUEUE_TEMPO :: request where
  "SNDRV_SEQ_IOCTL_SET_QUEUE_TEMPO = IOW_req 0x53 66 struct_snd_seq_queue_tempo"

definition SNDRV_SEQ_IOCTL_GET_QUEUE_TIMER :: request where
  "SNDRV_SEQ_IOCTL_GET_QUEUE_TIMER = IOWR_req 0x53 69 struct_snd_seq_queue_timer"

definition SNDRV_SEQ_IOCTL_SET_QUEUE_TIMER :: request where
  "SNDRV_SEQ_IOCTL_SET_QUEUE_TIMER = IOW_req 0x53 70 struct_snd_seq_queue_timer"

definition SNDRV_SEQ_IOCTL_GET_QUEUE_CLIENT :: request where
  "SNDRV_SEQ_IOCTL_GET_QUEUE_CLIENT = IOWR_req 0x53 73 struct_snd_seq_queue_client"

definition SNDRV_SEQ_IOCTL_SET_QUEUE_CLIENT :: request where
  "SNDRV_SEQ_IOCTL_SET_QUEUE_CLIENT = IOW_req 0x53 74 struct_snd_seq_queue_client"

definition SNDRV_SEQ_IOCTL_GET_CLIENT_POOL :: request where
  "SNDRV_SEQ_IOCTL_GET_CLIENT_POOL = IOWR_req 0x53 75 struct_snd_seq_client_pool"

definition SNDRV_SEQ_IOCTL_SET_CLIENT_POOL :: request where
  "SNDRV_SEQ_IOCTL_SET_CLIENT_POOL = IOW_req 0x53 76 struct_snd_seq_client_pool"

definition SNDRV_SEQ_IOCTL_REMOVE_EVENTS :: request where
  "SNDRV_SEQ_IOCTL_REMOVE_EVENTS = IOW_req 0x53 78 struct_snd_seq_remove_events"

definition SNDRV_SEQ_IOCTL_QUERY_SUBS :: request where
  "SNDRV_SEQ_IOCTL_QUERY_SUBS = IOWR_req 0x53 79 struct_snd_seq_query_subs"

definition SNDRV_SEQ_IOCTL_GET_SUBSCRIPTION :: request where
  "SNDRV_SEQ_IOCTL_GET_SUBSCRIPTION = IOWR_req 0x53 80 struct_snd_seq_port_subscribe"

definition SNDRV_SEQ_IOCTL_QUERY_NEXT_CLIENT :: request where
  "SNDRV_SEQ_IOCTL_QUERY_NEXT_CLIENT = IOWR_req 0x53 81 struct_snd_seq_client_info"

definition SNDRV_SEQ_IOCTL_QUERY_NEXT_PORT :: "nat \<Rightarrow> request" where
  "SNDRV_SEQ_IOCTL_QUERY_NEXT_PORT w = IOWR_req 0x53 82 (struct_snd_seq_port_info w)"

definition pcm_requests :: "nat \<Rightarrow> request list" where
  "pcm_requests w = [SNDRV_PCM_IOCTL_PVERSION, SNDRV_PCM_IOCTL_INFO, SNDRV_PCM_IOCTL_TSTAMP, SNDRV_PCM_IOCTL_TTSTAMP,
     SNDRV_PCM_IOCTL_USER_PVERSION, SNDRV_PCM_IOCTL_HW_REFINE w, SNDRV_PCM_IOCTL_HW_PARAMS w,
     SNDRV_PCM_IOCTL_HW_FREE, SNDRV_PCM_IOCTL_SW_PARAMS w, SNDRV_PCM_IOCTL_STATUS w, SNDRV_PCM_IOCTL_DELAY w,
     SNDRV_PCM_IOCTL_HWSYNC, SNDRV_PCM_IOCTL_SYNC_PTR w, SNDRV_PCM_IOCTL_STATUS_EXT w,
     SNDRV_PCM_IOCTL_CHANNEL_INFO w, SNDRV_PCM_IOCTL_PREPARE, SNDRV_PCM_IOCTL_RESET, SNDRV_PCM_IOCTL_START,
     SNDRV_PCM_IOCTL_DROP, SNDRV_PCM_IOCTL_DRAIN, SNDRV_PCM_IOCTL_PAUSE, SNDRV_PCM_IOCTL_REWIND w,
     SNDRV_PCM_IOCTL_RESUME, SNDRV_PCM_IOCTL_XRUN, SNDRV_PCM_IOCTL_FORWARD w, SNDRV_PCM_IOCTL_WRITEI_FRAMES w,
     SNDRV_PCM_IOCTL_READI_FRAMES w, SNDRV_PCM_IOCTL_WRITEN_FRAMES w, SNDRV_PCM_IOCTL_READN_FRAMES w,
     SNDRV_PCM_IOCTL_LINK, SNDRV_PCM_IOCTL_UNLINK]"

definition hwdep_requests :: "nat \<Rightarrow> request list" where
  "hwdep_requests w = [SNDRV_HWDEP_IOCTL_PVERSION, SNDRV_HWDEP_IOCTL_INFO, SNDRV_HWDEP_IOCTL_DSP_STATUS, SNDRV_HWDEP_IOCTL_DSP_LOAD w]"

definition seq_requests :: "nat \<Rightarrow> request list" where
  "seq_requests w = [SNDRV_SEQ_IOCTL_PVERSION, SNDRV_SEQ_IOCTL_CLIENT_ID, SNDRV_SEQ_IOCTL_SYSTEM_INFO,
     SNDRV_SEQ_IOCTL_RUNNING_MODE, SNDRV_SEQ_IOCTL_GET_CLIENT_INFO, SNDRV_SEQ_IOCTL_SET_CLIENT_INFO,
     SNDRV_SEQ_IOCTL_CREATE_PORT w, SNDRV_SEQ_IOCTL_DELETE_PORT w, SNDRV_SEQ_IOCTL_GET_PORT_INFO w,
     SNDRV_SEQ_IOCTL_SET_PORT_INFO w, SNDRV_SEQ_IOCTL_SUBSCRIBE_PORT, SNDRV_SEQ_IOCTL_UNSUBSCRIBE_PORT,
     SNDRV_SEQ_IOCTL_CREATE_QUEUE, SNDRV_SEQ_IOCTL_DELETE_QUEUE, SNDRV_SEQ_IOCTL_GET_QUEUE_INFO,
     SNDRV_SEQ_IOCTL_SET_QUEUE_INFO, SNDRV_SEQ_IOCTL_GET_NAMED_QUEUE, SNDRV_SEQ_IOCTL_GET_QUEUE_STATUS,
     SNDRV_SEQ_IOCTL_GET_QUEUE_TEMPO, SNDRV_SEQ_IOCTL_SET_QUEUE_TEMPO, SNDRV_SEQ_IOCTL_GET_QUEUE_TIMER,
     SNDRV_SEQ_IOCTL_SET_QUEUE_TIMER, SNDRV_SEQ_IOCTL_GET_QUEUE_CLIENT, SNDRV_SEQ_IOCTL_SET_QUEUE_CLIENT,
     SNDRV_SEQ_IOCTL_GET_CLIENT_POOL, SNDRV_SEQ_IOCTL_SET_CLIENT_POOL, SNDRV_SEQ_IOCTL_REMOVE_EVENTS,
     SNDRV_SEQ_IOCTL_QUERY_SUBS, SNDRV_SEQ_IOCTL_GET_SUBSCRIPTION, SNDRV_SEQ_IOCTL_QUERY_NEXT_CLIENT,
     SNDRV_SEQ_IOCTL_QUERY_NEXT_PORT w]"

definition timer_requests :: "nat \<Rightarrow> request list" where
  "timer_requests w = [SNDRV_TIMER_IOCTL_PVERSION, SNDRV_TIMER_IOCTL_NEXT_DEVICE, SNDRV_TIMER_IOCTL_TREAD_OLD,
     SNDRV_TIMER_IOCTL_GINFO w, SNDRV_TIMER_IOCTL_GPARAMS w, SNDRV_TIMER_IOCTL_GSTATUS w, SNDRV_TIMER_IOCTL_SELECT,
     SNDRV_TIMER_IOCTL_INFO w, SNDRV_TIMER_IOCTL_PARAMS, SNDRV_TIMER_IOCTL_STATUS w, SNDRV_TIMER_IOCTL_START,
     SNDRV_TIMER_IOCTL_STOP, SNDRV_TIMER_IOCTL_CONTINUE, SNDRV_TIMER_IOCTL_PAUSE, SNDRV_TIMER_IOCTL_TREAD64]"

definition ctl_requests :: "nat \<Rightarrow> request list" where
  "ctl_requests w = [SNDRV_CTL_IOCTL_PVERSION, SNDRV_CTL_IOCTL_CARD_INFO, SNDRV_CTL_IOCTL_ELEM_LIST w, SNDRV_CTL_IOCTL_ELEM_INFO w,
     SNDRV_CTL_IOCTL_ELEM_READ w, SNDRV_CTL_IOCTL_ELEM_WRITE w, SNDRV_CTL_IOCTL_ELEM_LOCK,
     SNDRV_CTL_IOCTL_ELEM_UNLOCK, SNDRV_CTL_IOCTL_SUBSCRIBE_EVENTS, SNDRV_CTL_IOCTL_ELEM_ADD w,
     SNDRV_CTL_IOCTL_ELEM_REPLACE w, SNDRV_CTL_IOCTL_ELEM_REMOVE, SNDRV_CTL_IOCTL_TLV_READ,
     SNDRV_CTL_IOCTL_TLV_WRITE, SNDRV_CTL_IOCTL_TLV_COMMAND, SNDRV_CTL_IOCTL_HWDEP_NEXT_DEVICE,
     SNDRV_CTL_IOCTL_HWDEP_INFO, SNDRV_CTL_IOCTL_PCM_NEXT_DEVICE, SNDRV_CTL_IOCTL_PCM_INFO,
     SNDRV_CTL_IOCTL_PCM_PREFER_SUBDEVICE, SNDRV_CTL_IOCTL_RAWMIDI_NEXT_DEVICE, SNDRV_CTL_IOCTL_RAWMIDI_INFO,
     SNDRV_CTL_IOCTL_RAWMIDI_PREFER_SUBDEVICE, SNDRV_CTL_IOCTL_POWER, SNDRV_CTL_IOCTL_POWER_STATE]"

definition rawmidi_requests :: "nat \<Rightarrow> request list" where
  "rawmidi_requests w = [SNDRV_RAWMIDI_IOCTL_PVERSION, SNDRV_RAWMIDI_IOCTL_INFO, SNDRV_RAWMIDI_IOCTL_USER_PVERSION,
     SNDRV_RAWMIDI_IOCTL_PARAMS w, SNDRV_RAWMIDI_IOCTL_STATUS w, SNDRV_RAWMIDI_IOCTL_DROP,
     SNDRV_RAWMIDI_IOCTL_DRAIN]"

text \<open>The devices with their requests, for a program whose \<^verbatim>\<open>long\<close> has \<open>w\<close> bytes.\<close>

definition sound_devices :: "nat \<Rightarrow> (string \<times> request list) list" where
  "sound_devices w = [(''pcm'', pcm_requests w), (''hwdep'', hwdep_requests w), (''seq'', seq_requests w),
     (''timer'', timer_requests w), (''ctl'', ctl_requests w), (''rawmidi'', rawmidi_requests w)]"

text \<open>The requests whose number on i386 is not that of a 64-bit kernel.\<close>

definition sound_changed :: "request list" where
  "sound_changed = [SNDRV_PCM_IOCTL_HW_REFINE 8, SNDRV_PCM_IOCTL_HW_PARAMS 8, SNDRV_PCM_IOCTL_SW_PARAMS 8,
     SNDRV_PCM_IOCTL_STATUS 8, SNDRV_PCM_IOCTL_DELAY 8, SNDRV_PCM_IOCTL_SYNC_PTR 8, SNDRV_PCM_IOCTL_STATUS_EXT 8,
     SNDRV_PCM_IOCTL_CHANNEL_INFO 8, SNDRV_PCM_IOCTL_REWIND 8, SNDRV_PCM_IOCTL_FORWARD 8,
     SNDRV_PCM_IOCTL_WRITEI_FRAMES 8, SNDRV_PCM_IOCTL_READI_FRAMES 8, SNDRV_PCM_IOCTL_WRITEN_FRAMES 8,
     SNDRV_PCM_IOCTL_READN_FRAMES 8, SNDRV_HWDEP_IOCTL_DSP_LOAD 8, SNDRV_SEQ_IOCTL_CREATE_PORT 8,
     SNDRV_SEQ_IOCTL_DELETE_PORT 8, SNDRV_SEQ_IOCTL_GET_PORT_INFO 8, SNDRV_SEQ_IOCTL_SET_PORT_INFO 8,
     SNDRV_SEQ_IOCTL_QUERY_NEXT_PORT 8, SNDRV_TIMER_IOCTL_GINFO 8, SNDRV_TIMER_IOCTL_GPARAMS 8,
     SNDRV_TIMER_IOCTL_GSTATUS 8, SNDRV_TIMER_IOCTL_INFO 8, SNDRV_TIMER_IOCTL_STATUS 8,
     SNDRV_CTL_IOCTL_ELEM_LIST 8, SNDRV_CTL_IOCTL_ELEM_READ 8, SNDRV_CTL_IOCTL_ELEM_WRITE 8,
     SNDRV_RAWMIDI_IOCTL_PARAMS 8, SNDRV_RAWMIDI_IOCTL_STATUS 8]"

text \<open>The structures without padding.\<close>

definition sound_tight :: "ctype list" where
  "sound_tight = [struct_snd_aes_iec958, struct_snd_cea_861_aud_if, struct_snd_hwdep_info, struct_snd_hwdep_dsp_status,
     union_snd_pcm_sync_id, struct_snd_pcm_info, struct_snd_interval, struct_snd_mask, struct_snd_timespec64,
     struct_snd_rawmidi_info, struct_snd_rawmidi_framing_tstamp, struct_snd_timer_id, struct_snd_timer_select,
     struct_snd_timer_params, struct_snd_timer_read, struct_snd_ctl_card_info, struct_snd_ctl_elem_id,
     struct_snd_ctl_tlv, struct_snd_ctl_event, struct_snd_seq_addr, struct_snd_seq_connect, struct_snd_seq_ev_note,
     struct_snd_seq_ev_ctrl, struct_snd_seq_ev_raw8, struct_snd_seq_ev_raw32, struct_snd_seq_result,
     struct_snd_seq_real_time, union_snd_seq_timestamp, struct_snd_seq_queue_skew, struct_snd_seq_ev_queue_control,
     struct_snd_seq_system_info, struct_snd_seq_running_info, struct_snd_seq_client_info,
     struct_snd_seq_client_pool, struct_snd_seq_queue_info, struct_snd_seq_queue_status,
     struct_snd_seq_queue_tempo, struct_snd_seq_queue_timer, struct_snd_seq_queue_client,
     struct_snd_seq_port_subscribe, struct_snd_enc_wma, struct_snd_enc_vorbis, struct_snd_enc_real,
     struct_snd_enc_flac, struct_snd_enc_generic, struct_snd_dec_flac, struct_snd_dec_wma, struct_snd_dec_alac,
     struct_snd_dec_ape, union_snd_codec_options, struct_snd_codec_desc, struct_snd_codec,
     struct_snd_compressed_buffer, struct_snd_compr_tstamp, struct_snd_compr_avail, struct_snd_compr_caps,
     struct_snd_compr_codec_caps, struct_snd_compr_metadata, struct_snd_soc_tplg_hdr,
     struct_snd_soc_tplg_vendor_uuid_elem, struct_snd_soc_tplg_vendor_value_elem,
     struct_snd_soc_tplg_vendor_string_elem, struct_snd_soc_tplg_vendor_array, struct_snd_soc_tplg_private,
     struct_snd_soc_tplg_tlv_dbscale, struct_snd_soc_tplg_ctl_tlv, struct_snd_soc_tplg_channel,
     struct_snd_soc_tplg_io_ops, struct_snd_soc_tplg_ctl_hdr, struct_snd_soc_tplg_stream_caps,
     struct_snd_soc_tplg_stream, struct_snd_soc_tplg_hw_config, struct_snd_soc_tplg_manifest,
     struct_snd_soc_tplg_mixer_control, struct_snd_soc_tplg_enum_control, struct_snd_soc_tplg_bytes_control,
     struct_snd_soc_tplg_dapm_graph_elem, struct_snd_soc_tplg_dapm_widget, struct_snd_soc_tplg_pcm,
     struct_snd_soc_tplg_link_config, struct_snd_soc_tplg_dai, struct_snd_soc_tplg_manifest_v4,
     struct_snd_soc_tplg_stream_caps_v4, struct_snd_soc_tplg_pcm_v4, struct_snd_soc_tplg_link_config_v4,
     struct_soundfont_patch_info, struct_soundfont_open_parm, struct_soundfont_voice_parm,
     struct_soundfont_voice_info, struct_soundfont_voice_rec_hdr, struct_soundfont_sample_info,
     struct_soundfont_voice_map, struct_snd_emux_misc_mode, struct_snd_firewire_event_common,
     struct_snd_firewire_event_lock_status, struct_snd_firewire_event_dice_notification,
     struct_snd_efw_transaction, struct_snd_firewire_event_efw_response, struct_snd_firewire_event_digi00x_message,
     struct_snd_firewire_event_motu_notification, struct_snd_firewire_tascam_change,
     struct_snd_firewire_event_tascam_control, union_snd_firewire_event, struct_snd_firewire_get_info,
     struct_snd_firewire_tascam_state, struct_skl_dfw_algo_data, struct_skl_dfw_v4_module_pin,
     struct_skl_dfw_v4_module_fmt, struct_skl_dfw_v4_module_caps, struct_skl_dfw_v4_pipe, struct_skl_dfw_v4_module,
     struct_snd_sof_blk_hdr, struct_snd_sof_mod_hdr, struct_snd_sof_fw_header, struct_sof_abi_hdr]"

section \<open>Properties\<close>

lemma sound_family_8_8: "family_ok 8 (sound_devices 8)"
  by code_simp

lemma sound_family_8_4: "family_ok 8 (sound_devices 4)"
  by code_simp

lemma sound_family_4_4: "family_ok 4 (sound_devices 4)"
  by code_simp

lemma sound_family_2_4: "family_ok 2 (sound_devices 4)"
  by code_simp

lemma sound_interface:
  assumes "(amax, w) \<in> set abis" "d \<in> set (sound_devices w)"
  shows "ioctl_interface amax (snd d)"
  using assms sound_family_8_8 sound_family_8_4 sound_family_4_4 sound_family_2_4
  by (auto simp add: abis_def intro: family_interface)

lemma sound_pairs:
  "list_all2 (\<lambda>d g. list_all2 (\<lambda>r q. (req_key 4 r = req_key 8 q) \<noteq> (q \<in> set sound_changed)) (snd d) (snd g))
    (sound_devices 4) (sound_devices 8)"
  by code_simp

lemma sound_alike:
  "list_all2 (\<lambda>d g. list_all2 (\<lambda>r q. agree 4 (req_arg q) \<or> q \<in> set sound_changed \<or> r \<noteq> q) (snd d) (snd g))
    (sound_devices 4) (sound_devices 8)"
  by code_simp

lemmas sound_compat = family_compat [OF sound_family_4_4 sound_family_8_8 sound_pairs sound_alike]

interpretation pcm_i386: ioctl_compat 4 "pcm_requests 4" "pcm_requests 8" sound_changed
  using sound_compat by (simp add: sound_devices_def)

text \<open>
  The requests of each sound device have different numbers on every ABI and layout of request numbers, and the
  size that the kernel decodes is the size of the argument.
\<close>

theorem sound_requests_decoded:
  assumes "(amax, w) \<in> set abis" "L \<in> ioc_layouts" "32 \<le> LENGTH('l)" "d \<in> set (sound_devices w)"
  shows "distinct (map (request_number L amax) (snd d) :: 'l::len word list) \<and>
    list_all (\<lambda>r. IOC_SIZE L (request_number L amax r :: 'l word) = word_of_nat (sizeof amax (req_arg r))) (snd d)"
  using sound_interface [OF assms(1,4)] assms(2,3) by (rule ioctl_interface.sound)

theorem sound_requests_decoded_witness:
  "distinct (map (request_number generic_ioc 8) (snd (''pcm'', pcm_requests 8)) :: u32 list) \<and>
   list_all (\<lambda>r. IOC_SIZE generic_ioc (request_number generic_ioc 8 r :: u32) = word_of_nat (sizeof 8 (req_arg r)))
     (snd (''pcm'', pcm_requests 8))"
  by (rule sound_requests_decoded [where w = 8]) (simp_all add: abis_def ioc_layouts_def sound_devices_def)

text \<open>
  An i386 program with 32-bit times uses the numbers of the 64-bit kernel, except for the thirty requests of
  \<open>sound_changed\<close>, whose argument has a position, a time or a pointer; the kernel finds every member of the other
  arguments without pointers where the program put it.
\<close>

theorem sound_compat_requests:
  assumes "L \<in> ioc_layouts" "32 \<le> LENGTH('l)"
  shows "list_all2 (\<lambda>d g. list_all2 (\<lambda>r q. ((request_number L 4 r :: 'l::len word) = request_number L 8 q) \<noteq>
      (q \<in> set sound_changed)) (snd d) (snd g) \<and>
    list_all2 (\<lambda>r q. r = q \<longrightarrow> q \<notin> set sound_changed \<longrightarrow> leaves 4 0 (req_arg q) = leaves 8 0 (req_arg q))
      (snd d) (snd g)) (sound_devices 4) (sound_devices 8)"
  using sound_compat assms by (rule family_requests)

theorem sound_compat_requests_witness:
  "list_all2 (\<lambda>d g. list_all2 (\<lambda>r q. ((request_number generic_ioc 4 r :: u32) = request_number generic_ioc 8 q) \<noteq>
      (q \<in> set sound_changed)) (snd d) (snd g)) (sound_devices 4) (sound_devices 8)"
  by (rule list_all2_mono [OF sound_compat_requests [of generic_ioc, where ?'l = 32]])
    (simp_all add: ioc_layouts_def)

lemma sound_all_tight: "list_all tight sound_tight"
  by code_simp

text \<open>
  The structures of the sound interface without implicit padding are laid out alike, member by member, by every ABI,
  and each of their bytes belongs to a member; this includes the structures of topology files.
\<close>

theorem sound_layout:
  assumes "t \<in> set sound_tight"
  shows "same_everywhere t \<and> covered (leaves 8 0 t) 0 (sizeof 8 t)"
  using sound_all_tight assms by (rule tight_types)

theorem sound_layout_witness:
  "same_everywhere struct_snd_soc_tplg_pcm \<and> covered (leaves 8 0 struct_snd_soc_tplg_pcm) 0 (sizeof 8 struct_snd_soc_tplg_pcm)"
  by (rule sound_layout) (simp add: sound_tight_def)

section \<open>Positions and times shared with the kernel\<close>

text \<open>
  The padding in front of a time keeps the structures of status reports alike on i386 and on ABIs that align
  64-bit numbers, with old and with 64-bit times, in 32-bit and in 64-bit programs.
\<close>

lemma time_pad_compat:
  "list_all (\<lambda>(tm, ts, w).
      leaves 4 0 (struct_snd_pcm_status 4 tm ts w) = leaves 8 0 (struct_snd_pcm_status 8 tm ts w) \<and>
      sizeof 4 (struct_snd_pcm_status 4 tm ts w) = sizeof 8 (struct_snd_pcm_status 8 tm ts w) \<and>
      leaves 4 0 (struct_snd_rawmidi_status tm ts w) = leaves 8 0 (struct_snd_rawmidi_status tm ts w) \<and>
      leaves 4 0 (struct_snd_timer_tread tm ts) = leaves 8 0 (struct_snd_timer_tread tm ts) \<and>
      sizeof 4 (struct_snd_timer_tread tm ts) = sizeof 8 (struct_snd_timer_tread tm ts))
    [(4, struct_timespec 4, 4), (8, struct_snd_timespec64, 4), (8, struct_timespec 8, 8)]"
  by code_simp

text \<open>A 64-bit number in memory contains its low half, at an offset that depends on the byte order.\<close>

definition low_half :: "endian \<Rightarrow> nat" where
  "low_half e = (case e of Little \<Rightarrow> 0 | Big \<Rightarrow> 4)"

lemma take_le_bytes: "take 4 (le_bytes (v :: u64)) = le_bytes (ucast v :: u32)"
  by (simp add: le_bytes64 le_bytes32) (auto intro!: byte_eqI simp add: bit_simps)

lemma load_low_half:
  assumes "load e mem p = Some (v :: u64)"
  shows "load e mem (p + low_half e) = Some (ucast v :: u32)"
proof -
  have le: "p + 8 \<le> length mem" and v: "v = word_of_bytes e (take 8 (drop p mem))"
    using assms by (simp_all add: load_def rdn_def split: if_splits)
  define bs where "bs = take 8 (drop p mem)"
  have len: "length bs = 8" using le by (simp add: bs_def)
  have b: "bs = bytes_of e v" using len by (simp add: v flip: bs_def) (simp add: bytes_of_word_of)
  have "take 4 (drop (p + low_half e) mem) = take 4 (drop (low_half e) bs)"
    by (cases e) (simp_all add: bs_def low_half_def drop_take add.commute)
  also have "\<dots> = bytes_of e (ucast v :: u32)"
    using take_le_bytes [of v]
    by (cases e) (simp_all add: b low_half_def bytes_of_def order_bytes_def drop_rev)
  finally have "take 4 (drop (p + low_half e) mem) = bytes_of e (ucast v :: u32)" .
  then show ?thesis using le by (cases e) (simp_all add: load_def rdn_def word_of_bytes_of low_half_def)
qed

text \<open>The members of the status of a 32-bit program with 64-bit times.\<close>

lemma align_up_multiple: "a dvd 8 \<Longrightarrow> 8 dvd n \<Longrightarrow> align_up a n = n"
  by (rule align_up_idem) (auto intro: dvd_trans dvd_pos_nat [of 8])

lemma align_up_bytes: "align_up (Suc 0) n = n" "4 dvd n \<Longrightarrow> align_up 4 n = n"
  by (simp_all add: align_up_idem)

lemma status64_offsets:
  assumes "amax \<in> {4, 8}" "sizeof amax ts = 16" "alignof amax ts dvd 8"
  shows "map (\<lambda>m. offset_from amax (snd_pcm_mmap_status64_members e ts 4) m 0)
      [''state'', ''hw_ptr'', ''tstamp'', ''suspended_state'', ''audio_tstamp''] =
    [Some 0, Some (8 + low_half e), Some 16, Some 32, Some 40]"
proof -
  have al: "min amax 4 = 4" "min amax (Suc 0) = Suc 0" using assms(1) by auto
  show ?thesis
    using align_up_multiple [OF assms(3), of 16] align_up_multiple [OF assms(3), of 40]
    by (cases e) (simp_all add: snd_pcm_mmap_status64_members_def pad_before_uframe_def pad_after_uframe_def
      low_half_def align_up_bytes al assms(2))
qed

text \<open>The same structure of a 64-bit kernel, and the structure of a 64-bit program.\<close>

lemma status64_kernel:
  "map (\<lambda>m. offset_from 8 (snd_pcm_mmap_status64_members e struct_snd_timespec64 8) m 0)
      [''state'', ''hw_ptr'', ''tstamp'', ''suspended_state'', ''audio_tstamp''] =
    [Some 0, Some 8, Some 16, Some 32, Some 40]"
  by (cases e; hypsubst; code_simp)

text \<open>
  C27: A 32-bit program with 64-bit times and a 64-bit kernel share the status of a stream: state and times
  are at the same offsets, and where the kernel wrote a 64-bit position the program reads its low half,
  for both byte orders and for ABIs that align 64-bit numbers to four or to eight bytes. The
  program's \<^verbatim>\<open>struct timespec\<close> is assumed to have 16 bytes.
\<close>

theorem pcm_status_shared:
  assumes "amax \<in> {4, 8}" "sizeof amax ts = 16" "alignof amax ts dvd 8"
  shows "list_all (\<lambda>m. offset_from amax (snd_pcm_mmap_status64_members e ts 4) m 0 =
        offset_from 8 (snd_pcm_mmap_status64_members e struct_snd_timespec64 8) m 0)
      [''state'', ''tstamp'', ''suspended_state'', ''audio_tstamp''] \<and>
    (load e mem (p + the (offset_from 8 (snd_pcm_mmap_status64_members e struct_snd_timespec64 8) ''hw_ptr'' 0)) =
        Some (v :: u64) \<longrightarrow>
      load e mem (p + the (offset_from amax (snd_pcm_mmap_status64_members e ts 4) ''hw_ptr'' 0)) =
        Some (ucast v :: u32))"
  using status64_offsets [OF assms, of e] status64_kernel [of e] load_low_half [of e mem "p + 8" v]
  by (simp add: add.assoc)

theorem pcm_status_shared_witness:
  "load Big (replicate 15 0 @ [7]) (0 + the (offset_from 4
      (snd_pcm_mmap_status64_members Big struct_snd_timespec64 4) ''hw_ptr'' 0)) = Some (7 :: u32)"
proof -
  have "sizeof 4 struct_snd_timespec64 = 16" "alignof 4 struct_snd_timespec64 dvd 8" by code_simp+
  moreover have "load Big (replicate 15 0 @ [7]) (0 + the (offset_from 8
      (snd_pcm_mmap_status64_members Big struct_snd_timespec64 8) ''hw_ptr'' 0)) = Some (7 :: u64)"
    by code_simp
  ultimately show ?thesis
    using pcm_status_shared [of 4 struct_snd_timespec64 Big "replicate 15 0 @ [7]" 0 7] by simp
qed

text \<open>The control structure: the member that follows the first position is not padded to where the kernel has it.\<close>

lemma control64_program:
  assumes "amax \<in> {4, 8}"
  shows "offset_from amax (snd_pcm_mmap_control64_members Little 4) ''avail_min'' 0 = Some 4"
    and "offset_from amax (snd_pcm_mmap_control64_members Big 4) ''avail_min'' 0 = Some 16"
  using assms by (elim insertE emptyE; hypsubst; code_simp)+

lemma control64_kernel:
  "offset_from 8 (snd_pcm_mmap_control64_members e 8) ''appl_ptr'' 0 = Some 0"
  "offset_from 8 (snd_pcm_mmap_control64_members e 8) ''avail_min'' 0 = Some 8"
  "sizeof 8 (struct_snd_pcm_mmap_control64 e 8) = 16"
  by (cases e; hypsubst; code_simp)+

lemma le_bytes_halves:
  "le_bytes (ucast (ucast a :: u32) OR push_bit 32 (ucast n) :: u64) = take 4 (le_bytes (a :: u64)) @ le_bytes (n :: u32)"
  by (simp add: le_bytes64 le_bytes32) (auto intro!: byte_eqI simp add: bit_simps dest: bit_imp_le_length)

lemma store_upper_half:
  assumes "store Little mem (p + 4) (n :: u32) = Some mem'" "load Little mem p = Some (a :: u64)"
  shows "load Little mem' p = Some (ucast (ucast a :: u32) OR push_bit 32 (ucast n) :: u64)"
    and "load Little mem' (p + 8) = (load Little mem (p + 8) :: u64 option)"
proof -
  have le: "p + 8 \<le> length mem" and a: "a = le_word (take 8 (drop p mem))"
    using assms(2) by (simp_all add: load_def rdn_def word_of_bytes_def order_bytes_def split: if_splits)
  have m: "mem' = take (p + 4) mem @ le_bytes n @ drop (p + 8) mem"
    using assms(1) le by (simp add: store_def wrn_def bytes_of_def order_bytes_def add.commute)
  have "take 8 (drop p mem) = le_bytes a" using le by (simp add: a le_bytes_word)
  then have "take 4 (drop p mem) = take 4 (le_bytes a)" by (simp flip: \<open>take 8 (drop p mem) = le_bytes a\<close>)
  then have "take 8 (drop p mem') = le_bytes (ucast (ucast a :: u32) OR push_bit 32 (ucast n) :: u64)"
    using le by (simp add: m le_bytes_halves drop_take)
  then show "load Little mem' p = Some (ucast (ucast a :: u32) OR push_bit 32 (ucast n) :: u64)"
    using le by (simp add: m load_def rdn_def word_of_bytes_def order_bytes_def le_word_bytes)
  show "load Little mem' (p + 8) = (load Little mem (p + 8) :: u64 option)"
    using le by (simp add: m load_def rdn_def)
qed

text \<open>
  C40: A 32-bit program with 64-bit times and a 64-bit kernel do not share the control of a stream, as
  \<^verbatim>\<open>__pad_before_uframe\<close> stands where \<^verbatim>\<open>__pad_after_uframe\<close> is meant. On a little-endian host a program that sets
  \<^verbatim>\<open>avail_min\<close> writes the upper half of the kernel's \<^verbatim>\<open>appl_ptr\<close> and leaves the kernel's \<^verbatim>\<open>avail_min\<close> as it was; on a
  big-endian host it writes behind the end of the kernel's structure.
\<close>

theorem pcm_avail_min_misplaced:
  assumes "amax \<in> {4, 8}"
    "store Little mem (p + the (offset_from amax (snd_pcm_mmap_control64_members Little 4) ''avail_min'' 0)) (n :: u32) =
      Some mem'"
    "load Little mem (p + the (offset_from 8 (snd_pcm_mmap_control64_members Little 8) ''appl_ptr'' 0)) = Some (a :: u64)"
  shows "load Little mem' (p + the (offset_from 8 (snd_pcm_mmap_control64_members Little 8) ''appl_ptr'' 0)) =
      Some (ucast (ucast a :: u32) OR push_bit 32 (ucast n) :: u64) \<and>
    (load Little mem' (p + the (offset_from 8 (snd_pcm_mmap_control64_members Little 8) ''avail_min'' 0)) :: u64 option) =
      load Little mem (p + the (offset_from 8 (snd_pcm_mmap_control64_members Little 8) ''avail_min'' 0)) \<and>
    offset_from amax (snd_pcm_mmap_control64_members Big 4) ''avail_min'' 0 =
      Some (sizeof 8 (struct_snd_pcm_mmap_control64 Big 8))"
  using assms store_upper_half [of mem p n mem' a]
  by (simp add: control64_program [OF assms(1)] control64_kernel)

theorem pcm_avail_min_misplaced_witness:
  "(load Little ([5, 0, 0, 0, 9, 0, 0, 0] @ replicate 8 0) (0 + the (offset_from 8
      (snd_pcm_mmap_control64_members Little 8) ''appl_ptr'' 0)) :: u64 option) = Some (0x900000005 :: u64)"
proof -
  have "store Little ([5, 0, 0, 0, 0, 0, 0, 0] @ replicate 8 0) (0 + the (offset_from 4
        (snd_pcm_mmap_control64_members Little 4) ''avail_min'' 0)) (9 :: u32) =
      Some ([5, 0, 0, 0, 9, 0, 0, 0] @ replicate 8 0)"
    by code_simp
  moreover have "load Little ([5, 0, 0, 0, 0, 0, 0, 0] @ replicate 8 0) (0 + the (offset_from 8
        (snd_pcm_mmap_control64_members Little 8) ''appl_ptr'' 0)) = Some (5 :: u64)"
    by code_simp
  moreover have "(ucast (ucast (5 :: u64) :: u32) OR push_bit 32 (ucast (9 :: u32)) :: u64) = 0x900000005"
    by code_simp
  ultimately show ?thesis
    using pcm_avail_min_misplaced [of 4 "[5, 0, 0, 0, 0, 0, 0, 0] @ replicate 8 0" 0 9
      "[5, 0, 0, 0, 9, 0, 0, 0] @ replicate 8 0" 5] by simp
qed

text \<open>
  For 64-bit programs the two versions of status and control are the same, member by member, and so are
  the two requests; for 32-bit programs with old times the sizes of their arguments tell the requests apart.
\<close>

lemma sync_ptr_versions:
  "list_all (\<lambda>m. offset_from 8 (snd_pcm_mmap_status64_members e struct_snd_timespec64 8) m 0 =
      offset_from 8 (snd_pcm_mmap_status_members (struct_timespec 8) 8) m 0)
    [''state'', ''hw_ptr'', ''tstamp'', ''suspended_state'', ''audio_tstamp'']"
  "leaves 8 0 (struct_snd_pcm_mmap_control64 e 8) = leaves 8 0 (struct_snd_pcm_mmap_control 8)"
  "req_key 8 (SNDRV_PCM_IOCTL_SYNC_PTR64 e struct_snd_timespec64 8) = req_key 8 (SNDRV_PCM_IOCTL_SYNC_PTR 8)"
  "req_key 4 (SNDRV_PCM_IOCTL_SYNC_PTR64 e struct_snd_timespec64 4) \<noteq> req_key 4 (SNDRV_PCM_IOCTL_SYNC_PTR 4)"
  by (cases e; hypsubst; code_simp)+

end
