(* ===== verification/Wire_Netlink.thy ===== *)
theory Wire_Netlink
  imports Netlink Wire_Rdma
begin

text \<open>
  The structures that travel in netlink messages: routing (\<^verbatim>\<open>rtnetlink.h\<close>, \<^verbatim>\<open>if_link.h\<close>, \<^verbatim>\<open>neighbour.h\<close>), traffic control
  (\<^verbatim>\<open>pkt_sched.h\<close>, \<^verbatim>\<open>pkt_cls.h\<close>, \<^verbatim>\<open>tc_act\<close>), socket diagnosis, IPsec (\<^verbatim>\<open>xfrm.h\<close>, \<^verbatim>\<open>pfkeyv2.h\<close>), bridges, Open vSwitch,
  accounting and others. A request number tells the kernel the size of its argument; a message on
  a socket carries no sign of the ABI of its sender, so the structures themselves have to agree.
\<close>

section \<open>\<^verbatim>\<open>include/linux/netlink.h\<close>\<close>

definition struct_sockaddr_nl :: ctype where
  "struct_sockaddr_nl = c_struct [
     (''nl_family'', u16_t),
     (''nl_pad'', u16_t),
     (''nl_pid'', u32_t),
     (''nl_groups'', u32_t)]"

definition struct_nlmsgerr :: ctype where
  "struct_nlmsgerr = c_struct [
     (''error'', u32_t),
     (''msg'', struct_nlmsghdr)]"

definition struct_nl_pktinfo :: ctype where
  "struct_nl_pktinfo = c_struct [
     (''group'', u32_t)]"

definition struct_nl_mmap_req :: ctype where
  "struct_nl_mmap_req = c_struct [
     (''nm_block_size'', u32_t),
     (''nm_block_nr'', u32_t),
     (''nm_frame_size'', u32_t),
     (''nm_frame_nr'', u32_t)]"

definition struct_nl_mmap_hdr :: ctype where
  "struct_nl_mmap_hdr = c_struct [
     (''nm_status'', u32_t),
     (''nm_len'', u32_t),
     (''nm_group'', u32_t),
     (''nm_pid'', u32_t),
     (''nm_uid'', u32_t),
     (''nm_gid'', u32_t)]"

definition struct_nlattr :: ctype where
  "struct_nlattr = c_struct [
     (''nla_len'', u16_t),
     (''nla_type'', u16_t)]"

definition struct_nla_bitfield32 :: ctype where
  "struct_nla_bitfield32 = c_struct [
     (''value'', u32_t),
     (''selector'', u32_t)]"

definition nl_netlink_structs :: "ctype list" where
  "nl_netlink_structs = [struct_sockaddr_nl, struct_nlmsgerr, struct_nl_pktinfo, struct_nl_mmap_req, struct_nl_mmap_hdr, struct_nlattr,
     struct_nla_bitfield32]"

section \<open>\<^verbatim>\<open>include/linux/rtnetlink.h\<close>\<close>

definition struct_rtattr :: ctype where
  "struct_rtattr = c_struct [
     (''rta_len'', u16_t),
     (''rta_type'', u16_t)]"

definition struct_rtmsg :: ctype where
  "struct_rtmsg = c_struct [
     (''rtm_family'', u8_t),
     (''rtm_dst_len'', u8_t),
     (''rtm_src_len'', u8_t),
     (''rtm_tos'', u8_t),
     (''rtm_table'', u8_t),
     (''rtm_protocol'', u8_t),
     (''rtm_scope'', u8_t),
     (''rtm_type'', u8_t),
     (''rtm_flags'', u32_t)]"

definition struct_rtnexthop :: ctype where
  "struct_rtnexthop = c_struct [
     (''rtnh_len'', u16_t),
     (''rtnh_flags'', u8_t),
     (''rtnh_hops'', u8_t),
     (''rtnh_ifindex'', u32_t)]"

definition struct_rtvia :: ctype where
  "struct_rtvia = c_struct [
     (''rtvia_family'', u16_t),
     (''rtvia_addr'', Arr u8_t 0)]"

definition struct_rta_cacheinfo :: ctype where
  "struct_rta_cacheinfo = c_struct [
     (''rta_clntref'', u32_t),
     (''rta_lastuse'', u32_t),
     (''rta_expires'', u32_t),
     (''rta_error'', u32_t),
     (''rta_used'', u32_t),
     (''rta_id'', u32_t),
     (''rta_ts'', u32_t),
     (''rta_tsage'', u32_t)]"

definition struct_rta_session :: ctype where
  "struct_rta_session = c_struct [
     (''proto'', u8_t),
     (''pad1'', u8_t),
     (''pad2'', u16_t),
     (''u'', c_union [ (''ports'', c_struct [ (''sport'', u16_t), (''dport'', u16_t)]), (''icmpt'', c_struct [ (''type'', u8_t), (''code'', u8_t), (''ident'', u16_t)]), (''spi'', u32_t)])]"

definition struct_rta_mfc_stats :: ctype where
  "struct_rta_mfc_stats = c_struct [
     (''mfcs_packets'', u64_t),
     (''mfcs_bytes'', u64_t),
     (''mfcs_wrong_if'', u64_t)]"

definition struct_rtgenmsg :: ctype where
  "struct_rtgenmsg = c_struct [
     (''rtgen_family'', u8_t)]"

definition struct_ifinfomsg :: ctype where
  "struct_ifinfomsg = c_struct [
     (''ifi_family'', u8_t),
     (''__ifi_pad'', u8_t),
     (''ifi_type'', u16_t),
     (''ifi_index'', u32_t),
     (''ifi_flags'', u32_t),
     (''ifi_change'', u32_t)]"

definition struct_prefixmsg :: ctype where
  "struct_prefixmsg = c_struct [
     (''prefix_family'', u8_t),
     (''prefix_pad1'', u8_t),
     (''prefix_pad2'', u16_t),
     (''prefix_ifindex'', u32_t),
     (''prefix_type'', u8_t),
     (''prefix_len'', u8_t),
     (''prefix_flags'', u8_t),
     (''prefix_pad3'', u8_t)]"

definition struct_prefix_cacheinfo :: ctype where
  "struct_prefix_cacheinfo = c_struct [
     (''preferred_time'', u32_t),
     (''valid_time'', u32_t)]"

definition struct_tcmsg :: ctype where
  "struct_tcmsg = c_struct [
     (''tcm_family'', u8_t),
     (''tcm__pad1'', u8_t),
     (''tcm__pad2'', u16_t),
     (''tcm_ifindex'', u32_t),
     (''tcm_handle'', u32_t),
     (''tcm_parent'', u32_t),
     (''tcm_info'', u32_t)]"

definition struct_nduseroptmsg :: ctype where
  "struct_nduseroptmsg = c_struct [
     (''nduseropt_family'', u8_t),
     (''nduseropt_pad1'', u8_t),
     (''nduseropt_opts_len'', u16_t),
     (''nduseropt_ifindex'', u32_t),
     (''nduseropt_icmp_type'', u8_t),
     (''nduseropt_icmp_code'', u8_t),
     (''nduseropt_pad2'', u16_t),
     (''nduseropt_pad3'', u32_t)]"

definition struct_tcamsg :: ctype where
  "struct_tcamsg = c_struct [
     (''tca_family'', u8_t),
     (''tca__pad1'', u8_t),
     (''tca__pad2'', u16_t)]"

definition nl_rtnetlink_structs :: "ctype list" where
  "nl_rtnetlink_structs = [struct_rtattr, struct_rtmsg, struct_rtnexthop, struct_rtvia, struct_rta_cacheinfo, struct_rta_session,
     struct_rta_mfc_stats, struct_rtgenmsg, struct_ifinfomsg, struct_prefixmsg, struct_prefix_cacheinfo,
     struct_tcmsg, struct_nduseroptmsg, struct_tcamsg]"

section \<open>\<^verbatim>\<open>include/linux/genetlink.h\<close>\<close>

definition struct_genlmsghdr :: ctype where
  "struct_genlmsghdr = c_struct [
     (''cmd'', u8_t),
     (''version'', u8_t),
     (''reserved'', u16_t)]"

definition nl_genetlink_structs :: "ctype list" where
  "nl_genetlink_structs = [struct_genlmsghdr]"

section \<open>\<^verbatim>\<open>include/linux/if_link.h\<close>\<close>

definition struct_rtnl_link_stats :: ctype where
  "struct_rtnl_link_stats = c_struct [
     (''rx_packets'', u32_t),
     (''tx_packets'', u32_t),
     (''rx_bytes'', u32_t),
     (''tx_bytes'', u32_t),
     (''rx_errors'', u32_t),
     (''tx_errors'', u32_t),
     (''rx_dropped'', u32_t),
     (''tx_dropped'', u32_t),
     (''multicast'', u32_t),
     (''collisions'', u32_t),
     (''rx_length_errors'', u32_t),
     (''rx_over_errors'', u32_t),
     (''rx_crc_errors'', u32_t),
     (''rx_frame_errors'', u32_t),
     (''rx_fifo_errors'', u32_t),
     (''rx_missed_errors'', u32_t),
     (''tx_aborted_errors'', u32_t),
     (''tx_carrier_errors'', u32_t),
     (''tx_fifo_errors'', u32_t),
     (''tx_heartbeat_errors'', u32_t),
     (''tx_window_errors'', u32_t),
     (''rx_compressed'', u32_t),
     (''tx_compressed'', u32_t),
     (''rx_nohandler'', u32_t)]"

definition struct_rtnl_link_stats64 :: ctype where
  "struct_rtnl_link_stats64 = c_struct [
     (''rx_packets'', u64_t),
     (''tx_packets'', u64_t),
     (''rx_bytes'', u64_t),
     (''tx_bytes'', u64_t),
     (''rx_errors'', u64_t),
     (''tx_errors'', u64_t),
     (''rx_dropped'', u64_t),
     (''tx_dropped'', u64_t),
     (''multicast'', u64_t),
     (''collisions'', u64_t),
     (''rx_length_errors'', u64_t),
     (''rx_over_errors'', u64_t),
     (''rx_crc_errors'', u64_t),
     (''rx_frame_errors'', u64_t),
     (''rx_fifo_errors'', u64_t),
     (''rx_missed_errors'', u64_t),
     (''tx_aborted_errors'', u64_t),
     (''tx_carrier_errors'', u64_t),
     (''tx_fifo_errors'', u64_t),
     (''tx_heartbeat_errors'', u64_t),
     (''tx_window_errors'', u64_t),
     (''rx_compressed'', u64_t),
     (''tx_compressed'', u64_t),
     (''rx_nohandler'', u64_t)]"

definition struct_rtnl_link_ifmap :: ctype where
  "struct_rtnl_link_ifmap = c_struct [
     (''mem_start'', u64_t),
     (''mem_end'', u64_t),
     (''base_addr'', u64_t),
     (''irq'', u16_t),
     (''dma'', u8_t),
     (''port'', u8_t)]"

definition struct_ifla_bridge_id :: ctype where
  "struct_ifla_bridge_id = c_struct [
     (''prio'', Arr u8_t 2),
     (''addr'', Arr u8_t 6)]"

definition struct_ifla_cacheinfo :: ctype where
  "struct_ifla_cacheinfo = c_struct [
     (''max_reasm_len'', u32_t),
     (''tstamp'', u32_t),
     (''reachable_time'', u32_t),
     (''retrans_time'', u32_t)]"

definition struct_ifla_vlan_flags :: ctype where
  "struct_ifla_vlan_flags = c_struct [
     (''flags'', u32_t),
     (''mask'', u32_t)]"

definition struct_ifla_vlan_qos_mapping :: ctype where
  "struct_ifla_vlan_qos_mapping = c_struct [
     (''from'', u32_t),
     (''to'', u32_t)]"

definition struct_ifla_vxlan_port_range :: ctype where
  "struct_ifla_vxlan_port_range = c_struct [
     (''low'', u16_t),
     (''high'', u16_t)]"

definition struct_ifla_vf_mac :: ctype where
  "struct_ifla_vf_mac = c_struct [
     (''vf'', u32_t),
     (''mac'', Arr u8_t 32)]"

definition struct_ifla_vf_broadcast :: ctype where
  "struct_ifla_vf_broadcast = c_struct [
     (''broadcast'', Arr u8_t 32)]"

definition struct_ifla_vf_vlan :: ctype where
  "struct_ifla_vf_vlan = c_struct [
     (''vf'', u32_t),
     (''vlan'', u32_t),
     (''qos'', u32_t)]"

definition struct_ifla_vf_vlan_info :: ctype where
  "struct_ifla_vf_vlan_info = c_struct [
     (''vf'', u32_t),
     (''vlan'', u32_t),
     (''qos'', u32_t),
     (''vlan_proto'', u16_t)]"

definition struct_ifla_vf_tx_rate :: ctype where
  "struct_ifla_vf_tx_rate = c_struct [
     (''vf'', u32_t),
     (''rate'', u32_t)]"

definition struct_ifla_vf_rate :: ctype where
  "struct_ifla_vf_rate = c_struct [
     (''vf'', u32_t),
     (''min_tx_rate'', u32_t),
     (''max_tx_rate'', u32_t)]"

definition struct_ifla_vf_spoofchk :: ctype where
  "struct_ifla_vf_spoofchk = c_struct [
     (''vf'', u32_t),
     (''setting'', u32_t)]"

definition struct_ifla_vf_guid :: ctype where
  "struct_ifla_vf_guid = c_struct [
     (''vf'', u32_t),
     (''guid'', u64_t)]"

definition struct_ifla_vf_link_state :: ctype where
  "struct_ifla_vf_link_state = c_struct [
     (''vf'', u32_t),
     (''link_state'', u32_t)]"

definition struct_ifla_vf_rss_query_en :: ctype where
  "struct_ifla_vf_rss_query_en = c_struct [
     (''vf'', u32_t),
     (''setting'', u32_t)]"

definition struct_ifla_vf_trust :: ctype where
  "struct_ifla_vf_trust = c_struct [
     (''vf'', u32_t),
     (''setting'', u32_t)]"

definition struct_ifla_port_vsi :: ctype where
  "struct_ifla_port_vsi = c_struct [
     (''vsi_mgr_id'', u8_t),
     (''vsi_type_id'', Arr u8_t 3),
     (''vsi_type_version'', u8_t),
     (''pad'', Arr u8_t 3)]"

definition struct_if_stats_msg :: ctype where
  "struct_if_stats_msg = c_struct [
     (''family'', u8_t),
     (''pad1'', u8_t),
     (''pad2'', u16_t),
     (''ifindex'', u32_t),
     (''filter_mask'', u32_t)]"

definition struct_ifla_rmnet_flags :: ctype where
  "struct_ifla_rmnet_flags = c_struct [
     (''flags'', u32_t),
     (''mask'', u32_t)]"

definition nl_if_link_structs :: "ctype list" where
  "nl_if_link_structs = [struct_rtnl_link_stats, struct_rtnl_link_stats64, struct_ifla_bridge_id, struct_ifla_cacheinfo,
     struct_ifla_vlan_flags, struct_ifla_vlan_qos_mapping, struct_ifla_vxlan_port_range, struct_ifla_vf_mac,
     struct_ifla_vf_broadcast, struct_ifla_vf_vlan, struct_ifla_vf_tx_rate, struct_ifla_vf_rate,
     struct_ifla_vf_spoofchk, struct_ifla_vf_link_state, struct_ifla_vf_rss_query_en, struct_ifla_vf_trust,
     struct_ifla_port_vsi, struct_if_stats_msg, struct_ifla_rmnet_flags]"

section \<open>\<^verbatim>\<open>include/linux/if_addr.h\<close>\<close>

definition struct_ifaddrmsg :: ctype where
  "struct_ifaddrmsg = c_struct [
     (''ifa_family'', u8_t),
     (''ifa_prefixlen'', u8_t),
     (''ifa_flags'', u8_t),
     (''ifa_scope'', u8_t),
     (''ifa_index'', u32_t)]"

definition struct_ifa_cacheinfo :: ctype where
  "struct_ifa_cacheinfo = c_struct [
     (''ifa_prefered'', u32_t),
     (''ifa_valid'', u32_t),
     (''cstamp'', u32_t),
     (''tstamp'', u32_t)]"

definition nl_if_addr_structs :: "ctype list" where
  "nl_if_addr_structs = [struct_ifaddrmsg, struct_ifa_cacheinfo]"

section \<open>\<^verbatim>\<open>include/linux/neighbour.h\<close>\<close>

definition struct_ndmsg :: ctype where
  "struct_ndmsg = c_struct [
     (''ndm_family'', u8_t),
     (''ndm_pad1'', u8_t),
     (''ndm_pad2'', u16_t),
     (''ndm_ifindex'', u32_t),
     (''ndm_state'', u16_t),
     (''ndm_flags'', u8_t),
     (''ndm_type'', u8_t)]"

definition struct_nda_cacheinfo :: ctype where
  "struct_nda_cacheinfo = c_struct [
     (''ndm_confirmed'', u32_t),
     (''ndm_used'', u32_t),
     (''ndm_updated'', u32_t),
     (''ndm_refcnt'', u32_t)]"

definition struct_ndt_stats :: ctype where
  "struct_ndt_stats = c_struct [
     (''ndts_allocs'', u64_t),
     (''ndts_destroys'', u64_t),
     (''ndts_hash_grows'', u64_t),
     (''ndts_res_failed'', u64_t),
     (''ndts_lookups'', u64_t),
     (''ndts_hits'', u64_t),
     (''ndts_rcv_probes_mcast'', u64_t),
     (''ndts_rcv_probes_ucast'', u64_t),
     (''ndts_periodic_gc_runs'', u64_t),
     (''ndts_forced_gc_runs'', u64_t),
     (''ndts_table_fulls'', u64_t)]"

definition struct_ndtmsg :: ctype where
  "struct_ndtmsg = c_struct [
     (''ndtm_family'', u8_t),
     (''ndtm_pad1'', u8_t),
     (''ndtm_pad2'', u16_t)]"

definition struct_ndt_config :: ctype where
  "struct_ndt_config = c_struct [
     (''ndtc_key_len'', u16_t),
     (''ndtc_entry_size'', u16_t),
     (''ndtc_entries'', u32_t),
     (''ndtc_last_flush'', u32_t),
     (''ndtc_last_rand'', u32_t),
     (''ndtc_hash_rnd'', u32_t),
     (''ndtc_hash_mask'', u32_t),
     (''ndtc_hash_chain_gc'', u32_t),
     (''ndtc_proxy_qlen'', u32_t)]"

definition nl_neighbour_structs :: "ctype list" where
  "nl_neighbour_structs = [struct_ndmsg, struct_nda_cacheinfo, struct_ndt_stats, struct_ndtmsg, struct_ndt_config]"

section \<open>\<^verbatim>\<open>include/linux/nexthop.h\<close>\<close>

definition struct_nhmsg :: ctype where
  "struct_nhmsg = c_struct [
     (''nh_family'', u8_t),
     (''nh_scope'', u8_t),
     (''nh_protocol'', u8_t),
     (''resvd'', u8_t),
     (''nh_flags'', u32_t)]"

definition struct_nexthop_grp :: ctype where
  "struct_nexthop_grp = c_struct [
     (''id'', u32_t),
     (''weight'', u8_t),
     (''resvd1'', u8_t),
     (''resvd2'', u16_t)]"

definition nl_nexthop_structs :: "ctype list" where
  "nl_nexthop_structs = [struct_nhmsg, struct_nexthop_grp]"

section \<open>\<^verbatim>\<open>include/linux/fib_rules.h\<close>\<close>

definition struct_fib_rule_hdr :: ctype where
  "struct_fib_rule_hdr = c_struct [
     (''family'', u8_t),
     (''dst_len'', u8_t),
     (''src_len'', u8_t),
     (''tos'', u8_t),
     (''table'', u8_t),
     (''res1'', u8_t),
     (''res2'', u8_t),
     (''action'', u8_t),
     (''flags'', u32_t)]"

definition struct_fib_rule_uid_range :: ctype where
  "struct_fib_rule_uid_range = c_struct [
     (''start'', u32_t),
     (''end'', u32_t)]"

definition struct_fib_rule_port_range :: ctype where
  "struct_fib_rule_port_range = c_struct [
     (''start'', u16_t),
     (''end'', u16_t)]"

definition nl_fib_rules_structs :: "ctype list" where
  "nl_fib_rules_structs = [struct_fib_rule_hdr, struct_fib_rule_uid_range, struct_fib_rule_port_range]"

section \<open>\<^verbatim>\<open>include/linux/gen_stats.h\<close>\<close>

definition struct_gnet_stats_basic :: ctype where
  "struct_gnet_stats_basic = c_struct [
     (''bytes'', u64_t),
     (''packets'', u32_t)]"

definition struct_gnet_stats_rate_est :: ctype where
  "struct_gnet_stats_rate_est = c_struct [
     (''bps'', u32_t),
     (''pps'', u32_t)]"

definition struct_gnet_stats_rate_est64 :: ctype where
  "struct_gnet_stats_rate_est64 = c_struct [
     (''bps'', u64_t),
     (''pps'', u64_t)]"

definition struct_gnet_stats_queue :: ctype where
  "struct_gnet_stats_queue = c_struct [
     (''qlen'', u32_t),
     (''backlog'', u32_t),
     (''drops'', u32_t),
     (''requeues'', u32_t),
     (''overlimits'', u32_t)]"

definition struct_gnet_estimator :: ctype where
  "struct_gnet_estimator = c_struct [
     (''interval'', u8_t),
     (''ewma_log'', u8_t)]"

definition nl_gen_stats_structs :: "ctype list" where
  "nl_gen_stats_structs = [struct_gnet_stats_rate_est, struct_gnet_stats_rate_est64, struct_gnet_stats_queue, struct_gnet_estimator]"

section \<open>\<^verbatim>\<open>include/linux/pkt_sched.h\<close>\<close>

definition struct_tc_stats :: ctype where
  "struct_tc_stats = c_struct [
     (''bytes'', u64_t),
     (''packets'', u32_t),
     (''drops'', u32_t),
     (''overlimits'', u32_t),
     (''bps'', u32_t),
     (''pps'', u32_t),
     (''qlen'', u32_t),
     (''backlog'', u32_t)]"

definition struct_tc_estimator :: ctype where
  "struct_tc_estimator = c_struct [
     (''interval'', u8_t),
     (''ewma_log'', u8_t)]"

definition struct_tc_ratespec :: ctype where
  "struct_tc_ratespec = c_struct [
     (''cell_log'', u8_t),
     (''linklayer'', u8_t),
     (''overhead'', u16_t),
     (''cell_align'', u16_t),
     (''mpu'', u16_t),
     (''rate'', u32_t)]"

definition struct_tc_sizespec :: ctype where
  "struct_tc_sizespec = c_struct [
     (''cell_log'', u8_t),
     (''size_log'', u8_t),
     (''cell_align'', u16_t),
     (''overhead'', u32_t),
     (''linklayer'', u32_t),
     (''mpu'', u32_t),
     (''mtu'', u32_t),
     (''tsize'', u32_t)]"

definition struct_tc_fifo_qopt :: ctype where
  "struct_tc_fifo_qopt = c_struct [
     (''limit'', u32_t)]"

definition struct_tc_skbprio_qopt :: ctype where
  "struct_tc_skbprio_qopt = c_struct [
     (''limit'', u32_t)]"

definition struct_tc_prio_qopt :: ctype where
  "struct_tc_prio_qopt = c_struct [
     (''bands'', u32_t),
     (''priomap'', Arr u8_t 16)]"

definition struct_tc_multiq_qopt :: ctype where
  "struct_tc_multiq_qopt = c_struct [
     (''bands'', u16_t),
     (''max_bands'', u16_t)]"

definition struct_tc_plug_qopt :: ctype where
  "struct_tc_plug_qopt = c_struct [
     (''action'', u32_t),
     (''limit'', u32_t)]"

definition struct_tc_tbf_qopt :: ctype where
  "struct_tc_tbf_qopt = c_struct [
     (''rate'', struct_tc_ratespec),
     (''peakrate'', struct_tc_ratespec),
     (''limit'', u32_t),
     (''buffer'', u32_t),
     (''mtu'', u32_t)]"

definition struct_tc_sfq_qopt :: ctype where
  "struct_tc_sfq_qopt = c_struct [
     (''quantum'', u32_t),
     (''perturb_period'', u32_t),
     (''limit'', u32_t),
     (''divisor'', u32_t),
     (''flows'', u32_t)]"

definition struct_tc_sfqred_stats :: ctype where
  "struct_tc_sfqred_stats = c_struct [
     (''prob_drop'', u32_t),
     (''forced_drop'', u32_t),
     (''prob_mark'', u32_t),
     (''forced_mark'', u32_t),
     (''prob_mark_head'', u32_t),
     (''forced_mark_head'', u32_t)]"

definition struct_tc_sfq_qopt_v1 :: ctype where
  "struct_tc_sfq_qopt_v1 = c_struct [
     (''v0'', struct_tc_sfq_qopt),
     (''depth'', u32_t),
     (''headdrop'', u32_t),
     (''limit'', u32_t),
     (''qth_min'', u32_t),
     (''qth_max'', u32_t),
     (''Wlog'', u8_t),
     (''Plog'', u8_t),
     (''Scell_log'', u8_t),
     (''flags'', u8_t),
     (''max_P'', u32_t),
     (''stats'', struct_tc_sfqred_stats)]"

definition struct_tc_sfq_xstats :: ctype where
  "struct_tc_sfq_xstats = c_struct [
     (''allot'', u32_t)]"

definition struct_tc_red_qopt :: ctype where
  "struct_tc_red_qopt = c_struct [
     (''limit'', u32_t),
     (''qth_min'', u32_t),
     (''qth_max'', u32_t),
     (''Wlog'', u8_t),
     (''Plog'', u8_t),
     (''Scell_log'', u8_t),
     (''flags'', u8_t)]"

definition struct_tc_red_xstats :: ctype where
  "struct_tc_red_xstats = c_struct [
     (''early'', u32_t),
     (''pdrop'', u32_t),
     (''other'', u32_t),
     (''marked'', u32_t)]"

definition struct_tc_gred_qopt :: ctype where
  "struct_tc_gred_qopt = c_struct [
     (''limit'', u32_t),
     (''qth_min'', u32_t),
     (''qth_max'', u32_t),
     (''DP'', u32_t),
     (''backlog'', u32_t),
     (''qave'', u32_t),
     (''forced'', u32_t),
     (''early'', u32_t),
     (''other'', u32_t),
     (''pdrop'', u32_t),
     (''Wlog'', u8_t),
     (''Plog'', u8_t),
     (''Scell_log'', u8_t),
     (''prio'', u8_t),
     (''packets'', u32_t),
     (''bytesin'', u32_t)]"

definition struct_tc_gred_sopt :: ctype where
  "struct_tc_gred_sopt = c_struct [
     (''DPs'', u32_t),
     (''def_DP'', u32_t),
     (''grio'', u8_t),
     (''flags'', u8_t),
     (''pad1'', u16_t)]"

definition struct_tc_choke_qopt :: ctype where
  "struct_tc_choke_qopt = c_struct [
     (''limit'', u32_t),
     (''qth_min'', u32_t),
     (''qth_max'', u32_t),
     (''Wlog'', u8_t),
     (''Plog'', u8_t),
     (''Scell_log'', u8_t),
     (''flags'', u8_t)]"

definition struct_tc_choke_xstats :: ctype where
  "struct_tc_choke_xstats = c_struct [
     (''early'', u32_t),
     (''pdrop'', u32_t),
     (''other'', u32_t),
     (''marked'', u32_t),
     (''matched'', u32_t)]"

definition struct_tc_htb_opt :: ctype where
  "struct_tc_htb_opt = c_struct [
     (''rate'', struct_tc_ratespec),
     (''ceil'', struct_tc_ratespec),
     (''buffer'', u32_t),
     (''cbuffer'', u32_t),
     (''quantum'', u32_t),
     (''level'', u32_t),
     (''prio'', u32_t)]"

definition struct_tc_htb_glob :: ctype where
  "struct_tc_htb_glob = c_struct [
     (''version'', u32_t),
     (''rate2quantum'', u32_t),
     (''defcls'', u32_t),
     (''debug'', u32_t),
     (''direct_pkts'', u32_t)]"

definition struct_tc_htb_xstats :: ctype where
  "struct_tc_htb_xstats = c_struct [
     (''lends'', u32_t),
     (''borrows'', u32_t),
     (''giants'', u32_t),
     (''tokens'', u32_t),
     (''ctokens'', u32_t)]"

definition struct_tc_hfsc_qopt :: ctype where
  "struct_tc_hfsc_qopt = c_struct [
     (''defcls'', u16_t)]"

definition struct_tc_service_curve :: ctype where
  "struct_tc_service_curve = c_struct [
     (''m1'', u32_t),
     (''d'', u32_t),
     (''m2'', u32_t)]"

definition struct_tc_hfsc_stats :: ctype where
  "struct_tc_hfsc_stats = c_struct [
     (''work'', u64_t),
     (''rtwork'', u64_t),
     (''period'', u32_t),
     (''level'', u32_t)]"

definition struct_tc_cbq_lssopt :: ctype where
  "struct_tc_cbq_lssopt = c_struct [
     (''change'', u8_t),
     (''flags'', u8_t),
     (''ewma_log'', u8_t),
     (''level'', u8_t),
     (''maxidle'', u32_t),
     (''minidle'', u32_t),
     (''offtime'', u32_t),
     (''avpkt'', u32_t)]"

definition struct_tc_cbq_wrropt :: ctype where
  "struct_tc_cbq_wrropt = c_struct [
     (''flags'', u8_t),
     (''priority'', u8_t),
     (''cpriority'', u8_t),
     (''__reserved'', u8_t),
     (''allot'', u32_t),
     (''weight'', u32_t)]"

definition struct_tc_cbq_ovl :: ctype where
  "struct_tc_cbq_ovl = c_struct [
     (''strategy'', u8_t),
     (''priority2'', u8_t),
     (''pad'', u16_t),
     (''penalty'', u32_t)]"

definition struct_tc_cbq_police :: ctype where
  "struct_tc_cbq_police = c_struct [
     (''police'', u8_t),
     (''__res1'', u8_t),
     (''__res2'', u16_t)]"

definition struct_tc_cbq_fopt :: ctype where
  "struct_tc_cbq_fopt = c_struct [
     (''split'', u32_t),
     (''defmap'', u32_t),
     (''defchange'', u32_t)]"

definition struct_tc_cbq_xstats :: ctype where
  "struct_tc_cbq_xstats = c_struct [
     (''borrows'', u32_t),
     (''overactions'', u32_t),
     (''avgidle'', u32_t),
     (''undertime'', u32_t)]"

definition struct_tc_netem_qopt :: ctype where
  "struct_tc_netem_qopt = c_struct [
     (''latency'', u32_t),
     (''limit'', u32_t),
     (''loss'', u32_t),
     (''gap'', u32_t),
     (''duplicate'', u32_t),
     (''jitter'', u32_t)]"

definition struct_tc_netem_corr :: ctype where
  "struct_tc_netem_corr = c_struct [
     (''delay_corr'', u32_t),
     (''loss_corr'', u32_t),
     (''dup_corr'', u32_t)]"

definition struct_tc_netem_reorder :: ctype where
  "struct_tc_netem_reorder = c_struct [
     (''probability'', u32_t),
     (''correlation'', u32_t)]"

definition struct_tc_netem_corrupt :: ctype where
  "struct_tc_netem_corrupt = c_struct [
     (''probability'', u32_t),
     (''correlation'', u32_t)]"

definition struct_tc_netem_rate :: ctype where
  "struct_tc_netem_rate = c_struct [
     (''rate'', u32_t),
     (''packet_overhead'', u32_t),
     (''cell_size'', u32_t),
     (''cell_overhead'', u32_t)]"

definition struct_tc_netem_slot :: ctype where
  "struct_tc_netem_slot = c_struct [
     (''min_delay'', u64_t),
     (''max_delay'', u64_t),
     (''max_packets'', u32_t),
     (''max_bytes'', u32_t),
     (''dist_delay'', u64_t),
     (''dist_jitter'', u64_t)]"

definition struct_tc_netem_gimodel :: ctype where
  "struct_tc_netem_gimodel = c_struct [
     (''p13'', u32_t),
     (''p31'', u32_t),
     (''p32'', u32_t),
     (''p14'', u32_t),
     (''p23'', u32_t)]"

definition struct_tc_netem_gemodel :: ctype where
  "struct_tc_netem_gemodel = c_struct [
     (''p'', u32_t),
     (''r'', u32_t),
     (''h'', u32_t),
     (''k1'', u32_t)]"

definition struct_tc_drr_stats :: ctype where
  "struct_tc_drr_stats = c_struct [
     (''deficit'', u32_t)]"

definition struct_tc_mqprio_qopt :: ctype where
  "struct_tc_mqprio_qopt = c_struct [
     (''num_tc'', u8_t),
     (''prio_tc_map'', Arr u8_t 16),
     (''hw'', u8_t),
     (''count'', Arr u16_t 16),
     (''offset'', Arr u16_t 16)]"

definition struct_tc_sfb_qopt :: ctype where
  "struct_tc_sfb_qopt = c_struct [
     (''rehash_interval'', u32_t),
     (''warmup_time'', u32_t),
     (''max'', u32_t),
     (''bin_size'', u32_t),
     (''increment'', u32_t),
     (''decrement'', u32_t),
     (''limit'', u32_t),
     (''penalty_rate'', u32_t),
     (''penalty_burst'', u32_t)]"

definition struct_tc_sfb_xstats :: ctype where
  "struct_tc_sfb_xstats = c_struct [
     (''earlydrop'', u32_t),
     (''penaltydrop'', u32_t),
     (''bucketdrop'', u32_t),
     (''queuedrop'', u32_t),
     (''childdrop'', u32_t),
     (''marked'', u32_t),
     (''maxqlen'', u32_t),
     (''maxprob'', u32_t),
     (''avgprob'', u32_t)]"

definition struct_tc_qfq_stats :: ctype where
  "struct_tc_qfq_stats = c_struct [
     (''weight'', u32_t),
     (''lmax'', u32_t)]"

definition struct_tc_codel_xstats :: ctype where
  "struct_tc_codel_xstats = c_struct [
     (''maxpacket'', u32_t),
     (''count'', u32_t),
     (''lastcount'', u32_t),
     (''ldelay'', u32_t),
     (''drop_next'', u32_t),
     (''drop_overlimit'', u32_t),
     (''ecn_mark'', u32_t),
     (''dropping'', u32_t),
     (''ce_mark'', u32_t)]"

definition struct_tc_fq_codel_qd_stats :: ctype where
  "struct_tc_fq_codel_qd_stats = c_struct [
     (''maxpacket'', u32_t),
     (''drop_overlimit'', u32_t),
     (''ecn_mark'', u32_t),
     (''new_flow_count'', u32_t),
     (''new_flows_len'', u32_t),
     (''old_flows_len'', u32_t),
     (''ce_mark'', u32_t),
     (''memory_usage'', u32_t),
     (''drop_overmemory'', u32_t)]"

definition struct_tc_fq_codel_cl_stats :: ctype where
  "struct_tc_fq_codel_cl_stats = c_struct [
     (''deficit'', u32_t),
     (''ldelay'', u32_t),
     (''count'', u32_t),
     (''lastcount'', u32_t),
     (''dropping'', u32_t),
     (''drop_next'', u32_t)]"

definition struct_tc_fq_codel_xstats :: ctype where
  "struct_tc_fq_codel_xstats = c_struct [
     (''type'', u32_t),
     ('''', c_union [ (''qdisc_stats'', struct_tc_fq_codel_qd_stats), (''class_stats'', struct_tc_fq_codel_cl_stats)])]"

definition struct_tc_fq_qd_stats :: ctype where
  "struct_tc_fq_qd_stats = c_struct [
     (''gc_flows'', u64_t),
     (''highprio_packets'', u64_t),
     (''tcp_retrans'', u64_t),
     (''throttled'', u64_t),
     (''flows_plimit'', u64_t),
     (''pkts_too_long'', u64_t),
     (''allocation_errors'', u64_t),
     (''time_next_delayed_flow'', u64_t),
     (''flows'', u32_t),
     (''inactive_flows'', u32_t),
     (''throttled_flows'', u32_t),
     (''unthrottle_latency_ns'', u32_t),
     (''ce_mark'', u64_t),
     (''horizon_drops'', u64_t),
     (''horizon_caps'', u64_t)]"

definition struct_tc_hhf_xstats :: ctype where
  "struct_tc_hhf_xstats = c_struct [
     (''drop_overlimit'', u32_t),
     (''hh_overlimit'', u32_t),
     (''hh_tot_count'', u32_t),
     (''hh_cur_count'', u32_t)]"

definition struct_tc_pie_xstats :: ctype where
  "struct_tc_pie_xstats = c_struct [
     (''prob'', u64_t),
     (''delay'', u32_t),
     (''avg_dq_rate'', u32_t),
     (''dq_rate_estimating'', u32_t),
     (''packets_in'', u32_t),
     (''dropped'', u32_t),
     (''overlimit'', u32_t),
     (''maxq'', u32_t),
     (''ecn_mark'', u32_t)]"

definition struct_tc_fq_pie_xstats :: ctype where
  "struct_tc_fq_pie_xstats = c_struct [
     (''packets_in'', u32_t),
     (''dropped'', u32_t),
     (''overlimit'', u32_t),
     (''overmemory'', u32_t),
     (''ecn_mark'', u32_t),
     (''new_flow_count'', u32_t),
     (''new_flows_len'', u32_t),
     (''old_flows_len'', u32_t),
     (''memory_usage'', u32_t)]"

definition struct_tc_cbs_qopt :: ctype where
  "struct_tc_cbs_qopt = c_struct [
     (''offload'', u8_t),
     (''_pad'', Arr u8_t 3),
     (''hicredit'', u32_t),
     (''locredit'', u32_t),
     (''idleslope'', u32_t),
     (''sendslope'', u32_t)]"

definition struct_tc_etf_qopt :: ctype where
  "struct_tc_etf_qopt = c_struct [
     (''delta'', u32_t),
     (''clockid'', u32_t),
     (''flags'', u32_t)]"

definition nl_pkt_sched_structs :: "ctype list" where
  "nl_pkt_sched_structs = [struct_tc_estimator, struct_tc_ratespec, struct_tc_sizespec, struct_tc_fifo_qopt, struct_tc_skbprio_qopt,
     struct_tc_prio_qopt, struct_tc_multiq_qopt, struct_tc_plug_qopt, struct_tc_tbf_qopt, struct_tc_sfq_qopt,
     struct_tc_sfqred_stats, struct_tc_sfq_qopt_v1, struct_tc_sfq_xstats, struct_tc_red_qopt, struct_tc_red_xstats,
     struct_tc_gred_qopt, struct_tc_gred_sopt, struct_tc_choke_qopt, struct_tc_choke_xstats, struct_tc_htb_opt,
     struct_tc_htb_glob, struct_tc_htb_xstats, struct_tc_hfsc_qopt, struct_tc_service_curve, struct_tc_hfsc_stats,
     struct_tc_cbq_lssopt, struct_tc_cbq_wrropt, struct_tc_cbq_ovl, struct_tc_cbq_police, struct_tc_cbq_fopt,
     struct_tc_cbq_xstats, struct_tc_netem_qopt, struct_tc_netem_corr, struct_tc_netem_reorder,
     struct_tc_netem_corrupt, struct_tc_netem_rate, struct_tc_netem_slot, struct_tc_netem_gimodel,
     struct_tc_netem_gemodel, struct_tc_drr_stats, struct_tc_mqprio_qopt, struct_tc_sfb_qopt, struct_tc_sfb_xstats,
     struct_tc_qfq_stats, struct_tc_codel_xstats, struct_tc_fq_codel_qd_stats, struct_tc_fq_codel_cl_stats,
     struct_tc_fq_codel_xstats, struct_tc_fq_qd_stats, struct_tc_hhf_xstats, struct_tc_pie_xstats,
     struct_tc_fq_pie_xstats, struct_tc_cbs_qopt, struct_tc_etf_qopt]"

section \<open>\<^verbatim>\<open>include/linux/pkt_cls.h\<close>\<close>

definition struct_tc_police :: ctype where
  "struct_tc_police = c_struct [
     (''index'', u32_t),
     (''action'', u32_t),
     (''limit'', u32_t),
     (''burst'', u32_t),
     (''mtu'', u32_t),
     (''rate'', struct_tc_ratespec),
     (''peakrate'', struct_tc_ratespec),
     (''refcnt'', u32_t),
     (''bindcnt'', u32_t),
     (''capab'', u32_t)]"

definition struct_tcf_t :: ctype where
  "struct_tcf_t = c_struct [
     (''install'', u64_t),
     (''lastuse'', u64_t),
     (''expires'', u64_t),
     (''firstuse'', u64_t)]"

definition struct_tc_cnt :: ctype where
  "struct_tc_cnt = c_struct [
     (''refcnt'', u32_t),
     (''bindcnt'', u32_t)]"

definition struct_tc_u32_key :: ctype where
  "struct_tc_u32_key = c_struct [
     (''mask'', u32_t),
     (''val'', u32_t),
     (''off'', u32_t),
     (''offmask'', u32_t)]"

definition struct_tc_u32_sel :: ctype where
  "struct_tc_u32_sel = c_struct [
     (''flags'', u8_t),
     (''offshift'', u8_t),
     (''nkeys'', u8_t),
     (''offmask'', u16_t),
     (''off'', u16_t),
     (''offoff'', u16_t),
     (''hoff'', u16_t),
     (''hmask'', u32_t),
     (''keys'', Arr struct_tc_u32_key 0)]"

definition struct_tc_u32_mark :: ctype where
  "struct_tc_u32_mark = c_struct [
     (''val'', u32_t),
     (''mask'', u32_t),
     (''success'', u32_t)]"

definition struct_tc_u32_pcnt :: ctype where
  "struct_tc_u32_pcnt = c_struct [
     (''rcnt'', u64_t),
     (''rhit'', u64_t),
     (''kcnts'', Arr u64_t 0)]"

definition struct_tc_rsvp_gpi :: ctype where
  "struct_tc_rsvp_gpi = c_struct [
     (''key'', u32_t),
     (''mask'', u32_t),
     (''offset'', u32_t)]"

definition struct_tc_rsvp_pinfo :: ctype where
  "struct_tc_rsvp_pinfo = c_struct [
     (''dpi'', struct_tc_rsvp_gpi),
     (''spi'', struct_tc_rsvp_gpi),
     (''protocol'', u8_t),
     (''tunnelid'', u8_t),
     (''tunnelhdr'', u8_t),
     (''pad'', u8_t)]"

definition struct_tc_basic_pcnt :: ctype where
  "struct_tc_basic_pcnt = c_struct [
     (''rcnt'', u64_t),
     (''rhit'', u64_t)]"

definition struct_tc_matchall_pcnt :: ctype where
  "struct_tc_matchall_pcnt = c_struct [
     (''rhit'', u64_t)]"

definition struct_tcf_ematch_tree_hdr :: ctype where
  "struct_tcf_ematch_tree_hdr = c_struct [
     (''nmatches'', u16_t),
     (''progid'', u16_t)]"

definition struct_tcf_ematch_hdr :: ctype where
  "struct_tcf_ematch_hdr = c_struct [
     (''matchid'', u16_t),
     (''kind'', u16_t),
     (''flags'', u16_t),
     (''pad'', u16_t)]"

definition nl_pkt_cls_structs :: "ctype list" where
  "nl_pkt_cls_structs = [struct_tc_police, struct_tcf_t, struct_tc_cnt, struct_tc_u32_key, struct_tc_u32_mark, struct_tc_u32_pcnt,
     struct_tc_rsvp_gpi, struct_tc_rsvp_pinfo, struct_tc_basic_pcnt, struct_tc_matchall_pcnt,
     struct_tcf_ematch_tree_hdr, struct_tcf_ematch_hdr]"

section \<open>\<^verbatim>\<open>include/linux/tc_act/tc_gact.h\<close>\<close>

definition struct_tc_gact :: ctype where
  "struct_tc_gact = c_struct [
     (''index'', u32_t),
     (''capab'', u32_t),
     (''action'', u32_t),
     (''refcnt'', u32_t),
     (''bindcnt'', u32_t)]"

definition struct_tc_gact_p :: ctype where
  "struct_tc_gact_p = c_struct [
     (''ptype'', u16_t),
     (''pval'', u16_t),
     (''paction'', u32_t)]"

definition nl_tc_act_tc_gact_structs :: "ctype list" where
  "nl_tc_act_tc_gact_structs = [struct_tc_gact, struct_tc_gact_p]"

section \<open>\<^verbatim>\<open>include/linux/tc_act/tc_mirred.h\<close>\<close>

definition struct_tc_mirred :: ctype where
  "struct_tc_mirred = c_struct [
     (''index'', u32_t),
     (''capab'', u32_t),
     (''action'', u32_t),
     (''refcnt'', u32_t),
     (''bindcnt'', u32_t),
     (''eaction'', u32_t),
     (''ifindex'', u32_t)]"

definition nl_tc_act_tc_mirred_structs :: "ctype list" where
  "nl_tc_act_tc_mirred_structs = [struct_tc_mirred]"

section \<open>\<^verbatim>\<open>include/linux/tc_act/tc_pedit.h\<close>\<close>

definition struct_tc_pedit_key :: ctype where
  "struct_tc_pedit_key = c_struct [
     (''mask'', u32_t),
     (''val'', u32_t),
     (''off'', u32_t),
     (''at'', u32_t),
     (''offmask'', u32_t),
     (''shift'', u32_t)]"

definition struct_tc_pedit_sel :: ctype where
  "struct_tc_pedit_sel = c_struct [
     (''index'', u32_t),
     (''capab'', u32_t),
     (''action'', u32_t),
     (''refcnt'', u32_t),
     (''bindcnt'', u32_t),
     (''nkeys'', u8_t),
     (''flags'', u8_t),
     (''keys'', Arr struct_tc_pedit_key 0)]"

definition nl_tc_act_tc_pedit_structs :: "ctype list" where
  "nl_tc_act_tc_pedit_structs = [struct_tc_pedit_key]"

section \<open>\<^verbatim>\<open>include/linux/tc_act/tc_vlan.h\<close>\<close>

definition struct_tc_vlan :: ctype where
  "struct_tc_vlan = c_struct [
     (''index'', u32_t),
     (''capab'', u32_t),
     (''action'', u32_t),
     (''refcnt'', u32_t),
     (''bindcnt'', u32_t),
     (''v_action'', u32_t)]"

definition nl_tc_act_tc_vlan_structs :: "ctype list" where
  "nl_tc_act_tc_vlan_structs = [struct_tc_vlan]"

section \<open>\<^verbatim>\<open>include/linux/tc_act/tc_skbedit.h\<close>\<close>

definition struct_tc_skbedit :: ctype where
  "struct_tc_skbedit = c_struct [
     (''index'', u32_t),
     (''capab'', u32_t),
     (''action'', u32_t),
     (''refcnt'', u32_t),
     (''bindcnt'', u32_t)]"

definition nl_tc_act_tc_skbedit_structs :: "ctype list" where
  "nl_tc_act_tc_skbedit_structs = [struct_tc_skbedit]"

section \<open>\<^verbatim>\<open>include/linux/tc_act/tc_ct.h\<close>\<close>

definition struct_tc_ct :: ctype where
  "struct_tc_ct = c_struct [
     (''index'', u32_t),
     (''capab'', u32_t),
     (''action'', u32_t),
     (''refcnt'', u32_t),
     (''bindcnt'', u32_t)]"

definition nl_tc_act_tc_ct_structs :: "ctype list" where
  "nl_tc_act_tc_ct_structs = [struct_tc_ct]"

section \<open>\<^verbatim>\<open>include/linux/tc_act/tc_mpls.h\<close>\<close>

definition struct_tc_mpls :: ctype where
  "struct_tc_mpls = c_struct [
     (''index'', u32_t),
     (''capab'', u32_t),
     (''action'', u32_t),
     (''refcnt'', u32_t),
     (''bindcnt'', u32_t),
     (''m_action'', u32_t)]"

definition nl_tc_act_tc_mpls_structs :: "ctype list" where
  "nl_tc_act_tc_mpls_structs = [struct_tc_mpls]"

section \<open>\<^verbatim>\<open>include/linux/tc_act/tc_bpf.h\<close>\<close>

definition struct_tc_act_bpf :: ctype where
  "struct_tc_act_bpf = c_struct [
     (''index'', u32_t),
     (''capab'', u32_t),
     (''action'', u32_t),
     (''refcnt'', u32_t),
     (''bindcnt'', u32_t)]"

definition nl_tc_act_tc_bpf_structs :: "ctype list" where
  "nl_tc_act_tc_bpf_structs = [struct_tc_act_bpf]"

section \<open>\<^verbatim>\<open>include/linux/tc_act/tc_connmark.h\<close>\<close>

definition struct_tc_connmark :: ctype where
  "struct_tc_connmark = c_struct [
     (''index'', u32_t),
     (''capab'', u32_t),
     (''action'', u32_t),
     (''refcnt'', u32_t),
     (''bindcnt'', u32_t),
     (''zone'', u16_t)]"

section \<open>\<^verbatim>\<open>include/linux/tc_act/tc_csum.h\<close>\<close>

definition struct_tc_csum :: ctype where
  "struct_tc_csum = c_struct [
     (''index'', u32_t),
     (''capab'', u32_t),
     (''action'', u32_t),
     (''refcnt'', u32_t),
     (''bindcnt'', u32_t),
     (''update_flags'', u32_t)]"

definition nl_tc_act_tc_csum_structs :: "ctype list" where
  "nl_tc_act_tc_csum_structs = [struct_tc_csum]"

section \<open>\<^verbatim>\<open>include/linux/tc_act/tc_ctinfo.h\<close>\<close>

definition struct_tc_ctinfo :: ctype where
  "struct_tc_ctinfo = c_struct [
     (''index'', u32_t),
     (''capab'', u32_t),
     (''action'', u32_t),
     (''refcnt'', u32_t),
     (''bindcnt'', u32_t)]"

definition nl_tc_act_tc_ctinfo_structs :: "ctype list" where
  "nl_tc_act_tc_ctinfo_structs = [struct_tc_ctinfo]"

section \<open>\<^verbatim>\<open>include/linux/tc_act/tc_defact.h\<close>\<close>

definition struct_tc_defact :: ctype where
  "struct_tc_defact = c_struct [
     (''index'', u32_t),
     (''capab'', u32_t),
     (''action'', u32_t),
     (''refcnt'', u32_t),
     (''bindcnt'', u32_t)]"

definition nl_tc_act_tc_defact_structs :: "ctype list" where
  "nl_tc_act_tc_defact_structs = [struct_tc_defact]"

section \<open>\<^verbatim>\<open>include/linux/tc_act/tc_gate.h\<close>\<close>

definition struct_tc_gate :: ctype where
  "struct_tc_gate = c_struct [
     (''index'', u32_t),
     (''capab'', u32_t),
     (''action'', u32_t),
     (''refcnt'', u32_t),
     (''bindcnt'', u32_t)]"

definition nl_tc_act_tc_gate_structs :: "ctype list" where
  "nl_tc_act_tc_gate_structs = [struct_tc_gate]"

section \<open>\<^verbatim>\<open>include/linux/tc_act/tc_ife.h\<close>\<close>

definition struct_tc_ife :: ctype where
  "struct_tc_ife = c_struct [
     (''index'', u32_t),
     (''capab'', u32_t),
     (''action'', u32_t),
     (''refcnt'', u32_t),
     (''bindcnt'', u32_t),
     (''flags'', u16_t)]"

section \<open>\<^verbatim>\<open>include/linux/tc_act/tc_nat.h\<close>\<close>

definition struct_tc_nat :: ctype where
  "struct_tc_nat = c_struct [
     (''index'', u32_t),
     (''capab'', u32_t),
     (''action'', u32_t),
     (''refcnt'', u32_t),
     (''bindcnt'', u32_t),
     (''old_addr'', u32_t),
     (''new_addr'', u32_t),
     (''mask'', u32_t),
     (''flags'', u32_t)]"

definition nl_tc_act_tc_nat_structs :: "ctype list" where
  "nl_tc_act_tc_nat_structs = [struct_tc_nat]"

section \<open>\<^verbatim>\<open>include/linux/tc_act/tc_sample.h\<close>\<close>

definition struct_tc_sample :: ctype where
  "struct_tc_sample = c_struct [
     (''index'', u32_t),
     (''capab'', u32_t),
     (''action'', u32_t),
     (''refcnt'', u32_t),
     (''bindcnt'', u32_t)]"

definition nl_tc_act_tc_sample_structs :: "ctype list" where
  "nl_tc_act_tc_sample_structs = [struct_tc_sample]"

section \<open>\<^verbatim>\<open>include/linux/tc_act/tc_skbmod.h\<close>\<close>

definition struct_tc_skbmod :: ctype where
  "struct_tc_skbmod = c_struct [
     (''index'', u32_t),
     (''capab'', u32_t),
     (''action'', u32_t),
     (''refcnt'', u32_t),
     (''bindcnt'', u32_t),
     (''flags'', u64_t)]"

section \<open>\<^verbatim>\<open>include/linux/tc_act/tc_tunnel_key.h\<close>\<close>

definition struct_tc_tunnel_key :: ctype where
  "struct_tc_tunnel_key = c_struct [
     (''index'', u32_t),
     (''capab'', u32_t),
     (''action'', u32_t),
     (''refcnt'', u32_t),
     (''bindcnt'', u32_t),
     (''t_action'', u32_t)]"

definition nl_tc_act_tc_tunnel_key_structs :: "ctype list" where
  "nl_tc_act_tc_tunnel_key_structs = [struct_tc_tunnel_key]"

section \<open>\<^verbatim>\<open>include/linux/sock_diag.h\<close>\<close>

definition struct_sock_diag_req :: ctype where
  "struct_sock_diag_req = c_struct [
     (''sdiag_family'', u8_t),
     (''sdiag_protocol'', u8_t)]"

definition nl_sock_diag_structs :: "ctype list" where
  "nl_sock_diag_structs = [struct_sock_diag_req]"

section \<open>\<^verbatim>\<open>include/linux/inet_diag.h\<close>\<close>

definition struct_inet_diag_sockid :: ctype where
  "struct_inet_diag_sockid = c_struct [
     (''idiag_sport'', u16_t),
     (''idiag_dport'', u16_t),
     (''idiag_src'', Arr u32_t 4),
     (''idiag_dst'', Arr u32_t 4),
     (''idiag_if'', u32_t),
     (''idiag_cookie'', Arr u32_t 2)]"

definition struct_inet_diag_req :: ctype where
  "struct_inet_diag_req = c_struct [
     (''idiag_family'', u8_t),
     (''idiag_src_len'', u8_t),
     (''idiag_dst_len'', u8_t),
     (''idiag_ext'', u8_t),
     (''id'', struct_inet_diag_sockid),
     (''idiag_states'', u32_t),
     (''idiag_dbs'', u32_t)]"

definition struct_inet_diag_req_v2 :: ctype where
  "struct_inet_diag_req_v2 = c_struct [
     (''sdiag_family'', u8_t),
     (''sdiag_protocol'', u8_t),
     (''idiag_ext'', u8_t),
     (''pad'', u8_t),
     (''idiag_states'', u32_t),
     (''id'', struct_inet_diag_sockid)]"

definition struct_inet_diag_req_raw :: ctype where
  "struct_inet_diag_req_raw = c_struct [
     (''sdiag_family'', u8_t),
     (''sdiag_protocol'', u8_t),
     (''idiag_ext'', u8_t),
     (''sdiag_raw_protocol'', u8_t),
     (''idiag_states'', u32_t),
     (''id'', struct_inet_diag_sockid)]"

definition struct_inet_diag_bc_op :: ctype where
  "struct_inet_diag_bc_op = c_struct [
     (''code'', u8_t),
     (''yes'', u8_t),
     (''no'', u16_t)]"

definition struct_inet_diag_hostcond :: ctype where
  "struct_inet_diag_hostcond = c_struct [
     (''family'', u8_t),
     (''prefix_len'', u8_t),
     (''port'', u32_t),
     (''addr'', Arr u32_t 0)]"

definition struct_inet_diag_markcond :: ctype where
  "struct_inet_diag_markcond = c_struct [
     (''mark'', u32_t),
     (''mask'', u32_t)]"

definition struct_inet_diag_msg :: ctype where
  "struct_inet_diag_msg = c_struct [
     (''idiag_family'', u8_t),
     (''idiag_state'', u8_t),
     (''idiag_timer'', u8_t),
     (''idiag_retrans'', u8_t),
     (''id'', struct_inet_diag_sockid),
     (''idiag_expires'', u32_t),
     (''idiag_rqueue'', u32_t),
     (''idiag_wqueue'', u32_t),
     (''idiag_uid'', u32_t),
     (''idiag_inode'', u32_t)]"

definition struct_inet_diag_meminfo :: ctype where
  "struct_inet_diag_meminfo = c_struct [
     (''idiag_rmem'', u32_t),
     (''idiag_wmem'', u32_t),
     (''idiag_fmem'', u32_t),
     (''idiag_tmem'', u32_t)]"

definition struct_inet_diag_sockopt :: ctype where
  "struct_inet_diag_sockopt = c_struct [
     (''recverr_is_icsk_freebind_hdrincl_mc_loop_transparent_mc_all_nodefrag'', u8_t),
     (''bind_address_no_port_recverr_rfc4884_defer_connect_unused'', u8_t)]"

definition struct_tcpvegas_info :: ctype where
  "struct_tcpvegas_info = c_struct [
     (''tcpv_enabled'', u32_t),
     (''tcpv_rttcnt'', u32_t),
     (''tcpv_rtt'', u32_t),
     (''tcpv_minrtt'', u32_t)]"

definition struct_tcp_dctcp_info :: ctype where
  "struct_tcp_dctcp_info = c_struct [
     (''dctcp_enabled'', u16_t),
     (''dctcp_ce_state'', u16_t),
     (''dctcp_alpha'', u32_t),
     (''dctcp_ab_ecn'', u32_t),
     (''dctcp_ab_tot'', u32_t)]"

definition struct_tcp_bbr_info :: ctype where
  "struct_tcp_bbr_info = c_struct [
     (''bbr_bw_lo'', u32_t),
     (''bbr_bw_hi'', u32_t),
     (''bbr_min_rtt'', u32_t),
     (''bbr_pacing_gain'', u32_t),
     (''bbr_cwnd_gain'', u32_t)]"

definition union_tcp_cc_info :: ctype where
  "union_tcp_cc_info = c_union [
     (''vegas'', struct_tcpvegas_info),
     (''dctcp'', struct_tcp_dctcp_info),
     (''bbr'', struct_tcp_bbr_info)]"

definition nl_inet_diag_structs :: "ctype list" where
  "nl_inet_diag_structs = [struct_inet_diag_sockid, struct_inet_diag_req, struct_inet_diag_req_v2, struct_inet_diag_req_raw,
     struct_inet_diag_bc_op, struct_inet_diag_markcond, struct_inet_diag_msg, struct_inet_diag_meminfo,
     struct_inet_diag_sockopt, struct_tcpvegas_info, struct_tcp_dctcp_info, struct_tcp_bbr_info, union_tcp_cc_info]"

section \<open>\<^verbatim>\<open>include/linux/unix_diag.h\<close>\<close>

definition struct_unix_diag_req :: ctype where
  "struct_unix_diag_req = c_struct [
     (''sdiag_family'', u8_t),
     (''sdiag_protocol'', u8_t),
     (''pad'', u16_t),
     (''udiag_states'', u32_t),
     (''udiag_ino'', u32_t),
     (''udiag_show'', u32_t),
     (''udiag_cookie'', Arr u32_t 2)]"

definition struct_unix_diag_msg :: ctype where
  "struct_unix_diag_msg = c_struct [
     (''udiag_family'', u8_t),
     (''udiag_type'', u8_t),
     (''udiag_state'', u8_t),
     (''pad'', u8_t),
     (''udiag_ino'', u32_t),
     (''udiag_cookie'', Arr u32_t 2)]"

definition struct_unix_diag_vfs :: ctype where
  "struct_unix_diag_vfs = c_struct [
     (''udiag_vfs_ino'', u32_t),
     (''udiag_vfs_dev'', u32_t)]"

definition struct_unix_diag_rqlen :: ctype where
  "struct_unix_diag_rqlen = c_struct [
     (''udiag_rqueue'', u32_t),
     (''udiag_wqueue'', u32_t)]"

definition nl_unix_diag_structs :: "ctype list" where
  "nl_unix_diag_structs = [struct_unix_diag_req, struct_unix_diag_msg, struct_unix_diag_vfs, struct_unix_diag_rqlen]"

section \<open>\<^verbatim>\<open>include/linux/packet_diag.h\<close>\<close>

definition struct_packet_diag_req :: ctype where
  "struct_packet_diag_req = c_struct [
     (''sdiag_family'', u8_t),
     (''sdiag_protocol'', u8_t),
     (''pad'', u16_t),
     (''pdiag_ino'', u32_t),
     (''pdiag_show'', u32_t),
     (''pdiag_cookie'', Arr u32_t 2)]"

definition struct_packet_diag_msg :: ctype where
  "struct_packet_diag_msg = c_struct [
     (''pdiag_family'', u8_t),
     (''pdiag_type'', u8_t),
     (''pdiag_num'', u16_t),
     (''pdiag_ino'', u32_t),
     (''pdiag_cookie'', Arr u32_t 2)]"

definition struct_packet_diag_info :: ctype where
  "struct_packet_diag_info = c_struct [
     (''pdi_index'', u32_t),
     (''pdi_version'', u32_t),
     (''pdi_reserve'', u32_t),
     (''pdi_copy_thresh'', u32_t),
     (''pdi_tstamp'', u32_t),
     (''pdi_flags'', u32_t)]"

definition struct_packet_diag_mclist :: ctype where
  "struct_packet_diag_mclist = c_struct [
     (''pdmc_index'', u32_t),
     (''pdmc_count'', u32_t),
     (''pdmc_type'', u16_t),
     (''pdmc_alen'', u16_t),
     (''pdmc_addr'', Arr u8_t 32)]"

definition struct_packet_diag_ring :: ctype where
  "struct_packet_diag_ring = c_struct [
     (''pdr_block_size'', u32_t),
     (''pdr_block_nr'', u32_t),
     (''pdr_frame_size'', u32_t),
     (''pdr_frame_nr'', u32_t),
     (''pdr_retire_tmo'', u32_t),
     (''pdr_sizeof_priv'', u32_t),
     (''pdr_features'', u32_t)]"

definition nl_packet_diag_structs :: "ctype list" where
  "nl_packet_diag_structs = [struct_packet_diag_req, struct_packet_diag_msg, struct_packet_diag_info, struct_packet_diag_mclist,
     struct_packet_diag_ring]"

section \<open>\<^verbatim>\<open>include/linux/netlink_diag.h\<close>\<close>

definition struct_netlink_diag_req :: ctype where
  "struct_netlink_diag_req = c_struct [
     (''sdiag_family'', u8_t),
     (''sdiag_protocol'', u8_t),
     (''pad'', u16_t),
     (''ndiag_ino'', u32_t),
     (''ndiag_show'', u32_t),
     (''ndiag_cookie'', Arr u32_t 2)]"

definition struct_netlink_diag_msg :: ctype where
  "struct_netlink_diag_msg = c_struct [
     (''ndiag_family'', u8_t),
     (''ndiag_type'', u8_t),
     (''ndiag_protocol'', u8_t),
     (''ndiag_state'', u8_t),
     (''ndiag_portid'', u32_t),
     (''ndiag_dst_portid'', u32_t),
     (''ndiag_dst_group'', u32_t),
     (''ndiag_ino'', u32_t),
     (''ndiag_cookie'', Arr u32_t 2)]"

definition struct_netlink_diag_ring :: ctype where
  "struct_netlink_diag_ring = c_struct [
     (''ndr_block_size'', u32_t),
     (''ndr_block_nr'', u32_t),
     (''ndr_frame_size'', u32_t),
     (''ndr_frame_nr'', u32_t)]"

definition nl_netlink_diag_structs :: "ctype list" where
  "nl_netlink_diag_structs = [struct_netlink_diag_req, struct_netlink_diag_msg, struct_netlink_diag_ring]"

section \<open>\<^verbatim>\<open>include/linux/vm_sockets_diag.h\<close>\<close>

definition struct_vsock_diag_req :: ctype where
  "struct_vsock_diag_req = c_struct [
     (''sdiag_family'', u8_t),
     (''sdiag_protocol'', u8_t),
     (''pad'', u16_t),
     (''vdiag_states'', u32_t),
     (''vdiag_ino'', u32_t),
     (''vdiag_show'', u32_t),
     (''vdiag_cookie'', Arr u32_t 2)]"

definition struct_vsock_diag_msg :: ctype where
  "struct_vsock_diag_msg = c_struct [
     (''vdiag_family'', u8_t),
     (''vdiag_type'', u8_t),
     (''vdiag_state'', u8_t),
     (''vdiag_shutdown'', u8_t),
     (''vdiag_src_cid'', u32_t),
     (''vdiag_src_port'', u32_t),
     (''vdiag_dst_cid'', u32_t),
     (''vdiag_dst_port'', u32_t),
     (''vdiag_ino'', u32_t),
     (''vdiag_cookie'', Arr u32_t 2)]"

definition nl_vm_sockets_diag_structs :: "ctype list" where
  "nl_vm_sockets_diag_structs = [struct_vsock_diag_req, struct_vsock_diag_msg]"

section \<open>\<^verbatim>\<open>include/linux/xdp_diag.h\<close>\<close>

definition struct_xdp_diag_req :: ctype where
  "struct_xdp_diag_req = c_struct [
     (''sdiag_family'', u8_t),
     (''sdiag_protocol'', u8_t),
     (''pad'', u16_t),
     (''xdiag_ino'', u32_t),
     (''xdiag_show'', u32_t),
     (''xdiag_cookie'', Arr u32_t 2)]"

definition struct_xdp_diag_msg :: ctype where
  "struct_xdp_diag_msg = c_struct [
     (''xdiag_family'', u8_t),
     (''xdiag_type'', u8_t),
     (''pad'', u16_t),
     (''xdiag_ino'', u32_t),
     (''xdiag_cookie'', Arr u32_t 2)]"

definition struct_xdp_diag_info :: ctype where
  "struct_xdp_diag_info = c_struct [
     (''ifindex'', u32_t),
     (''queue_id'', u32_t)]"

definition struct_xdp_diag_ring :: ctype where
  "struct_xdp_diag_ring = c_struct [
     (''entries'', u32_t)]"

definition struct_xdp_diag_umem :: ctype where
  "struct_xdp_diag_umem = c_struct [
     (''size'', u64_t),
     (''id'', u32_t),
     (''num_pages'', u32_t),
     (''chunk_size'', u32_t),
     (''headroom'', u32_t),
     (''ifindex'', u32_t),
     (''queue_id'', u32_t),
     (''flags'', u32_t),
     (''refs'', u32_t)]"

definition struct_xdp_diag_stats :: ctype where
  "struct_xdp_diag_stats = c_struct [
     (''n_rx_dropped'', u64_t),
     (''n_rx_invalid'', u64_t),
     (''n_rx_full'', u64_t),
     (''n_fill_ring_empty'', u64_t),
     (''n_tx_invalid'', u64_t),
     (''n_tx_ring_empty'', u64_t)]"

definition nl_xdp_diag_structs :: "ctype list" where
  "nl_xdp_diag_structs = [struct_xdp_diag_req, struct_xdp_diag_msg, struct_xdp_diag_info, struct_xdp_diag_ring, struct_xdp_diag_umem,
     struct_xdp_diag_stats]"

section \<open>\<^verbatim>\<open>include/linux/xfrm.h\<close>\<close>

definition union_xfrm_address_t :: ctype where
  "union_xfrm_address_t = c_union [
     (''a4'', u32_t),
     (''a6'', Arr u32_t 4),
     (''in6'', struct_in6_addr)]"

definition struct_xfrm_id :: ctype where
  "struct_xfrm_id = c_struct [
     (''daddr'', union_xfrm_address_t),
     (''spi'', u32_t),
     (''proto'', u8_t)]"

definition struct_xfrm_sec_ctx :: ctype where
  "struct_xfrm_sec_ctx = c_struct [
     (''ctx_doi'', u8_t),
     (''ctx_alg'', u8_t),
     (''ctx_len'', u16_t),
     (''ctx_sid'', u32_t),
     (''ctx_str'', Arr u8_t 0)]"

definition struct_xfrm_selector :: ctype where
  "struct_xfrm_selector = c_struct [
     (''daddr'', union_xfrm_address_t),
     (''saddr'', union_xfrm_address_t),
     (''dport'', u16_t),
     (''dport_mask'', u16_t),
     (''sport'', u16_t),
     (''sport_mask'', u16_t),
     (''family'', u16_t),
     (''prefixlen_d'', u8_t),
     (''prefixlen_s'', u8_t),
     (''proto'', u8_t),
     (''ifindex'', u32_t),
     (''user'', u32_t)]"

definition struct_xfrm_lifetime_cfg :: ctype where
  "struct_xfrm_lifetime_cfg = c_struct [
     (''soft_byte_limit'', u64_t),
     (''hard_byte_limit'', u64_t),
     (''soft_packet_limit'', u64_t),
     (''hard_packet_limit'', u64_t),
     (''soft_add_expires_seconds'', u64_t),
     (''hard_add_expires_seconds'', u64_t),
     (''soft_use_expires_seconds'', u64_t),
     (''hard_use_expires_seconds'', u64_t)]"

definition struct_xfrm_lifetime_cur :: ctype where
  "struct_xfrm_lifetime_cur = c_struct [
     (''bytes'', u64_t),
     (''packets'', u64_t),
     (''add_time'', u64_t),
     (''use_time'', u64_t)]"

definition struct_xfrm_replay_state :: ctype where
  "struct_xfrm_replay_state = c_struct [
     (''oseq'', u32_t),
     (''seq'', u32_t),
     (''bitmap'', u32_t)]"

definition struct_xfrm_replay_state_esn :: ctype where
  "struct_xfrm_replay_state_esn = c_struct [
     (''bmp_len'', u32_t),
     (''oseq'', u32_t),
     (''seq'', u32_t),
     (''oseq_hi'', u32_t),
     (''seq_hi'', u32_t),
     (''replay_window'', u32_t),
     (''bmp'', Arr u32_t 0)]"

definition struct_xfrm_algo :: ctype where
  "struct_xfrm_algo = c_struct [
     (''alg_name'', Arr u8_t 64),
     (''alg_key_len'', u32_t),
     (''alg_key'', Arr u8_t 0)]"

definition struct_xfrm_algo_auth :: ctype where
  "struct_xfrm_algo_auth = c_struct [
     (''alg_name'', Arr u8_t 64),
     (''alg_key_len'', u32_t),
     (''alg_trunc_len'', u32_t),
     (''alg_key'', Arr u8_t 0)]"

definition struct_xfrm_algo_aead :: ctype where
  "struct_xfrm_algo_aead = c_struct [
     (''alg_name'', Arr u8_t 64),
     (''alg_key_len'', u32_t),
     (''alg_icv_len'', u32_t),
     (''alg_key'', Arr u8_t 0)]"

definition struct_xfrm_stats :: ctype where
  "struct_xfrm_stats = c_struct [
     (''replay_window'', u32_t),
     (''replay'', u32_t),
     (''integrity_failed'', u32_t)]"

definition struct_xfrm_user_sec_ctx :: ctype where
  "struct_xfrm_user_sec_ctx = c_struct [
     (''len'', u16_t),
     (''exttype'', u16_t),
     (''ctx_alg'', u8_t),
     (''ctx_doi'', u8_t),
     (''ctx_len'', u16_t)]"

definition struct_xfrm_user_tmpl :: ctype where
  "struct_xfrm_user_tmpl = c_struct [
     (''id'', struct_xfrm_id),
     (''family'', u16_t),
     (''saddr'', union_xfrm_address_t),
     (''reqid'', u32_t),
     (''mode'', u8_t),
     (''share'', u8_t),
     (''optional'', u8_t),
     (''aalgos'', u32_t),
     (''ealgos'', u32_t),
     (''calgos'', u32_t)]"

definition struct_xfrm_encap_tmpl :: ctype where
  "struct_xfrm_encap_tmpl = c_struct [
     (''encap_type'', u16_t),
     (''encap_sport'', u16_t),
     (''encap_dport'', u16_t),
     (''encap_oa'', union_xfrm_address_t)]"

definition struct_xfrm_userpolicy_type :: ctype where
  "struct_xfrm_userpolicy_type = c_struct [
     (''type'', u8_t),
     (''reserved1'', u16_t),
     (''reserved2'', u8_t)]"

definition struct_xfrm_mark :: ctype where
  "struct_xfrm_mark = c_struct [
     (''v'', u32_t),
     (''m'', u32_t)]"

definition struct_xfrmu_sadhinfo :: ctype where
  "struct_xfrmu_sadhinfo = c_struct [
     (''sadhcnt'', u32_t),
     (''sadhmcnt'', u32_t)]"

definition struct_xfrmu_spdinfo :: ctype where
  "struct_xfrmu_spdinfo = c_struct [
     (''incnt'', u32_t),
     (''outcnt'', u32_t),
     (''fwdcnt'', u32_t),
     (''inscnt'', u32_t),
     (''outscnt'', u32_t),
     (''fwdscnt'', u32_t)]"

definition struct_xfrmu_spdhinfo :: ctype where
  "struct_xfrmu_spdhinfo = c_struct [
     (''spdhcnt'', u32_t),
     (''spdhmcnt'', u32_t)]"

definition struct_xfrmu_spdhthresh :: ctype where
  "struct_xfrmu_spdhthresh = c_struct [
     (''lbits'', u8_t),
     (''rbits'', u8_t)]"

definition struct_xfrm_usersa_info :: ctype where
  "struct_xfrm_usersa_info = c_struct [
     (''sel'', struct_xfrm_selector),
     (''id'', struct_xfrm_id),
     (''saddr'', union_xfrm_address_t),
     (''lft'', struct_xfrm_lifetime_cfg),
     (''curlft'', struct_xfrm_lifetime_cur),
     (''stats'', struct_xfrm_stats),
     (''seq'', u32_t),
     (''reqid'', u32_t),
     (''family'', u16_t),
     (''mode'', u8_t),
     (''replay_window'', u8_t),
     (''flags'', u8_t)]"

definition struct_xfrm_usersa_id :: ctype where
  "struct_xfrm_usersa_id = c_struct [
     (''daddr'', union_xfrm_address_t),
     (''spi'', u32_t),
     (''family'', u16_t),
     (''proto'', u8_t)]"

definition struct_xfrm_aevent_id :: ctype where
  "struct_xfrm_aevent_id = c_struct [
     (''sa_id'', struct_xfrm_usersa_id),
     (''saddr'', union_xfrm_address_t),
     (''flags'', u32_t),
     (''reqid'', u32_t)]"

definition struct_xfrm_userspi_info :: ctype where
  "struct_xfrm_userspi_info = c_struct [
     (''info'', struct_xfrm_usersa_info),
     (''min'', u32_t),
     (''max'', u32_t)]"

definition struct_xfrm_userpolicy_info :: ctype where
  "struct_xfrm_userpolicy_info = c_struct [
     (''sel'', struct_xfrm_selector),
     (''lft'', struct_xfrm_lifetime_cfg),
     (''curlft'', struct_xfrm_lifetime_cur),
     (''priority'', u32_t),
     (''index'', u32_t),
     (''dir'', u8_t),
     (''action'', u8_t),
     (''flags'', u8_t),
     (''share'', u8_t)]"

definition struct_xfrm_userpolicy_id :: ctype where
  "struct_xfrm_userpolicy_id = c_struct [
     (''sel'', struct_xfrm_selector),
     (''index'', u32_t),
     (''dir'', u8_t)]"

definition struct_xfrm_user_acquire :: ctype where
  "struct_xfrm_user_acquire = c_struct [
     (''id'', struct_xfrm_id),
     (''saddr'', union_xfrm_address_t),
     (''sel'', struct_xfrm_selector),
     (''policy'', struct_xfrm_userpolicy_info),
     (''aalgos'', u32_t),
     (''ealgos'', u32_t),
     (''calgos'', u32_t),
     (''seq'', u32_t)]"

definition struct_xfrm_user_expire :: ctype where
  "struct_xfrm_user_expire = c_struct [
     (''state'', struct_xfrm_usersa_info),
     (''hard'', u8_t)]"

definition struct_xfrm_user_polexpire :: ctype where
  "struct_xfrm_user_polexpire = c_struct [
     (''pol'', struct_xfrm_userpolicy_info),
     (''hard'', u8_t)]"

definition struct_xfrm_usersa_flush :: ctype where
  "struct_xfrm_usersa_flush = c_struct [
     (''proto'', u8_t)]"

definition struct_xfrm_user_report :: ctype where
  "struct_xfrm_user_report = c_struct [
     (''proto'', u8_t),
     (''sel'', struct_xfrm_selector)]"

definition struct_xfrm_user_kmaddress :: ctype where
  "struct_xfrm_user_kmaddress = c_struct [
     (''local'', union_xfrm_address_t),
     (''remote'', union_xfrm_address_t),
     (''reserved'', u32_t),
     (''family'', u16_t)]"

definition struct_xfrm_user_migrate :: ctype where
  "struct_xfrm_user_migrate = c_struct [
     (''old_daddr'', union_xfrm_address_t),
     (''old_saddr'', union_xfrm_address_t),
     (''new_daddr'', union_xfrm_address_t),
     (''new_saddr'', union_xfrm_address_t),
     (''proto'', u8_t),
     (''mode'', u8_t),
     (''reserved'', u16_t),
     (''reqid'', u32_t),
     (''old_family'', u16_t),
     (''new_family'', u16_t)]"

definition struct_xfrm_user_mapping :: ctype where
  "struct_xfrm_user_mapping = c_struct [
     (''id'', struct_xfrm_usersa_id),
     (''reqid'', u32_t),
     (''old_saddr'', union_xfrm_address_t),
     (''new_saddr'', union_xfrm_address_t),
     (''old_sport'', u16_t),
     (''new_sport'', u16_t)]"

definition struct_xfrm_address_filter :: ctype where
  "struct_xfrm_address_filter = c_struct [
     (''saddr'', union_xfrm_address_t),
     (''daddr'', union_xfrm_address_t),
     (''family'', u16_t),
     (''splen'', u8_t),
     (''dplen'', u8_t)]"

definition struct_xfrm_user_offload :: ctype where
  "struct_xfrm_user_offload = c_struct [
     (''ifindex'', u32_t),
     (''flags'', u8_t)]"

definition struct_xfrm_userpolicy_default :: ctype where
  "struct_xfrm_userpolicy_default = c_struct [
     (''in'', u8_t),
     (''fwd'', u8_t),
     (''out'', u8_t)]"

definition nl_xfrm_structs :: "ctype list" where
  "nl_xfrm_structs = [union_xfrm_address_t, struct_xfrm_sec_ctx, struct_xfrm_lifetime_cfg, struct_xfrm_lifetime_cur,
     struct_xfrm_replay_state, struct_xfrm_replay_state_esn, struct_xfrm_algo, struct_xfrm_algo_auth,
     struct_xfrm_algo_aead, struct_xfrm_stats, struct_xfrm_user_sec_ctx, struct_xfrm_mark, struct_xfrmu_sadhinfo,
     struct_xfrmu_spdinfo, struct_xfrmu_spdhinfo, struct_xfrmu_spdhthresh, struct_xfrm_usersa_flush,
     struct_xfrm_user_migrate, struct_xfrm_address_filter, struct_xfrm_userpolicy_default]"

section \<open>\<^verbatim>\<open>include/linux/pfkeyv2.h\<close>\<close>

definition struct_sadb_msg :: ctype where
  "struct_sadb_msg = c_packed [
     (''sadb_msg_version'', u8_t),
     (''sadb_msg_type'', u8_t),
     (''sadb_msg_errno'', u8_t),
     (''sadb_msg_satype'', u8_t),
     (''sadb_msg_len'', u16_t),
     (''sadb_msg_reserved'', u16_t),
     (''sadb_msg_seq'', u32_t),
     (''sadb_msg_pid'', u32_t)]"

definition struct_sadb_ext :: ctype where
  "struct_sadb_ext = c_packed [
     (''sadb_ext_len'', u16_t),
     (''sadb_ext_type'', u16_t)]"

definition struct_sadb_sa :: ctype where
  "struct_sadb_sa = c_packed [
     (''sadb_sa_len'', u16_t),
     (''sadb_sa_exttype'', u16_t),
     (''sadb_sa_spi'', u32_t),
     (''sadb_sa_replay'', u8_t),
     (''sadb_sa_state'', u8_t),
     (''sadb_sa_auth'', u8_t),
     (''sadb_sa_encrypt'', u8_t),
     (''sadb_sa_flags'', u32_t)]"

definition struct_sadb_lifetime :: ctype where
  "struct_sadb_lifetime = c_packed [
     (''sadb_lifetime_len'', u16_t),
     (''sadb_lifetime_exttype'', u16_t),
     (''sadb_lifetime_allocations'', u32_t),
     (''sadb_lifetime_bytes'', u64_t),
     (''sadb_lifetime_addtime'', u64_t),
     (''sadb_lifetime_usetime'', u64_t)]"

definition struct_sadb_address :: ctype where
  "struct_sadb_address = c_packed [
     (''sadb_address_len'', u16_t),
     (''sadb_address_exttype'', u16_t),
     (''sadb_address_proto'', u8_t),
     (''sadb_address_prefixlen'', u8_t),
     (''sadb_address_reserved'', u16_t)]"

definition struct_sadb_key :: ctype where
  "struct_sadb_key = c_packed [
     (''sadb_key_len'', u16_t),
     (''sadb_key_exttype'', u16_t),
     (''sadb_key_bits'', u16_t),
     (''sadb_key_reserved'', u16_t)]"

definition struct_sadb_ident :: ctype where
  "struct_sadb_ident = c_packed [
     (''sadb_ident_len'', u16_t),
     (''sadb_ident_exttype'', u16_t),
     (''sadb_ident_type'', u16_t),
     (''sadb_ident_reserved'', u16_t),
     (''sadb_ident_id'', u64_t)]"

definition struct_sadb_sens :: ctype where
  "struct_sadb_sens = c_packed [
     (''sadb_sens_len'', u16_t),
     (''sadb_sens_exttype'', u16_t),
     (''sadb_sens_dpd'', u32_t),
     (''sadb_sens_sens_level'', u8_t),
     (''sadb_sens_sens_len'', u8_t),
     (''sadb_sens_integ_level'', u8_t),
     (''sadb_sens_integ_len'', u8_t),
     (''sadb_sens_reserved'', u32_t)]"

definition struct_sadb_prop :: ctype where
  "struct_sadb_prop = c_packed [
     (''sadb_prop_len'', u16_t),
     (''sadb_prop_exttype'', u16_t),
     (''sadb_prop_replay'', u8_t),
     (''sadb_prop_reserved'', Arr u8_t 3)]"

definition struct_sadb_comb :: ctype where
  "struct_sadb_comb = c_packed [
     (''sadb_comb_auth'', u8_t),
     (''sadb_comb_encrypt'', u8_t),
     (''sadb_comb_flags'', u16_t),
     (''sadb_comb_auth_minbits'', u16_t),
     (''sadb_comb_auth_maxbits'', u16_t),
     (''sadb_comb_encrypt_minbits'', u16_t),
     (''sadb_comb_encrypt_maxbits'', u16_t),
     (''sadb_comb_reserved'', u32_t),
     (''sadb_comb_soft_allocations'', u32_t),
     (''sadb_comb_hard_allocations'', u32_t),
     (''sadb_comb_soft_bytes'', u64_t),
     (''sadb_comb_hard_bytes'', u64_t),
     (''sadb_comb_soft_addtime'', u64_t),
     (''sadb_comb_hard_addtime'', u64_t),
     (''sadb_comb_soft_usetime'', u64_t),
     (''sadb_comb_hard_usetime'', u64_t)]"

definition struct_sadb_supported :: ctype where
  "struct_sadb_supported = c_packed [
     (''sadb_supported_len'', u16_t),
     (''sadb_supported_exttype'', u16_t),
     (''sadb_supported_reserved'', u32_t)]"

definition struct_sadb_alg :: ctype where
  "struct_sadb_alg = c_packed [
     (''sadb_alg_id'', u8_t),
     (''sadb_alg_ivlen'', u8_t),
     (''sadb_alg_minbits'', u16_t),
     (''sadb_alg_maxbits'', u16_t),
     (''sadb_alg_reserved'', u16_t)]"

definition struct_sadb_spirange :: ctype where
  "struct_sadb_spirange = c_packed [
     (''sadb_spirange_len'', u16_t),
     (''sadb_spirange_exttype'', u16_t),
     (''sadb_spirange_min'', u32_t),
     (''sadb_spirange_max'', u32_t),
     (''sadb_spirange_reserved'', u32_t)]"

definition struct_sadb_x_kmprivate :: ctype where
  "struct_sadb_x_kmprivate = c_packed [
     (''sadb_x_kmprivate_len'', u16_t),
     (''sadb_x_kmprivate_exttype'', u16_t),
     (''sadb_x_kmprivate_reserved'', u32_t)]"

definition struct_sadb_x_sa2 :: ctype where
  "struct_sadb_x_sa2 = c_packed [
     (''sadb_x_sa2_len'', u16_t),
     (''sadb_x_sa2_exttype'', u16_t),
     (''sadb_x_sa2_mode'', u8_t),
     (''sadb_x_sa2_reserved1'', u8_t),
     (''sadb_x_sa2_reserved2'', u16_t),
     (''sadb_x_sa2_sequence'', u32_t),
     (''sadb_x_sa2_reqid'', u32_t)]"

definition struct_sadb_x_policy :: ctype where
  "struct_sadb_x_policy = c_packed [
     (''sadb_x_policy_len'', u16_t),
     (''sadb_x_policy_exttype'', u16_t),
     (''sadb_x_policy_type'', u16_t),
     (''sadb_x_policy_dir'', u8_t),
     (''sadb_x_policy_reserved'', u8_t),
     (''sadb_x_policy_id'', u32_t),
     (''sadb_x_policy_priority'', u32_t)]"

definition struct_sadb_x_ipsecrequest :: ctype where
  "struct_sadb_x_ipsecrequest = c_packed [
     (''sadb_x_ipsecrequest_len'', u16_t),
     (''sadb_x_ipsecrequest_proto'', u16_t),
     (''sadb_x_ipsecrequest_mode'', u8_t),
     (''sadb_x_ipsecrequest_level'', u8_t),
     (''sadb_x_ipsecrequest_reserved1'', u16_t),
     (''sadb_x_ipsecrequest_reqid'', u32_t),
     (''sadb_x_ipsecrequest_reserved2'', u32_t)]"

definition struct_sadb_x_nat_t_type :: ctype where
  "struct_sadb_x_nat_t_type = c_packed [
     (''sadb_x_nat_t_type_len'', u16_t),
     (''sadb_x_nat_t_type_exttype'', u16_t),
     (''sadb_x_nat_t_type_type'', u8_t),
     (''sadb_x_nat_t_type_reserved'', Arr u8_t 3)]"

definition struct_sadb_x_nat_t_port :: ctype where
  "struct_sadb_x_nat_t_port = c_packed [
     (''sadb_x_nat_t_port_len'', u16_t),
     (''sadb_x_nat_t_port_exttype'', u16_t),
     (''sadb_x_nat_t_port_port'', u16_t),
     (''sadb_x_nat_t_port_reserved'', u16_t)]"

definition struct_sadb_x_sec_ctx :: ctype where
  "struct_sadb_x_sec_ctx = c_packed [
     (''sadb_x_sec_len'', u16_t),
     (''sadb_x_sec_exttype'', u16_t),
     (''sadb_x_ctx_alg'', u8_t),
     (''sadb_x_ctx_doi'', u8_t),
     (''sadb_x_ctx_len'', u16_t)]"

definition struct_sadb_x_kmaddress :: ctype where
  "struct_sadb_x_kmaddress = c_packed [
     (''sadb_x_kmaddress_len'', u16_t),
     (''sadb_x_kmaddress_exttype'', u16_t),
     (''sadb_x_kmaddress_reserved'', u32_t)]"

definition struct_sadb_x_filter :: ctype where
  "struct_sadb_x_filter = c_packed [
     (''sadb_x_filter_len'', u16_t),
     (''sadb_x_filter_exttype'', u16_t),
     (''sadb_x_filter_saddr'', Arr u32_t 4),
     (''sadb_x_filter_daddr'', Arr u32_t 4),
     (''sadb_x_filter_family'', u16_t),
     (''sadb_x_filter_splen'', u8_t),
     (''sadb_x_filter_dplen'', u8_t)]"

definition nl_pfkeyv2_structs :: "ctype list" where
  "nl_pfkeyv2_structs = [struct_sadb_msg, struct_sadb_ext, struct_sadb_sa, struct_sadb_lifetime, struct_sadb_address, struct_sadb_key,
     struct_sadb_ident, struct_sadb_sens, struct_sadb_prop, struct_sadb_comb, struct_sadb_supported,
     struct_sadb_alg, struct_sadb_spirange, struct_sadb_x_kmprivate, struct_sadb_x_sa2, struct_sadb_x_policy,
     struct_sadb_x_ipsecrequest, struct_sadb_x_nat_t_type, struct_sadb_x_nat_t_port, struct_sadb_x_sec_ctx,
     struct_sadb_x_kmaddress, struct_sadb_x_filter]"

section \<open>\<^verbatim>\<open>include/linux/cryptouser.h\<close>\<close>

definition struct_crypto_user_alg :: ctype where
  "struct_crypto_user_alg = c_struct [
     (''cru_name'', Arr u8_t 64),
     (''cru_driver_name'', Arr u8_t 64),
     (''cru_module_name'', Arr u8_t 64),
     (''cru_type'', u32_t),
     (''cru_mask'', u32_t),
     (''cru_refcnt'', u32_t),
     (''cru_flags'', u32_t)]"

definition struct_crypto_stat_aead :: ctype where
  "struct_crypto_stat_aead = c_struct [
     (''type'', Arr u8_t 64),
     (''stat_encrypt_cnt'', u64_t),
     (''stat_encrypt_tlen'', u64_t),
     (''stat_decrypt_cnt'', u64_t),
     (''stat_decrypt_tlen'', u64_t),
     (''stat_err_cnt'', u64_t)]"

definition struct_crypto_stat_akcipher :: ctype where
  "struct_crypto_stat_akcipher = c_struct [
     (''type'', Arr u8_t 64),
     (''stat_encrypt_cnt'', u64_t),
     (''stat_encrypt_tlen'', u64_t),
     (''stat_decrypt_cnt'', u64_t),
     (''stat_decrypt_tlen'', u64_t),
     (''stat_verify_cnt'', u64_t),
     (''stat_sign_cnt'', u64_t),
     (''stat_err_cnt'', u64_t)]"

definition struct_crypto_stat_cipher :: ctype where
  "struct_crypto_stat_cipher = c_struct [
     (''type'', Arr u8_t 64),
     (''stat_encrypt_cnt'', u64_t),
     (''stat_encrypt_tlen'', u64_t),
     (''stat_decrypt_cnt'', u64_t),
     (''stat_decrypt_tlen'', u64_t),
     (''stat_err_cnt'', u64_t)]"

definition struct_crypto_stat_compress :: ctype where
  "struct_crypto_stat_compress = c_struct [
     (''type'', Arr u8_t 64),
     (''stat_compress_cnt'', u64_t),
     (''stat_compress_tlen'', u64_t),
     (''stat_decompress_cnt'', u64_t),
     (''stat_decompress_tlen'', u64_t),
     (''stat_err_cnt'', u64_t)]"

definition struct_crypto_stat_hash :: ctype where
  "struct_crypto_stat_hash = c_struct [
     (''type'', Arr u8_t 64),
     (''stat_hash_cnt'', u64_t),
     (''stat_hash_tlen'', u64_t),
     (''stat_err_cnt'', u64_t)]"

definition struct_crypto_stat_kpp :: ctype where
  "struct_crypto_stat_kpp = c_struct [
     (''type'', Arr u8_t 64),
     (''stat_setsecret_cnt'', u64_t),
     (''stat_generate_public_key_cnt'', u64_t),
     (''stat_compute_shared_secret_cnt'', u64_t),
     (''stat_err_cnt'', u64_t)]"

definition struct_crypto_stat_rng :: ctype where
  "struct_crypto_stat_rng = c_struct [
     (''type'', Arr u8_t 64),
     (''stat_generate_cnt'', u64_t),
     (''stat_generate_tlen'', u64_t),
     (''stat_seed_cnt'', u64_t),
     (''stat_err_cnt'', u64_t)]"

definition struct_crypto_stat_larval :: ctype where
  "struct_crypto_stat_larval = c_struct [
     (''type'', Arr u8_t 64)]"

definition struct_crypto_report_larval :: ctype where
  "struct_crypto_report_larval = c_struct [
     (''type'', Arr u8_t 64)]"

definition struct_crypto_report_hash :: ctype where
  "struct_crypto_report_hash = c_struct [
     (''type'', Arr u8_t 64),
     (''blocksize'', u32_t),
     (''digestsize'', u32_t)]"

definition struct_crypto_report_cipher :: ctype where
  "struct_crypto_report_cipher = c_struct [
     (''type'', Arr u8_t 64),
     (''blocksize'', u32_t),
     (''min_keysize'', u32_t),
     (''max_keysize'', u32_t)]"

definition struct_crypto_report_blkcipher :: ctype where
  "struct_crypto_report_blkcipher = c_struct [
     (''type'', Arr u8_t 64),
     (''geniv'', Arr u8_t 64),
     (''blocksize'', u32_t),
     (''min_keysize'', u32_t),
     (''max_keysize'', u32_t),
     (''ivsize'', u32_t)]"

definition struct_crypto_report_aead :: ctype where
  "struct_crypto_report_aead = c_struct [
     (''type'', Arr u8_t 64),
     (''geniv'', Arr u8_t 64),
     (''blocksize'', u32_t),
     (''maxauthsize'', u32_t),
     (''ivsize'', u32_t)]"

definition struct_crypto_report_comp :: ctype where
  "struct_crypto_report_comp = c_struct [
     (''type'', Arr u8_t 64)]"

definition struct_crypto_report_rng :: ctype where
  "struct_crypto_report_rng = c_struct [
     (''type'', Arr u8_t 64),
     (''seedsize'', u32_t)]"

definition struct_crypto_report_akcipher :: ctype where
  "struct_crypto_report_akcipher = c_struct [
     (''type'', Arr u8_t 64)]"

definition struct_crypto_report_kpp :: ctype where
  "struct_crypto_report_kpp = c_struct [
     (''type'', Arr u8_t 64)]"

definition struct_crypto_report_acomp :: ctype where
  "struct_crypto_report_acomp = c_struct [
     (''type'', Arr u8_t 64)]"

definition nl_cryptouser_structs :: "ctype list" where
  "nl_cryptouser_structs = [struct_crypto_user_alg, struct_crypto_stat_aead, struct_crypto_stat_akcipher, struct_crypto_stat_cipher,
     struct_crypto_stat_compress, struct_crypto_stat_hash, struct_crypto_stat_kpp, struct_crypto_stat_rng,
     struct_crypto_stat_larval, struct_crypto_report_larval, struct_crypto_report_hash,
     struct_crypto_report_cipher, struct_crypto_report_blkcipher, struct_crypto_report_aead,
     struct_crypto_report_comp, struct_crypto_report_rng, struct_crypto_report_akcipher, struct_crypto_report_kpp,
     struct_crypto_report_acomp]"

section \<open>\<^verbatim>\<open>include/linux/if_bridge.h\<close>\<close>

definition struct__bridge_info :: ctype where
  "struct__bridge_info = c_struct [
     (''designated_root'', u64_t),
     (''bridge_id'', u64_t),
     (''root_path_cost'', u32_t),
     (''max_age'', u32_t),
     (''hello_time'', u32_t),
     (''forward_delay'', u32_t),
     (''bridge_max_age'', u32_t),
     (''bridge_hello_time'', u32_t),
     (''bridge_forward_delay'', u32_t),
     (''topology_change'', u8_t),
     (''topology_change_detected'', u8_t),
     (''root_port'', u8_t),
     (''stp_enabled'', u8_t),
     (''ageing_time'', u32_t),
     (''gc_interval'', u32_t),
     (''hello_timer_value'', u32_t),
     (''tcn_timer_value'', u32_t),
     (''topology_change_timer_value'', u32_t),
     (''gc_timer_value'', u32_t)]"

definition struct__port_info :: ctype where
  "struct__port_info = c_struct [
     (''designated_root'', u64_t),
     (''designated_bridge'', u64_t),
     (''port_id'', u16_t),
     (''designated_port'', u16_t),
     (''path_cost'', u32_t),
     (''designated_cost'', u32_t),
     (''state'', u8_t),
     (''top_change_ack'', u8_t),
     (''config_pending'', u8_t),
     (''unused0'', u8_t),
     (''message_age_timer_value'', u32_t),
     (''forward_delay_timer_value'', u32_t),
     (''hold_timer_value'', u32_t)]"

definition struct__fdb_entry :: ctype where
  "struct__fdb_entry = c_struct [
     (''mac_addr'', Arr u8_t 6),
     (''port_no'', u8_t),
     (''is_local'', u8_t),
     (''ageing_timer_value'', u32_t),
     (''port_hi'', u8_t),
     (''pad0'', u8_t),
     (''unused'', u16_t)]"

definition struct_bridge_vlan_info :: ctype where
  "struct_bridge_vlan_info = c_struct [
     (''flags'', u16_t),
     (''vid'', u16_t)]"

definition struct_bridge_vlan_xstats :: ctype where
  "struct_bridge_vlan_xstats = c_struct [
     (''rx_bytes'', u64_t),
     (''rx_packets'', u64_t),
     (''tx_bytes'', u64_t),
     (''tx_packets'', u64_t),
     (''vid'', u16_t),
     (''flags'', u16_t),
     (''pad2'', u32_t)]"

definition struct_br_mrp_instance :: ctype where
  "struct_br_mrp_instance = c_struct [
     (''ring_id'', u32_t),
     (''p_ifindex'', u32_t),
     (''s_ifindex'', u32_t),
     (''prio'', u16_t)]"

definition struct_br_mrp_ring_state :: ctype where
  "struct_br_mrp_ring_state = c_struct [
     (''ring_id'', u32_t),
     (''ring_state'', u32_t)]"

definition struct_br_mrp_ring_role :: ctype where
  "struct_br_mrp_ring_role = c_struct [
     (''ring_id'', u32_t),
     (''ring_role'', u32_t)]"

definition struct_br_mrp_start_test :: ctype where
  "struct_br_mrp_start_test = c_struct [
     (''ring_id'', u32_t),
     (''interval'', u32_t),
     (''max_miss'', u32_t),
     (''period'', u32_t),
     (''monitor'', u32_t)]"

definition struct_br_mrp_in_state :: ctype where
  "struct_br_mrp_in_state = c_struct [
     (''in_state'', u32_t),
     (''in_id'', u16_t)]"

definition struct_br_mrp_in_role :: ctype where
  "struct_br_mrp_in_role = c_struct [
     (''ring_id'', u32_t),
     (''in_role'', u32_t),
     (''i_ifindex'', u32_t),
     (''in_id'', u16_t)]"

definition struct_br_mrp_start_in_test :: ctype where
  "struct_br_mrp_start_in_test = c_struct [
     (''interval'', u32_t),
     (''max_miss'', u32_t),
     (''period'', u32_t),
     (''in_id'', u16_t)]"

definition struct_bridge_stp_xstats :: ctype where
  "struct_bridge_stp_xstats = c_struct [
     (''transition_blk'', u64_t),
     (''transition_fwd'', u64_t),
     (''rx_bpdu'', u64_t),
     (''tx_bpdu'', u64_t),
     (''rx_tcn'', u64_t),
     (''tx_tcn'', u64_t)]"

definition struct_br_vlan_msg :: ctype where
  "struct_br_vlan_msg = c_struct [
     (''family'', u8_t),
     (''reserved1'', u8_t),
     (''reserved2'', u16_t),
     (''ifindex'', u32_t)]"

definition struct_br_port_msg :: ctype where
  "struct_br_port_msg = c_struct [
     (''family'', u8_t),
     (''ifindex'', u32_t)]"

definition struct_br_mdb_entry :: ctype where
  "struct_br_mdb_entry = c_struct [
     (''ifindex'', u32_t),
     (''state'', u8_t),
     (''flags'', u8_t),
     (''vid'', u16_t),
     (''addr'', c_struct [ (''u'', c_union [ (''ip4'', u32_t), (''ip6'', struct_in6_addr), (''mac_addr'', Arr u8_t 6)]), (''proto'', u16_t)])]"

definition struct_br_mcast_stats :: ctype where
  "struct_br_mcast_stats = c_struct [
     (''igmp_v1queries'', Arr u64_t 2),
     (''igmp_v2queries'', Arr u64_t 2),
     (''igmp_v3queries'', Arr u64_t 2),
     (''igmp_leaves'', Arr u64_t 2),
     (''igmp_v1reports'', Arr u64_t 2),
     (''igmp_v2reports'', Arr u64_t 2),
     (''igmp_v3reports'', Arr u64_t 2),
     (''igmp_parse_errors'', u64_t),
     (''mld_v1queries'', Arr u64_t 2),
     (''mld_v2queries'', Arr u64_t 2),
     (''mld_leaves'', Arr u64_t 2),
     (''mld_v1reports'', Arr u64_t 2),
     (''mld_v2reports'', Arr u64_t 2),
     (''mld_parse_errors'', u64_t),
     (''mcast_bytes'', Arr u64_t 2),
     (''mcast_packets'', Arr u64_t 2)]"

definition struct_br_boolopt_multi :: ctype where
  "struct_br_boolopt_multi = c_struct [
     (''optval'', u32_t),
     (''optmask'', u32_t)]"

definition nl_if_bridge_structs :: "ctype list" where
  "nl_if_bridge_structs = [struct__bridge_info, struct__fdb_entry, struct_bridge_vlan_info, struct_bridge_vlan_xstats,
     struct_br_mrp_ring_state, struct_br_mrp_ring_role, struct_br_mrp_start_test, struct_bridge_stp_xstats,
     struct_br_vlan_msg, struct_br_mcast_stats, struct_br_boolopt_multi]"

section \<open>\<^verbatim>\<open>include/linux/openvswitch.h\<close>\<close>

definition struct_ovs_header :: ctype where
  "struct_ovs_header = c_struct [
     (''dp_ifindex'', u32_t)]"

definition struct_ovs_dp_stats :: ctype where
  "struct_ovs_dp_stats = c_struct [
     (''n_hit'', u64_t),
     (''n_missed'', u64_t),
     (''n_lost'', u64_t),
     (''n_flows'', u64_t)]"

definition struct_ovs_dp_megaflow_stats :: ctype where
  "struct_ovs_dp_megaflow_stats = c_struct [
     (''n_mask_hit'', u64_t),
     (''n_masks'', u32_t),
     (''pad0'', u32_t),
     (''n_cache_hit'', u64_t),
     (''pad1'', u64_t)]"

definition struct_ovs_vport_stats :: ctype where
  "struct_ovs_vport_stats = c_struct [
     (''rx_packets'', u64_t),
     (''tx_packets'', u64_t),
     (''rx_bytes'', u64_t),
     (''tx_bytes'', u64_t),
     (''rx_errors'', u64_t),
     (''tx_errors'', u64_t),
     (''rx_dropped'', u64_t),
     (''tx_dropped'', u64_t)]"

definition struct_ovs_flow_stats :: ctype where
  "struct_ovs_flow_stats = c_struct [
     (''n_packets'', u64_t),
     (''n_bytes'', u64_t)]"

definition struct_ovs_key_ethernet :: ctype where
  "struct_ovs_key_ethernet = c_struct [
     (''eth_src'', Arr u8_t 6),
     (''eth_dst'', Arr u8_t 6)]"

definition struct_ovs_key_mpls :: ctype where
  "struct_ovs_key_mpls = c_struct [
     (''mpls_lse'', u32_t)]"

definition struct_ovs_key_ipv4 :: ctype where
  "struct_ovs_key_ipv4 = c_struct [
     (''ipv4_src'', u32_t),
     (''ipv4_dst'', u32_t),
     (''ipv4_proto'', u8_t),
     (''ipv4_tos'', u8_t),
     (''ipv4_ttl'', u8_t),
     (''ipv4_frag'', u8_t)]"

definition struct_ovs_key_ipv6 :: ctype where
  "struct_ovs_key_ipv6 = c_struct [
     (''ipv6_src'', Arr u32_t 4),
     (''ipv6_dst'', Arr u32_t 4),
     (''ipv6_label'', u32_t),
     (''ipv6_proto'', u8_t),
     (''ipv6_tclass'', u8_t),
     (''ipv6_hlimit'', u8_t),
     (''ipv6_frag'', u8_t)]"

definition struct_ovs_key_tcp :: ctype where
  "struct_ovs_key_tcp = c_struct [
     (''tcp_src'', u16_t),
     (''tcp_dst'', u16_t)]"

definition struct_ovs_key_udp :: ctype where
  "struct_ovs_key_udp = c_struct [
     (''udp_src'', u16_t),
     (''udp_dst'', u16_t)]"

definition struct_ovs_key_sctp :: ctype where
  "struct_ovs_key_sctp = c_struct [
     (''sctp_src'', u16_t),
     (''sctp_dst'', u16_t)]"

definition struct_ovs_key_icmp :: ctype where
  "struct_ovs_key_icmp = c_struct [
     (''icmp_type'', u8_t),
     (''icmp_code'', u8_t)]"

definition struct_ovs_key_icmpv6 :: ctype where
  "struct_ovs_key_icmpv6 = c_struct [
     (''icmpv6_type'', u8_t),
     (''icmpv6_code'', u8_t)]"

definition struct_ovs_key_arp :: ctype where
  "struct_ovs_key_arp = c_struct [
     (''arp_sip'', u32_t),
     (''arp_tip'', u32_t),
     (''arp_op'', u16_t),
     (''arp_sha'', Arr u8_t 6),
     (''arp_tha'', Arr u8_t 6)]"

definition struct_ovs_key_nd :: ctype where
  "struct_ovs_key_nd = c_struct [
     (''nd_target'', Arr u32_t 4),
     (''nd_sll'', Arr u8_t 6),
     (''nd_tll'', Arr u8_t 6)]"

definition struct_ovs_key_ct_tuple_ipv4 :: ctype where
  "struct_ovs_key_ct_tuple_ipv4 = c_struct [
     (''ipv4_src'', u32_t),
     (''ipv4_dst'', u32_t),
     (''src_port'', u16_t),
     (''dst_port'', u16_t),
     (''ipv4_proto'', u8_t)]"

definition struct_ovs_key_ct_tuple_ipv6 :: ctype where
  "struct_ovs_key_ct_tuple_ipv6 = c_struct [
     (''ipv6_src'', Arr u32_t 4),
     (''ipv6_dst'', Arr u32_t 4),
     (''src_port'', u16_t),
     (''dst_port'', u16_t),
     (''ipv6_proto'', u8_t)]"

definition struct_ovs_nsh_key_base :: ctype where
  "struct_ovs_nsh_key_base = c_struct [
     (''flags'', u8_t),
     (''ttl'', u8_t),
     (''mdtype'', u8_t),
     (''np'', u8_t),
     (''path_hdr'', u32_t)]"

definition struct_ovs_nsh_key_md1 :: ctype where
  "struct_ovs_nsh_key_md1 = c_struct [
     (''context'', Arr u32_t 4)]"

definition struct_ovs_action_trunc :: ctype where
  "struct_ovs_action_trunc = c_struct [
     (''max_len'', u32_t)]"

definition struct_ovs_action_push_mpls :: ctype where
  "struct_ovs_action_push_mpls = c_struct [
     (''mpls_lse'', u32_t),
     (''mpls_ethertype'', u16_t)]"

definition struct_ovs_action_add_mpls :: ctype where
  "struct_ovs_action_add_mpls = c_struct [
     (''mpls_lse'', u32_t),
     (''mpls_ethertype'', u16_t),
     (''tun_flags'', u16_t)]"

definition struct_ovs_action_push_vlan :: ctype where
  "struct_ovs_action_push_vlan = c_struct [
     (''vlan_tpid'', u16_t),
     (''vlan_tci'', u16_t)]"

definition struct_ovs_action_hash :: ctype where
  "struct_ovs_action_hash = c_struct [
     (''hash_alg'', u32_t),
     (''hash_basis'', u32_t)]"

definition struct_ovs_action_push_eth :: ctype where
  "struct_ovs_action_push_eth = c_struct [
     (''addresses'', struct_ovs_key_ethernet)]"

definition struct_ovs_zone_limit :: ctype where
  "struct_ovs_zone_limit = c_struct [
     (''zone_id'', u32_t),
     (''limit'', u32_t),
     (''count'', u32_t)]"

definition nl_openvswitch_structs :: "ctype list" where
  "nl_openvswitch_structs = [struct_ovs_header, struct_ovs_dp_stats, struct_ovs_dp_megaflow_stats, struct_ovs_vport_stats,
     struct_ovs_flow_stats, struct_ovs_key_ethernet, struct_ovs_key_mpls, struct_ovs_key_ipv4, struct_ovs_key_ipv6,
     struct_ovs_key_tcp, struct_ovs_key_udp, struct_ovs_key_sctp, struct_ovs_key_icmp, struct_ovs_key_icmpv6,
     struct_ovs_key_nd, struct_ovs_nsh_key_base, struct_ovs_nsh_key_md1, struct_ovs_action_trunc,
     struct_ovs_action_add_mpls, struct_ovs_action_push_vlan, struct_ovs_action_hash, struct_ovs_action_push_eth,
     struct_ovs_zone_limit]"

section \<open>\<^verbatim>\<open>include/linux/ip_vs.h\<close>\<close>

definition struct_ip_vs_service_user :: ctype where
  "struct_ip_vs_service_user = c_struct [
     (''protocol'', u16_t),
     (''addr'', u32_t),
     (''port'', u16_t),
     (''fwmark'', u32_t),
     (''sched_name'', Arr u8_t 16),
     (''flags'', u32_t),
     (''timeout'', u32_t),
     (''netmask'', u32_t)]"

definition struct_ip_vs_dest_user :: ctype where
  "struct_ip_vs_dest_user = c_struct [
     (''addr'', u32_t),
     (''port'', u16_t),
     (''conn_flags'', u32_t),
     (''weight'', u32_t),
     (''u_threshold'', u32_t),
     (''l_threshold'', u32_t)]"

definition struct_ip_vs_stats_user :: ctype where
  "struct_ip_vs_stats_user = c_struct [
     (''conns'', u32_t),
     (''inpkts'', u32_t),
     (''outpkts'', u32_t),
     (''inbytes'', u64_t),
     (''outbytes'', u64_t),
     (''cps'', u32_t),
     (''inpps'', u32_t),
     (''outpps'', u32_t),
     (''inbps'', u32_t),
     (''outbps'', u32_t)]"

definition struct_ip_vs_getinfo :: ctype where
  "struct_ip_vs_getinfo = c_struct [
     (''version'', u32_t),
     (''size'', u32_t),
     (''num_services'', u32_t)]"

definition struct_ip_vs_service_entry :: ctype where
  "struct_ip_vs_service_entry = c_struct [
     (''protocol'', u16_t),
     (''addr'', u32_t),
     (''port'', u16_t),
     (''fwmark'', u32_t),
     (''sched_name'', Arr u8_t 16),
     (''flags'', u32_t),
     (''timeout'', u32_t),
     (''netmask'', u32_t),
     (''num_dests'', u32_t),
     (''stats'', struct_ip_vs_stats_user)]"

definition struct_ip_vs_dest_entry :: ctype where
  "struct_ip_vs_dest_entry = c_struct [
     (''addr'', u32_t),
     (''port'', u16_t),
     (''conn_flags'', u32_t),
     (''weight'', u32_t),
     (''u_threshold'', u32_t),
     (''l_threshold'', u32_t),
     (''activeconns'', u32_t),
     (''inactconns'', u32_t),
     (''persistconns'', u32_t),
     (''stats'', struct_ip_vs_stats_user)]"

definition struct_ip_vs_get_dests :: ctype where
  "struct_ip_vs_get_dests = c_struct [
     (''protocol'', u16_t),
     (''addr'', u32_t),
     (''port'', u16_t),
     (''fwmark'', u32_t),
     (''num_dests'', u32_t),
     (''entrytable'', Arr struct_ip_vs_dest_entry 0)]"

definition struct_ip_vs_get_services :: ctype where
  "struct_ip_vs_get_services = c_struct [
     (''num_services'', u32_t),
     (''entrytable'', Arr struct_ip_vs_service_entry 0)]"

definition struct_ip_vs_timeout_user :: ctype where
  "struct_ip_vs_timeout_user = c_struct [
     (''tcp_timeout'', u32_t),
     (''tcp_fin_timeout'', u32_t),
     (''udp_timeout'', u32_t)]"

definition struct_ip_vs_daemon_user :: ctype where
  "struct_ip_vs_daemon_user = c_struct [
     (''state'', u32_t),
     (''mcast_ifn'', Arr u8_t 16),
     (''syncid'', u32_t)]"

definition struct_ip_vs_flags :: ctype where
  "struct_ip_vs_flags = c_struct [
     (''flags'', u32_t),
     (''mask'', u32_t)]"

definition nl_ip_vs_structs :: "ctype list" where
  "nl_ip_vs_structs = [struct_ip_vs_getinfo, struct_ip_vs_timeout_user, struct_ip_vs_daemon_user, struct_ip_vs_flags]"

section \<open>\<^verbatim>\<open>include/linux/taskstats.h\<close>\<close>

definition struct_taskstats :: ctype where
  "struct_taskstats = c_struct [
     (''version'', u16_t),
     (''ac_exitcode'', u32_t),
     (''ac_flag'', u8_t),
     (''ac_nice'', u8_t),
     (''cpu_count'', Aligned 8 u64_t),
     (''cpu_delay_total'', u64_t),
     (''blkio_count'', u64_t),
     (''blkio_delay_total'', u64_t),
     (''swapin_count'', u64_t),
     (''swapin_delay_total'', u64_t),
     (''cpu_run_real_total'', u64_t),
     (''cpu_run_virtual_total'', u64_t),
     (''ac_comm'', Arr u8_t 32),
     (''ac_sched'', Aligned 8 u8_t),
     (''ac_pad'', Arr u8_t 3),
     (''ac_uid'', Aligned 8 u32_t),
     (''ac_gid'', u32_t),
     (''ac_pid'', u32_t),
     (''ac_ppid'', u32_t),
     (''ac_btime'', u32_t),
     (''ac_etime'', Aligned 8 u64_t),
     (''ac_utime'', u64_t),
     (''ac_stime'', u64_t),
     (''ac_minflt'', u64_t),
     (''ac_majflt'', u64_t),
     (''coremem'', u64_t),
     (''virtmem'', u64_t),
     (''hiwater_rss'', u64_t),
     (''hiwater_vm'', u64_t),
     (''read_char'', u64_t),
     (''write_char'', u64_t),
     (''read_syscalls'', u64_t),
     (''write_syscalls'', u64_t),
     (''read_bytes'', u64_t),
     (''write_bytes'', u64_t),
     (''cancelled_write_bytes'', u64_t),
     (''nvcsw'', u64_t),
     (''nivcsw'', u64_t),
     (''ac_utimescaled'', u64_t),
     (''ac_stimescaled'', u64_t),
     (''cpu_scaled_run_real_total'', u64_t),
     (''freepages_count'', u64_t),
     (''freepages_delay_total'', u64_t),
     (''thrashing_count'', u64_t),
     (''thrashing_delay_total'', u64_t),
     (''ac_btime64'', u64_t)]"

section \<open>\<^verbatim>\<open>include/linux/connector.h\<close>\<close>

definition struct_cb_id :: ctype where
  "struct_cb_id = c_struct [
     (''idx'', u32_t),
     (''val'', u32_t)]"

definition struct_cn_msg :: ctype where
  "struct_cn_msg = c_struct [
     (''id'', struct_cb_id),
     (''seq'', u32_t),
     (''ack'', u32_t),
     (''len'', u16_t),
     (''flags'', u16_t),
     (''data'', Arr u8_t 0)]"

definition nl_connector_structs :: "ctype list" where
  "nl_connector_structs = [struct_cb_id, struct_cn_msg]"

section \<open>\<^verbatim>\<open>include/linux/cn_proc.h\<close>\<close>

definition struct_proc_event :: ctype where
  "struct_proc_event = c_struct [
     (''what'', u32_t),
     (''cpu'', u32_t),
     (''timestamp_ns'', Aligned 8 u64_t),
     (''event_data'', c_union [ (''ack'', c_struct [ (''err'', u32_t)]), (''fork'', c_struct [ (''parent_pid'', u32_t), (''parent_tgid'', u32_t), (''child_pid'', u32_t), (''child_tgid'', u32_t)]), (''exec'', c_struct [ (''process_pid'', u32_t), (''process_tgid'', u32_t)]), (''id'', c_struct [ (''process_pid'', u32_t), (''process_tgid'', u32_t), (''r'', c_union [ (''ruid'', u32_t), (''rgid'', u32_t)]), (''e'', c_union [ (''euid'', u32_t), (''egid'', u32_t)])]), (''sid'', c_struct [ (''process_pid'', u32_t), (''process_tgid'', u32_t)]), (''ptrace'', c_struct [ (''process_pid'', u32_t), (''process_tgid'', u32_t), (''tracer_pid'', u32_t), (''tracer_tgid'', u32_t)]), (''comm'', c_struct [ (''process_pid'', u32_t), (''process_tgid'', u32_t), (''comm'', Arr u8_t 16)]), (''coredump'', c_struct [ (''process_pid'', u32_t), (''process_tgid'', u32_t), (''parent_pid'', u32_t), (''parent_tgid'', u32_t)]), (''exit'', c_struct [ (''process_pid'', u32_t), (''process_tgid'', u32_t), (''exit_code'', u32_t), (''exit_signal'', u32_t), (''parent_pid'', u32_t), (''parent_tgid'', u32_t)])])]"

definition nl_cn_proc_structs :: "ctype list" where
  "nl_cn_proc_structs = [struct_proc_event]"

section \<open>\<^verbatim>\<open>include/linux/net_dropmon.h\<close>\<close>

definition struct_net_dm_drop_point :: ctype where
  "struct_net_dm_drop_point = c_struct [
     (''pc'', Arr u8_t 8),
     (''count'', u32_t)]"

definition struct_net_dm_config_entry :: ctype where
  "struct_net_dm_config_entry = c_struct [
     (''type'', u32_t),
     (''data'', Aligned 8 u64_t)]"

definition struct_net_dm_config_msg :: ctype where
  "struct_net_dm_config_msg = c_struct [
     (''entries'', u32_t),
     (''options'', Arr struct_net_dm_config_entry 0)]"

definition struct_net_dm_alert_msg :: ctype where
  "struct_net_dm_alert_msg = c_struct [
     (''entries'', u32_t),
     (''points'', Arr struct_net_dm_drop_point 0)]"

definition struct_net_dm_user_msg :: ctype where
  "struct_net_dm_user_msg = c_struct [
     (''u'', c_union [ (''user'', struct_net_dm_config_msg), (''alert'', struct_net_dm_alert_msg)])]"

definition nl_net_dropmon_structs :: "ctype list" where
  "nl_net_dropmon_structs = [struct_net_dm_drop_point, struct_net_dm_alert_msg]"

section \<open>\<^verbatim>\<open>include/linux/can/netlink.h\<close>\<close>

definition struct_can_bittiming :: ctype where
  "struct_can_bittiming = c_struct [
     (''bitrate'', u32_t),
     (''sample_point'', u32_t),
     (''tq'', u32_t),
     (''prop_seg'', u32_t),
     (''phase_seg1'', u32_t),
     (''phase_seg2'', u32_t),
     (''sjw'', u32_t),
     (''brp'', u32_t)]"

definition struct_can_bittiming_const :: ctype where
  "struct_can_bittiming_const = c_struct [
     (''name'', Arr u8_t 16),
     (''tseg1_min'', u32_t),
     (''tseg1_max'', u32_t),
     (''tseg2_min'', u32_t),
     (''tseg2_max'', u32_t),
     (''sjw_max'', u32_t),
     (''brp_min'', u32_t),
     (''brp_max'', u32_t),
     (''brp_inc'', u32_t)]"

definition struct_can_clock :: ctype where
  "struct_can_clock = c_struct [
     (''freq'', u32_t)]"

definition struct_can_berr_counter :: ctype where
  "struct_can_berr_counter = c_struct [
     (''txerr'', u16_t),
     (''rxerr'', u16_t)]"

definition struct_can_ctrlmode :: ctype where
  "struct_can_ctrlmode = c_struct [
     (''mask'', u32_t),
     (''flags'', u32_t)]"

definition struct_can_device_stats :: ctype where
  "struct_can_device_stats = c_struct [
     (''bus_error'', u32_t),
     (''error_warning'', u32_t),
     (''error_passive'', u32_t),
     (''bus_off'', u32_t),
     (''arbitration_lost'', u32_t),
     (''restarts'', u32_t)]"

definition nl_can_netlink_structs :: "ctype list" where
  "nl_can_netlink_structs = [struct_can_bittiming, struct_can_bittiming_const, struct_can_clock, struct_can_berr_counter,
     struct_can_ctrlmode, struct_can_device_stats]"

section \<open>\<^verbatim>\<open>include/linux/mptcp.h\<close>\<close>

definition struct_mptcp_info :: ctype where
  "struct_mptcp_info = c_struct [
     (''mptcpi_subflows'', u8_t),
     (''mptcpi_add_addr_signal'', u8_t),
     (''mptcpi_add_addr_accepted'', u8_t),
     (''mptcpi_subflows_max'', u8_t),
     (''mptcpi_add_addr_signal_max'', u8_t),
     (''mptcpi_add_addr_accepted_max'', u8_t),
     (''mptcpi_flags'', u32_t),
     (''mptcpi_token'', u32_t),
     (''mptcpi_write_seq'', u64_t),
     (''mptcpi_snd_una'', u64_t),
     (''mptcpi_rcv_nxt'', u64_t),
     (''mptcpi_local_addr_used'', u8_t),
     (''mptcpi_local_addr_max'', u8_t),
     (''mptcpi_csum_enabled'', u8_t)]"

section \<open>Tables\<close>

text \<open>The structures without padding, those with padding that i386 lays out alike, and those it lays out differently.\<close>

definition nl_structs :: "ctype list" where
  "nl_structs = nl_netlink_structs @ nl_rtnetlink_structs @ nl_genetlink_structs @ nl_if_link_structs @ nl_if_addr_structs @
     nl_neighbour_structs @ nl_nexthop_structs @ nl_fib_rules_structs @ nl_gen_stats_structs @ nl_pkt_sched_structs @
     nl_pkt_cls_structs @ nl_tc_act_tc_gact_structs @ nl_tc_act_tc_mirred_structs @ nl_tc_act_tc_pedit_structs @
     nl_tc_act_tc_vlan_structs @ nl_tc_act_tc_skbedit_structs @ nl_tc_act_tc_ct_structs @ nl_tc_act_tc_mpls_structs @
     nl_tc_act_tc_bpf_structs @ nl_tc_act_tc_csum_structs @ nl_tc_act_tc_ctinfo_structs @ nl_tc_act_tc_defact_structs @
     nl_tc_act_tc_gate_structs @ nl_tc_act_tc_nat_structs @ nl_tc_act_tc_sample_structs @
     nl_tc_act_tc_tunnel_key_structs @ nl_sock_diag_structs @ nl_inet_diag_structs @ nl_unix_diag_structs @
     nl_packet_diag_structs @ nl_netlink_diag_structs @ nl_vm_sockets_diag_structs @ nl_xdp_diag_structs @
     nl_xfrm_structs @ nl_pfkeyv2_structs @ nl_cryptouser_structs @ nl_if_bridge_structs @ nl_openvswitch_structs @
     nl_ip_vs_structs @ nl_connector_structs @ nl_cn_proc_structs @ nl_net_dropmon_structs @ nl_can_netlink_structs"

definition nl_padded :: "ctype list" where
  "nl_padded = [struct_ifla_vf_vlan_info, struct_tc_u32_sel, struct_tc_pedit_sel, struct_tc_connmark, struct_tc_ife,
     struct_inet_diag_hostcond, struct_xfrm_id, struct_xfrm_selector, struct_xfrm_user_tmpl,
     struct_xfrm_encap_tmpl, struct_xfrm_userpolicy_type, struct_xfrm_usersa_id, struct_xfrm_aevent_id,
     struct_xfrm_userpolicy_id, struct_xfrm_user_report, struct_xfrm_user_kmaddress, struct_xfrm_user_mapping,
     struct_xfrm_user_offload, struct_br_mrp_instance, struct_br_mrp_in_state, struct_br_mrp_in_role,
     struct_br_mrp_start_in_test, struct_br_port_msg, struct_br_mdb_entry, struct_ovs_key_arp,
     struct_ovs_key_ct_tuple_ipv4, struct_ovs_key_ct_tuple_ipv6, struct_ovs_action_push_mpls,
     struct_ip_vs_service_user, struct_ip_vs_dest_user, struct_taskstats, struct_net_dm_config_entry,
     struct_net_dm_config_msg, struct_net_dm_user_msg]"

definition nl_changed :: "ctype list" where
  "nl_changed = [struct_rtnl_link_ifmap, struct_ifla_vf_guid, struct_gnet_stats_basic, struct_tc_stats, struct_tc_skbmod,
     struct_xfrm_usersa_info, struct_xfrm_userspi_info, struct_xfrm_userpolicy_info, struct_xfrm_user_acquire,
     struct_xfrm_user_expire, struct_xfrm_user_polexpire, struct__port_info, struct_ip_vs_stats_user,
     struct_ip_vs_service_entry, struct_ip_vs_dest_entry, struct_ip_vs_get_dests, struct_ip_vs_get_services,
     struct_mptcp_info]"

section \<open>Properties\<close>

lemma nl_netlink_structs_tight: "list_all tight nl_netlink_structs"
  by code_simp

lemma nl_rtnetlink_structs_tight: "list_all tight nl_rtnetlink_structs"
  by code_simp

lemma nl_genetlink_structs_tight: "list_all tight nl_genetlink_structs"
  by code_simp

lemma nl_if_link_structs_tight: "list_all tight nl_if_link_structs"
  by code_simp

lemma nl_if_addr_structs_tight: "list_all tight nl_if_addr_structs"
  by code_simp

lemma nl_neighbour_structs_tight: "list_all tight nl_neighbour_structs"
  by code_simp

lemma nl_nexthop_structs_tight: "list_all tight nl_nexthop_structs"
  by code_simp

lemma nl_fib_rules_structs_tight: "list_all tight nl_fib_rules_structs"
  by code_simp

lemma nl_gen_stats_structs_tight: "list_all tight nl_gen_stats_structs"
  by code_simp

lemma nl_pkt_sched_structs_tight: "list_all tight nl_pkt_sched_structs"
  by code_simp

lemma nl_pkt_cls_structs_tight: "list_all tight nl_pkt_cls_structs"
  by code_simp

lemma nl_tc_act_tc_gact_structs_tight: "list_all tight nl_tc_act_tc_gact_structs"
  by code_simp

lemma nl_tc_act_tc_mirred_structs_tight: "list_all tight nl_tc_act_tc_mirred_structs"
  by code_simp

lemma nl_tc_act_tc_pedit_structs_tight: "list_all tight nl_tc_act_tc_pedit_structs"
  by code_simp

lemma nl_tc_act_tc_vlan_structs_tight: "list_all tight nl_tc_act_tc_vlan_structs"
  by code_simp

lemma nl_tc_act_tc_skbedit_structs_tight: "list_all tight nl_tc_act_tc_skbedit_structs"
  by code_simp

lemma nl_tc_act_tc_ct_structs_tight: "list_all tight nl_tc_act_tc_ct_structs"
  by code_simp

lemma nl_tc_act_tc_mpls_structs_tight: "list_all tight nl_tc_act_tc_mpls_structs"
  by code_simp

lemma nl_tc_act_tc_bpf_structs_tight: "list_all tight nl_tc_act_tc_bpf_structs"
  by code_simp

lemma nl_tc_act_tc_csum_structs_tight: "list_all tight nl_tc_act_tc_csum_structs"
  by code_simp

lemma nl_tc_act_tc_ctinfo_structs_tight: "list_all tight nl_tc_act_tc_ctinfo_structs"
  by code_simp

lemma nl_tc_act_tc_defact_structs_tight: "list_all tight nl_tc_act_tc_defact_structs"
  by code_simp

lemma nl_tc_act_tc_gate_structs_tight: "list_all tight nl_tc_act_tc_gate_structs"
  by code_simp

lemma nl_tc_act_tc_nat_structs_tight: "list_all tight nl_tc_act_tc_nat_structs"
  by code_simp

lemma nl_tc_act_tc_sample_structs_tight: "list_all tight nl_tc_act_tc_sample_structs"
  by code_simp

lemma nl_tc_act_tc_tunnel_key_structs_tight: "list_all tight nl_tc_act_tc_tunnel_key_structs"
  by code_simp

lemma nl_sock_diag_structs_tight: "list_all tight nl_sock_diag_structs"
  by code_simp

lemma nl_inet_diag_structs_tight: "list_all tight nl_inet_diag_structs"
  by code_simp

lemma nl_unix_diag_structs_tight: "list_all tight nl_unix_diag_structs"
  by code_simp

lemma nl_packet_diag_structs_tight: "list_all tight nl_packet_diag_structs"
  by code_simp

lemma nl_netlink_diag_structs_tight: "list_all tight nl_netlink_diag_structs"
  by code_simp

lemma nl_vm_sockets_diag_structs_tight: "list_all tight nl_vm_sockets_diag_structs"
  by code_simp

lemma nl_xdp_diag_structs_tight: "list_all tight nl_xdp_diag_structs"
  by code_simp

lemma nl_xfrm_structs_tight: "list_all tight nl_xfrm_structs"
  by code_simp

lemma nl_pfkeyv2_structs_tight: "list_all tight nl_pfkeyv2_structs"
  by code_simp

lemma nl_cryptouser_structs_tight: "list_all tight nl_cryptouser_structs"
  by code_simp

lemma nl_if_bridge_structs_tight: "list_all tight nl_if_bridge_structs"
  by code_simp

lemma nl_openvswitch_structs_tight: "list_all tight nl_openvswitch_structs"
  by code_simp

lemma nl_ip_vs_structs_tight: "list_all tight nl_ip_vs_structs"
  by code_simp

lemma nl_connector_structs_tight: "list_all tight nl_connector_structs"
  by code_simp

lemma nl_cn_proc_structs_tight: "list_all tight nl_cn_proc_structs"
  by code_simp

lemma nl_net_dropmon_structs_tight: "list_all tight nl_net_dropmon_structs"
  by code_simp

lemma nl_can_netlink_structs_tight: "list_all tight nl_can_netlink_structs"
  by code_simp

lemmas nl_sections_tight =
  nl_netlink_structs_tight nl_rtnetlink_structs_tight nl_genetlink_structs_tight nl_if_link_structs_tight
  nl_if_addr_structs_tight nl_neighbour_structs_tight nl_nexthop_structs_tight nl_fib_rules_structs_tight
  nl_gen_stats_structs_tight nl_pkt_sched_structs_tight nl_pkt_cls_structs_tight
  nl_tc_act_tc_gact_structs_tight nl_tc_act_tc_mirred_structs_tight nl_tc_act_tc_pedit_structs_tight
  nl_tc_act_tc_vlan_structs_tight nl_tc_act_tc_skbedit_structs_tight nl_tc_act_tc_ct_structs_tight
  nl_tc_act_tc_mpls_structs_tight nl_tc_act_tc_bpf_structs_tight nl_tc_act_tc_csum_structs_tight
  nl_tc_act_tc_ctinfo_structs_tight nl_tc_act_tc_defact_structs_tight nl_tc_act_tc_gate_structs_tight
  nl_tc_act_tc_nat_structs_tight nl_tc_act_tc_sample_structs_tight nl_tc_act_tc_tunnel_key_structs_tight
  nl_sock_diag_structs_tight nl_inet_diag_structs_tight nl_unix_diag_structs_tight
  nl_packet_diag_structs_tight nl_netlink_diag_structs_tight nl_vm_sockets_diag_structs_tight
  nl_xdp_diag_structs_tight nl_xfrm_structs_tight nl_pfkeyv2_structs_tight nl_cryptouser_structs_tight
  nl_if_bridge_structs_tight nl_openvswitch_structs_tight nl_ip_vs_structs_tight nl_connector_structs_tight
  nl_cn_proc_structs_tight nl_net_dropmon_structs_tight nl_can_netlink_structs_tight

lemmas nl_sections =
  nl_netlink_structs_def nl_rtnetlink_structs_def nl_genetlink_structs_def nl_if_link_structs_def
  nl_if_addr_structs_def nl_neighbour_structs_def nl_nexthop_structs_def nl_fib_rules_structs_def
  nl_gen_stats_structs_def nl_pkt_sched_structs_def nl_pkt_cls_structs_def nl_tc_act_tc_gact_structs_def
  nl_tc_act_tc_mirred_structs_def nl_tc_act_tc_pedit_structs_def nl_tc_act_tc_vlan_structs_def
  nl_tc_act_tc_skbedit_structs_def nl_tc_act_tc_ct_structs_def nl_tc_act_tc_mpls_structs_def
  nl_tc_act_tc_bpf_structs_def nl_tc_act_tc_csum_structs_def nl_tc_act_tc_ctinfo_structs_def
  nl_tc_act_tc_defact_structs_def nl_tc_act_tc_gate_structs_def nl_tc_act_tc_nat_structs_def
  nl_tc_act_tc_sample_structs_def nl_tc_act_tc_tunnel_key_structs_def nl_sock_diag_structs_def
  nl_inet_diag_structs_def nl_unix_diag_structs_def nl_packet_diag_structs_def nl_netlink_diag_structs_def
  nl_vm_sockets_diag_structs_def nl_xdp_diag_structs_def nl_xfrm_structs_def nl_pfkeyv2_structs_def
  nl_cryptouser_structs_def nl_if_bridge_structs_def nl_openvswitch_structs_def nl_ip_vs_structs_def
  nl_connector_structs_def nl_cn_proc_structs_def nl_net_dropmon_structs_def nl_can_netlink_structs_def

lemma nl_all_tight: "list_all tight nl_structs"
  by (simp add: nl_structs_def nl_sections_tight)

lemma nl_padded_agree: "list_all (\<lambda>t. agree 4 t \<and> sizeof 4 t = sizeof 8 t) nl_padded"
  by code_simp

lemma nl_changed_differ: "list_all (\<lambda>t. sizeof 4 t \<noteq> sizeof 8 t) nl_changed"
  by code_simp

text \<open>
  C28: The structures of netlink messages without padding have one layout for 32-bit and 64-bit programs, in which each
  byte belongs to a member, and those with padding that i386 lays out alike as well. The structures of \<open>nl_changed\<close>
  do not: a message of an i386 program with one of them, such as \<^verbatim>\<open>struct xfrm_usersa_info\<close>, is not what
  a 64-bit kernel reads.
\<close>

theorem nl_compat:
  "(t \<in> set nl_structs \<union> set nl_padded \<longrightarrow> leaves 4 0 t = leaves 8 0 t \<and> sizeof 4 t = sizeof 8 t) \<and>
   (t \<in> set nl_structs \<longrightarrow> covered (leaves 8 0 t) 0 (sizeof 8 t)) \<and>
   (t \<in> set nl_changed \<longrightarrow> sizeof 4 t \<noteq> sizeof 8 t)"
  using tight_types [OF nl_all_tight, of t] nl_padded_agree nl_changed_differ
  by (auto simp add: list_all_iff same_everywhere_def intro: agree_leaves)

theorem nl_compat_witness:
  "leaves 4 0 struct_tc_htb_glob = leaves 8 0 struct_tc_htb_glob \<and>
   sizeof 4 struct_xfrm_usersa_info \<noteq> sizeof 8 struct_xfrm_usersa_info"
  using nl_compat [of struct_tc_htb_glob] nl_compat [of struct_xfrm_usersa_info]
  by (simp add: nl_structs_def nl_sections nl_changed_def)

end
