(* ===== verification/Wire_Syscall.thy ===== *)
theory Wire_Syscall
  imports Wire_Netlink
begin

text \<open>
  The structures of system calls, socket options and control messages: \<^verbatim>\<open>bpf.h\<close>, \<^verbatim>\<open>io_uring.h\<close>, \<^verbatim>\<open>perf_event.h\<close>,
  \<^verbatim>\<open>userfaultfd.h\<close>, \<^verbatim>\<open>ptrace.h\<close> and others, the sockets of \<^verbatim>\<open>tcp.h\<close>, \<^verbatim>\<open>sctp.h\<close>, \<^verbatim>\<open>rds.h\<close>, \<^verbatim>\<open>can.h\<close>, \<^verbatim>\<open>if_packet.h\<close> and \<^verbatim>\<open>if_xdp.h\<close>, the
  virtual functions of \<^verbatim>\<open>vfio.h\<close> and file and block devices. The kernel takes most of them from programs of either
  width without translation.
\<close>

section \<open>\<^verbatim>\<open>include/linux/bpf.h\<close>\<close>

definition struct_bpf_insn :: ctype where
  "struct_bpf_insn = c_struct [
     (''code'', u8_t),
     (''dst_reg'', u8_t),
     (''off'', u16_t),
     (''imm'', u32_t)]"

definition struct_bpf_lpm_trie_key :: ctype where
  "struct_bpf_lpm_trie_key = c_struct [
     (''prefixlen'', u32_t),
     (''data'', Arr u8_t 0)]"

definition struct_bpf_cgroup_storage_key :: ctype where
  "struct_bpf_cgroup_storage_key = c_struct [
     (''cgroup_inode_id'', u64_t),
     (''attach_type'', u32_t)]"

definition union_bpf_iter_link_info :: ctype where
  "union_bpf_iter_link_info = c_union [
     (''map'', c_struct [ (''map_fd'', u32_t)])]"

definition struct_bpf_stack_build_id :: ctype where
  "struct_bpf_stack_build_id = c_struct [
     (''status'', u32_t),
     (''build_id'', Arr u8_t 20),
     ('''', c_union [ (''offset'', u64_t), (''ip'', u64_t)])]"

definition union_bpf_attr :: ctype where
  "union_bpf_attr = Aligned 8 (c_union [
     ('''', c_struct [ (''map_type'', u32_t), (''key_size'', u32_t), (''value_size'', u32_t), (''max_entries'', u32_t), (''map_flags'', u32_t), (''inner_map_fd'', u32_t), (''numa_node'', u32_t), (''map_name'', Arr u8_t 16), (''map_ifindex'', u32_t), (''btf_fd'', u32_t), (''btf_key_type_id'', u32_t), (''btf_value_type_id'', u32_t), (''btf_vmlinux_value_type_id'', u32_t)]),
     ('''', c_struct [ (''map_fd'', u32_t), (''key'', aligned_u64_t), ('''', c_union [ (''value'', aligned_u64_t), (''next_key'', aligned_u64_t)]), (''flags'', u64_t)]),
     (''batch'', c_struct [ (''in_batch'', aligned_u64_t), (''out_batch'', aligned_u64_t), (''keys'', aligned_u64_t), (''values'', aligned_u64_t), (''count'', u32_t), (''map_fd'', u32_t), (''elem_flags'', u64_t), (''flags'', u64_t)]),
     ('''', c_struct [ (''prog_type'', u32_t), (''insn_cnt'', u32_t), (''insns'', aligned_u64_t), (''license'', aligned_u64_t), (''log_level'', u32_t), (''log_size'', u32_t), (''log_buf'', aligned_u64_t), (''kern_version'', u32_t), (''prog_flags'', u32_t), (''prog_name'', Arr u8_t 16), (''prog_ifindex'', u32_t), (''expected_attach_type'', u32_t), (''prog_btf_fd'', u32_t), (''func_info_rec_size'', u32_t), (''func_info'', aligned_u64_t), (''func_info_cnt'', u32_t), (''line_info_rec_size'', u32_t), (''line_info'', aligned_u64_t), (''line_info_cnt'', u32_t), (''attach_btf_id'', u32_t), ('''', c_union [ (''attach_prog_fd'', u32_t), (''attach_btf_obj_fd'', u32_t)]), ('''', u32_t), (''fd_array'', aligned_u64_t)]),
     ('''', c_struct [ (''pathname'', aligned_u64_t), (''bpf_fd'', u32_t), (''file_flags'', u32_t)]),
     ('''', c_struct [ (''target_fd'', u32_t), (''attach_bpf_fd'', u32_t), (''attach_type'', u32_t), (''attach_flags'', u32_t), (''replace_bpf_fd'', u32_t)]),
     (''test'', c_struct [ (''prog_fd'', u32_t), (''retval'', u32_t), (''data_size_in'', u32_t), (''data_size_out'', u32_t), (''data_in'', aligned_u64_t), (''data_out'', aligned_u64_t), (''repeat'', u32_t), (''duration'', u32_t), (''ctx_size_in'', u32_t), (''ctx_size_out'', u32_t), (''ctx_in'', aligned_u64_t), (''ctx_out'', aligned_u64_t), (''flags'', u32_t), (''cpu'', u32_t)]),
     ('''', c_struct [ ('''', c_union [ (''start_id'', u32_t), (''prog_id'', u32_t), (''map_id'', u32_t), (''btf_id'', u32_t), (''link_id'', u32_t)]), (''next_id'', u32_t), (''open_flags'', u32_t)]),
     (''info'', c_struct [ (''bpf_fd'', u32_t), (''info_len'', u32_t), (''info'', aligned_u64_t)]),
     (''query'', c_struct [ (''target_fd'', u32_t), (''attach_type'', u32_t), (''query_flags'', u32_t), (''attach_flags'', u32_t), (''prog_ids'', aligned_u64_t), (''prog_cnt'', u32_t)]),
     (''raw_tracepoint'', c_struct [ (''name'', u64_t), (''prog_fd'', u32_t)]),
     ('''', c_struct [ (''btf'', aligned_u64_t), (''btf_log_buf'', aligned_u64_t), (''btf_size'', u32_t), (''btf_log_size'', u32_t), (''btf_log_level'', u32_t)]),
     (''task_fd_query'', c_struct [ (''pid'', u32_t), (''fd'', u32_t), (''flags'', u32_t), (''buf_len'', u32_t), (''buf'', aligned_u64_t), (''prog_id'', u32_t), (''fd_type'', u32_t), (''probe_offset'', u64_t), (''probe_addr'', u64_t)]),
     (''link_create'', c_struct [ (''prog_fd'', u32_t), ('''', c_union [ (''target_fd'', u32_t), (''target_ifindex'', u32_t)]), (''attach_type'', u32_t), (''flags'', u32_t), ('''', c_union [ (''target_btf_id'', u32_t), ('''', c_struct [ (''iter_info'', aligned_u64_t), (''iter_info_len'', u32_t)]), (''perf_event'', c_struct [ (''bpf_cookie'', u64_t)])])]),
     (''link_update'', c_struct [ (''link_fd'', u32_t), (''new_prog_fd'', u32_t), (''flags'', u32_t), (''old_prog_fd'', u32_t)]),
     (''link_detach'', c_struct [ (''link_fd'', u32_t)]),
     (''enable_stats'', c_struct [ (''type'', u32_t)]),
     (''iter_create'', c_struct [ (''link_fd'', u32_t), (''flags'', u32_t)]),
     (''prog_bind_map'', c_struct [ (''prog_fd'', u32_t), (''map_fd'', u32_t), (''flags'', u32_t)])])"

definition struct__sk_buff :: "nat \<Rightarrow> ctype" where
  "struct__sk_buff w = c_struct [
     (''len'', u32_t),
     (''pkt_type'', u32_t),
     (''mark'', u32_t),
     (''queue_mapping'', u32_t),
     (''protocol'', u32_t),
     (''vlan_present'', u32_t),
     (''vlan_tci'', u32_t),
     (''vlan_proto'', u32_t),
     (''priority'', u32_t),
     (''ingress_ifindex'', u32_t),
     (''ifindex'', u32_t),
     (''tc_index'', u32_t),
     (''cb'', Arr u32_t 5),
     (''hash'', u32_t),
     (''tc_classid'', u32_t),
     (''data'', u32_t),
     (''data_end'', u32_t),
     (''napi_id'', u32_t),
     (''family'', u32_t),
     (''remote_ip4'', u32_t),
     (''local_ip4'', u32_t),
     (''remote_ip6'', Arr u32_t 4),
     (''local_ip6'', Arr u32_t 4),
     (''remote_port'', u32_t),
     (''local_port'', u32_t),
     (''data_meta'', u32_t),
     ('''', Aligned 8 (c_union [ (''flow_keys'', ptr_t w), (''pad_flow_keys'', u64_t)])),
     (''tstamp'', u64_t),
     (''wire_len'', u32_t),
     (''gso_segs'', u32_t),
     ('''', Aligned 8 (c_union [ (''sk'', ptr_t w), (''pad_sk'', u64_t)])),
     (''gso_size'', u32_t)]"

definition struct_bpf_tunnel_key :: ctype where
  "struct_bpf_tunnel_key = c_struct [
     (''tunnel_id'', u32_t),
     ('''', c_union [ (''remote_ipv4'', u32_t), (''remote_ipv6'', Arr u32_t 4)]),
     (''tunnel_tos'', u8_t),
     (''tunnel_ttl'', u8_t),
     (''tunnel_ext'', u16_t),
     (''tunnel_label'', u32_t)]"

definition struct_bpf_xfrm_state :: ctype where
  "struct_bpf_xfrm_state = c_struct [
     (''reqid'', u32_t),
     (''spi'', u32_t),
     (''family'', u16_t),
     (''ext'', u16_t),
     ('''', c_union [ (''remote_ipv4'', u32_t), (''remote_ipv6'', Arr u32_t 4)])]"

definition struct_bpf_sock :: ctype where
  "struct_bpf_sock = c_struct [
     (''bound_dev_if'', u32_t),
     (''family'', u32_t),
     (''type'', u32_t),
     (''protocol'', u32_t),
     (''mark'', u32_t),
     (''priority'', u32_t),
     (''src_ip4'', u32_t),
     (''src_ip6'', Arr u32_t 4),
     (''src_port'', u32_t),
     (''dst_port'', u16_t),
     ('''', u16_t),
     (''dst_ip4'', u32_t),
     (''dst_ip6'', Arr u32_t 4),
     (''state'', u32_t),
     (''rx_queue_mapping'', u32_t)]"

definition struct_bpf_tcp_sock :: ctype where
  "struct_bpf_tcp_sock = c_struct [
     (''snd_cwnd'', u32_t),
     (''srtt_us'', u32_t),
     (''rtt_min'', u32_t),
     (''snd_ssthresh'', u32_t),
     (''rcv_nxt'', u32_t),
     (''snd_nxt'', u32_t),
     (''snd_una'', u32_t),
     (''mss_cache'', u32_t),
     (''ecn_flags'', u32_t),
     (''rate_delivered'', u32_t),
     (''rate_interval_us'', u32_t),
     (''packets_out'', u32_t),
     (''retrans_out'', u32_t),
     (''total_retrans'', u32_t),
     (''segs_in'', u32_t),
     (''data_segs_in'', u32_t),
     (''segs_out'', u32_t),
     (''data_segs_out'', u32_t),
     (''lost_out'', u32_t),
     (''sacked_out'', u32_t),
     (''bytes_received'', u64_t),
     (''bytes_acked'', u64_t),
     (''dsack_dups'', u32_t),
     (''delivered'', u32_t),
     (''delivered_ce'', u32_t),
     (''icsk_retransmits'', u32_t)]"

definition struct_bpf_sock_tuple :: ctype where
  "struct_bpf_sock_tuple = c_struct [
     ('''', c_union [ (''ipv4'', c_struct [ (''saddr'', u32_t), (''daddr'', u32_t), (''sport'', u16_t), (''dport'', u16_t)]), (''ipv6'', c_struct [ (''saddr'', Arr u32_t 4), (''daddr'', Arr u32_t 4), (''sport'', u16_t), (''dport'', u16_t)])])]"

definition struct_bpf_xdp_sock :: ctype where
  "struct_bpf_xdp_sock = c_struct [
     (''queue_id'', u32_t)]"

definition struct_xdp_md :: ctype where
  "struct_xdp_md = c_struct [
     (''data'', u32_t),
     (''data_end'', u32_t),
     (''data_meta'', u32_t),
     (''ingress_ifindex'', u32_t),
     (''rx_queue_index'', u32_t),
     (''egress_ifindex'', u32_t)]"

definition struct_bpf_devmap_val :: ctype where
  "struct_bpf_devmap_val = c_struct [
     (''ifindex'', u32_t),
     (''bpf_prog'', c_union [ (''fd'', u32_t), (''id'', u32_t)])]"

definition struct_bpf_cpumap_val :: ctype where
  "struct_bpf_cpumap_val = c_struct [
     (''qsize'', u32_t),
     (''bpf_prog'', c_union [ (''fd'', u32_t), (''id'', u32_t)])]"

definition struct_sk_msg_md :: "nat \<Rightarrow> ctype" where
  "struct_sk_msg_md w = c_struct [
     ('''', Aligned 8 (c_union [ (''data'', ptr_t w), (''pad_data'', u64_t)])),
     ('''', Aligned 8 (c_union [ (''data_end'', ptr_t w), (''pad_data_end'', u64_t)])),
     (''family'', u32_t),
     (''remote_ip4'', u32_t),
     (''local_ip4'', u32_t),
     (''remote_ip6'', Arr u32_t 4),
     (''local_ip6'', Arr u32_t 4),
     (''remote_port'', u32_t),
     (''local_port'', u32_t),
     (''size'', u32_t),
     ('''', Aligned 8 (c_union [ (''sk'', ptr_t w), (''pad_sk'', u64_t)]))]"

definition struct_sk_reuseport_md :: "nat \<Rightarrow> ctype" where
  "struct_sk_reuseport_md w = c_struct [
     ('''', Aligned 8 (c_union [ (''data'', ptr_t w), (''pad_data'', u64_t)])),
     ('''', Aligned 8 (c_union [ (''data_end'', ptr_t w), (''pad_data_end'', u64_t)])),
     (''len'', u32_t),
     (''eth_protocol'', u32_t),
     (''ip_protocol'', u32_t),
     (''bind_inany'', u32_t),
     (''hash'', u32_t),
     ('''', Aligned 8 (c_union [ (''sk'', ptr_t w), (''pad_sk'', u64_t)])),
     ('''', Aligned 8 (c_union [ (''migrating_sk'', ptr_t w), (''pad_migrating_sk'', u64_t)]))]"

definition struct_bpf_prog_info :: ctype where
  "struct_bpf_prog_info = Aligned 8 (c_struct [
     (''type'', u32_t),
     (''id'', u32_t),
     (''tag'', Arr u8_t 8),
     (''jited_prog_len'', u32_t),
     (''xlated_prog_len'', u32_t),
     (''jited_prog_insns'', aligned_u64_t),
     (''xlated_prog_insns'', aligned_u64_t),
     (''load_time'', u64_t),
     (''created_by_uid'', u32_t),
     (''nr_map_ids'', u32_t),
     (''map_ids'', aligned_u64_t),
     (''name'', Arr u8_t 16),
     (''ifindex'', u32_t),
     (''gpl_compatible'', u32_t),
     (''netns_dev'', u64_t),
     (''netns_ino'', u64_t),
     (''nr_jited_ksyms'', u32_t),
     (''nr_jited_func_lens'', u32_t),
     (''jited_ksyms'', aligned_u64_t),
     (''jited_func_lens'', aligned_u64_t),
     (''btf_id'', u32_t),
     (''func_info_rec_size'', u32_t),
     (''func_info'', aligned_u64_t),
     (''nr_func_info'', u32_t),
     (''nr_line_info'', u32_t),
     (''line_info'', aligned_u64_t),
     (''jited_line_info'', aligned_u64_t),
     (''nr_jited_line_info'', u32_t),
     (''line_info_rec_size'', u32_t),
     (''jited_line_info_rec_size'', u32_t),
     (''nr_prog_tags'', u32_t),
     (''prog_tags'', aligned_u64_t),
     (''run_time_ns'', u64_t),
     (''run_cnt'', u64_t),
     (''recursion_misses'', u64_t)])"

definition struct_bpf_map_info :: ctype where
  "struct_bpf_map_info = Aligned 8 (c_struct [
     (''type'', u32_t),
     (''id'', u32_t),
     (''key_size'', u32_t),
     (''value_size'', u32_t),
     (''max_entries'', u32_t),
     (''map_flags'', u32_t),
     (''name'', Arr u8_t 16),
     (''ifindex'', u32_t),
     (''btf_vmlinux_value_type_id'', u32_t),
     (''netns_dev'', u64_t),
     (''netns_ino'', u64_t),
     (''btf_id'', u32_t),
     (''btf_key_type_id'', u32_t),
     (''btf_value_type_id'', u32_t)])"

definition struct_bpf_btf_info :: ctype where
  "struct_bpf_btf_info = Aligned 8 (c_struct [
     (''btf'', aligned_u64_t),
     (''btf_size'', u32_t),
     (''id'', u32_t),
     (''name'', aligned_u64_t),
     (''name_len'', u32_t),
     (''kernel_btf'', u32_t)])"

definition struct_bpf_link_info :: ctype where
  "struct_bpf_link_info = Aligned 8 (c_struct [
     (''type'', u32_t),
     (''id'', u32_t),
     (''prog_id'', u32_t),
     ('''', c_union [ (''raw_tracepoint'', c_struct [ (''tp_name'', aligned_u64_t), (''tp_name_len'', u32_t)]), (''tracing'', c_struct [ (''attach_type'', u32_t), (''target_obj_id'', u32_t), (''target_btf_id'', u32_t)]), (''cgroup'', c_struct [ (''cgroup_id'', u64_t), (''attach_type'', u32_t)]), (''iter'', c_struct [ (''target_name'', aligned_u64_t), (''target_name_len'', u32_t), ('''', c_union [ (''map'', c_struct [ (''map_id'', u32_t)])])]), (''netns'', c_struct [ (''netns_ino'', u32_t), (''attach_type'', u32_t)]), (''xdp'', c_struct [ (''ifindex'', u32_t)])])])"

definition struct_bpf_sock_addr :: "nat \<Rightarrow> ctype" where
  "struct_bpf_sock_addr w = c_struct [
     (''user_family'', u32_t),
     (''user_ip4'', u32_t),
     (''user_ip6'', Arr u32_t 4),
     (''user_port'', u32_t),
     (''family'', u32_t),
     (''type'', u32_t),
     (''protocol'', u32_t),
     (''msg_src_ip4'', u32_t),
     (''msg_src_ip6'', Arr u32_t 4),
     ('''', Aligned 8 (c_union [ (''sk'', ptr_t w), (''pad_sk'', u64_t)]))]"

definition struct_bpf_sock_ops :: "nat \<Rightarrow> ctype" where
  "struct_bpf_sock_ops w = c_struct [
     (''op'', u32_t),
     ('''', c_union [ (''args'', Arr u32_t 4), (''reply'', u32_t), (''replylong'', Arr u32_t 4)]),
     (''family'', u32_t),
     (''remote_ip4'', u32_t),
     (''local_ip4'', u32_t),
     (''remote_ip6'', Arr u32_t 4),
     (''local_ip6'', Arr u32_t 4),
     (''remote_port'', u32_t),
     (''local_port'', u32_t),
     (''is_fullsock'', u32_t),
     (''snd_cwnd'', u32_t),
     (''srtt_us'', u32_t),
     (''bpf_sock_ops_cb_flags'', u32_t),
     (''state'', u32_t),
     (''rtt_min'', u32_t),
     (''snd_ssthresh'', u32_t),
     (''rcv_nxt'', u32_t),
     (''snd_nxt'', u32_t),
     (''snd_una'', u32_t),
     (''mss_cache'', u32_t),
     (''ecn_flags'', u32_t),
     (''rate_delivered'', u32_t),
     (''rate_interval_us'', u32_t),
     (''packets_out'', u32_t),
     (''retrans_out'', u32_t),
     (''total_retrans'', u32_t),
     (''segs_in'', u32_t),
     (''data_segs_in'', u32_t),
     (''segs_out'', u32_t),
     (''data_segs_out'', u32_t),
     (''lost_out'', u32_t),
     (''sacked_out'', u32_t),
     (''sk_txhash'', u32_t),
     (''bytes_received'', u64_t),
     (''bytes_acked'', u64_t),
     ('''', Aligned 8 (c_union [ (''sk'', ptr_t w), (''pad_sk'', u64_t)])),
     ('''', Aligned 8 (c_union [ (''skb_data'', ptr_t w), (''pad_skb_data'', u64_t)])),
     ('''', Aligned 8 (c_union [ (''skb_data_end'', ptr_t w), (''pad_skb_data_end'', u64_t)])),
     (''skb_len'', u32_t),
     (''skb_tcp_flags'', u32_t)]"

definition struct_bpf_perf_event_value :: ctype where
  "struct_bpf_perf_event_value = c_struct [
     (''counter'', u64_t),
     (''enabled'', u64_t),
     (''running'', u64_t)]"

definition struct_bpf_cgroup_dev_ctx :: ctype where
  "struct_bpf_cgroup_dev_ctx = c_struct [
     (''access_type'', u32_t),
     (''major'', u32_t),
     (''minor'', u32_t)]"

definition struct_bpf_raw_tracepoint_args :: ctype where
  "struct_bpf_raw_tracepoint_args = c_struct [
     (''args'', Arr u64_t 0)]"

definition struct_bpf_fib_lookup :: ctype where
  "struct_bpf_fib_lookup = c_struct [
     (''family'', u8_t),
     (''l4_protocol'', u8_t),
     (''sport'', u16_t),
     (''dport'', u16_t),
     ('''', c_union [ (''tot_len'', u16_t), (''mtu_result'', u16_t)]),
     (''ifindex'', u32_t),
     ('''', c_union [ (''tos'', u8_t), (''flowinfo'', u32_t), (''rt_metric'', u32_t)]),
     ('''', c_union [ (''ipv4_src'', u32_t), (''ipv6_src'', Arr u32_t 4)]),
     ('''', c_union [ (''ipv4_dst'', u32_t), (''ipv6_dst'', Arr u32_t 4)]),
     (''h_vlan_proto'', u16_t),
     (''h_vlan_TCI'', u16_t),
     (''smac'', Arr u8_t 6),
     (''dmac'', Arr u8_t 6)]"

definition struct_bpf_redir_neigh :: ctype where
  "struct_bpf_redir_neigh = c_struct [
     (''nh_family'', u32_t),
     ('''', c_union [ (''ipv4_nh'', u32_t), (''ipv6_nh'', Arr u32_t 4)])]"

definition struct_bpf_flow_keys :: ctype where
  "struct_bpf_flow_keys = c_struct [
     (''nhoff'', u16_t),
     (''thoff'', u16_t),
     (''addr_proto'', u16_t),
     (''is_frag'', u8_t),
     (''is_first_frag'', u8_t),
     (''is_encap'', u8_t),
     (''ip_proto'', u8_t),
     (''n_proto'', u16_t),
     (''sport'', u16_t),
     (''dport'', u16_t),
     ('''', c_union [ ('''', c_struct [ (''ipv4_src'', u32_t), (''ipv4_dst'', u32_t)]), ('''', c_struct [ (''ipv6_src'', Arr u32_t 4), (''ipv6_dst'', Arr u32_t 4)])]),
     (''flags'', u32_t),
     (''flow_label'', u32_t)]"

definition struct_bpf_func_info :: ctype where
  "struct_bpf_func_info = c_struct [
     (''insn_off'', u32_t),
     (''type_id'', u32_t)]"

definition struct_bpf_line_info :: ctype where
  "struct_bpf_line_info = c_struct [
     (''insn_off'', u32_t),
     (''file_name_off'', u32_t),
     (''line_off'', u32_t),
     (''line_col'', u32_t)]"

definition struct_bpf_spin_lock :: ctype where
  "struct_bpf_spin_lock = c_struct [
     (''val'', u32_t)]"

definition struct_bpf_timer :: ctype where
  "struct_bpf_timer = Aligned 8 (c_struct [
     ('''', u64_t),
     ('''', u64_t)])"

definition struct_bpf_sysctl :: ctype where
  "struct_bpf_sysctl = c_struct [
     (''write'', u32_t),
     (''file_pos'', u32_t)]"

definition struct_bpf_sockopt :: "nat \<Rightarrow> ctype" where
  "struct_bpf_sockopt w = c_struct [
     ('''', Aligned 8 (c_union [ (''sk'', ptr_t w), (''pad_sk'', u64_t)])),
     ('''', Aligned 8 (c_union [ (''optval'', ptr_t w), (''pad_optval'', u64_t)])),
     ('''', Aligned 8 (c_union [ (''optval_end'', ptr_t w), (''pad_optval_end'', u64_t)])),
     (''level'', u32_t),
     (''optname'', u32_t),
     (''optlen'', u32_t),
     (''retval'', u32_t)]"

definition struct_bpf_pidns_info :: ctype where
  "struct_bpf_pidns_info = c_struct [
     (''pid'', u32_t),
     (''tgid'', u32_t)]"

definition struct_bpf_sk_lookup :: "nat \<Rightarrow> ctype" where
  "struct_bpf_sk_lookup w = c_struct [
     ('''', c_union [ ('''', Aligned 8 (c_union [ (''sk'', ptr_t w), (''pad_sk'', u64_t)])), (''cookie'', u64_t)]),
     (''family'', u32_t),
     (''protocol'', u32_t),
     (''remote_ip4'', u32_t),
     (''remote_ip6'', Arr u32_t 4),
     (''remote_port'', u16_t),
     ('''', u16_t),
     (''local_ip4'', u32_t),
     (''local_ip6'', Arr u32_t 4),
     (''local_port'', u32_t)]"

definition struct_btf_ptr :: "nat \<Rightarrow> ctype" where
  "struct_btf_ptr w = c_struct [
     (''ptr'', ptr_t w),
     (''type_id'', u32_t),
     (''flags'', u32_t)]"

definition sys_bpf_structs :: "ctype list" where
  "sys_bpf_structs = [struct_bpf_insn, struct_bpf_lpm_trie_key, union_bpf_iter_link_info, struct_bpf_stack_build_id,
     struct_bpf_tunnel_key, struct_bpf_xfrm_state, struct_bpf_sock, struct_bpf_tcp_sock, struct_bpf_sock_tuple,
     struct_bpf_xdp_sock, struct_xdp_md, struct_bpf_devmap_val, struct_bpf_cpumap_val, struct_bpf_prog_info,
     struct_bpf_btf_info, struct_bpf_perf_event_value, struct_bpf_cgroup_dev_ctx, struct_bpf_raw_tracepoint_args,
     struct_bpf_fib_lookup, struct_bpf_redir_neigh, struct_bpf_flow_keys, struct_bpf_func_info,
     struct_bpf_line_info, struct_bpf_spin_lock, struct_bpf_timer, struct_bpf_sysctl, struct_bpf_pidns_info]"

section \<open>\<^verbatim>\<open>include/linux/btf.h\<close>\<close>

definition struct_btf_header :: ctype where
  "struct_btf_header = c_struct [
     (''magic'', u16_t),
     (''version'', u8_t),
     (''flags'', u8_t),
     (''hdr_len'', u32_t),
     (''type_off'', u32_t),
     (''type_len'', u32_t),
     (''str_off'', u32_t),
     (''str_len'', u32_t)]"

definition struct_btf_type :: ctype where
  "struct_btf_type = c_struct [
     (''name_off'', u32_t),
     (''info'', u32_t),
     ('''', c_union [ (''size'', u32_t), (''type'', u32_t)])]"

definition struct_btf_enum :: ctype where
  "struct_btf_enum = c_struct [
     (''name_off'', u32_t),
     (''val'', u32_t)]"

definition struct_btf_array :: ctype where
  "struct_btf_array = c_struct [
     (''type'', u32_t),
     (''index_type'', u32_t),
     (''nelems'', u32_t)]"

definition struct_btf_member :: ctype where
  "struct_btf_member = c_struct [
     (''name_off'', u32_t),
     (''type'', u32_t),
     (''offset'', u32_t)]"

definition struct_btf_param :: ctype where
  "struct_btf_param = c_struct [
     (''name_off'', u32_t),
     (''type'', u32_t)]"

definition struct_btf_var :: ctype where
  "struct_btf_var = c_struct [
     (''linkage'', u32_t)]"

definition struct_btf_var_secinfo :: ctype where
  "struct_btf_var_secinfo = c_struct [
     (''type'', u32_t),
     (''offset'', u32_t),
     (''size'', u32_t)]"

definition sys_btf_structs :: "ctype list" where
  "sys_btf_structs = [struct_btf_header, struct_btf_type, struct_btf_enum, struct_btf_array, struct_btf_member, struct_btf_param,
     struct_btf_var, struct_btf_var_secinfo]"

section \<open>\<^verbatim>\<open>include/linux/io_uring.h\<close>\<close>

definition struct_io_uring_sqe :: ctype where
  "struct_io_uring_sqe = c_struct [
     (''opcode'', u8_t),
     (''flags'', u8_t),
     (''ioprio'', u16_t),
     (''fd'', u32_t),
     ('''', c_union [ (''off'', u64_t), (''addr2'', u64_t)]),
     ('''', c_union [ (''addr'', u64_t), (''splice_off_in'', u64_t)]),
     (''len'', u32_t),
     ('''', c_union [ (''rw_flags'', u32_t), (''fsync_flags'', u32_t), (''poll_events'', u16_t), (''poll32_events'', u32_t), (''sync_range_flags'', u32_t), (''msg_flags'', u32_t), (''timeout_flags'', u32_t), (''accept_flags'', u32_t), (''cancel_flags'', u32_t), (''open_flags'', u32_t), (''statx_flags'', u32_t), (''fadvise_advice'', u32_t), (''splice_flags'', u32_t), (''rename_flags'', u32_t), (''unlink_flags'', u32_t), (''hardlink_flags'', u32_t)]),
     (''user_data'', u64_t),
     ('''', Packed [c_union [ (''buf_index'', u16_t), (''buf_group'', u16_t)]]),
     (''personality'', u16_t),
     ('''', c_union [ (''splice_fd_in'', u32_t), (''file_index'', u32_t)]),
     (''__pad2'', Arr u64_t 2)]"

definition struct_io_uring_cqe :: ctype where
  "struct_io_uring_cqe = c_struct [
     (''user_data'', u64_t),
     (''res'', u32_t),
     (''flags'', u32_t)]"

definition struct_io_sqring_offsets :: ctype where
  "struct_io_sqring_offsets = c_struct [
     (''head'', u32_t),
     (''tail'', u32_t),
     (''ring_mask'', u32_t),
     (''ring_entries'', u32_t),
     (''flags'', u32_t),
     (''dropped'', u32_t),
     (''array'', u32_t),
     (''resv1'', u32_t),
     (''resv2'', u64_t)]"

definition struct_io_cqring_offsets :: ctype where
  "struct_io_cqring_offsets = c_struct [
     (''head'', u32_t),
     (''tail'', u32_t),
     (''ring_mask'', u32_t),
     (''ring_entries'', u32_t),
     (''overflow'', u32_t),
     (''cqes'', u32_t),
     (''flags'', u32_t),
     (''resv1'', u32_t),
     (''resv2'', u64_t)]"

definition struct_io_uring_params :: ctype where
  "struct_io_uring_params = c_struct [
     (''sq_entries'', u32_t),
     (''cq_entries'', u32_t),
     (''flags'', u32_t),
     (''sq_thread_cpu'', u32_t),
     (''sq_thread_idle'', u32_t),
     (''features'', u32_t),
     (''wq_fd'', u32_t),
     (''resv'', Arr u32_t 3),
     (''sq_off'', struct_io_sqring_offsets),
     (''cq_off'', struct_io_cqring_offsets)]"

definition struct_io_uring_files_update :: ctype where
  "struct_io_uring_files_update = c_struct [
     (''offset'', u32_t),
     (''resv'', u32_t),
     (''fds'', aligned_u64_t)]"

definition struct_io_uring_rsrc_register :: ctype where
  "struct_io_uring_rsrc_register = c_struct [
     (''nr'', u32_t),
     (''resv'', u32_t),
     (''resv2'', u64_t),
     (''data'', aligned_u64_t),
     (''tags'', aligned_u64_t)]"

definition struct_io_uring_rsrc_update :: ctype where
  "struct_io_uring_rsrc_update = c_struct [
     (''offset'', u32_t),
     (''resv'', u32_t),
     (''data'', aligned_u64_t)]"

definition struct_io_uring_rsrc_update2 :: ctype where
  "struct_io_uring_rsrc_update2 = c_struct [
     (''offset'', u32_t),
     (''resv'', u32_t),
     (''data'', aligned_u64_t),
     (''tags'', aligned_u64_t),
     (''nr'', u32_t),
     (''resv2'', u32_t)]"

definition struct_io_uring_probe_op :: ctype where
  "struct_io_uring_probe_op = c_struct [
     (''op'', u8_t),
     (''resv'', u8_t),
     (''flags'', u16_t),
     (''resv2'', u32_t)]"

definition struct_io_uring_probe :: ctype where
  "struct_io_uring_probe = c_struct [
     (''last_op'', u8_t),
     (''ops_len'', u8_t),
     (''resv'', u16_t),
     (''resv2'', Arr u32_t 3),
     (''ops'', Arr struct_io_uring_probe_op 0)]"

definition struct_io_uring_restriction :: ctype where
  "struct_io_uring_restriction = c_struct [
     (''opcode'', u16_t),
     ('''', c_union [ (''register_op'', u8_t), (''sqe_op'', u8_t), (''sqe_flags'', u8_t)]),
     (''resv'', u8_t),
     (''resv2'', Arr u32_t 3)]"

definition struct_io_uring_getevents_arg :: ctype where
  "struct_io_uring_getevents_arg = c_struct [
     (''sigmask'', u64_t),
     (''sigmask_sz'', u32_t),
     (''pad'', u32_t),
     (''ts'', u64_t)]"

definition sys_io_uring_structs :: "ctype list" where
  "sys_io_uring_structs = [struct_io_uring_sqe, struct_io_uring_cqe, struct_io_sqring_offsets, struct_io_cqring_offsets,
     struct_io_uring_params, struct_io_uring_files_update, struct_io_uring_rsrc_register,
     struct_io_uring_rsrc_update, struct_io_uring_rsrc_update2, struct_io_uring_probe_op, struct_io_uring_probe,
     struct_io_uring_restriction, struct_io_uring_getevents_arg]"

section \<open>\<^verbatim>\<open>include/linux/perf_event.h\<close>\<close>

definition struct_perf_event_attr :: ctype where
  "struct_perf_event_attr = c_struct [
     (''type'', u32_t),
     (''size'', u32_t),
     (''config'', u64_t),
     ('''', c_union [ (''sample_period'', u64_t), (''sample_freq'', u64_t)]),
     (''sample_type'', u64_t),
     (''read_format'', u64_t),
     (''disabled_inherit_pinned_exclusive_exclude_user_exclude_kernel_exclude_hv_exclude_idle_mmap_comm_freq_inherit_stat_enable_on_exec_task_watermark_precise_ip_mmap_data_sample_id_all_exclude_host_exclude_guest_exclude_callchain_kernel_exclude_callchain_user_mmap2_comm_exec_use_clockid_context_switch_write_backward_namespaces_ksymbol_bpf_event_aux_output_cgroup_text_poke_build_id_inherit_thread_remove_on_exec_sigtrap___reserved_1'', u64_t),
     ('''', c_union [ (''wakeup_events'', u32_t), (''wakeup_watermark'', u32_t)]),
     (''bp_type'', u32_t),
     ('''', c_union [ (''bp_addr'', u64_t), (''kprobe_func'', u64_t), (''uprobe_path'', u64_t), (''config1'', u64_t)]),
     ('''', c_union [ (''bp_len'', u64_t), (''kprobe_addr'', u64_t), (''probe_offset'', u64_t), (''config2'', u64_t)]),
     (''branch_sample_type'', u64_t),
     (''sample_regs_user'', u64_t),
     (''sample_stack_user'', u32_t),
     (''clockid'', u32_t),
     (''sample_regs_intr'', u64_t),
     (''aux_watermark'', u32_t),
     (''sample_max_stack'', u16_t),
     (''__reserved_2'', u16_t),
     (''aux_sample_size'', u32_t),
     (''__reserved_3'', u32_t),
     (''sig_data'', u64_t)]"

definition struct_perf_event_query_bpf :: ctype where
  "struct_perf_event_query_bpf = c_struct [
     (''ids_len'', u32_t),
     (''prog_cnt'', u32_t),
     (''ids'', Arr u32_t 0)]"

definition struct_perf_event_mmap_page :: ctype where
  "struct_perf_event_mmap_page = c_struct [
     (''version'', u32_t),
     (''compat_version'', u32_t),
     (''lock'', u32_t),
     (''index'', u32_t),
     (''offset'', u64_t),
     (''time_enabled'', u64_t),
     (''time_running'', u64_t),
     ('''', c_union [ (''capabilities'', u64_t), ('''', c_struct [ (''cap_bit0_cap_bit0_is_deprecated_cap_user_rdpmc_cap_user_time_cap_user_time_zero_cap_user_time_short_cap_____res'', u64_t)])]),
     (''pmc_width'', u16_t),
     (''time_shift'', u16_t),
     (''time_mult'', u32_t),
     (''time_offset'', u64_t),
     (''time_zero'', u64_t),
     (''size'', u32_t),
     (''__reserved_1'', u32_t),
     (''time_cycles'', u64_t),
     (''time_mask'', u64_t),
     (''__reserved'', Arr u8_t 928),
     (''data_head'', u64_t),
     (''data_tail'', u64_t),
     (''data_offset'', u64_t),
     (''data_size'', u64_t),
     (''aux_head'', u64_t),
     (''aux_tail'', u64_t),
     (''aux_offset'', u64_t),
     (''aux_size'', u64_t)]"

definition struct_perf_event_header :: ctype where
  "struct_perf_event_header = c_struct [
     (''type'', u32_t),
     (''misc'', u16_t),
     (''size'', u16_t)]"

definition struct_perf_ns_link_info :: ctype where
  "struct_perf_ns_link_info = c_struct [
     (''dev'', u64_t),
     (''ino'', u64_t)]"

definition union_perf_mem_data_src :: ctype where
  "union_perf_mem_data_src = c_union [
     (''val'', u64_t),
     ('''', c_struct [ (''mem_op_mem_lvl_mem_snoop_mem_lock_mem_dtlb_mem_lvl_num_mem_remote_mem_snoopx_mem_blk_mem_rsvd'', u64_t)])]"

definition struct_perf_branch_entry :: ctype where
  "struct_perf_branch_entry = c_struct [
     (''from'', u64_t),
     (''to'', u64_t),
     (''mispred_predicted_in_tx_abort_cycles_type_reserved'', u64_t)]"

definition sys_perf_event_structs :: "ctype list" where
  "sys_perf_event_structs = [struct_perf_event_attr, struct_perf_event_query_bpf, struct_perf_event_mmap_page, struct_perf_event_header,
     struct_perf_ns_link_info, union_perf_mem_data_src, struct_perf_branch_entry]"

section \<open>\<^verbatim>\<open>include/linux/userfaultfd.h\<close>\<close>

definition struct_uffd_msg :: ctype where
  "struct_uffd_msg = c_packed [
     (''event'', u8_t),
     (''reserved1'', u8_t),
     (''reserved2'', u16_t),
     (''reserved3'', u32_t),
     (''arg'', c_union [ (''pagefault'', c_struct [ (''flags'', u64_t), (''address'', u64_t), (''feat'', c_union [ (''ptid'', u32_t)])]), (''fork'', c_struct [ (''ufd'', u32_t)]), (''remap'', c_struct [ (''from'', u64_t), (''to'', u64_t), (''len'', u64_t)]), (''remove'', c_struct [ (''start'', u64_t), (''end'', u64_t)]), (''reserved'', c_struct [ (''reserved1'', u64_t), (''reserved2'', u64_t), (''reserved3'', u64_t)])])]"

definition struct_uffdio_api :: ctype where
  "struct_uffdio_api = c_struct [
     (''api'', u64_t),
     (''features'', u64_t),
     (''ioctls'', u64_t)]"

definition struct_uffdio_range :: ctype where
  "struct_uffdio_range = c_struct [
     (''start'', u64_t),
     (''len'', u64_t)]"

definition struct_uffdio_register :: ctype where
  "struct_uffdio_register = c_struct [
     (''range'', struct_uffdio_range),
     (''mode'', u64_t),
     (''ioctls'', u64_t)]"

definition struct_uffdio_copy :: ctype where
  "struct_uffdio_copy = c_struct [
     (''dst'', u64_t),
     (''src'', u64_t),
     (''len'', u64_t),
     (''mode'', u64_t),
     (''copy'', u64_t)]"

definition struct_uffdio_zeropage :: ctype where
  "struct_uffdio_zeropage = c_struct [
     (''range'', struct_uffdio_range),
     (''mode'', u64_t),
     (''zeropage'', u64_t)]"

definition struct_uffdio_writeprotect :: ctype where
  "struct_uffdio_writeprotect = c_struct [
     (''range'', struct_uffdio_range),
     (''mode'', u64_t)]"

definition struct_uffdio_continue :: ctype where
  "struct_uffdio_continue = c_struct [
     (''range'', struct_uffdio_range),
     (''mode'', u64_t),
     (''mapped'', u64_t)]"

definition sys_userfaultfd_structs :: "ctype list" where
  "sys_userfaultfd_structs = [struct_uffdio_api, struct_uffdio_range, struct_uffdio_register, struct_uffdio_copy, struct_uffdio_zeropage,
     struct_uffdio_writeprotect, struct_uffdio_continue]"

section \<open>\<^verbatim>\<open>include/linux/signalfd.h\<close>\<close>

definition struct_signalfd_siginfo :: ctype where
  "struct_signalfd_siginfo = c_struct [
     (''ssi_signo'', u32_t),
     (''ssi_errno'', u32_t),
     (''ssi_code'', u32_t),
     (''ssi_pid'', u32_t),
     (''ssi_uid'', u32_t),
     (''ssi_fd'', u32_t),
     (''ssi_tid'', u32_t),
     (''ssi_band'', u32_t),
     (''ssi_overrun'', u32_t),
     (''ssi_trapno'', u32_t),
     (''ssi_status'', u32_t),
     (''ssi_int'', u32_t),
     (''ssi_ptr'', u64_t),
     (''ssi_utime'', u64_t),
     (''ssi_stime'', u64_t),
     (''ssi_addr'', u64_t),
     (''ssi_addr_lsb'', u16_t),
     (''__pad2'', u16_t),
     (''ssi_syscall'', u32_t),
     (''ssi_call_addr'', u64_t),
     (''ssi_arch'', u32_t),
     (''__pad'', Arr u8_t 28)]"

definition sys_signalfd_structs :: "ctype list" where
  "sys_signalfd_structs = [struct_signalfd_siginfo]"

section \<open>\<^verbatim>\<open>include/linux/stat.h\<close>\<close>

definition struct_statx_timestamp :: ctype where
  "struct_statx_timestamp = c_struct [
     (''tv_sec'', u64_t),
     (''tv_nsec'', u32_t),
     (''__reserved'', u32_t)]"

definition struct_statx :: ctype where
  "struct_statx = c_struct [
     (''stx_mask'', u32_t),
     (''stx_blksize'', u32_t),
     (''stx_attributes'', u64_t),
     (''stx_nlink'', u32_t),
     (''stx_uid'', u32_t),
     (''stx_gid'', u32_t),
     (''stx_mode'', u16_t),
     (''__spare0'', Arr u16_t 1),
     (''stx_ino'', u64_t),
     (''stx_size'', u64_t),
     (''stx_blocks'', u64_t),
     (''stx_attributes_mask'', u64_t),
     (''stx_atime'', struct_statx_timestamp),
     (''stx_btime'', struct_statx_timestamp),
     (''stx_ctime'', struct_statx_timestamp),
     (''stx_mtime'', struct_statx_timestamp),
     (''stx_rdev_major'', u32_t),
     (''stx_rdev_minor'', u32_t),
     (''stx_dev_major'', u32_t),
     (''stx_dev_minor'', u32_t),
     (''stx_mnt_id'', u64_t),
     (''__spare2'', u64_t),
     (''__spare3'', Arr u64_t 12)]"

definition sys_stat_structs :: "ctype list" where
  "sys_stat_structs = [struct_statx_timestamp, struct_statx]"

section \<open>\<^verbatim>\<open>include/linux/inotify.h\<close>\<close>

definition struct_inotify_event :: ctype where
  "struct_inotify_event = c_struct [
     (''wd'', u32_t),
     (''mask'', u32_t),
     (''cookie'', u32_t),
     (''len'', u32_t),
     (''name'', Arr u8_t 0)]"

definition sys_inotify_structs :: "ctype list" where
  "sys_inotify_structs = [struct_inotify_event]"

section \<open>\<^verbatim>\<open>include/linux/seccomp.h\<close>\<close>

definition struct_seccomp_data :: ctype where
  "struct_seccomp_data = c_struct [
     (''nr'', u32_t),
     (''arch'', u32_t),
     (''instruction_pointer'', u64_t),
     (''args'', Arr u64_t 6)]"

definition struct_seccomp_notif_sizes :: ctype where
  "struct_seccomp_notif_sizes = c_struct [
     (''seccomp_notif'', u16_t),
     (''seccomp_notif_resp'', u16_t),
     (''seccomp_data'', u16_t)]"

definition struct_seccomp_notif :: ctype where
  "struct_seccomp_notif = c_struct [
     (''id'', u64_t),
     (''pid'', u32_t),
     (''flags'', u32_t),
     (''data'', struct_seccomp_data)]"

definition struct_seccomp_notif_resp :: ctype where
  "struct_seccomp_notif_resp = c_struct [
     (''id'', u64_t),
     (''val'', u64_t),
     (''error'', u32_t),
     (''flags'', u32_t)]"

definition struct_seccomp_notif_addfd :: ctype where
  "struct_seccomp_notif_addfd = c_struct [
     (''id'', u64_t),
     (''flags'', u32_t),
     (''srcfd'', u32_t),
     (''newfd'', u32_t),
     (''newfd_flags'', u32_t)]"

definition sys_seccomp_structs :: "ctype list" where
  "sys_seccomp_structs = [struct_seccomp_data, struct_seccomp_notif_sizes, struct_seccomp_notif, struct_seccomp_notif_resp,
     struct_seccomp_notif_addfd]"

section \<open>\<^verbatim>\<open>include/linux/ptrace.h\<close>\<close>

definition struct_ptrace_peeksiginfo_args :: ctype where
  "struct_ptrace_peeksiginfo_args = c_struct [
     (''off'', u64_t),
     (''flags'', u32_t),
     (''nr'', u32_t)]"

definition struct_seccomp_metadata :: ctype where
  "struct_seccomp_metadata = c_struct [
     (''filter_off'', u64_t),
     (''flags'', u64_t)]"

definition struct_ptrace_syscall_info :: ctype where
  "struct_ptrace_syscall_info = c_struct [
     (''op'', u8_t),
     (''pad'', Arr u8_t 3),
     (''arch'', u32_t),
     (''instruction_pointer'', u64_t),
     (''stack_pointer'', u64_t),
     ('''', c_union [ (''entry'', c_struct [ (''nr'', u64_t), (''args'', Arr u64_t 6)]), (''exit'', c_struct [ (''rval'', u64_t), (''is_error'', u8_t)]), (''seccomp'', c_struct [ (''nr'', u64_t), (''args'', Arr u64_t 6), (''ret_data'', u32_t)])])]"

definition struct_ptrace_rseq_configuration :: ctype where
  "struct_ptrace_rseq_configuration = c_struct [
     (''rseq_abi_pointer'', u64_t),
     (''rseq_abi_size'', u32_t),
     (''signature'', u32_t),
     (''flags'', u32_t),
     (''pad'', u32_t)]"

definition sys_ptrace_structs :: "ctype list" where
  "sys_ptrace_structs = [struct_ptrace_peeksiginfo_args, struct_seccomp_metadata, struct_ptrace_rseq_configuration]"

section \<open>\<^verbatim>\<open>include/linux/landlock.h\<close>\<close>

definition struct_landlock_ruleset_attr :: ctype where
  "struct_landlock_ruleset_attr = c_struct [
     (''handled_access_fs'', u64_t)]"

definition struct_landlock_path_beneath_attr :: ctype where
  "struct_landlock_path_beneath_attr = c_packed [
     (''allowed_access'', u64_t),
     (''parent_fd'', u32_t)]"

definition sys_landlock_structs :: "ctype list" where
  "sys_landlock_structs = [struct_landlock_ruleset_attr, struct_landlock_path_beneath_attr]"

section \<open>\<^verbatim>\<open>include/linux/sched/types.h\<close>\<close>

definition struct_sched_param :: ctype where
  "struct_sched_param = c_struct [
     (''sched_priority'', u32_t)]"

definition struct_sched_attr :: ctype where
  "struct_sched_attr = c_struct [
     (''size'', u32_t),
     (''sched_policy'', u32_t),
     (''sched_flags'', u64_t),
     (''sched_nice'', u32_t),
     (''sched_priority'', u32_t),
     (''sched_runtime'', u64_t),
     (''sched_deadline'', u64_t),
     (''sched_period'', u64_t),
     (''sched_util_min'', u32_t),
     (''sched_util_max'', u32_t)]"

definition sys_sched_types_structs :: "ctype list" where
  "sys_sched_types_structs = [struct_sched_param, struct_sched_attr]"

section \<open>\<^verbatim>\<open>include/linux/mount.h\<close>\<close>

definition struct_mount_attr :: ctype where
  "struct_mount_attr = c_struct [
     (''attr_set'', u64_t),
     (''attr_clr'', u64_t),
     (''propagation'', u64_t),
     (''userns_fd'', u64_t)]"

definition sys_mount_structs :: "ctype list" where
  "sys_mount_structs = [struct_mount_attr]"

section \<open>\<^verbatim>\<open>include/linux/openat2.h\<close>\<close>

definition struct_open_how :: ctype where
  "struct_open_how = c_struct [
     (''flags'', u64_t),
     (''mode'', u64_t),
     (''resolve'', u64_t)]"

definition sys_openat2_structs :: "ctype list" where
  "sys_openat2_structs = [struct_open_how]"

section \<open>\<^verbatim>\<open>include/linux/if_xdp.h\<close>\<close>

definition struct_sockaddr_xdp :: ctype where
  "struct_sockaddr_xdp = c_struct [
     (''sxdp_family'', u16_t),
     (''sxdp_flags'', u16_t),
     (''sxdp_ifindex'', u32_t),
     (''sxdp_queue_id'', u32_t),
     (''sxdp_shared_umem_fd'', u32_t)]"

definition struct_xdp_ring_offset :: ctype where
  "struct_xdp_ring_offset = c_struct [
     (''producer'', u64_t),
     (''consumer'', u64_t),
     (''desc'', u64_t),
     (''flags'', u64_t)]"

definition struct_xdp_mmap_offsets :: ctype where
  "struct_xdp_mmap_offsets = c_struct [
     (''rx'', struct_xdp_ring_offset),
     (''tx'', struct_xdp_ring_offset),
     (''fr'', struct_xdp_ring_offset),
     (''cr'', struct_xdp_ring_offset)]"

definition struct_xdp_umem_reg :: ctype where
  "struct_xdp_umem_reg = c_struct [
     (''addr'', u64_t),
     (''len'', u64_t),
     (''chunk_size'', u32_t),
     (''headroom'', u32_t),
     (''flags'', u32_t)]"

definition struct_xdp_statistics :: ctype where
  "struct_xdp_statistics = c_struct [
     (''rx_dropped'', u64_t),
     (''rx_invalid_descs'', u64_t),
     (''tx_invalid_descs'', u64_t),
     (''rx_ring_full'', u64_t),
     (''rx_fill_ring_empty_descs'', u64_t),
     (''tx_ring_empty_descs'', u64_t)]"

definition struct_xdp_options :: ctype where
  "struct_xdp_options = c_struct [
     (''flags'', u32_t)]"

definition struct_xdp_desc :: ctype where
  "struct_xdp_desc = c_struct [
     (''addr'', u64_t),
     (''len'', u32_t),
     (''options'', u32_t)]"

definition sys_if_xdp_structs :: "ctype list" where
  "sys_if_xdp_structs = [struct_sockaddr_xdp, struct_xdp_ring_offset, struct_xdp_mmap_offsets, struct_xdp_statistics,
     struct_xdp_options, struct_xdp_desc]"

section \<open>\<^verbatim>\<open>include/linux/if_packet.h\<close>\<close>

definition struct_sockaddr_pkt :: ctype where
  "struct_sockaddr_pkt = c_struct [
     (''spkt_family'', u16_t),
     (''spkt_device'', Arr u8_t 14),
     (''spkt_protocol'', u16_t)]"

definition struct_sockaddr_ll :: ctype where
  "struct_sockaddr_ll = c_struct [
     (''sll_family'', u16_t),
     (''sll_protocol'', u16_t),
     (''sll_ifindex'', u32_t),
     (''sll_hatype'', u16_t),
     (''sll_pkttype'', u8_t),
     (''sll_halen'', u8_t),
     (''sll_addr'', Arr u8_t 8)]"

definition struct_tpacket_stats :: ctype where
  "struct_tpacket_stats = c_struct [
     (''tp_packets'', u32_t),
     (''tp_drops'', u32_t)]"

definition struct_tpacket_stats_v3 :: ctype where
  "struct_tpacket_stats_v3 = c_struct [
     (''tp_packets'', u32_t),
     (''tp_drops'', u32_t),
     (''tp_freeze_q_cnt'', u32_t)]"

definition struct_tpacket_rollover_stats :: ctype where
  "struct_tpacket_rollover_stats = c_struct [
     (''tp_all'', aligned_u64_t),
     (''tp_huge'', aligned_u64_t),
     (''tp_failed'', aligned_u64_t)]"

definition union_tpacket_stats_u :: ctype where
  "union_tpacket_stats_u = c_union [
     (''stats1'', struct_tpacket_stats),
     (''stats3'', struct_tpacket_stats_v3)]"

definition struct_tpacket_auxdata :: ctype where
  "struct_tpacket_auxdata = c_struct [
     (''tp_status'', u32_t),
     (''tp_len'', u32_t),
     (''tp_snaplen'', u32_t),
     (''tp_mac'', u16_t),
     (''tp_net'', u16_t),
     (''tp_vlan_tci'', u16_t),
     (''tp_vlan_tpid'', u16_t)]"

definition struct_tpacket_hdr :: "nat \<Rightarrow> ctype" where
  "struct_tpacket_hdr w = c_struct [
     (''tp_status'', long_t w),
     (''tp_len'', u32_t),
     (''tp_snaplen'', u32_t),
     (''tp_mac'', u16_t),
     (''tp_net'', u16_t),
     (''tp_sec'', u32_t),
     (''tp_usec'', u32_t)]"

definition struct_tpacket2_hdr :: ctype where
  "struct_tpacket2_hdr = c_struct [
     (''tp_status'', u32_t),
     (''tp_len'', u32_t),
     (''tp_snaplen'', u32_t),
     (''tp_mac'', u16_t),
     (''tp_net'', u16_t),
     (''tp_sec'', u32_t),
     (''tp_nsec'', u32_t),
     (''tp_vlan_tci'', u16_t),
     (''tp_vlan_tpid'', u16_t),
     (''tp_padding'', Arr u8_t 4)]"

definition struct_tpacket_hdr_variant1 :: ctype where
  "struct_tpacket_hdr_variant1 = c_struct [
     (''tp_rxhash'', u32_t),
     (''tp_vlan_tci'', u32_t),
     (''tp_vlan_tpid'', u16_t),
     (''tp_padding'', u16_t)]"

definition struct_tpacket3_hdr :: ctype where
  "struct_tpacket3_hdr = c_struct [
     (''tp_next_offset'', u32_t),
     (''tp_sec'', u32_t),
     (''tp_nsec'', u32_t),
     (''tp_snaplen'', u32_t),
     (''tp_len'', u32_t),
     (''tp_status'', u32_t),
     (''tp_mac'', u16_t),
     (''tp_net'', u16_t),
     ('''', c_union [ (''hv1'', struct_tpacket_hdr_variant1)]),
     (''tp_padding'', Arr u8_t 8)]"

definition struct_tpacket_bd_ts :: ctype where
  "struct_tpacket_bd_ts = c_struct [
     (''ts_sec'', u32_t),
     ('''', c_union [ (''ts_usec'', u32_t), (''ts_nsec'', u32_t)])]"

definition struct_tpacket_hdr_v1 :: ctype where
  "struct_tpacket_hdr_v1 = c_struct [
     (''block_status'', u32_t),
     (''num_pkts'', u32_t),
     (''offset_to_first_pkt'', u32_t),
     (''blk_len'', u32_t),
     (''seq_num'', aligned_u64_t),
     (''ts_first_pkt'', struct_tpacket_bd_ts),
     (''ts_last_pkt'', struct_tpacket_bd_ts)]"

definition union_tpacket_bd_header_u :: ctype where
  "union_tpacket_bd_header_u = c_union [
     (''bh1'', struct_tpacket_hdr_v1)]"

definition struct_tpacket_block_desc :: ctype where
  "struct_tpacket_block_desc = c_struct [
     (''version'', u32_t),
     (''offset_to_priv'', u32_t),
     (''hdr'', union_tpacket_bd_header_u)]"

definition struct_tpacket_req :: ctype where
  "struct_tpacket_req = c_struct [
     (''tp_block_size'', u32_t),
     (''tp_block_nr'', u32_t),
     (''tp_frame_size'', u32_t),
     (''tp_frame_nr'', u32_t)]"

definition struct_tpacket_req3 :: ctype where
  "struct_tpacket_req3 = c_struct [
     (''tp_block_size'', u32_t),
     (''tp_block_nr'', u32_t),
     (''tp_frame_size'', u32_t),
     (''tp_frame_nr'', u32_t),
     (''tp_retire_blk_tov'', u32_t),
     (''tp_sizeof_priv'', u32_t),
     (''tp_feature_req_word'', u32_t)]"

definition union_tpacket_req_u :: ctype where
  "union_tpacket_req_u = c_union [
     (''req'', struct_tpacket_req),
     (''req3'', struct_tpacket_req3)]"

definition struct_packet_mreq :: ctype where
  "struct_packet_mreq = c_struct [
     (''mr_ifindex'', u32_t),
     (''mr_type'', u16_t),
     (''mr_alen'', u16_t),
     (''mr_address'', Arr u8_t 8)]"

definition sys_if_packet_structs :: "ctype list" where
  "sys_if_packet_structs = [struct_sockaddr_pkt, struct_sockaddr_ll, struct_tpacket_stats, struct_tpacket_stats_v3,
     struct_tpacket_rollover_stats, union_tpacket_stats_u, struct_tpacket_auxdata, struct_tpacket2_hdr,
     struct_tpacket_hdr_variant1, struct_tpacket3_hdr, struct_tpacket_bd_ts, struct_tpacket_hdr_v1,
     union_tpacket_bd_header_u, struct_tpacket_block_desc, struct_tpacket_req, struct_tpacket_req3,
     union_tpacket_req_u, struct_packet_mreq]"

section \<open>\<^verbatim>\<open>include/linux/tcp.h\<close>\<close>

definition struct_tcp_repair_opt :: ctype where
  "struct_tcp_repair_opt = c_struct [
     (''opt_code'', u32_t),
     (''opt_val'', u32_t)]"

definition struct_tcp_repair_window :: ctype where
  "struct_tcp_repair_window = c_struct [
     (''snd_wl1'', u32_t),
     (''snd_wnd'', u32_t),
     (''max_window'', u32_t),
     (''rcv_wnd'', u32_t),
     (''rcv_wup'', u32_t)]"

definition struct_tcp_info :: ctype where
  "struct_tcp_info = c_struct [
     (''tcpi_state'', u8_t),
     (''tcpi_ca_state'', u8_t),
     (''tcpi_retransmits'', u8_t),
     (''tcpi_probes'', u8_t),
     (''tcpi_backoff'', u8_t),
     (''tcpi_options'', u8_t),
     (''tcpi_snd_wscale_tcpi_rcv_wscale'', u8_t),
     (''tcpi_delivery_rate_app_limited_tcpi_fastopen_client_fail'', u8_t),
     (''tcpi_rto'', u32_t),
     (''tcpi_ato'', u32_t),
     (''tcpi_snd_mss'', u32_t),
     (''tcpi_rcv_mss'', u32_t),
     (''tcpi_unacked'', u32_t),
     (''tcpi_sacked'', u32_t),
     (''tcpi_lost'', u32_t),
     (''tcpi_retrans'', u32_t),
     (''tcpi_fackets'', u32_t),
     (''tcpi_last_data_sent'', u32_t),
     (''tcpi_last_ack_sent'', u32_t),
     (''tcpi_last_data_recv'', u32_t),
     (''tcpi_last_ack_recv'', u32_t),
     (''tcpi_pmtu'', u32_t),
     (''tcpi_rcv_ssthresh'', u32_t),
     (''tcpi_rtt'', u32_t),
     (''tcpi_rttvar'', u32_t),
     (''tcpi_snd_ssthresh'', u32_t),
     (''tcpi_snd_cwnd'', u32_t),
     (''tcpi_advmss'', u32_t),
     (''tcpi_reordering'', u32_t),
     (''tcpi_rcv_rtt'', u32_t),
     (''tcpi_rcv_space'', u32_t),
     (''tcpi_total_retrans'', u32_t),
     (''tcpi_pacing_rate'', u64_t),
     (''tcpi_max_pacing_rate'', u64_t),
     (''tcpi_bytes_acked'', u64_t),
     (''tcpi_bytes_received'', u64_t),
     (''tcpi_segs_out'', u32_t),
     (''tcpi_segs_in'', u32_t),
     (''tcpi_notsent_bytes'', u32_t),
     (''tcpi_min_rtt'', u32_t),
     (''tcpi_data_segs_in'', u32_t),
     (''tcpi_data_segs_out'', u32_t),
     (''tcpi_delivery_rate'', u64_t),
     (''tcpi_busy_time'', u64_t),
     (''tcpi_rwnd_limited'', u64_t),
     (''tcpi_sndbuf_limited'', u64_t),
     (''tcpi_delivered'', u32_t),
     (''tcpi_delivered_ce'', u32_t),
     (''tcpi_bytes_sent'', u64_t),
     (''tcpi_bytes_retrans'', u64_t),
     (''tcpi_dsack_dups'', u32_t),
     (''tcpi_reord_seen'', u32_t),
     (''tcpi_rcv_ooopack'', u32_t),
     (''tcpi_snd_wnd'', u32_t)]"

definition struct_tcp_md5sig :: "nat \<Rightarrow> ctype" where
  "struct_tcp_md5sig w = c_struct [
     (''tcpm_addr'', struct_kernel_sockaddr_storage w),
     (''tcpm_flags'', u8_t),
     (''tcpm_prefixlen'', u8_t),
     (''tcpm_keylen'', u16_t),
     (''tcpm_ifindex'', u32_t),
     (''tcpm_key'', Arr u8_t 80)]"

definition struct_tcp_diag_md5sig :: ctype where
  "struct_tcp_diag_md5sig = c_struct [
     (''tcpm_family'', u8_t),
     (''tcpm_prefixlen'', u8_t),
     (''tcpm_keylen'', u16_t),
     (''tcpm_addr'', Arr u32_t 4),
     (''tcpm_key'', Arr u8_t 80)]"

definition struct_tcp_zerocopy_receive :: ctype where
  "struct_tcp_zerocopy_receive = c_struct [
     (''address'', u64_t),
     (''length'', u32_t),
     (''recv_skip_hint'', u32_t),
     (''inq'', u32_t),
     (''err'', u32_t),
     (''copybuf_address'', u64_t),
     (''copybuf_len'', u32_t),
     (''flags'', u32_t),
     (''msg_control'', u64_t),
     (''msg_controllen'', u64_t),
     (''msg_flags'', u32_t),
     (''reserved'', u32_t)]"

definition sys_tcp_structs :: "ctype list" where
  "sys_tcp_structs = [struct_tcp_repair_opt, struct_tcp_repair_window, struct_tcp_info, struct_tcp_diag_md5sig,
     struct_tcp_zerocopy_receive]"

section \<open>\<^verbatim>\<open>include/linux/sctp.h\<close>\<close>

definition struct_sctp_initmsg :: ctype where
  "struct_sctp_initmsg = c_struct [
     (''sinit_num_ostreams'', u16_t),
     (''sinit_max_instreams'', u16_t),
     (''sinit_max_attempts'', u16_t),
     (''sinit_max_init_timeo'', u16_t)]"

definition struct_sctp_sndrcvinfo :: ctype where
  "struct_sctp_sndrcvinfo = c_struct [
     (''sinfo_stream'', u16_t),
     (''sinfo_ssn'', u16_t),
     (''sinfo_flags'', u16_t),
     (''sinfo_ppid'', u32_t),
     (''sinfo_context'', u32_t),
     (''sinfo_timetolive'', u32_t),
     (''sinfo_tsn'', u32_t),
     (''sinfo_cumtsn'', u32_t),
     (''sinfo_assoc_id'', u32_t)]"

definition struct_sctp_sndinfo :: ctype where
  "struct_sctp_sndinfo = c_struct [
     (''snd_sid'', u16_t),
     (''snd_flags'', u16_t),
     (''snd_ppid'', u32_t),
     (''snd_context'', u32_t),
     (''snd_assoc_id'', u32_t)]"

definition struct_sctp_rcvinfo :: ctype where
  "struct_sctp_rcvinfo = c_struct [
     (''rcv_sid'', u16_t),
     (''rcv_ssn'', u16_t),
     (''rcv_flags'', u16_t),
     (''rcv_ppid'', u32_t),
     (''rcv_tsn'', u32_t),
     (''rcv_cumtsn'', u32_t),
     (''rcv_context'', u32_t),
     (''rcv_assoc_id'', u32_t)]"

definition struct_sctp_nxtinfo :: ctype where
  "struct_sctp_nxtinfo = c_struct [
     (''nxt_sid'', u16_t),
     (''nxt_flags'', u16_t),
     (''nxt_ppid'', u32_t),
     (''nxt_length'', u32_t),
     (''nxt_assoc_id'', u32_t)]"

definition struct_sctp_prinfo :: ctype where
  "struct_sctp_prinfo = c_struct [
     (''pr_policy'', u16_t),
     (''pr_value'', u32_t)]"

definition struct_sctp_authinfo :: ctype where
  "struct_sctp_authinfo = c_struct [
     (''auth_keynumber'', u16_t)]"

definition struct_sctp_assoc_change :: ctype where
  "struct_sctp_assoc_change = c_struct [
     (''sac_type'', u16_t),
     (''sac_flags'', u16_t),
     (''sac_length'', u32_t),
     (''sac_state'', u16_t),
     (''sac_error'', u16_t),
     (''sac_outbound_streams'', u16_t),
     (''sac_inbound_streams'', u16_t),
     (''sac_assoc_id'', u32_t),
     (''sac_info'', Arr u8_t 0)]"

definition struct_sctp_paddr_change :: "nat \<Rightarrow> ctype" where
  "struct_sctp_paddr_change w = Aligned 4 (c_packed [
     (''spc_type'', u16_t),
     (''spc_flags'', u16_t),
     (''spc_length'', u32_t),
     (''spc_aaddr'', struct_kernel_sockaddr_storage w),
     (''spc_state'', u32_t),
     (''spc_error'', u32_t),
     (''spc_assoc_id'', u32_t)])"

definition struct_sctp_remote_error :: ctype where
  "struct_sctp_remote_error = c_struct [
     (''sre_type'', u16_t),
     (''sre_flags'', u16_t),
     (''sre_length'', u32_t),
     (''sre_error'', u16_t),
     (''sre_assoc_id'', u32_t),
     (''sre_data'', Arr u8_t 0)]"

definition struct_sctp_send_failed :: ctype where
  "struct_sctp_send_failed = c_struct [
     (''ssf_type'', u16_t),
     (''ssf_flags'', u16_t),
     (''ssf_length'', u32_t),
     (''ssf_error'', u32_t),
     (''ssf_info'', struct_sctp_sndrcvinfo),
     (''ssf_assoc_id'', u32_t),
     (''ssf_data'', Arr u8_t 0)]"

definition struct_sctp_send_failed_event :: ctype where
  "struct_sctp_send_failed_event = c_struct [
     (''ssf_type'', u16_t),
     (''ssf_flags'', u16_t),
     (''ssf_length'', u32_t),
     (''ssf_error'', u32_t),
     (''ssfe_info'', struct_sctp_sndinfo),
     (''ssf_assoc_id'', u32_t),
     (''ssf_data'', Arr u8_t 0)]"

definition struct_sctp_shutdown_event :: ctype where
  "struct_sctp_shutdown_event = c_struct [
     (''sse_type'', u16_t),
     (''sse_flags'', u16_t),
     (''sse_length'', u32_t),
     (''sse_assoc_id'', u32_t)]"

definition struct_sctp_adaptation_event :: ctype where
  "struct_sctp_adaptation_event = c_struct [
     (''sai_type'', u16_t),
     (''sai_flags'', u16_t),
     (''sai_length'', u32_t),
     (''sai_adaptation_ind'', u32_t),
     (''sai_assoc_id'', u32_t)]"

definition struct_sctp_pdapi_event :: ctype where
  "struct_sctp_pdapi_event = c_struct [
     (''pdapi_type'', u16_t),
     (''pdapi_flags'', u16_t),
     (''pdapi_length'', u32_t),
     (''pdapi_indication'', u32_t),
     (''pdapi_assoc_id'', u32_t),
     (''pdapi_stream'', u32_t),
     (''pdapi_seq'', u32_t)]"

definition struct_sctp_authkey_event :: ctype where
  "struct_sctp_authkey_event = c_struct [
     (''auth_type'', u16_t),
     (''auth_flags'', u16_t),
     (''auth_length'', u32_t),
     (''auth_keynumber'', u16_t),
     (''auth_altkeynumber'', u16_t),
     (''auth_indication'', u32_t),
     (''auth_assoc_id'', u32_t)]"

definition struct_sctp_sender_dry_event :: ctype where
  "struct_sctp_sender_dry_event = c_struct [
     (''sender_dry_type'', u16_t),
     (''sender_dry_flags'', u16_t),
     (''sender_dry_length'', u32_t),
     (''sender_dry_assoc_id'', u32_t)]"

definition struct_sctp_stream_reset_event :: ctype where
  "struct_sctp_stream_reset_event = c_struct [
     (''strreset_type'', u16_t),
     (''strreset_flags'', u16_t),
     (''strreset_length'', u32_t),
     (''strreset_assoc_id'', u32_t),
     (''strreset_stream_list'', Arr u16_t 0)]"

definition struct_sctp_assoc_reset_event :: ctype where
  "struct_sctp_assoc_reset_event = c_struct [
     (''assocreset_type'', u16_t),
     (''assocreset_flags'', u16_t),
     (''assocreset_length'', u32_t),
     (''assocreset_assoc_id'', u32_t),
     (''assocreset_local_tsn'', u32_t),
     (''assocreset_remote_tsn'', u32_t)]"

definition struct_sctp_stream_change_event :: ctype where
  "struct_sctp_stream_change_event = c_struct [
     (''strchange_type'', u16_t),
     (''strchange_flags'', u16_t),
     (''strchange_length'', u32_t),
     (''strchange_assoc_id'', u32_t),
     (''strchange_instrms'', u16_t),
     (''strchange_outstrms'', u16_t)]"

definition struct_sctp_event_subscribe :: ctype where
  "struct_sctp_event_subscribe = c_struct [
     (''sctp_data_io_event'', u8_t),
     (''sctp_association_event'', u8_t),
     (''sctp_address_event'', u8_t),
     (''sctp_send_failure_event'', u8_t),
     (''sctp_peer_error_event'', u8_t),
     (''sctp_shutdown_event'', u8_t),
     (''sctp_partial_delivery_event'', u8_t),
     (''sctp_adaptation_layer_event'', u8_t),
     (''sctp_authentication_event'', u8_t),
     (''sctp_sender_dry_event'', u8_t),
     (''sctp_stream_reset_event'', u8_t),
     (''sctp_assoc_reset_event'', u8_t),
     (''sctp_stream_change_event'', u8_t),
     (''sctp_send_failure_event_event'', u8_t)]"

definition union_sctp_notification :: "nat \<Rightarrow> ctype" where
  "union_sctp_notification w = c_union [
     (''sn_header'', c_struct [ (''sn_type'', u16_t), (''sn_flags'', u16_t), (''sn_length'', u32_t)]),
     (''sn_assoc_change'', struct_sctp_assoc_change),
     (''sn_paddr_change'', struct_sctp_paddr_change w),
     (''sn_remote_error'', struct_sctp_remote_error),
     (''sn_send_failed'', struct_sctp_send_failed),
     (''sn_shutdown_event'', struct_sctp_shutdown_event),
     (''sn_adaptation_event'', struct_sctp_adaptation_event),
     (''sn_pdapi_event'', struct_sctp_pdapi_event),
     (''sn_authkey_event'', struct_sctp_authkey_event),
     (''sn_sender_dry_event'', struct_sctp_sender_dry_event),
     (''sn_strreset_event'', struct_sctp_stream_reset_event),
     (''sn_assocreset_event'', struct_sctp_assoc_reset_event),
     (''sn_strchange_event'', struct_sctp_stream_change_event),
     (''sn_send_failed_event'', struct_sctp_send_failed_event)]"

definition struct_sctp_rtoinfo :: ctype where
  "struct_sctp_rtoinfo = c_struct [
     (''srto_assoc_id'', u32_t),
     (''srto_initial'', u32_t),
     (''srto_max'', u32_t),
     (''srto_min'', u32_t)]"

definition struct_sctp_assocparams :: ctype where
  "struct_sctp_assocparams = c_struct [
     (''sasoc_assoc_id'', u32_t),
     (''sasoc_asocmaxrxt'', u16_t),
     (''sasoc_number_peer_destinations'', u16_t),
     (''sasoc_peer_rwnd'', u32_t),
     (''sasoc_local_rwnd'', u32_t),
     (''sasoc_cookie_life'', u32_t)]"

definition struct_sctp_setpeerprim :: "nat \<Rightarrow> ctype" where
  "struct_sctp_setpeerprim w = Aligned 4 (c_packed [
     (''sspp_assoc_id'', u32_t),
     (''sspp_addr'', struct_kernel_sockaddr_storage w)])"

definition struct_sctp_prim :: "nat \<Rightarrow> ctype" where
  "struct_sctp_prim w = Aligned 4 (c_packed [
     (''ssp_assoc_id'', u32_t),
     (''ssp_addr'', struct_kernel_sockaddr_storage w)])"

definition struct_sctp_setadaptation :: ctype where
  "struct_sctp_setadaptation = c_struct [
     (''ssb_adaptation_ind'', u32_t)]"

definition struct_sctp_paddrparams :: "nat \<Rightarrow> ctype" where
  "struct_sctp_paddrparams w = Aligned 4 (c_packed [
     (''spp_assoc_id'', u32_t),
     (''spp_address'', struct_kernel_sockaddr_storage w),
     (''spp_hbinterval'', u32_t),
     (''spp_pathmaxrxt'', u16_t),
     (''spp_pathmtu'', u32_t),
     (''spp_sackdelay'', u32_t),
     (''spp_flags'', u32_t),
     (''spp_ipv6_flowlabel'', u32_t),
     (''spp_dscp'', u8_t)])"

definition struct_sctp_authchunk :: ctype where
  "struct_sctp_authchunk = c_struct [
     (''sauth_chunk'', u8_t)]"

definition struct_sctp_hmacalgo :: ctype where
  "struct_sctp_hmacalgo = c_struct [
     (''shmac_num_idents'', u32_t),
     (''shmac_idents'', Arr u16_t 0)]"

definition struct_sctp_authkey :: ctype where
  "struct_sctp_authkey = c_struct [
     (''sca_assoc_id'', u32_t),
     (''sca_keynumber'', u16_t),
     (''sca_keylength'', u16_t),
     (''sca_key'', Arr u8_t 0)]"

definition struct_sctp_authkeyid :: ctype where
  "struct_sctp_authkeyid = c_struct [
     (''scact_assoc_id'', u32_t),
     (''scact_keynumber'', u16_t)]"

definition struct_sctp_sack_info :: ctype where
  "struct_sctp_sack_info = c_struct [
     (''sack_assoc_id'', u32_t),
     (''sack_delay'', u32_t),
     (''sack_freq'', u32_t)]"

definition struct_sctp_assoc_value :: ctype where
  "struct_sctp_assoc_value = c_struct [
     (''assoc_id'', u32_t),
     (''assoc_value'', u32_t)]"

definition struct_sctp_stream_value :: ctype where
  "struct_sctp_stream_value = c_struct [
     (''assoc_id'', u32_t),
     (''stream_id'', u16_t),
     (''stream_value'', u16_t)]"

definition struct_sctp_paddrinfo :: "nat \<Rightarrow> ctype" where
  "struct_sctp_paddrinfo w = Aligned 4 (c_packed [
     (''spinfo_assoc_id'', u32_t),
     (''spinfo_address'', struct_kernel_sockaddr_storage w),
     (''spinfo_state'', u32_t),
     (''spinfo_cwnd'', u32_t),
     (''spinfo_srtt'', u32_t),
     (''spinfo_rto'', u32_t),
     (''spinfo_mtu'', u32_t)])"

definition struct_sctp_status :: "nat \<Rightarrow> ctype" where
  "struct_sctp_status w = c_struct [
     (''sstat_assoc_id'', u32_t),
     (''sstat_state'', u32_t),
     (''sstat_rwnd'', u32_t),
     (''sstat_unackdata'', u16_t),
     (''sstat_penddata'', u16_t),
     (''sstat_instrms'', u16_t),
     (''sstat_outstrms'', u16_t),
     (''sstat_fragmentation_point'', u32_t),
     (''sstat_primary'', struct_sctp_paddrinfo w)]"

definition struct_sctp_authchunks :: ctype where
  "struct_sctp_authchunks = c_struct [
     (''gauth_assoc_id'', u32_t),
     (''gauth_number_of_chunks'', u32_t),
     (''gauth_chunks'', Arr u8_t 0)]"

definition struct_sctp_assoc_ids :: ctype where
  "struct_sctp_assoc_ids = c_struct [
     (''gaids_number_of_ids'', u32_t),
     (''gaids_assoc_id'', Arr u32_t 0)]"

definition struct_sctp_getaddrs_old :: "nat \<Rightarrow> ctype" where
  "struct_sctp_getaddrs_old w = c_struct [
     (''assoc_id'', u32_t),
     (''addr_num'', u32_t),
     (''addrs'', ptr_t w)]"

definition struct_sctp_getaddrs :: ctype where
  "struct_sctp_getaddrs = c_struct [
     (''assoc_id'', u32_t),
     (''addr_num'', u32_t),
     (''addrs'', Arr u8_t 0)]"

definition struct_sctp_assoc_stats :: "nat \<Rightarrow> ctype" where
  "struct_sctp_assoc_stats w = c_struct [
     (''sas_assoc_id'', u32_t),
     (''sas_obs_rto_ipaddr'', struct_kernel_sockaddr_storage w),
     (''sas_maxrto'', u64_t),
     (''sas_isacks'', u64_t),
     (''sas_osacks'', u64_t),
     (''sas_opackets'', u64_t),
     (''sas_ipackets'', u64_t),
     (''sas_rtxchunks'', u64_t),
     (''sas_outofseqtsns'', u64_t),
     (''sas_idupchunks'', u64_t),
     (''sas_gapcnt'', u64_t),
     (''sas_ouodchunks'', u64_t),
     (''sas_iuodchunks'', u64_t),
     (''sas_oodchunks'', u64_t),
     (''sas_iodchunks'', u64_t),
     (''sas_octrlchunks'', u64_t),
     (''sas_ictrlchunks'', u64_t)]"

definition struct_sctp_paddrthlds :: "nat \<Rightarrow> ctype" where
  "struct_sctp_paddrthlds w = c_struct [
     (''spt_assoc_id'', u32_t),
     (''spt_address'', struct_kernel_sockaddr_storage w),
     (''spt_pathmaxrxt'', u16_t),
     (''spt_pathpfthld'', u16_t)]"

definition struct_sctp_paddrthlds_v2 :: "nat \<Rightarrow> ctype" where
  "struct_sctp_paddrthlds_v2 w = c_struct [
     (''spt_assoc_id'', u32_t),
     (''spt_address'', struct_kernel_sockaddr_storage w),
     (''spt_pathmaxrxt'', u16_t),
     (''spt_pathpfthld'', u16_t),
     (''spt_pathcpthld'', u16_t)]"

definition struct_sctp_prstatus :: ctype where
  "struct_sctp_prstatus = c_struct [
     (''sprstat_assoc_id'', u32_t),
     (''sprstat_sid'', u16_t),
     (''sprstat_policy'', u16_t),
     (''sprstat_abandoned_unsent'', u64_t),
     (''sprstat_abandoned_sent'', u64_t)]"

definition struct_sctp_default_prinfo :: ctype where
  "struct_sctp_default_prinfo = c_struct [
     (''pr_assoc_id'', u32_t),
     (''pr_value'', u32_t),
     (''pr_policy'', u16_t)]"

definition struct_sctp_info :: "nat \<Rightarrow> ctype" where
  "struct_sctp_info w = c_struct [
     (''sctpi_tag'', u32_t),
     (''sctpi_state'', u32_t),
     (''sctpi_rwnd'', u32_t),
     (''sctpi_unackdata'', u16_t),
     (''sctpi_penddata'', u16_t),
     (''sctpi_instrms'', u16_t),
     (''sctpi_outstrms'', u16_t),
     (''sctpi_fragmentation_point'', u32_t),
     (''sctpi_inqueue'', u32_t),
     (''sctpi_outqueue'', u32_t),
     (''sctpi_overall_error'', u32_t),
     (''sctpi_max_burst'', u32_t),
     (''sctpi_maxseg'', u32_t),
     (''sctpi_peer_rwnd'', u32_t),
     (''sctpi_peer_tag'', u32_t),
     (''sctpi_peer_capable'', u8_t),
     (''sctpi_peer_sack'', u8_t),
     (''__reserved1'', u16_t),
     (''sctpi_isacks'', u64_t),
     (''sctpi_osacks'', u64_t),
     (''sctpi_opackets'', u64_t),
     (''sctpi_ipackets'', u64_t),
     (''sctpi_rtxchunks'', u64_t),
     (''sctpi_outofseqtsns'', u64_t),
     (''sctpi_idupchunks'', u64_t),
     (''sctpi_gapcnt'', u64_t),
     (''sctpi_ouodchunks'', u64_t),
     (''sctpi_iuodchunks'', u64_t),
     (''sctpi_oodchunks'', u64_t),
     (''sctpi_iodchunks'', u64_t),
     (''sctpi_octrlchunks'', u64_t),
     (''sctpi_ictrlchunks'', u64_t),
     (''sctpi_p_address'', struct_kernel_sockaddr_storage w),
     (''sctpi_p_state'', u32_t),
     (''sctpi_p_cwnd'', u32_t),
     (''sctpi_p_srtt'', u32_t),
     (''sctpi_p_rto'', u32_t),
     (''sctpi_p_hbinterval'', u32_t),
     (''sctpi_p_pathmaxrxt'', u32_t),
     (''sctpi_p_sackdelay'', u32_t),
     (''sctpi_p_sackfreq'', u32_t),
     (''sctpi_p_ssthresh'', u32_t),
     (''sctpi_p_partial_bytes_acked'', u32_t),
     (''sctpi_p_flight_size'', u32_t),
     (''sctpi_p_error'', u16_t),
     (''__reserved2'', u16_t),
     (''sctpi_s_autoclose'', u32_t),
     (''sctpi_s_adaptation_ind'', u32_t),
     (''sctpi_s_pd_point'', u32_t),
     (''sctpi_s_nodelay'', u8_t),
     (''sctpi_s_disable_fragments'', u8_t),
     (''sctpi_s_v4mapped'', u8_t),
     (''sctpi_s_frag_interleave'', u8_t),
     (''sctpi_s_type'', u32_t),
     (''__reserved3'', u32_t)]"

definition struct_sctp_reset_streams :: ctype where
  "struct_sctp_reset_streams = c_struct [
     (''srs_assoc_id'', u32_t),
     (''srs_flags'', u16_t),
     (''srs_number_streams'', u16_t),
     (''srs_stream_list'', Arr u16_t 0)]"

definition struct_sctp_add_streams :: ctype where
  "struct_sctp_add_streams = c_struct [
     (''sas_assoc_id'', u32_t),
     (''sas_instrms'', u16_t),
     (''sas_outstrms'', u16_t)]"

definition struct_sctp_event :: ctype where
  "struct_sctp_event = c_struct [
     (''se_assoc_id'', u32_t),
     (''se_type'', u16_t),
     (''se_on'', u8_t)]"

definition struct_sctp_udpencaps :: "nat \<Rightarrow> ctype" where
  "struct_sctp_udpencaps w = c_struct [
     (''sue_assoc_id'', u32_t),
     (''sue_address'', struct_kernel_sockaddr_storage w),
     (''sue_port'', u16_t)]"

definition struct_sctp_probeinterval :: "nat \<Rightarrow> ctype" where
  "struct_sctp_probeinterval w = c_struct [
     (''spi_assoc_id'', u32_t),
     (''spi_address'', struct_kernel_sockaddr_storage w),
     (''spi_interval'', u32_t)]"

definition sys_sctp_structs :: "ctype list" where
  "sys_sctp_structs = [struct_sctp_initmsg, struct_sctp_sndinfo, struct_sctp_nxtinfo, struct_sctp_authinfo, struct_sctp_assoc_change,
     struct_sctp_send_failed_event, struct_sctp_shutdown_event, struct_sctp_adaptation_event,
     struct_sctp_pdapi_event, struct_sctp_authkey_event, struct_sctp_sender_dry_event,
     struct_sctp_stream_reset_event, struct_sctp_assoc_reset_event, struct_sctp_stream_change_event,
     struct_sctp_event_subscribe, struct_sctp_rtoinfo, struct_sctp_assocparams, struct_sctp_setadaptation,
     struct_sctp_authchunk, struct_sctp_hmacalgo, struct_sctp_authkey, struct_sctp_sack_info,
     struct_sctp_assoc_value, struct_sctp_stream_value, struct_sctp_authchunks, struct_sctp_assoc_ids,
     struct_sctp_getaddrs, struct_sctp_prstatus, struct_sctp_reset_streams, struct_sctp_add_streams]"

section \<open>\<^verbatim>\<open>include/linux/rds.h\<close>\<close>

definition struct_rds_info_counter :: ctype where
  "struct_rds_info_counter = c_packed [
     (''name'', Arr u8_t 32),
     (''value'', u64_t)]"

definition struct_rds_info_connection :: ctype where
  "struct_rds_info_connection = c_packed [
     (''next_tx_seq'', u64_t),
     (''next_rx_seq'', u64_t),
     (''laddr'', u32_t),
     (''faddr'', u32_t),
     (''transport'', Arr u8_t 16),
     (''flags'', u8_t),
     (''tos'', u8_t)]"

definition struct_rds6_info_connection :: ctype where
  "struct_rds6_info_connection = c_packed [
     (''next_tx_seq'', u64_t),
     (''next_rx_seq'', u64_t),
     (''laddr'', struct_in6_addr),
     (''faddr'', struct_in6_addr),
     (''transport'', Arr u8_t 16),
     (''flags'', u8_t)]"

definition struct_rds_info_message :: ctype where
  "struct_rds_info_message = c_packed [
     (''seq'', u64_t),
     (''len'', u32_t),
     (''laddr'', u32_t),
     (''faddr'', u32_t),
     (''lport'', u16_t),
     (''fport'', u16_t),
     (''flags'', u8_t),
     (''tos'', u8_t)]"

definition struct_rds6_info_message :: ctype where
  "struct_rds6_info_message = c_packed [
     (''seq'', u64_t),
     (''len'', u32_t),
     (''laddr'', struct_in6_addr),
     (''faddr'', struct_in6_addr),
     (''lport'', u16_t),
     (''fport'', u16_t),
     (''flags'', u8_t),
     (''tos'', u8_t)]"

definition struct_rds_info_socket :: ctype where
  "struct_rds_info_socket = c_packed [
     (''sndbuf'', u32_t),
     (''bound_addr'', u32_t),
     (''connected_addr'', u32_t),
     (''bound_port'', u16_t),
     (''connected_port'', u16_t),
     (''rcvbuf'', u32_t),
     (''inum'', u64_t)]"

definition struct_rds6_info_socket :: ctype where
  "struct_rds6_info_socket = c_packed [
     (''sndbuf'', u32_t),
     (''bound_addr'', struct_in6_addr),
     (''connected_addr'', struct_in6_addr),
     (''bound_port'', u16_t),
     (''connected_port'', u16_t),
     (''rcvbuf'', u32_t),
     (''inum'', u64_t)]"

definition struct_rds_info_tcp_socket :: ctype where
  "struct_rds_info_tcp_socket = c_packed [
     (''local_addr'', u32_t),
     (''local_port'', u16_t),
     (''peer_addr'', u32_t),
     (''peer_port'', u16_t),
     (''hdr_rem'', u64_t),
     (''data_rem'', u64_t),
     (''last_sent_nxt'', u32_t),
     (''last_expected_una'', u32_t),
     (''last_seen_una'', u32_t),
     (''tos'', u8_t)]"

definition struct_rds6_info_tcp_socket :: ctype where
  "struct_rds6_info_tcp_socket = c_packed [
     (''local_addr'', struct_in6_addr),
     (''local_port'', u16_t),
     (''peer_addr'', struct_in6_addr),
     (''peer_port'', u16_t),
     (''hdr_rem'', u64_t),
     (''data_rem'', u64_t),
     (''last_sent_nxt'', u32_t),
     (''last_expected_una'', u32_t),
     (''last_seen_una'', u32_t)]"

definition struct_rds_info_rdma_connection :: ctype where
  "struct_rds_info_rdma_connection = c_struct [
     (''src_addr'', u32_t),
     (''dst_addr'', u32_t),
     (''src_gid'', Arr u8_t 16),
     (''dst_gid'', Arr u8_t 16),
     (''max_send_wr'', u32_t),
     (''max_recv_wr'', u32_t),
     (''max_send_sge'', u32_t),
     (''rdma_mr_max'', u32_t),
     (''rdma_mr_size'', u32_t),
     (''tos'', u8_t),
     (''sl'', u8_t),
     (''cache_allocs'', u32_t)]"

definition struct_rds6_info_rdma_connection :: ctype where
  "struct_rds6_info_rdma_connection = c_struct [
     (''src_addr'', struct_in6_addr),
     (''dst_addr'', struct_in6_addr),
     (''src_gid'', Arr u8_t 16),
     (''dst_gid'', Arr u8_t 16),
     (''max_send_wr'', u32_t),
     (''max_recv_wr'', u32_t),
     (''max_send_sge'', u32_t),
     (''rdma_mr_max'', u32_t),
     (''rdma_mr_size'', u32_t),
     (''tos'', u8_t),
     (''sl'', u8_t),
     (''cache_allocs'', u32_t)]"

definition struct_rds_rx_trace_so :: ctype where
  "struct_rds_rx_trace_so = c_struct [
     (''rx_traces'', u8_t),
     (''rx_trace_pos'', Arr u8_t 3)]"

definition struct_rds_cmsg_rx_trace :: ctype where
  "struct_rds_cmsg_rx_trace = c_struct [
     (''rx_traces'', u8_t),
     (''rx_trace_pos'', Arr u8_t 3),
     (''rx_trace'', Arr u64_t 3)]"

definition struct_rds_iovec :: ctype where
  "struct_rds_iovec = c_struct [
     (''addr'', u64_t),
     (''bytes'', u64_t)]"

definition struct_rds_get_mr_args :: ctype where
  "struct_rds_get_mr_args = c_struct [
     (''vec'', struct_rds_iovec),
     (''cookie_addr'', u64_t),
     (''flags'', u64_t)]"

definition struct_rds_get_mr_for_dest_args :: "nat \<Rightarrow> ctype" where
  "struct_rds_get_mr_for_dest_args w = c_struct [
     (''dest_addr'', struct_kernel_sockaddr_storage w),
     (''vec'', struct_rds_iovec),
     (''cookie_addr'', u64_t),
     (''flags'', u64_t)]"

definition struct_rds_free_mr_args :: ctype where
  "struct_rds_free_mr_args = c_struct [
     (''cookie'', u64_t),
     (''flags'', u64_t)]"

definition struct_rds_rdma_args :: ctype where
  "struct_rds_rdma_args = c_struct [
     (''cookie'', u64_t),
     (''remote_vec'', struct_rds_iovec),
     (''local_vec_addr'', u64_t),
     (''nr_local'', u64_t),
     (''flags'', u64_t),
     (''user_token'', u64_t)]"

definition struct_rds_atomic_args :: ctype where
  "struct_rds_atomic_args = c_struct [
     (''cookie'', u64_t),
     (''local_addr'', u64_t),
     (''remote_addr'', u64_t),
     ('''', c_union [ (''cswp'', c_struct [ (''compare'', u64_t), (''swap'', u64_t)]), (''fadd'', c_struct [ (''add'', u64_t)]), (''m_cswp'', c_struct [ (''compare'', u64_t), (''swap'', u64_t), (''compare_mask'', u64_t), (''swap_mask'', u64_t)]), (''m_fadd'', c_struct [ (''add'', u64_t), (''nocarry_mask'', u64_t)])]),
     (''flags'', u64_t),
     (''user_token'', u64_t)]"

definition struct_rds_rdma_notify :: ctype where
  "struct_rds_rdma_notify = c_struct [
     (''user_token'', u64_t),
     (''status'', u32_t)]"

definition struct_rds_zcopy_cookies :: ctype where
  "struct_rds_zcopy_cookies = c_struct [
     (''num'', u32_t),
     (''cookies'', Arr u32_t 8)]"

definition sys_rds_structs :: "ctype list" where
  "sys_rds_structs = [struct_rds_info_counter, struct_rds_info_connection, struct_rds6_info_connection, struct_rds_info_message,
     struct_rds6_info_message, struct_rds_info_socket, struct_rds6_info_socket, struct_rds_info_tcp_socket,
     struct_rds6_info_tcp_socket, struct_rds_rx_trace_so, struct_rds_iovec, struct_rds_get_mr_args,
     struct_rds_free_mr_args, struct_rds_rdma_args, struct_rds_atomic_args, struct_rds_zcopy_cookies]"

section \<open>\<^verbatim>\<open>include/linux/can.h\<close>\<close>

definition struct_can_frame :: ctype where
  "struct_can_frame = c_struct [
     (''can_id'', u32_t),
     ('''', Packed [c_union [ (''len'', u8_t), (''can_dlc'', u8_t)]]),
     (''__pad'', u8_t),
     (''__res0'', u8_t),
     (''len8_dlc'', u8_t),
     (''data'', Arr (Aligned 8 u8_t) 8)]"

definition struct_canfd_frame :: ctype where
  "struct_canfd_frame = c_struct [
     (''can_id'', u32_t),
     (''len'', u8_t),
     (''flags'', u8_t),
     (''__res0'', u8_t),
     (''__res1'', u8_t),
     (''data'', Arr (Aligned 8 u8_t) 64)]"

definition struct_sockaddr_can :: ctype where
  "struct_sockaddr_can = c_struct [
     (''can_family'', u16_t),
     (''can_ifindex'', u32_t),
     (''can_addr'', c_union [ (''tp'', c_struct [ (''rx_id'', u32_t), (''tx_id'', u32_t)]), (''j1939'', c_struct [ (''name'', u64_t), (''pgn'', u32_t), (''addr'', u8_t)])])]"

definition struct_can_filter :: ctype where
  "struct_can_filter = c_struct [
     (''can_id'', u32_t),
     (''can_mask'', u32_t)]"

definition sys_can_structs :: "ctype list" where
  "sys_can_structs = [struct_can_filter]"

section \<open>\<^verbatim>\<open>include/linux/vfio.h\<close>\<close>

definition struct_vfio_info_cap_header :: ctype where
  "struct_vfio_info_cap_header = c_struct [
     (''id'', u16_t),
     (''version'', u16_t),
     (''next'', u32_t)]"

definition struct_vfio_group_status :: ctype where
  "struct_vfio_group_status = c_struct [
     (''argsz'', u32_t),
     (''flags'', u32_t)]"

definition struct_vfio_device_info :: ctype where
  "struct_vfio_device_info = c_struct [
     (''argsz'', u32_t),
     (''flags'', u32_t),
     (''num_regions'', u32_t),
     (''num_irqs'', u32_t),
     (''cap_offset'', u32_t)]"

definition struct_vfio_region_info :: ctype where
  "struct_vfio_region_info = c_struct [
     (''argsz'', u32_t),
     (''flags'', u32_t),
     (''index'', u32_t),
     (''cap_offset'', u32_t),
     (''size'', u64_t),
     (''offset'', u64_t)]"

definition struct_vfio_region_sparse_mmap_area :: ctype where
  "struct_vfio_region_sparse_mmap_area = c_struct [
     (''offset'', u64_t),
     (''size'', u64_t)]"

definition struct_vfio_region_info_cap_sparse_mmap :: ctype where
  "struct_vfio_region_info_cap_sparse_mmap = c_struct [
     (''header'', struct_vfio_info_cap_header),
     (''nr_areas'', u32_t),
     (''reserved'', u32_t),
     (''areas'', Arr struct_vfio_region_sparse_mmap_area 0)]"

definition struct_vfio_region_info_cap_type :: ctype where
  "struct_vfio_region_info_cap_type = c_struct [
     (''header'', struct_vfio_info_cap_header),
     (''type'', u32_t),
     (''subtype'', u32_t)]"

definition struct_vfio_region_gfx_edid :: ctype where
  "struct_vfio_region_gfx_edid = c_struct [
     (''edid_offset'', u32_t),
     (''edid_max_size'', u32_t),
     (''edid_size'', u32_t),
     (''max_xres'', u32_t),
     (''max_yres'', u32_t),
     (''link_state'', u32_t)]"

definition struct_vfio_device_migration_info :: ctype where
  "struct_vfio_device_migration_info = c_struct [
     (''device_state'', u32_t),
     (''reserved'', u32_t),
     (''pending_bytes'', u64_t),
     (''data_offset'', u64_t),
     (''data_size'', u64_t)]"

definition struct_vfio_region_info_cap_nvlink2_ssatgt :: ctype where
  "struct_vfio_region_info_cap_nvlink2_ssatgt = c_struct [
     (''header'', struct_vfio_info_cap_header),
     (''tgt'', u64_t)]"

definition struct_vfio_region_info_cap_nvlink2_lnkspd :: ctype where
  "struct_vfio_region_info_cap_nvlink2_lnkspd = c_struct [
     (''header'', struct_vfio_info_cap_header),
     (''link_speed'', u32_t),
     (''__pad'', u32_t)]"

definition struct_vfio_irq_info :: ctype where
  "struct_vfio_irq_info = c_struct [
     (''argsz'', u32_t),
     (''flags'', u32_t),
     (''index'', u32_t),
     (''count'', u32_t)]"

definition struct_vfio_irq_set :: ctype where
  "struct_vfio_irq_set = c_struct [
     (''argsz'', u32_t),
     (''flags'', u32_t),
     (''index'', u32_t),
     (''start'', u32_t),
     (''count'', u32_t),
     (''data'', Arr u8_t 0)]"

definition struct_vfio_pci_dependent_device :: ctype where
  "struct_vfio_pci_dependent_device = c_struct [
     (''group_id'', u32_t),
     (''segment'', u16_t),
     (''bus'', u8_t),
     (''devfn'', u8_t)]"

definition struct_vfio_pci_hot_reset_info :: ctype where
  "struct_vfio_pci_hot_reset_info = c_struct [
     (''argsz'', u32_t),
     (''flags'', u32_t),
     (''count'', u32_t),
     (''devices'', Arr struct_vfio_pci_dependent_device 0)]"

definition struct_vfio_pci_hot_reset :: ctype where
  "struct_vfio_pci_hot_reset = c_struct [
     (''argsz'', u32_t),
     (''flags'', u32_t),
     (''count'', u32_t),
     (''group_fds'', Arr u32_t 0)]"

definition struct_vfio_device_gfx_plane_info :: ctype where
  "struct_vfio_device_gfx_plane_info = c_struct [
     (''argsz'', u32_t),
     (''flags'', u32_t),
     (''drm_plane_type'', u32_t),
     (''drm_format'', u32_t),
     (''drm_format_mod'', u64_t),
     (''width'', u32_t),
     (''height'', u32_t),
     (''stride'', u32_t),
     (''size'', u32_t),
     (''x_pos'', u32_t),
     (''y_pos'', u32_t),
     (''x_hot'', u32_t),
     (''y_hot'', u32_t),
     ('''', c_union [ (''region_index'', u32_t), (''dmabuf_id'', u32_t)])]"

definition struct_vfio_device_ioeventfd :: ctype where
  "struct_vfio_device_ioeventfd = c_struct [
     (''argsz'', u32_t),
     (''flags'', u32_t),
     (''offset'', u64_t),
     (''data'', u64_t),
     (''fd'', u32_t)]"

definition struct_vfio_device_feature :: ctype where
  "struct_vfio_device_feature = c_struct [
     (''argsz'', u32_t),
     (''flags'', u32_t),
     (''data'', Arr u8_t 0)]"

definition struct_vfio_iommu_type1_info :: ctype where
  "struct_vfio_iommu_type1_info = c_struct [
     (''argsz'', u32_t),
     (''flags'', u32_t),
     (''iova_pgsizes'', u64_t),
     (''cap_offset'', u32_t)]"

definition struct_vfio_iova_range :: ctype where
  "struct_vfio_iova_range = c_struct [
     (''start'', u64_t),
     (''end'', u64_t)]"

definition struct_vfio_iommu_type1_info_cap_iova_range :: ctype where
  "struct_vfio_iommu_type1_info_cap_iova_range = c_struct [
     (''header'', struct_vfio_info_cap_header),
     (''nr_iovas'', u32_t),
     (''reserved'', u32_t),
     (''iova_ranges'', Arr struct_vfio_iova_range 0)]"

definition struct_vfio_iommu_type1_info_cap_migration :: ctype where
  "struct_vfio_iommu_type1_info_cap_migration = c_struct [
     (''header'', struct_vfio_info_cap_header),
     (''flags'', u32_t),
     (''pgsize_bitmap'', u64_t),
     (''max_dirty_bitmap_size'', u64_t)]"

definition struct_vfio_iommu_type1_info_dma_avail :: ctype where
  "struct_vfio_iommu_type1_info_dma_avail = c_struct [
     (''header'', struct_vfio_info_cap_header),
     (''avail'', u32_t)]"

definition struct_vfio_iommu_type1_dma_map :: ctype where
  "struct_vfio_iommu_type1_dma_map = c_struct [
     (''argsz'', u32_t),
     (''flags'', u32_t),
     (''vaddr'', u64_t),
     (''iova'', u64_t),
     (''size'', u64_t)]"

definition struct_vfio_bitmap :: "nat \<Rightarrow> ctype" where
  "struct_vfio_bitmap w = c_struct [
     (''pgsize'', u64_t),
     (''size'', u64_t),
     (''data'', ptr_t w)]"

definition struct_vfio_iommu_type1_dma_unmap :: ctype where
  "struct_vfio_iommu_type1_dma_unmap = c_struct [
     (''argsz'', u32_t),
     (''flags'', u32_t),
     (''iova'', u64_t),
     (''size'', u64_t),
     (''data'', Arr u8_t 0)]"

definition struct_vfio_iommu_type1_dirty_bitmap :: ctype where
  "struct_vfio_iommu_type1_dirty_bitmap = c_struct [
     (''argsz'', u32_t),
     (''flags'', u32_t),
     (''data'', Arr u8_t 0)]"

definition struct_vfio_iommu_type1_dirty_bitmap_get :: "nat \<Rightarrow> ctype" where
  "struct_vfio_iommu_type1_dirty_bitmap_get w = c_struct [
     (''iova'', u64_t),
     (''size'', u64_t),
     (''bitmap'', struct_vfio_bitmap w)]"

definition struct_vfio_iommu_spapr_tce_ddw_info :: ctype where
  "struct_vfio_iommu_spapr_tce_ddw_info = c_struct [
     (''pgsizes'', u64_t),
     (''max_dynamic_windows_supported'', u32_t),
     (''levels'', u32_t)]"

definition struct_vfio_iommu_spapr_tce_info :: ctype where
  "struct_vfio_iommu_spapr_tce_info = c_struct [
     (''argsz'', u32_t),
     (''flags'', u32_t),
     (''dma32_window_start'', u32_t),
     (''dma32_window_size'', u32_t),
     (''ddw'', struct_vfio_iommu_spapr_tce_ddw_info)]"

definition struct_vfio_eeh_pe_err :: ctype where
  "struct_vfio_eeh_pe_err = c_struct [
     (''type'', u32_t),
     (''func'', u32_t),
     (''addr'', u64_t),
     (''mask'', u64_t)]"

definition struct_vfio_eeh_pe_op :: ctype where
  "struct_vfio_eeh_pe_op = c_struct [
     (''argsz'', u32_t),
     (''flags'', u32_t),
     (''op'', u32_t),
     ('''', c_union [ (''err'', struct_vfio_eeh_pe_err)])]"

definition struct_vfio_iommu_spapr_register_memory :: ctype where
  "struct_vfio_iommu_spapr_register_memory = c_struct [
     (''argsz'', u32_t),
     (''flags'', u32_t),
     (''vaddr'', u64_t),
     (''size'', u64_t)]"

definition struct_vfio_iommu_spapr_tce_create :: ctype where
  "struct_vfio_iommu_spapr_tce_create = c_struct [
     (''argsz'', u32_t),
     (''flags'', u32_t),
     (''page_shift'', u32_t),
     (''__resv1'', u32_t),
     (''window_size'', u64_t),
     (''levels'', u32_t),
     (''__resv2'', u32_t),
     (''start_addr'', u64_t)]"

definition struct_vfio_iommu_spapr_tce_remove :: ctype where
  "struct_vfio_iommu_spapr_tce_remove = c_struct [
     (''argsz'', u32_t),
     (''flags'', u32_t),
     (''start_addr'', u64_t)]"

definition sys_vfio_structs :: "ctype list" where
  "sys_vfio_structs = [struct_vfio_info_cap_header, struct_vfio_group_status, struct_vfio_device_info, struct_vfio_region_info,
     struct_vfio_region_sparse_mmap_area, struct_vfio_region_info_cap_sparse_mmap,
     struct_vfio_region_info_cap_type, struct_vfio_region_gfx_edid, struct_vfio_device_migration_info,
     struct_vfio_region_info_cap_nvlink2_ssatgt, struct_vfio_region_info_cap_nvlink2_lnkspd, struct_vfio_irq_info,
     struct_vfio_irq_set, struct_vfio_pci_dependent_device, struct_vfio_pci_hot_reset_info,
     struct_vfio_pci_hot_reset, struct_vfio_device_feature, struct_vfio_iova_range,
     struct_vfio_iommu_type1_info_cap_iova_range, struct_vfio_iommu_type1_info_dma_avail,
     struct_vfio_iommu_type1_dma_map, struct_vfio_iommu_type1_dma_unmap, struct_vfio_iommu_type1_dirty_bitmap,
     struct_vfio_iommu_spapr_tce_ddw_info, struct_vfio_iommu_spapr_tce_info, struct_vfio_eeh_pe_err,
     struct_vfio_iommu_spapr_register_memory, struct_vfio_iommu_spapr_tce_create,
     struct_vfio_iommu_spapr_tce_remove]"

section \<open>\<^verbatim>\<open>include/linux/fiemap.h\<close>\<close>

definition struct_fiemap_extent :: ctype where
  "struct_fiemap_extent = c_struct [
     (''fe_logical'', u64_t),
     (''fe_physical'', u64_t),
     (''fe_length'', u64_t),
     (''fe_reserved64'', Arr u64_t 2),
     (''fe_flags'', u32_t),
     (''fe_reserved'', Arr u32_t 3)]"

definition struct_fiemap :: ctype where
  "struct_fiemap = c_struct [
     (''fm_start'', u64_t),
     (''fm_length'', u64_t),
     (''fm_flags'', u32_t),
     (''fm_mapped_extents'', u32_t),
     (''fm_extent_count'', u32_t),
     (''fm_reserved'', u32_t),
     (''fm_extents'', Arr struct_fiemap_extent 0)]"

definition sys_fiemap_structs :: "ctype list" where
  "sys_fiemap_structs = [struct_fiemap_extent, struct_fiemap]"

section \<open>\<^verbatim>\<open>include/linux/fscrypt.h\<close>\<close>

definition struct_fscrypt_policy_v1 :: ctype where
  "struct_fscrypt_policy_v1 = c_struct [
     (''version'', u8_t),
     (''contents_encryption_mode'', u8_t),
     (''filenames_encryption_mode'', u8_t),
     (''flags'', u8_t),
     (''master_key_descriptor'', Arr u8_t 8)]"

definition struct_fscrypt_key :: ctype where
  "struct_fscrypt_key = c_struct [
     (''mode'', u32_t),
     (''raw'', Arr u8_t 64),
     (''size'', u32_t)]"

definition struct_fscrypt_policy_v2 :: ctype where
  "struct_fscrypt_policy_v2 = c_struct [
     (''version'', u8_t),
     (''contents_encryption_mode'', u8_t),
     (''filenames_encryption_mode'', u8_t),
     (''flags'', u8_t),
     (''__reserved'', Arr u8_t 4),
     (''master_key_identifier'', Arr u8_t 16)]"

definition struct_fscrypt_get_policy_ex_arg :: ctype where
  "struct_fscrypt_get_policy_ex_arg = c_struct [
     (''policy_size'', u64_t),
     (''policy'', c_union [ (''version'', u8_t), (''v1'', struct_fscrypt_policy_v1), (''v2'', struct_fscrypt_policy_v2)])]"

definition struct_fscrypt_key_specifier :: ctype where
  "struct_fscrypt_key_specifier = c_struct [
     (''type'', u32_t),
     (''__reserved'', u32_t),
     (''u'', c_union [ (''__reserved'', Arr u8_t 32), (''descriptor'', Arr u8_t 8), (''identifier'', Arr u8_t 16)])]"

definition struct_fscrypt_provisioning_key_payload :: ctype where
  "struct_fscrypt_provisioning_key_payload = c_struct [
     (''type'', u32_t),
     (''__reserved'', u32_t),
     (''raw'', Arr u8_t 0)]"

definition struct_fscrypt_add_key_arg :: ctype where
  "struct_fscrypt_add_key_arg = c_struct [
     (''key_spec'', struct_fscrypt_key_specifier),
     (''raw_size'', u32_t),
     (''key_id'', u32_t),
     (''__reserved'', Arr u32_t 8),
     (''raw'', Arr u8_t 0)]"

definition struct_fscrypt_remove_key_arg :: ctype where
  "struct_fscrypt_remove_key_arg = c_struct [
     (''key_spec'', struct_fscrypt_key_specifier),
     (''removal_status_flags'', u32_t),
     (''__reserved'', Arr u32_t 5)]"

definition struct_fscrypt_get_key_status_arg :: ctype where
  "struct_fscrypt_get_key_status_arg = c_struct [
     (''key_spec'', struct_fscrypt_key_specifier),
     (''__reserved'', Arr u32_t 6),
     (''status'', u32_t),
     (''status_flags'', u32_t),
     (''user_count'', u32_t),
     (''__out_reserved'', Arr u32_t 13)]"

definition sys_fscrypt_structs :: "ctype list" where
  "sys_fscrypt_structs = [struct_fscrypt_policy_v1, struct_fscrypt_key, struct_fscrypt_policy_v2, struct_fscrypt_get_policy_ex_arg,
     struct_fscrypt_key_specifier, struct_fscrypt_provisioning_key_payload, struct_fscrypt_add_key_arg,
     struct_fscrypt_remove_key_arg, struct_fscrypt_get_key_status_arg]"

section \<open>\<^verbatim>\<open>include/linux/fsverity.h\<close>\<close>

definition struct_fsverity_enable_arg :: ctype where
  "struct_fsverity_enable_arg = c_struct [
     (''version'', u32_t),
     (''hash_algorithm'', u32_t),
     (''block_size'', u32_t),
     (''salt_size'', u32_t),
     (''salt_ptr'', u64_t),
     (''sig_size'', u32_t),
     (''__reserved1'', u32_t),
     (''sig_ptr'', u64_t),
     (''__reserved2'', Arr u64_t 11)]"

definition struct_fsverity_digest :: ctype where
  "struct_fsverity_digest = c_struct [
     (''digest_algorithm'', u16_t),
     (''digest_size'', u16_t),
     (''digest'', Arr u8_t 0)]"

definition struct_fsverity_descriptor :: ctype where
  "struct_fsverity_descriptor = c_struct [
     (''version'', u8_t),
     (''hash_algorithm'', u8_t),
     (''log_blocksize'', u8_t),
     (''salt_size'', u8_t),
     (''__reserved_0x04'', u32_t),
     (''data_size'', u64_t),
     (''root_hash'', Arr u8_t 64),
     (''salt'', Arr u8_t 32),
     (''__reserved'', Arr u8_t 144)]"

definition struct_fsverity_formatted_digest :: ctype where
  "struct_fsverity_formatted_digest = c_struct [
     (''magic'', Arr u8_t 8),
     (''digest_algorithm'', u16_t),
     (''digest_size'', u16_t),
     (''digest'', Arr u8_t 0)]"

definition struct_fsverity_read_metadata_arg :: ctype where
  "struct_fsverity_read_metadata_arg = c_struct [
     (''metadata_type'', u64_t),
     (''offset'', u64_t),
     (''length'', u64_t),
     (''buf_ptr'', u64_t),
     (''__reserved'', u64_t)]"

definition sys_fsverity_structs :: "ctype list" where
  "sys_fsverity_structs = [struct_fsverity_enable_arg, struct_fsverity_digest, struct_fsverity_descriptor,
     struct_fsverity_formatted_digest, struct_fsverity_read_metadata_arg]"

section \<open>\<^verbatim>\<open>include/linux/blkzoned.h\<close>\<close>

definition struct_blk_zone :: ctype where
  "struct_blk_zone = c_struct [
     (''start'', u64_t),
     (''len'', u64_t),
     (''wp'', u64_t),
     (''type'', u8_t),
     (''cond'', u8_t),
     (''non_seq'', u8_t),
     (''reset'', u8_t),
     (''resv'', Arr u8_t 4),
     (''capacity'', u64_t),
     (''reserved'', Arr u8_t 24)]"

definition struct_blk_zone_report :: ctype where
  "struct_blk_zone_report = c_struct [
     (''sector'', u64_t),
     (''nr_zones'', u32_t),
     (''flags'', u32_t),
     (''zones'', Arr struct_blk_zone 0)]"

definition struct_blk_zone_range :: ctype where
  "struct_blk_zone_range = c_struct [
     (''sector'', u64_t),
     (''nr_sectors'', u64_t)]"

definition sys_blkzoned_structs :: "ctype list" where
  "sys_blkzoned_structs = [struct_blk_zone, struct_blk_zone_report, struct_blk_zone_range]"

section \<open>\<^verbatim>\<open>include/linux/nvme_ioctl.h\<close>\<close>

definition struct_nvme_user_io :: ctype where
  "struct_nvme_user_io = c_struct [
     (''opcode'', u8_t),
     (''flags'', u8_t),
     (''control'', u16_t),
     (''nblocks'', u16_t),
     (''rsvd'', u16_t),
     (''metadata'', u64_t),
     (''addr'', u64_t),
     (''slba'', u64_t),
     (''dsmgmt'', u32_t),
     (''reftag'', u32_t),
     (''apptag'', u16_t),
     (''appmask'', u16_t)]"

definition struct_nvme_passthru_cmd :: ctype where
  "struct_nvme_passthru_cmd = c_struct [
     (''opcode'', u8_t),
     (''flags'', u8_t),
     (''rsvd1'', u16_t),
     (''nsid'', u32_t),
     (''cdw2'', u32_t),
     (''cdw3'', u32_t),
     (''metadata'', u64_t),
     (''addr'', u64_t),
     (''metadata_len'', u32_t),
     (''data_len'', u32_t),
     (''cdw10'', u32_t),
     (''cdw11'', u32_t),
     (''cdw12'', u32_t),
     (''cdw13'', u32_t),
     (''cdw14'', u32_t),
     (''cdw15'', u32_t),
     (''timeout_ms'', u32_t),
     (''result'', u32_t)]"

definition struct_nvme_passthru_cmd64 :: ctype where
  "struct_nvme_passthru_cmd64 = c_struct [
     (''opcode'', u8_t),
     (''flags'', u8_t),
     (''rsvd1'', u16_t),
     (''nsid'', u32_t),
     (''cdw2'', u32_t),
     (''cdw3'', u32_t),
     (''metadata'', u64_t),
     (''addr'', u64_t),
     (''metadata_len'', u32_t),
     (''data_len'', u32_t),
     (''cdw10'', u32_t),
     (''cdw11'', u32_t),
     (''cdw12'', u32_t),
     (''cdw13'', u32_t),
     (''cdw14'', u32_t),
     (''cdw15'', u32_t),
     (''timeout_ms'', u32_t),
     (''rsvd2'', u32_t),
     (''result'', u64_t)]"

definition sys_nvme_ioctl_structs :: "ctype list" where
  "sys_nvme_ioctl_structs = [struct_nvme_passthru_cmd, struct_nvme_passthru_cmd64]"

section \<open>\<^verbatim>\<open>include/linux/sed-opal.h\<close>\<close>

definition struct_opal_key :: ctype where
  "struct_opal_key = c_struct [
     (''lr'', u8_t),
     (''key_len'', u8_t),
     (''__align'', Arr u8_t 6),
     (''key'', Arr u8_t 256)]"

definition struct_opal_lr_act :: ctype where
  "struct_opal_lr_act = c_struct [
     (''key'', struct_opal_key),
     (''sum'', u32_t),
     (''num_lrs'', u8_t),
     (''lr'', Arr u8_t 9),
     (''align'', Arr u8_t 2)]"

definition struct_opal_session_info :: ctype where
  "struct_opal_session_info = c_struct [
     (''sum'', u32_t),
     (''who'', u32_t),
     (''opal_key'', struct_opal_key)]"

definition struct_opal_user_lr_setup :: ctype where
  "struct_opal_user_lr_setup = c_struct [
     (''range_start'', u64_t),
     (''range_length'', u64_t),
     (''RLE'', u32_t),
     (''WLE'', u32_t),
     (''session'', struct_opal_session_info)]"

definition struct_opal_lock_unlock :: ctype where
  "struct_opal_lock_unlock = c_struct [
     (''session'', struct_opal_session_info),
     (''l_state'', u32_t),
     (''__align'', Arr u8_t 4)]"

definition struct_opal_new_pw :: ctype where
  "struct_opal_new_pw = c_struct [
     (''session'', struct_opal_session_info),
     (''new_user_pw'', struct_opal_session_info)]"

definition struct_opal_mbr_data :: ctype where
  "struct_opal_mbr_data = c_struct [
     (''key'', struct_opal_key),
     (''enable_disable'', u8_t),
     (''__align'', Arr u8_t 7)]"

definition struct_opal_mbr_done :: ctype where
  "struct_opal_mbr_done = c_struct [
     (''key'', struct_opal_key),
     (''done_flag'', u8_t),
     (''__align'', Arr u8_t 7)]"

definition struct_opal_shadow_mbr :: ctype where
  "struct_opal_shadow_mbr = c_struct [
     (''key'', struct_opal_key),
     (''data'', u64_t),
     (''offset'', u64_t),
     (''size'', u64_t)]"

definition struct_opal_read_write_table :: ctype where
  "struct_opal_read_write_table = c_struct [
     (''key'', struct_opal_key),
     (''data'', u64_t),
     (''table_uid'', Arr u8_t 8),
     (''offset'', u64_t),
     (''size'', u64_t),
     (''flags'', u64_t),
     (''priv'', u64_t)]"

definition sys_sed_opal_structs :: "ctype list" where
  "sys_sed_opal_structs = [struct_opal_key, struct_opal_lr_act, struct_opal_session_info, struct_opal_user_lr_setup,
     struct_opal_lock_unlock, struct_opal_new_pw, struct_opal_mbr_data, struct_opal_mbr_done,
     struct_opal_shadow_mbr, struct_opal_read_write_table]"

section \<open>Tables\<close>

text \<open>The structures without padding, those with padding that i386 lays out alike, and those it lays out differently.\<close>

definition sys_structs :: "ctype list" where
  "sys_structs = sys_bpf_structs @ sys_btf_structs @ sys_io_uring_structs @ sys_perf_event_structs @ sys_userfaultfd_structs @
     sys_signalfd_structs @ sys_stat_structs @ sys_inotify_structs @ sys_seccomp_structs @ sys_ptrace_structs @
     sys_landlock_structs @ sys_sched_types_structs @ sys_mount_structs @ sys_openat2_structs @ sys_if_xdp_structs @
     sys_if_packet_structs @ sys_tcp_structs @ sys_sctp_structs @ sys_rds_structs @ sys_can_structs @ sys_vfio_structs @
     sys_fiemap_structs @ sys_fscrypt_structs @ sys_fsverity_structs @ sys_blkzoned_structs @ sys_nvme_ioctl_structs @
     sys_sed_opal_structs"

definition sys_padded :: "ctype list" where
  "sys_padded = [union_bpf_attr, struct_bpf_map_info, struct_bpf_link_info, struct_uffd_msg, struct_sctp_sndrcvinfo,
     struct_sctp_rcvinfo, struct_sctp_prinfo, struct_sctp_remote_error, struct_sctp_send_failed,
     struct_sctp_authkeyid, struct_sctp_default_prinfo, struct_sctp_event, struct_rds_info_rdma_connection,
     struct_rds6_info_rdma_connection, struct_can_frame, struct_canfd_frame, struct_sockaddr_can]"

definition sys_changed :: "ctype list" where
  "sys_changed = [struct_bpf_cgroup_storage_key, struct_ptrace_syscall_info, struct_xdp_umem_reg, struct_rds_cmsg_rx_trace,
     struct_rds_rdma_notify, struct_vfio_device_gfx_plane_info, struct_vfio_device_ioeventfd,
     struct_vfio_iommu_type1_info, struct_vfio_iommu_type1_info_cap_migration, struct_vfio_eeh_pe_op,
     struct_nvme_user_io]"

text \<open>Structures with a pointer or a \<^verbatim>\<open>long\<close>, of the same size and of different sizes in 32-bit and 64-bit programs.\<close>

definition sys_pointers :: "(nat \<Rightarrow> ctype) list" where
  "sys_pointers = [struct__sk_buff, struct_sk_msg_md, struct_sk_reuseport_md, struct_bpf_sock_addr, struct_bpf_sock_ops,
     struct_bpf_sockopt, struct_bpf_sk_lookup, struct_tcp_md5sig, struct_sctp_paddr_change,
     union_sctp_notification, struct_sctp_setpeerprim, struct_sctp_prim, struct_sctp_paddrparams,
     struct_sctp_paddrinfo, struct_sctp_status, struct_sctp_info, struct_rds_get_mr_for_dest_args]"

definition sys_pointers_changed :: "(nat \<Rightarrow> ctype) list" where
  "sys_pointers_changed = [struct_btf_ptr, struct_tpacket_hdr, struct_sctp_getaddrs_old, struct_sctp_assoc_stats, struct_sctp_paddrthlds,
     struct_sctp_paddrthlds_v2, struct_sctp_udpencaps, struct_sctp_probeinterval, struct_vfio_bitmap,
     struct_vfio_iommu_type1_dirty_bitmap_get]"

section \<open>Properties\<close>

lemma sys_bpf_structs_tight: "list_all tight sys_bpf_structs"
  by code_simp

lemma sys_btf_structs_tight: "list_all tight sys_btf_structs"
  by code_simp

lemma sys_io_uring_structs_tight: "list_all tight sys_io_uring_structs"
  by code_simp

lemma sys_perf_event_structs_tight: "list_all tight sys_perf_event_structs"
  by code_simp

lemma sys_userfaultfd_structs_tight: "list_all tight sys_userfaultfd_structs"
  by code_simp

lemma sys_signalfd_structs_tight: "list_all tight sys_signalfd_structs"
  by code_simp

lemma sys_stat_structs_tight: "list_all tight sys_stat_structs"
  by code_simp

lemma sys_inotify_structs_tight: "list_all tight sys_inotify_structs"
  by code_simp

lemma sys_seccomp_structs_tight: "list_all tight sys_seccomp_structs"
  by code_simp

lemma sys_ptrace_structs_tight: "list_all tight sys_ptrace_structs"
  by code_simp

lemma sys_landlock_structs_tight: "list_all tight sys_landlock_structs"
  by code_simp

lemma sys_sched_types_structs_tight: "list_all tight sys_sched_types_structs"
  by code_simp

lemma sys_mount_structs_tight: "list_all tight sys_mount_structs"
  by code_simp

lemma sys_openat2_structs_tight: "list_all tight sys_openat2_structs"
  by code_simp

lemma sys_if_xdp_structs_tight: "list_all tight sys_if_xdp_structs"
  by code_simp

lemma sys_if_packet_structs_tight: "list_all tight sys_if_packet_structs"
  by code_simp

lemma sys_tcp_structs_tight: "list_all tight sys_tcp_structs"
  by code_simp

lemma sys_sctp_structs_tight: "list_all tight sys_sctp_structs"
  by code_simp

lemma sys_rds_structs_tight: "list_all tight sys_rds_structs"
  by code_simp

lemma sys_can_structs_tight: "list_all tight sys_can_structs"
  by code_simp

lemma sys_vfio_structs_tight: "list_all tight sys_vfio_structs"
  by code_simp

lemma sys_fiemap_structs_tight: "list_all tight sys_fiemap_structs"
  by code_simp

lemma sys_fscrypt_structs_tight: "list_all tight sys_fscrypt_structs"
  by code_simp

lemma sys_fsverity_structs_tight: "list_all tight sys_fsverity_structs"
  by code_simp

lemma sys_blkzoned_structs_tight: "list_all tight sys_blkzoned_structs"
  by code_simp

lemma sys_nvme_ioctl_structs_tight: "list_all tight sys_nvme_ioctl_structs"
  by code_simp

lemma sys_sed_opal_structs_tight: "list_all tight sys_sed_opal_structs"
  by code_simp

lemmas sys_sections_tight =
  sys_bpf_structs_tight sys_btf_structs_tight sys_io_uring_structs_tight sys_perf_event_structs_tight
  sys_userfaultfd_structs_tight sys_signalfd_structs_tight sys_stat_structs_tight sys_inotify_structs_tight
  sys_seccomp_structs_tight sys_ptrace_structs_tight sys_landlock_structs_tight
  sys_sched_types_structs_tight sys_mount_structs_tight sys_openat2_structs_tight sys_if_xdp_structs_tight
  sys_if_packet_structs_tight sys_tcp_structs_tight sys_sctp_structs_tight sys_rds_structs_tight
  sys_can_structs_tight sys_vfio_structs_tight sys_fiemap_structs_tight sys_fscrypt_structs_tight
  sys_fsverity_structs_tight sys_blkzoned_structs_tight sys_nvme_ioctl_structs_tight
  sys_sed_opal_structs_tight

lemmas sys_sections =
  sys_bpf_structs_def sys_btf_structs_def sys_io_uring_structs_def sys_perf_event_structs_def
  sys_userfaultfd_structs_def sys_signalfd_structs_def sys_stat_structs_def sys_inotify_structs_def
  sys_seccomp_structs_def sys_ptrace_structs_def sys_landlock_structs_def sys_sched_types_structs_def
  sys_mount_structs_def sys_openat2_structs_def sys_if_xdp_structs_def sys_if_packet_structs_def
  sys_tcp_structs_def sys_sctp_structs_def sys_rds_structs_def sys_can_structs_def sys_vfio_structs_def
  sys_fiemap_structs_def sys_fscrypt_structs_def sys_fsverity_structs_def sys_blkzoned_structs_def
  sys_nvme_ioctl_structs_def sys_sed_opal_structs_def

lemma sys_all_tight: "list_all tight sys_structs"
  by (simp add: sys_structs_def sys_sections_tight)

lemma sys_padded_agree: "list_all (\<lambda>t. agree 4 t \<and> sizeof 4 t = sizeof 8 t) sys_padded"
  by code_simp

lemma sys_changed_differ: "list_all (\<lambda>t. sizeof 4 t \<noteq> sizeof 8 t) sys_changed"
  by code_simp

lemma sys_pointers_size:
  "list_all (\<lambda>t. sizeof 4 (t 4) = sizeof 8 (t 8)) sys_pointers"
  "list_all (\<lambda>t. sizeof 4 (t 4) \<noteq> sizeof 8 (t 8)) sys_pointers_changed"
  by code_simp+

text \<open>
  The structures of system calls and socket options without padding have one layout for 32-bit and 64-bit programs,
  in which each byte belongs to a member, and those with padding that i386 lays out alike as well; the structures of
  \<open>sys_changed\<close> do not.
\<close>

theorem sys_compat:
  "(t \<in> set sys_structs \<union> set sys_padded \<longrightarrow> leaves 4 0 t = leaves 8 0 t \<and> sizeof 4 t = sizeof 8 t) \<and>
   (t \<in> set sys_structs \<longrightarrow> covered (leaves 8 0 t) 0 (sizeof 8 t)) \<and>
   (t \<in> set sys_changed \<longrightarrow> sizeof 4 t \<noteq> sizeof 8 t)"
  using tight_types [OF sys_all_tight, of t] sys_padded_agree sys_changed_differ
  by (auto simp add: list_all_iff same_everywhere_def intro: agree_leaves)

theorem sys_compat_witness:
  "leaves 4 0 struct_io_uring_sqe = leaves 8 0 struct_io_uring_sqe \<and>
   sizeof 4 struct_ptrace_syscall_info \<noteq> sizeof 8 struct_ptrace_syscall_info"
  using sys_compat [of struct_io_uring_sqe] sys_compat [of struct_ptrace_syscall_info]
  by (simp add: sys_structs_def sys_sections sys_changed_def)

end
