(* ===== verification/Spec2Isabelle.thy ===== *)
theory Spec2Isabelle
    imports Cec_Protocol Cec_Safety Cec_Log_Addrs Cec_Ioctl Byteorder Virtio_Ring
    Rtnetlink Tipc Xtables Ebtables Xt_Sctp Nfnetlink Sequencer Sve_Context Drm_Fourcc
    Fuse Abi_Btrfs Abi_V4l2_Ioctl Abi_I915 Abi_Amdgpu Abi_Kvm Bcache Ia64_Rse Phonet Usb_Endpoint Usb_Audio Alpha_Fpu Nilfs
    Fanotify Atags Code_Numbers Kvm_Arm64_Regs Wire_Virtio Wire_Uverbs Wire_Rdma Wire_Fc
    Fs_Helpers Wire_Bits Net_Helpers Host_Helpers Sound_Tlv Class_Codes
    Abi_Gpu Abi_Sound Wire_Netlink Wire_Syscall
begin

text \<open>
  Verification of the Linux userspace headers (\<^verbatim>\<open>linux-headers\<close>).

  \<^bold>\<open>The program.\<close> The repository holds the headers that programs include to talk to the kernel. Most of
  the 1770 files declare constants and structures; the code is in inline functions and in macros that
  compute: message encoders and decoders, byte-order conversions, request numbers, walks over buffers of
  length-prefixed records, ring layouts, bit-field accessors. The development models that code.

  \<^bold>\<open>Conventions.\<close> A fixed-width integer is a word of its width, and C's promotions and truncating
  assignments are written out (theory \<open>Uapi_Prelude\<close>). Arrays and memory are lists whose accesses are
  checked: an access outside is undefined behaviour in C and \<open>None\<close> here, so a theorem that an operation
  returns \<open>Some\<close> also says that it stays inside its arrays. Pointers are offsets into such a list. Where a
  result depends on the byte order of the host it is an argument (\<open>Little\<close>, \<open>Big\<close>). Macros that generate
  functions are definitions with the macro's arguments.

  \<^bold>\<open>Consumer electronics control\<close> (\<^verbatim>\<open>include/linux/cec.h\<close>, \<^verbatim>\<open>cec-funcs.h\<close>). \<open>Cec_Codes\<close> has the opcodes
  and operand values, \<open>Cec_Msg\<close> the message structure with its addressing and status, \<open>Cec_Log_Addrs\<close>
  the logical addresses. \<open>Cec_Codec\<close> states what the encoder and the decoder of a message and of a
  feature promise, as locales: the frame a command gives (length, broadcast, reply) and what is
  received for it. \<open>Cec_Service\<close>, \<open>Cec_Routing\<close>, \<open>Cec_Record\<close>, \<open>Cec_Timer\<close>, \<open>Cec_System\<close>, \<open>Cec_Tuner\<close>,
  \<open>Cec_Vendor\<close>, \<open>Cec_Osd\<close>, \<open>Cec_General\<close>, \<open>Cec_Audio\<close> and \<open>Cec_Cdc\<close> model the 75 messages of the
  features, one pair of functions \<^verbatim>\<open>cec_msg_x\<close>, \<^verbatim>\<open>cec_ops_x\<close> each, and interpret them; each has the
  commands of its feature with their frames (\<open>x_frame\<close>), the operands that fit (\<open>x_ok\<close>) and, where
  a decoder does not return the operands as they were, what it makes of them (\<open>x_received\<close>).
  \<open>Cec_Protocol\<close> joins the features by their opcodes, \<open>Cec_Safety\<close> shows that no decoder leaves its arrays
  whatever it receives, and that the bytes sent do not depend on the host. The properties of this
  file put them together: every command gives exactly its frame, and is received as it was sent but for
  three defects and the operands that a message does not carry. \<open>Cec_Ioctl\<close> has the structures of the
  device interface with their layout under each ABI and the eleven request numbers.

  \<^bold>\<open>Byte order.\<close> \<open>Uapi_Memory\<close> loads and stores words in byte arrays and has the contracts \<open>byte_reversal\<close>,
  \<open>byte_order\<close> and \<open>byte_order_mem\<close>. \<open>Swab\<close> models \<^verbatim>\<open>include/linux/swab.h\<close>, with the routines an architecture
  overrides as a configuration; \<open>Swab_Arch\<close> the routines of eleven architectures
  (\<^verbatim>\<open>arch/*/asm/swab.h\<close>), where instructions and compiler builtins are parameters assumed to reverse
  bytes. \<open>Byteorder_Little\<close> and \<open>Byteorder_Big\<close> model the two headers of \<^verbatim>\<open>include/linux/byteorder\<close> for
  every host that satisfies the contract, and \<open>Byteorder\<close> shows that hosts of different order understand
  each other.

  \<^bold>\<open>Request numbers\<close> (\<^verbatim>\<open>include/asm-generic/ioctl.h\<close> and the variants of mips, powerpc, parisc, alpha and
  sparc). \<open>C_Layout\<close> computes sizes and offsets of C structures from the alignment rules; \<open>Ioctl\<close> shows that
  the four parts of a request are recovered, also on sparc, where the size overlaps the direction.

  \<^bold>\<open>Buffers of records.\<close> \<open>C_Object\<close> relates the masking idiom to rounding up,
  and writes and reads a structure as bytes by its layout. \<open>Tlv_Chain\<close> is the loop over
  length-prefixed items with its contract; \<open>Netlink\<close> (\<^verbatim>\<open>netlink.h\<close>) and
  \<open>Rtnetlink\<close> (\<^verbatim>\<open>rtnetlink.h\<close>) interpret it: the loop ends and stays inside
  the buffer for arbitrary bytes, and reads back what was written. \<open>Nfnetlink\<close>
  (\<^verbatim>\<open>netfilter/nfnetlink_compat.h\<close>) shows that the attribute walk of the old netfilter
  interface computes the same items as the route attribute walk, and where its test differs. \<open>Tipc\<close>
  (\<^verbatim>\<open>tipc_config.h\<close>, \<^verbatim>\<open>tipc.h\<close>) has the big-endian items of
  TIPC, their list descriptors and the network addresses. \<open>Sized_Chain\<close> is the second contract, of
  records that carry the distance to the next one; \<open>Xtables\<close>
  (\<^verbatim>\<open>netfilter/x_tables.h\<close> and the ARP, IPv4 and IPv6 families) and
  \<open>Ebtables\<close> (\<^verbatim>\<open>netfilter_bridge/ebtables.h\<close>) interpret it for the rules of
  a table and the matches and watchers inside a rule, and \<open>Fuse\<close>
  (\<^verbatim>\<open>fuse.h\<close>) for directory streams. \<open>Sequencer\<close>
  (\<^verbatim>\<open>soundcard.h\<close>) has the buffered event writer of the sequencer macros as a state
  machine over a buffer and a device. \<open>Virtio_Ring\<close> (\<^verbatim>\<open>virtio_ring.h\<close>)
  shows that the parts of a ring lie one after the other inside its computed size, and that of the batches a
  ring is filled in exactly the one that passes the event index gives an event.
  \<open>Usb_Audio\<close> (\<^verbatim>\<open>usb/audio.h\<close>) reads the variable part of audio unit
  descriptors. \<open>Sve_Context\<close> (\<^verbatim>\<open>arch/arm64/asm/sve_context.h\<close>,
  \<^verbatim>\<open>sigcontext.h\<close>, \<^verbatim>\<open>ptrace.h\<close>) places the vector registers in a
  signal frame and in a register dump. \<open>Fanotify\<close> (\<^verbatim>\<open>fanotify.h\<close>) walks
  event buffers, \<open>Atags\<close> (\<^verbatim>\<open>arch/arm/asm/setup.h\<close>) the boot tags of arm,
  and \<open>Sound_Tlv\<close> (\<^verbatim>\<open>sound/tlv.h\<close>) builds and reads nested items of volume
  scales; each reads back the records that were written.

  \<^bold>\<open>Packed words.\<close> \<open>Packed_Codes\<close> states the contract of a getter and setter of
  a field, and of two fields that do not disturb each other. \<open>Bcache\<close>
  (\<^verbatim>\<open>bcache.h\<close>) interprets it for the fields of btree keys and of the superblock, and
  steps through sets of keys; \<open>Phonet\<close> (\<^verbatim>\<open>phonet.h\<close>) for socket addresses;
  \<open>Code_Numbers\<close> (\<^verbatim>\<open>target_core_user.h\<close>) for command entries.
  \<open>Bit_Map\<close> is the contract of a bit array, interpreted by \<open>Xt_Sctp\<close>
  (\<^verbatim>\<open>netfilter/xt_sctp.h\<close>) and \<open>Class_Codes\<close>
  (\<^verbatim>\<open>mroute6.h\<close>, \<^verbatim>\<open>mroute.h\<close>). \<open>Drm_Fourcc\<close>
  (\<^verbatim>\<open>drm/drm_fourcc.h\<close>) has the format codes and the modifiers with the fields of each
  vendor. \<open>Nilfs\<close> (\<^verbatim>\<open>nilfs2_ondisk.h\<close>,
  \<^verbatim>\<open>nilfs2_api.h\<close>) refines flag words to sets of flags, across hosts.
  \<open>Usb_Endpoint\<close> (\<^verbatim>\<open>usb/ch9.h\<close>) classifies endpoints.
  \<open>Alpha_Fpu\<close> (\<^verbatim>\<open>arch/alpha/asm/fpu.h\<close>) converts floating-point control
  words and \<open>Ia64_Rse\<close> (\<^verbatim>\<open>arch/ia64/asm/rse.h\<close>) counts registers on the
  backing store. It also has the contract of macros that pack numbers into one (the parts are recovered, and a
  packed number is made of its parts); \<open>Code_Numbers\<close> interprets it for device numbers, PCI slots,
  keys, priorities, versions and others. \<open>Kvm_Arm64_Regs\<close>
  (\<^verbatim>\<open>arch/arm64/asm/kvm.h\<close>) has the identifiers of guest registers, and
  \<open>Class_Codes\<close> the address classes of \<^verbatim>\<open>in.h\<close>, the instruction codes of
  \<^verbatim>\<open>bpf_common.h\<close> and \<^verbatim>\<open>filter.h\<close>, infrared samples
  (\<^verbatim>\<open>lirc.h\<close>), and small sets as words (\<^verbatim>\<open>mroute.h\<close>,
  \<^verbatim>\<open>mroute6.h\<close>, \<^verbatim>\<open>netfilter/xt_TCPOPTSTRIP.h\<close>,
  \<^verbatim>\<open>capability.h\<close>, \<^verbatim>\<open>audit.h\<close>), the segments of a display with
  the errors of the lookup (\<^verbatim>\<open>map_to_7segment.h\<close>) and the conversions of the processor
  state of sparc (\<^verbatim>\<open>arch/sparc/asm/psrcompat.h\<close>).

  \<^bold>\<open>Structures and request tables.\<close> \<open>C_Layout\<close> also defines when a structure is
  \<open>tight\<close> (every byte belongs to a field, so that the layout does not depend on an ABI) and when
  two structures \<open>agree\<close>. \<open>Abi_Request\<close> evaluates a table of requests under the ABIs
  of a 64-bit program, a 32-bit program and i386, and has the locales \<open>ioctl_interface\<close> (the
  requests of a driver are told apart and carry direction, type, number and size) and
  \<open>ioctl_compat\<close> (32-bit and 64-bit programs send the same numbers). \<open>Fuse\<close> has the
  structures of the file system protocol, \<open>Abi_Btrfs\<close> (\<^verbatim>\<open>btrfs.h\<close>),
  \<open>Abi_V4l2\<close> and \<open>Abi_V4l2_Ioctl\<close> (\<^verbatim>\<open>videodev2.h\<close>,
  \<^verbatim>\<open>v4l2-subdev.h\<close>, \<^verbatim>\<open>media.h\<close>), \<open>Abi_Drm\<close>,
  \<open>Abi_I915\<close> and \<open>Abi_Amdgpu\<close> (\<^verbatim>\<open>drm/drm.h\<close>,
  \<^verbatim>\<open>drm_mode.h\<close>, \<^verbatim>\<open>i915_drm.h\<close>,
  \<^verbatim>\<open>amdgpu_drm.h\<close>), \<open>Abi_Kvm\<close> (\<^verbatim>\<open>kvm.h\<close>,
  \<^verbatim>\<open>arch/x86/asm/kvm.h\<close>) the structures and requests of these devices, and each
  interprets the locales on its own table. Drivers of one subsystem have a table each; \<open>Abi_Gpu\<close>
  has those of fifteen graphics drivers and \<open>Abi_Sound\<close> those of the sound devices
  (\<^verbatim>\<open>sound/asound.h\<close>, \<^verbatim>\<open>asequencer.h\<close>), with the memory that a
  stream shares with the kernel. \<open>Wire_Virtio\<close> (\<^verbatim>\<open>virtio_*.h\<close>),
  \<open>Wire_Uverbs\<close> and \<open>Wire_Rdma\<close> (\<^verbatim>\<open>rdma/\<close>),
  \<open>Wire_Fc\<close> (\<^verbatim>\<open>scsi/fc/\<close>) and \<open>Disk_Structs\<close> (with
  \<^verbatim>\<open>iso_fs.h\<close>) have structures that leave the host, on a wire or on disk, and show which
  of them do not depend on the ABI (on disk, four have padding that only the alignment of the members gives). \<open>Wire_Netlink\<close> and \<open>Wire_Syscall\<close> have the
  structures of netlink messages, of system calls and of socket options, where nothing but the layout itself
  tells the kernel which program wrote them, and say which of them i386 programs and 64-bit kernels read alike.
  \<open>Bit_Struct\<close> models bit fields, which a compiler allocates by the byte order of the host, with
  the locale \<open>exchanged_struct\<close> of structures that two hosts read alike; \<open>Wire_Bits\<close>
  interprets it for the headers of \<^verbatim>\<open>ip.h\<close>, \<^verbatim>\<open>ipv6.h\<close>,
  \<^verbatim>\<open>tcp.h\<close>, \<^verbatim>\<open>dccp.h\<close> and others, which write their fields in
  two orders, and shows that the flag masks of TCP agree with its bit fields; twelve members of five headers are
  placed apart on the two hosts and are listed with the theorem.

  \<^bold>\<open>Helpers.\<close> \<open>Fs_Helpers\<close> has the functions of
  \<^verbatim>\<open>btrfs_tree.h\<close>, \<^verbatim>\<open>bfs_fs.h\<close>,
  \<^verbatim>\<open>raid/md_p.h\<close> and \<^verbatim>\<open>fsmap.h\<close>; \<open>Net_Helpers\<close>
  those of \<^verbatim>\<open>ethtool.h\<close>, \<^verbatim>\<open>mdio.h\<close>,
  \<^verbatim>\<open>dccp.h\<close>, \<^verbatim>\<open>atm.h\<close> and \<^verbatim>\<open>atmsap.h\<close>;
  \<open>Host_Helpers\<close> those of \<^verbatim>\<open>kcov.h\<close>,
  \<^verbatim>\<open>eventpoll.h\<close>, \<^verbatim>\<open>auto_fs.h\<close>,
  \<^verbatim>\<open>auto_dev-ioctl.h\<close>, \<^verbatim>\<open>mtd/mtd-abi.h\<close>,
  \<^verbatim>\<open>usb/raw_gadget.h\<close>, \<^verbatim>\<open>ndctl.h\<close> and of the time conversion of
  \<^verbatim>\<open>videodev2.h\<close>. With these every inline function written in C under
  \<^verbatim>\<open>include\<close> has a definition.

  \<^bold>\<open>Bounds and fuel.\<close> \<open>tlv_walk\<close> takes fuel; more than a quarter of the
  buffer's length always suffices, as every item has at least four bytes, and the theorems prove a result for
  such fuel. \<open>c_iterate\<close> and \<open>bset_walk\<close> need one unit for every record and one for
  the end. The ring theorems hold for up to 65536 entries and alignments up to \<open>2^30\<close>; the register
  theorems for fewer than \<open>2^58\<close> registers, so that byte distances stay in a signed word; TIPC
  lists are shorter than 64 kB, the range of their length fields. The sequencer's theorems need a buffer of at
  least eight bytes, the longest event. Vector lengths are at most 512 quadwords, the limit of the header.
  Request sizes are below \<open>2^13\<close>, the narrowest size field of an architecture. All other functions
  are total.

  \<^bold>\<open>Findings.\<close> Some theorems show code that does not do what it means to: shifts and
  sub-opcodes of CEC messages (\<open>channel_major_lost\<close>, \<open>hec_report_state_enc_lost\<close>,
  \<open>hec_set_state_sent_as_inquiry\<close>, \<open>report_features_unterminated_accepted\<close>,
  \<open>vendor_command_short_message\<close>), length tests of TIPC items, next hops and netfilter attributes
  (\<open>tlv_zero_length_stuck\<close>, \<open>tlv_step_wraps\<close>, \<open>rtnh_ok_reads_past_end\<close>,
  \<open>nfa_ok_reads_past_end\<close>), a null pointer of audio units
  (\<open>uac_unknown_protocol_null\<close>), the chunk map that never counts as full
  (\<open>sctp_all_types_not_all_set\<close>), a sequencer buffer that is too small
  (\<open>seq_small_buffer_overrun\<close>), two requests of KVM with the same number
  (\<open>kvm_shared_number\<close>), link services of Fibre Channel whose layout depends on the compiler
  (\<open>fc_wire_depends_on_abi\<close>), netlink messages that 32-bit programs lay out differently
  (\<open>nl_compat\<close>), the padding of the stream control of 32-bit programs
  (\<open>pcm_avail_min_misplaced\<close>), and the query cursor of \<^verbatim>\<open>fsmap.h\<close> that
  follows the number of records returned and not the capacity its comment names
  (\<open>fsmap_query_advances\<close>).

  \<^bold>\<open>Not modelled.\<close> Headers that only declare constants and numbers (such as
  \<^verbatim>\<open>nl80211.h\<close> and \<^verbatim>\<open>netfilter/nf_tables.h\<close>, and most of the
  architecture directories) have no behaviour of their own: their enumerations are names for numbers, and a
  definition for each would carry no theorem. The request tables of the devices that no
  \<^verbatim>\<open>Abi_\<close> theory names (\<^verbatim>\<open>dvb\<close>, disks, the oldest graphics
  drivers) are further instances of the same two locales. Functions that are one instruction of assembly
  (\<^verbatim>\<open>s390/asm/guarded_storage.h\<close>, \<^verbatim>\<open>runtime_instr.h\<close>) have no C
  to translate. The installation scripts copy files.
\<close>

section \<open>The CEC protocol\<close>

text \<open>
  C1: Every command of the protocol with operands that fit their fields is received as
  \<open>cec_received\<close> says: the sender calls the command's \<^verbatim>\<open>cec_msg_*\<close> function on any message
  structure, the receiver dispatches on the opcode byte and calls \<^verbatim>\<open>cec_ops_*\<close>. The two hosts may
  differ in byte order. A command is received as it was sent, except that the two upper bits of
  a ten-bit major channel number land on bits 6 and 7, the encoder's state of an HEC report is
  replaced by the host's, a request to set the HEC state is received as an inquiry, and
  operands that a message does not carry (the network number of an ATSC service, the error and the
  duration of a timer status, the delay of a latency report, the absent field of an HEC report)
  come back with the decoder's default.
\<close>

theorem cec_protocol_roundtrip:
  assumes "wf_msg m" "cec_ok c"
  shows "do {
      m' \<leftarrow> cec_encode e reply m c;
      opc \<leftarrow> get_byte m' 1;
      cec_decode e' opc m'
    } = Some (cec_received c)"
proof -
  have "cec_encode e reply m c = cec_encode e' reply m c"
    using encode_wire [OF assms(1), of reply c] by (cases e; cases e') simp_all
  then show ?thesis using cec.receive [OF assms, of e' reply] by simp
qed

theorem cec_protocol_roundtrip_witness:
  "do {
     m' \<leftarrow> cec_encode Little 1 zero_msg (Inl (Routing_Change (0x1000, 0x2100)));
     opc \<leftarrow> get_byte m' 1;
     cec_decode Big opc m'
   } = Some (Inl (Routing_Change (0x1000, 0x2100))) \<and>
   do {
     m' \<leftarrow> cec_encode Little 1 zero_msg (Inr (Inl (Record_On (Src_Digital (By_Channel 0 1 512 7)))));
     opc \<leftarrow> get_byte m' 1;
     cec_decode Big opc m'
   } = Some (Inr (Inl (Record_On (Src_Digital (By_Channel 0 1 128 7)))))"
  using cec_protocol_roundtrip [of zero_msg "Inl (Routing_Change (0x1000, 0x2100))" Little 1 Big]
    cec_protocol_roundtrip [of zero_msg "Inr (Inl (Record_On (Src_Digital (By_Channel 0 1 512 7))))"
      Little 1 Big]
  by (simp add: cec_ok_def last9_ok_def cec_received_def last9_received_def fits_def
      received_major_def)

text \<open>
  C2: Every command gives exactly its frame: encoding succeeds without leaving the sixteen bytes, the
  length is the one of the frame table (\<open>cec_frame\<close>) and lies between 2 and 16, the opcode is the
  command's, the initiator is kept, the destination is the broadcast address for the commands that
  the table lists as broadcasts and is kept for all others, the reply code is the table's or, where
  the encoder sets none, kept, and no other member of the structure changes.
\<close>

theorem cec_encode_framed:
  assumes "wf_msg m" "cec_ok c"
  shows "\<exists>m'. cec_encode e reply m c = Some m' \<and> wf_msg m' \<and>
    cm_len m' = fr_len (cec_frame reply c) \<and> 2 \<le> cm_len m' \<and> cm_len m' \<le> 16 \<and>
    cec_msg_opcode m' = Some (uint (cec_opcode c)) \<and> cec_msg_initiator m' = cec_msg_initiator m \<and>
    cec_msg_destination m' =
      (if fr_bcast (cec_frame reply c) then Some 0xf else cec_msg_destination m) \<and>
    m' = m\<lparr>cm_len := cm_len m', cm_msg := cm_msg m',
      cm_reply := case fr_reply (cec_frame reply c) of None \<Rightarrow> cm_reply m | Some r \<Rightarrow> r\<rparr>"
proof -
  obtain m' where m': "cec_encode e reply m c = Some m'"
    and fr: "cec_framed (cec_opcode c) (cec_frame reply c) m m'"
    using cec.emits [OF assms, of reply e] by (auto simp add: cec_emits_def)
  note len = cec_framed_len [OF fr]
  have "wf_msg m'" "2 \<le> cm_len m'" "cm_len m' \<le> 16"
    "m' = m\<lparr>cm_len := cm_len m', cm_msg := cm_msg m',
      cm_reply := case fr_reply (cec_frame reply c) of None \<Rightarrow> cm_reply m | Some r \<Rightarrow> r\<rparr>"
    using fr unfolding cec_framed_def len by simp_all
  with m' len cec_framed_opcode [OF fr] cec_framed_initiator [OF assms(1) fr]
    cec_framed_destination [OF assms(1) fr]
  show ?thesis by blast
qed

theorem cec_encode_framed_witness:
  "\<exists>m'. cec_encode Little 1 zero_msg (Inl (Routing_Change (0x1000, 0x2100))) = Some m' \<and>
    wf_msg m' \<and> cm_len m' = 6 \<and> cec_msg_destination m' = Some 0xf"
  using cec_encode_framed [of zero_msg "Inl (Routing_Change (0x1000, 0x2100))" Little 1]
  by (auto simp add: cec_ok_def cec_frame_def)

text \<open>
  C29: The bytes of a message do not depend on the byte order of the host that encodes it.
\<close>

theorem cec_wire_host_independent:
  assumes "wf_msg m"
  shows "cec_encode Little reply m c = cec_encode Big reply m c"
  using assms by (rule encode_wire)

theorem cec_wire_host_independent_witness:
  "cec_encode Little 0 zero_msg (Inr (Inl (Record_On (Src_Ext_Phys_Addr 0x1234)))) =
    cec_encode Big 0 zero_msg (Inr (Inl (Record_On (Src_Ext_Phys_Addr 0x1234))))"
  by (rule cec_wire_host_independent) simp

text \<open>
  C3: The decoders are memory safe on whatever the bus delivers: on a message of any length and
  content, and with the caller's buffers of the documented sizes, no decoder reads outside the
  message or writes outside a buffer.
\<close>

theorem cec_decoders_memory_safe:
  assumes "wf_msg m"
  shows "plain_decoders_safe m \<and> cec_ops_report_features m \<noteq> None \<and>
    (14 < length buf \<longrightarrow> cec_ops_set_timer_program_title m buf \<noteq> None \<and>
      cec_ops_set_osd_name m buf \<noteq> None \<and> cec_ops_set_osd_string m buf \<noteq> None \<and>
      cec_ops_set_menu_language m buf \<noteq> None) \<and>
    (wf_record_src src \<longrightarrow> cec_ops_record_on e m src \<noteq> None) \<and>
    (wf_digital d \<longrightarrow> cec_ops_clear_digital_timer e m d \<noteq> None \<and>
      cec_ops_set_digital_timer e m d \<noteq> None \<and> cec_ops_select_digital_service e m d \<noteq> None) \<and>
    (wf_tuner_info info \<longrightarrow> cec_ops_tuner_device_status e m info \<noteq> None) \<and>
    (wf_ui ui \<longrightarrow> cec_ops_user_control_pressed e m ui \<noteq> None) \<and>
    (4 \<le> length ds \<longrightarrow> cec_ops_report_short_audio_descriptor m ds \<noteq> None) \<and>
    (4 \<le> length ids \<and> 4 \<le> length codes \<longrightarrow>
      cec_ops_request_short_audio_descriptor m ids codes \<noteq> None)"
proof -
  have "cec_ops_report_features m \<noteq> None" using report_features_eq [OF assms] by simp
  with plain_decoders_safe [OF assms] text_decoders_safe [OF assms, of buf]
    struct_decoders_safe [OF assms] audio_decoders_safe [OF assms]
  show ?thesis by simp
qed

theorem cec_decoders_memory_safe_witness:
  "plain_decoders_safe (zero_msg\<lparr>cm_len := 1\<rparr>) \<and>
    cec_ops_set_osd_name (zero_msg\<lparr>cm_len := 1\<rparr>) (replicate 15 0) \<noteq> None \<and>
    cec_ops_user_control_pressed Little (zero_msg\<lparr>cm_len := 1\<rparr>) blank_ui \<noteq> None"
  using cec_decoders_memory_safe [of "zero_msg\<lparr>cm_len := 1\<rparr>" "replicate 15 0" blank_record_src
      Little "replicate 8 0" blank_tuner_info blank_ui "[]" "[]" "[]"]
  by (simp add: zero_msg_def wf_msg_def)

text \<open>
  The features divide the opcodes among themselves: no opcode belongs to two commands of different
  features or to two commands of one feature, and the receiver rejects every opcode that belongs
  to none.
\<close>

theorem cec_opcodes_partition:
  "distinct cec_opcodes \<and> length cec_opcodes = 75 \<and> cec_opcode c \<in> set cec_opcodes \<and>
    (\<forall>opc. opc \<notin> set cec_opcodes \<longrightarrow> cec_decode e opc m = None)"
  using cec_opcodes_distinct cec.opcode_in [of c] cec.decode_out by blast

theorem cec_opcodes_partition_witness:
  "distinct cec_opcodes \<and> cec_decode Little 0x01 zero_msg = None"
proof -
  have "0x01 \<notin> set cec_opcodes" by (simp add: opcode_lists cec_code)
  then show ?thesis using cec_opcodes_partition [of "Inl Standby" Little zero_msg] by blast
qed

end
